(* ===== verification/Prelude.thy ===== *)
theory Prelude
  imports Complex_Main "HOL-Library.Char_ord" "HOL-Library.List_Lexorder"
    "HOL-Library.Product_Lexorder" "HOL-Library.AList" "HOL-Library.Sublist"
begin

text \<open>
  What the component theories share: the Python values they read (strings, JSON documents,
  dictionaries in insertion order, directories), the result type of code that raises, and the
  generic lemmas on lists and dictionaries that their proofs rest on.

  A Python \<open>str\<close> is a \<^typ>\<open>string\<close>; comparing strings is lexicographic on the characters, as
  in Python. A \<open>dict\<close> whose iteration order the code uses is an association list in insertion
  order: \<open>dict_set\<close> keeps the position of a key that is already there, as Python does.
\<close>

section \<open>Collections of facts\<close>

named_theorems dict_simps \<open>lookup after an update of a dictionary or a directory\<close>
named_theorems frame_simps \<open>what an operation leaves unchanged\<close>

section \<open>Raising code\<close>

text \<open>\<open>Inl e\<close> is a raised exception, \<open>Inr x\<close> a normal return.\<close>

definition returns :: "'e + 'a \<Rightarrow> bool" where
  "returns r = (case r of Inl _ \<Rightarrow> False | Inr _ \<Rightarrow> True)"

lemma returns_simps [simp]: "returns (Inr x)" "\<not> returns (Inl e)"
  by (simp_all add: returns_def)

text \<open>Raising statements in sequence.\<close>

definition and_then :: "'e + 'a \<Rightarrow> ('a \<Rightarrow> 'e + 'b) \<Rightarrow> 'e + 'b" where
  "and_then r f = (case r of Inl e \<Rightarrow> Inl e | Inr x \<Rightarrow> f x)"

lemma and_then_simps [simp]: "and_then (Inr x) f = f x" "and_then (Inl e) f = Inl e"
  by (simp_all add: and_then_def)

lemma and_then_Inr: "and_then r f = Inr y \<longleftrightarrow> (\<exists>x. r = Inr x \<and> f x = Inr y)"
  by (cases r) simp_all

section \<open>Strings\<close>

definition newline :: char where "newline = CHR 0x0A"

definition is_lower_ascii :: "char \<Rightarrow> bool" where
  "is_lower_ascii c = (CHR ''a'' \<le> c \<and> c \<le> CHR ''z'')"

definition is_upper_ascii :: "char \<Rightarrow> bool" where
  "is_upper_ascii c = (CHR ''A'' \<le> c \<and> c \<le> CHR ''Z'')"

definition is_digit_ascii :: "char \<Rightarrow> bool" where
  "is_digit_ascii c = (CHR ''0'' \<le> c \<and> c \<le> CHR ''9'')"

text \<open>ASCII whitespace as \<open>str.strip\<close> and \<open>str.split\<close> see it.\<close>

definition is_space :: "char \<Rightarrow> bool" where
  "is_space c = (c \<in> {CHR '' '', CHR 0x09, CHR 0x0A, CHR 0x0B, CHR 0x0C, CHR 0x0D,
                       CHR 0x1C, CHR 0x1D, CHR 0x1E, CHR 0x1F, CHR 0x85, CHR 0xA0})"

text \<open>\<open>not s.strip()\<close>\<close>

definition blank :: "string \<Rightarrow> bool" where
  "blank s = list_all is_space s"

definition startswith :: "string \<Rightarrow> string \<Rightarrow> bool" where
  "startswith s p = prefix p s"

definition endswith :: "string \<Rightarrow> string \<Rightarrow> bool" where
  "endswith s p = suffix p s"

text \<open>\<open>p in s\<close> for strings.\<close>

definition contains_sub :: "string \<Rightarrow> string \<Rightarrow> bool" where
  "contains_sub s p = sublist p s"

text \<open>\<open>s.split(c)\<close> for a one-character separator.\<close>

fun split_on :: "char \<Rightarrow> string \<Rightarrow> string list" where
  "split_on c [] = [[]]"
| "split_on c (x # xs) =
     (if x = c then [] # split_on c xs
      else (case split_on c xs of [] \<Rightarrow> [[x]] | w # ws \<Rightarrow> (x # w) # ws))"

text \<open>\<open>sep.join(parts)\<close>\<close>

fun join_with :: "string \<Rightarrow> string list \<Rightarrow> string" where
  "join_with sep [] = []"
| "join_with sep [s] = s"
| "join_with sep (s # t # ts) = s @ sep @ join_with sep (t # ts)"

definition lower_char :: "char \<Rightarrow> char" where
  "lower_char c = (if is_upper_ascii c then char_of (of_char c + (32 :: nat)) else c)"

definition upper_char :: "char \<Rightarrow> char" where
  "upper_char c = (if is_lower_ascii c then char_of (of_char c - (32 :: nat)) else c)"

text \<open>\<open>str(n)\<close> of an integer.\<close>

fun nat_text :: "nat \<Rightarrow> string" where
  "nat_text n =
     (if n < 10 then [char_of (48 + n)] else nat_text (n div 10) @ [char_of (48 + n mod 10)])"

declare nat_text.simps [simp del]

definition int_text :: "int \<Rightarrow> string" where
  "int_text n = (if n < 0 then CHR ''-'' # nat_text (nat (- n)) else nat_text (nat n))"

lemma split_on_not_Nil [simp]: "split_on c s \<noteq> []"
  by (induction s) (auto split: list.splits)

lemma concat_split_on: "c \<notin> set s \<Longrightarrow> split_on c s = [s]"
  by (induction s) auto

lemma join_with_Nil_iff: "list_all (\<lambda>p. p \<noteq> []) ps \<Longrightarrow> join_with sep ps = [] \<longleftrightarrow> ps = []"
  by (induction sep ps rule: join_with.induct) auto

lemma contains_subD: "contains_sub s p \<Longrightarrow> set p \<subseteq> set s"
  by (auto simp: contains_sub_def dest: set_mono_sublist)

section \<open>JSON documents\<close>

text \<open>
  What \<open>json.loads\<close> returns. An object is an association list; reading a key is
  \<open>map_of\<close>. A number written with a fraction or an exponent is a rational here (no
  NaN or infinity).
\<close>

datatype json =
    JNull
  | JBool bool
  | JInt int
  | JFloat rat
  | JStr string
  | JList "json list"
  | JObj "(string \<times> json) list"

type_synonym json_object = "(string \<times> json) list"

fun is_jstr :: "json \<Rightarrow> bool" where
  "is_jstr (JStr _) = True"
| "is_jstr _ = False"

fun jstr_of :: "json \<Rightarrow> string" where
  "jstr_of (JStr s) = s"
| "jstr_of _ = []"

text \<open>\<open>bool(v)\<close> of a JSON value.\<close>

fun truthy :: "json \<Rightarrow> bool" where
  "truthy JNull = False"
| "truthy (JBool b) = b"
| "truthy (JInt n) = (n \<noteq> 0)"
| "truthy (JFloat q) = (q \<noteq> 0)"
| "truthy (JStr s) = (s \<noteq> [])"
| "truthy (JList xs) = (xs \<noteq> [])"
| "truthy (JObj kvs) = (kvs \<noteq> [])"

text \<open>\<open>sorted(xs)\<close> of a set given as a list without repetition, and lowercase hexadecimal.\<close>

definition hex_lower :: "char \<Rightarrow> bool" where
  "hex_lower c = (is_digit_ascii c \<or> (CHR ''a'' \<le> c \<and> c \<le> CHR ''f''))"

definition jkeys :: "json_object \<Rightarrow> string list" where
  "jkeys kvs = map fst kvs"

text \<open>\<open>data.get(key, dflt)\<close>\<close>

definition jget :: "json_object \<Rightarrow> string \<Rightarrow> json \<Rightarrow> json" where
  "jget kvs k dflt = (case map_of kvs k of None \<Rightarrow> dflt | Some v \<Rightarrow> v)"

lemma jget_Nil [simp]: "jget [] k v = v"
  by (simp add: jget_def)

lemma jget_Cons: "jget ((k, v) # kvs) k' dflt = (if k = k' then v else jget kvs k' dflt)"
  by (simp add: jget_def)

lemma jget_append: "jget (xs @ ys) k dflt = jget xs k (jget ys k dflt)"
  by (simp add: jget_def map_add_def split: option.splits)

section \<open>Dictionaries in insertion order\<close>

type_synonym ('k, 'v) dict = "('k \<times> 'v) list"

definition dict_get :: "('k, 'v) dict \<Rightarrow> 'k \<Rightarrow> 'v option" where
  "dict_get d k = map_of d k"

definition dict_set :: "('k, 'v) dict \<Rightarrow> 'k \<Rightarrow> 'v \<Rightarrow> ('k, 'v) dict" where
  "dict_set d k v = AList.update k v d"

definition dict_del :: "('k, 'v) dict \<Rightarrow> 'k \<Rightarrow> ('k, 'v) dict" where
  "dict_del d k = AList.delete k d"

definition dict_keys :: "('k, 'v) dict \<Rightarrow> 'k list" where
  "dict_keys d = map fst d"

definition dict_ok :: "('k, 'v) dict \<Rightarrow> bool" where
  "dict_ok d = distinct (map fst d)"

lemma dict_get_set [dict_simps]: "dict_get (dict_set d k v) k' = (if k' = k then Some v else dict_get d k')"
  by (simp add: dict_get_def dict_set_def update_conv')

lemma dict_get_del [dict_simps]: "dict_get (dict_del d k) k' = (if k' = k then None else dict_get d k')"
  by (simp add: dict_get_def dict_del_def delete_conv')

lemma dict_get_Nil [simp]: "dict_get [] k = None"
  by (simp add: dict_get_def)

lemma dict_get_Cons [dict_simps]: "dict_get ((k, v) # d) k' = (if k' = k then Some v else dict_get d k')"
  by (simp add: dict_get_def)

lemma dict_ok_Nil [simp]: "dict_ok []"
  by (simp add: dict_ok_def)

lemma dict_ok_set [simp]: "dict_ok d \<Longrightarrow> dict_ok (dict_set d k v)"
  by (simp add: dict_ok_def dict_set_def distinct_update)

lemma dict_ok_del [simp]: "dict_ok d \<Longrightarrow> dict_ok (dict_del d k)"
  by (simp add: dict_ok_def dict_del_def distinct_delete)

lemma dict_get_mem: "dict_ok d \<Longrightarrow> dict_get d k = Some v \<longleftrightarrow> (k, v) \<in> set d"
  by (simp add: dict_get_def dict_ok_def)

lemma dict_get_Some_mem: "dict_get d k = Some v \<Longrightarrow> (k, v) \<in> set d"
  by (simp add: dict_get_def map_of_SomeD)

lemma dict_get_None_iff: "dict_get d k = None \<longleftrightarrow> k \<notin> set (dict_keys d)"
  by (simp add: dict_get_def dict_keys_def map_of_eq_None_iff)

section \<open>Searching and sorting lists\<close>

text \<open>\<open>next((x for x in xs if p x), None)\<close> is \<open>find p xs\<close>.\<close>

lemma find_SomeD: "find p xs = Some x \<Longrightarrow> x \<in> set xs \<and> p x"
  by (induction xs) (auto split: if_splits)

lemma find_sorted_least:
  assumes "sorted (map f xs)" and "find p xs = Some x" and "y \<in> set xs" and "p y"
  shows "f x \<le> f y"
  using assms by (induction xs) (auto split: if_splits)

lemma find_sort_key_least:
  assumes "find p (sort_key f xs) = Some x" and "y \<in> set xs" and "p y"
  shows "f x \<le> f y"
  using find_sorted_least [of f "sort_key f xs" p x y] assms by simp

text \<open>\<open>tuple(dict.fromkeys(xs))\<close>: the first occurrence of each element, in order.\<close>

fun fromkeys_acc :: "'a list \<Rightarrow> 'a list \<Rightarrow> 'a list" where
  "fromkeys_acc seen [] = []"
| "fromkeys_acc seen (x # xs) =
     (if x \<in> set seen then fromkeys_acc seen xs else x # fromkeys_acc (x # seen) xs)"

definition fromkeys :: "'a list \<Rightarrow> 'a list" where
  "fromkeys xs = fromkeys_acc [] xs"

lemma set_fromkeys_acc: "set (fromkeys_acc seen xs) = set xs - set seen"
  by (induction seen xs rule: fromkeys_acc.induct) auto

lemma distinct_fromkeys_acc: "distinct (fromkeys_acc seen xs)"
  by (induction seen xs rule: fromkeys_acc.induct) (auto simp: set_fromkeys_acc)

lemma set_fromkeys [simp]: "set (fromkeys xs) = set xs"
  by (simp add: fromkeys_def set_fromkeys_acc)

lemma distinct_fromkeys [simp]: "distinct (fromkeys xs)"
  by (simp add: fromkeys_def distinct_fromkeys_acc)

end
