(* ===== verification/Queue_Items.thy ===== *)
theory Queue_Items
  imports Prelude
begin

text \<open>
  \<open>kstrl/queue/workqueue_items.py\<close>: the records of the work queue and their dict form: the item
  states and the legal transitions between them, the item ids, \<open>QueueItem\<close>, \<open>QueueConfig\<close>,
  \<open>PauseState\<close> and \<open>JournalEntry\<close>. Instants are integers (microseconds);
  \<open>datetime.fromisoformat\<close> is the argument \<open>fromiso\<close> of the definitions that read a
  time stamp (\<open>None\<close> where it raises \<open>ValueError\<close>; a naive stamp is read as UTC), so what
  is proved holds for every stamp format.
\<close>

section \<open>Path components\<close>

definition unsafe_names :: "string list" where
  "unsafe_names = ['''', ''.'', ''..'']"

text \<open>\<open>Path(name).name\<close> on POSIX: the last segment that is neither empty nor a dot.\<close>

definition path_name :: "string \<Rightarrow> string" where
  "path_name name =
     (case filter (\<lambda>seg. seg \<noteq> [] \<and> seg \<noteq> ''.'') (split_on (CHR ''/'') name) of
        [] \<Rightarrow> [] | segs \<Rightarrow> last segs)"

definition is_safe_component :: "string \<Rightarrow> bool" where
  "is_safe_component name =
     (if name \<in> set unsafe_names then False
      else if startswith name ''.'' then False
      else if CHR ''/'' \<in> set name \<or> CHR 0x5C \<in> set name \<or> CHR 0x00 \<in> set name then False
      else path_name name = name)"

lemma path_name_plain: "name \<noteq> [] \<Longrightarrow> name \<noteq> ''.'' \<Longrightarrow> CHR ''/'' \<notin> set name \<Longrightarrow> path_name name = name"
  by (simp add: path_name_def concat_split_on)

lemma is_safe_component_iff:
  "is_safe_component name \<longleftrightarrow>
     name \<noteq> [] \<and> \<not> startswith name ''.'' \<and>
     CHR ''/'' \<notin> set name \<and> CHR 0x5C \<notin> set name \<and> CHR 0x00 \<notin> set name"
  by (auto simp: is_safe_component_def unsafe_names_def path_name_plain startswith_def)

section \<open>Item states\<close>

datatype item_state =
    QUEUED | LEASED | RUNNING | DONE | FAILED | POISON | AWAITING_APPROVAL | AWAITING_ANSWER

definition all_states :: "item_state list" where
  "all_states = [QUEUED, LEASED, RUNNING, DONE, FAILED, POISON, AWAITING_APPROVAL, AWAITING_ANSWER]"

fun state_value :: "item_state \<Rightarrow> string" where
  "state_value QUEUED = ''queued''"
| "state_value LEASED = ''leased''"
| "state_value RUNNING = ''running''"
| "state_value DONE = ''done''"
| "state_value FAILED = ''failed''"
| "state_value POISON = ''poison''"
| "state_value AWAITING_APPROVAL = ''awaiting_approval''"
| "state_value AWAITING_ANSWER = ''awaiting_answer''"

text \<open>\<open>ItemState(raw)\<close>; \<open>None\<close> is the \<open>ValueError\<close>.\<close>

definition state_of_value :: "string \<Rightarrow> item_state option" where
  "state_of_value raw = find (\<lambda>s. state_value s = raw) all_states"

fun legal_transitions :: "item_state \<Rightarrow> item_state list" where
  "legal_transitions QUEUED = [LEASED, POISON]"
| "legal_transitions LEASED = [QUEUED, RUNNING, FAILED, POISON]"
| "legal_transitions RUNNING = [DONE, FAILED, POISON, AWAITING_APPROVAL, AWAITING_ANSWER]"
| "legal_transitions FAILED = [QUEUED, POISON]"
| "legal_transitions POISON = [QUEUED]"
| "legal_transitions DONE = []"
| "legal_transitions AWAITING_APPROVAL = [DONE, POISON]"
| "legal_transitions AWAITING_ANSWER = [QUEUED]"

lemma set_all_states [simp]: "set all_states = UNIV"
  by (auto simp: all_states_def intro: item_state.exhaust)

lemma distinct_all_states [simp]: "distinct all_states"
  by (simp add: all_states_def)

lemma state_of_value_state_value [simp]: "state_of_value (state_value s) = Some s"
  by (cases s) (simp_all add: state_of_value_def all_states_def)

lemma state_value_inj [simp]: "state_value s = state_value t \<longleftrightarrow> s = t"
  by (metis option.inject state_of_value_state_value)

datatype merge_disposition = STOP_AT_PR | AUTO_MERGE

fun disposition_value :: "merge_disposition \<Rightarrow> string" where
  "disposition_value STOP_AT_PR = ''stop_at_pr''"
| "disposition_value AUTO_MERGE = ''auto_merge''"

definition disposition_of_value :: "string \<Rightarrow> merge_disposition option" where
  "disposition_of_value raw = find (\<lambda>s. disposition_value s = raw) [STOP_AT_PR, AUTO_MERGE]"

datatype item_source = LOCAL | GITHUB | LINEAR

fun source_value :: "item_source \<Rightarrow> string" where
  "source_value LOCAL = ''local''"
| "source_value GITHUB = ''github''"
| "source_value LINEAR = ''linear''"

definition source_of_value :: "string \<Rightarrow> item_source option" where
  "source_of_value raw = find (\<lambda>s. source_value s = raw) [LOCAL, GITHUB, LINEAR]"

lemma disposition_of_value_inverse [simp]: "disposition_of_value (disposition_value d) = Some d"
  by (cases d) (simp_all add: disposition_of_value_def)

lemma source_of_value_inverse [simp]: "source_of_value (source_value d) = Some d"
  by (cases d) (simp_all add: source_of_value_def)

section \<open>Time stamps and ids\<close>

type_synonym fromiso = "string \<Rightarrow> int option"

definition parse_iso :: "fromiso \<Rightarrow> string \<Rightarrow> int option" where
  "parse_iso fromiso value = (if value = [] then None else fromiso value)"

text \<open>The stamp of the clock and the nonce of \<open>secrets.token_hex(3)\<close> are arguments.\<close>

definition mint_item_id :: "string \<Rightarrow> string \<Rightarrow> string" where
  "mint_item_id stamp nonce = ''q-'' @ stamp @ ''-'' @ nonce"

text \<open>\<open>s.rsplit("-", 1)[-1]\<close>\<close>

definition rsplit_tail :: "string \<Rightarrow> string" where
  "rsplit_tail s = rev (takeWhile (\<lambda>c. c \<noteq> CHR ''-'') (rev s))"

definition short_item_id :: "string \<Rightarrow> string" where
  "short_item_id iid =
     (let tail = rsplit_tail iid
      in if tail \<noteq> [] \<and> tail \<noteq> iid then ''q-'' @ tail else iid)"

lemma rsplit_tail_append: "CHR ''-'' \<notin> set n \<Longrightarrow> rsplit_tail (s @ CHR ''-'' # n) = n"
  by (auto simp: rsplit_tail_def takeWhile_append)

section \<open>Tolerant reads of a JSON object\<close>

definition as_int :: "json_object \<Rightarrow> string \<Rightarrow> int \<Rightarrow> int" where
  "as_int data key dflt = (case map_of data key of Some (JInt n) \<Rightarrow> n | _ \<Rightarrow> dflt)"

definition as_str :: "json_object \<Rightarrow> string \<Rightarrow> string \<Rightarrow> string" where
  "as_str data key dflt = (case map_of data key of Some (JStr s) \<Rightarrow> s | _ \<Rightarrow> dflt)"

definition as_str_tuple :: "json_object \<Rightarrow> string \<Rightarrow> string list" where
  "as_str_tuple data key =
     (case map_of data key of
        Some (JList es) \<Rightarrow> if list_all is_jstr es then map jstr_of es else []
      | _ \<Rightarrow> [])"

section \<open>The queue item\<close>

record queue_item =
  qi_item_id :: string
  qi_title :: string
  qi_spec_filename :: string
  qi_state :: item_state
  qi_priority :: int
  qi_created_at :: string
  qi_updated_at :: string
  qi_attempts :: int
  qi_max_attempts :: int
  qi_merge_disposition :: merge_disposition
  qi_source :: item_source
  qi_source_ref :: string
  qi_target_repo :: string
  qi_project_name :: string
  qi_lease_pid :: int
  qi_lease_host :: string
  qi_lease_expires_at :: string
  qi_last_error :: string
  qi_last_run_id :: string
  qi_poison_reason :: string
  qi_not_before :: string
  qi_pr_urls :: "string list"
  qi_design_acceptance :: bool
  qi_schema_version :: int

definition attempts_remaining :: "queue_item \<Rightarrow> int" where
  "attempts_remaining item = max 0 (qi_max_attempts item - qi_attempts item)"

definition ready_at :: "fromiso \<Rightarrow> queue_item \<Rightarrow> int \<Rightarrow> bool" where
  "ready_at fromiso item now =
     (if qi_not_before item = [] then True
      else (case parse_iso fromiso (qi_not_before item) of
              None \<Rightarrow> False
            | Some deadline \<Rightarrow> deadline \<le> now))"

definition item_sort_key :: "queue_item \<Rightarrow> int \<times> string" where
  "item_sort_key item = (- qi_priority item, qi_item_id item)"

definition lease_expired :: "fromiso \<Rightarrow> queue_item \<Rightarrow> int \<Rightarrow> bool" where
  "lease_expired fromiso item now =
     (case parse_iso fromiso (qi_lease_expires_at item) of
        None \<Rightarrow> True
      | Some expires \<Rightarrow> expires \<le> now)"

definition to_dict :: "queue_item \<Rightarrow> json_object" where
  "to_dict item =
     [(''schema_version'', JInt (qi_schema_version item)),
      (''item_id'', JStr (qi_item_id item)),
      (''title'', JStr (qi_title item)),
      (''spec_filename'', JStr (qi_spec_filename item)),
      (''state'', JStr (state_value (qi_state item))),
      (''priority'', JInt (qi_priority item)),
      (''created_at'', JStr (qi_created_at item)),
      (''updated_at'', JStr (qi_updated_at item)),
      (''attempts'', JInt (qi_attempts item)),
      (''max_attempts'', JInt (qi_max_attempts item)),
      (''merge_disposition'', JStr (disposition_value (qi_merge_disposition item))),
      (''source'', JStr (source_value (qi_source item))),
      (''source_ref'', JStr (qi_source_ref item)),
      (''target_repo'', JStr (qi_target_repo item)),
      (''project_name'', JStr (qi_project_name item)),
      (''lease_pid'', JInt (qi_lease_pid item)),
      (''lease_host'', JStr (qi_lease_host item)),
      (''lease_expires_at'', JStr (qi_lease_expires_at item)),
      (''last_error'', JStr (qi_last_error item)),
      (''last_run_id'', JStr (qi_last_run_id item)),
      (''poison_reason'', JStr (qi_poison_reason item)),
      (''not_before'', JStr (qi_not_before item)),
      (''pr_urls'', JList (map JStr (qi_pr_urls item))),
      (''design_acceptance'', JBool (qi_design_acceptance item))]"

definition queue_schema_version :: int where "queue_schema_version = 1"

definition from_dict :: "json_object \<Rightarrow> queue_item option" where
  "from_dict data =
     (let item_id = as_str data ''item_id'' [];
          spec_filename = as_str data ''spec_filename'' []
      in if item_id = [] \<or> spec_filename = [] then None
         else if \<not> is_safe_component spec_filename then None
         else Some
           \<lparr>qi_item_id = item_id,
            qi_title = (let t = as_str data ''title'' [] in if t = [] then item_id else t),
            qi_spec_filename = spec_filename,
            qi_state = (case state_of_value (as_str data ''state'' (state_value QUEUED)) of
                          None \<Rightarrow> QUEUED | Some s \<Rightarrow> s),
            qi_priority = as_int data ''priority'' 0,
            qi_created_at = as_str data ''created_at'' [],
            qi_updated_at = as_str data ''updated_at'' [],
            qi_attempts = as_int data ''attempts'' 0,
            qi_max_attempts = as_int data ''max_attempts'' 3,
            qi_merge_disposition =
              (case disposition_of_value
                      (as_str data ''merge_disposition'' (disposition_value STOP_AT_PR)) of
                 None \<Rightarrow> STOP_AT_PR | Some d \<Rightarrow> d),
            qi_source = (case source_of_value (as_str data ''source'' (source_value LOCAL)) of
                           None \<Rightarrow> LOCAL | Some s \<Rightarrow> s),
            qi_source_ref = as_str data ''source_ref'' [],
            qi_target_repo = as_str data ''target_repo'' [],
            qi_project_name = as_str data ''project_name'' [],
            qi_lease_pid = as_int data ''lease_pid'' 0,
            qi_lease_host = as_str data ''lease_host'' [],
            qi_lease_expires_at = as_str data ''lease_expires_at'' [],
            qi_last_error = as_str data ''last_error'' [],
            qi_last_run_id = as_str data ''last_run_id'' [],
            qi_poison_reason = as_str data ''poison_reason'' [],
            qi_not_before = as_str data ''not_before'' [],
            qi_pr_urls = as_str_tuple data ''pr_urls'',
            qi_design_acceptance = (map_of data ''design_acceptance'' = Some (JBool True)),
            qi_schema_version = as_int data ''schema_version'' queue_schema_version\<rparr>)"

text \<open>The two facts about a decoded item that the queue relies on.\<close>

lemma from_dict_SomeD:
  assumes "from_dict data = Some item"
  shows "qi_item_id item \<noteq> []" "is_safe_component (qi_spec_filename item)" "qi_title item \<noteq> []"
  using assms by (auto simp: from_dict_def Let_def split: if_splits)

lemma map_jstr_of_JStr [simp]: "map (jstr_of \<circ> JStr) xs = xs"
  by (induction xs) auto

lemma list_all_is_jstr [simp]: "list_all (is_jstr \<circ> JStr) xs"
  by (induction xs) auto

lemma from_dict_to_dict:
  assumes "qi_item_id item \<noteq> []" "is_safe_component (qi_spec_filename item)" "qi_title item \<noteq> []"
  shows "from_dict (to_dict item) = Some item"
proof -
  have "qi_spec_filename item \<noteq> []" using assms(2) by (auto simp: is_safe_component_iff)
  with assms show ?thesis
    by (simp add: from_dict_def to_dict_def as_str_def as_int_def as_str_tuple_def
        list.pred_map list.map_comp)
qed

section \<open>\<open>QueueConfig\<close>\<close>

record queue_config =
  qc_max_attempts :: int
  qc_lease_ttl :: int  \<comment> \<open>\<open>lease_ttl_seconds\<close>, in microseconds\<close>

datatype config_error = Max_Attempts_Below_One int | Lease_Ttl_Not_Positive int

definition make_queue_config :: "int \<Rightarrow> int \<Rightarrow> config_error + queue_config" where
  "make_queue_config max_attempts ttl =
     (if max_attempts < 1 then Inl (Max_Attempts_Below_One max_attempts)
      else if ttl \<le> 0 then Inl (Lease_Ttl_Not_Positive ttl)
      else Inr \<lparr>qc_max_attempts = max_attempts, qc_lease_ttl = ttl\<rparr>)"

section \<open>\<open>PauseState\<close>\<close>

record pause_state =
  ps_paused :: bool
  ps_reason :: string
  ps_since :: string
  ps_resume_after :: string

definition default_pause :: pause_state where
  "default_pause = \<lparr>ps_paused = False, ps_reason = [], ps_since = [], ps_resume_after = []\<rparr>"

definition pause_active :: "fromiso \<Rightarrow> pause_state \<Rightarrow> int \<Rightarrow> bool" where
  "pause_active fromiso p now =
     (if \<not> ps_paused p then False
      else (case parse_iso fromiso (ps_resume_after p) of
              None \<Rightarrow> True
            | Some deadline \<Rightarrow> now < deadline))"

definition pause_to_dict :: "pause_state \<Rightarrow> json_object" where
  "pause_to_dict p =
     [(''paused'', JBool (ps_paused p)), (''reason'', JStr (ps_reason p)),
      (''since'', JStr (ps_since p)), (''resume_after'', JStr (ps_resume_after p))]"

text \<open>\<open>bool(value)\<close> of a JSON value.\<close>

definition pause_from_dict :: "json_object \<Rightarrow> pause_state" where
  "pause_from_dict data =
     \<lparr>ps_paused = (case map_of data ''paused'' of None \<Rightarrow> False | Some v \<Rightarrow> truthy v),
      ps_reason = as_str data ''reason'' [],
      ps_since = as_str data ''since'' [],
      ps_resume_after = as_str data ''resume_after'' []\<rparr>"

lemma pause_from_dict_to_dict [simp]: "pause_from_dict (pause_to_dict p) = p"
  by (simp add: pause_from_dict_def pause_to_dict_def as_str_def)

section \<open>\<open>JournalEntry\<close>\<close>

record journal_entry =
  je_ts :: string
  je_item_id :: string
  je_from :: string
  je_to :: string
  je_reason :: string
  je_actor :: string
  je_attempts :: int
  je_detail :: json_object

definition entry_to_dict :: "journal_entry \<Rightarrow> json_object" where
  "entry_to_dict e =
     [(''ts'', JStr (je_ts e)), (''item_id'', JStr (je_item_id e)),
      (''from'', JStr (je_from e)), (''to'', JStr (je_to e)),
      (''reason'', JStr (je_reason e)), (''actor'', JStr (je_actor e)),
      (''attempts'', JInt (je_attempts e)), (''detail'', JObj (je_detail e))]"

end
