(* ===== verification/Queue_Store.thy ===== *)
theory Queue_Store
  imports Queue_Items
begin

text \<open>
  \<open>kstrl/queue/workqueue_store.py\<close>: the queue on disk, with no item transition. Each state is a
  directory, each item a directory of files in it (its spec and \<open>meta.json\<close>), and the directory
  an item is in is its state. The store interface (\<open>keyed_store\<close>) says what a lookup returns
  after a put and a drop; that an id is never in two state directories at once is proved from
  those laws alone.
\<close>

section \<open>The interface of a store of keyed entries in shelves\<close>

definition unique_in :: "('s \<Rightarrow> 'k \<Rightarrow> 'e option) \<Rightarrow> bool" where
  "unique_in look = (\<forall>k s t. look s k \<noteq> None \<longrightarrow> look t k \<noteq> None \<longrightarrow> s = t)"

lemma unique_inD: "unique_in look \<Longrightarrow> look s k = Some e \<Longrightarrow> look t k = Some e' \<Longrightarrow> s = t"
  by (metis option.distinct(1) unique_in_def)

locale keyed_store =
  fixes lookup :: "'d \<Rightarrow> 's \<Rightarrow> 'k \<Rightarrow> 'e option"
    and put :: "'d \<Rightarrow> 's \<Rightarrow> 'k \<Rightarrow> 'e \<Rightarrow> 'd"
    and drop_key :: "'d \<Rightarrow> 's \<Rightarrow> 'k \<Rightarrow> 'd"
  assumes lookup_put:
      "lookup (put d s k e) t k' = (if t = s \<and> k' = k then Some e else lookup d t k')"
    and lookup_drop:
      "lookup (drop_key d s k) t k' = (if t = s \<and> k' = k then None else lookup d t k')"
begin

lemma lookup_move:
  "lookup (put (drop_key d s k) t k e) u k' =
     (if k' = k then (if u = t then Some e else if u = s then None else lookup d u k)
      else lookup d u k')"
  by (auto simp: lookup_put lookup_drop)

lemma unique_put_same:
  assumes "unique_in (lookup d)" and "lookup d s k \<noteq> None"
  shows "unique_in (lookup (put d s k e))"
  using assms unfolding unique_in_def lookup_put by (metis option.distinct(1))

lemma unique_put_fresh:
  assumes "unique_in (lookup d)" and "\<And>t. lookup d t k = None"
  shows "unique_in (lookup (put d s k e))"
  using assms unfolding unique_in_def lookup_put by (metis option.distinct(1))

lemma unique_drop:
  assumes "unique_in (lookup d)"
  shows "unique_in (lookup (drop_key d s k))"
  using assms unfolding unique_in_def lookup_drop by (metis option.distinct(1))

lemma unique_move:
  assumes "unique_in (lookup d)" and "lookup d s k \<noteq> None"
  shows "unique_in (lookup (put (drop_key d s k) t k e))"
proof (rule unique_put_fresh)
  show "unique_in (lookup (drop_key d s k))" using assms(1) by (rule unique_drop)
  show "\<And>u. lookup (drop_key d s k) u k = None"
    using assms unfolding lookup_drop unique_in_def by metis
qed

end

section \<open>The disk\<close>

definition meta_filename :: string where "meta_filename = ''meta.json''"

text \<open>
  A file holds text, or the text \<open>json.dumps\<close> wrote for a document, or cannot be read as
  UTF-8 text. \<open>parse\<close> is \<open>read_json\<close> on any other text (\<open>None\<close> where it raises).
\<close>

datatype content = Text string | Doc json | Not_Utf8 | Unreadable

type_synonym item_files = "(string, content) dict"

record item_entry =
  ie_symlink :: bool
  ie_files :: item_files

datatype dirent = Plain_File | Item_Dir item_entry

record queue_disk =
  qd_dirs :: "item_state \<Rightarrow> (string, dirent) dict"
  qd_staging :: "(string, dirent) dict"
  qd_journal :: "journal_entry list"

definition dir_lookup :: "queue_disk \<Rightarrow> item_state \<Rightarrow> string \<Rightarrow> dirent option" where
  "dir_lookup d s iid = dict_get (qd_dirs d s) iid"

definition dir_put :: "queue_disk \<Rightarrow> item_state \<Rightarrow> string \<Rightarrow> dirent \<Rightarrow> queue_disk" where
  "dir_put d s iid e = d\<lparr>qd_dirs := (qd_dirs d)(s := dict_set (qd_dirs d s) iid e)\<rparr>"

definition dir_drop :: "queue_disk \<Rightarrow> item_state \<Rightarrow> string \<Rightarrow> queue_disk" where
  "dir_drop d s iid = d\<lparr>qd_dirs := (qd_dirs d)(s := dict_del (qd_dirs d s) iid)\<rparr>"

interpretation disk: keyed_store dir_lookup dir_put dir_drop
  by unfold_locales (auto simp: dir_lookup_def dir_put_def dir_drop_def dict_simps)

definition path_exists :: "queue_disk \<Rightarrow> item_state \<Rightarrow> string \<Rightarrow> bool" where
  "path_exists d s iid = (dir_lookup d s iid \<noteq> None)"

definition is_dir :: "queue_disk \<Rightarrow> item_state \<Rightarrow> string \<Rightarrow> bool" where
  "is_dir d s iid = (case dir_lookup d s iid of Some (Item_Dir _) \<Rightarrow> True | _ \<Rightarrow> False)"

text \<open>\<open>atomic_write(directory / name, content)\<close>, which creates the directory if need be.\<close>

definition put_file :: "queue_disk \<Rightarrow> item_state \<Rightarrow> string \<Rightarrow> string \<Rightarrow> content \<Rightarrow> queue_disk" where
  "put_file d s iid name c =
     (let e = (case dir_lookup d s iid of
                 Some (Item_Dir e) \<Rightarrow> e
               | _ \<Rightarrow> \<lparr>ie_symlink = False, ie_files = []\<rparr>)
      in dir_put d s iid (Item_Dir (e\<lparr>ie_files := dict_set (ie_files e) name c\<rparr>)))"

text \<open>\<open>os.replace(source_dir, target_dir)\<close>\<close>

definition rename_dir :: "queue_disk \<Rightarrow> item_state \<Rightarrow> item_state \<Rightarrow> string \<Rightarrow> queue_disk" where
  "rename_dir d s t iid =
     (case dir_lookup d s iid of
        None \<Rightarrow> d
      | Some e \<Rightarrow> dir_put (dir_drop d s iid) t iid e)"

section \<open>Errors\<close>

datatype queue_error =
    Illegal_Transition string item_state item_state
  | Unsafe_Item_Id string
  | Unsafe_Spec_Filename string
  | Not_In_State string item_state
  | Already_Exists string item_state
  | Empty_Spec
  | Bad_Max_Attempts int
  | Budget_Exhausted string
  | Cannot_Adopt string item_state
  | Cannot_Answer string item_state
  | Cannot_Relink string item_state
  | Cannot_Reprioritize string item_state
  | No_Longer_Queued string
  | Poison_Without_Reason
  | Still_Running string
  | Ambiguous_Id string "string list"
  | Os_Error

section \<open>The journal\<close>

text \<open>An append never raises; it may lose the line (\<open>lost\<close>).\<close>

definition journal :: "bool \<Rightarrow> queue_disk \<Rightarrow> journal_entry \<Rightarrow> queue_disk" where
  "journal lost d e = (if lost then d else d\<lparr>qd_journal := qd_journal d @ [e]\<rparr>)"

definition journal_entries :: "queue_disk \<Rightarrow> string \<Rightarrow> journal_entry list" where
  "journal_entries d iid = filter (\<lambda>e. iid = [] \<or> je_item_id e = iid) (qd_journal d)"

section \<open>Reading\<close>

type_synonym json_parser = "string \<Rightarrow> json option"

definition item_dir :: "queue_item \<Rightarrow> queue_error + (item_state \<times> string)" where
  "item_dir item =
     (if \<not> is_safe_component (qi_item_id item) then Inl (Unsafe_Item_Id (qi_item_id item))
      else Inr (qi_state item, qi_item_id item))"

definition read_meta :: "json_parser \<Rightarrow> item_files \<Rightarrow> json option" where
  "read_meta parse files =
     (case dict_get files meta_filename of
        None \<Rightarrow> None
      | Some Unreadable \<Rightarrow> None
      | Some Not_Utf8 \<Rightarrow> None
      | Some (Doc j) \<Rightarrow> Some j
      | Some (Text t) \<Rightarrow> parse t)"

definition load_item_dir :: "json_parser \<Rightarrow> string \<Rightarrow> item_entry \<Rightarrow> item_state \<Rightarrow> queue_item option" where
  "load_item_dir parse name e s =
     (if ie_symlink e then None
      else if \<not> is_safe_component name then None
      else (case read_meta parse (ie_files e) of
              Some (JObj data) \<Rightarrow>
                (case from_dict data of
                   None \<Rightarrow> None
                 | Some item \<Rightarrow> Some (item\<lparr>qi_item_id := name, qi_state := s\<rparr>))
            | _ \<Rightarrow> None))"

definition scan_entry :: "json_parser \<Rightarrow> item_state \<Rightarrow> string \<times> dirent \<Rightarrow> queue_item list" where
  "scan_entry parse s ne =
     (case snd ne of
        Plain_File \<Rightarrow> []
      | Item_Dir e \<Rightarrow>
          if startswith (fst ne) ''.'' then []
          else (case load_item_dir parse (fst ne) e s of None \<Rightarrow> [] | Some item \<Rightarrow> [item]))"

definition scan_state :: "json_parser \<Rightarrow> queue_disk \<Rightarrow> item_state \<Rightarrow> queue_item list" where
  "scan_state parse d s = List.maps (scan_entry parse s) (sort_key fst (qd_dirs d s))"

definition queue_items :: "json_parser \<Rightarrow> queue_disk \<Rightarrow> item_state list \<Rightarrow> queue_item list" where
  "queue_items parse d states =
     sort_key item_sort_key
       (List.maps (scan_state parse d) (if states = [] then all_states else states))"

definition get_item :: "json_parser \<Rightarrow> queue_disk \<Rightarrow> string \<Rightarrow> queue_error + queue_item option" where
  "get_item parse d text =
     (let its = queue_items parse d []
      in case find (\<lambda>i. qi_item_id i = text) its of
           Some i \<Rightarrow> Inr (Some i)
         | None \<Rightarrow>
             (case filter (\<lambda>i. startswith (qi_item_id i) text \<or> short_item_id (qi_item_id i) = text) its of
                [] \<Rightarrow> Inr None
              | [i] \<Rightarrow> Inr (Some i)
              | is \<Rightarrow> Inl (Ambiguous_Id text (map qi_item_id is))))"

definition find_by_source_ref :: "json_parser \<Rightarrow> queue_disk \<Rightarrow> string \<Rightarrow> queue_item option" where
  "find_by_source_ref parse d ref =
     (if ref = [] then None
      else find (\<lambda>i. qi_source_ref i = ref) (queue_items parse d []))"

text \<open>
  The item's spec file, as a place in the store. (The second containment check of the source
  is about symbolic links inside an item directory, which the disk here does not have.)
\<close>

definition spec_path :: "queue_item \<Rightarrow> queue_error + (item_state \<times> string \<times> string)" where
  "spec_path item =
     (case item_dir item of
        Inl e \<Rightarrow> Inl e
      | Inr (s, iid) \<Rightarrow>
          if \<not> is_safe_component (qi_spec_filename item)
          then Inl (Unsafe_Spec_Filename (qi_spec_filename item))
          else Inr (s, iid, qi_spec_filename item))"

definition file_at :: "queue_disk \<Rightarrow> item_state \<Rightarrow> string \<Rightarrow> string \<Rightarrow> content option" where
  "file_at d s iid name =
     (case dir_lookup d s iid of Some (Item_Dir e) \<Rightarrow> dict_get (ie_files e) name | _ \<Rightarrow> None)"

text \<open>What a reader of one state directory loads for one entry.\<close>

definition stored :: "json_parser \<Rightarrow> queue_disk \<Rightarrow> item_state \<Rightarrow> string \<Rightarrow> queue_item option" where
  "stored parse d s iid =
     (case dir_lookup d s iid of Some (Item_Dir e) \<Rightarrow> load_item_dir parse iid e s | _ \<Rightarrow> None)"

definition queue_ok :: "queue_disk \<Rightarrow> bool" where
  "queue_ok d = ((\<forall>s. dict_ok (qd_dirs d s)) \<and> unique_in (dir_lookup d))"

section \<open>Staging\<close>

text \<open>\<open>sweep_staging\<close>: every half-published directory goes; the count is journalled.\<close>

definition is_staged_dir :: "string \<times> dirent \<Rightarrow> bool" where
  "is_staged_dir ne = (case snd ne of Item_Dir e \<Rightarrow> \<not> ie_symlink e | Plain_File \<Rightarrow> False)"

definition sweep_staging :: "bool \<Rightarrow> string \<Rightarrow> queue_disk \<Rightarrow> queue_disk \<times> nat" where
  "sweep_staging lost now d =
     (let swept = length (filter is_staged_dir (qd_staging d));
          d1 = d\<lparr>qd_staging := filter (\<lambda>ne. \<not> is_staged_dir ne) (qd_staging d)\<rparr>
      in (if swept = 0 then d1
          else journal lost d1
            \<lparr>je_ts = now, je_item_id = [], je_from = ''staging'', je_to = ''swept'',
             je_reason = ''abandoned mid-publish'', je_actor = [], je_attempts = 0,
             je_detail = [(''count'', JInt (int swept))]\<rparr>, swept))"

section \<open>The pause marker\<close>

text \<open>
  The marker lives in the control directory, of which this records whether it is trusted
  (\<open>control_untrusted_reason\<close>) and what the marker file is.
\<close>

datatype pause_marker =
    Marker_Missing
  | Marker_Os_Error
  | Marker_Not_Utf8
  | Marker_Not_Json
  | Marker_Json json

record control_dir =
  cd_untrusted :: "string option"
  cd_pause :: pause_marker

definition paused_because :: "string \<Rightarrow> pause_state" where
  "paused_because reason = default_pause\<lparr>ps_paused := True, ps_reason := reason\<rparr>"

definition read_pause_state :: "control_dir \<Rightarrow> pause_state" where
  "read_pause_state c =
     (case cd_untrusted c of
        Some reason \<Rightarrow> paused_because reason
      | None \<Rightarrow>
          (case cd_pause c of
             Marker_Missing \<Rightarrow> default_pause
           | Marker_Os_Error \<Rightarrow> paused_because ''unreadable pause marker''
           | Marker_Not_Utf8 \<Rightarrow> paused_because ''pause marker is not valid UTF-8''
           | Marker_Not_Json \<Rightarrow> paused_because ''unreadable pause marker''
           | Marker_Json (JObj data) \<Rightarrow> pause_from_dict data
           | Marker_Json _ \<Rightarrow> paused_because ''malformed pause marker''))"

definition is_paused :: "fromiso \<Rightarrow> control_dir \<Rightarrow> int \<Rightarrow> bool" where
  "is_paused fromiso c now = pause_active fromiso (read_pause_state c) now"

definition pause_queue ::
  "bool \<Rightarrow> string \<Rightarrow> control_dir \<Rightarrow> queue_disk \<Rightarrow> string \<Rightarrow> string \<Rightarrow> string
     \<Rightarrow> control_dir \<times> queue_disk \<times> pause_state" where
  "pause_queue lost now c d reason actor resume_after =
     (let p = \<lparr>ps_paused = True, ps_reason = reason, ps_since = now, ps_resume_after = resume_after\<rparr>
      in (c\<lparr>cd_pause := Marker_Json (JObj (pause_to_dict p))\<rparr>,
          journal lost d
            \<lparr>je_ts = now, je_item_id = [], je_from = [], je_to = ''paused'', je_reason = reason,
             je_actor = actor, je_attempts = 0, je_detail = [(''resume_after'', JStr resume_after)]\<rparr>,
          p))"

definition resume_queue ::
  "bool \<Rightarrow> string \<Rightarrow> control_dir \<Rightarrow> queue_disk \<Rightarrow> string \<Rightarrow> json_object
     \<Rightarrow> control_dir \<times> queue_disk \<times> pause_state" where
  "resume_queue lost now c d actor detail =
     (c\<lparr>cd_pause := Marker_Json (JObj (pause_to_dict default_pause))\<rparr>,
      journal lost d
        \<lparr>je_ts = now, je_item_id = [], je_from = ''paused'', je_to = ''running'',
         je_reason = ''resumed'', je_actor = actor, je_attempts = 0, je_detail = detail\<rparr>,
      default_pause)"

section \<open>Where a spec is\<close>

text \<open>
  \<open>relocated_spec\<close> and \<open>queue_item_for_spec\<close> on paths relative to the queue directory, as
  lists of segments.
\<close>

definition relocated_spec :: "queue_disk \<Rightarrow> string list \<Rightarrow> (item_state \<times> string \<times> string) option" where
  "relocated_spec d segs =
     (case segs of
        [_, iid, name] \<Rightarrow>
          (case find (\<lambda>s. file_at d s iid name \<noteq> None) all_states of
             None \<Rightarrow> None
           | Some s \<Rightarrow> Some (s, iid, name))
      | _ \<Rightarrow> None)"

definition queue_item_for_spec :: "string list \<Rightarrow> string option" where
  "queue_item_for_spec segs =
     (case segs of
        [s, iid, _] \<Rightarrow> if s = state_value RUNNING \<and> is_safe_component iid then Some iid else None
      | _ \<Rightarrow> None)"

end
