(* ===== verification/Queue.thy ===== *)
theory Queue
  imports Queue_Store
begin

text \<open>
  \<open>kstrl/queue/workqueue.py\<close>: the life of a queue item. Every operation takes what it reads
  from outside the queue in one record: the clock (one reading per operation), the process
  identity, the configuration, the digest, and which disk effects fail. It returns the disk
  after it, the item object after it (operations mutate the object they are given, also when
  they raise), and what it raised.
\<close>

section \<open>The outside of an operation\<close>

record queue_ctx =
  cx_now :: int
  cx_iso :: "int \<Rightarrow> string"
  cx_config :: queue_config
  cx_pid :: int
  cx_host :: string
  cx_sha :: "content \<Rightarrow> string"
  cx_meta_write_fails :: bool
  cx_spec_write_fails :: bool
  cx_rename_fails :: bool
  cx_rmtree_fails :: bool
  cx_journal_lost :: bool

definition now_iso :: "queue_ctx \<Rightarrow> string" where
  "now_iso cx = cx_iso cx (cx_now cx)"

definition lease_until :: "queue_ctx \<Rightarrow> string" where
  "lease_until cx = cx_iso cx (cx_now cx + qc_lease_ttl (cx_config cx))"

type_synonym op_result = "queue_disk \<times> queue_item \<times> queue_error option"

section \<open>Publishing\<close>

definition write_meta :: "queue_disk \<Rightarrow> item_state \<Rightarrow> string \<Rightarrow> queue_item \<Rightarrow> queue_disk" where
  "write_meta d s iid item = put_file d s iid meta_filename (Doc (JObj (to_dict item)))"

datatype spec_source = From_Path string string | From_Text string

text \<open>\<open>Path.stem\<close> of a file name: the name up to its last dot, when that is inside the name.\<close>

definition path_stem :: "string \<Rightarrow> string" where
  "path_stem name =
     (let tail = takeWhile (\<lambda>c. c \<noteq> CHR ''.'') (rev name);
          i = length name - length tail - 1
      in if length tail < length name \<and> 0 < i \<and> i < length name - 1 then take i name else name)"

record add_args =
  aa_title :: string
  aa_priority :: int
  aa_disposition :: merge_disposition
  aa_source :: item_source
  aa_source_ref :: string
  aa_target_repo :: string
  aa_project_name :: string
  aa_max_attempts :: "int option"
  aa_spec_filename :: string
  aa_design_acceptance :: bool
  aa_actor :: string

definition new_item :: "queue_ctx \<Rightarrow> string \<Rightarrow> string \<Rightarrow> string \<Rightarrow> int \<Rightarrow> add_args \<Rightarrow> queue_item" where
  "new_item cx iid title spec_filename max_attempts a =
     \<lparr>qi_item_id = iid, qi_title = title, qi_spec_filename = spec_filename, qi_state = QUEUED,
      qi_priority = aa_priority a, qi_created_at = now_iso cx, qi_updated_at = now_iso cx,
      qi_attempts = 0, qi_max_attempts = max_attempts,
      qi_merge_disposition = aa_disposition a, qi_source = aa_source a,
      qi_source_ref = aa_source_ref a, qi_target_repo = aa_target_repo a,
      qi_project_name = aa_project_name a, qi_lease_pid = 0, qi_lease_host = [],
      qi_lease_expires_at = [], qi_last_error = [], qi_last_run_id = [], qi_poison_reason = [],
      qi_not_before = [], qi_pr_urls = [], qi_design_acceptance = aa_design_acceptance a,
      qi_schema_version = queue_schema_version\<rparr>"

text \<open>
  \<open>add\<close>. The item is built under staging and renamed into \<open>queued/\<close>; whatever fails in
  between removes the staging directory and raises. \<open>iid\<close> is the minted id.
\<close>

definition add_item ::
  "queue_ctx \<Rightarrow> string \<Rightarrow> queue_disk \<Rightarrow> spec_source \<Rightarrow> add_args \<Rightarrow> queue_disk \<times> (queue_error + queue_item)" where
  "add_item cx iid d src a =
     (let content = (case src of From_Path _ c \<Rightarrow> c | From_Text c \<Rightarrow> c);
          spec_filename = (case src of From_Path name _ \<Rightarrow> name | From_Text _ \<Rightarrow> aa_spec_filename a);
          title = (if aa_title a \<noteq> [] then aa_title a
                   else (case src of From_Path name _ \<Rightarrow> path_stem name | From_Text _ \<Rightarrow> ''untitled''));
          max_attempts = (case aa_max_attempts a of None \<Rightarrow> qc_max_attempts (cx_config cx) | Some n \<Rightarrow> n)
      in if blank content then (d, Inl Empty_Spec)
         else if \<not> is_safe_component spec_filename then (d, Inl (Unsafe_Spec_Filename spec_filename))
         else if max_attempts < 1 then (d, Inl (Bad_Max_Attempts max_attempts))
         else if path_exists d QUEUED iid then (d, Inl (Already_Exists iid QUEUED))
         else if dict_get (qd_staging d) iid \<noteq> None then (d, Inl Os_Error)
         else if cx_spec_write_fails cx \<or> cx_meta_write_fails cx \<or> cx_rename_fails cx
           then (d, Inl Os_Error)
         else
           (let item = new_item cx iid title spec_filename max_attempts a;
                files = dict_set [(spec_filename, Text content)] meta_filename
                          (Doc (JObj (to_dict item)));
                d1 = dir_put d QUEUED iid (Item_Dir \<lparr>ie_symlink = False, ie_files = files\<rparr>)
            in (journal (cx_journal_lost cx) d1
                  \<lparr>je_ts = now_iso cx, je_item_id = iid, je_from = [], je_to = state_value QUEUED,
                   je_reason = ''added'', je_actor = aa_actor a, je_attempts = 0,
                   je_detail = [(''source'', JStr (source_value (aa_source a))),
                                (''source_ref'', JStr (aa_source_ref a))]\<rparr>,
                Inr item)))"

section \<open>The one way an item moves\<close>

definition entry_for ::
  "queue_ctx \<Rightarrow> item_state \<Rightarrow> item_state \<Rightarrow> string \<Rightarrow> string \<Rightarrow> json_object \<Rightarrow> queue_item \<Rightarrow> journal_entry" where
  "entry_for cx from to reason actor detail item =
     \<lparr>je_ts = qi_updated_at item, je_item_id = qi_item_id item, je_from = state_value from,
      je_to = state_value to, je_reason = reason, je_actor = actor,
      je_attempts = qi_attempts item, je_detail = detail\<rparr>"

text \<open>The checks of \<open>transition\<close>, in order, and the item it is about to write.\<close>

definition transition_refusal :: "queue_disk \<Rightarrow> queue_item \<Rightarrow> item_state \<Rightarrow> queue_error option" where
  "transition_refusal d item to =
     (if to \<notin> set (legal_transitions (qi_state item))
        then Some (Illegal_Transition (qi_item_id item) (qi_state item) to)
      else (case item_dir item of
              Inl e \<Rightarrow> Some e
            | Inr (s, iid) \<Rightarrow>
                if \<not> is_dir d s iid then Some (Not_In_State iid s)
                else if path_exists d to iid then Some (Already_Exists iid to)
                else None))"

definition moved_item ::
  "queue_ctx \<Rightarrow> item_state \<Rightarrow> bool \<Rightarrow> (queue_item \<Rightarrow> queue_item) \<Rightarrow> queue_item \<Rightarrow> queue_item" where
  "moved_item cx to charge upd item =
     (let item1 = upd item;
          item2 = (if charge then item1\<lparr>qi_attempts := qi_attempts item1 + 1\<rparr> else item1)
      in item2\<lparr>qi_state := to, qi_updated_at := now_iso cx\<rparr>)"

definition transition ::
  "queue_ctx \<Rightarrow> queue_disk \<Rightarrow> queue_item \<Rightarrow> item_state \<Rightarrow> string \<Rightarrow> string \<Rightarrow> bool \<Rightarrow> json_object
     \<Rightarrow> (queue_item \<Rightarrow> queue_item) \<Rightarrow> op_result" where
  "transition cx d item to reason actor charge detail upd =
     (case transition_refusal d item to of
        Some e \<Rightarrow> (d, item, Some e)
      | None \<Rightarrow>
          (let from = qi_state item; iid = qi_item_id item;
               item' = moved_item cx to charge upd item
           in if cx_meta_write_fails cx then (d, item', Some Os_Error)
              else
                (let d1 = write_meta d from iid item'
                 in if cx_rename_fails cx then (d1, item'\<lparr>qi_state := from\<rparr>, Some Os_Error)
                    else
                      (journal (cx_journal_lost cx) (rename_dir d1 from to iid)
                         (entry_for cx from to reason actor detail item'),
                       item', None))))"

text \<open>
  The disks a process that dies inside \<open>transition\<close> can leave: nothing written yet, \<open>meta.json\<close>
  written, the directory renamed, the journal line appended.
\<close>

definition transition_crash_disks ::
  "queue_ctx \<Rightarrow> queue_disk \<Rightarrow> queue_item \<Rightarrow> item_state \<Rightarrow> string \<Rightarrow> string \<Rightarrow> bool \<Rightarrow> json_object
     \<Rightarrow> (queue_item \<Rightarrow> queue_item) \<Rightarrow> queue_disk list" where
  "transition_crash_disks cx d item to reason actor charge detail upd =
     (case transition_refusal d item to of
        Some e \<Rightarrow> [d]
      | None \<Rightarrow>
          (let from = qi_state item; iid = qi_item_id item;
               item' = moved_item cx to charge upd item;
               d1 = write_meta d from iid item';
               d2 = rename_dir d1 from to iid;
               d3 = journal False d2 (entry_for cx from to reason actor detail item')
           in [d, d1, d2, d3]))"

section \<open>The transitions\<close>

definition lease_item :: "queue_ctx \<Rightarrow> queue_disk \<Rightarrow> queue_item \<Rightarrow> int \<Rightarrow> string \<Rightarrow> string \<Rightarrow> op_result" where
  "lease_item cx d item pid host actor =
     transition cx d item LEASED ''leased'' actor False []
       (\<lambda>i. i\<lparr>qi_lease_pid := (if pid \<noteq> 0 then pid else cx_pid cx),
              qi_lease_host := (if host \<noteq> [] then host else cx_host cx),
              qi_lease_expires_at := lease_until cx\<rparr>)"

definition start_item :: "queue_ctx \<Rightarrow> queue_disk \<Rightarrow> queue_item \<Rightarrow> string \<Rightarrow> string \<Rightarrow> op_result" where
  "start_item cx d item run_id actor =
     (if attempts_remaining item \<le> 0 then (d, item, Some (Budget_Exhausted (qi_item_id item)))
      else transition cx d item RUNNING ''started'' actor True [] (\<lambda>i. i\<lparr>qi_last_run_id := run_id\<rparr>))"

definition pr_union :: "queue_item \<Rightarrow> string list \<Rightarrow> string list" where
  "pr_union item urls = fromkeys (qi_pr_urls item @ urls)"

definition pr_detail :: "string list \<Rightarrow> json_object" where
  "pr_detail urls = (if urls = [] then [] else [(''pr_urls'', JList (map JStr urls))])"

definition finish_ok :: "queue_ctx \<Rightarrow> queue_disk \<Rightarrow> queue_item \<Rightarrow> string \<Rightarrow> string list \<Rightarrow> op_result" where
  "finish_ok cx d item actor urls =
     (let u = pr_union item urls
      in transition cx d item DONE ''completed'' actor False (pr_detail u)
           (\<lambda>i. i\<lparr>qi_last_error := [], qi_pr_urls := u\<rparr>))"

definition finish_failed :: "queue_ctx \<Rightarrow> queue_disk \<Rightarrow> queue_item \<Rightarrow> string \<Rightarrow> string \<Rightarrow> string list \<Rightarrow> op_result" where
  "finish_failed cx d item err actor urls =
     (let u = pr_union item urls
      in transition cx d item FAILED ''failed'' actor False (pr_detail u)
           (\<lambda>i. i\<lparr>qi_last_error := err, qi_pr_urls := u\<rparr>))"

definition await_approval ::
  "queue_ctx \<Rightarrow> queue_disk \<Rightarrow> queue_item \<Rightarrow> string \<Rightarrow> string \<Rightarrow> string \<Rightarrow> string list \<Rightarrow> op_result" where
  "await_approval cx d item reason run_id actor urls =
     (let u = pr_union item urls
      in transition cx d item AWAITING_APPROVAL ''awaiting approval'' actor False
           [(''reason'', JStr reason), (''run_id'', JStr run_id)]
           (\<lambda>i. i\<lparr>qi_pr_urls := u, qi_last_run_id := run_id\<rparr>))"

definition await_answer ::
  "queue_ctx \<Rightarrow> queue_disk \<Rightarrow> queue_item \<Rightarrow> string \<Rightarrow> string \<Rightarrow> string \<Rightarrow> op_result" where
  "await_answer cx d item reason run_id actor =
     transition cx d item AWAITING_ANSWER ''awaiting an answer'' actor False
       [(''reason'', JStr reason), (''run_id'', JStr run_id)]
       (\<lambda>i. i\<lparr>qi_last_run_id := run_id\<rparr>)"

definition poison_item :: "queue_ctx \<Rightarrow> queue_disk \<Rightarrow> queue_item \<Rightarrow> string \<Rightarrow> string \<Rightarrow> op_result" where
  "poison_item cx d item reason actor =
     (if blank reason then (d, item, Some Poison_Without_Reason)
      else transition cx d item POISON ''poisoned'' actor False [] (\<lambda>i. i\<lparr>qi_poison_reason := reason\<rparr>))"

definition requeue_updates :: "bool \<Rightarrow> string option \<Rightarrow> queue_item \<Rightarrow> queue_item" where
  "requeue_updates reset_attempts not_before i =
     (let i1 = i\<lparr>qi_lease_pid := 0, qi_lease_host := [], qi_lease_expires_at := []\<rparr>;
          i2 = (case not_before of None \<Rightarrow> i1 | Some nb \<Rightarrow> i1\<lparr>qi_not_before := nb\<rparr>)
      in if reset_attempts
         then i2\<lparr>qi_attempts := 0, qi_poison_reason := [], qi_not_before := []\<rparr> else i2)"

definition requeue_item ::
  "queue_ctx \<Rightarrow> queue_disk \<Rightarrow> queue_item \<Rightarrow> string \<Rightarrow> string \<Rightarrow> bool \<Rightarrow> string option \<Rightarrow> op_result" where
  "requeue_item cx d item reason actor reset_attempts not_before =
     transition cx d item QUEUED reason actor False [] (requeue_updates reset_attempts not_before)"

definition answer_updates :: "bool \<Rightarrow> queue_item \<Rightarrow> queue_item" where
  "answer_updates reset_attempts i =
     (let i1 = i\<lparr>qi_lease_pid := 0, qi_lease_host := [], qi_lease_expires_at := [],
                 qi_not_before := [], qi_poison_reason := []\<rparr>
      in if reset_attempts then i1\<lparr>qi_attempts := 0\<rparr> else i1)"

text \<open>
  \<open>answer\<close>: the spec is replaced before the item is moved. The last component is the raised
  error, or the journalled detail.
\<close>

definition answer_item ::
  "queue_ctx \<Rightarrow> queue_disk \<Rightarrow> queue_item \<Rightarrow> string \<Rightarrow> string \<Rightarrow> bool \<Rightarrow> string \<Rightarrow> string
     \<Rightarrow> queue_disk \<times> queue_item \<times> (queue_error + json_object)" where
  "answer_item cx d item text actor reset_attempts escalation_row escalated_run =
     (let escalated = (qi_state item = POISON \<and> escalation_row \<noteq> [])
      in if qi_state item \<noteq> AWAITING_ANSWER \<and> \<not> escalated
           then (d, item, Inl (Cannot_Answer (qi_item_id item) (qi_state item)))
         else if blank text then (d, item, Inl Empty_Spec)
         else if \<not> reset_attempts \<and> attempts_remaining item \<le> 0
           then (d, item, Inl (Budget_Exhausted (qi_item_id item)))
         else
           (case spec_path item of
              Inl e \<Rightarrow> (d, item, Inl e)
            | Inr (s, iid, name) \<Rightarrow>
                (case file_at d s iid name of
                   None \<Rightarrow> (d, item, Inl Os_Error)
                 | Some Unreadable \<Rightarrow> (d, item, Inl Os_Error)
                 | Some old \<Rightarrow>
                     if cx_spec_write_fails cx then (d, item, Inl Os_Error)
                     else
                       (let before = cx_sha cx old; after = cx_sha cx (Text text);
                            detail =
                              [(''spec_sha256_before'', JStr before),
                               (''spec_sha256_after'', JStr after),
                               (''unchanged'', JBool (before = after)),
                               (''escalated_run'',
                                  JStr (if escalated_run \<noteq> [] then escalated_run else qi_last_run_id item)),
                               (''escalation_row'', JStr escalation_row)];
                            d1 = put_file d s iid name (Text text)
                        in (case transition cx d1 item QUEUED ''answered'' actor False detail
                                   (answer_updates reset_attempts) of
                              (d2, item2, None) \<Rightarrow> (d2, item2, Inr detail)
                            | (d2, item2, Some e) \<Rightarrow> (d2, item2, Inl e))))))"

section \<open>Rewrites in place\<close>

definition rewrite_in_place ::
  "queue_ctx \<Rightarrow> queue_disk \<Rightarrow> queue_item \<Rightarrow> string \<Rightarrow> string \<Rightarrow> json_object \<Rightarrow> op_result" where
  "rewrite_in_place cx d item reason actor detail =
     (if cx_meta_write_fails cx then (d, item, Some Os_Error)
      else (journal (cx_journal_lost cx)
              (write_meta d (qi_state item) (qi_item_id item) item)
              (entry_for cx (qi_state item) (qi_state item) reason actor detail item),
            item, None))"

definition adopt_lease :: "queue_ctx \<Rightarrow> queue_disk \<Rightarrow> queue_item \<Rightarrow> int \<Rightarrow> string \<Rightarrow> string \<Rightarrow> op_result" where
  "adopt_lease cx d item pid host actor =
     (if qi_state item \<notin> {LEASED, RUNNING}
        then (d, item, Some (Cannot_Adopt (qi_item_id item) (qi_state item)))
      else (case item_dir item of
              Inl e \<Rightarrow> (d, item, Some e)
            | Inr (s, iid) \<Rightarrow>
                if \<not> is_dir d s iid then (d, item, Some (Not_In_State iid s))
                else rewrite_in_place cx d
                       (item\<lparr>qi_lease_pid := pid,
                             qi_lease_host := (if host \<noteq> [] then host else cx_host cx),
                             qi_lease_expires_at := lease_until cx,
                             qi_updated_at := now_iso cx\<rparr>)
                       ''lease adopted by the run process'' actor [(''lease_pid'', JInt pid)]))"

definition relink_run :: "queue_ctx \<Rightarrow> queue_disk \<Rightarrow> queue_item \<Rightarrow> string \<Rightarrow> string \<Rightarrow> string \<Rightarrow> op_result" where
  "relink_run cx d item run_id reason actor =
     (if qi_state item \<noteq> AWAITING_APPROVAL
        then (d, item, Some (Cannot_Relink (qi_item_id item) (qi_state item)))
      else (case item_dir item of
              Inl e \<Rightarrow> (d, item, Some e)
            | Inr (s, iid) \<Rightarrow>
                if \<not> is_dir d s iid then (d, item, Some (Not_In_State iid s))
                else rewrite_in_place cx d
                       (item\<lparr>qi_last_run_id := run_id, qi_updated_at := now_iso cx\<rparr>)
                       ''parked again'' actor [(''run_id'', JStr run_id), (''reason'', JStr reason)]))"

text \<open>\<open>set_priority\<close> re-reads the item by its id.\<close>

definition set_priority ::
  "queue_ctx \<Rightarrow> json_parser \<Rightarrow> queue_disk \<Rightarrow> string \<Rightarrow> int \<Rightarrow> string
     \<Rightarrow> queue_disk \<times> (queue_error + queue_item \<times> int)" where
  "set_priority cx parse d iid priority actor =
     (case get_item parse d iid of
        Inl e \<Rightarrow> (d, Inl e)
      | Inr None \<Rightarrow> (d, Inl (No_Longer_Queued iid))
      | Inr (Some item) \<Rightarrow>
          if qi_item_id item \<noteq> iid then (d, Inl (No_Longer_Queued iid))
          else if qi_state item \<noteq> QUEUED then (d, Inl (Cannot_Reprioritize iid (qi_state item)))
          else
            (let old = qi_priority item
             in if old = priority then (d, Inr (item, old))
                else
                  (case rewrite_in_place cx d
                          (item\<lparr>qi_priority := priority, qi_updated_at := now_iso cx\<rparr>)
                          (''priority '' @ int_text old @ '' -> '' @ int_text priority) actor
                          [(''priority_from'', JInt old), (''priority_to'', JInt priority)] of
                     (d1, item1, None) \<Rightarrow> (d1, Inr (item1, old))
                   | (d1, item1, Some e) \<Rightarrow> (d1, Inl e))))"

section \<open>Removal and reports\<close>

definition remove_item :: "queue_ctx \<Rightarrow> queue_disk \<Rightarrow> queue_item \<Rightarrow> string \<Rightarrow> op_result" where
  "remove_item cx d item actor =
     (if qi_state item = RUNNING then (d, item, Some (Still_Running (qi_item_id item)))
      else (case item_dir item of
              Inl e \<Rightarrow> (d, item, Some e)
            | Inr (s, iid) \<Rightarrow>
                if cx_rmtree_fails cx \<or> \<not> is_dir d s iid then (d, item, Some Os_Error)
                else (journal (cx_journal_lost cx) (dir_drop d s iid)
                        \<lparr>je_ts = now_iso cx, je_item_id = iid, je_from = state_value s,
                         je_to = ''removed'', je_reason = ''removed'', je_actor = actor,
                         je_attempts = qi_attempts item, je_detail = []\<rparr>,
                      item, None)))"

definition queue_counts :: "json_parser \<Rightarrow> queue_disk \<Rightarrow> (item_state \<times> nat) list" where
  "queue_counts parse d =
     (let its = queue_items parse d []
      in map (\<lambda>s. (s, length (filter (\<lambda>i. qi_state i = s) its))) all_states)"

definition next_ready ::
  "fromiso \<Rightarrow> json_parser \<Rightarrow> control_dir \<Rightarrow> queue_disk \<Rightarrow> int \<Rightarrow> queue_item option" where
  "next_ready fromiso parse c d now =
     (if is_paused fromiso c now then None
      else find (\<lambda>i. ready_at fromiso i now) (queue_items parse d [QUEUED]))"

end
