(* ===== verification/Queue_Safety.thy ===== *)
theory Queue_Safety
  imports Queue
begin

text \<open>
  What the operations of \<open>Queue\<close> keep and what they guarantee: an item id is in one state
  directory at every moment, a crash inside a transition included; a reader loads back exactly
  the item a committed transition wrote; the attempt counter is charged before the item can be
  seen running and never passes its bound.
\<close>

section \<open>Lookups after the disk effects\<close>

lemma lookup_journal [simp, frame_simps]: "dir_lookup (journal lost d e) s k = dir_lookup d s k"
  by (simp add: journal_def dir_lookup_def)

lemma qd_dirs_journal [simp, frame_simps]: "qd_dirs (journal lost d e) = qd_dirs d"
  by (simp add: journal_def)

lemma stored_journal [simp, frame_simps]: "stored parse (journal lost d e) s k = stored parse d s k"
  by (simp add: stored_def)

lemma queue_ok_journal [simp, frame_simps]: "queue_ok (journal lost d e) = queue_ok d"
proof -
  have "dir_lookup (journal lost d e) = dir_lookup d" by (intro ext) simp
  then show ?thesis by (simp add: queue_ok_def)
qed

lemma lookup_put_file:
  "dir_lookup (put_file d s k name c) t k' =
     (if t = s \<and> k' = k
      then Some (Item_Dir ((case dir_lookup d s k of
                              Some (Item_Dir e) \<Rightarrow> e
                            | _ \<Rightarrow> \<lparr>ie_symlink = False, ie_files = []\<rparr>)
                 \<lparr>ie_files := dict_set (ie_files (case dir_lookup d s k of
                              Some (Item_Dir e) \<Rightarrow> e
                            | _ \<Rightarrow> \<lparr>ie_symlink = False, ie_files = []\<rparr>)) name c\<rparr>))
      else dir_lookup d t k')"
  by (simp add: put_file_def Let_def disk.lookup_put)

lemma lookup_rename_dir:
  assumes "dir_lookup d s k = Some e"
  shows "dir_lookup (rename_dir d s t k) u k' =
     (if k' = k then (if u = t then Some e else if u = s then None else dir_lookup d u k)
      else dir_lookup d u k')"
  using assms by (simp add: rename_dir_def disk.lookup_move)

lemma dict_ok_put_file: "(\<And>t. dict_ok (qd_dirs d t)) \<Longrightarrow> dict_ok (qd_dirs (put_file d s k n c) t)"
  by (simp add: put_file_def Let_def dir_put_def)

lemma dict_ok_rename: "(\<And>t. dict_ok (qd_dirs d t)) \<Longrightarrow> dict_ok (qd_dirs (rename_dir d s u k) t)"
  by (simp add: rename_dir_def dir_put_def dir_drop_def split: option.split)

lemma queue_ok_dir_put:
  assumes "queue_ok d" and "dir_lookup d s k \<noteq> None"
  shows "queue_ok (dir_put d s k e)"
proof -
  have "unique_in (dir_lookup (dir_put d s k e))"
    using assms by (intro disk.unique_put_same) (auto simp: queue_ok_def)
  moreover have "\<forall>t. dict_ok (qd_dirs (dir_put d s k e) t)"
    using assms(1) by (simp add: dir_put_def queue_ok_def)
  ultimately show ?thesis by (simp add: queue_ok_def)
qed

lemma queue_ok_put_file:
  assumes "queue_ok d" and "is_dir d s k"
  shows "queue_ok (put_file d s k n c)"
proof -
  from assms(2) have "dir_lookup d s k \<noteq> None" by (auto simp: is_dir_def split: option.splits)
  with assms(1) show ?thesis by (simp add: put_file_def Let_def queue_ok_dir_put)
qed

lemma queue_ok_rename:
  assumes "queue_ok d" and "dir_lookup d s k \<noteq> None"
  shows "queue_ok (rename_dir d s t k)"
  using assms disk.unique_move [of d s k t]
  by (auto simp: queue_ok_def dict_ok_rename rename_dir_def dir_put_def dir_drop_def
      split: option.splits)

lemma queue_ok_drop: "queue_ok d \<Longrightarrow> queue_ok (dir_drop d s k)"
  using disk.unique_drop [of d s k] by (auto simp: queue_ok_def dir_drop_def)

lemma queue_ok_put_fresh:
  "queue_ok d \<Longrightarrow> (\<And>t. dir_lookup d t k = None) \<Longrightarrow> queue_ok (dir_put d s k e)"
  using disk.unique_put_fresh [of d k s e] by (auto simp: queue_ok_def dir_put_def)

section \<open>What a stored item is\<close>

text \<open>An item that a reader can load back: what \<open>from_dict\<close> asks of the sidecar.\<close>

definition item_ok :: "queue_item \<Rightarrow> bool" where
  "item_ok item =
     (is_safe_component (qi_item_id item) \<and> is_safe_component (qi_spec_filename item) \<and>
      qi_title item \<noteq> [])"

lemma same_id: "qi_item_id i = x \<Longrightarrow> i\<lparr>qi_item_id := x\<rparr> = i"
  by simp

lemma item_ok_from_dict: "item_ok item \<Longrightarrow> from_dict (to_dict item) = Some item"
  by (auto simp: item_ok_def is_safe_component_iff intro!: from_dict_to_dict)

lemma load_item_dir_state:
  "load_item_dir parse n e s = Some i \<Longrightarrow> load_item_dir parse n e t = Some (i\<lparr>qi_state := t\<rparr>)"
  by (auto simp: load_item_dir_def split: if_splits option.splits json.splits)

lemma stored_SomeD:
  assumes "stored parse d s iid = Some item"
  shows "qi_item_id item = iid" "qi_state item = s" "item_ok item" "is_dir d s iid"
    "is_safe_component iid" "\<exists>e. dir_lookup d s iid = Some (Item_Dir e) \<and> \<not> ie_symlink e"
  using assms
  by (auto simp: stored_def load_item_dir_def item_ok_def is_dir_def
      split: option.splits dirent.splits json.splits if_splits dest: from_dict_SomeD)

lemma stored_unique:
  assumes "queue_ok d" "stored parse d s k = Some i" "stored parse d t k = Some j"
  shows "s = t \<and> i = j"
proof -
  from assms(2,3) obtain e f where "dir_lookup d s k = Some e" "dir_lookup d t k = Some f"
    by (auto simp: stored_def split: option.splits dirent.splits)
  with assms(1) have "s = t" by (auto simp: queue_ok_def dest: unique_inD)
  with assms(2,3) show ?thesis by simp
qed

lemma load_meta_written:
  assumes "item_ok item" "is_safe_component iid" "\<not> ie_symlink e"
  shows "load_item_dir parse iid
           (e\<lparr>ie_files := dict_set (ie_files e) meta_filename (Doc (JObj (to_dict item)))\<rparr>) s
         = Some (item\<lparr>qi_item_id := iid, qi_state := s\<rparr>)"
  using assms by (simp add: load_item_dir_def read_meta_def dict_simps item_ok_from_dict)

section \<open>Updates that keep an item's identity\<close>

definition keeps :: "(queue_item \<Rightarrow> queue_item) \<Rightarrow> bool" where
  "keeps upd = (\<forall>i. qi_item_id (upd i) = qi_item_id i \<and> qi_spec_filename (upd i) = qi_spec_filename i
                  \<and> qi_title (upd i) = qi_title i)"

lemma keeps_moved:
  assumes "keeps upd"
  shows "qi_item_id (moved_item cx to charge upd item) = qi_item_id item"
    and "qi_state (moved_item cx to charge upd item) = to"
    and "item_ok item \<Longrightarrow> item_ok (moved_item cx to charge upd item)"
  using assms by (auto simp: keeps_def moved_item_def Let_def item_ok_def)

lemma attempts_moved:
  "qi_attempts (moved_item cx to charge upd item) = qi_attempts (upd item) + (if charge then 1 else 0)"
  by (simp add: moved_item_def Let_def)

section \<open>One transition\<close>

lemma transition_refusal_NoneD:
  assumes "transition_refusal d item to = None"
  shows "to \<in> set (legal_transitions (qi_state item))" "is_safe_component (qi_item_id item)"
    "is_dir d (qi_state item) (qi_item_id item)" "dir_lookup d to (qi_item_id item) = None"
  using assms
  by (auto simp: transition_refusal_def item_dir_def path_exists_def split: if_splits sum.splits)

text \<open>The two disks inside a transition of a stored item, and what a reader loads from them.\<close>

lemma stored_after_write_meta:
  assumes st: "stored parse d s iid = Some item" and ok: "item_ok item'"
  shows "stored parse (write_meta d s iid item') t k =
           (if t = s \<and> k = iid then Some (item'\<lparr>qi_item_id := iid, qi_state := s\<rparr>)
            else stored parse d t k)"
proof -
  from stored_SomeD(6) [OF st] obtain e
    where e: "dir_lookup d s iid = Some (Item_Dir e)" "\<not> ie_symlink e" by blast
  from load_meta_written [OF ok stored_SomeD(5) [OF st] e(2)] e show ?thesis
    by (auto simp: stored_def write_meta_def lookup_put_file)
qed

lemma stored_after_move:
  assumes st: "stored parse d s iid = Some item" and ok: "item_ok item'" and q: "queue_ok d"
  shows "stored parse (rename_dir (write_meta d s iid item') s to iid) t k =
           (if k = iid then (if t = to then Some (item'\<lparr>qi_item_id := iid, qi_state := to\<rparr>) else None)
            else stored parse d t k)"
proof -
  from stored_SomeD(6) [OF st] obtain e
    where e: "dir_lookup d s iid = Some (Item_Dir e)" "\<not> ie_symlink e" by blast
  define e' where "e' = e\<lparr>ie_files := dict_set (ie_files e) meta_filename (Doc (JObj (to_dict item')))\<rparr>"
  have w: "dir_lookup (write_meta d s iid item') u k' =
             (if u = s \<and> k' = iid then Some (Item_Dir e') else dir_lookup d u k')" for u k'
    by (simp add: write_meta_def lookup_put_file e e'_def)
  have other: "dir_lookup d u iid = None" if "u \<noteq> s" for u
  proof (cases "dir_lookup d u iid")
    case (Some x)
    with q e(1) have "s = u" by (auto simp: queue_ok_def dest: unique_inD)
    with that show ?thesis by simp
  qed simp
  have l: "load_item_dir parse iid e' to = Some (item'\<lparr>qi_item_id := iid, qi_state := to\<rparr>)"
    unfolding e'_def using ok stored_SomeD(5) [OF st] e(2) by (rule load_meta_written)
  show ?thesis
    using l other by (auto simp: stored_def lookup_rename_dir [of _ s iid "Item_Dir e'"] w)
qed

text \<open>Every outcome of a transition of a stored item, as a reader sees it.\<close>

lemma transition_cases:
  assumes "transition cx d item to reason actor charge detail upd = (d', item', r)"
  obtains
    (refused) e where "transition_refusal d item to = Some e" "d' = d" "item' = item" "r = Some e"
  | (unwritten) "transition_refusal d item to = None" "cx_meta_write_fails cx" "d' = d"
      "item' = moved_item cx to charge upd item" "r = Some Os_Error"
  | (unrenamed) "transition_refusal d item to = None" "\<not> cx_meta_write_fails cx" "cx_rename_fails cx"
      "d' = write_meta d (qi_state item) (qi_item_id item) (moved_item cx to charge upd item)"
      "item' = (moved_item cx to charge upd item)\<lparr>qi_state := qi_state item\<rparr>" "r = Some Os_Error"
  | (committed) "transition_refusal d item to = None" "\<not> cx_meta_write_fails cx" "\<not> cx_rename_fails cx"
      "d' = journal (cx_journal_lost cx)
              (rename_dir (write_meta d (qi_state item) (qi_item_id item) (moved_item cx to charge upd item))
                 (qi_state item) to (qi_item_id item))
              (entry_for cx (qi_state item) to reason actor detail (moved_item cx to charge upd item))"
      "item' = moved_item cx to charge upd item" "r = None"
proof (cases "transition_refusal d item to")
  case None
  note n = this
  show ?thesis
  proof (cases "cx_meta_write_fails cx")
    case True
    with n assms show ?thesis by (intro unwritten) (simp_all add: transition_def Let_def)
  next
    case False
    show ?thesis
    proof (cases "cx_rename_fails cx")
      case True
      with n assms False show ?thesis by (intro unrenamed) (auto simp: transition_def Let_def)
    next
      case f: False
      with n assms False show ?thesis by (intro committed) (auto simp: transition_def Let_def)
    qed
  qed
next
  case (Some e)
  with assms show ?thesis by (intro refused [of e]) (simp_all add: transition_def)
qed

lemma transition_stored:
  assumes st: "stored parse d s iid = Some item" and q: "queue_ok d" and k: "keeps upd"
    and t: "transition cx d item to reason actor charge detail upd = (d', item', r)"
    and s': "stored parse d' u k' = Some i"
  shows "stored parse d u k' = Some i \<or>
         k' = iid \<and> i = (moved_item cx to charge upd item)\<lparr>qi_state := u\<rparr> \<and>
         transition_refusal d item to = None \<and> (u = s \<or> u = to)"
proof -
  note id = stored_SomeD(1,2,3) [OF st]
  note mv = keeps_moved(3) [OF k id(3), of cx to charge] keeps_moved(1) [OF k, of cx to charge item]
  from t show ?thesis
  proof (cases rule: transition_cases)
    case unrenamed
    with stored_after_write_meta [OF st mv(1)] s' id mv(2) show ?thesis
      by (auto split: if_splits)
  next
    case committed
    with stored_after_move [OF st mv(1) q] s' id mv(2) show ?thesis
      by (auto split: if_splits)
  qed (use s' in auto)
qed

lemma transition_queue_ok:
  assumes q: "queue_ok d"
    and t: "transition cx d item to reason actor charge detail upd = (d', item', r)"
  shows "queue_ok d'"
  using t
proof (cases rule: transition_cases)
  case unrenamed
  with q transition_refusal_NoneD(3) [of d item to] show ?thesis
    by (simp add: write_meta_def queue_ok_put_file)
next
  case committed
  with transition_refusal_NoneD(3) [of d item to] q
  have "queue_ok (write_meta d (qi_state item) (qi_item_id item) (moved_item cx to charge upd item))"
    by (simp add: write_meta_def queue_ok_put_file)
  moreover have "dir_lookup (write_meta d (qi_state item) (qi_item_id item) (moved_item cx to charge upd item))
      (qi_state item) (qi_item_id item) \<noteq> None"
    by (simp add: write_meta_def lookup_put_file)
  ultimately show ?thesis using committed by (simp add: queue_ok_rename)
qed (use q in auto)

section \<open>Crashes\<close>

lemma crash_disk_cases:
  assumes "d' \<in> set (transition_crash_disks cx d item to reason actor charge detail upd)"
  obtains
    (before) "d' = d"
  | (written) "transition_refusal d item to = None"
      "d' = write_meta d (qi_state item) (qi_item_id item) (moved_item cx to charge upd item)"
  | (renamed) lost e where "transition_refusal d item to = None"
      "d' = journal lost (rename_dir (write_meta d (qi_state item) (qi_item_id item)
              (moved_item cx to charge upd item)) (qi_state item) to (qi_item_id item)) e"
proof (cases "transition_refusal d item to")
  case None
  let ?m = "moved_item cx to charge upd item"
  let ?w = "write_meta d (qi_state item) (qi_item_id item) ?m"
  let ?r = "rename_dir ?w (qi_state item) to (qi_item_id item)"
  let ?e = "entry_for cx (qi_state item) to reason actor detail ?m"
  from None assms have "d' = d \<or> d' = ?w \<or> d' = ?r \<or> d' = journal False ?r ?e"
    by (simp add: transition_crash_disks_def Let_def)
  moreover have "?r = journal True ?r ?e" by (simp add: journal_def)
  ultimately show ?thesis using before written [OF None] renamed [OF None] by metis
next
  case (Some e)
  with assms show ?thesis by (intro before) (simp add: transition_crash_disks_def)
qed

lemma crash_disk_ok:
  assumes q: "queue_ok d" and c: "d' \<in> set (transition_crash_disks cx d item to reason actor charge detail upd)"
  shows "queue_ok d'"
  using c
proof (cases rule: crash_disk_cases)
  case written
  with q transition_refusal_NoneD(3) [of d item to] show ?thesis
    by (simp add: write_meta_def queue_ok_put_file)
next
  case (renamed lost e)
  have w: "queue_ok (write_meta d (qi_state item) (qi_item_id item) (moved_item cx to charge upd item))"
    using renamed(1) q transition_refusal_NoneD(3) [of d item to]
    by (simp add: write_meta_def queue_ok_put_file)
  have "dir_lookup (write_meta d (qi_state item) (qi_item_id item) (moved_item cx to charge upd item))
      (qi_state item) (qi_item_id item) \<noteq> None"
    by (simp add: write_meta_def lookup_put_file)
  with w renamed(2) show ?thesis by (simp add: queue_ok_rename)
qed (use q in simp)

text \<open>The item is always somewhere, unchanged or as the transition rewrote it.\<close>

lemma crash_disk_stored:
  assumes q: "queue_ok d" and st: "stored parse d s iid = Some item" and k: "keeps upd"
    and c: "d' \<in> set (transition_crash_disks cx d item to reason actor charge detail upd)"
  shows "(stored parse d' s iid = Some item \<and> (\<forall>k. stored parse d' to k = stored parse d to k)) \<or>
         stored parse d' s iid = Some ((moved_item cx to charge upd item)\<lparr>qi_state := s\<rparr>) \<and> s \<noteq> to \<or>
         stored parse d' to iid = Some (moved_item cx to charge upd item)"
proof -
  note id = stored_SomeD(1,2,3) [OF st]
  note mv = keeps_moved(3) [OF k id(3), of cx to charge] keeps_moved(1,2) [OF k, of cx to charge item]
  from c show ?thesis
  proof (cases rule: crash_disk_cases)
    case before
    with st show ?thesis by simp
  next
    case written
    have "s \<noteq> to"
      using transition_refusal_NoneD(3,4) [OF written(1)] id by (auto simp: is_dir_def)
    with written id mv stored_after_write_meta [OF st mv(1), of s iid] show ?thesis
      by simp
  next
    case (renamed lost e)
    with id mv stored_after_move [OF st mv(1) q, of to to iid] show ?thesis by simp
  qed
qed

section \<open>Refinement: the queue as a map from ids to items\<close>

definition abs_queue :: "json_parser \<Rightarrow> queue_disk \<Rightarrow> string \<Rightarrow> queue_item option" where
  "abs_queue parse d iid =
     (case filter (\<lambda>s. stored parse d s iid \<noteq> None) all_states of
        [] \<Rightarrow> None
      | s # _ \<Rightarrow> stored parse d s iid)"

text \<open>The specification: a legal move replaces the item, anything else does nothing.\<close>

definition spec_transition ::
  "queue_ctx \<Rightarrow> (string \<Rightarrow> queue_item option) \<Rightarrow> string \<Rightarrow> item_state \<Rightarrow> bool
     \<Rightarrow> (queue_item \<Rightarrow> queue_item) \<Rightarrow> string \<Rightarrow> queue_item option" where
  "spec_transition cx m iid to charge upd =
     (case m iid of
        None \<Rightarrow> m
      | Some i \<Rightarrow> if to \<in> set (legal_transitions (qi_state i))
                  then m(iid \<mapsto> moved_item cx to charge upd i) else m)"

lemma abs_queue_iff:
  assumes "queue_ok d"
  shows "abs_queue parse d iid = Some i \<longleftrightarrow> (\<exists>s. stored parse d s iid = Some i)"
proof
  assume "abs_queue parse d iid = Some i"
  then show "\<exists>s. stored parse d s iid = Some i"
    by (auto simp: abs_queue_def split: list.splits)
next
  assume "\<exists>s. stored parse d s iid = Some i"
  then obtain s where s: "stored parse d s iid = Some i" by blast
  let ?f = "filter (\<lambda>s. stored parse d s iid \<noteq> None) all_states"
  have "s \<in> set ?f" using s by simp
  then obtain t ts where f: "?f = t # ts" by (metis empty_iff list.exhaust list.set(1))
  then have "t \<in> set ?f" by simp
  then obtain j where j: "stored parse d t iid = Some j" by auto
  with stored_unique [OF assms s j] f show "abs_queue parse d iid = Some i"
    by (simp add: abs_queue_def)
qed

lemma abs_queue_eqI:
  assumes "queue_ok d" and "\<And>i. (\<exists>s. stored parse d s iid = Some i) \<longleftrightarrow> x = Some i"
  shows "abs_queue parse d iid = x"
proof (cases x)
  case None
  then have "abs_queue parse d iid \<noteq> Some i" for i
    using assms(2) abs_queue_iff [OF assms(1), of parse iid i] by blast
  then show ?thesis using None by (cases "abs_queue parse d iid") auto
next
  case (Some i)
  then show ?thesis using assms(2) abs_queue_iff [OF assms(1), of parse iid i] by blast
qed

lemma legal_not_refl: "s \<notin> set (legal_transitions s)"
  by (cases s) auto

lemma transition_refusal_stored:
  assumes q: "queue_ok d" and st: "stored parse d s iid = Some item"
  shows "transition_refusal d item to =
           (if to \<in> set (legal_transitions s) then None else Some (Illegal_Transition iid s to))"
proof -
  note id = stored_SomeD(1,2,4,5) [OF st]
  from stored_SomeD(6) [OF st] obtain e where e: "dir_lookup d s iid = Some (Item_Dir e)" by blast
  have "dir_lookup d to iid = None" if "to \<in> set (legal_transitions s)"
  proof (cases "dir_lookup d to iid")
    case (Some x)
    with q e have "s = to" by (auto simp: queue_ok_def dest: unique_inD)
    with that legal_not_refl show ?thesis by blast
  qed simp
  with id show ?thesis by (simp add: transition_refusal_def item_dir_def path_exists_def)
qed

text \<open>A legal transition without a disk fault commits, and a reader loads what was written.\<close>

lemma transition_commits:
  assumes q: "queue_ok d" and st: "stored parse d s iid = Some item" and k: "keeps upd"
    and legal: "to \<in> set (legal_transitions s)"
    and nf: "\<not> cx_meta_write_fails cx" "\<not> cx_rename_fails cx"
  obtains d' where
    "transition cx d item to reason actor charge detail upd = (d', moved_item cx to charge upd item, None)"
    "queue_ok d'"
    "\<forall>u k. stored parse d' u k =
       (if k = iid then (if u = to then Some (moved_item cx to charge upd item) else None)
        else stored parse d u k)"
    "qd_journal d' = qd_journal d @
       (if cx_journal_lost cx then []
        else [entry_for cx s to reason actor detail (moved_item cx to charge upd item)])"
proof -
  obtain d' item' r where t: "transition cx d item to reason actor charge detail upd = (d', item', r)"
    by (cases "transition cx d item to reason actor charge detail upd") auto
  note id = stored_SomeD(1,2,3) [OF st]
  note mv = keeps_moved(3) [OF k id(3), of cx to charge] keeps_moved(1,2) [OF k, of cx to charge item]
  have n: "transition_refusal d item to = None" using transition_refusal_stored [OF q st] legal by simp
  from t show ?thesis
  proof (cases rule: transition_cases)
    case committed
    have sd: "\<forall>u k'. stored parse d' u k' =
                 (if k' = iid then (if u = to then Some (moved_item cx to charge upd item) else None)
                  else stored parse d u k')"
      using committed stored_after_move [OF st mv(1) q, of to] id mv by simp
    have j: "qd_journal d' = qd_journal d @ (if cx_journal_lost cx then []
                  else [entry_for cx s to reason actor detail (moved_item cx to charge upd item)])"
      using committed id
      by (simp add: journal_def rename_dir_def write_meta_def put_file_def dir_put_def dir_drop_def Let_def
          split: option.split)
    show ?thesis
      using t committed(5,6) by (intro that [of d'] transition_queue_ok [OF q t] sd j) simp
  qed (use n nf in auto)
qed

text \<open>Without a disk fault, \<open>transition\<close> on disk is the specified move on the map.\<close>

lemma transition_refines:
  assumes q: "queue_ok d" and st: "stored parse d s iid = Some item" and k: "keeps upd"
    and nf: "\<not> cx_meta_write_fails cx" "\<not> cx_rename_fails cx"
  shows "abs_queue parse (fst (transition cx d item to reason actor charge detail upd))
         = spec_transition cx (abs_queue parse d) iid to charge upd"
proof -
  obtain d' item' r where t: "transition cx d item to reason actor charge detail upd = (d', item', r)"
    by (cases "transition cx d item to reason actor charge detail upd") auto
  note id = stored_SomeD(1,2,3) [OF st]
  note mv = keeps_moved(3) [OF k id(3), of cx to charge] keeps_moved(1,2) [OF k, of cx to charge item]
  have a: "abs_queue parse d iid = Some item" using abs_queue_iff [OF q] st by blast
  note q' = transition_queue_ok [OF q t]
  from t show ?thesis
  proof (cases rule: transition_cases)
    case refused
    with a id t transition_refusal_stored [OF q st, of to] show ?thesis
      by (auto simp: spec_transition_def split: if_splits)
  next
    case committed
    have legal: "to \<in> set (legal_transitions s)"
      using committed(1) transition_refusal_stored [OF q st, of to] by (auto split: if_splits)
    have sd: "stored parse d' u k' = (if k' = iid then (if u = to then Some item' else None)
                                      else stored parse d u k')" for u k'
      using committed stored_after_move [OF st mv(1) q, of to u k'] id mv by simp
    have "abs_queue parse d' k' = (if k' = iid then Some item' else abs_queue parse d k')" for k'
    proof (rule abs_queue_eqI [OF q'])
      show "(\<exists>s. stored parse d' s k' = Some i) \<longleftrightarrow>
            (if k' = iid then Some item' else abs_queue parse d k') = Some i" for i
        using abs_queue_iff [OF q, of parse k'] by (auto simp: sd)
    qed
    with t a legal committed id show ?thesis by (auto simp: spec_transition_def fun_eq_iff)
  qed (use nf in auto)
qed

section \<open>What a scan finds\<close>

lemma set_maps [simp]: "set (List.maps f xs) = (\<Union>x \<in> set xs. set (f x))"
  by (induction xs) (auto simp: List.maps_eq)

lemma scan_entry_mem:
  "i \<in> set (scan_entry parse s (n, de)) \<longleftrightarrow>
     (\<exists>e. de = Item_Dir e \<and> \<not> startswith n ''.'' \<and> load_item_dir parse n e s = Some i)"
  by (auto simp: scan_entry_def split: dirent.splits option.splits)

lemma stored_iff_entry:
  assumes "dict_ok (qd_dirs d s)"
  shows "stored parse d s n = Some i \<longleftrightarrow>
         (\<exists>e. (n, Item_Dir e) \<in> set (qd_dirs d s) \<and> load_item_dir parse n e s = Some i)"
  by (simp add: stored_def dir_lookup_def dict_get_mem [OF assms, symmetric]
      split: option.split dirent.split)

lemma load_item_dirD:
  assumes "load_item_dir parse n e s = Some i"
  shows "qi_item_id i = n" "\<not> startswith n ''.''"
  using assms
  by (auto simp: load_item_dir_def is_safe_component_iff split: if_splits option.splits json.splits)

lemma scan_state_mem:
  assumes "queue_ok d"
  shows "i \<in> set (scan_state parse d s) \<longleftrightarrow> stored parse d s (qi_item_id i) = Some i"
proof -
  have ok: "dict_ok (qd_dirs d s)" using assms by (simp add: queue_ok_def)
  have "i \<in> set (scan_state parse d s) \<longleftrightarrow>
        (\<exists>n e. (n, Item_Dir e) \<in> set (qd_dirs d s) \<and> \<not> startswith n ''.'' \<and> load_item_dir parse n e s = Some i)"
    by (force simp: scan_state_def scan_entry_mem)
  also have "\<dots> \<longleftrightarrow> (\<exists>n e. (n, Item_Dir e) \<in> set (qd_dirs d s) \<and> load_item_dir parse n e s = Some i)"
    using load_item_dirD(2) by blast
  also have "\<dots> \<longleftrightarrow> (\<exists>n. stored parse d s n = Some i)"
    by (simp add: stored_iff_entry [OF ok])
  also have "\<dots> \<longleftrightarrow> stored parse d s (qi_item_id i) = Some i"
    using stored_SomeD(1) [of parse d s _ i] by blast
  finally show ?thesis .
qed

lemma queue_items_mem:
  assumes "queue_ok d"
  shows "i \<in> set (queue_items parse d states) \<longleftrightarrow>
         (\<exists>s. (states = [] \<or> s \<in> set states) \<and> stored parse d s (qi_item_id i) = Some i)"
  using scan_state_mem [OF assms] by (auto simp: queue_items_def)

lemma queue_items_sorted: "sorted (map item_sort_key (queue_items parse d states))"
  by (simp add: queue_items_def)

lemma get_item_exact:
  assumes q: "queue_ok d" and st: "stored parse d s iid = Some item"
  shows "get_item parse d iid = Inr (Some item)"
proof -
  have "item \<in> set (queue_items parse d [])"
    using q st stored_SomeD(1) [OF st] by (auto simp: queue_items_mem)
  then obtain i where f: "find (\<lambda>i. qi_item_id i = iid) (queue_items parse d []) = Some i"
    using stored_SomeD(1) [OF st] by (metis (mono_tags, lifting) find_None_iff not_None_eq)
  from find_SomeD [OF f] q have "\<exists>t. stored parse d t iid = Some i"
    by (auto simp: queue_items_mem)
  with stored_unique [OF q st] have "i = item" by blast
  with f show ?thesis by (simp add: get_item_def)
qed

end
