(* ===== verification/Queue_Machine.thy ===== *)
theory Queue_Machine
  imports Queue_Safety
begin

text \<open>
  The queue as a machine: every operation of \<open>Queue\<close> on an item read under the lock, the
  disks a crash inside a transition leaves, and the invariants of every reachable disk. The
  budget theorem counts the committed starts of one item along a run and bounds them by the
  attempts it had left.
\<close>

section \<open>Operations as data\<close>

datatype queue_op =
    Op_Lease int string string
  | Op_Start string string
  | Op_Adopt int string string
  | Op_Finish_Ok string "string list"
  | Op_Finish_Failed string string "string list"
  | Op_Await_Approval string string string "string list"
  | Op_Await_Answer string string string
  | Op_Answer string string bool string string
  | Op_Relink string string string
  | Op_Set_Priority int string
  | Op_Poison string string
  | Op_Requeue string string bool "string option"
  | Op_Remove string

fun apply_op :: "queue_ctx \<Rightarrow> json_parser \<Rightarrow> queue_disk \<Rightarrow> queue_item \<Rightarrow> queue_op \<Rightarrow> op_result" where
  "apply_op cx parse d item (Op_Lease pid host actor) = lease_item cx d item pid host actor"
| "apply_op cx parse d item (Op_Start run_id actor) = start_item cx d item run_id actor"
| "apply_op cx parse d item (Op_Adopt pid host actor) = adopt_lease cx d item pid host actor"
| "apply_op cx parse d item (Op_Finish_Ok actor urls) = finish_ok cx d item actor urls"
| "apply_op cx parse d item (Op_Finish_Failed err actor urls) = finish_failed cx d item err actor urls"
| "apply_op cx parse d item (Op_Await_Approval reason run_id actor urls) =
     await_approval cx d item reason run_id actor urls"
| "apply_op cx parse d item (Op_Await_Answer reason run_id actor) =
     await_answer cx d item reason run_id actor"
| "apply_op cx parse d item (Op_Answer body actor reset row run) =
     (case answer_item cx d item body actor reset row run of
        (d', i', Inl e) \<Rightarrow> (d', i', Some e) | (d', i', Inr _) \<Rightarrow> (d', i', None))"
| "apply_op cx parse d item (Op_Relink run_id reason actor) = relink_run cx d item run_id reason actor"
| "apply_op cx parse d item (Op_Set_Priority p actor) =
     (case set_priority cx parse d (qi_item_id item) p actor of
        (d', Inl e) \<Rightarrow> (d', item, Some e) | (d', Inr (i', _)) \<Rightarrow> (d', i', None))"
| "apply_op cx parse d item (Op_Poison reason actor) = poison_item cx d item reason actor"
| "apply_op cx parse d item (Op_Requeue reason actor reset nb) = requeue_item cx d item reason actor reset nb"
| "apply_op cx parse d item (Op_Remove actor) = remove_item cx d item actor"

fun resets :: "queue_op \<Rightarrow> bool" where
  "resets (Op_Requeue _ _ reset _) = reset"
| "resets (Op_Answer _ _ reset _ _) = reset"
| "resets _ = False"

fun is_start :: "queue_op \<Rightarrow> bool" where
  "is_start (Op_Start _ _) = True"
| "is_start _ = False"

section \<open>What one operation does to what a reader loads\<close>

text \<open>
  \<open>evolved reset start s item u i\<close>: \<open>i\<close>, loaded from state \<open>u\<close>, is what the operation made of
  \<open>item\<close>, which it read from \<open>s\<close>.
\<close>

definition evolved ::
  "bool \<Rightarrow> bool \<Rightarrow> item_state \<Rightarrow> queue_item \<Rightarrow> item_state \<Rightarrow> queue_item \<Rightarrow> bool" where
  "evolved reset start s item u i =
     (qi_max_attempts i = qi_max_attempts item \<and>
      qi_spec_filename i = qi_spec_filename item \<and>
      (u = s \<or> u \<in> set (legal_transitions s)) \<and>
      (if start then qi_attempts i = qi_attempts item + 1 \<and> qi_attempts item < qi_max_attempts item
       else if reset then qi_attempts i = 0
       else qi_attempts i = qi_attempts item) \<and>
      (u = RUNNING \<longrightarrow> s = RUNNING \<or> start))"

definition tame :: "bool \<Rightarrow> (queue_item \<Rightarrow> queue_item) \<Rightarrow> bool" where
  "tame reset upd =
     (keeps upd \<and> (\<forall>i. qi_max_attempts (upd i) = qi_max_attempts i \<and>
                       qi_attempts (upd i) = (if reset then 0 else qi_attempts i)))"

lemma transition_evolved:
  assumes q: "queue_ok d" and st: "stored parse d s iid = Some item"
    and tm: "tame (reset \<and> \<not> start) upd"
    and r: "start \<Longrightarrow> qi_attempts item < qi_max_attempts item"
    and run: "to = RUNNING \<Longrightarrow> start"
    and t: "transition cx d item to reason actor start detail upd = (d', item', res)"
    and s': "stored parse d' u k = Some i"
  shows "stored parse d u k = Some i \<or> k = iid \<and> evolved reset start s item u i"
proof -
  have kp: "keeps upd" using tm by (simp add: tame_def)
  from transition_stored [OF st q kp t s'] show ?thesis
  proof (elim disjE)
    assume a: "k = iid \<and> i = (moved_item cx to start upd item)\<lparr>qi_state := u\<rparr> \<and>
                transition_refusal d item to = None \<and> (u = s \<or> u = to)"
    have "to \<in> set (legal_transitions s)"
      using a transition_refusal_NoneD(1) [of d item to] stored_SomeD(2) [OF st] by simp
    with a r run tm kp show ?thesis
      by (auto simp: evolved_def moved_item_def Let_def tame_def keeps_def split: if_splits)
  qed simp
qed

definition op_fine ::
  "json_parser \<Rightarrow> queue_disk \<Rightarrow> item_state \<Rightarrow> queue_item \<Rightarrow> bool \<Rightarrow> bool \<Rightarrow> queue_disk \<Rightarrow> bool" where
  "op_fine parse d s item reset start d' =
     (queue_ok d' \<and>
      (\<forall>u k i. stored parse d' u k = Some i \<longrightarrow>
         stored parse d u k = Some i \<or> k = qi_item_id item \<and> evolved reset start s item u i))"

lemma op_fine_refl [intro]: "queue_ok d \<Longrightarrow> op_fine parse d s item reset start d"
  by (simp add: op_fine_def)

lemma op_fine_transition:
  assumes "queue_ok d" and st: "stored parse d s iid = Some item"
    and "tame (reset \<and> \<not> start) upd"
    and "start \<Longrightarrow> qi_attempts item < qi_max_attempts item"
    and "to = RUNNING \<Longrightarrow> start"
    and "transition cx d item to reason actor start detail upd = (d', item', res)"
  shows "op_fine parse d s item reset start d'"
  using transition_evolved [OF assms] transition_queue_ok [OF assms(1,6)] stored_SomeD(1) [OF st]
  unfolding op_fine_def by blast

lemma op_fine_rewrite:
  assumes q: "queue_ok d" and st: "stored parse d s iid = Some item"
    and same: "qi_item_id item1 = iid" "qi_state item1 = s" "item_ok item1"
      "qi_max_attempts item1 = qi_max_attempts item" "qi_attempts item1 = qi_attempts item"
      "qi_spec_filename item1 = qi_spec_filename item"
    and t: "rewrite_in_place cx d item1 reason actor detail = (d', item', res)"
  shows "op_fine parse d s item False False d'"
proof -
  have d: "d' = d \<or> (\<exists>e. d' = journal (cx_journal_lost cx) (write_meta d s iid item1) e)"
    using t same by (auto simp: rewrite_in_place_def split: if_splits)
  then have "queue_ok d'"
    using q stored_SomeD(4) [OF st] by (auto simp: write_meta_def queue_ok_put_file)
  moreover have "stored parse d u k = Some i \<or> k = iid \<and> evolved False False s item u i"
    if "stored parse d' u k = Some i" for u k i
    using d that stored_after_write_meta [OF st same(3), of u k] same
    by (auto simp: evolved_def split: if_splits)
  ultimately show ?thesis using stored_SomeD(1) [OF st] by (simp add: op_fine_def)
qed

lemma put_spec_stored:
  assumes "is_dir d s iid" and "name \<noteq> meta_filename"
  shows "stored parse (put_file d s iid name c) u k = stored parse d u k"
  using assms
  by (auto simp: stored_def lookup_put_file is_dir_def load_item_dir_def read_meta_def dict_simps
      split: option.splits dirent.splits)

section \<open>Every operation, read under the lock\<close>

text \<open>
  The item an operation is given is the one a reader loads; its spec is not called
  \<open>meta.json\<close> (an item added with that name would share one file with its sidecar).
\<close>

lemma tame_intros [intro]:
  "tame False (\<lambda>i. i\<lparr>qi_lease_pid := a, qi_lease_host := b, qi_lease_expires_at := c\<rparr>)"
  "tame False (\<lambda>i. i\<lparr>qi_last_run_id := e\<rparr>)"
  "tame False (\<lambda>i. i\<lparr>qi_last_error := f, qi_pr_urls := g\<rparr>)"
  "tame False (\<lambda>i. i\<lparr>qi_pr_urls := g, qi_last_run_id := e\<rparr>)"
  "tame False (\<lambda>i. i\<lparr>qi_poison_reason := h\<rparr>)"
  "tame reset (requeue_updates reset nb)"
  "tame reset (answer_updates reset)"
  by (auto simp: tame_def keeps_def requeue_updates_def answer_updates_def Let_def split: option.split)

lemma op_fine_answer:
  assumes q: "queue_ok d" and st: "stored parse d s iid = Some item"
    and sp: "qi_spec_filename item \<noteq> meta_filename"
    and t: "answer_item cx d item body actor reset row run = (d', item', res)"
  shows "op_fine parse d s item reset False d'"
proof (cases "d' = d")
  case True
  with q show ?thesis by blast
next
  case False
  note id = stored_SomeD(1,2,4) [OF st]
  let ?d1 = "put_file d s iid (qi_spec_filename item) (Text body)"
  obtain detail r2 where tr: "transition cx ?d1 item QUEUED ''answered'' actor False detail
      (answer_updates reset) = (d', item', r2)"
    using t False id
    by (auto simp: answer_item_def spec_path_def item_dir_def Let_def
        split: if_splits option.splits content.splits sum.splits prod.splits)
  have s1: "stored parse ?d1 u k = stored parse d u k" for u k
    using id(3) sp by (rule put_spec_stored)
  then have st1: "stored parse ?d1 s iid = Some item" using st by simp
  have q1: "queue_ok ?d1" using q id(3) by (rule queue_ok_put_file)
  have "op_fine parse ?d1 s item reset False d'"
    by (rule op_fine_transition [OF q1 st1 _ _ _ tr]) auto
  then show ?thesis by (simp add: op_fine_def s1)
qed

lemma op_fine_remove:
  assumes "queue_ok d" and "remove_item cx d item actor = (d', item', res)"
  shows "op_fine parse d s item reset start d'"
  using assms
  by (auto simp: remove_item_def op_fine_def queue_ok_drop stored_def disk.lookup_drop
      split: if_splits sum.splits)

lemma op_fine_start:
  assumes q: "queue_ok d" and st: "stored parse d s iid = Some item"
    and t: "start_item cx d item run_id actor = (d', item', res)"
  shows "op_fine parse d s item False True d'"
proof (cases "attempts_remaining item \<le> 0")
  case True
  with t q show ?thesis by (auto simp: start_item_def)
next
  case False
  then have "qi_attempts item < qi_max_attempts item" by (simp add: attempts_remaining_def)
  with False t show ?thesis
    by (intro op_fine_transition [OF q st]) (auto simp: start_item_def)
qed

lemma op_fine_set_priority:
  assumes q: "queue_ok d" and st: "stored parse d s iid = Some item"
    and t: "set_priority cx parse d iid p actor = (d', res)"
  shows "op_fine parse d s item False False d'"
proof (cases "d' = d")
  case True
  with q show ?thesis by blast
next
  case False
  have g: "get_item parse d iid = Inr (Some item)" using q st by (rule get_item_exact)
  obtain i' r' reason detail where
    w: "rewrite_in_place cx d (item\<lparr>qi_priority := p, qi_updated_at := now_iso cx\<rparr>) reason actor detail
        = (d', i', r')"
    using t False g by (auto simp: set_priority_def Let_def split: if_splits prod.splits option.splits)
  show ?thesis
    using stored_SomeD(1,2,3) [OF st] by (intro op_fine_rewrite [OF q st _ _ _ _ _ _ w]) (auto simp: item_ok_def)
qed

lemma op_fine_adopt:
  assumes q: "queue_ok d" and st: "stored parse d s iid = Some item"
    and t: "adopt_lease cx d item pid host actor = (d', item', res)"
  shows "op_fine parse d s item False False d'"
proof (cases "d' = d")
  case False
  let ?i = "item\<lparr>qi_lease_pid := pid, qi_lease_host := (if host \<noteq> [] then host else cx_host cx),
    qi_lease_expires_at := lease_until cx, qi_updated_at := now_iso cx\<rparr>"
  obtain i' r' reason detail where w: "rewrite_in_place cx d ?i reason actor detail = (d', i', r')"
    using t False by (auto simp: adopt_lease_def split: if_splits sum.splits prod.splits)
  show ?thesis
    using stored_SomeD(1,2,3) [OF st]
    by (intro op_fine_rewrite [OF q st _ _ _ _ _ _ w]) (auto simp: item_ok_def)
qed (use q in blast)

lemma op_fine_relink:
  assumes q: "queue_ok d" and st: "stored parse d s iid = Some item"
    and t: "relink_run cx d item run_id reason actor = (d', item', res)"
  shows "op_fine parse d s item False False d'"
proof (cases "d' = d")
  case False
  obtain i' r' why detail where
    w: "rewrite_in_place cx d (item\<lparr>qi_last_run_id := run_id, qi_updated_at := now_iso cx\<rparr>) why actor detail
        = (d', i', r')"
    using t False by (auto simp: relink_run_def split: if_splits sum.splits prod.splits)
  show ?thesis
    using stored_SomeD(1,2,3) [OF st]
    by (intro op_fine_rewrite [OF q st _ _ _ _ _ _ w]) (auto simp: item_ok_def)
qed (use q in blast)

lemma apply_op_fine:
  assumes q: "queue_ok d" and st: "stored parse d s iid = Some item"
    and sp: "qi_spec_filename item \<noteq> meta_filename"
    and t: "apply_op cx parse d item op = (d', item', res)"
  shows "op_fine parse d s item (resets op) (is_start op) d'"
proof (cases op)
  case (Op_Answer body actor reset row run)
  with t have "\<exists>r. answer_item cx d item body actor reset row run = (d', item', r)"
    by (auto split: prod.splits sum.splits)
  then show ?thesis using op_fine_answer [OF q st sp] Op_Answer by auto
next
  case (Op_Set_Priority p actor)
  with t stored_SomeD(1) [OF st] have "\<exists>r. set_priority cx parse d iid p actor = (d', r)"
    by (auto split: prod.splits sum.splits)
  then show ?thesis using op_fine_set_priority [OF q st] Op_Set_Priority by auto
next
  case (Op_Poison reason actor)
  show ?thesis
  proof (cases "blank reason")
    case True
    with t q Op_Poison show ?thesis by (auto simp: poison_item_def)
  next
    case False
    with t Op_Poison have "transition cx d item POISON ''poisoned'' actor False []
        (\<lambda>i. i\<lparr>qi_poison_reason := reason\<rparr>) = (d', item', res)"
      by (simp add: poison_item_def)
    from op_fine_transition [OF q st _ _ _ this] Op_Poison show ?thesis by auto
  qed
next
  case (Op_Lease pid host actor)
  with t obtain a b c where tr: "transition cx d item LEASED ''leased'' actor False []
      (\<lambda>i. i\<lparr>qi_lease_pid := a, qi_lease_host := b, qi_lease_expires_at := c\<rparr>) = (d', item', res)"
    by (auto simp: lease_item_def)
  from op_fine_transition [OF q st _ _ _ tr] Op_Lease show ?thesis by auto
next
  case (Op_Finish_Ok actor urls)
  with t obtain u det where tr: "transition cx d item DONE ''completed'' actor False det
      (\<lambda>i. i\<lparr>qi_last_error := [], qi_pr_urls := u\<rparr>) = (d', item', res)"
    by (auto simp: finish_ok_def Let_def)
  from op_fine_transition [OF q st _ _ _ tr] Op_Finish_Ok show ?thesis by auto
next
  case (Op_Finish_Failed err actor urls)
  with t obtain u det where tr: "transition cx d item FAILED ''failed'' actor False det
      (\<lambda>i. i\<lparr>qi_last_error := err, qi_pr_urls := u\<rparr>) = (d', item', res)"
    by (auto simp: finish_failed_def Let_def)
  from op_fine_transition [OF q st _ _ _ tr] Op_Finish_Failed show ?thesis by auto
next
  case (Op_Await_Approval reason run_id actor urls)
  with t obtain u det where tr: "transition cx d item AWAITING_APPROVAL ''awaiting approval'' actor False det
      (\<lambda>i. i\<lparr>qi_pr_urls := u, qi_last_run_id := run_id\<rparr>) = (d', item', res)"
    by (auto simp: await_approval_def Let_def)
  from op_fine_transition [OF q st _ _ _ tr] Op_Await_Approval show ?thesis by auto
next
  case (Op_Await_Answer reason run_id actor)
  with t obtain det where tr: "transition cx d item AWAITING_ANSWER ''awaiting an answer'' actor False det
      (\<lambda>i. i\<lparr>qi_last_run_id := run_id\<rparr>) = (d', item', res)"
    by (auto simp: await_answer_def)
  from op_fine_transition [OF q st _ _ _ tr] Op_Await_Answer show ?thesis by auto
next
  case (Op_Requeue reason actor reset nb)
  with t have "transition cx d item QUEUED reason actor False [] (requeue_updates reset nb) = (d', item', res)"
    by (simp add: requeue_item_def)
  from op_fine_transition [OF q st _ _ _ this] Op_Requeue show ?thesis by auto
qed (use t op_fine_adopt [OF q st] op_fine_relink [OF q st] op_fine_remove [OF q] op_fine_start [OF q st]
     in \<open>auto\<close>)

section \<open>The machine\<close>

definition added_spec_name :: "spec_source \<Rightarrow> add_args \<Rightarrow> string" where
  "added_spec_name src a = (case src of From_Path name _ \<Rightarrow> name | From_Text _ \<Rightarrow> aa_spec_filename a)"

text \<open>
  A step is an operation on an item read under the lock (disk faults included), a process that
  dies inside a transition, an enqueue under a fresh id, or the staging sweep.
\<close>

inductive queue_step :: "json_parser \<Rightarrow> queue_disk \<Rightarrow> queue_disk \<Rightarrow> bool" for parse where
  op: "stored parse d s iid = Some item \<Longrightarrow> apply_op cx parse d item op = (d', item', res) \<Longrightarrow>
       queue_step parse d d'"
| crash: "stored parse d s iid = Some item \<Longrightarrow> tame (reset \<and> \<not> start) upd \<Longrightarrow>
       (start \<Longrightarrow> qi_attempts item < qi_max_attempts item) \<Longrightarrow> (to = RUNNING \<Longrightarrow> start) \<Longrightarrow>
       d' \<in> set (transition_crash_disks cx d item to reason actor start detail upd) \<Longrightarrow>
       queue_step parse d d'"
| add: "add_item cx iid d src a = (d', res) \<Longrightarrow> (\<And>s. dir_lookup d s iid = None) \<Longrightarrow>
       is_safe_component iid \<Longrightarrow> added_spec_name src a \<noteq> meta_filename \<Longrightarrow> queue_step parse d d'"
| sweep: "sweep_staging lost now d = (d', n) \<Longrightarrow> queue_step parse d d'"

definition empty_queue :: queue_disk where
  "empty_queue = \<lparr>qd_dirs = (\<lambda>_. []), qd_staging = [], qd_journal = []\<rparr>"

inductive queue_reachable :: "json_parser \<Rightarrow> queue_disk \<Rightarrow> bool" for parse where
  start: "queue_reachable parse empty_queue"
| step: "queue_reachable parse d \<Longrightarrow> queue_step parse d d' \<Longrightarrow> queue_reachable parse d'"

definition item_inv :: "queue_item \<Rightarrow> bool" where
  "item_inv i =
     (qi_spec_filename i \<noteq> meta_filename \<and> 0 \<le> qi_attempts i \<and>
      qi_attempts i \<le> qi_max_attempts i \<and> 1 \<le> qi_max_attempts i)"

definition queue_inv :: "json_parser \<Rightarrow> queue_disk \<Rightarrow> bool" where
  "queue_inv parse d = (queue_ok d \<and> (\<forall>u k i. stored parse d u k = Some i \<longrightarrow> item_inv i))"

lemma evolved_inv: "item_inv item \<Longrightarrow> evolved reset start s item u i \<Longrightarrow> item_inv i"
  by (auto simp: item_inv_def evolved_def split: if_splits)

lemma op_fine_inv:
  assumes "queue_inv parse d" "stored parse d s iid = Some item" "op_fine parse d s item reset start d'"
  shows "queue_inv parse d'"
  using assms evolved_inv unfolding queue_inv_def op_fine_def by metis

lemma crash_fine:
  assumes q: "queue_ok d" and st: "stored parse d s iid = Some item"
    and tm: "tame (reset \<and> \<not> start) upd"
    and r: "start \<Longrightarrow> qi_attempts item < qi_max_attempts item" and run: "to = RUNNING \<Longrightarrow> start"
    and c: "d' \<in> set (transition_crash_disks cx d item to reason actor start detail upd)"
  shows "op_fine parse d s item reset start d'"
proof -
  note id = stored_SomeD(1,2,3) [OF st]
  have kp: "keeps upd" using tm by (simp add: tame_def)
  note mv = keeps_moved(3) [OF kp id(3), of cx to start] keeps_moved(1) [OF kp, of cx to start item]
  have ev: "evolved reset start s item u ((moved_item cx to start upd item)\<lparr>qi_state := u\<rparr>)"
    if "u = s \<or> u = to" "transition_refusal d item to = None" for u
    using that tm r run transition_refusal_NoneD(1) [OF that(2)] id
    by (auto simp: evolved_def moved_item_def Let_def tame_def keeps_def split: if_splits)
  have "stored parse d u k = Some i \<or> k = qi_item_id item \<and> evolved reset start s item u i"
    if s': "stored parse d' u k = Some i" for u k i
    using c
  proof (cases rule: crash_disk_cases)
    case written
    with ev [of s] stored_after_write_meta [OF st mv(1), of u k] s' id mv(2) show ?thesis
      by (auto simp: same_id split: if_splits)
  next
    case renamed
    with ev [of to] stored_after_move [OF st mv(1) q, of to u k] s' id mv(2) show ?thesis
      by (auto simp: same_id split: if_splits)
  qed (use s' in simp)
  with crash_disk_ok [OF q c] show ?thesis by (simp add: op_fine_def)
qed

lemma path_stem_nonempty: "name \<noteq> [] \<Longrightarrow> path_stem name \<noteq> []"
  by (auto simp: path_stem_def Let_def)

lemma new_item_ok:
  assumes "is_safe_component iid" "is_safe_component sf" "title \<noteq> []"
  shows "item_ok (new_item cx iid title sf m a)"
  using assms by (simp add: item_ok_def new_item_def)

text \<open>\<open>add\<close> publishes one freshly numbered queued item, or nothing.\<close>

lemma add_item_cases:
  assumes t: "add_item cx iid d src a = (d', res)" and sp: "added_spec_name src a \<noteq> meta_filename"
    and safe: "is_safe_component iid" and fresh: "\<forall>s. dir_lookup d s iid = None"
  obtains
    (refused) e where "d' = d" "res = Inl e"
  | (added) title m where "res = Inr (new_item cx iid title (added_spec_name src a) m a)"
      "item_ok (new_item cx iid title (added_spec_name src a) m a)" "1 \<le> m"
      "\<forall>u k. stored parse d' u k =
         (if u = QUEUED \<and> k = iid then Some (new_item cx iid title (added_spec_name src a) m a)
          else stored parse d u k)"
      "queue_ok d \<longrightarrow> queue_ok d'"
proof (cases "d' = d \<and> (\<exists>e. res = Inl e)")
  case True
  then show ?thesis using refused by blast
next
  case False
  define sf where "sf = added_spec_name src a"
  define title where "title = (if aa_title a \<noteq> [] then aa_title a
      else (case src of From_Path name _ \<Rightarrow> path_stem name | From_Text _ \<Rightarrow> ''untitled''))"
  define m where "m = (case aa_max_attempts a of None \<Rightarrow> qc_max_attempts (cx_config cx) | Some n \<Rightarrow> n)"
  define c where "c = (case src of From_Path _ c \<Rightarrow> c | From_Text c \<Rightarrow> c)"
  let ?item = "new_item cx iid title sf m a"
  let ?files = "dict_set [(sf, Text c)] meta_filename (Doc (JObj (to_dict ?item)))"
  let ?e = "\<lparr>ie_symlink = False, ie_files = ?files\<rparr>"
  have all: "is_safe_component sf" "1 \<le> m" "res = Inr ?item"
    "\<exists>je. d' = journal (cx_journal_lost cx) (dir_put d QUEUED iid (Item_Dir ?e)) je"
    using t False unfolding add_item_def Let_def sf_def title_def m_def c_def added_spec_name_def
    by (auto split: if_splits)
  have "title \<noteq> []"
    using all(1) by (auto simp: title_def sf_def added_spec_name_def is_safe_component_iff path_stem_nonempty
        split: spec_source.splits)
  then have ok: "item_ok ?item" using safe all(1) by (intro new_item_ok)
  have l: "load_item_dir parse iid ?e QUEUED = Some ?item" for parse
    using ok safe by (simp add: load_item_dir_def read_meta_def dict_simps item_ok_from_dict)
      (simp add: new_item_def)
  show ?thesis
  proof (rule added [of title m])
    show "res = Inr (new_item cx iid title (added_spec_name src a) m a)"
      using all(3) by (simp add: sf_def)
    show "item_ok (new_item cx iid title (added_spec_name src a) m a)" using ok by (simp add: sf_def)
    show "1 \<le> m" by (rule all(2))
    show "\<forall>u k. stored parse d' u k = (if u = QUEUED \<and> k = iid
        then Some (new_item cx iid title (added_spec_name src a) m a) else stored parse d u k)"
      using all(4) l by (auto simp: stored_def disk.lookup_put sf_def)
    show "queue_ok d \<longrightarrow> queue_ok d'"
      using all(4) queue_ok_put_fresh [of d iid] fresh by auto
  qed
qed

lemma queue_step_inv:
  assumes "queue_step parse d d'" and inv: "queue_inv parse d"
  shows "queue_inv parse d'"
  using assms(1)
proof cases
  case (op s iid item cx op item' res)
  then have "item_inv item" "queue_ok d" using inv by (auto simp: queue_inv_def)
  then have "op_fine parse d s item (resets op) (is_start op) d'"
    by (intro apply_op_fine [OF _ op(1) _ op(2)]) (auto simp: item_inv_def)
  then show ?thesis by (rule op_fine_inv [OF inv op(1)])
next
  case (crash s iid item reset start upd to cx reason actor detail)
  have "queue_ok d" using inv by (simp add: queue_inv_def)
  from crash_fine [OF this crash] show ?thesis by (rule op_fine_inv [OF inv crash(1)])
next
  case (add cx iid src a res)
  have fresh: "\<forall>s. dir_lookup d s iid = None" using add(2) by blast
  from add(1,4,3) fresh show ?thesis
  proof (cases rule: add_item_cases [where parse = parse])
    case (added title m)
    then have "item_inv (new_item cx iid title (added_spec_name src a) m a)"
      using add(4) by (simp add: item_inv_def new_item_def)
    with added(4,5) inv show ?thesis by (auto simp: queue_inv_def split: if_splits)
  qed (use inv in simp)
next
  case (sweep lost now n)
  then have "dir_lookup d' = dir_lookup d" "qd_dirs d' = qd_dirs d"
    by (auto simp: sweep_staging_def Let_def journal_def dir_lookup_def fun_eq_iff split: if_splits)
  with inv show ?thesis by (simp add: queue_inv_def queue_ok_def stored_def)
qed

lemma empty_queue_inv: "queue_inv parse empty_queue"
  by (simp add: queue_inv_def queue_ok_def empty_queue_def stored_def dir_lookup_def unique_in_def)

lemma queue_reachable_inv: "queue_reachable parse d \<Longrightarrow> queue_inv parse d"
  by (induction rule: queue_reachable.induct) (auto intro: empty_queue_inv queue_step_inv)

section \<open>The budget of one item along a run\<close>

text \<open>
  \<open>start_run parse iid d n d'\<close>: from \<open>d\<close> to \<open>d'\<close>, \<open>n\<close> starts of \<open>iid\<close> committed, and nothing reset
  its counter. Other items, faults and crashes are free; a crash inside a start counts when it
  moved the item into \<open>running/\<close>.
\<close>

inductive start_run :: "json_parser \<Rightarrow> string \<Rightarrow> queue_disk \<Rightarrow> nat \<Rightarrow> queue_disk \<Rightarrow> bool"
  for parse iid d0 where
  none: "start_run parse iid d0 0 d0"
| op: "start_run parse iid d0 n d \<Longrightarrow> stored parse d s k = Some item \<Longrightarrow>
       apply_op cx parse d item op = (d', item', res) \<Longrightarrow> (k = iid \<Longrightarrow> \<not> resets op) \<Longrightarrow>
       start_run parse iid d0 (if k = iid \<and> is_start op \<and> res = None then Suc n else n) d'"
| crash: "start_run parse iid d0 n d \<Longrightarrow> stored parse d s k = Some item \<Longrightarrow>
       qi_attempts item < qi_max_attempts item \<Longrightarrow>
       d' \<in> set (transition_crash_disks cx d item RUNNING ''started'' actor True []
                   (\<lambda>i. i\<lparr>qi_last_run_id := run_id\<rparr>)) \<Longrightarrow>
       start_run parse iid d0 
         (if k = iid \<and> s \<noteq> RUNNING \<and> stored parse d' RUNNING k \<noteq> None then Suc n else n) d'"

lemma start_item_committed:
  assumes q: "queue_ok d" and st: "stored parse d s k = Some item"
    and t: "start_item cx d item run_id actor = (d', item', None)"
    and s': "stored parse d' u k = Some i"
  shows "qi_attempts i = qi_attempts item + 1 \<and> u = RUNNING"
proof -
  note id = stored_SomeD(1,2,3) [OF st]
  have kp: "keeps (\<lambda>i. i\<lparr>qi_last_run_id := run_id\<rparr>)" by (simp add: keeps_def)
  from t have "transition cx d item RUNNING ''started'' actor True [] (\<lambda>i. i\<lparr>qi_last_run_id := run_id\<rparr>)
      = (d', item', None)"
    by (simp add: start_item_def split: if_splits)
  then show ?thesis
  proof (cases rule: transition_cases)
    case committed
    with stored_after_move [OF st keeps_moved(3) [OF kp id(3)] q, of cx RUNNING True RUNNING u k] s' id
    show ?thesis by (auto simp: attempts_moved split: if_splits)
  qed auto
qed

definition budget :: "json_parser \<Rightarrow> string \<Rightarrow> queue_item \<Rightarrow> nat \<Rightarrow> queue_disk \<Rightarrow> bool" where
  "budget parse iid i0 n d =
     ((\<forall>t i. stored parse d t iid = Some i \<longrightarrow>
         qi_max_attempts i = qi_max_attempts i0 \<and> qi_attempts i0 + int n \<le> qi_attempts i) \<and>
      qi_attempts i0 + int n \<le> qi_max_attempts i0)"

lemma budget_item:
  "budget parse iid i0 n d \<Longrightarrow> stored parse d s iid = Some item \<Longrightarrow>
     qi_max_attempts item = qi_max_attempts i0 \<and> qi_attempts i0 + int n \<le> qi_attempts item"
  by (simp add: budget_def)

lemma budget_other:
  assumes "budget parse iid i0 n d" "op_fine parse d s item reset start d'" "qi_item_id item \<noteq> iid"
  shows "budget parse iid i0 n d'"
  using assms by (fastforce simp: budget_def op_fine_def)

lemma budget_same:
  assumes b: "budget parse iid i0 n d" and st: "stored parse d s iid = Some item"
    and f: "op_fine parse d s item reset start d'" and r: "\<not> reset"
  shows "budget parse iid i0 n d'"
proof -
  note it = budget_item [OF b st]
  have "qi_max_attempts i = qi_max_attempts i0 \<and> qi_attempts i0 + int n \<le> qi_attempts i"
    if "stored parse d' t iid = Some i" for t i
  proof -
    from f that have "stored parse d t iid = Some i \<or> evolved reset start s item t i"
      by (auto simp: op_fine_def)
    then show ?thesis
      using budget_item [OF b] it r by (auto simp: evolved_def split: if_splits)
  qed
  with b show ?thesis by (simp add: budget_def)
qed

lemma budget_suc:
  assumes b: "budget parse iid i0 n d" and st: "stored parse d s iid = Some item"
    and lt: "qi_attempts item < qi_max_attempts item"
    and up: "\<And>t i. stored parse d' t iid = Some i \<Longrightarrow>
               qi_max_attempts i = qi_max_attempts item \<and> qi_attempts i = qi_attempts item + 1"
  shows "budget parse iid i0 (Suc n) d'"
  using budget_item [OF b st] lt up by (fastforce simp: budget_def)

text \<open>A crash that moved the item into \<open>running/\<close> left the charged item there, and only there.\<close>

lemma crash_started:
  assumes q: "queue_ok d" and st: "stored parse d s iid = Some item" and s: "s \<noteq> RUNNING"
    and c: "d' \<in> set (transition_crash_disks cx d item RUNNING reason actor True detail upd)"
    and tm: "tame False upd" and lt: "qi_attempts item < qi_max_attempts item"
    and j: "stored parse d' RUNNING iid = Some j" and t: "stored parse d' t iid = Some i"
  shows "qi_max_attempts i = qi_max_attempts item \<and> qi_attempts i = qi_attempts item + 1"
proof -
  have f: "op_fine parse d s item False True d'"
    by (rule crash_fine [OF q st _ _ _ c]) (use tm lt in auto)
  have ij: "i = j" using stored_unique [OF crash_disk_ok [OF q c] j t] by simp
  have "stored parse d RUNNING iid \<noteq> Some j" using stored_unique [OF q st] s by blast
  with f j have "evolved False True s item RUNNING j" by (auto simp: op_fine_def)
  with ij show ?thesis by (simp add: evolved_def)
qed

lemma start_op_budget:
  assumes q: "queue_ok d" and st: "stored parse d s iid = Some item" and b: "budget parse iid i0 n d"
    and t: "start_item cx d item run_id actor = (d', item', None)"
  shows "budget parse iid i0 (Suc n) d'"
proof (rule budget_suc [OF b st])
  show "qi_attempts item < qi_max_attempts item"
    using t by (auto simp: start_item_def attempts_remaining_def split: if_splits)
  show "qi_max_attempts i = qi_max_attempts item \<and> qi_attempts i = qi_attempts item + 1"
    if s': "stored parse d' u iid = Some i" for u i
  proof -
    from op_fine_start [OF q st t] s' stored_SomeD(1) [OF st]
    have "stored parse d u iid = Some i \<or> evolved False True s item u i" by (auto simp: op_fine_def)
    then have "qi_max_attempts i = qi_max_attempts item"
      using stored_unique [OF q st] by (auto simp: evolved_def)
    with start_item_committed [OF q st t s'] show ?thesis by simp
  qed
qed

lemma start_run_bound:
  assumes "start_run parse iid d0 n d" and "queue_inv parse d0" and "stored parse d0 s iid = Some i0"
  shows "queue_inv parse d \<and> budget parse iid i0 n d"
  using assms
proof (induction rule: start_run.induct)
  case none
  then have q: "queue_ok d0" and "item_inv i0" by (auto simp: queue_inv_def)
  then have le: "qi_attempts i0 \<le> qi_max_attempts i0" by (simp add: item_inv_def)
  have "i = i0" if "stored parse d0 t iid = Some i" for t i
    using stored_unique [OF q none(2) that] by simp
  with le have "budget parse iid i0 0 d0" by (fastforce simp: budget_def)
  with none show ?case by simp
next
  case (op n d s' k item cx op d' item' res)
  note IH = op.IH [OF op.prems]
  have inv': "queue_inv parse d'" using IH queue_step.op [OF op.hyps(2,3)] queue_step_inv by blast
  have q: "queue_ok d" and ii: "item_inv item" using IH op.hyps(2) by (auto simp: queue_inv_def)
  have f: "op_fine parse d s' item (resets op) (is_start op) d'"
    using ii by (intro apply_op_fine [OF q op.hyps(2) _ op.hyps(3)]) (simp add: item_inv_def)
  show ?case
  proof (cases "k = iid \<and> is_start op \<and> res = None")
    case True
    then obtain run_id actor where "start_item cx d item run_id actor = (d', item', None)"
      using op.hyps(3) by (cases op) auto
    with start_op_budget [OF q] op.hyps(2) IH True inv' show ?thesis by auto
  next
    case False
    then have "budget parse iid i0 n d'"
      using budget_other [OF conjunct2 [OF IH] f] budget_same [OF conjunct2 [OF IH] _ f] op.hyps(2,4)
        stored_SomeD(1) [OF op.hyps(2)] by blast
    with False inv' show ?thesis by auto
  qed
next
  case (crash n d s' k item d' cx actor run_id)
  note IH = crash.IH [OF crash.prems]
  have q: "queue_ok d" using IH by (auto simp: queue_inv_def)
  have f: "op_fine parse d s' item False True d'"
    by (rule crash_fine [OF q crash.hyps(2) _ _ _ crash.hyps(4)]) (use crash.hyps(3) in auto)
  have inv': "queue_inv parse d'" using op_fine_inv [OF _ crash.hyps(2) f] IH by blast
  show ?case
  proof (cases "k = iid \<and> s' \<noteq> RUNNING \<and> stored parse d' RUNNING k \<noteq> None")
    case True
    then obtain j where j: "stored parse d' RUNNING iid = Some j" by auto
    have st: "stored parse d s' iid = Some item" using True crash.hyps(2) by simp
    have "budget parse iid i0 (Suc n) d'"
      using crash_started [OF q st _ crash.hyps(4) _ crash.hyps(3) j] True
      by (intro budget_suc [OF conjunct2 [OF IH] st crash.hyps(3)]) auto
    with True inv' show ?thesis by auto
  next
    case False
    then have "budget parse iid i0 n d'"
      using budget_other [OF conjunct2 [OF IH] f] budget_same [OF conjunct2 [OF IH] _ f] crash.hyps(2)
        stored_SomeD(1) [OF crash.hyps(2)] by blast
    with False inv' show ?thesis by auto
  qed
qed

end
