(* ===== verification/Names.thy ===== *)
theory Names
  imports Prelude
begin

text \<open>
  \<open>kstrl/plan/names.py\<close>: the rules a component id and a branch name pass at every parse
  boundary, and the namespaced keys of kstrl's own roles. An error message is a constructor;
  \<open>None\<close> is "valid". Python's \<open>$\<close> in a pattern used with \<open>re.match\<close> also matches
  just before a newline that ends the string, which \<open>dollar_match\<close> writes out.
\<close>

section \<open>The two patterns\<close>

definition dollar_match :: "(string \<Rightarrow> bool) \<Rightarrow> string \<Rightarrow> bool" where
  "dollar_match body s =
     (body s \<or> (s \<noteq> [] \<and> last s = newline \<and> body (butlast s)))"

definition id_start_char :: "char \<Rightarrow> bool" where
  "id_start_char c = (is_lower_ascii c \<or> is_digit_ascii c)"

definition id_char :: "char \<Rightarrow> bool" where
  "id_char c = (id_start_char c \<or> c = CHR ''.'' \<or> c = CHR ''_'' \<or> c = CHR ''-'')"

text \<open>\<open>[a-z0-9][a-z0-9._-]{0,63}\<close>\<close>

fun id_body :: "string \<Rightarrow> bool" where
  "id_body [] = False"
| "id_body (c # cs) = (id_start_char c \<and> list_all id_char cs \<and> length cs \<le> 63)"

definition component_id_re :: "string \<Rightarrow> bool" where
  "component_id_re s = dollar_match id_body s"

definition branch_char :: "char \<Rightarrow> bool" where
  "branch_char c =
     (is_upper_ascii c \<or> is_lower_ascii c \<or> is_digit_ascii c \<or>
      c \<in> {CHR ''.'', CHR ''_'', CHR ''/'', CHR ''-''})"

definition branch_charset_re :: "string \<Rightarrow> bool" where
  "branch_charset_re s = dollar_match (\<lambda>b. b \<noteq> [] \<and> list_all branch_char b) s"

definition max_branch_name_length :: nat where "max_branch_name_length = 200"

section \<open>Role keys\<close>

definition role_key_prefix :: string where "role_key_prefix = ''@''"

definition role_component_key :: "string \<Rightarrow> string" where
  "role_component_key role = role_key_prefix @ role"

section \<open>The validators\<close>

datatype name_error =
    Id_Empty
  | Id_Pattern string
  | Id_Dotdot string
  | Id_Ends_Dot string
  | Id_Ends_Lock string
  | Br_Empty
  | Br_Too_Long nat
  | Br_Charset string
  | Br_Option string
  | Br_Dotdot string
  | Br_Empty_Segment string
  | Br_Hidden_Segment string
  | Br_Ends_Dot string
  | Br_Ends_Lock string

definition validate_component_id :: "string \<Rightarrow> name_error option" where
  "validate_component_id cid =
     (if cid = [] then Some Id_Empty
      else if \<not> component_id_re cid then Some (Id_Pattern cid)
      else if contains_sub cid ''..'' then Some (Id_Dotdot cid)
      else if endswith cid ''.'' then Some (Id_Ends_Dot cid)
      else if endswith cid ''.lock'' then Some (Id_Ends_Lock cid)
      else None)"

definition validate_branch_name :: "string \<Rightarrow> name_error option" where
  "validate_branch_name branch =
     (if branch = [] then Some Br_Empty
      else if length branch > max_branch_name_length then Some (Br_Too_Long (length branch))
      else if \<not> branch_charset_re branch then Some (Br_Charset branch)
      else if startswith branch ''-'' then Some (Br_Option branch)
      else if contains_sub branch ''..'' then Some (Br_Dotdot branch)
      else if startswith branch ''/'' \<or> endswith branch ''/'' \<or> contains_sub branch ''//''
        then Some (Br_Empty_Segment branch)
      else if list_ex (\<lambda>seg. startswith seg ''.'') (split_on (CHR ''/'') branch)
        then Some (Br_Hidden_Segment branch)
      else if endswith branch ''.'' then Some (Br_Ends_Dot branch)
      else if endswith branch ''.lock'' then Some (Br_Ends_Lock branch)
      else None)"

section \<open>Lemmas\<close>

lemma newline_not_id_char [simp]: "\<not> id_char newline"
  by (simp add: id_char_def id_start_char_def is_lower_ascii_def is_digit_ascii_def newline_def
      less_eq_char_def)

lemma slash_not_id_char [simp]: "\<not> id_char (CHR ''/'')"
  by (simp add: id_char_def id_start_char_def is_lower_ascii_def is_digit_ascii_def less_eq_char_def)

lemma at_not_id_start [simp]: "\<not> id_start_char (CHR ''@'')"
  by (simp add: id_start_char_def is_lower_ascii_def is_digit_ascii_def less_eq_char_def)

lemma backslash_not_id_char [simp]: "\<not> id_char (CHR 0x5C)"
  by (simp add: id_char_def id_start_char_def is_lower_ascii_def is_digit_ascii_def less_eq_char_def)

lemma nul_not_id_char [simp]: "\<not> id_char (CHR 0x00)"
  by (simp add: id_char_def id_start_char_def is_lower_ascii_def is_digit_ascii_def less_eq_char_def)

lemma dot_not_id_start [simp]: "\<not> id_start_char (CHR ''.'')"
  by (simp add: id_start_char_def is_lower_ascii_def is_digit_ascii_def less_eq_char_def)

lemma id_start_imp_char: "id_start_char c \<Longrightarrow> id_char c"
  by (simp add: id_char_def)

lemma id_body_chars: "id_body s \<Longrightarrow> list_all id_char s"
  by (cases s) (auto simp: id_start_imp_char)

lemma id_body_start: "id_body s \<Longrightarrow> \<exists>c cs. s = c # cs \<and> id_start_char c"
  by (cases s) auto

lemma id_body_length: "id_body s \<Longrightarrow> length s \<le> 64"
  by (cases s) auto

text \<open>What a string that matches the id pattern looks like, newline included.\<close>

lemma component_id_re_shape:
  assumes "component_id_re s"
  obtains b where "id_body b" and "s = b \<or> s = b @ [newline]"
proof (cases "id_body s")
  case True
  then show ?thesis using that by blast
next
  case False
  with assms have "s \<noteq> []" "last s = newline" "id_body (butlast s)"
    by (auto simp: component_id_re_def dollar_match_def)
  then have "s = butlast s @ [newline]"
    by (metis append_butlast_last_id)
  with \<open>id_body (butlast s)\<close> show ?thesis using that by blast
qed

lemma component_id_re_chars:
  assumes "component_id_re s" and "c \<in> set s"
  shows "id_char c \<or> c = newline"
proof -
  from assms(1) obtain b where b: "id_body b" "s = b \<or> s = b @ [newline]"
    by (rule component_id_re_shape)
  from id_body_chars [OF b(1)] b(2) assms(2) show ?thesis
    by (auto simp: list_all_iff)
qed

lemma component_id_re_start:
  assumes "component_id_re s"
  shows "\<exists>c cs. s = c # cs \<and> id_start_char c"
proof -
  from assms obtain b where b: "id_body b" "s = b \<or> s = b @ [newline]"
    by (rule component_id_re_shape)
  from id_body_start [OF b(1)] b(2) show ?thesis by auto
qed

lemma component_id_re_length:
  assumes "component_id_re s"
  shows "length s \<le> 65"
proof -
  from assms obtain b where b: "id_body b" "s = b \<or> s = b @ [newline]"
    by (rule component_id_re_shape)
  from id_body_length [OF b(1)] b(2) show ?thesis by auto
qed

lemma validate_component_id_NoneD:
  assumes "validate_component_id s = None"
  shows "s \<noteq> []" "component_id_re s" "\<not> contains_sub s ''..''" "\<not> endswith s ''.''"
    "\<not> endswith s ''.lock''"
  using assms by (auto simp: validate_component_id_def split: if_splits)

lemma validate_branch_name_NoneD:
  assumes "validate_branch_name s = None"
  shows "s \<noteq> []" "length s \<le> max_branch_name_length" "branch_charset_re s"
    "\<not> startswith s ''-''" "\<not> contains_sub s ''..''"
    "\<not> startswith s ''/''" "\<not> endswith s ''/''" "\<not> contains_sub s ''//''"
    "list_all (\<lambda>seg. \<not> startswith seg ''.'') (split_on (CHR ''/'') s)"
    "\<not> endswith s ''.''" "\<not> endswith s ''.lock''"
  using assms by (auto simp: validate_branch_name_def list_ex_iff list_all_iff split: if_splits)

end
