(* ===== verification/Queue_Contract.thy ===== *)
theory Queue_Contract
  imports Queue_Machine Names
begin

text \<open>
  What the queue promises its callers: the properties of \<open>Queue_Items\<close>, \<open>Queue_Store\<close>,
  \<open>Queue\<close> and \<open>Queue_Machine\<close>, each with the concrete queue that shows its hypotheses can hold.
\<close>

section \<open>A concrete queue\<close>

definition demo_ctx :: queue_ctx where
  "demo_ctx = \<lparr>cx_now = 5, cx_iso = (\<lambda>n. if n = 5 then ''t5'' else ''t9''),
     cx_config = \<lparr>qc_max_attempts = 2, qc_lease_ttl = 4\<rparr>, cx_pid = 7, cx_host = ''host'',
     cx_sha = (\<lambda>_. ''sha''), cx_meta_write_fails = False, cx_spec_write_fails = False,
     cx_rename_fails = False, cx_rmtree_fails = False, cx_journal_lost = False\<rparr>"

definition demo_args :: add_args where
  "demo_args = \<lparr>aa_title = ''demo'', aa_priority = 1, aa_disposition = STOP_AT_PR, aa_source = LOCAL,
     aa_source_ref = [], aa_target_repo = [], aa_project_name = [], aa_max_attempts = None,
     aa_spec_filename = ''spec.md'', aa_design_acceptance = False, aa_actor = []\<rparr>"

definition no_parse :: json_parser where "no_parse = (\<lambda>_. None)"

definition demo_item :: queue_item where
  "demo_item = new_item demo_ctx ''q-1'' ''demo'' ''spec.md'' 2 demo_args"

definition demo_queued :: queue_disk where
  "demo_queued = fst (add_item demo_ctx ''q-1'' empty_queue (From_Text ''build it'') demo_args)"

definition demo_leased_item :: queue_item where
  "demo_leased_item = fst (snd (lease_item demo_ctx demo_queued demo_item 0 [] []))"

definition demo_leased :: queue_disk where
  "demo_leased = fst (lease_item demo_ctx demo_queued demo_item 0 [] [])"

lemma demo_names [simp]: "is_safe_component ''q-1''" "is_safe_component ''spec.md''"
  "''spec.md'' \<noteq> meta_filename"
  by (simp_all add: is_safe_component_iff startswith_def meta_filename_def)

lemma demo_reachable: "queue_reachable no_parse demo_queued"
proof (rule queue_reachable.step [OF queue_reachable.start], rule queue_step.add)
  show "add_item demo_ctx ''q-1'' empty_queue (From_Text ''build it'') demo_args =
      (demo_queued, snd (add_item demo_ctx ''q-1'' empty_queue (From_Text ''build it'') demo_args))"
    by (simp add: demo_queued_def)
qed (simp_all add: empty_queue_def dir_lookup_def added_spec_name_def demo_args_def)

lemma demo_queued_stored: "stored no_parse demo_queued QUEUED ''q-1'' = Some demo_item"
proof -
  have "item_ok demo_item" by (simp add: item_ok_def demo_item_def new_item_def)
  then show ?thesis
    by (simp add: demo_queued_def add_item_def demo_ctx_def demo_args_def demo_item_def empty_queue_def
        path_exists_def dir_lookup_def blank_def is_space_def stored_def dir_put_def dict_simps
        load_item_dir_def read_meta_def item_ok_from_dict journal_def Let_def)
      (simp add: new_item_def)
qed

lemma demo_queued_inv: "queue_inv no_parse demo_queued"
  by (rule queue_reachable_inv [OF demo_reachable])

lemma demo_lease:
  "stored no_parse demo_leased LEASED ''q-1'' = Some demo_leased_item"
  "qi_attempts demo_leased_item = 0" "qi_max_attempts demo_leased_item = 2" "queue_inv no_parse demo_leased"
proof -
  have q: "queue_ok demo_queued" using demo_queued_inv by (simp add: queue_inv_def)
  let ?upd = "\<lambda>i. i\<lparr>qi_lease_pid := 7, qi_lease_host := ''host'', qi_lease_expires_at := ''t9''\<rparr>"
  have l: "lease_item demo_ctx demo_queued demo_item 0 [] [] =
      transition demo_ctx demo_queued demo_item LEASED ''leased'' [] False [] ?upd"
    by (simp add: lease_item_def lease_until_def demo_ctx_def)
  have h: "keeps ?upd" "LEASED \<in> set (legal_transitions QUEUED)"
    "\<not> cx_meta_write_fails demo_ctx" "\<not> cx_rename_fails demo_ctx"
    by (simp_all add: keeps_def demo_ctx_def)
  obtain d' where
    tr: "transition demo_ctx demo_queued demo_item LEASED ''leased'' [] False [] ?upd =
      (d', moved_item demo_ctx LEASED False ?upd demo_item, None)"
    and sd: "\<forall>u k. stored no_parse d' u k =
       (if k = ''q-1'' then (if u = LEASED then Some (moved_item demo_ctx LEASED False ?upd demo_item) else None)
        else stored no_parse demo_queued u k)"
    by (rule transition_commits [OF q demo_queued_stored h, of "''leased''" "[]" False "[]"])
      (rule that, assumption+)
  note d' = tr [folded l]
  have demo: "demo_leased = d'" "demo_leased_item = moved_item demo_ctx LEASED False ?upd demo_item"
    using d' by (simp_all add: demo_leased_def demo_leased_item_def)
  show "stored no_parse demo_leased LEASED ''q-1'' = Some demo_leased_item" using sd demo by simp
  show "qi_attempts demo_leased_item = 0" "qi_max_attempts demo_leased_item = 2"
    by (simp_all add: demo(2) moved_item_def Let_def demo_item_def new_item_def)
  have "apply_op demo_ctx no_parse demo_queued demo_item (Op_Lease 0 [] []) =
      (demo_leased, demo_leased_item, None)"
    using d' demo by simp
  from queue_step.op [OF demo_queued_stored this] demo_queued_inv
  show "queue_inv no_parse demo_leased" by (rule queue_step_inv)
qed

section \<open>Ids and places\<close>

text \<open>every component id that passes validation is safe as one path component: it is not empty,
  does not start with a dot and holds no separator, backslash or NUL, so joining it to a
  directory stays in that directory.\<close>

theorem component_id_is_safe_component:
  assumes "validate_component_id cid = None"
  shows "is_safe_component cid"
proof -
  note v = validate_component_id_NoneD [OF assms]
  from component_id_re_start [OF v(2)] have "\<not> startswith cid ''.''"
    by (auto simp: startswith_def)
  moreover have "c \<notin> set cid" if "\<not> id_char c" "c \<noteq> newline" for c
    using component_id_re_chars [OF v(2)] that by blast
  ultimately show ?thesis
    using v(1) by (simp add: is_safe_component_iff newline_def)
qed

theorem component_id_is_safe_component_witness: "is_safe_component ''auth-service''"
proof -
  have "validate_component_id ''auth-service'' = None"
    by code_simp
  then show ?thesis by (rule component_id_is_safe_component)
qed

text \<open>a component id that passes validation is never the key of one of kstrl's own roles, so the
  two never share a row of a table keyed by either.\<close>

theorem role_key_not_component_id:
  assumes "validate_component_id cid = None"
  shows "cid \<noteq> role_component_key role"
proof
  assume "cid = role_component_key role"
  with component_id_re_start [OF validate_component_id_NoneD(2) [OF assms]] show False
    by (auto simp: role_component_key_def role_key_prefix_def)
qed

theorem role_key_not_component_id_witness: "''architect'' \<noteq> role_component_key ''architect''"
proof -
  have "validate_component_id ''architect'' = None" by code_simp
  then show ?thesis by (rule role_key_not_component_id)
qed

text \<open>the validators accept a trailing newline (Python's \<open>$\<close>), and with it the suffixes they
  refuse: an id or a branch name that ends in a newline passes, also behind a dot or \<open>.lock\<close>.\<close>

theorem trailing_newline_accepted:
  "validate_component_id (''auth'' @ [newline]) = None \<and>
   validate_component_id (''auth.lock'' @ [newline]) = None \<and>
   validate_branch_name (''main.'' @ [newline]) = None"
  by code_simp

section \<open>One item\<close>

text \<open>writing an item's sidecar and decoding it gives the item back, every field of it, whenever the
  item has an id, a title and a safe spec name (what every decoded item has).\<close>

theorem queue_item_roundtrip:
  assumes "qi_item_id item \<noteq> []" and "qi_title item \<noteq> []" and "is_safe_component (qi_spec_filename item)"
  shows "from_dict (to_dict item) = Some item"
  using assms by (intro from_dict_to_dict)

theorem queue_item_roundtrip_witness: "from_dict (to_dict demo_item) = Some demo_item"
  by (rule queue_item_roundtrip) (simp_all add: demo_item_def new_item_def)

text \<open>decoding is total and fails safe: a sidecar is refused exactly when it has no id or no safe
  spec name, and a decoded item asks for auto-merge only if the sidecar holds that very word.\<close>

theorem from_dict_fails_safe:
  "(from_dict data = None \<longleftrightarrow>
      as_str data ''item_id'' [] = [] \<or> \<not> is_safe_component (as_str data ''spec_filename'' [])) \<and>
   (map_option qi_merge_disposition (from_dict data) = Some AUTO_MERGE \<longrightarrow>
      map_of data ''merge_disposition'' = Some (JStr ''auto_merge''))"
proof -
  have "disposition_of_value raw = Some AUTO_MERGE \<Longrightarrow> raw = ''auto_merge''" for raw
    by (simp add: disposition_of_value_def split: if_splits)
  then show ?thesis
    by (auto simp: from_dict_def Let_def is_safe_component_iff as_str_def
        split: option.splits json.splits if_splits)
qed

theorem from_dict_fails_safe_witness:
  "map_of (to_dict (demo_item\<lparr>qi_merge_disposition := AUTO_MERGE\<rparr>)) ''merge_disposition'' = Some (JStr ''auto_merge'')"
proof -
  let ?i = "demo_item\<lparr>qi_merge_disposition := AUTO_MERGE\<rparr>"
  have "from_dict (to_dict ?i) = Some ?i"
    by (rule from_dict_to_dict) (simp_all add: demo_item_def new_item_def)
  with from_dict_fails_safe [of "to_dict ?i"] show ?thesis by simp
qed

section \<open>The queue\<close>

text \<open>C27: on every reachable disk (operations with any disk fault, crashes inside a transition, enqueues,
  sweeps) an item id is in at most one state directory, and every item a reader loads has charged
  between none and all of its attempts.\<close>

theorem queue_reachable_safe:
  assumes "queue_reachable parse d"
  shows "unique_in (dir_lookup d) \<and>
         (\<forall>s k i. stored parse d s k = Some i \<longrightarrow>
            0 \<le> qi_attempts i \<and> qi_attempts i \<le> qi_max_attempts i)"
  using queue_reachable_inv [OF assms] by (auto simp: queue_inv_def queue_ok_def item_inv_def)

theorem queue_reachable_safe_witness:
  "stored no_parse demo_queued QUEUED ''q-1'' = Some demo_item \<and> qi_attempts demo_item \<le> qi_max_attempts demo_item"
  using queue_reachable_safe [OF demo_reachable] demo_queued_stored by blast

text \<open>C5: the spending bound. Along any run that never resets an item's counter, whatever other items,
  disk faults and crashes do, the starts of the item that committed are at most the attempts it had
  left.\<close>

theorem starts_within_budget:
  assumes "start_run parse iid d0 n d" and "queue_inv parse d0" and "stored parse d0 s iid = Some i0"
  shows "int n \<le> qi_max_attempts i0 - qi_attempts i0"
  using start_run_bound [OF assms] by (simp add: budget_def)

theorem starts_within_budget_witness:
  "start_run no_parse ''q-1'' demo_leased 1 (fst (start_item demo_ctx demo_leased demo_leased_item ''run'' []))
   \<and> int 1 \<le> qi_max_attempts demo_leased_item - qi_attempts demo_leased_item"
proof -
  have q: "queue_ok demo_leased" using demo_lease(4) by (simp add: queue_inv_def)
  have h: "keeps (\<lambda>i. i\<lparr>qi_last_run_id := ''run''\<rparr>)" "RUNNING \<in> set (legal_transitions LEASED)"
    "\<not> cx_meta_write_fails demo_ctx" "\<not> cx_rename_fails demo_ctx"
    by (simp_all add: keeps_def demo_ctx_def)
  obtain d' where tr: "transition demo_ctx demo_leased demo_leased_item RUNNING ''started'' [] True []
      (\<lambda>i. i\<lparr>qi_last_run_id := ''run''\<rparr>)
    = (d', moved_item demo_ctx RUNNING True (\<lambda>i. i\<lparr>qi_last_run_id := ''run''\<rparr>) demo_leased_item, None)"
    by (rule transition_commits [OF q demo_lease(1) h, of "''started''" "[]" True "[]"])
  have st: "start_item demo_ctx demo_leased demo_leased_item ''run'' [] =
      (d', moved_item demo_ctx RUNNING True (\<lambda>i. i\<lparr>qi_last_run_id := ''run''\<rparr>) demo_leased_item, None)"
    using tr demo_lease(2,3) by (simp add: start_item_def attempts_remaining_def)
  have "start_run no_parse ''q-1'' demo_leased
      (if ''q-1'' = ''q-1'' \<and> is_start (Op_Start ''run'' []) \<and> (None :: queue_error option) = None then Suc 0 else 0) d'"
    by (rule start_run.op [OF start_run.none demo_lease(1)]) (use st in auto)
  then have r: "start_run no_parse ''q-1'' demo_leased 1 d'" by simp
  from starts_within_budget [OF r demo_lease(4,1)] r st show ?thesis by simp
qed

text \<open>crash safety of the start of an item. Whenever the process dies inside it, exactly one state
  holds the item afterwards; the counter a reader loads is the old one or one more, and it is one
  more if the item is in \<open>running/\<close>.\<close>

theorem start_crash_safe:
  assumes "queue_ok d" and "stored parse d LEASED iid = Some item"
    and "qi_attempts item < qi_max_attempts item"
    and "d' \<in> set (transition_crash_disks cx d item RUNNING ''started'' actor True []
                    (\<lambda>i. i\<lparr>qi_last_run_id := run_id\<rparr>))"
  shows "\<exists>t i. (\<forall>u j. stored parse d' u iid = Some j \<longleftrightarrow> u = t \<and> j = i) \<and> t \<in> {LEASED, RUNNING} \<and>
               qi_attempts i \<in> {qi_attempts item, qi_attempts item + 1} \<and>
               (t = RUNNING \<longrightarrow> qi_attempts i = qi_attempts item + 1)"
proof -
  let ?upd = "\<lambda>i. i\<lparr>qi_last_run_id := run_id\<rparr>"
  have kp: "keeps ?upd" by (simp add: keeps_def)
  have a: "qi_attempts (moved_item cx RUNNING True ?upd item) = qi_attempts item + 1"
    by (simp add: attempts_moved)
  from crash_disk_stored [OF assms(1,2) kp assms(4)] obtain t i where
    t: "stored parse d' t iid = Some i" "t \<in> {LEASED, RUNNING}"
      "qi_attempts i \<in> {qi_attempts item, qi_attempts item + 1}"
      "t = RUNNING \<longrightarrow> qi_attempts i = qi_attempts item + 1"
    using a by fastforce
  have "stored parse d' u iid = Some j \<longleftrightarrow> u = t \<and> j = i" for u j
    using stored_unique [OF crash_disk_ok [OF assms(1,4)] t(1)] t(1) by blast
  with t show ?thesis by blast
qed

theorem start_crash_safe_witness:
  "\<exists>t i. (\<forall>u j. stored no_parse (transition_crash_disks demo_ctx demo_leased demo_leased_item RUNNING
              ''started'' [] True [] (\<lambda>i. i\<lparr>qi_last_run_id := ''run''\<rparr>) ! 2) u ''q-1'' = Some j
            \<longleftrightarrow> u = t \<and> j = i) \<and> t \<in> {LEASED, RUNNING} \<and>
          qi_attempts i \<in> {qi_attempts demo_leased_item, qi_attempts demo_leased_item + 1} \<and>
          (t = RUNNING \<longrightarrow> qi_attempts i = qi_attempts demo_leased_item + 1)"
proof (rule start_crash_safe)
  show "queue_ok demo_leased" using demo_lease(4) by (simp add: queue_inv_def)
  show "transition_crash_disks demo_ctx demo_leased demo_leased_item RUNNING ''started'' [] True []
      (\<lambda>i. i\<lparr>qi_last_run_id := ''run''\<rparr>) ! 2 \<in>
    set (transition_crash_disks demo_ctx demo_leased demo_leased_item RUNNING ''started'' [] True []
      (\<lambda>i. i\<lparr>qi_last_run_id := ''run''\<rparr>))"
    using transition_refusal_stored [OF _ demo_lease(1), of RUNNING] demo_lease(4)
    by (simp add: transition_crash_disks_def Let_def queue_inv_def)
qed (use demo_lease in simp_all)

text \<open>C35: refinement. Read as a map from ids to items, the disk after a transition of a stored item
  (no disk fault) is the map of the specification: a legal move replaces that item by the moved one,
  an illegal one changes nothing, and no other item changes.\<close>

theorem queue_transition_refines:
  assumes "queue_ok d" and "stored parse d s iid = Some item" and "keeps upd"
    and "\<not> cx_meta_write_fails cx" and "\<not> cx_rename_fails cx"
  shows "abs_queue parse (fst (transition cx d item to reason actor charge detail upd))
         = spec_transition cx (abs_queue parse d) iid to charge upd"
  using assms by (rule transition_refines)

theorem queue_transition_refines_witness:
  "abs_queue no_parse (fst (transition demo_ctx demo_queued demo_item LEASED ''leased'' [] False [] (\<lambda>i. i)))
   = spec_transition demo_ctx (abs_queue no_parse demo_queued) ''q-1'' LEASED False (\<lambda>i. i)"
  by (rule queue_transition_refines [OF _ demo_queued_stored])
    (use demo_queued_inv in \<open>simp_all add: queue_inv_def keeps_def demo_ctx_def\<close>)

text \<open>a scan of the queue lists exactly the items a reader loads from the scanned states, in run order:
  highest priority first, then the oldest id.\<close>

theorem queue_items_exact:
  assumes "queue_ok d"
  shows "sorted (map item_sort_key (queue_items parse d states)) \<and>
         set (queue_items parse d states) =
           {i. \<exists>s. (states = [] \<or> s \<in> set states) \<and> stored parse d s (qi_item_id i) = Some i}"
  using queue_items_mem [OF assms] by (simp add: queue_items_sorted set_eq_iff)

theorem queue_items_exact_witness: "demo_item \<in> set (queue_items no_parse demo_queued [])"
proof -
  have "queue_ok demo_queued" using demo_queued_inv by (simp add: queue_inv_def)
  from queue_items_exact [OF this, of no_parse "[]"] demo_queued_stored show ?thesis
    by (auto simp: demo_item_def new_item_def)
qed

text \<open>the item a worker claims next is a queued item past its backoff, and no other such item has a
  higher priority, or the same priority and an older id; nothing is claimed while intake is paused,
  and nothing ready is passed over when intake runs.\<close>

theorem next_ready_correct:
  assumes "queue_ok d"
  shows "case next_ready fromiso parse c d now of
           Some i \<Rightarrow> \<not> is_paused fromiso c now \<and> stored parse d QUEUED (qi_item_id i) = Some i \<and>
                     ready_at fromiso i now \<and>
                     (\<forall>j k. stored parse d QUEUED k = Some j \<and> ready_at fromiso j now \<longrightarrow>
                        item_sort_key i \<le> item_sort_key j)
         | None \<Rightarrow> is_paused fromiso c now \<or>
                   (\<forall>j k. stored parse d QUEUED k = Some j \<longrightarrow> \<not> ready_at fromiso j now)"
proof -
  have m: "i \<in> set (queue_items parse d [QUEUED]) \<longleftrightarrow> stored parse d QUEUED (qi_item_id i) = Some i" for i
    using queue_items_mem [OF assms, of i parse "[QUEUED]"] by auto
  have m2: "stored parse d QUEUED k = Some j \<Longrightarrow> j \<in> set (queue_items parse d [QUEUED])" for j k
    using m [of j] stored_SomeD(1) [of parse d QUEUED k j] by simp
  show ?thesis
  proof (cases "next_ready fromiso parse c d now")
    case None
    with m2 show ?thesis by (auto simp: next_ready_def find_None_iff split: if_splits)
  next
    case (Some i)
    then have np: "\<not> is_paused fromiso c now"
      and f: "find (\<lambda>i. ready_at fromiso i now) (queue_items parse d [QUEUED]) = Some i"
      by (auto simp: next_ready_def split: if_splits)
    from find_sorted_least [OF queue_items_sorted f] m2
    have "\<forall>j k. stored parse d QUEUED k = Some j \<and> ready_at fromiso j now \<longrightarrow> item_sort_key i \<le> item_sort_key j"
      by blast
    with Some np find_SomeD [OF f] m [of i] show ?thesis by simp
  qed
qed

theorem next_ready_correct_witness:
  "case next_ready (\<lambda>_. None) no_parse \<lparr>cd_untrusted = None, cd_pause = Marker_Missing\<rparr> demo_queued 0 of
     Some i \<Rightarrow> stored no_parse demo_queued QUEUED (qi_item_id i) = Some i | None \<Rightarrow> False"
proof -
  let ?c = "\<lparr>cd_untrusted = None, cd_pause = Marker_Missing\<rparr>"
  have q: "queue_ok demo_queued" using demo_queued_inv by (simp add: queue_inv_def)
  have "\<not> is_paused (\<lambda>_. None) ?c 0"
    by (simp add: is_paused_def pause_active_def read_pause_state_def default_pause_def)
  moreover have "ready_at (\<lambda>_. None) demo_item 0" by (simp add: ready_at_def demo_item_def new_item_def)
  ultimately show ?thesis
    using next_ready_correct [OF q, where fromiso = "\<lambda>_. None" and parse = no_parse and c = ?c and now = 0] demo_queued_stored
    by (auto split: option.splits)
qed

text \<open>a committed transition is durable and narrated: a reader loads from the target state exactly the
  item object the caller holds, from every other state nothing, every other item as before, and the
  journal grew by the one line that names the two states (or by nothing when its append failed).\<close>

theorem transition_durable:
  assumes "queue_ok d" and "stored parse d s iid = Some item" and "keeps upd"
    and "transition cx d item to reason actor charge detail upd = (d', item', None)"
  shows "stored parse d' u k = (if k = iid then (if u = to then Some item' else None) else stored parse d u k) \<and>
         qd_journal d' = qd_journal d @
           (if cx_journal_lost cx then [] else [entry_for cx s to reason actor detail item'])"
proof -
  have h: "to \<in> set (legal_transitions s)" "\<not> cx_meta_write_fails cx" "\<not> cx_rename_fails cx"
    using assms(4) transition_refusal_stored [OF assms(1,2), of to]
    by (auto elim!: transition_cases split: if_splits)
  show ?thesis
    by (rule transition_commits [OF assms(1-3) h, of reason actor charge detail]) (use assms(4) in simp)
qed

theorem transition_durable_witness:
  "\<exists>d' i'. transition demo_ctx demo_queued demo_item POISON ''poisoned'' [] False [] (\<lambda>i. i) = (d', i', None) \<and>
          stored no_parse d' POISON ''q-1'' = Some i' \<and> stored no_parse d' QUEUED ''q-1'' = None"
proof -
  have q: "queue_ok demo_queued" using demo_queued_inv by (simp add: queue_inv_def)
  have k: "keeps (\<lambda>i. i)" by (simp add: keeps_def)
  have h: "POISON \<in> set (legal_transitions QUEUED)" "\<not> cx_meta_write_fails demo_ctx" "\<not> cx_rename_fails demo_ctx"
    by (simp_all add: demo_ctx_def)
  obtain d' where t: "transition demo_ctx demo_queued demo_item POISON ''poisoned'' [] False [] (\<lambda>i. i)
      = (d', moved_item demo_ctx POISON False (\<lambda>i. i) demo_item, None)"
    by (rule transition_commits [OF q demo_queued_stored k h, of "''poisoned''" "[]" False "[]"])
  from transition_durable [OF q demo_queued_stored k t, of POISON "''q-1''"]
    transition_durable [OF q demo_queued_stored k t, of QUEUED "''q-1''"] t show ?thesis by simp
qed

text \<open>\<open>done\<close> is final. Every operation on a finished item except its removal raises and leaves the
  disk and the item as they were: finished work is never run, requeued, poisoned or rewritten.\<close>

theorem done_is_final:
  assumes "queue_ok d" and "stored parse d DONE iid = Some item" and "\<forall>actor. op \<noteq> Op_Remove actor"
  shows "\<exists>e. apply_op cx parse d item op = (d, item, Some e)"
proof -
  have r: "transition cx d item to reason actor charge detail upd =
      (d, item, Some (Illegal_Transition iid DONE to))" for to reason actor charge detail upd
    using transition_refusal_stored [OF assms(1,2), of to] by (simp add: transition_def)
  note id = stored_SomeD(1,2) [OF assms(2)]
  show ?thesis
    using assms(3) id get_item_exact [OF assms(1,2)]
    by (cases op)
      (auto simp: lease_item_def start_item_def finish_ok_def finish_failed_def await_approval_def
        await_answer_def poison_item_def requeue_item_def answer_item_def adopt_lease_def relink_run_def
        set_priority_def Let_def r)
qed

definition demo_done :: queue_disk where
  "demo_done = rename_dir demo_queued QUEUED DONE ''q-1''"

lemma demo_done_stored: "stored no_parse demo_done DONE ''q-1'' = Some (demo_item\<lparr>qi_state := DONE\<rparr>)" "queue_ok demo_done"
proof -
  have q: "queue_ok demo_queued" using demo_queued_inv by (simp add: queue_inv_def)
  from stored_SomeD(6) [OF demo_queued_stored] obtain e
    where e: "dir_lookup demo_queued QUEUED ''q-1'' = Some (Item_Dir e)" by blast
  have l: "load_item_dir no_parse ''q-1'' e QUEUED = Some demo_item"
    using demo_queued_stored e by (simp add: stored_def)
  then have "load_item_dir no_parse ''q-1'' e DONE = Some (demo_item\<lparr>qi_state := DONE\<rparr>)"
    by (rule load_item_dir_state)
  then show "stored no_parse demo_done DONE ''q-1'' = Some (demo_item\<lparr>qi_state := DONE\<rparr>)"
    by (simp add: demo_done_def stored_def lookup_rename_dir [OF e])
  show "queue_ok demo_done" unfolding demo_done_def by (rule queue_ok_rename [OF q]) (simp add: e)
qed

theorem done_is_final_witness:
  "\<exists>e. apply_op demo_ctx no_parse demo_done (demo_item\<lparr>qi_state := DONE\<rparr>) (Op_Requeue ''retry'' [] True None)
       = (demo_done, demo_item\<lparr>qi_state := DONE\<rparr>, Some e)"
  by (rule done_is_final [OF demo_done_stored(2,1)]) simp

lemma answer_error_cases:
  assumes "answer_item cx d item new_text actor reset row run = (d', item', Inl e)"
    and "\<not> cx_spec_write_fails cx"
  shows "d' = d \<and> item' = item \<or>
         (qi_state item = AWAITING_ANSWER \<or> qi_state item = POISON) \<and>
         (\<exists>n c det. transition cx (put_file d (qi_state item) (qi_item_id item) n c) item QUEUED ''answered''
             actor False det (answer_updates reset) = (d', item', Some e))"
  using assms
  by (auto simp: answer_item_def spec_path_def item_dir_def Let_def
      split: if_splits option.splits content.splits sum.splits prod.splits)

text \<open>an answer that is refused leaves everything as it was: whenever no disk write fails and
  \<open>answer\<close> raises, the disk, with the spec in it, and the item are unchanged.\<close>

theorem answer_refusal_changes_nothing:
  assumes "queue_ok d" and "stored parse d s iid = Some item"
    and "\<not> cx_meta_write_fails cx" and "\<not> cx_rename_fails cx" and "\<not> cx_spec_write_fails cx"
    and "answer_item cx d item new_text actor reset row run = (d', item', Inl e)"
  shows "d' = d \<and> item' = item"
proof -
  note id = stored_SomeD(1,2,4,5) [OF assms(2)]
  have dir: "dir_lookup (put_file d s iid n c) u k =
      (if u = s \<and> k = iid then dir_lookup (put_file d s iid n c) s iid else dir_lookup d u k)" for n c u k
    by (simp add: lookup_put_file)
  have isd: "is_dir (put_file d s iid n c) s iid" for n c
    by (simp add: is_dir_def lookup_put_file)
  have ref: "transition_refusal (put_file d s iid n c) item QUEUED = None" if "QUEUED \<in> set (legal_transitions s)" for n c
  proof -
    have "dir_lookup d QUEUED iid = None"
      using transition_refusal_stored [OF assms(1,2), of QUEUED] that transition_refusal_NoneD(4) [of d item QUEUED] id
      by simp
    moreover have "QUEUED \<noteq> s" using that legal_not_refl by blast
    ultimately show ?thesis
      using that id isd [of n c] dir [of n c QUEUED iid]
      by (simp add: transition_refusal_def item_dir_def path_exists_def)
  qed
  show ?thesis
  proof (rule ccontr)
    assume "\<not> ?thesis"
    with answer_error_cases [OF assms(6,5)] id obtain n c det where
      "QUEUED \<in> set (legal_transitions s)" and
      t: "transition cx (put_file d s iid n c) item QUEUED ''answered'' actor False det (answer_updates reset)
        = (d', item', Some e)"
      by auto
    from ref [OF this(1), of n c] t assms(3,4) show False by (simp add: transition_def Let_def)
  qed
qed

theorem answer_refusal_changes_nothing_witness:
  "fst (answer_item demo_ctx demo_queued demo_item ''new spec'' [] False [] []) = demo_queued"
proof -
  have t: "answer_item demo_ctx demo_queued demo_item ''new spec'' [] False [] []
      = (demo_queued, demo_item, Inl (Cannot_Answer ''q-1'' QUEUED))"
    by (simp add: answer_item_def demo_item_def new_item_def)
  have q: "queue_ok demo_queued" using demo_queued_inv by (simp add: queue_inv_def)
  have nf: "\<not> cx_meta_write_fails demo_ctx" "\<not> cx_rename_fails demo_ctx" "\<not> cx_spec_write_fails demo_ctx"
    by (simp_all add: demo_ctx_def)
  from answer_refusal_changes_nothing [OF q demo_queued_stored nf t] show ?thesis by (simp add: t)
qed

text \<open>what \<open>add\<close> publishes. A successful \<open>add\<close> leaves under the item's spec name exactly the text it
  was given, except under the name \<open>meta.json\<close>, which passes the name check: there the sidecar
  replaces the spec, so the item's spec reads as its own metadata.\<close>

theorem add_publishes_spec:
  assumes "add_item cx iid d src a = (d', Inr item)"
  shows "qi_spec_filename item = added_spec_name src a \<and>
         file_at d' QUEUED iid (qi_spec_filename item) =
           Some (if added_spec_name src a = meta_filename then Doc (JObj (to_dict item))
                 else Text (case src of From_Path _ c \<Rightarrow> c | From_Text c \<Rightarrow> c))"
  using assms
  by (auto simp: add_item_def Let_def file_at_def disk.lookup_put dict_simps new_item_def added_spec_name_def
      split: if_splits)

theorem add_publishes_spec_witness:
  "\<exists>item. snd (add_item demo_ctx ''q-2'' empty_queue (From_Path ''meta.json'' ''build it'') demo_args) = Inr item \<and>
     file_at (fst (add_item demo_ctx ''q-2'' empty_queue (From_Path ''meta.json'' ''build it'') demo_args))
       QUEUED ''q-2'' ''meta.json'' = Some (Doc (JObj (to_dict item)))"
proof -
  let ?r = "add_item demo_ctx ''q-2'' empty_queue (From_Path ''meta.json'' ''build it'') demo_args"
  have "is_safe_component ''meta.json''" by (simp add: is_safe_component_iff startswith_def)
  then obtain item where r: "?r = (fst ?r, Inr item)"
    by (simp add: add_item_def demo_ctx_def demo_args_def empty_queue_def path_exists_def dir_lookup_def
        blank_def is_space_def Let_def)
  from add_publishes_spec [OF r] show ?thesis
    using r by (auto simp: added_spec_name_def meta_filename_def) (metis snd_conv)
qed

text \<open>a disk fault inside a transition. When the rename fails the item object is put back to the state
  its directory is in; when the write of \<open>meta.json\<close> fails nothing moved either, but the object
  keeps claiming the target state.\<close>

theorem transition_fault_states:
  assumes "transition_refusal d item to = None" and "cx_meta_write_fails cx \<or> cx_rename_fails cx"
    and "transition cx d item to reason actor charge detail upd = (d', item', r)"
  shows "r = Some Os_Error \<and> (\<forall>u k. is_dir d' u k \<longleftrightarrow> is_dir d u k) \<and>
         qi_state item' = (if cx_meta_write_fails cx then to else qi_state item)"
proof -
  have "is_dir (write_meta d (qi_state item) (qi_item_id item) i) u k \<longleftrightarrow> is_dir d u k" for i u k
    using transition_refusal_NoneD(3) [OF assms(1)] by (auto simp: is_dir_def write_meta_def lookup_put_file)
  with assms show ?thesis by (auto elim!: transition_cases simp: moved_item_def Let_def)
qed

theorem transition_fault_states_witness:
  "\<exists>d' i'. transition (demo_ctx\<lparr>cx_meta_write_fails := True\<rparr>) demo_queued demo_item LEASED ''leased'' [] False []
             (\<lambda>i. i) = (d', i', Some Os_Error) \<and> is_dir d' QUEUED ''q-1'' \<and> qi_state i' = LEASED"
proof -
  have q: "queue_ok demo_queued" using demo_queued_inv by (simp add: queue_inv_def)
  have n: "transition_refusal demo_queued demo_item LEASED = None"
    using transition_refusal_stored [OF q demo_queued_stored, of LEASED] by simp
  obtain d' i' r where t: "transition (demo_ctx\<lparr>cx_meta_write_fails := True\<rparr>) demo_queued demo_item LEASED
      ''leased'' [] False [] (\<lambda>i. i) = (d', i', r)"
    by (cases "transition (demo_ctx\<lparr>cx_meta_write_fails := True\<rparr>) demo_queued demo_item LEASED
      ''leased'' [] False [] (\<lambda>i. i)") auto
  from transition_fault_states [OF n _ t] stored_SomeD(4) [OF demo_queued_stored] t show ?thesis by simp
qed

text \<open>a pause holds. After intake is paused nothing is claimed from any queue, unless the control
  directory is trusted and the pause carried a resume time that has passed.\<close>

theorem pause_stops_claims:
  assumes "c' = fst (pause_queue lost stamp c d reason actor resume_after)"
    and "next_ready fromiso parse c' d' now = Some item"
  shows "cd_untrusted c = None \<and> (\<exists>t. parse_iso fromiso resume_after = Some t \<and> t \<le> now)"
proof -
  from assms have "\<not> is_paused fromiso c' now" by (simp add: next_ready_def split: if_splits)
  with assms(1) show ?thesis
    by (simp add: pause_queue_def Let_def is_paused_def read_pause_state_def pause_active_def
        paused_because_def default_pause_def parse_iso_def split: if_splits option.splits)
qed

theorem pause_stops_claims_witness:
  "\<exists>t. parse_iso (\<lambda>_. Some 3) ''later'' = Some t \<and> t \<le> 5"
proof -
  let ?c = "\<lparr>cd_untrusted = None, cd_pause = Marker_Missing\<rparr>"
  let ?c' = "fst (pause_queue False ''now'' ?c demo_queued ''budget'' ''serve'' ''later'')"
  have np: "\<not> is_paused (\<lambda>_. Some 3) ?c' 5"
    by (simp add: is_paused_def pause_active_def read_pause_state_def pause_queue_def Let_def parse_iso_def)
  have q: "queue_ok demo_queued" using demo_queued_inv by (simp add: queue_inv_def)
  have "demo_item \<in> set (queue_items no_parse demo_queued [QUEUED])"
    using queue_items_mem [OF q] demo_queued_stored by (simp add: demo_item_def new_item_def)
  moreover have "ready_at (\<lambda>_. Some 3) demo_item 5" by (simp add: ready_at_def demo_item_def new_item_def)
  ultimately obtain i where "find (\<lambda>i. ready_at (\<lambda>_. Some 3) i 5) (queue_items no_parse demo_queued [QUEUED]) = Some i"
    by (metis (mono_tags, lifting) find_None_iff not_None_eq)
  with np have "next_ready (\<lambda>_. Some 3) no_parse ?c' demo_queued 5 = Some i" by (simp add: next_ready_def)
  from pause_stops_claims [OF refl this] show ?thesis by simp
qed

end
