(* ===== verification/Findings.thy ===== *)
theory Findings
  imports Prelude
begin

text \<open>
  \<open>Finding\<close> of \<open>kstrl/plan/findings.py\<close> and its dict form. \<open>str(v)\<close> of a JSON value that is
  not a string is \<open>py_str\<close>; how Python prints a float, a list or an object is its argument \<open>rep\<close>.
\<close>

record finding =
  fi_phase :: string
  fi_category :: string
  fi_severity :: string
  fi_location :: string
  fi_explanation :: string
  fi_suggestion :: string
  fi_owasp :: string
  fi_cwe :: string
  fi_tags :: "string list"

definition claim_disagreement_category :: string where
  "claim_disagreement_category = ''claim_disagreement''"

definition category_aliases :: "(string \<times> string) list" where
  "category_aliases = [(''setpoint_disagreement'', claim_disagreement_category)]"

definition infrastructure_category :: string where
  "infrastructure_category = ''infrastructure_error''"

definition phase_skipped_category :: string where
  "phase_skipped_category = ''phase_skipped''"

definition policy_category_prefix :: string where "policy_category_prefix = ''policy_''"

definition waiver_tag_prefix :: string where "waiver_tag_prefix = ''waiver:''"

definition is_infrastructure_error :: "finding \<Rightarrow> bool" where
  "is_infrastructure_error f = (fi_category f = infrastructure_category)"

definition is_phase_skip :: "finding \<Rightarrow> bool" where
  "is_phase_skip f = (fi_category f = phase_skipped_category)"

fun py_str :: "(json \<Rightarrow> string) \<Rightarrow> json \<Rightarrow> string" where
  "py_str rep (JStr s) = s"
| "py_str rep JNull = ''None''"
| "py_str rep (JBool True) = ''True''"
| "py_str rep (JBool False) = ''False''"
| "py_str rep (JInt n) = int_text n"
| "py_str rep v = rep v"

definition finding_to_dict :: "finding \<Rightarrow> json_object" where
  "finding_to_dict f =
     [(''phase'', JStr (fi_phase f)), (''category'', JStr (fi_category f)),
      (''severity'', JStr (fi_severity f)), (''location'', JStr (fi_location f)),
      (''explanation'', JStr (fi_explanation f)), (''suggestion'', JStr (fi_suggestion f)),
      (''owasp'', JStr (fi_owasp f)), (''cwe'', JStr (fi_cwe f)),
      (''tags'', JList (map JStr (fi_tags f)))]"

definition resolve_category :: "string \<Rightarrow> string" where
  "resolve_category c = (case map_of category_aliases c of None \<Rightarrow> c | Some c' \<Rightarrow> c')"

definition tags_of_json :: "(json \<Rightarrow> string) \<Rightarrow> json \<Rightarrow> string list" where
  "tags_of_json rep v = (case v of JList ts \<Rightarrow> map (py_str rep) ts | _ \<Rightarrow> [])"

definition finding_from_dict :: "(json \<Rightarrow> string) \<Rightarrow> json_object \<Rightarrow> finding" where
  "finding_from_dict rep data =
     \<lparr>fi_phase = py_str rep (jget data ''phase'' (JStr [])),
      fi_category = resolve_category (py_str rep (jget data ''category'' (JStr []))),
      fi_severity = py_str rep (jget data ''severity'' (JStr [])),
      fi_location = py_str rep (jget data ''location'' (JStr [])),
      fi_explanation = py_str rep (jget data ''explanation'' (JStr [])),
      fi_suggestion = py_str rep (jget data ''suggestion'' (JStr [])),
      fi_owasp = py_str rep (jget data ''owasp'' (JStr [])),
      fi_cwe = py_str rep (jget data ''cwe'' (JStr [])),
      fi_tags = tags_of_json rep (jget data ''tags'' (JList []))\<rparr>"

section \<open>Lemmas\<close>

text \<open>No alias leads to an alias, so a decoded category resolves to itself.\<close>

lemma resolve_category_idem [simp]: "resolve_category (resolve_category c) = resolve_category c"
  by (simp add: resolve_category_def category_aliases_def claim_disagreement_category_def)

lemma tags_of_strings [simp]: "tags_of_json rep (JList (map JStr ts)) = ts"
  by (induction ts) (simp_all add: tags_of_json_def)

lemma finding_roundtrip:
  assumes "resolve_category (fi_category f) = fi_category f"
  shows "finding_from_dict rep (finding_to_dict f) = f"
  using assms by (cases f) (simp add: finding_from_dict_def finding_to_dict_def jget_Cons)

lemma finding_from_dict_resolved [simp]:
  "resolve_category (fi_category (finding_from_dict rep d)) = fi_category (finding_from_dict rep d)"
  by (simp add: finding_from_dict_def)

end
