(* ===== verification/Manifest.thy ===== *)
theory Manifest
  imports Findings Names
begin

text \<open>
  \<open>kstrl/plan/manifest.py\<close> and \<open>kstrl/plan/manifest_keys.py\<close>: the records of a component and of
  the manifest, the schema check of a decoded document, \<open>Manifest.load\<close>, \<open>Manifest.save\<close> and
  \<open>Manifest.from_prd\<close>. A field the schema types is typed here; a field it passes through
  unchecked is the JSON value itself. The graph is in \<open>Manifest_Dag\<close>.
\<close>

section \<open>Component states\<close>

datatype component_status =
    PENDING | RUNNING | VERIFYING | COMPLETED | MERGE_PENDING | AWAITING_APPROVAL | FAILED | SKIPPED

fun status_value :: "component_status \<Rightarrow> string" where
  "status_value PENDING = ''pending''"
| "status_value RUNNING = ''running''"
| "status_value VERIFYING = ''verifying''"
| "status_value COMPLETED = ''completed''"
| "status_value MERGE_PENDING = ''merge_pending''"
| "status_value AWAITING_APPROVAL = ''awaiting_approval''"
| "status_value FAILED = ''failed''"
| "status_value SKIPPED = ''skipped''"

definition component_statuses :: "component_status list" where
  "component_statuses =
     [PENDING, RUNNING, VERIFYING, COMPLETED, MERGE_PENDING, AWAITING_APPROVAL, FAILED, SKIPPED]"

definition status_of :: "string \<Rightarrow> component_status option" where
  "status_of s = find (\<lambda>st. status_value st = s) component_statuses"

lemma status_of_value [simp]: "status_of (status_value st) = Some st"
  by (cases st) (simp_all add: status_of_def component_statuses_def)

lemma status_value_of: "status_of s = Some st \<Longrightarrow> status_value st = s"
  by (auto simp: status_of_def dest: find_SomeD)

lemma status_value_inject [simp]: "status_value a = status_value b \<longleftrightarrow> a = b"
  by (metis option.inject status_of_value)

section \<open>The records\<close>

record component =
  c_id :: string
  c_title :: string
  c_description :: string
  c_dependencies :: "string list"
  c_prd_path :: string
  c_branch_name :: string
  c_status :: component_status
  c_error :: json
  c_plan_id :: string
  c_retries :: json
  c_first_attempt :: int
  c_pr_number :: json
  c_pr_url :: json
  c_merge_sha :: json
  c_judged_sha :: json
  c_rejudge_sha :: string
  c_linear_issue_id :: json
  c_linear_issue_identifier :: json
  c_started_at :: json
  c_completed_at :: json
  c_duration_seconds :: json
  c_iteration_count :: json
  c_verification_passed :: json
  c_review_passed :: json
  c_findings :: "finding list"
  c_review_findings :: json
  c_scaffold :: json
  c_failed_phase :: json
  c_failed_check :: json
  c_evidence_worktree :: json
  c_evidence_debug_dir :: json
  c_journal_offset_start :: json
  c_journal_offset_end :: json

record manifest =
  m_version :: string
  m_spec_file :: string
  m_project_name :: string
  m_base_branch :: string
  m_single_pr :: bool
  m_components :: "component list"
  m_run_id :: string
  m_completed_at :: string
  m_linear_project_id :: json
  m_linear_sync_key :: json
  m_policy_hash :: string
  m_kstrl_version :: string
  m_feature_base_sha :: string
  m_plan_awaiting_approval :: string
  m_spec_path :: string
  m_spec_digest :: string
  m_stack_digest :: json
  m_acceptance_digest :: json

section \<open>The keys\<close>

text \<open>Both key sets are listed in the order \<open>sorted\<close> gives.\<close>

definition manifest_required_keys :: "string list" where
  "manifest_required_keys =
     [''baseBranch'', ''components'', ''projectName'', ''singlePr'', ''specFile'',
      ''version'']"

definition manifest_optional_string_keys :: "string list" where
  "manifest_optional_string_keys =
     [''runId'', ''completedAt'', ''policyHash'', ''kstrlVersion'', ''featureBaseSha'',
      ''planAwaitingApproval'', ''specPath'']"

definition component_required_keys :: "string list" where
  "component_required_keys =
     [''branchName'', ''dependencies'', ''description'', ''id'', ''prdPath'', ''title'']"

definition component_optional_keys :: "string list" where
  "component_optional_keys =
     [''status'', ''error'', ''planId'', ''retries'', ''firstAttempt'', ''prNumber'',
      ''prUrl'', ''mergeSha'', ''judgedSha'', ''rejudgeSha'', ''linearIssueId'',
      ''linearIssueIdentifier'', ''startedAt'', ''completedAt'', ''durationSeconds'',
      ''iterationCount'', ''verificationPassed'', ''reviewPassed'', ''findings'',
      ''reviewFindings'', ''scaffold'', ''failedPhase'', ''failedCheck'',
      ''evidenceWorktree'', ''evidenceDebugDir'', ''journalOffsetStart'',
      ''journalOffsetEnd'']"

section \<open>The schema check\<close>

text \<open>One constructor per message; an error of a component carries its position.\<close>

datatype manifest_error =
    Not_An_Object
  | Missing_Keys "string list"
  | Key_Not_String string
  | Project_Name_Empty
  | Base_Branch_Invalid name_error
  | Single_Pr_Not_Bool
  | Spec_Digest_Invalid json
  | Spec_Path_Missing
  | Components_Not_Array
  | Comp_Not_Object nat
  | Comp_Missing_Keys nat "string list"
  | Comp_Unexpected_Keys nat "string list"
  | Field_Not_String nat string
  | Field_Invalid nat string name_error
  | Deps_Not_Array nat
  | Deps_Not_Strings nat
  | Status_Not_String nat
  | Status_Invalid nat string
  | Plan_Id_Not_String nat
  | Plan_Id_Invalid nat string
  | Rejudge_Sha_Invalid nat json
  | First_Attempt_Invalid nat

definition component_string_fields :: "(string \<times> (string \<Rightarrow> name_error option) option) list" where
  "component_string_fields =
     [(''id'', Some validate_component_id), (''title'', None), (''description'', None),
      (''prdPath'', None), (''branchName'', Some validate_branch_name)]"

definition string_field_errors ::
    "json_object \<Rightarrow> nat \<Rightarrow> string \<times> (string \<Rightarrow> name_error option) option \<Rightarrow> manifest_error list" where
  "string_field_errors entry i f =
     (case jget entry (fst f) JNull of
        JStr value \<Rightarrow>
          (case snd f of
             None \<Rightarrow> []
           | Some extra_rule \<Rightarrow>
               (case extra_rule value of
                  None \<Rightarrow> []
                | Some msg \<Rightarrow> [Field_Invalid i (fst f) msg]))
      | _ \<Rightarrow> [Field_Not_String i (fst f)])"

definition dependencies_errors :: "json_object \<Rightarrow> nat \<Rightarrow> manifest_error list" where
  "dependencies_errors entry i =
     (case jget entry ''dependencies'' JNull of
        JList ds \<Rightarrow> (if list_all is_jstr ds then [] else [Deps_Not_Strings i])
      | _ \<Rightarrow> [Deps_Not_Array i])"

definition status_errors :: "json_object \<Rightarrow> nat \<Rightarrow> manifest_error list" where
  "status_errors entry i =
     (case map_of entry ''status'' of
        None \<Rightarrow> []
      | Some (JStr s) \<Rightarrow> (if status_of s = None then [Status_Invalid i s] else [])
      | Some _ \<Rightarrow> [Status_Not_String i])"

definition plan_id_errors :: "json_object \<Rightarrow> nat \<Rightarrow> manifest_error list" where
  "plan_id_errors entry i =
     (case jget entry ''planId'' (JStr []) of
        JStr p \<Rightarrow>
          (if p \<noteq> [] \<and> validate_component_id p \<noteq> None then [Plan_Id_Invalid i p] else [])
      | _ \<Rightarrow> [Plan_Id_Not_String i])"

text \<open>\<open>REJUDGE_SHA_PATTERN.fullmatch\<close> and \<open>SPEC_DIGEST_PATTERN.fullmatch\<close>.\<close>

definition rejudge_sha_pattern :: "string \<Rightarrow> bool" where
  "rejudge_sha_pattern s = (list_all hex_lower s \<and> (length s = 0 \<or> length s = 40 \<or> length s = 64))"

definition spec_digest_pattern :: "string \<Rightarrow> bool" where
  "spec_digest_pattern s = (list_all hex_lower s \<and> length s = 64)"

definition rejudge_sha_errors :: "json_object \<Rightarrow> nat \<Rightarrow> manifest_error list" where
  "rejudge_sha_errors entry i =
     (let value = jget entry ''rejudgeSha'' (JStr []) in
      case value of
        JStr s \<Rightarrow> (if rejudge_sha_pattern s then [] else [Rejudge_Sha_Invalid i value])
      | _ \<Rightarrow> [Rejudge_Sha_Invalid i value])"

definition first_attempt_errors :: "json_object \<Rightarrow> nat \<Rightarrow> manifest_error list" where
  "first_attempt_errors entry i =
     (case jget entry ''firstAttempt'' (JInt 1) of
        JInt n \<Rightarrow> (if n < 1 then [First_Attempt_Invalid i] else [])
      | _ \<Rightarrow> [First_Attempt_Invalid i])"

definition validate_component_fields :: "json_object \<Rightarrow> nat \<Rightarrow> manifest_error list" where
  "validate_component_fields entry i =
     concat (map (string_field_errors entry i) component_string_fields) @
     dependencies_errors entry i @ status_errors entry i @ plan_id_errors entry i @
     rejudge_sha_errors entry i @ first_attempt_errors entry i"

definition spec_pin_schema_errors :: "json_object \<Rightarrow> manifest_error list" where
  "spec_pin_schema_errors data =
     (case map_of data ''specDigest'' of
        None \<Rightarrow> []
      | Some digest \<Rightarrow>
          (case digest of
             JStr s \<Rightarrow>
               (if \<not> spec_digest_pattern s then [Spec_Digest_Invalid digest]
                else if \<not> truthy (jget data ''specPath'' JNull) then [Spec_Path_Missing]
                else [])
           | _ \<Rightarrow> [Spec_Digest_Invalid digest]))"

definition top_string_errors :: "json_object \<Rightarrow> manifest_error list" where
  "top_string_errors data =
     [Key_Not_String key. key \<leftarrow> [''version'', ''specFile'', ''projectName'', ''baseBranch''],
        \<not> is_jstr (jget data key JNull)]"

definition base_branch_errors :: "json_object \<Rightarrow> manifest_error list" where
  "base_branch_errors data =
     (case jget data ''baseBranch'' JNull of
        JStr b \<Rightarrow> (case validate_branch_name b of None \<Rightarrow> [] | Some e \<Rightarrow> [Base_Branch_Invalid e])
      | _ \<Rightarrow> [])"

definition optional_string_errors :: "json_object \<Rightarrow> manifest_error list" where
  "optional_string_errors data =
     [Key_Not_String key. key \<leftarrow> manifest_optional_string_keys,
        \<not> is_jstr (jget data key (JStr []))]"

definition manifest_top_level_errors :: "json \<Rightarrow> manifest_error list" where
  "manifest_top_level_errors doc =
     (case doc of
        JObj data \<Rightarrow>
          (let missing = filter (\<lambda>k. k \<notin> set (jkeys data)) manifest_required_keys in
           if missing \<noteq> [] then [Missing_Keys missing]
           else top_string_errors data @
             (if jget data ''projectName'' JNull = JStr [] then [Project_Name_Empty] else []) @
             base_branch_errors data @
             (case jget data ''singlePr'' JNull of JBool _ \<Rightarrow> [] | _ \<Rightarrow> [Single_Pr_Not_Bool]) @
             optional_string_errors data @ spec_pin_schema_errors data)
      | _ \<Rightarrow> [Not_An_Object])"

definition component_errors :: "nat \<Rightarrow> json \<Rightarrow> manifest_error list" where
  "component_errors i v =
     (case v of
        JObj entry \<Rightarrow>
          (let missing = filter (\<lambda>k. k \<notin> set (jkeys entry)) component_required_keys;
               extra = sort (remdups (filter
                 (\<lambda>k. k \<notin> set component_required_keys \<union> set component_optional_keys) (jkeys entry)))
           in if missing \<noteq> [] then [Comp_Missing_Keys i missing]
              else if extra \<noteq> [] then [Comp_Unexpected_Keys i extra]
              else validate_component_fields entry i)
      | _ \<Rightarrow> [Comp_Not_Object i])"

fun components_errors :: "nat \<Rightarrow> json list \<Rightarrow> manifest_error list" where
  "components_errors i [] = []"
| "components_errors i (c # cs) = component_errors i c @ components_errors (Suc i) cs"

definition validate_schema :: "json \<Rightarrow> manifest_error list" where
  "validate_schema doc =
     manifest_top_level_errors doc @
     (case doc of
        JObj data \<Rightarrow>
          (if \<exists>k\<in>set manifest_required_keys. k \<notin> set (jkeys data) then []
           else (case jget data ''components'' JNull of
                   JList cs \<Rightarrow> components_errors 0 cs
                 | _ \<Rightarrow> [Components_Not_Array]))
      | _ \<Rightarrow> [])"

section \<open>\<open>Manifest.load\<close>\<close>

text \<open>
  A document the schema accepts can still stop the load: iterating a \<open>findings\<close> value that is a
  number, a boolean or null raises \<open>TypeError\<close>. A string or an object iterates over strings,
  which are not dicts and are dropped.
\<close>

datatype load_error =
    Invalid_Schema "manifest_error list"
  | Findings_Not_Iterable

definition findings_of_json :: "(json \<Rightarrow> string) \<Rightarrow> json \<Rightarrow> load_error + finding list" where
  "findings_of_json rep v =
     (case v of
        JList ds \<Rightarrow> Inr (concat (map (\<lambda>d. case d of JObj kvs \<Rightarrow> [finding_from_dict rep kvs] | _ \<Rightarrow> []) ds))
      | JStr _ \<Rightarrow> Inr []
      | JObj _ \<Rightarrow> Inr []
      | _ \<Rightarrow> Inl Findings_Not_Iterable)"

fun jint_of :: "json \<Rightarrow> int" where
  "jint_of (JInt n) = n"
| "jint_of _ = 0"

fun jlist_of :: "json \<Rightarrow> json list" where
  "jlist_of (JList xs) = xs"
| "jlist_of _ = []"

fun jobj_of :: "json \<Rightarrow> json_object" where
  "jobj_of (JObj kvs) = kvs"
| "jobj_of _ = []"

fun jbool_of :: "json \<Rightarrow> bool" where
  "jbool_of (JBool b) = b"
| "jbool_of _ = False"

definition jstatus_of :: "json \<Rightarrow> component_status" where
  "jstatus_of v = (case status_of (jstr_of v) of Some st \<Rightarrow> st | None \<Rightarrow> PENDING)"

definition load_component :: "(json \<Rightarrow> string) \<Rightarrow> json_object \<Rightarrow> load_error + component" where
  "load_component rep c =
     (case findings_of_json rep (jget c ''findings'' (JList [])) of
        Inl e \<Rightarrow> Inl e
      | Inr fs \<Rightarrow> Inr
         \<lparr>c_id = jstr_of (jget c ''id'' JNull),
          c_title = jstr_of (jget c ''title'' JNull),
          c_description = jstr_of (jget c ''description'' JNull),
          c_dependencies = map jstr_of (jlist_of (jget c ''dependencies'' JNull)),
          c_prd_path = jstr_of (jget c ''prdPath'' JNull),
          c_branch_name = jstr_of (jget c ''branchName'' JNull),
          c_status = jstatus_of (jget c ''status'' (JStr ''pending'')),
          c_error = jget c ''error'' (JStr []),
          c_plan_id = jstr_of (jget c ''planId'' (JStr [])),
          c_retries = jget c ''retries'' (JInt 0),
          c_first_attempt = jint_of (jget c ''firstAttempt'' (JInt 1)),
          c_pr_number = jget c ''prNumber'' JNull,
          c_pr_url = jget c ''prUrl'' (JStr []),
          c_merge_sha = jget c ''mergeSha'' (JStr []),
          c_judged_sha = jget c ''judgedSha'' (JStr []),
          c_rejudge_sha = jstr_of (jget c ''rejudgeSha'' (JStr [])),
          c_linear_issue_id = jget c ''linearIssueId'' (JStr []),
          c_linear_issue_identifier = jget c ''linearIssueIdentifier'' (JStr []),
          c_started_at = jget c ''startedAt'' (JStr []),
          c_completed_at = jget c ''completedAt'' (JStr []),
          c_duration_seconds = jget c ''durationSeconds'' (JFloat 0),
          c_iteration_count = jget c ''iterationCount'' (JInt 0),
          c_verification_passed = jget c ''verificationPassed'' JNull,
          c_review_passed = jget c ''reviewPassed'' JNull,
          c_findings = fs,
          c_review_findings = jget c ''reviewFindings'' (JStr []),
          c_scaffold = jget c ''scaffold'' (JStr []),
          c_failed_phase = jget c ''failedPhase'' (JStr []),
          c_failed_check = jget c ''failedCheck'' (JStr []),
          c_evidence_worktree = jget c ''evidenceWorktree'' (JStr []),
          c_evidence_debug_dir = jget c ''evidenceDebugDir'' (JStr []),
          c_journal_offset_start = jget c ''journalOffsetStart'' (JInt (- 1)),
          c_journal_offset_end = jget c ''journalOffsetEnd'' (JInt (- 1))\<rparr>)"

fun load_components :: "(json \<Rightarrow> string) \<Rightarrow> json list \<Rightarrow> load_error + component list" where
  "load_components rep [] = Inr []"
| "load_components rep (v # vs) =
     (case load_component rep (jobj_of v) of
        Inl e \<Rightarrow> Inl e
      | Inr c \<Rightarrow> (case load_components rep vs of Inl e \<Rightarrow> Inl e | Inr cs \<Rightarrow> Inr (c # cs)))"

definition load_manifest :: "(json \<Rightarrow> string) \<Rightarrow> json \<Rightarrow> load_error + manifest" where
  "load_manifest rep doc =
     (let errors = validate_schema doc; data = jobj_of doc in
      if errors \<noteq> [] then Inl (Invalid_Schema errors)
      else (case load_components rep (jlist_of (jget data ''components'' JNull)) of
        Inl e \<Rightarrow> Inl e
      | Inr cs \<Rightarrow> Inr
         \<lparr>m_version = jstr_of (jget data ''version'' JNull),
          m_spec_file = jstr_of (jget data ''specFile'' JNull),
          m_project_name = jstr_of (jget data ''projectName'' JNull),
          m_base_branch = jstr_of (jget data ''baseBranch'' JNull),
          m_single_pr = jbool_of (jget data ''singlePr'' JNull),
          m_components = cs,
          m_run_id = jstr_of (jget data ''runId'' (JStr [])),
          m_completed_at = jstr_of (jget data ''completedAt'' (JStr [])),
          m_linear_project_id = jget data ''linearProjectId'' (JStr []),
          m_linear_sync_key = jget data ''linearSyncKey'' (JStr []),
          m_policy_hash = jstr_of (jget data ''policyHash'' (JStr [])),
          m_kstrl_version = jstr_of (jget data ''kstrlVersion'' (JStr [])),
          m_feature_base_sha = jstr_of (jget data ''featureBaseSha'' (JStr [])),
          m_plan_awaiting_approval = jstr_of (jget data ''planAwaitingApproval'' (JStr [])),
          m_spec_path = jstr_of (jget data ''specPath'' (JStr [])),
          m_spec_digest = jstr_of (jget data ''specDigest'' (JStr [])),
          m_stack_digest = jget data ''stackDigest'' (JStr []),
          m_acceptance_digest = jget data ''acceptanceDigest'' (JStr [])\<rparr>))"

section \<open>\<open>Manifest.save\<close>\<close>

definition component_dict :: "component \<Rightarrow> json_object" where
  "component_dict c =
     [(''id'', JStr (c_id c)),
      (''title'', JStr (c_title c)),
      (''description'', JStr (c_description c)),
      (''dependencies'', JList (map JStr (c_dependencies c))),
      (''prdPath'', JStr (c_prd_path c)),
      (''branchName'', JStr (c_branch_name c)),
      (''status'', JStr (status_value (c_status c))),
      (''error'', c_error c),
      (''planId'', JStr (c_plan_id c)),
      (''retries'', c_retries c),
      (''firstAttempt'', JInt (c_first_attempt c)),
      (''prNumber'', c_pr_number c),
      (''prUrl'', c_pr_url c),
      (''mergeSha'', c_merge_sha c),
      (''judgedSha'', c_judged_sha c),
      (''rejudgeSha'', JStr (c_rejudge_sha c)),
      (''linearIssueId'', c_linear_issue_id c),
      (''linearIssueIdentifier'', c_linear_issue_identifier c),
      (''startedAt'', c_started_at c),
      (''completedAt'', c_completed_at c),
      (''durationSeconds'', c_duration_seconds c),
      (''iterationCount'', c_iteration_count c),
      (''verificationPassed'', c_verification_passed c),
      (''reviewPassed'', c_review_passed c),
      (''findings'', JList (map (\<lambda>f. JObj (finding_to_dict f)) (c_findings c))),
      (''reviewFindings'', c_review_findings c),
      (''scaffold'', c_scaffold c),
      (''failedPhase'', c_failed_phase c),
      (''failedCheck'', c_failed_check c),
      (''evidenceWorktree'', c_evidence_worktree c),
      (''evidenceDebugDir'', c_evidence_debug_dir c),
      (''journalOffsetStart'', c_journal_offset_start c),
      (''journalOffsetEnd'', c_journal_offset_end c)]"

definition save_manifest :: "manifest \<Rightarrow> json" where
  "save_manifest m = JObj (
     [(''version'', JStr (m_version m)),
      (''specFile'', JStr (m_spec_file m)),
      (''projectName'', JStr (m_project_name m)),
      (''baseBranch'', JStr (m_base_branch m)),
      (''singlePr'', JBool (m_single_pr m)),
      (''runId'', JStr (m_run_id m)),
      (''completedAt'', JStr (m_completed_at m)),
      (''linearProjectId'', m_linear_project_id m),
      (''linearSyncKey'', m_linear_sync_key m),
      (''policyHash'', JStr (m_policy_hash m)),
      (''kstrlVersion'', JStr (m_kstrl_version m)),
      (''featureBaseSha'', JStr (m_feature_base_sha m)),
      (''planAwaitingApproval'', JStr (m_plan_awaiting_approval m)),
      (''components'', JList (map (\<lambda>c. JObj (component_dict c)) (m_components m)))] @
     (if m_spec_digest m \<noteq> []
      then [(''specPath'', JStr (m_spec_path m)), (''specDigest'', JStr (m_spec_digest m))] else []) @
     (if truthy (m_stack_digest m) then [(''stackDigest'', m_stack_digest m)] else []) @
     (if truthy (m_acceptance_digest m) then [(''acceptanceDigest'', m_acceptance_digest m)] else []))"

section \<open>\<open>Manifest.from_prd\<close>\<close>

text \<open>
  \<open>branch.rsplit("/", 1)[-1]\<close> is the last segment; \<open>stem\<close> is \<open>prd_path.stem\<close>, the file name
  of the PRD without its suffix.
\<close>

datatype prd_error = Invalid_Branch name_error | Invalid_Base name_error

definition prd_project_name :: "string \<Rightarrow> string \<Rightarrow> string \<Rightarrow> string" where
  "prd_project_name stem branch project =
     (if project \<noteq> [] then project
      else if branch \<noteq> [] then last (split_on (CHR ''/'') branch)
      else if stem \<noteq> [] then stem else ''run'')"

definition single_component :: "string \<Rightarrow> string \<Rightarrow> string \<Rightarrow> component" where
  "single_component project rel_prd branch =
     \<lparr>c_id = ''main'',
      c_title = project,
      c_description = ''Single-component run via ks run'',
      c_dependencies = [],
      c_prd_path = rel_prd,
      c_branch_name = branch,
      c_status = PENDING,
      c_error = JStr [],
      c_plan_id = [],
      c_retries = JInt 0,
      c_first_attempt = 1,
      c_pr_number = JNull,
      c_pr_url = JStr [],
      c_merge_sha = JStr [],
      c_judged_sha = JStr [],
      c_rejudge_sha = [],
      c_linear_issue_id = JStr [],
      c_linear_issue_identifier = JStr [],
      c_started_at = JStr [],
      c_completed_at = JStr [],
      c_duration_seconds = JFloat 0,
      c_iteration_count = JInt 0,
      c_verification_passed = JNull,
      c_review_passed = JNull,
      c_findings = [],
      c_review_findings = JStr [],
      c_scaffold = JStr [],
      c_failed_phase = JStr [],
      c_failed_check = JStr [],
      c_evidence_worktree = JStr [],
      c_evidence_debug_dir = JStr [],
      c_journal_offset_start = JInt (- 1),
      c_journal_offset_end = JInt (- 1)\<rparr>"

definition from_prd ::
    "string \<Rightarrow> string \<Rightarrow> string \<Rightarrow> string \<Rightarrow> string \<Rightarrow> prd_error + manifest" where
  "from_prd rel_prd stem branch project base =
     (let project_name = prd_project_name stem branch project;
          effective = (if branch \<noteq> [] then branch else ''kstrl/'' @ project_name) in
      case validate_branch_name effective of
        Some e \<Rightarrow> Inl (Invalid_Branch e)
      | None \<Rightarrow>
          (case validate_branch_name base of
             Some e \<Rightarrow> Inl (Invalid_Base e)
           | None \<Rightarrow> Inr
               \<lparr>m_version = ''1'',
                m_spec_file = [],
                m_project_name = project_name,
                m_base_branch = base,
                m_single_pr = False,
                m_components = [single_component project_name rel_prd effective],
                m_run_id = [],
                m_completed_at = [],
                m_linear_project_id = JStr [],
                m_linear_sync_key = JStr [],
                m_policy_hash = [],
                m_kstrl_version = [],
                m_feature_base_sha = [],
                m_plan_awaiting_approval = [],
                m_spec_path = [],
                m_spec_digest = [],
                m_stack_digest = JStr [],
                m_acceptance_digest = JStr []\<rparr>))"

section \<open>\<open>has_merged\<close>\<close>

definition has_merged :: "component \<Rightarrow> bool" where
  "has_merged c =
     (if c_status c = MERGE_PENDING \<or> truthy (c_merge_sha c) then True
      else c_status c = COMPLETED \<and> truthy (c_pr_url c))"

end
