(* ===== verification/Manifest_Dag.thy ===== *)
theory Manifest_Dag
  imports Manifest
begin

text \<open>
  The dependency graph of \<open>kstrl/plan/manifest.py\<close>: \<open>validate_dag\<close>, \<open>topological_order\<close>,
  \<open>compute_tiers\<close>, \<open>get_component\<close>, \<open>get_ready_components\<close>, \<open>cascade_skip\<close>,
  \<open>_transitive_dependents\<close>, \<open>retryable_component_ids\<close> and \<open>reset_for_retry\<close>, over the list of
  components of the manifest. The dictionaries \<open>in_degree\<close>, \<open>adj\<close> and \<open>dependents\<close> are in
  insertion order, since the code iterates over them; a missing key is a \<open>KeyError\<close>. The loops
  end because a node enters the work list only when its in-degree drops to zero (or its status
  becomes SKIPPED, or it is found for the first time).
\<close>

section \<open>The graph's dictionaries\<close>

datatype dag_error =
    Duplicate_Id string
  | Unknown_Dependency string string
  | Cycle_Detected

fun dag_error_text :: "dag_error \<Rightarrow> string" where
  "dag_error_text (Duplicate_Id cid) = ''Duplicate component ID: '' @ cid"
| "dag_error_text (Unknown_Dependency cid dep) =
     ''Component '' @ [CHR 0x27] @ cid @ [CHR 0x27] @ '' depends on unknown component '' @
     [CHR 0x27] @ dep @ [CHR 0x27]"
| "dag_error_text Cycle_Detected = ''Dependency cycle detected in component graph''"

datatype graph_error =
    Graph_Invalid dag_error
  | Key_Error string
  | Unknown_Component string
  | Not_Failed string component_status

text \<open>\<open>{c.id: init for c in components}\<close>\<close>

definition init_dict :: "'v \<Rightarrow> component list \<Rightarrow> (string, 'v) dict" where
  "init_dict v cs = foldl (\<lambda>d c. dict_set d (c_id c) v) [] cs"

text \<open>The two nested loops over components and their dependencies, flattened.\<close>

definition dep_edges :: "component list \<Rightarrow> (string \<times> string) list" where
  "dep_edges cs = concat (map (\<lambda>c. map (\<lambda>dep. (dep, c_id c)) (c_dependencies c)) cs)"

type_synonym degrees = "(string, int) dict"
type_synonym adjacency = "(string, string list) dict"

definition degree_at :: "degrees \<Rightarrow> string \<Rightarrow> int" where
  "degree_at deg v = (case dict_get deg v of None \<Rightarrow> 0 | Some n \<Rightarrow> n)"

definition adjacent :: "adjacency \<Rightarrow> string \<Rightarrow> string list" where
  "adjacent adj v = (case dict_get adj v of None \<Rightarrow> [] | Some xs \<Rightarrow> xs)"

text \<open>\<open>adj[dep].append(comp.id); in_degree[comp.id] += 1\<close> for each edge; \<open>adj[dep]\<close> raises
  \<open>KeyError\<close> when no component has that id. Every \<open>comp.id\<close> is a key of \<open>in_degree\<close>.\<close>

fun add_edges ::
    "adjacency \<Rightarrow> degrees \<Rightarrow> (string \<times> string) list \<Rightarrow> graph_error + adjacency \<times> degrees" where
  "add_edges adj deg [] = Inr (adj, deg)"
| "add_edges adj deg ((dep, cid) # es) =
     (case dict_get adj dep of
        None \<Rightarrow> Inl (Key_Error dep)
      | Some xs \<Rightarrow>
          add_edges (dict_set adj dep (xs @ [cid])) (dict_set deg cid (degree_at deg cid + 1)) es)"

definition build_graph :: "component list \<Rightarrow> graph_error + adjacency \<times> degrees" where
  "build_graph cs = add_edges (init_dict [] cs) (init_dict 0 cs) (dep_edges cs)"

definition roots :: "degrees \<Rightarrow> string list" where
  "roots deg = map fst (filter (\<lambda>(cid, degree). degree = 0) deg)"

section \<open>Kahn's algorithm\<close>

text \<open>The inner loop: decrement each neighbour, append it to the work list when it reaches zero.\<close>

fun relax :: "degrees \<Rightarrow> string list \<Rightarrow> string list \<Rightarrow> degrees \<times> string list" where
  "relax deg q [] = (deg, q)"
| "relax deg q (n # ns) =
     (let d = degree_at deg n - 1 in
      relax (dict_set deg n d) (if d = 0 then q @ [n] else q) ns)"

text \<open>How many nodes still wait for a dependency: the measure of the loops.\<close>

definition waiting :: "degrees \<Rightarrow> nat" where
  "waiting deg = length (filter (\<lambda>kv. 0 < snd kv) deg)"

lemma waiting_set_drop:
  "0 < degree_at deg n \<Longrightarrow> d \<le> 0 \<Longrightarrow> Suc (waiting (dict_set deg n d)) = waiting deg"
  unfolding waiting_def dict_set_def degree_at_def dict_get_def
  by (induction deg) (auto split: if_splits)

lemma waiting_set_le:
  "d \<le> degree_at deg n \<Longrightarrow> waiting (dict_set deg n d) \<le> waiting deg"
  unfolding waiting_def dict_set_def degree_at_def dict_get_def
  by (induction deg) (auto split: if_splits)

lemma relax_measure:
  "length (snd (relax deg q ns)) + waiting (fst (relax deg q ns)) \<le> length q + waiting deg"
proof (induction ns arbitrary: deg q)
  case Nil
  then show ?case by simp
next
  case (Cons n ns)
  let ?d = "degree_at deg n - 1"
  let ?q = "if ?d = 0 then q @ [n] else q"
  have "length ?q + waiting (dict_set deg n ?d) \<le> length q + waiting deg"
    using waiting_set_drop [of deg n ?d] waiting_set_le [of ?d deg n] by auto
  with Cons [of "dict_set deg n ?d" ?q] show ?case by (simp add: Let_def)
qed

text \<open>The outer loop; \<open>arr\<close> is \<open>sorted\<close> in \<open>topological_order\<close>, the identity in \<open>validate_dag\<close>.
  Its result is the nodes in the order they leave the queue.\<close>

function kahn_walk ::
    "(string list \<Rightarrow> string list) \<Rightarrow> adjacency \<Rightarrow> degrees \<Rightarrow> string list \<Rightarrow> string list" where
  "kahn_walk arr adj deg [] = []"
| "kahn_walk arr adj deg (node # queue) =
     (let r = relax deg queue (arr (adjacent adj node)) in
      node # kahn_walk arr adj (fst r) (snd r))"
  by pat_completeness auto
termination
proof (relation "measure (\<lambda>(arr, adj, deg, q). length q + waiting deg)")
  show "wf (measure (\<lambda>(arr, adj, deg, q). length q + waiting deg))" by simp
next
  fix arr :: "string list \<Rightarrow> string list" and adj deg node queue r
  assume "r = relax deg queue (arr (adjacent adj node))"
  with relax_measure [of deg queue "arr (adjacent adj node)"]
  show "((arr, adj, fst r, snd r), arr, adj, deg, node # queue)
      \<in> measure (\<lambda>(arr, adj, deg, q). length q + waiting deg)" by (simp add: case_prod_unfold)
qed

fun duplicate_errors :: "string list \<Rightarrow> string list \<Rightarrow> dag_error list" where
  "duplicate_errors seen [] = []"
| "duplicate_errors seen (cid # ids) =
     (if cid \<in> set seen then [Duplicate_Id cid] else []) @ duplicate_errors (cid # seen) ids"

definition unknown_errors :: "component list \<Rightarrow> dag_error list" where
  "unknown_errors cs =
     [Unknown_Dependency (c_id c) dep. c \<leftarrow> cs, dep \<leftarrow> c_dependencies c, dep \<notin> set (map c_id cs)]"

text \<open>\<open>visited\<close> counts the nodes that leave the queue. The dictionaries cannot fail to build
  here: every dependency is known.\<close>

definition validate_dag :: "component list \<Rightarrow> dag_error list" where
  "validate_dag cs =
     (let ids = map c_id cs;
          errors = (if length ids \<noteq> card (set ids) then duplicate_errors [] ids else []) @ unknown_errors cs
      in if errors \<noteq> [] then errors
         else (case build_graph cs of
                 Inl _ \<Rightarrow> []
               | Inr (adj, deg) \<Rightarrow>
                   (let visited = length (kahn_walk (\<lambda>ns. ns) adj deg (roots deg)) in
                    if visited \<noteq> length cs then [Cycle_Detected] else [])))"

definition topological_order :: "component list \<Rightarrow> graph_error + string list" where
  "topological_order cs =
     (case validate_dag cs of
        e # _ \<Rightarrow> Inl (Graph_Invalid e)
      | [] \<Rightarrow>
          (case build_graph cs of
             Inl e \<Rightarrow> Inl e
           | Inr (adj, deg) \<Rightarrow> Inr (kahn_walk sort adj deg (roots deg))))"

text \<open>\<open>compute_tiers\<close>: one whole level at a time.\<close>

fun relax_tier :: "adjacency \<Rightarrow> degrees \<Rightarrow> string list \<Rightarrow> string list \<Rightarrow> degrees \<times> string list" where
  "relax_tier adj deg nxt [] = (deg, nxt)"
| "relax_tier adj deg nxt (node # nodes) =
     (let r = relax deg nxt (adjacent adj node) in relax_tier adj (fst r) (snd r) nodes)"

lemma relax_append: "relax deg q (xs @ ys) = (let r = relax deg q xs in relax (fst r) (snd r) ys)"
  by (induction xs arbitrary: deg q) (simp_all add: Let_def)

lemma relax_tier_flat: "relax_tier adj deg nxt nodes = relax deg nxt (concat (map (adjacent adj) nodes))"
  by (induction nodes arbitrary: deg nxt) (simp_all add: relax_append Let_def)

function tier_walk :: "adjacency \<Rightarrow> degrees \<Rightarrow> string list \<Rightarrow> string list list" where
  "tier_walk adj deg current =
     (if current = [] then []
      else (let r = relax_tier adj deg [] current in sort current # tier_walk adj (fst r) (snd r)))"
  by pat_completeness auto
termination
proof (relation "measure (\<lambda>(adj, deg, q). length q + waiting deg)")
  show "wf (measure (\<lambda>(adj, deg, q). length q + waiting deg))" by simp
next
  fix adj deg and current :: "string list" and r
  assume "current \<noteq> []" and "r = relax_tier adj deg [] current"
  with relax_measure [of deg "[]" "concat (map (adjacent adj) current)"]
  show "((adj, fst r, snd r), adj, deg, current) \<in> measure (\<lambda>(adj, deg, q). length q + waiting deg)"
    by (cases current) (simp_all add: relax_tier_flat case_prod_unfold)
qed

declare tier_walk.simps [simp del]

definition mentions_cycle :: "dag_error \<Rightarrow> bool" where
  "mentions_cycle e = contains_sub (map lower_char (dag_error_text e)) ''cycle''"

definition compute_tiers :: "component list \<Rightarrow> graph_error + string list list" where
  "compute_tiers cs =
     (case filter mentions_cycle (validate_dag cs) of
        e # _ \<Rightarrow> Inl (Graph_Invalid e)
      | [] \<Rightarrow>
          (case build_graph cs of
             Inl e \<Rightarrow> Inl e
           | Inr (adj, deg) \<Rightarrow> Inr (tier_walk adj deg (roots deg))))"

section \<open>Looking up and scheduling\<close>

definition get_component :: "component list \<Rightarrow> string \<Rightarrow> component option" where
  "get_component cs cid = find (\<lambda>c. c_id c = cid) cs"

definition get_ready_components :: "component list \<Rightarrow> component list" where
  "get_ready_components cs =
     (let completed = map c_id (filter (\<lambda>c. c_status c = COMPLETED) cs) in
      filter (\<lambda>c. c_status c = PENDING \<and> list_all (\<lambda>dep. dep \<in> set completed) (c_dependencies c)) cs)"

text \<open>A component found by \<open>get_component\<close> is the object in the list: setting its fields changes
  the first entry with its id.\<close>

fun set_component :: "string \<Rightarrow> (component \<Rightarrow> component) \<Rightarrow> component list \<Rightarrow> component list" where
  "set_component cid f [] = []"
| "set_component cid f (c # cs) = (if c_id c = cid then f c # cs else c # set_component cid f cs)"

definition dependents_map :: "component list \<Rightarrow> adjacency" where
  "dependents_map cs =
     foldl (\<lambda>adj (dep, cid).
        case dict_get adj dep of None \<Rightarrow> adj | Some xs \<Rightarrow> dict_set adj dep (xs @ [cid]))
       (init_dict [] cs) (dep_edges cs)"

section \<open>\<open>cascade_skip\<close>\<close>

definition settled :: "component \<Rightarrow> bool" where
  "settled c = (c_status c = COMPLETED \<or> c_status c = SKIPPED)"

definition skip_component :: "string \<Rightarrow> string \<Rightarrow> component \<Rightarrow> component" where
  "skip_component now failed c =
     c\<lparr>c_status := SKIPPED,
       c_error := JStr (''Dependency '' @ [CHR 0x27] @ failed @ [CHR 0x27] @ '' failed''),
       c_completed_at := JStr now\<rparr>"

record cascade_state =
  cs_components :: "component list"
  cs_visited :: "string list"
  cs_skipped :: "string list"
  cs_queue :: "string list"

text \<open>The inner loop, over the dependents of the current node. \<open>now\<close> is the time stamp the skips
  of one call write.\<close>

fun cascade_visit :: "string \<Rightarrow> string \<Rightarrow> cascade_state \<Rightarrow> string list \<Rightarrow> cascade_state" where
  "cascade_visit now failed s [] = s"
| "cascade_visit now failed s (d # ds) =
     (if d \<in> set (cs_visited s) then cascade_visit now failed s ds
      else
        (let s' = s\<lparr>cs_visited := d # cs_visited s\<rparr> in
         case get_component (cs_components s') d of
           None \<Rightarrow> cascade_visit now failed s' ds
         | Some c \<Rightarrow>
             (if settled c then cascade_visit now failed s' ds
              else cascade_visit now failed
                (s'\<lparr>cs_components := set_component d (skip_component now failed) (cs_components s'),
                    cs_skipped := cs_skipped s' @ [d],
                    cs_queue := cs_queue s' @ [d]\<rparr>) ds)))"

definition unsettled :: "component list \<Rightarrow> nat" where
  "unsettled cs = length (filter (\<lambda>c. \<not> settled c) cs)"

lemma unsettled_set_component:
  "get_component cs d = Some c \<Longrightarrow> \<not> settled c \<Longrightarrow> settled (f c) \<Longrightarrow>
   Suc (unsettled (set_component d f cs)) = unsettled cs"
  by (induction cs) (auto simp: get_component_def unsettled_def split: if_splits)

lemma settled_skip [simp]: "settled (skip_component now failed c)"
  by (simp add: settled_def skip_component_def)

lemma cascade_visit_measure:
  "length (cs_queue (cascade_visit now failed s ds)) + unsettled (cs_components (cascade_visit now failed s ds))
   \<le> length (cs_queue s) + unsettled (cs_components s)"
proof (induction ds arbitrary: s)
  case Nil
  then show ?case by simp
next
  case (Cons d ds)
  show ?case
  proof (cases "d \<in> set (cs_visited s)")
    case True
    then show ?thesis using Cons by simp
  next
    case False
    show ?thesis
    proof (cases "get_component (cs_components s) d")
      case None
      with False Cons [of "s\<lparr>cs_visited := d # cs_visited s\<rparr>"] show ?thesis by simp
    next
      case (Some c)
      with False Cons [of "s\<lparr>cs_visited := d # cs_visited s\<rparr>"]
        Cons [of "s\<lparr>cs_visited := d # cs_visited s,
          cs_components := set_component d (skip_component now failed) (cs_components s),
          cs_skipped := cs_skipped s @ [d], cs_queue := cs_queue s @ [d]\<rparr>"]
        unsettled_set_component [OF Some, of "skip_component now failed"]
      show ?thesis by (auto simp: Let_def)
    qed
  qed
qed

function cascade_walk :: "string \<Rightarrow> string \<Rightarrow> adjacency \<Rightarrow> cascade_state \<Rightarrow> cascade_state" where
  "cascade_walk now failed dependents s =
     (case cs_queue s of
        [] \<Rightarrow> s
      | current # queue \<Rightarrow>
          cascade_walk now failed dependents
            (cascade_visit now failed (s\<lparr>cs_queue := queue\<rparr>) (adjacent dependents current)))"
  by pat_completeness auto
termination
proof (relation "measure (\<lambda>(now, failed, dependents, s). length (cs_queue s) + unsettled (cs_components s))")
  show "wf (measure (\<lambda>(now :: string, failed :: string, dependents :: adjacency, s).
      length (cs_queue s) + unsettled (cs_components s)))" by simp
next
  fix now failed and dependents :: adjacency and s :: cascade_state and current queue
  assume "cs_queue s = current # queue"
  with cascade_visit_measure [of now failed "s\<lparr>cs_queue := queue\<rparr>" "adjacent dependents current"]
  show "((now, failed, dependents,
          cascade_visit now failed (s\<lparr>cs_queue := queue\<rparr>) (adjacent dependents current)),
         now, failed, dependents, s)
      \<in> measure (\<lambda>(now, failed, dependents, s). length (cs_queue s) + unsettled (cs_components s))"
    by simp
qed

declare cascade_walk.simps [simp del]

definition cascade_skip :: "string \<Rightarrow> component list \<Rightarrow> string \<Rightarrow> component list \<times> string list" where
  "cascade_skip now cs failed =
     (let s = cascade_walk now failed (dependents_map cs)
        \<lparr>cs_components = cs, cs_visited = [failed], cs_skipped = [], cs_queue = [failed]\<rparr>
      in (cs_components s, cs_skipped s))"

section \<open>\<open>reset_for_retry\<close>\<close>

fun find_new :: "string list \<Rightarrow> string list \<Rightarrow> string list \<Rightarrow> string list \<times> string list" where
  "find_new found q [] = (found, q)"
| "find_new found q (d # ds) =
     (if d \<in> set found then find_new found q ds else find_new (d # found) (q @ [d]) ds)"

text \<open>The ids of the map's lists that are not found yet: the measure of the search.\<close>

definition unfound :: "adjacency \<Rightarrow> string list \<Rightarrow> nat" where
  "unfound adj found = card (set (concat (map snd adj)) - set found)"

lemma find_new_measure:
  assumes "set ds \<subseteq> set (concat (map snd adj))"
  shows "length (snd (find_new found q ds)) + unfound adj (fst (find_new found q ds))
    \<le> length q + unfound adj found"
  using assms
proof (induction ds arbitrary: found q)
  case Nil
  then show ?case by simp
next
  case (Cons d ds)
  show ?case
  proof (cases "d \<in> set found")
    case True
    with Cons show ?thesis by simp
  next
    case False
    let ?A = "set (concat (map snd adj))"
    from Cons.prems have d: "d \<in> ?A - set found" using False by auto
    have "?A - set (d # found) = (?A - set found) - {d}" by auto
    with d have "Suc (unfound adj (d # found)) = unfound adj found"
      unfolding unfound_def by (metis List.finite_set card_Suc_Diff1 finite_Diff)
    with Cons.IH [of "d # found" "q @ [d]"] Cons.prems False show ?thesis by simp
  qed
qed

lemma adjacent_subset: "set (adjacent adj v) \<subseteq> set (concat (map snd adj))"
proof (cases "dict_get adj v")
  case (Some xs)
  then have "(v, xs) \<in> set adj" by (rule dict_get_Some_mem)
  then show ?thesis by (force simp: adjacent_def Some)
qed (simp add: adjacent_def)

function dependents_walk :: "adjacency \<Rightarrow> string list \<Rightarrow> string list \<Rightarrow> string list" where
  "dependents_walk adj found [] = found"
| "dependents_walk adj found (current # queue) =
     (let r = find_new found queue (adjacent adj current) in dependents_walk adj (fst r) (snd r))"
  by pat_completeness auto
termination
proof (relation "measure (\<lambda>(adj, found, q). length q + unfound adj found)")
  show "wf (measure (\<lambda>(adj, found, q). length q + unfound adj found))" by simp
next
  fix adj :: adjacency and found and current :: string and queue r
  assume "r = find_new found queue (adjacent adj current)"
  with find_new_measure [where adj = adj and found = found and q = queue, OF adjacent_subset [of adj current]]
  show "((adj, fst r, snd r), adj, found, current # queue)
      \<in> measure (\<lambda>(adj, found, q). length q + unfound adj found)" by (simp add: case_prod_unfold)
qed

definition transitive_dependents :: "component list \<Rightarrow> string \<Rightarrow> string list" where
  "transitive_dependents cs cid = dependents_walk (dependents_map cs) [] [cid]"

definition retryable_component_ids :: "component list \<Rightarrow> string list" where
  "retryable_component_ids cs = map c_id (filter (\<lambda>c. c_status c = FAILED) cs)"

definition reset_component :: "component \<Rightarrow> component" where
  "reset_component c = c
     \<lparr>c_status := PENDING, c_error := JStr [], c_retries := JInt 0, c_first_attempt := 1,
      c_started_at := JStr [], c_completed_at := JStr [], c_duration_seconds := JFloat 0,
      c_iteration_count := JInt 0, c_pr_number := JNull, c_pr_url := JStr [],
      c_verification_passed := JNull, c_review_passed := JNull, c_findings := [],
      c_review_findings := JStr [], c_failed_phase := JStr [], c_failed_check := JStr [],
      c_rejudge_sha := [], c_evidence_worktree := JStr [], c_evidence_debug_dir := JStr [],
      c_journal_offset_start := JInt (- 1), c_journal_offset_end := JInt (- 1)\<rparr>"

definition runnable_dep :: "component list \<Rightarrow> string list \<Rightarrow> string \<Rightarrow> bool" where
  "runnable_dep cs reset_ids dep =
     (dep \<in> set reset_ids \<or>
      (case get_component cs dep of
         None \<Rightarrow> False
       | Some d \<Rightarrow> c_status d = COMPLETED \<or> c_status d = PENDING))"

definition can_reset :: "component list \<Rightarrow> string list \<Rightarrow> string list \<Rightarrow> string \<Rightarrow> bool" where
  "can_reset cs dependents reset_ids cid =
     (cid \<in> set dependents \<and>
      (case get_component cs cid of
         None \<Rightarrow> False
       | Some c \<Rightarrow> c_status c = SKIPPED \<and> list_all (runnable_dep cs reset_ids) (c_dependencies c)))"

text \<open>The loop over the topological order; the result is \<open>reset_dependents\<close>.\<close>

fun collect_resets :: "component list \<Rightarrow> string list \<Rightarrow> string list \<Rightarrow> string list \<Rightarrow> string list" where
  "collect_resets cs dependents reset_ids [] = []"
| "collect_resets cs dependents reset_ids (cid # order) =
     (if can_reset cs dependents reset_ids cid
      then cid # collect_resets cs dependents (cid # reset_ids) order
      else collect_resets cs dependents reset_ids order)"

definition reset_for_retry ::
    "component list \<Rightarrow> string \<Rightarrow> graph_error + component list \<times> string list" where
  "reset_for_retry cs cid =
     (case get_component cs cid of
        None \<Rightarrow> Inl (Unknown_Component cid)
      | Some c \<Rightarrow>
          (if c_status c \<noteq> FAILED then Inl (Not_Failed cid (c_status c))
           else (case topological_order cs of
                   Inl e \<Rightarrow> Inl e
                 | Inr order \<Rightarrow>
                     (let ids = collect_resets cs (transitive_dependents cs cid) [cid] order in
                      Inr (foldl (\<lambda>acc k. set_component k reset_component acc) cs (cid # ids), ids)))))"

end
