(* ===== verification/Dag_Order.thy ===== *)
theory Dag_Order
  imports Manifest_Dag "HOL-Library.Multiset"
begin

text \<open>
  Why Kahn's algorithm of \<open>Manifest_Dag\<close> is right: the dictionaries hold the edges, an invariant
  ties the in-degrees to the nodes already taken, and the walk therefore takes exactly the nodes
  that no cycle holds up, each after its dependencies.
\<close>

section \<open>The edges\<close>

text \<open>The relation "is a dependency of" and the requirement that it stays inside the manifest.\<close>

definition dep_rel :: "component list \<Rightarrow> (string \<times> string) set" where
  "dep_rel cs = set (dep_edges cs)"

lemma dep_rel_iff: "(d, v) \<in> dep_rel cs \<longleftrightarrow> (\<exists>c\<in>set cs. c_id c = v \<and> d \<in> set (c_dependencies c))"
  by (auto simp: dep_rel_def dep_edges_def)

definition known_deps :: "component list \<Rightarrow> bool" where
  "known_deps cs = (\<forall>c\<in>set cs. set (c_dependencies c) \<subseteq> set (map c_id cs))"

lemma dep_rel_target: "(d, v) \<in> dep_rel cs \<Longrightarrow> v \<in> set (map c_id cs)"
  by (auto simp: dep_rel_iff)

lemma dep_rel_source: "known_deps cs \<Longrightarrow> (d, v) \<in> dep_rel cs \<Longrightarrow> d \<in> set (map c_id cs)"
  by (auto simp: dep_rel_iff known_deps_def)

lemma unknown_errors_Nil: "unknown_errors cs = [] \<longleftrightarrow> known_deps cs"
  by (auto simp: unknown_errors_def known_deps_def concat_eq_Nil_conv)

lemma duplicate_errors_Nil:
  "duplicate_errors seen ids = [] \<longleftrightarrow> distinct ids \<and> set ids \<inter> set seen = {}"
  by (induction seen ids rule: duplicate_errors.induct) auto

section \<open>The dictionaries\<close>

lemma dict_keys_set: "dict_keys (dict_set d k v) = (if k \<in> set (dict_keys d) then dict_keys d else dict_keys d @ [k])"
  by (simp add: dict_keys_def dict_set_def update_keys)

lemma init_dict_foldl:
  "dict_get (foldl (\<lambda>d c. dict_set d (c_id c) v) d0 cs) k =
     (if k \<in> set (map c_id cs) then Some v else dict_get d0 k)"
  by (induction cs arbitrary: d0) (auto simp: dict_simps)

lemma dict_get_init: "dict_get (init_dict v cs) k = (if k \<in> set (map c_id cs) then Some v else None)"
  by (simp add: init_dict_def init_dict_foldl)

lemma init_dict_keys_foldl:
  "distinct (map c_id cs) \<Longrightarrow> set (map c_id cs) \<inter> set (dict_keys d0) = {} \<Longrightarrow>
   dict_keys (foldl (\<lambda>d c. dict_set d (c_id c) v) d0 cs) = dict_keys d0 @ map c_id cs"
  by (induction cs arbitrary: d0) (auto simp: dict_keys_set)

lemma dict_keys_init: "distinct (map c_id cs) \<Longrightarrow> dict_keys (init_dict v cs) = map c_id cs"
  using init_dict_keys_foldl [of cs "[]" v] by (simp add: init_dict_def dict_keys_def)

lemma degree_at_init [simp]: "degree_at (init_dict 0 cs) v = 0"
  by (simp add: degree_at_def dict_get_init)

lemma adjacent_init [simp]: "adjacent (init_dict [] cs) v = []"
  by (simp add: adjacent_def dict_get_init)

lemma degree_at_set: "degree_at (dict_set deg k d) v = (if v = k then d else degree_at deg v)"
  by (simp add: degree_at_def dict_simps)

lemma adjacent_set: "adjacent (dict_set adj k xs) v = (if v = k then xs else adjacent adj v)"
  by (simp add: adjacent_def dict_simps)

text \<open>What the edge loop leaves behind.\<close>

definition edges_loaded ::
    "adjacency \<Rightarrow> degrees \<Rightarrow> (string \<times> string) list \<Rightarrow> adjacency \<Rightarrow> degrees \<Rightarrow> bool" where
  "edges_loaded adj deg es adj' deg' =
     ((\<forall>u. adjacent adj' u = adjacent adj u @ map snd (filter (\<lambda>e. fst e = u) es)) \<and>
      (\<forall>v. degree_at deg' v = degree_at deg v + int (length (filter (\<lambda>e. snd e = v) es))) \<and>
      ((\<forall>e\<in>set es. snd e \<in> set (dict_keys deg)) \<longrightarrow> dict_keys deg' = dict_keys deg))"

lemma add_edges_ok:
  "\<forall>e\<in>set es. dict_get adj (fst e) \<noteq> None \<Longrightarrow>
   \<exists>adj' deg'. add_edges adj deg es = Inr (adj', deg') \<and> edges_loaded adj deg es adj' deg'"
proof (induction es arbitrary: adj deg)
  case Nil
  then show ?case by (simp add: edges_loaded_def)
next
  case (Cons e es)
  obtain dep cid where e: "e = (dep, cid)" by (cases e)
  with Cons.prems obtain xs where xs: "dict_get adj dep = Some xs" by auto
  let ?adj = "dict_set adj dep (xs @ [cid])" and ?deg = "dict_set deg cid (degree_at deg cid + 1)"
  from Cons.prems have "\<forall>e\<in>set es. dict_get ?adj (fst e) \<noteq> None" by (auto simp: dict_simps)
  from Cons.IH [OF this, of ?deg] obtain adj' deg' where
    r: "add_edges ?adj ?deg es = Inr (adj', deg')" "edges_loaded ?adj ?deg es adj' deg'" by blast
  have "adjacent adj dep = xs" by (simp add: adjacent_def xs)
  with r(2) have "edges_loaded adj deg (e # es) adj' deg'"
    by (auto simp: edges_loaded_def e adjacent_set degree_at_set dict_keys_set)
  with r(1) show ?case by (simp add: e xs)
qed

lemma add_edges_unknown:
  "e \<in> set es \<Longrightarrow> dict_get adj (fst e) = None \<Longrightarrow> \<exists>k. add_edges adj deg es = Inl (Key_Error k)"
proof (induction es arbitrary: adj deg)
  case Nil
  then show ?case by simp
next
  case (Cons e' es)
  obtain dep cid where e': "e' = (dep, cid)" by (cases e')
  show ?case
  proof (cases "dict_get adj dep")
    case None
    then show ?thesis by (simp add: e')
  next
    case (Some xs)
    with Cons.prems have "e \<in> set es" "dict_get (dict_set adj dep (xs @ [cid])) (fst e) = None"
      by (auto simp: e' dict_simps)
    from Cons.IH [OF this] show ?thesis by (simp add: e' Some)
  qed
qed

lemma build_graph_ok:
  assumes "known_deps cs"
  obtains adj deg where "build_graph cs = Inr (adj, deg)"
    "edges_loaded (init_dict [] cs) (init_dict 0 cs) (dep_edges cs) adj deg"
proof -
  have "\<forall>e\<in>set (dep_edges cs). dict_get (init_dict [] cs :: adjacency) (fst e) \<noteq> None"
    using dep_rel_source [OF assms] by (force simp: dict_get_init dep_rel_def)
  from add_edges_ok [OF this] that show ?thesis unfolding build_graph_def by blast
qed

lemma build_graph_unknown:
  assumes "\<not> known_deps cs"
  shows "\<exists>k. build_graph cs = Inl (Key_Error k)"
proof -
  from assms obtain c d where "c \<in> set cs" "d \<in> set (c_dependencies c)" "d \<notin> set (map c_id cs)"
    by (auto simp: known_deps_def)
  then have "(d, c_id c) \<in> set (dep_edges cs)" "dict_get (init_dict [] cs :: adjacency) d = None"
    by (auto simp: dep_edges_def dict_get_init)
  then show ?thesis unfolding build_graph_def by (auto intro: add_edges_unknown)
qed

lemma roots_eq:
  assumes "distinct (dict_keys deg)"
  shows "roots deg = filter (\<lambda>v. degree_at deg v = 0) (dict_keys deg)"
proof -
  have "\<forall>kv\<in>set deg. degree_at deg (fst kv) = snd kv"
    using assms by (auto simp: degree_at_def dict_get_def dict_keys_def)
  then have "filter (\<lambda>(cid, degree). degree = 0) deg = filter (\<lambda>kv. degree_at deg (fst kv) = 0) deg"
    by (intro filter_cong) auto
  then show ?thesis by (simp add: roots_def dict_keys_def filter_map o_def)
qed

section \<open>One pass of the inner loop\<close>

lemma relax_fst: "fst (relax deg q ns) = fst (relax deg [] ns)"
  and relax_queue: "snd (relax deg q ns) = q @ snd (relax deg [] ns)"
proof (induction ns arbitrary: deg q)
  case Nil
  { case 1 show ?case by simp next case 2 show ?case by simp }
next
  case (Cons n ns)
  { case 1 show ?case
      using Cons(1) [of "dict_set deg n (degree_at deg n - 1)" "q @ [n]"]
        Cons(1) [of "dict_set deg n (degree_at deg n - 1)" "[n]"]
        Cons(1) [of "dict_set deg n (degree_at deg n - 1)" q]
      by (cases "degree_at deg n = 1") (simp_all add: Let_def)
  next
    case 2 show ?case
      using Cons(2) [of "dict_set deg n (degree_at deg n - 1)" "q @ [n]"]
        Cons(2) [of "dict_set deg n (degree_at deg n - 1)" "[n]"]
        Cons(2) [of "dict_set deg n (degree_at deg n - 1)" q]
      by (cases "degree_at deg n = 1") (simp_all add: Let_def) }
qed

lemma relax_degree:
  "degree_at (fst (relax deg q ns)) v = degree_at deg v - int (count_list ns v)"
  by (induction ns arbitrary: deg q) (auto simp: Let_def degree_at_set)

text \<open>A node enters the work list when its in-degree was positive and every unit of it is taken.\<close>

lemma relax_new_set:
  "set (snd (relax deg [] ns)) =
     {v. 0 < degree_at deg v \<and> degree_at deg v \<le> int (count_list ns v)}"
proof (induction ns arbitrary: deg)
  case Nil
  then show ?case by auto
next
  case (Cons n ns)
  let ?deg = "dict_set deg n (degree_at deg n - 1)"
  have "set (snd (relax deg [] (n # ns))) =
      (if degree_at deg n = 1 then {n} else {}) \<union> set (snd (relax ?deg [] ns))"
    using relax_queue [of ?deg "[n]" ns] by (cases "degree_at deg n = 1") (simp_all add: Let_def)
  then show ?case by (auto simp: Cons degree_at_set)
qed

lemma relax_new_distinct: "distinct (snd (relax deg [] ns))"
proof (induction ns arbitrary: deg)
  case Nil
  then show ?case by simp
next
  case (Cons n ns)
  let ?deg = "dict_set deg n (degree_at deg n - 1)"
  have "n \<notin> set (snd (relax ?deg [] ns))" if "degree_at deg n = 1"
    using that by (simp add: relax_new_set degree_at_set)
  then show ?case
    using relax_queue [of ?deg "[n]" ns] Cons [of ?deg]
    by (cases "degree_at deg n = 1") (simp_all add: Let_def)
qed

section \<open>The invariant of the walk\<close>

definition open_edges :: "(string \<times> string) list \<Rightarrow> string set \<Rightarrow> string \<Rightarrow> nat" where
  "open_edges es D v = length (filter (\<lambda>e. snd e = v \<and> fst e \<notin> D) es)"

definition kahn_inv ::
    "(string \<times> string) list \<Rightarrow> string set \<Rightarrow> string set \<Rightarrow> string list \<Rightarrow> degrees \<Rightarrow> bool" where
  "kahn_inv es N D q deg =
     (distinct q \<and> set q \<inter> D = {} \<and> D \<union> set q \<subseteq> N \<and>
      (\<forall>v. degree_at deg v = int (open_edges es D v)) \<and>
      (\<forall>v\<in>N. open_edges es D v = 0 \<longleftrightarrow> v \<in> D \<union> set q))"

lemma open_edges_split:
  "X \<inter> D = {} \<Longrightarrow>
   open_edges es D v =
     length (filter (\<lambda>e. snd e = v \<and> fst e \<in> X) es) + open_edges es (D \<union> X) v"
  by (induction es) (auto simp: open_edges_def)

lemma open_edges_0: "open_edges es D v = 0 \<longleftrightarrow> (\<forall>u. (u, v) \<in> set es \<longrightarrow> u \<in> D)"
  by (auto simp: open_edges_def filter_empty_conv)

text \<open>Taking the nodes \<open>xs\<close> off the front of the work list, their edges in any order.\<close>

lemma kahn_step:
  assumes inv: "kahn_inv es N D (xs @ ys) deg" and tgt: "snd ` set es \<subseteq> N"
    and cnt: "\<forall>v. count_list ns v = length (filter (\<lambda>e. snd e = v \<and> fst e \<in> set xs) es)"
  shows "kahn_inv es N (D \<union> set xs) (snd (relax deg ys ns)) (fst (relax deg ys ns))"
    and "\<forall>v\<in>set (snd (relax deg [] ns)). \<exists>u\<in>set xs. (u, v) \<in> set es"
proof -
  have dis: "set xs \<inter> D = {}" and deg: "\<And>v. degree_at deg v = int (open_edges es D v)"
    using inv by (auto simp: kahn_inv_def)
  have split: "open_edges es D v = count_list ns v + open_edges es (D \<union> set xs) v" for v
    using open_edges_split [OF dis] cnt by simp
  have new: "v \<in> set (snd (relax deg [] ns)) \<longleftrightarrow>
      0 < open_edges es D v \<and> open_edges es (D \<union> set xs) v = 0" for v
    unfolding relax_new_set mem_Collect_eq deg split [of v] by auto
  have edge: "0 < count_list ns v \<Longrightarrow> \<exists>u\<in>set xs. (u, v) \<in> set es" for v
    unfolding cnt [rule_format] by (force simp: length_greater_0_conv filter_empty_conv)
  show *: "\<forall>v\<in>set (snd (relax deg [] ns)). \<exists>u\<in>set xs. (u, v) \<in> set es"
  proof
    fix v assume "v \<in> set (snd (relax deg [] ns))"
    then have "0 < count_list ns v" unfolding new using split [of v] by auto
    then show "\<exists>u\<in>set xs. (u, v) \<in> set es" by (rule edge)
  qed
  have old: "v \<in> D \<union> set xs \<union> set ys \<longleftrightarrow> open_edges es D v = 0" if "v \<in> N" for v
    using inv that by (auto simp: kahn_inv_def)
  have sub: "D \<union> set xs \<union> set ys \<subseteq> N" using inv by (auto simp: kahn_inv_def)
  have newN: "set (snd (relax deg [] ns)) \<subseteq> N" using * tgt by force
  have newold: "v \<in> set (snd (relax deg [] ns)) \<Longrightarrow> v \<notin> D \<union> set xs \<union> set ys" for v
    using new [of v] old [of v] newN by auto
  have "distinct ys" "set ys \<inter> (D \<union> set xs) = {}" using inv by (auto simp: kahn_inv_def)
  then show "kahn_inv es N (D \<union> set xs) (snd (relax deg ys ns)) (fst (relax deg ys ns))"
    unfolding kahn_inv_def relax_queue [of deg ys ns] relax_degree deg
    using relax_new_distinct [of deg ns] newold newN sub old new split
    by (auto simp: disjoint_iff) fastforce+
qed

section \<open>What the walk returns\<close>

text \<open>\<open>dep_ordered R D xs\<close>: each element of \<open>xs\<close> has its predecessors in \<open>D\<close> or earlier in \<open>xs\<close>.\<close>

fun dep_ordered :: "(string \<times> string) set \<Rightarrow> string set \<Rightarrow> string list \<Rightarrow> bool" where
  "dep_ordered R D [] = True"
| "dep_ordered R D (x # xs) = ((\<forall>u. (u, x) \<in> R \<longrightarrow> u \<in> D) \<and> dep_ordered R (insert x D) xs)"

definition walk_result ::
    "(string \<times> string) list \<Rightarrow> string set \<Rightarrow> string set \<Rightarrow> string list \<Rightarrow> bool" where
  "walk_result es N D xs =
     (distinct xs \<and> set xs \<inter> D = {} \<and> set xs \<subseteq> N \<and> dep_ordered (set es) D xs \<and>
      (\<forall>v\<in>N. (\<forall>u. (u, v) \<in> set es \<longrightarrow> u \<in> D \<union> set xs) \<longrightarrow> v \<in> D \<union> set xs))"

definition arranges :: "(string list \<Rightarrow> string list) \<Rightarrow> bool" where
  "arranges arr = (\<forall>xs. mset (arr xs) = mset xs)"

lemma arranges_id [simp]: "arranges (\<lambda>ns. ns)"
  by (simp add: arranges_def)

lemma arranges_sort [simp]: "arranges sort"
  by (simp add: arranges_def)

lemma arranges_count: "arranges arr \<Longrightarrow> count_list (arr xs) v = count_list xs v"
  by (metis arranges_def count_mset)

lemma count_adjacent:
  "count_list (map snd (filter (\<lambda>e. fst e = u) es)) v = length (filter (\<lambda>e. snd e = v \<and> fst e \<in> {u}) es)"
  by (induction es) auto

lemma kahn_walk_result:
  assumes "arranges arr" and "snd ` set es \<subseteq> N"
    and "\<And>u. adjacent adj u = map snd (filter (\<lambda>e. fst e = u) es)"
    and "kahn_inv es N D q deg"
  shows "walk_result es N D (kahn_walk arr adj deg q)"
  using assms
proof (induction arr adj deg q arbitrary: D rule: kahn_walk.induct)
  case (1 arr adj deg)
  then show ?case by (auto simp: walk_result_def kahn_inv_def open_edges_0)
next
  case (2 arr adj deg node queue)
  let ?ns = "arr (adjacent adj node)"
  have cnt: "\<forall>v. count_list ?ns v = length (filter (\<lambda>e. snd e = v \<and> fst e \<in> set [node]) es)"
    using 2 count_adjacent [of node es] by (simp add: arranges_count)
  have "kahn_inv es N D ([node] @ queue) deg" using 2 by simp
  from kahn_step(1) [OF this 2(3) cnt] have inv: "kahn_inv es N (insert node D)
      (snd (relax deg queue ?ns)) (fst (relax deg queue ?ns))" by simp
  from 2(1) [OF refl 2(2,3,4) inv] have ih: "walk_result es N (insert node D)
      (kahn_walk arr adj (fst (relax deg queue ?ns)) (snd (relax deg queue ?ns)))" by simp
  have node: "node \<in> N" "node \<notin> D" "\<forall>u. (u, node) \<in> set es \<longrightarrow> u \<in> D"
    using 2(5) by (auto simp: kahn_inv_def open_edges_0)
  from ih node show ?case by (auto simp: walk_result_def Let_def)
qed

lemma kahn_inv_start:
  assumes cs: "distinct (map c_id cs)"
    and gr: "edges_loaded (init_dict [] cs) (init_dict 0 cs) (dep_edges cs) adj deg"
  shows "kahn_inv (dep_edges cs) (set (map c_id cs)) {} (roots deg) deg"
    and "\<And>u. adjacent adj u = map snd (filter (\<lambda>e. fst e = u) (dep_edges cs))"
proof -
  have tgt: "\<forall>e\<in>set (dep_edges cs). snd e \<in> set (dict_keys (init_dict 0 cs :: degrees))"
    by (auto simp: dict_keys_init [OF cs] dep_edges_def)
  then have keys: "dict_keys deg = map c_id cs"
    using gr cs by (simp add: edges_loaded_def dict_keys_init)
  have deg: "degree_at deg v = int (open_edges (dep_edges cs) {} v)" for v
    using gr by (simp add: edges_loaded_def open_edges_def)
  have "roots deg = filter (\<lambda>v. degree_at deg v = 0) (map c_id cs)"
    using roots_eq [of deg] cs by (simp add: keys)
  then show "kahn_inv (dep_edges cs) (set (map c_id cs)) {} (roots deg) deg"
    using cs by (auto simp: kahn_inv_def deg)
  show "\<And>u. adjacent adj u = map snd (filter (\<lambda>e. fst e = u) (dep_edges cs))"
    using gr by (simp add: edges_loaded_def)
qed

lemma dep_edges_target: "snd ` set (dep_edges cs) \<subseteq> set (map c_id cs)"
  by (auto simp: dep_edges_def)

lemma graph_walk:
  assumes "distinct (map c_id cs)" and "known_deps cs" and "arranges arr"
  obtains adj deg where "build_graph cs = Inr (adj, deg)"
    "walk_result (dep_edges cs) (set (map c_id cs)) {} (kahn_walk arr adj deg (roots deg))"
proof -
  from assms(2) obtain adj deg where g: "build_graph cs = Inr (adj, deg)"
    "edges_loaded (init_dict [] cs) (init_dict 0 cs) (dep_edges cs) adj deg" by (rule build_graph_ok)
  note k = kahn_inv_start [OF assms(1) g(2)]
  from kahn_walk_result [OF assms(3) dep_edges_target k(2) k(1)] g(1) that show ?thesis by blast
qed

section \<open>Cycles\<close>

text \<open>A relation with an order that lists every node after its predecessors has no cycle.\<close>

lemma dep_ordered_pos:
  "dep_ordered R D xs \<Longrightarrow> (u, xs ! j) \<in> R \<Longrightarrow> j < length xs \<Longrightarrow> u \<in> D \<or> (\<exists>i<j. xs ! i = u)"
proof (induction xs arbitrary: D j)
  case Nil
  then show ?case by simp
next
  case (Cons x xs)
  show ?case
  proof (cases j)
    case 0
    with Cons.prems show ?thesis by simp
  next
    case (Suc k)
    with Cons.prems Cons.IH [of "insert x D" k] have "u \<in> insert x D \<or> (\<exists>i<k. xs ! i = u)" by simp
    then show ?thesis
    proof
      assume "u \<in> insert x D"
      then show ?thesis using Suc by auto
    next
      assume "\<exists>i<k. xs ! i = u"
      then obtain i where "i < k" "xs ! i = u" by blast
      then have "Suc i < j \<and> (x # xs) ! Suc i = u" using Suc by simp
      then show ?thesis by blast
    qed
  qed
qed

lemma dep_ordered_acyclic:
  assumes ord: "dep_ordered R {} xs" and tgt: "snd ` R \<subseteq> set xs" and dis: "distinct xs"
  shows "acyclic R"
proof -
  let ?pos = "\<lambda>v. THE i. i < length xs \<and> xs ! i = v"
  have pos: "?pos (xs ! i) = i" if "i < length xs" for i
    using that dis by (auto simp: nth_eq_iff_index_eq)
  have "R \<subseteq> measure ?pos"
  proof
    fix e assume e: "e \<in> R"
    obtain u v where uv: "e = (u, v)" by (cases e)
    from e uv have "v \<in> snd ` R" by (metis imageI snd_conv)
    with tgt have "v \<in> set xs" by blast
    then obtain j where j: "j < length xs" "xs ! j = v" by (auto simp: in_set_conv_nth)
    with dep_ordered_pos [OF ord, of u j] e uv obtain i where "i < j" "xs ! i = u" by auto
    with j pos [of i] pos [of j] show "e \<in> measure ?pos" by (auto simp: uv)
  qed
  then have "wf R" using wf_subset wf_measure by blast
  then show ?thesis by (rule wf_acyclic)
qed

text \<open>A walk that leaves nodes behind leaves a cycle behind.\<close>

lemma acyclic_walk_complete:
  assumes "acyclic (set es)" and "walk_result es N {} xs" and "fst ` set es \<subseteq> N"
  shows "set xs = N"
proof (rule ccontr)
  assume "set xs \<noteq> N"
  with assms(2) obtain v where v: "v \<in> N - set xs" by (auto simp: walk_result_def)
  have "wf (set es)" using assms(1) by (simp add: finite_acyclic_wf)
  then obtain z where z: "z \<in> N - set xs" "\<forall>y. (y, z) \<in> set es \<longrightarrow> y \<notin> N - set xs"
    using v unfolding wf_eq_minimal by metis
  then have "\<forall>u. (u, z) \<in> set es \<longrightarrow> u \<in> set xs" using assms(3) by force
  with z(1) assms(2) show False by (auto simp: walk_result_def)
qed

lemma walk_complete_iff:
  assumes "walk_result es N {} xs" and "fst ` set es \<subseteq> N" and "snd ` set es \<subseteq> N" and "finite N"
  shows "length xs = card N \<longleftrightarrow> acyclic (set es)"
proof
  assume "acyclic (set es)"
  from acyclic_walk_complete [OF this assms(1,2)] assms(1)
  show "length xs = card N" by (auto simp: walk_result_def distinct_card)
next
  assume l: "length xs = card N"
  have "set xs = N"
    using assms l by (intro card_subset_eq) (auto simp: walk_result_def distinct_card)
  with assms show "acyclic (set es)" by (auto simp: walk_result_def intro: dep_ordered_acyclic)
qed

section \<open>\<open>validate_dag\<close> and \<open>topological_order\<close>\<close>

lemma dep_edges_source: "known_deps cs \<Longrightarrow> fst ` set (dep_edges cs) \<subseteq> set (map c_id cs)"
  using dep_rel_source by (fastforce simp: dep_rel_def)

lemma validate_dag_cycle:
  assumes "distinct (map c_id cs)" and "known_deps cs"
  shows "validate_dag cs = (if acyclic (dep_rel cs) then [] else [Cycle_Detected])"
proof -
  from assms obtain adj deg where g: "build_graph cs = Inr (adj, deg)"
    and w: "walk_result (dep_edges cs) (set (map c_id cs)) {} (kahn_walk (\<lambda>ns. ns) adj deg (roots deg))"
    using graph_walk [OF assms arranges_id] by blast
  have "card (set (map c_id cs)) = length cs" using distinct_card [OF assms(1)] by simp
  with walk_complete_iff [OF w dep_edges_source [OF assms(2)] dep_edges_target]
  have iff: "length (kahn_walk (\<lambda>ns. ns) adj deg (roots deg)) = length cs \<longleftrightarrow> acyclic (dep_rel cs)"
    by (simp add: dep_rel_def)
  have "unknown_errors cs = []" using assms(2) by (simp add: unknown_errors_Nil)
  moreover have "length (map c_id cs) = card (set (map c_id cs))" using distinct_card [OF assms(1)] by simp
  ultimately show ?thesis
    unfolding validate_dag_def Let_def g using iff by simp
qed

lemma validate_dag_early:
  assumes "\<not> distinct (map c_id cs) \<or> \<not> known_deps cs"
  shows "validate_dag cs =
    (if distinct (map c_id cs) then [] else duplicate_errors [] (map c_id cs)) @ unknown_errors cs"
proof -
  have "length (map c_id cs) = card (set (map c_id cs)) \<longleftrightarrow> distinct (map c_id cs)"
    using card_distinct [of "map c_id cs"] distinct_card [of "map c_id cs"] by metis
  then show ?thesis
    using assms duplicate_errors_Nil [of "[]" "map c_id cs"] unknown_errors_Nil [of cs]
    unfolding validate_dag_def Let_def by auto
qed

lemma validate_dag_Nil:
  "validate_dag cs = [] \<longleftrightarrow> distinct (map c_id cs) \<and> known_deps cs \<and> acyclic (dep_rel cs)"
proof (cases "distinct (map c_id cs) \<and> known_deps cs")
  case True
  then show ?thesis by (simp add: validate_dag_cycle)
next
  case False
  then show ?thesis
    using duplicate_errors_Nil [of "[]" "map c_id cs"] unknown_errors_Nil [of cs]
    by (auto simp: validate_dag_early)
qed

lemma topological_order_walk:
  assumes "topological_order cs = Inr xs"
  shows "validate_dag cs = []" "set xs = set (map c_id cs)" "distinct xs" "dep_ordered (dep_rel cs) {} xs"
proof -
  show v: "validate_dag cs = []"
    using assms by (auto simp: topological_order_def split: list.splits)
  then have ok: "distinct (map c_id cs)" "known_deps cs" "acyclic (dep_rel cs)"
    by (simp_all add: validate_dag_Nil)
  from graph_walk [OF ok(1,2) arranges_sort] obtain adj deg where g: "build_graph cs = Inr (adj, deg)"
    and w: "walk_result (dep_edges cs) (set (map c_id cs)) {} (kahn_walk sort adj deg (roots deg))"
    by blast
  have xs: "xs = kahn_walk sort adj deg (roots deg)"
    using assms v by (simp add: topological_order_def g)
  show "set xs = set (map c_id cs)"
    using acyclic_walk_complete [OF _ w dep_edges_source [OF ok(2)]] ok(3) by (simp add: xs dep_rel_def)
  from w show "distinct xs" "dep_ordered (dep_rel cs) {} xs"
    by (simp_all add: walk_result_def xs dep_rel_def)
qed

lemma topological_order_returns: "returns (topological_order cs) \<longleftrightarrow> validate_dag cs = []"
proof
  assume "returns (topological_order cs)"
  then show "validate_dag cs = []" by (auto simp: topological_order_def split: list.splits)
next
  assume v: "validate_dag cs = []"
  then have "distinct (map c_id cs)" "known_deps cs" by (simp_all add: validate_dag_Nil)
  from graph_walk [OF this arranges_sort] obtain adj deg where "build_graph cs = Inr (adj, deg)" by blast
  with v show "returns (topological_order cs)" by (simp add: topological_order_def)
qed

section \<open>\<open>compute_tiers\<close>\<close>

text \<open>\<open>tiers_ok R D prev ts\<close>: each level has its predecessors in \<open>D\<close> or in earlier levels, and
  when a level comes before it (\<open>prev\<close>), one of them there.\<close>

fun tiers_ok :: "(string \<times> string) set \<Rightarrow> string set \<Rightarrow> string set option \<Rightarrow> string list list \<Rightarrow> bool" where
  "tiers_ok R D prev [] = True"
| "tiers_ok R D prev (t # ts) =
     (sorted t \<and> t \<noteq> [] \<and>
      (\<forall>v\<in>set t. (\<forall>u. (u, v) \<in> R \<longrightarrow> u \<in> D) \<and>
         (case prev of None \<Rightarrow> True | Some p \<Rightarrow> \<exists>u\<in>p. (u, v) \<in> R)) \<and>
      tiers_ok R (D \<union> set t) (Some (set t)) ts)"

definition tiers_result ::
    "(string \<times> string) list \<Rightarrow> string set \<Rightarrow> string set \<Rightarrow> string list list \<Rightarrow> bool" where
  "tiers_result es N D ts =
     (distinct (concat ts) \<and> set (concat ts) \<inter> D = {} \<and> set (concat ts) \<subseteq> N \<and>
      (\<forall>v\<in>N. (\<forall>u. (u, v) \<in> set es \<longrightarrow> u \<in> D \<union> set (concat ts)) \<longrightarrow> v \<in> D \<union> set (concat ts)))"

lemma count_adjacent_tier:
  assumes "distinct xs"
  shows "count_list (concat (map (\<lambda>u. map snd (filter (\<lambda>e. fst e = u) es)) xs)) v =
    length (filter (\<lambda>e. snd e = v \<and> fst e \<in> set xs) es)"
  using assms
proof (induction xs)
  case Nil
  then show ?case by simp
next
  case (Cons x xs)
  have "length (filter (\<lambda>e. snd e = v \<and> fst e \<in> set (x # xs)) es) =
      length (filter (\<lambda>e. snd e = v \<and> fst e \<in> {x}) es) + length (filter (\<lambda>e. snd e = v \<and> fst e \<in> set xs) es)"
    using Cons.prems by (induction es) auto
  with Cons count_adjacent [of x es v] show ?case by simp
qed

lemma tier_walk_result:
  assumes "snd ` set es \<subseteq> N"
    and "\<And>u. adjacent adj u = map snd (filter (\<lambda>e. fst e = u) es)"
    and "kahn_inv es N D q deg"
    and "case prev of None \<Rightarrow> True | Some p \<Rightarrow> \<forall>v\<in>set q. \<exists>u\<in>p. (u, v) \<in> set es"
  shows "tiers_result es N D (tier_walk adj deg q) \<and> tiers_ok (set es) D prev (tier_walk adj deg q)"
  using assms
proof (induction adj deg q arbitrary: D prev rule: tier_walk.induct)
  case (1 adj deg q)
  show ?case
  proof (cases "q = []")
    case True
    with 1(4) show ?thesis
      by (auto simp: tier_walk.simps tiers_result_def kahn_inv_def open_edges_0)
  next
    case False
    let ?ns = "concat (map (adjacent adj) q)"
    let ?r = "relax_tier adj deg [] q"
    have r: "?r = relax deg [] ?ns" by (simp add: relax_tier_flat)
    have q: "distinct q" "set q \<inter> D = {}" "set q \<subseteq> N" "\<forall>v\<in>set q. \<forall>u. (u, v) \<in> set es \<longrightarrow> u \<in> D"
      using 1(4) by (auto simp: kahn_inv_def open_edges_0)
    have ns: "?ns = concat (map (\<lambda>u. map snd (filter (\<lambda>e. fst e = u) es)) q)"
      using 1(3) by (intro arg_cong [where f = concat] map_cong) auto
    have cnt: "\<forall>v. count_list ?ns v = length (filter (\<lambda>e. snd e = v \<and> fst e \<in> set q) es)"
      unfolding ns by (intro allI count_adjacent_tier q(1))
    have "kahn_inv es N D (q @ []) deg" using 1(4) by simp
    note step = kahn_step [OF this 1(2) cnt]
    have ih: "tiers_result es N (D \<union> set q) (tier_walk adj (fst ?r) (snd ?r)) \<and>
        tiers_ok (set es) (D \<union> set q) (Some (set q)) (tier_walk adj (fst ?r) (snd ?r))"
      using 1(1) [OF False refl 1(2,3), of "D \<union> set q" "Some (set q)"] step by (simp add: r)
    have sort_ne: "sort q \<noteq> []" using False by (metis set_empty set_sort)
    have w: "tier_walk adj deg q = sort q # tier_walk adj (fst ?r) (snd ?r)"
      using False by (subst tier_walk.simps) (simp add: Let_def)
    have "tiers_result es N D (tier_walk adj deg q)"
      using ih q by (auto simp: w tiers_result_def)
    moreover have "tiers_ok (set es) D prev (tier_walk adj deg q)"
      using ih q sort_ne 1(5) by (auto simp: w split: option.splits)
    ultimately show ?thesis by blast
  qed
qed

lemma tiers_ok_level:
  "tiers_ok R D prev ts \<Longrightarrow> n < length ts \<Longrightarrow> v \<in> set (ts ! n) \<Longrightarrow> (u, v) \<in> R \<Longrightarrow>
   u \<in> D \<or> (\<exists>k<n. u \<in> set (ts ! k))"
proof (induction ts arbitrary: D prev n)
  case Nil
  then show ?case by simp
next
  case (Cons t ts)
  show ?case
  proof (cases n)
    case 0
    with Cons.prems show ?thesis by auto
  next
    case (Suc m)
    with Cons.prems Cons.IH [of "D \<union> set t" "Some (set t)" m]
    have "u \<in> D \<union> set t \<or> (\<exists>k<m. u \<in> set (ts ! k))" by auto
    then show ?thesis unfolding Suc by (metis Un_iff Suc_less_eq nth_Cons_0 nth_Cons_Suc zero_less_Suc)
  qed
qed

lemma tiers_ok_previous:
  "tiers_ok R D prev ts \<Longrightarrow> Suc n < length ts \<Longrightarrow> v \<in> set (ts ! Suc n) \<Longrightarrow>
   \<exists>u\<in>set (ts ! n). (u, v) \<in> R"
proof (induction ts arbitrary: D prev n)
  case Nil
  then show ?case by simp
next
  case (Cons t ts)
  show ?case
  proof (cases n)
    case 0
    with Cons.prems show ?thesis by (cases ts) auto
  next
    case (Suc m)
    with Cons.prems Cons.IH [of "D \<union> set t" "Some (set t)" m] show ?thesis by simp
  qed
qed

lemma tiers_ok_sorted: "tiers_ok R D prev ts \<Longrightarrow> t \<in> set ts \<Longrightarrow> sorted t \<and> t \<noteq> []"
  by (induction R D prev ts rule: tiers_ok.induct) auto

lemma tiers_result_complete:
  assumes "acyclic (set es)" and "tiers_result es N {} ts" and "fst ` set es \<subseteq> N"
  shows "set (concat ts) = N"
proof (rule ccontr)
  define X where "X = set (concat ts)"
  have X: "X \<subseteq> N" "\<And>v. v \<in> N \<Longrightarrow> (\<forall>u. (u, v) \<in> set es \<longrightarrow> u \<in> X) \<Longrightarrow> v \<in> X"
    using assms(2) unfolding tiers_result_def X_def by (metis, metis Un_empty_left)
  assume "set (concat ts) \<noteq> N"
  with X(1) obtain v where v: "v \<in> N - X" unfolding X_def [symmetric] by blast
  have "wf (set es)" using assms(1) by (simp add: finite_acyclic_wf)
  then obtain z where z: "z \<in> N - X" "\<forall>y. (y, z) \<in> set es \<longrightarrow> y \<notin> N - X"
    using v unfolding wf_eq_minimal by metis
  then have "\<forall>u. (u, z) \<in> set es \<longrightarrow> u \<in> X" using assms(3) by force
  with z(1) X(2) show False by blast
qed

lemma compute_tiers_valid:
  assumes "validate_dag cs = []"
  obtains ts where "compute_tiers cs = Inr ts" "distinct (concat ts)"
    "set (concat ts) = set (map c_id cs)" "tiers_ok (dep_rel cs) {} None ts"
proof -
  from assms have ok: "distinct (map c_id cs)" "known_deps cs" "acyclic (dep_rel cs)"
    by (simp_all add: validate_dag_Nil)
  from ok(2) obtain adj deg where g: "build_graph cs = Inr (adj, deg)"
    "edges_loaded (init_dict [] cs) (init_dict 0 cs) (dep_edges cs) adj deg" by (rule build_graph_ok)
  note k = kahn_inv_start [OF ok(1) g(2)]
  have w: "tiers_result (dep_edges cs) (set (map c_id cs)) {} (tier_walk adj deg (roots deg))"
    "tiers_ok (dep_rel cs) {} None (tier_walk adj deg (roots deg))"
    using tier_walk_result [OF dep_edges_target k(2,1), of None] by (simp_all add: dep_rel_def)
  have "compute_tiers cs = Inr (tier_walk adj deg (roots deg))"
    using assms by (simp add: compute_tiers_def g)
  moreover have "set (concat (tier_walk adj deg (roots deg))) = set (map c_id cs)"
    using tiers_result_complete [OF _ w(1) dep_edges_source [OF ok(2)]] ok(3) by (simp add: dep_rel_def)
  moreover have "distinct (concat (tier_walk adj deg (roots deg)))"
    using w(1) by (simp add: tiers_result_def)
  ultimately show ?thesis using w(2) that by blast
qed

end
