(* ===== verification/Dag_Retry.thy ===== *)
theory Dag_Retry
  imports Dag_Order
begin

text \<open>
  The two operations that move many components at once: \<open>cascade_skip\<close>, which skips exactly what
  a failure reaches, and \<open>reset_for_retry\<close>, which takes back as much of a cascade as can run
  again. The second is a client of the topological order, stated as the locale
  \<open>dependency_order\<close>.
\<close>

section \<open>Updating a component found by its id\<close>

lemma get_component_id: "get_component cs d = Some c \<Longrightarrow> c_id c = d \<and> c \<in> set cs"
  unfolding get_component_def by (drule find_SomeD) simp

lemma get_component_None: "get_component cs d = None \<longleftrightarrow> d \<notin> set (map c_id cs)"
  by (auto simp: get_component_def find_None_iff)

lemma get_component_unique:
  "distinct (map c_id cs) \<Longrightarrow> c \<in> set cs \<Longrightarrow> get_component cs (c_id c) = Some c"
  by (induction cs) (force simp: get_component_def)+

lemma get_set_component [dict_simps]:
  assumes "\<And>c. c_id (f c) = c_id c"
  shows "get_component (set_component k f cs) d =
    (if d = k then map_option f (get_component cs k) else get_component cs d)"
  using assms by (induction cs) (auto simp: get_component_def)

lemma set_component_ids [simp]:
  assumes "\<And>c. c_id (f c) = c_id c"
  shows "map c_id (set_component k f cs) = map c_id cs"
  using assms by (induction cs) auto

lemma skip_component_id [simp]: "c_id (skip_component now failed c) = c_id c"
  by (simp add: skip_component_def)

lemma reset_component_fields [simp]:
  "c_id (reset_component c) = c_id c" "c_dependencies (reset_component c) = c_dependencies c"
  "c_status (reset_component c) = PENDING"
  by (simp_all add: reset_component_def)

definition update_all :: "(component \<Rightarrow> component) \<Rightarrow> string list \<Rightarrow> component list \<Rightarrow> component list" where
  "update_all f ks cs = foldl (\<lambda>acc k. set_component k f acc) cs ks"

lemma get_update_all:
  assumes "\<And>c. c_id (f c) = c_id c" and "distinct ks"
  shows "get_component (update_all f ks cs) d =
    (if d \<in> set ks then map_option f (get_component cs d) else get_component cs d)"
  using assms(2)
proof (induction ks rule: rev_induct)
  case Nil
  then show ?case by (simp add: update_all_def)
next
  case (snoc k ks)
  then show ?case by (auto simp: update_all_def get_set_component [OF assms(1)])
qed

lemma update_all_ids:
  assumes "\<And>c. c_id (f c) = c_id c"
  shows "map c_id (update_all f ks cs) = map c_id cs"
  by (induction ks rule: rev_induct) (simp_all add: update_all_def set_component_ids [OF assms])

section \<open>The dependents map\<close>

lemma dependents_foldl:
  "dict_get (foldl (\<lambda>adj (dep, cid).
        case dict_get adj dep of None \<Rightarrow> adj | Some xs \<Rightarrow> dict_set adj dep (xs @ [cid])) adj es) u =
   (case dict_get adj u of
      None \<Rightarrow> None
    | Some xs \<Rightarrow> Some (xs @ map snd (filter (\<lambda>e. fst e = u) es)))"
proof (induction es arbitrary: adj)
  case Nil
  then show ?case by (simp split: option.splits)
next
  case (Cons e es)
  obtain d v where "e = (d, v)" by (cases e)
  then show ?case by (auto simp: Cons dict_simps split: option.splits)
qed

lemma adjacent_dependents:
  "v \<in> set (adjacent (dependents_map cs) u) \<longleftrightarrow> u \<in> set (map c_id cs) \<and> (u, v) \<in> dep_rel cs"
  unfolding adjacent_def dependents_map_def dependents_foldl dict_get_init dep_rel_def by force

section \<open>What a failure reaches\<close>

text \<open>A dependent that is neither COMPLETED nor SKIPPED is reached from the failed component, or
  from a component reached before; the failed component itself is not.\<close>

inductive cascades :: "component list \<Rightarrow> string \<Rightarrow> string \<Rightarrow> bool" for cs failed where
  direct: "failed \<in> set (map c_id cs) \<Longrightarrow> (failed, v) \<in> dep_rel cs \<Longrightarrow> v \<noteq> failed \<Longrightarrow>
     get_component cs v = Some c \<Longrightarrow>
     c_status c \<noteq> COMPLETED \<Longrightarrow> c_status c \<noteq> SKIPPED \<Longrightarrow> cascades cs failed v"
| further: "cascades cs failed u \<Longrightarrow> (u, v) \<in> dep_rel cs \<Longrightarrow> v \<noteq> failed \<Longrightarrow>
     get_component cs v = Some c \<Longrightarrow>
     c_status c \<noteq> COMPLETED \<Longrightarrow> c_status c \<noteq> SKIPPED \<Longrightarrow> cascades cs failed v"

inductive_cases cascadesE: "cascades cs failed v"

lemma cascades_known: "cascades cs failed v \<Longrightarrow> v \<in> set (map c_id cs) \<and> v \<noteq> failed"
  by (induction rule: cascades.induct) (auto simp: dep_rel_iff)

definition cascade_inv :: "string \<Rightarrow> component list \<Rightarrow> string \<Rightarrow> cascade_state \<Rightarrow> bool" where
  "cascade_inv now cs failed s =
     (cs_components s = update_all (skip_component now failed) (cs_skipped s) cs \<and>
      distinct (cs_skipped s) \<and>
      (\<forall>v\<in>set (cs_skipped s). cascades cs failed v) \<and>
      insert failed (set (cs_skipped s)) \<subseteq> set (cs_visited s) \<and>
      set (cs_queue s) \<subseteq> insert failed (set (cs_skipped s)) \<and>
      (\<forall>v\<in>set (cs_visited s). v \<noteq> failed \<longrightarrow> v \<notin> set (cs_skipped s) \<longrightarrow>
         (\<forall>c. get_component cs v = Some c \<longrightarrow> settled c)))"

definition cascade_grows :: "cascade_state \<Rightarrow> cascade_state \<Rightarrow> bool" where
  "cascade_grows s s' =
     (set (cs_visited s) \<subseteq> set (cs_visited s') \<and> set (cs_skipped s) \<subseteq> set (cs_skipped s') \<and>
      set (cs_queue s) \<subseteq> set (cs_queue s') \<and>
      set (cs_skipped s') - set (cs_skipped s) \<subseteq> set (cs_queue s'))"

lemma cascade_grows_refl [simp]: "cascade_grows s s"
  by (simp add: cascade_grows_def)

lemma cascade_grows_trans: "cascade_grows a b \<Longrightarrow> cascade_grows b c \<Longrightarrow> cascade_grows a c"
  unfolding cascade_grows_def by blast

lemma cascade_inv_lookup:
  assumes "cascade_inv now cs failed s"
  shows "get_component (cs_components s) d =
    (if d \<in> set (cs_skipped s) then map_option (skip_component now failed) (get_component cs d)
     else get_component cs d)"
proof -
  from assms have "cs_components s = update_all (skip_component now failed) (cs_skipped s) cs"
    "distinct (cs_skipped s)" by (simp_all add: cascade_inv_def)
  then show ?thesis by (simp add: get_update_all)
qed

lemma cascade_visit_one:
  assumes inv: "cascade_inv now cs failed s"
    and src: "u = failed \<and> failed \<in> set (map c_id cs) \<or> cascades cs failed u"
    and edge: "(u, d) \<in> dep_rel cs" and new: "d \<notin> set (cs_visited s)"
    and get: "get_component (cs_components s) d = Some c" and uns: "\<not> settled c"
  shows "cascade_inv now cs failed
    (s\<lparr>cs_visited := d # cs_visited s,
       cs_components := set_component d (skip_component now failed) (cs_components s),
       cs_skipped := cs_skipped s @ [d], cs_queue := cs_queue s @ [d]\<rparr>)"
proof -
  have d: "d \<notin> set (cs_skipped s)" "d \<noteq> failed" using inv new by (auto simp: cascade_inv_def)
  with cascade_inv_lookup [OF inv] get have g: "get_component cs d = Some c" by simp
  from src edge d(2) g uns have "cascades cs failed d" by (auto simp: settled_def intro: cascades.intros)
  with inv d show ?thesis by (auto simp: cascade_inv_def update_all_def)
qed

lemma cascade_visit_inv:
  assumes "cascade_inv now cs failed s"
    and "u = failed \<and> failed \<in> set (map c_id cs) \<or> cascades cs failed u"
    and "\<forall>d\<in>set ds. (u, d) \<in> dep_rel cs"
  shows "cascade_inv now cs failed (cascade_visit now failed s ds) \<and>
    cascade_grows s (cascade_visit now failed s ds) \<and>
    set ds \<subseteq> set (cs_visited (cascade_visit now failed s ds))"
  using assms
proof (induction ds arbitrary: s)
  case Nil
  then show ?case by simp
next
  case (Cons d ds)
  show ?case
  proof (cases "d \<in> set (cs_visited s)")
    case True
    with Cons.IH [OF Cons.prems(1,2)] Cons.prems(3) show ?thesis
      by (auto simp: cascade_grows_def)
  next
    case new: False
    let ?s = "s\<lparr>cs_visited := d # cs_visited s\<rparr>"
    let ?t = "s\<lparr>cs_visited := d # cs_visited s,
       cs_components := set_component d (skip_component now failed) (cs_components s),
       cs_skipped := cs_skipped s @ [d], cs_queue := cs_queue s @ [d]\<rparr>"
    show ?thesis
    proof (cases "\<exists>c. get_component (cs_components s) d = Some c \<and> \<not> settled c")
      case True
      then obtain c where c: "get_component (cs_components s) d = Some c" "\<not> settled c" by blast
      from cascade_visit_one [OF Cons.prems(1,2) _ new c] Cons.prems(3)
      have inv: "cascade_inv now cs failed ?t" by simp
      have g: "cascade_grows s ?t" by (auto simp: cascade_grows_def)
      have v: "cascade_visit now failed s (d # ds) = cascade_visit now failed ?t ds"
        using new c by (simp add: Let_def)
      from Cons.IH [OF inv Cons.prems(2)] Cons.prems(3) g show ?thesis
        unfolding v by (auto intro: cascade_grows_trans) (auto simp: cascade_grows_def)
    next
      case False
      have "d \<notin> set (cs_skipped s)" using Cons.prems(1) new by (auto simp: cascade_inv_def)
      with False cascade_inv_lookup [OF Cons.prems(1), of d]
      have "\<forall>c. get_component cs d = Some c \<longrightarrow> settled c" by auto
      with Cons.prems(1) have inv: "cascade_inv now cs failed ?s" by (auto simp: cascade_inv_def)
      have g: "cascade_grows s ?s" by (auto simp: cascade_grows_def)
      have v: "cascade_visit now failed s (d # ds) = cascade_visit now failed ?s ds"
        using new False by (auto simp: Let_def split: option.splits)
      from Cons.IH [OF inv Cons.prems(2)] Cons.prems(3) g show ?thesis
        unfolding v by (auto intro: cascade_grows_trans) (auto simp: cascade_grows_def)
    qed
  qed
qed

definition cascade_closed :: "component list \<Rightarrow> string \<Rightarrow> cascade_state \<Rightarrow> bool" where
  "cascade_closed cs failed s =
     (\<forall>u\<in>insert failed (set (cs_skipped s)) - set (cs_queue s).
        set (adjacent (dependents_map cs) u) \<subseteq> set (cs_visited s))"

lemma cascade_walk_inv:
  assumes "cascade_inv now cs failed s" and "cascade_closed cs failed s"
  shows "cascade_inv now cs failed (cascade_walk now failed (dependents_map cs) s) \<and>
    cascade_closed cs failed (cascade_walk now failed (dependents_map cs) s) \<and>
    cs_queue (cascade_walk now failed (dependents_map cs) s) = []"
  using assms
proof (induction now failed "dependents_map cs" s rule: cascade_walk.induct)
  case (1 now failed s)
  show ?case
  proof (cases "cs_queue s")
    case Nil
    with 1(2,3) show ?thesis by (subst (1 2 3) cascade_walk.simps) simp
  next
    case (Cons u queue)
    let ?ds = "adjacent (dependents_map cs) u"
    let ?s = "s\<lparr>cs_queue := queue\<rparr>"
    let ?v = "cascade_visit now failed ?s ?ds"
    have inv: "cascade_inv now cs failed ?s" using 1(2) Cons by (auto simp: cascade_inv_def)
    have next_state: "cascade_inv now cs failed ?v \<and> cascade_closed cs failed ?v"
    proof (cases "?ds = []")
      case True
      with 1(3) Cons inv show ?thesis by (auto simp: cascade_closed_def)
    next
      case False
      then obtain w where "w \<in> set ?ds" by (cases ?ds) auto
      then have u: "u \<in> set (map c_id cs)" by (simp add: adjacent_dependents)
      have "u = failed \<and> failed \<in> set (map c_id cs) \<or> cascades cs failed u"
        using 1(2) Cons u by (auto simp: cascade_inv_def)
      from cascade_visit_inv [OF inv this, of ?ds]
      have v: "cascade_inv now cs failed ?v" "cascade_grows ?s ?v" "set ?ds \<subseteq> set (cs_visited ?v)"
        by (auto simp: adjacent_dependents)
      have "cascade_closed cs failed ?v"
        unfolding cascade_closed_def
      proof
        fix x assume x: "x \<in> insert failed (set (cs_skipped ?v)) - set (cs_queue ?v)"
        show "set (adjacent (dependents_map cs) x) \<subseteq> set (cs_visited ?v)"
        proof (cases "x = u")
          case True
          with v(3) show ?thesis by simp
        next
          case False
          with x v(2) Cons have "x \<in> insert failed (set (cs_skipped s)) - set (cs_queue s)"
            by (auto simp: cascade_grows_def)
          with 1(3) v(2) show ?thesis by (fastforce simp: cascade_closed_def cascade_grows_def)
        qed
      qed
      with v(1) show ?thesis by blast
    qed
    have "cascade_walk now failed (dependents_map cs) s = cascade_walk now failed (dependents_map cs) ?v"
      by (subst cascade_walk.simps) (simp add: Cons)
    with 1(1) [OF Cons] next_state show ?thesis by simp
  qed
qed

lemma cascade_skip_spec:
  assumes "cascade_skip now cs failed = (cs', skipped)"
  shows "distinct skipped" "set skipped = {v. cascades cs failed v}"
    "cs' = update_all (skip_component now failed) skipped cs"
proof -
  let ?start = "\<lparr>cs_components = cs, cs_visited = [failed], cs_skipped = [], cs_queue = [failed]\<rparr>"
  let ?s = "cascade_walk now failed (dependents_map cs) ?start"
  have "cascade_inv now cs failed ?start" "cascade_closed cs failed ?start"
    by (auto simp: cascade_inv_def cascade_closed_def update_all_def)
  from cascade_walk_inv [OF this]
  have r: "cascade_inv now cs failed ?s" "cascade_closed cs failed ?s" "cs_queue ?s = []" by auto
  have s: "cs' = cs_components ?s" "skipped = cs_skipped ?s"
    using assms by (auto simp: cascade_skip_def Let_def)
  show "distinct skipped" "cs' = update_all (skip_component now failed) skipped cs"
    using r(1) by (simp_all add: s cascade_inv_def)
  have sub: "set skipped \<subseteq> {v. cascades cs failed v}" using r(1) by (auto simp: s cascade_inv_def)
  have reach: "v \<in> set skipped"
    if "u \<in> insert failed (set skipped)" "u \<in> set (map c_id cs)" "(u, v) \<in> dep_rel cs" "v \<noteq> failed"
      "get_component cs v = Some c" "\<not> settled c" for u v c
  proof -
    from that(2,3) have "v \<in> set (adjacent (dependents_map cs) u)" by (simp add: adjacent_dependents)
    with that(1) r(2,3) have "v \<in> set (cs_visited ?s)" by (auto simp: cascade_closed_def s)
    with that(4,5,6) r(1) show ?thesis by (auto simp: cascade_inv_def s)
  qed
  have "v \<in> set skipped" if "cascades cs failed v" for v
    using that
  proof (induction rule: cascades.induct)
    case (direct v c)
    with reach [of failed v c] show ?case by (simp add: settled_def)
  next
    case (further u v c)
    with reach [of u v c] cascades_known [of cs failed u] show ?case by (simp add: settled_def)
  qed
  with sub show "set skipped = {v. cascades cs failed v}" by blast
qed

section \<open>Transitive dependents\<close>

definition adj_rel :: "adjacency \<Rightarrow> (string \<times> string) set" where
  "adj_rel adj = {(u, v). v \<in> set (adjacent adj u)}"

lemma find_new_found: "set (fst (find_new found q ds)) = set found \<union> set ds"
  by (induction found q ds rule: find_new.induct) auto

lemma find_new_queue: "set (snd (find_new found q ds)) = set q \<union> (set ds - set found)"
  by (induction found q ds rule: find_new.induct) auto

lemmas find_new_sets = find_new_found find_new_queue

lemma dependents_walk_sound:
  assumes "set found \<subseteq> (adj_rel adj)\<^sup>+ `` {r}" and "set q \<subseteq> insert r (set found)"
  shows "set (dependents_walk adj found q) \<subseteq> (adj_rel adj)\<^sup>+ `` {r}"
  using assms
proof (induction adj found q rule: dependents_walk.induct)
  case (1 adj found)
  then show ?case by simp
next
  case (2 adj found u queue)
  let ?r = "find_new found queue (adjacent adj u)"
  have "set (adjacent adj u) \<subseteq> (adj_rel adj)\<^sup>+ `` {r}"
  proof
    fix v assume "v \<in> set (adjacent adj u)"
    then have uv: "(u, v) \<in> adj_rel adj" by (simp add: adj_rel_def)
    from 2(2,3) have "u = r \<or> (r, u) \<in> (adj_rel adj)\<^sup>+" by auto
    with uv show "v \<in> (adj_rel adj)\<^sup>+ `` {r}" by (auto intro: trancl_into_trancl)
  qed
  with 2(2) have a: "set (fst ?r) \<subseteq> (adj_rel adj)\<^sup>+ `` {r}" by (simp add: find_new_sets)
  from 2(3) have "set (snd ?r) \<subseteq> insert r (set (fst ?r))"
    by (auto simp: find_new_sets)
  from 2(1) [OF refl a this] show ?case by (simp add: Let_def)
qed

lemma dependents_walk_closed:
  assumes "\<forall>u\<in>insert r (set found) - set q. set (adjacent adj u) \<subseteq> set found"
  shows "set found \<subseteq> set (dependents_walk adj found q) \<and>
    (\<forall>u\<in>insert r (set (dependents_walk adj found q)). set (adjacent adj u) \<subseteq> set (dependents_walk adj found q))"
  using assms
proof (induction adj found q rule: dependents_walk.induct)
  case (1 adj found)
  then show ?case by simp
next
  case (2 adj found u queue)
  let ?r = "find_new found queue (adjacent adj u)"
  have "\<forall>x\<in>insert r (set (fst ?r)) - set (snd ?r). set (adjacent adj x) \<subseteq> set (fst ?r)"
  proof
    fix x assume x: "x \<in> insert r (set (fst ?r)) - set (snd ?r)"
    show "set (adjacent adj x) \<subseteq> set (fst ?r)"
    proof (cases "x = u")
      case True
      then show ?thesis by (simp add: find_new_sets)
    next
      case False
      with x have "x \<in> insert r (set found) - set (u # queue)" by (auto simp: find_new_sets)
      with 2(2) show ?thesis by (auto simp: find_new_sets(1))
    qed
  qed
  from 2(1) [OF refl this] show ?case by (auto simp: Let_def find_new_sets(1))
qed

lemma transitive_dependents_set:
  assumes "known_deps cs"
  shows "set (transitive_dependents cs cid) = {v. (cid, v) \<in> (dep_rel cs)\<^sup>+}"
proof -
  let ?adj = "dependents_map cs"
  let ?w = "dependents_walk ?adj [] [cid]"
  have rel: "adj_rel ?adj = dep_rel cs"
    using dep_rel_source [OF assms] by (auto simp: adj_rel_def adjacent_dependents)
  have "set ?w \<subseteq> {v. (cid, v) \<in> (dep_rel cs)\<^sup>+}"
    using dependents_walk_sound [of "[]" ?adj cid "[cid]"] by (auto simp: rel)
  moreover have "v \<in> set ?w" if "(cid, v) \<in> (dep_rel cs)\<^sup>+" for v
    using that
  proof (induction rule: trancl_induct)
    case (base v)
    then have "v \<in> set (adjacent ?adj cid)" unfolding rel [symmetric] by (simp add: adj_rel_def)
    with dependents_walk_closed [of cid "[]" "[cid]" ?adj] show ?case by auto
  next
    case (step u v)
    then have "v \<in> set (adjacent ?adj u)" unfolding rel [symmetric] by (simp add: adj_rel_def)
    with step.IH dependents_walk_closed [of cid "[]" "[cid]" ?adj] show ?case by auto
  qed
  ultimately show ?thesis unfolding transitive_dependents_def by blast
qed

section \<open>\<open>reset_for_retry\<close> over a dependency order\<close>

lemma collect_resets_order: "set (collect_resets cs ds rs order) \<subseteq> set order"
  by (induction cs ds rs order rule: collect_resets.induct) auto

lemma collect_resets_distinct: "distinct order \<Longrightarrow> distinct (collect_resets cs ds rs order)"
  by (induction cs ds rs order rule: collect_resets.induct) (auto dest!: subsetD [OF collect_resets_order])

lemma can_resetE:
  assumes "can_reset cs ds rs k"
  obtains c where "k \<in> set ds" "get_component cs k = Some c" "c_status c = SKIPPED"
    "\<forall>d\<in>set (c_dependencies c). runnable_dep cs rs d"
  using assms that by (auto simp: can_reset_def list_all_iff split: option.splits)

lemma runnable_dep_mono: "runnable_dep cs rs d \<Longrightarrow> set rs \<subseteq> set rs' \<Longrightarrow> runnable_dep cs rs' d"
  by (auto simp: runnable_dep_def)

text \<open>Every id collected is a skipped dependent whose dependencies are all runnable or collected.\<close>

lemma collect_resets_sound:
  "k \<in> set (collect_resets cs ds rs order) \<Longrightarrow> can_reset cs ds (rs @ collect_resets cs ds rs order) k"
proof (induction cs ds rs order rule: collect_resets.induct)
  case (1 cs ds rs)
  then show ?case by simp
next
  case (2 cs ds rs cid order)
  have mono: "can_reset cs ds rs' k \<Longrightarrow> set rs' \<subseteq> set rs'' \<Longrightarrow> can_reset cs ds rs'' k" for rs' rs''
    by (auto simp: can_reset_def list_all_iff split: option.splits intro: runnable_dep_mono)
  show ?case
  proof (cases "can_reset cs ds rs cid")
    case True
    show ?thesis
    proof (cases "k = cid")
      case True
      with \<open>can_reset cs ds rs cid\<close> have "can_reset cs ds rs k" by simp
      then show ?thesis by (rule mono) simp
    next
      case False
      with True 2(1,3) have "can_reset cs ds ((cid # rs) @ collect_resets cs ds (cid # rs) order) k" by simp
      then show ?thesis by (rule mono) (auto simp: True)
    qed
  next
    case False
    with 2(2,3) show ?thesis by simp
  qed
qed

text \<open>Over an order that lists each id after its dependencies, nothing that could be reset is left.\<close>

lemma collect_resets_complete:
  assumes "dep_ordered (dep_rel cs) D order" and "distinct order" and "set order \<inter> D = {}"
    and "k \<in> set order" and "k \<notin> set (collect_resets cs ds rs order)"
  shows "\<not> can_reset cs ds (rs @ collect_resets cs ds rs order) k"
  using assms
proof (induction cs ds rs order arbitrary: D rule: collect_resets.induct)
  case (1 cs ds rs)
  then show ?case by simp
next
  case (2 cs ds rs cid order)
  have ord: "dep_ordered (dep_rel cs) (insert cid D) order" "distinct order" "set order \<inter> insert cid D = {}"
    using 2(3,4,5) by auto
  show ?case
  proof (cases "k = cid")
    case False
    with 2(6) have k: "k \<in> set order" by simp
    show ?thesis
    proof (cases "can_reset cs ds rs cid")
      case True
      with 2(7) have "k \<notin> set (collect_resets cs ds (cid # rs) order)" by simp
      from 2(1) [OF True ord k this] show ?thesis
        by (simp add: True) (auto simp: can_reset_def list_all_iff runnable_dep_def split: option.splits)
    next
      case ncan: False
      with 2(7) have "k \<notin> set (collect_resets cs ds rs order)" by simp
      from 2(2) [OF ncan ord k this] show ?thesis by (simp add: ncan)
    qed
  next
    case True
    with 2(7) have ncan: "\<not> can_reset cs ds rs cid" by auto
    show ?thesis
    proof
      assume "can_reset cs ds (rs @ collect_resets cs ds rs (cid # order)) k"
      then have "can_reset cs ds (rs @ collect_resets cs ds rs order) cid" by (simp add: True ncan)
      then obtain c where c: "cid \<in> set ds" "get_component cs cid = Some c" "c_status c = SKIPPED"
        "\<forall>d\<in>set (c_dependencies c). runnable_dep cs (rs @ collect_resets cs ds rs order) d"
        by (rule can_resetE)
      with ncan obtain d where d: "d \<in> set (c_dependencies c)" "\<not> runnable_dep cs rs d"
        by (auto simp: can_reset_def list_all_iff)
      with c(4) have "d \<in> set order"
        using collect_resets_order [of cs ds rs order] by (auto simp: runnable_dep_def)
      moreover have "(d, cid) \<in> dep_rel cs"
        using get_component_id [OF c(2)] d(1) by (auto simp: dep_rel_iff)
      then have "d \<in> D" using 2(3) by simp
      ultimately show False using 2(5) by auto
    qed
  qed
qed

text \<open>What a retry needs from the order it walks.\<close>

locale dependency_order =
  fixes order_of :: "component list \<Rightarrow> 'e + string list"
  assumes order_sound: "order_of cs = Inr xs \<Longrightarrow>
    known_deps cs \<and> distinct xs \<and> set xs = set (map c_id cs) \<and> dep_ordered (dep_rel cs) {} xs"
begin

lemma collected_maximal:
  assumes "order_of cs = Inr xs" and "k \<in> set (map c_id cs)"
    and "k \<notin> set (collect_resets cs ds rs xs)"
  shows "\<not> can_reset cs ds (rs @ collect_resets cs ds rs xs) k"
  using order_sound [OF assms(1)] assms(2,3) by (intro collect_resets_complete [of cs "{}"]) auto

lemma collected_distinct: "order_of cs = Inr xs \<Longrightarrow> distinct (collect_resets cs ds rs xs)"
  using order_sound by (intro collect_resets_distinct) auto

end

interpretation topo: dependency_order topological_order
proof
  fix cs xs assume t: "topological_order cs = Inr xs"
  note w = topological_order_walk [OF t]
  from w(1) have "known_deps cs" by (simp add: validate_dag_Nil)
  with w show "known_deps cs \<and> distinct xs \<and> set xs = set (map c_id cs) \<and> dep_ordered (dep_rel cs) {} xs"
    by simp
qed

lemma reset_for_retryE:
  assumes "reset_for_retry cs cid = Inr (cs', ids)"
  obtains c xs where "get_component cs cid = Some c" "c_status c = FAILED"
    "topological_order cs = Inr xs" "ids = collect_resets cs (transitive_dependents cs cid) [cid] xs"
    "cs' = update_all reset_component (cid # ids) cs"
  using assms that
  by (auto simp: reset_for_retry_def Let_def update_all_def split: option.splits if_splits sum.splits)

text \<open>A dependency that is runnable, or reset, is COMPLETED or PENDING afterwards.\<close>

definition status_in :: "component list \<Rightarrow> string \<Rightarrow> component_status \<Rightarrow> bool" where
  "status_in cs k st = (\<exists>c. get_component cs k = Some c \<and> c_status c = st)"

lemma reset_lookup:
  assumes "reset_for_retry cs cid = Inr (cs', ids)"
  shows "distinct (cid # ids)"
    "get_component cs' k =
      (if k \<in> set (cid # ids) then map_option reset_component (get_component cs k) else get_component cs k)"
proof -
  from assms obtain c xs where r: "get_component cs cid = Some c" "c_status c = FAILED"
    "topological_order cs = Inr xs" "ids = collect_resets cs (transitive_dependents cs cid) [cid] xs"
    "cs' = update_all reset_component (cid # ids) cs" by (rule reset_for_retryE)
  have "cid \<notin> set ids"
  proof
    assume "cid \<in> set ids"
    from collect_resets_sound [OF this [unfolded r(4)]] show False
      using r(1,2) by (auto elim!: can_resetE)
  qed
  with topo.collected_distinct [OF r(3)] show d: "distinct (cid # ids)" by (simp add: r(4))
  show "get_component cs' k =
      (if k \<in> set (cid # ids) then map_option reset_component (get_component cs k) else get_component cs k)"
    unfolding r(5) by (rule get_update_all [OF reset_component_fields(1) d])
qed

lemma runnable_after_reset:
  assumes r: "reset_for_retry cs cid = Inr (cs', ids)" and d: "d \<in> set (map c_id cs)"
  shows "runnable_dep cs (cid # ids) d \<longleftrightarrow> status_in cs' d COMPLETED \<or> status_in cs' d PENDING"
proof -
  from d obtain c where c: "get_component cs d = Some c"
    using get_component_None [of cs d] by blast
  then show ?thesis
    by (auto simp: runnable_dep_def status_in_def reset_lookup(2) [OF r] split: if_splits)
qed

end
