(* ===== verification/Manifest_Format.thy ===== *)
theory Manifest_Format
  imports Manifest
begin

text \<open>
  The manifest on disk: what the schema check lets through, that \<open>load\<close> returns only manifests
  whose typed fields satisfy their rules, and that loading what \<open>save\<close> wrote gives the manifest
  back, up to the fields \<open>save\<close> leaves out.
\<close>

section \<open>Well-formed components and manifests\<close>

definition component_ok :: "component \<Rightarrow> bool" where
  "component_ok c =
     (validate_component_id (c_id c) = None \<and> validate_branch_name (c_branch_name c) = None \<and>
      (c_plan_id c = [] \<or> validate_component_id (c_plan_id c) = None) \<and>
      rejudge_sha_pattern (c_rejudge_sha c) \<and> 1 \<le> c_first_attempt c \<and>
      list_all (\<lambda>f. resolve_category (fi_category f) = fi_category f) (c_findings c))"

definition manifest_ok :: "manifest \<Rightarrow> bool" where
  "manifest_ok m =
     (m_project_name m \<noteq> [] \<and> validate_branch_name (m_base_branch m) = None \<and>
      (m_spec_digest m = [] \<or> spec_digest_pattern (m_spec_digest m) \<and> m_spec_path m \<noteq> []) \<and>
      list_all component_ok (m_components m))"

text \<open>What of a manifest survives \<open>save\<close>: a spec path without its digest is dropped, and a digest
  that is falsy reads back as the empty string.\<close>

definition saved_part :: "manifest \<Rightarrow> manifest" where
  "saved_part m = m
     \<lparr>m_spec_path := (if m_spec_digest m \<noteq> [] then m_spec_path m else []),
      m_stack_digest := (if truthy (m_stack_digest m) then m_stack_digest m else JStr []),
      m_acceptance_digest := (if truthy (m_acceptance_digest m) then m_acceptance_digest m else JStr [])\<rparr>"

section \<open>One component\<close>

lemma findings_roundtrip:
  "list_all (\<lambda>f. resolve_category (fi_category f) = fi_category f) fs \<Longrightarrow>
   findings_of_json rep (JList (map (\<lambda>f. JObj (finding_to_dict f)) fs)) = Inr fs"
  by (induction fs) (auto simp: findings_of_json_def finding_roundtrip)

lemma jstr_of_JStr_list [simp]: "map jstr_of (map JStr ds) = ds" "map (jstr_of \<circ> JStr) ds = ds"
  by (induction ds) simp_all

lemma jget_component_dict:
  "jget (component_dict c) ''findings'' v = JList (map (\<lambda>f. JObj (finding_to_dict f)) (c_findings c))"
  by (simp add: component_dict_def jget_Cons)

lemma load_component_dict:
  assumes "component_ok c"
  shows "load_component rep (component_dict c) = Inr c"
proof -
  from assms have f: "findings_of_json rep (jget (component_dict c) ''findings'' (JList [])) = Inr (c_findings c)"
    by (simp add: jget_component_dict findings_roundtrip component_ok_def)
  show ?thesis
    unfolding load_component_def f
    by (cases c) (simp add: component_dict_def jget_Cons jstatus_of_def)
qed

lemma component_dict_fields:
  assumes "component_ok c"
  shows "validate_component_fields (component_dict c) i = []"
  using assms
  by (auto simp: validate_component_fields_def component_string_fields_def string_field_errors_def
      dependencies_errors_def status_errors_def plan_id_errors_def rejudge_sha_errors_def
      first_attempt_errors_def component_dict_def jget_Cons component_ok_def list_all_iff Let_def)

lemma component_dict_keys:
  "set (jkeys (component_dict c)) = set component_required_keys \<union> set component_optional_keys"
  by (auto simp: jkeys_def component_dict_def component_required_keys_def component_optional_keys_def)

lemma component_dict_errors:
  assumes "component_ok c"
  shows "component_errors i (JObj (component_dict c)) = []"
proof -
  have req: "filter (\<lambda>k. k \<notin> set (jkeys (component_dict c))) component_required_keys = []"
    by (simp add: component_dict_keys filter_empty_conv)
  have ext: "filter (\<lambda>k. k \<notin> set component_required_keys \<union> set component_optional_keys)
      (jkeys (component_dict c)) = []"
    unfolding filter_empty_conv component_dict_keys by blast
  show ?thesis
    unfolding component_errors_def json.case Let_def req ext
    by (simp add: component_dict_fields [OF assms])
qed

text \<open>Conversely: an accepted component is well formed.\<close>

lemma finding_decoded_resolved:
  "findings_of_json rep v = Inr fs \<Longrightarrow>
   list_all (\<lambda>f. resolve_category (fi_category f) = fi_category f) fs"
  by (auto simp: findings_of_json_def list_all_iff split: json.splits)

lemma string_field_errors_Nil:
  "string_field_errors e i (k, rule) = [] \<longleftrightarrow>
   (\<exists>s. jget e k JNull = JStr s \<and> (case rule of None \<Rightarrow> True | Some r \<Rightarrow> r s = None))"
  by (auto simp: string_field_errors_def split: json.splits option.splits)

lemma component_errors_NilD:
  assumes "component_errors i v = []"
  shows "validate_component_fields (jobj_of v) i = []"
  using assms by (auto simp: component_errors_def Let_def split: json.splits if_splits)

lemma load_component_ok:
  assumes v: "validate_component_fields e i = []" and l: "load_component rep e = Inr c"
  shows "component_ok c"
proof -
  from v have i: "\<exists>s. jget e ''id'' JNull = JStr s \<and> validate_component_id s = None"
    and b: "\<exists>s. jget e ''branchName'' JNull = JStr s \<and> validate_branch_name s = None"
    by (auto simp: validate_component_fields_def component_string_fields_def string_field_errors_Nil)
  from v have p: "\<exists>s. jget e ''planId'' (JStr []) = JStr s \<and> (s = [] \<or> validate_component_id s = None)"
    by (auto simp: validate_component_fields_def plan_id_errors_def split: json.splits if_splits)
  from v have r: "\<exists>s. jget e ''rejudgeSha'' (JStr []) = JStr s \<and> rejudge_sha_pattern s"
    by (auto simp: validate_component_fields_def rejudge_sha_errors_def Let_def split: json.splits if_splits)
  from v have n: "\<exists>n. jget e ''firstAttempt'' (JInt 1) = JInt n \<and> 1 \<le> n"
    by (auto simp: validate_component_fields_def first_attempt_errors_def split: json.splits if_splits)
  from l obtain fs where fs: "findings_of_json rep (jget e ''findings'' (JList [])) = Inr fs"
    by (auto simp: load_component_def split: sum.splits)
  from l fs have c: "c_id c = jstr_of (jget e ''id'' JNull)"
    "c_branch_name c = jstr_of (jget e ''branchName'' JNull)"
    "c_plan_id c = jstr_of (jget e ''planId'' (JStr []))"
    "c_rejudge_sha c = jstr_of (jget e ''rejudgeSha'' (JStr []))"
    "c_first_attempt c = jint_of (jget e ''firstAttempt'' (JInt 1))" "c_findings c = fs"
    by (auto simp: load_component_def)
  from i b p r n show ?thesis
    by (auto simp: component_ok_def c finding_decoded_resolved [OF fs])
qed

lemma load_components_ok:
  "components_errors i vs = [] \<Longrightarrow> load_components rep vs = Inr cs \<Longrightarrow> list_all component_ok cs"
proof (induction vs arbitrary: i cs)
  case Nil
  then show ?case by simp
next
  case (Cons v vs)
  from Cons.prems(2) obtain c cs' where
    l: "load_component rep (jobj_of v) = Inr c" "load_components rep vs = Inr cs'" "cs = c # cs'"
    by (auto split: sum.splits)
  from Cons.prems(1) have "component_errors i v = []" "components_errors (Suc i) vs = []" by auto
  with l Cons.IH [OF this(2) l(2)] load_component_ok [OF component_errors_NilD l(1)]
  show ?case by simp
qed

lemma load_components_dicts:
  "list_all component_ok cs \<Longrightarrow>
   load_components rep (map (\<lambda>c. JObj (component_dict c)) cs) = Inr cs"
  by (induction cs) (auto simp: load_component_dict)

lemma components_errors_dicts:
  "list_all component_ok cs \<Longrightarrow> components_errors i (map (\<lambda>c. JObj (component_dict c)) cs) = []"
  by (induction cs arbitrary: i) (auto simp: component_dict_errors)

section \<open>The whole manifest\<close>

lemma jget_if_Nil: "jget (if b then xs else []) k v = (if b then jget xs k v else v)"
  by simp

lemmas saved_lookup = jget_append jget_Cons jget_if_Nil

definition saved_object :: "manifest \<Rightarrow> json_object" where
  "saved_object m = jobj_of (save_manifest m)"

lemma save_manifest_object: "save_manifest m = JObj (saved_object m)"
  by (simp add: save_manifest_def saved_object_def)

lemma saved_object_gets:
  "jget (saved_object m) ''version'' v = JStr (m_version m)"
  "jget (saved_object m) ''specFile'' v = JStr (m_spec_file m)"
  "jget (saved_object m) ''projectName'' v = JStr (m_project_name m)"
  "jget (saved_object m) ''baseBranch'' v = JStr (m_base_branch m)"
  "jget (saved_object m) ''singlePr'' v = JBool (m_single_pr m)"
  "jget (saved_object m) ''components'' v = JList (map (\<lambda>c. JObj (component_dict c)) (m_components m))"
  by (simp_all add: saved_object_def save_manifest_def saved_lookup)

lemma saved_object_keys: "filter (\<lambda>k. k \<notin> set (jkeys (saved_object m))) manifest_required_keys = []"
  by (simp add: saved_object_def save_manifest_def manifest_required_keys_def jkeys_def)

lemma saved_object_digest:
  "map_of (saved_object m) ''specDigest'' =
     (if m_spec_digest m \<noteq> [] then Some (JStr (m_spec_digest m)) else None)"
  by (simp add: saved_object_def save_manifest_def map_add_def)

lemma saved_object_strings: "optional_string_errors (saved_object m) = []"
  by (simp add: saved_object_def save_manifest_def optional_string_errors_def
      manifest_optional_string_keys_def saved_lookup)

lemma saved_object_spec_path:
  "m_spec_digest m \<noteq> [] \<Longrightarrow> jget (saved_object m) ''specPath'' v = JStr (m_spec_path m)"
  by (simp add: saved_object_def save_manifest_def saved_lookup)

lemma saved_top_level:
  assumes "manifest_ok m"
  shows "manifest_top_level_errors (save_manifest m) = []"
proof -
  have p: "spec_pin_schema_errors (saved_object m) = []"
    using assms by (auto simp: spec_pin_schema_errors_def saved_object_digest manifest_ok_def saved_object_spec_path)
  show ?thesis
    unfolding save_manifest_object manifest_top_level_errors_def json.case Let_def saved_object_keys
    using assms
    by (simp add: saved_object_gets saved_object_strings p top_string_errors_def base_branch_errors_def
        manifest_ok_def)
qed

lemma saved_schema:
  assumes "manifest_ok m"
  shows "validate_schema (save_manifest m) = []"
proof -
  have e: "components_errors 0 (map (\<lambda>c. JObj (component_dict c)) (m_components m)) = []"
    using assms by (simp add: manifest_ok_def components_errors_dicts)
  show ?thesis
    unfolding validate_schema_def saved_top_level [OF assms]
    by (simp add: save_manifest_object saved_object_gets e)
qed

lemma load_saved:
  assumes "manifest_ok m"
  shows "load_manifest rep (save_manifest m) = Inr (saved_part m)"
proof -
  have l: "load_components rep (jlist_of (jget (saved_object m) ''components'' JNull)) = Inr (m_components m)"
    using assms by (simp add: saved_object_gets load_components_dicts manifest_ok_def)
  have j: "jobj_of (save_manifest m) = saved_object m" by (simp add: saved_object_def)
  show ?thesis
    unfolding load_manifest_def Let_def saved_schema [OF assms] j l
    by (cases m) (simp add: saved_object_def save_manifest_def saved_lookup saved_part_def)
qed

lemma top_level_NilD:
  assumes "manifest_top_level_errors doc = []"
  obtains data where "doc = JObj data" "top_string_errors data = []"
    "jget data ''projectName'' JNull \<noteq> JStr []" "base_branch_errors data = []"
    "spec_pin_schema_errors data = []" "optional_string_errors data = []"
  using assms that by (auto simp: manifest_top_level_errors_def Let_def split: json.splits if_splits)

lemma spec_pin_NilD:
  assumes "spec_pin_schema_errors data = []" and "is_jstr (jget data ''specPath'' (JStr []))"
  shows "jstr_of (jget data ''specDigest'' (JStr [])) = [] \<or>
    spec_digest_pattern (jstr_of (jget data ''specDigest'' (JStr []))) \<and>
    jstr_of (jget data ''specPath'' (JStr [])) \<noteq> []"
proof (cases "map_of data ''specDigest''")
  case None
  then show ?thesis by (simp add: jget_def)
next
  case (Some v)
  with assms(1) obtain s where s: "v = JStr s" "spec_digest_pattern s" "truthy (jget data ''specPath'' JNull)"
    by (auto simp: spec_pin_schema_errors_def split: json.splits if_splits)
  moreover from s(3) assms(2) have "jstr_of (jget data ''specPath'' (JStr [])) \<noteq> []"
    by (auto simp: jget_def split: option.splits elim: is_jstr.elims)
  ultimately show ?thesis by (simp add: jget_def Some)
qed

lemma loaded_ok:
  assumes "load_manifest rep doc = Inr m"
  shows "manifest_ok m"
proof -
  from assms have sch: "validate_schema doc = []"
    by (auto simp: load_manifest_def Let_def split: if_splits)
  then have "manifest_top_level_errors doc = []" by (simp add: validate_schema_def)
  then obtain data where d: "doc = JObj data" "top_string_errors data = []"
    "jget data ''projectName'' JNull \<noteq> JStr []" "base_branch_errors data = []"
    "spec_pin_schema_errors data = []" "optional_string_errors data = []"
    by (rule top_level_NilD)
  from sch d(1) have keys: "\<forall>k\<in>set manifest_required_keys. k \<in> set (jkeys data)"
    by (auto simp: validate_schema_def manifest_top_level_errors_def Let_def filter_empty_conv split: if_splits)
  from sch d(1) keys have comps: "components_errors 0 (jlist_of (jget data ''components'' JNull)) = []"
    by (auto simp: validate_schema_def split: json.splits if_splits)
  from d(2) have str: "is_jstr (jget data ''projectName'' JNull)" "is_jstr (jget data ''baseBranch'' JNull)"
    by (auto simp: top_string_errors_def split: if_splits)
  from d(6) have sp: "is_jstr (jget data ''specPath'' (JStr []))"
    by (auto simp: optional_string_errors_def manifest_optional_string_keys_def split: if_splits)
  from assms sch obtain cs where cs: "load_components rep (jlist_of (jget data ''components'' JNull)) = Inr cs"
    by (auto simp: load_manifest_def Let_def d(1) split: sum.splits)
  from assms sch cs have m: "m_project_name m = jstr_of (jget data ''projectName'' JNull)"
    "m_base_branch m = jstr_of (jget data ''baseBranch'' JNull)" "m_components m = cs"
    "m_spec_digest m = jstr_of (jget data ''specDigest'' (JStr []))"
    "m_spec_path m = jstr_of (jget data ''specPath'' (JStr []))"
    by (auto simp: load_manifest_def Let_def d(1))
  from d(4) str(2) have "validate_branch_name (jstr_of (jget data ''baseBranch'' JNull)) = None"
    by (auto simp: base_branch_errors_def split: json.splits option.splits)
  moreover from d(3) str(1) have "jstr_of (jget data ''projectName'' JNull) \<noteq> []"
    by (auto elim: is_jstr.elims)
  ultimately show ?thesis
    using spec_pin_NilD [OF d(5) sp] load_components_ok [OF comps cs]
    by (simp add: manifest_ok_def m)
qed

lemma saved_part_idem [simp]: "saved_part (saved_part m) = saved_part m"
  by (cases m) (simp add: saved_part_def)

lemma saved_part_ok [simp]: "manifest_ok m \<Longrightarrow> manifest_ok (saved_part m)"
  by (auto simp: manifest_ok_def saved_part_def)

text \<open>\<open>from_prd\<close> builds a manifest that loads back, whenever it has a project name.\<close>

lemma single_component_ok:
  "validate_branch_name branch = None \<Longrightarrow> component_ok (single_component project rel branch)"
  by (simp add: component_ok_def single_component_def validate_component_id_def component_id_re_def
      dollar_match_def id_start_char_def id_char_def is_lower_ascii_def is_digit_ascii_def less_eq_char_def
      contains_sub_def endswith_def suffix_def rejudge_sha_pattern_def)
    (auto simp: sublist_def append_eq_Cons_conv Cons_eq_append_conv)

end
