(* ===== verification/Manifest_Contract.thy ===== *)
theory Manifest_Contract
  imports Dag_Retry Manifest_Format
begin

text \<open>
  What the manifest promises the factory: the properties of \<open>Manifest\<close> and \<open>Manifest_Dag\<close>, each
  with a concrete plan at which its hypotheses hold.
\<close>

section \<open>A concrete plan\<close>

definition demo_component :: "string \<Rightarrow> string list \<Rightarrow> component_status \<Rightarrow> component" where
  "demo_component cid deps st =
     (single_component cid ''prd.json'' ''kstrl/demo'')
       \<lparr>c_id := cid, c_dependencies := deps, c_status := st\<rparr>"

text \<open>\<open>b\<close> and \<open>c\<close> need \<open>a\<close>; \<open>d\<close> needs \<open>b\<close> and \<open>c\<close>.\<close>

definition demo_plan :: "component_status \<Rightarrow> component_status \<Rightarrow> component_status \<Rightarrow> component_status \<Rightarrow> component list" where
  "demo_plan sa sb sc sd =
     [demo_component ''d'' [''b'', ''c''] sd, demo_component ''a'' [] sa,
      demo_component ''b'' [''a''] sb, demo_component ''c'' [''a''] sc]"

lemma demo_component_fields [simp]:
  "c_id (demo_component k ds st) = k" "c_dependencies (demo_component k ds st) = ds"
  "c_status (demo_component k ds st) = st"
  by (simp_all add: demo_component_def)

lemma demo_plan_ids [simp]: "map c_id (demo_plan sa sb sc sd) = [''d'', ''a'', ''b'', ''c'']"
  by (simp add: demo_plan_def)

lemma demo_plan_edges: "dep_edges (demo_plan sa sb sc sd) =
    [(''b'', ''d''), (''c'', ''d''), (''a'', ''b''), (''a'', ''c'')]"
  by (simp add: demo_plan_def dep_edges_def)

lemma demo_plan_valid [simp]: "validate_dag (demo_plan sa sb sc sd) = []"
proof -
  have "acyclic (dep_rel (demo_plan sa sb sc sd))"
    by (rule dep_ordered_acyclic [of _ "[''a'', ''b'', ''c'', ''d'']"])
      (auto simp: dep_rel_def demo_plan_edges)
  then show ?thesis by (simp add: validate_dag_Nil) (simp add: known_deps_def demo_plan_def)
qed

section \<open>The graph\<close>

text \<open>C33: The DAG check accepts a plan exactly when its ids are distinct, every dependency is a
component of the plan, and the dependency relation has no cycle.\<close>

theorem validate_dag_correct:
  "validate_dag cs = [] \<longleftrightarrow> distinct (map c_id cs) \<and> known_deps cs \<and> acyclic (dep_rel cs)"
  by (rule validate_dag_Nil)

text \<open>On an accepted plan \<open>topological_order\<close> returns every component id once, each after all of
its dependencies; on a plan the check refuses it raises.\<close>

theorem topological_order_correct:
  assumes "validate_dag cs = []"
  shows "\<exists>xs. topological_order cs = Inr xs \<and> distinct xs \<and> set xs = set (map c_id cs) \<and>
    (\<forall>i j. i < length xs \<longrightarrow> j < length xs \<longrightarrow> (xs ! i, xs ! j) \<in> dep_rel cs \<longrightarrow> i < j)"
proof -
  from assms topological_order_returns [of cs] obtain xs where xs: "topological_order cs = Inr xs"
    by (auto simp: returns_def split: sum.splits)
  note w = topological_order_walk [OF xs]
  have "i < j" if "i < length xs" "j < length xs" "(xs ! i, xs ! j) \<in> dep_rel cs" for i j
    using dep_ordered_pos [OF w(4) that(3,2)] that w(3) by (auto simp: nth_eq_iff_index_eq)
  with xs w show ?thesis by blast
qed

theorem topological_order_correct_witness:
  "\<exists>xs. topological_order (demo_plan PENDING PENDING PENDING PENDING) = Inr xs \<and> distinct xs \<and>
    set xs = {''a'', ''b'', ''c'', ''d''}"
  using topological_order_correct [OF demo_plan_valid, of PENDING PENDING PENDING PENDING] by auto

text \<open>On an accepted plan \<open>compute_tiers\<close> splits the components into sorted, non-empty levels, each
component once: all dependencies of a component lie in earlier levels, and a component that is
not in the first level has a dependency in the level just before, so no level could be earlier.\<close>

theorem compute_tiers_levels:
  assumes "validate_dag cs = []"
  shows "\<exists>ts. compute_tiers cs = Inr ts \<and> distinct (concat ts) \<and> set (concat ts) = set (map c_id cs) \<and>
    (\<forall>n < length ts. sorted (ts ! n) \<and> ts ! n \<noteq> [] \<and>
       (\<forall>v\<in>set (ts ! n). (\<forall>u. (u, v) \<in> dep_rel cs \<longrightarrow> (\<exists>k<n. u \<in> set (ts ! k))) \<and>
          (0 < n \<longrightarrow> (\<exists>u\<in>set (ts ! (n - 1)). (u, v) \<in> dep_rel cs))))"
proof -
  from assms obtain ts where ts: "compute_tiers cs = Inr ts" "distinct (concat ts)"
    "set (concat ts) = set (map c_id cs)" "tiers_ok (dep_rel cs) {} None ts"
    by (rule compute_tiers_valid)
  have "sorted (ts ! n) \<and> ts ! n \<noteq> []" if "n < length ts" for n
    using tiers_ok_sorted [OF ts(4)] that nth_mem by blast
  moreover have "\<exists>k<n. u \<in> set (ts ! k)"
    if "n < length ts" "v \<in> set (ts ! n)" "(u, v) \<in> dep_rel cs" for n u v
    using tiers_ok_level [OF ts(4) that] by simp
  moreover have "\<exists>u\<in>set (ts ! (n - 1)). (u, v) \<in> dep_rel cs"
    if "n < length ts" "v \<in> set (ts ! n)" "0 < n" for n v
    using tiers_ok_previous [OF ts(4), of "n - 1" v] that by simp
  ultimately show ?thesis using ts(1,2,3) by blast
qed

theorem compute_tiers_levels_witness:
  "\<exists>ts. compute_tiers (demo_plan PENDING PENDING PENDING PENDING) = Inr ts \<and>
    set (concat ts) = {''a'', ''b'', ''c'', ''d''}"
  using compute_tiers_levels [OF demo_plan_valid, of PENDING PENDING PENDING PENDING] by auto

text \<open>\<open>compute_tiers\<close> raises a \<open>ValueError\<close> only on a validation message that mentions a cycle. A
duplicate id hides a cycle from it: the components on the cycle are left out of the tiers and
nothing is raised, although the check refuses the plan.\<close>

theorem compute_tiers_hidden_cycle:
  "\<exists>cs. (''a'', ''b'') \<in> dep_rel cs \<and> (''b'', ''a'') \<in> dep_rel cs \<and>
     validate_dag cs = [Duplicate_Id ''x''] \<and> compute_tiers cs = Inr [[''x'']]"
proof -
  define cs where "cs = [demo_component ''a'' [''b''] PENDING, demo_component ''b'' [''a''] PENDING,
    demo_component ''x'' [] PENDING, demo_component ''x'' [] PENDING]"
  have e: "dep_edges cs = [(''b'', ''a''), (''a'', ''b'')]" by (simp add: cs_def dep_edges_def)
  have v: "validate_dag cs = [Duplicate_Id ''x'']"
    by (subst validate_dag_early) (simp_all add: cs_def unknown_errors_def)
  have g: "build_graph cs = Inr ([(''a'', [''b'']), (''b'', [''a'']), (''x'', [])],
      [(''a'', 1), (''b'', 1), (''x'', 0)])"
    unfolding build_graph_def e
    by (simp add: cs_def init_dict_def dict_set_def dict_get_def degree_at_def)
  have "\<not> mentions_cycle (Duplicate_Id ''x'')"
    by (simp add: mentions_cycle_def contains_sub_def lower_char_def is_upper_ascii_def less_eq_char_def)
      code_simp
  then have "compute_tiers cs = Inr [[''x'']]"
    unfolding compute_tiers_def v
    by (simp add: g roots_def tier_walk.simps adjacent_def dict_get_def)
  with v show ?thesis by (intro exI [of _ cs]) (simp add: dep_rel_def e)
qed

section \<open>Scheduling\<close>

text \<open>C38: Scheduling cannot stall on an accepted plan: while every component is PENDING or COMPLETED and
one is PENDING, some component is ready.\<close>

theorem ready_makes_progress:
  assumes "validate_dag cs = []" and "\<forall>c\<in>set cs. c_status c = PENDING \<or> c_status c = COMPLETED"
    and "\<exists>c\<in>set cs. c_status c = PENDING"
  shows "get_ready_components cs \<noteq> []"
proof -
  from assms(1) have v: "distinct (map c_id cs)" "known_deps cs" "acyclic (dep_rel cs)"
    by (simp_all add: validate_dag_Nil)
  have "wf (dep_rel cs)" using v(3) by (simp add: dep_rel_def finite_acyclic_wf)
  moreover from assms(3) obtain c where "c \<in> set cs" "c_status c = PENDING" by blast
  ultimately obtain z where z: "z \<in> {c_id c |c. c \<in> set cs \<and> c_status c = PENDING}"
    "\<forall>y. (y, z) \<in> dep_rel cs \<longrightarrow> y \<notin> {c_id c |c. c \<in> set cs \<and> c_status c = PENDING}"
    unfolding wf_eq_minimal by (metis (mono_tags, lifting) mem_Collect_eq)
  then obtain c where c: "c \<in> set cs" "c_status c = PENDING" "c_id c = z" by blast
  have "\<exists>d\<in>set cs. c_id d = dep \<and> c_status d = COMPLETED" if dep: "dep \<in> set (c_dependencies c)" for dep
  proof -
    from dep c(1,3) have e: "(dep, z) \<in> dep_rel cs" by (auto simp: dep_rel_iff)
    from dep_rel_source [OF v(2) e] obtain d where "d \<in> set cs" "c_id d = dep" by auto
    with z(2) e assms(2) show ?thesis by blast
  qed
  then have "c \<in> set (get_ready_components cs)"
    using c by (fastforce simp: get_ready_components_def Let_def list_all_iff)
  then show ?thesis by auto
qed

theorem ready_makes_progress_witness:
  "get_ready_components (demo_plan COMPLETED PENDING PENDING PENDING) \<noteq> []"
  by (rule ready_makes_progress) (simp_all add: demo_plan_def demo_plan_valid [unfolded demo_plan_def])

text \<open>C31: \<open>cascade_skip\<close> skips exactly the components the failure reaches: dependents that are neither
COMPLETED nor SKIPPED, and their dependents in turn. Each of them becomes SKIPPED, every other
component, the failed one included, is left as it was, and afterwards every direct dependent
of the failed component or of a skipped one is COMPLETED, SKIPPED or the failed one itself.\<close>

theorem cascade_skip_exact:
  assumes "cascade_skip now cs failed = (cs', skipped)"
  shows "distinct skipped \<and> set skipped = {v. cascades cs failed v} \<and> map c_id cs' = map c_id cs \<and>
    (\<forall>k. get_component cs' k =
       (if k \<in> set skipped then map_option (skip_component now failed) (get_component cs k)
        else get_component cs k)) \<and>
    (\<forall>u v c. u \<in> insert failed (set skipped) \<longrightarrow> u \<in> set (map c_id cs) \<longrightarrow> (u, v) \<in> dep_rel cs \<longrightarrow>
       v \<noteq> failed \<longrightarrow> get_component cs' v = Some c \<longrightarrow>
       c_status c = COMPLETED \<or> c_status c = SKIPPED) \<and>
    (\<forall>k. k \<in> set skipped \<longrightarrow> status_in cs' k SKIPPED)"
proof -
  note s = cascade_skip_spec [OF assms]
  have look: "get_component cs' k =
      (if k \<in> set skipped then map_option (skip_component now failed) (get_component cs k)
       else get_component cs k)" for k
    unfolding s(3) by (rule get_update_all) (simp_all add: s(1))
  have closed: "c_status c = COMPLETED \<or> c_status c = SKIPPED" if "u \<in> insert failed (set skipped)" "u \<in> set (map c_id cs)" "(u, v) \<in> dep_rel cs"
    "v \<noteq> failed" "get_component cs' v = Some c" for u v c
  proof (cases "v \<in> set skipped")
    case True
    with that(5) look show ?thesis by (auto simp: skip_component_def)
  next
    case False
    with that(5) look have g: "get_component cs v = Some c" by simp
    show ?thesis
    proof (rule ccontr)
      assume "\<not> (c_status c = COMPLETED \<or> c_status c = SKIPPED)"
      with that g s(2) have "cascades cs failed v" by (auto intro: cascades.intros)
      with False s(2) show False by simp
    qed
  qed
  have ids: "map c_id cs' = map c_id cs"
    unfolding s(3) by (rule update_all_ids) simp
  have skip: "status_in cs' k SKIPPED" if "k \<in> set skipped" for k
  proof -
    from that s(2) have "k \<in> set (map c_id cs)" using cascades_known by blast
    with get_component_None [of cs k] obtain c where "get_component cs k = Some c" by blast
    with that look [of k] show ?thesis by (simp add: status_in_def skip_component_def)
  qed
  from s(1,2) ids show ?thesis
    by (intro conjI allI impI) (assumption | rule look | (rule closed; assumption) | (rule skip; assumption))+
qed

theorem cascade_skip_exact_witness:
  "\<exists>cs' skipped. cascade_skip ''t'' (demo_plan FAILED PENDING COMPLETED PENDING) ''a'' = (cs', skipped) \<and>
    set skipped = {v. cascades (demo_plan FAILED PENDING COMPLETED PENDING) ''a'' v}"
proof -
  obtain cs' skipped where c: "cascade_skip ''t'' (demo_plan FAILED PENDING COMPLETED PENDING) ''a'' = (cs', skipped)"
    by (cases "cascade_skip ''t'' (demo_plan FAILED PENDING COMPLETED PENDING) ''a''")
  have "set skipped = {v. cascades (demo_plan FAILED PENDING COMPLETED PENDING) ''a'' v}"
    using cascade_skip_exact [OF c] by (elim conjE)
  with c show ?thesis by (intro exI conjI)
qed

text \<open>C32: \<open>reset_for_retry\<close> returns exactly for a FAILED component of a plan the check accepts. It then
resets that component and SKIPPED transitive dependents of it, each of whose dependencies is
COMPLETED or PENDING afterwards; it changes nothing else; and it resets as many as it can: a
SKIPPED transitive dependent it leaves has a dependency that is neither COMPLETED nor PENDING.\<close>

theorem reset_for_retry_correct:
  assumes "reset_for_retry cs cid = Inr (cs', ids)"
  shows "status_in cs cid FAILED \<and> validate_dag cs = [] \<and> distinct (cid # ids) \<and>
    (\<forall>k. get_component cs' k =
       (if k \<in> set (cid # ids) then map_option reset_component (get_component cs k)
        else get_component cs k)) \<and>
    (\<forall>k\<in>set ids. (cid, k) \<in> (dep_rel cs)\<^sup>+ \<and> status_in cs k SKIPPED) \<and>
    (\<forall>k\<in>set (cid # ids). status_in cs' k PENDING) \<and>
    (\<forall>k. (cid, k) \<in> (dep_rel cs)\<^sup>+ \<longrightarrow> status_in cs k SKIPPED \<longrightarrow>
       (k \<in> set ids \<longleftrightarrow>
        (\<forall>d. (d, k) \<in> dep_rel cs \<longrightarrow> status_in cs' d COMPLETED \<or> status_in cs' d PENDING)))"
proof -
  from assms obtain c xs where r: "get_component cs cid = Some c" "c_status c = FAILED"
    "topological_order cs = Inr xs" "ids = collect_resets cs (transitive_dependents cs cid) [cid] xs"
    by (rule reset_for_retryE)
  have v: "validate_dag cs = []" by (rule topological_order_walk [OF r(3)])
  then have ok: "distinct (map c_id cs)" "known_deps cs" by (simp_all add: validate_dag_Nil)
  let ?ds = "transitive_dependents cs cid"
  have deps: "d \<in> set (c_dependencies c) \<longleftrightarrow> (d, k) \<in> dep_rel cs" if "get_component cs k = Some c" for c d k
    using get_component_id [OF that] get_component_unique [OF ok(1)] that
    by (auto simp: dep_rel_iff) (metis option.inject)
  have run: "runnable_dep cs (cid # ids) d \<longleftrightarrow> status_in cs' d COMPLETED \<or> status_in cs' d PENDING"
    if "(d, k) \<in> dep_rel cs" for d k
    using runnable_after_reset [OF assms dep_rel_source [OF ok(2) that]] .
  have can: "can_reset cs ?ds (cid # ids) k \<longleftrightarrow> (cid, k) \<in> (dep_rel cs)\<^sup>+ \<and> status_in cs k SKIPPED \<and>
      (\<forall>d. (d, k) \<in> dep_rel cs \<longrightarrow> status_in cs' d COMPLETED \<or> status_in cs' d PENDING)" for k
    using deps [of k] run [of _ k] transitive_dependents_set [OF ok(2), of cid]
    by (auto simp: can_reset_def status_in_def list_all_iff split: option.splits)
  have sound: "can_reset cs ?ds (cid # ids) k" if "k \<in> set ids" for k
    using collect_resets_sound [of k cs ?ds "[cid]" xs] that by (simp add: r(4))
  have complete: "\<not> can_reset cs ?ds (cid # ids) k" if "k \<notin> set ids" "status_in cs k SKIPPED" for k
  proof -
    have "k \<in> set (map c_id cs)"
      using that(2) get_component_None [of cs k] by (auto simp: status_in_def)
    from topo.collected_maximal [OF r(3) this, of ?ds "[cid]"] that(1) show ?thesis by (simp add: r(4))
  qed
  have "status_in cs cid FAILED" using r(1,2) by (simp add: status_in_def)
  moreover have ids: "\<forall>k\<in>set ids. (cid, k) \<in> (dep_rel cs)\<^sup>+ \<and> status_in cs k SKIPPED"
    using sound can by blast
  moreover have "\<forall>k\<in>set (cid # ids). status_in cs' k PENDING"
    using ids r(1) by (auto simp: status_in_def reset_lookup(2) [OF assms])
  moreover have "\<forall>k. (cid, k) \<in> (dep_rel cs)\<^sup>+ \<longrightarrow> status_in cs k SKIPPED \<longrightarrow>
       (k \<in> set ids \<longleftrightarrow>
        (\<forall>d. (d, k) \<in> dep_rel cs \<longrightarrow> status_in cs' d COMPLETED \<or> status_in cs' d PENDING))"
    using sound complete can by blast
  ultimately show ?thesis using v reset_lookup [OF assms] by blast
qed

lemma reset_for_retry_returns:
  "returns (reset_for_retry cs cid) \<longleftrightarrow> status_in cs cid FAILED \<and> validate_dag cs = []"
  using topological_order_returns [of cs]
  by (auto simp: reset_for_retry_def status_in_def returns_def Let_def split: option.splits sum.splits)

theorem reset_for_retry_correct_witness:
  "\<exists>cs' ids. reset_for_retry (demo_plan FAILED SKIPPED COMPLETED SKIPPED) ''a'' = Inr (cs', ids) \<and>
    distinct (''a'' # ids)"
proof -
  have "status_in (demo_plan FAILED SKIPPED COMPLETED SKIPPED) ''a'' FAILED"
    by (simp add: status_in_def get_component_def demo_plan_def)
  then have "returns (reset_for_retry (demo_plan FAILED SKIPPED COMPLETED SKIPPED) ''a'')"
    by (simp add: reset_for_retry_returns)
  then obtain cs' ids where
    r: "reset_for_retry (demo_plan FAILED SKIPPED COMPLETED SKIPPED) ''a'' = Inr (cs', ids)"
    by (auto simp: returns_def split: sum.splits)
  from reset_for_retry_correct [OF r] r show ?thesis by blast
qed

text \<open>On a plan the DAG check accepts, \<open>retryable_component_ids\<close> lists exactly the ids that
\<open>reset_for_retry\<close> does not refuse.\<close>

theorem retryable_ids_exact:
  assumes "validate_dag cs = []"
  shows "cid \<in> set (retryable_component_ids cs) \<longleftrightarrow> returns (reset_for_retry cs cid)"
proof -
  from assms have "distinct (map c_id cs)" by (simp add: validate_dag_Nil)
  then have "status_in cs cid FAILED \<longleftrightarrow> cid \<in> set (retryable_component_ids cs)"
    using get_component_unique [of cs] get_component_id [of cs cid]
    by (auto simp: status_in_def retryable_component_ids_def)
  with assms show ?thesis by (simp add: reset_for_retry_returns)
qed

theorem retryable_ids_exact_witness:
  "returns (reset_for_retry (demo_plan FAILED SKIPPED COMPLETED SKIPPED) ''a'')"
  using retryable_ids_exact [OF demo_plan_valid, of "''a''" FAILED SKIPPED COMPLETED SKIPPED]
  by (simp add: retryable_component_ids_def demo_plan_def)

section \<open>On disk\<close>

text \<open>C40: Every document \<open>load\<close> accepts yields a manifest whose typed fields satisfy their rules, and
\<open>save\<close> writes that manifest as a document that passes the schema check and loads back equal, up
to what \<open>save\<close> leaves out: a spec path without a digest, and falsy stack and acceptance digests.\<close>

theorem manifest_roundtrip:
  assumes "load_manifest rep doc = Inr m"
  shows "manifest_ok m \<and> validate_schema (save_manifest m) = [] \<and>
    load_manifest rep' (save_manifest m) = Inr (saved_part m)"
  using loaded_ok [OF assms] by (simp add: saved_schema load_saved)

lemma last_split_on: "s \<noteq> [] \<Longrightarrow> last (split_on c s) = [] \<Longrightarrow> last s = c"
proof (induction s)
  case Nil
  then show ?case by simp
next
  case (Cons x s)
  show ?case
  proof (cases "s = []")
    case True
    with Cons.prems show ?thesis by (auto split: if_splits)
  next
    case False
    obtain w ws where ws: "split_on c s = w # ws" by (cases "split_on c s") auto
    have "last (split_on c s) = []"
    proof (cases "x = c")
      case True
      with Cons.prems(2) ws show ?thesis by simp
    next
      case ne: False
      with Cons.prems(2) ws show ?thesis by (cases ws) auto
    qed
    with Cons.IH False show ?thesis by simp
  qed
qed

lemma prd_project_name_nonempty:
  assumes "branch \<noteq> [] \<Longrightarrow> validate_branch_name branch = None"
  shows "prd_project_name stem branch project \<noteq> []"
proof (cases "project = [] \<and> branch \<noteq> []")
  case True
  with assms have "\<not> endswith branch ''/''" using validate_branch_name_NoneD by blast
  moreover from True have "branch = butlast branch @ [last branch]" by simp
  ultimately have "last branch \<noteq> CHR ''/''" unfolding endswith_def suffix_def by metis
  with True last_split_on [of branch "CHR ''/''"] show ?thesis by (auto simp: prd_project_name_def)
next
  case False
  then show ?thesis by (auto simp: prd_project_name_def)
qed

lemma from_prdE:
  assumes "from_prd rel stem branch project base = Inr m"
  obtains b where "validate_branch_name b = None" "validate_branch_name base = None"
    "branch = [] \<or> b = branch" "m_project_name m = prd_project_name stem branch project"
    "m_components m = [single_component (m_project_name m) rel b]" "m_base_branch m = base"
    "m_spec_digest m = []" "m_spec_path m = []" "m_stack_digest m = JStr []" "m_acceptance_digest m = JStr []"
  using assms that by (auto simp: from_prd_def Let_def split: option.splits if_splits)

text \<open>A manifest \<open>from_prd\<close> builds has a non-empty project name and one component, is accepted by
the schema and the DAG check, loads back unchanged after a save, and its component is ready.\<close>

theorem from_prd_loads:
  assumes "from_prd rel stem branch project base = Inr m"
  shows "m_project_name m \<noteq> [] \<and> load_manifest rep (save_manifest m) = Inr m \<and>
    validate_dag (m_components m) = [] \<and> get_ready_components (m_components m) = m_components m"
proof -
  from assms obtain b where b: "validate_branch_name b = None" "validate_branch_name base = None"
    "branch = [] \<or> b = branch" "m_project_name m = prd_project_name stem branch project"
    "m_components m = [single_component (m_project_name m) rel b]" "m_base_branch m = base"
    "m_spec_digest m = []" "m_spec_path m = []" "m_stack_digest m = JStr []" "m_acceptance_digest m = JStr []"
    by (rule from_prdE)
  have n: "m_project_name m \<noteq> []" unfolding b(4) by (rule prd_project_name_nonempty) (use b in auto)
  have ok: "manifest_ok m" using b n by (simp add: manifest_ok_def single_component_ok)
  have "saved_part m = m" using b by (cases m) (simp add: saved_part_def)
  with load_saved [OF ok] have l: "load_manifest rep (save_manifest m) = Inr m" by simp
  have "dep_rel (m_components m) = {}" by (auto simp: dep_rel_iff b(5) single_component_def)
  then have v: "validate_dag (m_components m) = []"
    unfolding validate_dag_Nil by (simp add: b(5) known_deps_def single_component_def acyclic_def)
  have "get_ready_components (m_components m) = m_components m"
    by (simp add: b(5) get_ready_components_def single_component_def)
  with n l v show ?thesis by blast
qed

lemma demo_branch: "validate_branch_name ''main'' = None"
  by code_simp

lemma demo_prd: "\<exists>m. from_prd ''prd.json'' ''prd'' ''main'' ''p'' ''main'' = Inr m"
  by (simp add: from_prd_def Let_def demo_branch)

theorem from_prd_loads_witness:
  "\<exists>m. from_prd ''prd.json'' ''prd'' ''main'' ''p'' ''main'' = Inr m \<and>
    load_manifest (\<lambda>_. []) (save_manifest m) = Inr m"
  using demo_prd from_prd_loads by blast

theorem manifest_roundtrip_witness:
  "\<exists>doc m. load_manifest (\<lambda>_. []) doc = Inr m \<and> validate_schema (save_manifest m) = []"
proof -
  obtain m where m: "from_prd ''prd.json'' ''prd'' ''main'' ''p'' ''main'' = Inr m" using demo_prd by blast
  from m obtain b where "validate_branch_name b = None" "validate_branch_name ''main'' = None"
    "m_project_name m = prd_project_name ''prd'' ''main'' ''p''"
    "m_components m = [single_component (m_project_name m) ''prd.json'' b]" "m_base_branch m = ''main''"
    "m_spec_digest m = []" by (rule from_prdE)
  then have "manifest_ok m" by (simp add: manifest_ok_def single_component_ok prd_project_name_def)
  from load_saved [OF this] have "load_manifest (\<lambda>_. []) (save_manifest m) = Inr (saved_part m)" .
  from manifest_roundtrip [OF this] this show ?thesis by blast
qed

end
