(* ===== verification/Autonomy.thy ===== *)
theory Autonomy
  imports Prelude
begin

text \<open>
  The autonomy ladder: \<open>kstrl/learning/autonomy.py\<close> (levels, criteria, transitions, evidence
  counters, the state file) and \<open>kstrl/learning/autonomy_config.py\<close> (the level a run may use, the
  merge gate). The counters are Python ints: \<open>load\<close> accepts negative ones. The current time is the
  argument \<open>now\<close>.
\<close>

section \<open>Levels\<close>

datatype autonomy_level = L1_SUPERVISED | L2_GATED_MERGE | L3_ENVELOPED_AUTO | L4_DEPLOY

fun level_num :: "autonomy_level \<Rightarrow> int" where
  "level_num L1_SUPERVISED = 1"
| "level_num L2_GATED_MERGE = 2"
| "level_num L3_ENVELOPED_AUTO = 3"
| "level_num L4_DEPLOY = 4"

text \<open>\<open>AutonomyLevel(n)\<close>; \<open>None\<close> is the \<open>ValueError\<close>.\<close>

definition level_of :: "int \<Rightarrow> autonomy_level option" where
  "level_of n = find (\<lambda>l. level_num l = n) [L1_SUPERVISED, L2_GATED_MERGE, L3_ENVELOPED_AUTO, L4_DEPLOY]"

lemma level_num_inject [simp]: "level_num a = level_num b \<longleftrightarrow> a = b"
  by (cases a; cases b) simp_all

lemma level_of_num [simp]: "level_of (level_num l) = Some l"
  by (cases l) (simp_all add: level_of_def)

lemma level_of_SomeD: "level_of n = Some l \<Longrightarrow> level_num l = n"
  unfolding level_of_def by (drule find_SomeD) simp

text \<open>Levels are an \<open>IntEnum\<close>: they compare as their numbers.\<close>

instantiation autonomy_level :: linorder
begin

definition less_eq_autonomy_level :: "autonomy_level \<Rightarrow> autonomy_level \<Rightarrow> bool" where
  "less_eq_autonomy_level a b = (level_num a \<le> level_num b)"

definition less_autonomy_level :: "autonomy_level \<Rightarrow> autonomy_level \<Rightarrow> bool" where
  "less_autonomy_level a b = (level_num a < level_num b)"

instance
  by standard (auto simp: less_eq_autonomy_level_def less_autonomy_level_def)

end

lemmas level_order = less_eq_autonomy_level_def less_autonomy_level_def

fun level_label :: "autonomy_level \<Rightarrow> string" where
  "level_label L1_SUPERVISED = ''L1 Supervised''"
| "level_label L2_GATED_MERGE = ''L2 Gated-merge''"
| "level_label L3_ENVELOPED_AUTO = ''L3 Enveloped auto-merge''"
| "level_label L4_DEPLOY = ''L4 Deploy''"

fun level_up :: "autonomy_level \<Rightarrow> autonomy_level" where
  "level_up L1_SUPERVISED = L2_GATED_MERGE"
| "level_up L2_GATED_MERGE = L3_ENVELOPED_AUTO"
| "level_up _ = L4_DEPLOY"

fun level_down :: "autonomy_level \<Rightarrow> autonomy_level" where
  "level_down L4_DEPLOY = L3_ENVELOPED_AUTO"
| "level_down L3_ENVELOPED_AUTO = L2_GATED_MERGE"
| "level_down _ = L1_SUPERVISED"

datatype demotion_trigger =
  POLICY_VIOLATION | CALIBRATION_REGRESSION | HEALTH_BREACH | HUMAN_REJECTED_AUTO_MERGE | MANUAL

fun trigger_label :: "demotion_trigger \<Rightarrow> string" where
  "trigger_label POLICY_VIOLATION = ''policy_violation''"
| "trigger_label CALIBRATION_REGRESSION = ''calibration_regression''"
| "trigger_label HEALTH_BREACH = ''health_breach''"
| "trigger_label HUMAN_REJECTED_AUTO_MERGE = ''human_rejected_auto_merge''"
| "trigger_label MANUAL = ''manual''"

section \<open>Thresholds\<close>

definition l2_merged_components_required :: int where "l2_merged_components_required = 5"
definition l3_clean_merges_required :: int where "l3_clean_merges_required = 15"
definition l4_merged_components_required :: int where "l4_merged_components_required = 30"
definition demotion_cooldown_runs :: int where "demotion_cooldown_runs = 10"
definition min_decisive_runs :: int where "min_decisive_runs = 8"

lemmas thresholds = l2_merged_components_required_def l3_clean_merges_required_def
  l4_merged_components_required_def demotion_cooldown_runs_def min_decisive_runs_def

section \<open>The flag bundle\<close>

record flag_bundle =
  fb_level :: autonomy_level
  fb_pause_before_pr_merge :: bool
  fb_review_mode :: string
  fb_auto_accept_plan :: bool
  fb_auto_merge_when_green :: bool
  fb_deploy_permitted :: bool

fun flag_bundle_for :: "autonomy_level \<Rightarrow> flag_bundle" where
  "flag_bundle_for L1_SUPERVISED =
     \<lparr>fb_level = L1_SUPERVISED, fb_pause_before_pr_merge = True, fb_review_mode = ''hard'',
      fb_auto_accept_plan = False, fb_auto_merge_when_green = False, fb_deploy_permitted = False\<rparr>"
| "flag_bundle_for L2_GATED_MERGE =
     \<lparr>fb_level = L2_GATED_MERGE, fb_pause_before_pr_merge = True, fb_review_mode = ''hard'',
      fb_auto_accept_plan = True, fb_auto_merge_when_green = False, fb_deploy_permitted = False\<rparr>"
| "flag_bundle_for L3_ENVELOPED_AUTO =
     \<lparr>fb_level = L3_ENVELOPED_AUTO, fb_pause_before_pr_merge = False, fb_review_mode = ''hard'',
      fb_auto_accept_plan = True, fb_auto_merge_when_green = True, fb_deploy_permitted = False\<rparr>"
| "flag_bundle_for L4_DEPLOY =
     \<lparr>fb_level = L4_DEPLOY, fb_pause_before_pr_merge = False, fb_review_mode = ''hard'',
      fb_auto_accept_plan = True, fb_auto_merge_when_green = True, fb_deploy_permitted = True\<rparr>"

section \<open>State\<close>

record transition_record =
  tr_at :: string
  tr_from_level :: int
  tr_to_level :: int
  tr_direction :: string
  tr_actor :: string
  tr_reason :: string
  tr_trigger :: string
  tr_evidence :: json_object

text \<open>Why \<open>load\<close> fell back to a fresh state.\<close>

datatype degrade_reason =
    Legacy_Record_In_Tree
  | Unreadable
  | Not_Utf8
  | Not_An_Object
  | Not_An_Integer string
  | Not_A_Level int
  | History_Not_Array
  | History_Entry_Not_Object
  | History_Evidence_Not_Object
  | History_Text_Not_String string
  | Since_Not_String
  | Promoted_By_Not_String

record autonomy_state =
  as_level :: autonomy_level
  as_since :: string
  as_merged :: int
  as_clean :: int
  as_violations :: int
  as_decisive :: int
  as_cooldown :: int
  as_last_promoted_by :: string
  as_history :: "transition_record list"
  as_degraded :: "degrade_reason option"

text \<open>\<open>AutonomyState()\<close>\<close>

definition fresh_state :: "string \<Rightarrow> degrade_reason option \<Rightarrow> autonomy_state" where
  "fresh_state now why =
     \<lparr>as_level = L1_SUPERVISED, as_since = now, as_merged = 0, as_clean = 0, as_violations = 0,
      as_decisive = 0, as_cooldown = 0, as_last_promoted_by = [], as_history = [], as_degraded = why\<rparr>"

section \<open>Reading the state file\<close>

definition require_int :: "json_object \<Rightarrow> string \<Rightarrow> int \<Rightarrow> degrade_reason + int" where
  "require_int data key dflt =
     (case map_of data key of
        None \<Rightarrow> Inr dflt
      | Some (JInt n) \<Rightarrow> Inr n
      | Some _ \<Rightarrow> Inl (Not_An_Integer key))"

definition require_text :: "json_object \<Rightarrow> string \<Rightarrow> degrade_reason \<Rightarrow> degrade_reason + string" where
  "require_text data key err =
     (case jget data key (JStr []) of JStr s \<Rightarrow> Inr s | _ \<Rightarrow> Inl err)"

definition history_evidence :: "json_object \<Rightarrow> degrade_reason + json_object" where
  "history_evidence item =
     (let raw = jget item ''evidence'' (JObj []); v = (if truthy raw then raw else JObj []) in
      case v of JObj kvs \<Rightarrow> Inr kvs | _ \<Rightarrow> Inl History_Evidence_Not_Object)"

definition history_text_keys :: "string list" where
  "history_text_keys = [''at'', ''direction'', ''actor'', ''reason'', ''trigger'']"

definition history_text_errors :: "json_object \<Rightarrow> degrade_reason list" where
  "history_text_errors item =
     [History_Text_Not_String key. key \<leftarrow> history_text_keys, \<not> is_jstr (jget item key (JStr []))]"

definition parse_history_entry :: "json \<Rightarrow> degrade_reason + transition_record" where
  "parse_history_entry v =
     and_then (case v of JObj item \<Rightarrow> Inr item | _ \<Rightarrow> Inl History_Entry_Not_Object) (\<lambda>item.
     and_then (history_evidence item) (\<lambda>evidence.
     and_then (case history_text_errors item of [] \<Rightarrow> Inr () | e # _ \<Rightarrow> Inl e) (\<lambda>_.
     and_then (require_int item ''from_level'' 1) (\<lambda>from_level.
     and_then (require_int item ''to_level'' 1) (\<lambda>to_level.
       Inr \<lparr>tr_at = jstr_of (jget item ''at'' (JStr [])),
            tr_from_level = from_level, tr_to_level = to_level,
            tr_direction = jstr_of (jget item ''direction'' (JStr [])),
            tr_actor = jstr_of (jget item ''actor'' (JStr [])),
            tr_reason = jstr_of (jget item ''reason'' (JStr [])),
            tr_trigger = jstr_of (jget item ''trigger'' (JStr [])),
            tr_evidence = evidence\<rparr>)))))"

fun parse_entries :: "json list \<Rightarrow> degrade_reason + transition_record list" where
  "parse_entries [] = Inr []"
| "parse_entries (v # vs) =
     (case parse_history_entry v of
        Inl e \<Rightarrow> Inl e
      | Inr t \<Rightarrow> (case parse_entries vs of Inl e \<Rightarrow> Inl e | Inr ts \<Rightarrow> Inr (t # ts)))"

definition parse_history :: "json \<Rightarrow> degrade_reason + transition_record list" where
  "parse_history raw = (case raw of JList vs \<Rightarrow> parse_entries vs | _ \<Rightarrow> Inl History_Not_Array)"

text \<open>The body of the \<open>try\<close> in \<open>load\<close>; every \<open>ValueError\<close> in it rejects the whole record.\<close>

definition decode_state :: "string \<Rightarrow> json_object \<Rightarrow> degrade_reason + autonomy_state" where
  "decode_state now data =
     and_then (require_int data ''level'' 1) (\<lambda>n.
     and_then (case level_of n of None \<Rightarrow> Inl (Not_A_Level n) | Some l \<Rightarrow> Inr l) (\<lambda>level.
     and_then (parse_history (jget data ''history'' (JList []))) (\<lambda>history.
     and_then (require_text data ''since'' Since_Not_String) (\<lambda>since.
     and_then (require_text data ''last_promoted_by'' Promoted_By_Not_String) (\<lambda>promoted_by.
     and_then (require_int data ''components_merged_at_level'' 0) (\<lambda>merged.
     and_then (require_int data ''clean_merges_at_level'' 0) (\<lambda>clean.
     and_then (require_int data ''policy_violations_at_level'' 0) (\<lambda>violations.
     and_then (require_int data ''decisive_runs_at_level'' 0) (\<lambda>decisive.
     and_then (require_int data ''cooldown_runs_remaining'' 0) (\<lambda>cooldown.
       Inr \<lparr>as_level = level, as_since = (if since \<noteq> [] then since else now), as_merged = merged,
           as_clean = clean, as_violations = violations, as_decisive = decisive, as_cooldown = cooldown,
           as_last_promoted_by = promoted_by, as_history = history, as_degraded = None\<rparr>))))))))))"

text \<open>What is at the state file's path. \<open>legacy\<close> says that an old in-tree record remains.\<close>

datatype ladder_file =
    No_File
  | Read_Error
  | Bad_Encoding
  | Document json

definition load_state :: "string \<Rightarrow> bool \<Rightarrow> ladder_file \<Rightarrow> autonomy_state" where
  "load_state now legacy file =
     (case file of
        No_File \<Rightarrow> fresh_state now (if legacy then Some Legacy_Record_In_Tree else None)
      | Read_Error \<Rightarrow> fresh_state now (Some Unreadable)
      | Bad_Encoding \<Rightarrow> fresh_state now (Some Not_Utf8)
      | Document (JObj data) \<Rightarrow>
          (case decode_state now data of
             Inl e \<Rightarrow> fresh_state now (Some e)
           | Inr state \<Rightarrow> state)
      | Document _ \<Rightarrow> fresh_state now (Some Not_An_Object))"

section \<open>Writing the state file\<close>

definition transition_dict :: "transition_record \<Rightarrow> json_object" where
  "transition_dict t =
     [(''at'', JStr (tr_at t)), (''from_level'', JInt (tr_from_level t)), (''to_level'', JInt (tr_to_level t)),
      (''direction'', JStr (tr_direction t)), (''actor'', JStr (tr_actor t)), (''reason'', JStr (tr_reason t)),
      (''trigger'', JStr (tr_trigger t)), (''evidence'', JObj (tr_evidence t))]"

definition state_payload :: "autonomy_state \<Rightarrow> json_object" where
  "state_payload s =
     [(''schema_version'', JInt 1), (''level'', JInt (level_num (as_level s))), (''since'', JStr (as_since s)),
      (''components_merged_at_level'', JInt (as_merged s)), (''clean_merges_at_level'', JInt (as_clean s)),
      (''policy_violations_at_level'', JInt (as_violations s)), (''decisive_runs_at_level'', JInt (as_decisive s)),
      (''cooldown_runs_remaining'', JInt (as_cooldown s)), (''last_promoted_by'', JStr (as_last_promoted_by s)),
      (''history'', JList (map (\<lambda>t. JObj (transition_dict t)) (as_history s)))]"

text \<open>\<open>save\<close>: the file after it, and the reason it refused. A failing write raises; that is the
  argument \<open>fails\<close> of the callers in \<open>Autonomy_Run\<close>.\<close>

definition save_state :: "autonomy_state \<Rightarrow> ladder_file \<Rightarrow> ladder_file \<times> degrade_reason option" where
  "save_state s file =
     (case as_degraded s of
        Some why \<Rightarrow> (file, Some why)
      | None \<Rightarrow> (Document (JObj (state_payload s)), None))"

section \<open>Transitions\<close>

definition reset_level_counters :: "autonomy_state \<Rightarrow> autonomy_state" where
  "reset_level_counters s = s\<lparr>as_merged := 0, as_clean := 0, as_violations := 0, as_decisive := 0\<rparr>"

datatype blocker =
    Already_At autonomy_level
  | Skips_Levels autonomy_level autonomy_level
  | Cooldown_Active int
  | Insufficient_Evidence int
  | Violations_At_Level int
  | Merged_At_L1 int
  | Clean_Merges int
  | Merged_At_L3 int
  | Signal string

fun blocker_text :: "blocker \<Rightarrow> string" where
  "blocker_text (Already_At l) = ''already at '' @ level_label l"
| "blocker_text (Skips_Levels a b) = ''cannot skip levels: '' @ level_label a @ '' -> '' @ level_label b"
| "blocker_text (Cooldown_Active n) =
     ''demotion cool-down active: '' @ int_text n @ '' more decisive run(s) required''"
| "blocker_text (Insufficient_Evidence n) =
     ''insufficient evidence: '' @ int_text n @ '' decisive run(s) at this level, need '' @ int_text min_decisive_runs"
| "blocker_text (Violations_At_Level n) = int_text n @ '' policy violation(s) at this level; need zero''"
| "blocker_text (Merged_At_L1 n) =
     int_text n @ ''/'' @ int_text l2_merged_components_required @ '' components merged at L1''"
| "blocker_text (Clean_Merges n) =
     int_text n @ ''/'' @ int_text l3_clean_merges_required @ '' consecutive merges approved without edits''"
| "blocker_text (Merged_At_L3 n) =
     int_text n @ ''/'' @ int_text l4_merged_components_required @ '' components merged while holding L3''"
| "blocker_text (Signal s) = s"

text \<open>The criterion of the target level alone.\<close>

definition target_blockers :: "autonomy_state \<Rightarrow> autonomy_level \<Rightarrow> blocker list" where
  "target_blockers s target =
     (case target of
        L2_GATED_MERGE \<Rightarrow>
          (if as_merged s < l2_merged_components_required then [Merged_At_L1 (as_merged s)] else [])
      | L3_ENVELOPED_AUTO \<Rightarrow>
          (if as_clean s < l3_clean_merges_required then [Clean_Merges (as_clean s)] else [])
      | L4_DEPLOY \<Rightarrow>
          (if as_merged s < l4_merged_components_required then [Merged_At_L3 (as_merged s)] else [])
      | L1_SUPERVISED \<Rightarrow> [])"

definition promotion_blockers :: "autonomy_state \<Rightarrow> autonomy_level option \<Rightarrow> blocker list" where
  "promotion_blockers s requested =
     (let current = as_level s;
          target = (case requested of Some t \<Rightarrow> t | None \<Rightarrow> level_up current) in
      if target \<le> current then [Already_At current]
      else
        (if level_num target > level_num current + 1 then [Skips_Levels current target] else []) @
        (if as_cooldown s > 0 then [Cooldown_Active (as_cooldown s)] else []) @
        (if as_decisive s < min_decisive_runs then [Insufficient_Evidence (as_decisive s)] else []) @
        (if as_violations s \<noteq> 0 then [Violations_At_Level (as_violations s)] else []) @
        target_blockers s target)"

datatype autonomy_error =
    No_Actor
  | No_Ack
  | At_Highest
  | Criteria_Unmet autonomy_level autonomy_level "blocker list"
  | Invalid_Max_Level int

text \<open>\<open>{**base, k: v, ...}\<close>\<close>

definition dict_merge :: "json_object \<Rightarrow> json_object \<Rightarrow> json_object" where
  "dict_merge base extra = foldl (\<lambda>d (k, v). dict_set d k v) base extra"

definition promotion_evidence :: "autonomy_state \<Rightarrow> json_object \<Rightarrow> blocker list \<Rightarrow> json_object" where
  "promotion_evidence s evidence blockers =
     dict_merge (dict_merge [] evidence)
       ([(''components_merged_at_level'', JInt (as_merged s)), (''clean_merges_at_level'', JInt (as_clean s)),
         (''decisive_runs_at_level'', JInt (as_decisive s))] @
        (if blockers \<noteq> [] then [(''forced_over_blockers'', JList (map (\<lambda>b. JStr (blocker_text b)) blockers))]
         else []))"

definition promote ::
    "string \<Rightarrow> autonomy_state \<Rightarrow> string \<Rightarrow> string \<Rightarrow> string list \<Rightarrow> bool \<Rightarrow> json_object \<Rightarrow>
     autonomy_error + autonomy_state \<times> transition_record" where
  "promote now s actor ack signal_blockers force evidence =
     (if blank actor then Inl No_Actor
      else if blank ack then Inl No_Ack
      else if as_level s = L4_DEPLOY then Inl At_Highest
      else
        (let target = level_up (as_level s);
             blockers = promotion_blockers s (Some target) @ map Signal signal_blockers in
         if blockers \<noteq> [] \<and> \<not> force then Inl (Criteria_Unmet (as_level s) target blockers)
         else
           (let rec = \<lparr>tr_at = now, tr_from_level = level_num (as_level s), tr_to_level = level_num target,
                  tr_direction = ''promote'', tr_actor = actor, tr_reason = ack, tr_trigger = [],
                  tr_evidence = promotion_evidence s evidence blockers\<rparr> in
            Inr ((reset_level_counters (s\<lparr>as_level := target, as_since := now, as_last_promoted_by := actor\<rparr>))
                   \<lparr>as_history := as_history s @ [rec]\<rparr>, rec))))"

definition demote ::
    "string \<Rightarrow> autonomy_state \<Rightarrow> demotion_trigger \<Rightarrow> string \<Rightarrow> string \<Rightarrow> json_object \<Rightarrow>
     autonomy_state \<times> transition_record option" where
  "demote now s trigger reason actor evidence =
     (if as_level s = L1_SUPERVISED then (s, None)
      else
        (let target = level_down (as_level s);
             rec = \<lparr>tr_at = now, tr_from_level = level_num (as_level s), tr_to_level = level_num target,
               tr_direction = ''demote'', tr_actor = actor, tr_reason = reason,
               tr_trigger = trigger_label trigger, tr_evidence = evidence\<rparr> in
         ((reset_level_counters (s\<lparr>as_level := target, as_since := now\<rparr>))
            \<lparr>as_cooldown := demotion_cooldown_runs, as_history := as_history s @ [rec]\<rparr>, Some rec)))"

section \<open>Evidence\<close>

definition record_decisive_run :: "int \<Rightarrow> autonomy_state \<Rightarrow> autonomy_state" where
  "record_decisive_run count s =
     s\<lparr>as_decisive := as_decisive s + count,
       as_cooldown := (if as_cooldown s > 0 then max 0 (as_cooldown s - count) else as_cooldown s)\<rparr>"

definition record_merged_component :: "bool \<Rightarrow> autonomy_state \<Rightarrow> autonomy_state" where
  "record_merged_component human_edited s =
     s\<lparr>as_merged := as_merged s + 1, as_clean := (if human_edited then 0 else as_clean s + 1)\<rparr>"

definition record_policy_violation :: "int \<Rightarrow> autonomy_state \<Rightarrow> autonomy_state" where
  "record_policy_violation count s = s\<lparr>as_violations := as_violations s + count\<rparr>"

section \<open>What a run may use\<close>

record autonomy_config =
  ac_enabled :: bool
  ac_max_level :: int
  ac_demote_on_calibration :: bool
  ac_demote_on_health :: bool

definition autonomy_config_check :: "autonomy_config \<Rightarrow> autonomy_error + autonomy_config" where
  "autonomy_config_check c =
     (if level_of (ac_max_level c) = None then Inl (Invalid_Max_Level (ac_max_level c)) else Inr c)"

definition envelope_ceiling :: "bool \<Rightarrow> autonomy_level" where
  "envelope_ceiling policy_enabled = (if policy_enabled then L4_DEPLOY else L2_GATED_MERGE)"

datatype clamp_note = By_Max_Level int | By_Envelope autonomy_level | By_Control_Placement

text \<open>\<open>external\<close> is \<open>control_is_external(root_dir)\<close>. \<open>AutonomyLevel(config.max_level)\<close> cannot raise:
  the config was checked when it was built.\<close>

definition resolve_runtime_level ::
    "autonomy_state \<Rightarrow> autonomy_config \<Rightarrow> bool \<Rightarrow> bool \<Rightarrow> autonomy_level \<times> clamp_note list" where
  "resolve_runtime_level s config policy_enabled external =
     (let (l1, n1) =
            (if level_num (as_level s) > ac_max_level config
             then (case level_of (ac_max_level config) of Some l \<Rightarrow> l | None \<Rightarrow> as_level s,
                   [By_Max_Level (ac_max_level config)])
             else (as_level s, []));
          ceiling = envelope_ceiling policy_enabled;
          (l2, n2) = (if l1 > ceiling then (ceiling, n1 @ [By_Envelope ceiling]) else (l1, n1))
      in if l2 \<ge> L3_ENVELOPED_AUTO \<and> \<not> external
         then (L2_GATED_MERGE, n2 @ [By_Control_Placement]) else (l2, n2))"

definition control_relocation_error :: "string option \<Rightarrow> autonomy_level \<Rightarrow> string option" where
  "control_relocation_error untrusted target =
     (if target < L3_ENVELOPED_AUTO then None else untrusted)"

definition pause_gate_for :: "flag_bundle \<Rightarrow> bool \<Rightarrow> bool \<Rightarrow> bool" where
  "pause_gate_for bundle configured explicit =
     (fb_pause_before_pr_merge bundle \<or> (explicit \<and> configured))"

definition resolved_flag_bundle :: "flag_bundle \<Rightarrow> bool \<Rightarrow> bool \<Rightarrow> flag_bundle" where
  "resolved_flag_bundle bundle configured explicit =
     (let pause = pause_gate_for bundle configured explicit in
      bundle\<lparr>fb_pause_before_pr_merge := pause,
             fb_auto_merge_when_green := (fb_auto_merge_when_green bundle \<and> \<not> pause)\<rparr>)"

datatype override_note = Gate_Retained bool | Gate_Ignored bool | Review_Ignored string

definition manual_override_notes ::
    "flag_bundle \<Rightarrow> bool option \<Rightarrow> string option \<Rightarrow> bool \<Rightarrow> override_note list" where
  "manual_override_notes bundle configured_pause configured_review explicit =
     (case configured_pause of
        None \<Rightarrow> []
      | Some p \<Rightarrow>
          (if p = fb_pause_before_pr_merge bundle then []
           else if pause_gate_for bundle p explicit = p then [Gate_Retained p] else [Gate_Ignored p])) @
     (case configured_review of
        None \<Rightarrow> []
      | Some r \<Rightarrow> (if r = fb_review_mode bundle then [] else [Review_Ignored r]))"

end
