(* ===== verification/Autonomy_Run.thy ===== *)
theory Autonomy_Run
  imports Autonomy Manifest
begin

text \<open>
  The ladder at work: the commit of a transition and the automatic demotion of
  \<open>kstrl/learning/autonomy_transitions.py\<close>, the two ends of a run of
  \<open>kstrl/factory/factory_autonomy.py\<close>, the merge verdicts of \<open>kstrl/learning/evolution.py\<close>, and the
  replay of \<open>kstrl/learning/autonomy_replay.py\<close>.

  \<open>ladder_world\<close> is what these functions write: the state file, the rows of the evolution journal,
  the events on the run's bus, the demotion notices and the health items handed to the inbox.
  \<open>run_env\<close> says how the writes go: whether the state file's write raises, whether the journal's
  append reaches the disk, whether the inbox is enabled and works.
\<close>

section \<open>The world\<close>

datatype inbox_status = Inbox_On | Inbox_Off | Inbox_Broken

record run_env =
  re_now :: string
  re_legacy :: bool
  re_save_fails :: bool
  re_journal_ok :: bool
  re_inbox :: inbox_status

record ladder_world =
  lw_file :: ladder_file
  lw_journal :: "transition_record list"
  lw_events :: "transition_record list"
  lw_notices :: "transition_record list"
  lw_health :: "(string \<times> string) list"

text \<open>\<open>state.save(root_dir)\<close>: \<open>Inl\<close> is a raised \<open>OSError\<close> or control-state error.\<close>

definition write_ladder ::
    "run_env \<Rightarrow> autonomy_state \<Rightarrow> ladder_world \<Rightarrow> unit + ladder_world \<times> degrade_reason option" where
  "write_ladder env s w =
     (if as_degraded s = None \<and> re_save_fails env then Inl ()
      else (let (file, refused) = save_state s (lw_file w) in Inr (w\<lparr>lw_file := file\<rparr>, refused)))"

section \<open>Committing a transition\<close>

definition commit_transition ::
    "run_env \<Rightarrow> bool \<Rightarrow> autonomy_state \<Rightarrow> transition_record \<Rightarrow> ladder_world \<Rightarrow> unit + ladder_world" where
  "commit_transition env bus s rec w =
     and_then (write_ladder env s w) (\<lambda>(w1, refused).
       if refused \<noteq> None then Inr w1
       else Inr (w1
         \<lparr>lw_journal := lw_journal w1 @ (if re_journal_ok env then [rec] else []),
          lw_events := lw_events w1 @ (if bus then [rec] else [])\<rparr>))"

text \<open>\<open>apply_demotion\<close>: the world and the state after it, and whether it raised. The state is mutated
  before the save, so it is lowered even when the save raises.\<close>

definition apply_demotion ::
    "run_env \<Rightarrow> bool \<Rightarrow> autonomy_state \<Rightarrow> demotion_trigger \<Rightarrow> string \<Rightarrow> json_object \<Rightarrow> ladder_world \<Rightarrow>
     ladder_world \<times> autonomy_state \<times> bool" where
  "apply_demotion env bus s trigger reason evidence w =
     (let (s1, rec) = demote (re_now env) s trigger reason ''system'' evidence in
      case rec of
        None \<Rightarrow>
          (case write_ladder env s1 w of
             Inl _ \<Rightarrow> (w, s1, True)
           | Inr (w1, _) \<Rightarrow> (w1, s1, False))
      | Some r \<Rightarrow>
          (case commit_transition env bus s1 r w of
             Inl _ \<Rightarrow> (w, s1, True)
           | Inr w1 \<Rightarrow>
               (w1\<lparr>lw_notices := lw_notices w1 @ (if re_inbox env = Inbox_On then [r] else [])\<rparr>,
                s1, False)))"

section \<open>Entry signals\<close>

text \<open>The two readings the entry signals take, with every way of failing to take them.\<close>

datatype calibration_reading =
    Calibration_Config_Unreadable
  | Calibration_Not_Recorded
  | Inbox_Unreadable
  | Inbox_Unparseable nat
  | Calibration_Read "string list"

datatype health_reading =
    History_Unreadable
  | Health_Read "string list" "string list"

definition calibration_blockers :: "calibration_reading \<Rightarrow> string list" where
  "calibration_blockers r =
     (case r of
        Calibration_Config_Unreadable \<Rightarrow> [''config could not be read'']
      | Calibration_Not_Recorded \<Rightarrow> [''calibration compare: not recorded'']
      | Inbox_Unreadable \<Rightarrow> [''calibration compare: the inbox could not be read'']
      | Inbox_Unparseable n \<Rightarrow> [''calibration compare: '' @ nat_text n @ '' line(s) could not be parsed'']
      | Calibration_Read undecided \<Rightarrow>
          (if undecided \<noteq> [] then [''calibration compare not green''] else []))"

text \<open>The unmeasured metrics, then the breaches.\<close>

definition health_blockers :: "health_reading \<Rightarrow> string list" where
  "health_blockers r =
     (case r of
        History_Unreadable \<Rightarrow> [''health metrics: the recorded run history could not be read'']
      | Health_Read unmeasured outside \<Rightarrow> unmeasured @ outside)"

definition entry_signal_blockers ::
    "calibration_reading \<Rightarrow> health_reading \<Rightarrow> autonomy_level \<Rightarrow> string list" where
  "entry_signal_blockers calibration health current =
     (case current of
        L1_SUPERVISED \<Rightarrow> calibration_blockers calibration
      | L2_GATED_MERGE \<Rightarrow> health_blockers health
      | L3_ENVELOPED_AUTO \<Rightarrow> [''deploy target exists: not checked'']
      | L4_DEPLOY \<Rightarrow> [])"

section \<open>The end of a run\<close>

record run_outcome =
  ro_completed :: "string list"
  ro_failed :: "string list"
  ro_merged :: "(string \<times> string) list"

datatype merge_verdict = Clean | Edited | Head_Unknown

text \<open>\<open>{c.id: c for c in components}\<close>: the last component with an id counts.\<close>

definition last_by_id :: "component list \<Rightarrow> string \<Rightarrow> component option" where
  "last_by_id cs k = find (\<lambda>c. c_id c = k) (rev cs)"

definition classify_merge :: "component list \<Rightarrow> string \<Rightarrow> string \<Rightarrow> merge_verdict" where
  "classify_merge cs cid head =
     (let judged = (case last_by_id cs cid of None \<Rightarrow> JStr [] | Some c \<Rightarrow> c_judged_sha c) in
      if \<not> truthy judged \<or> head = [] then Head_Unknown
      else if judged = JStr head then Clean
      else Edited)"

definition classify_merges :: "component list \<Rightarrow> (string \<times> string) list \<Rightarrow> (string \<times> merge_verdict) list" where
  "classify_merges cs merged = map (\<lambda>(cid, head). (cid, classify_merge cs cid head)) merged"

definition record_merges ::
    "component list \<Rightarrow> (string \<times> string) list \<Rightarrow> autonomy_state \<Rightarrow> autonomy_state" where
  "record_merges cs merged s =
     foldl (\<lambda>s v. record_merged_component (snd v \<noteq> Clean) s) s (classify_merges cs merged)"

definition hitl_reject_check :: string where "hitl_reject_check = ''hitl_reject''"
definition pr_closed_check :: string where "pr_closed_check = ''pr_closed''"

definition human_rejection_checks :: "json list" where
  "human_rejection_checks = [JStr hitl_reject_check, JStr pr_closed_check]"

definition human_rejections ::
    "component list \<Rightarrow> string list \<Rightarrow> autonomy_level \<Rightarrow> string list" where
  "human_rejections cs failed run_level =
     (if run_level < L3_ENVELOPED_AUTO then []
      else sort (remdups (filter
        (\<lambda>k. case last_by_id cs k of None \<Rightarrow> False | Some c \<Rightarrow> c_failed_check c \<in> set human_rejection_checks)
        failed)))"

definition policy_violations :: "component list \<Rightarrow> string list" where
  "policy_violations cs =
     map c_id (filter (\<lambda>c. list_ex
       (\<lambda>f. startswith (fi_category f) policy_category_prefix \<and> fi_severity f \<noteq> ''advisory'')
       (c_findings c)) cs)"

definition infra_casualty :: "component list \<Rightarrow> string \<Rightarrow> bool" where
  "infra_casualty cs k =
     (case last_by_id cs k of None \<Rightarrow> False | Some c \<Rightarrow> list_ex is_infrastructure_error (c_findings c))"

definition run_decisive :: "component list \<Rightarrow> run_outcome \<Rightarrow> bool" where
  "run_decisive cs r = (ro_completed r \<noteq> [] \<or> filter (\<lambda>k. \<not> infra_casualty cs k) (ro_failed r) \<noteq> [])"

text \<open>\<open>_demote_once\<close>; the texts of the reasons are not kept.\<close>

definition names_json :: "string list \<Rightarrow> json" where
  "names_json xs = JList (map JStr xs)"

definition demote_once ::
    "run_env \<Rightarrow> autonomy_state \<Rightarrow> string list \<Rightarrow> string list \<Rightarrow> ladder_world \<Rightarrow>
     ladder_world \<times> autonomy_state \<times> bool" where
  "demote_once env s violations rejected w =
     (if violations \<noteq> [] then
        apply_demotion env True s POLICY_VIOLATION ''policy violation''
          ((''components'', names_json violations) #
           (if rejected \<noteq> [] then [(''human_rejected'', names_json rejected)] else [])) w
      else if rejected \<noteq> [] then
        apply_demotion env True s HUMAN_REJECTED_AUTO_MERGE ''a human rejected a candidate''
          [(''components'', names_json rejected)] w
      else (w, s, False))"

definition would_demote :: "string list \<Rightarrow> string list \<Rightarrow> bool" where
  "would_demote violations rejected = (violations \<noteq> [] \<or> rejected \<noteq> [])"

text \<open>\<open>breaches\<close> are the metric and the rule of each breach.\<close>

definition open_health_items :: "run_env \<Rightarrow> (string \<times> string) list \<Rightarrow> ladder_world \<Rightarrow> ladder_world" where
  "open_health_items env breaches w =
     (if re_inbox env = Inbox_On then w\<lparr>lw_health := lw_health w @ breaches\<rparr> else w)"

definition record_health_breaches ::
    "run_env \<Rightarrow> autonomy_config \<Rightarrow> (string \<times> string) list \<Rightarrow> autonomy_state \<Rightarrow> ladder_world \<Rightarrow>
     ladder_world \<times> autonomy_state \<times> bool" where
  "record_health_breaches env config breaches s w =
     (if breaches = [] then (w, s, False)
      else
        (let w1 = open_health_items env breaches w in
         if \<not> ac_demote_on_health config then (w1, s, False)
         else if as_cooldown s > 0 then (w1, s, False)
         else apply_demotion env True s HEALTH_BREACH ''health breach''
                [(''breaches'', names_json (map fst breaches))] w1))"

text \<open>The counters of the run, before any demotion.\<close>

definition run_evidence :: "component list \<Rightarrow> run_outcome \<Rightarrow> autonomy_state \<Rightarrow> autonomy_state" where
  "run_evidence cs r s =
     (let s1 = (if run_decisive cs r then record_decisive_run 1 s else s);
          s2 = record_merges cs (ro_merged r) s1;
          violations = policy_violations cs in
      if violations \<noteq> [] then record_policy_violation (int (length violations)) s2 else s2)"

definition record_autonomy_outcome ::
    "run_env \<Rightarrow> component list \<Rightarrow> run_outcome \<Rightarrow> autonomy_config \<Rightarrow> autonomy_level \<Rightarrow>
     (string \<times> string) list \<Rightarrow> ladder_world \<Rightarrow> ladder_world \<times> autonomy_state \<times> bool" where
  "record_autonomy_outcome env cs r config run_level breaches w =
     (let s = run_evidence cs r (load_state (re_now env) (re_legacy env) (lw_file w));
          violations = policy_violations cs;
          rejected = human_rejections cs (ro_failed r) run_level;
          (w1, s1, raised1) = demote_once env s (sort violations) rejected w in
      if raised1 then (w1, s1, True)
      else
        (let (w2, raised2) =
               (if would_demote violations rejected then (w1, False)
                else (case write_ladder env s1 w1 of
                        Inl _ \<Rightarrow> (w1, True)
                      | Inr (w2, _) \<Rightarrow> (w2, False))) in
         if raised2 then (w2, s1, True)
         else record_health_breaches env config breaches s1 w2))"

section \<open>The start of a run\<close>

record ladder_outcome =
  lo_level :: autonomy_level
  lo_bundle :: flag_bundle
  lo_clamps :: "clamp_note list"
  lo_overrides :: "override_note list"

text \<open>\<open>_resolve_ladder\<close>: \<open>stored\<close> is the state the run's envelope holds.\<close>

definition resolve_ladder ::
    "autonomy_state option \<Rightarrow> autonomy_config \<Rightarrow> bool \<Rightarrow> bool \<Rightarrow> bool \<Rightarrow> string \<Rightarrow> bool \<Rightarrow> ladder_outcome option" where
  "resolve_ladder stored config policy_enabled external configured_pause configured_review explicit =
     (if \<not> ac_enabled config then None
      else
        (case stored of
           None \<Rightarrow> None
         | Some s \<Rightarrow>
             (let (level, clamps) = resolve_runtime_level s config policy_enabled external;
                  bundle = flag_bundle_for level in
              Some \<lparr>lo_level = level,
                    lo_bundle = resolved_flag_bundle bundle configured_pause explicit,
                    lo_clamps = clamps,
                    lo_overrides = manual_override_notes bundle (Some configured_pause)
                      (Some configured_review) explicit\<rparr>)))"

section \<open>Replay\<close>

record run_row =
  rr_run_id :: string
  rr_completed :: int
  rr_failed :: int
  rr_common_failure :: string
  rr_merged :: "int option"
  rr_clean_merged :: "int option"

text \<open>\<open>prfs\<close> is \<open>INFRA_FAILURE_PREFIXES\<close>, derived in the code from the check table of
  \<open>kstrl/verify/failure_signatures.py\<close>.\<close>

definition infra_aborted :: "string list \<Rightarrow> run_row \<Rightarrow> bool" where
  "infra_aborted prfs run = list_ex (startswith (rr_common_failure run)) prfs"

definition row_decisive :: "string list \<Rightarrow> run_row \<Rightarrow> bool" where
  "row_decisive prfs run =
     (if infra_aborted prfs run then False else rr_completed run + rr_failed run > 0)"

definition replay_merges :: "run_row \<Rightarrow> autonomy_state \<Rightarrow> autonomy_state" where
  "replay_merges run s =
     (case rr_merged run of
        None \<Rightarrow> s
      | Some merged \<Rightarrow>
          (let clean = (case rr_clean_merged run of None \<Rightarrow> 0 | Some n \<Rightarrow> n);
               edited = max (merged - clean) 0 in
           (record_merged_component False ^^ nat clean) ((record_merged_component True ^^ nat edited) s)))"

definition replay_run :: "string \<Rightarrow> string list \<Rightarrow> autonomy_state \<Rightarrow> run_row \<Rightarrow> autonomy_state" where
  "replay_run now prfs s run =
     (if \<not> row_decisive prfs run then s
      else
        (let s1 = replay_merges run (record_decisive_run 1 s);
             s2 = (if rr_failed run \<noteq> 0 \<and> \<not> infra_aborted prfs run
                   then fst (demote now s1 CALIBRATION_REGRESSION ''replay'' ''system'' []) else s1) in
         if as_level s2 \<noteq> L4_DEPLOY \<and> promotion_blockers s2 None = []
         then (case promote now s2 ''replay'' ''simulated'' [] False [] of
                 Inl _ \<Rightarrow> s2
               | Inr (s3, _) \<Rightarrow> s3)
         else s2))"

definition replay :: "string \<Rightarrow> string list \<Rightarrow> run_row list \<Rightarrow> autonomy_state" where
  "replay now prfs runs = foldl (replay_run now prfs) (fresh_state now None) runs"

end
