(* ===== verification/Autonomy_Safety.thy ===== *)
theory Autonomy_Safety
  imports Autonomy_Run
begin

text \<open>
  The ladder as a machine of operations on its state, and the facts its properties rest on: what a
  promotion needs and does, the history as a chain of single steps, the cool-down, and how one run
  moves the state, the file and the audit streams together.
\<close>

section \<open>Operations\<close>

datatype ladder_op =
    Promote_Op string string "string list" bool json_object
  | Demote_Op demotion_trigger string string json_object
  | Decisive_Op nat
  | Merged_Op bool
  | Violation_Op nat

text \<open>A refused promotion raises and leaves the state as it was.\<close>

fun apply_ladder :: "string \<Rightarrow> autonomy_state \<Rightarrow> ladder_op \<Rightarrow> autonomy_state" where
  "apply_ladder now s (Promote_Op actor ack signals force evidence) =
     (case promote now s actor ack signals force evidence of Inl _ \<Rightarrow> s | Inr (s', _) \<Rightarrow> s')"
| "apply_ladder now s (Demote_Op trigger reason actor evidence) = fst (demote now s trigger reason actor evidence)"
| "apply_ladder now s (Decisive_Op n) = record_decisive_run (int n) s"
| "apply_ladder now s (Merged_Op edited) = record_merged_component edited s"
| "apply_ladder now s (Violation_Op n) = record_policy_violation (int n) s"

definition run_ladder :: "string \<Rightarrow> autonomy_state \<Rightarrow> ladder_op list \<Rightarrow> autonomy_state" where
  "run_ladder now s ops = foldl (apply_ladder now) s ops"

lemma run_ladder_Nil [simp]: "run_ladder now s [] = s"
  by (simp add: run_ladder_def)

lemma run_ladder_Cons [simp]: "run_ladder now s (op # ops) = run_ladder now (apply_ladder now s op) ops"
  by (simp add: run_ladder_def)

section \<open>Levels\<close>

lemma level_up_num: "l \<noteq> L4_DEPLOY \<Longrightarrow> level_num (level_up l) = level_num l + 1"
  by (cases l) simp_all

lemma level_down_num: "l \<noteq> L1_SUPERVISED \<Longrightarrow> level_num (level_down l) = level_num l - 1"
  by (cases l) simp_all

lemma level_num_range: "1 \<le> level_num l" "level_num l \<le> 4"
  by (cases l; simp)+

section \<open>Promotion\<close>

text \<open>The criteria of the level above, as the roadmap table has them.\<close>

definition criteria_met :: "autonomy_state \<Rightarrow> bool" where
  "criteria_met s =
     (as_cooldown s \<le> 0 \<and> 8 \<le> as_decisive s \<and> as_violations s = 0 \<and>
      (as_level s = L1_SUPERVISED \<longrightarrow> 5 \<le> as_merged s) \<and>
      (as_level s = L2_GATED_MERGE \<longrightarrow> 15 \<le> as_clean s) \<and>
      (as_level s = L3_ENVELOPED_AUTO \<longrightarrow> 30 \<le> as_merged s))"

lemma promotion_blockers_Nil:
  "as_level s \<noteq> L4_DEPLOY \<Longrightarrow>
   promotion_blockers s (Some (level_up (as_level s))) = [] \<longleftrightarrow> criteria_met s"
  by (cases "as_level s")
    (auto simp: promotion_blockers_def criteria_met_def target_blockers_def thresholds level_order Let_def)

lemma promotion_blockers_default: "promotion_blockers s None = promotion_blockers s (Some (level_up (as_level s)))"
  by (simp add: promotion_blockers_def Let_def)

lemma promote_returns:
  "returns (promote now s actor ack signals force evidence) \<longleftrightarrow>
     \<not> blank actor \<and> \<not> blank ack \<and> as_level s \<noteq> L4_DEPLOY \<and>
     (force \<or> (criteria_met s \<and> signals = []))"
  by (cases "as_level s = L4_DEPLOY") (auto simp: promote_def Let_def promotion_blockers_Nil [symmetric])

lemma promote_Inr:
  assumes "promote now s actor ack signals force evidence = Inr (s', rec)"
  defines "bs \<equiv> promotion_blockers s (Some (level_up (as_level s))) @ map Signal signals"
  shows "\<not> blank actor" "\<not> blank ack" "as_level s \<noteq> L4_DEPLOY" "bs = [] \<or> force"
    "rec = \<lparr>tr_at = now, tr_from_level = level_num (as_level s), tr_to_level = level_num (as_level s) + 1,
       tr_direction = ''promote'', tr_actor = actor, tr_reason = ack, tr_trigger = [],
       tr_evidence = promotion_evidence s evidence bs\<rparr>"
    "s' = s\<lparr>as_level := level_up (as_level s), as_since := now, as_last_promoted_by := actor,
       as_merged := 0, as_clean := 0, as_violations := 0, as_decisive := 0,
       as_history := as_history s @ [rec]\<rparr>"
proof -
  show c: "\<not> blank actor" "\<not> blank ack" "as_level s \<noteq> L4_DEPLOY" "bs = [] \<or> force"
    using assms(1) by (auto simp: promote_def Let_def bs_def split: if_splits)
  have "promote now s actor ack signals force evidence =
      (let rec = \<lparr>tr_at = now, tr_from_level = level_num (as_level s), tr_to_level = level_num (level_up (as_level s)),
         tr_direction = ''promote'', tr_actor = actor, tr_reason = ack, tr_trigger = [],
         tr_evidence = promotion_evidence s evidence bs\<rparr> in
       Inr ((reset_level_counters (s\<lparr>as_level := level_up (as_level s), as_since := now, as_last_promoted_by := actor\<rparr>))
         \<lparr>as_history := as_history s @ [rec]\<rparr>, rec))"
    unfolding promote_def Let_def bs_def [symmetric] using c by (simp only: if_False simp_thms) auto
  with assms(1) c(3) show "rec = \<lparr>tr_at = now, tr_from_level = level_num (as_level s), tr_to_level = level_num (as_level s) + 1,
       tr_direction = ''promote'', tr_actor = actor, tr_reason = ack, tr_trigger = [],
       tr_evidence = promotion_evidence s evidence bs\<rparr>"
    "s' = s\<lparr>as_level := level_up (as_level s), as_since := now, as_last_promoted_by := actor,
       as_merged := 0, as_clean := 0, as_violations := 0, as_decisive := 0,
       as_history := as_history s @ [rec]\<rparr>"
    by (auto simp: Let_def reset_level_counters_def level_up_num)
qed

lemma promote_blockers_met:
  "as_level s \<noteq> L4_DEPLOY \<Longrightarrow>
   promotion_blockers s (Some (level_up (as_level s))) @ map Signal signals = [] \<longleftrightarrow>
   criteria_met s \<and> signals = []"
  using promotion_blockers_Nil by auto

section \<open>Demotion\<close>

lemma demote_floor: "as_level s = L1_SUPERVISED \<Longrightarrow> demote now s trigger reason actor evidence = (s, None)"
  by (simp add: demote_def)

lemma demote_step:
  assumes "as_level s \<noteq> L1_SUPERVISED"
  obtains rec where "demote now s trigger reason actor evidence =
    (s\<lparr>as_level := level_down (as_level s), as_since := now, as_merged := 0, as_clean := 0,
       as_violations := 0, as_decisive := 0, as_cooldown := 10, as_history := as_history s @ [rec]\<rparr>, Some rec)"
    "tr_from_level rec = level_num (as_level s)" "tr_to_level rec = level_num (as_level s) - 1"
    "tr_direction rec = ''demote''"
proof (rule that)
  let ?rec = "\<lparr>tr_at = now, tr_from_level = level_num (as_level s), tr_to_level = level_num (level_down (as_level s)),
    tr_direction = ''demote'', tr_actor = actor, tr_reason = reason, tr_trigger = trigger_label trigger,
    tr_evidence = evidence\<rparr>"
  show "demote now s trigger reason actor evidence =
    (s\<lparr>as_level := level_down (as_level s), as_since := now, as_merged := 0, as_clean := 0,
       as_violations := 0, as_decisive := 0, as_cooldown := 10, as_history := as_history s @ [?rec]\<rparr>, Some ?rec)"
    using assms by (simp add: demote_def Let_def reset_level_counters_def thresholds)
qed (simp_all add: level_down_num [OF assms])

lemma demote_level: "as_level (fst (demote now s trigger reason actor evidence)) = level_down (as_level s)"
  by (simp add: demote_def Let_def reset_level_counters_def)

lemma demote_degraded [simp]: "as_degraded (fst (demote now s trigger reason actor evidence)) = as_degraded s"
  by (simp add: demote_def Let_def reset_level_counters_def)

section \<open>The history is a chain of single steps\<close>

definition forced :: "transition_record \<Rightarrow> bool" where
  "forced t = (map_of (tr_evidence t) ''forced_over_blockers'' \<noteq> None)"

definition evidence_at_least :: "transition_record \<Rightarrow> string \<Rightarrow> int \<Rightarrow> bool" where
  "evidence_at_least t k n = (\<exists>m. map_of (tr_evidence t) k = Some (JInt m) \<and> n \<le> m)"

text \<open>A step goes down by one, or up by one with a named actor and an acknowledgement and, unless the
  record says it was forced, with the counters of the criteria.\<close>

definition history_step :: "transition_record \<Rightarrow> bool" where
  "history_step t =
     (if tr_direction t = ''demote'' then tr_to_level t = tr_from_level t - 1
      else tr_direction t = ''promote'' \<and> tr_to_level t = tr_from_level t + 1 \<and>
        \<not> blank (tr_actor t) \<and> \<not> blank (tr_reason t) \<and>
        (\<not> forced t \<longrightarrow>
           evidence_at_least t ''decisive_runs_at_level'' 8 \<and>
           (tr_to_level t = 2 \<longrightarrow> evidence_at_least t ''components_merged_at_level'' 5) \<and>
           (tr_to_level t = 3 \<longrightarrow> evidence_at_least t ''clean_merges_at_level'' 15) \<and>
           (tr_to_level t = 4 \<longrightarrow> evidence_at_least t ''components_merged_at_level'' 30)))"

fun history_chain :: "int \<Rightarrow> transition_record list \<Rightarrow> int \<Rightarrow> bool" where
  "history_chain a [] b = (a = b)"
| "history_chain a (t # ts) b = (tr_from_level t = a \<and> history_step t \<and> history_chain (tr_to_level t) ts b)"

lemma history_chain_snoc:
  "history_chain a (ts @ [t]) b \<longleftrightarrow>
   history_chain a ts (tr_from_level t) \<and> history_step t \<and> tr_to_level t = b"
  by (induction ts arbitrary: a) auto

lemma map_of_dict_set: "map_of (dict_set d k v) k' = (if k' = k then Some v else map_of d k')"
  by (simp add: dict_set_def update_conv')

lemma promotion_evidence_counters:
  "map_of (promotion_evidence s e bs) ''components_merged_at_level'' = Some (JInt (as_merged s))"
  "map_of (promotion_evidence s e bs) ''clean_merges_at_level'' = Some (JInt (as_clean s))"
  "map_of (promotion_evidence s e bs) ''decisive_runs_at_level'' = Some (JInt (as_decisive s))"
  "bs \<noteq> [] \<Longrightarrow> map_of (promotion_evidence s e bs) ''forced_over_blockers'' \<noteq> None"
  by (simp_all add: promotion_evidence_def dict_merge_def map_of_dict_set)

lemma promote_history_step:
  assumes "promote now s actor ack signals force evidence = Inr (s', rec)"
  shows "history_step rec"
proof -
  note p = promote_Inr [OF assms]
  have "forced rec \<or> criteria_met s"
  proof (cases "criteria_met s")
    case False
    with promote_blockers_met [OF p(3), of signals]
    have "promotion_blockers s (Some (level_up (as_level s))) @ map Signal signals \<noteq> []" by blast
    then show ?thesis by (simp add: forced_def p(5) promotion_evidence_counters(4))
  qed simp
  then show ?thesis
    using p(1,2,3)
    by (cases "as_level s")
      (auto simp: history_step_def evidence_at_least_def p(5) promotion_evidence_counters criteria_met_def)
qed

lemma apply_ladder_chain:
  assumes "history_chain 1 (as_history s) (level_num (as_level s))"
  shows "history_chain 1 (as_history (apply_ladder now s op)) (level_num (as_level (apply_ladder now s op)))"
proof (cases op)
  case (Promote_Op actor ack signals force evidence)
  show ?thesis
  proof (cases "promote now s actor ack signals force evidence")
    case (Inl e)
    with assms show ?thesis by (simp add: Promote_Op)
  next
    case (Inr r)
    obtain s' rec where r: "r = (s', rec)" by (cases r)
    from Inr r have p: "promote now s actor ack signals force evidence = Inr (s', rec)" by simp
    then have h: "history_step rec" by (rule promote_history_step)
    note q = promote_Inr [OF p]
    have "tr_from_level rec = level_num (as_level s)" "tr_to_level rec = level_num (as_level s) + 1"
      by (subst q(5), simp)+
    with h p assms q(3) show ?thesis
      by (simp add: Promote_Op q(6) history_chain_snoc level_up_num)
  qed
next
  case (Demote_Op trigger reason actor evidence)
  show ?thesis
  proof (cases "as_level s = L1_SUPERVISED")
    case True
    with assms show ?thesis by (simp add: Demote_Op demote_floor)
  next
    case False
    then obtain rec where "demote now s trigger reason actor evidence =
      (s\<lparr>as_level := level_down (as_level s), as_since := now, as_merged := 0, as_clean := 0,
       as_violations := 0, as_decisive := 0, as_cooldown := 10, as_history := as_history s @ [rec]\<rparr>, Some rec)"
      "tr_from_level rec = level_num (as_level s)" "tr_to_level rec = level_num (as_level s) - 1"
      "tr_direction rec = ''demote''" by (rule demote_step)
    with assms False show ?thesis
      by (simp add: Demote_Op history_chain_snoc history_step_def level_down_num)
  qed
qed (use assms in \<open>simp_all add: record_decisive_run_def record_merged_component_def record_policy_violation_def\<close>)

lemma run_ladder_chain:
  "history_chain 1 (as_history s) (level_num (as_level s)) \<Longrightarrow>
   history_chain 1 (as_history (run_ladder now s ops)) (level_num (as_level (run_ladder now s ops)))"
  by (induction ops arbitrary: s) (simp_all add: apply_ladder_chain)

section \<open>The cool-down\<close>

fun decisive_total :: "ladder_op list \<Rightarrow> nat" where
  "decisive_total [] = 0"
| "decisive_total (Decisive_Op n # ops) = n + decisive_total ops"
| "decisive_total (_ # ops) = decisive_total ops"

fun is_forced_op :: "ladder_op \<Rightarrow> bool" where
  "is_forced_op (Promote_Op _ _ _ force _) = force"
| "is_forced_op _ = False"

lemma promote_cooldown_refused:
  "0 < as_cooldown s \<Longrightarrow> \<not> force \<Longrightarrow> \<not> returns (promote now s actor ack signals force evidence)"
  by (simp add: promote_returns criteria_met_def)

lemma cooldown_locks:
  assumes "list_all (\<lambda>op. \<not> is_forced_op op) ops" and "as_level s \<le> l"
    and "int (decisive_total ops) < as_cooldown s" and "decisive_total ops < 10"
  shows "as_level (run_ladder now s ops) \<le> l"
  using assms
proof (induction ops arbitrary: s)
  case Nil
  then show ?case by simp
next
  case (Cons op ops)
  show ?case
  proof (cases op)
    case (Promote_Op actor ack signals force evidence)
    with Cons.prems have "\<not> returns (promote now s actor ack signals force evidence)"
      by (intro promote_cooldown_refused) simp_all
    then have "apply_ladder now s op = s"
      by (auto simp: Promote_Op returns_def split: sum.splits)
    with Cons Promote_Op show ?thesis by simp
  next
    case (Demote_Op trigger reason actor evidence)
    let ?s = "apply_ladder now s op"
    have "as_level ?s \<le> l \<and> int (decisive_total ops) < as_cooldown ?s"
    proof (cases "as_level s = L1_SUPERVISED")
      case True
      with Cons.prems Demote_Op show ?thesis by (simp add: demote_floor)
    next
      case False
      then obtain rec where d: "fst (demote now s trigger reason actor evidence) =
          s\<lparr>as_level := level_down (as_level s), as_since := now,
          as_merged := 0, as_clean := 0, as_violations := 0, as_decisive := 0, as_cooldown := 10,
          as_history := as_history s @ [rec]\<rparr>"
        by (metis demote_step fst_conv)
      have "level_down (as_level s) \<le> l"
        using Cons.prems(2) False by (cases "as_level s") (simp_all add: level_order)
      with Cons.prems Demote_Op d show ?thesis by simp
    qed
    with Cons.prems Cons.IH [of ?s] Demote_Op show ?thesis by simp
  next
    case (Decisive_Op n)
    with Cons.prems Cons.IH [of "record_decisive_run (int n) s"] show ?thesis
      by (auto simp: record_decisive_run_def)
  next
    case (Merged_Op e)
    with Cons.prems Cons.IH [of "record_merged_component e s"] show ?thesis
      by (simp add: record_merged_component_def)
  next
    case (Violation_Op n)
    with Cons.prems Cons.IH [of "record_policy_violation (int n) s"] show ?thesis
      by (simp add: record_policy_violation_def)
  qed
qed

section \<open>The state file\<close>

lemma parse_transition_dict: "parse_history_entry (JObj (transition_dict t)) = Inr t"
proof -
  have e: "history_evidence (transition_dict t) = Inr (tr_evidence t)"
    by (auto simp: history_evidence_def transition_dict_def jget_Cons Let_def)
  have t: "history_text_errors (transition_dict t) = []"
    by (simp add: history_text_errors_def history_text_keys_def transition_dict_def jget_Cons)
  have n: "require_int (transition_dict t) ''from_level'' 1 = Inr (tr_from_level t)"
    "require_int (transition_dict t) ''to_level'' 1 = Inr (tr_to_level t)"
    by (simp_all add: require_int_def transition_dict_def)
  show ?thesis
    unfolding parse_history_entry_def json.case and_then_simps e t list.case n
    by (cases t) (simp add: transition_dict_def jget_Cons)
qed

lemma parse_transition_dicts: "parse_entries (map (\<lambda>t. JObj (transition_dict t)) ts) = Inr ts"
  by (induction ts) (simp_all add: parse_transition_dict)

lemma decode_payload:
  assumes "as_degraded s = None" and "as_since s \<noteq> []"
  shows "decode_state now (state_payload s) = Inr s"
proof -
  have n: "require_int (state_payload s) ''level'' 1 = Inr (level_num (as_level s))"
    "require_int (state_payload s) ''components_merged_at_level'' 0 = Inr (as_merged s)"
    "require_int (state_payload s) ''clean_merges_at_level'' 0 = Inr (as_clean s)"
    "require_int (state_payload s) ''policy_violations_at_level'' 0 = Inr (as_violations s)"
    "require_int (state_payload s) ''decisive_runs_at_level'' 0 = Inr (as_decisive s)"
    "require_int (state_payload s) ''cooldown_runs_remaining'' 0 = Inr (as_cooldown s)"
    by (simp_all add: require_int_def state_payload_def)
  have t: "require_text (state_payload s) ''since'' Since_Not_String = Inr (as_since s)"
    "require_text (state_payload s) ''last_promoted_by'' Promoted_By_Not_String = Inr (as_last_promoted_by s)"
    by (simp_all add: require_text_def state_payload_def jget_Cons)
  have h: "parse_history (jget (state_payload s) ''history'' (JList [])) = Inr (as_history s)"
    by (simp add: parse_history_def state_payload_def jget_Cons parse_transition_dicts)
  show ?thesis
    unfolding decode_state_def n t h level_of_num option.case and_then_simps
    using assms by (cases s) simp
qed

lemma load_saved_state:
  "as_degraded s = None \<Longrightarrow> as_since s \<noteq> [] \<Longrightarrow>
   load_state now legacy (Document (JObj (state_payload s))) = s"
  by (simp add: load_state_def decode_payload)

lemma decode_state_None: "decode_state now data = Inr s \<Longrightarrow> as_degraded s = None \<and> (now \<noteq> [] \<longrightarrow> as_since s \<noteq> [])"
  by (auto simp: decode_state_def and_then_Inr split: if_splits)

lemma load_state_cases:
  obtains (fresh) why where "load_state now legacy file = fresh_state now why"
  | (decoded) data where "file = Document (JObj data)" "decode_state now data = Inr (load_state now legacy file)"
proof (cases "\<exists>data s. file = Document (JObj data) \<and> decode_state now data = Inr s")
  case True
  with that(2) show ?thesis by (auto simp: load_state_def)
next
  case False
  then have "\<exists>why. load_state now legacy file = fresh_state now why"
    by (auto simp: load_state_def split: ladder_file.splits json.splits sum.splits)
  with that(1) show ?thesis by blast
qed

lemma load_degraded_fresh:
  "as_degraded (load_state now legacy file) \<noteq> None \<Longrightarrow>
   load_state now legacy file = fresh_state now (as_degraded (load_state now legacy file))"
  by (cases rule: load_state_cases [of now legacy "file"])
    (auto simp: fresh_state_def dest: decode_state_None)

lemma load_since: "now \<noteq> [] \<Longrightarrow> as_since (load_state now legacy file) \<noteq> []"
  by (cases rule: load_state_cases [of now legacy "file"])
    (auto simp: fresh_state_def dest: decode_state_None)

section \<open>One run\<close>

text \<open>What the evidence of a run leaves alone.\<close>

definition same_ladder :: "autonomy_state \<Rightarrow> autonomy_state \<Rightarrow> bool" where
  "same_ladder s s' =
     (as_level s' = as_level s \<and> as_history s' = as_history s \<and> as_degraded s' = as_degraded s \<and>
      as_since s' = as_since s)"

lemma record_merges_same: "same_ladder s (record_merges cs merged s)"
proof -
  have "same_ladder s (foldl (\<lambda>s v. record_merged_component (snd v \<noteq> Clean) s) s vs)" for vs
    by (induction vs rule: rev_induct) (simp_all add: same_ladder_def record_merged_component_def)
  then show ?thesis by (simp add: record_merges_def)
qed

lemma run_evidence_same: "same_ladder s (run_evidence cs r s)"
  using record_merges_same [of s cs "ro_merged r"]
    record_merges_same [of "record_decisive_run 1 s" cs "ro_merged r"]
  by (simp add: run_evidence_def same_ladder_def Let_def record_decisive_run_def record_policy_violation_def)

text \<open>A successful write puts the state in the file, or refuses and changes nothing.\<close>

lemma write_ladder_Inr:
  assumes "write_ladder env s w = Inr (w', refused)"
  shows "w' = (if as_degraded s = None then w\<lparr>lw_file := Document (JObj (state_payload s))\<rparr> else w)"
    "refused = as_degraded s" "as_degraded s = None \<Longrightarrow> \<not> re_save_fails env"
  using assms by (auto simp: write_ladder_def save_state_def Let_def split: if_splits option.splits)

lemma write_ladder_Inl: "write_ladder env s w = Inl e \<Longrightarrow> as_degraded s = None \<and> re_save_fails env"
  by (auto simp: write_ladder_def Let_def split: if_splits prod.splits)

text \<open>The demotion of a state that is not degraded, or is at the floor: the file holds the new state and the
  event stream its new transitions, or nothing moved at all.\<close>

definition run_consistent ::
    "run_env \<Rightarrow> autonomy_state \<Rightarrow> ladder_world \<Rightarrow> ladder_world \<Rightarrow> autonomy_state \<Rightarrow> bool \<Rightarrow> bool" where
  "run_consistent env s w w' s' raised =
     (as_degraded s' = as_degraded s \<and>
      (raised \<longrightarrow> w' = w \<and> re_save_fails env \<and> as_degraded s = None) \<and>
      (\<not> raised \<longrightarrow>
         lw_file w' = (if as_degraded s = None then Document (JObj (state_payload s')) else lw_file w) \<and>
         lw_events w' = lw_events w @ drop (length (as_history s)) (as_history s') \<and>
         (as_degraded s = None \<longrightarrow> \<not> re_save_fails env)))"

lemma apply_demotion_consistent:
  assumes a: "apply_demotion env True s trigger reason evidence w = (w', s', raised)"
    and d: "as_degraded s \<noteq> None \<longrightarrow> as_level s = L1_SUPERVISED"
  shows "run_consistent env s w w' s' raised \<and> s' = fst (demote (re_now env) s trigger reason ''system'' evidence)"
proof (cases "as_level s = L1_SUPERVISED")
  case True
  show ?thesis
  proof (cases "write_ladder env s w")
    case (Inl e)
    with a True write_ladder_Inl [OF Inl] show ?thesis
      by (simp add: apply_demotion_def demote_floor run_consistent_def)
  next
    case (Inr r)
    obtain w1 refused where r: "r = (w1, refused)" by (cases r)
    from a True Inr r show ?thesis
      using write_ladder_Inr [OF Inr [unfolded r]]
      by (auto simp: apply_demotion_def demote_floor run_consistent_def)
  qed
next
  case False
  with d have n: "as_degraded s = None" by blast
  from False obtain rec where r: "demote (re_now env) s trigger reason ''system'' evidence =
    (s\<lparr>as_level := level_down (as_level s), as_since := re_now env, as_merged := 0, as_clean := 0,
       as_violations := 0, as_decisive := 0, as_cooldown := 10, as_history := as_history s @ [rec]\<rparr>, Some rec)"
    by (rule demote_step)
  let ?s = "s\<lparr>as_level := level_down (as_level s), as_since := re_now env, as_merged := 0, as_clean := 0,
       as_violations := 0, as_decisive := 0, as_cooldown := 10, as_history := as_history s @ [rec]\<rparr>"
  have w: "write_ladder env ?s w =
      (if re_save_fails env then Inl () else Inr (w\<lparr>lw_file := Document (JObj (state_payload ?s))\<rparr>, None))"
    using n by (simp add: write_ladder_def save_state_def)
  from a show ?thesis
    unfolding apply_demotion_def r Let_def prod.case option.case commit_transition_def w
    using n by (auto simp: run_consistent_def split: if_splits)
qed

lemma demote_once_consistent:
  assumes a: "demote_once env s violations rejected w = (w', s', raised)"
    and d: "as_degraded s \<noteq> None \<longrightarrow> as_level s = L1_SUPERVISED"
    and v: "would_demote violations rejected"
  shows "run_consistent env s w w' s' raised \<and> as_level s' = level_down (as_level s) \<and>
    (as_level s \<noteq> L1_SUPERVISED \<longrightarrow> 0 < as_cooldown s')"
proof -
  have "\<exists>t reason ev. run_consistent env s w w' s' raised \<and>
      s' = fst (demote (re_now env) s t reason ''system'' ev)"
    using a v apply_demotion_consistent [OF _ d]
    by (auto simp: demote_once_def would_demote_def split: if_splits) blast+
  then show ?thesis
    by (auto simp: demote_level) (auto simp: demote_def Let_def reset_level_counters_def thresholds)
qed

lemma run_consistent_trans:
  assumes "run_consistent env s w w1 s1 False" and "run_consistent env s1 w2 w3 s3 raised"
    and "lw_file w2 = lw_file w1" "lw_events w2 = lw_events w1"
    and "\<exists>hs. as_history s1 = as_history s @ hs" and "\<exists>hs. as_history s3 = as_history s1 @ hs"
  shows "run_consistent env s w w3 s3 raised"
  using assms by (auto simp: run_consistent_def)

lemma demote_history: "\<exists>hs. as_history (fst (demote now s trigger reason actor evidence)) = as_history s @ hs"
  by (simp add: demote_def Let_def reset_level_counters_def)

lemma demote_once_history:
  "demote_once env s violations rejected w = (w', s', raised) \<Longrightarrow> \<exists>hs. as_history s' = as_history s @ hs"
  using demote_history
  by (auto simp: demote_once_def apply_demotion_def Let_def split: if_splits prod.splits option.splits sum.splits)
    (metis fst_conv)+

text \<open>What follows the demotion or the save: the health items, and perhaps a demotion of its own.\<close>

lemma health_cases:
  assumes "record_health_breaches env config breaches s w = (w', s', raised)"
  obtains (kept) "s' = s" "\<not> raised" "lw_file w' = lw_file w" "lw_events w' = lw_events w"
  | (demoted) w1 reason ev where "as_cooldown s \<le> 0" "lw_file w1 = lw_file w" "lw_events w1 = lw_events w"
      "apply_demotion env True s HEALTH_BREACH reason ev w1 = (w', s', raised)"
proof -
  let ?w = "open_health_items env breaches w"
  have o: "lw_file ?w = lw_file w" "lw_events ?w = lw_events w" by (simp_all add: open_health_items_def)
  show ?thesis
  proof (cases "breaches = [] \<or> \<not> ac_demote_on_health config \<or> 0 < as_cooldown s")
    case True
    with assms o have "s' = s" "\<not> raised" "lw_file w' = lw_file w" "lw_events w' = lw_events w"
      by (auto simp: record_health_breaches_def Let_def split: if_splits)
    then show ?thesis by (rule kept)
  next
    case False
    with assms have "as_cooldown s \<le> 0"
      "apply_demotion env True s HEALTH_BREACH ''health breach''
        [(''breaches'', names_json (map fst breaches))] ?w = (w', s', raised)"
      by (auto simp: record_health_breaches_def Let_def)
    with o show ?thesis using demoted by blast
  qed
qed

lemma health_consistent:
  assumes h: "record_health_breaches env config breaches s1 w1 = (w', s', raised)"
    and c: "run_consistent env s w w1 s1 False" and hs: "\<exists>hs. as_history s1 = as_history s @ hs"
    and d: "as_degraded s1 \<noteq> None \<longrightarrow> as_level s1 = L1_SUPERVISED"
  shows "run_consistent env s w w' s' raised \<and>
    (as_level s' = as_level s1 \<or> as_level s' = level_down (as_level s1) \<and> as_cooldown s1 \<le> 0)"
  using h
proof (cases rule: health_cases)
  case kept
  with c show ?thesis by (auto simp: run_consistent_def)
next
  case (demoted w2 reason ev)
  from apply_demotion_consistent [OF demoted(4) d]
  have a: "run_consistent env s1 w2 w' s' raised" "s' = fst (demote (re_now env) s1 HEALTH_BREACH reason ''system'' ev)"
    by auto
  from run_consistent_trans [OF c a(1) demoted(2,3) hs] demote_history a(2)
  have "run_consistent env s w w' s' raised" by blast
  with demoted(1) a(2) show ?thesis by (simp add: demote_level)
qed

text \<open>The whole of \<open>_record_autonomy_outcome\<close>.\<close>

lemma run_outcome_spec:
  assumes r: "record_autonomy_outcome env cs r config run_level breaches w = (w', s', raised)"
  defines "s0 \<equiv> run_evidence cs r (load_state (re_now env) (re_legacy env) (lw_file w))"
  defines "must \<equiv> would_demote (policy_violations cs) (human_rejections cs (ro_failed r) run_level)"
  shows "run_consistent env s0 w w' s' raised"
    and "as_level s' = (if must then level_down (as_level s0) else as_level s') "
    and "as_level s' = as_level s0 \<or> as_level s' = level_down (as_level s0)"
proof -
  let ?load = "load_state (re_now env) (re_legacy env) (lw_file w)"
  have same: "same_ladder ?load s0" by (simp add: s0_def run_evidence_same)
  have d: "as_degraded s0 \<noteq> None \<longrightarrow> as_level s0 = L1_SUPERVISED"
    using same load_degraded_fresh [of "re_now env" "re_legacy env" "lw_file w"]
    by (auto simp: same_ladder_def fresh_state_def)
  let ?v = "policy_violations cs" and ?h = "human_rejections cs (ro_failed r) run_level"
  obtain w1 s1 raised1 where o: "demote_once env s0 (sort ?v) ?h w = (w1, s1, raised1)"
    by (cases "demote_once env s0 (sort ?v) ?h w")
  have sort_v: "sort ?v = [] \<longleftrightarrow> ?v = []" by (metis set_empty set_sort)
  have "run_consistent env s0 w w' s' raised \<and>
      (as_level s' = as_level s0 \<and> \<not> must \<or> as_level s' = level_down (as_level s0))"
  proof (cases must)
    case True
    then have m: "would_demote (sort ?v) ?h" "would_demote ?v ?h"
      by (auto simp: must_def would_demote_def sort_v)
    from demote_once_consistent [OF o d m(1)]
    have c: "run_consistent env s0 w w1 s1 raised1" "as_level s1 = level_down (as_level s0)"
      "as_level s0 \<noteq> L1_SUPERVISED \<longrightarrow> 0 < as_cooldown s1" by auto
    show ?thesis
    proof (cases raised1)
      case True
      with r o c show ?thesis by (simp add: record_autonomy_outcome_def s0_def [symmetric] Let_def)
    next
      case False
      with r o m have h: "record_health_breaches env config breaches s1 w1 = (w', s', raised)"
        by (simp add: record_autonomy_outcome_def s0_def [symmetric] Let_def)
      have "as_degraded s1 \<noteq> None \<longrightarrow> as_level s1 = L1_SUPERVISED"
        using c(1,2) d by (auto simp: run_consistent_def)
      from health_consistent [OF h _ demote_once_history [OF o] this, of w] c(1) False
      have hc: "run_consistent env s0 w w' s' raised"
        "as_level s' = as_level s1 \<or> as_level s' = level_down (as_level s1) \<and> as_cooldown s1 \<le> 0" by auto
      show ?thesis
      proof (cases "as_level s0 = L1_SUPERVISED")
        case True
        with hc c(2) show ?thesis by auto
      next
        case False
        with hc c(2,3) show ?thesis by auto
      qed
    qed
  next
    case False
    then have m: "?v = []" "?h = []" by (auto simp: must_def would_demote_def)
    with o have s1: "w1 = w" "s1 = s0" "\<not> raised1" by (auto simp: demote_once_def)
    show ?thesis
    proof (cases "write_ladder env s0 w")
      case (Inl e)
      with r o m s1 have "w' = w" "s' = s0" "raised"
        by (auto simp: record_autonomy_outcome_def s0_def [symmetric] Let_def would_demote_def)
      with write_ladder_Inl [OF Inl] False show ?thesis by (simp add: run_consistent_def)
    next
      case (Inr p)
      obtain w2 refused where p: "p = (w2, refused)" by (cases p)
      with Inr r o m s1 have h: "record_health_breaches env config breaches s0 w2 = (w', s', raised)"
        by (simp add: record_autonomy_outcome_def s0_def [symmetric] Let_def would_demote_def)
      have c: "run_consistent env s0 w w2 s0 False"
        using write_ladder_Inr [OF Inr [unfolded p]] by (auto simp: run_consistent_def)
      have "\<exists>hs. as_history s0 = as_history s0 @ hs" by simp
      from health_consistent [OF h c this d] False show ?thesis by auto
    qed
  qed
  then show "run_consistent env s0 w w' s' raised"
    "as_level s' = (if must then level_down (as_level s0) else as_level s')"
    "as_level s' = as_level s0 \<or> as_level s' = level_down (as_level s0)"
    by auto
qed

end
