(* ===== verification/Autonomy_Contract.thy ===== *)
theory Autonomy_Contract
  imports Autonomy_Safety
begin

text \<open>
  What the ladder promises: the properties of \<open>Autonomy\<close> and \<open>Autonomy_Run\<close>, each with concrete
  states at which its hypotheses hold.
\<close>

definition demo_state :: autonomy_state where
  "demo_state = (fresh_state ''t0'' None)\<lparr>as_level := L3_ENVELOPED_AUTO, as_decisive := 9, as_merged := 40,
     as_clean := 3\<rparr>"

definition demo_config :: autonomy_config where
  "demo_config = \<lparr>ac_enabled = True, ac_max_level = 4, ac_demote_on_calibration = False,
     ac_demote_on_health = True\<rparr>"

definition demo_env :: run_env where
  "demo_env = \<lparr>re_now = ''t1'', re_legacy = False, re_save_fails = False, re_journal_ok = True,
     re_inbox = Inbox_On\<rparr>"

definition demo_world :: ladder_world where
  "demo_world = \<lparr>lw_file = Document (JObj (state_payload demo_state)), lw_journal = [], lw_events = [],
     lw_notices = [], lw_health = []\<rparr>"

section \<open>Earning autonomy\<close>

text \<open>A promotion goes through exactly when it names an actor, carries an acknowledgement, is not at the
top level and either is forced or meets every criterion with no signal against it: no cool-down,
eight decisive runs, no policy violation, and the merges its level asks for. It then raises the
level by one, resets the counters and appends its record.\<close>

theorem promote_exact:
  "(returns (promote now s actor ack signals force evidence) \<longleftrightarrow>
      \<not> blank actor \<and> \<not> blank ack \<and> as_level s \<noteq> L4_DEPLOY \<and>
      (force \<or> criteria_met s \<and> signals = [])) \<and>
   (\<forall>s' rec. promote now s actor ack signals force evidence = Inr (s', rec) \<longrightarrow>
      level_num (as_level s') = level_num (as_level s) + 1 \<and>
      as_merged s' = 0 \<and> as_clean s' = 0 \<and> as_violations s' = 0 \<and> as_decisive s' = 0 \<and>
      as_cooldown s' = as_cooldown s \<and> as_history s' = as_history s @ [rec] \<and> tr_actor rec = actor)"
proof (intro conjI allI impI)
  show "returns (promote now s actor ack signals force evidence) \<longleftrightarrow>
      \<not> blank actor \<and> \<not> blank ack \<and> as_level s \<noteq> L4_DEPLOY \<and> (force \<or> criteria_met s \<and> signals = [])"
    by (rule promote_returns)
next
  fix s' rec assume p: "promote now s actor ack signals force evidence = Inr (s', rec)"
  note q = promote_Inr [OF p]
  show "level_num (as_level s') = level_num (as_level s) + 1" using q(3) by (simp add: q(6) level_up_num)
  show "as_merged s' = 0" "as_clean s' = 0" "as_violations s' = 0" "as_decisive s' = 0"
    "as_cooldown s' = as_cooldown s" "as_history s' = as_history s @ [rec]"
    by (simp_all add: q(6))
  show "tr_actor rec = actor" by (subst q(5)) simp
qed

theorem promote_exact_witness:
  "returns (promote ''t'' demo_state ''ann'' ''seen'' [] False [])"
  using promote_exact [of "''t''" demo_state "''ann''" "''seen''" "[]" False "[]"]
  by (simp add: demo_state_def fresh_state_def criteria_met_def blank_def is_space_def)

text \<open>Slow up: after a demotion from above the floor, no sequence of operations without a forced
promotion in which fewer than ten decisive runs are counted raises the level above the one the
demotion left, whatever it merges, violates or tries to promote.\<close>

theorem demotion_locks_level:
  assumes "as_level s \<noteq> L1_SUPERVISED" and "demote now s trigger reason actor evidence = (s', rec)"
    and "list_all (\<lambda>op. \<not> is_forced_op op) ops" and "decisive_total ops < 10"
  shows "as_level (run_ladder now' s' ops) \<le> as_level s' \<and> as_level s' = level_down (as_level s)"
proof -
  from assms(1) obtain r where "demote now s trigger reason actor evidence =
    (s\<lparr>as_level := level_down (as_level s), as_since := now, as_merged := 0, as_clean := 0,
       as_violations := 0, as_decisive := 0, as_cooldown := 10, as_history := as_history s @ [r]\<rparr>, Some r)"
    by (rule demote_step)
  with assms(2) have "as_cooldown s' = 10" "as_level s' = level_down (as_level s)" by auto
  with cooldown_locks [OF assms(3), of s' "as_level s'" now'] assms(4) show ?thesis by simp
qed

theorem demotion_locks_level_witness:
  "as_level (run_ladder ''t'' (fst (demote ''t'' demo_state MANUAL ''r'' ''ann'' []))
      [Decisive_Op 9, Merged_Op False, Promote_Op ''ann'' ''ack'' [] False []]) \<le> L2_GATED_MERGE"
  using demotion_locks_level [of demo_state "''t''" MANUAL "''r''" "''ann''" "[]"
      "fst (demote ''t'' demo_state MANUAL ''r'' ''ann'' [])" "snd (demote ''t'' demo_state MANUAL ''r'' ''ann'' [])"
      "[Decisive_Op 9, Merged_Op False, Promote_Op ''ann'' ''ack'' [] False []]" "''t''"]
  by (simp add: demote_level) (simp add: demo_state_def)

text \<open>C39: Whatever operations a fresh ladder goes through, its history is a chain of single steps that
starts at L1 and ends at the current level; each step up has a named actor and an
acknowledgement and, unless its record says it was forced, the counters the criteria ask for.\<close>

theorem ladder_history_sound:
  "history_chain 1 (as_history (run_ladder now (fresh_state now' why) ops))
     (level_num (as_level (run_ladder now (fresh_state now' why) ops)))"
  by (rule run_ladder_chain) (simp add: fresh_state_def)

section \<open>What a run may do\<close>

text \<open>The level a run operates at is the lowest of four: the stored level, the operator's maximum, L2
without the policy envelope and L2 while control state lies in the agent's reach; a clamp is
noted exactly when the level was lowered.\<close>

theorem runtime_level_is_lowest:
  assumes "autonomy_config_check config = Inr config"
  shows "level_num (fst (resolve_runtime_level s config policy_enabled external)) =
      min (min (level_num (as_level s)) (ac_max_level config))
        (min (if policy_enabled then 4 else 2) (if external then 4 else 2)) \<and>
    (snd (resolve_runtime_level s config policy_enabled external) = [] \<longleftrightarrow>
     fst (resolve_runtime_level s config policy_enabled external) = as_level s)"
proof -
  from assms obtain m where m: "level_of (ac_max_level config) = Some m"
    by (auto simp: autonomy_config_check_def split: if_splits)
  then have n: "ac_max_level config = level_num m" by (simp add: level_of_SomeD)
  show ?thesis
    by (cases "as_level s"; cases m; cases policy_enabled; cases external)
      (simp_all add: resolve_runtime_level_def level_of_def n envelope_ceiling_def level_order Let_def)
qed

theorem runtime_level_is_lowest_witness:
  "level_num (fst (resolve_runtime_level demo_state demo_config False True)) = 2"
  using runtime_level_is_lowest [of demo_config demo_state False True]
  by (simp add: demo_config_def demo_state_def autonomy_config_check_def level_of_def)

text \<open>C34: Auto-merge is permitted exactly when the stored level, the operator's maximum, the policy envelope and
the placement of control state all allow L3 and the operator did not set the merge gate
explicitly. A gate the operator set explicitly stands at every level, auto-merge and the pause
exclude each other, and nothing below L4 may deploy.\<close>

theorem auto_merge_needs_everything:
  assumes "autonomy_config_check config = Inr config"
    and "resolve_ladder (Some s) config policy_enabled external configured review explicit = Some ladder"
  shows "(fb_auto_merge_when_green (lo_bundle ladder) \<longleftrightarrow>
      L3_ENVELOPED_AUTO \<le> as_level s \<and> 3 \<le> ac_max_level config \<and> policy_enabled \<and> external \<and>
      \<not> (explicit \<and> configured)) \<and>
    (explicit \<and> configured \<longrightarrow> fb_pause_before_pr_merge (lo_bundle ladder)) \<and>
    (fb_pause_before_pr_merge (lo_bundle ladder) \<longleftrightarrow> \<not> fb_auto_merge_when_green (lo_bundle ladder)) \<and>
    (fb_deploy_permitted (lo_bundle ladder) \<longrightarrow> as_level s = L4_DEPLOY)"
proof -
  from assms(1) obtain m where m: "level_of (ac_max_level config) = Some m"
    by (auto simp: autonomy_config_check_def split: if_splits)
  then have n: "ac_max_level config = level_num m" by (simp add: level_of_SomeD)
  let ?l = "fst (resolve_runtime_level s config policy_enabled external)"
  from assms(2) have b: "lo_bundle ladder = resolved_flag_bundle (flag_bundle_for ?l) configured explicit"
    by (auto simp: resolve_ladder_def case_prod_unfold Let_def split: if_splits)
  show ?thesis
    unfolding b
    by (cases "as_level s"; cases m; cases policy_enabled; cases external)
      (simp_all add: resolve_runtime_level_def level_of_def n envelope_ceiling_def level_order Let_def
        resolved_flag_bundle_def pause_gate_for_def)
qed

theorem auto_merge_needs_everything_witness:
  "\<exists>ladder. resolve_ladder (Some demo_state) demo_config True True False ''hard'' False = Some ladder \<and>
     fb_auto_merge_when_green (lo_bundle ladder)"
proof -
  have c: "autonomy_config_check demo_config = Inr demo_config"
    by (simp add: demo_config_def autonomy_config_check_def level_of_def)
  obtain ladder where l: "resolve_ladder (Some demo_state) demo_config True True False ''hard'' False = Some ladder"
    by (simp add: resolve_ladder_def demo_config_def case_prod_unfold Let_def)
  from auto_merge_needs_everything [OF c l] l show ?thesis
    by (simp add: demo_state_def demo_config_def)
qed

section \<open>One run's outcome\<close>

text \<open>Folding a run's outcome into the ladder lowers the level by at most one and never raises it; a policy
violation, or a human rejection at L3 or above, lowers it by one (at L1 it stays). If nothing
raised, a state that was read soundly is in the file exactly as computed and the run's events
are exactly its new transitions; if a write raised, nothing was written at all.\<close>

theorem run_outcome_atomic:
  assumes "record_autonomy_outcome env cs r config run_level breaches w = (w', s', raised)"
    and "load_state (re_now env) (re_legacy env) (lw_file w) = s" and "as_degraded s = None"
    and "re_now env \<noteq> []"
  shows "(as_level s' = as_level s \<or> as_level s' = level_down (as_level s)) \<and>
    (policy_violations cs \<noteq> [] \<or> human_rejections cs (ro_failed r) run_level \<noteq> [] \<longrightarrow>
       as_level s' = level_down (as_level s)) \<and>
    (raised \<longrightarrow> w' = w) \<and>
    (\<not> raised \<longrightarrow> lw_file w' = Document (JObj (state_payload s')) \<and>
       lw_events w' = lw_events w @ drop (length (as_history s)) (as_history s'))"
proof -
  note spec = run_outcome_spec [OF assms(1), unfolded assms(2)]
  have same: "same_ladder s (run_evidence cs r s)" by (rule run_evidence_same)
  then have l: "as_level (run_evidence cs r s) = as_level s" "as_history (run_evidence cs r s) = as_history s"
    "as_degraded (run_evidence cs r s) = None"
    using assms(3) by (simp_all add: same_ladder_def)
  have "policy_violations cs \<noteq> [] \<or> human_rejections cs (ro_failed r) run_level \<noteq> [] \<longrightarrow>
       as_level s' = level_down (as_level s)"
    using spec(2) by (auto simp: would_demote_def l)
  with spec(1,3) show ?thesis by (auto simp: run_consistent_def l)
qed

definition demo_violation :: finding where
  "demo_violation = \<lparr>fi_phase = ''policy'', fi_category = ''policy_paths'', fi_severity = ''critical'',
     fi_location = [], fi_explanation = [], fi_suggestion = [], fi_owasp = [], fi_cwe = [], fi_tags = []\<rparr>"

definition demo_failed_run :: "component list" where
  "demo_failed_run =
     [(single_component ''p'' ''prd.json'' ''kstrl/x'')\<lparr>c_status := FAILED, c_findings := [demo_violation]\<rparr>]"

theorem run_outcome_atomic_witness:
  "as_level (fst (snd (record_autonomy_outcome demo_env demo_failed_run
      \<lparr>ro_completed = [], ro_failed = [''main''], ro_merged = []\<rparr> demo_config L3_ENVELOPED_AUTO [] demo_world)))
   = L2_GATED_MERGE"
proof -
  let ?r = "\<lparr>ro_completed = [], ro_failed = [''main''], ro_merged = []\<rparr>"
  obtain w' s' raised where
    r: "record_autonomy_outcome demo_env demo_failed_run ?r demo_config L3_ENVELOPED_AUTO [] demo_world = (w', s', raised)"
    using prod_cases3 by blast
  have l: "load_state (re_now demo_env) (re_legacy demo_env) (lw_file demo_world) = demo_state"
    by (simp add: demo_world_def load_saved_state demo_state_def fresh_state_def)
  have n: "as_degraded demo_state = None" by (simp add: demo_state_def fresh_state_def)
  have t: "re_now demo_env \<noteq> []" by (simp add: demo_env_def)
  have v: "policy_violations demo_failed_run \<noteq> []"
    by (simp add: policy_violations_def demo_failed_run_def demo_violation_def startswith_def
        policy_category_prefix_def)
  from run_outcome_atomic [OF r l n t] v have "as_level s' = level_down (as_level demo_state)" by blast
  with r show ?thesis by (simp add: demo_state_def)
qed

text \<open>A state file that cannot be read as a whole yields L1 with no history, and no run overwrites it: whatever
the run's outcome, the file stays as it was and the level stays at L1.\<close>

theorem damaged_state_fails_closed:
  assumes "as_degraded (load_state (re_now env) (re_legacy env) (lw_file w)) \<noteq> None"
    and "record_autonomy_outcome env cs r config run_level breaches w = (w', s', raised)"
  shows "as_level (load_state (re_now env) (re_legacy env) (lw_file w)) = L1_SUPERVISED \<and>
    as_history (load_state (re_now env) (re_legacy env) (lw_file w)) = [] \<and>
    \<not> raised \<and> lw_file w' = lw_file w \<and> as_level s' = L1_SUPERVISED"
proof -
  let ?s = "load_state (re_now env) (re_legacy env) (lw_file w)"
  from load_degraded_fresh [OF assms(1)] have f: "as_level ?s = L1_SUPERVISED" "as_history ?s = []"
    by (metis autonomy_state.select_convs(1) fresh_state_def) (metis load_degraded_fresh [OF assms(1)]
      autonomy_state.select_convs(9) fresh_state_def)
  have same: "same_ladder ?s (run_evidence cs r ?s)" by (rule run_evidence_same)
  note spec = run_outcome_spec [OF assms(2)]
  from spec(1) same assms(1) have "\<not> raised" "lw_file w' = lw_file w"
    by (auto simp: run_consistent_def same_ladder_def)
  moreover from spec(3) same f(1) have "as_level s' = L1_SUPERVISED" by (auto simp: same_ladder_def)
  ultimately show ?thesis using f by blast
qed

theorem damaged_state_fails_closed_witness:
  "lw_file (fst (record_autonomy_outcome demo_env demo_failed_run
      \<lparr>ro_completed = [], ro_failed = [''main''], ro_merged = []\<rparr> demo_config L1_SUPERVISED []
      (demo_world\<lparr>lw_file := Document (JObj [(''level'', JInt 7)])\<rparr>)))
   = Document (JObj [(''level'', JInt 7)])"
proof -
  let ?w = "demo_world\<lparr>lw_file := Document (JObj [(''level'', JInt 7)])\<rparr>"
  let ?r = "\<lparr>ro_completed = [], ro_failed = [''main''], ro_merged = []\<rparr>"
  obtain w' s' raised where
    r: "record_autonomy_outcome demo_env demo_failed_run ?r demo_config L1_SUPERVISED [] ?w = (w', s', raised)"
    using prod_cases3 by blast
  have "as_degraded (load_state (re_now demo_env) (re_legacy demo_env) (lw_file ?w)) \<noteq> None"
    by (simp add: load_state_def decode_state_def require_int_def level_of_def fresh_state_def)
  from damaged_state_fails_closed [OF this r] r show ?thesis by simp
qed

text \<open>What \<open>save\<close> writes \<open>load\<close> reads back: level, counters, cool-down and the whole history.\<close>

theorem ladder_state_roundtrip:
  assumes "as_degraded s = None" and "as_since s \<noteq> []"
  shows "save_state s old = (Document (JObj (state_payload s)), None) \<and>
    load_state now legacy (fst (save_state s old)) = s"
  using assms by (simp add: save_state_def load_saved_state)

theorem ladder_state_roundtrip_witness:
  "load_state ''t'' False (fst (save_state demo_state No_File)) = demo_state"
proof -
  have "as_degraded demo_state = None" "as_since demo_state \<noteq> []"
    by (simp_all add: demo_state_def fresh_state_def)
  from ladder_state_roundtrip [OF this, of No_File "''t''" False] show ?thesis by (rule conjunct2)
qed

section \<open>Replay\<close>

lemma replay_run_bound:
  assumes "8 * (level_num (as_level s) - 1) + as_decisive s \<le> int n" and "0 \<le> as_decisive s"
  shows "8 * (level_num (as_level (replay_run now prfs s run)) - 1) + as_decisive (replay_run now prfs s run)
      \<le> int n + (if row_decisive prfs run then 1 else 0) \<and> 0 \<le> as_decisive (replay_run now prfs s run)"
proof (cases "row_decisive prfs run")
  case False
  with assms show ?thesis by (simp add: replay_run_def)
next
  case True
  define s1 where "s1 = replay_merges run (record_decisive_run 1 s)"
  have pow: "as_level ((record_merged_component e ^^ k) x) = as_level x \<and>
      as_decisive ((record_merged_component e ^^ k) x) = as_decisive x" for e k x
    by (induction k) (simp_all add: record_merged_component_def)
  have s1: "as_level s1 = as_level s" "as_decisive s1 = as_decisive s + 1"
    by (simp_all add: s1_def replay_merges_def pow Let_def record_decisive_run_def split: option.splits)
  define s2 where "s2 = (if rr_failed run \<noteq> 0 \<and> \<not> infra_aborted prfs run
      then fst (demote now s1 CALIBRATION_REGRESSION ''replay'' ''system'' []) else s1)"
  have "level_num (level_down l) \<le> level_num l" for l by (cases l) simp_all
  then have s2: "8 * (level_num (as_level s2) - 1) + as_decisive s2 \<le> int n + 1 \<and> 0 \<le> as_decisive s2"
  proof (cases "s2 = s1")
    case True
    with assms s1 show ?thesis by simp
  next
    case ne: False
    then have d: "s2 = fst (demote now s1 CALIBRATION_REGRESSION ''replay'' ''system'' [])"
      by (auto simp: s2_def split: if_splits)
    with ne have nl: "as_level s1 \<noteq> L1_SUPERVISED" by (auto simp: demote_floor)
    then have "as_level s2 = level_down (as_level s1)" "as_decisive s2 = 0"
      by (auto simp: d demote_level) (auto simp: demote_def Let_def reset_level_counters_def)
    with assms s1 level_down_num [OF nl] show ?thesis by simp
  qed
  have r: "replay_run now prfs s run =
      (if as_level s2 \<noteq> L4_DEPLOY \<and> promotion_blockers s2 None = []
       then (case promote now s2 ''replay'' ''simulated'' [] False [] of Inl _ \<Rightarrow> s2 | Inr (s3, _) \<Rightarrow> s3)
       else s2)"
    unfolding replay_run_def Let_def s1_def [symmetric] unfolding s2_def [symmetric] using True by simp
  show ?thesis
  proof (cases "replay_run now prfs s run = s2")
    case True
    with s2 \<open>row_decisive prfs run\<close> show ?thesis by simp
  next
    case False
    then obtain rec where p: "promote now s2 ''replay'' ''simulated'' [] False [] = Inr (replay_run now prfs s run, rec)"
      using r by (auto split: if_splits sum.splits)
    note q = promote_Inr [OF p]
    have "criteria_met s2" using q(4) promote_blockers_met [OF q(3), of "[]"] by simp
    then have "8 \<le> as_decisive s2" by (simp add: criteria_met_def)
    with s2 q(3) True show ?thesis by (simp add: q(6) level_up_num)
  qed
qed

text \<open>A replay climbs at most one level for every eight decisive rows of the history.\<close>

theorem replay_needs_decisive_runs:
  "8 * (level_num (as_level (replay now prfs runs)) - 1) \<le> int (length (filter (row_decisive prfs) runs))"
proof -
  have "8 * (level_num (as_level (replay now prfs runs)) - 1) + as_decisive (replay now prfs runs)
      \<le> int (length (filter (row_decisive prfs) runs)) \<and> 0 \<le> as_decisive (replay now prfs runs)"
  proof (induction runs rule: rev_induct)
    case Nil
    then show ?case by (simp add: replay_def fresh_state_def)
  next
    case (snoc run runs)
    then have b: "8 * (level_num (as_level (replay now prfs runs)) - 1) + as_decisive (replay now prfs runs)
        \<le> int (length (filter (row_decisive prfs) runs))" "0 \<le> as_decisive (replay now prfs runs)" by auto
    have "replay now prfs (runs @ [run]) = replay_run now prfs (replay now prfs runs) run"
      by (simp add: replay_def)
    with replay_run_bound [OF b, of now prfs run] show ?case by (simp split: if_splits)
  qed
  then show ?thesis by simp
qed

end
