(* ===== verification/Append_Log.thy ===== *)
theory Append_Log
  imports Prelude
begin

text \<open>
  \<open>kstrl/io/appendio.py\<close>: the one append every record file goes through, and the readers' view of
  such a file. A file is its bytes (a \<^typ>\<open>string\<close> of 8-bit characters). A Python \<open>str\<close> is encoded
  by \<open>utf8_encode\<close> (the model's characters stop at U+00FF); decoding is the argument \<open>decode\<close> of the
  readers, \<open>None\<close> where \<open>bytes.decode\<close> raises, and what they rely on is \<open>utf8_reader\<close>. The
  exclusive lock of \<open>appending\<close> is not modelled: an append is one step.
\<close>

type_synonym bytes = string

section \<open>UTF-8\<close>

definition utf8_char :: "char \<Rightarrow> bytes" where
  "utf8_char c =
     (let n = of_char c :: nat
      in if n < 128 then [c] else [char_of (192 + n div 64), char_of (128 + n mod 64)])"

definition utf8_encode :: "string \<Rightarrow> bytes" where
  "utf8_encode s = concat (map utf8_char s)"

text \<open>
  Decoding stops nowhere inside a complete text, so what is appended to one decodes by itself;
  a newline is the one byte it is written as.
\<close>

definition utf8_reader :: "(bytes \<Rightarrow> string option) \<Rightarrow> bool" where
  "utf8_reader decode =
     (decode [] = Some [] \<and>
      (\<forall>b t s. decode b = Some t \<longrightarrow> decode (b @ utf8_encode s) = Some (t @ s)) \<and>
      (\<forall>b t. decode b = Some t \<longrightarrow> endswith b [newline] = endswith t [newline]))"

text \<open>A decoder of the one- and two-byte forms, which the instances of the theorems run on.\<close>

fun utf8_decode :: "bytes \<Rightarrow> string option" where
  "utf8_decode [] = Some []"
| "utf8_decode [b] = (if (of_char b :: nat) < 128 then Some [b] else None)"
| "utf8_decode (b # c # bs) =
     (let m = of_char b :: nat; n = of_char c :: nat
      in if m < 128 then map_option ((#) b) (utf8_decode (c # bs))
         else if m \<in> {194, 195} \<and> 128 \<le> n \<and> n < 192
         then map_option ((#) (char_of ((m - 192) * 64 + (n - 128)))) (utf8_decode bs)
         else None)"

definition is_ascii :: "string \<Rightarrow> bool" where
  "is_ascii s = list_all (\<lambda>c. (of_char c :: nat) < 128) s"

lemma utf8_encode_simps [simp]:
  "utf8_encode [] = []" "utf8_encode (c # s) = utf8_char c @ utf8_encode s"
  "utf8_encode (s @ t) = utf8_encode s @ utf8_encode t"
  by (simp_all add: utf8_encode_def)

lemma utf8_encode_ascii: "is_ascii s \<Longrightarrow> utf8_encode s = s"
  by (induction s) (simp_all add: is_ascii_def utf8_char_def)

lemma utf8_decode_ascii_Cons:
  "(of_char b :: nat) < 128 \<Longrightarrow> utf8_decode (b # bs) = map_option ((#) b) (utf8_decode bs)"
  by (cases bs) simp_all

lemma utf8_decode_char: "utf8_decode (utf8_char c @ bs) = map_option ((#) c) (utf8_decode bs)"
proof (cases "(of_char c :: nat) < 128")
  case True
  then show ?thesis by (simp add: utf8_char_def utf8_decode_ascii_Cons)
next
  case False
  define n where "n = (of_char c :: nat)"
  have n: "128 \<le> n" "n < 256"
    using False by (simp_all add: n_def)
  then have d: "n div 64 = 2 \<or> n div 64 = 3"
    using div_le_mono [OF n(1), of 64] less_mult_imp_div_less [of n 4 64] by simp linarith
  have eq: "(n div 64) * 64 + n mod 64 = n" by simp
  have c: "c = char_of n" by (simp add: n_def)
  from d show ?thesis
  proof
    assume a: "n div 64 = 2"
    then have "128 + n mod 64 = n" "n < 192" using eq mod_less_divisor [of 64 n] by linarith+
    with a n show ?thesis
      by (simp add: utf8_char_def n_def [symmetric] Let_def c of_char_of)
  next
    assume a: "n div 64 = 3"
    then have "192 + n mod 64 = n" using eq by simp
    with a n show ?thesis
      by (simp add: utf8_char_def n_def [symmetric] Let_def c of_char_of)
  qed
qed

lemma utf8_decode_encode: "utf8_decode (utf8_encode s) = Some s"
  by (induction s) (simp_all add: utf8_decode_char)

lemma utf8_decode_append: "utf8_decode b = Some t \<Longrightarrow> utf8_decode (b @ c) = map_option ((@) t) (utf8_decode c)"
proof (induction b arbitrary: t rule: utf8_decode.induct)
  case (3 b c' bs)
  then show ?case
    by (cases "utf8_decode c") (auto simp: Let_def split: if_splits)
next
  case (2 b)
  then show ?case
    by (cases "utf8_decode c") (auto simp: utf8_decode_ascii_Cons split: if_splits)
qed (simp add: option.map_ident_strong)

lemma utf8_readerD:
  "utf8_reader decode \<Longrightarrow> decode b = Some t \<Longrightarrow> decode (b @ utf8_encode s) = Some (t @ s)"
  "utf8_reader decode \<Longrightarrow> decode (utf8_encode s) = Some s"
  "utf8_reader decode \<Longrightarrow> decode b = Some t \<Longrightarrow> endswith b [newline] = endswith t [newline]"
  by (simp_all add: utf8_reader_def) (metis append_Nil)

lemma last_utf8_char: "last (utf8_char c) = newline \<longleftrightarrow> c = newline"
proof (cases "(of_char c :: nat) < 128")
  case False
  have "(of_char (char_of (128 + of_char c mod 64 :: nat) :: char) :: nat) = (128 + of_char c mod 64) mod 256"
    by (simp only: of_char_of)
  also have "\<dots> = 128 + of_char c mod 64"
    using mod_less_divisor [of 64 "of_char c"] by simp
  finally have "(of_char (char_of (128 + of_char c mod 64 :: nat) :: char) :: nat) \<noteq> of_char newline"
    by (simp add: newline_def)
  then have "char_of (128 + of_char c mod 64 :: nat) \<noteq> newline" by metis
  moreover have "c \<noteq> newline" using False by (auto simp: newline_def)
  ultimately show ?thesis using False by (simp add: utf8_char_def Let_def)
qed (simp add: utf8_char_def)

lemma utf8_char_not_Nil [simp]: "utf8_char c \<noteq> []"
  by (simp add: utf8_char_def Let_def)

lemma utf8_encode_Nil_iff [simp]: "utf8_encode s = [] \<longleftrightarrow> s = []"
  by (cases s) simp_all

lemma last_utf8_encode: "s \<noteq> [] \<Longrightarrow> last (utf8_encode s) = newline \<longleftrightarrow> last s = newline"
  by (induction s) (auto simp: last_utf8_char last_append)

lemma endswith_newline: "endswith s [newline] \<longleftrightarrow> s \<noteq> [] \<and> last s = newline"
  by (metis append_butlast_last_id append_is_Nil_conv endswith_def last_snoc list.distinct(1) suffix_def)

lemma utf8_char_two:
  assumes "(of_char b :: nat) \<in> {194, 195}" and "128 \<le> (of_char c :: nat)" and "(of_char c :: nat) < 192"
  shows "utf8_char (char_of ((of_char b - 192) * 64 + (of_char c - 128 :: nat))) = [b, c]"
proof -
  define n where "n = (of_char b - 192) * 64 + (of_char c - 128 :: nat)"
  obtain k where k: "(of_char c :: nat) = 64 * 2 + k" "k < 64"
    using assms(2,3) le_Suc_ex [OF assms(2)] by auto
  have three: "128 + (of_char c :: nat) mod 64 = of_char c"
    unfolding k(1) using k(2) by (simp only: mod_mult_self4) simp
  have n: "n < 256" "128 \<le> n" "192 + n div 64 = of_char b" "128 + n mod 64 = of_char c"
    using assms k(2) three by (auto simp: n_def)
  have "(of_char (char_of n :: char) :: nat) = n mod 256"
    by (simp only: of_char_of)
  also have "\<dots> = n" using n(1) by simp
  finally have "utf8_char (char_of n) = [char_of (192 + n div 64), char_of (128 + n mod 64)]"
    using n by (simp add: utf8_char_def)
  then have "utf8_char (char_of n) = [b, c]"
    unfolding n(3,4) by simp
  then show ?thesis unfolding n_def .
qed

lemma utf8_encode_decode: "utf8_decode b = Some t \<Longrightarrow> utf8_encode t = b"
proof (induction b arbitrary: t rule: utf8_decode.induct)
  case (3 b c bs)
  then show ?case
    using utf8_char_two [of b c]
    by (auto simp: Let_def utf8_char_def [of b] split: if_splits)
qed (auto simp: utf8_char_def split: if_splits)

lemma utf8_reader_decode: "utf8_reader utf8_decode"
proof -
  have "endswith b [newline] = endswith t [newline]" if "utf8_decode b = Some t" for b t
    using utf8_encode_decode [OF that] last_utf8_encode [of t] by (auto simp: endswith_newline)
  then show ?thesis
    by (simp add: utf8_reader_def utf8_decode_append utf8_decode_encode)
qed

section \<open>The append\<close>

text \<open>\<open>ValueError\<close> of \<open>append_terminated\<close>, and the \<open>OSError\<close> of its caller's open.\<close>

datatype append_error = Payload_Unterminated | Repair_Unterminated | Append_OSError

definition handle_ends_without_newline :: "bytes \<Rightarrow> bool" where
  "handle_ends_without_newline content = (if content = [] then False else last content \<noteq> newline)"

text \<open>The new content of the file, and whether a torn tail was found and repaired.\<close>

definition append_terminated :: "bytes \<Rightarrow> string \<Rightarrow> string \<Rightarrow> append_error + bytes \<times> bool" where
  "append_terminated content payload repair =
     (if payload \<noteq> [] \<and> \<not> endswith payload [newline] then Inl Payload_Unterminated
      else if repair \<noteq> [] \<and> \<not> endswith repair [newline] then Inl Repair_Unterminated
      else if payload = [] then Inr (content, False)
      else
        (let repaired = handle_ends_without_newline content;
             payload = (if repaired then [newline] @ repair @ payload else payload)
         in Inr (content @ utf8_encode payload, repaired)))"

text \<open>A record file: absent, one the process cannot open for reading, or its bytes.\<close>

datatype log_file = Log_Missing | Log_Error | Log_Bytes bytes

definition append_records :: "log_file \<Rightarrow> string \<Rightarrow> string \<Rightarrow> append_error + log_file \<times> bool" where
  "append_records f payload repair =
     (case f of
        Log_Error \<Rightarrow> Inl Append_OSError
      | Log_Missing \<Rightarrow> map_sum id (apfst Log_Bytes) (append_terminated [] payload repair)
      | Log_Bytes content \<Rightarrow> map_sum id (apfst Log_Bytes) (append_terminated content payload repair))"

section \<open>Lines\<close>

text \<open>The lines of a file: the parts between newlines, an unterminated tail being the last one.\<close>

definition byte_lines :: "bytes \<Rightarrow> bytes list" where
  "byte_lines content =
     (if content = [] then []
      else if last content = newline then butlast (split_on newline content)
      else split_on newline content)"

text \<open>\<open>str.splitlines()\<close> and \<open>str.strip()\<close>.\<close>

definition line_break :: "char \<Rightarrow> bool" where
  "line_break c = (c \<in> {CHR 0x0A, CHR 0x0B, CHR 0x0C, CHR 0x0D, CHR 0x1C, CHR 0x1D, CHR 0x1E, CHR 0x85})"

definition carriage_return :: char where "carriage_return = CHR 0x0D"

fun splitlines :: "string \<Rightarrow> string list" where
  "splitlines [] = []"
| "splitlines (c # cs) =
     (if c = carriage_return \<and> cs \<noteq> [] \<and> hd cs = newline then [] # splitlines (tl cs)
      else if line_break c then [] # splitlines cs
      else (case splitlines cs of [] \<Rightarrow> [[c]] | w # ws \<Rightarrow> (c # w) # ws))"

definition strip :: "string \<Rightarrow> string" where
  "strip s = rev (dropWhile is_space (rev (dropWhile is_space s)))"

section \<open>What an append leaves on the lines\<close>

lemma split_on_snoc: "split_on c (s @ c # t) = split_on c s @ split_on c t"
  by (induction s) (auto split: list.splits)

lemma split_on_last_Nil: "s \<noteq> [] \<Longrightarrow> last s = c \<Longrightarrow> last (split_on c s) = []"
  using split_on_snoc [of c "butlast s" "[]"] by (metis append_butlast_last_id last_snoc split_on.simps(1))

lemma split_on_butlast: "s \<noteq> [] \<Longrightarrow> last s = c \<Longrightarrow> split_on c s = butlast (split_on c s) @ [[]]"
  by (metis append_butlast_last_id split_on_last_Nil split_on_not_Nil)

lemma split_on_append_terminated:
  assumes "s = [] \<or> last s = c"
  shows "butlast (split_on c s) @ split_on c t = split_on c (s @ t)"
proof (cases "s = []")
  case False
  then obtain s' where "s = s' @ [c]" using assms by (metis append_butlast_last_id)
  then show ?thesis by (simp add: split_on_snoc)
qed simp

lemma byte_lines_append:
  assumes "s = [] \<or> last s = newline"
  shows "byte_lines (s @ t) = byte_lines s @ byte_lines t"
proof (cases "s = [] \<or> t = []")
  case False
  then have "byte_lines s = butlast (split_on newline s)"
    using assms by (simp add: byte_lines_def)
  then show ?thesis
    using False split_on_append_terminated [OF assms, of t]
    by (auto simp: byte_lines_def butlast_append simp flip: split_on_append_terminated [OF assms])
qed (auto simp: byte_lines_def)

lemma byte_lines_terminate: "s \<noteq> [] \<Longrightarrow> last s \<noteq> newline \<Longrightarrow> byte_lines (s @ [newline]) = byte_lines s"
  by (simp add: byte_lines_def split_on_snoc butlast_append)

lemma append_terminated_lines:
  assumes "append_terminated content payload repair = Inr (content', torn)" and "payload \<noteq> []"
  shows "byte_lines content' =
           byte_lines content @ (if torn then byte_lines (utf8_encode repair) else []) @
           byte_lines (utf8_encode payload)"
    and "torn \<longleftrightarrow> content \<noteq> [] \<and> last content \<noteq> newline"
    and "\<exists>added. content' = content @ added \<and> added \<noteq> [] \<and> last content' = newline"
proof -
  have p: "last payload = newline" and r: "repair = [] \<or> last repair = newline"
    and t: "torn = handle_ends_without_newline content"
    and c: "content' = content @ utf8_encode (if torn then [newline] @ repair @ payload else payload)"
    using assms by (auto simp: append_terminated_def endswith_newline Let_def split: if_splits)
  show "torn \<longleftrightarrow> content \<noteq> [] \<and> last content \<noteq> newline"
    by (simp add: t handle_ends_without_newline_def)
  have nl: "utf8_encode [newline] = [newline]"
    by (simp add: utf8_char_def newline_def)
  have "last content' = newline"
    using p \<open>payload \<noteq> []\<close> by (auto simp: c last_append last_utf8_encode)
  then show "\<exists>added. content' = content @ added \<and> added \<noteq> [] \<and> last content' = newline"
    using c \<open>payload \<noteq> []\<close> by (intro exI conjI) (assumption, auto)
  show "byte_lines content' =
      byte_lines content @ (if torn then byte_lines (utf8_encode repair) else []) @
      byte_lines (utf8_encode payload)"
  proof (cases torn)
    case False
    then have "content = [] \<or> last content = newline"
      by (auto simp: t handle_ends_without_newline_def split: if_splits)
    then show ?thesis using False by (simp add: c byte_lines_append)
  next
    case True
    then have ends: "content \<noteq> []" "last content \<noteq> newline"
      by (auto simp: t handle_ends_without_newline_def split: if_splits)
    have encoded: "utf8_encode repair = [] \<or> last (utf8_encode repair) = newline"
      using r by (metis last_utf8_encode utf8_encode_Nil_iff)
    have "content' = (content @ [newline]) @ utf8_encode repair @ utf8_encode payload"
      using True nl by (simp add: c)
    then show ?thesis
      using True ends byte_lines_append [of "content @ [newline]"] byte_lines_append [OF encoded]
      by (simp add: byte_lines_terminate)
  qed
qed

text \<open>The readers' lines, blank ones dropped, after the same append.\<close>

definition text_lines :: "string \<Rightarrow> string list" where
  "text_lines t = filter (\<lambda>l. l \<noteq> []) (map strip (splitlines t))"

lemma line_breaks [simp]: "line_break newline" "line_break carriage_return" "carriage_return \<noteq> newline"
  "newline \<noteq> carriage_return"
  by (simp_all add: line_break_def newline_def carriage_return_def)

lemma strip_Nil [simp]: "strip [] = []"
  by (simp add: strip_def)

lemma splitlines_newline [simp]: "splitlines (newline # t) = [] # splitlines t"
  by (simp add: line_breaks(3) [symmetric])

lemma splitlines_append: "s \<noteq> [] \<Longrightarrow> last s = newline \<Longrightarrow> splitlines (s @ t) = splitlines s @ splitlines t"
proof (induction s rule: splitlines.induct)
  case (2 c cs)
  show ?case
  proof (cases "cs = []")
    case False
    then have cs: "cs @ t \<noteq> []" "hd (cs @ t) = hd cs" "tl (cs @ t) = tl cs @ t" "last cs = newline"
      using 2 by simp_all
    have tl: "splitlines (tl cs @ t) = splitlines (tl cs) @ splitlines t"
      if "c = carriage_return" "hd cs = newline"
      using 2(1) that False cs(4) by (cases "tl cs = []") (simp_all add: last_tl)
    have rest: "splitlines (cs @ t) = splitlines cs @ splitlines t"
      if "\<not> (c = carriage_return \<and> cs \<noteq> [] \<and> hd cs = newline)"
      using 2(2,3) that False cs(4) by blast
    have "splitlines cs \<noteq> []"
      using False by (cases cs) (auto split: list.splits)
    then show ?thesis
      using cs False tl rest by (auto split: list.splits)
  qed (use 2 in simp)
qed simp

lemma splitlines_terminate:
  "splitlines (s @ [newline]) \<in> {splitlines s, splitlines s @ [[]]}"
proof (induction s rule: splitlines.induct)
  case (2 c cs)
  show ?case
  proof (cases "cs = []")
    case False
    have "splitlines cs \<noteq> []"
      using False by (cases cs) (auto split: list.splits)
    then show ?thesis
      using 2 False by (auto split: list.splits)
  qed auto
qed simp

lemma text_lines_terminate: "text_lines (s @ [newline]) = text_lines s"
  using splitlines_terminate [of s] by (auto simp: text_lines_def)

lemma text_lines_append:
  assumes "s = [] \<or> last s = newline"
  shows "text_lines (s @ t) = text_lines s @ text_lines t"
  using assms by (cases "s = []") (simp_all add: text_lines_def splitlines_append)

end
