(* ===== verification/Inbox_Items.thy ===== *)
theory Inbox_Items
  imports Append_Log Findings
begin

text \<open>
  The records of \<open>kstrl/owner/inbox.py\<close>: the kinds of decision an item asks for, its status and
  priority, \<open>InboxItem\<close> with its dict form, \<open>InboxConfig\<close>, and what decides whether an item is open.
  \<open>inbox_env\<close> holds what the operations read from outside: the codecs (\<open>bytes.decode\<close>,
  \<open>json.loads\<close> behind \<open>read_json\<close>, \<open>json.dumps\<close>, \<open>str\<close> of a JSON value), the clock and the time
  stamps. An instant is an integer (microseconds); one operation reads the clock once.
\<close>

section \<open>Kinds, statuses, priorities\<close>

datatype item_kind =
    POLICY_EXCEPTION | MERGE_GATE | HALTED_RUN | BUDGET_OVERRUN | DEMOTION_NOTICE
  | CALIBRATION_DRIFT | TEST_ADEQUACY | HEALTH_BREACH | SPEC_ESCALATION | PLAN_GATE
  | STACK_CONFIRMATION

fun kind_value :: "item_kind \<Rightarrow> string" where
  "kind_value POLICY_EXCEPTION = ''policy_exception''"
| "kind_value MERGE_GATE = ''merge_gate''"
| "kind_value HALTED_RUN = ''halted_run''"
| "kind_value BUDGET_OVERRUN = ''budget_overrun''"
| "kind_value DEMOTION_NOTICE = ''demotion_notice''"
| "kind_value CALIBRATION_DRIFT = ''calibration_drift''"
| "kind_value TEST_ADEQUACY = ''test_adequacy''"
| "kind_value HEALTH_BREACH = ''health_breach''"
| "kind_value SPEC_ESCALATION = ''spec_escalation''"
| "kind_value PLAN_GATE = ''plan_gate''"
| "kind_value STACK_CONFIRMATION = ''stack_confirmation''"

definition all_kinds :: "item_kind list" where
  "all_kinds = [POLICY_EXCEPTION, MERGE_GATE, HALTED_RUN, BUDGET_OVERRUN, DEMOTION_NOTICE,
     CALIBRATION_DRIFT, TEST_ADEQUACY, HEALTH_BREACH, SPEC_ESCALATION, PLAN_GATE,
     STACK_CONFIRMATION]"

text \<open>\<open>ItemKind(raw)\<close>; \<open>None\<close> is the \<open>ValueError\<close>.\<close>

definition kind_of_value :: "string \<Rightarrow> item_kind option" where
  "kind_of_value raw = find (\<lambda>k. kind_value k = raw) all_kinds"

definition action_required :: "item_kind \<Rightarrow> bool" where
  "action_required k =
     (k \<in> {POLICY_EXCEPTION, MERGE_GATE, HALTED_RUN, BUDGET_OVERRUN, SPEC_ESCALATION, PLAN_GATE,
           STACK_CONFIRMATION})"

datatype decision_status = OPEN | APPROVED | REJECTED | SNOOZED | RESOLVED

fun status_text :: "decision_status \<Rightarrow> string" where
  "status_text OPEN = ''open''"
| "status_text APPROVED = ''approved''"
| "status_text REJECTED = ''rejected''"
| "status_text SNOOZED = ''snoozed''"
| "status_text RESOLVED = ''resolved''"

definition inbox_status_of :: "string \<Rightarrow> decision_status option" where
  "inbox_status_of raw = find (\<lambda>s. status_text s = raw) [OPEN, APPROVED, REJECTED, SNOOZED, RESOLVED]"

datatype priority = HIGH | NORMAL | LOW

fun priority_value :: "priority \<Rightarrow> string" where
  "priority_value HIGH = ''high''"
| "priority_value NORMAL = ''normal''"
| "priority_value LOW = ''low''"

definition priority_of_value :: "string \<Rightarrow> priority option" where
  "priority_of_value raw = find (\<lambda>p. priority_value p = raw) [HIGH, NORMAL, LOW]"

definition default_priority :: "(item_kind \<times> priority) list" where
  "default_priority =
     [(POLICY_EXCEPTION, HIGH), (MERGE_GATE, NORMAL), (HALTED_RUN, NORMAL), (BUDGET_OVERRUN, HIGH),
      (DEMOTION_NOTICE, HIGH), (CALIBRATION_DRIFT, LOW), (TEST_ADEQUACY, NORMAL),
      (HEALTH_BREACH, NORMAL), (SPEC_ESCALATION, NORMAL)]"

fun priority_order :: "priority \<Rightarrow> nat" where
  "priority_order HIGH = 0"
| "priority_order NORMAL = 1"
| "priority_order LOW = 2"

definition undecided :: "decision_status list" where
  "undecided = [OPEN, SNOOZED]"

lemma kind_of_value_inverse [simp]: "kind_of_value (kind_value k) = Some k"
  by (cases k) (simp_all add: kind_of_value_def all_kinds_def)

lemma inbox_status_of_inverse [simp]: "inbox_status_of (status_text s) = Some s"
  by (cases s) (simp_all add: inbox_status_of_def)

lemma priority_of_value_inverse [simp]: "priority_of_value (priority_value p) = Some p"
  by (cases p) (simp_all add: priority_of_value_def)

section \<open>The item\<close>

record inbox_item =
  ii_id :: string
  ii_kind :: item_kind
  ii_title :: string
  ii_created_at :: string
  ii_detail :: string
  ii_priority :: priority
  ii_component :: string
  ii_run_id :: string
  ii_dedupe_key :: string
  ii_evidence :: json_object
  ii_status :: decision_status
  ii_occurrences :: int
  ii_last_seen_at :: string
  ii_decided_at :: string
  ii_decided_by :: string
  ii_decision_comment :: string
  ii_snooze_until :: string

record inbox_env =
  ie_decode :: "bytes \<Rightarrow> string option"
  ie_loads :: "string \<Rightarrow> json option"
  ie_dumps :: "json_object \<Rightarrow> string"
  ie_rep :: "json \<Rightarrow> string"
  ie_fromiso :: "string \<Rightarrow> int option"
  ie_iso :: "int \<Rightarrow> string"
  ie_now :: int

definition item_is_open :: "inbox_env \<Rightarrow> inbox_item \<Rightarrow> bool" where
  "item_is_open env i =
     (if ii_status i = OPEN then True
      else if ii_status i = SNOOZED then
        (case ie_fromiso env (ii_snooze_until i) of None \<Rightarrow> True | Some u \<Rightarrow> u \<le> ie_now env)
      else False)"

definition snooze_active :: "inbox_env \<Rightarrow> inbox_item \<Rightarrow> bool" where
  "snooze_active env i = (ii_status i = SNOOZED \<and> \<not> item_is_open env i)"

definition inbox_sort_key :: "inbox_item \<Rightarrow> nat \<times> string" where
  "inbox_sort_key i = (priority_order (ii_priority i), ii_created_at i)"

definition item_to_dict :: "inbox_item \<Rightarrow> json_object" where
  "item_to_dict i =
     [(''id'', JStr (ii_id i)), (''kind'', JStr (kind_value (ii_kind i))),
      (''title'', JStr (ii_title i)), (''created_at'', JStr (ii_created_at i)),
      (''detail'', JStr (ii_detail i)), (''priority'', JStr (priority_value (ii_priority i))),
      (''component'', JStr (ii_component i)), (''run_id'', JStr (ii_run_id i)),
      (''dedupe_key'', JStr (ii_dedupe_key i)), (''evidence'', JObj (ii_evidence i)),
      (''status'', JStr (status_text (ii_status i))), (''occurrences'', JInt (ii_occurrences i)),
      (''last_seen_at'', JStr (ii_last_seen_at i)), (''decided_at'', JStr (ii_decided_at i)),
      (''decided_by'', JStr (ii_decided_by i)),
      (''decision_comment'', JStr (ii_decision_comment i)),
      (''snooze_until'', JStr (ii_snooze_until i))]"

definition object_of :: "json \<Rightarrow> json_object" where
  "object_of v = (case v of JObj kvs \<Rightarrow> kvs | _ \<Rightarrow> [])"

definition occurrences_of :: "json \<Rightarrow> int" where
  "occurrences_of v = (case v of JInt n \<Rightarrow> n | _ \<Rightarrow> 1)"

definition rebuild_item ::
    "(json \<Rightarrow> string) \<Rightarrow> json_object \<Rightarrow> string \<Rightarrow> item_kind \<Rightarrow> decision_status \<Rightarrow> priority \<Rightarrow> inbox_item" where
  "rebuild_item rep data item_id kind status prio =
     (let txt_of = (\<lambda>k. py_str rep (jget data k (JStr [])))
      in \<lparr>ii_id = item_id, ii_kind = kind, ii_title = txt_of ''title'',
          ii_created_at = txt_of ''created_at'', ii_detail = txt_of ''detail'',
          ii_priority = prio, ii_component = txt_of ''component'', ii_run_id = txt_of ''run_id'',
          ii_dedupe_key = txt_of ''dedupe_key'',
          ii_evidence = object_of (jget data ''evidence'' (JObj [])), ii_status = status,
          ii_occurrences = occurrences_of (jget data ''occurrences'' (JInt 1)),
          ii_last_seen_at = txt_of ''last_seen_at'', ii_decided_at = txt_of ''decided_at'',
          ii_decided_by = txt_of ''decided_by'', ii_decision_comment = txt_of ''decision_comment'',
          ii_snooze_until = txt_of ''snooze_until''\<rparr>)"

definition item_from_dict :: "(json \<Rightarrow> string) \<Rightarrow> json_object \<Rightarrow> inbox_item option" where
  "item_from_dict rep data =
     (case map_of data ''id'' of
        Some (JStr item_id) \<Rightarrow>
          (if item_id = [] then None
           else
             (case (kind_of_value (py_str rep (jget data ''kind'' (JStr []))),
                    inbox_status_of (py_str rep (jget data ''status'' (JStr (status_text OPEN)))),
                    priority_of_value (py_str rep (jget data ''priority'' (JStr (priority_value NORMAL))))) of
                (Some kind, Some status, Some prio) \<Rightarrow>
                  Some (rebuild_item rep data item_id kind status prio)
              | _ \<Rightarrow> None))
      | _ \<Rightarrow> None)"

record inbox_config =
  ic_enabled :: bool
  ic_open_item_cap :: int
  ic_snooze_hours :: rat
  ic_notify_action_required :: bool

definition inbox_defaults :: inbox_config where
  "inbox_defaults =
     \<lparr>ic_enabled = True, ic_open_item_cap = 50, ic_snooze_hours = 24,
      ic_notify_action_required = True\<rparr>"

text \<open>The line an append writes for an item, without its newline.\<close>

definition inbox_schema_version :: int where "inbox_schema_version = 1"

definition item_payload :: "inbox_item \<Rightarrow> json_object" where
  "item_payload i = (''schema_version'', JInt inbox_schema_version) # item_to_dict i"

section \<open>Lemmas\<close>

lemma item_from_dict_id: "item_from_dict rep d = Some i \<Longrightarrow> ii_id i \<noteq> []"
  by (auto simp: item_from_dict_def rebuild_item_def Let_def
      split: option.splits json.splits if_splits)

lemma item_payload_roundtrip [simp]:
  "ii_id i \<noteq> [] \<Longrightarrow> item_from_dict rep (item_payload i) = Some i"
  by (cases i)
    (simp add: item_from_dict_def item_payload_def item_to_dict_def jget_def rebuild_item_def
      Let_def object_of_def occurrences_of_def)

end
