(* ===== verification/Inbox.thy ===== *)
theory Inbox
  imports Inbox_Items
begin

text \<open>
  The exception inbox of \<open>kstrl/owner/inbox.py\<close>: the tolerant scan of the append-only log, the fold
  of its lines into current items, and the operations that append a line (a new or repeated
  exception, a decision), with \<open>push_opened_item\<close> of \<open>inbox_notify.py\<close> reduced to whether it fires.
  One operation is one step: the code runs the fold and the append inside one hold of
  \<open>control_lock\<close>. \<open>ensure_control_state\<close> is taken to have succeeded.
\<close>

section \<open>The log\<close>

text \<open>The log file, and whether an in-tree \<open>.kstrl/inbox.jsonl\<close> is still there.\<close>

record inbox_store =
  ib_file :: log_file
  ib_in_tree :: bool

record inbox_scan =
  sc_records :: "json_object list"
  sc_skipped :: nat
  sc_unreadable :: bool

text \<open>The records of the lines, and how many lines are no JSON object.\<close>

fun scan_lines :: "(string \<Rightarrow> json option) \<Rightarrow> string list \<Rightarrow> json_object list \<times> nat" where
  "scan_lines loads [] = ([], 0)"
| "scan_lines loads (l # ls) =
     (let (records, skipped) = scan_lines loads ls
      in case loads l of
           Some (JObj kvs) \<Rightarrow> (kvs # records, skipped)
         | _ \<Rightarrow> (records, Suc skipped))"

definition scan :: "inbox_env \<Rightarrow> inbox_store \<Rightarrow> inbox_scan" where
  "scan env st =
     (case ib_file st of
        Log_Error \<Rightarrow> \<lparr>sc_records = [], sc_skipped = 0, sc_unreadable = True\<rparr>
      | Log_Missing \<Rightarrow> \<lparr>sc_records = [], sc_skipped = 0, sc_unreadable = ib_in_tree st\<rparr>
      | Log_Bytes raw \<Rightarrow>
          (case ie_decode env raw of
             None \<Rightarrow> \<lparr>sc_records = [], sc_skipped = 0, sc_unreadable = True\<rparr>
           | Some t \<Rightarrow>
               (let (records, skipped) = scan_lines (ie_loads env) (text_lines t)
                in \<lparr>sc_records = records, sc_skipped = skipped, sc_unreadable = ib_in_tree st\<rparr>)))"

definition fold_record ::
    "(json \<Rightarrow> string) \<Rightarrow> (string, inbox_item) dict \<Rightarrow> json_object \<Rightarrow> (string, inbox_item) dict" where
  "fold_record rep folded record =
     (case item_from_dict rep record of
        None \<Rightarrow> folded
      | Some i \<Rightarrow> dict_set folded (ii_id i) i)"

definition fold_records :: "(json \<Rightarrow> string) \<Rightarrow> json_object list \<Rightarrow> (string, inbox_item) dict" where
  "fold_records rep records = foldl (fold_record rep) [] records"

definition folded_items :: "inbox_env \<Rightarrow> inbox_scan \<Rightarrow> inbox_item list" where
  "folded_items env s = map snd (fold_records (ie_rep env) (sc_records s))"

definition open_count :: "inbox_env \<Rightarrow> inbox_scan \<Rightarrow> nat" where
  "open_count env s = length (filter (item_is_open env) (folded_items env s))"

definition unparseable_count :: "inbox_env \<Rightarrow> inbox_scan \<Rightarrow> nat" where
  "unparseable_count env s =
     sc_skipped s + length (filter (\<lambda>r. item_from_dict (ie_rep env) r = None) (sc_records s))"

section \<open>Reading\<close>

definition folded :: "inbox_env \<Rightarrow> inbox_store \<Rightarrow> (string, inbox_item) dict" where
  "folded env st = fold_records (ie_rep env) (sc_records (scan env st))"

definition inbox_items :: "inbox_env \<Rightarrow> inbox_store \<Rightarrow> inbox_item list" where
  "inbox_items env st = sort_key inbox_sort_key (map snd (folded env st))"

definition open_items :: "inbox_env \<Rightarrow> inbox_store \<Rightarrow> inbox_item list" where
  "open_items env st = filter (item_is_open env) (inbox_items env st)"

datatype inbox_error =
    No_Such_Item | Ambiguous_Id "string list" | Comment_Required | TTL_Not_Positive
  | Inbox_Append append_error

definition inbox_get :: "inbox_env \<Rightarrow> inbox_store \<Rightarrow> string \<Rightarrow> inbox_error + inbox_item option" where
  "inbox_get env st item_id =
     (let items = inbox_items env st
      in case find (\<lambda>i. ii_id i = item_id) items of
           Some i \<Rightarrow> Inr (Some i)
         | None \<Rightarrow>
             (let hits = filter (\<lambda>i. startswith (ii_id i) item_id) items
              in if length hits = 1 then Inr (Some (hd hits))
                 else if length hits > 1
                 then Inl (Ambiguous_Id (map (\<lambda>i. take 8 (ii_id i)) (take 5 hits)))
                 else Inr None))"

definition find_by_dedupe_key :: "inbox_env \<Rightarrow> inbox_store \<Rightarrow> string \<Rightarrow> inbox_item option" where
  "find_by_dedupe_key env st key =
     (if key = [] then None
      else
        (let hits = filter (\<lambda>i. ii_dedupe_key i = key) (map snd (folded env st))
         in if hits = [] then None
            else case find (\<lambda>i. ii_status i = OPEN) hits of
                   Some i \<Rightarrow> Some i
                 | None \<Rightarrow> Some (last hits)))"

section \<open>Writing\<close>

definition append_item ::
    "inbox_env \<Rightarrow> inbox_item \<Rightarrow> inbox_store \<Rightarrow> inbox_error + inbox_store" where
  "append_item env i st =
     (case append_records (ib_file st) (ie_dumps env (item_payload i) @ [newline]) [] of
        Inl e \<Rightarrow> Inl (Inbox_Append e)
      | Inr (f, _) \<Rightarrow> Inr (st\<lparr>ib_file := f\<rparr>))"

definition notifiable :: "inbox_env \<Rightarrow> inbox_item list \<Rightarrow> inbox_item list" where
  "notifiable env items =
     filter (\<lambda>i. item_is_open env i \<and> (action_required (ii_kind i) \<or> ii_kind i = DEMOTION_NOTICE)) items"

text \<open>Whether \<open>push_opened_item\<close> reaches the hook.\<close>

definition push_opened_item :: "inbox_env \<Rightarrow> inbox_config \<Rightarrow> inbox_item \<Rightarrow> inbox_item option \<Rightarrow> bool" where
  "push_opened_item env config i existing =
     (if (case existing of None \<Rightarrow> False | Some e \<Rightarrow> snooze_active env e) then False
      else if \<not> ic_notify_action_required config \<or> notifiable env [i] = [] then False
      else True)"

record add_request =
  ad_kind :: item_kind
  ad_title :: string
  ad_detail :: string
  ad_component :: string
  ad_run_id :: string
  ad_dedupe_key :: string
  ad_evidence :: json_object
  ad_priority :: "priority option"

definition bump_item :: "inbox_env \<Rightarrow> add_request \<Rightarrow> inbox_item \<Rightarrow> inbox_item" where
  "bump_item env q i =
     i\<lparr>ii_occurrences := ii_occurrences i + 1, ii_last_seen_at := ie_iso env (ie_now env),
       ii_detail := (if ad_detail q \<noteq> [] then ad_detail q else ii_detail i),
       ii_evidence := (if ad_evidence q \<noteq> [] then ad_evidence q else ii_evidence i)\<rparr>"

definition fresh_item :: "inbox_env \<Rightarrow> string \<Rightarrow> add_request \<Rightarrow> inbox_item" where
  "fresh_item env uuid q =
     \<lparr>ii_id = uuid, ii_kind = ad_kind q, ii_title = ad_title q,
      ii_created_at = ie_iso env (ie_now env), ii_detail = ad_detail q,
      ii_priority =
        (case ad_priority q of
           Some p \<Rightarrow> p
         | None \<Rightarrow> (case map_of default_priority (ad_kind q) of None \<Rightarrow> NORMAL | Some p \<Rightarrow> p)),
      ii_component = ad_component q, ii_run_id = ad_run_id q, ii_dedupe_key = ad_dedupe_key q,
      ii_evidence = ad_evidence q, ii_status = OPEN, ii_occurrences = 1,
      ii_last_seen_at = ie_iso env (ie_now env), ii_decided_at = [], ii_decided_by = [],
      ii_decision_comment = [], ii_snooze_until = []\<rparr>"

text \<open>The new store, the item, and whether the notify hook fires. \<open>uuid\<close> is \<open>uuid4().hex\<close>.\<close>

definition inbox_add ::
    "inbox_env \<Rightarrow> inbox_config \<Rightarrow> string \<Rightarrow> add_request \<Rightarrow> inbox_store \<Rightarrow>
     inbox_error + inbox_store \<times> inbox_item \<times> bool" where
  "inbox_add env config uuid q st =
     (let existing = find_by_dedupe_key env st (ad_dedupe_key q);
          fresh =
            (let i = fresh_item env uuid q
             in and_then (append_item env i st)
                  (\<lambda>st'. Inr (st', i, push_opened_item env config i existing)))
      in case existing of
           Some e \<Rightarrow>
             (if ii_status e = OPEN
              then and_then (append_item env (bump_item env q e) st)
                     (\<lambda>st'. Inr (st', bump_item env q e, False))
              else fresh)
         | None \<Rightarrow> fresh)"

definition decided_item ::
    "inbox_env \<Rightarrow> decision_status \<Rightarrow> string \<Rightarrow> string \<Rightarrow> int option \<Rightarrow> inbox_item \<Rightarrow> inbox_item" where
  "decided_item env status actor comment until i =
     i\<lparr>ii_status := status, ii_decided_at := ie_iso env (ie_now env), ii_decided_by := actor,
       ii_decision_comment := comment,
       ii_snooze_until := (case until of None \<Rightarrow> [] | Some u \<Rightarrow> ie_iso env u)\<rparr>"

definition decide ::
    "inbox_env \<Rightarrow> string \<Rightarrow> decision_status \<Rightarrow> string \<Rightarrow> string \<Rightarrow> int option \<Rightarrow>
     decision_status list option \<Rightarrow> inbox_store \<Rightarrow> inbox_error + inbox_store \<times> inbox_item option" where
  "decide env item_id status actor comment until only_from st =
     and_then (inbox_get env st item_id) (\<lambda>found.
       case found of
         None \<Rightarrow> Inl No_Such_Item
       | Some i \<Rightarrow>
           (if (case only_from of None \<Rightarrow> False | Some ss \<Rightarrow> ii_status i \<notin> set ss)
            then Inr (st, None)
            else
              and_then (append_item env (decided_item env status actor comment until i) st)
                (\<lambda>st'. Inr (st', Some (decided_item env status actor comment until i)))))"

definition approve where
  "approve env item_id actor comment st = decide env item_id APPROVED actor comment None None st"

definition reject where
  "reject env item_id actor comment st =
     (if blank comment then Inl Comment_Required
      else decide env item_id REJECTED actor comment None None st)"

definition resolve where
  "resolve env item_id actor comment only_from st =
     decide env item_id RESOLVED actor comment None only_from st"

text \<open>\<open>micros\<close> is \<open>timedelta(hours=ttl)\<close> and \<open>show\<close> is \<open>str\<close> of a float.\<close>

definition snooze where
  "snooze env config micros show_float item_id actor hours st =
     (let ttl = (case hours of None \<Rightarrow> ic_snooze_hours config | Some h \<Rightarrow> h)
      in if ttl \<le> 0 then Inl TTL_Not_Positive
         else decide env item_id SNOOZED actor (''snoozed '' @ show_float ttl @ ''h'')
                (Some (ie_now env + micros ttl)) None st)"

section \<open>Capacity and summary\<close>

definition over_cap :: "inbox_env \<Rightarrow> inbox_config \<Rightarrow> inbox_store \<Rightarrow> bool" where
  "over_cap env config st =
     (ic_open_item_cap config > 0 \<and> int (length (open_items env st)) \<ge> ic_open_item_cap config)"

definition count_kind :: "(string, int) dict \<Rightarrow> inbox_item \<Rightarrow> (string, int) dict" where
  "count_kind d i =
     (let k = kind_value (ii_kind i)
      in dict_set d k ((case dict_get d k of None \<Rightarrow> 0 | Some n \<Rightarrow> n) + 1))"

definition summarize :: "inbox_env \<Rightarrow> inbox_item list \<Rightarrow> string" where
  "summarize env items =
     (let opened = filter (item_is_open env) items
      in if opened = [] then ''inbox clear''
         else
           (let parts = join_with '', ''
                  (map (\<lambda>(kind, count). int_text count @ '' '' @ kind)
                    (sort (foldl count_kind [] opened)))
            in int_text (int (length opened)) @ '' open ('' @ parts @ '')''))"

end
