(* ===== verification/Waivers.thy ===== *)
theory Waivers
  imports Inbox Manifest
begin

text \<open>
  \<open>kstrl/owner/waivers.py\<close>: how an approved inbox item waives one policy finding of one change, and
  how an approval of an acceptance halt keeps a commit. \<open>digest\<close> is the sha256 of the canonical JSON
  of an object (\<open>json.dumps\<close> with sorted keys, then \<open>hashlib\<close>). Messages are constructors; the
  eight characters of an item id a message opens with are kept, since reasons are deduplicated.
\<close>

section \<open>The key of a finding\<close>

definition acceptance_phase :: string where "acceptance_phase = ''acceptance''"

definition waiver_key_version :: int where "waiver_key_version = 1"

definition waivable_kinds :: "(item_kind \<times> string) list" where
  "waivable_kinds = [(POLICY_EXCEPTION, policy_category_prefix)]"

definition waivable_checks :: "string list" where
  "waivable_checks = [''policy_envelope'']"

definition non_waivable_categories :: "string list" where
  "non_waivable_categories = [policy_category_prefix @ ''enforcement_machinery'']"

definition waiver_refused_tag_prefix :: string where
  "waiver_refused_tag_prefix = ''waiver_refused:''"

definition hex64 :: "string \<Rightarrow> bool" where
  "hex64 s = (list_all hex_lower s \<and> length s = 64)"

definition commit_pattern :: "string \<Rightarrow> bool" where
  "commit_pattern s = (list_all hex_lower s \<and> (length s = 40 \<or> length s = 64))"

record waiver_scope =
  ws_project :: string
  ws_spec_file :: string
  ws_plan_id :: string
  ws_component :: string

type_synonym digest = "json_object \<Rightarrow> string"

definition waiver_payload :: "waiver_scope \<Rightarrow> string \<Rightarrow> string \<Rightarrow> string \<Rightarrow> json_object" where
  "waiver_payload scope category location explanation =
     [(''v'', JInt waiver_key_version), (''project'', JStr (ws_project scope)),
      (''spec_file'', JStr (ws_spec_file scope)), (''plan_id'', JStr (ws_plan_id scope)),
      (''component'', JStr (ws_component scope)), (''category'', JStr category),
      (''location'', JStr location), (''explanation'', JStr explanation)]"

definition waiver_key :: "digest \<Rightarrow> waiver_scope \<Rightarrow> string \<Rightarrow> string \<Rightarrow> string \<Rightarrow> string" where
  "waiver_key digest scope category location explanation =
     digest (waiver_payload scope category location explanation)"

definition scope_key :: "digest \<Rightarrow> waiver_scope \<Rightarrow> finding \<Rightarrow> string" where
  "scope_key digest scope f =
     waiver_key digest scope (fi_category f) (fi_location f) (fi_explanation f)"

section \<open>The snapshot\<close>

datatype unconsulted =
    Inbox_Unreadable | Unparseable_Lines nat | Inbox_Disabled | Inbox_Read_Failed

datatype refusal_why =
    Kind_Error | Category_Not_Waivable json | Category_Non_Overridable string | No_Waiver_Key
  | Key_Not_Hex | Evidence_Not_String string | No_Diff_Sha | Diff_Not_Hex
  | Key_Mismatch waiver_scope | Other_Diff string string | Covers_Different_Finding string

datatype refusal_reason =
    Approval_Reason string refusal_why
  | Not_Consulted unconsulted

record waiver =
  wv_item_id :: string
  wv_category :: string
  wv_decided_by :: string
  wv_decided_at :: string

record refusal =
  rf_item_id :: string
  rf_category :: string
  rf_reason :: refusal_reason

record waivers =
  wr_scope :: waiver_scope
  wr_by_key :: "(string, waiver) dict"
  wr_refused :: "refusal list"
  wr_unconsulted :: "unconsulted option"

record approval_snapshot =
  sn_approved :: "inbox_item list"
  sn_unconsulted :: "unconsulted option"
  sn_overrides :: "inbox_item list"
  sn_retirements :: "inbox_item list"
  sn_unreproduced :: "inbox_item list"

definition evidence_get :: "inbox_item \<Rightarrow> string \<Rightarrow> json" where
  "evidence_get i k = jget (ii_evidence i) k JNull"

definition all_strings :: "json_object \<Rightarrow> string list \<Rightarrow> bool" where
  "all_strings kvs ks = list_all (\<lambda>k. is_jstr (jget kvs k JNull)) ks"

definition carried_halt :: "inbox_item \<Rightarrow> bool" where
  "carried_halt i =
     (ii_kind i = HALTED_RUN \<and>
      (case evidence_get i ''carried'' of
         JObj kvs \<Rightarrow> all_strings kvs [''planId'', ''component'', ''check'']
       | _ \<Rightarrow> False))"

definition unreproduced_halt :: "inbox_item \<Rightarrow> bool" where
  "unreproduced_halt i =
     (ii_kind i = HALTED_RUN \<and>
      (case evidence_get i ''unreproduced'' of
         JObj kvs \<Rightarrow> all_strings kvs [''planId'', ''baseSha'']
       | _ \<Rightarrow> False))"

text \<open>\<open>str(evidence.get(k) or "")\<close>\<close>

definition evidence_text :: "(json \<Rightarrow> string) \<Rightarrow> inbox_item \<Rightarrow> string \<Rightarrow> string" where
  "evidence_text rep i k = (let v = evidence_get i k in if truthy v then py_str rep v else [])"

definition acceptance_halt :: "(json \<Rightarrow> string) \<Rightarrow> inbox_item \<Rightarrow> bool" where
  "acceptance_halt rep i =
     (ii_kind i = HALTED_RUN \<and> evidence_get i ''phase'' = JStr acceptance_phase \<and>
      commit_pattern (evidence_text rep i ''head_sha''))"

definition carried_retirements :: "inbox_item list \<Rightarrow> inbox_item list" where
  "carried_retirements items = filter (\<lambda>i. ii_status i = APPROVED \<and> carried_halt i) items"

definition unreproduced_approvals :: "inbox_item list \<Rightarrow> inbox_item list" where
  "unreproduced_approvals items = filter (\<lambda>i. ii_status i = APPROVED \<and> unreproduced_halt i) items"

definition acceptance_overrides :: "(json \<Rightarrow> string) \<Rightarrow> inbox_item list \<Rightarrow> inbox_item list" where
  "acceptance_overrides rep items = filter (\<lambda>i. ii_status i = APPROVED \<and> acceptance_halt rep i) items"

definition no_approvals :: "unconsulted \<Rightarrow> approval_snapshot" where
  "no_approvals why =
     \<lparr>sn_approved = [], sn_unconsulted = Some why, sn_overrides = [], sn_retirements = [],
      sn_unreproduced = []\<rparr>"

definition load_approvals :: "inbox_env \<Rightarrow> inbox_store \<Rightarrow> approval_snapshot" where
  "load_approvals env st =
     (let s = scan env st
      in if sc_unreadable s then no_approvals Inbox_Unreadable
         else if unparseable_count env s \<noteq> 0 then no_approvals (Unparseable_Lines (unparseable_count env s))
         else
           (let items = folded_items env s
            in \<lparr>sn_approved =
                  filter (\<lambda>i. ii_kind i \<in> set (map fst waivable_kinds) \<and> ii_status i = APPROVED) items,
                sn_unconsulted = None,
                sn_overrides = acceptance_overrides (ie_rep env) items,
                sn_retirements = carried_retirements items,
                sn_unreproduced = unreproduced_approvals items\<rparr>))"

text \<open>\<open>config\<close> is \<open>None\<close> where loading the configuration raises.\<close>

definition approvals_at :: "inbox_env \<Rightarrow> inbox_config option \<Rightarrow> inbox_store \<Rightarrow> approval_snapshot" where
  "approvals_at env config st =
     (case config of
        None \<Rightarrow> no_approvals Inbox_Read_Failed
      | Some c \<Rightarrow> if \<not> ic_enabled c then no_approvals Inbox_Disabled else load_approvals env st)"

section \<open>Refusals\<close>

text \<open>\<open>None\<close> is the empty reason.\<close>

definition evidence_refusal :: "inbox_item \<Rightarrow> refusal_why option" where
  "evidence_refusal i =
     (case map_of waivable_kinds (ii_kind i) of
        None \<Rightarrow> Some Kind_Error
      | Some pre \<Rightarrow>
          (case evidence_get i ''category'' of
             JStr category \<Rightarrow>
               (if \<not> startswith category pre then Some (Category_Not_Waivable (JStr category))
                else if category \<in> set non_waivable_categories
                then Some (Category_Non_Overridable category)
                else
                  (case map_of (ii_evidence i) ''waiver_key'' of
                     None \<Rightarrow> Some No_Waiver_Key
                   | Some key \<Rightarrow>
                       (if \<not> is_jstr key \<or> \<not> hex64 (jstr_of key) then Some Key_Not_Hex
                        else if \<not> is_jstr (evidence_get i ''location'')
                        then Some (Evidence_Not_String ''location'')
                        else if \<not> is_jstr (evidence_get i ''explanation'')
                        then Some (Evidence_Not_String ''explanation'')
                        else if evidence_get i ''diff_sha'' = JNull then Some No_Diff_Sha
                        else if \<not> is_jstr (evidence_get i ''diff_sha'') \<or>
                                \<not> hex64 (jstr_of (evidence_get i ''diff_sha''))
                        then Some Diff_Not_Hex
                        else None)))
           | v \<Rightarrow> Some (Category_Not_Waivable v)))"

text \<open>The string at a key of the evidence, which \<open>evidence_refusal\<close> has checked to be one.\<close>

definition evidence_string :: "inbox_item \<Rightarrow> string \<Rightarrow> string" where
  "evidence_string i k = jstr_of (evidence_get i k)"

definition item_refusal ::
    "digest \<Rightarrow> inbox_item \<Rightarrow> waiver_scope \<Rightarrow> string \<Rightarrow> refusal_why option" where
  "item_refusal digest i scope diff_sha =
     (case evidence_refusal i of
        Some why \<Rightarrow> Some why
      | None \<Rightarrow>
          (if waiver_key digest scope (evidence_string i ''category'') (evidence_string i ''location'')
                (evidence_string i ''explanation'') \<noteq> evidence_string i ''waiver_key''
           then Some (Key_Mismatch scope)
           else if evidence_string i ''diff_sha'' \<noteq> diff_sha
           then Some (Other_Diff (take 12 (evidence_string i ''diff_sha'')) (take 12 diff_sha))
           else None))"

definition scope_item ::
    "digest \<Rightarrow> waiver_scope \<Rightarrow> string \<Rightarrow> (string, waiver) dict \<times> refusal list \<Rightarrow> inbox_item \<Rightarrow>
     (string, waiver) dict \<times> refusal list" where
  "scope_item digest scope diff_sha acc i =
     (let (by_key, refused) = acc
      in if ii_component i \<noteq> ws_component scope then acc
         else
           (case item_refusal digest i scope diff_sha of
              Some why \<Rightarrow>
                (by_key, refused @
                  [\<lparr>rf_item_id = ii_id i, rf_category = evidence_string i ''category'',
                    rf_reason = Approval_Reason (take 8 (ii_id i)) why\<rparr>])
            | None \<Rightarrow>
                (dict_set by_key (evidence_string i ''waiver_key'')
                  \<lparr>wv_item_id = ii_id i, wv_category = evidence_string i ''category'',
                   wv_decided_by = ii_decided_by i, wv_decided_at = ii_decided_at i\<rparr>,
                 refused)))"

definition for_scope :: "digest \<Rightarrow> approval_snapshot \<Rightarrow> waiver_scope \<Rightarrow> string \<Rightarrow> waivers" where
  "for_scope digest snapshot scope diff_sha =
     (case sn_unconsulted snapshot of
        Some why \<Rightarrow>
          \<lparr>wr_scope = scope, wr_by_key = [], wr_refused = [], wr_unconsulted = Some why\<rparr>
      | None \<Rightarrow>
          (let (by_key, refused) =
             foldl (scope_item digest scope diff_sha) ([], []) (sn_approved snapshot)
           in \<lparr>wr_scope = scope, wr_by_key = by_key, wr_refused = refused, wr_unconsulted = None\<rparr>))"

section \<open>Applying waivers\<close>

definition finding_waivable :: "finding \<Rightarrow> bool" where
  "finding_waivable f =
     (fi_severity f \<noteq> ''advisory'' \<and>
      list_ex (\<lambda>pre. startswith (fi_category f) pre) (map snd waivable_kinds))"

definition waive :: "finding \<Rightarrow> waiver \<Rightarrow> finding" where
  "waive f w =
     f\<lparr>fi_severity := ''advisory'',
       fi_explanation :=
         fi_explanation f @ '' [waived by inbox approval '' @ take 8 (wv_item_id w) @ '' ('' @
         wv_decided_by w @ '' at '' @ wv_decided_at w @ '')]'',
       fi_tags := fi_tags f @ [waiver_tag_prefix @ wv_item_id w]\<rparr>"

definition refuse :: "finding \<Rightarrow> waivers \<Rightarrow> finding \<times> refusal_reason list" where
  "refuse f ws =
     (let named = filter (\<lambda>r. rf_category r \<in> {fi_category f, []}) (wr_refused ws);
          others = filter (\<lambda>w. wv_category w = fi_category f) (map snd (wr_by_key ws))
      in (f\<lparr>fi_tags := fi_tags f @
             map (\<lambda>r. waiver_refused_tag_prefix @ rf_item_id r) named @
             map (\<lambda>w. waiver_refused_tag_prefix @ wv_item_id w) others\<rparr>,
          map rf_reason named @
          map (\<lambda>w. Approval_Reason (take 8 (wv_item_id w)) (Covers_Different_Finding (fi_category f))) others @
          (case wr_unconsulted ws of None \<Rightarrow> [] | Some why \<Rightarrow> [Not_Consulted why])))"

fun apply_waiver_loop ::
    "digest \<Rightarrow> waivers \<Rightarrow> finding list \<Rightarrow> finding list \<times> string list \<times> refusal_reason list" where
  "apply_waiver_loop digest ws [] = ([], [], [])"
| "apply_waiver_loop digest ws (f # fs) =
     (let (out, waived, refusals) = apply_waiver_loop digest ws fs
      in if \<not> finding_waivable f then (f # out, waived, refusals)
         else
           (case dict_get (wr_by_key ws) (scope_key digest (wr_scope ws) f) of
              Some w \<Rightarrow> (waive f w # out, wv_item_id w # waived, refusals)
            | None \<Rightarrow> (fst (refuse f ws) # out, waived, snd (refuse f ws) @ refusals)))"

definition apply_waivers ::
    "digest \<Rightarrow> finding list \<Rightarrow> waivers option \<Rightarrow> finding list \<times> string list \<times> refusal_reason list" where
  "apply_waivers digest findings waivers =
     (case waivers of
        None \<Rightarrow> (findings, [], [])
      | Some ws \<Rightarrow>
          (let (out, waived, refusals) = apply_waiver_loop digest ws findings
           in (out, waived, fromkeys refusals)))"

section \<open>Approvals of a commit\<close>

definition split_comma :: "string \<Rightarrow> string list" where
  "split_comma s = split_on (CHR '','') s"

text \<open>\<open>str(evidence.get("check", ""))\<close>: a missing key is the empty string.\<close>

definition named_checks :: "(json \<Rightarrow> string) \<Rightarrow> inbox_item \<Rightarrow> string list" where
  "named_checks rep i =
     map strip (split_comma (py_str rep (jget (ii_evidence i) ''check'' (JStr []))))"

definition covering_override ::
    "(json \<Rightarrow> string) \<Rightarrow> inbox_item list \<Rightarrow> string \<Rightarrow> string list \<Rightarrow> (string \<times> string \<times> string) option" where
  "covering_override rep items head_sha failing =
     map_option (\<lambda>i. (ii_id i, ii_decided_by i, ii_decided_at i))
       (find (\<lambda>i. failing \<noteq> [] \<and> evidence_get i ''head_sha'' = JStr head_sha \<and>
                  list_all (\<lambda>c. c \<in> set (named_checks rep i)) failing) items)"

definition approvals_on :: "approval_snapshot \<Rightarrow> string \<Rightarrow> string \<Rightarrow> string list" where
  "approvals_on snapshot component head_sha =
     map ii_id (filter (\<lambda>i. head_sha \<noteq> [] \<and> ii_component i = component \<and>
                            evidence_get i ''head_sha'' = JStr head_sha \<and> evidence_refusal i = None)
                  (sn_approved snapshot))"

definition overrides_on :: "approval_snapshot \<Rightarrow> string \<Rightarrow> string \<Rightarrow> string list" where
  "overrides_on snapshot component head_sha =
     map ii_id (filter (\<lambda>i. head_sha \<noteq> [] \<and> ii_component i = component \<and>
                            evidence_get i ''head_sha'' = JStr head_sha)
                  (sn_overrides snapshot))"

datatype head_reason =
    Wrong_Phase json | Other_Checks "string list" | No_Branch string | Head_Unconsulted unconsulted
  | No_Approval_On string | Approval_On "string list" string

definition overridden_head :: "approval_snapshot \<Rightarrow> component \<Rightarrow> string \<Rightarrow> string \<times> head_reason" where
  "overridden_head snapshot c tip =
     (if tip = [] then ([], No_Branch (c_branch_name c))
      else
        (case sn_unconsulted snapshot of
           Some why \<Rightarrow> ([], Head_Unconsulted why)
         | None \<Rightarrow>
             (let ids = overrides_on snapshot (c_id c) tip
              in if ids = [] then ([], No_Approval_On (take 12 tip))
                 else (tip, Approval_On (map (take 8) ids) (take 12 tip)))))"

text \<open>\<open>s.split(", ")\<close>\<close>

fun split_comma_space :: "string \<Rightarrow> string list" where
  "split_comma_space [] = [[]]"
| "split_comma_space [c] = [[c]]"
| "split_comma_space (c # d # cs) =
     (if c = CHR '','' \<and> d = CHR '' '' then [] # split_comma_space cs
      else (case split_comma_space (d # cs) of [] \<Rightarrow> [[c]] | w # ws \<Rightarrow> (c # w) # ws))"

text \<open>
  \<open>failed_check\<close> is read as the string it is declared to be (\<open>split\<close> raises on anything else).
\<close>

definition approved_head :: "approval_snapshot \<Rightarrow> component \<Rightarrow> string \<Rightarrow> string \<times> head_reason" where
  "approved_head snapshot c tip =
     (if c_failed_phase c = JStr acceptance_phase then overridden_head snapshot c tip
      else if c_failed_phase c \<noteq> JStr ''verify'' then ([], Wrong_Phase (c_failed_phase c))
      else
        (let other = map (\<lambda>k. if k = [] then ''(none recorded)'' else k)
               (filter (\<lambda>k. k \<notin> set waivable_checks) (split_comma_space (jstr_of (c_failed_check c))))
         in if other \<noteq> [] then ([], Other_Checks other)
            else if tip = [] then ([], No_Branch (c_branch_name c))
            else
              (case sn_unconsulted snapshot of
                 Some why \<Rightarrow> ([], Head_Unconsulted why)
               | None \<Rightarrow>
                   (let ids = approvals_on snapshot (c_id c) tip
                    in if ids = [] then ([], No_Approval_On (take 12 tip))
                       else (tip, Approval_On (map (take 8) ids) (take 12 tip))))))"

section \<open>What approving an item does\<close>

datatype approval_effect =
    Merges_Over json string string
  | Retires_Carried string string string
  | Runs_Unreproduced string string
  | Records_Only string refusal_why
  | Waives_Finding string string "string option"

definition object_string :: "json \<Rightarrow> string \<Rightarrow> string" where
  "object_string v k = jstr_of (jget (object_of v) k JNull)"

definition approval_effect :: "(json \<Rightarrow> string) \<Rightarrow> inbox_item \<Rightarrow> approval_effect option" where
  "approval_effect rep i =
     (if acceptance_halt rep i
      then Some (Merges_Over (evidence_get i ''check'') (ii_component i)
             (take 12 (py_str rep (evidence_get i ''head_sha''))))
      else if carried_halt i
      then (let carried = evidence_get i ''carried''
            in Some (Retires_Carried (object_string carried ''check'') (object_string carried ''component'')
                 (take 12 (object_string carried ''planId''))))
      else if unreproduced_halt i
      then (let said = evidence_get i ''unreproduced''
            in Some (Runs_Unreproduced (take 12 (object_string said ''planId''))
                 (take 12 (object_string said ''baseSha''))))
      else if ii_kind i \<notin> set (map fst waivable_kinds) then None
      else
        (case evidence_refusal i of
           Some why \<Rightarrow> Some (Records_Only (take 8 (ii_id i)) why)
         | None \<Rightarrow>
             (let head = evidence_get i ''head_sha''
              in Some (Waives_Finding (ii_component i) (evidence_string i ''explanation'')
                   (if is_jstr head \<and> jstr_of head \<noteq> [] then Some (take 12 (jstr_of head)) else None)))))"

end
