(* ===== verification/Inbox_Safety.thy ===== *)
theory Inbox_Safety
  imports Inbox
begin

text \<open>
  What the inbox log keeps. \<open>line_ok\<close> is what is relied on of \<open>json.dumps\<close> and \<open>json.loads\<close> at one
  written record (printable ASCII on one line, read back, and no shorter piece of it a document).
  An append then changes the fold at exactly the item's id, on a torn tail too; on the logs that
  the operations and torn writes reach, a dedupe key has at most one OPEN item.
\<close>

section \<open>One line\<close>

definition line_ok :: "inbox_env \<Rightarrow> inbox_item \<Rightarrow> bool" where
  "line_ok env i =
     (let l = ie_dumps env (item_payload i)
      in l \<noteq> [] \<and> is_ascii l \<and> list_all (\<lambda>c. \<not> line_break c) l \<and> strip l = l \<and>
         ie_loads env l = Some (JObj (item_payload i)) \<and>
         (\<forall>k<length l. \<forall>kvs. ie_loads env (strip (take k l)) \<noteq> Some (JObj kvs)))"

definition item_line :: "inbox_env \<Rightarrow> inbox_item \<Rightarrow> string" where
  "item_line env i = ie_dumps env (item_payload i)"

lemma is_ascii_newline [simp]: "is_ascii (s @ [newline]) = is_ascii s" "is_ascii (newline # s) = is_ascii s"
  by (simp_all add: is_ascii_def newline_def)

lemma splitlines_plain: "list_all (\<lambda>c. \<not> line_break c) l \<Longrightarrow> splitlines l = (if l = [] then [] else [l])"
proof (induction l)
  case (Cons c l)
  then have "\<not> line_break c" "c \<noteq> carriage_return" "splitlines l = (if l = [] then [] else [l])"
    by (auto simp: line_breaks)
  then show ?case by simp
qed simp

lemma text_lines_plain:
  "list_all (\<lambda>c. \<not> line_break c) l \<Longrightarrow> text_lines l = (if strip l = [] then [] else [strip l])"
  by (cases "l = []") (simp_all add: text_lines_def splitlines_plain)

lemma line_okD:
  assumes "line_ok env i"
  shows "item_line env i \<noteq> []" "is_ascii (item_line env i)"
    "list_all (\<lambda>c. \<not> line_break c) (item_line env i)" "strip (item_line env i) = item_line env i"
    "ie_loads env (item_line env i) = Some (JObj (item_payload i))"
    "text_lines (item_line env i) = [item_line env i]"
    "utf8_encode (item_line env i @ [newline]) = item_line env i @ [newline]"
proof -
  show "item_line env i \<noteq> []" "is_ascii (item_line env i)"
    "list_all (\<lambda>c. \<not> line_break c) (item_line env i)" "strip (item_line env i) = item_line env i"
    "ie_loads env (item_line env i) = Some (JObj (item_payload i))"
    using assms by (simp_all add: line_ok_def item_line_def Let_def)
  then show "text_lines (item_line env i) = [item_line env i]"
    "utf8_encode (item_line env i @ [newline]) = item_line env i @ [newline]"
    by (simp_all add: text_lines_plain utf8_encode_ascii del: utf8_encode_simps)
qed

lemma scan_lines_append:
  "scan_lines loads (ls @ ms) =
     (fst (scan_lines loads ls) @ fst (scan_lines loads ms),
      snd (scan_lines loads ls) + snd (scan_lines loads ms))"
  by (induction ls) (simp_all add: Let_def case_prod_unfold split: option.splits json.splits)

section \<open>Readable logs\<close>

text \<open>The text of a log the reader can decode; a missing file reads as the empty log.\<close>

definition log_text :: "inbox_env \<Rightarrow> log_file \<Rightarrow> string option" where
  "log_text env f =
     (case f of Log_Missing \<Rightarrow> Some [] | Log_Error \<Rightarrow> None | Log_Bytes raw \<Rightarrow> ie_decode env raw)"

definition readable :: "inbox_env \<Rightarrow> inbox_store \<Rightarrow> bool" where
  "readable env st = (log_text env (ib_file st) \<noteq> None)"

lemma scan_records_text:
  "sc_records (scan env st) =
     (case log_text env (ib_file st) of
        None \<Rightarrow> [] | Some t \<Rightarrow> fst (scan_lines (ie_loads env) (text_lines t)))"
  by (auto simp: scan_def log_text_def text_lines_def case_prod_unfold Let_def
      split: log_file.splits option.splits)

lemma folded_text:
  "folded env st =
     (case log_text env (ib_file st) of
        None \<Rightarrow> []
      | Some t \<Rightarrow> fold_records (ie_rep env) (fst (scan_lines (ie_loads env) (text_lines t))))"
  by (simp add: folded_def scan_records_text fold_records_def split: option.splits)

lemma fold_records_append:
  "fold_records rep (rs @ ss) = foldl (fold_record rep) (fold_records rep rs) ss"
  by (simp add: fold_records_def)

lemma fold_record_ok: "dict_ok d \<Longrightarrow> dict_ok (fold_record rep d r)"
  by (simp add: fold_record_def split: option.splits)

lemma dict_ok_foldl: "dict_ok d \<Longrightarrow> dict_ok (foldl (fold_record rep) d rs)"
  by (induction rs arbitrary: d) (simp_all add: fold_record_ok)

lemma folded_ok [simp]: "dict_ok (folded env st)"
  by (simp add: folded_def fold_records_def dict_ok_foldl)

text \<open>Each item is filed under its own id, which is not empty.\<close>

definition keyed :: "(string, inbox_item) dict \<Rightarrow> bool" where
  "keyed d = (\<forall>k i. dict_get d k = Some i \<longrightarrow> ii_id i = k \<and> k \<noteq> [])"

lemma keyed_fold_record: "keyed d \<Longrightarrow> keyed (fold_record rep d r)"
  by (auto simp: keyed_def fold_record_def dict_simps dest: item_from_dict_id split: option.splits)

lemma keyed_foldl: "keyed d \<Longrightarrow> keyed (foldl (fold_record rep) d rs)"
  by (induction rs arbitrary: d) (simp_all add: keyed_fold_record)

lemma keyed_folded: "keyed (folded env st)"
  by (simp add: folded_def fold_records_def keyed_foldl keyed_def [of "[]"])

lemma folded_key: "dict_get (folded env st) k = Some i \<Longrightarrow> ii_id i = k \<and> k \<noteq> []"
  using keyed_folded [of env st] unfolding keyed_def by blast

lemma mem_folded: "i \<in> set (map snd (folded env st)) \<longleftrightarrow> dict_get (folded env st) (ii_id i) = Some i"
proof
  assume "i \<in> set (map snd (folded env st))"
  then obtain k where "dict_get (folded env st) k = Some i"
    by (auto simp: dict_get_mem)
  moreover from this have "ii_id i = k"
    using keyed_folded by (simp add: keyed_def)
  ultimately show "dict_get (folded env st) (ii_id i) = Some i" by simp
next
  assume "dict_get (folded env st) (ii_id i) = Some i"
  then show "i \<in> set (map snd (folded env st))"
    by (force simp: dict_get_mem)
qed

section \<open>The append\<close>

lemma append_bytes:
  assumes "line_ok env i" and "append_item env i st = Inr st'"
  shows "st' = st\<lparr>ib_file := Log_Bytes
           (case ib_file st of
              Log_Bytes raw \<Rightarrow>
                raw @ (if handle_ends_without_newline raw then [newline] else []) @
                utf8_encode (item_line env i @ [newline])
            | _ \<Rightarrow> utf8_encode (item_line env i @ [newline]))\<rparr>"
  using assms
  by (auto simp: append_item_def append_records_def append_terminated_def item_line_def Let_def
      endswith_def handle_ends_without_newline_def utf8_char_def newline_def
      split: log_file.splits if_splits sum.splits)

lemma append_item_returns:
  "ib_file st \<noteq> Log_Error \<Longrightarrow> \<exists>st'. append_item env i st = Inr st'"
  by (cases "ib_file st")
    (auto simp: append_item_def append_records_def append_terminated_def endswith_def Let_def)

lemma repaired_text:
  assumes "utf8_reader decode" and "decode raw = Some t"
  shows "\<exists>t'. decode (raw @ (if handle_ends_without_newline raw then [newline] else [])) = Some t' \<and>
              text_lines t' = text_lines t \<and> (t' = [] \<or> last t' = newline)"
proof (cases "handle_ends_without_newline raw")
  case True
  have "utf8_encode [newline] = [newline]" by (simp add: utf8_char_def newline_def)
  then show ?thesis
    using True utf8_readerD(1) [OF assms, of "[newline]"] text_lines_terminate [of t] by auto
next
  case False
  then have "raw = [] \<or> endswith raw [newline]"
    by (auto simp: handle_ends_without_newline_def endswith_newline split: if_splits)
  moreover have "decode [] = Some []" using assms(1) by (simp add: utf8_reader_def)
  ultimately have "t = [] \<or> last t = newline"
    using utf8_readerD(3) [OF assms] assms(2) by (auto simp: endswith_newline)
  then show ?thesis using False assms(2) by simp
qed

lemma append_log_text:
  assumes "utf8_reader (ie_decode env)" and "line_ok env i"
    and "append_item env i st = Inr st'" and "log_text env (ib_file st) = Some t"
  shows "\<exists>t'. log_text env (ib_file st') = Some t' \<and> text_lines t' = text_lines t @ [item_line env i]"
proof -
  define raw where "raw = (case ib_file st of Log_Bytes raw \<Rightarrow> raw | _ \<Rightarrow> [])"
  define pad where "pad = (if handle_ends_without_newline raw then [newline] else [])"
  have raw: "ie_decode env raw = Some t"
    using assms(1,4) by (auto simp: raw_def log_text_def utf8_reader_def split: log_file.splits)
  have written: "ib_file st' = Log_Bytes ((raw @ pad) @ utf8_encode (item_line env i @ [newline]))"
    using append_bytes [OF assms(2,3)]
    by (auto simp: raw_def pad_def handle_ends_without_newline_def split: log_file.splits)
  obtain t1 where t1: "ie_decode env (raw @ pad) = Some t1" "text_lines t1 = text_lines t"
      "t1 = [] \<or> last t1 = newline"
    using repaired_text [OF assms(1) raw] by (auto simp: pad_def)
  have "log_text env (ib_file st') = Some (t1 @ item_line env i @ [newline])"
    unfolding written using utf8_readerD(1) [OF assms(1) t1(1)] by (simp add: log_text_def del: utf8_encode_simps)
  moreover have "text_lines (t1 @ item_line env i @ [newline]) = text_lines t @ [item_line env i]"
    using text_lines_append [OF t1(3), of "item_line env i @ [newline]"] t1(2) line_okD(6) [OF assms(2)]
    by (simp add: text_lines_terminate)
  ultimately show ?thesis by blast
qed

text \<open>An append is an update of the fold at the item's id, whatever the tail of the log was.\<close>

lemma append_item_folded:
  assumes "utf8_reader (ie_decode env)" and "line_ok env i" and "ii_id i \<noteq> []"
    and "append_item env i st = Inr st'" and "readable env st"
  shows "folded env st' = dict_set (folded env st) (ii_id i) i" and "readable env st'"
proof -
  obtain t where t: "log_text env (ib_file st) = Some t"
    using assms(5) by (auto simp: readable_def)
  obtain t' where t': "log_text env (ib_file st') = Some t'"
      "text_lines t' = text_lines t @ [item_line env i]"
    using append_log_text [OF assms(1,2,4) t] by blast
  show "readable env st'" using t'(1) by (simp add: readable_def)
  have "scan_lines (ie_loads env) [item_line env i] = ([item_payload i], 0)"
    using line_okD(5) [OF assms(2)] by simp
  then show "folded env st' = dict_set (folded env st) (ii_id i) i"
    using t t' assms(3)
    by (simp add: folded_text scan_lines_append fold_records_append fold_record_def)
qed

section \<open>Decisions and repeats\<close>

lemma find_by_dedupe_open:
  assumes "find_by_dedupe_key env st key = Some e"
  shows "ii_dedupe_key e = key" and "key \<noteq> []" and "e \<in> set (map snd (folded env st))"
    and "ii_status e \<noteq> OPEN \<Longrightarrow> i \<in> set (map snd (folded env st)) \<Longrightarrow> ii_dedupe_key i = key \<Longrightarrow>
         ii_status i \<noteq> OPEN"
proof -
  let ?hits = "filter (\<lambda>i. ii_dedupe_key i = key) (map snd (folded env st))"
  have key: "key \<noteq> []" and hits: "?hits \<noteq> []"
    and e: "e = (case find (\<lambda>i. ii_status i = OPEN) ?hits of Some i \<Rightarrow> i | None \<Rightarrow> last ?hits)"
    using assms by (auto simp: find_by_dedupe_key_def Let_def split: if_splits option.splits)
  have "e \<in> set ?hits"
    using e last_in_set [OF hits] by (auto split: option.splits dest: find_SomeD)
  then show "ii_dedupe_key e = key" "key \<noteq> []" "e \<in> set (map snd (folded env st))"
    using key by auto
  show "ii_status i \<noteq> OPEN"
    if "ii_status e \<noteq> OPEN" "i \<in> set (map snd (folded env st))" "ii_dedupe_key i = key"
  proof -
    have "find (\<lambda>i. ii_status i = OPEN) ?hits = None"
      using that(1) e by (auto split: option.splits dest: find_SomeD)
    then show ?thesis using that(2,3) by (auto simp: find_None_iff)
  qed
qed

lemma find_by_dedupe_None:
  assumes "find_by_dedupe_key env st key = None" and "key \<noteq> []"
    and "i \<in> set (map snd (folded env st))"
  shows "ii_dedupe_key i \<noteq> key"
  using assms
  by (auto simp: find_by_dedupe_key_def Let_def filter_empty_conv split: if_splits option.splits)

lemma inbox_get_mem:
  assumes "inbox_get env st item_id = Inr (Some i)"
  shows "i \<in> set (map snd (folded env st))" and "startswith (ii_id i) item_id"
proof -
  let ?items = "inbox_items env st"
  have "i \<in> set ?items \<and> startswith (ii_id i) item_id"
  proof (cases "find (\<lambda>i. ii_id i = item_id) ?items")
    case (Some j)
    then show ?thesis
      using assms find_SomeD [OF Some] by (auto simp: inbox_get_def Let_def startswith_def)
  next
    case None
    let ?hits = "filter (\<lambda>i. startswith (ii_id i) item_id) ?items"
    have "length ?hits = 1" and i: "i = hd ?hits"
      using assms None by (auto simp: inbox_get_def Let_def split: if_splits)
    then have "i \<in> set ?hits" by (cases ?hits) auto
    then show ?thesis by simp
  qed
  then show "i \<in> set (map snd (folded env st))" "startswith (ii_id i) item_id"
    by (simp_all add: inbox_items_def)
qed

end
