(* ===== verification/Inbox_Contract.thy ===== *)
theory Inbox_Contract
  imports Inbox_Safety
begin

text \<open>
  The contract of the inbox: the logs that its operations and interrupted writes reach, what holds
  of all of them, and the properties of \<open>append_terminated\<close> and of the decisions.
\<close>

section \<open>The logs that are reached\<close>

text \<open>\<open>i\<close> is the item that an \<open>add\<close> or a decision at some time writes to \<open>st\<close>.\<close>

inductive item_write :: "inbox_env \<Rightarrow> inbox_store \<Rightarrow> inbox_item \<Rightarrow> bool" for env st where
  of_add: "inbox_add (env\<lparr>ie_now := n\<rparr>) config uuid q st = Inr (st', i, paged) \<Longrightarrow>
     uuid \<noteq> [] \<Longrightarrow> dict_get (folded env st) uuid = None \<Longrightarrow> item_write env st i"
| of_decide: "decide (env\<lparr>ie_now := n\<rparr>) item_id status actor comment until only_from st = Inr (st', Some i) \<Longrightarrow>
     status \<noteq> OPEN \<Longrightarrow> item_write env st i"

definition log_bytes :: "inbox_store \<Rightarrow> bytes" where
  "log_bytes st = (case ib_file st of Log_Bytes raw \<Rightarrow> raw | _ \<Rightarrow> [])"

text \<open>A crash in the middle of the one write leaves a piece of it.\<close>

inductive inbox_reachable :: "inbox_env \<Rightarrow> inbox_store \<Rightarrow> bool" for env where
  empty: "inbox_reachable env \<lparr>ib_file = Log_Missing, ib_in_tree = t\<rparr>"
| written: "inbox_reachable env st \<Longrightarrow> item_write env st i \<Longrightarrow> line_ok env i \<Longrightarrow>
     append_item env i st = Inr st' \<Longrightarrow> inbox_reachable env st'"
| torn: "inbox_reachable env st \<Longrightarrow> item_write env st i \<Longrightarrow> line_ok env i \<Longrightarrow>
     append_item env i st = Inr st' \<Longrightarrow> prefix (log_bytes st) b \<Longrightarrow> prefix b (log_bytes st') \<Longrightarrow>
     inbox_reachable env (st\<lparr>ib_file := Log_Bytes b\<rparr>)"

inductive_cases item_writeE: "item_write env st i"

definition at_most_one_open :: "(string, inbox_item) dict \<Rightarrow> bool" where
  "at_most_one_open d =
     (\<forall>k i l j. dict_get d k = Some i \<longrightarrow> dict_get d l = Some j \<longrightarrow> ii_status i = OPEN \<longrightarrow>
        ii_status j = OPEN \<longrightarrow> ii_dedupe_key i = ii_dedupe_key j \<longrightarrow> ii_dedupe_key i \<noteq> [] \<longrightarrow> k = l)"

section \<open>The clock plays no part in the fold\<close>

lemma scan_now [simp]: "scan (env\<lparr>ie_now := n\<rparr>) st = scan env st"
  by (simp add: scan_def split: log_file.splits option.splits)

lemma env_now [simp]:
  "folded (env\<lparr>ie_now := n\<rparr>) st = folded env st"
  "append_item (env\<lparr>ie_now := n\<rparr>) i st = append_item env i st"
  "inbox_items (env\<lparr>ie_now := n\<rparr>) st = inbox_items env st"
  "inbox_get (env\<lparr>ie_now := n\<rparr>) st k = inbox_get env st k"
  "find_by_dedupe_key (env\<lparr>ie_now := n\<rparr>) st key = find_by_dedupe_key env st key"
  by (simp_all add: folded_def append_item_def inbox_items_def inbox_get_def find_by_dedupe_key_def)

section \<open>What is written\<close>

lemma bump_item_fields [simp]:
  "ii_id (bump_item env q i) = ii_id i" "ii_status (bump_item env q i) = ii_status i"
  "ii_dedupe_key (bump_item env q i) = ii_dedupe_key i"
  by (simp_all add: bump_item_def)

lemma decided_item_fields [simp]:
  "ii_id (decided_item env s a c u i) = ii_id i" "ii_status (decided_item env s a c u i) = s"
  "ii_dedupe_key (decided_item env s a c u i) = ii_dedupe_key i"
  by (simp_all add: decided_item_def)

lemma fresh_item_fields [simp]:
  "ii_id (fresh_item env uuid q) = uuid" "ii_status (fresh_item env uuid q) = OPEN"
  "ii_dedupe_key (fresh_item env uuid q) = ad_dedupe_key q"
  by (simp_all add: fresh_item_def)

lemma inbox_add_cases:
  assumes "inbox_add env config uuid q st = Inr (st', i, paged)"
  obtains (bump) e where "find_by_dedupe_key env st (ad_dedupe_key q) = Some e" "ii_status e = OPEN"
      "i = bump_item env q e" "append_item env i st = Inr st'" "\<not> paged"
    | (new) "i = fresh_item env uuid q" "append_item env i st = Inr st'"
      "\<And>e. find_by_dedupe_key env st (ad_dedupe_key q) = Some e \<Longrightarrow> ii_status e \<noteq> OPEN"
  using assms
  by (auto simp: inbox_add_def Let_def and_then_Inr split: option.splits if_splits)

lemma decide_cases:
  assumes "decide env item_id status actor comment until only_from st = Inr (st', r)"
  obtains (refused) i ss where "inbox_get env st item_id = Inr (Some i)" "only_from = Some ss"
      "ii_status i \<notin> set ss" "st' = st" "r = None"
    | (decided) i where "inbox_get env st item_id = Inr (Some i)"
      "\<And>ss. only_from = Some ss \<Longrightarrow> ii_status i \<in> set ss"
      "r = Some (decided_item env status actor comment until i)"
      "append_item env (decided_item env status actor comment until i) st = Inr st'"
proof -
  obtain found where f: "inbox_get env st item_id = Inr found"
    using assms by (auto simp: decide_def and_then_Inr)
  then obtain i where i: "found = Some i"
    using assms by (cases found) (simp_all add: decide_def)
  show thesis
  proof (cases "case only_from of None \<Rightarrow> False | Some ss \<Rightarrow> ii_status i \<notin> set ss")
    case True
    then obtain ss where ss: "only_from = Some ss" "ii_status i \<notin> set ss"
      by (cases only_from) simp_all
    have "st' = st \<and> r = None"
      using assms f i ss by (simp add: decide_def)
    then show thesis
      using refused [OF f [unfolded i] ss] by blast
  next
    case False
    then have "r = Some (decided_item env status actor comment until i) \<and>
        append_item env (decided_item env status actor comment until i) st = Inr st'"
      using assms f i by (auto simp: decide_def and_then_Inr)
    moreover have "\<And>ss. only_from = Some ss \<Longrightarrow> ii_status i \<in> set ss"
      using False by (cases only_from) simp_all
    ultimately show thesis
      using decided [OF f [unfolded i]] by blast
  qed
qed

lemma item_write_id: "item_write env st i \<Longrightarrow> ii_id i \<noteq> []"
proof (erule item_writeE, goal_cases)
  case (1 n config uuid q st' paged)
  from 1(1) show ?case
  proof (cases rule: inbox_add_cases)
    case (bump e)
    then have "dict_get (folded env st) (ii_id e) = Some e"
      using find_by_dedupe_open(3) [of "env\<lparr>ie_now := n\<rparr>" st] mem_folded [of e env st] by simp
    then show ?thesis using bump(3) folded_key [of env st "ii_id e" e] by simp
  qed (use 1(2) in simp)
next
  case (2 n item_id status actor comment until only_from st')
  from 2(1) show ?case
  proof (cases rule: decide_cases)
    case (decided j)
    then have "dict_get (folded env st) (ii_id j) = Some j"
      using inbox_get_mem(1) [of "env\<lparr>ie_now := n\<rparr>" st] mem_folded [of j env st] by simp
    then show ?thesis using decided(3) folded_key [of env st "ii_id j" j] by simp
  qed simp
qed

lemma at_most_one_openD:
  assumes "at_most_one_open d" and "dict_get d k = Some i" and "dict_get d l = Some j"
    and "ii_status i = OPEN" and "ii_status j = OPEN" and "ii_dedupe_key i = ii_dedupe_key j"
    and "ii_dedupe_key i \<noteq> []"
  shows "k = l"
  using assms unfolding at_most_one_open_def by blast

lemma at_most_one_open_set:
  assumes "at_most_one_open d"
    and "\<And>k j. dict_get d k = Some j \<Longrightarrow> k \<noteq> ii_id i \<Longrightarrow> ii_status i = OPEN \<Longrightarrow> ii_status j = OPEN \<Longrightarrow>
           ii_dedupe_key j = ii_dedupe_key i \<Longrightarrow> ii_dedupe_key i = []"
  shows "at_most_one_open (dict_set d (ii_id i) i)"
  unfolding at_most_one_open_def
proof (intro allI impI)
  fix k a l b
  assume *: "dict_get (dict_set d (ii_id i) i) k = Some a" "dict_get (dict_set d (ii_id i) i) l = Some b"
    "ii_status a = OPEN" "ii_status b = OPEN" "ii_dedupe_key a = ii_dedupe_key b" "ii_dedupe_key a \<noteq> []"
  show "k = l"
  proof (cases "k = ii_id i"; cases "l = ii_id i")
    assume "k \<noteq> ii_id i" "l \<noteq> ii_id i"
    then show ?thesis using * at_most_one_openD [OF assms(1)] by (simp add: dict_simps)
  next
    assume "k = ii_id i" "l \<noteq> ii_id i"
    then show ?thesis using * assms(2) [of l b] by (simp add: dict_simps)
  next
    assume "k \<noteq> ii_id i" "l = ii_id i"
    then show ?thesis using * assms(2) [of k a] by (simp add: dict_simps)
  qed simp
qed

lemma folded_mem: "dict_get (folded env st) k = Some j \<Longrightarrow> j \<in> set (map snd (folded env st))"
  by (force simp: dict_get_mem)

lemma item_write_keeps_one_open:
  assumes "item_write env st i" and "at_most_one_open (folded env st)"
  shows "at_most_one_open (dict_set (folded env st) (ii_id i) i)"
proof (rule at_most_one_open_set [OF assms(2)])
  fix k j
  assume j: "dict_get (folded env st) k = Some j" "k \<noteq> ii_id i" "ii_status i = OPEN"
    "ii_status j = OPEN" "ii_dedupe_key j = ii_dedupe_key i"
  from assms(1) show "ii_dedupe_key i = []"
  proof (cases rule: item_write.cases)
    case (of_add n config uuid q st' paged)
    from of_add(1) show ?thesis
    proof (cases rule: inbox_add_cases)
      case (bump e)
      then have "dict_get (folded env st) (ii_id e) = Some e"
        using find_by_dedupe_open(3) [of "env\<lparr>ie_now := n\<rparr>" st] mem_folded [of e env st] by simp
      then show ?thesis
        using at_most_one_openD [OF assms(2), of "ii_id e" e k j] bump(2,3) j by auto
    next
      case new
      show ?thesis
      proof (rule ccontr)
        assume key: "ii_dedupe_key i \<noteq> []"
        have mem: "j \<in> set (map snd (folded env st))" by (rule folded_mem [OF j(1)])
        show False
        proof (cases "find_by_dedupe_key env st (ad_dedupe_key q)")
          case None
          then show False using find_by_dedupe_None [OF None _ mem] key new(1) j(5) by simp
        next
          case (Some e)
          then show False
            using find_by_dedupe_open(4) [OF Some _ mem] new(3) [of e] new(1) j(4,5) by simp
        qed
      qed
    qed
  next
    case (of_decide n item_id status actor comment until only_from st')
    from of_decide(1) show ?thesis
      by (cases rule: decide_cases) (use of_decide(2) j(3) in simp_all)
  qed
qed

section \<open>Torn writes\<close>

lemma torn_records:
  assumes ok: "line_ok env i" and v: "prefix v (item_line env i @ [newline])"
  shows "fst (scan_lines (ie_loads env) (text_lines v)) \<in> {[], [item_payload i]}"
proof -
  let ?l = "item_line env i"
  have line: "fst (scan_lines (ie_loads env) [?l]) = [item_payload i]"
    using line_okD(5) [OF ok] by simp
  consider "v = ?l @ [newline]" | "v = ?l" | k where "k < length ?l" "v = take k ?l"
    using v by (metis linorder_not_le prefix_def prefix_snoc take_all_iff append_eq_conv_conj)
  then show ?thesis
  proof cases
    case 3
    have "list_all (\<lambda>c. \<not> line_break c) v"
      using line_okD(3) [OF ok] 3(2) by (auto simp: list_all_iff dest: in_set_takeD)
    then have lines: "text_lines v = (if strip v = [] then [] else [strip v])"
      by (rule text_lines_plain)
    have "ie_loads env (strip v) \<noteq> Some (JObj kvs)" for kvs
      using ok 3 by (simp add: line_ok_def item_line_def Let_def)
    then have "fst (scan_lines (ie_loads env) [strip v]) = []"
      by (simp split: option.splits json.splits)
    then show ?thesis using lines by simp
  qed (use line line_okD(6) [OF ok] in \<open>simp_all add: text_lines_terminate\<close>)
qed

lemma torn_folded:
  assumes dec: "utf8_reader (ie_decode env)" and ok: "line_ok env i" and id: "ii_id i \<noteq> []"
    and app: "append_item env i st = Inr st'" and rd: "readable env st"
    and b: "prefix (log_bytes st) b" "prefix b (log_bytes st')"
  shows "readable env (st\<lparr>ib_file := Log_Bytes b\<rparr>)"
    and "folded env (st\<lparr>ib_file := Log_Bytes b\<rparr>) \<in>
           {folded env st, dict_set (folded env st) (ii_id i) i}"
proof -
  let ?u = "log_bytes st" and ?l = "item_line env i @ [newline]"
  define pad where "pad = (if handle_ends_without_newline ?u then [newline] else [])"
  obtain t where t: "log_text env (ib_file st) = Some t"
    using rd by (auto simp: readable_def)
  then have u: "ie_decode env ?u = Some t"
    using dec by (auto simp: log_text_def log_bytes_def utf8_reader_def split: log_file.splits)
  have after: "log_bytes st' = ?u @ pad @ ?l"
    using append_bytes [OF ok app] line_okD(7) [OF ok]
    by (auto simp: log_bytes_def pad_def handle_ends_without_newline_def split: log_file.splits)
  obtain t1 where t1: "ie_decode env (?u @ pad) = Some t1" "text_lines t1 = text_lines t"
      "t1 = [] \<or> last t1 = newline"
    using repaired_text [OF dec u] by (auto simp: pad_def)
  obtain w where w: "b = ?u @ w" "prefix w (pad @ ?l)"
    using b after by (auto simp: prefix_def)
  have "\<exists>t'. ie_decode env b = Some t' \<and>
      (fst (scan_lines (ie_loads env) (text_lines t')) =
        fst (scan_lines (ie_loads env) (text_lines t)) \<or>
       fst (scan_lines (ie_loads env) (text_lines t')) =
        fst (scan_lines (ie_loads env) (text_lines t)) @ [item_payload i])"
  proof (cases "w = []")
    case True
    then show ?thesis using u w by simp
  next
    case False
    then obtain v where v: "w = pad @ v" "prefix v ?l"
      using w(2) by (auto simp: pad_def prefix_Cons split: if_splits)
    have "is_ascii v"
      using set_mono_prefix [OF v(2)] line_okD(2) [OF ok] is_ascii_newline(1) [of "item_line env i"]
      by (auto simp: is_ascii_def list_all_iff)
    then have "utf8_encode v = v" by (rule utf8_encode_ascii)
    then have "ie_decode env b = Some (t1 @ v)"
      using utf8_readerD(1) [OF dec t1(1), of v] w(1) v(1) by simp
    then show ?thesis
      using torn_records [OF ok v(2)] t1(2) text_lines_append [OF t1(3), of v]
      by (auto simp: scan_lines_append)
  qed
  then show "readable env (st\<lparr>ib_file := Log_Bytes b\<rparr>)"
    and "folded env (st\<lparr>ib_file := Log_Bytes b\<rparr>) \<in>
           {folded env st, dict_set (folded env st) (ii_id i) i}"
    using t id by (auto simp: readable_def log_text_def folded_text fold_records_append fold_record_def)
qed

lemma reachable_folded:
  assumes "inbox_reachable env st" and dec: "utf8_reader (ie_decode env)"
  shows "readable env st \<and> at_most_one_open (folded env st)"
  using assms(1)
proof induction
  case (empty t)
  then show ?case
    by (simp add: readable_def log_text_def folded_text text_lines_def fold_records_def at_most_one_open_def)
next
  case (written st i st')
  then show ?case
    using append_item_folded [OF dec written.hyps(3) item_write_id [OF written.hyps(2)] written.hyps(4)]
      item_write_keeps_one_open [OF written.hyps(2)] by simp
next
  case (torn st i st' b)
  then show ?case
    using torn_folded [OF dec torn.hyps(3) item_write_id [OF torn.hyps(2)] torn.hyps(4)]
      item_write_keeps_one_open [OF torn.hyps(2)] by fastforce
qed

section \<open>A small log to run the properties on\<close>

definition demo_request :: add_request where
  "demo_request =
     \<lparr>ad_kind = HALTED_RUN, ad_title = ''t'', ad_detail = [], ad_component = ''c'', ad_run_id = [],
      ad_dedupe_key = ''k'', ad_evidence = [], ad_priority = None\<rparr>"

definition demo_blank_env :: inbox_env where
  "demo_blank_env =
     \<lparr>ie_decode = utf8_decode, ie_loads = (\<lambda>_. None), ie_dumps = (\<lambda>_. ''{}''),
      ie_rep = (\<lambda>_. []), ie_fromiso = (\<lambda>_. Some 5), ie_iso = (\<lambda>_. ''now''), ie_now = 0\<rparr>"

definition demo_halt :: inbox_item where
  "demo_halt = fresh_item demo_blank_env ''a'' demo_request"

definition demo_rejected :: inbox_item where
  "demo_rejected = decided_item demo_blank_env REJECTED ''me'' ''no'' None demo_halt"

text \<open>A codec of the two records: \<open>{}\<close> is the opened item, \<open>{1}\<close> the rejected one.\<close>

definition demo_inbox_env :: inbox_env where
  "demo_inbox_env = demo_blank_env\<lparr>
     ie_loads := (\<lambda>l. if l = ''{}'' then Some (JObj (item_payload demo_halt))
                     else if l = ''{1}'' then Some (JObj (item_payload demo_rejected)) else None),
     ie_dumps := (\<lambda>r. if r = item_payload demo_rejected then ''{1}'' else ''{}'')\<rparr>"

definition demo_empty :: inbox_store where
  "demo_empty = \<lparr>ib_file = Log_Missing, ib_in_tree = False\<rparr>"

definition demo_store :: inbox_store where
  "demo_store = \<lparr>ib_file = Log_Bytes (''{}'' @ [newline]), ib_in_tree = False\<rparr>"

lemma demo_payloads: "item_payload demo_halt \<noteq> item_payload demo_rejected"
  by (simp add: item_payload_def item_to_dict_def demo_halt_def demo_rejected_def)

lemma demo_dumps [simp]:
  "ie_dumps demo_inbox_env (item_payload demo_halt) = ''{}''"
  "ie_dumps demo_inbox_env (item_payload demo_rejected) = ''{1}''"
  using demo_payloads by (simp_all add: demo_inbox_env_def)

lemma demo_loads [simp]:
  "ie_loads demo_inbox_env ''{}'' = Some (JObj (item_payload demo_halt))"
  "ie_loads demo_inbox_env ''{1}'' = Some (JObj (item_payload demo_rejected))"
  "ie_loads demo_inbox_env [] = None" "ie_loads demo_inbox_env ''{'' = None" "ie_loads demo_inbox_env ''{1'' = None"
  by (simp_all add: demo_inbox_env_def)

lemma demo_ids [simp]: "ii_id demo_halt = ''a''" "ii_id demo_rejected = ''a''"
  by (simp_all add: demo_halt_def demo_rejected_def)

lemma less_two_three: "k < Suc (Suc 0) \<longleftrightarrow> k = 0 \<or> k = 1" "k < Suc (Suc (Suc 0)) \<longleftrightarrow> k = 0 \<or> k = 1 \<or> k = 2"
  by auto

lemma demo_line_ok: "line_ok demo_inbox_env demo_halt" "line_ok demo_inbox_env demo_rejected"
  by (auto simp: line_ok_def Let_def is_ascii_def line_break_def strip_def is_space_def
      less_two_three take_Cons' numeral_2_eq_2)

lemma demo_decode: "utf8_reader (ie_decode demo_inbox_env)"
  by (simp add: demo_inbox_env_def demo_blank_env_def utf8_reader_decode)

lemma demo_append: "append_item demo_inbox_env demo_halt demo_empty = Inr demo_store"
  by (simp add: append_item_def append_records_def append_terminated_def endswith_def suffix_def
      handle_ends_without_newline_def demo_empty_def demo_store_def utf8_char_def newline_def)

lemma demo_readable: "readable demo_inbox_env demo_empty"
  by (simp add: readable_def demo_empty_def log_text_def)

lemma demo_folded: "folded demo_inbox_env demo_empty = []" "folded demo_inbox_env demo_store = [(''a'', demo_halt)]"
proof -
  show empty: "folded demo_inbox_env demo_empty = []"
    by (simp add: folded_text demo_empty_def log_text_def text_lines_def fold_records_def)
  show "folded demo_inbox_env demo_store = [(''a'', demo_halt)]"
    using append_item_folded(1) [OF demo_decode demo_line_ok(1) _ demo_append demo_readable] empty
    by (simp add: dict_set_def)
qed

section \<open>Properties\<close>

text \<open>An append writes its records as whole lines and loses no earlier line: the lines of the
  file afterwards are the lines it had, an unterminated tail now being a line of its own, then the
  repair line exactly when the tail was torn, then the payload's lines; the file ends in a newline.\<close>

theorem append_keeps_lines:
  assumes "append_terminated content payload repair = Inr (content', torn)" and "payload \<noteq> []"
  shows "byte_lines content' =
           byte_lines content @ (if torn then byte_lines (utf8_encode repair) else []) @
           byte_lines (utf8_encode payload) \<and>
         (torn \<longleftrightarrow> content \<noteq> [] \<and> last content \<noteq> newline) \<and>
         prefix content content' \<and> last content' = newline"
proof (intro conjI)
  obtain added where "content' = content @ added" "last content' = newline"
    using append_terminated_lines(3) [OF assms] by blast
  then show "prefix content content'" "last content' = newline"
    by (auto simp: prefix_def)
qed (fact append_terminated_lines(1,2) [OF assms])+

theorem append_keeps_lines_witness:
  "byte_lines (''a'' @ [newline] @ ''b'' @ [newline]) = byte_lines ''a'' @ [] @ byte_lines (''b'' @ [newline])"
  using append_keeps_lines [of "''a''" "''b'' @ [newline]" "[]" "''a'' @ [newline] @ ''b'' @ [newline]" True]
  by (simp add: append_terminated_def endswith_def suffix_def handle_ends_without_newline_def
      utf8_char_def newline_def byte_lines_def)

text \<open>A crash in the middle of an append leaves the inbox as it was before or as it is after
  the append, and the next append, whichever piece is on disk, loses neither: its own item is filed
  and every other item is as the crash left it.\<close>

theorem inbox_crash_then_append:
  assumes "utf8_reader (ie_decode env)" and "line_ok env i" and "line_ok env j"
    and "ii_id i \<noteq> []" and "ii_id j \<noteq> []" and "readable env st"
    and "append_item env i st = Inr st'"
    and "prefix (log_bytes st) b" and "prefix b (log_bytes st')"
    and "append_item env j (st\<lparr>ib_file := Log_Bytes b\<rparr>) = Inr st''"
  shows "folded env (st\<lparr>ib_file := Log_Bytes b\<rparr>) \<in>
           {folded env st, dict_set (folded env st) (ii_id i) i} \<and>
         folded env st'' = dict_set (folded env (st\<lparr>ib_file := Log_Bytes b\<rparr>)) (ii_id j) j"
  using torn_folded [OF assms(1,2,4,7,6,8,9)]
    append_item_folded(1) [OF assms(1,3,5,10)] by simp

theorem inbox_crash_then_append_witness:
  "folded demo_inbox_env (demo_empty\<lparr>ib_file := Log_Bytes ''{''\<rparr>) \<in>
     {folded demo_inbox_env demo_empty, dict_set (folded demo_inbox_env demo_empty) ''a'' demo_halt} \<and>
   folded demo_inbox_env \<lparr>ib_file = Log_Bytes (''{'' @ [newline] @ ''{1}'' @ [newline]), ib_in_tree = False\<rparr> =
     dict_set (folded demo_inbox_env (demo_empty\<lparr>ib_file := Log_Bytes ''{''\<rparr>)) ''a'' demo_rejected"
proof -
  have "append_item demo_inbox_env demo_rejected (demo_empty\<lparr>ib_file := Log_Bytes ''{''\<rparr>) =
      Inr \<lparr>ib_file = Log_Bytes (''{'' @ [newline] @ ''{1}'' @ [newline]), ib_in_tree = False\<rparr>"
    by (simp add: append_item_def append_records_def append_terminated_def endswith_def suffix_def
        handle_ends_without_newline_def demo_empty_def utf8_char_def newline_def)
  then show ?thesis
    using inbox_crash_then_append [OF demo_decode demo_line_ok _ _ demo_readable demo_append, of "''{''"]
    by (simp add: log_bytes_def demo_empty_def demo_store_def)
qed

text \<open>C37: On every log that adds, decisions and interrupted writes reach, at most one item of a
  dedupe key is OPEN: a repeat of an open exception is counted on it and opens no second row.\<close>

theorem one_open_item_per_key:
  assumes "inbox_reachable env st" and "utf8_reader (ie_decode env)"
    and "dict_get (folded env st) k = Some i" and "dict_get (folded env st) l = Some j"
    and "ii_status i = OPEN" and "ii_status j = OPEN"
    and "ii_dedupe_key i = ii_dedupe_key j" and "ii_dedupe_key i \<noteq> []"
  shows "k = l"
  using reachable_folded [OF assms(1,2)] at_most_one_openD [OF _ assms(3-8)] by blast

lemma demo_added:
  "inbox_add (demo_inbox_env\<lparr>ie_now := 0\<rparr>) inbox_defaults ''a'' demo_request demo_empty = Inr (demo_store, demo_halt, True)"
proof -
  have i: "fresh_item (demo_inbox_env\<lparr>ie_now := 0\<rparr>) ''a'' demo_request = demo_halt"
    by (simp add: demo_halt_def fresh_item_def demo_inbox_env_def demo_blank_env_def)
  have "find_by_dedupe_key demo_inbox_env demo_empty (ad_dedupe_key demo_request) = None"
    by (simp add: find_by_dedupe_key_def demo_folded)
  moreover have "push_opened_item (demo_inbox_env\<lparr>ie_now := 0\<rparr>) inbox_defaults demo_halt None"
    by (simp add: push_opened_item_def inbox_defaults_def notifiable_def demo_halt_def item_is_open_def
        action_required_def fresh_item_def demo_request_def)
  ultimately show ?thesis
    using demo_append by (simp add: inbox_add_def i)
qed

lemma demo_log_reachable: "inbox_reachable demo_inbox_env demo_store"
proof -
  have "item_write demo_inbox_env demo_empty demo_halt"
    using item_write.of_add [OF demo_added] by (simp add: demo_folded)
  then show ?thesis
    using inbox_reachable.written [OF inbox_reachable.empty [of demo_inbox_env False, folded demo_empty_def]
        _ demo_line_ok(1) demo_append] by blast
qed

theorem one_open_item_per_key_witness: "dict_get (folded demo_inbox_env demo_store) ''a'' \<noteq> None \<and> ''a'' = ''a''"
  using one_open_item_per_key [OF demo_log_reachable demo_decode, of "''a''" demo_halt "''a''" demo_halt]
  by (simp add: demo_folded dict_simps demo_halt_def fresh_item_def demo_request_def)

text \<open>A decision guarded by \<open>only_from\<close> UNDECIDED, which is what automation passes, never
  overwrites a decision: every item that was already approved, rejected or resolved keeps its row
  exactly, and if nothing is decided nothing is written.\<close>

theorem guarded_decision_keeps_decided:
  assumes "utf8_reader (ie_decode env)" and "readable env st"
    and "decide env item_id status actor comment until (Some undecided) st = Inr (st', r)"
    and "\<And>i. r = Some i \<Longrightarrow> line_ok env i"
  shows "(r = None \<longrightarrow> st' = st) \<and>
         (\<forall>k i. dict_get (folded env st) k = Some i \<longrightarrow> ii_status i \<notin> {OPEN, SNOOZED} \<longrightarrow>
           dict_get (folded env st') k = Some i)"
  using assms(3)
proof (cases rule: decide_cases)
  case (decided i)
  let ?i = "decided_item env status actor comment until i"
  have old: "dict_get (folded env st) (ii_id i) = Some i"
    using inbox_get_mem(1) [OF decided(1)] mem_folded by blast
  have open_i: "ii_status i \<in> {OPEN, SNOOZED}"
    using decided(2) [OF refl] by (auto simp: undecided_def)
  have "folded env st' = dict_set (folded env st) (ii_id i) ?i"
    using append_item_folded(1) [OF assms(1) assms(4) _ decided(4) assms(2)] decided(3)
      folded_key [OF old] by simp
  then show ?thesis
    using old open_i decided(3) by (auto simp: dict_simps)
qed simp

definition demo_decided_store :: inbox_store where
  "demo_decided_store =
     \<lparr>ib_file = Log_Bytes (''{}'' @ [newline] @ ''{1}'' @ [newline]), ib_in_tree = False\<rparr>"

lemma demo_decided_append: "append_item demo_inbox_env demo_rejected demo_store = Inr demo_decided_store"
  by (simp add: append_item_def append_records_def append_terminated_def endswith_def suffix_def
      handle_ends_without_newline_def demo_store_def demo_decided_store_def utf8_char_def newline_def)

lemma demo_store_readable: "readable demo_inbox_env demo_store"
  using append_item_folded(2) [OF demo_decode demo_line_ok(1) _ demo_append demo_readable] by simp

lemma demo_decided_folded:
  "folded demo_inbox_env demo_decided_store = [(''a'', demo_rejected)]"
  "readable demo_inbox_env demo_decided_store"
  using append_item_folded [OF demo_decode demo_line_ok(2) _ demo_decided_append demo_store_readable]
  by (simp_all add: demo_folded dict_set_def)

text \<open>An automated resolve of the rejected item.\<close>

theorem guarded_decision_keeps_decided_witness:
  "decide demo_inbox_env ''a'' RESOLVED ''auto'' [] None (Some undecided) demo_decided_store =
     Inr (demo_decided_store, None) \<and>
   dict_get (folded demo_inbox_env demo_decided_store) ''a'' = Some demo_rejected"
proof -
  have "inbox_get demo_inbox_env demo_decided_store ''a'' = Inr (Some demo_rejected)"
    by (simp add: inbox_get_def inbox_items_def demo_decided_folded)
  moreover have "ii_status demo_rejected = REJECTED"
    by (simp add: demo_rejected_def)
  ultimately have d: "decide demo_inbox_env ''a'' RESOLVED ''auto'' [] None (Some undecided) demo_decided_store =
      Inr (demo_decided_store, None)"
    by (simp add: decide_def undecided_def)
  have "dict_get (folded demo_inbox_env demo_decided_store) ''a'' = Some demo_rejected"
    by (simp add: demo_decided_folded dict_simps)
  then show ?thesis
    using guarded_decision_keeps_decided [OF demo_decode demo_decided_folded(2) d] d
    by (simp add: demo_rejected_def)
qed

section \<open>A repeat after a lapsed snooze\<close>

text \<open>
  \<open>is_open\<close> says that a lapsed snooze reads as open, and \<open>add\<close> that a repeat of a still-open item
  bumps its count; but \<open>add\<close> looks at the status alone, so a repeat after the lapse opens a second
  row and both read as open.
\<close>

lemma lapsed_snooze_opens_second_row:
  assumes "utf8_reader (ie_decode env)" and "readable env st"
    and "find_by_dedupe_key env st (ad_dedupe_key q) = Some e" and "ii_status e = SNOOZED"
    and "item_is_open env e" and "inbox_add env config uuid q st = Inr (st', i, paged)"
    and "line_ok env i" and "uuid \<noteq> []" and "dict_get (folded env st) uuid = None"
  shows "dict_get (folded env st') (ii_id e) = Some e \<and> dict_get (folded env st') uuid = Some i \<and>
         ii_id e \<noteq> uuid \<and> item_is_open env e \<and> item_is_open env i \<and> ii_dedupe_key e = ii_dedupe_key i"
  using assms(6)
proof (cases rule: inbox_add_cases)
  case new
  have e: "dict_get (folded env st) (ii_id e) = Some e" "ii_dedupe_key e = ad_dedupe_key q"
    using find_by_dedupe_open(1,3) [OF assms(3)] mem_folded by blast+
  have "folded env st' = dict_set (folded env st) uuid i"
    using append_item_folded(1) [OF assms(1,7) _ new(2) assms(2)] assms(8) by (simp add: new(1))
  moreover have "item_is_open env i"
    by (simp add: item_is_open_def new(1))
  moreover have "ii_id e \<noteq> uuid"
    using e(1) assms(9) by auto
  ultimately show ?thesis
    using e assms(5) by (simp add: dict_simps new(1))
qed (use assms(3,4) in simp)

end
