(* ===== verification/Waivers_Contract.thy ===== *)
theory Waivers_Contract
  imports Waivers Inbox_Contract
begin

text \<open>
  What an approval grants: a blocking finding becomes advisory only by an approved item that names
  exactly it, on exactly this change; nothing is granted when a line of the inbox cannot be read;
  a rejection withdraws an approval; a retry keeps a commit only when an approval was taken on it.
\<close>

section \<open>The approvals of a scope\<close>

definition grants :: "digest \<Rightarrow> waiver_scope \<Rightarrow> string \<Rightarrow> inbox_item \<Rightarrow> string \<Rightarrow> waiver \<Rightarrow> bool" where
  "grants digest scope diff_sha i key w =
     (ii_component i = ws_component scope \<and> item_refusal digest i scope diff_sha = None \<and>
      evidence_string i ''waiver_key'' = key \<and>
      w = \<lparr>wv_item_id = ii_id i, wv_category = evidence_string i ''category'',
           wv_decided_by = ii_decided_by i, wv_decided_at = ii_decided_at i\<rparr>)"

lemma scope_items_by_key:
  assumes "foldl (scope_item digest scope diff_sha) acc items = (by_key, refused)"
    and "dict_get by_key key = Some w"
  shows "dict_get (fst acc) key = Some w \<or> (\<exists>i\<in>set items. grants digest scope diff_sha i key w)"
  using assms(1)
proof (induction items arbitrary: acc)
  case Nil
  then show ?case using assms(2) by simp
next
  case (Cons i items)
  then have *: "dict_get (fst (scope_item digest scope diff_sha acc i)) key = Some w \<or>
      (\<exists>i\<in>set items. grants digest scope diff_sha i key w)" by simp
  have "dict_get (fst (scope_item digest scope diff_sha acc i)) key = Some w \<Longrightarrow>
      dict_get (fst acc) key = Some w \<or> grants digest scope diff_sha i key w"
    by (cases acc)
      (auto simp: scope_item_def grants_def dict_simps split: if_splits option.splits)
  with * show ?case by auto
qed

lemma for_scope_by_key:
  assumes "dict_get (wr_by_key (for_scope digest snapshot scope diff_sha)) key = Some w"
  shows "sn_unconsulted snapshot = None \<and>
         (\<exists>i\<in>set (sn_approved snapshot). grants digest scope diff_sha i key w)"
proof (cases "sn_unconsulted snapshot")
  case None
  obtain by_key refused where
    eq: "foldl (scope_item digest scope diff_sha) ([], []) (sn_approved snapshot) = (by_key, refused)"
    by (metis surj_pair)
  then have "dict_get by_key key = Some w"
    using assms None by (simp add: for_scope_def)
  then show ?thesis using scope_items_by_key [OF eq] None by auto
qed (use assms in \<open>simp add: for_scope_def\<close>)

lemma for_scope_scope [simp]: "wr_scope (for_scope digest snapshot scope diff_sha) = scope"
  by (simp add: for_scope_def case_prod_unfold Let_def split: option.splits)

lemma evidence_refusal_NoneD:
  assumes "evidence_refusal i = None"
  shows "ii_kind i = POLICY_EXCEPTION"
    and "startswith (evidence_string i ''category'') policy_category_prefix"
    and "evidence_string i ''category'' \<notin> set non_waivable_categories"
    and "hex64 (evidence_string i ''diff_sha'')" and "hex64 (evidence_string i ''waiver_key'')"
  using assms
  by (auto simp: evidence_refusal_def waivable_kinds_def evidence_string_def evidence_get_def jget_def
      split: option.splits if_splits json.splits)

lemma item_refusal_NoneD:
  assumes "item_refusal digest i scope diff_sha = None"
  shows "evidence_refusal i = None" and "evidence_string i ''diff_sha'' = diff_sha"
    and "waiver_key digest scope (evidence_string i ''category'') (evidence_string i ''location'')
           (evidence_string i ''explanation'') = evidence_string i ''waiver_key''"
  using assms by (auto simp: item_refusal_def split: option.splits if_splits)

lemma load_approvals_approved:
  assumes "i \<in> set (sn_approved (load_approvals env st))"
  shows "ii_kind i = POLICY_EXCEPTION" and "ii_status i = APPROVED"
    and "dict_get (folded env st) (ii_id i) = Some i"
proof -
  have "i \<in> set (folded_items env (scan env st)) \<and> ii_kind i = POLICY_EXCEPTION \<and> ii_status i = APPROVED"
    using assms
    by (auto simp: load_approvals_def Let_def no_approvals_def waivable_kinds_def split: if_splits)
  then show "ii_kind i = POLICY_EXCEPTION" "ii_status i = APPROVED"
    "dict_get (folded env st) (ii_id i) = Some i"
    using mem_folded [of i env st] by (simp_all add: folded_items_def folded_def)
qed

lemma load_approvals_consulted:
  "sn_unconsulted (load_approvals env st) = None \<Longrightarrow>
     \<not> sc_unreadable (scan env st) \<and> unparseable_count env (scan env st) = 0"
  by (auto simp: load_approvals_def Let_def no_approvals_def split: if_splits)

section \<open>The findings after the waivers\<close>

definition waived_finding :: "digest \<Rightarrow> waivers \<Rightarrow> finding \<Rightarrow> finding" where
  "waived_finding digest ws f =
     (if \<not> finding_waivable f then f
      else case dict_get (wr_by_key ws) (scope_key digest (wr_scope ws) f) of
             Some w \<Rightarrow> waive f w
           | None \<Rightarrow> fst (refuse f ws))"

lemma apply_waiver_loop_out: "fst (apply_waiver_loop digest ws fs) = map (waived_finding digest ws) fs"
  by (induction fs) (simp_all add: waived_finding_def Let_def case_prod_unfold split: option.splits)

lemma apply_waivers_out: "fst (apply_waivers digest fs (Some ws)) = map (waived_finding digest ws) fs"
  using apply_waiver_loop_out [of digest ws fs] by (simp add: apply_waivers_def case_prod_unfold Let_def)

lemma refuse_fields [simp]:
  "fi_severity (fst (refuse f ws)) = fi_severity f"
  "fi_explanation (fst (refuse f ws)) = fi_explanation f"
  by (simp_all add: refuse_def Let_def)

lemma waived_finding_advisory:
  assumes "fi_severity (waived_finding digest ws f) = ''advisory''" and "fi_severity f \<noteq> ''advisory''"
  shows "\<exists>w. dict_get (wr_by_key ws) (scope_key digest (wr_scope ws) f) = Some w \<and> finding_waivable f \<and>
             waived_finding digest ws f = waive f w"
  using assms by (auto simp: waived_finding_def split: if_splits option.splits)

section \<open>An approved item to run the properties on\<close>

definition demo_digest :: digest where "demo_digest = (\<lambda>_. replicate 64 (CHR ''a''))"

definition demo_diff :: string where "demo_diff = replicate 64 (CHR ''b'')"

definition demo_scope :: waiver_scope where
  "demo_scope = \<lparr>ws_project = ''p'', ws_spec_file = ''s'', ws_plan_id = ''i'', ws_component = ''c''\<rparr>"

definition demo_finding :: finding where
  "demo_finding =
     \<lparr>fi_phase = ''verify'', fi_category = ''policy_size'', fi_severity = ''critical'',
      fi_location = ''l'', fi_explanation = ''e'', fi_suggestion = [], fi_owasp = [], fi_cwe = [],
      fi_tags = []\<rparr>"

definition demo_approved :: inbox_item where
  "demo_approved = demo_halt\<lparr>ii_kind := POLICY_EXCEPTION, ii_status := APPROVED, ii_component := ''c'',
     ii_evidence :=
       [(''category'', JStr ''policy_size''), (''location'', JStr ''l''), (''explanation'', JStr ''e''),
        (''waiver_key'', JStr (replicate 64 (CHR ''a''))), (''diff_sha'', JStr demo_diff),
        (''head_sha'', JStr ''h'')]\<rparr>"

text \<open>A log of one line, which reads back as the item.\<close>

definition one_env :: "inbox_item \<Rightarrow> inbox_env" where
  "one_env i = demo_blank_env\<lparr>
     ie_loads := (\<lambda>l. if l = ''{}'' then Some (JObj (item_payload i)) else None)\<rparr>"

lemma one_env_scan:
  "scan (one_env i) demo_store = \<lparr>sc_records = [item_payload i], sc_skipped = 0, sc_unreadable = False\<rparr>"
  by (simp add: scan_def demo_store_def one_env_def demo_blank_env_def newline_def text_lines_def
      line_break_def carriage_return_def strip_def is_space_def Let_def)

lemma one_env_folded: "ii_id i \<noteq> [] \<Longrightarrow> folded (one_env i) demo_store = [(ii_id i, i)]"
  by (simp add: folded_def one_env_scan fold_records_def fold_record_def dict_set_def)

lemma demo_approved_id [simp]: "ii_id demo_approved = ''a''"
  by (simp add: demo_approved_def)

lemma demo_snapshot:
  "load_approvals (one_env demo_approved) demo_store =
     \<lparr>sn_approved = [demo_approved], sn_unconsulted = None, sn_overrides = [], sn_retirements = [],
      sn_unreproduced = []\<rparr>"
proof -
  have "folded_items (one_env demo_approved) (scan (one_env demo_approved) demo_store) = [demo_approved]"
    using one_env_folded [of demo_approved] by (simp add: folded_items_def folded_def)
  moreover have "unparseable_count (one_env demo_approved) (scan (one_env demo_approved) demo_store) = 0"
    by (simp add: unparseable_count_def one_env_scan)
  moreover have "ii_kind demo_approved = POLICY_EXCEPTION" "ii_status demo_approved = APPROVED"
    by (simp_all add: demo_approved_def)
  ultimately show ?thesis
    by (simp add: load_approvals_def one_env_scan waivable_kinds_def acceptance_overrides_def
        carried_retirements_def unreproduced_approvals_def acceptance_halt_def carried_halt_def
        unreproduced_halt_def)
qed

lemma demo_evidence [simp]:
  "evidence_get demo_approved ''category'' = JStr ''policy_size''"
  "evidence_get demo_approved ''location'' = JStr ''l''"
  "evidence_get demo_approved ''explanation'' = JStr ''e''"
  "evidence_get demo_approved ''diff_sha'' = JStr demo_diff"
  "evidence_get demo_approved ''head_sha'' = JStr ''h''"
  "map_of (ii_evidence demo_approved) ''waiver_key'' = Some (JStr (replicate 64 (CHR ''a'')))"
  "ii_kind demo_approved = POLICY_EXCEPTION" "ii_component demo_approved = ''c''"
  by (simp_all add: evidence_get_def demo_approved_def jget_def)

lemma demo_evidence_ok: "evidence_refusal demo_approved = None"
proof -
  have "hex64 (replicate 64 (CHR ''a''))" "hex64 demo_diff"
    by (simp_all add: hex64_def demo_diff_def hex_lower_def list_all_iff)
  then show ?thesis
    by (simp add: evidence_refusal_def waivable_kinds_def policy_category_prefix_def startswith_def
        non_waivable_categories_def)
qed

lemma demo_grant: "item_refusal demo_digest demo_approved demo_scope demo_diff = None"
proof -
  have "evidence_string demo_approved ''waiver_key'' = replicate 64 (CHR ''a'')"
    by (simp add: evidence_string_def evidence_get_def jget_def)
  then show ?thesis
    using demo_evidence_ok
    by (simp add: item_refusal_def waiver_key_def demo_digest_def evidence_string_def)
qed

lemma demo_waived:
  "fi_severity (fst (apply_waivers demo_digest [demo_finding] (Some (for_scope demo_digest
     (load_approvals (one_env demo_approved) demo_store) demo_scope demo_diff))) ! 0) = ''advisory''"
proof -
  have key: "evidence_string demo_approved ''waiver_key'' = replicate 64 (CHR ''a'')"
    by (simp add: evidence_string_def evidence_get_def jget_def)
  have "finding_waivable demo_finding"
    by (simp add: finding_waivable_def demo_finding_def waivable_kinds_def startswith_def
        policy_category_prefix_def)
  moreover have "scope_key demo_digest demo_scope demo_finding = replicate 64 (CHR ''a'')"
    by (simp add: scope_key_def waiver_key_def demo_digest_def)
  ultimately show ?thesis
    by (simp add: apply_waivers_out waived_finding_def demo_snapshot for_scope_def scope_item_def
        demo_grant key dict_simps waive_def) (simp add: demo_scope_def dict_set_def dict_get_def)
qed

lemma waived_finding_cases:
  obtains "waived_finding digest ws f = f"
    | w where "finding_waivable f" "dict_get (wr_by_key ws) (scope_key digest (wr_scope ws) f) = Some w"
      "waived_finding digest ws f = waive f w"
    | "finding_waivable f" "waived_finding digest ws f = fst (refuse f ws)"
  by (cases "finding_waivable f"; cases "dict_get (wr_by_key ws) (scope_key digest (wr_scope ws) f)")
    (simp_all add: waived_finding_def)

definition kept_finding :: "digest \<Rightarrow> waivers \<Rightarrow> finding \<Rightarrow> finding \<Rightarrow> bool" where
  "kept_finding digest ws f g =
     (fi_phase g = fi_phase f \<and> fi_category g = fi_category f \<and> fi_location g = fi_location f \<and>
      prefix (fi_explanation f) (fi_explanation g) \<and> prefix (fi_tags f) (fi_tags g) \<and>
      (g = f \<or>
       finding_waivable f \<and> fi_severity g = fi_severity f \<and> fi_explanation g = fi_explanation f \<or>
       finding_waivable f \<and>
       (\<exists>w. dict_get (wr_by_key ws) (scope_key digest (wr_scope ws) f) = Some w \<and> g = waive f w)))"

lemma waived_finding_keeps: "kept_finding digest ws f (waived_finding digest ws f)"
proof (cases rule: waived_finding_cases [of digest ws f])
  case 1
  then show ?thesis by (simp add: kept_finding_def)
next
  case (2 w)
  then show ?thesis
    unfolding kept_finding_def by (intro conjI disjI2 exI [of _ w]) (simp_all add: waive_def)
next
  case 3
  then show ?thesis
    unfolding kept_finding_def
    by (intro conjI disjI2 disjI1) (simp_all add: refuse_def Let_def)
qed

section \<open>Properties\<close>

text \<open>C36: A blocking finding becomes advisory only when the whole inbox was read, with no line left
  unparsed, and holds an APPROVED policy exception for the run's component whose evidence names the
  finding's category, location and explanation and the diff that is judged; and the category is not
  a non-overridable one. (The two keys that are compared are assumed not to collide under sha256.)\<close>

theorem waived_only_by_exact_approval:
  assumes "n < length fs" and "fi_severity (fs ! n) \<noteq> ''advisory''"
    and "fi_severity (fst (apply_waivers digest fs (Some (for_scope digest (load_approvals env st) scope diff_sha))) ! n) =
           ''advisory''"
    and "\<And>i. dict_get (folded env st) (ii_id i) = Some i \<Longrightarrow>
           waiver_key digest scope (evidence_string i ''category'') (evidence_string i ''location'')
             (evidence_string i ''explanation'') = scope_key digest scope (fs ! n) \<Longrightarrow>
           evidence_string i ''category'' = fi_category (fs ! n) \<and>
           evidence_string i ''location'' = fi_location (fs ! n) \<and>
           evidence_string i ''explanation'' = fi_explanation (fs ! n)"
  shows "\<not> sc_unreadable (scan env st) \<and> unparseable_count env (scan env st) = 0 \<and>
         fi_category (fs ! n) \<notin> set non_waivable_categories \<and>
         (\<exists>i. dict_get (folded env st) (ii_id i) = Some i \<and> ii_status i = APPROVED \<and>
              ii_kind i = POLICY_EXCEPTION \<and> ii_component i = ws_component scope \<and>
              evidence_string i ''category'' = fi_category (fs ! n) \<and>
              evidence_string i ''location'' = fi_location (fs ! n) \<and>
              evidence_string i ''explanation'' = fi_explanation (fs ! n) \<and>
              evidence_string i ''diff_sha'' = diff_sha \<and> hex64 diff_sha)"
proof -
  let ?ws = "for_scope digest (load_approvals env st) scope diff_sha" and ?f = "fs ! n"
  have "fi_severity (waived_finding digest ?ws ?f) = ''advisory''"
    using assms(1,3) by (simp add: apply_waivers_out)
  then obtain w where "dict_get (wr_by_key ?ws) (scope_key digest scope ?f) = Some w"
    using waived_finding_advisory [OF _ assms(2)] by fastforce
  from for_scope_by_key [OF this] obtain i where consulted: "sn_unconsulted (load_approvals env st) = None"
    and i: "i \<in> set (sn_approved (load_approvals env st))"
      "grants digest scope diff_sha i (scope_key digest scope ?f) w" by blast
  have none: "item_refusal digest i scope diff_sha = None" and comp_i: "ii_component i = ws_component scope"
    and key: "evidence_string i ''waiver_key'' = scope_key digest scope ?f"
    using i(2) by (simp_all add: grants_def)
  have filed: "dict_get (folded env st) (ii_id i) = Some i" "ii_status i = APPROVED"
      "ii_kind i = POLICY_EXCEPTION"
    using load_approvals_approved [OF i(1)] by simp_all
  have same: "evidence_string i ''category'' = fi_category ?f \<and>
      evidence_string i ''location'' = fi_location ?f \<and>
      evidence_string i ''explanation'' = fi_explanation ?f"
    using assms(4) [OF filed(1)] item_refusal_NoneD(3) [OF none] key by simp
  show ?thesis
    using load_approvals_consulted [OF consulted] filed same comp_i item_refusal_NoneD(2) [OF none]
      evidence_refusal_NoneD(3,4) [OF item_refusal_NoneD(1) [OF none]] by auto
qed

theorem waived_only_by_exact_approval_witness:
  "fi_category demo_finding \<notin> set non_waivable_categories \<and> hex64 demo_diff"
proof -
  have severity: "fi_severity ([demo_finding] ! 0) \<noteq> ''advisory''"
    by (simp add: demo_finding_def)
  have filed: "i = demo_approved" if "dict_get (folded (one_env demo_approved) demo_store) (ii_id i) = Some i" for i
    using that by (simp add: one_env_folded dict_simps split: if_splits)
  have same: "evidence_string demo_approved ''category'' = fi_category ([demo_finding] ! 0) \<and>
      evidence_string demo_approved ''location'' = fi_location ([demo_finding] ! 0) \<and>
      evidence_string demo_approved ''explanation'' = fi_explanation ([demo_finding] ! 0)"
    by (simp add: evidence_string_def demo_finding_def)
  show ?thesis
    using waived_only_by_exact_approval [OF _ severity demo_waived] filed same by auto
qed

text \<open>Waivers drop and reorder nothing: the findings that come out are the findings that went
  in, each with its phase, category and location, its explanation at most extended and its tags at
  most added to; one that is not waived keeps its severity and explanation, and one that does not
  block or is no policy finding is left as it is.\<close>

theorem waivers_keep_every_finding:
  "length (fst (apply_waivers digest fs (Some ws))) = length fs \<and>
   list_all2 (kept_finding digest ws) fs (fst (apply_waivers digest fs (Some ws)))"
proof -
  show ?thesis
    unfolding Let_def apply_waivers_out list_all2_map2
    by (intro conjI length_map list.rel_refl) (rule waived_finding_keeps)
qed

text \<open>A rejection withdraws an approval: once \<open>reject\<close> has written its line, no snapshot of
  the inbox approves that item, so the next run is not granted it.\<close>

theorem rejection_withdraws_approval:
  assumes "utf8_reader (ie_decode env)" and "readable env st"
    and "reject env item_id actor comment st = Inr (st', Some i)" and "line_ok env i"
  shows "\<not> blank comment \<and> ii_status i = REJECTED \<and> dict_get (folded env st') (ii_id i) = Some i \<and>
         ii_id i \<notin> set (map ii_id (sn_approved (load_approvals env st')))"
proof -
  have comment: "\<not> blank comment"
    and d: "decide env item_id REJECTED actor comment None None st = Inr (st', Some i)"
    using assms(3) by (simp_all add: reject_def split: if_splits)
  from d show ?thesis
  proof (cases rule: decide_cases)
    case (decided j)
    then have i: "i = decided_item env REJECTED actor comment None j" by simp
    have "dict_get (folded env st) (ii_id j) = Some j"
      using inbox_get_mem(1) [OF decided(1)] mem_folded by blast
    from folded_key [OF this] have "ii_id i \<noteq> []" by (simp add: i)
    then have "folded env st' = dict_set (folded env st) (ii_id i) i"
      using append_item_folded(1) [OF assms(1,4) _ decided(4) [folded i] assms(2)] by simp
    then have filed: "dict_get (folded env st') (ii_id i) = Some i" "ii_status i = REJECTED"
      by (simp_all add: dict_simps i)
    have "ii_id j \<noteq> ii_id i" if "j \<in> set (sn_approved (load_approvals env st'))" for j
    proof
      assume "ii_id j = ii_id i"
      then have "dict_get (folded env st') (ii_id i) = Some j"
        using load_approvals_approved(3) [OF that] by (simp only:)
      then have "j = i" using filed(1) by (simp only: option.inject)
      then show False using load_approvals_approved(2) [OF that] filed(2) by simp
    qed
    then have "ii_id i \<notin> set (map ii_id (sn_approved (load_approvals env st')))" by force
    then show ?thesis using comment filed by simp
  qed simp
qed

theorem rejection_withdraws_approval_witness:
  "ii_status demo_rejected = REJECTED \<and>
   ''a'' \<notin> set (map ii_id (sn_approved (load_approvals demo_inbox_env demo_decided_store)))"
proof -
  have get: "inbox_get demo_inbox_env demo_store ''a'' = Inr (Some demo_halt)"
    by (simp add: inbox_get_def inbox_items_def demo_folded)
  have i: "decided_item demo_inbox_env REJECTED ''me'' ''no'' None demo_halt = demo_rejected"
    by (simp add: demo_rejected_def decided_item_def demo_inbox_env_def demo_blank_env_def)
  have "reject demo_inbox_env ''a'' ''me'' ''no'' demo_store = Inr (demo_decided_store, Some demo_rejected)"
    using demo_decided_append by (simp add: reject_def blank_def is_space_def decide_def get i)
  then show ?thesis
    using rejection_withdraws_approval [OF demo_decode demo_store_readable _ demo_line_ok(2)]
    by simp
qed

text \<open>A retry keeps a commit only when it is the failed branch's tip and either Phase 1 failed
  on waivable checks alone and an approved policy exception of the component, with valid evidence,
  was taken on that tip, or the acceptance phase failed and an approved acceptance halt of the
  component was taken on it; and the inbox was read.\<close>

theorem kept_head_was_approved:
  assumes "fst (approved_head snapshot c tip) \<noteq> []"
  shows "fst (approved_head snapshot c tip) = tip \<and> sn_unconsulted snapshot = None \<and>
         (c_failed_phase c = JStr ''verify'' \<and>
          set (split_comma_space (jstr_of (c_failed_check c))) \<subseteq> set waivable_checks \<and>
          (\<exists>i \<in> set (sn_approved snapshot). ii_component i = c_id c \<and>
             evidence_get i ''head_sha'' = JStr tip \<and> evidence_refusal i = None) \<or>
          c_failed_phase c = JStr acceptance_phase \<and>
          (\<exists>i \<in> set (sn_overrides snapshot). ii_component i = c_id c \<and>
             evidence_get i ''head_sha'' = JStr tip))"
proof (cases "c_failed_phase c = JStr acceptance_phase")
  case True
  then show ?thesis
    using assms
    by (auto simp: approved_head_def overridden_head_def overrides_on_def Let_def filter_empty_conv
        split: if_splits option.splits)
next
  case False
  then show ?thesis
    using assms
    by (auto simp: approved_head_def approvals_on_def Let_def filter_empty_conv
        split: if_splits option.splits)
qed

definition demo_failed :: component where
  "demo_failed =
     \<lparr>c_id = ''c'', c_title = [], c_description = [], c_dependencies = [], c_prd_path = [],
      c_branch_name = ''b'', c_status = FAILED, c_error = JNull, c_plan_id = [], c_retries = JInt 0,
      c_first_attempt = 0, c_pr_number = JNull, c_pr_url = JNull, c_merge_sha = JNull,
      c_judged_sha = JNull, c_rejudge_sha = [], c_linear_issue_id = JNull,
      c_linear_issue_identifier = JNull, c_started_at = JNull, c_completed_at = JNull,
      c_duration_seconds = JNull, c_iteration_count = JNull, c_verification_passed = JNull,
      c_review_passed = JNull, c_findings = [], c_review_findings = JNull, c_scaffold = JNull,
      c_failed_phase = JStr ''verify'', c_failed_check = JStr ''policy_envelope'',
      c_evidence_worktree = JNull, c_evidence_debug_dir = JNull, c_journal_offset_start = JNull,
      c_journal_offset_end = JNull\<rparr>"

theorem kept_head_was_approved_witness:
  "fst (approved_head (load_approvals (one_env demo_approved) demo_store) demo_failed ''h'') = ''h''"
proof -
  have "fst (approved_head (load_approvals (one_env demo_approved) demo_store) demo_failed ''h'') \<noteq> []"
    by (simp add: approved_head_def demo_failed_def acceptance_phase_def waivable_checks_def demo_snapshot
        approvals_on_def demo_evidence_ok)
  then show ?thesis using kept_head_was_approved by blast
qed

end
