(* ===== verification/Serve_Spend.thy ===== *)
theory Serve_Spend
  imports Queue Findings
begin

text \<open>
  \<open>kstrl/serve/serve_spend.py\<close>: the daemon's ledger (today's spend with its coverage, the poison
  streak) and the spend of the run directories a launch owns; \<open>serve_config.py\<close>: the daemon's
  configuration. A dollar amount is a rational. \<open>today\<close> is the local date; what one run's event
  stream folds to (\<open>load_run_state\<close>) is the argument \<open>runs\<close>. The whole read-modify-write of
  the ledger is one step, as under \<open>control_lock\<close>.
\<close>

section \<open>Configuration\<close>

record serve_config =
  sv_poll_interval :: rat
  sv_daily_budget :: rat
  sv_max_consecutive_poison :: int
  sv_caffeinate :: bool
  sv_factory_timeout :: rat
  sv_allow_uncovered_cost :: bool
  sv_max_open_prs :: int

datatype serve_config_error =
    Poll_Not_Positive rat | Budget_Negative rat | Poison_Below_One int | Timeout_Negative rat
  | Open_Prs_Negative int

definition serve_config_check :: "serve_config \<Rightarrow> serve_config_error option" where
  "serve_config_check c =
     (if sv_poll_interval c \<le> 0 then Some (Poll_Not_Positive (sv_poll_interval c))
      else if sv_daily_budget c < 0 then Some (Budget_Negative (sv_daily_budget c))
      else if sv_max_consecutive_poison c < 1
      then Some (Poison_Below_One (sv_max_consecutive_poison c))
      else if sv_factory_timeout c < 0 then Some (Timeout_Negative (sv_factory_timeout c))
      else if sv_max_open_prs c < 0 then Some (Open_Prs_Negative (sv_max_open_prs c))
      else None)"

record admission =
  ad_allowed :: bool
  ad_pauses :: bool  \<comment> \<open>\<open>pause_reason\<close> is not empty\<close>
  ad_resume_after :: string

definition admit :: admission where
  "admit = \<lparr>ad_allowed = True, ad_pauses = False, ad_resume_after = []\<rparr>"

definition wait_refusal :: admission where
  "wait_refusal = \<lparr>ad_allowed = False, ad_pauses = False, ad_resume_after = []\<rparr>"

section \<open>The ledger\<close>

record daily_spend =
  ds_date :: string
  ds_spent :: rat
  ds_runs :: int
  ds_covered :: int
  ds_total :: int
  ds_unmetered :: "string list"

definition fresh_day :: "string \<Rightarrow> daily_spend" where
  "fresh_day stamp =
     \<lparr>ds_date = stamp, ds_spent = 0, ds_runs = 0, ds_covered = 0, ds_total = 0, ds_unmetered = []\<rparr>"

definition uncovered_calls :: "daily_spend \<Rightarrow> int" where
  "uncovered_calls s = max 0 (ds_total s - ds_covered s)"

definition spend_lower_bound :: "daily_spend \<Rightarrow> bool" where
  "spend_lower_bound s = (uncovered_calls s > 0 \<or> ds_unmetered s \<noteq> [])"

definition spend_to_dict :: "daily_spend \<Rightarrow> json_object" where
  "spend_to_dict s =
     [(''date'', JStr (ds_date s)), (''spent_usd'', JFloat (ds_spent s)), (''runs'', JInt (ds_runs s)),
      (''covered_calls'', JInt (ds_covered s)), (''total_calls'', JInt (ds_total s)),
      (''unmetered_phases'', JList (map JStr (ds_unmetered s)))]"

definition json_num :: "json \<Rightarrow> rat" where
  "json_num v = (case v of JInt n \<Rightarrow> of_int n | JFloat q \<Rightarrow> q | _ \<Rightarrow> 0)"

text \<open>\<open>int(x)\<close> of a float drops the fraction.\<close>

definition trunc :: "rat \<Rightarrow> int" where
  "trunc q = (if q < 0 then - \<lfloor>- q\<rfloor> else \<lfloor>q\<rfloor>)"

definition spend_from_dict :: "(json \<Rightarrow> string) \<Rightarrow> json_object \<Rightarrow> daily_spend" where
  "spend_from_dict rep data =
     (let num = (\<lambda>k. json_num (jget data k (JInt 0)))
      in \<lparr>ds_date = (let v = jget data ''date'' JNull in if truthy v then py_str rep v else []),
          ds_spent = num ''spent_usd'', ds_runs = trunc (num ''runs''),
          ds_covered = trunc (num ''covered_calls''), ds_total = trunc (num ''total_calls''),
          ds_unmetered =
            (case jget data ''unmetered_phases'' JNull of
               JList ps \<Rightarrow> map jstr_of (filter is_jstr ps) | _ \<Rightarrow> [])\<rparr>)"

record serve_state =
  st_spend :: daily_spend
  st_poison_streak :: int
  st_coverage_seen :: bool

definition serve_schema_version :: int where "serve_schema_version = 1"

definition state_to_dict :: "serve_state \<Rightarrow> json_object" where
  "state_to_dict s =
     [(''schema_version'', JInt serve_schema_version), (''spend'', JObj (spend_to_dict (st_spend s))),
      (''consecutive_poison'', JInt (st_poison_streak s)),
      (''cost_coverage_seen'', JBool (st_coverage_seen s))]"

definition state_from_dict :: "(json \<Rightarrow> string) \<Rightarrow> json_object \<Rightarrow> serve_state" where
  "state_from_dict rep data =
     \<lparr>st_spend =
        (case jget data ''spend'' JNull of JObj kvs \<Rightarrow> spend_from_dict rep kvs | _ \<Rightarrow> fresh_day []),
      st_poison_streak = (case jget data ''consecutive_poison'' (JInt 0) of JInt n \<Rightarrow> n | _ \<Rightarrow> 0),
      st_coverage_seen = truthy (jget data ''cost_coverage_seen'' (JBool False))\<rparr>"

text \<open>The file of the ledger, and \<open>control_untrusted_reason\<close>.\<close>

record spend_ledger =
  lg_untrusted :: bool
  lg_file :: "content option"

datatype ledger_error =
    Ledger_Untrusted | Ledger_Os_Error | Ledger_Not_Utf8 | Ledger_Malformed | Ledger_Not_Object

definition read_state ::
    "json_parser \<Rightarrow> (json \<Rightarrow> string) \<Rightarrow> string \<Rightarrow> spend_ledger \<Rightarrow> ledger_error + serve_state" where
  "read_state parse rep today lg =
     (if lg_untrusted lg then Inl Ledger_Untrusted
      else
        (case lg_file lg of
           None \<Rightarrow> Inr \<lparr>st_spend = fresh_day today, st_poison_streak = 0, st_coverage_seen = False\<rparr>
         | Some Unreadable \<Rightarrow> Inl Ledger_Os_Error
         | Some Not_Utf8 \<Rightarrow> Inl Ledger_Not_Utf8
         | Some f \<Rightarrow>
             (case (case f of Doc j \<Rightarrow> Some j | Text t \<Rightarrow> parse t | _ \<Rightarrow> None) of
                None \<Rightarrow> Inl Ledger_Malformed
              | Some (JObj data) \<Rightarrow>
                  (let s = state_from_dict rep data
                   in Inr (if ds_date (st_spend s) \<noteq> today then s\<lparr>st_spend := fresh_day today\<rparr> else s))
              | Some _ \<Rightarrow> Inl Ledger_Not_Object)))"

definition write_state :: "serve_state \<Rightarrow> spend_ledger \<Rightarrow> spend_ledger" where
  "write_state s lg = lg\<lparr>lg_file := Some (Doc (JObj (state_to_dict s)))\<rparr>"

text \<open>\<open>round(x, 6)\<close>\<close>

definition round6 :: "rat \<Rightarrow> rat" where
  "round6 x = of_int (round (x * 1000000)) / 1000000"

record launch_spend =
  ls_cost :: rat
  ls_cost_calls :: int
  ls_usage_calls :: int
  ls_unmetered :: "string list"
  ls_unreadable :: "string list"  \<comment> \<open>the runs whose spend could not be read\<close>

definition charged_spend :: "string \<Rightarrow> daily_spend \<Rightarrow> rat \<Rightarrow> int \<Rightarrow> int \<Rightarrow> string list \<Rightarrow> bool \<Rightarrow> daily_spend" where
  "charged_spend stamp cur usd covered calls phases metered =
     \<lparr>ds_date = stamp,
      ds_spent = round6 (ds_spent cur + max 0 usd),
      ds_runs = ds_runs cur + (if metered then 1 else 0),
      ds_covered = ds_covered cur + max 0 covered,
      ds_total = ds_total cur + max 0 calls,
      ds_unmetered = sort (remdups (ds_unmetered cur @ filter (\<lambda>p. p \<noteq> []) phases))\<rparr>"

definition charge ::
    "json_parser \<Rightarrow> (json \<Rightarrow> string) \<Rightarrow> string \<Rightarrow> rat \<Rightarrow> int \<Rightarrow> int \<Rightarrow> string list \<Rightarrow> bool \<Rightarrow>
     spend_ledger \<Rightarrow> ledger_error + spend_ledger \<times> daily_spend" where
  "charge parse rep today usd covered calls phases metered lg =
     and_then (read_state parse rep today lg) (\<lambda>s.
       let spend = charged_spend today (st_spend s) usd covered calls phases metered
       in Inr (write_state
             (s\<lparr>st_spend := spend, st_coverage_seen := st_coverage_seen s \<or> covered > 0\<rparr>) lg, spend))"

definition record_terminal ::
    "json_parser \<Rightarrow> (json \<Rightarrow> string) \<Rightarrow> string \<Rightarrow> bool \<Rightarrow> spend_ledger \<Rightarrow>
     ledger_error + spend_ledger \<times> int" where
  "record_terminal parse rep today poisoned lg =
     and_then (read_state parse rep today lg) (\<lambda>s.
       let streak = (if poisoned then st_poison_streak s + 1 else 0)
       in Inr (write_state (s\<lparr>st_poison_streak := streak\<rparr>) lg, streak))"

definition reset_poison_streak ::
    "json_parser \<Rightarrow> (json \<Rightarrow> string) \<Rightarrow> string \<Rightarrow> spend_ledger \<Rightarrow> ledger_error + spend_ledger \<times> int" where
  "reset_poison_streak parse rep today lg =
     and_then (read_state parse rep today lg) (\<lambda>s.
       Inr (if st_poison_streak s \<noteq> 0 then write_state (s\<lparr>st_poison_streak := 0\<rparr>) lg else lg,
            st_poison_streak s))"

section \<open>The spend of a launch\<close>

definition architect_role :: string where "architect_role = ''architect''"

record run_spend =
  rs_cost :: rat
  rs_cost_calls :: int
  rs_usage_calls :: int
  rs_architect_calls :: int
  rs_unreadable :: bool

definition empty_run_spend :: run_spend where
  "empty_run_spend =
     \<lparr>rs_cost = 0, rs_cost_calls = 0, rs_usage_calls = 0, rs_architect_calls = 0, rs_unreadable = False\<rparr>"

definition run_unmetered :: "run_spend \<Rightarrow> string list" where
  "run_unmetered r = (if rs_architect_calls r > 0 then [] else [architect_role])"

text \<open>A reading with the id of its run.\<close>

definition launch_over :: "(string \<times> run_spend) list \<Rightarrow> launch_spend" where
  "launch_over spends =
     (let readings = (if spends = [] then [([], empty_run_spend)] else spends)
      in \<lparr>ls_cost = sum_list (map (rs_cost \<circ> snd) readings),
          ls_cost_calls = sum_list (map (rs_cost_calls \<circ> snd) readings),
          ls_usage_calls = sum_list (map (rs_usage_calls \<circ> snd) readings),
          ls_unmetered = sort (remdups (concat (map (run_unmetered \<circ> snd) readings))),
          ls_unreadable = map fst (filter (rs_unreadable \<circ> snd) readings)\<rparr>)"

text \<open>What \<open>load_run_state\<close> gives for a run.\<close>

record run_view =
  rv_cost :: rat
  rv_cost_calls :: int
  rv_usage_calls :: int
  rv_architect :: "int option"
  rv_pid :: int
  rv_architect_run_id :: string

datatype run_reading = Run_State run_view | Run_Os_Error | Run_Legacy

type_synonym run_reader = "string \<Rightarrow> run_reading"

definition read_run_spend :: "run_reader \<Rightarrow> string \<Rightarrow> run_spend" where
  "read_run_spend runs run_id =
     (if run_id = [] then empty_run_spend
      else
        (case runs run_id of
           Run_Os_Error \<Rightarrow> empty_run_spend\<lparr>rs_unreadable := True\<rparr>
         | Run_Legacy \<Rightarrow> empty_run_spend\<lparr>rs_unreadable := True\<rparr>
         | Run_State v \<Rightarrow>
             \<lparr>rs_cost = rv_cost v, rs_cost_calls = rv_cost_calls v, rs_usage_calls = rv_usage_calls v,
              rs_architect_calls = (case rv_architect v of None \<Rightarrow> 0 | Some n \<Rightarrow> n),
              rs_unreadable = False\<rparr>))"

definition opened_with :: "run_reader \<Rightarrow> string \<Rightarrow> int \<times> string" where
  "opened_with runs run_id =
     (case runs run_id of Run_State v \<Rightarrow> (rv_pid v, rv_architect_run_id v) | _ \<Rightarrow> (0, []))"

text \<open>\<open>run_kind\<close> of \<open>kstrl/io/runid.py\<close>: the part before the first dash.\<close>

definition run_kind :: "string \<Rightarrow> string" where
  "run_kind run_id =
     (if CHR ''-'' \<in> set run_id then takeWhile (\<lambda>c. c \<noteq> CHR ''-'') run_id else [])"

definition run_sort_key :: "string \<Rightarrow> string" where
  "run_sort_key run_id =
     (if CHR ''-'' \<in> set run_id then tl (dropWhile (\<lambda>c. c \<noteq> CHR ''-'') run_id) else run_id)"

definition spawned_run_kind :: string where "spawned_run_kind = ''factory''"

definition architect_run_kind :: string where "architect_run_kind = ''decompose''"

definition architect_runs ::
    "run_reader \<Rightarrow> string list \<Rightarrow> string list \<Rightarrow> int option \<Rightarrow> string list" where
  "architect_runs runs new factory_runs launch_pid =
     (case launch_pid of
        None \<Rightarrow> []
      | Some pid \<Rightarrow>
          (let carried = map (snd \<circ> opened_with runs) factory_runs
           in filter (\<lambda>rid. run_kind rid = architect_run_kind \<and> rid \<notin> set carried \<and>
                            fst (opened_with runs rid) = pid)
                (sort new)))"

text \<open>\<open>before\<close> and \<open>after\<close> are the run directories on disk; the source holds them as sets.\<close>

definition owned_run_spend ::
    "run_reader \<Rightarrow> string list \<Rightarrow> string list \<Rightarrow> int option \<Rightarrow> string list \<times> launch_spend" where
  "owned_run_spend runs before after launch_pid =
     (let new = remdups (filter (\<lambda>r. r \<notin> set before) after);
          factory_runs = sort (filter (\<lambda>r. run_kind r = spawned_run_kind) new);
          owned = sort (factory_runs @ architect_runs runs new factory_runs launch_pid)
      in (owned, launch_over (map (\<lambda>rid. (rid, read_run_spend runs rid)) owned)))"

section \<open>Lemmas\<close>

lemma trunc_of_int [simp]: "trunc (of_int n) = n"
  by (simp add: trunc_def)

lemma map_jstr_of_strings [simp]: "map jstr_of (filter is_jstr (map JStr ps)) = ps"
  by (induction ps) simp_all

lemma spend_roundtrip [simp]: "spend_from_dict rep (spend_to_dict s) = s"
  by (cases s) (simp add: spend_from_dict_def spend_to_dict_def jget_Cons json_num_def)

lemma state_roundtrip [simp]: "state_from_dict rep (state_to_dict s) = s"
  by (cases s) (simp add: state_from_dict_def state_to_dict_def jget_Cons)

lemma read_written:
  assumes "\<not> lg_untrusted lg"
  shows "read_state parse rep today (write_state s lg) =
           Inr (if ds_date (st_spend s) \<noteq> today then s\<lparr>st_spend := fresh_day today\<rparr> else s)"
  using assms by (simp add: read_state_def write_state_def Let_def)

lemma read_state_date: "read_state parse rep today lg = Inr s \<Longrightarrow> ds_date (st_spend s) = today"
  by (auto simp: read_state_def Let_def fresh_day_def split: if_splits option.splits content.splits json.splits)

lemma read_state_trusted: "read_state parse rep today lg = Inr s \<Longrightarrow> \<not> lg_untrusted lg"
  by (auto simp: read_state_def)

text \<open>No run is charged twice by one launch.\<close>

lemma owned_runs_distinct: "distinct (fst (owned_run_spend runs before after launch_pid))"
  by (auto simp: owned_run_spend_def architect_runs_def Let_def architect_run_kind_def spawned_run_kind_def
      split: option.splits)

text \<open>What is charged is read back the same day.\<close>

lemma charge_read:
  assumes "charge parse rep today usd covered calls phases metered lg = Inr (lg', spend)"
  shows "\<exists>s. read_state parse rep today lg = Inr s \<and>
             spend = charged_spend today (st_spend s) usd covered calls phases metered \<and>
             read_state parse rep today lg' =
               Inr (s\<lparr>st_spend := spend, st_coverage_seen := st_coverage_seen s \<or> covered > 0\<rparr>)"
proof -
  obtain s where s: "read_state parse rep today lg = Inr s"
      "spend = charged_spend today (st_spend s) usd covered calls phases metered"
      "lg' = write_state (s\<lparr>st_spend := spend, st_coverage_seen := st_coverage_seen s \<or> covered > 0\<rparr>) lg"
    using assms by (auto simp: charge_def and_then_Inr Let_def)
  have "ds_date spend = today" by (simp add: s(2) charged_spend_def)
  then show ?thesis
    using s read_written [OF read_state_trusted [OF s(1)]] by simp
qed

lemma record_terminal_read:
  assumes "record_terminal parse rep today poisoned lg = Inr (lg', streak)"
  shows "\<exists>s. read_state parse rep today lg = Inr s \<and>
             streak = (if poisoned then st_poison_streak s + 1 else 0) \<and>
             read_state parse rep today lg' = Inr (s\<lparr>st_poison_streak := streak\<rparr>)"
proof -
  obtain s where s: "read_state parse rep today lg = Inr s"
      "streak = (if poisoned then st_poison_streak s + 1 else 0)"
      "lg' = write_state (s\<lparr>st_poison_streak := streak\<rparr>) lg"
    using assms by (auto simp: record_terminal_def and_then_Inr Let_def)
  show ?thesis
    using s read_written [OF read_state_trusted [OF s(1)]] read_state_date [OF s(1)] by simp
qed

end
