(* ===== verification/Serve_Outcome.thy ===== *)
theory Serve_Outcome
  imports Serve_Spend Manifest Append_Log
begin

text \<open>
  \<open>kstrl/serve/serve_outcome.py\<close>: what a finished factory run means for its queue item. A verdict
  with its evidence is a constructor of \<open>run_reason\<close>; the sentences are not modelled. The artifacts
  a run left are one record: the manifest file, the base-gates record of a run and the
  \<open>BudgetExceeded\<close> events of a run directory (\<open>None\<close> where reading them raises \<open>OSError\<close>).
\<close>

section \<open>Verdicts\<close>

datatype verdict =
    Success | Retry_Infra | Spec_Failure | Unclassifiable | Budget_Halt
  | Park_Approval | Park_Answer | Red_Base

definition may_retry :: "verdict \<Rightarrow> bool" where
  "may_retry v = (v = Retry_Infra)"

datatype budget_kind = Kind_Unenforceable | Kind_Cost | Kind_Token | Kind_Unreadable

definition budget_halt_kind :: "string \<Rightarrow> string list \<Rightarrow> budget_kind" where
  "budget_halt_kind condition ceilings =
     (if condition = ''unenforceable'' then Kind_Unenforceable
      else if ceilings = [] then Kind_Unreadable
      else if ceilings = [''max_cost_usd''] then Kind_Cost else Kind_Token)"

type_synonym named_failures = "(string \<times> json) list"

datatype run_reason =
    Launch_Failed string
  | Run_Ceiling string budget_kind "string list"
  | Call_Cap "string list" named_failures bool
  | Timed_Out
  | Exited_Zero
  | Killed_By_Signal int
  | Base_Red string string string "string list"
  | Lock_Contention
  | Spec_Blocker
  | Unknown_Refusal
  | No_Own_Manifest int
  | Manifest_Unread int
  | Plan_Parked string
  | Merge_Parked "string list"
  | Unattributed int
  | Own_Merits "string list" named_failures
  | No_Evidence named_failures
  | All_Infra "string list"

record outcome =
  oc_verdict :: verdict
  oc_reason :: run_reason

record run_result =
  rr_returncode :: int
  rr_timed_out :: bool
  rr_launch_error :: string
  rr_output_tail :: string
  rr_group_reaped :: bool

record run_artifacts =
  ar_manifest :: "content option"
  ar_base_record :: "string \<Rightarrow> content option"
  ar_halts :: "string \<Rightarrow> (string \<times> string list) list option"

definition lock_refusal_marker :: string where "lock_refusal_marker = ''--force-lock''"

definition spec_blocker_marker :: string where "spec_blocker_marker = ''Spec issues written to:''"

definition adversarial_budget_check :: string where
  "adversarial_budget_check = ''adversarial_budget''"

section \<open>The artifacts\<close>

text \<open>\<open>Manifest.load\<close>: it loads, raises what the classifier catches, or raises \<open>TypeError\<close>.\<close>

datatype load_reading = Loaded manifest | Load_Caught | Load_Type_Error

definition content_json :: "json_parser \<Rightarrow> content option \<Rightarrow> json option" where
  "content_json parse f =
     (case f of Some (Doc j) \<Rightarrow> Some j | Some (Text t) \<Rightarrow> parse t | _ \<Rightarrow> None)"

definition manifest_reading ::
    "json_parser \<Rightarrow> (json \<Rightarrow> string) \<Rightarrow> content option \<Rightarrow> load_reading" where
  "manifest_reading parse rep f =
     (case content_json parse f of
        None \<Rightarrow> Load_Caught
      | Some doc \<Rightarrow>
          (case load_manifest rep doc of
             Inr m \<Rightarrow> Loaded m
           | Inl (Invalid_Schema _) \<Rightarrow> Load_Caught
           | Inl Findings_Not_Iterable \<Rightarrow> Load_Type_Error))"

definition read_manifest_json :: "json_parser \<Rightarrow> content option \<Rightarrow> json_object option" where
  "read_manifest_json parse f =
     (case content_json parse f of Some (JObj kvs) \<Rightarrow> Some kvs | _ \<Rightarrow> None)"

definition run_id_from_manifest :: "json_parser \<Rightarrow> content option \<Rightarrow> string" where
  "run_id_from_manifest parse f =
     (case read_manifest_json parse f of None \<Rightarrow> [] | Some data \<Rightarrow> jstr_of (jget data ''runId'' JNull))"

definition component_pr_url :: "json \<Rightarrow> string list" where
  "component_pr_url c =
     (case c of
        JObj kvs \<Rightarrow>
          (case jget kvs ''prUrl'' JNull of
             JStr u \<Rightarrow> (if strip u \<noteq> [] then [strip u] else [])
           | _ \<Rightarrow> [])
      | _ \<Rightarrow> [])"

definition pr_urls_from_manifest :: "json_parser \<Rightarrow> content option \<Rightarrow> bool \<Rightarrow> string list" where
  "pr_urls_from_manifest parse f owned =
     (if \<not> owned then []
      else
        (case read_manifest_json parse f of
           None \<Rightarrow> []
         | Some data \<Rightarrow>
             (case jget data ''components'' JNull of
                JList cs \<Rightarrow> fromkeys (concat (map component_pr_url cs))
              | _ \<Rightarrow> [])))"

fun budget_halt_reason ::
    "(string \<Rightarrow> (string \<times> string list) list option) \<Rightarrow> string list \<Rightarrow> run_reason option" where
  "budget_halt_reason halts [] = None"
| "budget_halt_reason halts (rid # rids) =
     (if rid = [] then budget_halt_reason halts rids
      else
        (case halts rid of
           Some ((condition, ceilings) # _) \<Rightarrow>
             Some (Run_Ceiling rid (budget_halt_kind condition ceilings) ceilings)
         | _ \<Rightarrow> budget_halt_reason halts rids))"

fun red_base_outcome ::
    "json_parser \<Rightarrow> (json \<Rightarrow> string) \<Rightarrow> (string \<Rightarrow> content option) \<Rightarrow> string list \<Rightarrow> outcome option" where
  "red_base_outcome parse rep records [] = None"
| "red_base_outcome parse rep records (rid # rids) =
     (if rid = [] then red_base_outcome parse rep records rids
      else
        (case read_manifest_json parse (records rid) of
           None \<Rightarrow> red_base_outcome parse rep records rids
         | Some record \<Rightarrow>
             (if jget record ''refused'' JNull \<noteq> JBool True
              then red_base_outcome parse rep records rids
              else Some
                \<lparr>oc_verdict = Red_Base,
                 oc_reason = Base_Red rid
                   (py_str rep (jget record ''baseBranch'' (JStr [])))
                   (py_str rep (jget record ''baseSha'' (JStr [])))
                   (case jget record ''reasons'' JNull of
                      JList rs \<Rightarrow> map jstr_of (filter is_jstr rs) | _ \<Rightarrow> [])\<rparr>)))"

section \<open>Classification\<close>

definition serve_infra_casualty :: "component \<Rightarrow> bool" where
  "serve_infra_casualty c = list_ex is_infrastructure_error (c_findings c)"

definition failed_components :: "manifest \<Rightarrow> component list" where
  "failed_components m = filter (\<lambda>c. c_status c = FAILED) (m_components m)"

definition unevidenced_detail :: "component list \<Rightarrow> named_failures" where
  "unevidenced_detail cs =
     map (\<lambda>c. (c_id c, if truthy (c_error c) then c_error c else JStr ''no error recorded'')) cs"

definition budget_halt_outcome :: "component list \<Rightarrow> outcome option" where
  "budget_halt_outcome failed =
     (let halted = filter (\<lambda>c. c_failed_check c = JStr adversarial_budget_check) failed;
          others = filter (\<lambda>c. c_failed_check c \<noteq> JStr adversarial_budget_check) failed
      in if halted = [] then None
         else Some \<lparr>oc_verdict = Budget_Halt,
                    oc_reason = Call_Cap (map c_id halted) (unevidenced_detail others) False\<rparr>)"

definition timeout_outcome :: "load_reading option \<Rightarrow> load_error + outcome" where
  "timeout_outcome reading =
     (let killed = \<lparr>oc_verdict = Retry_Infra, oc_reason = Timed_Out\<rparr>
      in case reading of
           Some (Loaded m) \<Rightarrow>
             (case budget_halt_outcome (failed_components m) of
                Some h \<Rightarrow>
                  Inr (case oc_reason h of
                         Call_Cap ids others _ \<Rightarrow> h\<lparr>oc_reason := Call_Cap ids others True\<rparr>
                       | _ \<Rightarrow> h)
              | None \<Rightarrow> Inr killed)
         | Some Load_Type_Error \<Rightarrow> Inl Findings_Not_Iterable
         | _ \<Rightarrow> Inr killed)"

definition refusal_outcome ::
    "json_parser \<Rightarrow> (json \<Rightarrow> string) \<Rightarrow> run_artifacts \<Rightarrow> string \<Rightarrow> string list \<Rightarrow> outcome" where
  "refusal_outcome parse rep arts tail owned =
     (case red_base_outcome parse rep (ar_base_record arts) owned of
        Some red \<Rightarrow> red
      | None \<Rightarrow>
          (if contains_sub tail lock_refusal_marker
           then \<lparr>oc_verdict = Retry_Infra, oc_reason = Lock_Contention\<rparr>
           else if contains_sub tail spec_blocker_marker
           then \<lparr>oc_verdict = Park_Answer, oc_reason = Spec_Blocker\<rparr>
           else \<lparr>oc_verdict = Unclassifiable, oc_reason = Unknown_Refusal\<rparr>))"

definition unfailed_outcome :: "manifest \<Rightarrow> int \<Rightarrow> outcome" where
  "unfailed_outcome m returncode =
     (if m_plan_awaiting_approval m \<noteq> []
      then \<lparr>oc_verdict = Park_Approval, oc_reason = Plan_Parked (m_plan_awaiting_approval m)\<rparr>
      else
        (let parked = map c_id (filter (\<lambda>c. c_status c = AWAITING_APPROVAL) (m_components m))
         in if parked \<noteq> [] then \<lparr>oc_verdict = Park_Approval, oc_reason = Merge_Parked parked\<rparr>
            else \<lparr>oc_verdict = Unclassifiable, oc_reason = Unattributed returncode\<rparr>))"

definition at_merge_gate :: "component \<Rightarrow> bool" where
  "at_merge_gate c = (c_failed_check c = JStr ''merge_gate'')"

definition merits_outcome :: "component list \<Rightarrow> outcome" where
  "merits_outcome failed =
     (let judged = map c_id (filter (\<lambda>c. c_findings c \<noteq> [] \<and> \<not> serve_infra_casualty c \<and>
                                          \<not> at_merge_gate c) failed);
          unevidenced = filter (\<lambda>c. c_findings c = [] \<or> at_merge_gate c) failed;
          detail = unevidenced_detail unevidenced
      in if judged \<noteq> [] then \<lparr>oc_verdict = Spec_Failure, oc_reason = Own_Merits judged detail\<rparr>
         else if unevidenced \<noteq> [] then \<lparr>oc_verdict = Unclassifiable, oc_reason = No_Evidence detail\<rparr>
         else \<lparr>oc_verdict = Retry_Infra, oc_reason = All_Infra (map c_id failed)\<rparr>)"

text \<open>\<open>reading\<close> is \<open>None\<close> for \<open>manifest_path = None\<close>: this invocation wrote no manifest.\<close>

definition classify_run ::
    "json_parser \<Rightarrow> (json \<Rightarrow> string) \<Rightarrow> run_artifacts \<Rightarrow> run_result \<Rightarrow> bool \<Rightarrow> string list \<Rightarrow>
     load_error + outcome" where
  "classify_run parse rep arts run owns_manifest owned =
     (let reading = (if owns_manifest then Some (manifest_reading parse rep (ar_manifest arts)) else None)
      in if rr_launch_error run \<noteq> []
         then Inr \<lparr>oc_verdict = Retry_Infra, oc_reason = Launch_Failed (rr_launch_error run)\<rparr>
         else
           (case budget_halt_reason (ar_halts arts) owned of
              Some halted \<Rightarrow> Inr \<lparr>oc_verdict = Budget_Halt, oc_reason = halted\<rparr>
            | None \<Rightarrow>
                (if rr_timed_out run then timeout_outcome reading
                 else if rr_returncode run = 0
                 then Inr \<lparr>oc_verdict = Success, oc_reason = Exited_Zero\<rparr>
                 else if rr_returncode run < 0
                 then Inr \<lparr>oc_verdict = Retry_Infra, oc_reason = Killed_By_Signal (- rr_returncode run)\<rparr>
                 else if rr_returncode run = 2
                 then Inr (refusal_outcome parse rep arts (rr_output_tail run) owned)
                 else
                   (case reading of
                      None \<Rightarrow> Inr \<lparr>oc_verdict = Unclassifiable, oc_reason = No_Own_Manifest (rr_returncode run)\<rparr>
                    | Some Load_Caught \<Rightarrow>
                        Inr \<lparr>oc_verdict = Unclassifiable, oc_reason = Manifest_Unread (rr_returncode run)\<rparr>
                    | Some Load_Type_Error \<Rightarrow> Inl Findings_Not_Iterable
                    | Some (Loaded m) \<Rightarrow>
                        (let failed = failed_components m
                         in if failed = [] then Inr (unfailed_outcome m (rr_returncode run))
                            else
                              (case budget_halt_outcome failed of
                                 Some h \<Rightarrow> Inr h
                               | None \<Rightarrow> Inr (merits_outcome failed)))))))"

section \<open>When a retry is authorised\<close>

text \<open>Every failed component carries a finding that the infrastructure failed, and none stopped
  at the merge gate.\<close>

lemma merits_retry_iff:
  "may_retry (oc_verdict (merits_outcome failed)) \<longleftrightarrow>
     (\<forall>c\<in>set failed. serve_infra_casualty c \<and> \<not> at_merge_gate c)"
proof -
  have "serve_infra_casualty c \<Longrightarrow> c_findings c \<noteq> []" for c
    by (auto simp: serve_infra_casualty_def)
  then show ?thesis
    by (auto simp: merits_outcome_def may_retry_def Let_def filter_empty_conv)
qed

lemma budget_halt_None_iff:
  "budget_halt_outcome failed = None \<longleftrightarrow> (\<forall>c\<in>set failed. c_failed_check c \<noteq> JStr adversarial_budget_check)"
  by (auto simp: budget_halt_outcome_def Let_def filter_empty_conv)

lemma budget_halt_verdict: "budget_halt_outcome failed = Some h \<Longrightarrow> oc_verdict h = Budget_Halt"
  by (auto simp: budget_halt_outcome_def Let_def split: if_splits)

lemma red_base_verdict: "red_base_outcome parse rep records rids = Some r \<Longrightarrow> oc_verdict r = Red_Base"
  by (induction rids) (auto split: if_splits option.splits)

end
