(* ===== verification/Serve_Gates.thy ===== *)
theory Serve_Gates
  imports Serve_Outcome Inbox Autonomy
begin

text \<open>
  The checks that can refuse the next claim before money is spent: \<open>kstrl/serve/serve_gates.py\<close>,
  the open-PR bound with its streak from \<open>serve_github.py\<close> and the merge gate of one item from
  \<open>serve_merge_gate.py\<close>. A configuration section is an \<open>option\<close>, \<open>None\<close> where loading it raises.
\<close>

section \<open>Money\<close>

definition check_budget ::
    "json_parser \<Rightarrow> (json \<Rightarrow> string) \<Rightarrow> string \<Rightarrow> string \<Rightarrow> spend_ledger \<Rightarrow> serve_config \<Rightarrow>
     ledger_error + admission" where
  "check_budget parse rep today midnight lg config =
     (if sv_daily_budget config \<le> 0 then Inr admit
      else
        and_then (read_state parse rep today lg) (\<lambda>s.
          if ds_spent (st_spend s) < sv_daily_budget config then Inr admit
          else Inr \<lparr>ad_allowed = False, ad_pauses = True, ad_resume_after = midnight\<rparr>))"

definition json_positive :: "json \<Rightarrow> bool" where
  "json_positive v = (case v of JInt n \<Rightarrow> n > 0 | JFloat q \<Rightarrow> q > 0 | _ \<Rightarrow> False)"

text \<open>The agent calls the progress log records, and whether any of them reported a cost.\<close>

definition usage_calls :: "json_object \<Rightarrow> int" where
  "usage_calls data = (case jget data ''calls'' JNull of JInt n \<Rightarrow> max 0 n | _ \<Rightarrow> 0)"

definition usage_reported :: "json_object \<Rightarrow> bool" where
  "usage_reported data =
     (json_positive (jget data ''cost_calls'' JNull) \<or> json_positive (jget data ''cost_usd'' JNull))"

fun recorded_cost_evidence :: "json_object list \<Rightarrow> int \<times> bool" where
  "recorded_cost_evidence [] = (0, False)"
| "recorded_cost_evidence (event # events) =
     (let (calls, reported) = recorded_cost_evidence events
      in case jget event ''data'' JNull of
           JObj data \<Rightarrow>
             (if jget event ''event'' JNull \<noteq> JStr ''component_usage'' then (calls, reported)
              else (usage_calls data + calls, usage_reported data \<or> reported))
         | _ \<Rightarrow> (calls, reported))"

definition check_cost_coverage ::
    "json_parser \<Rightarrow> (json \<Rightarrow> string) \<Rightarrow> string \<Rightarrow> json_object list \<Rightarrow> spend_ledger \<Rightarrow> serve_config \<Rightarrow>
     ledger_error + admission" where
  "check_cost_coverage parse rep today progress lg config =
     (if sv_daily_budget config \<le> 0 \<or> sv_allow_uncovered_cost config then Inr admit
      else
        and_then (read_state parse rep today lg) (\<lambda>s.
          if st_coverage_seen s \<or> snd (recorded_cost_evidence progress) then Inr admit
          else Inr \<lparr>ad_allowed = False, ad_pauses = True, ad_resume_after = []\<rparr>))"

definition check_poison_breaker ::
    "json_parser \<Rightarrow> (json \<Rightarrow> string) \<Rightarrow> string \<Rightarrow> spend_ledger \<Rightarrow> serve_config \<Rightarrow> ledger_error + admission" where
  "check_poison_breaker parse rep today lg config =
     and_then (read_state parse rep today lg) (\<lambda>s.
       if st_poison_streak s < sv_max_consecutive_poison config then Inr admit
       else Inr \<lparr>ad_allowed = False, ad_pauses = True, ad_resume_after = []\<rparr>)"

section \<open>Waits\<close>

definition check_parked_merges ::
    "json_parser \<Rightarrow> (json \<Rightarrow> string) \<Rightarrow> content option \<Rightarrow> admission" where
  "check_parked_merges parse rep manifest_file =
     (case manifest_reading parse rep manifest_file of
        Loaded m \<Rightarrow>
          (if m_plan_awaiting_approval m \<noteq> [] then wait_refusal
           else if filter (\<lambda>c. c_status c = Manifest.AWAITING_APPROVAL) (m_components m) = [] then admit
           else wait_refusal)
      | _ \<Rightarrow> admit)"

definition check_inbox_cap :: "inbox_env \<Rightarrow> inbox_config option \<Rightarrow> inbox_store \<Rightarrow> admission" where
  "check_inbox_cap env config box =
     (case config of
        None \<Rightarrow> wait_refusal
      | Some c \<Rightarrow>
          (if \<not> ic_enabled c \<or> ic_open_item_cap c \<le> 0 then admit
           else
             (let s = scan env box
              in if sc_unreadable s then wait_refusal
                 else if int (open_count env s + unparseable_count env s) < ic_open_item_cap c then admit
                 else wait_refusal)))"

text \<open>\<open>OpenPrCountStreak\<close>: the polls in a row whose count could not be used.\<close>

definition streak_threshold :: int where "streak_threshold = 3"

definition streak_schema_version :: int where "streak_schema_version = 1"

record pr_streak =
  pk_consecutive :: int
  pk_filed :: bool
  pk_reason :: bool  \<comment> \<open>\<open>reason\<close> is not empty: this poll failed to count\<close>
  pk_damaged :: bool

definition fresh_streak :: pr_streak where
  "fresh_streak = \<lparr>pk_consecutive = 0, pk_filed = False, pk_reason = False, pk_damaged = False\<rparr>"

definition damaged_streak :: pr_streak where
  "damaged_streak = \<lparr>pk_consecutive = streak_threshold, pk_filed = False, pk_reason = False, pk_damaged = True\<rparr>"

definition record_inconclusive :: "pr_streak \<Rightarrow> pr_streak" where
  "record_inconclusive k = k\<lparr>pk_consecutive := pk_consecutive k + 1, pk_reason := True\<rparr>"

definition record_conclusive :: "pr_streak \<Rightarrow> pr_streak" where
  "record_conclusive k = k\<lparr>pk_consecutive := 0, pk_filed := False, pk_reason := False\<rparr>"

definition should_file :: "pr_streak \<Rightarrow> bool" where
  "should_file k = (pk_reason k \<and> \<not> pk_filed k \<and> pk_consecutive k \<ge> streak_threshold)"

definition streak_from_payload :: "json \<Rightarrow> pr_streak" where
  "streak_from_payload doc =
     (case doc of
        JObj data \<Rightarrow>
          (if jget data ''schema_version'' JNull \<noteq> JInt streak_schema_version then damaged_streak
           else
             (case (jget data ''consecutive'' JNull, jget data ''filed'' JNull) of
                (JInt n, JBool filed) \<Rightarrow>
                  (if n < 0 then damaged_streak
                   else \<lparr>pk_consecutive = n, pk_filed = filed, pk_reason = False, pk_damaged = False\<rparr>)
              | _ \<Rightarrow> damaged_streak))
      | _ \<Rightarrow> damaged_streak)"

definition load_streak :: "json_parser \<Rightarrow> content option \<Rightarrow> pr_streak" where
  "load_streak parse f =
     (case f of
        None \<Rightarrow> fresh_streak
      | Some _ \<Rightarrow> (case content_json parse f of None \<Rightarrow> damaged_streak | Some doc \<Rightarrow> streak_from_payload doc))"

text \<open>The file after \<open>save\<close>; \<open>fails\<close> is a write that raises.\<close>

definition save_streak :: "bool \<Rightarrow> pr_streak \<Rightarrow> content option \<Rightarrow> content option" where
  "save_streak fails k f =
     (if pk_damaged k \<or> fails then f
      else Some (Doc (JObj [(''schema_version'', JInt streak_schema_version),
                            (''consecutive'', JInt (pk_consecutive k)), (''filed'', JBool (pk_filed k))])))"

text \<open>\<open>counted\<close> is what \<open>count_open_kstrl_prs\<close> returns: the count and whether the page was full.\<close>

definition check_open_pr_bound ::
    "serve_config \<Rightarrow> bool option \<Rightarrow> (int \<times> bool) option \<Rightarrow> pr_streak \<Rightarrow> admission \<times> pr_streak" where
  "check_open_pr_bound config create_prs counted k =
     (if sv_max_open_prs config = 0 then (admit, record_conclusive k)
      else if create_prs = Some False then (admit, record_conclusive k)
      else
        (case (create_prs, counted) of
           (Some True, Some (count, saturated)) \<Rightarrow>
             (if count \<ge> sv_max_open_prs config then (wait_refusal, record_conclusive k)
              else if saturated then (wait_refusal, record_inconclusive k)
              else (admit, record_conclusive k))
         | _ \<Rightarrow> (wait_refusal, record_inconclusive k)))"

section \<open>The merge gate of an item\<close>

datatype gate_refusal = Section_Unreadable string | Checkpoint_Unreachable bool

record merge_gate =
  mg_pause :: bool
  mg_refusal :: "gate_refusal option"

text \<open>\<open>merge_gate_unreachable_warning\<close> on the probe: only \<open>create_prs\<close> is left to decide.\<close>

definition gate_unreachable :: "bool \<Rightarrow> bool \<Rightarrow> bool \<Rightarrow> bool" where
  "gate_unreachable pause create_prs single_pr =
     (if \<not> pause then False else if \<not> create_prs then True else single_pr)"

definition built_merge_gate :: "bool option \<Rightarrow> bool \<Rightarrow> bool \<Rightarrow> merge_gate" where
  "built_merge_gate create_prs pause wants_gate =
     (if \<not> pause then \<lparr>mg_pause = False, mg_refusal = None\<rparr>
      else
        (case create_prs of
           None \<Rightarrow> \<lparr>mg_pause = True, mg_refusal = Some (Section_Unreadable ''factory'')\<rparr>
         | Some prs \<Rightarrow>
             (if gate_unreachable True prs False
              then \<lparr>mg_pause = True, mg_refusal = Some (Checkpoint_Unreachable wants_gate)\<rparr>
              else \<lparr>mg_pause = True, mg_refusal = None\<rparr>)))"

text \<open>What the gate reads of the repository's configuration.\<close>

record gate_inputs =
  gi_autonomy :: "autonomy_config option"
  gi_policy_enabled :: "bool option"
  gi_ladder :: autonomy_state
  gi_external :: bool
  gi_create_prs :: "bool option"

definition resolve_merge_gate :: "gate_inputs \<Rightarrow> merge_disposition \<Rightarrow> merge_gate" where
  "resolve_merge_gate gi disposition =
     (let wants_gate = (disposition = STOP_AT_PR)
      in case gi_autonomy gi of
           None \<Rightarrow> \<lparr>mg_pause = True, mg_refusal = Some (Section_Unreadable ''autonomy'')\<rparr>
         | Some config \<Rightarrow>
             (if \<not> ac_enabled config then built_merge_gate (gi_create_prs gi) wants_gate wants_gate
              else
                (case gi_policy_enabled gi of
                   None \<Rightarrow> \<lparr>mg_pause = True, mg_refusal = Some (Section_Unreadable ''policy'')\<rparr>
                 | Some policy \<Rightarrow>
                     (let bundle = flag_bundle_for
                            (fst (resolve_runtime_level (gi_ladder gi) config policy (gi_external gi)))
                      in if \<not> wants_gate \<and> \<not> fb_auto_merge_when_green bundle
                         then built_merge_gate (gi_create_prs gi) True wants_gate
                         else if wants_gate \<and> \<not> fb_pause_before_pr_merge bundle
                         then built_merge_gate (gi_create_prs gi) True wants_gate
                         else built_merge_gate (gi_create_prs gi) (fb_pause_before_pr_merge bundle) wants_gate))))"

section \<open>Lemmas\<close>

lemma streak_saved: "\<not> pk_damaged k \<Longrightarrow> 0 \<le> pk_consecutive k \<Longrightarrow>
    load_streak parse (save_streak False k f) = k\<lparr>pk_reason := False\<rparr>"
  by (cases k) (simp add: load_streak_def save_streak_def content_json_def streak_from_payload_def jget_Cons)

text \<open>An item that did not ask for auto-merge never gets a run without the human gate.\<close>

lemma stop_at_pr_keeps_gate:
  "mg_pause (resolve_merge_gate gi STOP_AT_PR)"
  by (auto simp: resolve_merge_gate_def built_merge_gate_def Let_def split: option.splits)

lemma ungated_needs_auto_merge:
  assumes "\<not> mg_pause (resolve_merge_gate gi disposition)"
  shows "disposition = AUTO_MERGE \<and>
         (\<exists>config. gi_autonomy gi = Some config \<and>
           (ac_enabled config \<longrightarrow>
             (\<exists>policy. gi_policy_enabled gi = Some policy \<and>
               fb_auto_merge_when_green (flag_bundle_for
                 (fst (resolve_runtime_level (gi_ladder gi) config policy (gi_external gi)))))))"
  using assms
  by (cases disposition)
    (auto simp: resolve_merge_gate_def built_merge_gate_def Let_def split: option.splits if_splits)

end
