(* ===== verification/Serve.thy ===== *)
theory Serve
  imports Serve_Gates
begin

text \<open>
  The daemon: \<open>serve_cycle\<close> of \<open>kstrl/serve/serve.py\<close> with the reaper of \<open>serve_process.py\<close> and the
  endings of \<open>serve_settle.py\<close>, over the queue, the ledger, the inbox and the artifacts of a run.
  One cycle is sequential; what other processes do meanwhile enters through the arguments
  \<open>se_intake\<close> (the remote front-ends) and \<open>se_child\<close> (the factory run, during which the whole
  world may change). Log lines and the labels written back to GitHub are not modelled. An
  exception that leaves the cycle is \<open>Inl\<close>, with the world as it was then.
\<close>

section \<open>The world and the arguments\<close>

record serve_world =
  sw_disk :: queue_disk
  sw_control :: control_dir
  sw_ledger :: spend_ledger
  sw_inbox :: inbox_store
  sw_manifest :: "content option"
  sw_runs :: "string list"
  sw_streak :: pr_streak

datatype op_point =
    At_Recovery | At_Pause | At_Lease | At_Gate_Poison | At_Start | At_Exhausted | At_Adopt
  | At_Orphan | At_Red_Base | At_Settle | At_Failed | At_Requeue | At_Poison

datatype notice =
    Ledger_Notice
  | Reaped_Notice string
  | Pause_Notice nat
  | Count_Notice
  | Merge_Gate_Notice string
  | Orphan_Notice string
  | Spend_Notice "string list"
  | Red_Base_Notice run_reason
  | Poison_Notice string run_reason

record serve_env =
  se_ctx :: "op_point \<Rightarrow> queue_ctx"
  se_now :: int
  se_parse :: json_parser
  se_rep :: "json \<Rightarrow> string"
  se_fromiso :: fromiso
  se_today :: string
  se_midnight :: string
  se_config :: "serve_config option"
  se_inbox_env :: inbox_env
  se_inbox_config :: "inbox_config option"
  se_uuid :: "inbox_store \<Rightarrow> string"
  se_progress :: "json_object list"
  se_stack :: "inbox_store \<Rightarrow> inbox_store \<times> bool"
  se_factory_lock :: bool
  se_pr_count :: "(int \<times> bool) option"
  se_gate :: gate_inputs
  se_pid_alive :: "int \<Rightarrow> bool"
  se_host :: string
  se_intake :: "queue_disk \<Rightarrow> queue_disk"
  se_spawn :: "int option"
  se_child :: "queue_item \<Rightarrow> bool \<Rightarrow> serve_world \<Rightarrow> serve_world \<times> run_result"
  se_run_reader :: run_reader
  se_base_record :: "string \<Rightarrow> content option"
  se_halts :: "string \<Rightarrow> (string \<times> string list) list option"
  se_say :: "run_reason \<Rightarrow> string"
  se_note :: "notice \<Rightarrow> add_request"
  se_pause_text :: "notice \<Rightarrow> string"

datatype serve_raise =
    Raised_Queue queue_error
  | Raised_Ledger ledger_error
  | Raised_Load load_error

type_synonym 'a stage = "serve_world \<times> (serve_raise + 'a)"

definition then_do :: "'a stage \<Rightarrow> (serve_world \<Rightarrow> 'a \<Rightarrow> 'b stage) \<Rightarrow> 'b stage" where
  "then_do r f = (case r of (w, Inl e) \<Rightarrow> (w, Inl e) | (w, Inr x) \<Rightarrow> f w x)"

lemma then_do_simps [simp]: "then_do (w, Inr x) f = f w x" "then_do (w, Inl e) f = (w, Inl e)"
  by (simp_all add: then_do_def)

lemma then_do_Inr:
  "then_do r f = (w', Inr y) \<longleftrightarrow> (\<exists>w x. r = (w, Inr x) \<and> f w x = (w', Inr y))"
  by (cases r; cases "snd r") (auto simp: then_do_def)

definition queue_do :: "(queue_disk \<Rightarrow> op_result) \<Rightarrow> serve_world \<Rightarrow> queue_item stage" where
  "queue_do f w =
     (case f (sw_disk w) of
        (d, i, None) \<Rightarrow> (w\<lparr>sw_disk := d\<rparr>, Inr i)
      | (d, i, Some e) \<Rightarrow> (w\<lparr>sw_disk := d\<rparr>, Inl (Raised_Queue e)))"

definition queue_get :: "serve_env \<Rightarrow> string \<Rightarrow> serve_world \<Rightarrow> queue_item option stage" where
  "queue_get env iid w =
     (case get_item (se_parse env) (sw_disk w) iid of
        Inl e \<Rightarrow> (w, Inl (Raised_Queue e))
      | Inr found \<Rightarrow> (w, Inr found))"

definition terminal :: "serve_env \<Rightarrow> bool \<Rightarrow> serve_world \<Rightarrow> int stage" where
  "terminal env poisoned w =
     (case record_terminal (se_parse env) (se_rep env) (se_today env) poisoned (sw_ledger w) of
        Inl e \<Rightarrow> (w, Inl (Raised_Ledger e))
      | Inr (lg, n) \<Rightarrow> (w\<lparr>sw_ledger := lg\<rparr>, Inr n))"

section \<open>What a cycle reports\<close>

record reap_result =
  rp_requeued :: "string list"
  rp_poisoned :: "string list"
  rp_failed :: "string list"

datatype skip_reason =
    Skip_Config | Skip_Ledger | Skip_Paused | Skip_Gate | Skip_Wait | Skip_Nothing | Skip_Merge_Gate
  | Skip_Exhausted

record cycle_result =
  cr_ran :: string
  cr_outcome :: "outcome option"
  cr_needs_human :: bool
  cr_reaped :: reap_result
  cr_swept :: nat
  cr_paused :: bool
  cr_skipped :: "skip_reason option"
  cr_charged :: rat
  cr_inbox :: "string list"

definition nothing_reaped :: reap_result where
  "nothing_reaped = \<lparr>rp_requeued = [], rp_poisoned = [], rp_failed = []\<rparr>"

definition fresh_result :: cycle_result where
  "fresh_result =
     \<lparr>cr_ran = [], cr_outcome = None, cr_needs_human = False, cr_reaped = nothing_reaped, cr_swept = 0,
      cr_paused = False, cr_skipped = None, cr_charged = 0, cr_inbox = []\<rparr>"

text \<open>The kind and the dedupe key of a notice; its words are \<open>se_note\<close>.\<close>

fun notice_kind :: "notice \<Rightarrow> item_kind" where
  "notice_kind Ledger_Notice = BUDGET_OVERRUN"
| "notice_kind (Reaped_Notice _) = HALTED_RUN"
| "notice_kind (Pause_Notice _) = BUDGET_OVERRUN"
| "notice_kind Count_Notice = HALTED_RUN"
| "notice_kind (Merge_Gate_Notice _) = MERGE_GATE"
| "notice_kind (Orphan_Notice _) = HALTED_RUN"
| "notice_kind (Spend_Notice _) = BUDGET_OVERRUN"
| "notice_kind (Red_Base_Notice _) = HALTED_RUN"
| "notice_kind (Poison_Notice _ _) = HALTED_RUN"

text \<open>\<open>_file_inbox_item\<close>: the id of the item, or nothing on any failure.\<close>

definition file_inbox_item :: "serve_env \<Rightarrow> notice \<Rightarrow> serve_world \<Rightarrow> serve_world \<times> string" where
  "file_inbox_item env n w =
     (case se_inbox_config env of
        None \<Rightarrow> (w, [])
      | Some config \<Rightarrow>
          (if \<not> ic_enabled config then (w, [])
           else
             (case inbox_add (se_inbox_env env) config (se_uuid env (sw_inbox w))
                     ((se_note env n)\<lparr>ad_kind := notice_kind n\<rparr>) (sw_inbox w) of
                Inl _ \<Rightarrow> (w, [])
              | Inr (box, i, _) \<Rightarrow> (w\<lparr>sw_inbox := box\<rparr>, ii_id i))))"

definition file_for_human :: "serve_env \<Rightarrow> notice \<Rightarrow> cycle_result \<times> serve_world \<Rightarrow> cycle_result \<times> serve_world" where
  "file_for_human env n cw =
     (let (cr, w) = cw; (w1, iid) = file_inbox_item env n w
      in (cr\<lparr>cr_needs_human := True, cr_inbox := cr_inbox cr @ [iid]\<rparr>, w1))"

section \<open>Recovery\<close>

definition backoff_seconds :: "int \<Rightarrow> int" where
  "backoff_seconds attempts = (if attempts \<le> 0 then 0 else min (60 * 2 ^ nat (attempts - 1)) 1800)"

definition retry_at :: "serve_env \<Rightarrow> op_point \<Rightarrow> int \<Rightarrow> string" where
  "retry_at env p attempts =
     cx_iso (se_ctx env p) (se_now env + backoff_seconds attempts * 1000000)"

definition pid_alive :: "serve_env \<Rightarrow> int \<Rightarrow> string \<Rightarrow> bool" where
  "pid_alive env pid host = (if host \<noteq> [] \<and> host \<noteq> se_host env then True else se_pid_alive env pid)"

definition lease_dead :: "serve_env \<Rightarrow> queue_item \<Rightarrow> bool" where
  "lease_dead env i =
     (lease_expired (se_fromiso env) i (se_now env) \<or> \<not> pid_alive env (qi_lease_pid i) (qi_lease_host i))"

fun reap_leased :: "serve_env \<Rightarrow> queue_item list \<Rightarrow> reap_result \<Rightarrow> serve_world \<Rightarrow> reap_result stage" where
  "reap_leased env [] rp w = (w, Inr rp)"
| "reap_leased env (i # is) rp w =
     (if lease_dead env i
      then then_do (queue_do (\<lambda>d. requeue_item (se_ctx env At_Recovery) d i
                       ''reaped: lease holder gone before any spend'' ''reaper'' False (Some [])) w)
             (\<lambda>w1 _. reap_leased env is (rp\<lparr>rp_requeued := rp_requeued rp @ [qi_item_id i]\<rparr>) w1)
      else reap_leased env is rp w)"

definition interrupted_text :: string where
  "interrupted_text = ''run interrupted; classified as infrastructure''"

definition reap_one :: "serve_env \<Rightarrow> queue_item \<Rightarrow> reap_result \<Rightarrow> serve_world \<Rightarrow> reap_result stage" where
  "reap_one env i rp w =
     then_do (queue_do (\<lambda>d. finish_failed (se_ctx env At_Recovery) d i interrupted_text ''reaper'' []) w)
       (\<lambda>w1 _. then_do (queue_get env (qi_item_id i) w1)
         (\<lambda>w2 found.
            case found of
              None \<Rightarrow> (w2, Inr rp)
            | Some again \<Rightarrow>
                (if attempts_remaining again > 0
                 then then_do (queue_do (\<lambda>d. requeue_item (se_ctx env At_Recovery) d again
                                ''reaped: retrying an interrupted run'' ''reaper'' False
                                (Some (retry_at env At_Recovery (qi_attempts again)))) w2)
                        (\<lambda>w3 _. (w3, Inr (rp\<lparr>rp_failed := rp_failed rp @ [qi_item_id i]\<rparr>)))
                 else then_do (queue_do (\<lambda>d. poison_item (se_ctx env At_Recovery) d again
                                interrupted_text ''reaper'') w2)
                        (\<lambda>w3 _. (w3, Inr (rp\<lparr>rp_poisoned := rp_poisoned rp @ [qi_item_id i]\<rparr>))))))"

fun reap_running :: "serve_env \<Rightarrow> queue_item list \<Rightarrow> reap_result \<Rightarrow> serve_world \<Rightarrow> reap_result stage" where
  "reap_running env [] rp w = (w, Inr rp)"
| "reap_running env (i # is) rp w =
     (if lease_dead env i
      then then_do (reap_one env i rp w) (\<lambda>w1 rp1. reap_running env is rp1 w1)
      else reap_running env is rp w)"

definition reap_leases :: "serve_env \<Rightarrow> serve_world \<Rightarrow> reap_result stage" where
  "reap_leases env w =
     then_do (reap_leased env (queue_items (se_parse env) (sw_disk w) [LEASED]) nothing_reaped w)
       (\<lambda>w1 rp. reap_running env (queue_items (se_parse env) (sw_disk w1) [Queue_Items.RUNNING]) rp w1)"

fun terminals :: "serve_env \<Rightarrow> string list \<Rightarrow> serve_world \<Rightarrow> unit stage" where
  "terminals env [] w = (w, Inr ())"
| "terminals env (_ # iids) w = then_do (terminal env True w) (\<lambda>w1 _. terminals env iids w1)"

definition recover :: "serve_env \<Rightarrow> cycle_result \<Rightarrow> serve_world \<Rightarrow> cycle_result stage" where
  "recover env cr w =
     (let cx = se_ctx env At_Recovery;
          (d, swept) = sweep_staging (cx_journal_lost cx) (now_iso cx) (sw_disk w)
      in then_do (reap_leases env (w\<lparr>sw_disk := d\<rparr>))
           (\<lambda>w1 rp. then_do (terminals env (rp_poisoned rp) w1)
              (\<lambda>w2 _. (w2, Inr (cr\<lparr>cr_swept := swept, cr_reaped := rp\<rparr>)))))"

definition report_reaped :: "serve_env \<Rightarrow> cycle_result \<Rightarrow> serve_world \<Rightarrow> cycle_result \<times> serve_world" where
  "report_reaped env cr w =
     fold (\<lambda>iid. file_for_human env (Reaped_Notice iid)) (rp_poisoned (cr_reaped cr)) (cr, w)"

end
