(* ===== verification/Serve_Cycle.thy ===== *)
theory Serve_Cycle
  imports Serve
begin

text \<open>
  The stages of \<open>serve_cycle\<close> after recovery, in its order: the pause marker, the gates, the waits,
  the claim, the start that charges the attempt, the run, its spend, its classification and its
  ending. A stage either ends the cycle (\<open>Stop\<close>) or hands on what the next one needs.
\<close>

datatype 'a flow = Stop cycle_result | Go 'a

definition flow_do :: "'a flow stage \<Rightarrow> (serve_world \<Rightarrow> 'a \<Rightarrow> 'b flow stage) \<Rightarrow> 'b flow stage" where
  "flow_do r f = then_do r (\<lambda>w x. case x of Stop cr \<Rightarrow> (w, Inr (Stop cr)) | Go a \<Rightarrow> f w a)"

lemma flow_do_simps [simp]:
  "flow_do (w, Inr (Go a)) f = f w a" "flow_do (w, Inr (Stop cr)) f = (w, Inr (Stop cr))"
  "flow_do (w, Inl e) f = (w, Inl e)"
  by (simp_all add: flow_do_def)

definition skip :: "skip_reason \<Rightarrow> cycle_result \<Rightarrow> cycle_result" where
  "skip why cr = cr\<lparr>cr_skipped := Some why\<rparr>"

definition needs_human :: "cycle_result \<Rightarrow> cycle_result" where
  "needs_human cr = cr\<lparr>cr_needs_human := True\<rparr>"

section \<open>The pause marker\<close>

definition clear_elapsed_pause :: "serve_env \<Rightarrow> serve_world \<Rightarrow> serve_world" where
  "clear_elapsed_pause env w =
     (let p = read_pause_state (sw_control w); cx = se_ctx env At_Pause
      in if ps_paused p \<and> \<not> pause_active (se_fromiso env) p (se_now env)
         then (let (c, d, _) = resume_queue (cx_journal_lost cx) (now_iso cx) (sw_control w) (sw_disk w)
                     ''serve'' []
               in w\<lparr>sw_control := c, sw_disk := d\<rparr>)
         else w)"

definition pause_stage :: "serve_env \<Rightarrow> cycle_result \<Rightarrow> serve_world \<Rightarrow> cycle_result flow stage" where
  "pause_stage env cr w =
     (let w1 = clear_elapsed_pause env w
      in if is_paused (se_fromiso env) (sw_control w1) (se_now env)
         then (w1, Inr (Stop (skip Skip_Paused cr))) else (w1, Inr (Go cr)))"

definition pause_intake :: "serve_env \<Rightarrow> notice \<Rightarrow> string \<Rightarrow> serve_world \<Rightarrow> serve_world" where
  "pause_intake env n resume_after w =
     (let cx = se_ctx env At_Pause;
          (c, d, _) = pause_queue (cx_journal_lost cx) (now_iso cx) (sw_control w) (sw_disk w)
            (se_pause_text env n) ''serve'' resume_after
      in w\<lparr>sw_control := c, sw_disk := d\<rparr>)"

section \<open>Gates\<close>

definition money_gates :: "serve_env \<Rightarrow> serve_config \<Rightarrow> spend_ledger \<Rightarrow> ledger_error + admission list" where
  "money_gates env cfg lg =
     and_then (check_poison_breaker (se_parse env) (se_rep env) (se_today env) lg cfg) (\<lambda>a.
     and_then (check_cost_coverage (se_parse env) (se_rep env) (se_today env) (se_progress env) lg cfg) (\<lambda>b.
     and_then (check_budget (se_parse env) (se_rep env) (se_today env) (se_midnight env) lg cfg) (\<lambda>c.
       Inr [a, b, c])))"

fun refused_gate :: "nat \<Rightarrow> admission list \<Rightarrow> (nat \<times> admission) option" where
  "refused_gate n [] = None"
| "refused_gate n (a # as) = (if ad_allowed a then refused_gate (Suc n) as else Some (n, a))"

definition gate_stage :: "serve_env \<Rightarrow> serve_config \<Rightarrow> cycle_result \<Rightarrow> serve_world \<Rightarrow> cycle_result flow stage" where
  "gate_stage env cfg cr w =
     (case money_gates env cfg (sw_ledger w) of
        Inl _ \<Rightarrow> (w, Inr (Stop (needs_human (skip Skip_Ledger cr))))
      | Inr gates \<Rightarrow>
          (case refused_gate 0 gates of
             None \<Rightarrow> (w, Inr (Go cr))
           | Some (n, a) \<Rightarrow>
               (if ad_pauses a
                then (let w1 = pause_intake env (Pause_Notice n) (ad_resume_after a) w;
                          (cr2, w2) = file_for_human env (Pause_Notice n) (cr\<lparr>cr_paused := True\<rparr>, w1)
                      in (w2, Inr (Stop (skip Skip_Gate cr2))))
                else (w, Inr (Stop (skip Skip_Gate cr))))))"

text \<open>The waits in order; the first component says whether one of them refused.\<close>

definition wait_gate_refusal :: "serve_env \<Rightarrow> serve_config \<Rightarrow> serve_world \<Rightarrow> bool \<times> serve_world" where
  "wait_gate_refusal env cfg w =
     (if \<not> ad_allowed (check_inbox_cap (se_inbox_env env) (se_inbox_config env) (sw_inbox w))
      then (True, w)
      else
        (let (box, stack_waits) = se_stack env (sw_inbox w); w1 = w\<lparr>sw_inbox := box\<rparr>
         in if stack_waits then (True, w1)
            else if se_factory_lock env then (True, w1)
            else if \<not> ad_allowed (check_parked_merges (se_parse env) (se_rep env) (sw_manifest w1))
            then (True, w1)
            else
              (let (a, k) = check_open_pr_bound cfg (gi_create_prs (se_gate env)) (se_pr_count env) (sw_streak w1)
               in (\<not> ad_allowed a, w1\<lparr>sw_streak := k\<rparr>))))"

definition record_count_failure :: "serve_env \<Rightarrow> cycle_result \<Rightarrow> serve_world \<Rightarrow> cycle_result \<times> serve_world" where
  "record_count_failure env cr w =
     (if \<not> should_file (sw_streak w) then (cr, w)
      else
        (let (w1, iid) = file_inbox_item env Count_Notice w
         in if iid = [] then (needs_human cr, w1)
            else (needs_human (cr\<lparr>cr_inbox := cr_inbox cr @ [iid]\<rparr>),
                  w1\<lparr>sw_streak := (sw_streak w1)\<lparr>pk_filed := True\<rparr>\<rparr>)))"

definition wait_stage :: "serve_env \<Rightarrow> serve_config \<Rightarrow> cycle_result \<Rightarrow> serve_world \<Rightarrow> cycle_result flow stage" where
  "wait_stage env cfg cr w =
     (let (refused, w1) = wait_gate_refusal env cfg w
      in if refused
         then (let (cr2, w2) = record_count_failure env cr w1 in (w2, Inr (Stop (skip Skip_Wait cr2))))
         else (w1, Inr (Go cr)))"

section \<open>The claim and the start\<close>

definition claim_stage ::
    "serve_env \<Rightarrow> cycle_result \<Rightarrow> serve_world \<Rightarrow> (cycle_result \<times> queue_item \<times> bool) flow stage" where
  "claim_stage env cr w =
     (case next_ready (se_fromiso env) (se_parse env) (sw_control w) (sw_disk w) (se_now env) of
        None \<Rightarrow> (w, Inr (Stop (skip Skip_Nothing cr)))
      | Some cand \<Rightarrow>
          (let gate = resolve_merge_gate (se_gate env) (qi_merge_disposition cand)
           in case mg_refusal gate of
                None \<Rightarrow>
                  then_do (queue_do (\<lambda>d. lease_item (se_ctx env At_Lease) d cand 0 [] ''serve'') w)
                    (\<lambda>w1 leased. (w1, Inr (Go (cr, leased, mg_pause gate))))
              | Some (Section_Unreadable _) \<Rightarrow> (w, Inr (Stop (skip Skip_Merge_Gate cr)))
              | Some (Checkpoint_Unreachable _) \<Rightarrow>
                  then_do (queue_do (\<lambda>d. poison_item (se_ctx env At_Gate_Poison) d cand
                             ''merge-gate conflict'' ''serve'') w)
                    (\<lambda>w1 _. then_do (terminal env True w1)
                      (\<lambda>w2 _. then_do (queue_get env (qi_item_id cand) w2)
                        (\<lambda>w3 found.
                           case found of
                             None \<Rightarrow> (w3, Inr (Stop (skip Skip_Merge_Gate cr)))
                           | Some _ \<Rightarrow>
                               (let (cr4, w4) = file_for_human env (Merge_Gate_Notice (qi_item_id cand))
                                      (skip Skip_Merge_Gate cr, w3)
                                in (w4, Inr (Stop cr4))))))))"

definition start_stage ::
    "serve_env \<Rightarrow> cycle_result \<Rightarrow> queue_item \<Rightarrow> serve_world \<Rightarrow> (cycle_result \<times> queue_item) flow stage" where
  "start_stage env cr leased w =
     (case start_item (se_ctx env At_Start) (sw_disk w) leased [] ''serve'' of
        (d, running, None) \<Rightarrow>
          (w\<lparr>sw_disk := d\<rparr>, Inr (Go (cr\<lparr>cr_ran := qi_item_id running\<rparr>, running)))
      | (d, i, Some (Budget_Exhausted _)) \<Rightarrow>
          then_do (queue_do (\<lambda>d. poison_item (se_ctx env At_Exhausted) d i ''no attempts left'' ''serve'')
                     (w\<lparr>sw_disk := d\<rparr>))
            (\<lambda>w1 _. then_do (terminal env True w1)
              (\<lambda>w2 _. then_do (queue_get env (qi_item_id leased) w2)
                (\<lambda>w3 _. (w3, Inr (Stop (needs_human (skip Skip_Exhausted cr)))))))
      | (d, i, Some e) \<Rightarrow> (w\<lparr>sw_disk := d\<rparr>, Inl (Raised_Queue e)))"

section \<open>The run\<close>

text \<open>\<open>_adopt\<close>: the child takes over the lease; queue errors are only warned about.\<close>

definition adopt_child :: "serve_env \<Rightarrow> queue_item \<Rightarrow> serve_world \<Rightarrow> serve_world" where
  "adopt_child env running w =
     (case se_spawn env of
        None \<Rightarrow> w
      | Some pid \<Rightarrow>
          (case get_item (se_parse env) (sw_disk w) (qi_item_id running) of
             Inr (Some current) \<Rightarrow>
               w\<lparr>sw_disk := fst (adopt_lease (se_ctx env At_Adopt) (sw_disk w) current pid [] ''serve'')\<rparr>
           | _ \<Rightarrow> w))"

definition orphan_stage ::
    "serve_env \<Rightarrow> cycle_result \<Rightarrow> queue_item \<Rightarrow> serve_world \<Rightarrow> cycle_result stage" where
  "orphan_stage env cr running w =
     (let finish = (\<lambda>w'. let (cr2, w2) = file_for_human env (Orphan_Notice (qi_item_id running))
                (cr\<lparr>cr_outcome := Some \<lparr>oc_verdict = Unclassifiable, oc_reason = Timed_Out\<rparr>\<rparr>, w')
              in (w2, Inr cr2))
      in then_do (queue_get env (qi_item_id running) w)
        (\<lambda>w1 found.
           case found of
             None \<Rightarrow> finish w1
           | Some current \<Rightarrow>
               then_do (queue_do (\<lambda>d. poison_item (se_ctx env At_Orphan) d current
                          ''orphaned factory process'' ''serve'') w1)
                 (\<lambda>w2 _. then_do (terminal env True w2)
                   (\<lambda>w3 _. then_do (queue_get env (qi_item_id running) w3) (\<lambda>w4 _. finish w4)))))"

definition run_stage ::
    "serve_env \<Rightarrow> cycle_result \<Rightarrow> queue_item \<Rightarrow> bool \<Rightarrow> serve_world \<Rightarrow>
     (cycle_result \<times> run_result \<times> string list) flow stage" where
  "run_stage env cr running pause w =
     (case spec_path running of
        Inl e \<Rightarrow> (w, Inl (Raised_Queue e))
      | Inr _ \<Rightarrow>
          (let (w2, run) = se_child env running pause (adopt_child env running w)
           in if rr_timed_out run \<and> \<not> rr_group_reaped run
              then then_do (orphan_stage env cr running w2) (\<lambda>w3 cr3. (w3, Inr (Stop cr3)))
              else (w2, Inr (Go (cr, run, sw_runs w)))))"

section \<open>The spend\<close>

definition pause_on_unreadable_spend ::
    "serve_env \<Rightarrow> string list \<Rightarrow> cycle_result \<Rightarrow> serve_world \<Rightarrow> cycle_result \<times> serve_world" where
  "pause_on_unreadable_spend env unreadable cr w =
     (if unreadable = [] then (cr, w)
      else file_for_human env (Spend_Notice unreadable)
             (cr\<lparr>cr_paused := True\<rparr>, pause_intake env (Spend_Notice unreadable) [] w))"

definition spend_stage ::
    "serve_env \<Rightarrow> cycle_result \<Rightarrow> string list \<Rightarrow> serve_world \<Rightarrow> (cycle_result \<times> string list) stage" where
  "spend_stage env cr before w =
     (let (owned, ls) = owned_run_spend (se_run_reader env) before (sw_runs w) (se_spawn env);
          (cr1, w1) = pause_on_unreadable_spend env (ls_unreadable ls) cr w
      in case charge (se_parse env) (se_rep env) (se_today env) (ls_cost ls) (ls_cost_calls ls)
                (ls_usage_calls ls) (ls_unmetered ls) (owned \<noteq> []) (sw_ledger w1) of
           Inl e \<Rightarrow> (w1, Inl (Raised_Ledger e))
         | Inr (lg, _) \<Rightarrow> (w1\<lparr>sw_ledger := lg\<rparr>, Inr (cr1\<lparr>cr_charged := ls_cost ls\<rparr>, owned)))"

section \<open>The ending\<close>

definition architect_run_id :: "string list \<Rightarrow> string" where
  "architect_run_id owned =
     (case filter (\<lambda>r. run_kind r = architect_run_kind) owned of [r] \<Rightarrow> r | _ \<Rightarrow> [])"

definition classify_stage ::
    "serve_env \<Rightarrow> cycle_result \<Rightarrow> run_result \<Rightarrow> string list \<Rightarrow> serve_world \<Rightarrow>
     (cycle_result \<times> outcome \<times> string list \<times> string) stage" where
  "classify_stage env cr run owned w =
     (let run_id = run_id_from_manifest (se_parse env) (sw_manifest w);
          owns = (run_id \<noteq> [] \<and> run_id \<in> set owned)
      in case classify_run (se_parse env) (se_rep env)
                \<lparr>ar_manifest = sw_manifest w, ar_base_record = se_base_record env, ar_halts = se_halts env\<rparr>
                run owns owned of
           Inl e \<Rightarrow> (w, Inl (Raised_Load e))
         | Inr oc \<Rightarrow>
             (w, Inr (cr\<lparr>cr_outcome := Some oc\<rparr>, oc,
                      pr_urls_from_manifest (se_parse env) (sw_manifest w) owns, run_id)))"

definition requeue_on_red_base ::
    "serve_env \<Rightarrow> cycle_result \<Rightarrow> queue_item \<Rightarrow> outcome \<Rightarrow> serve_world \<Rightarrow> cycle_result stage" where
  "requeue_on_red_base env cr running oc w =
     (let n = Red_Base_Notice (oc_reason oc); say = se_say env (oc_reason oc);
          finish = (\<lambda>w'. then_do (queue_get env (qi_item_id running) w')
             (\<lambda>w1 _. let (cr2, w2) = file_for_human env n (cr\<lparr>cr_paused := True\<rparr>, w1) in (w2, Inr cr2)))
      in then_do (queue_get env (qi_item_id running) (pause_intake env n [] w))
        (\<lambda>w1 found.
           case found of
             None \<Rightarrow> finish w1
           | Some current \<Rightarrow>
               then_do (queue_do (\<lambda>d. finish_failed (se_ctx env At_Failed) d current say ''serve'' []) w1)
                 (\<lambda>w2 failed. then_do (queue_do (\<lambda>d. requeue_item (se_ctx env At_Red_Base) d failed
                                (''red base: '' @ say) ''serve'' False None) w2)
                   (\<lambda>w3 _. finish w3))))"

definition settle_stage ::
    "serve_env \<Rightarrow> cycle_result \<Rightarrow> queue_item \<Rightarrow> outcome \<Rightarrow> string list \<Rightarrow> string \<Rightarrow> string \<Rightarrow>
     serve_world \<Rightarrow> cycle_result flow stage" where
  "settle_stage env cr running oc urls run_id arch_id w =
     (let say = se_say env (oc_reason oc);
          finish = (\<lambda>cr' w'. then_do (queue_get env (qi_item_id running) w') (\<lambda>w1 _. (w1, Inr (Stop cr'))))
      in if oc_verdict oc = Red_Base
         then then_do (requeue_on_red_base env cr running oc w) (\<lambda>w1 cr1. (w1, Inr (Stop cr1)))
         else
           then_do (queue_get env (qi_item_id running) w)
             (\<lambda>w1 found.
                case found of
                  None \<Rightarrow> (w1, Inr (Stop cr))
                | Some current \<Rightarrow>
                    (if oc_verdict oc = Success
                     then then_do (queue_do (\<lambda>d. finish_ok (se_ctx env At_Settle) d current ''serve'' urls) w1)
                            (\<lambda>w2 _. then_do (terminal env False w2) (\<lambda>w3 _. finish cr w3))
                     else if oc_verdict oc = Park_Approval
                     then then_do (queue_do (\<lambda>d. await_approval (se_ctx env At_Settle) d current say run_id
                                     ''serve'' urls) w1)
                            (\<lambda>w2 _. finish (needs_human cr) w2)
                     else if oc_verdict oc = Park_Answer
                     then then_do (queue_do (\<lambda>d. await_answer (se_ctx env At_Settle) d current say arch_id
                                     ''serve'') w1)
                            (\<lambda>w2 _. finish (needs_human cr) w2)
                     else (w1, Inr (Go cr)))))"

definition failure_stage ::
    "serve_env \<Rightarrow> cycle_result \<Rightarrow> queue_item \<Rightarrow> outcome \<Rightarrow> string list \<Rightarrow> serve_world \<Rightarrow> cycle_result stage" where
  "failure_stage env cr running oc urls w =
     (let iid = qi_item_id running; say = se_say env (oc_reason oc)
      in then_do (queue_get env iid w)
        (\<lambda>w1 found.
           case found of
             None \<Rightarrow> (w1, Inr cr)
           | Some current \<Rightarrow>
               then_do (queue_do (\<lambda>d. finish_failed (se_ctx env At_Failed) d current say ''serve'' urls) w1)
                 (\<lambda>w2 _. then_do (queue_get env iid w2)
                   (\<lambda>w3 again.
                      case again of
                        None \<Rightarrow> (w3, Inr cr)
                      | Some failed \<Rightarrow>
                          (if may_retry (oc_verdict oc) \<and> attempts_remaining failed > 0
                           then then_do (queue_do (\<lambda>d. requeue_item (se_ctx env At_Requeue) d failed
                                          (''retry: '' @ say) ''serve'' False
                                          (Some (retry_at env At_Requeue (qi_attempts failed)))) w3)
                                  (\<lambda>w4 _. then_do (queue_get env iid w4) (\<lambda>w5 _. (w5, Inr cr)))
                           else then_do (queue_do (\<lambda>d. poison_item (se_ctx env At_Poison) d failed say ''serve'') w3)
                                  (\<lambda>w4 _. then_do (terminal env True w4)
                                    (\<lambda>w5 _. then_do (queue_get env iid w5)
                                      (\<lambda>w6 _. let (cr7, w7) =
                                           file_for_human env (Poison_Notice iid (oc_reason oc)) (cr, w6)
                                         in (w7, Inr cr7)))))))))"

section \<open>The cycle\<close>

text \<open>From the end of the run on.\<close>

definition ending_stages ::
    "serve_env \<Rightarrow> cycle_result \<Rightarrow> queue_item \<Rightarrow> run_result \<Rightarrow> string list \<Rightarrow> serve_world \<Rightarrow>
     cycle_result flow stage" where
  "ending_stages env cr running run before w =
     then_do (spend_stage env cr before w) (\<lambda>w1 (cr1, owned).
     then_do (classify_stage env cr1 run owned w1) (\<lambda>w2 (cr2, oc, urls, run_id).
     flow_do (settle_stage env cr2 running oc urls run_id (architect_run_id owned) w2) (\<lambda>w3 cr3.
     then_do (failure_stage env cr3 running oc urls w3) (\<lambda>w4 cr4. (w4, Inr (Stop cr4))))))"

text \<open>From the claim on.\<close>

definition work_stages :: "serve_env \<Rightarrow> cycle_result \<Rightarrow> serve_world \<Rightarrow> cycle_result flow stage" where
  "work_stages env cr w =
     flow_do (claim_stage env cr w) (\<lambda>w1 (cr1, leased, pause).
     flow_do (start_stage env cr1 leased w1) (\<lambda>w2 (cr2, running).
     flow_do (run_stage env cr2 running pause w2) (\<lambda>w3 (cr3, run, before).
       ending_stages env cr3 running run before w3)))"

definition admitted_stages ::
    "serve_env \<Rightarrow> serve_config \<Rightarrow> cycle_result \<Rightarrow> serve_world \<Rightarrow> cycle_result flow stage" where
  "admitted_stages env cfg cr w =
     flow_do (pause_stage env cr w) (\<lambda>w1 cr1.
     flow_do (gate_stage env cfg cr1 w1) (\<lambda>w2 cr2.
     flow_do (wait_stage env cfg cr2 w2) (\<lambda>w3 cr3. work_stages env cr3 w3)))"

definition serve_cycle :: "serve_env \<Rightarrow> serve_world \<Rightarrow> cycle_result flow stage" where
  "serve_cycle env w =
     (case se_config env of
        None \<Rightarrow> (w, Inr (Stop (skip Skip_Config fresh_result)))
      | Some cfg \<Rightarrow>
          (case read_state (se_parse env) (se_rep env) (se_today env) (sw_ledger w) of
             Inl _ \<Rightarrow>
               (let (cr, w1) = file_for_human env Ledger_Notice (skip Skip_Ledger fresh_result, w)
                in (w1, Inr (Stop cr)))
           | Inr _ \<Rightarrow>
               then_do (recover env fresh_result w) (\<lambda>w1 cr1.
                 let (cr2, w2) = report_reaped env cr1 w1
                 in admitted_stages env cfg cr2 (w2\<lparr>sw_disk := se_intake env (sw_disk w2)\<rparr>))))"

end
