(* ===== verification/Serve_Loop.thy ===== *)
theory Serve_Loop
  imports Serve_Cycle
begin

text \<open>
  The loop of \<open>serve\<close> (\<open>kstrl/serve/serve.py\<close>) for a bounded number of cycles, one argument record
  per cycle, with the streak file read before the first and written after each; and
  \<open>settle_approval_run\<close> of \<open>serve_settle.py\<close>, what \<open>ks inbox approve\<close> and \<open>reject\<close> do with
  the parked item. A cycle that raises ends the loop. The refresh of CI readings is not modelled.
\<close>

section \<open>The loop\<close>

definition cycle_outcome :: "cycle_result flow stage \<Rightarrow> cycle_result stage" where
  "cycle_outcome r =
     (case r of
        (w, Inl e) \<Rightarrow> (w, Inl e) | (w, Inr (Stop cr)) \<Rightarrow> (w, Inr cr) | (w, Inr (Go cr)) \<Rightarrow> (w, Inr cr))"

text \<open>The streak file as \<open>streak\<close>; \<open>fails\<close> says which save raises.\<close>

fun serve_cycles ::
    "(serve_env \<times> bool) list \<Rightarrow> serve_world \<Rightarrow> content option \<Rightarrow> cycle_result list \<Rightarrow>
     (serve_world \<times> content option) \<times> (serve_raise + cycle_result list)" where
  "serve_cycles [] w streak done = ((w, streak), Inr done)"
| "serve_cycles ((env, fails) # polls) w streak done =
     (case cycle_outcome (serve_cycle env w) of
        (w1, Inl e) \<Rightarrow> ((w1, streak), Inl e)
      | (w1, Inr cr) \<Rightarrow>
          serve_cycles polls w1 (save_streak fails (sw_streak w1) streak) (done @ [cr]))"

definition serve ::
    "json_parser \<Rightarrow> (serve_env \<times> bool) list \<Rightarrow> serve_world \<Rightarrow> content option \<Rightarrow>
     (serve_world \<times> content option) \<times> (serve_raise + cycle_result list)" where
  "serve parse polls w streak =
     serve_cycles polls (w\<lparr>sw_streak := load_streak parse streak\<rparr>) streak []"

section \<open>A decision at the merge gate\<close>

definition linked_items :: "serve_env \<Rightarrow> string \<Rightarrow> serve_world \<Rightarrow> queue_item list" where
  "linked_items env parked_run_id w =
     filter (\<lambda>i. parked_run_id \<noteq> [] \<and> qi_last_run_id i = parked_run_id)
       (queue_items (se_parse env) (sw_disk w) [Queue_Items.AWAITING_APPROVAL])"

definition decided_run :: "int \<Rightarrow> run_result" where
  "decided_run returncode =
     \<lparr>rr_returncode = returncode, rr_timed_out = False, rr_launch_error = [], rr_output_tail = [],
      rr_group_reaped = True\<rparr>"

definition settle_approval_run ::
    "serve_env \<Rightarrow> string \<Rightarrow> int \<Rightarrow> string \<Rightarrow> string \<Rightarrow> serve_world \<Rightarrow> queue_item option stage" where
  "settle_approval_run env parked_run_id returncode actor park_reason w =
     (case linked_items env parked_run_id w of
        [linked] \<Rightarrow>
          (let parse = se_parse env; rep = se_rep env;
               run_id = run_id_from_manifest parse (sw_manifest w);
               owned = (if run_id \<noteq> [] then [run_id] else [])
           in case classify_run parse rep
                     \<lparr>ar_manifest = sw_manifest w, ar_base_record = se_base_record env, ar_halts = se_halts env\<rparr>
                     (decided_run returncode) True owned of
                Inl e \<Rightarrow> (w, Inl (Raised_Load e))
              | Inr oc \<Rightarrow>
                  then_do (queue_get env (qi_item_id linked) w)
                    (\<lambda>w1 found.
                       case found of
                         None \<Rightarrow> (w1, Inr None)
                       | Some current \<Rightarrow>
                           (let cx = se_ctx env At_Settle;
                                settle = (\<lambda>f. then_do (queue_do f w1)
                                   (\<lambda>w2 _. queue_get env (qi_item_id current) w2))
                            in if qi_state current \<noteq> Queue_Items.AWAITING_APPROVAL then (w1, Inr None)
                               else if \<not> ad_allowed (check_parked_merges parse rep (sw_manifest w))
                               then (if run_id = qi_last_run_id current then (w1, Inr (Some current))
                                     else settle (\<lambda>d. relink_run cx d current run_id park_reason actor))
                               else if oc_verdict oc = Success
                               then settle (\<lambda>d. finish_ok cx d current actor
                                      (pr_urls_from_manifest parse (sw_manifest w) True))
                               else settle (\<lambda>d. poison_item cx d current (se_say env (oc_reason oc)) actor))))
      | _ \<Rightarrow> (w, Inr None))"

end
