(* ===== verification/Serve_Safety.thy ===== *)
theory Serve_Safety
  imports Serve_Cycle
begin

text \<open>
  What a cycle does to the ledger, and when it launches a factory run: a launch is what makes the
  result depend on \<open>se_child\<close>, so a cycle that launches nothing is the same for every child.
\<close>

section \<open>The child is only reached by a launch\<close>

lemmas case_congs =
  option.case_cong if_cong sum.case_cong prod.case_cong flow.case_cong gate_refusal.case_cong
  queue_error.case_cong

abbreviation with_child :: "serve_env \<Rightarrow> (queue_item \<Rightarrow> bool \<Rightarrow> serve_world \<Rightarrow> serve_world \<times> run_result) \<Rightarrow> serve_env" where
  "with_child env c \<equiv> env\<lparr>se_child := c\<rparr>"

lemma child_irrelevant_basic [simp]:
  "queue_get (with_child env c) iid w = queue_get env iid w"
  "terminal (with_child env c) b w = terminal env b w"
  "file_inbox_item (with_child env c) n w = file_inbox_item env n w"
  "retry_at (with_child env c) p a = retry_at env p a"
  "adopt_child (with_child env c) running w = adopt_child env running w"
  "pause_intake (with_child env c) n r w = pause_intake env n r w"
  "lease_dead (with_child env c) i = lease_dead env i"
  by (simp_all add: queue_get_def terminal_def file_inbox_item_def retry_at_def lease_dead_def pid_alive_def
      adopt_child_def pause_intake_def
      cong: case_congs)

lemma child_irrelevant_file [simp]: "file_for_human (with_child env c) n = file_for_human env n"
  by (rule ext) (simp add: file_for_human_def)

lemma child_irrelevant_reap_one [simp]: "reap_one (with_child env c) i rp w = reap_one env i rp w"
  by (simp add: reap_one_def cong: case_congs)

lemma child_irrelevant_loops [simp]:
  "reap_leased (with_child env c) is rp w = reap_leased env is rp w"
  "reap_running (with_child env c) is rp w = reap_running env is rp w"
  by (induction "is" arbitrary: rp w) (simp_all cong: case_congs)

lemma child_irrelevant_terminals [simp]: "terminals (with_child env c) iids w = terminals env iids w"
  by (induction iids arbitrary: w) simp_all

lemma child_irrelevant_stages [simp]:
  "recover (with_child env c) cr w = recover env cr w"
  "report_reaped (with_child env c) cr w = report_reaped env cr w"
  "pause_stage (with_child env c) cr w = pause_stage env cr w"
  "gate_stage (with_child env c) cfg cr w = gate_stage env cfg cr w"
  "wait_gate_refusal (with_child env c) cfg w = wait_gate_refusal env cfg w"
  "record_count_failure (with_child env c) cr w = record_count_failure env cr w"
  "claim_stage (with_child env c) cr w = claim_stage env cr w"
  "start_stage (with_child env c) cr leased w = start_stage env cr leased w"
  by (simp_all add: recover_def reap_leases_def report_reaped_def pause_stage_def clear_elapsed_pause_def
      gate_stage_def money_gates_def pause_intake_def wait_gate_refusal_def record_count_failure_def
      claim_stage_def start_stage_def Let_def cong: case_congs)

lemma child_irrelevant_endings [simp]:
  "orphan_stage (with_child env c) cr running w = orphan_stage env cr running w"
  "spend_stage (with_child env c) cr before w = spend_stage env cr before w"
  "classify_stage (with_child env c) cr run owned w = classify_stage env cr run owned w"
  "requeue_on_red_base (with_child env c) cr running oc w = requeue_on_red_base env cr running oc w"
  "settle_stage (with_child env c) cr running oc urls run_id arch_id w =
     settle_stage env cr running oc urls run_id arch_id w"
  "failure_stage (with_child env c) cr running oc urls w = failure_stage env cr running oc urls w"
  by (simp_all add: orphan_stage_def spend_stage_def pause_on_unreadable_spend_def classify_stage_def
      requeue_on_red_base_def settle_stage_def failure_stage_def Let_def case_prod_unfold cong: case_congs)

lemma child_irrelevant_ending [simp]:
  "ending_stages (with_child env c) cr running run before w = ending_stages env cr running run before w"
  by (simp add: ending_stages_def)

lemma child_irrelevant_wait [simp]: "wait_stage (with_child env c) cfg cr w = wait_stage env cfg cr w"
  by (simp add: wait_stage_def Let_def case_prod_unfold cong: case_congs)

section \<open>When a run is launched\<close>

text \<open>The world a launch is made from: every check admitted it and an item is ready.\<close>

definition launch_admitted :: "serve_env \<Rightarrow> serve_config \<Rightarrow> serve_world \<Rightarrow> bool" where
  "launch_admitted env cfg w =
     (\<exists>s. read_state (se_parse env) (se_rep env) (se_today env) (sw_ledger w) = Inr s \<and>
        st_poison_streak s < sv_max_consecutive_poison cfg \<and>
        (sv_daily_budget cfg \<le> 0 \<or>
         ds_spent (st_spend s) < sv_daily_budget cfg \<and>
         (sv_allow_uncovered_cost cfg \<or> st_coverage_seen s \<or> snd (recorded_cost_evidence (se_progress env)))) \<and>
        ad_allowed (check_inbox_cap (se_inbox_env env) (se_inbox_config env) (sw_inbox w)) \<and>
        \<not> snd (se_stack env (sw_inbox w)) \<and> \<not> se_factory_lock env \<and>
        ad_allowed (check_parked_merges (se_parse env) (se_rep env) (sw_manifest w)) \<and>
        ad_allowed (fst (check_open_pr_bound cfg (gi_create_prs (se_gate env)) (se_pr_count env) (sw_streak w))))"

lemma gate_stage_admits:
  assumes "gate_stage env cfg cr w = (w', Inr (Go cr'))"
  shows "w' = w \<and> cr' = cr \<and>
    (\<exists>s. read_state (se_parse env) (se_rep env) (se_today env) (sw_ledger w) = Inr s \<and>
        st_poison_streak s < sv_max_consecutive_poison cfg \<and>
        (sv_daily_budget cfg \<le> 0 \<or>
         ds_spent (st_spend s) < sv_daily_budget cfg \<and>
         (sv_allow_uncovered_cost cfg \<or> st_coverage_seen s \<or> snd (recorded_cost_evidence (se_progress env)))))"
proof -
  obtain gates where gates: "money_gates env cfg (sw_ledger w) = Inr gates"
      "refused_gate 0 gates = None" and same: "w' = w" "cr' = cr"
    using assms
    by (auto simp: gate_stage_def Let_def case_prod_unfold split: sum.splits option.splits if_splits)
  obtain a b d where abc: "gates = [a, b, d]" and each:
      "check_poison_breaker (se_parse env) (se_rep env) (se_today env) (sw_ledger w) cfg = Inr a"
      "check_cost_coverage (se_parse env) (se_rep env) (se_today env) (se_progress env) (sw_ledger w) cfg = Inr b"
      "check_budget (se_parse env) (se_rep env) (se_today env) (se_midnight env) (sw_ledger w) cfg = Inr d"
    using gates(1) by (auto simp: money_gates_def and_then_Inr)
  have ok: "ad_allowed a" "ad_allowed b" "ad_allowed d"
    using gates(2) by (auto simp: abc split: if_splits)
  obtain s where s: "read_state (se_parse env) (se_rep env) (se_today env) (sw_ledger w) = Inr s"
    using each(1) by (auto simp: check_poison_breaker_def and_then_Inr)
  have "st_poison_streak s < sv_max_consecutive_poison cfg"
    using each(1) ok(1) s by (auto simp: check_poison_breaker_def split: if_splits)
  moreover have "sv_daily_budget cfg \<le> 0 \<or> ds_spent (st_spend s) < sv_daily_budget cfg"
    using each(3) ok(3) s by (auto simp: check_budget_def split: if_splits)
  moreover have "sv_daily_budget cfg \<le> 0 \<or> sv_allow_uncovered_cost cfg \<or> st_coverage_seen s \<or>
      snd (recorded_cost_evidence (se_progress env))"
    using each(2) ok(2) s by (auto simp: check_cost_coverage_def split: if_splits)
  ultimately show ?thesis using s same by blast
qed

lemma wait_stage_admits:
  assumes "wait_stage env cfg cr w = (w', Inr (Go cr'))"
  shows "cr' = cr \<and> sw_disk w' = sw_disk w \<and> sw_ledger w' = sw_ledger w \<and> sw_control w' = sw_control w \<and>
    ad_allowed (check_inbox_cap (se_inbox_env env) (se_inbox_config env) (sw_inbox w)) \<and>
    \<not> snd (se_stack env (sw_inbox w)) \<and> \<not> se_factory_lock env \<and>
    ad_allowed (check_parked_merges (se_parse env) (se_rep env) (sw_manifest w)) \<and>
    ad_allowed (fst (check_open_pr_bound cfg (gi_create_prs (se_gate env)) (se_pr_count env) (sw_streak w)))"
  using assms
  by (auto simp: wait_stage_def wait_gate_refusal_def Let_def case_prod_unfold split: if_splits)

lemma pause_stage_go:
  assumes "pause_stage env cr w = (w', Inr (Go cr'))"
  shows "cr' = cr \<and> sw_ledger w' = sw_ledger w \<and> sw_inbox w' = sw_inbox w \<and> sw_manifest w' = sw_manifest w \<and>
         sw_streak w' = sw_streak w \<and> \<not> is_paused (se_fromiso env) (sw_control w') (se_now env)"
  using assms
  by (auto simp: pause_stage_def clear_elapsed_pause_def resume_queue_def Let_def split: if_splits)

lemma flow_do_stop: "(\<And>w' a. r = (w', Inr (Go a)) \<Longrightarrow> f w' a = g w' a) \<Longrightarrow> flow_do r f = flow_do r g"
  by (cases r; cases "snd r") (auto simp: flow_do_def split: flow.splits)

text \<open>The run the claim leads to: the head of the queue, gated as its disposition demands.\<close>

definition claim_of :: "serve_env \<Rightarrow> serve_world \<Rightarrow> (queue_item \<times> bool) option" where
  "claim_of env w =
     (case next_ready (se_fromiso env) (se_parse env) (sw_control w) (sw_disk w) (se_now env) of
        None \<Rightarrow> None
      | Some cand \<Rightarrow>
          (let gate = resolve_merge_gate (se_gate env) (qi_merge_disposition cand)
           in if mg_refusal gate = None then Some (cand, mg_pause gate) else None))"

lemma claim_stage_go:
  assumes "claim_stage env cr w = (w1, Inr (Go (cr1, leased, pause)))"
  shows "\<exists>cand. claim_of env w = Some (cand, pause)"
  using assms
  by (auto simp: claim_stage_def claim_of_def Let_def then_do_Inr case_prod_unfold
           split: option.splits gate_refusal.splits)

text \<open>A child that agrees with the first on every run the claim can lead to gives the same end.\<close>

lemma work_same_unless_claimed:
  assumes "\<And>i v cand pause. claim_of env w = Some (cand, pause) \<Longrightarrow> c i pause v = se_child env i pause v"
  shows "work_stages (with_child env c) cr w = work_stages env cr w"
  unfolding work_stages_def child_irrelevant_stages
proof (intro flow_do_stop, simp only: split_paired_all prod.case, intro flow_do_stop, simp only: split_paired_all prod.case)
  fix w1 cr1 leased pause w2 cr2 running
  assume claimed: "claim_stage env cr w = (w1, Inr (Go (cr1, leased, pause)))"
  obtain cand where cand: "claim_of env w = Some (cand, pause)"
    using claim_stage_go [OF claimed] by blast
  have "run_stage (with_child env c) cr2 running pause w2 = run_stage env cr2 running pause w2"
    by (simp add: run_stage_def assms [OF cand] cong: case_congs)
  then show "flow_do (run_stage (with_child env c) cr2 running pause w2)
      (\<lambda>w3 (cr3, run, before). ending_stages (with_child env c) cr3 running run before w3) =
    flow_do (run_stage env cr2 running pause w2)
      (\<lambda>w3 (cr3, run, before). ending_stages env cr3 running run before w3)"
    by simp
qed

text \<open>A world the daemon launches from: it is admitted, not paused, and its claim is for \<open>cand\<close>.\<close>

definition launch_from :: "serve_env \<Rightarrow> serve_config \<Rightarrow> serve_world \<Rightarrow> queue_item \<Rightarrow> bool \<Rightarrow> bool" where
  "launch_from env cfg w cand pause =
     (launch_admitted env cfg w \<and> \<not> is_paused (se_fromiso env) (sw_control w) (se_now env) \<and>
      claim_of env w = Some (cand, pause))"

lemma claim_of_cong: "sw_disk v = sw_disk w \<Longrightarrow> sw_control v = sw_control w \<Longrightarrow> claim_of env v = claim_of env w"
  by (simp add: claim_of_def)

lemma admitted_same_unless_launch:
  assumes "\<And>w1 i v cand pause. launch_from env cfg w1 cand pause \<Longrightarrow> sw_ledger w1 = sw_ledger w \<Longrightarrow>
             c i pause v = se_child env i pause v"
  shows "admitted_stages (with_child env c) cfg cr w = admitted_stages env cfg cr w"
  unfolding admitted_stages_def child_irrelevant_stages child_irrelevant_wait
proof (intro flow_do_stop)
  fix w1 cr1 w2 cr2 w3 cr3
  assume stages: "pause_stage env cr w = (w1, Inr (Go cr1))"
    "gate_stage env cfg cr1 w1 = (w2, Inr (Go cr2))" "wait_stage env cfg cr2 w2 = (w3, Inr (Go cr3))"
  have admitted: "launch_admitted env cfg w1" "sw_ledger w1 = sw_ledger w" "sw_disk w3 = sw_disk w1"
      "sw_control w3 = sw_control w1" "\<not> is_paused (se_fromiso env) (sw_control w1) (se_now env)"
    using gate_stage_admits [OF stages(2)] wait_stage_admits [OF stages(3)] pause_stage_go [OF stages(1)]
    by (simp_all add: launch_admitted_def)
  show "work_stages (with_child env c) cr3 w3 = work_stages env cr3 w3"
  proof (rule work_same_unless_claimed)
    fix i v cand pause
    assume "claim_of env w3 = Some (cand, pause)"
    then have "launch_from env cfg w1 cand pause"
      using admitted claim_of_cong [OF admitted(3,4)] by (simp add: launch_from_def)
    then show "c i pause v = se_child env i pause v" using admitted(2) by (rule assms)
  qed
qed

end
