(* ===== verification/Serve_Budget.thy ===== *)
theory Serve_Budget
  imports Serve_Loop Serve_Safety
begin

text \<open>
  What today's ledger says is spent moves only in \<open>spend_stage\<close>: every other stage of a cycle
  leaves it, so a cycle either keeps the day's spend or charges one admitted launch to it, and
  the cycles of a day stay within the budget and one launch.
\<close>

section \<open>Stages that keep the day's spend\<close>

definition spent_today :: "serve_env \<Rightarrow> serve_world \<Rightarrow> daily_spend option" where
  "spent_today env w =
     (case read_state (se_parse env) (se_rep env) (se_today env) (sw_ledger w) of
        Inl _ \<Rightarrow> None | Inr s \<Rightarrow> Some (st_spend s))"

definition keeps_spend :: "serve_env \<Rightarrow> serve_world \<Rightarrow> 'a stage \<Rightarrow> bool" where
  "keeps_spend env w r = (spent_today env (fst r) = spent_today env w)"

named_theorems spend_rules

lemma spent_today_ledger [simp]:
  "spent_today env (w\<lparr>sw_disk := d\<rparr>) = spent_today env w"
  "spent_today env (w\<lparr>sw_control := c\<rparr>) = spent_today env w"
  "spent_today env (w\<lparr>sw_inbox := b\<rparr>) = spent_today env w"
  "spent_today env (w\<lparr>sw_streak := k\<rparr>) = spent_today env w"
  by (simp_all add: spent_today_def)

lemma spent_today_same: "sw_ledger w' = sw_ledger w \<Longrightarrow> spent_today env w' = spent_today env w"
  by (simp add: spent_today_def)

lemma keeps_here [spend_rules]: "spent_today env w' = spent_today env w \<Longrightarrow> keeps_spend env w (w', x)"
  by (simp add: keeps_spend_def)

lemma keeps_then_do [spend_rules]:
  assumes "keeps_spend env w r" and "\<And>w1 x. keeps_spend env w1 (f w1 x)"
  shows "keeps_spend env w (then_do r f)"
  using assms by (cases r; cases "snd r") (auto simp: keeps_spend_def)

lemma keeps_flow_do [spend_rules]:
  assumes "keeps_spend env w r" and "\<And>w1 x. keeps_spend env w1 (f w1 x)"
  shows "keeps_spend env w (flow_do r f)"
  unfolding flow_do_def
  by (rule keeps_then_do [OF assms(1)]) (auto intro: assms(2) keeps_here split: flow.splits)

lemma keeps_queue_do [spend_rules]: "keeps_spend env w (queue_do f w)"
  by (auto simp: keeps_spend_def queue_do_def split: prod.splits option.splits)

lemma keeps_queue_get [spend_rules]: "keeps_spend env w (queue_get env iid w)"
  by (auto simp: keeps_spend_def queue_get_def split: sum.splits)

lemma keeps_terminal [spend_rules]: "keeps_spend env w (terminal env poisoned w)"
  by (auto simp: keeps_spend_def terminal_def spent_today_def split: sum.splits
           dest!: record_terminal_read)

lemma spent_file_inbox_item [simp]: "spent_today env (fst (file_inbox_item env n w)) = spent_today env w"
  by (auto simp: file_inbox_item_def split: option.splits sum.splits)

lemma spent_file_for_human [simp]: "spent_today env (snd (file_for_human env n cw)) = spent_today env (snd cw)"
  by (simp add: file_for_human_def case_prod_unfold Let_def)

lemma spent_file_for_humanD [simp]:
  "file_for_human env n (cr, w) = (cr', w') \<Longrightarrow> spent_today env w' = spent_today env w"
  using spent_file_for_human [of env n "(cr, w)"] by simp

lemma spent_pause_intake [simp]: "spent_today env (pause_intake env n r w) = spent_today env w"
  by (simp add: pause_intake_def Let_def case_prod_unfold)

lemma spent_adopt_child [simp]: "spent_today env (adopt_child env running w) = spent_today env w"
  by (simp add: adopt_child_def split: option.splits sum.splits)

lemma keeps_reap_leased [spend_rules]: "keeps_spend env w (reap_leased env is rp w)"
  by (induction "is" arbitrary: rp w) (auto intro!: spend_rules)

lemma keeps_reap_one [spend_rules]: "keeps_spend env w (reap_one env i rp w)"
  unfolding reap_one_def
  by (intro keeps_then_do keeps_queue_do keeps_queue_get)
    (auto intro!: spend_rules split: option.splits)

lemma keeps_reap_running [spend_rules]: "keeps_spend env w (reap_running env is rp w)"
  by (induction "is" arbitrary: rp w) (auto intro!: spend_rules)

lemma keeps_terminals [spend_rules]: "keeps_spend env w (terminals env iids w)"
  by (induction iids arbitrary: w) (auto intro!: spend_rules)

lemma keeps_recover: "keeps_spend env w (recover env cr w)"
proof -
  obtain d n where swept: "sweep_staging (cx_journal_lost (se_ctx env At_Recovery))
      (now_iso (se_ctx env At_Recovery)) (sw_disk w) = (d, n)" by (metis surj_pair)
  have "keeps_spend env (w\<lparr>sw_disk := d\<rparr>) (recover env cr w)"
    unfolding recover_def reap_leases_def Let_def swept prod.case by (intro spend_rules) simp_all
  then show ?thesis by (simp add: keeps_spend_def)
qed

lemma spent_report_reaped: "report_reaped env cr w = (cr', w') \<Longrightarrow> spent_today env w' = spent_today env w"
proof -
  have "spent_today env (snd (fold (\<lambda>iid. file_for_human env (Reaped_Notice iid)) iids cw)) =
      spent_today env (snd cw)" for iids cw
    by (induction iids arbitrary: cw) simp_all
  then show "report_reaped env cr w = (cr', w') \<Longrightarrow> ?thesis" by (metis report_reaped_def snd_conv)
qed

lemma keeps_pause_stage [spend_rules]: "keeps_spend env w (pause_stage env cr w)"
  by (auto simp: keeps_spend_def pause_stage_def clear_elapsed_pause_def Let_def case_prod_unfold)

lemma keeps_gate_stage [spend_rules]: "keeps_spend env w (gate_stage env cfg cr w)"
  by (auto simp: keeps_spend_def gate_stage_def Let_def case_prod_unfold split: sum.splits option.splits)

lemma spent_record_count_failure [simp]:
  "spent_today env (snd (record_count_failure env cr w)) = spent_today env w"
  by (simp add: record_count_failure_def Let_def case_prod_unfold)

lemma keeps_wait_stage [spend_rules]: "keeps_spend env w (wait_stage env cfg cr w)"
  by (auto simp: keeps_spend_def wait_stage_def wait_gate_refusal_def Let_def case_prod_unfold)

section \<open>The launch\<close>

lemma keeps_claim_stage [spend_rules]: "keeps_spend env w (claim_stage env cr w)"
  by (auto simp: claim_stage_def Let_def case_prod_unfold intro!: spend_rules
           split: option.splits gate_refusal.splits)

lemma keeps_start_stage [spend_rules]: "keeps_spend env w (start_stage env cr leased w)"
proof -
  obtain d i e where started: "start_item (se_ctx env At_Start) (sw_disk w) leased [] ''serve'' = (d, i, e)"
    by (metis surj_pair)
  have "keeps_spend env (w\<lparr>sw_disk := d\<rparr>) (start_stage env cr leased w)"
    by (auto simp: start_stage_def started intro!: spend_rules split: option.splits queue_error.splits)
  then show ?thesis by (simp add: keeps_spend_def)
qed

definition child_keeps_ledger :: "serve_env \<Rightarrow> bool" where
  "child_keeps_ledger env = (\<forall>i pause w. sw_ledger (fst (se_child env i pause w)) = sw_ledger w)"

definition launches_cost_at_most :: "serve_env \<Rightarrow> rat \<Rightarrow> bool" where
  "launches_cost_at_most env most =
     (\<forall>before after. ls_cost (snd (owned_run_spend (se_run_reader env) before after (se_spawn env))) \<le> most)"

lemma keeps_orphan_stage [spend_rules]: "keeps_spend env w (orphan_stage env cr running w)"
  by (auto simp: orphan_stage_def Let_def case_prod_unfold intro!: spend_rules split: option.splits)

lemma keeps_run_stage:
  assumes "child_keeps_ledger env"
  shows "keeps_spend env w (run_stage env cr running pause w)"
proof -
  obtain w2 run where child: "se_child env running pause (adopt_child env running w) = (w2, run)"
    by (metis surj_pair)
  have "sw_ledger w2 = sw_ledger (adopt_child env running w)"
    using assms child by (metis child_keeps_ledger_def fst_conv)
  then have "spent_today env w2 = spent_today env w"
    using spent_today_same spent_adopt_child by metis
  moreover have "keeps_spend env w2 (then_do (orphan_stage env cr running w2) (\<lambda>w3 cr3. (w3, Inr (Stop cr3))))"
    by (intro spend_rules) simp
  ultimately show ?thesis
    by (auto simp: run_stage_def child keeps_spend_def split: sum.splits)
qed

lemma keeps_classify_stage [spend_rules]: "keeps_spend env w (classify_stage env cr run owned w)"
  by (auto simp: classify_stage_def Let_def intro!: spend_rules split: sum.splits)

lemma keeps_requeue_on_red_base [spend_rules]: "keeps_spend env w (requeue_on_red_base env cr running oc w)"
proof -
  have "keeps_spend env (pause_intake env (Red_Base_Notice (oc_reason oc)) [] w)
      (requeue_on_red_base env cr running oc w)"
    by (auto simp: requeue_on_red_base_def Let_def case_prod_unfold intro!: spend_rules split: option.splits)
  then show ?thesis by (simp add: keeps_spend_def)
qed

lemma keeps_settle_stage [spend_rules]:
  "keeps_spend env w (settle_stage env cr running oc urls run_id arch_id w)"
  by (auto simp: settle_stage_def Let_def intro!: spend_rules split: option.splits)

lemma keeps_failure_stage [spend_rules]: "keeps_spend env w (failure_stage env cr running oc urls w)"
  by (auto simp: failure_stage_def Let_def case_prod_unfold intro!: spend_rules split: option.splits)

section \<open>The charge\<close>

definition launch_charged :: "serve_env \<Rightarrow> serve_world \<Rightarrow> serve_world \<Rightarrow> bool" where
  "launch_charged env w w' =
     (\<exists>s before after covered calls phases metered.
        spent_today env w = Some s \<and>
        spent_today env w' = Some (charged_spend (se_today env) s
          (ls_cost (snd (owned_run_spend (se_run_reader env) before after (se_spawn env))))
          covered calls phases metered))"

definition moves_spend :: "serve_env \<Rightarrow> serve_world \<Rightarrow> 'a stage \<Rightarrow> bool" where
  "moves_spend env w r = (keeps_spend env w r \<or> launch_charged env w (fst r))"

lemma launch_charged_cong:
  "spent_today env v = spent_today env w \<Longrightarrow> spent_today env v' = spent_today env w' \<Longrightarrow>
   launch_charged env v v' = launch_charged env w w'"
  by (simp add: launch_charged_def)

lemma moves_flow_do:
  assumes "keeps_spend env w r" and "\<And>w1 x. moves_spend env w1 (f w1 x)"
  shows "moves_spend env w (flow_do r f)"
proof (cases "\<exists>w1 x. r = (w1, Inr (Go x))")
  case True
  then obtain w1 x where r: "r = (w1, Inr (Go x))" by blast
  then have "spent_today env w1 = spent_today env w" using assms(1) by (simp add: keeps_spend_def)
  then show ?thesis
    using assms(2) [of w1 x] launch_charged_cong [of env w1 w]
    by (auto simp: r moves_spend_def keeps_spend_def)
next
  case False
  then have "fst (flow_do r f) = fst r"
    by (cases r; cases "snd r") (auto simp: flow_do_def then_do_def split: flow.splits)
  then show ?thesis using assms(1) by (simp add: moves_spend_def keeps_spend_def)
qed

lemma moves_then_do:
  assumes "moves_spend env w r" and "\<And>w1 x. keeps_spend env w1 (f w1 x)"
  shows "moves_spend env w (then_do r f)"
proof (cases "snd r")
  case (Inl e)
  then have "fst (then_do r f) = fst r" by (cases r) simp
  then show ?thesis using assms(1) by (simp add: moves_spend_def keeps_spend_def)
next
  case (Inr x)
  then have r: "r = (fst r, Inr x)" by (cases r) simp
  then have "then_do r f = f (fst r) x" by (metis then_do_simps(1))
  then have "spent_today env (fst (then_do r f)) = spent_today env (fst r)"
    using assms(2) [of "fst r" x] by (simp add: keeps_spend_def)
  then show ?thesis
    using assms(1) launch_charged_cong [of env w w "fst r" "fst (then_do r f)"]
    by (auto simp: moves_spend_def keeps_spend_def)
qed

lemma moves_spend_stage: "moves_spend env w (spend_stage env cr before w)"
proof -
  obtain owned ls where own: "owned_run_spend (se_run_reader env) before (sw_runs w) (se_spawn env) = (owned, ls)"
    by (metis surj_pair)
  obtain cr1 w1 where paused: "pause_on_unreadable_spend env (ls_unreadable ls) cr w = (cr1, w1)"
    by (metis surj_pair)
  have same: "spent_today env w1 = spent_today env w"
  proof -
    have "spent_today env (snd (pause_on_unreadable_spend env (ls_unreadable ls) cr w)) = spent_today env w"
      by (simp add: pause_on_unreadable_spend_def)
    then show ?thesis by (simp add: paused)
  qed
  let ?charge = "charge (se_parse env) (se_rep env) (se_today env) (ls_cost ls) (ls_cost_calls ls)
      (ls_usage_calls ls) (ls_unmetered ls) (owned \<noteq> []) (sw_ledger w1)"
  show ?thesis
  proof (cases ?charge)
    case (Inl e)
    then show ?thesis by (simp add: spend_stage_def own paused moves_spend_def keeps_spend_def same)
  next
    case (Inr out)
    obtain lg spend where out: "out = (lg, spend)" by (metis surj_pair)
    obtain s where s: "read_state (se_parse env) (se_rep env) (se_today env) (sw_ledger w1) = Inr s"
        "spend = charged_spend (se_today env) (st_spend s) (ls_cost ls) (ls_cost_calls ls)
           (ls_usage_calls ls) (ls_unmetered ls) (owned \<noteq> [])"
        "read_state (se_parse env) (se_rep env) (se_today env) lg =
           Inr (s\<lparr>st_spend := spend, st_coverage_seen := st_coverage_seen s \<or> ls_cost_calls ls > 0\<rparr>)"
      using charge_read [OF Inr [unfolded out]] by blast
    have final: "fst (spend_stage env cr before w) = w1\<lparr>sw_ledger := lg\<rparr>"
      using Inr by (simp add: spend_stage_def own paused out)
    have "spent_today env w = Some (st_spend s)"
      using s(1) same by (simp add: spent_today_def)
    moreover have "spent_today env (w1\<lparr>sw_ledger := lg\<rparr>) = Some spend"
      using s(3) by (simp add: spent_today_def)
    ultimately have "launch_charged env w (w1\<lparr>sw_ledger := lg\<rparr>)"
      unfolding launch_charged_def s(2)
      by (intro exI [of _ "st_spend s"] exI [of _ before] exI [of _ "sw_runs w"]) (auto simp: own)
    then show ?thesis by (simp add: moves_spend_def final)
  qed
qed

lemma moves_work_stages:
  assumes "child_keeps_ledger env"
  shows "moves_spend env w (work_stages env cr w)"
  unfolding work_stages_def ending_stages_def case_prod_unfold
  by (intro moves_flow_do moves_then_do moves_spend_stage keeps_run_stage [OF assms] spend_rules) simp_all

section \<open>A cycle\<close>

text \<open>A cycle leaves the day's spend, or charges one launch to a day that was below the budget.\<close>

definition spend_step :: "serve_env \<Rightarrow> serve_world \<Rightarrow> serve_world \<Rightarrow> bool" where
  "spend_step env w w' =
     (spent_today env w' = spent_today env w \<or>
      launch_charged env w w' \<and>
      (\<exists>cfg s. se_config env = Some cfg \<and> spent_today env w = Some s \<and>
        (sv_daily_budget cfg \<le> 0 \<or> ds_spent s < sv_daily_budget cfg)))"

lemma spend_step_cong:
  "spent_today env v = spent_today env w \<Longrightarrow> spend_step env v w' = spend_step env w w'"
  by (simp add: spend_step_def launch_charged_def)

lemma admitted_spend_step:
  assumes "child_keeps_ledger env" and "se_config env = Some cfg"
  shows "spend_step env w (fst (admitted_stages env cfg cr w))"
proof -
  have work: "spend_step env w2 (fst (flow_do (wait_stage env cfg cr2 w2) (\<lambda>w3 cr3. work_stages env cr3 w3)))"
    if gate: "gate_stage env cfg cr1 w1 = (w2, Inr (Go cr2))" for w1 cr1 w2 cr2
  proof -
    have "moves_spend env w2 (flow_do (wait_stage env cfg cr2 w2) (\<lambda>w3 cr3. work_stages env cr3 w3))"
      by (intro moves_flow_do keeps_wait_stage moves_work_stages assms(1))
    moreover have "\<exists>s. spent_today env w2 = Some s \<and> (sv_daily_budget cfg \<le> 0 \<or> ds_spent s < sv_daily_budget cfg)"
      using gate_stage_admits [OF gate] by (auto simp: spent_today_def)
    ultimately show ?thesis
      using assms(2) by (auto simp: spend_step_def moves_spend_def keeps_spend_def)
  qed
  have pass: "spend_step env w (fst (flow_do r f))"
    if "keeps_spend env w r" and "\<And>w1 x. r = (w1, Inr (Go x)) \<Longrightarrow> spend_step env w1 (fst (f w1 x))"
    for w and r :: "cycle_result flow stage" and f :: "serve_world \<Rightarrow> cycle_result \<Rightarrow> cycle_result flow stage"
  proof (cases "\<exists>w1 x. r = (w1, Inr (Go x))")
    case True
    then obtain w1 x where r: "r = (w1, Inr (Go x))" by blast
    then show ?thesis
      using that(1) that(2) [OF r] spend_step_cong [of env w1 w] by (simp add: keeps_spend_def)
  next
    case False
    then have "fst (flow_do r f) = fst r"
      by (cases r; cases "snd r") (auto simp: flow_do_def then_do_def split: flow.splits)
    then show ?thesis using that(1) by (simp add: spend_step_def keeps_spend_def)
  qed
  show ?thesis
    unfolding admitted_stages_def
    by (rule pass [OF keeps_pause_stage pass [OF keeps_gate_stage work]])
qed

lemma cycle_spend_step:
  assumes "child_keeps_ledger env"
  shows "spend_step env w (fst (serve_cycle env w))"
proof (cases "se_config env")
  case None
  then show ?thesis by (simp add: serve_cycle_def spend_step_def)
next
  case (Some cfg)
  show ?thesis
  proof (cases "read_state (se_parse env) (se_rep env) (se_today env) (sw_ledger w)")
    case (Inl e)
    then show ?thesis by (simp add: serve_cycle_def Some spend_step_def Let_def case_prod_unfold)
  next
    case (Inr s)
    let ?rest = "\<lambda>w1 cr1. case report_reaped env cr1 w1 of (cr2, w2) \<Rightarrow>
        admitted_stages env cfg cr2 (w2\<lparr>sw_disk := se_intake env (sw_disk w2)\<rparr>)"
    have cycle: "serve_cycle env w = then_do (recover env fresh_result w) ?rest"
      by (simp add: serve_cycle_def Some Inr Let_def)
    have rest: "spend_step env w1 (fst (?rest w1 cr1))" for w1 cr1
    proof -
      obtain cr2 w2 where reported: "report_reaped env cr1 w1 = (cr2, w2)" by (metis surj_pair)
      have "spend_step env (w2\<lparr>sw_disk := se_intake env (sw_disk w2)\<rparr>) (fst (?rest w1 cr1))"
        by (simp add: reported admitted_spend_step [OF assms Some])
      then show ?thesis
        using spent_report_reaped [OF reported] spend_step_cong [of env "w2\<lparr>sw_disk := se_intake env (sw_disk w2)\<rparr>" w1]
        by simp
    qed
    obtain w1 r where recovered: "recover env fresh_result w = (w1, r)" by (metis surj_pair)
    have same: "spent_today env w1 = spent_today env w"
      using keeps_recover [of env w fresh_result] by (simp add: recovered keeps_spend_def)
    show ?thesis
    proof (cases r)
      case (Inl e)
      then show ?thesis by (simp add: cycle recovered spend_step_def same)
    next
      case (Inr cr1)
      then have "fst (serve_cycle env w) = fst (?rest w1 cr1)" by (simp only: cycle recovered then_do_simps)
      then show ?thesis using rest [of w1 cr1] spend_step_cong [OF same] by (simp only:)
    qed
  qed
qed

section \<open>The cycles of a day\<close>

lemma round6_le: "round6 x \<le> x + 1 / 2000000"
proof -
  have "of_int (round (x * 1000000)) \<le> x * 1000000 + 1 / 2"
    by (rule of_int_round_le)
  then have "of_int (round (x * 1000000)) / 1000000 \<le> (x * 1000000 + 1 / 2) / (1000000 :: rat)"
    by (rule divide_right_mono) simp
  then show ?thesis by (simp add: round6_def field_simps)
qed

text \<open>The arguments of the polls of one day: one parser, one date, one budget.\<close>

definition polls_of_day ::
    "json_parser \<Rightarrow> (json \<Rightarrow> string) \<Rightarrow> string \<Rightarrow> rat \<Rightarrow> rat \<Rightarrow> (serve_env \<times> bool) list \<Rightarrow> bool" where
  "polls_of_day parse rep today budget most polls =
     list_all (\<lambda>(env, _). se_parse env = parse \<and> se_rep env = rep \<and> se_today env = today \<and>
       (\<exists>cfg. se_config env = Some cfg \<and> sv_daily_budget cfg = budget) \<and>
       child_keeps_ledger env \<and> launches_cost_at_most env most) polls"

definition day_spend :: "json_parser \<Rightarrow> (json \<Rightarrow> string) \<Rightarrow> string \<Rightarrow> serve_world \<Rightarrow> rat option" where
  "day_spend parse rep today w =
     (case read_state parse rep today (sw_ledger w) of Inl _ \<Rightarrow> None | Inr s \<Rightarrow> Some (ds_spent (st_spend s)))"

lemma day_spend_today: "day_spend (se_parse env) (se_rep env) (se_today env) w = map_option ds_spent (spent_today env w)"
  by (simp add: day_spend_def spent_today_def split: sum.splits)

lemma launch_charged_bound:
  assumes "launch_charged env w w'" "launches_cost_at_most env most" "0 \<le> most"
  shows "\<exists>s s'. spent_today env w = Some s \<and> spent_today env w' = Some s' \<and>
           ds_spent s' \<le> ds_spent s + most + 1 / 2000000"
proof -
  obtain s before after cov calls ph m where s: "spent_today env w = Some s"
    "spent_today env w' = Some (charged_spend (se_today env) s
       (ls_cost (snd (owned_run_spend (se_run_reader env) before after (se_spawn env)))) cov calls ph m)"
    using assms(1) unfolding launch_charged_def by blast
  have "max 0 (ls_cost (snd (owned_run_spend (se_run_reader env) before after (se_spawn env)))) \<le> most"
    using assms(2,3) by (simp add: launches_cost_at_most_def)
  then have "round6 (ds_spent s + max 0 (ls_cost (snd (owned_run_spend (se_run_reader env) before after (se_spawn env)))))
      \<le> ds_spent s + most + 1 / 2000000"
    by (intro order_trans [OF round6_le]) simp
  then show ?thesis using s by (simp add: charged_spend_def)
qed

lemma cycles_bound:
  assumes "polls_of_day parse rep today budget most polls" and "0 < budget" and "0 \<le> most"
    and "day_spend parse rep today w = Some x" and "x \<le> budget + most + 1 / 2000000"
    and "serve_cycles polls w streak crs = ((w', streak'), r)"
  shows "\<exists>y. day_spend parse rep today w' = Some y \<and> y \<le> budget + most + 1 / 2000000"
  using assms(1,4,5,6)
proof (induction polls arbitrary: w x streak crs)
  case Nil
  then show ?case by simp
next
  case (Cons poll polls)
  obtain env fails where poll: "poll = (env, fails)" by (metis surj_pair)
  have env: "se_parse env = parse" "se_rep env = rep" "se_today env = today" "child_keeps_ledger env"
      "launches_cost_at_most env most"
      "\<And>cfg. se_config env = Some cfg \<Longrightarrow> sv_daily_budget cfg = budget"
    and rest: "polls_of_day parse rep today budget most polls"
    using Cons.prems(1) by (auto simp: polls_of_day_def poll)
  define w1 where "w1 = fst (serve_cycle env w)"
  have day: "day_spend parse rep today v = map_option ds_spent (spent_today env v)" for v
    using day_spend_today [of env v] by (simp add: env)
  have "spend_step env w w1" unfolding w1_def by (rule cycle_spend_step [OF env(4)])
  then have "\<exists>y. day_spend parse rep today w1 = Some y \<and> y \<le> budget + most + 1 / 2000000"
    unfolding spend_step_def
  proof
    assume "spent_today env w1 = spent_today env w"
    then show ?thesis using Cons.prems(2,3) by (auto simp: day)
  next
    assume launch: "launch_charged env w w1 \<and> (\<exists>cfg s. se_config env = Some cfg \<and> spent_today env w = Some s \<and>
        (sv_daily_budget cfg \<le> 0 \<or> ds_spent s < sv_daily_budget cfg))"
    then obtain s where s: "spent_today env w = Some s" "ds_spent s < budget"
      using env(6) assms(2) by fastforce
    obtain s' where "spent_today env w1 = Some s'" "ds_spent s' \<le> ds_spent s + most + 1 / 2000000"
      using launch_charged_bound [OF conjunct1 [OF launch] env(5) assms(3)] s(1) by auto
    then show ?thesis using s(2) by (simp add: day)
  qed
  then obtain y where y: "day_spend parse rep today w1 = Some y" "y \<le> budget + most + 1 / 2000000" by blast
  show ?case
  proof (cases "snd (cycle_outcome (serve_cycle env w))")
    case (Inl e)
    have "cycle_outcome (serve_cycle env w) = (w1, Inl e)"
      using Inl by (cases "serve_cycle env w"; cases "snd (serve_cycle env w)")
        (auto simp: cycle_outcome_def w1_def split: flow.splits)
    then show ?thesis using Cons.prems(4) y by (simp add: poll)
  next
    case (Inr cr)
    have "cycle_outcome (serve_cycle env w) = (w1, Inr cr)"
      using Inr by (cases "serve_cycle env w"; cases "snd (serve_cycle env w)")
        (auto simp: cycle_outcome_def w1_def split: flow.splits)
    then have "serve_cycles polls w1 (save_streak fails (sw_streak w1) streak) (crs @ [cr]) = ((w', streak'), r)"
      using Cons.prems(4) by (simp add: poll)
    then show ?thesis by (rule Cons.IH [OF rest y])
  qed
qed

end
