(* ===== verification/Serve_Ending.thy ===== *)
theory Serve_Ending
  imports Serve_Budget Queue_Safety
begin

text \<open>
  What the endings of a run do to its queue item: the queue's transitions inside \<open>queue_do\<close>, and the
  disk after \<open>failure_stage\<close>.
\<close>

section \<open>A committed move\<close>

lemma queue_do_Inr:
  "queue_do f w = (w', Inr i) \<longleftrightarrow> (\<exists>d. f (sw_disk w) = (d, i, None) \<and> w' = w\<lparr>sw_disk := d\<rparr>)"
  by (auto simp: queue_do_def split: prod.splits option.splits)

lemma committed_move:
  assumes "queue_ok d" and "stored parse d s iid = Some item" and "keeps upd"
    and "transition cx d item to reason actor charged detail upd = (d', item', None)"
  shows "queue_ok d'" and "item' = moved_item cx to charged upd item"
    and "stored parse d' u k = (if k = iid then (if u = to then Some item' else None) else stored parse d u k)"
proof -
  have h: "to \<in> set (legal_transitions s)" "\<not> cx_meta_write_fails cx" "\<not> cx_rename_fails cx"
    using assms(4) transition_refusal_stored [OF assms(1,2), of to]
    by (auto elim!: transition_cases split: if_splits)
  show "queue_ok d'" and "item' = moved_item cx to charged upd item"
    and "stored parse d' u k = (if k = iid then (if u = to then Some item' else None) else stored parse d u k)"
    by (rule transition_commits [OF assms(1-3) h, of reason actor charged detail], use assms(4) in simp)+
qed

lemma keeps_ending [intro, simp]:
  "keeps (\<lambda>i. i\<lparr>qi_last_error := e, qi_pr_urls := u\<rparr>)"
  "keeps (\<lambda>i. i\<lparr>qi_poison_reason := p\<rparr>)"
  "keeps (requeue_updates reset nb)"
  by (auto simp: keeps_def requeue_updates_def Let_def split: option.splits)

lemma moved_ending [simp]:
  "qi_attempts (moved_item cx to False upd i) = qi_attempts (upd i)"
  by (simp add: moved_item_def Let_def)

lemma failed_moves:
  assumes "queue_ok d" "stored parse d s iid = Some item"
    and "finish_failed cx d item err actor urls = (d', item', None)"
  shows "queue_ok d' \<and> stored parse d' Queue_Items.FAILED iid = Some item' \<and>
         qi_attempts item' = qi_attempts item \<and> qi_max_attempts item' = qi_max_attempts item"
  using committed_move [OF assms(1,2) keeps_ending(1) assms(3) [unfolded finish_failed_def Let_def]]
  by (simp add: moved_item_def Let_def)

lemma requeued_moves:
  assumes "queue_ok d" "stored parse d s iid = Some item"
    and "requeue_item cx d item reason actor False nb = (d', item', None)"
  shows "queue_ok d' \<and> stored parse d' QUEUED iid = Some item' \<and> qi_attempts item' = qi_attempts item"
  using committed_move [OF assms(1,2) keeps_ending(3) assms(3) [unfolded requeue_item_def]]
  by (simp add: requeue_updates_def Let_def split: option.splits)

lemma poisoned_moves:
  assumes "queue_ok d" "stored parse d s iid = Some item"
    and "poison_item cx d item reason actor = (d', item', None)"
  shows "queue_ok d' \<and> stored parse d' POISON iid = Some item' \<and> qi_attempts item' = qi_attempts item"
proof -
  have "transition cx d item POISON ''poisoned'' actor False [] (\<lambda>i. i\<lparr>qi_poison_reason := reason\<rparr>) =
      (d', item', None)"
    using assms(3) by (simp add: poison_item_def split: if_splits)
  from committed_move [OF assms(1,2) keeps_ending(2) this] show ?thesis by simp
qed

section \<open>Reads and the ledger in between\<close>

lemma queue_get_stored:
  assumes "queue_ok (sw_disk w)" "stored (se_parse env) (sw_disk w) s iid = Some item"
  shows "queue_get env iid w = (w, Inr (Some item))"
  by (simp add: queue_get_def get_item_exact [OF assms])

lemma queue_get_Inr: "queue_get env iid w = (w', Inr found) \<Longrightarrow> w' = w"
  by (auto simp: queue_get_def split: sum.splits)

lemma terminal_Inr:
  assumes "terminal env poisoned w = (w', Inr n)"
  shows "sw_disk w' = sw_disk w"
    and "\<exists>s. read_state (se_parse env) (se_rep env) (se_today env) (sw_ledger w) = Inr s \<and>
             read_state (se_parse env) (se_rep env) (se_today env) (sw_ledger w') =
               Inr (s\<lparr>st_poison_streak := (if poisoned then st_poison_streak s + 1 else 0)\<rparr>)"
  using assms by (auto simp: terminal_def split: sum.splits dest!: record_terminal_read)

lemma file_for_human_keeps:
  "sw_disk (snd (file_for_human env n cw)) = sw_disk (snd cw)"
  "sw_ledger (snd (file_for_human env n cw)) = sw_ledger (snd cw)"
  "cr_needs_human (fst (file_for_human env n cw))"
  by (auto simp: file_for_human_def file_inbox_item_def Let_def case_prod_unfold split: option.splits sum.splits)

section \<open>The ending of a failed run\<close>

lemma failure_stage_ends:
  assumes ok: "queue_ok (sw_disk w)" and st: "stored (se_parse env) (sw_disk w) Queue_Items.RUNNING iid = Some item"
    and iid: "qi_item_id running = iid"
    and run: "failure_stage env cr running oc urls w = (w', Inr cr')"
  shows "if may_retry (oc_verdict oc) \<and> 0 < attempts_remaining item
         then sw_ledger w' = sw_ledger w \<and>
           (\<exists>i. stored (se_parse env) (sw_disk w') QUEUED iid = Some i \<and> qi_attempts i = qi_attempts item)
         else cr_needs_human cr' \<and>
           (\<exists>i. stored (se_parse env) (sw_disk w') POISON iid = Some i \<and> qi_attempts i = qi_attempts item) \<and>
           (\<exists>s. read_state (se_parse env) (se_rep env) (se_today env) (sw_ledger w) = Inr s \<and>
                read_state (se_parse env) (se_rep env) (se_today env) (sw_ledger w') =
                  Inr (s\<lparr>st_poison_streak := st_poison_streak s + 1\<rparr>))"
proof -
  note run1 = run [unfolded failure_stage_def Let_def iid queue_get_stored [OF ok st] then_do_simps option.case]
  obtain d1 failed rest where d1: "finish_failed (se_ctx env At_Failed) (sw_disk w) item
        (se_say env (oc_reason oc)) ''serve'' urls = (d1, failed, None)"
    using run1 by (auto simp: then_do_Inr queue_do_Inr)
  define w1 where "w1 = w\<lparr>sw_disk := d1\<rparr>"
  have moved: "queue_ok (sw_disk w1)" "stored (se_parse env) (sw_disk w1) Queue_Items.FAILED iid = Some failed"
      "qi_attempts failed = qi_attempts item" "attempts_remaining failed = attempts_remaining item"
    using failed_moves [OF ok st d1] by (simp_all add: w1_def attempts_remaining_def)
  have step: "queue_do (\<lambda>d. finish_failed (se_ctx env At_Failed) d item (se_say env (oc_reason oc)) ''serve'' urls) w =
      (w1, Inr failed)"
    by (simp add: queue_do_def d1 w1_def)
  note run2 = run1 [unfolded step then_do_simps queue_get_stored [OF moved(1,2)] option.case moved(4)]
  show ?thesis
  proof (cases "may_retry (oc_verdict oc) \<and> 0 < attempts_remaining item")
    case True
    then obtain d2 again w5 found where d2: "requeue_item (se_ctx env At_Requeue) (sw_disk w1) failed
          (''retry: '' @ se_say env (oc_reason oc)) ''serve'' False
          (Some (retry_at env At_Requeue (qi_attempts failed))) = (d2, again, None)"
        and got: "queue_get env iid (w1\<lparr>sw_disk := d2\<rparr>) = (w5, Inr found)" and final: "w' = w5"
      using run2 by (auto simp: then_do_Inr queue_do_Inr)
    have "w' = w\<lparr>sw_disk := d2\<rparr>" using queue_get_Inr [OF got] final by (simp add: w1_def)
    then show ?thesis using True requeued_moves [OF moved(1,2) d2] moved(3) by simp
  next
    case False
    then obtain d2 again w4 n w5 found where
        d2: "poison_item (se_ctx env At_Poison) (sw_disk w1) failed (se_say env (oc_reason oc)) ''serve'' =
             (d2, again, None)"
        and counted: "terminal env True (w1\<lparr>sw_disk := d2\<rparr>) = (w4, Inr n)"
        and got: "queue_get env iid w4 = (w5, Inr found)"
        and final: "(cr', w') = file_for_human env (Poison_Notice iid (oc_reason oc)) (cr, w5)"
      using run2 by (auto simp: then_do_Inr queue_do_Inr case_prod_unfold)
    have w': "w' = snd (file_for_human env (Poison_Notice iid (oc_reason oc)) (cr, w4))"
        "cr' = fst (file_for_human env (Poison_Notice iid (oc_reason oc)) (cr, w4))"
      using final queue_get_Inr [OF got] by (metis snd_conv, metis fst_conv)
    have "sw_disk w' = d2" "sw_ledger w' = sw_ledger w4" "cr_needs_human cr'"
      using terminal_Inr(1) [OF counted] by (simp_all add: w' file_for_human_keeps)
    then show ?thesis
      using False poisoned_moves [OF moved(1,2) d2] moved(3) terminal_Inr(2) [OF counted]
      by (auto simp: w1_def)
  qed
qed

end
