(* ===== verification/Serve_Contract.thy ===== *)
theory Serve_Contract
  imports Serve_Ending Queue_Contract
begin

text \<open>
  The properties of the daemon: which launches a cycle may make, what a day of cycles may spend,
  when a failed run is tried again, and what becomes of its item.
\<close>

section \<open>A concrete daemon\<close>

definition demo_env :: serve_env where
  "demo_env =
     \<lparr>se_ctx = (\<lambda>_. demo_ctx), se_now = 0, se_parse = no_parse, se_rep = (\<lambda>_. ''x''), se_fromiso = (\<lambda>_. None),
      se_today = ''2026-01-01'', se_midnight = ''2026-01-02'',
      se_config = Some \<lparr>sv_poll_interval = 60, sv_daily_budget = 10, sv_max_consecutive_poison = 3,
        sv_caffeinate = False, sv_factory_timeout = 0, sv_allow_uncovered_cost = True, sv_max_open_prs = 0\<rparr>,
      se_inbox_env = \<lparr>ie_decode = (\<lambda>b. None), ie_loads = no_parse, ie_dumps = (\<lambda>_. []), ie_rep = (\<lambda>_. []),
        ie_fromiso = (\<lambda>_. None), ie_iso = (\<lambda>_. []), ie_now = 0\<rparr>,
      se_inbox_config = None, se_uuid = (\<lambda>_. ''u''), se_progress = [], se_stack = (\<lambda>b. (b, False)),
      se_factory_lock = False, se_pr_count = None,
      se_gate = \<lparr>gi_autonomy = None, gi_policy_enabled = None, gi_ladder = fresh_state [] None, gi_external = False,
        gi_create_prs = Some True\<rparr>,
      se_pid_alive = (\<lambda>_. True), se_host = ''host'', se_intake = (\<lambda>d. d), se_spawn = Some 42,
      se_child = (\<lambda>_ _ w. (w\<lparr>sw_runs := ''factory-1'' # sw_runs w\<rparr>,
        \<lparr>rr_returncode = - 9, rr_timed_out = False, rr_launch_error = [], rr_output_tail = [],
         rr_group_reaped = True\<rparr>)),
      se_run_reader = (\<lambda>r. Run_State \<lparr>rv_cost = (if r = ''factory-1'' then 3 else 0), rv_cost_calls = 1,
        rv_usage_calls = 1, rv_architect = None, rv_pid = 42, rv_architect_run_id = []\<rparr>),
      se_base_record = (\<lambda>_. None), se_halts = (\<lambda>_. None), se_say = (\<lambda>_. ''the run was killed''),
      se_note = (\<lambda>_. \<lparr>ad_kind = HALTED_RUN, ad_title = ''t'', ad_detail = [], ad_component = [],
        ad_run_id = [], ad_dedupe_key = [], ad_evidence = [], ad_priority = None\<rparr>),
      se_pause_text = (\<lambda>_. ''paused'')\<rparr>"

definition demo_world :: "queue_disk \<Rightarrow> serve_world" where
  "demo_world d =
     \<lparr>sw_disk = d, sw_control = \<lparr>cd_untrusted = None, cd_pause = Marker_Missing\<rparr>,
      sw_ledger = \<lparr>lg_untrusted = False, lg_file = None\<rparr>, sw_inbox = \<lparr>ib_file = Log_Missing, ib_in_tree = False\<rparr>,
      sw_manifest = None, sw_runs = [], sw_streak = fresh_streak\<rparr>"

definition demo_running :: queue_disk where
  "demo_running = fst (start_item demo_ctx demo_leased demo_leased_item [] [])"

definition demo_running_item :: queue_item where
  "demo_running_item = fst (snd (start_item demo_ctx demo_leased demo_leased_item [] []))"

lemma demo_child_keeps_ledger: "child_keeps_ledger demo_env"
  by (simp add: child_keeps_ledger_def demo_env_def)

lemma sum_list_indicator:
  "distinct xs \<Longrightarrow> sum_list (map (\<lambda>r. if r = a then c else (0 :: rat)) xs) = (if a \<in> set xs then c else 0)"
  by (induction xs) auto

lemma demo_launch_cost: "launches_cost_at_most demo_env 3"
  unfolding launches_cost_at_most_def
proof (intro allI)
  fix before after
  obtain owned ls where own: "owned_run_spend (se_run_reader demo_env) before after (se_spawn demo_env) = (owned, ls)"
    by (metis surj_pair)
  have "distinct owned"
    using owned_runs_distinct [of "se_run_reader demo_env" before after "se_spawn demo_env"] by (simp add: own)
  have ls: "ls = launch_over (map (\<lambda>rid. (rid, read_run_spend (se_run_reader demo_env) rid)) owned)"
    using own by (auto simp: owned_run_spend_def Let_def)
  have "rs_cost (read_run_spend (se_run_reader demo_env) r) = (if r = ''factory-1'' then 3 else 0)" for r
    by (simp add: read_run_spend_def demo_env_def empty_run_spend_def)
  then have "ls_cost ls = (if owned = [] then 0 else sum_list (map (\<lambda>r. if r = ''factory-1'' then 3 else 0) owned))"
    by (simp add: ls launch_over_def Let_def comp_def empty_run_spend_def)
  then show "ls_cost (snd (owned_run_spend (se_run_reader demo_env) before after (se_spawn demo_env))) \<le> 3"
    using sum_list_indicator [OF \<open>distinct owned\<close>, of "''factory-1''" 3] by (simp add: own)
qed

section \<open>Launches\<close>

lemma cycle_same_unless_launch:
  assumes "\<And>cfg w1 i v cand pause. se_config env = Some cfg \<Longrightarrow> launch_from env cfg w1 cand pause \<Longrightarrow>
             spent_today env w1 = spent_today env w \<Longrightarrow> c i pause v = se_child env i pause v"
  shows "serve_cycle (with_child env c) w = serve_cycle env w"
proof (cases "se_config env")
  case None
  then show ?thesis by (simp add: serve_cycle_def)
next
  case (Some cfg)
  show ?thesis
  proof (cases "read_state (se_parse env) (se_rep env) (se_today env) (sw_ledger w)")
    case (Inl e)
    then show ?thesis by (simp add: serve_cycle_def Some)
  next
    case (Inr s)
    obtain w1 r where recovered: "recover env fresh_result w = (w1, r)" by (metis surj_pair)
    have same: "spent_today env w1 = spent_today env w"
      using keeps_recover [of env w fresh_result] by (simp add: recovered keeps_spend_def)
    show ?thesis
    proof (cases r)
      case (Inl e)
      then show ?thesis by (simp add: serve_cycle_def Some Inr recovered)
    next
      case (Inr cr1)
      obtain cr2 w2 where reported: "report_reaped env cr1 w1 = (cr2, w2)" by (metis surj_pair)
      let ?w3 = "w2\<lparr>sw_disk := se_intake env (sw_disk w2)\<rparr>"
      have "admitted_stages (with_child env c) cfg cr2 ?w3 = admitted_stages env cfg cr2 ?w3"
      proof (rule admitted_same_unless_launch)
        fix w4 i v cand pause
        assume launch: "launch_from env cfg w4 cand pause" and "sw_ledger w4 = sw_ledger ?w3"
        then have "spent_today env w4 = spent_today env w"
          using spent_report_reaped [OF reported] same spent_today_same [of w4 ?w3 env] by simp
        then show "c i pause v = se_child env i pause v" by (rule assms [OF Some launch])
      qed
      then show ?thesis
        using \<open>read_state _ _ _ _ = Inr s\<close> by (simp add: serve_cycle_def Some recovered Inr reported)
    qed
  qed
qed


text \<open>Nothing in the configuration holds a merge back: the ladder is off, or its level merges when green.\<close>

definition merges_unattended :: "gate_inputs \<Rightarrow> bool" where
  "merges_unattended gi =
     (\<exists>config. gi_autonomy gi = Some config \<and>
       (\<not> ac_enabled config \<or>
        (\<exists>policy. gi_policy_enabled gi = Some policy \<and>
           fb_auto_merge_when_green
             (flag_bundle_for (fst (resolve_runtime_level (gi_ladder gi) config policy (gi_external gi)))))))"

text \<open>a run is started without the human merge gate only for an item that asked for auto-merge,
  and, where the autonomy ladder is on, only at a level whose bundle merges when green: a child
  that differs only in ungated runs makes no difference to a cycle otherwise.\<close>

theorem ungated_run_was_asked_for:
  "serve_cycle (env\<lparr>se_child := \<lambda>i pause v. if pause then se_child env i pause v else c i pause v\<rparr>) w =
     serve_cycle env w \<or>
   (\<exists>cfg w1 cand. se_config env = Some cfg \<and> launch_from env cfg w1 cand False \<and>
      qi_merge_disposition cand = AUTO_MERGE \<and> merges_unattended (se_gate env))"
proof (rule disjCI)
  assume none: "\<not> (\<exists>cfg w1 cand. se_config env = Some cfg \<and> launch_from env cfg w1 cand False \<and>
      qi_merge_disposition cand = AUTO_MERGE \<and> merges_unattended (se_gate env))"
  show "serve_cycle (env\<lparr>se_child := \<lambda>i pause v. if pause then se_child env i pause v else c i pause v\<rparr>) w =
     serve_cycle env w"
  proof (rule cycle_same_unless_launch)
    fix cfg w1 i v cand pause
    assume launch: "se_config env = Some cfg" "launch_from env cfg w1 cand pause"
    have "pause"
    proof (rule ccontr)
      assume "\<not> pause"
      then have "\<not> mg_pause (resolve_merge_gate (se_gate env) (qi_merge_disposition cand))"
        using launch(2)
        by (auto simp: launch_from_def claim_of_def Let_def split: option.splits if_splits)
      then have "qi_merge_disposition cand = AUTO_MERGE" "merges_unattended (se_gate env)"
        using ungated_needs_auto_merge [of "se_gate env" "qi_merge_disposition cand"]
        unfolding merges_unattended_def by blast+
      moreover have "launch_from env cfg w1 cand False" using launch(2) \<open>\<not> pause\<close> by simp
      ultimately show False using none launch(1) by blast
    qed
    then show "(if pause then se_child env i pause v else c i pause v) = se_child env i pause v" by simp
  qed
qed

section \<open>The budget\<close>

text \<open>C18: over any number of polls of one day, with a budget set, a factory that leaves the ledger
  alone and launches that cost at most \<open>most\<close> each, what the ledger says is spent stays within the
  budget plus one launch (and half a millionth, the rounding of the file), however the cycles end.\<close>

theorem day_spend_within_budget:
  assumes "polls_of_day parse rep today cap most polls" and "0 < cap" and "0 \<le> most"
    and "day_spend parse rep today w = Some x" and "x \<le> cap"
  shows "\<exists>y. day_spend parse rep today (fst (fst (serve parse polls w streak))) = Some y \<and>
             y \<le> cap + most + 1 / 2000000"
proof -
  obtain w' k r where run: "serve parse polls w streak = ((w', k), r)" by (metis surj_pair)
  have "day_spend parse rep today (w\<lparr>sw_streak := load_streak parse streak\<rparr>) = Some x"
    using assms(4) by (simp add: day_spend_def)
  moreover have "x \<le> cap + most + 1 / 2000000" using assms(3,5) by simp
  ultimately show ?thesis
    using cycles_bound [OF assms(1-3) _ _ run [unfolded serve_def]] by (simp add: run)
qed

theorem day_spend_within_budget_witness:
  "\<exists>y. day_spend no_parse (\<lambda>_. ''x'') ''2026-01-01''
          (fst (fst (serve no_parse [(demo_env, False), (demo_env, True)] (demo_world demo_queued) None))) = Some y \<and>
        y \<le> 10 + 3 + 1 / 2000000"
proof -
  have "polls_of_day no_parse (\<lambda>_. ''x'') ''2026-01-01'' 10 3 [(demo_env, False), (demo_env, True)]"
    using demo_child_keeps_ledger demo_launch_cost by (simp add: polls_of_day_def demo_env_def)
  moreover have "day_spend no_parse (\<lambda>_. ''x'') ''2026-01-01'' (demo_world demo_queued) = Some 0"
    by (simp add: day_spend_def demo_world_def read_state_def fresh_day_def)
  ultimately show ?thesis using day_spend_within_budget by force
qed

text \<open>one cycle with a factory that leaves the ledger alone either keeps the day's spend or charges
  exactly one launch to it, and then the day was below a budget that is set before.\<close>

theorem cycle_charges_one_admitted_launch:
  assumes "child_keeps_ledger env"
  shows "spent_today env (fst (serve_cycle env w)) = spent_today env w \<or>
         launch_charged env w (fst (serve_cycle env w)) \<and>
         (\<exists>cfg s. se_config env = Some cfg \<and> spent_today env w = Some s \<and>
            (sv_daily_budget cfg \<le> 0 \<or> ds_spent s < sv_daily_budget cfg))"
  using cycle_spend_step [OF assms] by (simp only: spend_step_def)

theorem cycle_charges_one_admitted_launch_witness:
  "spent_today demo_env (fst (serve_cycle demo_env (demo_world demo_queued))) =
     spent_today demo_env (demo_world demo_queued) \<or>
   launch_charged demo_env (demo_world demo_queued) (fst (serve_cycle demo_env (demo_world demo_queued))) \<and>
   (\<exists>cfg s. se_config demo_env = Some cfg \<and> spent_today demo_env (demo_world demo_queued) = Some s \<and>
      (sv_daily_budget cfg \<le> 0 \<or> ds_spent s < sv_daily_budget cfg))"
  by (rule cycle_charges_one_admitted_launch [OF demo_child_keeps_ledger])

section \<open>Retries\<close>

lemma budget_halt_SomeD:
  "budget_halt_outcome failed = Some h \<Longrightarrow>
   oc_verdict h = Budget_Halt \<and> (\<exists>c\<in>set failed. c_failed_check c = JStr adversarial_budget_check)"
  using budget_halt_verdict [of failed h] budget_halt_None_iff [of failed] by force

text \<open>C24: a finished run is tried again exactly when something else than the spec is shown to have
  failed: it never launched; or no run ceiling was reached and it timed out without the adversarial
  call cap, was killed by a signal, was refused (exit 2) over the lock on a base that is not red, or
  left its own manifest in which every failed component carries an infrastructure finding, none
  at the merge gate and none over the call cap.\<close>

theorem retry_needs_evidence:
  assumes "classify_run parse rep arts run owns owned = Inr oc"
  shows "may_retry (oc_verdict oc) \<longleftrightarrow>
     rr_launch_error run \<noteq> [] \<or>
     budget_halt_reason (ar_halts arts) owned = None \<and>
     (if rr_timed_out run
      then (\<forall>m. owns \<longrightarrow> manifest_reading parse rep (ar_manifest arts) = Loaded m \<longrightarrow>
              budget_halt_outcome (failed_components m) = None)
      else rr_returncode run < 0 \<or>
        rr_returncode run = 2 \<and> red_base_outcome parse rep (ar_base_record arts) owned = None \<and>
          contains_sub (rr_output_tail run) lock_refusal_marker \<or>
        rr_returncode run > 0 \<and> rr_returncode run \<noteq> 2 \<and> owns \<and>
          (\<exists>m. manifest_reading parse rep (ar_manifest arts) = Loaded m \<and> failed_components m \<noteq> [] \<and>
            (\<forall>c \<in> set (failed_components m). serve_infra_casualty c \<and> \<not> at_merge_gate c \<and>
               c_failed_check c \<noteq> JStr adversarial_budget_check)))"
proof (cases "rr_launch_error run \<noteq> []")
  case True
  then show ?thesis using assms by (auto simp: classify_run_def may_retry_def)
next
  case launched: False
  show ?thesis
  proof (cases "budget_halt_reason (ar_halts arts) owned")
    case (Some halted)
    then show ?thesis using assms launched by (auto simp: classify_run_def may_retry_def)
  next
    case None
    note start = assms [unfolded classify_run_def Let_def] launched None
    show ?thesis
    proof (cases "rr_timed_out run")
      case True
      have timed: "timeout_outcome (if owns then Some (manifest_reading parse rep (ar_manifest arts)) else None) = Inr oc"
        using start True by simp
      show ?thesis
        using timed launched None True
        by (auto simp: timeout_outcome_def may_retry_def Let_def budget_halt_outcome_def
            split: if_splits option.splits load_reading.splits)
    next
      case False
      consider "rr_returncode run = 0" | "rr_returncode run < 0" | "rr_returncode run = 2"
        | "rr_returncode run > 0" "rr_returncode run \<noteq> 2" by linarith
      then show ?thesis
      proof cases
        case 4
        then show ?thesis
          using start False merits_retry_iff budget_halt_None_iff budget_halt_verdict
          by (auto simp: may_retry_def unfailed_outcome_def Let_def dest!: budget_halt_SomeD
              split: option.splits if_splits load_reading.splits)
      qed (use start False in \<open>auto simp: may_retry_def refusal_outcome_def dest: red_base_verdict
             split: option.splits if_splits\<close>)
    qed
  qed
qed

text \<open>A run killed by a signal, with nothing left behind.\<close>

theorem retry_needs_evidence_witness:
  "\<exists>oc. classify_run no_parse (\<lambda>_. [])
          \<lparr>ar_manifest = None, ar_base_record = (\<lambda>_. None), ar_halts = (\<lambda>_. None)\<rparr>
          \<lparr>rr_returncode = - 9, rr_timed_out = False, rr_launch_error = [], rr_output_tail = [],
           rr_group_reaped = True\<rparr> False [''factory-1''] = Inr oc \<and> may_retry (oc_verdict oc)"
proof -
  let ?run = "\<lparr>rr_returncode = - 9, rr_timed_out = False, rr_launch_error = [], rr_output_tail = [],
      rr_group_reaped = True\<rparr>"
  let ?arts = "\<lparr>ar_manifest = None, ar_base_record = (\<lambda>_. None), ar_halts = (\<lambda>_. None)\<rparr>"
  obtain oc where oc: "classify_run no_parse (\<lambda>_. []) ?arts ?run False [''factory-1''] = Inr oc"
    by (simp add: classify_run_def)
  have "may_retry (oc_verdict oc)" using retry_needs_evidence [OF oc] by simp
  then show ?thesis using oc by blast
qed

text \<open>A manifest whose findings are no list is not among the unreadable ones that are classified: the
  exception leaves the classifier.\<close>

lemma unreadable_findings_escape_classification:
  assumes "rr_launch_error run = []" "budget_halt_reason (ar_halts arts) owned = None" "\<not> rr_timed_out run"
    and "0 < rr_returncode run" "rr_returncode run \<noteq> 2"
    and "manifest_reading parse rep (ar_manifest arts) = Load_Type_Error"
  shows "classify_run parse rep arts run True owned = Inl Findings_Not_Iterable"
  using assms by (simp add: classify_run_def)

section \<open>The item of a failed run\<close>

text \<open>what becomes of a running item whose run failed, when the ending commits: it is queued again,
  the attempt it was charged kept and the ledger untouched, exactly when the verdict authorises a
  retry and an attempt is left; otherwise it is poison, a human is needed and the poison streak is
  one longer.\<close>

theorem failed_item_is_requeued_or_poisoned:
  assumes "queue_ok (sw_disk w)"
    and "stored (se_parse env) (sw_disk w) Queue_Items.RUNNING (qi_item_id running) = Some item"
    and "failure_stage env cr running oc urls w = (w', Inr cr')"
  shows "if may_retry (oc_verdict oc) \<and> 0 < attempts_remaining item
         then sw_ledger w' = sw_ledger w \<and>
           (\<exists>i. stored (se_parse env) (sw_disk w') QUEUED (qi_item_id running) = Some i \<and>
                qi_attempts i = qi_attempts item)
         else cr_needs_human cr' \<and>
           (\<exists>i. stored (se_parse env) (sw_disk w') POISON (qi_item_id running) = Some i \<and>
                qi_attempts i = qi_attempts item) \<and>
           (\<exists>s. read_state (se_parse env) (se_rep env) (se_today env) (sw_ledger w) = Inr s \<and>
                read_state (se_parse env) (se_rep env) (se_today env) (sw_ledger w') =
                  Inr (s\<lparr>st_poison_streak := st_poison_streak s + 1\<rparr>))"
  by (rule failure_stage_ends [OF assms(1,2) refl assms(3)])

text \<open>Without a disk fault a retry commits.\<close>

lemma transition_returns:
  assumes "queue_ok d" "stored parse d s iid = Some item" "keeps upd" "to \<in> set (legal_transitions s)"
    and "\<And>p. \<not> cx_meta_write_fails (se_ctx env p)" "\<And>p. \<not> cx_rename_fails (se_ctx env p)"
  shows "\<exists>d' i'. transition (se_ctx env p) d item to reason actor ch detail upd = (d', i', None)"
  using transition_commits [OF assms(1-4) assms(5,6) [of p], of reason actor ch detail] by metis

lemma failure_stage_requeues:
  assumes ok: "queue_ok (sw_disk w)" and st: "stored (se_parse env) (sw_disk w) Queue_Items.RUNNING iid = Some item"
    and iid: "qi_item_id running = iid"
    and retry: "may_retry (oc_verdict oc)" "0 < attempts_remaining item"
    and nf: "\<And>p. \<not> cx_meta_write_fails (se_ctx env p)" "\<And>p. \<not> cx_rename_fails (se_ctx env p)"
  shows "\<exists>w' cr'. failure_stage env cr running oc urls w = (w', Inr cr')"
proof -
  have "\<exists>d1 failed. finish_failed (se_ctx env At_Failed) (sw_disk w) item
      (se_say env (oc_reason oc)) ''serve'' urls = (d1, failed, None)"
    unfolding finish_failed_def Let_def by (rule transition_returns [OF ok st keeps_ending(1) _ nf]) simp
  then obtain d1 failed where d1: "finish_failed (se_ctx env At_Failed) (sw_disk w) item
      (se_say env (oc_reason oc)) ''serve'' urls = (d1, failed, None)" by blast
  have moved: "queue_ok d1" "stored (se_parse env) d1 Queue_Items.FAILED iid = Some failed"
      "attempts_remaining failed = attempts_remaining item"
    using failed_moves [OF ok st d1] by (simp_all add: attempts_remaining_def)
  have "\<exists>d2 later. requeue_item (se_ctx env At_Requeue) d1 failed
      (''retry: '' @ se_say env (oc_reason oc)) ''serve'' False
      (Some (retry_at env At_Requeue (qi_attempts failed))) = (d2, later, None)"
    unfolding requeue_item_def by (rule transition_returns [OF moved(1,2) keeps_ending(3) _ nf]) simp
  then obtain d2 later where d2: "requeue_item (se_ctx env At_Requeue) d1 failed
      (''retry: '' @ se_say env (oc_reason oc)) ''serve'' False
      (Some (retry_at env At_Requeue (qi_attempts failed))) = (d2, later, None)" by blast
  have requeued: "queue_ok d2" "stored (se_parse env) d2 QUEUED iid = Some later"
    using requeued_moves [OF moved(1,2) d2] by simp_all
  show ?thesis
    using retry moved(3) queue_get_stored [OF ok st] queue_get_stored [of "w\<lparr>sw_disk := d1\<rparr>" env, simplified, OF moved(1,2)]
      queue_get_stored [of "w\<lparr>sw_disk := d2\<rparr>" env, simplified, OF requeued]
    by (simp add: failure_stage_def Let_def iid queue_do_def d1 d2 [simplified])
qed

lemma demo_start:
  "queue_ok demo_running" "stored no_parse demo_running Queue_Items.RUNNING ''q-1'' = Some demo_running_item"
  "qi_attempts demo_running_item = 1" "qi_max_attempts demo_running_item = 2"
proof -
  have q: "queue_ok demo_leased" using demo_lease(4) by (simp add: queue_inv_def)
  have keep: "keeps (\<lambda>i. i\<lparr>qi_last_run_id := []\<rparr>)" by (simp add: keeps_def)
  have start: "start_item demo_ctx demo_leased demo_leased_item [] [] =
      transition demo_ctx demo_leased demo_leased_item Queue_Items.RUNNING ''started'' [] True []
        (\<lambda>i. i\<lparr>qi_last_run_id := []\<rparr>)"
    using demo_lease(2,3) by (simp add: start_item_def attempts_remaining_def)
  have h: "Queue_Items.RUNNING \<in> set (legal_transitions LEASED)" "\<not> cx_meta_write_fails demo_ctx"
      "\<not> cx_rename_fails demo_ctx" by (simp_all add: demo_ctx_def)
  obtain d' where tr: "transition demo_ctx demo_leased demo_leased_item Queue_Items.RUNNING ''started'' [] True []
      (\<lambda>i. i\<lparr>qi_last_run_id := []\<rparr>) =
      (d', moved_item demo_ctx Queue_Items.RUNNING True (\<lambda>i. i\<lparr>qi_last_run_id := []\<rparr>) demo_leased_item, None)"
    by (rule transition_commits [OF q demo_lease(1) keep h, of "''started''" "[]" True "[]"])
  have run: "transition demo_ctx demo_leased demo_leased_item Queue_Items.RUNNING ''started'' [] True []
      (\<lambda>i. i\<lparr>qi_last_run_id := []\<rparr>) = (demo_running, demo_running_item, None)"
    using tr by (simp add: demo_running_def demo_running_item_def start)
  note moved = committed_move [OF q demo_lease(1) keep run]
  show "queue_ok demo_running" by (rule moved(1))
  show "stored no_parse demo_running Queue_Items.RUNNING ''q-1'' = Some demo_running_item" by (simp add: moved(3))
  show "qi_attempts demo_running_item = 1" "qi_max_attempts demo_running_item = 2"
    using demo_lease(2,3) by (simp_all add: moved(2) moved_item_def Let_def)
qed

theorem failed_item_is_requeued_or_poisoned_witness:
  "\<exists>w' cr' i. failure_stage demo_env fresh_result demo_running_item
       \<lparr>oc_verdict = Retry_Infra, oc_reason = Killed_By_Signal 9\<rparr> [] (demo_world demo_running) = (w', Inr cr') \<and>
     stored no_parse (sw_disk w') QUEUED ''q-1'' = Some i \<and> qi_attempts i = 1"
proof -
  let ?oc = "\<lparr>oc_verdict = Retry_Infra, oc_reason = Killed_By_Signal 9\<rparr>"
  let ?w = "demo_world demo_running"
  have world: "queue_ok (sw_disk ?w)"
      "stored (se_parse demo_env) (sw_disk ?w) Queue_Items.RUNNING ''q-1'' = Some demo_running_item"
    using demo_start by (simp_all add: demo_world_def demo_env_def)
  have iid: "qi_item_id demo_running_item = ''q-1''" using stored_SomeD(1) [OF world(2)] .
  have env: "\<not> cx_meta_write_fails (se_ctx demo_env p)" "\<not> cx_rename_fails (se_ctx demo_env p)" for p
    by (simp_all add: demo_env_def demo_ctx_def)
  have left: "may_retry (oc_verdict ?oc)" "0 < attempts_remaining demo_running_item"
    using demo_start(3,4) by (simp_all add: may_retry_def attempts_remaining_def)
  obtain w' cr' where run: "failure_stage demo_env fresh_result demo_running_item ?oc [] ?w = (w', Inr cr')"
    using failure_stage_requeues [OF world iid left env] by blast
  have "\<exists>i. stored (se_parse demo_env) (sw_disk w') QUEUED ''q-1'' = Some i \<and> qi_attempts i = qi_attempts demo_running_item"
    using failed_item_is_requeued_or_poisoned [of ?w demo_env demo_running_item demo_running_item, unfolded iid,
        OF world run] left by simp
  then show ?thesis using run demo_start(3) by (auto simp: demo_env_def)
qed

end
