(* ===== verification/Prd.thy ===== *)
theory Prd
  imports Manifest
begin

text \<open>
  \<open>kstrl/plan/prd.py\<close>: the requirements document of a component, its schema check, load and save,
  the text a reviewer sees, and \<open>tamper_changes\<close>, the comparison of the document an engineer left
  with the one from before the run. A decoded document is a JSON value; a message is a
  constructor.
\<close>

section \<open>The records\<close>

record user_story =
  us_id :: string
  us_title :: string
  us_criteria :: "string list"
  us_priority :: json  \<comment> \<open>an \<open>int\<close>; in Python a \<open>bool\<close> is one\<close>
  us_passes :: bool
  us_notes :: string

record prd =
  pd_branch_name :: string
  pd_stories :: "user_story list"
  pd_allowed_paths :: "string list option"
  pd_spec_issues :: "json list option"

section \<open>The schema check\<close>

datatype prd_schema_error =
    Prd_Not_Object
  | Prd_Missing_Keys "string list"
  | Prd_Unexpected_Keys "string list"
  | Fixtures_Retired
  | Array_Expected string
  | Array_Empty string
  | Items_Not_Nonempty_Strings string
  | Branch_Not_String json
  | Branch_Empty
  | Stories_Not_Array json
  | Story_Not_Object nat
  | Story_Missing_Keys nat "string list"
  | Story_Unexpected_Keys nat "string list"
  | Story_Field_Type nat string
  | Story_Criteria_Not_Strings nat

definition sorted_keys :: "string list \<Rightarrow> string list" where
  "sorted_keys ks = sort (remdups ks)"

definition prd_required_keys :: "string list" where
  "prd_required_keys = [''branchName'', ''userStories'']"

definition fixtures_key :: string where "fixtures_key = ''fixtures''"

definition spec_issues_key :: string where "spec_issues_key = ''specIssues''"

text \<open>\<open>_OPTIONAL_ARRAYS\<close>: the key, whether an empty array is refused, and whether its items are
  checked.\<close>

definition optional_arrays :: "(string \<times> bool \<times> bool) list" where
  "optional_arrays = [(''allowedPaths'', True, True), (spec_issues_key, False, False)]"

definition prd_optional_keys :: "string list" where
  "prd_optional_keys = map fst optional_arrays"

definition extra_key_errors :: "string list \<Rightarrow> prd_schema_error list" where
  "extra_key_errors extra =
     (let unknown = sorted_keys (filter (\<lambda>k. k \<noteq> fixtures_key) extra)
      in (if unknown \<noteq> [] then [Prd_Unexpected_Keys unknown] else []) @
         (if fixtures_key \<in> set extra then [Fixtures_Retired] else []))"

definition allowed_path_item :: "json \<Rightarrow> bool" where
  "allowed_path_item v = (case v of JStr p \<Rightarrow> p \<noteq> [] | _ \<Rightarrow> False)"

definition optional_array_errors :: "json_object \<Rightarrow> string \<times> bool \<times> bool \<Rightarrow> prd_schema_error list" where
  "optional_array_errors data row =
     (let (key, refuse_empty, check_items) = row
      in case map_of data key of
           None \<Rightarrow> []
         | Some (JList []) \<Rightarrow> (if refuse_empty then [Array_Empty key] else [])
         | Some (JList vs) \<Rightarrow>
             (if check_items \<and> \<not> list_all allowed_path_item vs then [Items_Not_Nonempty_Strings key] else [])
         | Some _ \<Rightarrow> [Array_Expected key])"

definition branch_name_errors :: "json_object \<Rightarrow> prd_schema_error list" where
  "branch_name_errors data =
     (case jget data ''branchName'' JNull of
        JStr b \<Rightarrow> (if b = [] then [Branch_Empty] else [])
      | v \<Rightarrow> [Branch_Not_String v])"

definition story_keys :: "string list" where
  "story_keys = [''acceptanceCriteria'', ''id'', ''notes'', ''passes'', ''priority'', ''title'']"

fun is_jint :: "json \<Rightarrow> bool" where
  "is_jint (JInt _) = True"
| "is_jint (JBool _) = True"
| "is_jint _ = False"

definition criteria_errors :: "nat \<Rightarrow> json \<Rightarrow> prd_schema_error list" where
  "criteria_errors i v =
     (case v of
        JList cs \<Rightarrow> (if list_all is_jstr cs then [] else [Story_Criteria_Not_Strings i])
      | _ \<Rightarrow> [Story_Field_Type i ''acceptanceCriteria''])"

definition story_type_errors :: "nat \<Rightarrow> json_object \<Rightarrow> prd_schema_error list" where
  "story_type_errors i s =
     (let get = (\<lambda>k. jget s k JNull); wrong = (\<lambda>ok k. if ok then [] else [Story_Field_Type i k])
      in wrong (is_jstr (get ''id'')) ''id'' @ wrong (is_jstr (get ''title'')) ''title'' @
         criteria_errors i (get ''acceptanceCriteria'') @
         wrong (is_jint (get ''priority'')) ''priority'' @
         wrong (case get ''passes'' of JBool _ \<Rightarrow> True | _ \<Rightarrow> False) ''passes'' @
         wrong (is_jstr (get ''notes'')) ''notes'')"

definition story_errors :: "nat \<Rightarrow> json \<Rightarrow> prd_schema_error list" where
  "story_errors i v =
     (case v of
        JObj s \<Rightarrow>
          (let missing = filter (\<lambda>k. k \<notin> set (jkeys s)) story_keys;
               extra = sorted_keys (filter (\<lambda>k. k \<notin> set story_keys) (jkeys s));
               errors = (if missing \<noteq> [] then [Story_Missing_Keys i missing] else []) @
                        (if extra \<noteq> [] then [Story_Unexpected_Keys i extra] else [])
           in if errors \<noteq> [] then errors else story_type_errors i s)
      | _ \<Rightarrow> [Story_Not_Object i])"

fun stories_errors :: "nat \<Rightarrow> json list \<Rightarrow> prd_schema_error list" where
  "stories_errors i [] = []"
| "stories_errors i (v # vs) = story_errors i v @ stories_errors (Suc i) vs"

definition prd_schema_errors :: "json \<Rightarrow> prd_schema_error list" where
  "prd_schema_errors doc =
     (case doc of
        JObj data \<Rightarrow>
          (let missing = filter (\<lambda>k. k \<notin> set (jkeys data)) prd_required_keys;
               extra = filter (\<lambda>k. k \<notin> set prd_required_keys \<and> k \<notin> set prd_optional_keys) (jkeys data)
           in if missing \<noteq> [] \<or> extra \<noteq> []
              then (if missing \<noteq> [] then [Prd_Missing_Keys missing] else []) @ extra_key_errors extra
              else concat (map (optional_array_errors data) optional_arrays) @ branch_name_errors data @
                (case jget data ''userStories'' JNull of
                   JList vs \<Rightarrow> stories_errors 0 vs
                 | v \<Rightarrow> [Stories_Not_Array v]))
      | _ \<Rightarrow> [Prd_Not_Object])"

section \<open>Load and save\<close>

definition load_story :: "json \<Rightarrow> user_story" where
  "load_story v =
     (let s = jobj_of v; get = (\<lambda>k. jget s k JNull)
      in \<lparr>us_id = jstr_of (get ''id''), us_title = jstr_of (get ''title''),
          us_criteria = map jstr_of (jlist_of (get ''acceptanceCriteria'')),
          us_priority = get ''priority'', us_passes = jbool_of (get ''passes''),
          us_notes = jstr_of (get ''notes'')\<rparr>)"

definition load_prd :: "json \<Rightarrow> prd_schema_error list + prd" where
  "load_prd doc =
     (if prd_schema_errors doc \<noteq> [] then Inl (prd_schema_errors doc)
      else
        (let data = jobj_of doc
         in Inr \<lparr>pd_branch_name = jstr_of (jget data ''branchName'' JNull),
                 pd_stories = map load_story (jlist_of (jget data ''userStories'' JNull)),
                 pd_allowed_paths =
                   map_option (\<lambda>v. map jstr_of (jlist_of v)) (map_of data ''allowedPaths''),
                 pd_spec_issues = map_option jlist_of (map_of data spec_issues_key)\<rparr>))"

definition story_to_json :: "user_story \<Rightarrow> json" where
  "story_to_json s =
     JObj [(''id'', JStr (us_id s)), (''title'', JStr (us_title s)),
           (''acceptanceCriteria'', JList (map JStr (us_criteria s))),
           (''priority'', us_priority s), (''passes'', JBool (us_passes s)),
           (''notes'', JStr (us_notes s))]"

definition save_prd :: "prd \<Rightarrow> json" where
  "save_prd p =
     JObj ([(''branchName'', JStr (pd_branch_name p)),
            (''userStories'', JList (map story_to_json (pd_stories p)))] @
           (case pd_allowed_paths p of
              None \<Rightarrow> [] | Some ps \<Rightarrow> [(''allowedPaths'', JList (map JStr ps))]) @
           (case pd_spec_issues p of
              None \<Rightarrow> [] | Some vs \<Rightarrow> [(spec_issues_key, JList vs)]))"

text \<open>\<open>prd_text_for_prompt\<close>; \<open>dumps\<close> is \<open>json.dumps\<close> with an indent of two.\<close>

definition prd_text_for_prompt :: "(string \<Rightarrow> json option) \<Rightarrow> (json \<Rightarrow> string) \<Rightarrow> string \<Rightarrow> string" where
  "prd_text_for_prompt parse dumps t =
     (case parse t of
        Some (JObj data) \<Rightarrow>
          (if spec_issues_key \<notin> set (jkeys data) then t
           else dumps (JObj (filter (\<lambda>(k, _). k \<noteq> spec_issues_key) data)) @ [newline])
      | _ \<Rightarrow> t)"

section \<open>Tampering\<close>

datatype tamper =
    Branch_Changed string string
  | Story_Set_Changed "string list" "string list"
  | Story_Rewritten string "string list"

definition pinned_story :: "user_story \<Rightarrow> user_story" where
  "pinned_story s = s\<lparr>us_passes := False, us_notes := []\<rparr>"

text \<open>The dictionary comprehension: a later story takes the place of an earlier one with its id.\<close>

fun pinned_fold :: "(string, user_story) dict \<Rightarrow> user_story list \<Rightarrow> (string, user_story) dict" where
  "pinned_fold d [] = d"
| "pinned_fold d (s # ss) = pinned_fold (dict_set d (us_id s) (pinned_story s)) ss"

definition pinned_stories :: "prd \<Rightarrow> (string, user_story) dict" where
  "pinned_stories p = pinned_fold [] (pd_stories p)"

text \<open>\<open>True == 1\<close> in Python.\<close>

fun py_int :: "json \<Rightarrow> int" where
  "py_int (JInt n) = n"
| "py_int (JBool b) = (if b then 1 else 0)"
| "py_int _ = 0"

text \<open>The fields that differ, in the order of the dataclass; \<open>passes\<close> and \<open>notes\<close> are blanked.\<close>

definition moved_fields :: "user_story \<Rightarrow> user_story \<Rightarrow> string list" where
  "moved_fields a b =
     (if us_id a \<noteq> us_id b then [''id''] else []) @
     (if us_title a \<noteq> us_title b then [''title''] else []) @
     (if us_criteria a \<noteq> us_criteria b then [''acceptance_criteria''] else []) @
     (if py_int (us_priority a) \<noteq> py_int (us_priority b) then [''priority''] else []) @
     (if us_passes a \<noteq> us_passes b then [''passes''] else []) @
     (if us_notes a \<noteq> us_notes b then [''notes''] else [])"

definition story_tamper :: "(string, user_story) dict \<Rightarrow> (string, user_story) dict \<Rightarrow> string \<Rightarrow> tamper list" where
  "story_tamper before after sid =
     (case (dict_get before sid, dict_get after sid) of
        (Some a, Some b) \<Rightarrow> (if moved_fields a b \<noteq> [] then [Story_Rewritten sid (moved_fields a b)] else [])
      | _ \<Rightarrow> [])"

definition tamper_changes :: "prd \<Rightarrow> prd \<Rightarrow> tamper list" where
  "tamper_changes p pre_run =
     (let before = pinned_stories pre_run; after = pinned_stories p
      in (if pd_branch_name pre_run \<noteq> pd_branch_name p
          then [Branch_Changed (pd_branch_name pre_run) (pd_branch_name p)] else []) @
         (if set (dict_keys before) \<noteq> set (dict_keys after)
          then [Story_Set_Changed (sort (dict_keys before)) (sort (dict_keys after))]
          else concat (map (story_tamper before after) (sort (dict_keys before)))))"

end
