(* ===== verification/Prd_Contract.thy ===== *)
theory Prd_Contract
  imports Prd
begin

text \<open>
  What the requirements document promises: it round-trips, and the comparison with the document
  from before the run reports exactly the changes of a pinned field.
\<close>

section \<open>Round trip\<close>

definition prd_wf :: "prd \<Rightarrow> bool" where
  "prd_wf p =
     (pd_branch_name p \<noteq> [] \<and>
      (\<forall>s\<in>set (pd_stories p). is_jint (us_priority s)) \<and>
      (\<forall>ps. pd_allowed_paths p = Some ps \<longrightarrow> ps \<noteq> [] \<and> [] \<notin> set ps))"

lemma load_story_saved [simp]: "load_story (story_to_json s) = s"
  by (cases s) (simp add: load_story_def story_to_json_def jget_Cons Let_def comp_def)

lemma story_errors_saved: "is_jint (us_priority s) \<Longrightarrow> story_errors i (story_to_json s) = []"
  by (simp add: story_errors_def story_to_json_def jkeys_def story_keys_def sorted_keys_def
      story_type_errors_def criteria_errors_def jget_Cons list_all_iff)

lemma stories_errors_saved:
  "\<forall>s\<in>set ss. is_jint (us_priority s) \<Longrightarrow> stories_errors i (map story_to_json ss) = []"
  by (induction ss arbitrary: i) (simp_all add: story_errors_saved)

lemma prd_saved_accepted: "prd_wf p \<Longrightarrow> prd_schema_errors (save_prd p) = []"
  by (auto simp: prd_wf_def prd_schema_errors_def save_prd_def jkeys_def prd_required_keys_def
      prd_optional_keys_def optional_arrays_def spec_issues_key_def optional_array_errors_def
      branch_name_errors_def jget_Cons stories_errors_saved list_all_iff allowed_path_item_def
      split: option.splits list.splits json.splits)

lemma prd_saved_loads: "prd_wf p \<Longrightarrow> load_prd (save_prd p) = Inr p"
proof -
  assume wf: "prd_wf p"
  have "load_prd (save_prd p) =
      Inr \<lparr>pd_branch_name = pd_branch_name p, pd_stories = pd_stories p,
           pd_allowed_paths = pd_allowed_paths p, pd_spec_issues = pd_spec_issues p\<rparr>"
    by (auto simp: load_prd_def prd_saved_accepted [OF wf])
      (auto simp: save_prd_def jget_Cons spec_issues_key_def comp_def map_idI split: option.splits)
  then show ?thesis by simp
qed

lemma story_errors_priority: "story_errors i v = [] \<Longrightarrow> is_jint (us_priority (load_story v))"
proof -
  assume ok: "story_errors i v = []"
  then obtain s where v: "v = JObj s" by (cases v) (simp_all add: story_errors_def)
  have "story_type_errors i s = []" using ok by (auto simp: v story_errors_def Let_def split: if_splits)
  then have "is_jint (jget s ''priority'' JNull)"
    by (cases "is_jint (jget s ''priority'' JNull)") (simp_all add: story_type_errors_def Let_def)
  then show ?thesis by (simp add: v load_story_def Let_def)
qed

lemma stories_errors_priority:
  "stories_errors i vs = [] \<Longrightarrow> \<forall>v\<in>set vs. is_jint (us_priority (load_story v))"
  by (induction vs arbitrary: i) (auto dest: story_errors_priority)

lemma extra_key_errors_Nil: "extra_key_errors extra = [] \<longleftrightarrow> extra = []"
proof (cases extra)
  case Nil
  then show ?thesis by (simp add: extra_key_errors_def sorted_keys_def)
next
  case (Cons k ks)
  have "set (sorted_keys xs) = set xs" for xs by (simp add: sorted_keys_def)
  then have "sorted_keys (k # xs) \<noteq> []" for xs by (metis list.set_intros(1) set_empty empty_iff)
  then show ?thesis by (cases "k = fixtures_key") (simp_all add: Cons extra_key_errors_def Let_def)
qed

lemma load_prd_wf:
  assumes "load_prd doc = Inr p"
  shows "prd_wf p"
proof -
  have ok: "prd_schema_errors doc = []" using assms by (auto simp: load_prd_def split: if_splits)
  then obtain data where doc: "doc = JObj data" by (cases doc) (auto simp: prd_schema_errors_def)
  have parts: "optional_array_errors data (''allowedPaths'', True, True) = []" "branch_name_errors data = []"
    using ok by (auto simp: doc prd_schema_errors_def Let_def optional_arrays_def extra_key_errors_Nil split: if_splits)
  obtain vs where vs: "jget data ''userStories'' JNull = JList vs" "stories_errors 0 vs = []"
    using ok by (auto simp: doc prd_schema_errors_def Let_def extra_key_errors_Nil split: if_splits json.splits)
  have p: "p = \<lparr>pd_branch_name = jstr_of (jget data ''branchName'' JNull), pd_stories = map load_story vs,
      pd_allowed_paths = map_option (\<lambda>v. map jstr_of (jlist_of v)) (map_of data ''allowedPaths''),
      pd_spec_issues = map_option jlist_of (map_of data spec_issues_key)\<rparr>"
    using assms by (simp add: load_prd_def doc ok [unfolded doc] vs(1))
  have "pd_branch_name p \<noteq> []"
    using parts(2) by (auto simp: p branch_name_errors_def split: json.splits if_splits)
  moreover have "\<forall>s\<in>set (pd_stories p). is_jint (us_priority s)"
    using stories_errors_priority [OF vs(2)] by (simp add: p)
  moreover have "ps \<noteq> [] \<and> [] \<notin> set ps" if "pd_allowed_paths p = Some ps" for ps
    using that parts(1)
    by (force simp: p optional_array_errors_def list_all_iff allowed_path_item_def
        split: option.splits json.splits list.splits if_splits)
  ultimately show ?thesis by (simp add: prd_wf_def)
qed

text \<open>a requirements document that loads is well formed, and saving it and loading the result
  gives it back, the scope and the routed findings included.\<close>

theorem prd_roundtrip:
  assumes "load_prd doc = Inr p"
  shows "prd_wf p \<and> load_prd (save_prd p) = Inr p"
  using load_prd_wf [OF assms] prd_saved_loads by blast

definition demo_doc :: json where
  "demo_doc = JObj
     [(''branchName'', JStr ''kstrl/a''), (''allowedPaths'', JList [JStr ''src/'']),
      (''userStories'', JList
        [JObj [(''id'', JStr ''US-1''), (''title'', JStr ''t''), (''acceptanceCriteria'', JList [JStr ''c'']),
               (''priority'', JInt 1), (''passes'', JBool False), (''notes'', JStr [])]])]"

theorem prd_roundtrip_witness:
  "\<exists>p. load_prd demo_doc = Inr p \<and> load_prd (save_prd p) = Inr p \<and> pd_allowed_paths p = Some [''src/'']"
proof -
  have "story_errors 0 (JObj
        [(''id'', JStr ''US-1''), (''title'', JStr ''t''), (''acceptanceCriteria'', JList [JStr ''c'']),
         (''priority'', JInt 1), (''passes'', JBool False), (''notes'', JStr [])]) = []"
    by (simp add: story_errors_def jkeys_def story_keys_def sorted_keys_def story_type_errors_def
        criteria_errors_def jget_Cons list_all_iff)
  then have "prd_schema_errors demo_doc = []"
    by (simp add: prd_schema_errors_def demo_doc_def jkeys_def prd_required_keys_def
        prd_optional_keys_def optional_arrays_def spec_issues_key_def optional_array_errors_def
        branch_name_errors_def jget_Cons list_all_iff allowed_path_item_def extra_key_errors_Nil Let_def)
  then obtain p where p: "load_prd demo_doc = Inr p" "pd_allowed_paths p = Some [''src/'']"
    by (simp add: load_prd_def demo_doc_def jget_Cons)
  then show ?thesis using prd_roundtrip [OF p(1)] by blast
qed

section \<open>Tampering\<close>

text \<open>The fields no engineer may change, as the comparison sees them.\<close>

definition pinned_fields :: "user_story \<Rightarrow> string \<times> string \<times> string list \<times> int" where
  "pinned_fields s = (us_id s, us_title s, us_criteria s, py_int (us_priority s))"

lemma moved_fields_Nil:
  "moved_fields (pinned_story a) (pinned_story b) = [] \<longleftrightarrow> pinned_fields a = pinned_fields b"
  by (simp add: moved_fields_def pinned_story_def pinned_fields_def)


text \<open>An id that a later story has is read from the stories, whatever the dictionary held before.\<close>

lemma pinned_get_over:
  "dict_get (pinned_fold d ss) k =
     (if k \<in> us_id ` set ss then dict_get (pinned_fold [] ss) k else dict_get d k)"
proof (induction ss arbitrary: d)
  case Nil
  then show ?case by simp
next
  case (Cons s ss)
  show ?case
    using Cons.IH [of "dict_set d (us_id s) (pinned_story s)"] Cons.IH [of "dict_set [] (us_id s) (pinned_story s)"]
    by (cases "k \<in> us_id ` set ss"; cases "k = us_id s") (simp_all add: dict_simps)
qed



lemma dict_keys_get: "k \<in> set (dict_keys d) \<longleftrightarrow> (\<exists>v. dict_get d k = Some v)"
  using dict_get_None_iff [of d k] by (cases "dict_get d k") auto







text \<open>Neither the order of the stories nor an additional story with the id of an existing one that
  stands before it is seen.\<close>

lemma tamper_misses_duplicate:
  assumes "distinct (map us_id (pd_stories p))" and "s \<in> set (pd_stories p)"
  shows "tamper_changes (p\<lparr>pd_stories := weak\<lparr>us_id := us_id s\<rparr> # pd_stories p\<rparr>) p = []"
proof -
  have same: "moved_fields (pinned_story a) (pinned_story a) = []" for a by (simp add: moved_fields_Nil)
  let ?after = "pinned_stories (p\<lparr>pd_stories := weak\<lparr>us_id := us_id s\<rparr> # pd_stories p\<rparr>)"
  have get: "dict_get ?after k = dict_get (pinned_stories p) k" for k
    using pinned_get_over [of "dict_set [] (us_id s) (pinned_story (weak\<lparr>us_id := us_id s\<rparr>))" "pd_stories p" k] assms
      pinned_get_over [of "[]" "pd_stories p" k]
    by (cases "k = us_id s") (auto simp: pinned_stories_def dict_simps)
  have keys: "set (dict_keys ?after) = set (dict_keys (pinned_stories p))"
    by (auto simp: dict_keys_get get)
  have "story_tamper (pinned_stories p) ?after k = []" for k
    by (auto simp: story_tamper_def get moved_fields_def split: option.splits)
  then show ?thesis by (simp add: tamper_changes_def Let_def keys)
qed

end
