(* ===== verification/Git_Output.thy ===== *)
theory Git_Output
  imports Prelude
begin

text \<open>
  The readings of git that the scope guard and the breaker make: the NUL-separated outputs parsed in
  \<open>kstrl/git/git.py\<close> and \<open>kstrl/loop/breaker.py\<close>, and the changed files of \<open>kstrl/git/git_tree.py\<close>
  from them. What a git command printed is an argument (\<open>git_run\<close>); a set of paths is a list
  whose order has no meaning.
\<close>

section \<open>The parsers\<close>

definition nul :: char where "nul = CHR 0x00"

definition nul_paths :: "string \<Rightarrow> string list" where
  "nul_paths out = filter (\<lambda>p. p \<noteq> []) (split_on nul out)"

definition moved_status :: "string \<Rightarrow> bool" where
  "moved_status s = (hd s = CHR ''R'' \<or> hd s = CHR ''C'')"

text \<open>\<open>git diff --name-status -z\<close>: a status and one path, or two for a rename or a copy.\<close>

function name_status_tokens :: "string list \<Rightarrow> (string \<times> string) list" where
  "name_status_tokens [] = []"
| "name_status_tokens (s # rest) =
     (if s = [] then name_status_tokens rest
      else if moved_status s
      then map (\<lambda>p. (s, p)) (filter (\<lambda>p. p \<noteq> []) (take 2 rest)) @ name_status_tokens (drop 2 rest)
      else map (\<lambda>p. (s, p)) (filter (\<lambda>p. p \<noteq> []) (take 1 rest)) @ name_status_tokens (drop 1 rest))"
  by pat_completeness auto

termination by (relation "measure length") auto

definition parse_name_status_records :: "string \<Rightarrow> (string \<times> string) list" where
  "parse_name_status_records out = name_status_tokens (split_on nul out)"

definition unique_paths :: "string list \<Rightarrow> string list" where
  "unique_paths ps = fromkeys (filter (\<lambda>p. p \<noteq> []) ps)"

text \<open>\<open>git status --porcelain -uall -z\<close>: a rename or a copy carries its source as one more field.\<close>

function untracked_tokens :: "string list \<Rightarrow> string list" where
  "untracked_tokens [] = []"
| "untracked_tokens (r # rest) =
     (if length r < 4 then untracked_tokens rest
      else
        (if take 2 r = ''??'' then [drop 3 r] else []) @
        untracked_tokens (if moved_status r then drop 1 rest else rest))"
  by pat_completeness auto

termination by (relation "measure length") auto

definition untracked_from_status_z :: "string \<Rightarrow> string list" where
  "untracked_from_status_z status = untracked_tokens (split_on nul status)"

section \<open>The changed files of a worktree\<close>

datatype git_run = Git_Out string | Git_Nonzero | Git_Timeout | Git_Undecodable

datatype git_error = Git_Diff_Error

definition printed_paths :: "git_run \<Rightarrow> string list" where
  "printed_paths r = (case r of Git_Out out \<Rightarrow> nul_paths out | _ \<Rightarrow> [])"

text \<open>What git answers in a worktree: \<open>diff --name-only\<close>, the same \<open>--cached\<close>, \<open>ls-files --others\<close>
  and, for a baseline commit, \<open>diff --name-status\<close> against it.\<close>

record git_view =
  gv_unstaged :: git_run
  gv_staged :: git_run
  gv_untracked :: git_run
  gv_since :: "string \<Rightarrow> git_run"

definition get_untracked_files :: "git_view \<Rightarrow> git_error + string list" where
  "get_untracked_files gv =
     (if gv_untracked gv = Git_Undecodable then Inl Git_Diff_Error else Inr (printed_paths (gv_untracked gv)))"

definition get_changed_files :: "git_view \<Rightarrow> git_error + string list" where
  "get_changed_files gv =
     (if gv_unstaged gv = Git_Undecodable \<or> gv_unstaged gv \<noteq> Git_Timeout \<and> gv_staged gv = Git_Undecodable
      then Inl Git_Diff_Error
      else
        (let files = printed_paths (gv_unstaged gv) @
               (if gv_unstaged gv = Git_Timeout then [] else printed_paths (gv_staged gv))
         in and_then (get_untracked_files gv) (\<lambda>untracked. Inr (files @ untracked))))"

record workspace_baseline =
  wb_head :: "string option"
  wb_dirty :: "string list"

definition committed_since :: "git_view \<Rightarrow> string \<Rightarrow> git_error + string list" where
  "committed_since gv ref =
     (case gv_since gv ref of
        Git_Out out \<Rightarrow> Inr (unique_paths (map snd (parse_name_status_records out)))
      | Git_Undecodable \<Rightarrow> Inl Git_Diff_Error
      | _ \<Rightarrow> Inr [])"

definition get_changed_files_since :: "workspace_baseline \<Rightarrow> git_view \<Rightarrow> git_error + string list" where
  "get_changed_files_since wb gv =
     and_then
       (case wb_head wb of
          None \<Rightarrow> get_changed_files gv
        | Some ref \<Rightarrow>
            and_then (committed_since gv ref) (\<lambda>committed.
            and_then (get_untracked_files gv) (\<lambda>untracked. Inr (committed @ untracked))))
       (\<lambda>changed. Inr (filter (\<lambda>f. f \<notin> set (wb_dirty wb)) changed))"

text \<open>\<open>base\<close> is the merge base of the base branch, where one is given and can be resolved.\<close>

definition capture_workspace_baseline ::
    "string option \<Rightarrow> string option \<Rightarrow> git_view \<Rightarrow> git_error + workspace_baseline" where
  "capture_workspace_baseline base head gv =
     and_then (get_changed_files gv) (\<lambda>dirty.
       Inr \<lparr>wb_head = (case base of Some b \<Rightarrow> (if b \<noteq> [] then Some b else head) | None \<Rightarrow> head),
            wb_dirty = dirty\<rparr>)"

section \<open>What the parsers read back\<close>

text \<open>One record of each output as git writes it.\<close>

record name_status =
  ns_status :: string
  ns_paths :: "string list"

definition name_status_wf :: "name_status \<Rightarrow> bool" where
  "name_status_wf r =
     (ns_status r \<noteq> [] \<and> nul \<notin> set (ns_status r) \<and>
      length (ns_paths r) = (if moved_status (ns_status r) then 2 else 1) \<and>
      (\<forall>p\<in>set (ns_paths r). p \<noteq> [] \<and> nul \<notin> set p))"

definition print_tokens :: "string list \<Rightarrow> string" where
  "print_tokens ts = concat (map (\<lambda>t. t @ [nul]) ts)"

lemma split_print_tokens:
  "(\<And>t. t \<in> set ts \<Longrightarrow> nul \<notin> set t) \<Longrightarrow> split_on nul (print_tokens ts) = ts @ [[]]"
proof (induction ts)
  case Nil
  then show ?case by (simp add: print_tokens_def)
next
  case (Cons t ts)
  have split: "c \<notin> set t \<Longrightarrow> split_on c (t @ c # rest) = t # split_on c rest" for c rest and t :: string
    by (induction t) auto
  show ?case using Cons split [of nul t "print_tokens ts"] by (simp add: print_tokens_def)
qed

lemma name_status_tokens_wf:
  assumes "name_status_wf r"
  shows "name_status_tokens (ns_status r # ns_paths r @ ts) =
           map (\<lambda>p. (ns_status r, p)) (ns_paths r) @ name_status_tokens ts"
proof -
  have "filter (\<lambda>p. p \<noteq> []) (ns_paths r) = ns_paths r"
    using assms by (simp add: name_status_wf_def filter_id_conv)
  then show ?thesis using assms by (simp add: name_status_wf_def split: if_splits)
qed

lemma name_status_printed:
  assumes "\<forall>r\<in>set rs. name_status_wf r"
  shows "parse_name_status_records (print_tokens (concat (map (\<lambda>r. ns_status r # ns_paths r) rs))) =
           concat (map (\<lambda>r. map (\<lambda>p. (ns_status r, p)) (ns_paths r)) rs)"
proof -
  let ?ts = "concat (map (\<lambda>r. ns_status r # ns_paths r) rs)"
  have "split_on nul (print_tokens ?ts) = ?ts @ [[]]"
    by (rule split_print_tokens) (use assms in \<open>auto simp: name_status_wf_def\<close>)
  moreover have "name_status_tokens (?ts @ [[]]) = concat (map (\<lambda>r. map (\<lambda>p. (ns_status r, p)) (ns_paths r)) rs)"
    using assms by (induction rs) (simp, simp add: name_status_tokens_wf del: name_status_tokens.simps)
  ultimately show ?thesis by (simp add: parse_name_status_records_def)
qed

record status_entry =
  en_code :: string
  en_path :: string
  en_source :: "string option"

definition status_entry_wf :: "status_entry \<Rightarrow> bool" where
  "status_entry_wf e =
     (length (en_code e) = 2 \<and> nul \<notin> set (en_code e) \<and> en_path e \<noteq> [] \<and> nul \<notin> set (en_path e) \<and>
      (case en_source e of None \<Rightarrow> \<not> moved_status (en_code e)
       | Some src \<Rightarrow> moved_status (en_code e) \<and> nul \<notin> set src))"

definition entry_tokens :: "status_entry \<Rightarrow> string list" where
  "entry_tokens e =
     (en_code e @ [CHR '' ''] @ en_path e) # (case en_source e of None \<Rightarrow> [] | Some src \<Rightarrow> [src])"

lemma untracked_tokens_entry:
  assumes "status_entry_wf e"
  shows "untracked_tokens (entry_tokens e @ ts) =
           (if en_code e = ''??'' then [en_path e] else []) @ untracked_tokens ts"
proof -
  obtain a b where code: "en_code e = [a, b]"
    using assms by (auto simp: status_entry_wf_def length_Suc_conv numeral_2_eq_2)
  obtain p ps where path: "en_path e = p # ps" using assms by (cases "en_path e") (auto simp: status_entry_wf_def)
  show ?thesis
    using assms
    by (cases "en_source e")
      (auto simp: entry_tokens_def status_entry_wf_def code path moved_status_def numeral_3_eq_3)
qed

lemma untracked_printed:
  assumes "\<forall>e\<in>set es. status_entry_wf e"
  shows "untracked_from_status_z (print_tokens (concat (map entry_tokens es))) =
           map en_path (filter (\<lambda>e. en_code e = ''??'') es)"
proof -
  let ?ts = "concat (map entry_tokens es)"
  have "split_on nul (print_tokens ?ts) = ?ts @ [[]]"
    by (rule split_print_tokens)
      (use assms in \<open>auto simp: status_entry_wf_def entry_tokens_def nul_def split: option.splits\<close>)
  moreover have "untracked_tokens (?ts @ [[]]) = map en_path (filter (\<lambda>e. en_code e = ''??'') es)"
    using assms by (induction es) (simp, simp add: untracked_tokens_entry del: untracked_tokens.simps)
  ultimately show ?thesis by (simp add: untracked_from_status_z_def)
qed

text \<open>what the two parsers of git's NUL-separated output read is what git wrote: every path of a
  name-status record under its status, renames and copies with both, and exactly the untracked
  paths of a status, however the paths are spelled (a source named like a status record included).\<close>

theorem git_outputs_read_back:
  assumes "\<forall>r\<in>set rs. name_status_wf r" and "\<forall>e\<in>set es. status_entry_wf e"
  shows "parse_name_status_records (print_tokens (concat (map (\<lambda>r. ns_status r # ns_paths r) rs))) =
           concat (map (\<lambda>r. map (\<lambda>p. (ns_status r, p)) (ns_paths r)) rs) \<and>
         untracked_from_status_z (print_tokens (concat (map entry_tokens es))) =
           map en_path (filter (\<lambda>e. en_code e = ''??'') es)"
  using name_status_printed [OF assms(1)] untracked_printed [OF assms(2)] by blast

theorem git_outputs_read_back_witness:
  "parse_name_status_records (print_tokens [''R100'', ''a'', ''b c'', ''M'', ''?? x'']) =
     [(''R100'', ''a''), (''R100'', ''b c''), (''M'', ''?? x'')] \<and>
   untracked_from_status_z (print_tokens [''R  new'', ''?? x'', ''?? y'']) = [''y'']"
  using git_outputs_read_back
    [of "[\<lparr>ns_status = ''R100'', ns_paths = [''a'', ''b c'']\<rparr>, \<lparr>ns_status = ''M'', ns_paths = [''?? x'']\<rparr>]"
        "[\<lparr>en_code = ''R '', en_path = ''new'', en_source = Some ''?? x''\<rparr>,
          \<lparr>en_code = ''??'', en_path = ''y'', en_source = None\<rparr>]"]
  by (simp add: name_status_wf_def status_entry_wf_def entry_tokens_def moved_status_def nul_def)

end
