(* ===== verification/Scope.thy ===== *)
theory Scope
  imports Git_Output Prd Append_Log
begin

text \<open>
  Which files a component may write: the matcher and the guard of \<open>kstrl/verify/guards.py\<close>, kstrl's
  own files that the guard does not count (\<open>state_dir_carve_out\<close> of \<open>kstrl/io/statedir.py\<close> and
  \<open>component_harness_paths\<close> of \<open>kstrl/config/config.py\<close>), and the scope of a component as it is
  resolved once before the run (\<open>kstrl/plan/scope.py\<close>).
\<close>

section \<open>Matching\<close>

definition entry_allows :: "string \<Rightarrow> string \<Rightarrow> bool" where
  "entry_allows path allowed =
     (if endswith allowed ''/'' then startswith path allowed \<or> path @ ''/'' = allowed else path = allowed)"

definition path_is_allowed :: "string \<Rightarrow> string list \<Rightarrow> bool" where
  "path_is_allowed path allowed_paths = list_ex (entry_allows path) allowed_paths"

datatype scope_hazard = Absolute | Traversal | Root | Whitespace

definition rstrip_slash :: "string \<Rightarrow> string" where
  "rstrip_slash s = rev (dropWhile (\<lambda>c. c = CHR ''/'') (rev s))"

fun drop_dot_slash :: "string \<Rightarrow> string" where
  "drop_dot_slash (a # b # s) =
     (if a = CHR ''.'' \<and> b = CHR ''/'' then drop_dot_slash s else a # b # s)"
| "drop_dot_slash s = s"

text \<open>\<open>PurePosixPath(s).parts\<close> holds \<open>..\<close> exactly if a segment between slashes is \<open>..\<close>.\<close>

definition scope_entry_hazard :: "string \<Rightarrow> scope_hazard option" where
  "scope_entry_hazard entry =
     (let stripped = strip entry
      in if startswith stripped ''/''
         then Some (if rstrip_slash stripped = [] then Root else Absolute)
         else if ''..'' \<in> set (split_on (CHR ''/'') stripped) then Some Traversal
         else if rstrip_slash (drop_dot_slash stripped) \<in> {[], ''.''} then Some Root
         else if entry \<noteq> stripped then Some Whitespace
         else None)"

section \<open>The guard\<close>

definition check_violations :: "string list \<Rightarrow> string list \<Rightarrow> string list \<Rightarrow> string list" where
  "check_violations changed_files allowed_paths ignored_paths =
     (if allowed_paths = [] then []
      else filter (\<lambda>f. \<not> path_is_allowed f ignored_paths \<and> \<not> path_is_allowed f allowed_paths)
             (sorted_keys changed_files))"

definition state_dir_name :: string where "state_dir_name = ''.kstrl''"

definition within_state_dir :: "string \<Rightarrow> bool" where
  "within_state_dir path = startswith path (state_dir_name @ ''/'')"

text \<open>What is done to a file that is reverted. \<open>restores\<close> is \<open>restore_file_from\<close> at the baseline.\<close>

datatype revert_action = Restored_From string | Dropped_And_Deleted | Restored | Deleted

definition revert_violation ::
    "(string \<Rightarrow> string \<Rightarrow> bool) \<Rightarrow> (string \<Rightarrow> bool) \<Rightarrow> workspace_baseline option \<Rightarrow> string \<Rightarrow> revert_action option" where
  "revert_violation restores tracked baseline f =
     (if within_state_dir f then None
      else
        (case map_option wb_head baseline of
           Some (Some head) \<Rightarrow> Some (if restores f head then Restored_From head else Dropped_And_Deleted)
         | _ \<Rightarrow> Some (if tracked f then Restored else Deleted)))"

definition revert_violations ::
    "(string \<Rightarrow> string \<Rightarrow> bool) \<Rightarrow> (string \<Rightarrow> bool) \<Rightarrow> workspace_baseline option \<Rightarrow> string list \<Rightarrow>
     (string \<times> revert_action) list \<times> string list" where
  "revert_violations restores tracked baseline violations =
     (concat (map (\<lambda>f. case revert_violation restores tracked baseline f of
                         None \<Rightarrow> [] | Some a \<Rightarrow> [(f, a)]) violations),
      filter (\<lambda>f. revert_violation restores tracked baseline f = None) violations)"

record guard_inputs =
  gd_allowed :: "string list"
  gd_interactive :: bool
  gd_is_repo :: bool
  gd_view :: git_view
  gd_baseline :: "workspace_baseline option"
  gd_ignored :: "string list"
  gd_can_prompt :: bool
  gd_choice :: "int option"
  gd_restores :: "string \<Rightarrow> string \<Rightarrow> bool"
  gd_tracked :: "string \<Rightarrow> bool"

record guard_result =
  gr_ok :: bool
  gr_violations :: "string list"
  gr_reverted :: "(string \<times> revert_action) list"

definition guard_passes :: "bool \<Rightarrow> string list \<Rightarrow> guard_result" where
  "guard_passes ok vs = \<lparr>gr_ok = ok, gr_violations = vs, gr_reverted = []\<rparr>"

definition guard_changed :: "guard_inputs \<Rightarrow> git_error + string list" where
  "guard_changed g =
     (case gd_baseline g of
        Some wb \<Rightarrow> get_changed_files_since wb (gd_view g) | None \<Rightarrow> get_changed_files (gd_view g))"

definition enforce_allowed_paths :: "guard_inputs \<Rightarrow> guard_result" where
  "enforce_allowed_paths g =
     (if gd_allowed g = [] \<or> \<not> gd_is_repo g then guard_passes True []
      else
        (case guard_changed g of
           Inl _ \<Rightarrow> guard_passes False []
         | Inr changed \<Rightarrow>
             (let vs = check_violations changed (gd_allowed g) (gd_ignored g)
              in if vs = [] then guard_passes True []
                 else if \<not> gd_interactive g \<or> \<not> gd_can_prompt g then guard_passes False vs
                 else if gd_choice g = Some 1
                 then (let (acts, refused) = revert_violations (gd_restores g) (gd_tracked g) (gd_baseline g) vs
                       in \<lparr>gr_ok = refused = [], gr_violations = refused, gr_reverted = acts\<rparr>)
                 else if gd_choice g = Some 2 then guard_passes True vs
                 else guard_passes False vs)))"

section \<open>kstrl's own files\<close>

definition control_autonomy :: string where "control_autonomy = ''autonomy.json''"

definition control_inbox :: string where "control_inbox = ''inbox.jsonl''"

definition state_subdirs :: "string list" where
  "state_subdirs =
     [''contract'', ''debug'', ''doctor'', ''integration'', ''knowledge'', ''logs'', ''plan'', ''proposals'',
      ''queue'', ''runs'', ''worktrees'']"

definition state_files :: "string list" where
  "state_files =
     [''evolution.jsonl'', ''experiments.tsv'', ''factory.lock'', ''progress.jsonl'', control_autonomy,
      control_inbox]"

definition state_not_carved :: "string list" where
  "state_not_carved = [control_autonomy, control_inbox, ''integration'', ''plan'', ''proposals'', ''queue'']"

text \<open>\<open>same\<close> is whether the two roots are one directory; \<open>None\<close> where no state root is given.\<close>

definition state_dir_carve_out :: "bool option \<Rightarrow> string list" where
  "state_dir_carve_out same =
     (if same \<noteq> Some True then []
      else
        (let carved = map (\<lambda>n. n @ ''/'') (filter (\<lambda>n. n \<notin> set state_not_carved) state_subdirs) @
                      filter (\<lambda>n. n \<notin> set state_not_carved) state_files
         in sort (map (\<lambda>n. state_dir_name @ ''/'' @ n) carved)))"

text \<open>\<open>as_posix\<close> is \<open>Path(p).as_posix()\<close>, the path as \<open>pathlib\<close> spells it.\<close>

definition component_harness_paths :: "(string \<Rightarrow> string) \<Rightarrow> string \<Rightarrow> string \<Rightarrow> string \<Rightarrow> string list" where
  "component_harness_paths as_posix prd_path progress_path codebase_map_path =
     sorted_keys (map as_posix [prd_path, progress_path, codebase_map_path])"

definition pre_run_prd_path :: "component \<Rightarrow> string" where
  "pre_run_prd_path c =
     (if c_plan_id c \<noteq> []
      then state_dir_name @ ''/plan/'' @ c_plan_id c @ ''/'' @ c_id c @ ''/prd.json''
      else c_prd_path c)"

section \<open>The scope of a component\<close>

datatype scope_source = Component_Prd | Run_Flag | Unconstrained | Unresolved

datatype scope_error = Prd_Not_Found string | Prd_Unreadable string | Prd_Invalid string | Not_In_Plan

record component_scope =
  sp_allowed :: "string list option"
  sp_harness :: "string list"
  sp_source :: scope_source
  sp_origin :: string
  sp_error :: "scope_error option"

definition is_trustworthy :: "component_scope \<Rightarrow> bool" where
  "is_trustworthy s = (sp_error s = None)"

definition run_flag_origin :: string where "run_flag_origin = ''--allowed-paths''"

text \<open>What reading and parsing the file gives: it is missing, another \<open>OSError\<close>, no JSON, or a document.\<close>

datatype prd_file = File_Missing | File_Unreadable | File_Malformed | File_Json json

definition authored_paths :: "prd \<Rightarrow> string list option" where
  "authored_paths p = (case pd_allowed_paths p of None \<Rightarrow> None | Some ps \<Rightarrow> (if ps = [] then None else Some ps))"

definition read_prd :: "string \<Rightarrow> prd_file \<Rightarrow> scope_error + prd" where
  "read_prd shown f =
     (case f of
        File_Missing \<Rightarrow> Inl (Prd_Not_Found shown)
      | File_Unreadable \<Rightarrow> Inl (Prd_Unreadable shown)
      | File_Malformed \<Rightarrow> Inl (Prd_Invalid shown)
      | File_Json j \<Rightarrow> (case load_prd j of Inl _ \<Rightarrow> Inl (Prd_Invalid shown) | Inr p \<Rightarrow> Inr p))"

definition resolve_component_scope ::
    "(string \<Rightarrow> prd_file) \<Rightarrow> (component \<Rightarrow> string list) \<Rightarrow> string list \<Rightarrow> component \<Rightarrow> component_scope" where
  "resolve_component_scope files harness run_allowed c =
     (let source = pre_run_prd_path c;
          loaded = read_prd source (files source);
          authored = (case loaded of Inl _ \<Rightarrow> None | Inr p \<Rightarrow> authored_paths p)
      in case (authored, loaded) of
           (Some ps, _) \<Rightarrow>
             \<lparr>sp_allowed = Some ps, sp_harness = harness c, sp_source = Component_Prd, sp_origin = c_prd_path c,
              sp_error = None\<rparr>
         | (None, Inl e) \<Rightarrow>
             \<lparr>sp_allowed = None, sp_harness = harness c, sp_source = Unresolved, sp_origin = [], sp_error = Some e\<rparr>
         | (None, Inr _) \<Rightarrow>
             (if run_allowed \<noteq> []
              then \<lparr>sp_allowed = Some run_allowed, sp_harness = harness c, sp_source = Run_Flag,
                    sp_origin = run_flag_origin, sp_error = None\<rparr>
              else \<lparr>sp_allowed = None, sp_harness = harness c, sp_source = Unconstrained, sp_origin = [],
                    sp_error = None\<rparr>))"

type_synonym run_scope = "(string, component_scope) dict"

fun resolve_scopes ::
    "(component \<Rightarrow> component_scope) \<Rightarrow> component list \<Rightarrow> run_scope \<Rightarrow> run_scope" where
  "resolve_scopes resolve [] scopes = scopes"
| "resolve_scopes resolve (c # cs) scopes = resolve_scopes resolve cs (dict_set scopes (c_id c) (resolve c))"

definition resolve_run_scope ::
    "(string \<Rightarrow> prd_file) \<Rightarrow> (component \<Rightarrow> string list) \<Rightarrow> string list \<Rightarrow> manifest \<Rightarrow> run_scope" where
  "resolve_run_scope files harness run_allowed m =
     resolve_scopes (resolve_component_scope files harness run_allowed) (m_components m) []"

definition scope_for_component :: "run_scope \<Rightarrow> string \<Rightarrow> component_scope" where
  "scope_for_component scopes cid =
     (case dict_get scopes cid of
        Some s \<Rightarrow> s
      | None \<Rightarrow>
          \<lparr>sp_allowed = None, sp_harness = [], sp_source = Unresolved, sp_origin = [], sp_error = Some Not_In_Plan\<rparr>)"

text \<open>\<open>_authored_scope_errors\<close> and \<open>_preflight_component_scope\<close> of \<open>factory_preflight.py\<close>: the entries
  that authorise nothing.\<close>

definition authored_scope_errors :: "string \<Rightarrow> string list \<Rightarrow> (string \<times> string \<times> scope_hazard) list" where
  "authored_scope_errors cid allowed =
     concat (map (\<lambda>e. case scope_entry_hazard e of None \<Rightarrow> [] | Some h \<Rightarrow> [(cid, e, h)]) allowed)"

datatype preflight_error = Scope_Untrusted string scope_error | Scope_Entry_Hazard string string scope_hazard

text \<open>Each pending component; a list of paths that was already examined is not examined again.\<close>

fun preflight_scopes :: "run_scope \<Rightarrow> string list list \<Rightarrow> component list \<Rightarrow> preflight_error list" where
  "preflight_scopes scopes seen [] = []"
| "preflight_scopes scopes seen (c # cs) =
     (if c_status c \<noteq> PENDING then preflight_scopes scopes seen cs
      else
        (let scope = scope_for_component scopes (c_id c)
         in case sp_error scope of
              Some e \<Rightarrow> Scope_Untrusted (c_id c) e # preflight_scopes scopes seen cs
            | None \<Rightarrow>
                (case sp_allowed scope of
                   None \<Rightarrow> preflight_scopes scopes seen cs
                 | Some ps \<Rightarrow>
                     (if ps \<in> set seen then preflight_scopes scopes seen cs
                      else map (\<lambda>(cid, e, h). Scope_Entry_Hazard cid e h) (authored_scope_errors (c_id c) ps) @
                           preflight_scopes scopes (ps # seen) cs))))"

definition preflight_component_scope :: "manifest \<Rightarrow> run_scope \<Rightarrow> preflight_error list" where
  "preflight_component_scope m scopes = preflight_scopes scopes [] (m_components m)"

end
