(* ===== verification/Scope_Contract.thy ===== *)
theory Scope_Contract
  imports Scope
begin

text \<open>
  What the scope guard promises: which runs pass it, what it never touches, which entries can match
  nothing, and where the scope of a component comes from.
\<close>

section \<open>Paths as git spells them\<close>

definition path_segments :: "string \<Rightarrow> string list" where
  "path_segments p = split_on (CHR ''/'') p"

definition repo_path :: "string \<Rightarrow> bool" where
  "repo_path p = (\<forall>s\<in>set (path_segments p). s \<noteq> [] \<and> s \<noteq> ''.'' \<and> s \<noteq> ''..'')"

lemma split_on_append:
  "split_on c (s @ c # t) = split_on c s @ split_on c t"
  by (induction s) (auto split: list.splits)

lemma split_on_first: "split_on c (c # s) = [] # split_on c s"
  by simp

lemma repo_pathD: "repo_path p \<Longrightarrow> s \<in> set (path_segments p) \<Longrightarrow> s \<noteq> [] \<and> s \<noteq> ''.'' \<and> s \<noteq> ''..''"
  by (simp add: repo_path_def)

lemma segments_slash: "path_segments (s @ CHR ''/'' # t) = path_segments s @ path_segments t"
  by (simp only: path_segments_def split_on_append)

lemma segments_Nil: "path_segments [] = [[]]"
  by (simp add: path_segments_def)

lemma segments_plain: "CHR ''/'' \<notin> set s \<Longrightarrow> path_segments s = [s]"
  by (simp add: path_segments_def concat_split_on)

lemma repo_path_Nil: "\<not> repo_path []"
  using repo_pathD [of "[]" "[]"] by (auto simp: segments_Nil)

lemma repo_path_hd: "repo_path p \<Longrightarrow> hd p \<noteq> CHR ''/''"
proof
  assume path: "repo_path p" and hd: "hd p = CHR ''/''"
  then obtain t where "p = [] @ CHR ''/'' # t" by (cases p) (auto simp: repo_path_Nil)
  then have "[] \<in> set (path_segments p)" by (simp only: segments_slash segments_Nil) simp
  then show False using repo_pathD [OF path] by blast
qed

lemma repo_path_last: "repo_path p \<Longrightarrow> last p \<noteq> CHR ''/''"
proof
  assume path: "repo_path p" and last: "last p = CHR ''/''"
  then obtain t where "p = t @ CHR ''/'' # []" by (cases p rule: rev_cases) (auto simp: repo_path_Nil)
  then have "[] \<in> set (path_segments p)" by (simp only: segments_slash segments_Nil) simp
  then show False using repo_pathD [OF path] by blast
qed

lemma repo_path_no_dot_slash: "repo_path p \<Longrightarrow> \<not> startswith p ''./''"
proof
  assume path: "repo_path p" and "startswith p ''./''"
  then obtain t where "p = ''.'' @ CHR ''/'' # t" by (auto simp: startswith_def prefix_def)
  then have "''.'' \<in> set (path_segments p)" by (simp only: segments_slash segments_plain) (simp add: segments_plain)
  then show False using repo_pathD [OF path] by blast
qed

section \<open>Entries that match nothing\<close>

lemma strip_id_iff: "strip s = s \<longleftrightarrow> s = [] \<or> \<not> is_space (hd s) \<and> \<not> is_space (last s)"
proof -
  have drop: "dropWhile is_space t = t \<longleftrightarrow> t = [] \<or> \<not> is_space (hd t)" for t
    by (simp add: dropWhile_eq_self_iff)
  have len: "length (rev (dropWhile is_space (rev (dropWhile is_space s)))) \<le> length (dropWhile is_space s)" for s
    by (metis length_dropWhile_le length_rev)
  show ?thesis
  proof
    assume "strip s = s"
    then have eq: "rev (dropWhile is_space (rev (dropWhile is_space s))) = s" by (simp add: strip_def)
    have "length (dropWhile is_space s) = length s"
      using len [of s] length_dropWhile_le [of is_space s] eq by simp
    then have first: "dropWhile is_space s = s"
      by (metis append_self_conv2 append_take_drop_id dropWhile_eq_drop length_drop length_takeWhile_le
          diff_is_0_eq le_antisym length_append takeWhile_dropWhile_id add_cancel_left_left length_0_conv)
    then have "dropWhile is_space (rev s) = rev s" using eq by (metis rev_rev_ident)
    then show "s = [] \<or> \<not> is_space (hd s) \<and> \<not> is_space (last s)"
      using first drop [of s] drop [of "rev s"] by (auto simp: hd_rev)
  next
    assume "s = [] \<or> \<not> is_space (hd s) \<and> \<not> is_space (last s)"
    then show "strip s = s" using drop [of s] drop [of "rev s"] by (auto simp: strip_def hd_rev)
  qed
qed

lemma rstrip_slash_end: "s \<noteq> [] \<Longrightarrow> last s \<noteq> CHR ''/'' \<Longrightarrow> rstrip_slash s = s"
  by (cases s rule: rev_cases) (simp_all add: rstrip_slash_def)

lemma rstrip_slash_one: "s \<noteq> [] \<Longrightarrow> last s \<noteq> CHR ''/'' \<Longrightarrow> rstrip_slash (s @ ''/'') = s"
  by (cases s rule: rev_cases) (simp_all add: rstrip_slash_def)

lemma drop_dot_slash_id: "\<not> startswith s ''./'' \<Longrightarrow> drop_dot_slash s = s"
  by (cases s rule: drop_dot_slash.cases) (auto simp: startswith_def)

text \<open>An entry that matches a path git can name, without blanks around it, has no hazard.\<close>

lemma matching_entry_clean:
  assumes path: "repo_path p" "strip p = p" and match: "entry_allows p entry"
  shows "scope_entry_hazard entry = None"
proof -
  have p: "p \<noteq> []" using path(1) repo_path_Nil by blast
  obtain q where entry: "entry = q \<or> entry = q @ ''/''" and q: "q \<noteq> []" "prefix q p" "repo_path q" "last q \<noteq> CHR ''/''"
  proof (cases "endswith entry ''/''")
    case False
    then have "entry = p" using match by (simp add: entry_allows_def)
    then show ?thesis using p path(1) repo_path_last by (intro that [of p]) simp_all
  next
    case True
    then obtain q where q: "entry = q @ ''/''" by (auto simp: endswith_def suffix_def)
    have under: "(\<exists>r. p = q @ CHR ''/'' # r) \<or> p = q"
      using match True by (auto simp: entry_allows_def q startswith_def prefix_def)
    then have "set (path_segments q) \<subseteq> set (path_segments p)" by (auto simp: segments_slash)
    then have "repo_path q" using path(1) by (auto simp: repo_path_def)
    then have "q \<noteq> []" "last q \<noteq> CHR ''/''" using repo_path_Nil repo_path_last by blast+
    moreover have "prefix q p" using under by (auto simp: prefix_def)
    ultimately show ?thesis using q \<open>repo_path q\<close> by (intro that [of q]) simp_all
  qed
  have same_hd: "hd entry = hd p" using entry q(1,2) by (auto simp: prefix_def)
  have blank: "\<not> is_space (CHR ''/'')" by (simp add: is_space_def)
  have last: "\<not> is_space (last entry)"
  proof (cases "endswith entry ''/''")
    case True
    then show ?thesis using blank by (auto simp: endswith_def suffix_def)
  next
    case False
    then have "entry = p" using match by (simp add: entry_allows_def)
    then show ?thesis using path(2) p strip_id_iff by blast
  qed
  have stripped: "strip entry = entry"
    using same_hd last path(2) p strip_id_iff entry q(1) by (metis append_is_Nil_conv)
  have no_slash: "\<not> startswith entry ''/''"
    using entry q(1) repo_path_hd [OF q(3)] by (cases q) (auto simp: startswith_def)
  have "''..'' \<notin> set (path_segments q)" using repo_pathD [OF q(3)] by blast
  then have segs: "''..'' \<notin> set (split_on (CHR ''/'') entry)"
    using entry segments_slash [of q "[]"] by (auto simp: segments_Nil simp flip: path_segments_def)
  have "\<not> startswith q ''./''" by (rule repo_path_no_dot_slash [OF q(3)])
  moreover have "\<not> startswith (q @ ''/'') ''./''"
  proof
    assume "startswith (q @ ''/'') ''./''"
    then have "q = ''.'' \<or> startswith q ''./''"
      by (cases q rule: drop_dot_slash.cases) (auto simp: startswith_def)
    then show False using \<open>\<not> startswith q ''./''\<close> repo_pathD [OF q(3), of "''.''"] by (auto simp: segments_plain)
  qed
  ultimately have "\<not> startswith entry ''./''" using entry by blast
  then have "drop_dot_slash entry = entry" by (rule drop_dot_slash_id)
  then have "rstrip_slash (drop_dot_slash entry) = q"
    using entry q(1,4) rstrip_slash_end rstrip_slash_one by metis
  moreover have "q \<noteq> ''.''" using repo_pathD [OF q(3), of "''.''"] by (auto simp: segments_plain)
  ultimately show ?thesis
    using stripped no_slash segs q(1) by (simp add: scope_entry_hazard_def Let_def)
qed

text \<open>an entry that is reported as a hazard authorises nothing: no path as git spells one, without
  blanks around it, is matched by it.\<close>

theorem hazard_matches_nothing:
  assumes "scope_entry_hazard entry = Some h" and "repo_path p" and "strip p = p"
  shows "\<not> path_is_allowed p [entry]"
  using matching_entry_clean [OF assms(2,3)] assms(1) by (auto simp: path_is_allowed_def)

theorem hazard_matches_nothing_witness:
  "scope_entry_hazard ''../src/'' = Some Traversal \<and> \<not> path_is_allowed ''src/main.py'' [''../src/'']"
proof -
  have h: "scope_entry_hazard ''../src/'' = Some Traversal"
    by (simp add: scope_entry_hazard_def strip_def is_space_def startswith_def Let_def)
  have "repo_path ''src/main.py''" "strip ''src/main.py'' = ''src/main.py''"
    by (simp_all add: repo_path_def path_segments_def strip_def is_space_def)
  then show ?thesis using hazard_matches_nothing [OF h] h by blast
qed

text \<open>The converse fails: an entry that starts with \<open>./\<close> is no hazard, and matches no path.\<close>

lemma dot_slash_entry_authorises_nothing:
  assumes "repo_path p"
  shows "scope_entry_hazard ''./src/'' = None \<and> \<not> path_is_allowed p [''./src/'']"
proof -
  have "scope_entry_hazard ''./src/'' = None"
    by (simp add: scope_entry_hazard_def strip_def is_space_def startswith_def rstrip_slash_def Let_def)
  moreover have "\<not> entry_allows p ''./src/''"
  proof
    assume "entry_allows p ''./src/''"
    then have "startswith p ''./src/'' \<or> p @ ''/'' = ''./src'' @ ''/''"
      by (simp add: entry_allows_def endswith_def suffix_def)
    then have "startswith p ''./''" by (auto simp: startswith_def prefix_def)
    then show False using repo_path_no_dot_slash [OF assms] by blast
  qed
  ultimately show ?thesis by (simp add: path_is_allowed_def)
qed

section \<open>The guard\<close>

definition in_scope :: "guard_inputs \<Rightarrow> string \<Rightarrow> bool" where
  "in_scope g f = (path_is_allowed f (gd_allowed g) \<or> path_is_allowed f (gd_ignored g))"

lemma check_violations_set:
  "allowed \<noteq> [] \<Longrightarrow> set (check_violations changed allowed ignored) =
     {f \<in> set changed. \<not> path_is_allowed f allowed \<and> \<not> path_is_allowed f ignored}"
  by (auto simp: check_violations_def sorted_keys_def)

text \<open>without a person to ask, an iteration passes the scope guard exactly if no scope is set, there
  is no repository, or the changed files can be read and every one of them, committed or not, that
  was not dirty at the baseline is in the authored scope or one of kstrl's own files; and a failure
  lists exactly the files that are not.\<close>

theorem guard_passes_exactly_in_scope:
  assumes "\<not> gd_interactive g"
  shows "(gr_ok (enforce_allowed_paths g) \<longleftrightarrow>
            gd_allowed g = [] \<or> \<not> gd_is_repo g \<or>
            (\<exists>changed. guard_changed g = Inr changed \<and> list_all (in_scope g) changed)) \<and>
         set (gr_violations (enforce_allowed_paths g)) =
           (if gd_allowed g = [] \<or> \<not> gd_is_repo g then {}
            else case guard_changed g of Inl _ \<Rightarrow> {} | Inr changed \<Rightarrow> {f \<in> set changed. \<not> in_scope g f})"
proof (cases "gd_allowed g = [] \<or> \<not> gd_is_repo g")
  case True
  then show ?thesis by (auto simp: enforce_allowed_paths_def guard_passes_def)
next
  case False
  show ?thesis
  proof (cases "guard_changed g")
    case (Inl e)
    then show ?thesis using False by (simp add: enforce_allowed_paths_def guard_passes_def)
  next
    case (Inr changed)
    let ?vs = "check_violations changed (gd_allowed g) (gd_ignored g)"
    have vs: "set ?vs = {f \<in> set changed. \<not> in_scope g f}"
      using False by (auto simp: check_violations_set in_scope_def)
    have "enforce_allowed_paths g = guard_passes (?vs = []) ?vs"
      using False Inr assms by (simp add: enforce_allowed_paths_def Let_def)
    moreover have "?vs = [] \<longleftrightarrow> list_all (in_scope g) changed"
      using vs by (auto simp: list_all_iff simp flip: set_empty)
    ultimately show ?thesis using False Inr vs by (simp add: guard_passes_def)
  qed
qed

definition demo_guard :: guard_inputs where
  "demo_guard =
     \<lparr>gd_allowed = [''src/''], gd_interactive = False, gd_is_repo = True,
      gd_view = \<lparr>gv_unstaged = Git_Out [], gv_staged = Git_Out [],
        gv_untracked = Git_Out (print_tokens [''notes.md'', ''own.txt'']),
        gv_since = (\<lambda>_. Git_Out (print_tokens [''M'', ''src/a.py'', ''R100'', ''b.py'', ''src/b.py'']))\<rparr>,
      gd_baseline = Some \<lparr>wb_head = Some ''abc'', wb_dirty = [''own.txt'']\<rparr>, gd_ignored = [''notes.md''],
      gd_can_prompt = False, gd_choice = None, gd_restores = (\<lambda>_ _. True), gd_tracked = (\<lambda>_. True)\<rparr>"

lemma demo_guard_changed: "guard_changed demo_guard = Inr [''src/a.py'', ''b.py'', ''src/b.py'', ''notes.md'']"
  by (simp add: guard_changed_def demo_guard_def get_changed_files_since_def committed_since_def
      get_untracked_files_def printed_paths_def nul_paths_def unique_paths_def parse_name_status_records_def
      print_tokens_def nul_def moved_status_def fromkeys_def numeral_2_eq_2)

text \<open>A rename out of an unscoped place is a violation there.\<close>

theorem guard_passes_exactly_in_scope_witness:
  "\<not> gr_ok (enforce_allowed_paths demo_guard) \<and> set (gr_violations (enforce_allowed_paths demo_guard)) = {''b.py''}"
proof -
  have scope: "in_scope demo_guard ''src/a.py''" "\<not> in_scope demo_guard ''b.py''" "in_scope demo_guard ''src/b.py''"
      "in_scope demo_guard ''notes.md''"
    by (simp_all add: in_scope_def demo_guard_def path_is_allowed_def entry_allows_def startswith_def endswith_def
        suffix_def)
  have "\<not> gd_interactive demo_guard" "gd_allowed demo_guard \<noteq> []" "gd_is_repo demo_guard"
    by (simp_all add: demo_guard_def)
  then show ?thesis
    using guard_passes_exactly_in_scope [of demo_guard] scope by (auto simp: demo_guard_changed)
qed

text \<open>whatever a person answers, the guard touches nothing under kstrl's state directory and nothing
  that is in scope, and it passes with an answer only if every violation was reverted or the person
  chose to continue with them.\<close>

theorem guard_reverts_only_violations:
  "(\<forall>(f, a) \<in> set (gr_reverted (enforce_allowed_paths g)). \<not> within_state_dir f \<and> \<not> in_scope g f) \<and>
   (\<not> gr_ok (enforce_allowed_paths g) \<or>
    fst ` set (gr_reverted (enforce_allowed_paths g)) \<union> set (gr_violations (enforce_allowed_paths g)) =
      (if gd_allowed g = [] \<or> \<not> gd_is_repo g then {}
       else case guard_changed g of Inl _ \<Rightarrow> {} | Inr changed \<Rightarrow> {f \<in> set changed. \<not> in_scope g f}))"
proof (cases "gd_allowed g = [] \<or> \<not> gd_is_repo g")
  case True
  then show ?thesis by (auto simp: enforce_allowed_paths_def guard_passes_def)
next
  case False
  show ?thesis
  proof (cases "guard_changed g")
    case (Inl e)
    then show ?thesis using False by (simp add: enforce_allowed_paths_def guard_passes_def)
  next
    case (Inr changed)
    define vs where "vs = check_violations changed (gd_allowed g) (gd_ignored g)"
    have set_vs: "set vs = {f \<in> set changed. \<not> in_scope g f}"
      using False by (auto simp: vs_def check_violations_set in_scope_def)
    let ?rv = "revert_violations (gd_restores g) (gd_tracked g) (gd_baseline g) vs"
    have some: "revert_violation rs tr b f = None \<longleftrightarrow> within_state_dir f" for rs tr b f
      by (auto simp: revert_violation_def split: option.splits)
    have reverted: "set (fst ?rv) =
        {(f, a). f \<in> set vs \<and> revert_violation (gd_restores g) (gd_tracked g) (gd_baseline g) f = Some a}"
      by (auto simp: revert_violations_def split: option.splits)
    then have acts: "\<forall>(f, a)\<in>set (fst ?rv). \<not> within_state_dir f \<and> f \<in> set vs"
      using some by (metis (mono_tags, lifting) case_prodI2 mem_Collect_eq case_prodD option.distinct(1))
    have refused: "snd ?rv = filter within_state_dir vs" by (simp add: revert_violations_def some)
    have "f \<in> fst ` set (fst ?rv)" if mem: "f \<in> set vs" and out: "\<not> within_state_dir f" for f
    proof -
      obtain a where "revert_violation (gd_restores g) (gd_tracked g) (gd_baseline g) f = Some a"
        using some [of "gd_restores g" "gd_tracked g" "gd_baseline g" f] out by blast
      then have "(f, a) \<in> set (fst ?rv)" using mem reverted by simp
      then show ?thesis by (metis fst_conv imageI)
    qed
    then have covered: "fst ` set (fst ?rv) \<union> set (snd ?rv) = set vs"
      using acts refused by auto
    consider "vs = []" | "vs \<noteq> []" "\<not> gd_interactive g \<or> \<not> gd_can_prompt g"
      | "vs \<noteq> []" "gd_interactive g" "gd_can_prompt g" "gd_choice g = Some 1"
      | "vs \<noteq> []" "gd_interactive g" "gd_can_prompt g" "gd_choice g \<noteq> Some 1" by blast
    then show ?thesis
    proof cases
      case 3
      then have result: "enforce_allowed_paths g = \<lparr>gr_ok = snd ?rv = [], gr_violations = snd ?rv, gr_reverted = fst ?rv\<rparr>"
        using False Inr by (simp add: enforce_allowed_paths_def Let_def case_prod_unfold flip: vs_def)
      show ?thesis
        using acts covered set_vs False Inr by (auto simp: result)
    qed (use False Inr set_vs in \<open>auto simp: enforce_allowed_paths_def Let_def guard_passes_def simp flip: vs_def\<close>)
  qed
qed

definition demo_prompted :: guard_inputs where
  "demo_prompted = demo_guard\<lparr>gd_interactive := True, gd_can_prompt := True, gd_choice := Some 1\<rparr>"

lemma demo_prompted_fields:
  "gd_allowed demo_prompted = [''src/'']" "gd_is_repo demo_prompted" "gd_interactive demo_prompted"
  "gd_can_prompt demo_prompted" "gd_choice demo_prompted = Some 1" "gd_ignored demo_prompted = [''notes.md'']"
  by (simp_all add: demo_prompted_def demo_guard_def)

lemma demo_prompted_changed:
  "guard_changed demo_prompted = Inr [''src/a.py'', ''b.py'', ''src/b.py'', ''notes.md'']"
  using demo_guard_changed by (simp add: guard_changed_def demo_prompted_def demo_guard_def)

lemma demo_prompted_scope:
  "in_scope demo_prompted ''src/a.py''" "\<not> in_scope demo_prompted ''b.py''" "in_scope demo_prompted ''src/b.py''"
  "in_scope demo_prompted ''notes.md''"
  by (simp_all add: in_scope_def demo_prompted_fields path_is_allowed_def entry_allows_def startswith_def
      endswith_def suffix_def)

lemma demo_prompted_out:
  "{f \<in> set [''src/a.py'', ''b.py'', ''src/b.py'', ''notes.md'']. \<not> in_scope demo_prompted f} = {''b.py''}"
  unfolding set_filter [symmetric] by (simp add: demo_prompted_scope)

lemma violations_out_of_scope:
  "gd_allowed g \<noteq> [] \<Longrightarrow>
     set (check_violations changed (gd_allowed g) (gd_ignored g)) = {f \<in> set changed. \<not> in_scope g f}"
  by (simp add: check_violations_set in_scope_def)

lemma demo_prompted_ok: "gr_ok (enforce_allowed_paths demo_prompted)"
proof -
  have nonempty: "gd_allowed demo_prompted \<noteq> []" by (simp add: demo_prompted_fields)
  obtain changed where changed: "guard_changed demo_prompted = Inr changed"
      "{f \<in> set changed. \<not> in_scope demo_prompted f} = {''b.py''}"
    using demo_prompted_changed demo_prompted_out by blast
  define vs where "vs = check_violations changed (gd_allowed demo_prompted) (gd_ignored demo_prompted)"
  have vs: "set vs = {''b.py''}"
    using violations_out_of_scope [OF nonempty, of changed] changed(2) by (simp add: vs_def)
  then have "vs \<noteq> []" by (metis empty_not_insert set_empty)
  moreover have "\<not> within_state_dir ''b.py''" by (simp add: within_state_dir_def state_dir_name_def startswith_def)
  then have "revert_violation rs tr b ''b.py'' \<noteq> None" for rs tr b
    by (simp add: revert_violation_def split: option.splits)
  then have "snd (revert_violations rs tr b vs) = []" for rs tr b
    by (simp add: revert_violations_def filter_empty_conv vs)
  ultimately show ?thesis
    using nonempty
    by (simp add: enforce_allowed_paths_def demo_prompted_fields(2-5) changed(1) Let_def case_prod_unfold
        flip: vs_def)
qed

theorem guard_reverts_only_violations_witness:
  "fst ` set (gr_reverted (enforce_allowed_paths demo_prompted)) \<union>
   set (gr_violations (enforce_allowed_paths demo_prompted)) = {''b.py''}"
  using guard_reverts_only_violations [of demo_prompted] demo_prompted_ok demo_prompted_out
  by (simp add: demo_prompted_fields demo_prompted_changed)

section \<open>kstrl's own state\<close>

lemma carve_out_entries:
  "entry \<in> set (state_dir_carve_out same) \<Longrightarrow>
   \<exists>n. n \<notin> set state_not_carved \<and>
     (n \<in> set state_subdirs \<and> entry = state_dir_name @ ''/'' @ n @ ''/'' \<or>
      n \<in> set state_files \<and> entry = state_dir_name @ ''/'' @ n)"
  by (auto simp: state_dir_carve_out_def Let_def split: if_splits)

lemma state_names_plain:
  "n \<in> set state_subdirs \<union> set state_files \<Longrightarrow> CHR ''/'' \<notin> set n \<and> n \<noteq> []"
  by (auto simp: state_subdirs_def state_files_def control_autonomy_def control_inbox_def)

lemma file_entry: "n \<in> set state_files \<Longrightarrow> \<not> endswith (state_dir_name @ ''/'' @ n) ''/''"
  using state_names_plain [of n] by (cases n rule: rev_cases) (auto simp: endswith_def suffix_def)

lemma carve_out_covers:
  "\<not> path_is_allowed p (state_dir_carve_out same) \<or>
   (\<exists>n rest. path_segments p = state_dir_name # n # rest \<and> n \<notin> set state_not_carved \<and>
      (n \<in> set state_subdirs \<or> n \<in> set state_files \<and> rest = []))"
proof (rule disjCI)
  assume "\<not> (\<exists>n rest. path_segments p = state_dir_name # n # rest \<and> n \<notin> set state_not_carved \<and>
      (n \<in> set state_subdirs \<or> n \<in> set state_files \<and> rest = []))"
  then have none: "path_segments p \<noteq> state_dir_name # n # rest \<or> n \<in> set state_not_carved \<or>
      n \<notin> set state_subdirs \<and> (n \<notin> set state_files \<or> rest \<noteq> [])" for n rest
    by blast
  have dir: "path_segments (state_dir_name @ ''/'' @ n @ CHR ''/'' # r) = state_dir_name # n # path_segments r"
    if "CHR ''/'' \<notin> set n" for n r
    using segments_slash [of state_dir_name "n @ CHR ''/'' # r"] segments_slash [of n r] that
    by (simp add: segments_plain state_dir_name_def)
  have leaf: "path_segments (state_dir_name @ ''/'' @ n) = [state_dir_name, n]" if "CHR ''/'' \<notin> set n" for n
    using segments_slash [of state_dir_name n] that by (simp add: segments_plain state_dir_name_def)
  show "\<not> path_is_allowed p (state_dir_carve_out same)"
  proof
    assume "path_is_allowed p (state_dir_carve_out same)"
    then obtain entry where entry: "entry \<in> set (state_dir_carve_out same)" "entry_allows p entry"
      by (auto simp: path_is_allowed_def list_ex_iff)
    obtain n where n: "n \<notin> set state_not_carved"
        "n \<in> set state_subdirs \<and> entry = state_dir_name @ ''/'' @ n @ ''/'' \<or>
         n \<in> set state_files \<and> entry = state_dir_name @ ''/'' @ n"
      using carve_out_entries [OF entry(1)] by blast
    have plain: "CHR ''/'' \<notin> set n" using n(2) state_names_plain [of n] by blast
    from n(2) show False
    proof
      assume sub: "n \<in> set state_subdirs \<and> entry = state_dir_name @ ''/'' @ n @ ''/''"
      then have "endswith entry ''/''" by (auto simp: endswith_def suffix_def)
      then have "startswith p entry \<or> p @ ''/'' = entry" using entry(2) by (simp add: entry_allows_def)
      then show False
      proof
        assume "startswith p entry"
        then obtain r where "p = state_dir_name @ ''/'' @ n @ CHR ''/'' # r"
          using sub by (auto simp: startswith_def prefix_def)
        then show False using dir [OF plain, of r] none n(1) sub by metis
      next
        assume "p @ ''/'' = entry"
        then have "p = state_dir_name @ ''/'' @ n" using sub by simp
        then show False using leaf [OF plain] none n(1) sub by metis
      qed
    next
      assume leaf_entry: "n \<in> set state_files \<and> entry = state_dir_name @ ''/'' @ n"
      then have "p = state_dir_name @ ''/'' @ n"
        using entry(2) file_entry [of n] by (simp add: entry_allows_def)
      then show False using leaf [OF plain] none n(1) leaf_entry by metis
    qed
  qed
qed

text \<open>kstrl's carve-out hides from the guard only paths of its own state directory, under a name kstrl
  writes, and never one that carries authority: the autonomy level, the inbox, the queue, the plan,
  the integration state and the proposals stay counted, wherever the state root is.\<close>

theorem carve_out_keeps_authority:
  "{p. path_is_allowed p (state_dir_carve_out same)} \<subseteq>
     {p. \<exists>n rest. path_segments p = state_dir_name # n # rest \<and> n \<notin> set state_not_carved \<and>
         (n \<in> set state_subdirs \<or> n \<in> set state_files \<and> rest = [])}"
  using carve_out_covers by blast

section \<open>The scope of a component\<close>

lemma resolve_scopes_get:
  "dict_get (resolve_scopes resolve cs scopes) k =
     (case find (\<lambda>c. c_id c = k) (rev cs) of Some c \<Rightarrow> Some (resolve c) | None \<Rightarrow> dict_get scopes k)"
proof (induction cs arbitrary: scopes)
  case Nil
  then show ?case by simp
next
  case (Cons c cs)
  have find_snoc: "find P (xs @ [x]) = (case find P xs of Some y \<Rightarrow> Some y | None \<Rightarrow> if P x then Some x else None)"
    for P xs and x :: component
    by (induction xs) simp_all
  show ?case
    using Cons.IH [of "dict_set scopes (c_id c) (resolve c)"]
    by (simp add: find_snoc dict_simps split: option.splits)
qed

lemma scope_of_component:
  assumes "distinct (map c_id (m_components m))" and "c \<in> set (m_components m)"
  shows "scope_for_component (resolve_run_scope files harness run_allowed m) (c_id c) =
           resolve_component_scope files harness run_allowed c"
proof -
  have "find (\<lambda>x. c_id x = c_id c) (rev (m_components m)) = Some c"
  proof -
    obtain x where x: "find (\<lambda>x. c_id x = c_id c) (rev (m_components m)) = Some x"
      using assms(2) by (cases "find (\<lambda>x. c_id x = c_id c) (rev (m_components m))") (auto simp: find_None_iff)
    then have "x \<in> set (m_components m)" "c_id x = c_id c" using find_SomeD [OF x] by simp_all
    then have "x = c" using assms by (auto simp: distinct_map dest: inj_onD)
    then show ?thesis using x by simp
  qed
  then show ?thesis by (simp add: scope_for_component_def resolve_run_scope_def resolve_scopes_get)
qed

text \<open>C29: the scope a component is held to is its own authored list where the copy of its requirements
  from before the run has one, the run-wide list only where that copy loads and has none, and no
  list at all but an error where the copy cannot be read or is invalid.\<close>

theorem scope_never_widened:
  assumes "distinct (map c_id (m_components m))" and "c \<in> set (m_components m)"
  shows "let s = scope_for_component (resolve_run_scope files harness run_allowed m) (c_id c)
         in case read_prd (pre_run_prd_path c) (files (pre_run_prd_path c)) of
              Inl e \<Rightarrow> \<not> is_trustworthy s \<and> sp_allowed s = None
            | Inr p \<Rightarrow> is_trustworthy s \<and>
                sp_allowed s = (case authored_paths p of Some ps \<Rightarrow> Some ps
                                | None \<Rightarrow> if run_allowed = [] then None else Some run_allowed)"
  unfolding scope_of_component [OF assms] Let_def
  by (auto simp: resolve_component_scope_def Let_def is_trustworthy_def split: sum.splits option.splits)

definition unread_plan :: manifest where
  "unread_plan =
     \<lparr>m_version = ''1'', m_spec_file = [], m_project_name = ''p'', m_base_branch = ''main'', m_single_pr = False,
      m_components = [single_component ''p'' ''prd.json'' ''kstrl/p''], m_run_id = [], m_completed_at = [],
      m_linear_project_id = JStr [], m_linear_sync_key = JStr [], m_policy_hash = [], m_kstrl_version = [],
      m_feature_base_sha = [], m_plan_awaiting_approval = [], m_spec_path = [], m_spec_digest = [],
      m_stack_digest = JStr [], m_acceptance_digest = JStr []\<rparr>"

text \<open>A component whose requirements are missing gets no scope, though the run has one.\<close>

theorem scope_never_widened_witness:
  "\<not> is_trustworthy (scope_for_component (resolve_run_scope (\<lambda>_. File_Missing) (\<lambda>_. []) [''src/''] unread_plan) ''main'')"
proof -
  have "distinct (map c_id (m_components unread_plan))"
      "single_component ''p'' ''prd.json'' ''kstrl/p'' \<in> set (m_components unread_plan)"
    by (simp_all add: unread_plan_def)
  from scope_never_widened [OF this, of "\<lambda>_. File_Missing" "\<lambda>_. []" "[''src/'']"]
  show ?thesis by (simp add: read_prd_def single_component_def Let_def)
qed

lemma preflight_scopes_Nil:
  "preflight_scopes scopes seen cs = [] \<longleftrightarrow>
     (\<forall>c\<in>set cs. c_status c = PENDING \<longrightarrow>
        sp_error (scope_for_component scopes (c_id c)) = None \<and>
        (\<forall>ps. sp_allowed (scope_for_component scopes (c_id c)) = Some ps \<longrightarrow> ps \<in> set seen \<or>
           (\<forall>e\<in>set ps. scope_entry_hazard e = None)))"
proof (induction cs arbitrary: seen)
  case Nil
  then show ?case by simp
next
  case (Cons c cs)
  have clean: "authored_scope_errors cid ps = [] \<longleftrightarrow> (\<forall>e\<in>set ps. scope_entry_hazard e = None)" for cid ps
    by (auto simp: authored_scope_errors_def split: option.splits)
  show ?case
    by (cases "c_status c = PENDING"; cases "sp_error (scope_for_component scopes (c_id c))";
        cases "sp_allowed (scope_for_component scopes (c_id c))")
      (auto simp: Let_def Cons.IH clean)
qed

text \<open>the check before any spend accepts a plan exactly if every pending component has a scope that
  could be established and no entry of it is one that authorises nothing; examining each list once
  hides no error.\<close>

theorem preflight_scope_exact:
  "preflight_component_scope m scopes = [] \<longleftrightarrow>
     list_all (\<lambda>c.
        is_trustworthy (scope_for_component scopes (c_id c)) \<and>
        (case sp_allowed (scope_for_component scopes (c_id c)) of
           None \<Rightarrow> True | Some ps \<Rightarrow> list_all (\<lambda>e. scope_entry_hazard e = None) ps))
      (filter (\<lambda>c. c_status c = PENDING) (m_components m))"
  by (auto simp: preflight_component_scope_def preflight_scopes_Nil list_all_iff is_trustworthy_def split: option.splits)

end
