(* ===== verification/Usage.thy ===== *)
theory Usage
  imports Prelude
begin

text \<open>
  \<open>kstrl/events/usage.py\<close>: the records an agent leaves, their totals, and the coverage of a run-level
  ceiling. A record is a foreign object whose attributes may be missing, of any type, or raise when
  they are read; an attribute that is missing reads as \<open>None\<close>. Costs and seconds are rationals.
\<close>

section \<open>Records\<close>

text \<open>\<open>getattr(record, name, None)\<close>: a value, or an exception other than \<open>AttributeError\<close>.\<close>

datatype attr = Attr_Raises | Attr json

record usage_record =
  ur_input :: attr
  ur_output :: attr
  ur_cache_read :: attr
  ur_cache_creation :: attr
  ur_total :: attr
  ur_cost :: attr
  ur_duration :: attr
  ur_source :: attr

text \<open>An agent has no \<open>usage_records\<close>, a value that cannot be listed, or a list.\<close>

datatype agent_records = No_Records | Records_Raise | Records "usage_record list"

fun as_int :: "json \<Rightarrow> int option" where
  "as_int (JInt n) = (if n \<ge> 0 then Some n else None)"
| "as_int _ = None"

fun as_float :: "json \<Rightarrow> rat option" where
  "as_float (JInt n) = (if n \<ge> 0 then Some (of_int n) else None)"
| "as_float (JFloat q) = (if q \<ge> 0 then Some q else None)"
| "as_float _ = None"

section \<open>Totals\<close>

record usage_totals =
  ut_calls :: int
  ut_known_calls :: int
  ut_token_calls :: int
  ut_cost_calls :: int
  ut_input :: int
  ut_output :: int
  ut_cache_read :: int
  ut_cache_creation :: int
  ut_total :: int
  ut_cost :: rat
  ut_duration :: rat

definition no_usage :: usage_totals where
  "no_usage =
     \<lparr>ut_calls = 0, ut_known_calls = 0, ut_token_calls = 0, ut_cost_calls = 0, ut_input = 0, ut_output = 0,
      ut_cache_read = 0, ut_cache_creation = 0, ut_total = 0, ut_cost = 0, ut_duration = 0\<rparr>"

definition unreported_calls :: "usage_totals \<Rightarrow> int" where
  "unreported_calls t = ut_calls t - ut_known_calls t"

definition tokenless_calls :: "usage_totals \<Rightarrow> int" where
  "tokenless_calls t = ut_calls t - ut_token_calls t"

definition costless_calls :: "usage_totals \<Rightarrow> int" where
  "costless_calls t = ut_calls t - ut_cost_calls t"

text \<open>A read that raises leaves the totals as they are at that point: \<open>Inl\<close> holds them.\<close>

definition read_int :: "usage_totals \<Rightarrow> attr \<Rightarrow> usage_totals + int option" where
  "read_int t a = (case a of Attr_Raises \<Rightarrow> Inl t | Attr v \<Rightarrow> Inr (as_int v))"

definition read_float :: "usage_totals \<Rightarrow> attr \<Rightarrow> usage_totals + rat option" where
  "read_float t a = (case a of Attr_Raises \<Rightarrow> Inl t | Attr v \<Rightarrow> Inr (as_float v))"

type_synonym token_part = "(usage_record \<Rightarrow> attr) \<times> (int \<Rightarrow> usage_totals \<Rightarrow> usage_totals)"

definition token_fields :: "token_part list" where
  "token_fields =
     [(ur_input, \<lambda>v t. t\<lparr>ut_input := ut_input t + v\<rparr>),
      (ur_output, \<lambda>v t. t\<lparr>ut_output := ut_output t + v\<rparr>),
      (ur_cache_read, \<lambda>v t. t\<lparr>ut_cache_read := ut_cache_read t + v\<rparr>),
      (ur_cache_creation, \<lambda>v t. t\<lparr>ut_cache_creation := ut_cache_creation t + v\<rparr>)]"

fun add_parts ::
    "token_part list \<Rightarrow> usage_record \<Rightarrow> usage_totals \<Rightarrow> int \<Rightarrow> bool \<Rightarrow> usage_totals + usage_totals \<times> int \<times> bool" where
  "add_parts [] r t part_sum seen = Inr (t, part_sum, seen)"
| "add_parts ((get, add) # parts) r t part_sum seen =
     and_then (read_int t (get r)) (\<lambda>value.
       case value of
         None \<Rightarrow> add_parts parts r t part_sum seen
       | Some v \<Rightarrow> add_parts parts r (add v t) (part_sum + v) True)"

definition bump :: "bool \<Rightarrow> int \<Rightarrow> int" where
  "bump b n = (if b then n + 1 else n)"

definition add_record :: "usage_totals \<Rightarrow> usage_record \<Rightarrow> usage_totals + usage_totals" where
  "add_record t r =
     and_then (add_parts token_fields r (t\<lparr>ut_calls := ut_calls t + 1\<rparr>) 0 False) (\<lambda>(t1, part_sum, parts_seen).
     and_then (read_int t1 (ur_total r)) (\<lambda>reported.
       let t2 = t1\<lparr>ut_total := ut_total t1 +
                   (case reported of Some n \<Rightarrow> n | None \<Rightarrow> if parts_seen then part_sum else 0)\<rparr>;
           token_known = (parts_seen \<or> reported \<noteq> None)
       in and_then (read_float t2 (ur_cost r)) (\<lambda>cost.
          let t3 = t2\<lparr>ut_cost := ut_cost t2 + (case cost of Some c \<Rightarrow> c | None \<Rightarrow> 0)\<rparr>
          in and_then (read_float t3 (ur_duration r)) (\<lambda>duration.
             let t4 = t3\<lparr>ut_duration := ut_duration t3 + (case duration of Some d \<Rightarrow> d | None \<Rightarrow> 0)\<rparr>
             in Inr (t4\<lparr>ut_known_calls := bump (token_known \<or> cost \<noteq> None) (ut_known_calls t4),
                        ut_token_calls := bump token_known (ut_token_calls t4),
                        ut_cost_calls := bump (cost \<noteq> None) (ut_cost_calls t4)\<rparr>)))))"

definition merge_usage :: "usage_totals \<Rightarrow> usage_totals \<Rightarrow> usage_totals" where
  "merge_usage a b =
     \<lparr>ut_calls = ut_calls a + ut_calls b, ut_known_calls = ut_known_calls a + ut_known_calls b,
      ut_token_calls = ut_token_calls a + ut_token_calls b, ut_cost_calls = ut_cost_calls a + ut_cost_calls b,
      ut_input = ut_input a + ut_input b, ut_output = ut_output a + ut_output b,
      ut_cache_read = ut_cache_read a + ut_cache_read b,
      ut_cache_creation = ut_cache_creation a + ut_cache_creation b,
      ut_total = ut_total a + ut_total b, ut_cost = ut_cost a + ut_cost b,
      ut_duration = ut_duration a + ut_duration b\<rparr>"

text \<open>\<open>rounded n q\<close> is Python's \<open>round(q, n)\<close>.\<close>

definition usage_to_dict :: "(nat \<Rightarrow> rat \<Rightarrow> rat) \<Rightarrow> usage_totals \<Rightarrow> json_object" where
  "usage_to_dict rounded t =
     [(''calls'', JInt (ut_calls t)), (''known_calls'', JInt (ut_known_calls t)),
      (''token_calls'', JInt (ut_token_calls t)), (''cost_calls'', JInt (ut_cost_calls t)),
      (''unreported_calls'', JInt (unreported_calls t)), (''input_tokens'', JInt (ut_input t)),
      (''output_tokens'', JInt (ut_output t)), (''cache_read_tokens'', JInt (ut_cache_read t)),
      (''cache_creation_tokens'', JInt (ut_cache_creation t)), (''total_tokens'', JInt (ut_total t)),
      (''cost_usd'', JFloat (rounded 6 (ut_cost t))), (''duration_seconds'', JFloat (rounded 2 (ut_duration t)))]"

section \<open>Reading an agent\<close>

text \<open>The walk stops at the first record that raises and keeps what it has.\<close>

fun add_records :: "usage_totals \<Rightarrow> usage_record list \<Rightarrow> usage_totals" where
  "add_records t [] = t"
| "add_records t (r # rs) = (case add_record t r of Inl partial \<Rightarrow> partial | Inr t' \<Rightarrow> add_records t' rs)"

definition collect_usage :: "agent_records \<Rightarrow> nat \<Rightarrow> usage_totals" where
  "collect_usage agent since =
     (case agent of Records rs \<Rightarrow> add_records no_usage (drop since rs) | _ \<Rightarrow> no_usage)"

definition usage_cursor :: "agent_records \<Rightarrow> nat" where
  "usage_cursor agent = (case agent of Records rs \<Rightarrow> length rs | _ \<Rightarrow> 0)"

text \<open>\<open>any\<close> stops at the first record that was killed; \<open>None\<close> is a read that raises.\<close>

fun any_timed_out :: "usage_record list \<Rightarrow> bool option" where
  "any_timed_out [] = Some False"
| "any_timed_out (r # rs) =
     (case ur_source r of
        Attr_Raises \<Rightarrow> None
      | Attr v \<Rightarrow> (if v = JStr ''timeout'' then Some True else any_timed_out rs))"

definition timed_out_since :: "agent_records \<Rightarrow> nat \<Rightarrow> bool option" where
  "timed_out_since agent since =
     (case agent of
        No_Records \<Rightarrow> Some False | Records_Raise \<Rightarrow> None | Records rs \<Rightarrow> any_timed_out (drop since rs))"

section \<open>Coverage of a ceiling\<close>

datatype usage_axis = Cost_Axis | Token_Axis | Other_Axis string

record role_coverage =
  rc_role :: string
  rc_calls :: int
  rc_covered :: int
  rc_tokens :: int

definition role_uncovered :: "role_coverage \<Rightarrow> int" where
  "role_uncovered c = max 0 (rc_calls c - rc_covered c)"

definition role_covered :: "role_coverage \<Rightarrow> bool" where
  "role_covered c = (role_uncovered c = 0)"

definition role_silent :: "role_coverage \<Rightarrow> bool" where
  "role_silent c = (rc_calls c > 0 \<and> rc_covered c = 0)"

record ceiling_coverage =
  cv_axis :: usage_axis
  cv_calls :: int
  cv_covered :: int
  cv_uncovered_tokens :: int
  cv_roles :: "role_coverage list"
  cv_ceiling :: string

definition ceiling_uncovered :: "ceiling_coverage \<Rightarrow> int" where
  "ceiling_uncovered c = max 0 (cv_calls c - cv_covered c)"

definition uncovered_roles :: "ceiling_coverage \<Rightarrow> string list" where
  "uncovered_roles c = map rc_role (filter (\<lambda>r. \<not> role_covered r) (cv_roles c))"

definition coverage_complete :: "ceiling_coverage \<Rightarrow> bool" where
  "coverage_complete c = (cv_calls c > 0 \<and> ceiling_uncovered c = 0)"

definition coverage_partial :: "ceiling_coverage \<Rightarrow> bool" where
  "coverage_partial c = (cv_covered c > 0 \<and> ceiling_uncovered c > 0)"

definition role_coverage_dict :: "role_coverage \<Rightarrow> json" where
  "role_coverage_dict c =
     JObj [(''role'', JStr (rc_role c)), (''calls'', JInt (rc_calls c)), (''covered_calls'', JInt (rc_covered c)),
           (''uncovered_calls'', JInt (role_uncovered c)), (''total_tokens'', JInt (rc_tokens c))]"

definition axis_text :: "usage_axis \<Rightarrow> string" where
  "axis_text a = (case a of Cost_Axis \<Rightarrow> ''cost'' | Token_Axis \<Rightarrow> ''token'' | Other_Axis s \<Rightarrow> s)"

definition ceiling_coverage_dict :: "ceiling_coverage \<Rightarrow> json_object" where
  "ceiling_coverage_dict c =
     [(''ceiling'', JStr (cv_ceiling c)), (''axis'', JStr (axis_text (cv_axis c))), (''calls'', JInt (cv_calls c)),
      (''covered_calls'', JInt (cv_covered c)), (''uncovered_calls'', JInt (ceiling_uncovered c)),
      (''uncovered_tokens'', JInt (cv_uncovered_tokens c)),
      (''uncovered_roles'', JList (map JStr (uncovered_roles c))),
      (''roles'', JList (map role_coverage_dict (cv_roles c)))]"

definition axis_calls :: "usage_axis \<Rightarrow> usage_totals \<Rightarrow> int" where
  "axis_calls a t = (case a of Cost_Axis \<Rightarrow> ut_cost_calls t | Token_Axis \<Rightarrow> ut_token_calls t | Other_Axis _ \<Rightarrow> 0)"

text \<open>The meter \<open>{component: {phase: totals}}\<close>, folded by phase over all components.\<close>

type_synonym usage_meter = "(string, (string, usage_totals) dict) dict"

definition meter_entries :: "usage_meter \<Rightarrow> (string \<times> usage_totals) list" where
  "meter_entries m = concat (map snd m)"

fun by_role :: "(string, usage_totals) dict \<Rightarrow> (string \<times> usage_totals) list \<Rightarrow> (string, usage_totals) dict" where
  "by_role d [] = d"
| "by_role d ((phase, t) # es) =
     by_role (dict_set d phase (merge_usage (case dict_get d phase of Some u \<Rightarrow> u | None \<Rightarrow> no_usage) t)) es"

definition role_of :: "usage_axis \<Rightarrow> string \<times> usage_totals \<Rightarrow> role_coverage" where
  "role_of a e =
     \<lparr>rc_role = fst e, rc_calls = ut_calls (snd e), rc_covered = axis_calls a (snd e), rc_tokens = ut_total (snd e)\<rparr>"

definition usage_coverage :: "usage_meter \<Rightarrow> usage_axis \<Rightarrow> string \<Rightarrow> ceiling_coverage" where
  "usage_coverage m a ceiling_key =
     (let roles = map (role_of a) (sort_key fst (by_role [] (meter_entries m)))
      in \<lparr>cv_axis = a, cv_calls = sum_list (map rc_calls roles), cv_covered = sum_list (map rc_covered roles),
          cv_uncovered_tokens = sum_list (map rc_tokens (filter role_silent roles)),
          cv_roles = roles, cv_ceiling = ceiling_key\<rparr>)"

end
