(* ===== verification/Usage_Contract.thy ===== *)
theory Usage_Contract
  imports Usage "HOL-Library.Multiset"
begin

text \<open>
  What the meter promises: well-formed totals whatever the records are, totals of a part and the rest
  that add up to those of the whole, and a coverage that counts every call once.
\<close>

section \<open>Well-formed totals\<close>

text \<open>No count exceeds the calls, a known call has reported a token or a cost figure, and nothing is
  negative.\<close>

definition counts_wf :: "usage_totals \<Rightarrow> bool" where
  "counts_wf t =
     (0 \<le> ut_token_calls t \<and> ut_token_calls t \<le> ut_known_calls t \<and>
      0 \<le> ut_cost_calls t \<and> ut_cost_calls t \<le> ut_known_calls t \<and>
      ut_known_calls t \<le> ut_calls t \<and> ut_known_calls t \<le> ut_token_calls t + ut_cost_calls t)"

definition figures_wf :: "usage_totals \<Rightarrow> bool" where
  "figures_wf t =
     (0 \<le> ut_input t \<and> 0 \<le> ut_output t \<and> 0 \<le> ut_cache_read t \<and> 0 \<le> ut_cache_creation t \<and>
      0 \<le> ut_total t \<and> 0 \<le> ut_cost t \<and> 0 \<le> ut_duration t)"

definition usage_wf :: "usage_totals \<Rightarrow> bool" where
  "usage_wf t = (counts_wf t \<and> figures_wf t)"

named_theorems usage_simps

lemma read_int_cases [usage_simps]:
  "read_int t a = Inl e \<longleftrightarrow> a = Attr_Raises \<and> e = t"
  "read_int t a = Inr v \<longleftrightarrow> (\<exists>j. a = Attr j \<and> v = as_int j)"
  by (auto simp: read_int_def split: attr.splits)

lemma read_float_cases [usage_simps]:
  "read_float t a = Inl e \<longleftrightarrow> a = Attr_Raises \<and> e = t"
  "read_float t a = Inr v \<longleftrightarrow> (\<exists>j. a = Attr j \<and> v = as_float j)"
  by (auto simp: read_float_def split: attr.splits)

lemma as_int_nonneg: "as_int j = Some n \<Longrightarrow> 0 \<le> n"
  by (cases j) (auto split: if_splits)

lemma as_float_nonneg: "as_float j = Some q \<Longrightarrow> 0 \<le> q"
  by (cases j) (auto split: if_splits)

lemma no_usage_wf [simp]: "usage_wf no_usage"
  by (simp add: usage_wf_def counts_wf_def figures_wf_def no_usage_def)

text \<open>The four token fields keep a property that each of their updates keeps.\<close>

lemma add_parts_keeps:
  assumes "\<forall>(get, add)\<in>set parts. \<forall>v t. 0 \<le> v \<longrightarrow> P t \<longrightarrow> P (add v t)" and "P t" and "0 \<le> part_sum"
  shows "case add_parts parts r t part_sum seen of
           Inl t' \<Rightarrow> P t' | Inr (t', part_sum', _) \<Rightarrow> P t' \<and> 0 \<le> part_sum'"
  using assms
proof (induction parts r t part_sum seen rule: add_parts.induct)
  case (1 r t part_sum seen)
  then show ?case by simp
next
  case (2 get add parts r t part_sum seen)
  show ?case
  proof (cases "read_int t (get r)")
    case (Inl e)
    moreover have "e = t" using Inl by (simp add: usage_simps)
    ultimately show ?thesis using "2.prems"(2) by simp
  next
    case (Inr reading)
    have rest: "\<forall>(get, add)\<in>set parts. \<forall>v t. 0 \<le> v \<longrightarrow> P t \<longrightarrow> P (add v t)" using "2.prems"(1) by simp
    show ?thesis
    proof (cases reading)
      case None
      show ?thesis using "2.IH"(1) [OF rest "2.prems"(2,3)] Inr None by simp
    next
      case (Some v)
      then have v: "0 \<le> v" using Inr as_int_nonneg by (auto simp: usage_simps)
      then have "P (add v t)" "0 \<le> part_sum + v" using "2.prems" by simp_all
      then show ?thesis using "2.IH"(2) [OF rest] Inr Some by simp
    qed
  qed
qed

text \<open>No figure touches a count, and a non-negative figure keeps all figures non-negative.\<close>

definition same_counts :: "usage_totals \<Rightarrow> usage_totals \<Rightarrow> bool" where
  "same_counts a b =
     (ut_calls a = ut_calls b \<and> ut_known_calls a = ut_known_calls b \<and>
      ut_token_calls a = ut_token_calls b \<and> ut_cost_calls a = ut_cost_calls b)"

lemma figures_wf_adds:
  assumes "figures_wf t" and "0 \<le> i" and "0 \<le> q"
  shows "figures_wf (t\<lparr>ut_input := ut_input t + i\<rparr>)" "figures_wf (t\<lparr>ut_output := ut_output t + i\<rparr>)"
    "figures_wf (t\<lparr>ut_cache_read := ut_cache_read t + i\<rparr>)"
    "figures_wf (t\<lparr>ut_cache_creation := ut_cache_creation t + i\<rparr>)"
    "figures_wf (t\<lparr>ut_total := ut_total t + i\<rparr>)" "figures_wf (t\<lparr>ut_cost := ut_cost t + q\<rparr>)"
    "figures_wf (t\<lparr>ut_duration := ut_duration t + q\<rparr>)"
  using assms by (simp_all add: figures_wf_def)

lemma token_fields_keep:
  "\<forall>(get, add)\<in>set token_fields. \<forall>v t. 0 \<le> v \<longrightarrow> figures_wf t \<and> same_counts t c \<longrightarrow>
     figures_wf (add v t) \<and> same_counts (add v t) c"
  using figures_wf_adds [of _ _ 0] by (simp add: token_fields_def same_counts_def)

lemma counts_wf_same: "same_counts a b \<Longrightarrow> counts_wf a = counts_wf b"
  by (simp add: same_counts_def counts_wf_def)

lemma add_record_wf:
  assumes "usage_wf t"
  shows "case add_record t r of Inl t' \<Rightarrow> usage_wf t' | Inr t' \<Rightarrow> usage_wf t'"
proof -
  let ?t0 = "t\<lparr>ut_calls := ut_calls t + 1\<rparr>"
  have t0: "counts_wf ?t0" "figures_wf ?t0" using assms by (simp_all add: usage_wf_def counts_wf_def figures_wf_def)
  have counted: "counts_wf (a\<lparr>ut_known_calls := bump (p \<or> q) (ut_known_calls a), ut_token_calls := bump p (ut_token_calls a),
      ut_cost_calls := bump q (ut_cost_calls a)\<rparr>)" if "same_counts a ?t0" for a p q
    using that assms by (simp add: same_counts_def usage_wf_def counts_wf_def bump_def)
  have parts: "case add_parts token_fields r ?t0 0 False of
      Inl t' \<Rightarrow> figures_wf t' \<and> same_counts t' ?t0
    | Inr (t', part_sum', _) \<Rightarrow> (figures_wf t' \<and> same_counts t' ?t0) \<and> 0 \<le> part_sum'"
    by (rule add_parts_keeps [OF token_fields_keep]) (simp_all add: t0 same_counts_def)
  have partial: "usage_wf a" if "figures_wf a" "same_counts a ?t0" for a
    using that t0(1) counts_wf_same [of a ?t0] by (simp add: usage_wf_def)
  show ?thesis
  proof (cases "add_parts token_fields r ?t0 0 False")
    case (Inl e)
    then show ?thesis using parts partial by (simp add: add_record_def)
  next
    case (Inr res)
    obtain t1 part_sum seen where res: "res = (t1, part_sum, seen)" by (cases res)
    have t1: "figures_wf t1" "same_counts t1 ?t0" "0 \<le> part_sum" using parts Inr res by simp_all
    show ?thesis
    proof (cases "ur_total r")
      case Attr_Raises
      then show ?thesis using Inr res partial [OF t1(1,2)] by (simp add: add_record_def read_int_def)
    next
      case (Attr total_json)
      define n where "n = (case as_int total_json of Some n \<Rightarrow> n | None \<Rightarrow> if seen then part_sum else 0)"
      define t2 where "t2 = t1\<lparr>ut_total := ut_total t1 + n\<rparr>"
      have "0 \<le> n" using t1(3) as_int_nonneg [of total_json] by (simp add: n_def split: option.splits)
      then have t2: "figures_wf t2" "same_counts t2 ?t0"
        using t1 figures_wf_adds [of t1 n 0] by (simp_all add: t2_def same_counts_def)
      show ?thesis
      proof (cases "ur_cost r")
        case Attr_Raises
        then show ?thesis using Inr res Attr partial [OF t2]
          by (simp add: add_record_def read_int_def read_float_def Let_def flip: n_def t2_def)
      next
        case (Attr cost_json)
        define c where "c = (case as_float cost_json of Some c \<Rightarrow> c | None \<Rightarrow> 0)"
        define t3 where "t3 = t2\<lparr>ut_cost := ut_cost t2 + c\<rparr>"
        have t3_cost: "t2\<lparr>ut_cost := ut_cost t1 + c\<rparr> = t3" by (simp add: t3_def t2_def)
        have "0 \<le> c" using as_float_nonneg [of cost_json] by (simp add: c_def split: option.splits)
        then have t3: "figures_wf t3" "same_counts t3 ?t0"
          using t2 figures_wf_adds [of t2 0 c] by (simp_all add: t3_def same_counts_def)
        show ?thesis
        proof (cases "ur_duration r")
          case Attr_Raises
          then show ?thesis using Inr res \<open>ur_total r = Attr total_json\<close> Attr partial [OF t3]
            by (simp add: add_record_def read_int_def read_float_def Let_def t3_cost flip: n_def t2_def c_def)
        next
          case (Attr seconds_json)
          define d where "d = (case as_float seconds_json of Some d \<Rightarrow> d | None \<Rightarrow> 0)"
          define t4 where "t4 = t3\<lparr>ut_duration := ut_duration t3 + d\<rparr>"
          have "0 \<le> d" using as_float_nonneg [of seconds_json] by (simp add: d_def split: option.splits)
          then have t4: "figures_wf t4" "same_counts t4 ?t0"
            using t3 figures_wf_adds [of t3 0 d] by (simp_all add: t4_def same_counts_def)
          let ?token = "seen \<or> as_int total_json \<noteq> None" and ?cost = "as_float cost_json \<noteq> None"
          have "add_record t r = Inr (t4\<lparr>ut_known_calls := bump (?token \<or> ?cost) (ut_known_calls t4),
              ut_token_calls := bump ?token (ut_token_calls t4), ut_cost_calls := bump ?cost (ut_cost_calls t4)\<rparr>)"
            using Inr res \<open>ur_total r = Attr total_json\<close> \<open>ur_cost r = Attr cost_json\<close> Attr
            by (simp add: add_record_def read_int_def read_float_def Let_def n_def t2_def c_def t3_def d_def t4_def)
          then show ?thesis
            using counted [OF t4(2), where p = ?token and q = ?cost] t4(1) by (simp add: usage_wf_def figures_wf_def)
        qed
      qed
    qed
  qed
qed

lemma add_records_wf: "usage_wf t \<Longrightarrow> usage_wf (add_records t rs)"
proof (induction rs arbitrary: t)
  case Nil
  then show ?case by simp
next
  case (Cons r rs)
  then show ?case using add_record_wf [OF Cons.prems, of r] by (cases "add_record t r") simp_all
qed

text \<open>whatever an agent's records are, attributes that raise included, the totals are well formed: no
  count exceeds the calls, a known call reported a token or a cost figure, and no figure is
  negative.\<close>

theorem collect_usage_wf: "usage_wf (collect_usage agent since)"
  by (simp add: collect_usage_def add_records_wf split: agent_records.splits)

section \<open>Totals of a part and the rest\<close>

lemma merge_no_usage [simp]: "merge_usage t no_usage = t" "merge_usage no_usage t = t"
  by (simp_all add: merge_usage_def no_usage_def)

lemma merge_usage_assoc: "merge_usage (merge_usage a b) c = merge_usage a (merge_usage b c)"
  by (simp add: merge_usage_def)

text \<open>Folding a record into merged totals is merging after folding it, whether it raises or not.\<close>

lemma add_parts_merge:
  assumes "\<forall>(get, add)\<in>set parts. \<forall>v u. add v (merge_usage t u) = merge_usage t (add v u)"
  shows "add_parts parts r (merge_usage t u) part_sum seen =
           map_sum (merge_usage t) (map_prod (merge_usage t) id) (add_parts parts r u part_sum seen)"
  using assms
proof (induction parts r u part_sum seen rule: add_parts.induct)
  case (1 r u part_sum seen)
  then show ?case by simp
next
  case (2 get add parts r u part_sum seen)
  have rest: "\<forall>(get, add)\<in>set parts. \<forall>v u. add v (merge_usage t u) = merge_usage t (add v u)"
    and first: "add v (merge_usage t u) = merge_usage t (add v u)" for v
    using "2.prems" by auto
  show ?case
    using "2.IH"(1) [OF rest] "2.IH"(2) [OF rest]
    by (cases "get r") (simp_all add: read_int_def first split: option.splits)
qed

lemma token_fields_merge:
  "\<forall>(get, add)\<in>set token_fields. \<forall>v u. add v (merge_usage t u) = merge_usage t (add v u)"
  by (simp add: token_fields_def merge_usage_def)

lemma add_record_merge:
  "add_record (merge_usage t u) r = map_sum (merge_usage t) (merge_usage t) (add_record u r)"
proof -
  have "(merge_usage t u)\<lparr>ut_calls := ut_calls (merge_usage t u) + 1\<rparr> = merge_usage t (u\<lparr>ut_calls := ut_calls u + 1\<rparr>)"
    by (simp add: merge_usage_def)
  then have parts: "add_parts token_fields r ((merge_usage t u)\<lparr>ut_calls := ut_calls (merge_usage t u) + 1\<rparr>) 0 False =
      map_sum (merge_usage t) (map_prod (merge_usage t) id) (add_parts token_fields r (u\<lparr>ut_calls := ut_calls u + 1\<rparr>) 0 False)"
    by (simp only: add_parts_merge [OF token_fields_merge])
  show ?thesis
  proof (cases "add_parts token_fields r (u\<lparr>ut_calls := ut_calls u + 1\<rparr>) 0 False")
    case (Inl e)
    then show ?thesis by (simp add: add_record_def parts)
  next
    case (Inr res)
    obtain t1 part_sum seen where res: "res = (t1, part_sum, seen)" by (cases res)
    have merged: "add_parts token_fields r ((merge_usage t u)\<lparr>ut_calls := ut_calls (merge_usage t u) + 1\<rparr>) 0 False =
        Inr (merge_usage t t1, part_sum, seen)"
      by (simp add: parts Inr res)
    show ?thesis
      unfolding add_record_def merged Inr [unfolded res]
      by (cases "ur_total r"; cases "ur_cost r"; cases "ur_duration r")
        (simp_all only: and_then_simps prod.case read_int_def read_float_def attr.case Let_def map_sum.simps,
          simp_all add: merge_usage_def bump_def)
  qed
qed

lemma add_records_merge: "add_records (merge_usage t u) rs = merge_usage t (add_records u rs)"
proof (induction rs arbitrary: u)
  case Nil
  then show ?case by simp
next
  case (Cons r rs)
  then show ?case by (cases "add_record u r") (simp_all add: add_record_merge)
qed

text \<open>No attribute the meter reads raises.\<close>

definition readable :: "usage_record \<Rightarrow> bool" where
  "readable r =
     (Attr_Raises \<notin> {ur_input r, ur_output r, ur_cache_read r, ur_cache_creation r, ur_total r, ur_cost r, ur_duration r})"

lemma readable_adds: "readable r \<Longrightarrow> \<exists>t'. add_record t r = Inr t'"
proof -
  assume "readable r"
  then obtain a b c d e f g where r: "ur_input r = Attr a" "ur_output r = Attr b" "ur_cache_read r = Attr c"
      "ur_cache_creation r = Attr d" "ur_total r = Attr e" "ur_cost r = Attr f" "ur_duration r = Attr g"
    by (simp add: readable_def) (metis attr.exhaust)
  have "\<exists>res. add_parts token_fields r u 0 False = Inr res" for u
    by (simp add: token_fields_def read_int_def r split: option.splits) blast
  then obtain t1 part_sum seen where "add_parts token_fields r (t\<lparr>ut_calls := ut_calls t + 1\<rparr>) 0 False = Inr (t1, part_sum, seen)"
    by (metis prod_cases3)
  then show ?thesis by (simp add: add_record_def read_int_def read_float_def r Let_def)
qed

lemma add_records_append:
  "list_all readable rs \<Longrightarrow> add_records t (rs @ ss) = add_records (add_records t rs) ss"
proof (induction rs arbitrary: t)
  case Nil
  then show ?case by simp
next
  case (Cons r rs)
  obtain t' where "add_record t r = Inr t'" using readable_adds [of r t] Cons.prems by auto
  then show ?case using Cons by simp
qed

text \<open>the totals from a cursor on are those of what came after it, and where the records before it
  could be read, both parts merge to the totals of the whole: nothing is counted twice and nothing
  is moved between units of work.\<close>

theorem usage_since_cursor:
  assumes "list_all readable rs"
  shows "collect_usage (Records (rs @ ss)) 0 =
           merge_usage (collect_usage (Records rs) 0)
             (collect_usage (Records (rs @ ss)) (usage_cursor (Records rs)))"
proof -
  have "add_records (add_records no_usage rs) ss = merge_usage (add_records no_usage rs) (add_records no_usage ss)"
    using add_records_merge [of "add_records no_usage rs" no_usage ss] by simp
  then show ?thesis using assms by (simp add: collect_usage_def usage_cursor_def add_records_append)
qed

definition demo_record :: "int \<Rightarrow> usage_record" where
  "demo_record n =
     \<lparr>ur_input = Attr JNull, ur_output = Attr JNull, ur_cache_read = Attr JNull, ur_cache_creation = Attr JNull,
      ur_total = Attr (JInt n), ur_cost = Attr JNull, ur_duration = Attr (JFloat 2), ur_source = Attr (JStr ''codex'')\<rparr>"

theorem usage_since_cursor_witness:
  "ut_total (collect_usage (Records [demo_record 40, demo_record 2]) 0) = 42 \<and>
   ut_total (collect_usage (Records [demo_record 40, demo_record 2]) 1) = 2"
proof -
  have "readable (demo_record 40)" by (simp add: readable_def demo_record_def)
  then have "collect_usage (Records [demo_record 40, demo_record 2]) 0 =
      merge_usage (collect_usage (Records [demo_record 40]) 0) (collect_usage (Records [demo_record 40, demo_record 2]) 1)"
    using usage_since_cursor [of "[demo_record 40]" "[demo_record 2]"] by (simp add: usage_cursor_def)
  moreover have "ut_total (collect_usage (Records (rs @ [demo_record n])) (length rs)) = n" if "0 \<le> n" for rs n
    using that by (simp add: collect_usage_def add_record_def token_fields_def read_int_def read_float_def Let_def
        demo_record_def no_usage_def)
  from this [of 40 "[]"] this [of 2 "[demo_record 40]"]
  have "ut_total (collect_usage (Records [demo_record 40]) 0) = 40"
      "ut_total (collect_usage (Records [demo_record 40, demo_record 2]) 1) = 2" by simp_all
  ultimately show ?thesis by (simp add: merge_usage_def)
qed

section \<open>Coverage\<close>

lemma by_role_sum:
  fixes f :: "usage_totals \<Rightarrow> int"
  assumes add: "\<And>a b. f (merge_usage a b) = f a + f b" and none: "f no_usage = 0"
  shows "dict_ok d \<Longrightarrow> sum_list (map (f \<circ> snd) (by_role d es)) = sum_list (map (f \<circ> snd) d) + sum_list (map (f \<circ> snd) es)"
proof (induction d es rule: by_role.induct)
  case (1 d)
  then show ?case by simp
next
  case (2 d phase t es)
  have set: "sum_list (map (f \<circ> snd) (dict_set d k v)) =
      sum_list (map (f \<circ> snd) d) - (case dict_get d k of None \<Rightarrow> 0 | Some u \<Rightarrow> f u) + f v" if "dict_ok d" for d k v
    using that
    by (induction d) (auto simp: dict_set_def dict_get_def dict_ok_def map_of_eq_None_iff image_iff
        split: option.splits dest: map_of_SomeD)
  show ?case using 2 by (simp add: set [unfolded comp_def] comp_def add none split: option.splits)
qed

lemma by_role_ok: "dict_ok d \<Longrightarrow> dict_ok (by_role d es)"
  by (induction d es rule: by_role.induct) simp_all

lemma by_role_get:
  fixes f :: "usage_totals \<Rightarrow> int"
  assumes add: "\<And>a b. f (merge_usage a b) = f a + f b" and none: "f no_usage = 0"
  shows "case dict_get (by_role d es) k of
           Some u \<Rightarrow> f u = (case dict_get d k of Some v \<Rightarrow> f v | None \<Rightarrow> 0) +
                       sum_list (map (f \<circ> snd) (filter (\<lambda>e. fst e = k) es))
         | None \<Rightarrow> dict_get d k = None \<and> k \<notin> fst ` set es"
proof (induction d es rule: by_role.induct)
  case (1 d)
  then show ?case by (simp split: option.splits)
next
  case (2 d phase t es)
  then show ?case
    by (cases "dict_get d phase"; cases "k = phase") (simp_all add: dict_simps add none comp_def split: option.splits)
qed

lemma by_role_keys: "set (dict_keys (by_role d es)) = set (dict_keys d) \<union> fst ` set es"
proof (induction d es rule: by_role.induct)
  case (1 d)
  then show ?case by simp
next
  case (2 d phase t es)
  have "set (dict_keys (dict_set d k v)) = insert k (set (dict_keys d))" for k and v :: usage_totals
    by (simp add: dict_keys_def dict_set_def update_conv' flip: dom_map_of_conv_image_fst)
  then show ?case using 2 by simp
qed

definition usage_gap :: "usage_axis \<Rightarrow> usage_totals \<Rightarrow> int" where
  "usage_gap a t = ut_calls t - axis_calls a t"

lemma usage_gap_adds: "usage_gap a (merge_usage t u) = usage_gap a t + usage_gap a u" "usage_gap a no_usage = 0"
  by (simp_all add: usage_gap_def axis_calls_def merge_usage_def no_usage_def split: usage_axis.splits)

lemma usage_gap_nonneg: "usage_wf t \<Longrightarrow> 0 \<le> usage_gap a t"
  by (auto simp: usage_wf_def counts_wf_def usage_gap_def axis_calls_def split: usage_axis.splits)

lemma calls_adds: "ut_calls (merge_usage t u) = ut_calls t + ut_calls u" "ut_calls no_usage = 0"
  by (simp_all add: merge_usage_def no_usage_def)

lemma axis_calls_adds:
  "axis_calls a (merge_usage t u) = axis_calls a t + axis_calls a u" "axis_calls a no_usage = 0"
  by (simp_all add: axis_calls_def merge_usage_def no_usage_def split: usage_axis.splits)

lemma role_gap:
  assumes "list_all (usage_wf \<circ> snd) es" and "dict_get (by_role [] es) k = Some u"
  shows "axis_calls a u < ut_calls u \<longleftrightarrow> (\<exists>e\<in>set es. fst e = k \<and> axis_calls a (snd e) < ut_calls (snd e))"
proof -
  let ?gaps = "map (usage_gap a \<circ> snd) (filter (\<lambda>e. fst e = k) es)"
  have nonneg: "0 \<le> x" if "x \<in> set ?gaps" for x
    using that assms(1) usage_gap_nonneg by (auto simp: list_all_iff)
  have "usage_gap a u = sum_list ?gaps"
    using by_role_get [where f = "usage_gap a" and d = "[]" and es = es and k = k] assms(2) by (simp add: usage_gap_adds)
  moreover have "sum_list ?gaps = 0 \<longleftrightarrow> (\<forall>x\<in>set ?gaps. x = 0)"
    using sum_list_nonneg_eq_0_iff [of ?gaps] nonneg by blast
  moreover have "0 \<le> sum_list ?gaps" using nonneg by (intro sum_list_nonneg) blast
  ultimately have "usage_gap a u > 0 \<longleftrightarrow> (\<exists>x\<in>set ?gaps. x > 0)" using nonneg by force
  then show ?thesis by (force simp: usage_gap_def)
qed

lemma sum_roles:
  fixes f :: "role_coverage \<Rightarrow> int"
  assumes "dict_ok d"
  shows "sum_list (map f (map (role_of a) (sort_key fst d))) = sum_list (map (\<lambda>e. f (role_of a e)) d)"
proof -
  have sums: "sum_list (map g xs) = sum_mset (image_mset g (mset xs))" for g :: "string \<times> usage_totals \<Rightarrow> int" and xs
    by (simp flip: sum_mset_sum_list)
  show ?thesis unfolding map_map comp_def sums mset_sort ..
qed

text \<open>the coverage of a ceiling counts every metered call once: its calls and covered calls are the sums
  over all components and phases, it is complete exactly when there is a call and every call
  reported the figure, and the roles it names uncovered are exactly those with a call that did not.\<close>

theorem coverage_counts_every_call:
  assumes "list_all (usage_wf \<circ> snd) (meter_entries m)"
  shows "let c = usage_coverage m a k; es = meter_entries m
         in cv_calls c = sum_list (map (ut_calls \<circ> snd) es) \<and> cv_covered c = sum_list (map (axis_calls a \<circ> snd) es) \<and>
            (coverage_complete c \<longleftrightarrow>
               0 < sum_list (map (ut_calls \<circ> snd) es) \<and> list_all (\<lambda>e. axis_calls a (snd e) = ut_calls (snd e)) es) \<and>
            set (uncovered_roles c) = fst ` {e \<in> set es. axis_calls a (snd e) < ut_calls (snd e)}"
proof -
  let ?es = "meter_entries m" and ?c = "usage_coverage m a k"
  let ?roles = "by_role [] ?es"
  have ok: "dict_ok ?roles" by (rule by_role_ok) simp
  have calls: "cv_calls ?c = sum_list (map (ut_calls \<circ> snd) ?es)"
    using by_role_sum [of ut_calls "[]" ?es] sum_roles [OF ok, of rc_calls a]
    by (simp add: usage_coverage_def Let_def calls_adds role_of_def comp_def)
  have covered: "cv_covered ?c = sum_list (map (axis_calls a \<circ> snd) ?es)"
    using by_role_sum [of "axis_calls a" "[]" ?es] sum_roles [OF ok, of rc_covered a]
    by (simp add: usage_coverage_def Let_def axis_calls_adds role_of_def comp_def)
  let ?gaps = "map (usage_gap a \<circ> snd) ?es"
  have nonneg: "0 \<le> x" if "x \<in> set ?gaps" for x
    using that assms usage_gap_nonneg by (auto simp: list_all_iff)
  have "sum_list ?gaps = cv_calls ?c - cv_covered ?c"
    by (simp add: calls covered usage_gap_def comp_def sum_list_subtractf)
  moreover have "sum_list ?gaps = 0 \<longleftrightarrow> list_all (\<lambda>e. axis_calls a (snd e) = ut_calls (snd e)) ?es"
    using sum_list_nonneg_eq_0_iff [of ?gaps] nonneg by (auto simp: list_all_iff usage_gap_def)
  moreover have "0 \<le> sum_list ?gaps" using nonneg by (intro sum_list_nonneg) blast
  ultimately have complete: "coverage_complete ?c \<longleftrightarrow>
      0 < cv_calls ?c \<and> list_all (\<lambda>e. axis_calls a (snd e) = ut_calls (snd e)) ?es"
    by (auto simp: coverage_complete_def ceiling_uncovered_def)
  have "set (uncovered_roles ?c) = {p. \<exists>u. dict_get ?roles p = Some u \<and> axis_calls a u < ut_calls u}"
    by (simp add: uncovered_roles_def usage_coverage_def Let_def filter_map comp_def role_of_def role_covered_def
        role_uncovered_def dict_get_mem [OF ok]) force
  moreover have "(\<exists>u. dict_get ?roles p = Some u) \<longleftrightarrow> p \<in> fst ` set ?es" for p
    using by_role_keys [of "[]" ?es] dict_get_None_iff [of ?roles p] by (cases "dict_get ?roles p") (auto simp: dict_keys_def)
  ultimately have "set (uncovered_roles ?c) = fst ` {e \<in> set ?es. axis_calls a (snd e) < ut_calls (snd e)}"
    using role_gap [OF assms, of _ _ a] by (auto simp: image_iff) force+
  then show ?thesis using calls covered complete by (simp add: Let_def)
qed

definition demo_totals :: "int \<Rightarrow> int \<Rightarrow> usage_totals" where
  "demo_totals calls priced =
     no_usage\<lparr>ut_calls := calls, ut_known_calls := calls, ut_token_calls := calls, ut_cost_calls := priced,
       ut_total := 1000\<rparr>"

text \<open>An engineer that reports its costs and a reviewer that does not: the ceiling on cost bounds one role.\<close>

theorem coverage_counts_every_call_witness:
  "set (uncovered_roles
     (usage_coverage [(''a'', [(''engineer'', demo_totals 8 8), (''review'', demo_totals 5 0)])] Cost_Axis ''max_cost_usd'')) =
   {''review''}"
proof -
  let ?m = "[(''a'', [(''engineer'', demo_totals 8 8), (''review'', demo_totals 5 0)])]"
  have "list_all (usage_wf \<circ> snd) (meter_entries ?m)"
    by (simp add: meter_entries_def demo_totals_def usage_wf_def counts_wf_def figures_wf_def no_usage_def)
  from coverage_counts_every_call [OF this, of Cost_Axis "''max_cost_usd''"]
  have "set (uncovered_roles (usage_coverage ?m Cost_Axis ''max_cost_usd'')) =
      fst ` {e \<in> set (meter_entries ?m). axis_calls Cost_Axis (snd e) < ut_calls (snd e)}"
    by (simp only: Let_def)
  also have "{e \<in> set (meter_entries ?m). axis_calls Cost_Axis (snd e) < ut_calls (snd e)} =
      {(''review'', demo_totals 5 0)}"
    unfolding set_filter [symmetric] by (simp add: meter_entries_def axis_calls_def demo_totals_def no_usage_def)
  finally show ?thesis by simp
qed

end
