(* ===== verification/Loop_Budget.thy ===== *)
theory Loop_Budget
  imports Usage_Contract
begin

text \<open>
  The two limits the engineer loop carries besides its iterations: the run-level ceilings of
  \<open>kstrl/loop/loop_budget.py\<close> and the no-progress breaker of \<open>kstrl/loop/breaker.py\<close>. What git reports
  is an argument; a halt's prose is not modelled.
\<close>

section \<open>The ceilings\<close>

definition unenforceable_calls :: int where "unenforceable_calls = 2"

datatype halt_condition = Breached | Unenforceable

datatype ceiling_key = Max_Total_Tokens | Max_Cost_Usd

record budget_halt =
  bh_condition :: halt_condition
  bh_ceilings :: "ceiling_key list"

record loop_budget =
  lb_max_tokens :: int
  lb_prior_tokens :: int
  lb_prior_known_calls :: int
  lb_prior_calls :: int
  lb_prior_token_calls :: int
  lb_max_cost :: rat
  lb_prior_cost :: rat
  lb_prior_cost_calls :: int

definition token_enabled :: "loop_budget \<Rightarrow> bool" where
  "token_enabled b = (lb_max_tokens b > 0)"

definition cost_enabled :: "loop_budget \<Rightarrow> bool" where
  "cost_enabled b = (lb_max_cost b > 0)"

definition budget_enabled :: "loop_budget \<Rightarrow> bool" where
  "budget_enabled b = (token_enabled b \<or> cost_enabled b)"

definition tokens_dead :: "loop_budget \<Rightarrow> usage_totals \<Rightarrow> bool" where
  "tokens_dead b u =
     (ut_token_calls u = 0 \<and>
      max 0 (lb_prior_calls b - lb_prior_token_calls b) + tokenless_calls u \<ge> unenforceable_calls)"

definition cost_dead :: "loop_budget \<Rightarrow> usage_totals \<Rightarrow> bool" where
  "cost_dead b u =
     (ut_cost_calls u = 0 \<and>
      max 0 (lb_prior_calls b - lb_prior_cost_calls b) + costless_calls u \<ge> unenforceable_calls)"

definition halt_verdict :: "loop_budget \<Rightarrow> usage_totals \<Rightarrow> budget_halt option" where
  "halt_verdict b u =
     (if \<not> budget_enabled b then None
      else if token_enabled b \<and> lb_prior_tokens b + ut_total u \<ge> lb_max_tokens b
      then Some \<lparr>bh_condition = Breached, bh_ceilings = [Max_Total_Tokens]\<rparr>
      else if cost_enabled b \<and> lb_prior_cost b + ut_cost u \<ge> lb_max_cost b
      then Some \<lparr>bh_condition = Breached, bh_ceilings = [Max_Cost_Usd]\<rparr>
      else if ut_calls u = 0 then None
      else if token_enabled b \<and> \<not> tokens_dead b u then None
      else if cost_enabled b \<and> \<not> cost_dead b u then None
      else Some \<lparr>bh_condition = Unenforceable,
                 bh_ceilings = (if token_enabled b then [Max_Total_Tokens] else []) @
                               (if cost_enabled b then [Max_Cost_Usd] else [])\<rparr>)"

section \<open>The breaker\<close>

text \<open>\<open>compute_diff_hash\<close>: what is hashed, from what git and the file system answer. \<open>digest\<close> is SHA-256 of
  the pieces; an untracked file has a size and, if it can be read, a content.\<close>

definition max_hashed_untracked_files :: nat where "max_hashed_untracked_files = 500"

definition max_hashed_untracked_bytes :: nat where "max_hashed_untracked_bytes = 50 * 1024 * 1024"

definition no_progress_default :: int where "no_progress_default = 3"

record untracked_file =
  uf_size :: "nat option"
  uf_content :: "string option"

fun untracked_pieces :: "(string \<Rightarrow> untracked_file) \<Rightarrow> nat \<Rightarrow> nat \<Rightarrow> string list \<Rightarrow> string" where
  "untracked_pieces fs i hashed [] = []"
| "untracked_pieces fs i hashed (rel # rels) =
     CHR 0x00 # rel @
     (case uf_size (fs rel) of
        None \<Rightarrow> untracked_pieces fs (Suc i) hashed rels
      | Some n \<Rightarrow>
          (if i \<ge> max_hashed_untracked_files \<or> hashed + n > max_hashed_untracked_bytes
           then int_text (int n) @ untracked_pieces fs (Suc i) hashed rels
           else (case uf_content (fs rel) of
                   None \<Rightarrow> untracked_pieces fs (Suc i) hashed rels
                 | Some content \<Rightarrow> content @ untracked_pieces fs (Suc i) (hashed + n) rels)))"

text \<open>Each answer is \<open>None\<close> where git failed.\<close>

definition compute_diff_hash ::
    "(string \<Rightarrow> string) \<Rightarrow> (string \<Rightarrow> string list) \<Rightarrow> string option \<Rightarrow> string option \<Rightarrow> string option \<Rightarrow>
     (string \<Rightarrow> untracked_file) \<Rightarrow> string option" where
  "compute_diff_hash digest untracked status head tracked_diff fs =
     (case status of
        None \<Rightarrow> None
      | Some st \<Rightarrow>
          (let text = (\<lambda>h d. h @ [CHR 0x00] @ st @ [CHR 0x00] @ d @ untracked_pieces fs 0 0 (sort (untracked st)))
           in case head of
                None \<Rightarrow> Some (digest (text ''no-head'' []))
              | Some h \<Rightarrow> (case tracked_diff of None \<Rightarrow> None | Some d \<Rightarrow> Some (digest (text h d)))))"

record breaker =
  bk_limit :: int
  bk_stall :: int
  bk_prev :: "string option"

definition new_breaker :: "int \<Rightarrow> string option \<Rightarrow> breaker" where
  "new_breaker limit fingerprint =
     \<lparr>bk_limit = limit, bk_stall = 0, bk_prev = (if limit > 0 then fingerprint else None)\<rparr>"

definition breaker_enabled :: "breaker \<Rightarrow> bool" where
  "breaker_enabled k = (bk_limit k > 0 \<and> bk_prev k \<noteq> None)"

definition record_iteration :: "breaker \<Rightarrow> string option \<Rightarrow> bool \<times> breaker" where
  "record_iteration k fingerprint =
     (if \<not> breaker_enabled k then (False, k)
      else if fingerprint = None then (False, k\<lparr>bk_stall := 0\<rparr>)
      else if fingerprint \<noteq> bk_prev k then (False, k\<lparr>bk_prev := fingerprint, bk_stall := 0\<rparr>)
      else (bk_stall k + 1 \<ge> bk_limit k, k\<lparr>bk_stall := bk_stall k + 1\<rparr>))"

section \<open>What they promise\<close>

definition token_ceiling_reached :: "loop_budget \<Rightarrow> usage_totals \<Rightarrow> bool" where
  "token_ceiling_reached b u = (token_enabled b \<and> lb_max_tokens b \<le> lb_prior_tokens b + ut_total u)"

definition cost_ceiling_reached :: "loop_budget \<Rightarrow> usage_totals \<Rightarrow> bool" where
  "cost_ceiling_reached b u = (cost_enabled b \<and> lb_max_cost b \<le> lb_prior_cost b + ut_cost u)"

lemma halt_verdict_breached:
  "(\<exists>h. halt_verdict b u = Some h \<and> bh_condition h = Breached) \<longleftrightarrow>
     token_ceiling_reached b u \<or> cost_ceiling_reached b u"
  by (auto simp: halt_verdict_def token_ceiling_reached_def cost_ceiling_reached_def budget_enabled_def)

text \<open>the budget halts a loop exactly when a configured ceiling was reached, or the loop has made a call and
  every configured ceiling is dead: none of its calls reported the figure and the engineer made two
  such calls in the run. A ceiling that can still fire keeps the loop going.\<close>

theorem halt_verdict_exact:
  "halt_verdict b u \<noteq> None \<longleftrightarrow>
     token_ceiling_reached b u \<or> cost_ceiling_reached b u \<or>
     (budget_enabled b \<and> ut_calls u \<noteq> 0 \<and>
      list_all (\<lambda>(enabled, dead). enabled \<le> dead)
        [(token_enabled b, tokens_dead b u), (cost_enabled b, cost_dead b u)])"
  by (auto simp: halt_verdict_def token_ceiling_reached_def cost_ceiling_reached_def budget_enabled_def)

text \<open>A loop that made no call is never halted by what others left unreported.\<close>

lemma halt_verdict_no_calls:
  "ut_calls u = 0 \<Longrightarrow> halt_verdict b u = Some h \<Longrightarrow> bh_condition h = Breached"
  by (auto simp: halt_verdict_def split: if_splits)

text \<open>The readings of one loop, first to last: the breaker after them and whether the last one tripped it.\<close>

fun breaker_run :: "breaker \<Rightarrow> string option list \<Rightarrow> bool \<times> breaker" where
  "breaker_run k [] = (False, k)"
| "breaker_run k (r # rs) =
     (let (tripped, k') = record_iteration k r in if rs = [] then (tripped, k') else breaker_run k' rs)"

lemma breaker_run_snoc:
  "breaker_run k (rs @ [r]) = record_iteration (snd (breaker_run k rs)) r"
  by (induction k rs rule: breaker_run.induct) (auto split: prod.splits)

text \<open>How many readings at the end repeat the fingerprint before them.\<close>

definition last_known :: "string option \<Rightarrow> string option list \<Rightarrow> string option" where
  "last_known base rs = last (base # filter (\<lambda>r. r \<noteq> None) rs)"

fun repeats :: "string option \<Rightarrow> string option list \<Rightarrow> nat" where
  "repeats base [] = 0"
| "repeats base (r # older) =
     (if r \<noteq> None \<and> r = last_known base (rev older) then Suc (repeats base older) else 0)"

lemma last_known_Nil: "last_known base [] = base"
  by (simp add: last_known_def)

lemma last_known_snoc: "last_known base (rs @ [r]) = (if r = None then last_known base rs else r)"
  by (simp add: last_known_def)

lemma last_known_not_None: "base \<noteq> None \<Longrightarrow> last_known base rs \<noteq> None"
  by (induction rs rule: rev_induct) (simp_all add: last_known_snoc last_known_Nil)

lemma breaker_state:
  assumes "limit > 0" and "base \<noteq> None"
  shows "snd (breaker_run (new_breaker limit base) rs) =
           \<lparr>bk_limit = limit, bk_stall = int (repeats base (rev rs)), bk_prev = last_known base rs\<rparr>"
proof (induction rs rule: rev_induct)
  case Nil
  then show ?case using assms by (simp add: new_breaker_def last_known_def)
next
  case (snoc r rs)
  have "last_known base rs \<noteq> None" using assms(2) by (rule last_known_not_None)
  then show ?case
    using snoc assms by (auto simp: breaker_run_snoc record_iteration_def breaker_enabled_def last_known_snoc)
qed

text \<open>the breaker trips after a reading exactly when it is enabled, its baseline could be taken, and the
  last \<open>limit\<close> readings all succeeded and repeated the fingerprint before them: a reading git could
  not give starts the count again, and never counts as progress or as a stall.\<close>

theorem breaker_trips_exactly:
  assumes "rs \<noteq> []"
  shows "fst (breaker_run (new_breaker limit base) rs) \<longleftrightarrow>
           limit > 0 \<and> base \<noteq> None \<and> limit \<le> int (repeats base (rev rs))"
proof (cases "limit > 0 \<and> base \<noteq> None")
  case True
  obtain older r where rs: "rs = older @ [r]" using assms by (cases rs rule: rev_cases) auto
  have "last_known base older \<noteq> None" using True last_known_not_None by blast
  then show ?thesis
    using True breaker_state [of limit base older]
    by (auto simp: rs breaker_run_snoc record_iteration_def breaker_enabled_def)
next
  case False
  have "record_iteration k r = (False, k)" if "\<not> breaker_enabled k" for k r
    using that by (simp add: record_iteration_def)
  then have "breaker_run k rs = (False, k)" if "\<not> breaker_enabled k" for k rs
    using that by (induction k rs rule: breaker_run.induct) auto
  moreover have "\<not> breaker_enabled (new_breaker limit base)" using False by (auto simp: breaker_enabled_def new_breaker_def)
  ultimately show ?thesis using False by auto
qed

text \<open>Three unchanged readings trip it, and a failed reading between them does not.\<close>

theorem breaker_trips_exactly_witness:
  "fst (breaker_run (new_breaker 3 (Some ''x'')) [Some ''y'', Some ''y'', Some ''y'', Some ''y'']) \<and>
   \<not> fst (breaker_run (new_breaker 3 (Some ''x'')) [Some ''x'', Some ''x'', None, Some ''x''])"
  using breaker_trips_exactly [of "[Some ''y'', Some ''y'', Some ''y'', Some ''y'']" 3 "Some ''x''"]
    breaker_trips_exactly [of "[Some ''x'', Some ''x'', None, Some ''x'']" 3 "Some ''x''"]
  by (simp add: last_known_def)

end
