(* ===== verification/Verify_Model.thy ===== *)
theory Verify_Model
  imports Append_Log Findings
begin

text \<open>
  \<open>kstrl/verify/verify_model.py\<close>: one check's row, the result of a verification with its sidecar of
  checks that measured nothing, its renderings, and the names a configuration may give to the
  between-iteration gates. \<open>secs\<close> is the two-digit rendering of a duration.
\<close>

section \<open>Strings\<close>

text \<open>\<open>s.ljust(width)\<close>\<close>

definition ljust :: "string \<Rightarrow> nat \<Rightarrow> string" where
  "ljust s width = s @ replicate (width - length s) (CHR '' '')"

section \<open>Rows\<close>

record check_result =
  ck_name :: string
  ck_passed :: bool
  ck_message :: string
  ck_details :: "string list"
  ck_duration :: rat
  ck_findings :: "finding list"
  ck_measured :: bool
  ck_output :: "string option"

definition check_row :: "string \<Rightarrow> bool \<Rightarrow> string \<Rightarrow> check_result" where
  "check_row name passed message =
     \<lparr>ck_name = name, ck_passed = passed, ck_message = message, ck_details = [], ck_duration = 0,
      ck_findings = [], ck_measured = True, ck_output = None\<rparr>"

definition not_measured_retired :: string where "not_measured_retired = ''retired''"

record not_measured =
  nm_check :: string
  nm_reason :: string
  nm_detail :: string

definition gap_line :: "not_measured \<Rightarrow> string" where
  "gap_line g = ''  '' @ nm_check g @ ''  not measured  '' @ nm_detail g"

definition gap_token :: "not_measured \<Rightarrow> string" where
  "gap_token g = nm_check g @ '':'' @ nm_reason g"

definition gap_dict :: "not_measured \<Rightarrow> json_object" where
  "gap_dict g =
     [(''check'', JStr (nm_check g)), (''reason'', JStr (nm_reason g)), (''detail'', JStr (nm_detail g))]"

definition layer0_not_measured :: not_measured where
  "layer0_not_measured =
     \<lparr>nm_check = ''test_adequacy'', nm_reason = not_measured_retired,
      nm_detail = ''Layer 0 not measured: kstrl reads no test file mechanically (#696 decision 7). '' @
        ''The code reviewer's test-weakening criterion is the only check that this change '' @
        ''did not weaken the tests, and its detection rate is not yet measured.''\<rparr>"

record verification_result =
  vr_passed :: bool
  vr_checks :: "check_result list"
  vr_not_measured :: "not_measured list"

definition verdict_of :: "check_result list \<Rightarrow> not_measured list \<Rightarrow> verification_result" where
  "verdict_of checks gaps =
     \<lparr>vr_passed = list_all ck_passed checks, vr_checks = checks, vr_not_measured = gaps\<rparr>"

section \<open>Renderings\<close>

definition failure_lines :: "check_result \<Rightarrow> string list" where
  "failure_lines c =
     (if ck_passed c then []
      else (''- '' @ ck_name c @ '': FAIL - '' @ ck_message c) # map (\<lambda>d. ''  '' @ d) (take 10 (ck_details c)))"

definition as_context :: "verification_result \<Rightarrow> string" where
  "as_context v = join_with [newline] (concat (map failure_lines (vr_checks v)))"

definition failure_count :: "verification_result \<Rightarrow> nat" where
  "failure_count v = length (filter (\<lambda>c. \<not> ck_passed c) (vr_checks v))"

definition capped_detail_lines :: "check_result \<Rightarrow> nat option \<Rightarrow> string list" where
  "capped_detail_lines c limit =
     (let lines = map (\<lambda>l. ''      '' @ l) (concat (map splitlines (ck_details c)))
      in case limit of
           None \<Rightarrow> lines
         | Some n \<Rightarrow>
             (if length lines \<le> n then lines
              else take n lines @
                [''      ... '' @ nat_text (length lines - n) @ '' more line(s) not shown'']))"

definition report_row :: "(rat \<Rightarrow> string) \<Rightarrow> bool \<Rightarrow> nat option \<Rightarrow> nat \<Rightarrow> check_result \<Rightarrow> string list" where
  "report_row secs durations limit width c =
     (''  '' @ ljust (ck_name c) width @ ''  '' @ (if ck_passed c then ''pass'' else ''FAIL'') @ ''  '' @
        ck_message c @ (if durations then ''  ('' @ secs (ck_duration c) @ ''s)'' else [])) #
     (if ck_passed c then [] else capped_detail_lines c limit)"

definition report_lines :: "(rat \<Rightarrow> string) \<Rightarrow> bool \<Rightarrow> nat option \<Rightarrow> verification_result \<Rightarrow> string list" where
  "report_lines secs durations limit v =
     (let width = fold max (map (length \<circ> ck_name) (vr_checks v)) 0
      in concat (map (report_row secs durations limit width) (vr_checks v)) @
         map gap_line (vr_not_measured v))"

section \<open>Gate names\<close>

datatype gate_error = Not_A_List_Of_Names json | Unknown_Gates "string list"

definition gate_name_list :: "json \<Rightarrow> gate_error + string list" where
  "gate_name_list v =
     (case v of
        JList vs \<Rightarrow> (if list_all is_jstr vs then Inr (map jstr_of vs) else Inl (Not_A_List_Of_Names v))
      | _ \<Rightarrow> Inl (Not_A_List_Of_Names v))"

definition validate_fast_iteration_checks :: "json \<Rightarrow> string list \<Rightarrow> gate_error + string list" where
  "validate_fast_iteration_checks v names =
     and_then (gate_name_list v) (\<lambda>gates.
       let unknown = filter (\<lambda>g. g \<notin> set names) gates
       in if unknown \<noteq> [] then Inl (Unknown_Gates unknown) else Inr gates)"

definition fast_checks_from_env :: "string \<Rightarrow> string list" where
  "fast_checks_from_env raw = filter (\<lambda>p. p \<noteq> []) (map strip (split_on (CHR '','') raw))"

section \<open>A result says what failed\<close>

text \<open>The retry context is empty exactly when nothing failed.\<close>

lemma as_context_Nil: "as_context v = [] \<longleftrightarrow> failure_count v = 0"
proof -
  have "list_all (\<lambda>p. p \<noteq> []) (concat (map failure_lines cs))" for cs
    by (induction cs) (auto simp: failure_lines_def list_all_iff)
  moreover have "concat (map failure_lines cs) = [] \<longleftrightarrow> filter (\<lambda>c. \<not> ck_passed c) cs = []" for cs
    by (induction cs) (auto simp: failure_lines_def)
  ultimately show ?thesis by (simp add: as_context_def failure_count_def join_with_Nil_iff)
qed

lemma verdict_of_failures: "vr_passed (verdict_of checks gaps) \<longleftrightarrow> failure_count (verdict_of checks gaps) = 0"
  by (auto simp: verdict_of_def failure_count_def list_all_iff filter_empty_conv)

end
