(* ===== verification/Loop.thy ===== *)
theory Loop
  imports Loop_Budget Scope Verify_Model
begin

text \<open>
  \<open>kstrl/loop/loop.py\<close> with \<open>iteration_prompt.py\<close> and the guard baseline of \<open>loop_setup.py\<close>: one run of
  the engineer, from the branch checkout to its result. What the loop calls (the agent, git, the
  clock, the person at the terminal, the fast checks) is a record of functions on a world \<open>'w\<close>
  that the definitions thread through; an exception of the agent ends the run without a result.
\<close>

section \<open>Prompts\<close>

definition measurement_header :: string where
  "measurement_header = ''=== LAST ITERATION MEASUREMENT ===''"

definition measurement_footer :: string where
  "measurement_footer = ''=== END LAST ITERATION MEASUREMENT ===''"

definition failed_fast_checks :: "verification_result option \<Rightarrow> string list" where
  "failed_fast_checks reading =
     (case reading of None \<Rightarrow> [] | Some v \<Rightarrow> map ck_name (filter (\<lambda>c. \<not> ck_passed c) (vr_checks v)))"

definition measurement_block :: "verification_result option \<Rightarrow> string" where
  "measurement_block reading =
     (case reading of
        None \<Rightarrow> []
      | Some v \<Rightarrow>
          (if vr_passed v then []
           else measurement_header @ [newline] @ as_context v @ [newline] @ measurement_footer))"

definition assemble_prompt :: "string option \<Rightarrow> string \<Rightarrow> string \<Rightarrow> string" where
  "assemble_prompt retry_context measurement body =
     join_with [newline, newline]
       (filter (\<lambda>p. p \<noteq> []) [case retry_context of None \<Rightarrow> [] | Some c \<Rightarrow> c, measurement] @ [body])"

text \<open>CLAUDE.md where there is one, and the confirmed stack's text where there is one.\<close>

definition build_project_context :: "string option \<Rightarrow> string option \<Rightarrow> string" where
  "build_project_context claude_md stack_text =
     join_with [newline, newline]
       ((case claude_md of None \<Rightarrow> [] | Some t \<Rightarrow> [''# Project Context (from CLAUDE.md)'' @ [newline, newline] @ t]) @
        (case stack_text of None \<Rightarrow> [] | Some t \<Rightarrow> [t]))"

definition prompt_body :: "string \<Rightarrow> string \<Rightarrow> string" where
  "prompt_body project_context prompt =
     (if project_context \<noteq> [] then project_context @ [newline, newline] @ ''---'' @ [newline, newline] @ prompt
      else prompt)"

section \<open>The run\<close>

definition completion_marker :: string where
  "completion_marker = ''<promise>COMPLETE</promise>''"

definition timeout_message_prefix :: string where
  "timeout_message_prefix = ''ERROR: agent timed out''"

definition stop_exit_code :: int where "stop_exit_code = 130"

record loop_config =
  lc_max_iterations :: int
  lc_allowed :: "string list"
  lc_auto_checkout :: bool
  lc_branch :: "string option"
  lc_branch_explicit :: bool
  lc_agent_timeout :: rat
  lc_component_total :: rat
  lc_breaker_limit :: int
  lc_budget :: "loop_budget option"
  lc_ignored :: "string list"
  lc_context_prefix :: "string option"
  lc_body :: string
  lc_fast_checks :: bool  \<comment> \<open>a verify configuration that names a gate\<close>
  lc_state_root :: "bool option"
  lc_bus :: bool

text \<open>What one \<open>agent.run\<close> gave: the lines it streamed, its final message, and whether it raised.\<close>

record agent_reply =
  ag_lines :: "string list"
  ag_final :: "string option"
  ag_raised :: bool

record 'w loop_env =
  le_is_repo :: "'w \<Rightarrow> bool"
  le_prd :: "'w \<Rightarrow> string option"  \<comment> \<open>the branch of the requirements document, if it loads\<close>
  le_checkout :: "string \<Rightarrow> 'w \<Rightarrow> bool \<times> 'w"
  le_base :: "'w \<Rightarrow> string option"
  le_head :: "'w \<Rightarrow> string option"
  le_fingerprint :: "'w \<Rightarrow> string option"
  le_clock :: "'w \<Rightarrow> rat \<times> 'w"
  le_stop :: "('w \<Rightarrow> bool \<times> 'w) option"
  le_agent :: "string \<Rightarrow> rat option \<Rightarrow> 'w \<Rightarrow> agent_reply \<times> 'w"
  le_records :: "'w \<Rightarrow> agent_records"
  le_publish :: "usage_totals \<Rightarrow> 'w \<Rightarrow> 'w"
  le_run_fast_checks :: "'w \<Rightarrow> verification_result \<times> 'w"
  le_guard :: "'w \<Rightarrow> guard_inputs"
  le_guard_acts :: "guard_result \<Rightarrow> 'w \<Rightarrow> 'w"
  le_can_prompt :: "'w \<Rightarrow> bool"
  le_ask :: "'w \<Rightarrow> int option \<times> 'w"
  le_sleep :: "'w \<Rightarrow> 'w"

record loop_result =
  lr_completed :: bool
  lr_iterations :: int
  lr_exit_code :: int
  lr_duration :: rat
  lr_durations :: "rat list"
  lr_timeout_limit :: "string option"
  lr_timed_out :: nat
  lr_usage :: usage_totals
  lr_no_progress :: bool
  lr_budget_halt :: "budget_halt option"
  lr_violations :: "string list"

definition loop_result_of :: "bool \<Rightarrow> int \<Rightarrow> int \<Rightarrow> loop_result" where
  "loop_result_of completed iterations code =
     \<lparr>lr_completed = completed, lr_iterations = iterations, lr_exit_code = code, lr_duration = 0,
      lr_durations = [], lr_timeout_limit = None, lr_timed_out = 0, lr_usage = no_usage,
      lr_no_progress = False, lr_budget_halt = None, lr_violations = []\<rparr>"

datatype loop_event =
    Iteration_Started int int
  | Iteration_Completed int rat bool bool "string list"

text \<open>What changes between iterations; an event's duration is not rounded here.\<close>

record 'w loop_state =
  ls_world :: 'w
  ls_prompt :: string
  ls_timed_out :: nat
  ls_durations :: "rat list"
  ls_interactive :: bool
  ls_breaker :: breaker
  ls_events :: "loop_event list"

text \<open>What the run keeps: whether the directory is a repository, the guard's ignored paths and its
  baseline, and the time the loop started.\<close>

record loop_run =
  rn_is_repo :: bool
  rn_ignored :: "string list"
  rn_baseline :: "workspace_baseline option"
  rn_start :: rat

definition emit_event :: "loop_config \<Rightarrow> loop_event \<Rightarrow> 'w loop_state \<Rightarrow> 'w loop_state" where
  "emit_event cfg e s = (if lc_bus cfg then s\<lparr>ls_events := ls_events s @ [e]\<rparr> else s)"

definition read_clock :: "'w loop_env \<Rightarrow> 'w loop_state \<Rightarrow> rat \<times> 'w loop_state" where
  "read_clock env s = (let (t, w) = le_clock env (ls_world s) in (t, s\<lparr>ls_world := w\<rparr>))"

section \<open>Before the first iteration\<close>

definition determine_branch :: "loop_config \<Rightarrow> string option \<Rightarrow> string option" where
  "determine_branch cfg prd_branch =
     (case lc_branch cfg of
        Some b \<Rightarrow> Some b
      | None \<Rightarrow> (case prd_branch of Some b \<Rightarrow> (if b \<noteq> [] then Some b else None) | None \<Rightarrow> None))"

definition checkout_stage :: "'w loop_env \<Rightarrow> loop_config \<Rightarrow> bool \<Rightarrow> 'w \<Rightarrow> loop_result option \<times> 'w" where
  "checkout_stage env cfg is_repo w =
     (if \<not> is_repo \<or> \<not> lc_auto_checkout cfg then (None, w)
      else (case determine_branch cfg (le_prd env w) of
              Some b \<Rightarrow>
                (if b = [] then (None, w)
                 else (let (ok, w1) = le_checkout env b w
                       in if ok then (None, w1) else (Some (loop_result_of False 0 2), w1)))
            | None \<Rightarrow> (None, w)))"

definition capture_guard_baseline :: "'w loop_env \<Rightarrow> 'w \<Rightarrow> workspace_baseline option" where
  "capture_guard_baseline env w =
     (case capture_workspace_baseline (le_base env w) (le_head env w) (gd_view (le_guard env w)) of
        Inl _ \<Rightarrow> None | Inr b \<Rightarrow> Some b)"

definition guard_setup ::
    "'w loop_env \<Rightarrow> loop_config \<Rightarrow> bool \<Rightarrow> 'w \<Rightarrow> loop_result + workspace_baseline option \<times> string list" where
  "guard_setup env cfg is_repo w =
     (if lc_allowed cfg \<noteq> [] \<and> is_repo
      then (case capture_guard_baseline env w of
              None \<Rightarrow> Inl (loop_result_of False 0 2)
            | Some b \<Rightarrow> Inr (Some b, lc_ignored cfg @ state_dir_carve_out (lc_state_root cfg)))
      else Inr (None, []))"

section \<open>One iteration\<close>

definition iteration_timeout :: "rat \<Rightarrow> rat \<Rightarrow> rat \<Rightarrow> rat \<Rightarrow> rat option" where
  "iteration_timeout agent_iteration component_total iter_start loop_start =
     (let limit = (if agent_iteration > 0 then Some agent_iteration else None)
      in if component_total > 0
         then (let remaining = component_total - (iter_start - loop_start)
               in Some (case limit of Some l \<Rightarrow> min l remaining | None \<Rightarrow> remaining))
         else limit)"

text \<open>The deadline an adapter sets for that limit (\<open>DeadlineStreamer.__init__\<close> of \<open>kstrl/proc/proc.py\<close>).\<close>

definition agent_deadline :: "rat \<Rightarrow> rat option \<Rightarrow> rat option" where
  "agent_deadline now limit =
     (case limit of Some t \<Rightarrow> (if t \<noteq> 0 \<and> t > 0 then Some (now + t) else None) | None \<Rightarrow> None)"

definition marker_seen :: "agent_reply \<Rightarrow> bool" where
  "marker_seen r =
     (list_ex (\<lambda>l. strip l = completion_marker) (ag_lines r) \<or>
      (case ag_final r of
         None \<Rightarrow> False | Some m \<Rightarrow> m \<noteq> [] \<and> list_ex (\<lambda>l. strip l = completion_marker) (splitlines m)))"

definition reply_timed_out :: "agent_reply \<Rightarrow> bool" where
  "reply_timed_out r = list_ex (\<lambda>l. startswith l timeout_message_prefix) (ag_lines r)"

definition fast_iteration_reading ::
    "'w loop_env \<Rightarrow> loop_config \<Rightarrow> bool \<Rightarrow> bool \<Rightarrow> 'w \<Rightarrow> verification_result option \<times> 'w" where
  "fast_iteration_reading env cfg completed timed_out w =
     (if completed \<or> timed_out \<or> \<not> lc_fast_checks cfg then (None, w)
      else (let (v, w1) = le_run_fast_checks env w in (Some v, w1)))"

record iteration_outcome =
  io_completed :: bool
  io_usage :: usage_totals

text \<open>\<open>_run_one_iteration\<close> up to the agent's reply, the measurement after it, and the \<open>finally\<close> block.\<close>

definition agent_call ::
    "'w loop_env \<Rightarrow> loop_config \<Rightarrow> loop_run \<Rightarrow> int \<Rightarrow> 'w loop_state \<Rightarrow> rat \<times> agent_reply \<times> 'w loop_state" where
  "agent_call env cfg run i s =
     (let (iter_start, s1) = read_clock env s;
          s2 = emit_event cfg (Iteration_Started i (lc_max_iterations cfg)) s1;
          limit = iteration_timeout (lc_agent_timeout cfg) (lc_component_total cfg) iter_start (rn_start run);
          (reply, w3) = le_agent env (ls_prompt s2) limit (ls_world s2)
      in (iter_start, reply, s2\<lparr>ls_world := w3\<rparr>))"

definition measure_iteration ::
    "'w loop_env \<Rightarrow> loop_config \<Rightarrow> agent_reply \<Rightarrow> 'w loop_state \<Rightarrow> verification_result option \<times> 'w loop_state" where
  "measure_iteration env cfg reply s =
     (if ag_raised reply then (None, s)
      else (let (reading, w) = fast_iteration_reading env cfg (marker_seen reply) (reply_timed_out reply) (ls_world s)
            in (reading, s\<lparr>ls_world := w,
                  ls_prompt := assemble_prompt (lc_context_prefix cfg) (measurement_block reading) (lc_body cfg)\<rparr>)))"

definition completion_in_event :: "agent_reply \<Rightarrow> bool" where
  "completion_in_event r =
     (if ag_raised r then list_ex (\<lambda>l. strip l = completion_marker) (ag_lines r) else marker_seen r)"

definition close_iteration ::
    "'w loop_env \<Rightarrow> loop_config \<Rightarrow> int \<Rightarrow> rat \<Rightarrow> agent_reply \<Rightarrow> verification_result option \<Rightarrow> 'w loop_state \<Rightarrow>
     'w loop_state" where
  "close_iteration env cfg i iter_start reply reading s =
     (let (now, s1) = read_clock env s
      in emit_event cfg
           (Iteration_Completed i (now - iter_start) (completion_in_event reply) (reply_timed_out reply)
              (failed_fast_checks reading))
           (s1\<lparr>ls_durations := ls_durations s1 @ [now - iter_start]\<rparr>))"

text \<open>\<open>None\<close> is an exception of the agent, after which the iteration is still timed and its event still
  emitted.\<close>

definition run_one_iteration ::
    "'w loop_env \<Rightarrow> loop_config \<Rightarrow> loop_run \<Rightarrow> int \<Rightarrow> 'w loop_state \<Rightarrow> iteration_outcome option \<times> 'w loop_state" where
  "run_one_iteration env cfg run i s =
     (let (iter_start, reply, s1) = agent_call env cfg run i s;
          (reading, s2) = measure_iteration env cfg reply s1;
          s3 = close_iteration env cfg i iter_start reply reading s2
      in if ag_raised reply then (None, s3)
         else (let usage = collect_usage (le_records env (ls_world s3)) 0
               in (Some \<lparr>io_completed = marker_seen reply, io_usage = usage\<rparr>,
                   s3\<lparr>ls_world := le_publish env usage (ls_world s3),
                      ls_timed_out := (if reply_timed_out reply then Suc (ls_timed_out s3) else ls_timed_out s3)\<rparr>)))"

section \<open>The verdict on an iteration\<close>

text \<open>The result of a run that ends now, with the durations and counts so far.\<close>

definition result_now ::
    "'w loop_env \<Rightarrow> loop_run \<Rightarrow> bool \<Rightarrow> int \<Rightarrow> int \<Rightarrow> usage_totals \<Rightarrow> 'w loop_state \<Rightarrow> loop_result \<times> 'w loop_state" where
  "result_now env run completed i code usage s =
     (let (now, s1) = read_clock env s
      in ((loop_result_of completed i code)
            \<lparr>lr_duration := now - rn_start run, lr_durations := ls_durations s1,
             lr_timed_out := ls_timed_out s1, lr_usage := usage\<rparr>, s1))"

definition agent_usage :: "'w loop_env \<Rightarrow> 'w loop_state \<Rightarrow> usage_totals" where
  "agent_usage env s = collect_usage (le_records env (ls_world s)) 0"

definition guard_inputs_now :: "'w loop_env \<Rightarrow> loop_config \<Rightarrow> loop_run \<Rightarrow> 'w loop_state \<Rightarrow> guard_inputs" where
  "guard_inputs_now env cfg run s =
     (le_guard env (ls_world s))
       \<lparr>gd_allowed := lc_allowed cfg, gd_interactive := ls_interactive s, gd_ignored := rn_ignored run,
        gd_baseline := rn_baseline run\<rparr>"

type_synonym 'w verdict_step = "loop_result option \<times> 'w loop_state"

definition guard_verdict ::
    "'w loop_env \<Rightarrow> loop_config \<Rightarrow> loop_run \<Rightarrow> int \<Rightarrow> 'w loop_state \<Rightarrow> 'w verdict_step" where
  "guard_verdict env cfg run i s =
     (if lc_allowed cfg \<noteq> [] \<and> rn_is_repo run
      then (let g = enforce_allowed_paths (guard_inputs_now env cfg run s);
                s1 = s\<lparr>ls_world := le_guard_acts env g (ls_world s)\<rparr>
            in if gr_ok g then (None, s1)
               else (let (r, s2) = result_now env run False i 1 (agent_usage env s1) s1
                     in (Some (r\<lparr>lr_violations := gr_violations g\<rparr>), s2)))
      else (None, s))"

definition completion_verdict ::
    "'w loop_env \<Rightarrow> loop_run \<Rightarrow> int \<Rightarrow> bool \<Rightarrow> 'w loop_state \<Rightarrow> 'w verdict_step" where
  "completion_verdict env run i completed s =
     (if completed
      then (let (r, s1) = result_now env run True i 0 (agent_usage env s) s in (Some r, s1))
      else (None, s))"

definition budget_verdict ::
    "'w loop_env \<Rightarrow> loop_config \<Rightarrow> loop_run \<Rightarrow> int \<Rightarrow> usage_totals \<Rightarrow> 'w loop_state \<Rightarrow> 'w verdict_step" where
  "budget_verdict env cfg run i usage s =
     (case lc_budget cfg of
        None \<Rightarrow> (None, s)
      | Some b \<Rightarrow>
          (case halt_verdict b usage of
             None \<Rightarrow> (None, s)
           | Some h \<Rightarrow>
               (let (r, s1) = result_now env run False i 1 usage s
                in (Some (r\<lparr>lr_budget_halt := Some h\<rparr>), s1))))"

definition breaker_verdict ::
    "'w loop_env \<Rightarrow> loop_run \<Rightarrow> int \<Rightarrow> 'w loop_state \<Rightarrow> 'w verdict_step" where
  "breaker_verdict env run i s =
     (let (tripped, k) = record_iteration (ls_breaker s) (le_fingerprint env (ls_world s));
          s1 = s\<lparr>ls_breaker := k\<rparr>
      in if tripped
         then (let (r, s2) = result_now env run False i 1 (agent_usage env s1) s1
               in (Some (r\<lparr>lr_no_progress := True\<rparr>), s2))
         else (None, s1))"

definition wall_clock_verdict ::
    "'w loop_env \<Rightarrow> loop_config \<Rightarrow> loop_run \<Rightarrow> int \<Rightarrow> 'w loop_state \<Rightarrow> 'w verdict_step" where
  "wall_clock_verdict env cfg run i s =
     (let (now, s1) = read_clock env s;
          elapsed = now - rn_start run
      in if lc_component_total cfg > 0 \<and> elapsed \<ge> lc_component_total cfg
         then (Some ((loop_result_of False i 1)
                \<lparr>lr_duration := elapsed, lr_durations := ls_durations s1,
                 lr_timeout_limit := Some ''component'', lr_timed_out := ls_timed_out s1,
                 lr_usage := agent_usage env s1\<rparr>), s1)
         else (None, s1))"

text \<open>Continue is 0, \<open>Skip interactive\<close> 1, Quit 2; nobody answering is \<open>None\<close>.\<close>

definition pause_verdict ::
    "'w loop_env \<Rightarrow> int \<Rightarrow> 'w loop_state \<Rightarrow> 'w verdict_step" where
  "pause_verdict env i s =
     (if \<not> (ls_interactive s \<and> le_can_prompt env (ls_world s)) then (None, s)
      else (let (choice, w1) = le_ask env (ls_world s); s1 = s\<lparr>ls_world := w1\<rparr>
            in if choice = Some 1 then (None, s1\<lparr>ls_interactive := False\<rparr>)
               else if choice = Some 2 \<or> choice = None
               then (Some ((loop_result_of False i 0)\<lparr>lr_usage := agent_usage env s1\<rparr>), s1)
               else (None, s1)))"

definition or_else :: "'w verdict_step \<Rightarrow> ('w loop_state \<Rightarrow> 'w verdict_step) \<Rightarrow> 'w verdict_step" where
  "or_else v f = (case v of (Some r, s) \<Rightarrow> (Some r, s) | (None, s) \<Rightarrow> f s)"

definition iteration_verdict ::
    "'w loop_env \<Rightarrow> loop_config \<Rightarrow> loop_run \<Rightarrow> int \<Rightarrow> iteration_outcome \<Rightarrow> 'w loop_state \<Rightarrow> 'w verdict_step" where
  "iteration_verdict env cfg run i out s =
     or_else (guard_verdict env cfg run i s) (\<lambda>s1.
     or_else (completion_verdict env run i (io_completed out) s1) (\<lambda>s2.
     or_else (budget_verdict env cfg run i (io_usage out) s2) (\<lambda>s3.
     or_else (breaker_verdict env run i s3) (\<lambda>s4.
     or_else (wall_clock_verdict env cfg run i s4) (pause_verdict env i)))))"

section \<open>The loop\<close>

datatype loop_exit = Agent_Raised | Returned loop_result

definition stop_requested :: "'w loop_env \<Rightarrow> 'w loop_state \<Rightarrow> bool \<times> 'w loop_state" where
  "stop_requested env s =
     (case le_stop env of
        None \<Rightarrow> (False, s)
      | Some check \<Rightarrow> (let (stop, w) = check (ls_world s) in (stop, s\<lparr>ls_world := w\<rparr>)))"

definition max_iterations_result ::
    "'w loop_env \<Rightarrow> loop_config \<Rightarrow> loop_run \<Rightarrow> 'w loop_state \<Rightarrow> loop_exit \<times> 'w loop_state" where
  "max_iterations_result env cfg run s =
     (let (r, s1) = result_now env run False (lc_max_iterations cfg) 1 (agent_usage env s) s
      in (Returned r, s1))"

text \<open>One pass of the loop body: it ends the run or goes on.\<close>

definition loop_body ::
    "'w loop_env \<Rightarrow> loop_config \<Rightarrow> loop_run \<Rightarrow> int \<Rightarrow> 'w loop_state \<Rightarrow> loop_exit option \<times> 'w loop_state" where
  "loop_body env cfg run i s =
     (let (stop, s1) = stop_requested env s
      in if stop
         then (let (r, s2) = result_now env run False (i - 1) stop_exit_code (agent_usage env s1) s1
               in (Some (Returned r), s2))
         else (let (out, s2) = run_one_iteration env cfg run i s1
               in case out of
                    None \<Rightarrow> (Some Agent_Raised, s2)
                  | Some o1 \<Rightarrow>
                      (let (v, s3) = iteration_verdict env cfg run i o1 s2
                       in case v of
                            Some r \<Rightarrow> (Some (Returned r), s3)
                          | None \<Rightarrow> (None, if i < lc_max_iterations cfg
                                           then s3\<lparr>ls_world := le_sleep env (ls_world s3)\<rparr> else s3))))"

function loop_from ::
    "'w loop_env \<Rightarrow> loop_config \<Rightarrow> loop_run \<Rightarrow> int \<Rightarrow> 'w loop_state \<Rightarrow> loop_exit \<times> 'w loop_state" where
  "loop_from env cfg run i s =
     (if i > lc_max_iterations cfg then max_iterations_result env cfg run s
      else (case loop_body env cfg run i s of
              (Some e, s1) \<Rightarrow> (e, s1)
            | (None, s1) \<Rightarrow> loop_from env cfg run (i + 1) s1))"
  by pat_completeness auto

termination
  by (relation "measure (\<lambda>(env, cfg, run, i, s). nat (lc_max_iterations cfg + 1 - i))") auto

declare loop_from.simps [simp del]

text \<open>The state before iteration 1, or the refusal that comes instead.\<close>

definition first_state :: "'w loop_env \<Rightarrow> loop_config \<Rightarrow> bool \<Rightarrow> 'w \<Rightarrow> 'w loop_state" where
  "first_state env cfg interactive w =
     \<lparr>ls_world = w, ls_prompt = assemble_prompt (lc_context_prefix cfg) [] (lc_body cfg), ls_timed_out = 0,
      ls_durations = [], ls_interactive = interactive,
      ls_breaker = new_breaker (lc_breaker_limit cfg) (le_fingerprint env w), ls_events = []\<rparr>"

definition loop_start ::
    "'w loop_env \<Rightarrow> loop_config \<Rightarrow> bool \<Rightarrow> 'w \<Rightarrow> loop_result \<times> 'w loop_state + loop_run \<times> 'w loop_state" where
  "loop_start env cfg interactive w =
     (let is_repo = le_is_repo env w; (refusal, w1) = checkout_stage env cfg is_repo w
      in case refusal of
           Some r \<Rightarrow> Inl (r, first_state env cfg interactive w1)
         | None \<Rightarrow>
             (case guard_setup env cfg is_repo w1 of
                Inl r \<Rightarrow> Inl (r, first_state env cfg interactive w1)
              | Inr (baseline, ignored) \<Rightarrow>
                  (let (start, w2) = le_clock env w1
                   in Inr (\<lparr>rn_is_repo = is_repo, rn_ignored = ignored, rn_baseline = baseline, rn_start = start\<rparr>,
                           first_state env cfg interactive w2))))"

definition run_loop :: "'w loop_env \<Rightarrow> loop_config \<Rightarrow> bool \<Rightarrow> 'w \<Rightarrow> loop_exit \<times> 'w loop_state" where
  "run_loop env cfg interactive w =
     (case loop_start env cfg interactive w of
        Inl (r, s) \<Rightarrow> (Returned r, s) | Inr (run, s) \<Rightarrow> loop_from env cfg run 1 s)"

end
