(* ===== verification/Loop_Contract.thy ===== *)
theory Loop_Contract
  imports Loop Scope_Contract
begin

text \<open>
  What one run of the engineer promises: it calls the agent at most as often as it has iterations, it
  completes only behind the scope guard, and it goes on to another iteration only while every limit
  still has room.
\<close>

section \<open>The iterations of a run\<close>

inductive loop_reaches :: "'w loop_env \<Rightarrow> loop_config \<Rightarrow> loop_run \<Rightarrow> 'w loop_state \<Rightarrow> int \<Rightarrow> 'w loop_state \<Rightarrow> bool"
  for env cfg run s0 where
  first: "loop_reaches env cfg run s0 1 s0"
| again_body: "loop_reaches env cfg run s0 i s \<Longrightarrow> i \<le> lc_max_iterations cfg \<Longrightarrow>
     loop_body env cfg run i s = (None, s') \<Longrightarrow> loop_reaches env cfg run s0 (i + 1) s'"

inductive loop_ends ::
    "'w loop_env \<Rightarrow> loop_config \<Rightarrow> loop_run \<Rightarrow> int \<Rightarrow> 'w loop_state \<Rightarrow> loop_exit \<Rightarrow> 'w loop_state \<Rightarrow> bool"
  for env cfg run where
  by_body: "i \<le> lc_max_iterations cfg \<Longrightarrow> loop_body env cfg run i s = (Some e, s') \<Longrightarrow> loop_ends env cfg run i s e s'"
| by_max: "i > lc_max_iterations cfg \<Longrightarrow> max_iterations_result env cfg run s = (e, s') \<Longrightarrow> loop_ends env cfg run i s e s'"

inductive_cases loop_endsE: "loop_ends env cfg run i s e s'"

lemma loop_from_ends:
  "loop_reaches env cfg run s0 i s \<Longrightarrow> loop_from env cfg run i s = (e, s') \<Longrightarrow>
     \<exists>j t. loop_reaches env cfg run s0 j t \<and> loop_ends env cfg run j t e s'"
proof (induction env cfg run i s rule: loop_from.induct)
  case (1 env cfg run i s)
  show ?case
  proof (cases "i > lc_max_iterations cfg")
    case True
    then have "loop_ends env cfg run i s e s'"
      using "1.prems"(2) by (intro by_max) (simp_all add: loop_from.simps [of env cfg run i s])
    then show ?thesis using "1.prems"(1) by blast
  next
    case False
    obtain o1 s1 where body: "loop_body env cfg run i s = (o1, s1)" by (cases "loop_body env cfg run i s")
    show ?thesis
    proof (cases o1)
      case None
      have "loop_reaches env cfg run s0 (i + 1) s1"
        using again_body [OF "1.prems"(1)] False body None by simp
      moreover have "loop_from env cfg run (i + 1) s1 = (e, s')"
        using "1.prems"(2) False body None by (simp add: loop_from.simps [of env cfg run i s])
      ultimately show ?thesis using "1.IH" [OF False body [symmetric, unfolded None]] None by blast
    next
      case (Some e')
      then have "loop_ends env cfg run i s e s'"
        using "1.prems"(2) False body by (intro by_body) (simp_all add: loop_from.simps [of env cfg run i s])
      then show ?thesis using "1.prems"(1) by blast
    qed
  qed
qed

lemma run_loop_ends:
  assumes "run_loop env cfg interactive w = (e, s')" and "loop_start env cfg interactive w = Inr (run, s0)"
  shows "\<exists>j t. loop_reaches env cfg run s0 j t \<and> loop_ends env cfg run j t e s'"
  using loop_from_ends [OF first] assms by (simp add: run_loop_def)

section \<open>Calls of the agent\<close>

text \<open>A count of the world that the agent raises by one and that nothing else changes.\<close>

definition counts_agent :: "'w loop_env \<Rightarrow> ('w \<Rightarrow> nat) \<Rightarrow> bool" where
  "counts_agent env n =
     ((\<forall>p l w. n (snd (le_agent env p l w)) = Suc (n w)) \<and> (\<forall>b w. n (snd (le_checkout env b w)) = n w) \<and>
      (\<forall>w. n (snd (le_clock env w)) = n w) \<and>
      (\<forall>w. case le_stop env of None \<Rightarrow> True | Some check \<Rightarrow> n (snd (check w)) = n w) \<and>
      (\<forall>u w. n (le_publish env u w) = n w) \<and> (\<forall>w. n (snd (le_run_fast_checks env w)) = n w) \<and>
      (\<forall>g w. n (le_guard_acts env g w) = n w) \<and> (\<forall>w. n (snd (le_ask env w)) = n w) \<and>
      (\<forall>w. n (le_sleep env w) = n w))"

definition quiet :: "('w \<Rightarrow> nat) \<Rightarrow> 'w loop_state \<Rightarrow> 'w loop_state \<Rightarrow> bool" where
  "quiet n s s' = (n (ls_world s') = n (ls_world s) \<and> length (ls_durations s') = length (ls_durations s))"

definition one_call :: "('w \<Rightarrow> nat) \<Rightarrow> 'w loop_state \<Rightarrow> 'w loop_state \<Rightarrow> bool" where
  "one_call n s s' =
     (n (ls_world s') = Suc (n (ls_world s)) \<and> length (ls_durations s') = Suc (length (ls_durations s)))"

named_theorems quiet_intros

lemma quiet_refl: "quiet n s s"
  by (simp add: quiet_def)

lemma quiet_trans: "quiet n s t \<Longrightarrow> quiet n t u \<Longrightarrow> quiet n s u"
  by (simp add: quiet_def)

lemma one_call_quiet: "quiet n s t \<Longrightarrow> one_call n t u \<Longrightarrow> one_call n s u" "one_call n s t \<Longrightarrow> quiet n t u \<Longrightarrow> one_call n s u"
  by (simp_all add: quiet_def one_call_def)

lemma read_clock_quiet: "counts_agent env n \<Longrightarrow> read_clock env s = (t, s') \<Longrightarrow> quiet n s s'"
  by (cases "le_clock env (ls_world s)") (auto simp: read_clock_def counts_agent_def quiet_def dest: spec [of _ "ls_world s"])

lemma result_now_quiet:
  "counts_agent env n \<Longrightarrow> result_now env run b i c u s = (r, s') \<Longrightarrow> quiet n s s' \<and> lr_iterations r = i"
  by (auto simp: result_now_def loop_result_of_def read_clock_quiet split: prod.splits)

lemma stop_requested_quiet: "counts_agent env n \<Longrightarrow> stop_requested env s = (b, s') \<Longrightarrow> quiet n s s'"
  by (auto simp: stop_requested_def counts_agent_def quiet_def split: option.splits prod.splits)
    (metis snd_conv)

lemma emit_event_same [simp]:
  "ls_world (emit_event cfg e s) = ls_world s" "ls_durations (emit_event cfg e s) = ls_durations s"
  "ls_prompt (emit_event cfg e s) = ls_prompt s" "ls_timed_out (emit_event cfg e s) = ls_timed_out s"
  "ls_interactive (emit_event cfg e s) = ls_interactive s" "ls_breaker (emit_event cfg e s) = ls_breaker s"
  by (simp_all add: emit_event_def)

lemma agent_call_counts:
  assumes "counts_agent env n" and "agent_call env cfg run i s = (t, reply, s')"
  shows "n (ls_world s') = Suc (n (ls_world s)) \<and> length (ls_durations s') = length (ls_durations s)"
proof -
  obtain t1 s1 where c: "read_clock env s = (t1, s1)" by (cases "read_clock env s")
  have "quiet n s s1" by (rule read_clock_quiet [OF assms(1) c])
  moreover have "\<forall>p l w. n (snd (le_agent env p l w)) = Suc (n w)" using assms(1) by (simp add: counts_agent_def)
  then have "n w' = Suc (n w)" if "le_agent env p l w = (r, w')" for p l w r w' using that by (metis snd_conv)
  ultimately show ?thesis
    using assms(2) by (auto simp: agent_call_def c Let_def quiet_def split: prod.splits)
qed

lemma measure_iteration_quiet:
  "counts_agent env n \<Longrightarrow> measure_iteration env cfg reply s = (reading, s') \<Longrightarrow> quiet n s s'"
  by (auto simp: measure_iteration_def fast_iteration_reading_def counts_agent_def quiet_def
      split: if_splits prod.splits) (metis snd_conv)

lemma run_one_iteration_one_call:
  assumes "counts_agent env n" and "run_one_iteration env cfg run i s = (out, s')"
  shows "one_call n s s'"
proof -
  obtain t reply s1 where call: "agent_call env cfg run i s = (t, reply, s1)" by (cases "agent_call env cfg run i s")
  obtain reading s2 where m: "measure_iteration env cfg reply s1 = (reading, s2)"
    by (cases "measure_iteration env cfg reply s1")
  obtain now s3 where c: "read_clock env s2 = (now, s3)" by (cases "read_clock env s2")
  have "n (le_publish env u w) = n w" for u w using assms(1) by (simp add: counts_agent_def)
  then have "n (ls_world s') = n (ls_world s3) \<and> length (ls_durations s') = Suc (length (ls_durations s3))"
    using assms(2) by (auto simp: run_one_iteration_def call m close_iteration_def c Let_def split: if_splits)
  then show ?thesis
    using agent_call_counts [OF assms(1) call] measure_iteration_quiet [OF assms(1) m] read_clock_quiet [OF assms(1) c]
    by (simp add: one_call_def quiet_def)
qed

text \<open>A verdict calls no agent, and the result it gives counts this iteration.\<close>

definition verdict_ok :: "('w \<Rightarrow> nat) \<Rightarrow> int \<Rightarrow> 'w loop_state \<Rightarrow> 'w verdict_step \<Rightarrow> bool" where
  "verdict_ok n i s v = (quiet n s (snd v) \<and> (case fst v of None \<Rightarrow> True | Some r \<Rightarrow> lr_iterations r = i))"

lemma or_else_ok:
  assumes "verdict_ok n i s v" and "\<And>t. quiet n s t \<Longrightarrow> verdict_ok n i t (f t)"
  shows "verdict_ok n i s (or_else v f)"
proof (cases v)
  case (Pair r t)
  then have "quiet n s t" using assms(1) by (simp add: verdict_ok_def)
  then show ?thesis
    using assms Pair by (cases r) (auto simp: or_else_def verdict_ok_def intro: quiet_trans)
qed

lemma result_now_ok:
  assumes "counts_agent env n" and "quiet n s t" and "result_now env run b i c u t = (r, s')"
    and "lr_iterations (g r) = lr_iterations r"
  shows "verdict_ok n i s (Some (g r), s')"
  using result_now_quiet [OF assms(1,3)] assms(2,4) quiet_trans by (auto simp: verdict_ok_def)

lemma guard_verdict_ok: "counts_agent env n \<Longrightarrow> verdict_ok n i s (guard_verdict env cfg run i s)"
proof -
  assume count: "counts_agent env n"
  then have acts: "quiet n s (s\<lparr>ls_world := le_guard_acts env g (ls_world s)\<rparr>)" for g
    by (simp add: counts_agent_def quiet_def)
  show ?thesis
    by (auto simp: guard_verdict_def Let_def split: prod.splits
        intro!: result_now_ok [OF count acts, where g = "\<lambda>r. r\<lparr>lr_violations := vs\<rparr>" for vs])
      (auto simp: verdict_ok_def quiet_refl acts)
qed

lemma completion_verdict_ok: "counts_agent env n \<Longrightarrow> verdict_ok n i s (completion_verdict env run i b s)"
  by (auto simp: completion_verdict_def verdict_ok_def quiet_refl result_now_quiet split: prod.splits)

lemma budget_verdict_ok: "counts_agent env n \<Longrightarrow> verdict_ok n i s (budget_verdict env cfg run i u s)"
  by (auto simp: budget_verdict_def verdict_ok_def quiet_refl result_now_quiet split: prod.splits option.splits)

lemma breaker_verdict_ok:
  assumes "counts_agent env n"
  shows "verdict_ok n i s (breaker_verdict env run i s)"
proof -
  have "quiet n s (s\<lparr>ls_breaker := k\<rparr>)" for k by (simp add: quiet_def)
  then show ?thesis
    by (auto simp: breaker_verdict_def verdict_ok_def Let_def split: prod.splits
        dest!: result_now_quiet [OF assms] intro: quiet_trans)
qed

lemma wall_clock_verdict_ok: "counts_agent env n \<Longrightarrow> verdict_ok n i s (wall_clock_verdict env cfg run i s)"
  by (auto simp: wall_clock_verdict_def verdict_ok_def loop_result_of_def read_clock_quiet Let_def split: prod.splits)

lemma pause_verdict_ok:
  assumes "counts_agent env n"
  shows "verdict_ok n i s (pause_verdict env i s)"
proof -
  obtain choice w1 where ask: "le_ask env (ls_world s) = (choice, w1)" by (cases "le_ask env (ls_world s)")
  then have "n w1 = n (ls_world s)" using assms by (metis counts_agent_def snd_conv)
  then show ?thesis by (simp add: pause_verdict_def ask verdict_ok_def quiet_def loop_result_of_def Let_def)
qed

lemma iteration_verdict_ok: "counts_agent env n \<Longrightarrow> verdict_ok n i s (iteration_verdict env cfg run i out s)"
  unfolding iteration_verdict_def
  by (intro or_else_ok guard_verdict_ok completion_verdict_ok budget_verdict_ok breaker_verdict_ok
      wall_clock_verdict_ok pause_verdict_ok)

lemma loop_body_counts:
  assumes "counts_agent env n" and "loop_body env cfg run i s = (x, s')"
  shows "case x of
           None \<Rightarrow> one_call n s s'
         | Some Agent_Raised \<Rightarrow> one_call n s s'
         | Some (Returned r) \<Rightarrow> (quiet n s s' \<and> lr_iterations r = i - 1) \<or> (one_call n s s' \<and> lr_iterations r = i)"
proof -
  obtain stop s1 where st: "stop_requested env s = (stop, s1)" by (cases "stop_requested env s")
  have q1: "quiet n s s1" by (rule stop_requested_quiet [OF assms(1) st])
  show ?thesis
  proof (cases stop)
    case True
    then show ?thesis
      using assms(2) st q1 by (auto simp: loop_body_def split: prod.splits dest!: result_now_quiet [OF assms(1)] intro: quiet_trans)
  next
    case False
    obtain out s2 where it: "run_one_iteration env cfg run i s1 = (out, s2)" by (cases "run_one_iteration env cfg run i s1")
    have call: "one_call n s s2" by (rule one_call_quiet(1) [OF q1 run_one_iteration_one_call [OF assms(1) it]])
    show ?thesis
    proof (cases out)
      case None
      then show ?thesis using assms(2) st False it call by (auto simp: loop_body_def)
    next
      case (Some out1)
      obtain v s3 where v: "iteration_verdict env cfg run i out1 s2 = (v, s3)" by (cases "iteration_verdict env cfg run i out1 s2")
      have ok: "quiet n s2 s3" "case v of None \<Rightarrow> True | Some r \<Rightarrow> lr_iterations r = i"
        using iteration_verdict_ok [OF assms(1), of i s2 cfg run out1] by (simp_all add: v verdict_ok_def)
      have "quiet n s3 (if i < lc_max_iterations cfg then s3\<lparr>ls_world := le_sleep env (ls_world s3)\<rparr> else s3)"
        using assms(1) by (simp add: quiet_def counts_agent_def)
      then show ?thesis
        using assms(2) st False it Some v ok one_call_quiet(2) [OF call ok(1)] one_call_quiet(2)
        by (cases v) (auto simp: loop_body_def)
    qed
  qed
qed

lemma loop_reaches_counts:
  assumes "loop_reaches env cfg run s0 i s" and "counts_agent env n" and "ls_durations s0 = []"
  shows "1 \<le> i \<and> (i = 1 \<or> i \<le> lc_max_iterations cfg + 1) \<and> length (ls_durations s) = nat (i - 1) \<and>
         n (ls_world s) = n (ls_world s0) + nat (i - 1)"
  using assms(1)
proof (induction rule: loop_reaches.induct)
  case first
  then show ?case using assms(3) by simp
next
  case (again_body i s s')
  then have "Suc (nat (i - 1)) = nat (i + 1 - 1)" by auto
  then show ?case using again_body loop_body_counts [OF assms(2) again_body.hyps(3)] by (simp add: one_call_def)
qed

lemma loop_start_counts:
  assumes "counts_agent env n" and "loop_start env cfg interactive w = x"
  shows "case x of
           Inl (r, s) \<Rightarrow> lr_iterations r = 0 \<and> ls_durations s = [] \<and> n (ls_world s) = n w
         | Inr (run, s) \<Rightarrow> ls_durations s = [] \<and> n (ls_world s) = n w"
proof -
  obtain refusal w1 where c: "checkout_stage env cfg (le_is_repo env w) w = (refusal, w1)"
    by (cases "checkout_stage env cfg (le_is_repo env w) w")
  have co: "n (snd (le_checkout env b w)) = n w" "n (snd (le_clock env w)) = n w" for b w
    using assms(1) by (simp_all add: counts_agent_def)
  have w1: "n w1 = n w" "case refusal of None \<Rightarrow> True | Some r \<Rightarrow> lr_iterations r = 0"
    using c co(1) by (auto simp: checkout_stage_def loop_result_of_def split: if_splits option.splits prod.splits) (metis snd_conv)+
  have "n w2 = n w" if "le_clock env w1 = (t, w2)" for t w2 using that co(2) w1(1) by (metis snd_conv)
  then show ?thesis
    using assms(2) c w1
    by (auto simp: loop_start_def first_state_def guard_setup_def loop_result_of_def Let_def split: option.splits prod.splits sum.splits if_splits)
qed

text \<open>C25: a run calls its agent at most as often as it has iterations, whatever the agent, the person and
  git answer; the calls are the iterations it timed, and the number a result gives is theirs.\<close>

theorem run_loop_agent_calls:
  assumes "counts_agent env n" and "run_loop env cfg interactive w = (e, s')"
  shows "length (ls_durations s') \<le> nat (lc_max_iterations cfg) \<and>
         n (ls_world s') = n w + length (ls_durations s') \<and>
         (case e of Agent_Raised \<Rightarrow> True | Returned r \<Rightarrow> nat (lr_iterations r) = length (ls_durations s'))"
proof (cases "loop_start env cfg interactive w")
  case (Inl rs)
  then show ?thesis
    using assms(2) loop_start_counts [OF assms(1) Inl] by (cases rs) (auto simp: run_loop_def)
next
  case (Inr rs)
  obtain run s0 where rs: "rs = (run, s0)" by (cases rs)
  have s0: "ls_durations s0 = []" "n (ls_world s0) = n w" using loop_start_counts [OF assms(1) Inr] rs by simp_all
  obtain j t where reach: "loop_reaches env cfg run s0 j t" and ends: "loop_ends env cfg run j t e s'"
    using run_loop_ends [OF assms(2)] Inr rs by blast
  have at: "1 \<le> j \<and> (j = 1 \<or> j \<le> lc_max_iterations cfg + 1) \<and> length (ls_durations t) = nat (j - 1) \<and>
      n (ls_world t) = n w + nat (j - 1)"
    using loop_reaches_counts [OF reach assms(1) s0(1)] s0(2) by simp
  from ends show ?thesis
  proof (cases rule: loop_ends.cases)
    case by_body
    then show ?thesis
      using at loop_body_counts [OF assms(1) by_body(2)]
      by (cases e) (auto simp: one_call_def quiet_def)
  next
    case by_max
    then obtain r where r: "e = Returned r" "quiet n t s'" "lr_iterations r = lc_max_iterations cfg"
      using result_now_quiet [OF assms(1)] by (auto simp: max_iterations_result_def split: prod.splits)
    then show ?thesis using at by_max(1) by (auto simp: quiet_def)
  qed
qed

section \<open>Completion\<close>

definition guard_lets_pass :: "'w loop_env \<Rightarrow> loop_config \<Rightarrow> loop_run \<Rightarrow> 'w loop_state \<Rightarrow> bool" where
  "guard_lets_pass env cfg run s =
     (lc_allowed cfg = [] \<or> \<not> rn_is_repo run \<or> gr_ok (enforce_allowed_paths (guard_inputs_now env cfg run s)))"

lemma guard_verdict_None: "guard_verdict env cfg run i s = (None, s') \<Longrightarrow> guard_lets_pass env cfg run s"
  by (auto simp: guard_verdict_def guard_lets_pass_def Let_def split: if_splits prod.splits)

lemma or_else_Some: "or_else v f = (Some r, s') \<longleftrightarrow> v = (Some r, s') \<or> (\<exists>t. v = (None, t) \<and> f t = (Some r, s'))"
  by (cases v; cases "fst v") (auto simp: or_else_def)

lemma or_else_None: "or_else v f = (None, s') \<longleftrightarrow> (\<exists>t. v = (None, t) \<and> f t = (None, s'))"
  by (cases v; cases "fst v") (auto simp: or_else_def)

lemma result_now_completed: "result_now env run b i c u s = (r, s') \<Longrightarrow> lr_completed r = b \<and> lr_exit_code r = c"
  by (auto simp: result_now_def loop_result_of_def split: prod.splits)

lemma guard_not_completed: "guard_verdict env cfg run i s = (Some r, s') \<Longrightarrow> \<not> lr_completed r"
  by (auto simp: guard_verdict_def Let_def split: if_splits prod.splits dest!: result_now_completed)

lemma budget_not_completed: "budget_verdict env cfg run i u s = (Some r, s') \<Longrightarrow> \<not> lr_completed r"
  by (auto simp: budget_verdict_def split: option.splits prod.splits dest!: result_now_completed)

lemma breaker_not_completed: "breaker_verdict env run i s = (Some r, s') \<Longrightarrow> \<not> lr_completed r"
  by (auto simp: breaker_verdict_def Let_def split: if_splits prod.splits dest!: result_now_completed)

lemma wall_clock_not_completed: "wall_clock_verdict env cfg run i s = (Some r, s') \<Longrightarrow> \<not> lr_completed r"
  by (auto simp: wall_clock_verdict_def loop_result_of_def Let_def split: if_splits prod.splits)

lemma pause_not_completed: "pause_verdict env i s = (Some r, s') \<Longrightarrow> \<not> lr_completed r"
  by (auto simp: pause_verdict_def loop_result_of_def Let_def split: if_splits prod.splits)

lemmas not_completed =
  guard_not_completed budget_not_completed breaker_not_completed wall_clock_not_completed pause_not_completed

lemma verdict_completed:
  assumes "iteration_verdict env cfg run i out s = (Some r, s')" and "lr_completed r"
  shows "io_completed out \<and> guard_lets_pass env cfg run s \<and> lr_exit_code r = 0"
proof -
  obtain t where g: "guard_verdict env cfg run i s = (None, t)"
      and rest: "or_else (completion_verdict env run i (io_completed out) t) (\<lambda>s2.
        or_else (budget_verdict env cfg run i (io_usage out) s2) (\<lambda>s3.
        or_else (breaker_verdict env run i s3) (\<lambda>s4.
        or_else (wall_clock_verdict env cfg run i s4) (pause_verdict env i)))) = (Some r, s')"
    using assms guard_not_completed
    unfolding iteration_verdict_def or_else_Some [of "guard_verdict env cfg run i s"] by blast
  have "completion_verdict env run i (io_completed out) t = (Some r, s')"
    using rest assms(2) unfolding or_else_Some by (auto dest: not_completed)
  then have "io_completed out" "lr_exit_code r = 0"
    by (auto simp: completion_verdict_def split: if_splits prod.splits dest: result_now_completed)
  then show ?thesis using guard_verdict_None [OF g] by blast
qed

text \<open>C26: a run is completed only by an iteration whose agent printed the completion marker on a line of its
  own and whose tree passed the scope guard afterwards; a marker printed beside an out-of-scope
  edit does not complete it.\<close>

theorem completed_behind_guard:
  assumes "run_loop env cfg interactive w = (Returned r, s')" and "lr_completed r"
  shows "\<exists>run s0 i s t out. loop_start env cfg interactive w = Inr (run, s0) \<and> loop_reaches env cfg run s0 i s \<and>
           run_one_iteration env cfg run i (snd (stop_requested env s)) = (Some out, t) \<and>
           io_completed out \<and> guard_lets_pass env cfg run t \<and> lr_exit_code r = 0"
proof (cases "loop_start env cfg interactive w")
  case (Inl rs)
  then show ?thesis
    using assms by (auto simp: run_loop_def loop_start_def checkout_stage_def guard_setup_def loop_result_of_def Let_def
        split: option.splits prod.splits sum.splits if_splits)
next
  case (Inr rs)
  obtain run s0 where rs: "rs = (run, s0)" by (cases rs)
  obtain j t where reach: "loop_reaches env cfg run s0 j t" and ends: "loop_ends env cfg run j t (Returned r) s'"
    using run_loop_ends [OF assms(1)] Inr rs by blast
  have not_max: "max_iterations_result env cfg run t \<noteq> (Returned r, s')"
    using assms(2) by (auto simp: max_iterations_result_def split: prod.splits dest: result_now_completed)
  then have body: "loop_body env cfg run j t = (Some (Returned r), s')" using ends by (auto elim: loop_endsE)
  obtain stop s1 where st: "stop_requested env t = (stop, s1)" by (cases "stop_requested env t")
  obtain out s2 where it: "run_one_iteration env cfg run j s1 = (out, s2)" by (cases "run_one_iteration env cfg run j s1")
  have "\<not> stop" using body st assms(2) by (auto simp: loop_body_def split: prod.splits dest: result_now_completed)
  then obtain out1 where out: "out = Some out1" "iteration_verdict env cfg run j out1 s2 = (Some r, s')"
    using body st it by (auto simp: loop_body_def split: option.splits prod.splits)
  then show ?thesis
    using verdict_completed [OF out(2) assms(2)] Inr rs reach st it by (metis snd_conv)
qed

section \<open>Going on\<close>

text \<open>a run goes on after an iteration only if nobody asked it to stop, the agent returned without the
  completion marker, the guard passed, no configured ceiling was reached by what the run reported so
  far, the breaker did not trip, and time is left; so no iteration starts past any limit.\<close>

theorem goes_on_within_limits:
  assumes "loop_body env cfg run i s = (None, s')"
  shows "\<exists>s1 out t. stop_requested env s = (False, s1) \<and> run_one_iteration env cfg run i s1 = (Some out, t) \<and>
           \<not> io_completed out \<and> guard_lets_pass env cfg run t \<and>
           (case lc_budget cfg of None \<Rightarrow> True
            | Some b \<Rightarrow> \<not> token_ceiling_reached b (io_usage out) \<and> \<not> cost_ceiling_reached b (io_usage out)) \<and>
           (let w = ls_world (snd (guard_verdict env cfg run i t))
            in record_iteration (ls_breaker t) (le_fingerprint env w) = (False, ls_breaker s') \<and>
               (lc_component_total cfg \<le> 0 \<or> fst (le_clock env w) - rn_start run < lc_component_total cfg))"
proof -
  obtain stop s1 where st: "stop_requested env s = (stop, s1)" by (cases "stop_requested env s")
  obtain out t where it: "run_one_iteration env cfg run i s1 = (out, t)" by (cases "run_one_iteration env cfg run i s1")
  have "\<not> stop" using assms st by (auto simp: loop_body_def split: prod.splits)
  then obtain out1 s6 where out: "out = Some out1" "iteration_verdict env cfg run i out1 t = (None, s6)"
      "s' = (if i < lc_max_iterations cfg then s6\<lparr>ls_world := le_sleep env (ls_world s6)\<rparr> else s6)"
    using assms st it by (auto simp: loop_body_def split: option.splits prod.splits)
  then obtain t1 t2 t3 t4 t5 where steps: "guard_verdict env cfg run i t = (None, t1)"
      "completion_verdict env run i (io_completed out1) t1 = (None, t2)"
      "budget_verdict env cfg run i (io_usage out1) t2 = (None, t3)"
      "breaker_verdict env run i t3 = (None, t4)" "wall_clock_verdict env cfg run i t4 = (None, t5)"
      "pause_verdict env i t5 = (None, s6)"
    unfolding iteration_verdict_def or_else_None by blast
  have same: "ls_breaker t3 = ls_breaker t" "ls_world t3 = ls_world t1"
    using steps(1-3) by (auto simp: guard_verdict_def completion_verdict_def budget_verdict_def Let_def
        split: if_splits prod.splits option.splits)
  have t4: "t4 = t3\<lparr>ls_breaker := ls_breaker t4\<rparr>"
      "record_iteration (ls_breaker t) (le_fingerprint env (ls_world t1)) = (False, ls_breaker t4)"
    using steps(4) same by (auto simp: breaker_verdict_def Let_def split: if_splits prod.splits)
  have "ls_breaker s' = ls_breaker t4"
    using steps(5,6) out(3) by (auto simp: wall_clock_verdict_def pause_verdict_def read_clock_def Let_def
        split: if_splits prod.splits)
  then have breaker: "record_iteration (ls_breaker t) (le_fingerprint env (ls_world t1)) = (False, ls_breaker s')"
    using t4(2) by simp
  have world4: "ls_world t4 = ls_world t1" using t4(1) same(2) by (metis loop_state.select_convs(1) loop_state.surjective loop_state.update_convs(6))
  have open_run: "\<not> io_completed out1"
    using steps(2) by (auto simp: completion_verdict_def split: if_splits prod.splits)
  have budget: "case lc_budget cfg of None \<Rightarrow> True
      | Some b \<Rightarrow> \<not> token_ceiling_reached b (io_usage out1) \<and> \<not> cost_ceiling_reached b (io_usage out1)"
  proof (cases "lc_budget cfg")
    case (Some b)
    then have "halt_verdict b (io_usage out1) = None"
      using steps(3) by (simp add: budget_verdict_def split: option.splits prod.splits)
    then show ?thesis using halt_verdict_breached [of b "io_usage out1"] Some by simp
  qed simp
  have clock: "lc_component_total cfg \<le> 0 \<or> fst (le_clock env (ls_world t1)) - rn_start run < lc_component_total cfg"
    using steps(5) world4 by (auto simp: wall_clock_verdict_def read_clock_def Let_def not_less split: if_splits prod.splits)
  have t1: "snd (guard_verdict env cfg run i t) = t1" using steps(1) by simp
  show ?thesis
    by (rule exI [of _ s1], rule exI [of _ out1], rule exI [of _ t], unfold t1 Let_def, intro conjI)
      (use st it out(1) \<open>\<not> stop\<close> guard_verdict_None [OF steps(1)] breaker open_run budget clock in \<open>auto simp only: simp_thms\<close>)
qed

section \<open>Time\<close>

text \<open>while the component has time left when an iteration starts, the agent's deadline is never later
  than that time's end nor than the limit of one iteration.\<close>

theorem deadline_within_budget:
  assumes "iter_start - began < component_total" and "0 < component_total"
  shows "\<exists>d. agent_deadline iter_start (iteration_timeout agent_iteration component_total iter_start began) = Some d \<and>
           d \<le> began + component_total \<and> (agent_iteration \<le> 0 \<or> d \<le> iter_start + agent_iteration) \<and>
           iter_start < d"
  using assms by (auto simp: agent_deadline_def iteration_timeout_def Let_def min_def)

theorem deadline_within_budget_witness:
  "agent_deadline 100 (iteration_timeout 60 120 100 10) = Some 130"
proof -
  obtain d where d: "agent_deadline 100 (iteration_timeout 60 120 100 10) = Some d" "d \<le> 10 + 120" "100 < d"
    using deadline_within_budget [of 100 10 120 60] by auto
  moreover have "iteration_timeout 60 120 100 10 = Some 30" by (simp add: iteration_timeout_def Let_def)
  ultimately show ?thesis by (simp add: agent_deadline_def)
qed

text \<open>But the wall clock is judged before the pause and the sleep between iterations: an iteration that
  starts after its component's time is up is given a limit that sets no deadline at all.\<close>

lemma spent_time_sets_no_deadline:
  "0 < component_total \<Longrightarrow> component_total \<le> iter_start - began \<Longrightarrow>
     agent_deadline t (iteration_timeout agent_iteration component_total iter_start began) = None"
  by (auto simp: agent_deadline_def iteration_timeout_def Let_def min_def)

section \<open>A concrete run\<close>

text \<open>The world is the clock and the number of calls; the third call prints the marker.\<close>

definition demo_env :: "(rat \<times> nat) loop_env" where
  "demo_env =
     \<lparr>le_is_repo = (\<lambda>_. True), le_prd = (\<lambda>_. None), le_checkout = (\<lambda>_ w. (True, w)), le_base = (\<lambda>_. None),
      le_head = (\<lambda>_. Some ''abc''), le_fingerprint = (\<lambda>(_, k). Some (nat_text k)), le_clock = (\<lambda>(t, k). (t, (t, k))),
      le_stop = None,
      le_agent = (\<lambda>_ _ (t, k). (\<lparr>ag_lines = (if k = 2 then [completion_marker] else []), ag_final = None, ag_raised = False\<rparr>,
        (t + 10, Suc k))),
      le_records = (\<lambda>(_, k). Records (replicate k (demo_record 40))), le_publish = (\<lambda>_ w. w),
      le_run_fast_checks = (\<lambda>w. (verdict_of [] [], w)),
      le_guard = (\<lambda>_. demo_guard\<lparr>gd_is_repo := False\<rparr>), le_guard_acts = (\<lambda>_ w. w), le_can_prompt = (\<lambda>_. False),
      le_ask = (\<lambda>w. (None, w)), le_sleep = (\<lambda>(t, k). (t + 2, k))\<rparr>"

definition demo_limits :: loop_budget where
  "demo_limits =
     \<lparr>lb_max_tokens = 100, lb_prior_tokens = 0, lb_prior_known_calls = 0, lb_prior_calls = 0, lb_prior_token_calls = 0,
      lb_max_cost = 0, lb_prior_cost = 0, lb_prior_cost_calls = 0\<rparr>"

definition demo_config :: "int \<Rightarrow> loop_config" where
  "demo_config most =
     \<lparr>lc_max_iterations = most, lc_allowed = [], lc_auto_checkout = False, lc_branch = None, lc_branch_explicit = False,
      lc_agent_timeout = 60, lc_component_total = 600, lc_breaker_limit = 3, lc_budget = Some demo_limits, lc_ignored = [],
      lc_context_prefix = None, lc_body = ''do it'', lc_fast_checks = False, lc_state_root = None, lc_bus = False\<rparr>"

lemma demo_env_counts: "counts_agent demo_env snd"
  by (simp add: counts_agent_def demo_env_def case_prod_unfold)

theorem run_loop_agent_calls_witness:
  "snd (ls_world (snd (run_loop demo_env (demo_config 5) False (0, 0)))) \<le> 5"
proof -
  obtain e s' where run: "run_loop demo_env (demo_config 5) False (0, 0) = (e, s')"
    by (cases "run_loop demo_env (demo_config 5) False (0, 0)")
  show ?thesis using run_loop_agent_calls [OF demo_env_counts run] run by (simp add: demo_config_def)
qed

lemma demo_loop_start:
  "loop_start demo_env (demo_config most) False (t, k) =
     Inr (\<lparr>rn_is_repo = True, rn_ignored = [], rn_baseline = None, rn_start = t\<rparr>,
          first_state demo_env (demo_config most) False (t, k))"
  by (simp add: loop_start_def checkout_stage_def guard_setup_def demo_env_def demo_config_def Let_def)

lemma strip_marker: "strip completion_marker = completion_marker"
  by (simp add: strip_def completion_marker_def is_space_def)

text \<open>Started where the third call is next, the run completes in its first iteration.\<close>

theorem completed_behind_guard_witness:
  "\<exists>i s t out. loop_reaches demo_env (demo_config 5)
       \<lparr>rn_is_repo = True, rn_ignored = [], rn_baseline = None, rn_start = 0\<rparr>
       (first_state demo_env (demo_config 5) False (0, 2)) i s \<and>
     run_one_iteration demo_env (demo_config 5) \<lparr>rn_is_repo = True, rn_ignored = [], rn_baseline = None, rn_start = 0\<rparr> i
       (snd (stop_requested demo_env s)) = (Some out, t) \<and> io_completed out"
proof -
  let ?run = "\<lparr>rn_is_repo = True, rn_ignored = [], rn_baseline = None, rn_start = 0\<rparr>"
  let ?s0 = "first_state demo_env (demo_config 5) False (0, 2)"
  have "\<exists>r s'. loop_body demo_env (demo_config 5) ?run 1 ?s0 = (Some (Returned r), s') \<and> lr_completed r"
    by (simp add: loop_body_def stop_requested_def run_one_iteration_def agent_call_def measure_iteration_def
        close_iteration_def read_clock_def emit_event_def fast_iteration_reading_def iteration_verdict_def or_else_def
        guard_verdict_def completion_verdict_def result_now_def loop_result_of_def marker_seen_def strip_marker
        demo_env_def demo_config_def first_state_def Let_def)
  then obtain r s' where "loop_body demo_env (demo_config 5) ?run 1 ?s0 = (Some (Returned r), s')" "lr_completed r" by blast
  moreover from this(1) have "run_loop demo_env (demo_config 5) False (0, 2) = (Returned r, s')"
    by (simp add: run_loop_def demo_loop_start loop_from.simps [of _ _ _ 1]) (simp add: demo_config_def)
  ultimately show ?thesis using completed_behind_guard [of demo_env "demo_config 5" False "(0, 2)" r s'] by (auto simp: demo_loop_start)
qed

text \<open>After the first call the run is within its ceiling and goes on.\<close>

theorem goes_on_within_limits_witness:
  "\<exists>out t. run_one_iteration demo_env (demo_config 5)
       \<lparr>rn_is_repo = True, rn_ignored = [], rn_baseline = None, rn_start = 0\<rparr> 1
       (first_state demo_env (demo_config 5) False (0, 0)) = (Some out, t) \<and>
     \<not> token_ceiling_reached demo_limits (io_usage out)"
proof -
  let ?run = "\<lparr>rn_is_repo = True, rn_ignored = [], rn_baseline = None, rn_start = 0\<rparr>"
  let ?s0 = "first_state demo_env (demo_config 5) False (0, 0)"
  have usage: "collect_usage (Records [demo_record 40]) 0 = no_usage
      \<lparr>ut_calls := 1, ut_known_calls := 1, ut_token_calls := 1, ut_total := 40, ut_duration := 2\<rparr>"
    by (simp add: collect_usage_def add_record_def token_fields_def read_int_def read_float_def Let_def
        demo_record_def no_usage_def bump_def)
  have "halt_verdict demo_limits (collect_usage (Records [demo_record 40]) 0) = None"
    by (simp add: usage halt_verdict_def demo_limits_def budget_enabled_def token_enabled_def cost_enabled_def
        tokens_dead_def no_usage_def)
  then have "\<exists>s'. loop_body demo_env (demo_config 5) ?run 1 ?s0 = (None, s')"
    by (simp add: loop_body_def stop_requested_def run_one_iteration_def agent_call_def measure_iteration_def
        close_iteration_def read_clock_def emit_event_def fast_iteration_reading_def iteration_verdict_def or_else_def
        guard_verdict_def completion_verdict_def budget_verdict_def breaker_verdict_def wall_clock_verdict_def
        pause_verdict_def marker_seen_def reply_timed_out_def record_iteration_def breaker_enabled_def new_breaker_def
        demo_env_def demo_config_def first_state_def Let_def nat_text.simps)
  then obtain s' where "loop_body demo_env (demo_config 5) ?run 1 ?s0 = (None, s')" by blast
  from goes_on_within_limits [OF this] show ?thesis by (auto simp: stop_requested_def demo_env_def demo_config_def)
qed

end
