(* ===== verification/Stack.thy ===== *)
theory Stack
  imports Waivers
begin

text \<open>
  \<open>kstrl/project/stack.py\<close>: the \<open>[stack]\<close> of a project, what makes a table usable, and the rule that
  its commands run only while the newest approval of the inbox names its exact text. \<open>digest\<close> is the
  sha256 of the canonical JSON of an object. Messages are constructors.
\<close>

section \<open>The table\<close>

definition stack_keys :: "string list" where
  "stack_keys = [''instructions'', ''setup'', ''checks'', ''env'']"

definition stack_rung_keys :: "string list" where
  "stack_rung_keys = [''writable'', ''readable'', ''browser'']"

definition stack_all_keys :: "string list" where
  "stack_all_keys = stack_keys @ stack_rung_keys @ [''up'']"

definition secret_name_fragments :: "string list" where
  "secret_name_fragments = [''API_KEY'', ''SECRET'', ''TOKEN'', ''PASSWORD'', ''CREDENTIAL'']"

definition kstrl_env_prefix :: string where "kstrl_env_prefix = ''KSTRL_''"

definition env_name :: "string \<Rightarrow> bool" where
  "env_name s =
     (s \<noteq> [] \<and> (is_lower_ascii (hd s) \<or> is_upper_ascii (hd s) \<or> hd s = CHR ''_'') \<and>
      list_all (\<lambda>c. is_lower_ascii c \<or> is_upper_ascii c \<or> is_digit_ascii c \<or> c = CHR ''_'') (tl s))"

datatype stack_problem =
    Unknown_Key string | Missing_Key string | Bad_Instructions json | Bad_Setup json
  | Checks_Not_Table json | No_Checks | Bad_Check string json
  | Env_Not_List json | Env_Not_Name nat json | Env_Secret nat string | Env_Own nat string
  | Paths_Not_List string json | Bad_Path string nat json | Bad_Up json | Bad_Browser json

definition nonempty_text :: "json \<Rightarrow> bool" where
  "nonempty_text v = (is_jstr v \<and> \<not> blank (jstr_of v))"

definition env_name_problems :: "nat \<Rightarrow> json \<Rightarrow> stack_problem list" where
  "env_name_problems index v =
     (let name = jstr_of v
      in if \<not> is_jstr v \<or> \<not> env_name name then [Env_Not_Name index v]
         else if list_ex (\<lambda>f. contains_sub (map upper_char name) f) secret_name_fragments
         then [Env_Secret index name]
         else if startswith name kstrl_env_prefix then [Env_Own index name]
         else [])"

definition env_errors :: "json \<Rightarrow> stack_problem list" where
  "env_errors v =
     (case v of
        JList vs \<Rightarrow> concat (map (\<lambda>(i, x). env_name_problems i x) (enumerate 0 vs))
      | _ \<Rightarrow> [Env_Not_List v])"

definition paths_errors :: "string \<Rightarrow> json \<Rightarrow> stack_problem list" where
  "paths_errors key v =
     (case v of
        JList vs \<Rightarrow>
          concat (map (\<lambda>(i, x). if nonempty_text x then [] else [Bad_Path key i x]) (enumerate 0 vs))
      | _ \<Rightarrow> [Paths_Not_List key v])"

definition checks_errors :: "json \<Rightarrow> stack_problem list" where
  "checks_errors v =
     (case v of
        JObj kvs \<Rightarrow>
          (if kvs = [] then [No_Checks]
           else concat (map (\<lambda>(name, command). if nonempty_text command then [] else [Bad_Check name command]) kvs))
      | _ \<Rightarrow> [Checks_Not_Table v])"

text \<open>The complaint about a key that is there.\<close>

definition when_present :: "json_object \<Rightarrow> string \<Rightarrow> (json \<Rightarrow> stack_problem list) \<Rightarrow> stack_problem list" where
  "when_present raw key f = (case map_of raw key of None \<Rightarrow> [] | Some v \<Rightarrow> f v)"

definition stack_errors :: "json_object \<Rightarrow> stack_problem list" where
  "stack_errors raw =
     map Unknown_Key (filter (\<lambda>k. k \<notin> set stack_all_keys) (jkeys raw)) @
     map Missing_Key (filter (\<lambda>k. k \<notin> set (jkeys raw)) stack_keys) @
     when_present raw ''instructions'' (\<lambda>v. if nonempty_text v then [] else [Bad_Instructions v]) @
     when_present raw ''setup'' (\<lambda>v. if is_jstr v then [] else [Bad_Setup v]) @
     when_present raw ''checks'' checks_errors @
     when_present raw ''env'' env_errors @
     concat (map (\<lambda>k. paths_errors k (jget raw k (JList []))) [''writable'', ''readable'']) @
     (let v = jget raw ''up'' (JStr []) in if is_jstr v then [] else [Bad_Up v]) @
     (case jget raw ''browser'' (JBool False) of JBool _ \<Rightarrow> [] | v \<Rightarrow> [Bad_Browser v])"

section \<open>The stack\<close>

datatype record_problem =
    Not_An_Item | Other_Kind item_kind | Bad_Digest json | Key_Not_Digest string | Unknown_Replay json

datatype decision_fault =
    Log_Unreadable | Skipped_Lines nat | Bad_Record nat "record_problem list"

datatype stack_refusal =
    Not_Checked
  | Config_Unreadable
  | Inbox_Off
  | Decision_Unreadable decision_fault
  | No_Approval_Names string
  | Withdrawn string decision_status string string
  | Replay_Failed string string
  | Changed_Since string string string string

record stack =
  sk_instructions :: string
  sk_setup :: string
  sk_checks :: "(string \<times> string) list"
  sk_env :: "string list"
  sk_writable :: "string list"
  sk_readable :: "string list"
  sk_browser :: bool
  sk_up :: string
  sk_unconfirmed :: "stack_refusal option"
  sk_confirmed_by :: string

definition check_names :: "stack \<Rightarrow> string list" where
  "check_names s = map fst (sk_checks s)"

definition stack_payload :: "stack \<Rightarrow> json_object" where
  "stack_payload s =
     [(''instructions'', JStr (sk_instructions s)), (''setup'', JStr (sk_setup s)),
      (''checks'', JList (map (\<lambda>(n, c). JList [JStr n, JStr c]) (sk_checks s))),
      (''env'', JList (map JStr (sk_env s))), (''writable'', JList (map JStr (sk_writable s))),
      (''readable'', JList (map JStr (sk_readable s))), (''browser'', JBool (sk_browser s)),
      (''up'', JStr (sk_up s))]"

definition stack_digest :: "digest \<Rightarrow> stack \<Rightarrow> string" where
  "stack_digest digest s = digest (stack_payload s)"

text \<open>A table without errors holds strings, lists of strings and a table of strings.\<close>

definition strings_of :: "json \<Rightarrow> string list" where
  "strings_of v = (case v of JList vs \<Rightarrow> map jstr_of vs | _ \<Rightarrow> [])"

definition stack_from_table :: "json_object \<Rightarrow> stack" where
  "stack_from_table raw =
     \<lparr>sk_instructions = jstr_of (jget raw ''instructions'' (JStr [])),
      sk_setup = jstr_of (jget raw ''setup'' (JStr [])),
      sk_checks = map (\<lambda>(n, c). (n, jstr_of c)) (object_of (jget raw ''checks'' (JObj []))),
      sk_env = strings_of (jget raw ''env'' (JList [])),
      sk_writable = strings_of (jget raw ''writable'' (JList [])),
      sk_readable = strings_of (jget raw ''readable'' (JList [])),
      sk_browser = (jget raw ''browser'' (JBool False) = JBool True),
      sk_up = jstr_of (jget raw ''up'' (JStr [])), sk_unconfirmed = Some Not_Checked,
      sk_confirmed_by = []\<rparr>"

text \<open>\<open>document\<close> is kstrl.toml, \<open>None\<close> where there is no such file; \<open>stack\<close> in it is a table.\<close>

definition load_stack :: "json_object option \<Rightarrow> stack_problem list + stack option" where
  "load_stack document =
     (case document of
        None \<Rightarrow> Inr None
      | Some doc \<Rightarrow>
          (case map_of doc ''stack'' of
             None \<Rightarrow> Inr None
           | Some table \<Rightarrow>
               (let raw = object_of table; errors = stack_errors raw
                in if errors \<noteq> [] then Inl errors else Inr (Some (stack_from_table raw)))))"

section \<open>Replay records\<close>

definition replay_boundary_refused :: string where "replay_boundary_refused = ''boundary_refused''"

definition replay_stages :: "string list" where
  "replay_stages = [replay_boundary_refused, ''up_timeout'', ''check_not_runnable'', ''base_contradiction'']"

definition replay_stages_with_exit :: "string list" where
  "replay_stages_with_exit = [''setup_failed'', ''up_failed'']"

definition replay_failure_known :: "json \<Rightarrow> bool" where
  "replay_failure_known v =
     (case v of
        JStr failed \<Rightarrow>
          (if CHR '':'' \<in> set failed
           then takeWhile (\<lambda>c. c \<noteq> CHR '':'') failed \<in> set replay_stages_with_exit \<and>
                tl (dropWhile (\<lambda>c. c \<noteq> CHR '':'') failed) \<noteq> []
           else failed = [] \<or> failed \<in> set replay_stages)
      | _ \<Rightarrow> False)"

definition replay_refuses :: "string \<Rightarrow> bool" where
  "replay_refuses failed = (failed \<notin> {[], replay_boundary_refused})"

definition replay_decides :: "(json \<Rightarrow> string) \<Rightarrow> json_object \<Rightarrow> bool" where
  "replay_decides rep replay =
     (let failed = py_str rep (jget replay ''failed'' (JStr []))
      in replay_refuses failed \<or> \<not> (failed \<noteq> [] \<or> truthy (jget replay ''error'' JNull)))"

section \<open>The newest approval\<close>

definition stack_key :: string where "stack_key = ''stack:''"

definition stack_dedupe_key :: "string \<Rightarrow> string" where
  "stack_dedupe_key d = stack_key @ d"

definition is_stack_record :: "(json \<Rightarrow> string) \<Rightarrow> json_object \<Rightarrow> bool" where
  "is_stack_record rep record =
     (map_of record ''kind'' = Some (JStr (kind_value STACK_CONFIRMATION)) \<or>
      startswith (py_str rep (jget record ''dedupe_key'' (JStr []))) stack_key)"

definition replay_problems :: "json \<Rightarrow> record_problem list" where
  "replay_problems v =
     (case v of
        JNull \<Rightarrow> []
      | JObj replay \<Rightarrow> (if replay_failure_known (jget replay ''failed'' JNull) then [] else [Unknown_Replay v])
      | _ \<Rightarrow> [Unknown_Replay v])"

definition stack_item_problems :: "inbox_item \<Rightarrow> record_problem list" where
  "stack_item_problems i =
     (if ii_kind i \<noteq> STACK_CONFIRMATION then [Other_Kind (ii_kind i)] else []) @
     (let d = evidence_get i ''stack_digest''
      in if \<not> is_jstr d \<or> \<not> hex64 (jstr_of d) then [Bad_Digest d]
         else if ii_dedupe_key i \<noteq> stack_dedupe_key (jstr_of d) then [Key_Not_Digest (ii_dedupe_key i)]
         else []) @
     replay_problems (evidence_get i ''replay'')"

definition record_errors :: "(json \<Rightarrow> string) \<Rightarrow> json_object \<Rightarrow> record_problem list" where
  "record_errors rep record =
     (case item_from_dict rep record of None \<Rightarrow> [Not_An_Item] | Some i \<Rightarrow> stack_item_problems i)"

record approval_fold =
  af_folded :: "(string, inbox_item) dict"
  af_replays :: "(string, string) dict"
  af_newest :: string

definition no_decisions :: approval_fold where
  "no_decisions = \<lparr>af_folded = [], af_replays = [], af_newest = []\<rparr>"

definition fold_replay :: "(json \<Rightarrow> string) \<Rightarrow> inbox_item \<Rightarrow> (string, string) dict \<Rightarrow> (string, string) dict" where
  "fold_replay rep i replays =
     (case evidence_get i ''replay'' of
        JObj replay \<Rightarrow>
          (if replay_decides rep replay
           then dict_set replays (evidence_string i ''stack_digest'') (jstr_of (jget replay ''failed'' JNull))
           else replays)
      | _ \<Rightarrow> replays)"

definition fold_decision :: "(json \<Rightarrow> string) \<Rightarrow> inbox_item \<Rightarrow> approval_fold \<Rightarrow> approval_fold" where
  "fold_decision rep i a =
     \<lparr>af_folded = dict_set (af_folded a) (ii_id i) i, af_replays = fold_replay rep i (af_replays a),
      af_newest = (if ii_status i = APPROVED then ii_id i else af_newest a)\<rparr>"

fun fold_decisions ::
    "(json \<Rightarrow> string) \<Rightarrow> nat \<Rightarrow> json_object list \<Rightarrow> approval_fold \<Rightarrow> decision_fault + approval_fold" where
  "fold_decisions rep position [] a = Inr a"
| "fold_decisions rep position (r # rs) a =
     (if \<not> is_stack_record rep r then fold_decisions rep (position + 1) rs a
      else if record_errors rep r \<noteq> [] then Inl (Bad_Record (position + 1) (record_errors rep r))
      else
        (case item_from_dict rep r of
           None \<Rightarrow> fold_decisions rep (position + 1) rs a
         | Some i \<Rightarrow> fold_decisions rep (position + 1) rs (fold_decision rep i a)))"

type_synonym latest = "(inbox_item \<times> bool) option \<times> (string, string) dict"

definition latest_of :: "approval_fold \<Rightarrow> latest" where
  "latest_of a =
     (if af_newest a = [] then (None, af_replays a)
      else
        (map_option (\<lambda>i. (i, ii_status i = APPROVED)) (dict_get (af_folded a) (af_newest a)),
         af_replays a))"

definition latest_approval :: "inbox_env \<Rightarrow> inbox_store \<Rightarrow> decision_fault + latest" where
  "latest_approval env st =
     (let s = scan env st
      in if sc_unreadable s then Inl Log_Unreadable
         else if sc_skipped s \<noteq> 0 then Inl (Skipped_Lines (sc_skipped s))
         else and_then (fold_decisions (ie_rep env) 0 (sc_records s) no_decisions) (\<lambda>a. Inr (latest_of a)))"

section \<open>Confirmation\<close>

definition confirmed_this_run :: string where "confirmed_this_run = ''operator''"

definition confirmed_in_inbox :: string where "confirmed_in_inbox = ''inbox''"

text \<open>
  \<open>config\<close> is \<open>None\<close> where loading \<open>[inbox]\<close> raises; \<open>session\<close> holds the digests confirmed at a prompt
  of this process.
\<close>

definition stack_refusal_of ::
    "digest \<Rightarrow> inbox_env \<Rightarrow> inbox_config option \<Rightarrow> string list \<Rightarrow> inbox_store \<Rightarrow> stack \<Rightarrow>
     stack_refusal + string" where
  "stack_refusal_of digest env config session st s =
     (let d = stack_digest digest s
      in case config of
           None \<Rightarrow> Inl Config_Unreadable
         | Some c \<Rightarrow>
             (if \<not> ic_enabled c
              then (if d \<in> set session then Inr confirmed_this_run else Inl Inbox_Off)
              else
                (case latest_approval env st of
                   Inl fault \<Rightarrow> Inl (Decision_Unreadable fault)
                 | Inr (None, _) \<Rightarrow> Inl (No_Approval_Names (take 12 d))
                 | Inr (Some (i, still_approved), replays) \<Rightarrow>
                     (let approved = evidence_string i ''stack_digest''
                      in if \<not> still_approved
                         then Inl (Withdrawn (take 12 approved) (ii_status i) (ii_decided_by i) (ii_decided_at i))
                         else if approved = d
                         then (let failed = (case dict_get replays d of None \<Rightarrow> [] | Some f \<Rightarrow> f)
                               in if replay_refuses failed then Inl (Replay_Failed failed (take 12 approved))
                                  else Inr confirmed_in_inbox)
                         else Inl (Changed_Since (take 12 approved) (ii_decided_by i) (ii_decided_at i) (take 12 d))))))"

datatype stack_error = Stack_Invalid "stack_problem list" | Stack_Refused stack

definition confirmed_stack ::
    "digest \<Rightarrow> inbox_env \<Rightarrow> inbox_config option \<Rightarrow> string list \<Rightarrow> inbox_store \<Rightarrow> json_object option \<Rightarrow>
     stack_error + stack option" where
  "confirmed_stack digest env config session st document =
     (case load_stack document of
        Inl errors \<Rightarrow> Inl (Stack_Invalid errors)
      | Inr None \<Rightarrow> Inr None
      | Inr (Some s) \<Rightarrow>
          (case stack_refusal_of digest env config session st s of
             Inl why \<Rightarrow> Inl (Stack_Refused (s\<lparr>sk_unconfirmed := Some why\<rparr>))
           | Inr how \<Rightarrow> Inr (Some (s\<lparr>sk_unconfirmed := None, sk_confirmed_by := how\<rparr>))))"

definition stack_in_force ::
    "digest \<Rightarrow> inbox_env \<Rightarrow> inbox_config option \<Rightarrow> string list \<Rightarrow> inbox_store \<Rightarrow> json_object option \<Rightarrow>
     stack_problem list + stack option" where
  "stack_in_force digest env config session st document =
     (case confirmed_stack digest env config session st document of
        Inl (Stack_Invalid errors) \<Rightarrow> Inl errors
      | Inl (Stack_Refused s) \<Rightarrow> Inr (Some s)
      | Inr s \<Rightarrow> Inr s)"

definition stack_text_digest :: "digest \<Rightarrow> json_object option option \<Rightarrow> string" where
  "stack_text_digest digest document =
     (case document of
        None \<Rightarrow> []
      | Some doc \<Rightarrow>
          (case load_stack doc of Inr (Some s) \<Rightarrow> stack_digest digest s | _ \<Rightarrow> []))"

section \<open>Filing and deciding\<close>

text \<open>\<open>source\<close> is the path of kstrl.toml, \<open>dump\<close> is \<open>json.dumps\<close>.\<close>

definition stack_evidence :: "digest \<Rightarrow> string \<Rightarrow> stack \<Rightarrow> json_object" where
  "stack_evidence digest source s =
     [(''stack_digest'', JStr (stack_digest digest s)),
      (''stack'', JObj
        [(''instructions'', JStr (sk_instructions s)), (''setup'', JStr (sk_setup s)),
         (''checks'', JList (map (\<lambda>(n, c). JList [JStr n, JStr c]) (sk_checks s))),
         (''env'', JList (map JStr (sk_env s))), (''up'', JStr (sk_up s))]),
      (''source'', JStr source)]"

definition stack_toml :: "(json \<Rightarrow> string) \<Rightarrow> stack \<Rightarrow> string" where
  "stack_toml dump s =
     join_with [newline]
       ([''[stack]'', ''instructions = '' @ dump (JStr (sk_instructions s)), ''setup = '' @ dump (JStr (sk_setup s)),
         ''env = '' @ dump (JList (map JStr (sk_env s))),
         ''writable = '' @ dump (JList (map JStr (sk_writable s))),
         ''readable = '' @ dump (JList (map JStr (sk_readable s))),
         ''browser = '' @ dump (JBool (sk_browser s)), ''up = '' @ dump (JStr (sk_up s)), ''[stack.checks]''] @
        map (\<lambda>(n, c). dump (JStr n) @ '' = '' @ dump (JStr c)) (sk_checks s)) @ [newline]"

definition quoted_command :: "string \<Rightarrow> string" where
  "quoted_command c = ''`'' @ c @ ''`''"

definition filed_checks :: "stack \<Rightarrow> json_object option \<Rightarrow> (json \<Rightarrow> string) \<Rightarrow> string" where
  "filed_checks s replay rep =
     join_with '', '' (map (\<lambda>(n, c). n @ '' '' @ quoted_command c) (sk_checks s)) @
     (if sk_setup s \<noteq> [] then ''; setup '' @ quoted_command (sk_setup s) else ''; no setup'') @
     (if sk_up s \<noteq> [] then ''; up '' @ quoted_command (sk_up s) else []) @ ''.'' @
     (case replay of
        None \<Rightarrow> []
      | Some r \<Rightarrow>
          (let failed = py_str rep (jget r ''failed'' (JStr []))
           in '' Its clean replay '' @ (if failed \<noteq> [] then ''failed at '' @ failed else ''passed'') @ ''.''))"

definition filed_evidence ::
    "digest \<Rightarrow> (json \<Rightarrow> string) \<Rightarrow> string \<Rightarrow> stack \<Rightarrow> json_object option \<Rightarrow> string \<Rightarrow> json_object" where
  "filed_evidence digest dump source s replay proposal =
     stack_evidence digest source s @
     (case replay of None \<Rightarrow> [] | Some r \<Rightarrow> [(''replay'', JObj r)]) @
     (if proposal \<noteq> [] then [(''toml'', JStr (stack_toml dump s))] else [])"

definition filed_title :: "digest \<Rightarrow> stack \<Rightarrow> string \<Rightarrow> string" where
  "filed_title digest s proposal =
     (let d = take 12 (stack_digest digest s)
      in if proposal \<noteq> [] then ''Proposed [stack] '' @ d @ '' from '' @ proposal
         else ''Confirm the [stack] '' @ d @ '' in kstrl.toml'')"

definition filed_detail ::
    "(json \<Rightarrow> string) \<Rightarrow> (json \<Rightarrow> string) \<Rightarrow> stack \<Rightarrow> json_object option \<Rightarrow> string \<Rightarrow> string" where
  "filed_detail rep dump s replay proposal =
     (let checks = filed_checks s replay rep
      in if proposal \<noteq> []
         then ''Proposed from '' @ proposal @ '': '' @ checks @
              '' Nothing runs them until a person adopts them: '' @
              ''write the table below into kstrl.toml as its [stack], in place of any [verify] '' @
              ''command keys, edit it if it is wrong, then confirm it (ks inbox approve <id> '' @
              ''confirms this text unchanged).'' @ [newline, newline] @ stack_toml dump s
         else ''kstrl runs no command of a [stack] a person has not confirmed. Checks, in order: '' @
              checks @ '' ks inbox approve <id> confirms this text; ks inbox reject <id> '' @
              ''--comment ... refuses it.'')"

record stack_io =
  io_digest :: digest
  io_dump :: "json \<Rightarrow> string"
  io_source :: string
  io_inbox :: inbox_env

definition stack_request :: "stack_io \<Rightarrow> stack \<Rightarrow> string \<Rightarrow> json_object option \<Rightarrow> string \<Rightarrow> add_request" where
  "stack_request io s run_id replay proposal =
     \<lparr>ad_kind = STACK_CONFIRMATION, ad_title = filed_title (io_digest io) s proposal,
      ad_detail = filed_detail (ie_rep (io_inbox io)) (io_dump io) s replay proposal, ad_component = [],
      ad_run_id = run_id, ad_dedupe_key = stack_dedupe_key (stack_digest (io_digest io) s),
      ad_evidence = filed_evidence (io_digest io) (io_dump io) (io_source io) s replay proposal,
      ad_priority = None\<rparr>"

datatype filing_error = Filing_Inbox_Off | Filing_Unreadable decision_fault | Filing_Inbox inbox_error

definition file_stack_item ::
    "stack_io \<Rightarrow> inbox_config \<Rightarrow> string \<Rightarrow> stack \<Rightarrow> string \<Rightarrow> json_object option \<Rightarrow> string \<Rightarrow> inbox_store \<Rightarrow>
     filing_error + inbox_store \<times> inbox_item" where
  "file_stack_item io config uuid s run_id replay proposal st =
     (if \<not> ic_enabled config then Inl Filing_Inbox_Off
      else
        (case latest_approval (io_inbox io) st of
           Inl fault \<Rightarrow> Inl (Filing_Unreadable fault)
         | Inr _ \<Rightarrow>
             (case inbox_add (io_inbox io) config uuid (stack_request io s run_id replay proposal) st of
                Inl e \<Rightarrow> Inl (Filing_Inbox e)
              | Inr (st', i, _) \<Rightarrow> Inr (st', i))))"

definition checkpoint_comment :: string where
  "checkpoint_comment = ''decided at the ks factory stack checkpoint''"

text \<open>The new store and the digests confirmed in this process. The clock moves between the two writes.\<close>

definition decide_at_prompt ::
    "stack_io \<Rightarrow> inbox_config \<Rightarrow> string \<Rightarrow> stack \<Rightarrow> bool \<Rightarrow> string \<Rightarrow> int \<Rightarrow> inbox_store \<Rightarrow> string list \<Rightarrow>
     filing_error + inbox_store \<times> string list" where
  "decide_at_prompt io config uuid s confirm actor later st session =
     (if \<not> ic_enabled config
      then Inr (st, if confirm then stack_digest (io_digest io) s # session else session)
      else
        and_then (file_stack_item io config uuid s [] None [] st) (\<lambda>(st1, i).
          let env = (io_inbox io)\<lparr>ie_now := later\<rparr>;
              decided = (if confirm then approve env (ii_id i) actor checkpoint_comment st1
                         else reject env (ii_id i) actor checkpoint_comment st1)
          in case decided of
               Inl e \<Rightarrow> Inl (Filing_Inbox e)
             | Inr (st2, _) \<Rightarrow> Inr (st2, session)))"

section \<open>The commands of before\<close>

definition legacy_check_names :: "(string \<times> string) list" where
  "legacy_check_names =
     [(''test_command'', ''tests''), (''typecheck_command'', ''typecheck''), (''lint_command'', ''lint'')]"

definition proposal_instructions :: string where
  "proposal_instructions =
     ''Proposed by ks doctor from the retired [verify] commands in kstrl.toml. Replace this '' @
     ''with what the project is built with and how to work in it.''"

definition legacy_checks :: "json_object \<Rightarrow> (string \<times> string) list" where
  "legacy_checks verify =
     concat (map (\<lambda>(key, name).
       let v = jget verify key JNull in if nonempty_text v then [(name, jstr_of v)] else [])
       legacy_check_names)"

definition legacy_proposal :: "json_object option \<Rightarrow> stack option" where
  "legacy_proposal document =
     (case document of
        None \<Rightarrow> None
      | Some doc \<Rightarrow>
          (case (map_of doc ''stack'', map_of doc ''verify'') of
             (None, Some (JObj verify)) \<Rightarrow>
               (if legacy_checks verify = [] then None
                else Some
                  \<lparr>sk_instructions = proposal_instructions,
                   sk_setup = jstr_of (jget (object_of (jget doc ''factory'' JNull)) ''worktree_setup_command'' JNull),
                   sk_checks = legacy_checks verify, sk_env = [], sk_writable = [], sk_readable = [],
                   sk_browser = False, sk_up = [], sk_unconfirmed = Some Not_Checked, sk_confirmed_by = []\<rparr>)
           | _ \<Rightarrow> None))"

end
