(* ===== verification/Verify_Commands.thy ===== *)
theory Verify_Commands
  imports Stack Verify_Model
begin

text \<open>
  \<open>kstrl/verify/verify_commands.py\<close> and \<open>failure_excerpt.py\<close>: the rows of the commands a \<open>[stack]\<close>
  names, the bound on their output, and the lines of a failure that are kept. Running a command is a
  function on the world (\<open>cm_run\<close>); what the patterns of the excerpt find on a line, how a refusal and a
  time limit read are arguments. No clock is read: a row's duration is 0.
\<close>

section \<open>The excerpt of a failure\<close>

definition excerpt_lines_before :: nat where "excerpt_lines_before = 16"

definition excerpt_lines_after :: nat where "excerpt_lines_after = 6"

definition excerpt_max_lines :: nat where "excerpt_max_lines = 80"

definition excerpt_max_chars :: nat where "excerpt_max_chars = 8000"

text \<open>\<open>ex_locations\<close> and \<open>ex_absolutes\<close> are the paths that \<open>_LOCATION_RE\<close> and \<open>_ABSOLUTE_RE\<close> find on a
  line, \<open>ex_inside\<close> is \<open>_inside\<close> at the worktree.\<close>

record excerpt_env =
  ex_strip_ansi :: "string \<Rightarrow> string"
  ex_locations :: "string \<Rightarrow> string list"
  ex_absolutes :: "string \<Rightarrow> string list"
  ex_inside :: "string \<Rightarrow> bool"

definition line_shown :: "excerpt_env \<Rightarrow> string \<Rightarrow> bool" where
  "line_shown ex l =
     (\<not> blank l \<and> list_all (ex_inside ex) (ex_locations ex l) \<and> list_all (ex_inside ex) (ex_absolutes ex l))"

definition is_anchor :: "excerpt_env \<Rightarrow> string \<Rightarrow> bool" where
  "is_anchor ex l = (line_shown ex l \<and> ex_locations ex l \<noteq> [])"

definition kept :: "excerpt_env \<Rightarrow> string list \<Rightarrow> nat \<Rightarrow> bool" where
  "kept ex ls i =
     list_ex (\<lambda>k. is_anchor ex (ls ! k) \<and> k - excerpt_lines_before \<le> i \<and> i < k + excerpt_lines_after + 1)
       [0..<length ls]"

definition chosen_lines :: "excerpt_env \<Rightarrow> string list \<Rightarrow> string list" where
  "chosen_lines ex ls =
     map (\<lambda>i. ls ! i) (filter (\<lambda>i. kept ex ls i \<and> line_shown ex (ls ! i)) [0..<length ls])"

definition bounded_excerpt :: "string list \<Rightarrow> string" where
  "bounded_excerpt chosen =
     (let text = join_with [newline] (take excerpt_max_lines chosen)
      in if length chosen \<le> excerpt_max_lines \<and> length text \<le> excerpt_max_chars then text
         else take excerpt_max_chars text @ [newline] @ ''... excerpt cut at '' @ nat_text excerpt_max_lines @
              '' lines or '' @ nat_text excerpt_max_chars @ '' characters; '' @ nat_text (length chosen) @
              '' lines matched'')"

definition failure_excerpt :: "excerpt_env \<Rightarrow> string \<Rightarrow> string" where
  "failure_excerpt ex raw =
     (let chosen = chosen_lines ex (splitlines (ex_strip_ansi ex raw))
      in if chosen \<noteq> [] then bounded_excerpt chosen else [])"

section \<open>The bound on a gate's output\<close>

definition gate_output_max_chars :: nat where "gate_output_max_chars = 1048576"

text \<open>\<open>s[-n:]\<close>, which is all of \<open>s\<close> for 0.\<close>

definition last_chars :: "nat \<Rightarrow> string \<Rightarrow> string" where
  "last_chars n s = (if n = 0 then s else drop (length s - n) s)"

definition truncation_note :: "nat \<Rightarrow> nat \<Rightarrow> string" where
  "truncation_note len half =
     [newline] @ ''[kstrl: output truncated, '' @ nat_text (len - 2 * half) @ '' of '' @ nat_text len @
     '' characters dropped here; kept the first '' @ nat_text half @ '' and the last '' @ nat_text half @ '']'' @
     [newline]"

definition bounded_gate_output :: "string \<Rightarrow> nat \<Rightarrow> string" where
  "bounded_gate_output output limit =
     (if length output \<le> limit then output
      else
        (let half = limit div 2
         in take half output @ truncation_note (length output) half @ last_chars half output))"

section \<open>One command\<close>

record verify_config =
  vf_check_diff_scope :: bool
  vf_check_bad_patterns :: bool
  vf_timeout :: rat
  vf_require_self_critique :: bool
  vf_min_bullets :: int
  vf_progress_file :: "string option"
  vf_fast_checks :: "string list"
  vf_stack :: "stack option"

definition default_verify :: verify_config where
  "default_verify =
     \<lparr>vf_check_diff_scope = True, vf_check_bad_patterns = True, vf_timeout = 0,
      vf_require_self_critique = False, vf_min_bullets = 3, vf_progress_file = None, vf_fast_checks = [],
      vf_stack = None\<rparr>"

definition gate_names :: "verify_config \<Rightarrow> string list" where
  "gate_names c = (case vf_stack c of None \<Rightarrow> [] | Some s \<Rightarrow> check_names s)"

definition limit_seconds :: "rat \<Rightarrow> rat option" where
  "limit_seconds v = (if v > 0 then Some v else None)"

text \<open>What running a command gives: it ended with a status, it timed out, or its output is not utf-8.\<close>

datatype command_run =
    Completed int string string
  | Run_Timed_Out string string
  | Run_Not_Utf8 string string string

record 'w command_env =
  cm_run :: "string \<Rightarrow> string list \<Rightarrow> rat option \<Rightarrow> 'w \<Rightarrow> command_run \<times> 'w"
  cm_excerpt :: excerpt_env
  cm_refusal :: "stack_refusal \<Rightarrow> string"
  cm_limit :: "rat option \<Rightarrow> string"

definition shell_could_not_run :: "int list" where "shell_could_not_run = [126, 127]"

definition output_before_stop :: "string \<Rightarrow> string \<Rightarrow> string" where
  "output_before_stop out err = bounded_gate_output (strip (out @ err)) gate_output_max_chars"

definition stopped_row :: "string \<Rightarrow> string \<Rightarrow> string \<Rightarrow> string \<Rightarrow> check_result" where
  "stopped_row row message out err =
     (check_row row False message)\<lparr>ck_measured := False, ck_output := Some (output_before_stop out err)\<rparr>"

definition failed_row :: "excerpt_env \<Rightarrow> string \<Rightarrow> string \<Rightarrow> int \<Rightarrow> string \<Rightarrow> string \<Rightarrow> check_result" where
  "failed_row ex row command code out err =
     (let output = strip (out @ err); found = failure_excerpt ex output;
          lines = splitlines output;
          excerpt = (if found \<noteq> [] then found else join_with [newline] (drop (length lines - 5) lines))
      in (check_row row False (quoted_command command @ '' exited '' @ int_text code))
           \<lparr>ck_details := splitlines excerpt, ck_measured := code \<notin> set shell_could_not_run,
            ck_output := Some (bounded_gate_output output gate_output_max_chars)\<rparr>)"

definition run_row :: "'w command_env \<Rightarrow> string \<Rightarrow> string \<Rightarrow> rat option \<Rightarrow> command_run \<Rightarrow> check_result" where
  "run_row env row command timeout r =
     (case r of
        Run_Timed_Out out err \<Rightarrow>
          stopped_row row (quoted_command command @ '' timed out after '' @ cm_limit env timeout @ ''s'') out err
      | Run_Not_Utf8 why out err \<Rightarrow>
          stopped_row row (quoted_command command @ '' output could not be decoded: '' @ why) out err
      | Completed code out err \<Rightarrow>
          (if code = 0 then check_row row True (quoted_command command @ '' exited 0'')
           else failed_row (cm_excerpt env) row command code out err))"

definition check_stack_command ::
    "'w command_env \<Rightarrow> stack \<Rightarrow> string \<Rightarrow> string \<Rightarrow> rat option \<Rightarrow> 'w \<Rightarrow> check_result \<times> 'w" where
  "check_stack_command env s name command timeout w =
     (let row = ''stack:'' @ name
      in case sk_unconfirmed s of
           Some why \<Rightarrow>
             (let refused = quoted_command command @ '' not run: the [stack] in kstrl.toml '' @ cm_refusal env why
              in ((check_row row False refused)\<lparr>ck_measured := False, ck_output := Some refused\<rparr>, w))
         | None \<Rightarrow>
             (let (r, w') = cm_run env command (sk_env s) timeout w
              in (run_row env row command timeout r, w')))"

section \<open>The gates\<close>

fun run_checks ::
    "'w command_env \<Rightarrow> stack \<Rightarrow> rat option \<Rightarrow> (string \<times> string) list \<Rightarrow> 'w \<Rightarrow> check_result list \<times> 'w" where
  "run_checks env s timeout [] w = ([], w)"
| "run_checks env s timeout ((name, command) # cs) w =
     (let (row, w1) = check_stack_command env s name command timeout w;
          (rows, w2) = run_checks env s timeout cs w1
      in (row # rows, w2))"

definition stack_gates ::
    "'w command_env \<Rightarrow> verify_config \<Rightarrow> stack \<Rightarrow> string list \<Rightarrow> 'w \<Rightarrow> check_result list \<times> 'w" where
  "stack_gates env c s selected w =
     run_checks env s (limit_seconds (vf_timeout c)) (filter (\<lambda>nc. fst nc \<in> set selected) (sk_checks s)) w"

definition no_stack :: string where
  "no_stack =
     ''kstrl.toml has no [stack], so kstrl has no check to run and runs nothing. Write a '' @
     ''[stack] table (instructions, setup, env and [stack.checks]) and confirm it; ks decompose '' @
     ''proposes one for a spec, and ks doctor one from the commands an old [verify] still '' @
     ''holds. --no-verify runs with no checks at all.''"

definition no_stack_check :: string where "no_stack_check = ''stack''"

definition command_gates ::
    "'w command_env \<Rightarrow> verify_config \<Rightarrow> string list \<Rightarrow> 'w \<Rightarrow>
     (check_result list \<times> not_measured list) \<times> 'w" where
  "command_gates env c selected w =
     (case vf_stack c of
        None \<Rightarrow>
          (([(check_row no_stack_check False no_stack)\<lparr>ck_measured := False, ck_output := Some no_stack\<rparr>], []), w)
      | Some s \<Rightarrow>
          (let (rows, w') = stack_gates env c s selected w in ((rows, []), w')))"

definition run_fast_checks ::
    "'w command_env \<Rightarrow> verify_config \<Rightarrow> 'w \<Rightarrow> gate_error + verification_result \<times> 'w" where
  "run_fast_checks env c w =
     and_then (validate_fast_iteration_checks (JList (map JStr (vf_fast_checks c))) (gate_names c)) (\<lambda>selected.
       let ((checks, gaps), w') = command_gates env c selected w
       in Inr (verdict_of checks gaps, w'))"

section \<open>Lemmas\<close>

lemma run_row_name [simp]: "ck_name (run_row env row command timeout r) = row"
  by (cases r) (simp_all add: run_row_def stopped_row_def failed_row_def check_row_def Let_def)

lemma run_row_passed: "ck_passed (run_row env row command timeout r) \<longleftrightarrow> (\<exists>out err. r = Completed 0 out err)"
  by (cases r) (simp_all add: run_row_def stopped_row_def failed_row_def check_row_def Let_def)

text \<open>An unconfirmed stack runs nothing.\<close>

lemma unconfirmed_runs_nothing:
  assumes "sk_unconfirmed s \<noteq> None"
  shows "snd (run_checks env s timeout cs w) = w" and
    "list_all (\<lambda>c. \<not> ck_passed c \<and> \<not> ck_measured c) (fst (run_checks env s timeout cs w))"
  using assms
  by (induction cs arbitrary: w)
    (auto simp: check_stack_command_def check_row_def Let_def case_prod_unfold)

lemma bounded_gate_output_ends:
  assumes "limit < length output" and "2 \<le> limit"
  shows "bounded_gate_output output limit =
           take (limit div 2) output @ truncation_note (length output) (limit div 2) @
           drop (length output - limit div 2) output"
  using assms by (simp add: bounded_gate_output_def last_chars_def Let_def)

text \<open>Only lines whose paths are all inside the worktree are shown, and each is near a location.\<close>

lemma chosen_lines_shown:
  "list_all (line_shown ex) (chosen_lines ex ls) \<and> set (chosen_lines ex ls) \<subseteq> set ls"
  by (auto simp: chosen_lines_def list_all_iff)

end
