(* ===== verification/Regex.thy ===== *)
theory Regex
  imports Prelude
begin

text \<open>
  The regular expressions that the program compiles with \<open>re\<close>, as terms: what a term describes
  (\<open>lang\<close>), an executable matcher by derivatives and its equivalence with the description, and
  \<open>re.match\<close>, \<open>fullmatch\<close> and \<open>search\<close> over it. The terms have no anchors and no look-around; a
  pattern that ends in a dollar sign is matched in full instead (\<open>re_match_line\<close>).
\<close>

datatype re = Never | Nothing | One "char \<Rightarrow> bool" | Seq re re | Alt re re | Star re

section \<open>The language of a term\<close>

inductive lang :: "re \<Rightarrow> string \<Rightarrow> bool" where
  lang_Nothing: "lang Nothing []"
| lang_One: "p c \<Longrightarrow> lang (One p) [c]"
| lang_Seq: "lang r u \<Longrightarrow> lang s v \<Longrightarrow> lang (Seq r s) (u @ v)"
| lang_Alt1: "lang r u \<Longrightarrow> lang (Alt r s) u"
| lang_Alt2: "lang s u \<Longrightarrow> lang (Alt r s) u"
| lang_Star_Nil: "lang (Star r) []"
| lang_Star_Cons: "lang r u \<Longrightarrow> lang (Star r) v \<Longrightarrow> lang (Star r) (u @ v)"

inductive_simps lang_simps [simp]:
  "lang Never u" "lang Nothing u" "lang (One p) u" "lang (Alt r s) u"

inductive_simps lang_Seq_iff: "lang (Seq r s) u"

inductive_simps lang_Star_iff: "lang (Star r) u"

section \<open>The matcher\<close>

primrec nullable :: "re \<Rightarrow> bool" where
  "nullable Never = False"
| "nullable Nothing = True"
| "nullable (One p) = False"
| "nullable (Seq r s) = (nullable r \<and> nullable s)"
| "nullable (Alt r s) = (nullable r \<or> nullable s)"
| "nullable (Star r) = True"

primrec deriv :: "char \<Rightarrow> re \<Rightarrow> re" where
  "deriv c Never = Never"
| "deriv c Nothing = Never"
| "deriv c (One p) = (if p c then Nothing else Never)"
| "deriv c (Seq r s) = (if nullable r then Alt (Seq (deriv c r) s) (deriv c s) else Seq (deriv c r) s)"
| "deriv c (Alt r s) = Alt (deriv c r) (deriv c s)"
| "deriv c (Star r) = Seq (deriv c r) (Star r)"

fun accepts :: "re \<Rightarrow> string \<Rightarrow> bool" where
  "accepts r [] = nullable r"
| "accepts r (c # cs) = accepts (deriv c r) cs"

lemma nullable_lang: "nullable r \<longleftrightarrow> lang r []"
  by (induction r) (auto simp: lang_Seq_iff intro: lang_Star_Nil)

text \<open>A non-empty word of a star starts with a non-empty word of the starred term.\<close>

lemma lang_Star_first:
  assumes "lang (Star r) (c # u)"
  shows "\<exists>v w. u = v @ w \<and> lang r (c # v) \<and> lang (Star r) w"
proof -
  have "\<exists>v w. u = v @ w \<and> lang r (c # v) \<and> lang (Star r) w" if "lang q z" "q = Star r" "z = c # u" for q z
    using that by (induction arbitrary: u rule: lang.induct) (auto simp: append_eq_Cons_conv)
  then show ?thesis using assms by blast
qed

lemma deriv_lang: "lang (deriv c r) u \<longleftrightarrow> lang r (c # u)"
proof (induction r arbitrary: u)
  case (Seq r s)
  have "lang (Seq r s) (c # u) \<longleftrightarrow>
      (\<exists>v w. u = v @ w \<and> lang r (c # v) \<and> lang s w) \<or> lang r [] \<and> lang s (c # u)"
    by (auto simp: lang_Seq_iff Cons_eq_append_conv)
  then show ?case using Seq by (auto simp: lang_Seq_iff nullable_lang)
next
  case (Star r)
  show ?case
  proof
    assume "lang (deriv c (Star r)) u"
    then obtain v w where "u = v @ w" "lang r (c # v)" "lang (Star r) w" using Star by (auto simp: lang_Seq_iff)
    then show "lang (Star r) (c # u)" using lang_Star_Cons [of r "c # v" w] by simp
  next
    assume "lang (Star r) (c # u)"
    then show "lang (deriv c (Star r)) u" using lang_Star_first [of r c u] Star by (auto simp: lang_Seq_iff)
  qed
qed auto

theorem accepts_lang: "accepts r u \<longleftrightarrow> lang r u"
  by (induction u arbitrary: r) (simp_all add: nullable_lang deriv_lang)

section \<open>Searching\<close>

definition re_match :: "re \<Rightarrow> string \<Rightarrow> bool" where
  "re_match r s = list_ex (\<lambda>n. accepts r (take n s)) [0..<Suc (length s)]"

definition re_search :: "re \<Rightarrow> string \<Rightarrow> bool" where
  "re_search r s = list_ex (\<lambda>i. re_match r (drop i s)) [0..<Suc (length s)]"

text \<open>A match up to the dollar sign: the whole string, or all of it but a last newline.\<close>

definition re_match_line :: "re \<Rightarrow> string \<Rightarrow> bool" where
  "re_match_line r s = (accepts r s \<or> s \<noteq> [] \<and> last s = newline \<and> accepts r (butlast s))"

lemma re_match_iff: "re_match r s \<longleftrightarrow> (\<exists>u v. s = u @ v \<and> lang r u)"
proof
  assume "re_match r s"
  then obtain n where "lang r (take n s)" unfolding re_match_def list_ex_iff accepts_lang by blast
  then show "\<exists>u v. s = u @ v \<and> lang r u" by (metis append_take_drop_id)
next
  assume "\<exists>u v. s = u @ v \<and> lang r u"
  then obtain u v where "s = u @ v" "lang r u" by blast
  then have "length u \<in> set [0..<Suc (length s)]" "lang r (take (length u) s)" by simp_all
  then show "re_match r s" unfolding re_match_def list_ex_iff accepts_lang by blast
qed

lemma re_search_iff: "re_search r s \<longleftrightarrow> (\<exists>u v w. s = u @ v @ w \<and> lang r v)"
proof
  assume "re_search r s"
  then obtain i where "re_match r (drop i s)" unfolding re_search_def list_ex_iff by blast
  then obtain v w where "drop i s = v @ w" "lang r v" by (auto simp: re_match_iff)
  then have "s = take i s @ v @ w" by (metis append_take_drop_id)
  then show "\<exists>u v w. s = u @ v @ w \<and> lang r v" using \<open>lang r v\<close> by blast
next
  assume "\<exists>u v w. s = u @ v @ w \<and> lang r v"
  then obtain u v w where "s = u @ v @ w" "lang r v" by blast
  then have "length u \<in> set [0..<Suc (length s)]" "re_match r (drop (length u) s)" by (auto simp: re_match_iff)
  then show "re_search r s" unfolding re_search_def list_ex_iff by blast
qed

section \<open>Derived terms\<close>

primrec word :: "string \<Rightarrow> re" where
  "word [] = Nothing"
| "word (c # cs) = Seq (One (\<lambda>d. d = c)) (word cs)"

primrec exactly :: "nat \<Rightarrow> re \<Rightarrow> re" where
  "exactly 0 r = Nothing"
| "exactly (Suc n) r = Seq r (exactly n r)"

definition plus_of :: "re \<Rightarrow> re" where "plus_of r = Seq r (Star r)"

definition opt :: "re \<Rightarrow> re" where "opt r = Alt Nothing r"

definition at_least :: "nat \<Rightarrow> re \<Rightarrow> re" where "at_least n r = Seq (exactly n r) (Star r)"

definition space_class :: re where "space_class = One is_space"

definition digit_class :: re where "digit_class = One is_digit_ascii"

definition is_alnum_ascii :: "char \<Rightarrow> bool" where
  "is_alnum_ascii c = (is_lower_ascii c \<or> is_upper_ascii c \<or> is_digit_ascii c)"

text \<open>A letter in either case, as \<open>re.IGNORECASE\<close> reads it.\<close>

primrec word_nocase :: "string \<Rightarrow> re" where
  "word_nocase [] = Nothing"
| "word_nocase (c # cs) = Seq (One (\<lambda>d. lower_char d = lower_char c)) (word_nocase cs)"

lemma lang_Seq_One: "lang (Seq (One p) r) u \<longleftrightarrow> (\<exists>c v. u = c # v \<and> p c \<and> lang r v)"
  by (auto simp: lang_Seq_iff) (metis append_Cons append_Nil)

lemma lang_word [simp]: "lang (word w) u \<longleftrightarrow> u = w"
  by (induction w arbitrary: u) (auto simp: lang_Seq_iff)

lemma lang_exactly_One: "lang (exactly n (One p)) u \<longleftrightarrow> length u = n \<and> list_all p u"
proof (induction n arbitrary: u)
  case (Suc n)
  show ?case by (cases u) (auto simp: lang_Seq_One Suc)
qed (auto simp: list_all_iff)

lemma lang_Star_One: "lang (Star (One p)) u \<longleftrightarrow> list_all p u"
proof (induction u)
  case Nil
  then show ?case by (simp add: lang_Star_Nil)
next
  case (Cons c u)
  then show ?case using lang_Star_first [of "One p" c u] lang_Star_Cons [of "One p" "[c]" u] by (auto intro: lang_One)
qed

lemma lang_at_least_One: "lang (at_least n (One p)) u \<longleftrightarrow> n \<le> length u \<and> list_all p u"
proof
  assume "lang (at_least n (One p)) u"
  then show "n \<le> length u \<and> list_all p u"
    by (auto simp: at_least_def lang_Seq_iff lang_exactly_One lang_Star_One)
next
  assume u: "n \<le> length u \<and> list_all p u"
  then have "list_all p (take n u)" "list_all p (drop n u)"
    by (auto simp: list_all_iff dest: in_set_takeD in_set_dropD)
  then show "lang (at_least n (One p)) u"
    using u lang_Seq [of "exactly n (One p)" "take n u" "Star (One p)" "drop n u"]
    by (simp add: at_least_def lang_exactly_One lang_Star_One)
qed

end
