(* ===== verification/Policy.thy ===== *)
theory Policy
  imports Prd Verify_Model Regex
begin

text \<open>
  \<open>kstrl/verify/policy.py\<close>: the merge policy envelope, judged on the diff alone. A regular
  expression of the configuration is an argument (\<open>regex p\<close> is \<open>None\<close> where \<open>re.compile\<close> raises, else
  whether \<open>search\<close> finds it in a line; \<open>default_regex\<close> is the one of the default patterns), so are the sha256 of a line (its twelve characters), the
  sha256 of the configuration's JSON and the decoding of the inside of a path that git has quoted
  (\<open>None\<close> where it raises).
\<close>

section \<open>Configuration\<close>

definition enforcement_machinery_paths :: "string list" where
  "enforcement_machinery_paths =
     [''.github/workflows/**'', ''kstrl.toml'', ''**/kstrl/verify/verify.py'',
      ''**/kstrl/proc/scrubbed_run.py'', ''**/kstrl/verify/verify_model.py'',
      ''**/kstrl/verify/verify_commands.py'', ''**/kstrl/verify/verify_diff.py'',
      ''**/kstrl/verify/policy.py'', ''**/kstrl/verify/guards.py'', ''**/kstrl/learning/autonomy.py'',
      ''**/kstrl/learning/autonomy_config.py'', ''**/kstrl/learning/autonomy_transitions.py'',
      ''**/kstrl/io/statedir.py'', ''**/kstrl/owner/waivers.py'', ''**/kstrl/verify/__init__.py'',
      ''**/kstrl/proc/__init__.py'', ''**/kstrl/learning/__init__.py'', ''**/kstrl/io/__init__.py'',
      ''**/kstrl/owner/__init__.py'', ''**/.kstrl/autonomy.json'', ''.kstrl/autonomy.json'',
      ''**/.kstrl/inbox.jsonl'', ''.kstrl/inbox.jsonl'', ''**/.kstrl/queue/spend.json'',
      ''.kstrl/queue/spend.json'', ''**/.kstrl/queue/pause.json'', ''.kstrl/queue/pause.json'',
      ''**/.kstrl/queue/github_processed.json'', ''.kstrl/queue/github_processed.json'']"

definition default_paths_deny :: "string list" where
  "default_paths_deny = [''.github/workflows/**'', ''kstrl.toml'', ''.kstrl/**'', ''**/*.pem'', ''**/.env*'']"

definition default_secret_patterns :: "string list" where
  "default_secret_patterns =
     [''AKIA[0-9A-Z]{16}'', ''-----BEGIN (?:RSA |EC )?PRIVATE KEY-----'', ''sk-[a-zA-Z0-9]{20,}'',
      ''ghp_[a-zA-Z0-9]{36}'', ''xox[bpoas]-[a-zA-Z0-9-]+'']"

record policy_config =
  po_enabled :: bool
  po_paths_deny :: "string list"
  po_max_files :: int
  po_max_lines :: int
  po_secret_patterns :: "string list"
  po_extra :: "string list"
  po_deploy :: bool

definition default_policy :: policy_config where
  "default_policy =
     \<lparr>po_enabled = False, po_paths_deny = default_paths_deny, po_max_files = 40, po_max_lines = 1500,
      po_secret_patterns = default_secret_patterns, po_extra = [], po_deploy = False\<rparr>"

definition envelope_payload :: "policy_config \<Rightarrow> json_object" where
  "envelope_payload c =
     [(''enabled'', JBool (po_enabled c)), (''paths_deny'', JList (map JStr (po_paths_deny c))),
      (''max_files_changed'', JInt (po_max_files c)), (''max_lines_changed'', JInt (po_max_lines c)),
      (''secret_patterns'', JList (map JStr (po_secret_patterns c))),
      (''enforcement_paths_extra'', JList (map JStr (po_extra c))), (''deploy'', JBool (po_deploy c))]"

definition envelope_hash :: "(json_object \<Rightarrow> string) \<Rightarrow> policy_config \<Rightarrow> string" where
  "envelope_hash digest c = digest (envelope_payload c)"

section \<open>Globs\<close>

text \<open>The pieces of the regular expression of a glob: \<open>(?:.*/)?\<close>, \<open>.*\<close>, \<open>[^/]*\<close>, \<open>[^/]\<close>
  and an escaped character.\<close>

datatype glob_token = Any_Dirs | Any_Text | Segment_Text | Segment_Char | Literal char

function glob_tokens :: "string \<Rightarrow> glob_token list" where
  "glob_tokens [] = []"
| "glob_tokens (c # cs) =
     (if c = CHR ''*'' then
        (if cs \<noteq> [] \<and> hd cs = CHR ''*'' then
           (if tl cs \<noteq> [] \<and> hd (tl cs) = CHR ''/'' then Any_Dirs # glob_tokens (drop 2 cs)
            else Any_Text # glob_tokens (drop 1 cs))
         else Segment_Text # glob_tokens cs)
      else if c = CHR ''?'' then Segment_Char # glob_tokens cs
      else Literal c # glob_tokens cs)"
  by pat_completeness auto

termination by (relation "measure length") auto

text \<open>What one piece may match: \<open>.\<close> is any character but a newline.\<close>

definition token_match :: "glob_token \<Rightarrow> string \<Rightarrow> bool" where
  "token_match t u =
     (case t of
        Any_Dirs \<Rightarrow> u = [] \<or> newline \<notin> set u \<and> last u = CHR ''/''
      | Any_Text \<Rightarrow> newline \<notin> set u
      | Segment_Text \<Rightarrow> CHR ''/'' \<notin> set u
      | Segment_Char \<Rightarrow> length u = 1 \<and> CHR ''/'' \<notin> set u
      | Literal c \<Rightarrow> u = [c])"

text \<open>The pieces in sequence up to \<open>$\<close>, which also matches before a last newline.\<close>

primrec tokens_match :: "glob_token list \<Rightarrow> string \<Rightarrow> bool" where
  "tokens_match [] s = (s \<in> {[], [newline]})"
| "tokens_match (t # ts) s =
     list_ex (\<lambda>n. token_match t (take n s) \<and> tokens_match ts (drop n s)) [0..<Suc (length s)]"

definition glob_matches :: "string \<Rightarrow> string \<Rightarrow> bool" where
  "glob_matches pattern path = tokens_match (glob_tokens pattern) path"

definition match_glob :: "string \<Rightarrow> string list \<Rightarrow> string option" where
  "match_glob path patterns = find (\<lambda>p. glob_matches p path) patterns"

section \<open>Added lines\<close>

datatype policy_error = Bad_Secret_Pattern string | Undecodable_Header

type_synonym path_codec = "string \<Rightarrow> string option"

definition quoted_path :: "string \<Rightarrow> bool" where
  "quoted_path p = (startswith p ''\"'' \<and> endswith p ''\"'' \<and> length p \<ge> 2)"

definition unquote_diff_path :: "path_codec \<Rightarrow> string \<Rightarrow> policy_error + string" where
  "unquote_diff_path codec p =
     (if \<not> quoted_path p then Inr p
      else (case codec (butlast (tl p)) of None \<Rightarrow> Inl Undecodable_Header | Some q \<Rightarrow> Inr q))"

definition diff_header_path :: "path_codec \<Rightarrow> string \<Rightarrow> policy_error + string" where
  "diff_header_path codec header =
     and_then (unquote_diff_path codec (strip (drop 4 header))) (\<lambda>p.
       Inr (if startswith p ''a/'' \<or> startswith p ''b/'' then drop 2 p else p))"

text \<open>\<open>raw.removesuffix("\r")\<close>\<close>

definition without_cr :: "string \<Rightarrow> string" where
  "without_cr raw = (if endswith raw [carriage_return] then butlast raw else raw)"

definition file_header :: "string \<Rightarrow> string \<Rightarrow> bool" where
  "file_header prev line = (startswith line ''+++ '' \<and> startswith prev ''--- '')"

fun added_from ::
    "path_codec \<Rightarrow> string option \<Rightarrow> string \<Rightarrow> string list \<Rightarrow> policy_error + (string \<times> string) list" where
  "added_from codec current prev [] = Inr []"
| "added_from codec current prev (raw # raws) =
     (let line = without_cr raw
      in if startswith line ''diff --git'' then added_from codec None line raws
         else if file_header prev line then
           and_then (diff_header_path codec line) (\<lambda>target.
             added_from codec (if target = ''/dev/null'' then None else Some target) line raws)
         else if startswith line ''+'' then
           (case current of
              None \<Rightarrow> added_from codec current line raws
            | Some path \<Rightarrow>
                and_then (added_from codec current line raws) (\<lambda>rest. Inr ((path, tl line) # rest)))
         else added_from codec current line raws)"

definition parse_added_lines :: "path_codec \<Rightarrow> string \<Rightarrow> policy_error + (string \<times> string) list" where
  "parse_added_lines codec diff = added_from codec None [] (split_on newline diff)"

section \<open>Secrets\<close>

type_synonym regex = "string \<Rightarrow> (string \<Rightarrow> bool) option"

definition compile_all :: "regex \<Rightarrow> string list \<Rightarrow> policy_error + (string \<Rightarrow> bool) list" where
  "compile_all regex patterns =
     (case find (\<lambda>p. regex p = None) patterns of
        Some p \<Rightarrow> Inl (Bad_Secret_Pattern p)
      | None \<Rightarrow> Inr (map (\<lambda>p. the (regex p)) patterns))"

text \<open>The hashes of a path are a set; it is kept as a list without repetition.\<close>

definition add_hit :: "(string, string list) dict \<Rightarrow> string \<Rightarrow> string \<Rightarrow> (string, string list) dict" where
  "add_hit hits path h =
     (let old = (case dict_get hits path of None \<Rightarrow> [] | Some hs \<Rightarrow> hs)
      in dict_set hits path (if h \<in> set old then old else old @ [h]))"

text \<open>The default patterns as terms.\<close>

definition default_secret_terms :: "(string \<times> re) list" where
  "default_secret_terms =
     zip default_secret_patterns
       [Seq (word ''AKIA'') (exactly 16 (One (\<lambda>c. is_digit_ascii c \<or> is_upper_ascii c))),
        Seq (word ''-----BEGIN '') (Seq (opt (Alt (word ''RSA '') (word ''EC ''))) (word ''PRIVATE KEY-----'')),
        Seq (word ''sk-'') (at_least 20 (One is_alnum_ascii)),
        Seq (word ''ghp_'') (exactly 36 (One is_alnum_ascii)),
        Seq (word ''xox'') (Seq (One (\<lambda>c. c \<in> set ''bpoas'')) (Seq (word ''-'')
          (plus_of (One (\<lambda>c. is_alnum_ascii c \<or> c = CHR ''-'')))))]"

definition default_regex :: regex where
  "default_regex p = map_option re_search (map_of default_secret_terms p)"

definition scan_line ::
    "(string \<Rightarrow> string) \<Rightarrow> (string \<Rightarrow> bool) list \<Rightarrow> (string, string list) dict \<Rightarrow> string \<times> string \<Rightarrow>
     (string, string list) dict" where
  "scan_line sha12 compiled hits pl =
     (if list_ex (\<lambda>r. r (snd pl)) compiled then add_hit hits (fst pl) (sha12 (snd pl)) else hits)"

definition scan_secrets ::
    "regex \<Rightarrow> (string \<Rightarrow> string) \<Rightarrow> (string \<times> string) list \<Rightarrow> string list \<Rightarrow>
     policy_error + (string, string list) dict" where
  "scan_secrets regex sha12 added patterns =
     and_then (compile_all regex patterns) (\<lambda>compiled. Inr (foldl (scan_line sha12 compiled) [] added))"

section \<open>Evaluation\<close>

type_synonym numstat = "(int option \<times> int option \<times> string) list"

definition count_diff_size :: "numstat \<Rightarrow> int \<times> int" where
  "count_diff_size ns =
     (int (length ns),
      sum_list (map (\<lambda>(a, r, _). (case a of None \<Rightarrow> 0 | Some n \<Rightarrow> n) + (case r of None \<Rightarrow> 0 | Some n \<Rightarrow> n)) ns))"

record policy_violation =
  pv_category :: string
  pv_explanation :: string
  pv_location :: string
  pv_severity :: string
  pv_suggestion :: string

definition pv_blocking :: "policy_violation \<Rightarrow> bool" where
  "pv_blocking v = (pv_severity v \<noteq> ''advisory'')"

record policy_evaluation =
  pe_ok :: bool
  pe_summary :: string
  pe_details :: "string list"
  pe_machinery_hit :: bool
  pe_violations :: "policy_violation list"

record policy_env =
  pn_codec :: path_codec
  pn_regex :: regex
  pn_sha12 :: "string \<Rightarrow> string"

definition machinery_patterns :: "policy_config \<Rightarrow> string list" where
  "machinery_patterns c = enforcement_machinery_paths @ po_extra c"

definition machinery_files :: "policy_config \<Rightarrow> string list \<Rightarrow> string list" where
  "machinery_files c changed = filter (\<lambda>f. match_glob f (machinery_patterns c) \<noteq> None) changed"

definition machinery_violations :: "policy_config \<Rightarrow> string list \<Rightarrow> policy_violation list" where
  "machinery_violations c changed =
     (let machinery = machinery_files c changed
      in if machinery = [] then []
         else
           [\<lparr>pv_category = ''enforcement_machinery'',
             pv_explanation =
               ''HALT: enforcement-machinery paths modified (non-overridable, '' @
               ''blocks at every autonomy level): '' @ join_with '', '' (sort machinery),
             pv_location = join_with '', '' (take 5 (sort machinery)), pv_severity = ''critical'',
             pv_suggestion =
               ''Revert these paths. Changes to the policy file, CI '' @
               ''workflows, or verifier code must be made by a human, '' @
               ''never inside an automated run.''\<rparr>])"

text \<open>\<open>p.split(" (")[0]\<close>\<close>

fun before_paren :: "string \<Rightarrow> string" where
  "before_paren [] = []"
| "before_paren (c # cs) = (if startswith (c # cs) '' ('' then [] else c # before_paren cs)"

definition high_violation :: "string \<Rightarrow> string \<Rightarrow> string \<Rightarrow> string \<Rightarrow> policy_violation" where
  "high_violation category location explanation suggestion =
     \<lparr>pv_category = category, pv_explanation = explanation, pv_location = location, pv_severity = ''high'',
      pv_suggestion = suggestion\<rparr>"

definition deny_hit :: "policy_config \<Rightarrow> string list \<Rightarrow> string \<Rightarrow> string list" where
  "deny_hit c machinery path =
     (if path \<in> set machinery then []
      else (case match_glob path (po_paths_deny c) of
              None \<Rightarrow> []
            | Some p \<Rightarrow> (if p = [] then [] else [path @ '' (deny '' @ [CHR 0x27] @ p @ [CHR 0x27] @ '')''])))"

definition deny_hits :: "policy_config \<Rightarrow> string list \<Rightarrow> string list" where
  "deny_hits c changed = concat (map (deny_hit c (machinery_files c changed)) changed)"

definition deny_violations :: "policy_config \<Rightarrow> string list \<Rightarrow> policy_violation list" where
  "deny_violations c changed =
     (let hits = deny_hits c changed
      in if hits = [] then []
         else
           [high_violation ''paths_deny'' (join_with '', '' (take 5 (sort (map before_paren hits))))
              (''Denied paths modified: '' @ join_with ''; '' (sort hits))
              ''Revert these paths or widen [policy] paths_deny.''])"

definition split_change :: string where "split_change = ''Split the change into smaller components.''"

definition size_violations :: "policy_config \<Rightarrow> numstat \<Rightarrow> policy_violation list" where
  "size_violations c ns =
     (let (n_files, n_lines) = count_diff_size ns
      in (if po_max_files c \<ge> 0 \<and> n_files > po_max_files c
          then [high_violation ''max_files_changed'' []
                  (''Too many files changed: '' @ int_text n_files @ '' > max_files_changed '' @
                   int_text (po_max_files c)) split_change]
          else []) @
         (if po_max_lines c \<ge> 0 \<and> n_lines > po_max_lines c
          then [high_violation ''max_lines_changed'' []
                  (''Too many lines changed: '' @ int_text n_lines @ '' > max_lines_changed '' @
                   int_text (po_max_lines c)) split_change]
          else []))"

definition secret_violations :: "(string, string list) dict \<Rightarrow> policy_violation list" where
  "secret_violations hits =
     (let paths = sort (dict_keys hits)
      in if hits = [] then []
         else
           [high_violation ''secret_pattern'' (join_with '', '' (take 5 paths))
              (''Possible secrets in added lines: '' @
               join_with '', '' (map (\<lambda>p. p @ ''#'' @
                 join_with '','' (sort (case dict_get hits p of None \<Rightarrow> [] | Some hs \<Rightarrow> hs))) paths))
              (''Remove the credential and rotate it; load secrets from the '' @ ''environment instead.'')])"

definition policy_summary :: "policy_violation list \<Rightarrow> bool \<Rightarrow> numstat \<Rightarrow> string" where
  "policy_summary vs machinery_hit ns =
     (let (n_files, n_lines) = count_diff_size ns
      in if list_all (\<lambda>v. \<not> pv_blocking v) vs
         then ''policy envelope satisfied ('' @ int_text n_files @ '' files, '' @ int_text n_lines @
              '' lines, within limits)''
         else nat_text (length vs) @ '' policy violation(s)'' @
              (if machinery_hit then '' including enforcement-machinery halt'' else []))"

definition evaluate_policy ::
    "policy_env \<Rightarrow> string list \<Rightarrow> numstat \<Rightarrow> string \<Rightarrow> policy_config \<Rightarrow> policy_error + policy_evaluation" where
  "evaluate_policy env changed ns diff c =
     and_then (parse_added_lines (pn_codec env) diff) (\<lambda>added.
     and_then (scan_secrets (pn_regex env) (pn_sha12 env) added (po_secret_patterns c)) (\<lambda>hits.
       let vs = machinery_violations c changed @ deny_violations c changed @ size_violations c ns @
                secret_violations hits
       in Inr \<lparr>pe_ok = list_all (\<lambda>v. \<not> pv_blocking v) vs,
               pe_summary = policy_summary vs (machinery_files c changed \<noteq> []) ns,
               pe_details = map pv_explanation vs,
               pe_machinery_hit = machinery_files c changed \<noteq> [], pe_violations = vs\<rparr>))"

end
