(* ===== verification/Verify_Diff.thy ===== *)
theory Verify_Diff
  imports Scope Policy Waivers
begin

text \<open>
  \<open>kstrl/verify/verify_diff.py\<close>: the checks that read the change (the scope of the diff, a scope nobody
  could read, secrets, the policy envelope with its waivers), with the constructors of \<open>Finding\<close> they
  use (\<open>kstrl/plan/findings.py\<close>) and the lenient and strict readings of git (\<open>git_diff.py\<close>). What git
  printed is \<open>diff_view\<close>, one reading per call; how an exception or a refusal reads is an argument.
\<close>

section \<open>Readings\<close>

record diff_texts =
  tx_git :: "git_run \<Rightarrow> string"
  tx_policy :: "policy_error \<Rightarrow> string"
  tx_reason :: "refusal_reason \<Rightarrow> string"

record diff_view =
  dv_scope_status :: git_run
  dv_patterns_status :: git_run
  dv_patterns_content :: git_run
  dv_policy_content :: git_run
  dv_policy_status :: git_run
  dv_policy_numstat :: "git_run + numstat"
  dv_base_label :: string

text \<open>\<open>get_diff_name_status\<close>: a diff git could not produce reads as no change, unless \<open>strict\<close>.\<close>

definition get_diff_name_status :: "bool \<Rightarrow> git_run \<Rightarrow> git_run + (string \<times> string) list" where
  "get_diff_name_status strict r =
     (case r of
        Git_Out out \<Rightarrow> Inr (parse_name_status_records out)
      | Git_Undecodable \<Rightarrow> Inl r
      | _ \<Rightarrow> (if strict then Inl r else Inr []))"

definition get_diff_names :: "bool \<Rightarrow> git_run \<Rightarrow> git_run + string list" where
  "get_diff_names strict r =
     and_then (get_diff_name_status strict r) (\<lambda>records. Inr (unique_paths (map snd records)))"

text \<open>\<open>get_diff_content(as_stored=True)\<close>, which decodes any byte.\<close>

definition get_diff_content :: "git_run \<Rightarrow> git_run + string" where
  "get_diff_content r = (case r of Git_Out out \<Rightarrow> Inr out | _ \<Rightarrow> Inl r)"

section \<open>Findings\<close>

definition infrastructure_error :: "string \<Rightarrow> string \<Rightarrow> finding" where
  "infrastructure_error phase explanation =
     \<lparr>fi_phase = phase, fi_category = infrastructure_category, fi_severity = ''critical'', fi_location = [],
      fi_explanation = explanation, fi_suggestion = [], fi_owasp = [], fi_cwe = [], fi_tags = [''infrastructure'']\<rparr>"

definition policy_finding :: "policy_violation \<Rightarrow> finding" where
  "policy_finding v =
     \<lparr>fi_phase = ''policy'', fi_category = policy_category_prefix @ pv_category v,
      fi_severity = pv_severity v, fi_location = pv_location v, fi_explanation = pv_explanation v,
      fi_suggestion = pv_suggestion v, fi_owasp = [], fi_cwe = [],
      fi_tags = [''policy'', ''policy:'' @ pv_category v]\<rparr>"

definition finding_waiver :: "finding \<Rightarrow> string option" where
  "finding_waiver f =
     (case find (\<lambda>t. startswith t waiver_tag_prefix) (fi_tags f) of
        None \<Rightarrow> None
      | Some t \<Rightarrow> (let i = drop (length waiver_tag_prefix) t in if i = [] then None else Some i))"

text \<open>A row that fails because its input could not be read.\<close>

definition unread_row :: "string \<Rightarrow> string \<Rightarrow> string list \<Rightarrow> finding \<Rightarrow> check_result" where
  "unread_row name message details f =
     (check_row name False message)\<lparr>ck_details := details, ck_findings := [f], ck_measured := False\<rparr>"

section \<open>The scope of the diff\<close>

definition no_files_in_the_diff :: string where "no_files_in_the_diff = ''no files in the diff''"

definition diff_scope_details :: "string \<Rightarrow> string list \<Rightarrow> string list \<Rightarrow> string list \<Rightarrow> string list" where
  "diff_scope_details base allowed harness violations =
     (let violation_lines =
            map (\<lambda>v. ''  - '' @ v) (take 15 violations) @
            (if length violations > 15
             then [''  ... and '' @ nat_text (length violations - 15) @ '' more''] else [])
      in [''Base branch: '' @ base @ '' (scope is judged on `git diff '' @ base @ ''...HEAD`; '' @
          ''do NOT `git checkout '' @ base @ '' -- <path>`, revert only '' @
          ''your own out-of-scope commits/edits)'',
          ''Allowed paths (complete list): '' @ join_with '', '' allowed] @
         (if harness \<noteq> []
          then [''Plus harness artifacts (kstrl'' @ [CHR 0x27] @ ''s own files, already in '' @
                ''scope, no need to widen allowedPaths): '' @ join_with '', '' harness]
          else []) @
         [''Files outside allowed scope:'' @ [newline] @ join_with [newline] violation_lines])"

definition check_diff_scope ::
    "diff_texts \<Rightarrow> diff_view \<Rightarrow> string list option \<Rightarrow> string list \<Rightarrow> check_result" where
  "check_diff_scope tx dv allowed_paths harness =
     (case allowed_paths of
        None \<Rightarrow> (check_row ''diff_scope'' True ''No scope constraints (allowed_paths not set)'')\<lparr>ck_measured := False\<rparr>
      | Some allowed \<Rightarrow>
          (if allowed = []
           then (check_row ''diff_scope'' True ''No scope constraints (allowed_paths not set)'')\<lparr>ck_measured := False\<rparr>
           else
             (case get_diff_names False (dv_scope_status dv) of
                Inl r \<Rightarrow>
                  unread_row ''diff_scope''
                    (''diff scope could not read the diff; failing closed '' @
                     ''(infrastructure error, not a scope pass)'')
                    [''Error: '' @ tx_git tx r]
                    (infrastructure_error ''verify'' (''diff scope could not read the diff: '' @ tx_git tx r))
              | Inr changed \<Rightarrow>
                  (let violations = filter (\<lambda>f. \<not> path_is_allowed f (allowed @ harness)) changed
                   in if changed = []
                      then (check_row ''diff_scope'' True no_files_in_the_diff)\<lparr>ck_measured := False\<rparr>
                      else if violations \<noteq> []
                      then (check_row ''diff_scope'' False
                              (nat_text (length violations) @ '' files outside allowed scope (diff vs base branch '' @
                               [CHR 0x27] @ dv_base_label dv @ [CHR 0x27] @ '')''))
                             \<lparr>ck_details := diff_scope_details (dv_base_label dv) allowed harness violations\<rparr>
                      else check_row ''diff_scope'' True
                             (nat_text (length changed) @ '' files, all within scope'')))))"

section \<open>A scope nobody could read\<close>

definition scope_unreadable_check :: string where "scope_unreadable_check = ''scope_unreadable''"

definition no_cause_recorded :: string where
  "no_cause_recorded = ''(no cause recorded; the scope resolver supplied an empty error)''"

definition scope_unreadable_error_prefix :: string where
  "scope_unreadable_error_prefix = ''Component scope could not be read; retrying cannot change it''"

definition scope_unreadable_error :: "string \<Rightarrow> string" where
  "scope_unreadable_error cause = scope_unreadable_error_prefix @ ''. '' @ cause"

definition scope_unreadable_explanation :: string where
  "scope_unreadable_explanation =
     ''The allowedPaths this component must be judged against '' @
     ''could not be established before the run started, so no '' @
     ''diff can be proven in-scope. This is NOT a diff violation, '' @
     ''and NOT something an engineer can fix from inside the '' @
     ''worktree: the scope is read from the pre-run checkout, '' @
     ''outside this worktree, and is fixed for the life of the '' @
     ''run, so neither narrowing nor widening the diff changes '' @
     ''this verdict.''"

definition scope_unreadable_remedy :: string where
  "scope_unreadable_remedy =
     ''The Error line above names which of two faults this is. A '' @
     ''pre-run PRD that would not read or parse: restore that '' @
     ''file in the main checkout and start a new run. No '' @
     ''plan-time scope resolved for this component at all: the '' @
     ''PRD is not the problem, the manifest and the run'' @ [CHR 0x27] @ ''s '' @
     ''resolved scope disagree about which components exist, and '' @
     ''that is a harness fault to report rather than a file to '' @
     ''repair. A run-wide --allowed-paths fixes neither: scope '' @
     ''resolution refuses before it reaches the flag, so a re-run '' @
     ''with it set fails identically.''"

definition check_scope_unreadable :: "string \<Rightarrow> check_result" where
  "check_scope_unreadable error =
     (let cause = (if error \<noteq> [] then error else no_cause_recorded)
      in unread_row scope_unreadable_check ''Scope could not be read at plan time; failing closed''
           [''Error: '' @ cause, scope_unreadable_explanation, scope_unreadable_remedy]
           (infrastructure_error ''verify'' (''component scope could not be established at plan time: '' @ cause)))"

definition scope_checks ::
    "diff_texts \<Rightarrow> diff_view \<Rightarrow> string list option \<Rightarrow> string option \<Rightarrow> string list \<Rightarrow> bool \<Rightarrow>
     check_result list" where
  "scope_checks tx dv allowed_paths allowed_paths_error harness compare =
     (case allowed_paths_error of
        Some e \<Rightarrow> [check_scope_unreadable e]
      | None \<Rightarrow> (if compare then [check_diff_scope tx dv allowed_paths harness] else []))"

section \<open>Secrets\<close>

definition secrets_checked_by_envelope :: string where
  "secrets_checked_by_envelope = ''secrets: checked by policy_envelope''"

definition bad_patterns_message :: "string list \<Rightarrow> string list \<Rightarrow> bool \<Rightarrow> bool \<Rightarrow> string" where
  "bad_patterns_message issues changed added_any owned =
     (if issues \<noteq> [] then nat_text (length issues) @ '' issues found in changed files''
      else if changed = [] then no_files_in_the_diff
      else if owned then secrets_checked_by_envelope
      else if \<not> added_any
      then ''secrets: the '' @ nat_text (length changed) @ '' changed files add no lines, nothing scanned''
      else ''secrets: scanned the lines added to '' @ nat_text (length changed) @ '' changed files, no issues'')"

datatype scan_error = Scan_Git git_run | Scan_Policy policy_error

definition scan_error_text :: "diff_texts \<Rightarrow> scan_error \<Rightarrow> string" where
  "scan_error_text tx e = (case e of Scan_Git r \<Rightarrow> tx_git tx r | Scan_Policy p \<Rightarrow> tx_policy tx p)"

definition lift_error :: "('e \<Rightarrow> 'f) \<Rightarrow> 'e + 'a \<Rightarrow> 'f + 'a" where
  "lift_error f r = (case r of Inl e \<Rightarrow> Inl (f e) | Inr x \<Rightarrow> Inr x)"

text \<open>What the scan reads: the changed files, the added lines, and the paths of those with a secret.\<close>

definition scan_change ::
    "policy_env \<Rightarrow> diff_view \<Rightarrow> string list \<Rightarrow> bool \<Rightarrow>
     scan_error + string list \<times> (string \<times> string) list \<times> string list" where
  "scan_change env dv patterns owned =
     and_then (lift_error Scan_Git (get_diff_name_status False (dv_patterns_status dv))) (\<lambda>records.
     let changed = unique_paths (map snd records)
     in and_then
          (if owned \<or> changed = [] then Inr []
           else and_then (lift_error Scan_Git (get_diff_content (dv_patterns_content dv))) (\<lambda>diff.
                  lift_error Scan_Policy (parse_added_lines (pn_codec env) diff)))
          (\<lambda>added.
             and_then (lift_error Scan_Policy (scan_secrets (pn_regex env) (pn_sha12 env) added patterns)) (\<lambda>hits.
               Inr (changed, added, dict_keys hits))))"

definition check_bad_patterns ::
    "diff_texts \<Rightarrow> policy_env \<Rightarrow> diff_view \<Rightarrow> string list \<Rightarrow> bool \<Rightarrow> check_result" where
  "check_bad_patterns tx env dv patterns owned =
     (case scan_change env dv patterns owned of
        Inl e \<Rightarrow>
          unread_row ''bad_patterns''
            (''bad patterns could not read the diff; failing closed '' @
             ''(infrastructure error, not a scan pass)'')
            [''Error: '' @ scan_error_text tx e]
            (infrastructure_error ''verify'' (''bad patterns could not read the diff: '' @ scan_error_text tx e))
      | Inr (changed, added, hit_paths) \<Rightarrow>
          (let issues = map (\<lambda>p. p @ '': possible secret/credential detected'')
                 (filter (\<lambda>p. p \<in> set hit_paths) changed)
           in (check_row ''bad_patterns'' (issues = [])
                (bad_patterns_message issues changed (added \<noteq> []) owned))
                \<lparr>ck_details := issues, ck_measured := added \<noteq> []\<rparr>))"

section \<open>The policy envelope\<close>

definition policy_diff_unreadable :: string where
  "policy_diff_unreadable =
     ''The change cannot be proven within policy; do not treat this as permission to merge.''"

definition after_waivers :: "finding list \<Rightarrow> string list \<Rightarrow> finding list \<times> finding list \<times> string list" where
  "after_waivers findings refusals =
     (let blocking = filter (\<lambda>f. fi_severity f \<noteq> ''advisory'') findings;
          waived = filter (\<lambda>f. fi_severity f = ''advisory'' \<and> finding_waiver f \<noteq> None) findings;
          advisories = filter (\<lambda>f. fi_severity f = ''advisory'' \<and> finding_waiver f = None) findings
      in (blocking, advisories,
          map fi_explanation blocking @ refusals @ map fi_explanation waived @ map fi_explanation advisories))"

definition waiver_note :: "string list \<Rightarrow> string list \<Rightarrow> string" where
  "waiver_note waived refusals =
     (if waived \<noteq> []
      then ''; '' @ nat_text (length waived) @ '' waived by inbox approval '' @
           join_with '', '' (map (take 8) waived)
      else []) @
     concat (map (\<lambda>r. ''; '' @ r) refusals)"

text \<open>The three reads, in order.\<close>

definition policy_inputs :: "diff_view \<Rightarrow> git_run + string \<times> string list \<times> numstat" where
  "policy_inputs dv =
     and_then (get_diff_content (dv_policy_content dv)) (\<lambda>diff.
     and_then (get_diff_names True (dv_policy_status dv)) (\<lambda>changed.
     and_then (dv_policy_numstat dv) (\<lambda>ns. Inr (diff, changed, ns))))"

definition envelope_error_row :: "diff_texts \<Rightarrow> policy_error \<Rightarrow> check_result" where
  "envelope_error_row tx e =
     (case e of
        Bad_Secret_Pattern _ \<Rightarrow>
          unread_row ''policy_envelope'' ''policy envelope is misconfigured; failing closed''
            [''Error: '' @ tx_policy tx e]
            (infrastructure_error ''policy'' (''policy envelope is misconfigured: '' @ tx_policy tx e))
      | Undecodable_Header \<Rightarrow>
          unread_row ''policy_envelope''
            (''policy envelope could not evaluate the diff; failing closed '' @
             ''(infrastructure error, not a policy pass)'')
            [''Error: '' @ tx_policy tx e]
            (infrastructure_error ''policy''
               (''policy envelope could not evaluate the diff: '' @ tx_policy tx e)))"

definition envelope_message :: "policy_evaluation \<Rightarrow> finding list \<Rightarrow> finding list \<Rightarrow> string \<Rightarrow> string" where
  "envelope_message e blocking advisories note =
     (if blocking = []
      then (if pe_ok e then pe_summary e else ''policy envelope satisfied after waivers'') @
           (if advisories \<noteq> [] then ''; '' @ nat_text (length advisories) @ '' advisory(ies)'' else []) @ note
      else nat_text (length blocking) @ '' policy violation(s)'' @
           (if pe_machinery_hit e then '' including enforcement-machinery halt'' else []) @ note)"

definition check_policy_envelope ::
    "diff_texts \<Rightarrow> policy_env \<Rightarrow> digest \<Rightarrow> diff_view \<Rightarrow> policy_config \<Rightarrow> waivers option \<Rightarrow> check_result" where
  "check_policy_envelope tx env digest dv config waivers =
     (case policy_inputs dv of
        Inl r \<Rightarrow>
          unread_row ''policy_envelope''
            (''policy envelope could not read the diff; failing closed '' @
             ''(infrastructure error, not a policy pass)'')
            [''Error: '' @ tx_git tx r, policy_diff_unreadable]
            (infrastructure_error ''policy'' (''policy envelope could not read the diff: '' @ tx_git tx r))
      | Inr (diff, changed, ns) \<Rightarrow>
          (case evaluate_policy env changed ns diff config of
             Inl e \<Rightarrow> envelope_error_row tx e
           | Inr e \<Rightarrow>
               (let (findings, waived, reasons) =
                      apply_waivers digest (map policy_finding (pe_violations e)) waivers;
                    refusals = map (tx_reason tx) reasons;
                    (blocking, advisories, details) = after_waivers findings refusals
                in (check_row ''policy_envelope'' (blocking = [])
                      (envelope_message e blocking advisories (waiver_note waived refusals)))
                      \<lparr>ck_details := details, ck_findings := findings\<rparr>)))"

end
