(* ===== verification/Verify.thy ===== *)
theory Verify
  imports Verify_Commands Verify_Diff
begin

text \<open>
  \<open>kstrl/verify/verify.py\<close>: Phase 1. The check of the progress log, the check of the stories and the
  function that runs every check over one worktree. The worktree is a world: the commands of the stack
  change it, and each check reads it when it runs. How an exception, a tampered PRD and \<open>repr\<close> read are
  arguments.
\<close>

section \<open>The self-critique of the latest entry\<close>

definition one_of :: "string \<Rightarrow> re" where "one_of cs = One (\<lambda>c. c \<in> set cs)"

definition spaces :: re where "spaces = plus_of space_class"

definition some_spaces :: re where "some_spaces = Star space_class"

definition stars2 :: re where "stars2 = word ''**''"

definition self_critique_head :: re where
  "self_critique_head =
     Seq (Alt (Seq (Alt (word ''##'') (word ''###'')) spaces)
              (Seq (one_of ''-*'') (Seq spaces (Seq stars2 some_spaces))))
         (Seq (word_nocase ''Self'') (Seq (One (\<lambda>c. c = CHR ''-'' \<or> is_space c)) (word_nocase ''Critique'')))"

definition self_critique_heading :: "string \<Rightarrow> bool" where
  "self_critique_heading l =
     (re_match (Seq self_critique_head
        (Seq some_spaces (Alt stars2 (Alt (word '':'') (Seq stars2 (Seq some_spaces (word '':'')))))))
        l \<or>
      re_match_line (Seq self_critique_head some_spaces) l)"

text \<open>\<open>\w\<close> on the first 256 code points.\<close>

definition word_char :: "char \<Rightarrow> bool" where
  "word_char c =
     (is_alnum_ascii c \<or> c = CHR ''_'' \<or>
      (let n = of_char c :: nat
       in n \<in> {0xAA, 0xB2, 0xB3, 0xB5, 0xB9, 0xBA, 0xBC, 0xBD, 0xBE} \<or> 0xC0 \<le> n \<and> n \<noteq> 0xD7 \<and> n \<noteq> 0xF7))"

definition iteration_word :: re where
  "iteration_word = Seq (word ''##'') (Seq spaces (word_nocase ''Iteration''))"

definition iteration_heading :: "string \<Rightarrow> bool" where
  "iteration_heading l =
     (re_match (Seq (word ''##'') (Seq spaces (Seq (opt (word ''[''))
        (Seq (exactly 4 digit_class) (Seq (word ''-'') (Seq (exactly 2 digit_class)
          (Seq (word ''-'') (exactly 2 digit_class)))))))) l \<or>
      re_match (Seq iteration_word (One (\<lambda>c. \<not> word_char c))) l \<or> accepts iteration_word l)"

definition section_bullet :: "string \<Rightarrow> bool" where
  "section_bullet l =
     re_match (Seq (one_of ''-*'') (Seq spaces (Seq stars2
       (Seq (plus_of (One (\<lambda>c. c \<noteq> CHR ''*''))) stars2)))) l"

definition entry_separator :: "string \<Rightarrow> bool" where
  "entry_separator l = re_match_line (at_least 3 (One (\<lambda>c. c = CHR ''-''))) l"

text \<open>The last index from \<open>lo\<close> on that satisfies a predicate.\<close>

definition last_index :: "(string \<Rightarrow> bool) \<Rightarrow> nat \<Rightarrow> string list \<Rightarrow> nat option" where
  "last_index p lo ls = find (\<lambda>i. p (ls ! i)) (rev [lo..<length ls])"

definition latest_entry :: "string list \<Rightarrow> nat option" where
  "latest_entry ls = last_index iteration_heading 0 ls"

definition ends_block :: "string \<Rightarrow> bool" where
  "ends_block l = (startswith (strip l) ''##'' \<or> entry_separator (strip l) \<or> section_bullet l)"

definition bullet_body :: "string \<Rightarrow> string option" where
  "bullet_body l =
     (let s = strip l; body = strip (drop 2 s)
      in if (startswith s ''- '' \<or> startswith s ''* '') \<and> body \<noteq> [] \<and>
            \<not> list_ex (startswith (map lower_char body)) [''tbd'', ''todo'', ''n/a'']
         then Some body else None)"

definition bullets_of :: "string list \<Rightarrow> string list" where
  "bullets_of ls = List.map_filter bullet_body (takeWhile (\<lambda>l. \<not> ends_block l) ls)"

datatype progress_read = Progress_Text string | Progress_Unreadable string | Progress_Not_Utf8 string

definition missing_critique :: "(string \<Rightarrow> string) \<Rightarrow> string list \<Rightarrow> nat option \<Rightarrow> string" where
  "missing_critique rep ls found =
     ''No '' @ [CHR 0x27] @ ''## Self-Critique'' @ [CHR 0x27] @ '' block found '' @
     (case found of
        Some i \<Rightarrow> ''in the latest iteration entry (line '' @ nat_text (i + 1) @ '': '' @
                  rep (take 60 (strip (ls ! i))) @ '')''
      | None \<Rightarrow> ''in progress file'') @
     ''. Engineer prompt mandates >=3 failure-mode bullets before declaring done.''"

definition critique_row :: "string list \<Rightarrow> int \<Rightarrow> check_result" where
  "critique_row bodies min_bullets =
     (if int (length bodies) < min_bullets
      then (check_row ''self_critique'' False
             (''Self-Critique block has '' @ nat_text (length bodies) @ '' bullets; minimum required is '' @
              int_text min_bullets))\<lparr>ck_details := map (take 80) bodies\<rparr>
      else check_row ''self_critique'' True (nat_text (length bodies) @ '' failure modes listed''))"

definition check_self_critique :: "(string \<Rightarrow> string) \<Rightarrow> progress_read \<Rightarrow> int \<Rightarrow> check_result" where
  "check_self_critique rep progress min_bullets =
     (case progress of
        Progress_Unreadable why \<Rightarrow>
          (check_row ''self_critique'' False (''Could not read progress file: '' @ why))\<lparr>ck_measured := False\<rparr>
      | Progress_Not_Utf8 why \<Rightarrow>
          (check_row ''self_critique'' False (''Progress file is not valid UTF-8: '' @ why))\<lparr>ck_measured := False\<rparr>
      | Progress_Text text \<Rightarrow>
          (let ls = splitlines text; found = latest_entry ls;
               lo = (case found of None \<Rightarrow> 0 | Some i \<Rightarrow> i)
           in case last_index self_critique_heading lo ls of
                None \<Rightarrow> check_row ''self_critique'' False (missing_critique rep ls found)
              | Some h \<Rightarrow> critique_row (bullets_of (drop (h + 1) ls)) min_bullets))"

section \<open>The stories\<close>

datatype prd_read = Prd_Failed string | Prd_Loaded prd

definition prd_tamper_gates :: string where
  "prd_tamper_gates =
     ''Every gate that reads this file - these stories, the '' @
     ''approved fixtures, the criteria the reviewer is given - '' @
     ''is judging a document the component rewrote. Restore it '' @
     ''to what the run started with; do not treat this as '' @
     ''permission to change what the component is measured '' @
     ''against.''"

definition prd_tamper_fields :: "string list \<Rightarrow> string" where
  "prd_tamper_fields changes =
     ''It '' @ join_with ''; '' changes @ ''. A component may set `passes` '' @
     ''and `notes` on its own stories and nothing else: it may '' @
     ''not rewrite the criteria or the fixtures it is judged '' @
     ''against.''"

definition prd_stories_row :: "(tamper \<Rightarrow> string) \<Rightarrow> prd \<Rightarrow> tamper list \<Rightarrow> check_result" where
  "prd_stories_row tamper_text p tampered =
     (let failing = filter (\<lambda>s. \<not> us_passes s) (pd_stories p)
      in if tampered \<noteq> []
         then (check_row ''prd_stories'' False ''The PRD is not the one this run started with; failing closed'')
                \<lparr>ck_details := [prd_tamper_fields (map tamper_text tampered), prd_tamper_gates]\<rparr>
         else if failing \<noteq> []
         then (check_row ''prd_stories'' False (nat_text (length failing) @ '' stories not marked as passing''))
                \<lparr>ck_details := map (\<lambda>s. us_id s @ '': '' @ us_title s) failing\<rparr>
         else check_row ''prd_stories'' True (''All '' @ nat_text (length (pd_stories p)) @ '' stories passing''))"

text \<open>\<open>pre_run\<close> is the path of the copy the run started with and what loading it gives.\<close>

definition check_prd_stories ::
    "(tamper \<Rightarrow> string) \<Rightarrow> prd_read \<Rightarrow> (string \<times> prd_read) option \<Rightarrow> check_result" where
  "check_prd_stories tamper_text current pre_run =
     (case current of
        Prd_Failed why \<Rightarrow> (check_row ''prd_stories'' False (''Failed to load PRD: '' @ why))\<lparr>ck_measured := False\<rparr>
      | Prd_Loaded p \<Rightarrow>
          (case pre_run of
             None \<Rightarrow> prd_stories_row tamper_text p []
           | Some (path, Prd_Failed why) \<Rightarrow>
               (check_row ''prd_stories'' False
                 (''The PRD this run started from, '' @ path @ '', could not be read; failing closed: '' @ why))
                 \<lparr>ck_measured := False\<rparr>
           | Some (path, Prd_Loaded before) \<Rightarrow> prd_stories_row tamper_text p (tamper_changes p before)))"

section \<open>Phase 1\<close>

definition diff_dependent_checks :: "string list" where
  "diff_dependent_checks = [''diff_scope'', ''bad_patterns'', ''policy_envelope'']"

record 'w verify_env =
  ve_commands :: "'w command_env"
  ve_texts :: diff_texts
  ve_policy :: policy_env
  ve_digest :: digest
  ve_tamper_text :: "tamper \<Rightarrow> string"
  ve_repr :: "string \<Rightarrow> string"
  ve_diff :: "string \<Rightarrow> 'w \<Rightarrow> diff_view"
  ve_prd :: "string \<Rightarrow> 'w \<Rightarrow> prd_read"
  ve_progress :: "string \<Rightarrow> 'w \<Rightarrow> progress_read"
  ve_sibling :: "string \<Rightarrow> string"
  ve_in_worktree :: "string \<Rightarrow> string"

text \<open>\<open>ve_sibling\<close> is the progress log beside a PRD (\<open>component_progress_path\<close>), \<open>ve_in_worktree\<close> the
  join of the worktree's path and another.\<close>

definition self_critique_progress_path :: "'w verify_env \<Rightarrow> verify_config \<Rightarrow> string option \<Rightarrow> string option" where
  "self_critique_progress_path env c prd_path =
     (if \<not> vf_require_self_critique c then None
      else
        (case vf_progress_file c of
           Some p \<Rightarrow> Some (ve_in_worktree env p)
         | None \<Rightarrow> map_option (\<lambda>p. ve_in_worktree env (ve_sibling env p)) prd_path))"

record verify_request =
  vq_prd_path :: "string option"
  vq_base_branch :: string
  vq_allowed_paths :: "string list option"
  vq_allowed_paths_error :: "string option"
  vq_harness_paths :: "string list"
  vq_pre_run_prd_path :: "string option"
  vq_policy :: "policy_config option"
  vq_autonomy_level :: int
  vq_waivers :: "waivers option"

definition secret_patterns_in_force :: "verify_request \<Rightarrow> string list" where
  "secret_patterns_in_force q =
     (case vq_policy q of Some p \<Rightarrow> po_secret_patterns p | None \<Rightarrow> default_secret_patterns)"

definition envelope_of :: "verify_request \<Rightarrow> policy_config option" where
  "envelope_of q = (case vq_policy q of Some p \<Rightarrow> (if po_enabled p then Some p else None) | None \<Rightarrow> None)"

definition prd_rows :: "'w verify_env \<Rightarrow> verify_request \<Rightarrow> 'w \<Rightarrow> check_result list" where
  "prd_rows env q w =
     (case vq_prd_path q of
        None \<Rightarrow> []
      | Some p \<Rightarrow>
          [check_prd_stories (ve_tamper_text env) (ve_prd env p w)
             (map_option (\<lambda>b. (b, ve_prd env b w)) (vq_pre_run_prd_path q))])"

definition diff_rows :: "'w verify_env \<Rightarrow> verify_request \<Rightarrow> verify_config \<Rightarrow> 'w \<Rightarrow> check_result list" where
  "diff_rows env q c w =
     (let dv = ve_diff env (vq_base_branch q) w
      in scope_checks (ve_texts env) dv (vq_allowed_paths q) (vq_allowed_paths_error q) (vq_harness_paths q)
           (vf_check_diff_scope c) @
         (if vf_check_bad_patterns c
          then [check_bad_patterns (ve_texts env) (ve_policy env) dv (secret_patterns_in_force q)
                  (envelope_of q \<noteq> None)]
          else []) @
         (case envelope_of q of
            None \<Rightarrow> []
          | Some p \<Rightarrow>
              [check_policy_envelope (ve_texts env) (ve_policy env) (ve_digest env) dv p (vq_waivers q)]))"

definition critique_rows :: "'w verify_env \<Rightarrow> verify_request \<Rightarrow> verify_config \<Rightarrow> 'w \<Rightarrow> check_result list" where
  "critique_rows env q c w =
     (case self_critique_progress_path env c (vq_prd_path q) of
        None \<Rightarrow> []
      | Some p \<Rightarrow> [check_self_critique (ve_repr env) (ve_progress env p w) (vf_min_bullets c)])"

definition run_mechanical_verification ::
    "'w verify_env \<Rightarrow> verify_request \<Rightarrow> verify_config \<Rightarrow> 'w \<Rightarrow> verification_result \<times> 'w" where
  "run_mechanical_verification env q c w =
     (let ((gate_rows, gate_gaps), w') = command_gates (ve_commands env) c (gate_names c) w
      in (verdict_of (prd_rows env q w @ gate_rows @ diff_rows env q c w' @ critique_rows env q c w')
            (gate_gaps @ (if vq_autonomy_level q \<ge> 1 then [layer0_not_measured] else [])), w'))"

definition narrow_to_undiffed :: "verify_config \<Rightarrow> verify_config" where
  "narrow_to_undiffed c = c\<lparr>vf_check_diff_scope := False, vf_check_bad_patterns := False\<rparr>"

definition undiffed_request :: verify_request where
  "undiffed_request =
     \<lparr>vq_prd_path = None, vq_base_branch = [], vq_allowed_paths = None, vq_allowed_paths_error = None,
      vq_harness_paths = [], vq_pre_run_prd_path = None, vq_policy = None, vq_autonomy_level = 0,
      vq_waivers = None\<rparr>"

definition run_undiffed_verification ::
    "'w verify_env \<Rightarrow> verify_config \<Rightarrow> 'w \<Rightarrow> verification_result \<times> 'w" where
  "run_undiffed_verification env c w = run_mechanical_verification env undiffed_request (narrow_to_undiffed c) w"

end
