(* ===== verification/Policy_Contract.thy ===== *)
theory Policy_Contract
  imports Policy
begin

text \<open>
  What the policy envelope promises: what a glob matches, that the hardcoded paths are protected
  whatever the configuration says, when an evaluation is clean, that the added lines of a diff as git
  prints it are the lines that are scanned, and the two inputs for which they are not.
\<close>

section \<open>Globs\<close>

lemma glob_tokens_plain_aux:
  assumes "c \<noteq> CHR ''*''" and "c \<noteq> CHR ''?''"
  shows "glob_tokens (c # cs) = Literal c # glob_tokens cs"
  using assms by simp

declare glob_tokens.simps(2) [simp del]

definition plain_glob :: "string \<Rightarrow> bool" where
  "plain_glob p = list_all (\<lambda>c. c \<noteq> CHR ''*'' \<and> c \<noteq> CHR ''?'') p"

lemma plain_glob_simps [simp]:
  "plain_glob []" "plain_glob (c # cs) \<longleftrightarrow> c \<noteq> CHR ''*'' \<and> c \<noteq> CHR ''?'' \<and> plain_glob cs"
  by (simp_all add: plain_glob_def)

lemma glob_tokens_append: "plain_glob p \<Longrightarrow> glob_tokens (p @ q) = map Literal p @ glob_tokens q"
  by (induction p) (simp_all add: glob_tokens_plain_aux)

lemma glob_tokens_plain [simp]: "plain_glob p \<Longrightarrow> glob_tokens p = map Literal p"
  using glob_tokens_append [of p "[]"] by simp

lemma glob_tokens_dirs [simp]: "glob_tokens (CHR ''*'' # CHR ''*'' # CHR ''/'' # p) = Any_Dirs # glob_tokens p"
  by (simp add: glob_tokens.simps(2))

lemma glob_tokens_any [simp]: "glob_tokens ''**'' = [Any_Text]"
  by (simp add: glob_tokens.simps(2))

lemma tokens_match_Cons_iff:
  "tokens_match (t # ts) s \<longleftrightarrow> (\<exists>u v. s = u @ v \<and> token_match t u \<and> tokens_match ts v)"
proof
  assume "tokens_match (t # ts) s"
  then obtain n where "token_match t (take n s)" "tokens_match ts (drop n s)"
    unfolding tokens_match.simps list_ex_iff by blast
  then show "\<exists>u v. s = u @ v \<and> token_match t u \<and> tokens_match ts v" by (metis append_take_drop_id)
next
  assume "\<exists>u v. s = u @ v \<and> token_match t u \<and> tokens_match ts v"
  then obtain u v where s: "s = u @ v" and t: "token_match t u" "tokens_match ts v" by blast
  have "token_match t (take (length u) s)" "tokens_match ts (drop (length u) s)" using s t by simp_all
  moreover have "length u \<in> set [0..<Suc (length s)]" by (simp add: s)
  ultimately show "tokens_match (t # ts) s" unfolding tokens_match.simps list_ex_iff by blast
qed

declare tokens_match.simps(2) [simp del]

lemma tokens_match_literals: "tokens_match (map Literal p @ ts) s \<longleftrightarrow> (\<exists>v. s = p @ v \<and> tokens_match ts v)"
  by (induction p arbitrary: s) (auto simp: tokens_match_Cons_iff token_match_def)

lemma glob_literal: "plain_glob p \<Longrightarrow> glob_matches p s \<longleftrightarrow> s \<in> {p, p @ [newline]}"
  using tokens_match_literals [of p "[]" s] by (auto simp: glob_matches_def)

lemma glob_below:
  "plain_glob p \<Longrightarrow> glob_matches (p @ ''**'') s \<longleftrightarrow>
     (\<exists>w. newline \<notin> set w \<and> s \<in> {p @ w, p @ w @ [newline]})"
  by (auto simp: glob_matches_def glob_tokens_append tokens_match_literals tokens_match_Cons_iff token_match_def)

lemma glob_anywhere:
  assumes "plain_glob p"
  shows "glob_matches (''**/'' @ p) s \<longleftrightarrow>
           (\<exists>d. (d = [] \<or> newline \<notin> set d \<and> last d = CHR ''/'') \<and> s \<in> {d @ p, d @ p @ [newline]})"
proof -
  have "tokens_match (map Literal p) v \<longleftrightarrow> v \<in> {p, p @ [newline]}" for v
    using tokens_match_literals [of p "[]" v] by auto
  then show ?thesis using assms by (simp add: glob_matches_def tokens_match_Cons_iff token_match_def) blast
qed

lemma match_glob_None_iff: "match_glob path ps = None \<longleftrightarrow> list_all (\<lambda>p. \<not> glob_matches p path) ps"
  by (auto simp: match_glob_def find_None_iff list_all_iff)

lemma match_glob_append:
  "match_glob path (ps @ qs) = (case match_glob path ps of None \<Rightarrow> match_glob path qs | Some p \<Rightarrow> Some p)"
  by (induction ps) (auto simp: match_glob_def)

section \<open>The paths of the enforcement\<close>

lemma machinery_files_grow:
  "set (filter (\<lambda>f. match_glob f enforcement_machinery_paths \<noteq> None) changed) \<subseteq> set (machinery_files c changed)"
  by (auto simp: machinery_files_def machinery_patterns_def match_glob_append split: option.splits)

lemma all_machinery:
  assumes "list_all (\<lambda>f. match_glob f enforcement_machinery_paths \<noteq> None) changed"
  shows "set (machinery_files c changed) = set changed"
proof
  show "set changed \<subseteq> set (machinery_files c changed)"
    using machinery_files_grow [of changed c] assms by (auto simp: list_all_iff)
qed (auto simp: machinery_files_def)

definition verifier_files :: "string list" where
  "verifier_files = map (drop 3) (filter (\<lambda>p. startswith p ''**/'') enforcement_machinery_paths)"

lemma machinery_anywhere:
  assumes "p \<in> set verifier_files"
  shows "''**/'' @ p \<in> set enforcement_machinery_paths" and "plain_glob p"
proof -
  obtain q where q: "q \<in> set enforcement_machinery_paths" "startswith q ''**/''" "p = drop 3 q"
    using assms by (auto simp: verifier_files_def)
  then have "''**/'' @ p = q" by (auto simp: startswith_def prefix_def)
  then show "''**/'' @ p \<in> set enforcement_machinery_paths" using q(1) by simp
  have "list_all plain_glob verifier_files" by code_simp
  then show "plain_glob p" using assms by (simp add: list_all_iff)
qed

text \<open>the verifier's own files are protected in every directory, as are the workflows and the policy
  file: whatever the configuration adds, a changed path that names one of them below any directory
  counts as enforcement machinery. The directory's name and the file's hold no newline.\<close>

theorem verifier_protected:
  assumes "p \<in> set verifier_files" and "newline \<notin> set d" and "newline \<notin> set w"
  shows "set (machinery_files c [d @ ''/'' @ p, p, ''.github/workflows/'' @ w, ''kstrl.toml'']) =
           {d @ ''/'' @ p, p, ''.github/workflows/'' @ w, ''kstrl.toml''}"
proof -
  note plain = machinery_anywhere [OF assms(1)]
  have hit: "match_glob f enforcement_machinery_paths \<noteq> None"
    if "glob_matches g f" and "g \<in> set enforcement_machinery_paths" for f g
    using that by (auto simp: match_glob_None_iff list_all_iff)
  have "glob_matches (''**/'' @ p) (d @ ''/'' @ p)"
    unfolding glob_anywhere [OF plain(2)]
    by (rule exI [of _ "d @ ''/''"]) (use assms(2) in \<open>simp add: newline_def\<close>)
  moreover have "glob_matches (''**/'' @ p) p" unfolding glob_anywhere [OF plain(2)] by blast
  moreover have "glob_matches ''.github/workflows/**'' (''.github/workflows/'' @ w)"
    using assms(3) glob_below [of "''.github/workflows/''" "''.github/workflows/'' @ w"] by auto
  moreover have "glob_matches ''kstrl.toml'' ''kstrl.toml''" by (subst glob_literal) simp_all
  moreover have "''.github/workflows/**'' \<in> set enforcement_machinery_paths"
      "''kstrl.toml'' \<in> set enforcement_machinery_paths"
    by (simp_all add: enforcement_machinery_paths_def)
  ultimately have "list_all (\<lambda>f. match_glob f enforcement_machinery_paths \<noteq> None)
      [d @ ''/'' @ p, p, ''.github/workflows/'' @ w, ''kstrl.toml'']"
    using hit plain(1) by (simp only: list.pred_inject) blast
  from all_machinery [OF this] show ?thesis by (simp only: list.set)
qed

theorem verifier_protected_witness:
  "set (machinery_files default_policy
      [''vendor/kstrl/verify/policy.py'', ''kstrl/verify/policy.py'', ''.github/workflows/ci.yml'', ''kstrl.toml'']) =
    {''vendor/kstrl/verify/policy.py'', ''kstrl/verify/policy.py'', ''.github/workflows/ci.yml'', ''kstrl.toml''}"
proof -
  have "''**/kstrl/verify/policy.py'' \<in> set enforcement_machinery_paths"
    by (simp add: enforcement_machinery_paths_def)
  then have "drop 3 ''**/kstrl/verify/policy.py'' \<in> set verifier_files"
    unfolding verifier_files_def set_map set_filter by (intro imageI) (simp add: startswith_def)
  then have "''kstrl/verify/policy.py'' \<in> set verifier_files" by simp
  then show ?thesis
    using verifier_protected [of "''kstrl/verify/policy.py''" "''vendor''" "''ci.yml''" default_policy]
    by (simp add: newline_def)
qed

text \<open>A workflow file with a newline in its name is not protected.\<close>

lemma newline_escapes_machinery:
  "match_glob (''.github/workflows/a'' @ newline # ''b.yml'') (machinery_patterns default_policy) = None"
proof -
  have "list_all (\<lambda>g. \<not> glob_matches g (''.github/workflows/a'' @ newline # ''b.yml''))
      (machinery_patterns default_policy)" by code_simp
  then show ?thesis by (simp add: match_glob_None_iff)
qed

section \<open>A clean evaluation\<close>

lemma violations_block:
  "list_all pv_blocking (machinery_violations c changed @ deny_violations c changed @ size_violations c ns @
     secret_violations hits)"
  by (simp add: machinery_violations_def deny_violations_def size_violations_def secret_violations_def
      pv_blocking_def high_violation_def Let_def case_prod_unfold)

lemma add_hit_not_Nil: "add_hit hits p h \<noteq> []"
proof -
  have "dict_get (add_hit hits p h) p \<noteq> None" by (simp add: add_hit_def Let_def dict_get_set)
  then show ?thesis by auto
qed

lemma scan_fold_Nil_iff:
  "foldl (scan_line sha12 compiled) hits added = [] \<longleftrightarrow>
     hits = [] \<and> list_all (\<lambda>pl. list_all (\<lambda>r. \<not> r (snd pl)) compiled) added"
  by (induction added arbitrary: hits)
    (auto simp: scan_line_def add_hit_not_Nil list_ex_iff list_all_iff)

lemma compile_all_Inr:
  "compile_all regex patterns = Inr compiled \<longleftrightarrow>
     list_all (\<lambda>p. regex p \<noteq> None) patterns \<and> compiled = map (\<lambda>p. the (regex p)) patterns"
  by (auto simp: compile_all_def find_None_iff list_all_iff split: option.splits dest: find_SomeD)

definition within_caps :: "policy_config \<Rightarrow> numstat \<Rightarrow> bool" where
  "within_caps c ns =
     ((po_max_files c < 0 \<or> fst (count_diff_size ns) \<le> po_max_files c) \<and>
      (po_max_lines c < 0 \<or> snd (count_diff_size ns) \<le> po_max_lines c))"

definition secret_free :: "regex \<Rightarrow> string list \<Rightarrow> string \<Rightarrow> bool" where
  "secret_free regex patterns line =
     list_all (\<lambda>p. case regex p of None \<Rightarrow> False | Some r \<Rightarrow> \<not> r line) patterns"

lemma secret_free_compiled:
  "list_all (\<lambda>p. regex p \<noteq> None) ps \<Longrightarrow>
     secret_free regex ps l \<longleftrightarrow> list_all (\<lambda>r. \<not> r l) (map (\<lambda>p. the (regex p)) ps)"
  by (induction ps) (auto simp: secret_free_def)

lemma size_violations_Nil: "size_violations c ns = [] \<longleftrightarrow> within_caps c ns"
  by (auto simp: size_violations_def within_caps_def case_prod_unfold Let_def)

lemma deny_hits_Nil:
  "deny_hits c changed = [] \<longleftrightarrow>
     list_all (\<lambda>p. p \<in> set (machinery_files c changed) \<or> match_glob p (po_paths_deny c) \<in> {None, Some []}) changed"
proof -
  have "deny_hit c m p = [] \<longleftrightarrow> p \<in> set m \<or> match_glob p (po_paths_deny c) \<in> {None, Some []}" for m p
    by (simp add: deny_hit_def split: option.splits)
  then show ?thesis by (simp add: deny_hits_def concat_eq_Nil_conv list_all_iff)
qed

lemma evaluation_returns:
  assumes "parse_added_lines (pn_codec env) diff = Inr added"
    and "compile_all (pn_regex env) (po_secret_patterns c) = Inr compiled"
  obtains e where "evaluate_policy env changed ns diff c = Inr e"
  using assms by (simp add: evaluate_policy_def scan_secrets_def Let_def)

lemma envelope_clean:
  assumes "evaluate_policy env changed ns diff c = Inr e" and "parse_added_lines (pn_codec env) diff = Inr added"
  shows "pe_ok e \<longleftrightarrow>
           machinery_files c changed = [] \<and> deny_hits c changed = [] \<and> within_caps c ns \<and>
           list_all (\<lambda>pl. secret_free (pn_regex env) (po_secret_patterns c) (snd pl)) added"
proof -
  obtain hits where hits: "scan_secrets (pn_regex env) (pn_sha12 env) added (po_secret_patterns c) = Inr hits"
    and e: "pe_ok e = list_all (\<lambda>v. \<not> pv_blocking v) (machinery_violations c changed @
      deny_violations c changed @ size_violations c ns @ secret_violations hits)"
    using assms by (auto simp: evaluate_policy_def and_then_Inr Let_def)
  have Nil: "list_all (\<lambda>v. \<not> pv_blocking v) vs \<longleftrightarrow> vs = []" if "list_all pv_blocking vs" for vs
    using that by (cases vs) simp_all
  have "pe_ok e \<longleftrightarrow> machinery_files c changed = [] \<and> deny_hits c changed = [] \<and> within_caps c ns \<and> hits = []"
    unfolding e Nil [OF violations_block]
    by (simp add: size_violations_Nil)
      (simp add: machinery_violations_def deny_violations_def secret_violations_def Let_def)
  moreover have "hits = [] \<longleftrightarrow> list_all (\<lambda>pl. secret_free (pn_regex env) (po_secret_patterns c) (snd pl)) added"
    using hits
    by (auto simp: scan_secrets_def and_then_Inr compile_all_Inr scan_fold_Nil_iff secret_free_compiled
        simp del: list.pred_map)
  ultimately show ?thesis by simp
qed

lemma ok_no_violations:
  assumes "evaluate_policy env changed ns diff c = Inr e" and "pe_ok e"
  shows "pe_violations e = []"
proof -
  obtain hits where hits: "pe_violations e = machinery_violations c changed @ deny_violations c changed @
      size_violations c ns @ secret_violations hits" "list_all (\<lambda>v. \<not> pv_blocking v) (pe_violations e)"
    using assms by (auto simp: evaluate_policy_def and_then_Inr Let_def)
  have "list_all pv_blocking (pe_violations e)" using violations_block [of c changed ns hits] by (simp only: hits(1))
  then show ?thesis using hits(2) by (cases "pe_violations e") simp_all
qed

text \<open>an evaluation that ends is clean exactly when no changed path is enforcement machinery, none is
  denied, both sizes are within their caps (a negative cap is none) and no added line of the diff holds
  a secret.\<close>

theorem envelope_clean_iff:
  assumes "evaluate_policy env changed ns diff c = Inr e" and "parse_added_lines (pn_codec env) diff = Inr added"
  shows "pe_ok e \<longleftrightarrow>
           machinery_files c changed = [] \<and> deny_hits c changed = [] \<and> within_caps c ns \<and>
           list_all (\<lambda>pl. secret_free (pn_regex env) (po_secret_patterns c) (snd pl)) added"
  using envelope_clean [OF assms] .

text \<open>An evaluation of one file that adds a line and is within the caps.\<close>

definition plain_env :: policy_env where
  "plain_env = \<lparr>pn_codec = (\<lambda>_. None), pn_regex = (\<lambda>p. Some (\<lambda>l. startswith l p)), pn_sha12 = (\<lambda>l. l)\<rparr>"

definition one_added :: "string \<Rightarrow> string \<Rightarrow> string" where
  "one_added path line =
     concat (map (\<lambda>l. l @ [newline])
       [''diff --git a/'' @ path @ '' b/'' @ path, ''--- a/'' @ path, ''+++ b/'' @ path, ''@@ -0,0 +1 @@'', ''+'' @ line])"

lemma one_added_parsed: "parse_added_lines (\<lambda>_. None) (one_added ''a.py'' ''key = 1'') = Inr [(''a.py'', ''key = 1'')]"
  by code_simp

theorem envelope_clean_iff_witness:
  "map_sum id pe_ok (evaluate_policy plain_env [''a.py''] [(Some 1, None, ''a.py'')] (one_added ''a.py'' ''key = 1'')
      default_policy) = Inr True"
proof -
  have clean: "machinery_files default_policy [''a.py''] = []" "deny_hits default_policy [''a.py''] = []"
      "within_caps default_policy [(Some 1, None, ''a.py'')]"
      "list_all (\<lambda>pl. secret_free (pn_regex plain_env) (po_secret_patterns default_policy) (snd pl))
         [(''a.py'', ''key = 1'')]"
    by code_simp+
  have parsed: "parse_added_lines (pn_codec plain_env) (one_added ''a.py'' ''key = 1'') = Inr [(''a.py'', ''key = 1'')]"
    using one_added_parsed by (simp add: plain_env_def)
  obtain e where e: "evaluate_policy plain_env [''a.py''] [(Some 1, None, ''a.py'')] (one_added ''a.py'' ''key = 1'')
      default_policy = Inr e"
    using evaluation_returns [OF parsed, of default_policy "map (\<lambda>p l. startswith l p) (po_secret_patterns default_policy)"]
    by (auto simp: compile_all_Inr plain_env_def list_all_iff)
  show ?thesis using envelope_clean_iff [OF e parsed] clean e by simp
qed

section \<open>The added lines of a diff\<close>

text \<open>The lines of a hunk as git prints them.\<close>

datatype diff_line = Context_Line string | Removed_Line string | Added_Line string | Hunk_Line string | No_Newline

fun print_line :: "diff_line \<Rightarrow> string" where
  "print_line (Context_Line l) = '' '' @ l"
| "print_line (Removed_Line l) = ''-'' @ l"
| "print_line (Added_Line l) = ''+'' @ l"
| "print_line (Hunk_Line l) = ''@@ '' @ l"
| "print_line No_Newline = [CHR 0x5C] @ '' No newline at end of file''"

fun added_text :: "diff_line \<Rightarrow> string list" where
  "added_text (Added_Line l) = [without_cr l]"
| "added_text _ = []"

record file_diff =
  fd_path :: string
  fd_body :: "diff_line list"

definition file_lines :: "file_diff \<Rightarrow> string list" where
  "file_lines f =
     [''diff --git a/'' @ fd_path f @ '' b/'' @ fd_path f, ''--- a/'' @ fd_path f, ''+++ b/'' @ fd_path f] @
     map print_line (fd_body f)"

definition print_diff :: "file_diff list \<Rightarrow> string" where
  "print_diff fs = concat (map (\<lambda>l. l @ [newline]) (concat (map file_lines fs)))"

definition added_of :: "file_diff \<Rightarrow> (string \<times> string) list" where
  "added_of f = map (Pair (fd_path f)) (concat (map added_text (fd_body f)))"

text \<open>A removed line that starts with two dashes and a blank, right before an added one that starts with
  two pluses and a blank, prints as a file header.\<close>

definition no_header :: "diff_line \<Rightarrow> diff_line \<Rightarrow> bool" where
  "no_header a b = (\<not> (startswith (print_line a) ''--- '' \<and> startswith (print_line b) ''+++ ''))"

definition file_diff_wf :: "file_diff \<Rightarrow> bool" where
  "file_diff_wf f =
     (fd_path f \<noteq> [] \<and> strip (fd_path f) = fd_path f \<and> fd_path f \<noteq> ''/dev/null'' \<and>
      list_all (\<lambda>l. newline \<notin> set l) (file_lines f) \<and> successively no_header (fd_body f))"

lemma split_on_lines:
  "list_all (\<lambda>l. c \<notin> set l) ls \<Longrightarrow> split_on c (concat (map (\<lambda>l. l @ [c]) ls)) = ls @ [[]]"
proof (induction ls)
  case (Cons l ls)
  have "c \<notin> set l \<Longrightarrow> split_on c (l @ c # rest) = l # split_on c rest" for rest
    by (induction l) auto
  then show ?case using Cons by simp
qed simp

lemma startswith_without_cr:
  assumes "carriage_return \<notin> set p"
  shows "startswith (without_cr l) p \<longleftrightarrow> startswith l p"
proof (cases "endswith l [carriage_return]")
  case True
  then obtain k where l: "l = k @ [carriage_return]" by (auto simp: endswith_def suffix_def)
  have "prefix p l \<longleftrightarrow> prefix p k" using assms unfolding l prefix_snoc by auto
  then show ?thesis using True by (simp add: startswith_def without_cr_def l)
qed (simp add: without_cr_def)

lemma without_cr_Cons: "c \<noteq> carriage_return \<Longrightarrow> without_cr (c # l) = c # without_cr l"
  by (cases l rule: rev_cases) (auto simp: without_cr_def endswith_def suffix_def Cons_eq_append_conv)

lemma startswith_cr [simp]:
  "startswith (without_cr l) ''--- '' \<longleftrightarrow> startswith l ''--- ''"
  "startswith (without_cr l) ''+++ '' \<longleftrightarrow> startswith l ''+++ ''"
  "startswith (without_cr l) ''diff --git'' \<longleftrightarrow> startswith l ''diff --git''"
  "startswith (without_cr l) ''+'' \<longleftrightarrow> startswith l ''+''"
  by (rule startswith_without_cr; simp add: carriage_return_def)+

lemma print_line_starts:
  "\<not> startswith (print_line a) ''diff --git''" "startswith (print_line a) ''+'' \<longleftrightarrow> (\<exists>l. a = Added_Line l)"
  by (cases a; simp add: startswith_def)+

lemma and_then_assoc: "and_then (and_then r f) g = and_then r (\<lambda>x. and_then (f x) g)"
  by (cases r) simp_all

lemma added_line_step:
  assumes "no_header x y"
  shows "added_from codec (Some p) (without_cr (print_line x)) (print_line y # rest) =
           and_then (added_from codec (Some p) (without_cr (print_line y)) rest)
             (\<lambda>r. Inr (map (Pair p) (added_text y) @ r))"
proof -
  have no: "\<not> file_header (without_cr (print_line x)) (without_cr (print_line y))"
    using assms by (auto simp: file_header_def no_header_def)
  have id: "and_then r (\<lambda>r. Inr r) = r" for r :: "policy_error + (string \<times> string) list" by (cases r) simp_all
  show ?thesis
  proof (cases "\<exists>l. y = Added_Line l")
    case True
    then obtain l where y: "y = Added_Line l" by blast
    have "without_cr (CHR ''+'' # l) = CHR ''+'' # without_cr l" by (rule without_cr_Cons) (simp add: carriage_return_def)
    then show ?thesis using no print_line_starts(1) [of y] by (simp add: y startswith_def)
  next
    case False
    then have "added_text y = []" by (cases y) simp_all
    then show ?thesis
      using no False by (simp add: Let_def print_line_starts id)
  qed
qed

lemma added_body:
  assumes "successively no_header (x # body)"
  shows "\<exists>prev. added_from codec (Some p) (without_cr (print_line x)) (map print_line body @ rest) =
           and_then (added_from codec (Some p) prev rest)
             (\<lambda>r. Inr (map (Pair p) (concat (map added_text body)) @ r))"
  using assms
proof (induction body arbitrary: x)
  case Nil
  have "and_then r (\<lambda>r. Inr r) = r" for r :: "policy_error + (string \<times> string) list" by (cases r) simp_all
  then show ?case by auto
next
  case (Cons y body)
  then have step: "no_header x y" and rest: "successively no_header (y # body)" by simp_all
  obtain prev where "added_from codec (Some p) (without_cr (print_line y)) (map print_line body @ rest) =
      and_then (added_from codec (Some p) prev rest) (\<lambda>r. Inr (map (Pair p) (concat (map added_text body)) @ r))"
    using Cons.IH [OF rest] by blast
  then show ?case using added_line_step [OF step, of codec p "map print_line body @ rest"]
    by (auto simp: and_then_assoc simp del: added_from.simps)
qed

lemma strip_path:
  assumes "strip p = p" and "p \<noteq> []"
  shows "without_cr (h @ p) = h @ p" and "strip (''b/'' @ p) = ''b/'' @ p"
proof -
  have last: "\<not> is_space (last p)"
  proof
    assume "is_space (last p)"
    then obtain q c where p: "p = q @ [c]" "is_space c" using assms(2) by (cases p rule: rev_cases) auto
    have "strip p = strip q"
    proof (cases "dropWhile is_space q = []")
      case True
      then show ?thesis using p(2) by (auto simp: p(1) strip_def dropWhile_append dest: set_dropWhileD)
    next
      case False
      then show ?thesis using p(2) by (auto simp: p(1) strip_def dropWhile_append)
    qed
    then have "length (strip p) \<le> length q"
      using length_dropWhile_le [of is_space "rev (dropWhile is_space q)"] length_dropWhile_le [of is_space q]
      by (simp add: strip_def)
    then have "strip p \<noteq> p" using p(1) by auto
    then show False using assms(1) by simp
  qed
  then have "last p \<noteq> carriage_return" by (auto simp: carriage_return_def is_space_def)
  then show "without_cr (h @ p) = h @ p"
    using assms(2) by (cases p rule: rev_cases) (auto simp: without_cr_def endswith_def suffix_def)
  have "\<not> is_space (CHR ''b'')" by (simp add: is_space_def)
  then show "strip (''b/'' @ p) = ''b/'' @ p"
    using last assms(2) by (cases p rule: rev_cases) (simp_all add: strip_def)
qed

lemma header_path:
  assumes "strip p = p" and "p \<noteq> []"
  shows "diff_header_path codec (''+++ b/'' @ p) = Inr p"
  using strip_path(2) [OF assms]
  by (simp add: diff_header_path_def unquote_diff_path_def quoted_path_def startswith_def)

lemma added_file:
  assumes "file_diff_wf f"
  shows "\<exists>prev'. added_from codec cur prev (file_lines f @ rest) =
           and_then (added_from codec (Some (fd_path f)) prev' rest) (\<lambda>r. Inr (added_of f @ r))"
proof -
  let ?p = "fd_path f"
  have wf: "strip ?p = ?p" "?p \<noteq> []" "?p \<noteq> ''/dev/null''" "successively no_header (fd_body f)"
    using assms by (simp_all add: file_diff_wf_def)
  have cr: "without_cr (''--- a/'' @ ?p) = ''--- a/'' @ ?p" "without_cr (''+++ b/'' @ ?p) = ''+++ b/'' @ ?p"
    using strip_path(1) [OF wf(1,2)] by blast+
  have first: "startswith (''diff --git a/'' @ ?p @ '' b/'' @ ?p) ''diff --git''"
    by (simp add: startswith_def)
  have "added_from codec cur prev (file_lines f @ rest) =
      added_from codec (Some ?p) (''+++ b/'' @ ?p) (map print_line (fd_body f) @ rest)"
    using first cr header_path [OF wf(1,2), of codec] wf(3)
    by (simp add: file_lines_def Let_def file_header_def) (simp add: startswith_def)
  moreover have "successively no_header (Added_Line (''++ b/'' @ ?p) # fd_body f)"
    using wf(4) by (cases "fd_body f") (simp_all add: no_header_def startswith_def)
  ultimately show ?thesis
    using added_body [of "Added_Line (''++ b/'' @ ?p)" "fd_body f" codec ?p rest] cr(2)
    by (simp add: added_of_def)
qed

lemma added_files:
  "list_all file_diff_wf fs \<Longrightarrow>
     added_from codec cur prev (concat (map file_lines fs) @ [[]]) = Inr (concat (map added_of fs))"
proof (induction fs arbitrary: cur prev)
  case Nil
  then show ?case by (simp add: without_cr_def endswith_def startswith_def file_header_def)
next
  case (Cons f fs)
  then show ?case
    using added_file [of f codec cur prev "concat (map file_lines fs) @ [[]]"] by (auto simp del: added_from.simps)
qed

text \<open>every line that a diff adds is scanned, under the path of its file, and no other line is: reading
  a diff as git prints it gives exactly its added lines, whatever they hold, unless a removed line that
  starts with two dashes and a blank stands right before an added one that starts with two pluses and a
  blank.\<close>

theorem added_lines_read_back:
  assumes "list_all file_diff_wf fs"
  shows "parse_added_lines codec (print_diff fs) = Inr (concat (map added_of fs))"
proof -
  have "list_all (\<lambda>l. newline \<notin> set l) (concat (map file_lines fs))"
    using assms by (auto simp: list_all_iff file_diff_wf_def)
  then show ?thesis
    using added_files [OF assms] by (simp add: parse_added_lines_def print_diff_def split_on_lines)
qed

theorem added_lines_read_back_witness:
  "parse_added_lines (\<lambda>_. None)
     (print_diff [\<lparr>fd_path = ''a.sql'', fd_body = [Hunk_Line ''-1 +1,2 @@'', Removed_Line ''x'', Added_Line ''++ y'',
        Added_Line ''z'']\<rparr>]) = Inr [(''a.sql'', ''++ y''), (''a.sql'', ''z'')]"
proof -
  let ?f = "\<lparr>fd_path = ''a.sql'', fd_body = [Hunk_Line ''-1 +1,2 @@'', Removed_Line ''x'', Added_Line ''++ y'',
        Added_Line ''z'']\<rparr>"
  have "file_diff_wf ?f" by code_simp
  moreover have "added_of ?f = [(''a.sql'', ''++ y''), (''a.sql'', ''z'')]" by code_simp
  ultimately show ?thesis using added_lines_read_back [of "[?f]" "\<lambda>_. None"] by simp
qed

text \<open>
  The exception is real: the two lines are taken for the header of another file, so the added one is not
  scanned, and with \<open>/dev/null\<close> for its text neither is any later line of the file.
\<close>

lemma added_line_read_as_header:
  "parse_added_lines (\<lambda>_. None)
     (print_diff [\<lparr>fd_path = ''a.sql'', fd_body = [Hunk_Line ''-1 +1,2 @@'', Removed_Line ''-- x'',
        Added_Line ''++ /dev/null'', Added_Line ''AKIA0123456789ABCDEF'']\<rparr>]) = Inr []"
  by code_simp

section \<open>A key in the diff\<close>

lemma without_cr_tail:
  assumes "k \<noteq> []" and "last k \<noteq> carriage_return"
  shows "\<exists>v'. without_cr (h @ k @ v) = h @ k @ v'"
proof (cases v rule: rev_cases)
  case Nil
  then show ?thesis using assms by (cases k rule: rev_cases) (auto simp: without_cr_def endswith_def suffix_def)
next
  case (snoc w c)
  then show ?thesis by (auto simp: without_cr_def butlast_append)
qed

lemma default_regex_compiles: "list_all (\<lambda>p. default_regex p \<noteq> None) default_secret_patterns"
  by (simp add: default_regex_def default_secret_terms_def default_secret_patterns_def)

definition aws_char :: "char \<Rightarrow> bool" where "aws_char c = (is_digit_ascii c \<or> is_upper_ascii c)"

lemma secret_free_hit: "p \<in> set ps \<Longrightarrow> regex p = Some r \<Longrightarrow> r line \<Longrightarrow> \<not> secret_free regex ps line"
  by (force simp: secret_free_def list_all_iff)

lemma aws_key_found:
  assumes "length k = 16" and "list_all aws_char k"
  shows "\<not> secret_free default_regex default_secret_patterns (u @ ''AKIA'' @ k @ v)"
proof -
  let ?r = "Seq (word ''AKIA'') (exactly 16 (One (\<lambda>c. is_digit_ascii c \<or> is_upper_ascii c)))"
  have "lang (exactly 16 (One (\<lambda>c. is_digit_ascii c \<or> is_upper_ascii c))) k"
    using assms by (simp add: lang_exactly_One aws_char_def list_all_iff)
  moreover have "lang (word ''AKIA'') ''AKIA''" by (simp only: lang_word)
  ultimately have "lang ?r (''AKIA'' @ k)" by (intro lang_Seq)
  then have "re_search ?r (u @ ''AKIA'' @ k @ v)" 
    unfolding re_search_iff
    by (intro exI [of _ u] exI [of _ "''AKIA'' @ k"] exI [of _ v] conjI) (simp only: append.assoc)
  moreover have "default_regex ''AKIA[0-9A-Z]{16}'' = Some (re_search ?r)"
    by (simp add: default_regex_def default_secret_terms_def default_secret_patterns_def)
  moreover have "''AKIA[0-9A-Z]{16}'' \<in> set default_secret_patterns" by (simp add: default_secret_patterns_def)
  ultimately show ?thesis using secret_free_hit by blast
qed

text \<open>with the default patterns an access key on any added line of the diff refuses the change, whatever
  stands around it on the line and whatever else changed.\<close>

theorem default_secrets_refused:
  assumes "list_all file_diff_wf fs" and "f \<in> set fs" and "Added_Line (u @ ''AKIA'' @ k @ v) \<in> set (fd_body f)"
    and "length k = 16" and "list_all aws_char k"
    and "pn_regex env = default_regex" and "po_secret_patterns c = default_secret_patterns"
  shows "\<exists>e. evaluate_policy env changed ns (print_diff fs) c = Inr e \<and> \<not> pe_ok e"
proof -
  have "list_all (\<lambda>l. newline \<notin> set l) (concat (map file_lines fs))"
    using assms(1) by (auto simp: list_all_iff file_diff_wf_def)
  then have parsed: "parse_added_lines (pn_codec env) (print_diff fs) = Inr (concat (map added_of fs))"
    using added_files [OF assms(1)] by (simp add: parse_added_lines_def print_diff_def split_on_lines)
  obtain e where e: "evaluate_policy env changed ns (print_diff fs) c = Inr e"
    using evaluation_returns [OF parsed, of c "map (\<lambda>p. the (default_regex p)) default_secret_patterns"]
      default_regex_compiles assms(6,7) by (auto simp: compile_all_Inr)
  have k: "k \<noteq> []" "last k \<in> set k" using assms(4) by (cases k rule: rev_cases, simp_all)+
  then have "aws_char (last k)" using assms(5) by (simp add: list_all_iff)
  moreover have "\<not> aws_char carriage_return" by code_simp
  ultimately have "last k \<noteq> carriage_return" by auto
  then obtain v' where line: "without_cr (u @ ''AKIA'' @ k @ v) = u @ ''AKIA'' @ k @ v'"
    using without_cr_tail [OF k(1), of "u @ ''AKIA''" v] by auto
  have "without_cr (u @ ''AKIA'' @ k @ v) \<in> set (concat (map added_text (fd_body f)))"
    using assms(3) by (force simp del: append.simps)
  then have "(fd_path f, u @ ''AKIA'' @ k @ v') \<in> set (concat (map added_of fs))"
    using assms(2) line by (auto simp: added_of_def)
  then have "\<not> list_all (\<lambda>pl. secret_free (pn_regex env) (po_secret_patterns c) (snd pl)) (concat (map added_of fs))"
    using aws_key_found [OF assms(4,5), of u v'] unfolding assms(6,7) list_all_iff by (metis snd_conv)
  then show ?thesis using envelope_clean [OF e parsed] e by blast
qed

theorem default_secrets_refused_witness:
  "\<exists>e. evaluate_policy (plain_env\<lparr>pn_regex := default_regex\<rparr>) [''a.py''] []
         (print_diff [\<lparr>fd_path = ''a.py'', fd_body = [Added_Line ''k = AKIA0123456789ABCDEF;'']\<rparr>]) default_policy = Inr e \<and>
       \<not> pe_ok e"
proof -
  let ?f = "\<lparr>fd_path = ''a.py'', fd_body = [Added_Line ''k = AKIA0123456789ABCDEF;'']\<rparr>"
  have "list_all file_diff_wf [?f]" by code_simp
  moreover have "list_all aws_char ''0123456789ABCDEF''" by code_simp
  ultimately show ?thesis
    using default_secrets_refused [of "[?f]" ?f "''k = ''" "''0123456789ABCDEF''" "'';''"
        "plain_env\<lparr>pn_regex := default_regex\<rparr>" default_policy "[''a.py'']" "[]"]
    by (simp add: default_policy_def)
qed

end
