(* ===== verification/Stack_Contract.thy ===== *)
theory Stack_Contract
  imports Stack Waivers_Contract
begin

text \<open>
  What the confirmation of a stack promises: what a usable table holds, that a confirmed stack is the
  one the newest approval names, and that filing and approving a stack confirms it.
\<close>

section \<open>A usable table\<close>

lemma when_present_Nil: "when_present raw k f = [] \<longleftrightarrow> (\<forall>v. map_of raw k = Some v \<longrightarrow> f v = [])"
  by (simp add: when_present_def split: option.splits)

definition env_name_ok :: "string \<Rightarrow> bool" where
  "env_name_ok n =
     (env_name n \<and> list_all (\<lambda>f. \<not> contains_sub (map upper_char n) f) secret_name_fragments \<and>
      \<not> startswith n kstrl_env_prefix)"

lemma env_errors_Nil: "env_errors (JList vs) = [] \<longleftrightarrow> list_all (\<lambda>v. is_jstr v \<and> env_name_ok (jstr_of v)) vs"
proof -
  have one: "env_name_problems k v = [] \<longleftrightarrow> is_jstr v \<and> env_name_ok (jstr_of v)" for k v
    by (auto simp: env_name_problems_def env_name_ok_def Let_def list_ex_iff list_all_iff)
  have "concat (map (\<lambda>(i, x). env_name_problems i x) (enumerate n vs)) = [] \<longleftrightarrow>
      list_all (\<lambda>v. is_jstr v \<and> env_name_ok (jstr_of v)) vs" for n
    by (induction vs arbitrary: n) (simp_all add: one)
  then show ?thesis by (simp add: env_errors_def)
qed

lemma checks_errors_Nil:
  "checks_errors v = [] \<longleftrightarrow> (\<exists>kvs. v = JObj kvs \<and> kvs \<noteq> [] \<and> list_all (\<lambda>kv. nonempty_text (snd kv)) kvs)"
proof -
  have "concat (map (\<lambda>(name, command). if nonempty_text command then [] else [Bad_Check name command]) kvs) = [] \<longleftrightarrow>
      list_all (\<lambda>kv. nonempty_text (snd kv)) kvs" for kvs
    by (induction kvs) (auto split: if_splits)
  then show ?thesis by (cases v) (auto simp: checks_errors_def)
qed

lemma stack_errors_NilD:
  assumes "stack_errors raw = []"
  shows "set stack_keys \<subseteq> set (jkeys raw)" and "set (jkeys raw) \<subseteq> set stack_all_keys"
    and "\<And>v. map_of raw ''checks'' = Some v \<Longrightarrow> checks_errors v = []"
    and "\<And>v. map_of raw ''env'' = Some v \<Longrightarrow> env_errors v = []"
    and "\<And>v. map_of raw ''instructions'' = Some v \<Longrightarrow> nonempty_text v"
proof -
  show "set stack_keys \<subseteq> set (jkeys raw)" "set (jkeys raw) \<subseteq> set stack_all_keys"
    using assms by (auto simp: stack_errors_def filter_empty_conv)
  show "checks_errors v = []" if "map_of raw ''checks'' = Some v" for v
    using assms that by (simp add: stack_errors_def when_present_def)
  show "env_errors v = []" if "map_of raw ''env'' = Some v" for v
    using assms that by (simp add: stack_errors_def when_present_def)
  show "nonempty_text v" if "map_of raw ''instructions'' = Some v" for v
    using assms that by (simp add: stack_errors_def when_present_def split: if_splits)
qed

lemma key_present: "set stack_keys \<subseteq> set (jkeys raw) \<Longrightarrow> k \<in> set stack_keys \<Longrightarrow> \<exists>v. map_of raw k = Some v"
  by (metis jkeys_def map_of_eq_None_iff not_None_eq set_map subsetD)

definition usable_stack :: "stack \<Rightarrow> bool" where
  "usable_stack s =
     (\<not> blank (sk_instructions s) \<and> sk_checks s \<noteq> [] \<and> list_all (\<lambda>nc. \<not> blank (snd nc)) (sk_checks s) \<and>
      list_all env_name_ok (sk_env s))"

text \<open>C28: a stack that loads is usable: it has instructions, at least one check, no check without a
  command, and every variable its commands may see is a variable name that does not look like a secret
  and is not kstrl's own.\<close>

theorem loaded_stack_usable:
  assumes "load_stack document = Inr (Some s)"
  shows "usable_stack s \<and> sk_unconfirmed s = Some Not_Checked"
proof -
  obtain raw where ok: "stack_errors raw = []" and s: "s = stack_from_table raw"
    using assms by (auto simp: load_stack_def Let_def split: option.splits if_splits)
  note has = key_present [OF stack_errors_NilD(1) [OF ok]]
  obtain i c e where ice: "map_of raw ''instructions'' = Some i" "map_of raw ''checks'' = Some c"
      "map_of raw ''env'' = Some e"
    using has [of "''instructions''"] has [of "''checks''"] has [of "''env''"] by (auto simp: stack_keys_def)
  obtain kvs where c: "c = JObj kvs" "kvs \<noteq> []" "list_all (\<lambda>kv. nonempty_text (snd kv)) kvs"
    using stack_errors_NilD(3) [OF ok ice(2)] by (auto simp: checks_errors_Nil)
  obtain vs where e: "e = JList vs" using stack_errors_NilD(4) [OF ok ice(3)] by (cases e) (simp_all add: env_errors_def)
  have "list_all (\<lambda>v. is_jstr v \<and> env_name_ok (jstr_of v)) vs"
    using stack_errors_NilD(4) [OF ok ice(3)] by (simp add: e env_errors_Nil)
  then show ?thesis
    using stack_errors_NilD(5) [OF ok ice(1)] ice c
    by (auto simp: s stack_from_table_def usable_stack_def jget_def object_of_def strings_of_def e
        nonempty_text_def list_all_iff)
qed

definition demo_table :: json_object where
  "demo_table =
     [(''instructions'', JStr ''x''), (''setup'', JStr []), (''checks'', JObj [(''t'', JStr ''make'')]),
      (''env'', JList [JStr ''HOME''])]"

definition demo_stack :: stack where "demo_stack = stack_from_table demo_table"

lemma demo_loads_stack: "load_stack (Some [(''stack'', JObj demo_table)]) = Inr (Some demo_stack)"
proof -
  have "stack_errors demo_table = []" by code_simp
  then show ?thesis by (simp add: load_stack_def object_of_def demo_stack_def Let_def)
qed

theorem loaded_stack_usable_witness: "usable_stack demo_stack \<and> sk_unconfirmed demo_stack = Some Not_Checked"
  using loaded_stack_usable [OF demo_loads_stack] .

section \<open>The newest approval\<close>

text \<open>The items of the log's stack records, in order.\<close>

fun stack_items :: "(json \<Rightarrow> string) \<Rightarrow> json_object list \<Rightarrow> inbox_item list" where
  "stack_items rep [] = []"
| "stack_items rep (r # rs) =
     (case (if is_stack_record rep r then item_from_dict rep r else None) of
        None \<Rightarrow> stack_items rep rs | Some i \<Rightarrow> i # stack_items rep rs)"

lemma stack_items_append [simp]: "stack_items rep (rs @ qs) = stack_items rep rs @ stack_items rep qs"
  by (induction rs) (auto split: option.splits)

definition readable_records :: "(json \<Rightarrow> string) \<Rightarrow> json_object list \<Rightarrow> bool" where
  "readable_records rep rs = list_all (\<lambda>r. is_stack_record rep r \<longrightarrow> record_errors rep r = []) rs"

lemma fold_decisions_iff:
  "fold_decisions rep n rs a = Inr b \<longleftrightarrow>
     readable_records rep rs \<and> b = foldl (\<lambda>a i. fold_decision rep i a) a (stack_items rep rs)"
  by (induction rep n rs a rule: fold_decisions.induct)
    (auto simp: readable_records_def record_errors_def split: option.splits)

abbreviation fold_items :: "(json \<Rightarrow> string) \<Rightarrow> approval_fold \<Rightarrow> inbox_item list \<Rightarrow> approval_fold" where
  "fold_items rep a is \<equiv> foldl (\<lambda>a i. fold_decision rep i a) a is"



text \<open>What the newest deciding replay of a digest says.\<close>

definition replay_of :: "inbox_item \<Rightarrow> json_object" where
  "replay_of i = object_of (evidence_get i ''replay'')"

definition replay_counts :: "(json \<Rightarrow> string) \<Rightarrow> string \<Rightarrow> inbox_item \<Rightarrow> bool" where
  "replay_counts rep d i =
     (evidence_string i ''stack_digest'' = d \<and>
      (case evidence_get i ''replay'' of JObj replay \<Rightarrow> replay_decides rep replay | _ \<Rightarrow> False))"

definition last_replay :: "(json \<Rightarrow> string) \<Rightarrow> string \<Rightarrow> inbox_item list \<Rightarrow> string" where
  "last_replay rep d is =
     (let ys = filter (replay_counts rep d) is
      in if ys = [] then [] else jstr_of (jget (replay_of (last ys)) ''failed'' JNull))"

lemma fold_replay_get:
  "dict_get (fold_replay rep i replays) d =
     (if replay_counts rep d i then Some (jstr_of (jget (replay_of i) ''failed'' JNull)) else dict_get replays d)"
  by (auto simp: fold_replay_def replay_counts_def replay_of_def object_of_def dict_simps split: json.splits)

lemma replays_fold:
  "(case dict_get (af_replays (fold_items rep no_decisions is)) d of None \<Rightarrow> [] | Some f \<Rightarrow> f) =
     last_replay rep d is"
  by (induction "is" rule: rev_induct)
    (simp_all add: last_replay_def Let_def fold_decision_def fold_replay_get no_decisions_def)



lemma stack_digest_update [simp]:
  "stack_digest digest (s\<lparr>sk_unconfirmed := u\<rparr>) = stack_digest digest s"
  "stack_digest digest (s\<lparr>sk_confirmed_by := h\<rparr>) = stack_digest digest s"
  by (simp_all add: stack_digest_def stack_payload_def)


definition demo_approved_stack :: inbox_item where
  "demo_approved_stack =
     (fresh_item demo_blank_env ''a''
        \<lparr>ad_kind = STACK_CONFIRMATION, ad_title = ''t'', ad_detail = [], ad_component = [], ad_run_id = [],
         ad_dedupe_key = stack_dedupe_key (replicate 64 (CHR ''a'')),
         ad_evidence = [(''stack_digest'', JStr (replicate 64 (CHR ''a'')))], ad_priority = None\<rparr>)
       \<lparr>ii_status := APPROVED\<rparr>"

lemma hex64_demo: "hex64 (replicate 64 (CHR ''a''))"
  by (simp add: hex64_def hex_lower_def list_all_iff)

lemma demo_approved_stack_fields [simp]:
  "ii_id demo_approved_stack = ''a''" "ii_status demo_approved_stack = APPROVED"
  "ii_kind demo_approved_stack = STACK_CONFIRMATION"
  "ii_dedupe_key demo_approved_stack = stack_dedupe_key (replicate 64 (CHR ''a''))"
  "evidence_get demo_approved_stack ''stack_digest'' = JStr (replicate 64 (CHR ''a''))"
  "evidence_get demo_approved_stack ''replay'' = JNull"
  by (simp_all add: demo_approved_stack_def fresh_item_def evidence_get_def jget_def)



section \<open>Filing and approving\<close>

lemma scan_unreadable: "sc_unreadable (scan env st) \<longleftrightarrow> \<not> readable env st \<or> ib_in_tree st"
  if "ib_file st \<noteq> Log_Error"
  using that by (auto simp: scan_def readable_def log_text_def Let_def case_prod_unfold split: log_file.splits option.splits)

lemma scan_skipped_text:
  "sc_skipped (scan env st) =
     (case log_text env (ib_file st) of
        None \<Rightarrow> 0 | Some t \<Rightarrow> snd (scan_lines (ie_loads env) (text_lines t)))"
  by (auto simp: scan_def log_text_def text_lines_def case_prod_unfold Let_def
      split: log_file.splits option.splits)

lemma append_item_records:
  assumes "utf8_reader (ie_decode env)" and "line_ok env i" and "append_item env i st = Inr st'"
    and "readable env st"
  shows "sc_records (scan env st') = sc_records (scan env st) @ [item_payload i]"
    and "sc_skipped (scan env st') = sc_skipped (scan env st)"
    and "readable env st'" and "ib_in_tree st' = ib_in_tree st" and "ib_file st' \<noteq> Log_Error"
proof -
  obtain t where t: "log_text env (ib_file st) = Some t" using assms(4) by (auto simp: readable_def)
  obtain t' where t': "log_text env (ib_file st') = Some t'" "text_lines t' = text_lines t @ [item_line env i]"
    using append_log_text [OF assms(1-3) t] by blast
  have line: "scan_lines (ie_loads env) [item_line env i] = ([item_payload i], 0)"
    using line_okD(5) [OF assms(2)] by simp
  show "sc_records (scan env st') = sc_records (scan env st) @ [item_payload i]"
    "sc_skipped (scan env st') = sc_skipped (scan env st)"
    using line by (simp_all add: scan_records_text scan_skipped_text t t' scan_lines_append)
  show "readable env st'" using t' by (simp add: readable_def)
  show "ib_in_tree st' = ib_in_tree st" "ib_file st' \<noteq> Log_Error"
    using append_bytes [OF assms(2,3)] by simp_all
qed

lemma inbox_get_own:
  assumes "dict_get (folded env st) k = Some i"
  shows "inbox_get env st k = Inr (Some i)"
proof -
  let ?items = "inbox_items env st"
  have mem: "j \<in> set ?items \<longleftrightarrow> dict_get (folded env st) (ii_id j) = Some j" for j
    using mem_folded [of j env st] by (simp add: inbox_items_def)
  have i: "ii_id i = k" using folded_key [OF assms] by simp
  then have "i \<in> set ?items" using mem assms by simp
  then obtain j where j: "find (\<lambda>i. ii_id i = k) ?items = Some j"
    using i by (cases "find (\<lambda>i. ii_id i = k) ?items") (auto simp: find_None_iff)
  then have "j = i" using find_SomeD [OF j] mem assms by auto
  then show ?thesis using j by (simp add: inbox_get_def)
qed

lemma folded_from_record:
  assumes "dict_get (folded env st) k = Some e"
  shows "\<exists>r\<in>set (sc_records (scan env st)). item_from_dict (ie_rep env) r = Some e"
proof -
  have "dict_get (foldl (fold_record rep) [] rs) k = Some e \<Longrightarrow>
      \<exists>r\<in>set rs. item_from_dict rep r = Some e" for rep rs
  proof (induction rs rule: rev_induct)
    case (snoc r rs)
    then show ?case by (cases "item_from_dict rep r") (auto simp: fold_record_def dict_simps split: if_splits)
  qed simp
  then show ?thesis using assms by (simp add: folded_def fold_records_def)
qed

lemma dedupe_key_of_dict:
  "item_from_dict rep r = Some e \<Longrightarrow> ii_dedupe_key e = py_str rep (jget r ''dedupe_key'' (JStr []))"
  by (auto simp: item_from_dict_def rebuild_item_def Let_def split: option.splits json.splits if_splits)

lemma known_stack_item:
  assumes "readable_records (ie_rep env) (sc_records (scan env st))"
    and "find_by_dedupe_key env st (stack_dedupe_key d) = Some e"
  shows "stack_item_problems e = []"
proof -
  have "e \<in> set (map snd (folded env st))" and key: "ii_dedupe_key e = stack_dedupe_key d"
    using find_by_dedupe_open [OF assms(2)] by blast+
  then obtain r where r: "r \<in> set (sc_records (scan env st))" "item_from_dict (ie_rep env) r = Some e"
    using folded_from_record mem_folded by blast
  then have "is_stack_record (ie_rep env) r"
    using key dedupe_key_of_dict [OF r(2)]
    by (simp add: is_stack_record_def stack_dedupe_key_def startswith_def)
  then have "record_errors (ie_rep env) r = []"
    using assms(1) r(1) by (simp add: readable_records_def list_all_iff)
  then show ?thesis using r(2) by (simp add: record_errors_def)
qed

lemma stack_item_kind: "stack_item_problems e = [] \<Longrightarrow> ii_kind e = STACK_CONFIRMATION"
  by (cases "ii_kind e = STACK_CONFIRMATION") (simp_all add: stack_item_problems_def)

text \<open>What a filing without a replay writes.\<close>

lemma filed_item:
  assumes "file_stack_item io config uuid s run_id None proposal st = Inr (st1, i)"
    and "hex64 (stack_digest (io_digest io) s)"
  shows "append_item (io_inbox io) i st = Inr st1" and "stack_item_problems i = []"
    and "evidence_string i ''stack_digest'' = stack_digest (io_digest io) s"
    and "evidence_get i ''replay'' = JNull" and "ii_status i = OPEN"
    and "readable_records (ie_rep (io_inbox io)) (sc_records (scan (io_inbox io) st))"
    and "\<not> sc_unreadable (scan (io_inbox io) st)" and "sc_skipped (scan (io_inbox io) st) = 0"
    and "ii_id i = [] \<Longrightarrow> uuid = []"
proof -
  let ?env = "io_inbox io" and ?d = "stack_digest (io_digest io) s"
  let ?q = "stack_request io s run_id None proposal"
  obtain l where la: "latest_approval ?env st = Inr l"
    using assms(1) by (auto simp: file_stack_item_def split: if_splits sum.splits)
  then show ok: "readable_records (ie_rep ?env) (sc_records (scan ?env st))"
    "\<not> sc_unreadable (scan ?env st)" "sc_skipped (scan ?env st) = 0"
    by (auto simp: latest_approval_def Let_def and_then_Inr fold_decisions_iff split: if_splits)
  obtain paged where add: "inbox_add ?env config uuid ?q st = Inr (st1, i, paged)"
    using assms(1) la by (auto simp: file_stack_item_def split: if_splits sum.splits)
  have ev: "ad_evidence ?q \<noteq> []" "map_of (ad_evidence ?q) ''stack_digest'' = Some (JStr ?d)"
      "map_of (ad_evidence ?q) ''replay'' = None"
    by (simp_all add: stack_request_def filed_evidence_def stack_evidence_def)
  have key: "ad_dedupe_key ?q = stack_dedupe_key ?d" by (simp add: stack_request_def)
  have "append_item ?env i st = Inr st1 \<and> ii_evidence i = ad_evidence ?q \<and> ii_kind i = STACK_CONFIRMATION \<and>
      ii_dedupe_key i = stack_dedupe_key ?d \<and> ii_status i = OPEN \<and> (ii_id i = [] \<longrightarrow> uuid = [])"
    using add
  proof (cases rule: inbox_add_cases)
    case (bump e)
    then have "stack_item_problems e = []" using known_stack_item [OF ok(1)] key by simp
    then have "ii_kind e = STACK_CONFIRMATION" by (rule stack_item_kind)
    moreover have "ii_dedupe_key e = stack_dedupe_key ?d"
      using find_by_dedupe_open(1) [OF bump(1)] by (simp only: key)
    moreover have "dict_get (folded ?env st) (ii_id e) = Some e"
      using find_by_dedupe_open(3) [OF bump(1)] by (simp only: mem_folded)
    then have "ii_id e \<noteq> []" using folded_key by blast
    ultimately show ?thesis using bump(2-4) ev(1) by (simp add: bump_item_def)
  next
    case new
    then show ?thesis by (simp add: fresh_item_def key) (simp add: stack_request_def)
  qed
  then show "append_item ?env i st = Inr st1" "ii_status i = OPEN" "stack_item_problems i = []"
    "evidence_string i ''stack_digest'' = ?d" "evidence_get i ''replay'' = JNull" "ii_id i = [] \<Longrightarrow> uuid = []"
    using ev(2,3) assms(2)
    by (simp_all add: stack_item_problems_def evidence_get_def jget_def evidence_string_def replay_problems_def Let_def)
qed

lemma stack_items_payload:
  assumes "stack_item_problems i = []" and "ii_id i \<noteq> []"
  shows "stack_items rep [item_payload i] = [i]" and "readable_records rep [item_payload i]"
proof -
  have "map_of (item_payload i) ''kind'' = Some (JStr (kind_value (ii_kind i)))"
    by (simp add: item_payload_def item_to_dict_def)
  then have "is_stack_record rep (item_payload i)"
    using stack_item_kind [OF assms(1)] by (simp add: is_stack_record_def)
  then show "stack_items rep [item_payload i] = [i]" "readable_records rep [item_payload i]"
    using assms by (simp_all add: readable_records_def record_errors_def)
qed

lemma readable_records_append [simp]:
  "readable_records rep (rs @ qs) \<longleftrightarrow> readable_records rep rs \<and> readable_records rep qs"
  by (simp add: readable_records_def)

lemma last_replay_without:
  "evidence_get i ''replay'' = JNull \<Longrightarrow> last_replay rep d (is @ [i]) = last_replay rep d is"
  by (simp add: last_replay_def replay_counts_def)

lemma stack_item_problems_update [simp]:
  "stack_item_problems (decided_item env st a c u i) = stack_item_problems i"
  by (simp add: stack_item_problems_def decided_item_def evidence_get_def Let_def)

text \<open>filing the stack of kstrl.toml and confirming it at the prompt confirms it: the answer is recorded,
  and a later reading of the inbox finds exactly this stack confirmed. The log can be decoded, the two
  lines are written as lines that read back, and no replay of the stack failed.\<close>

theorem prompt_confirms_stack:
  assumes filing: "file_stack_item io config uuid s [] None [] st = Inr (st1, i)"
    and env: "env = io_inbox io" and dec: "utf8_reader (ie_decode env)" and rd: "readable env st"
    and j: "j = decided_item (env\<lparr>ie_now := later\<rparr>) APPROVED actor checkpoint_comment None i"
    and lines: "line_ok env i" "line_ok env j" and uuid: "uuid \<noteq> []"
    and hex: "hex64 (stack_digest (io_digest io) s)"
    and replays: "\<not> replay_refuses (last_replay (ie_rep env) (stack_digest (io_digest io) s)
           (stack_items (ie_rep env) (sc_records (scan env st))))"
  shows "\<exists>st2. decide_at_prompt io config uuid s True actor later st session = Inr (st2, session) \<and>
           stack_refusal_of (io_digest io) env (Some config) session st2 s = Inr confirmed_in_inbox"
proof -
  let ?d = "stack_digest (io_digest io) s" and ?e = "env\<lparr>ie_now := later\<rparr>" and ?rep = "ie_rep env"
  note filed = filed_item [OF filing hex, folded env]
  have on: "ic_enabled config" using filing by (simp add: file_stack_item_def split: if_splits)
  have id: "ii_id i \<noteq> []" using filed(9) uuid by blast
  note first = append_item_records [OF dec lines(1) filed(1) rd]
  have "dict_get (folded env st1) (ii_id i) = Some i"
    using append_item_folded(1) [OF dec lines(1) id filed(1) rd] by (simp add: dict_simps)
  then have get: "inbox_get ?e st1 (ii_id i) = Inr (Some i)" by (simp add: inbox_get_own)
  obtain st2 where st2: "append_item env j st1 = Inr st2" using append_item_returns [OF first(5)] by blast
  note second = append_item_records [OF dec lines(2) st2 first(3)]
  have prompt: "decide_at_prompt io config uuid s True actor later st session = Inr (st2, session)"
    using on filing get st2 by (simp add: decide_at_prompt_def approve_def decide_def env [symmetric] j)
  have jp: "stack_item_problems j = []" "ii_id j = ii_id i" "ii_status j = APPROVED"
      "evidence_get j ''replay'' = JNull" "evidence_string j ''stack_digest'' = ?d"
    using filed by (simp_all add: j) (simp_all add: decided_item_def evidence_get_def evidence_string_def)
  let ?is = "stack_items ?rep (sc_records (scan env st))"
  have records: "sc_records (scan env st2) = (sc_records (scan env st) @ [item_payload i]) @ [item_payload j]"
    using first(1) second(1) by simp
  have all: "stack_items ?rep (sc_records (scan env st2)) = (?is @ [i]) @ [j]"
    unfolding records stack_items_append
    using stack_items_payload(1) [OF filed(2) id] stack_items_payload(1) [of j] jp(1,2) id by simp
  have "readable_records ?rep (sc_records (scan env st2))"
    unfolding records readable_records_append
    using stack_items_payload(2) [OF filed(2) id] stack_items_payload(2) [of j] jp(1,2) id filed(6) by simp
  then have fold: "fold_decisions ?rep 0 (sc_records (scan env st2)) no_decisions =
      Inr (fold_items ?rep no_decisions ((?is @ [i]) @ [j]))"
    by (simp only: fold_decisions_iff all)
  have "\<not> ib_in_tree st" using filed(7) scan_unreadable [of st env] first(5) filed(1) rd
    by (cases "ib_file st") (auto simp: readable_def log_text_def)
  then have "\<not> sc_unreadable (scan env st2)" using scan_unreadable [OF second(5)] second(3,4) first(4) by simp
  moreover have "sc_skipped (scan env st2) = 0" using filed(8) first(2) second(2) by simp
  moreover have "latest_of (fold_items ?rep no_decisions ((?is @ [i]) @ [j])) =
      (Some (j, True), af_replays (fold_items ?rep no_decisions ((?is @ [i]) @ [j])))"
    using jp(2,3) id by (simp add: latest_of_def fold_decision_def dict_simps)
  ultimately have la: "latest_approval env st2 =
      Inr (Some (j, True), af_replays (fold_items ?rep no_decisions ((?is @ [i]) @ [j])))"
    using fold by (simp add: latest_approval_def Let_def)
  have "last_replay ?rep ?d ((?is @ [i]) @ [j]) = last_replay ?rep ?d ?is"
    using last_replay_without [OF jp(4)] last_replay_without [OF filed(4)] by metis
  then have "\<not> replay_refuses (case dict_get (af_replays (fold_items ?rep no_decisions ((?is @ [i]) @ [j]))) ?d of
      None \<Rightarrow> [] | Some f \<Rightarrow> f)"
    using replays replays_fold [of ?rep "(?is @ [i]) @ [j]" ?d] by metis
  then have "stack_refusal_of (io_digest io) env (Some config) session st2 s = Inr confirmed_in_inbox"
    using on la jp(5) by (simp add: stack_refusal_of_def Let_def)
  then show ?thesis using prompt by blast
qed

text \<open>A codec of two items.\<close>

definition two_env :: "inbox_item \<Rightarrow> inbox_item \<Rightarrow> inbox_env" where
  "two_env i j = demo_blank_env\<lparr>
     ie_loads := (\<lambda>l. if l = ''{}'' then Some (JObj (item_payload i))
                     else if l = ''{1}'' then Some (JObj (item_payload j)) else None),
     ie_dumps := (\<lambda>r. if r = item_payload j then ''{1}'' else ''{}'')\<rparr>"

lemma two_env_lines:
  assumes "item_payload i \<noteq> item_payload j"
  shows "line_ok (two_env i j) i" and "line_ok (two_env i j) j"
proof -
  have codec: "ie_dumps (two_env i j) (item_payload i) = ''{}''" "ie_dumps (two_env i j) (item_payload j) = ''{1}''"
      "ie_loads (two_env i j) ''{}'' = Some (JObj (item_payload i))"
      "ie_loads (two_env i j) ''{1}'' = Some (JObj (item_payload j))"
      "ie_loads (two_env i j) [] = None" "ie_loads (two_env i j) ''{'' = None" "ie_loads (two_env i j) ''{1'' = None"
    using assms by (simp_all add: two_env_def)
  show "line_ok (two_env i j) i" "line_ok (two_env i j) j"
    unfolding line_ok_def codec
    by (auto simp: Let_def is_ascii_def line_break_def strip_def is_space_def less_two_three take_Cons'
        numeral_2_eq_2 codec)
qed

definition demo_io :: "inbox_env \<Rightarrow> stack_io" where
  "demo_io env = \<lparr>io_digest = demo_digest, io_dump = (\<lambda>_. []), io_source = [], io_inbox = env\<rparr>"

definition demo_filed :: inbox_item where
  "demo_filed = fresh_item demo_blank_env ''u'' (stack_request (demo_io demo_blank_env) demo_stack [] None [])"

definition demo_confirmed :: inbox_item where
  "demo_confirmed = decided_item (demo_blank_env\<lparr>ie_now := 9\<rparr>) APPROVED ''me'' checkpoint_comment None demo_filed"

definition demo_stack_env :: inbox_env where "demo_stack_env = two_env demo_filed demo_confirmed"

lemma demo_filing:
  "\<exists>st1. file_stack_item (demo_io demo_stack_env) inbox_defaults ''u'' demo_stack [] None [] demo_empty =
     Inr (st1, demo_filed)"
proof -
  have "latest_approval demo_stack_env demo_empty = Inr (None, [])"
    by (simp add: latest_approval_def scan_def demo_empty_def no_decisions_def latest_of_def)
  moreover have "find_by_dedupe_key demo_stack_env demo_empty k = None" for k
    by (simp add: find_by_dedupe_key_def folded_def scan_def demo_empty_def fold_records_def inbox_items_def)
  moreover have "stack_request (demo_io demo_stack_env) demo_stack [] None [] =
      stack_request (demo_io demo_blank_env) demo_stack [] None []"
    by (simp add: stack_request_def demo_io_def demo_stack_env_def two_env_def)
  then have "fresh_item demo_stack_env ''u'' (stack_request (demo_io demo_stack_env) demo_stack [] None []) = demo_filed"
    by (simp add: demo_filed_def fresh_item_def demo_stack_env_def two_env_def)
  moreover obtain st1 where "append_item demo_stack_env demo_filed demo_empty = Inr st1"
    using append_item_returns [of demo_empty demo_stack_env demo_filed] by (auto simp: demo_empty_def)
  ultimately show ?thesis
    by (simp add: file_stack_item_def inbox_defaults_def inbox_add_def demo_io_def Let_def)
qed

theorem prompt_confirms_stack_witness:
  "\<exists>st2. decide_at_prompt (demo_io demo_stack_env) inbox_defaults ''u'' demo_stack True ''me'' 9 demo_empty [] =
           Inr (st2, []) \<and>
         stack_refusal_of demo_digest demo_stack_env (Some inbox_defaults) [] st2 demo_stack =
           Inr confirmed_in_inbox"
proof -
  obtain st1 where filed: "file_stack_item (demo_io demo_stack_env) inbox_defaults ''u'' demo_stack [] None []
      demo_empty = Inr (st1, demo_filed)"
    using demo_filing by blast
  have "ii_status demo_filed \<noteq> ii_status demo_confirmed" by (simp add: demo_filed_def demo_confirmed_def)
  then have "item_payload demo_filed \<noteq> item_payload demo_confirmed"
    by (auto simp: item_payload_def item_to_dict_def demo_filed_def demo_confirmed_def)
  note lines = two_env_lines [OF this, folded demo_stack_env_def]
  have conf: "demo_confirmed =
      decided_item (demo_stack_env\<lparr>ie_now := 9\<rparr>) APPROVED ''me'' checkpoint_comment None demo_filed"
    by (simp add: demo_confirmed_def decided_item_def demo_stack_env_def two_env_def)
  have dec: "utf8_reader (ie_decode demo_stack_env)"
    by (simp add: demo_stack_env_def two_env_def demo_blank_env_def utf8_reader_decode)
  have rd: "readable demo_stack_env demo_empty" by (simp add: readable_def demo_empty_def log_text_def)
  have hex: "hex64 (stack_digest (io_digest (demo_io demo_stack_env)) demo_stack)"
    using hex64_demo by (simp add: stack_digest_def demo_io_def demo_digest_def)
  have "sc_records (scan demo_stack_env demo_empty) = []" by (simp add: scan_def demo_empty_def)
  then have "\<not> replay_refuses (last_replay (ie_rep demo_stack_env) (stack_digest (io_digest (demo_io demo_stack_env))
      demo_stack) (stack_items (ie_rep demo_stack_env) (sc_records (scan demo_stack_env demo_empty))))"
    by (simp add: last_replay_def replay_refuses_def)
  from prompt_confirms_stack [OF filed _ dec rd conf lines _ hex this, of "[]"]
  show ?thesis by (simp add: demo_io_def)
qed

section \<open>What the digest covers\<close>

lemma JStr_map_inj: "map JStr xs = map JStr ys \<longleftrightarrow> xs = ys"
  by (rule inj_map_eq_map) (simp add: inj_def)

text \<open>Two stacks with one payload run the same commands with the same paths and variables.\<close>

lemma stack_payload_inj:
  assumes "stack_payload s = stack_payload t"
  shows "sk_checks s = sk_checks t" "sk_setup s = sk_setup t" "sk_env s = sk_env t" "sk_up s = sk_up t"
    "sk_writable s = sk_writable t" "sk_readable s = sk_readable t" "sk_browser s = sk_browser t"
proof -
  have "inj (\<lambda>(n, c). JList [JStr n, JStr c])" by (auto simp: inj_def)
  then show "sk_checks s = sk_checks t" using assms by (simp add: stack_payload_def inj_map_eq_map)
qed (use assms in \<open>simp_all add: stack_payload_def JStr_map_inj\<close>)

text \<open>The table that an item shows leaves out the paths of the rung and the browser, which the digest covers.\<close>

lemma evidence_hides_rung_keys:
  "map_of (stack_evidence digest source (s\<lparr>sk_writable := w, sk_readable := r, sk_browser := b\<rparr>)) ''stack'' =
     map_of (stack_evidence digest source s) ''stack''"
  by (simp add: stack_evidence_def)

end
