(* ===== verification/Verify_Contract.thy ===== *)
theory Verify_Contract
  imports Verify Policy_Contract Stack_Contract Scope_Contract
begin

text \<open>
  What Phase 1 promises: what a run that passes has established, that it fails closed, that the
  enforcement machinery cannot be waived, and what a run without a base never reads.
\<close>

section \<open>One row\<close>

lemma check_row_fields [simp]:
  "ck_name (check_row n p m) = n" "ck_passed (check_row n p m) = p" "ck_measured (check_row n p m) = True"
  by (simp_all add: check_row_def)

lemma unread_row_fails [simp]:
  "\<not> ck_passed (unread_row n m ds f)" "\<not> ck_measured (unread_row n m ds f)" "ck_name (unread_row n m ds f) = n"
  "ck_findings (unread_row n m ds f) = [f]"
  by (simp_all add: unread_row_def)




lemma check_stack_command_passed:
  "ck_passed (fst (check_stack_command env s name command timeout w)) \<longleftrightarrow>
     sk_unconfirmed s = None \<and>
     (\<exists>out err. fst (cm_run env command (sk_env s) timeout w) = Completed 0 out err)"
  by (auto simp: check_stack_command_def run_row_passed Let_def case_prod_unfold split: option.splits)

lemma critique_row_passed: "ck_passed (critique_row bodies n) \<longleftrightarrow> int (length bodies) \<ge> n"
  by (simp add: critique_row_def)

lemma check_self_critique_passed:
  "ck_passed (check_self_critique rep progress n) \<longleftrightarrow>
     (\<exists>text h. progress = Progress_Text text \<and>
        last_index self_critique_heading (case latest_entry (splitlines text) of None \<Rightarrow> 0 | Some i \<Rightarrow> i)
          (splitlines text) = Some h \<and>
        int (length (bullets_of (drop (h + 1) (splitlines text)))) \<ge> n)"
  by (auto simp: check_self_critique_def critique_row_passed Let_def split: progress_read.splits option.splits)

lemma check_policy_envelope_passed:
  "ck_passed (check_policy_envelope tx env digest dv config waivers) \<longleftrightarrow>
     (\<exists>diff changed ns e.
        policy_inputs dv = Inr (diff, changed, ns) \<and> evaluate_policy env changed ns diff config = Inr e \<and>
        list_all (\<lambda>f. fi_severity f = ''advisory'')
          (fst (apply_waivers digest (map policy_finding (pe_violations e)) waivers)))"
  by (auto simp: check_policy_envelope_def envelope_error_row_def after_waivers_def Let_def case_prod_unfold
      filter_empty_conv list_all_iff split: sum.splits policy_error.splits)

section \<open>The self-critique belongs to the latest entry\<close>

lemma last_index_SomeD:
  assumes "last_index p lo ls = Some i"
  shows "lo \<le> i" "i < length ls" "p (ls ! i)"
    and "\<And>k. lo \<le> k \<Longrightarrow> k < length ls \<Longrightarrow> p (ls ! k) \<Longrightarrow> k \<le> i"
proof -
  let ?xs = "rev [lo..<length ls]"
  have found: "find (\<lambda>i. p (ls ! i)) ?xs = Some i" using assms by (simp add: last_index_def)
  from find_SomeD [OF this] show "lo \<le> i" "i < length ls" "p (ls ! i)" by auto
  have "sorted_wrt (\<lambda>x y. - int y \<le> - int x) [lo..<length ls]"
    by (rule sorted_wrt_mono_rel [OF _ sorted_wrt_upt]) simp
  then have "sorted (map (\<lambda>i. - int i) ?xs)" by (simp add: sorted_wrt_map sorted_wrt_rev)
  from find_sorted_least [OF this found] show "k \<le> i" if "lo \<le> k" "k < length ls" "p (ls ! k)" for k
    using that by force
qed

lemma last_index_None_iff: "last_index p lo ls = None \<longleftrightarrow> (\<forall>k. lo \<le> k \<longrightarrow> k < length ls \<longrightarrow> \<not> p (ls ! k))"
  by (auto simp: last_index_def find_None_iff)

text \<open>the self-critique check passes only on the latest iteration entry: the block it counts starts on
  or after the last iteration heading of the log, and that block itself lists the minimum; a block of
  an earlier entry does not count.\<close>

theorem critique_of_latest_entry:
  assumes "ck_passed (check_self_critique rep (Progress_Text text) n)"
  shows "\<exists>h. h < length (splitlines text) \<and> self_critique_heading (splitlines text ! h) \<and>
           list_all (\<lambda>l. \<not> iteration_heading l) (drop (Suc h) (splitlines text)) \<and>
           n \<le> int (length (bullets_of (drop (Suc h) (splitlines text))))"
proof -
  let ?ls = "splitlines text"
  obtain h where h: "last_index self_critique_heading (case latest_entry ?ls of None \<Rightarrow> 0 | Some i \<Rightarrow> i) ?ls = Some h"
      "n \<le> int (length (bullets_of (drop (Suc h) ?ls)))"
    using assms by (auto simp: check_self_critique_passed)
  have "\<not> iteration_heading (?ls ! k)" if k: "Suc h \<le> k" "k < length ?ls" for k
  proof (cases "latest_entry ?ls")
    case None
    then show ?thesis using k(2) by (simp add: latest_entry_def last_index_None_iff)
  next
    case (Some i)
    then have "i \<le> h" using last_index_SomeD(1) [OF h(1)] by simp
    then show ?thesis using k last_index_SomeD(4) [of iteration_heading 0 ?ls i k] Some
      by (auto simp: latest_entry_def)
  qed
  then have "list_all (\<lambda>l. \<not> iteration_heading l) (drop (Suc h) ?ls)"
    by (auto simp: list_all_length)
  then show ?thesis using last_index_SomeD(2,3) [OF h(1)] h(2) by blast
qed

definition demo_log :: string where
  "demo_log = concat (map (\<lambda>l. l @ [newline])
     [''## Iteration 1'', ''## Self-Critique'', ''- old'', ''## [2026-01-02] - S1'', ''- **Self-Critique:**'',
      ''  - one'', ''  - TBD'', ''- **Learnings:** x'', ''- no''])"

theorem critique_of_latest_entry_witness:
  "\<exists>h. h < length (splitlines demo_log) \<and> self_critique_heading (splitlines demo_log ! h) \<and>
       list_all (\<lambda>l. \<not> iteration_heading l) (drop (Suc h) (splitlines demo_log)) \<and>
       1 \<le> int (length (bullets_of (drop (Suc h) (splitlines demo_log))))"
proof -
  have "ck_passed (check_self_critique (\<lambda>s. s) (Progress_Text demo_log) 1)" by code_simp
  from critique_of_latest_entry [OF this] show ?thesis .
qed

section \<open>The machinery cannot be waived\<close>

text \<open>A digest that tells the waiver payloads of different categories apart.\<close>

definition separates_categories :: "digest \<Rightarrow> bool" where
  "separates_categories digest \<longleftrightarrow>
     (\<forall>scope c l e c' l' e'.
        digest (waiver_payload scope c l e) = digest (waiver_payload scope c' l' e') \<longrightarrow> c = c')"

lemma machinery_not_waived:
  assumes "separates_categories digest" and "fi_category f = policy_category_prefix @ ''enforcement_machinery''"
  shows "dict_get (wr_by_key (for_scope digest snapshot scope diff_sha)) (scope_key digest scope f) = None"
proof (rule ccontr)
  assume "dict_get (wr_by_key (for_scope digest snapshot scope diff_sha)) (scope_key digest scope f) \<noteq> None"
  then obtain w where "dict_get (wr_by_key (for_scope digest snapshot scope diff_sha)) (scope_key digest scope f) = Some w"
    by blast
  from for_scope_by_key [OF this] obtain i where
    "grants digest scope diff_sha i (scope_key digest scope f) w" by blast
  then have none: "item_refusal digest i scope diff_sha = None"
    and key: "evidence_string i ''waiver_key'' = scope_key digest scope f"
    by (simp_all add: grants_def)
  note i = item_refusal_NoneD [OF none]
  have "digest (waiver_payload scope (evidence_string i ''category'') (evidence_string i ''location'')
      (evidence_string i ''explanation'')) =
      digest (waiver_payload scope (fi_category f) (fi_location f) (fi_explanation f))"
    using i(3) key by (simp add: waiver_key_def scope_key_def)
  then have "evidence_string i ''category'' = fi_category f"
    using assms(1) unfolding separates_categories_def by blast
  then show False using evidence_refusal_NoneD(3) [OF i(1)] assms(2) by (simp add: non_waivable_categories_def)
qed

lemma evaluate_machinery:
  assumes "evaluate_policy env changed ns diff c = Inr e" and "machinery_files c changed \<noteq> []"
  obtains v where "v \<in> set (pe_violations e)" "pv_category v = ''enforcement_machinery''" "pv_severity v = ''critical''"
proof -
  have "set (machinery_violations c changed) \<subseteq> set (pe_violations e)"
    using assms(1) by (auto simp: evaluate_policy_def and_then_Inr Let_def)
  moreover obtain v where "machinery_violations c changed = [v]" "pv_category v = ''enforcement_machinery''"
      "pv_severity v = ''critical''"
    using assms(2) by (simp add: machinery_violations_def Let_def)
  ultimately show thesis using that [of v] by simp
qed

text \<open>C8: no configuration and no approval lets a change of the enforcement machinery pass: if the envelope
  passes with the waivers of any snapshot of the inbox, or with none, then no path of the change is
  machinery. The digest of the waiver keys tells payloads of different categories apart.\<close>

theorem machinery_never_passes:
  assumes "ck_passed (check_policy_envelope tx env digest dv config waivers)"
    and "waivers \<in> {None, Some (for_scope digest snapshot scope diff_sha)}" and "separates_categories digest"
  shows "\<exists>diff changed ns. policy_inputs dv = Inr (diff, changed, ns) \<and> machinery_files config changed = []"
proof -
  obtain diff changed ns e where e: "policy_inputs dv = Inr (diff, changed, ns)"
      "evaluate_policy env changed ns diff config = Inr e"
      "list_all (\<lambda>f. fi_severity f = ''advisory'')
         (fst (apply_waivers digest (map policy_finding (pe_violations e)) waivers))"
    using assms(1) by (auto simp: check_policy_envelope_passed)
  have "machinery_files config changed = []"
  proof (rule ccontr)
    assume "machinery_files config changed \<noteq> []"
    from evaluate_machinery [OF e(2) this] obtain v where v: "v \<in> set (pe_violations e)"
      "pv_category v = ''enforcement_machinery''" "pv_severity v = ''critical''" .
    let ?f = "policy_finding v"
    have f: "fi_category ?f = policy_category_prefix @ ''enforcement_machinery''" "fi_severity ?f = ''critical''"
      using v by (simp_all add: policy_finding_def)
    show False
    proof (cases waivers)
      case None
      then have "fi_severity ?f = ''advisory''" using e(3) v(1) by (simp add: apply_waivers_def list_all_iff)
      then show False using f(2) by simp
    next
      case (Some ws)
      then have ws: "ws = for_scope digest snapshot scope diff_sha" using assms(2) by simp
      then have "fi_severity (waived_finding digest ws ?f) = ''advisory''"
        using e(3) v(1) Some by (simp add: apply_waivers_out list_all_iff)
      from waived_finding_advisory [OF this] f(2) obtain w where
        "dict_get (wr_by_key ws) (scope_key digest (wr_scope ws) ?f) = Some w" by auto
      then show False using machinery_not_waived [OF assms(3) f(1)] by (simp add: ws)
    qed
  qed
  then show ?thesis using e(1) by blast
qed

section \<open>A change to run the properties on\<close>

definition demo_texts :: diff_texts where
  "demo_texts = \<lparr>tx_git = (\<lambda>_. ''git''), tx_policy = (\<lambda>_. ''policy''), tx_reason = (\<lambda>_. ''reason'')\<rparr>"

definition demo_status :: git_run where "demo_status = Git_Out (print_tokens [''A'', ''a.py''])"

definition demo_view :: diff_view where
  "demo_view =
     \<lparr>dv_scope_status = demo_status, dv_patterns_status = demo_status,
      dv_patterns_content = Git_Out (one_added ''a.py'' ''key = 1''),
      dv_policy_content = Git_Out (one_added ''a.py'' ''key = 1''), dv_policy_status = demo_status,
      dv_policy_numstat = Inr [(Some 1, None, ''a.py'')], dv_base_label = ''main''\<rparr>"

definition demo_policy :: policy_config where "demo_policy = default_policy\<lparr>po_enabled := True\<rparr>"

lemma demo_inputs: "policy_inputs demo_view = Inr (one_added ''a.py'' ''key = 1'', [''a.py''], [(Some 1, None, ''a.py'')])"
  by code_simp

lemma demo_envelope: "ck_passed (check_policy_envelope demo_texts plain_env digest demo_view demo_policy None)"
proof -
  have clean: "machinery_files demo_policy [''a.py''] = []" "deny_hits demo_policy [''a.py''] = []"
      "within_caps demo_policy [(Some 1, None, ''a.py'')]"
      "list_all (\<lambda>pl. secret_free (pn_regex plain_env) (po_secret_patterns demo_policy) (snd pl))
         [(''a.py'', ''key = 1'')]"
    by code_simp+
  have parsed: "parse_added_lines (pn_codec plain_env) (one_added ''a.py'' ''key = 1'') = Inr [(''a.py'', ''key = 1'')]"
    using one_added_parsed by (simp add: plain_env_def)
  obtain e where e: "evaluate_policy plain_env [''a.py''] [(Some 1, None, ''a.py'')] (one_added ''a.py'' ''key = 1'')
      demo_policy = Inr e"
    using evaluation_returns [OF parsed, of demo_policy "map (\<lambda>p l. startswith l p) (po_secret_patterns demo_policy)"]
    by (auto simp: compile_all_Inr plain_env_def list_all_iff)
  have "pe_ok e" using envelope_clean [OF e parsed] clean by simp
  then have "pe_violations e = []" by (rule ok_no_violations [OF e])
  then show ?thesis using demo_inputs e by (auto simp: check_policy_envelope_passed apply_waivers_def)
qed

theorem machinery_never_passes_witness:
  "\<exists>diff changed ns. policy_inputs demo_view = Inr (diff, changed, ns) \<and> machinery_files demo_policy changed = []"
proof -
  have "separates_categories (\<lambda>p. jstr_of (jget p ''category'' JNull))"
    by (simp add: separates_categories_def waiver_payload_def jget_def)
  from machinery_never_passes [OF demo_envelope _ this] show ?thesis by blast
qed

section \<open>Phase 1\<close>

lemma run_checks_passed:
  assumes "list_all ck_passed (fst (run_checks env s timeout cs w))" and "cs \<noteq> []"
  shows "sk_unconfirmed s = None"
  using assms by (cases cs) (auto simp: check_stack_command_passed Let_def case_prod_unfold)

lemma run_checks_names: "map ck_name (fst (run_checks env s timeout cs w)) = map (\<lambda>nc. ''stack:'' @ fst nc) cs"
  by (induction cs arbitrary: w)
    (auto simp: check_stack_command_def Let_def case_prod_unfold split: option.splits)
















text \<open>a verification without a base reads no diff: whatever git would print, its result is the same, and
  none of its rows is a check that judges a diff.\<close>

theorem undiffed_reads_no_diff:
  "run_undiffed_verification (env\<lparr>ve_diff := f\<rparr>) c w = run_undiffed_verification env c w \<and>
   set (map ck_name (vr_checks (fst (run_undiffed_verification env c w)))) \<inter> set diff_dependent_checks = {}"
proof
  have none: "diff_rows e undiffed_request (narrow_to_undiffed c) u = []" for e u
    by (simp add: diff_rows_def undiffed_request_def narrow_to_undiffed_def scope_checks_def envelope_of_def Let_def)
  have same: "critique_rows (env\<lparr>ve_diff := f\<rparr>) q c' u = critique_rows env q c' u"
      "prd_rows (env\<lparr>ve_diff := f\<rparr>) q u = prd_rows env q u" for q c' u
    by (simp_all add: critique_rows_def prd_rows_def self_critique_progress_path_def split: option.split)
  show "run_undiffed_verification (env\<lparr>ve_diff := f\<rparr>) c w = run_undiffed_verification env c w"
    by (simp add: run_undiffed_verification_def run_mechanical_verification_def none same)
  have "list_all (\<lambda>r. ck_name r \<notin> set diff_dependent_checks) (fst (fst (command_gates ec c' names w)))" for ec c' names
  proof (cases "vf_stack c'")
    case None
    then show ?thesis by (simp add: command_gates_def no_stack_check_def diff_dependent_checks_def)
  next
    case (Some s)
    let ?cs = "filter (\<lambda>nc. fst nc \<in> set names) (sk_checks s)"
    have "list_all (\<lambda>n. n \<notin> set diff_dependent_checks)
        (map ck_name (fst (run_checks ec s (limit_seconds (vf_timeout c')) ?cs w)))"
      unfolding run_checks_names by (simp add: list_all_iff diff_dependent_checks_def)
    then show ?thesis
      by (simp add: command_gates_def stack_gates_def Some case_prod_unfold list.pred_map comp_def Let_def)
  qed
  moreover have "list_all (\<lambda>r. ck_name r \<notin> set diff_dependent_checks) (critique_rows env q c' u)" for q c' u
    by (auto simp: critique_rows_def check_self_critique_def critique_row_def Let_def diff_dependent_checks_def
        split: option.splits progress_read.splits)
  moreover have "prd_rows env undiffed_request u = []" for u by (simp add: prd_rows_def undiffed_request_def)
  ultimately show "set (map ck_name (vr_checks (fst (run_undiffed_verification env c w)))) \<inter> set diff_dependent_checks = {}"
    by (auto simp: run_undiffed_verification_def run_mechanical_verification_def verdict_of_def none Let_def
        case_prod_unfold list_all_iff)
qed

section \<open>Two readings of a diff that fail open\<close>

text \<open>A diff that git could not produce passes the scope check.\<close>

lemma scope_passes_without_diff:
  "ck_passed (check_diff_scope tx (dv\<lparr>dv_scope_status := Git_Timeout\<rparr>) (Some [''src/'']) []) \<and>
   ck_message (check_diff_scope tx (dv\<lparr>dv_scope_status := Git_Timeout\<rparr>) (Some [''src/'']) []) = no_files_in_the_diff"
  by (simp add: check_diff_scope_def get_diff_names_def get_diff_name_status_def unique_paths_def fromkeys_def)
    (simp add: check_row_def)

text \<open>So does the scan for secrets.\<close>

lemma patterns_pass_without_diff:
  "ck_passed (check_bad_patterns tx env (dv\<lparr>dv_patterns_status := Git_Timeout\<rparr>) [] False)"
  by (simp add: check_bad_patterns_def scan_change_def get_diff_name_status_def unique_paths_def fromkeys_def
      lift_error_def scan_secrets_def compile_all_def dict_keys_def Let_def)

end
