(* ===== verification/Retry_Context.thy ===== *)
theory Retry_Context
  imports Waivers
begin

text \<open>
  \<open>kstrl/pipeline/context.py\<close>: what a retried component's engineer is told. A failure carries the
  attempt and the phase that measured it; a reading records that a skippable phase looked at the
  change and returned a verdict. Before each attempt the failures are sorted into current,
  not re-measured and resolved ones, and the prompt renders the three groups.
\<close>

section \<open>Phases\<close>

definition phase_ranks :: "(string \<times> int) list" where
  "phase_ranks =
     [(''engineer'', 0), (''verification'', 1), (acceptance_phase, 2), (''diff'', 3),
      (''review'', 4), (''security'', 5), (''contract'', 6), (''pr'', 7)]"

definition phase_rank :: "string \<Rightarrow> int option" where
  "phase_rank p = map_of phase_ranks p"

definition skippable_phases :: "string list" where
  "skippable_phases = [''review'', ''security'']"

definition legacy_attempt :: int where "legacy_attempt = 0"

datatype context_error =
    Unknown_Phase string
  | Missing_Phase_Key string
  | Missing_Entry_Key string
  | Expired_Shape
  | Untyped json

definition require_known_phase :: "string \<Rightarrow> context_error + unit" where
  "require_known_phase p = (case phase_rank p of None \<Rightarrow> Inl (Unknown_Phase p) | Some _ \<Rightarrow> Inr ())"

section \<open>The context\<close>

record iteration_record =
  ir_iteration :: int
  ir_success :: bool
  ir_error :: "string option"
  ir_summary :: string
  ir_attempt :: int

record failure_entry =
  fe_attempt :: int
  fe_phase :: string
  fe_text :: string
  fe_infrastructure :: bool

type_synonym phase_reading = "int \<times> string"

record retry_context =
  rc_records :: "iteration_record list"
  rc_entries :: "failure_entry list"
  rc_readings :: "phase_reading set"

definition empty_context :: retry_context where
  "empty_context = \<lparr>rc_records = [], rc_entries = [], rc_readings = {}\<rparr>"

definition add_iteration :: "iteration_record \<Rightarrow> retry_context \<Rightarrow> retry_context" where
  "add_iteration r c = c\<lparr>rc_records := rc_records c @ [r]\<rparr>"

definition add_entry :: "string \<Rightarrow> int \<Rightarrow> string \<Rightarrow> bool \<Rightarrow> retry_context \<Rightarrow> context_error + retry_context" where
  "add_entry txt attempt phase infrastructure c =
     (if txt = [] then Inr c
      else and_then (require_known_phase phase) (\<lambda>_.
        Inr (c\<lparr>rc_entries := rc_entries c @
          [\<lparr>fe_attempt = attempt, fe_phase = phase, fe_text = txt, fe_infrastructure = infrastructure\<rparr>]\<rparr>)))"

definition add_review_finding where
  "add_review_finding txt attempt phase infrastructure c = add_entry txt attempt phase infrastructure c"

definition add_engineer_failure where
  "add_engineer_failure txt attempt c = add_entry txt attempt ''engineer'' False c"

definition add_checkpoint_request where
  "add_checkpoint_request txt attempt c = add_entry txt attempt ''pr'' False c"

definition add_verification_failure where
  "add_verification_failure txt attempt phase infrastructure c = add_entry txt attempt phase infrastructure c"

definition add_contract_failure where
  "add_contract_failure txt attempt c = add_entry txt attempt ''contract'' False c"

definition acceptance_retry_prompt :: "string list \<Rightarrow> string" where
  "acceptance_retry_prompt lines =
     ''The operator's acceptance checks ran against your last commit, in a fresh checkout of '' @
     ''it, and did not all pass. A check passes only when every run of it exits 0. A held-out '' @
     ''check is named by its id only: what it runs and what it printed are withheld. Make the '' @
     ''component meet its criteria for every input, not only for the inputs a check names.'' @
     [newline] @ join_with [newline] lines"

definition add_acceptance_failure where
  "add_acceptance_failure lines attempt c =
     add_entry (acceptance_retry_prompt lines) attempt acceptance_phase False c"

definition add_phase_reading :: "string \<Rightarrow> int \<Rightarrow> retry_context \<Rightarrow> context_error + retry_context" where
  "add_phase_reading phase attempt c =
     and_then (require_known_phase phase) (\<lambda>_.
       Inr (c\<lparr>rc_readings := insert (attempt, phase) (rc_readings c)\<rparr>))"

section \<open>The three groups\<close>

definition max_default :: "int list \<Rightarrow> int" where
  "max_default xs = (if xs = [] then 0 else Max (set xs))"

definition latest_attempt :: "retry_context \<Rightarrow> int" where
  "latest_attempt c =
     Max {max_default (map fe_attempt (rc_entries c)), max_default (map ir_attempt (rc_records c)),
          int (length (rc_records c))}"

definition phases_read_in :: "retry_context \<Rightarrow> int \<Rightarrow> string set" where
  "phases_read_in c n = snd ` {r \<in> rc_readings c. fst r = n}"

text \<open>Looking a phase up in the table raises for a name that is not in it.\<close>

definition rank_at :: "string \<Rightarrow> context_error + int" where
  "rank_at p = (case phase_rank p of None \<Rightarrow> Inl (Missing_Phase_Key p) | Some r \<Rightarrow> Inr r)"

fun ranks_of :: "failure_entry list \<Rightarrow> context_error + int list" where
  "ranks_of [] = Inr []"
| "ranks_of (e # es) = and_then (rank_at (fe_phase e)) (\<lambda>r. and_then (ranks_of es) (\<lambda>rs. Inr (r # rs)))"

datatype bucket = Current | Not_Remeasured | Resolved

text \<open>What the loop decides with: the latest attempt, the highest rank it failed at, the ranks it
  measured, and the skippable phases it read.\<close>

record bucket_basis =
  bb_latest :: int
  bb_top :: int
  bb_measured :: "int list"
  bb_read :: "string set"

definition bucket_basis_of :: "retry_context \<Rightarrow> context_error + bucket_basis" where
  "bucket_basis_of c =
     (let n = latest_attempt c;
          latest = filter (\<lambda>e. fe_attempt e = n) (rc_entries c)
      in and_then (ranks_of latest) (\<lambda>ranks.
         and_then (ranks_of (filter (\<lambda>e. \<not> fe_infrastructure e) latest)) (\<lambda>measured.
           Inr \<lparr>bb_latest = n, bb_top = (if ranks = [] then - 1 else Max (set ranks)),
                bb_measured = measured, bb_read = phases_read_in c n\<rparr>)))"

definition bucket_of :: "bucket_basis \<Rightarrow> failure_entry \<Rightarrow> context_error + bucket" where
  "bucket_of b e =
     (if fe_attempt e = legacy_attempt then Inr Not_Remeasured
      else if fe_attempt e = bb_latest b then Inr Current
      else and_then (rank_at (fe_phase e)) (\<lambda>r.
        Inr (if r = bb_top b
             then (if bb_top b \<in> set (bb_measured b) then Resolved else Not_Remeasured)
             else if fe_phase e \<in> set skippable_phases
             then (if fe_phase e \<in> bb_read b then Resolved else Not_Remeasured)
             else if r < bb_top b then Resolved else Not_Remeasured)))"

record buckets =
  bk_current :: "failure_entry list"
  bk_not_remeasured :: "failure_entry list"
  bk_resolved :: "failure_entry list"
  bk_attempt :: int

definition put_in :: "bucket \<Rightarrow> failure_entry \<Rightarrow> buckets \<Rightarrow> buckets" where
  "put_in k e bs =
     (case k of
        Current \<Rightarrow> bs\<lparr>bk_current := bk_current bs @ [e]\<rparr>
      | Not_Remeasured \<Rightarrow> bs\<lparr>bk_not_remeasured := bk_not_remeasured bs @ [e]\<rparr>
      | Resolved \<Rightarrow> bs\<lparr>bk_resolved := bk_resolved bs @ [e]\<rparr>)"

fun sort_entries :: "bucket_basis \<Rightarrow> failure_entry list \<Rightarrow> buckets \<Rightarrow> context_error + buckets" where
  "sort_entries b [] bs = Inr bs"
| "sort_entries b (e # es) bs = and_then (bucket_of b e) (\<lambda>k. sort_entries b es (put_in k e bs))"

definition context_buckets :: "retry_context \<Rightarrow> context_error + buckets" where
  "context_buckets c =
     and_then (bucket_basis_of c) (\<lambda>b.
       sort_entries b (rc_entries c)
         \<lparr>bk_current = [], bk_not_remeasured = [], bk_resolved = [], bk_attempt = bb_latest b\<rparr>)"

section \<open>The prompt\<close>

definition entry_rank :: "failure_entry \<Rightarrow> int" where
  "entry_rank e = (case phase_rank (fe_phase e) of None \<Rightarrow> 0 | Some r \<Rightarrow> r)"

text \<open>\<open>max(entries, key=rank)\<close>: the first entry of the highest rank.\<close>

fun top_entry :: "failure_entry \<Rightarrow> failure_entry list \<Rightarrow> failure_entry" where
  "top_entry best [] = best"
| "top_entry best (e # es) = top_entry (if entry_rank e > entry_rank best then e else best) es"

definition current_section :: "buckets \<Rightarrow> string list" where
  "current_section bs =
     (case bk_current bs of
        [] \<Rightarrow> []
      | e # es \<Rightarrow>
          [[], ''## Current failures (measured in attempt '' @ int_text (bk_attempt bs) @ '', '' @
               fe_phase (top_entry e es) @ '')''] @ map fe_text (e # es))"

definition age_label :: "failure_entry \<Rightarrow> string" where
  "age_label e =
     (if fe_attempt e = legacy_attempt then ''attempt unknown'' else ''attempt '' @ int_text (fe_attempt e))"

definition not_remeasured_section :: "buckets \<Rightarrow> string list" where
  "not_remeasured_section bs =
     (if bk_not_remeasured bs = [] then []
      else
        (let dated = filter (\<lambda>a. a > legacy_attempt) (map fe_attempt (bk_not_remeasured bs))
         in [[], ''## Not re-measured'' @
                (if dated = [] then [] else '' since attempt '' @ int_text (Min (set dated)))] @
            map (\<lambda>e. ''('' @ age_label e @ '', '' @ fe_phase e @ '') '' @ fe_text e) (bk_not_remeasured bs)))"

definition ranked_phases :: "failure_entry list \<Rightarrow> string list" where
  "ranked_phases es =
     sort_key (\<lambda>p. case phase_rank p of None \<Rightarrow> 0 | Some r \<Rightarrow> r) (remdups (map fe_phase es))"

definition resolved_section :: "buckets \<Rightarrow> string list" where
  "resolved_section bs =
     (if bk_resolved bs = [] then []
      else [[], ''## Resolved or superseded'' @ [newline] @ nat_text (length (bk_resolved bs)) @
             '' earlier finding(s) from '' @ join_with '', '' (ranked_phases (bk_resolved bs)) @
             '' passed or were re-measured in attempt '' @ int_text (bk_attempt bs) @ '' and are omitted.''])"

definition record_attempt :: "nat \<Rightarrow> iteration_record \<Rightarrow> int" where
  "record_attempt position r = (if ir_attempt r > legacy_attempt then ir_attempt r else int position)"

definition history_line :: "int set \<Rightarrow> nat \<Rightarrow> iteration_record \<Rightarrow> string" where
  "history_line measured position r =
     ''- Attempt '' @ int_text (record_attempt position r) @ '': '' @
       (if ir_success r then ''completed'' else ''FAILED'') @
       (case ir_error r of
          None \<Rightarrow> []
        | Some e \<Rightarrow> (if e \<noteq> [] \<and> record_attempt position r \<notin> measured then '' - '' @ e else [])) @
       (if ir_summary r = [] then [] else '' ('' @ ir_summary r @ '')'')"

fun history_lines :: "int set \<Rightarrow> nat \<Rightarrow> iteration_record list \<Rightarrow> string list" where
  "history_lines measured position [] = []"
| "history_lines measured position (r # rs) =
     history_line measured position r # history_lines measured (Suc position) rs"

definition measured_attempts :: "retry_context \<Rightarrow> int set" where
  "measured_attempts c = set (filter (\<lambda>a. a > legacy_attempt) (map fe_attempt (rc_entries c)))"

definition history_section :: "retry_context \<Rightarrow> string list" where
  "history_section c =
     (if rc_records c = [] then []
      else [[], ''## Attempt history''] @ history_lines (measured_attempts c) 1 (rc_records c))"

definition closing_prompt :: "string list" where
  "closing_prompt =
     [[], ''Fix the current failures. Re-check the not-re-measured items '' @
          ''yourself; do not assume they still apply.'' @ [newline] @ ''=== END PREVIOUS CONTEXT ==='']"

text \<open>The ranks of the current entries, and those of the resolved ones, are looked up again here.\<close>

definition format_for_prompt :: "retry_context \<Rightarrow> context_error + string" where
  "format_for_prompt c =
     and_then (context_buckets c) (\<lambda>bs.
     and_then (ranks_of (bk_current bs)) (\<lambda>_.
     and_then (ranks_of (bk_resolved bs)) (\<lambda>_.
       Inr (join_with [newline]
         ([''=== PREVIOUS ATTEMPT CONTEXT (Attempt '' @ int_text (latest_attempt c + 1) @ '') ===''] @
          current_section bs @ not_remeasured_section bs @ resolved_section bs @ history_section c @
          closing_prompt)))))"

section \<open>Transport\<close>

definition record_dict :: "iteration_record \<Rightarrow> json" where
  "record_dict r =
     JObj [(''iteration'', JInt (ir_iteration r)), (''success'', JBool (ir_success r)),
           (''error'', case ir_error r of None \<Rightarrow> JNull | Some e \<Rightarrow> JStr e),
           (''summary'', JStr (ir_summary r)), (''attempt'', JInt (ir_attempt r))]"

definition entry_dict :: "failure_entry \<Rightarrow> json" where
  "entry_dict e =
     JObj [(''attempt'', JInt (fe_attempt e)), (''phase'', JStr (fe_phase e)), (''text'', JStr (fe_text e)),
           (''infrastructure'', JBool (fe_infrastructure e))]"

definition reading_dict :: "phase_reading \<Rightarrow> json" where
  "reading_dict r = JObj [(''attempt'', JInt (fst r)), (''phase'', JStr (snd r))]"

definition context_to_json :: "retry_context \<Rightarrow> json" where
  "context_to_json c =
     JObj [(''records'', JList (map record_dict (rc_records c))),
           (''entries'', JList (map entry_dict (rc_entries c))),
           (''readings'', JList (map reading_dict (sorted_list_of_set (rc_readings c))))]"

text \<open>
  Reading back. The code does not check the type of a field; a document with a field of another type
  is \<open>Untyped\<close> here. The phase of an entry is not checked against the table, that of a reading is.
\<close>

definition field_of :: "json \<Rightarrow> string \<Rightarrow> context_error + json" where
  "field_of v k =
     (case v of
        JObj ob \<Rightarrow> (case map_of ob k of None \<Rightarrow> Inl (Missing_Entry_Key k) | Some x \<Rightarrow> Inr x)
      | _ \<Rightarrow> Inl (Untyped v))"

definition field_or :: "json \<Rightarrow> string \<Rightarrow> json \<Rightarrow> context_error + json" where
  "field_or v k dflt =
     (case v of
        JObj ob \<Rightarrow> (case map_of ob k of None \<Rightarrow> Inr dflt | Some x \<Rightarrow> Inr x)
      | _ \<Rightarrow> Inl (Untyped v))"

fun int_value :: "json \<Rightarrow> context_error + int" where
  "int_value (JInt n) = Inr n"
| "int_value v = Inl (Untyped v)"

fun bool_value :: "json \<Rightarrow> context_error + bool" where
  "bool_value (JBool b) = Inr b"
| "bool_value v = Inl (Untyped v)"

fun text_value :: "json \<Rightarrow> context_error + string" where
  "text_value (JStr s) = Inr s"
| "text_value v = Inl (Untyped v)"

fun optional_text :: "json \<Rightarrow> context_error + string option" where
  "optional_text JNull = Inr None"
| "optional_text (JStr s) = Inr (Some s)"
| "optional_text v = Inl (Untyped v)"

fun items_of :: "json \<Rightarrow> context_error + json list" where
  "items_of (JList vs) = Inr vs"
| "items_of v = Inl (Untyped v)"

definition read_record :: "json \<Rightarrow> context_error + iteration_record" where
  "read_record v =
     and_then (and_then (field_of v ''iteration'') int_value) (\<lambda>i.
     and_then (and_then (field_of v ''success'') bool_value) (\<lambda>s.
     and_then (and_then (field_or v ''error'' JNull) optional_text) (\<lambda>e.
     and_then (and_then (field_or v ''summary'' (JStr [])) text_value) (\<lambda>m.
     and_then (and_then (field_or v ''attempt'' (JInt legacy_attempt)) int_value) (\<lambda>a.
       Inr \<lparr>ir_iteration = i, ir_success = s, ir_error = e, ir_summary = m, ir_attempt = a\<rparr>)))))"

definition read_entry :: "json \<Rightarrow> context_error + failure_entry" where
  "read_entry v =
     and_then (and_then (field_of v ''attempt'') int_value) (\<lambda>a.
     and_then (and_then (field_of v ''phase'') text_value) (\<lambda>p.
     and_then (and_then (field_of v ''text'') text_value) (\<lambda>t.
     and_then (and_then (field_or v ''infrastructure'' (JBool False)) bool_value) (\<lambda>i.
       Inr \<lparr>fe_attempt = a, fe_phase = p, fe_text = t, fe_infrastructure = i\<rparr>))))"

fun read_records :: "json list \<Rightarrow> retry_context \<Rightarrow> context_error + retry_context" where
  "read_records [] c = Inr c"
| "read_records (v # vs) c = and_then (read_record v) (\<lambda>r. read_records vs (add_iteration r c))"

fun read_readings :: "json list \<Rightarrow> retry_context \<Rightarrow> context_error + retry_context" where
  "read_readings [] c = Inr c"
| "read_readings (v # vs) c =
     and_then (and_then (field_of v ''phase'') text_value) (\<lambda>p.
     and_then (and_then (field_of v ''attempt'') int_value) (\<lambda>a.
     and_then (add_phase_reading p a c) (\<lambda>c'. read_readings vs c')))"

fun read_entries :: "json list \<Rightarrow> retry_context \<Rightarrow> context_error + retry_context" where
  "read_entries [] c = Inr c"
| "read_entries (v # vs) c =
     and_then (read_entry v) (\<lambda>e. read_entries vs (c\<lparr>rc_entries := rc_entries c @ [e]\<rparr>))"

definition expired_keys :: "string list" where
  "expired_keys = [''review_findings'', ''verification_failures'', ''contract_failures'']"

fun has_key :: "json \<Rightarrow> string \<Rightarrow> bool" where
  "has_key (JObj ob) k = (map_of ob k \<noteq> None)"
| "has_key _ k = False"

definition context_from_json :: "json \<Rightarrow> context_error + retry_context" where
  "context_from_json v =
     and_then (and_then (field_or v ''records'' (JList [])) items_of) (\<lambda>records.
     and_then (read_records records empty_context) (\<lambda>c1.
     and_then (and_then (field_or v ''readings'' (JList [])) items_of) (\<lambda>readings.
     and_then (read_readings readings c1) (\<lambda>c2.
       if \<not> has_key v ''entries'' \<and> list_ex (has_key v) expired_keys then Inl Expired_Shape
       else
         and_then (and_then (field_or v ''entries'' (JList [])) items_of) (\<lambda>entries.
           read_entries entries c2)))))"

section \<open>Well-formed contexts\<close>

text \<open>What every writer keeps: finitely many readings, and only phases of the table.\<close>

definition context_ok :: "retry_context \<Rightarrow> bool" where
  "context_ok c \<longleftrightarrow>
     finite (rc_readings c) \<and> (\<forall>r \<in> rc_readings c. phase_rank (snd r) \<noteq> None) \<and>
     list_all (\<lambda>e. phase_rank (fe_phase e) \<noteq> None) (rc_entries c)"

lemma empty_context_ok [simp]: "context_ok empty_context"
  by (simp add: context_ok_def empty_context_def)

lemma add_iteration_ok [simp]: "context_ok (add_iteration r c) = context_ok c"
  by (simp add: context_ok_def add_iteration_def)

lemma require_known_phase_Inr: "require_known_phase p = Inr u \<longleftrightarrow> phase_rank p \<noteq> None"
  by (cases u) (auto simp: require_known_phase_def split: option.split)

lemma add_entry_ok: "context_ok c \<Longrightarrow> add_entry txt a p i c = Inr c' \<Longrightarrow> context_ok c'"
  by (auto simp: add_entry_def and_then_Inr require_known_phase_Inr context_ok_def split: if_splits)

lemma add_phase_reading_ok: "context_ok c \<Longrightarrow> add_phase_reading p a c = Inr c' \<Longrightarrow> context_ok c'"
  by (auto simp: add_phase_reading_def and_then_Inr require_known_phase_Inr context_ok_def)

end
