(* ===== verification/Retry_Context_Contract.thy ===== *)
theory Retry_Context_Contract
  imports Retry_Context "HOL-Library.Multiset"
begin

text \<open>
  What the retry context promises: sorting neither loses nor duplicates a failure, an earlier failure
  is left out of the prompt only when its phase is known to have looked again, a context the
  pipeline's writers built always renders, and it survives the process boundary.
\<close>

section \<open>Sorting\<close>

definition all_in :: "buckets \<Rightarrow> failure_entry multiset" where
  "all_in bs = mset (bk_current bs) + mset (bk_not_remeasured bs) + mset (bk_resolved bs)"

lemma all_in_put [simp]: "all_in (put_in k e bs) = add_mset e (all_in bs)"
  by (cases k) (simp_all add: all_in_def put_in_def)

lemma put_in_attempt [simp]: "bk_attempt (put_in k e bs) = bk_attempt bs"
  by (cases k) (simp_all add: put_in_def)

lemma sort_entries_all: "sort_entries b es bs = Inr out \<Longrightarrow> all_in out = mset es + all_in bs"
proof (induction es arbitrary: bs)
  case Nil
  then show ?case by simp
next
  case (Cons e es)
  from Cons.prems obtain k where "sort_entries b es (put_in k e bs) = Inr out"
    by (auto simp: and_then_Inr)
  from Cons.IH [OF this] show ?case by simp
qed

lemma sort_entries_groups:
  assumes "sort_entries b es bs = Inr out"
  shows "e \<in> set (bk_current out) \<Longrightarrow> e \<in> set (bk_current bs) \<or> e \<in> set es \<and> bucket_of b e = Inr Current"
    and "e \<in> set (bk_not_remeasured out) \<Longrightarrow>
         e \<in> set (bk_not_remeasured bs) \<or> e \<in> set es \<and> bucket_of b e = Inr Not_Remeasured"
    and "e \<in> set (bk_resolved out) \<Longrightarrow>
         e \<in> set (bk_resolved bs) \<or> e \<in> set es \<and> bucket_of b e = Inr Resolved"
  using assms
proof (induction es arbitrary: bs)
  case Nil
  { case 1 then show ?case by simp }
  { case 2 then show ?case by simp }
  { case 3 then show ?case by simp }
next
  case (Cons x es)
  { case 1
    then obtain k where k: "bucket_of b x = Inr k" "sort_entries b es (put_in k x bs) = Inr out"
      by (auto simp: and_then_Inr)
    from Cons.IH(1) [OF 1(1) k(2)] k(1) show ?case by (cases k) (auto simp: put_in_def) }
  { case 2
    then obtain k where k: "bucket_of b x = Inr k" "sort_entries b es (put_in k x bs) = Inr out"
      by (auto simp: and_then_Inr)
    from Cons.IH(2) [OF 2(1) k(2)] k(1) show ?case by (cases k) (auto simp: put_in_def) }
  { case 3
    then obtain k where k: "bucket_of b x = Inr k" "sort_entries b es (put_in k x bs) = Inr out"
      by (auto simp: and_then_Inr)
    from Cons.IH(3) [OF 3(1) k(2)] k(1) show ?case by (cases k) (auto simp: put_in_def) }
qed

lemma context_buckets_Inr:
  assumes "context_buckets c = Inr bs"
  shows "\<exists>b. bucket_basis_of c = Inr b \<and> bk_attempt bs = bb_latest b \<and> all_in bs = mset (rc_entries c) \<and>
    (\<forall>e \<in> set (bk_current bs). e \<in> set (rc_entries c) \<and> bucket_of b e = Inr Current) \<and>
    (\<forall>e \<in> set (bk_resolved bs). e \<in> set (rc_entries c) \<and> bucket_of b e = Inr Resolved)"
proof -
  let ?start = "\<lambda>b. \<lparr>bk_current = [], bk_not_remeasured = [], bk_resolved = [], bk_attempt = bb_latest b\<rparr>"
  from assms obtain b where b: "bucket_basis_of c = Inr b" "sort_entries b (rc_entries c) (?start b) = Inr bs"
    by (auto simp: context_buckets_def and_then_Inr)
  have att: "sort_entries b es x = Inr out \<Longrightarrow> bk_attempt out = bk_attempt x" for es x out
  proof (induction es arbitrary: x)
    case (Cons e es)
    then show ?case by (auto simp: and_then_Inr)
  qed simp
  have "all_in bs = mset (rc_entries c)" "bk_attempt bs = bb_latest b"
    using att [OF b(2)] sort_entries_all [OF b(2)] by (simp_all add: all_in_def)
  moreover have "\<forall>e \<in> set (bk_current bs). e \<in> set (rc_entries c) \<and> bucket_of b e = Inr Current"
    "\<forall>e \<in> set (bk_resolved bs). e \<in> set (rc_entries c) \<and> bucket_of b e = Inr Resolved"
    using sort_entries_groups [OF b(2)] by auto
  ultimately show ?thesis using b(1) by blast
qed

section \<open>What the ranks say\<close>

lemma ranks_of_Inr: "ranks_of es = Inr rs \<Longrightarrow> map (\<lambda>e. phase_rank (fe_phase e)) es = map Some rs"
  by (induction es arbitrary: rs) (auto simp: and_then_Inr rank_at_def split: option.splits)

lemma ranks_of_mem:
  assumes "ranks_of es = Inr rs" "r \<in> set rs"
  obtains e where "e \<in> set es" "phase_rank (fe_phase e) = Some r"
proof -
  from assms(2) have "Some r \<in> set (map Some rs)" by simp
  with ranks_of_Inr [OF assms(1)] have "Some r \<in> set (map (\<lambda>e. phase_rank (fe_phase e)) es)" by simp
  with that show thesis by auto
qed

lemma phase_rank_inj: "phase_rank p = Some r \<Longrightarrow> phase_rank q = Some r \<Longrightarrow> p = q"
  by (auto simp: phase_rank_def phase_ranks_def split: if_splits)

lemma phase_rank_nonneg: "phase_rank p = Some r \<Longrightarrow> 0 \<le> r"
  by (auto simp: phase_rank_def phase_ranks_def split: if_splits)

text \<open>The basis: the highest rank is -1, or that of a failure of the latest attempt; a measured rank
  is that of a failure of the latest attempt that is not a crash.\<close>

lemma bucket_basis_facts:
  assumes "bucket_basis_of c = Inr b"
  shows "bb_latest b = latest_attempt c"
    and "bb_read b = phases_read_in c (latest_attempt c)"
    and "0 \<le> bb_top b \<Longrightarrow>
         \<exists>e \<in> set (rc_entries c). fe_attempt e = latest_attempt c \<and> phase_rank (fe_phase e) = Some (bb_top b)"
    and "r \<in> set (bb_measured b) \<Longrightarrow>
         \<exists>e \<in> set (rc_entries c). fe_attempt e = latest_attempt c \<and> \<not> fe_infrastructure e \<and>
           phase_rank (fe_phase e) = Some r"
proof -
  let ?latest = "filter (\<lambda>e. fe_attempt e = latest_attempt c) (rc_entries c)"
  from assms obtain ranks measured where
    r: "ranks_of ?latest = Inr ranks" and m: "ranks_of (filter (\<lambda>e. \<not> fe_infrastructure e) ?latest) = Inr measured"
    and b: "b = \<lparr>bb_latest = latest_attempt c, bb_top = (if ranks = [] then - 1 else Max (set ranks)),
      bb_measured = measured, bb_read = phases_read_in c (latest_attempt c)\<rparr>"
    by (auto simp: bucket_basis_of_def Let_def and_then_Inr)
  from b show "bb_latest b = latest_attempt c" "bb_read b = phases_read_in c (latest_attempt c)" by simp_all
  show "\<exists>e \<in> set (rc_entries c). fe_attempt e = latest_attempt c \<and> phase_rank (fe_phase e) = Some (bb_top b)"
    if top: "0 \<le> bb_top b"
  proof -
    from top b have ne: "ranks \<noteq> []" by auto
    then have "bb_top b \<in> set ranks" using b by simp
    from ranks_of_mem [OF r this] show ?thesis by auto
  qed
  show "\<exists>e \<in> set (rc_entries c). fe_attempt e = latest_attempt c \<and> \<not> fe_infrastructure e \<and>
      phase_rank (fe_phase e) = Some r"
    if mem: "r \<in> set (bb_measured b)"
  proof -
    from mem b have "r \<in> set measured" by simp
    from ranks_of_mem [OF m this] show ?thesis by auto
  qed
qed

text \<open>Why a failure may be left out.\<close>

definition remeasured :: "retry_context \<Rightarrow> failure_entry \<Rightarrow> bool" where
  "remeasured c e \<longleftrightarrow>
     list_ex (\<lambda>x. fe_attempt x = latest_attempt c \<and> fe_phase x = fe_phase e \<and> \<not> fe_infrastructure x)
       (rc_entries c)"

definition read_again :: "retry_context \<Rightarrow> failure_entry \<Rightarrow> bool" where
  "read_again c e \<longleftrightarrow> (latest_attempt c, fe_phase e) \<in> rc_readings c"

definition passed_by :: "retry_context \<Rightarrow> failure_entry \<Rightarrow> bool" where
  "passed_by c e \<longleftrightarrow>
     fe_phase e \<notin> set skippable_phases \<and>
     list_ex (\<lambda>x. fe_attempt x = latest_attempt c \<and> entry_rank e < entry_rank x) (rc_entries c)"

lemma bucket_Resolved_why:
  assumes basis: "bucket_basis_of c = Inr b" and res: "bucket_of b e = Inr Resolved"
  shows "fe_attempt e \<noteq> latest_attempt c \<and> fe_attempt e \<noteq> legacy_attempt \<and>
         (remeasured c e \<or> read_again c e \<or> passed_by c e)"
proof -
  note facts = bucket_basis_facts [OF basis]
  have bounds: "fe_attempt e \<noteq> legacy_attempt" "fe_attempt e \<noteq> latest_attempt c"
    using res facts(1) by (auto simp: bucket_of_def split: if_splits)
  then obtain r where r: "phase_rank (fe_phase e) = Some r"
    using res facts(1) by (auto simp: bucket_of_def and_then_Inr rank_at_def split: option.splits)
  show ?thesis
  proof (cases "r = bb_top b")
    case True
    then have "bb_top b \<in> set (bb_measured b)"
      using res r bounds facts(1) by (auto simp: bucket_of_def rank_at_def split: if_splits)
    from facts(4) [OF this] obtain x where
      "x \<in> set (rc_entries c)" "fe_attempt x = latest_attempt c" "\<not> fe_infrastructure x"
      "phase_rank (fe_phase x) = Some r" using True by auto
    moreover from this have "fe_phase x = fe_phase e" using phase_rank_inj r by blast
    ultimately have "remeasured c e" by (auto simp: remeasured_def list_ex_iff)
    with bounds show ?thesis by simp
  next
    case False
    show ?thesis
    proof (cases "fe_phase e \<in> set skippable_phases")
      case True
      then have "fe_phase e \<in> bb_read b"
        using res r bounds facts(1) False by (auto simp: bucket_of_def rank_at_def split: if_splits)
      then have "read_again c e" using facts(2) by (auto simp: phases_read_in_def read_again_def)
      with bounds show ?thesis by simp
    next
      case no_skip: False
      then have less: "r < bb_top b"
        using res r bounds facts(1) False by (auto simp: bucket_of_def rank_at_def split: if_splits)
      with phase_rank_nonneg [OF r] have "0 \<le> bb_top b" by simp
      from facts(3) [OF this] obtain x where
        "x \<in> set (rc_entries c)" "fe_attempt x = latest_attempt c" "phase_rank (fe_phase x) = Some (bb_top b)"
        by blast
      with r less no_skip have "passed_by c e"
        by (auto simp: passed_by_def list_ex_iff entry_rank_def)
      with bounds show ?thesis by simp
    qed
  qed
qed

text \<open>C19: Sorting the failures for the next attempt loses none and repeats none, and one is left out of
  the prompt only when it is older than the latest attempt and its phase is known to have looked
  again: the same phase failed again in the latest attempt without crashing, or it recorded a
  reading there, or it is a phase that cannot be skipped and a later phase of that attempt failed.
  A skipped or crashed reviewer retires nothing.\<close>

theorem retired_only_when_observed:
  assumes "context_buckets c = Inr bs"
  shows "mset (bk_current bs) + mset (bk_not_remeasured bs) + mset (bk_resolved bs) = mset (rc_entries c)
    \<and> list_all (\<lambda>e. fe_attempt e = latest_attempt c) (bk_current bs)
    \<and> list_all (\<lambda>e. fe_attempt e \<noteq> latest_attempt c \<and> fe_attempt e \<noteq> legacy_attempt \<and>
           (remeasured c e \<or> read_again c e \<or> passed_by c e)) (bk_resolved bs)"
proof -
  from context_buckets_Inr [OF assms] obtain b where b: "bucket_basis_of c = Inr b"
      "all_in bs = mset (rc_entries c)"
      "\<forall>e \<in> set (bk_current bs). e \<in> set (rc_entries c) \<and> bucket_of b e = Inr Current"
      "\<forall>e \<in> set (bk_resolved bs). e \<in> set (rc_entries c) \<and> bucket_of b e = Inr Resolved"
    by blast
  have "fe_attempt e = latest_attempt c" if "e \<in> set (bk_current bs)" for e
    using bspec [OF b(3) that] bucket_basis_facts(1) [OF b(1)]
    by (auto simp: bucket_of_def and_then_Inr split: if_splits)
  moreover have "fe_attempt e \<noteq> latest_attempt c \<and> fe_attempt e \<noteq> legacy_attempt \<and>
      (remeasured c e \<or> read_again c e \<or> passed_by c e)" if "e \<in> set (bk_resolved bs)" for e
    using bucket_Resolved_why [OF b(1)] bspec [OF b(4) that] by blast
  ultimately show ?thesis using b(2) by (simp add: all_in_def list_all_iff)
qed

definition demo_entry :: "int \<Rightarrow> string \<Rightarrow> bool \<Rightarrow> failure_entry" where
  "demo_entry a p i = \<lparr>fe_attempt = a, fe_phase = p, fe_text = ''x'', fe_infrastructure = i\<rparr>"

text \<open>A reviewer's finding of attempt 1 stays when the reviewer crashed in attempt 2; a test failure of
  attempt 1 is resolved, since attempt 2 got past the tests.\<close>

definition demo_context :: retry_context where
  "demo_context =
     \<lparr>rc_records = [],
      rc_entries = [demo_entry 1 ''verification'' False, demo_entry 1 ''review'' False,
                    demo_entry 2 ''review'' True], rc_readings = {}\<rparr>"

lemmas context_eval =
  context_buckets_def bucket_basis_of_def Let_def latest_attempt_def max_default_def rank_at_def
  phase_rank_def phase_ranks_def bucket_of_def legacy_attempt_def skippable_phases_def
  phases_read_in_def put_in_def acceptance_phase_def

lemma demo_buckets:
  "context_buckets demo_context =
     Inr \<lparr>bk_current = [demo_entry 2 ''review'' True], bk_not_remeasured = [demo_entry 1 ''review'' False],
          bk_resolved = [demo_entry 1 ''verification'' False], bk_attempt = 2\<rparr>"
  by (simp add: demo_context_def demo_entry_def context_eval)

theorem retired_only_when_observed_witness:
  "list_all (\<lambda>e. fe_attempt e \<noteq> latest_attempt demo_context \<and> fe_attempt e \<noteq> legacy_attempt \<and>
     (remeasured demo_context e \<or> read_again demo_context e \<or> passed_by demo_context e))
     [demo_entry 1 ''verification'' False]"
  using retired_only_when_observed [OF demo_buckets] by simp

section \<open>Rendering\<close>

lemma ranks_of_known:
  "list_all (\<lambda>e. phase_rank (fe_phase e) \<noteq> None) es \<Longrightarrow> \<exists>rs. ranks_of es = Inr rs"
  by (induction es) (auto simp: rank_at_def and_then_Inr)

lemma bucket_of_known: "phase_rank (fe_phase e) \<noteq> None \<Longrightarrow> \<exists>k. bucket_of b e = Inr k"
  by (auto simp: bucket_of_def rank_at_def)

lemma sort_entries_known:
  "list_all (\<lambda>e. phase_rank (fe_phase e) \<noteq> None) es \<Longrightarrow> \<exists>out. sort_entries b es bs = Inr out"
proof (induction es arbitrary: bs)
  case Nil
  then show ?case by simp
next
  case (Cons e es)
  then obtain k where "bucket_of b e = Inr k" using bucket_of_known [of e b] by auto
  with Cons show ?case by simp
qed

lemma context_buckets_known:
  assumes "context_ok c"
  shows "\<exists>bs. context_buckets c = Inr bs"
proof -
  from assms have known: "list_all (\<lambda>e. phase_rank (fe_phase e) \<noteq> None) (rc_entries c)"
    by (simp add: context_ok_def)
  let ?latest = "filter (\<lambda>e. fe_attempt e = latest_attempt c) (rc_entries c)"
  have "list_all (\<lambda>e. phase_rank (fe_phase e) \<noteq> None) ?latest"
    "list_all (\<lambda>e. phase_rank (fe_phase e) \<noteq> None) (filter (\<lambda>e. \<not> fe_infrastructure e) ?latest)"
    using known by (auto simp: list_all_iff)
  then obtain rs ms where "ranks_of ?latest = Inr rs"
      "ranks_of (filter (\<lambda>e. \<not> fe_infrastructure e) ?latest) = Inr ms"
    using ranks_of_known by blast
  then obtain b where "bucket_basis_of c = Inr b" by (simp add: bucket_basis_of_def Let_def)
  with sort_entries_known [OF known] show ?thesis by (simp add: context_buckets_def)
qed

lemma known_in_groups:
  assumes "context_ok c" "context_buckets c = Inr bs"
  shows "list_all (\<lambda>e. phase_rank (fe_phase e) \<noteq> None) (bk_current bs)"
    and "list_all (\<lambda>e. phase_rank (fe_phase e) \<noteq> None) (bk_resolved bs)"
proof -
  from context_buckets_Inr [OF assms(2)]
  have "set (bk_current bs) \<subseteq> set (rc_entries c)" "set (bk_resolved bs) \<subseteq> set (rc_entries c)"
    by blast+
  with assms(1) show "list_all (\<lambda>e. phase_rank (fe_phase e) \<noteq> None) (bk_current bs)"
    "list_all (\<lambda>e. phase_rank (fe_phase e) \<noteq> None) (bk_resolved bs)"
    by (auto simp: context_ok_def list_all_iff)
qed

lemma written_context_renders:
  assumes "context_ok c"
  shows "\<exists>t. format_for_prompt c = Inr t"
proof -
  obtain bs where bs: "context_buckets c = Inr bs" using context_buckets_known [OF assms] by blast
  obtain rs where "ranks_of (bk_current bs) = Inr rs"
    using ranks_of_known known_in_groups(1) [OF assms bs] by blast
  moreover obtain ss where "ranks_of (bk_resolved bs) = Inr ss"
    using ranks_of_known known_in_groups(2) [OF assms bs] by blast
  ultimately show ?thesis using bs by (simp add: format_for_prompt_def)
qed

section \<open>Transport\<close>

lemma read_record_dict [simp]: "read_record (record_dict r) = Inr r"
  by (cases "ir_error r") (simp_all add: read_record_def record_dict_def field_of_def field_or_def)

lemma read_entry_dict [simp]: "read_entry (entry_dict e) = Inr e"
  by (simp add: read_entry_def entry_dict_def field_of_def field_or_def)

lemma read_records_dicts:
  "read_records (map record_dict rs) c = Inr (c\<lparr>rc_records := rc_records c @ rs\<rparr>)"
  by (induction rs arbitrary: c) (simp_all add: add_iteration_def)

lemma read_entries_dicts:
  "read_entries (map entry_dict es) c = Inr (c\<lparr>rc_entries := rc_entries c @ es\<rparr>)"
  by (induction es arbitrary: c) simp_all

lemma read_readings_dicts:
  "list_all (\<lambda>r. phase_rank (snd r) \<noteq> None) rs \<Longrightarrow>
   read_readings (map reading_dict rs) c = Inr (c\<lparr>rc_readings := rc_readings c \<union> set rs\<rparr>)"
proof (induction rs arbitrary: c)
  case Nil
  then show ?case by simp
next
  case (Cons r rs)
  then show ?case
    by (auto simp: reading_dict_def field_of_def add_phase_reading_def require_known_phase_def)
qed

lemma context_roundtrip_ok:
  assumes "context_ok c"
  shows "context_from_json (context_to_json c) = Inr c"
proof -
  have fin: "finite (rc_readings c)" and known: "list_all (\<lambda>r. phase_rank (snd r) \<noteq> None) (sorted_list_of_set (rc_readings c))"
    using assms by (auto simp: context_ok_def list_all_iff)
  show ?thesis
    using fin
    by (simp add: context_from_json_def context_to_json_def field_or_def read_records_dicts
        read_readings_dicts [OF known] read_entries_dicts empty_context_def)
qed

text \<open>C23: A context the pipeline's writers built always renders into a prompt, and it reads back from the
  JSON text that carries it to the next attempt's process as itself: no attempt starts without the
  account of the attempts before it.\<close>

theorem context_survives_retry:
  assumes "context_ok c"
  shows "(\<exists>t. format_for_prompt c = Inr t) \<and> context_from_json (context_to_json c) = Inr c"
  using written_context_renders [OF assms] context_roundtrip_ok [OF assms] by blast

theorem context_survives_retry_witness:
  "(\<exists>t. format_for_prompt demo_context = Inr t) \<and>
   context_from_json (context_to_json demo_context) = Inr demo_context"
  by (rule context_survives_retry)
     (simp add: context_ok_def demo_context_def demo_entry_def phase_rank_def phase_ranks_def)

text \<open>A reader that accepts what no writer writes: an entry's phase is not checked on the way in, and
  the prompt then raises instead of rendering.\<close>

definition stray_phase_document :: json where
  "stray_phase_document =
     JObj [(''entries'', JList [JObj [(''attempt'', JInt 1), (''phase'', JStr ''lint''), (''text'', JStr ''x'')]])]"

lemma unknown_phase_breaks_prompt:
  "\<exists>c. context_from_json stray_phase_document = Inr c \<and> format_for_prompt c = Inl (Missing_Phase_Key ''lint'')"
proof -
  let ?c = "\<lparr>rc_records = [], rc_entries = [\<lparr>fe_attempt = 1, fe_phase = ''lint'', fe_text = ''x'',
      fe_infrastructure = False\<rparr>], rc_readings = {}\<rparr>"
  have "context_from_json stray_phase_document = Inr ?c"
    by (simp add: context_from_json_def stray_phase_document_def field_or_def field_of_def read_entry_def
        empty_context_def expired_keys_def)
  moreover have "format_for_prompt ?c = Inl (Missing_Phase_Key ''lint'')"
    by (simp add: format_for_prompt_def context_eval)
  ultimately show ?thesis by blast
qed

end
