(* ===== verification/Finding_Tags.thy ===== *)
theory Finding_Tags
  imports Findings
begin

text \<open>
  The constructors of \<open>Finding\<close> in \<open>kstrl/plan/findings.py\<close> that name a role's failure, a skipped
  phase, a trip of one of the two retry detectors or a reviewer's remark, and the attempt and model
  tags that the journal attributes a finding by.
\<close>

definition divergence_category :: string where "divergence_category = ''review_divergence''"

definition engineer_divergence_category :: string where "engineer_divergence_category = ''divergence''"

definition attempt_tag_prefix :: string where "attempt_tag_prefix = ''attempt:''"

definition model_tag_prefix :: string where "model_tag_prefix = ''model:''"

definition infrastructure_finding :: "string \<Rightarrow> string \<Rightarrow> finding" where
  "infrastructure_finding phase explanation =
     \<lparr>fi_phase = phase, fi_category = infrastructure_category, fi_severity = ''critical'',
      fi_location = [], fi_explanation = explanation, fi_suggestion = [], fi_owasp = [], fi_cwe = [],
      fi_tags = [''infrastructure'']\<rparr>"

definition divergence_finding :: "string \<Rightarrow> string \<Rightarrow> finding" where
  "divergence_finding explanation severity =
     \<lparr>fi_phase = ''review'', fi_category = divergence_category, fi_severity = severity,
      fi_location = [], fi_explanation = explanation, fi_suggestion = [], fi_owasp = [], fi_cwe = [],
      fi_tags = [''divergence'', ''phase:review'']\<rparr>"

definition not_converging_finding :: "string \<Rightarrow> finding" where
  "not_converging_finding explanation =
     \<lparr>fi_phase = ''engineer'', fi_category = engineer_divergence_category, fi_severity = ''fail'',
      fi_location = [], fi_explanation = explanation, fi_suggestion = [], fi_owasp = [], fi_cwe = [],
      fi_tags = [''divergence'', ''phase:engineer'']\<rparr>"

definition phase_skipped_finding :: "string \<Rightarrow> string \<Rightarrow> finding" where
  "phase_skipped_finding phase reason =
     \<lparr>fi_phase = phase, fi_category = phase_skipped_category, fi_severity = ''skipped'',
      fi_location = [], fi_explanation = reason, fi_suggestion = [], fi_owasp = [], fi_cwe = [],
      fi_tags = [''non_execution'', ''phase:'' @ phase]\<rparr>"

definition review_finding :: "string \<Rightarrow> string \<Rightarrow> string \<Rightarrow> string \<Rightarrow> string \<Rightarrow> finding" where
  "review_finding category severity location explanation suggestion =
     \<lparr>fi_phase = ''review'', fi_category = category, fi_severity = severity, fi_location = location,
      fi_explanation = explanation, fi_suggestion = suggestion, fi_owasp = [], fi_cwe = [],
      fi_tags = [''phase:review'', ''category:'' @ category]\<rparr>"

definition security_finding_row ::
    "string \<Rightarrow> string \<Rightarrow> string \<Rightarrow> string \<Rightarrow> string \<Rightarrow> string \<Rightarrow> string \<Rightarrow> finding" where
  "security_finding_row category severity location explanation suggestion owasp cwe =
     \<lparr>fi_phase = ''security'', fi_category = category, fi_severity = severity, fi_location = location,
      fi_explanation = explanation, fi_suggestion = suggestion, fi_owasp = owasp, fi_cwe = cwe,
      fi_tags = [''phase:security'', ''category:'' @ category] @
        (if owasp = [] then [] else [''owasp:'' @ owasp]) @ (if cwe = [] then [] else [''cwe:'' @ cwe])\<rparr>"

definition has_tag :: "string \<Rightarrow> finding \<Rightarrow> bool" where
  "has_tag p f = list_ex (\<lambda>t. startswith t p) (fi_tags f)"

definition tag_with_attempt :: "int \<Rightarrow> finding \<Rightarrow> finding" where
  "tag_with_attempt attempt f =
     (if has_tag attempt_tag_prefix f then f
      else f\<lparr>fi_tags := fi_tags f @ [attempt_tag_prefix @ int_text attempt]\<rparr>)"

definition tag_with_model :: "string \<Rightarrow> finding \<Rightarrow> finding" where
  "tag_with_model model f =
     (if model = [] then f
      else if has_tag model_tag_prefix f then f
      else f\<lparr>fi_tags := fi_tags f @ [model_tag_prefix @ model]\<rparr>)"

text \<open>The text after the prefix of the first tag that has it, \<open>None\<close> when there is none or it is empty.\<close>

definition tag_value :: "string \<Rightarrow> finding \<Rightarrow> string option" where
  "tag_value p f =
     (case find (\<lambda>t. startswith t p) (fi_tags f) of
        None \<Rightarrow> None
      | Some t \<Rightarrow> (if drop (length p) t = [] then None else Some (drop (length p) t)))"

definition finding_model :: "finding \<Rightarrow> string option" where
  "finding_model f = tag_value model_tag_prefix f"

section \<open>Tagging is idempotent\<close>

lemma has_tag_append [simp]: "has_tag p (f\<lparr>fi_tags := fi_tags f @ [p @ s]\<rparr>)"
  by (simp add: has_tag_def startswith_def)

lemma tag_with_attempt_once [simp]: "tag_with_attempt b (tag_with_attempt a f) = tag_with_attempt a f"
  by (simp add: tag_with_attempt_def)

lemma tag_with_model_once: "m \<noteq> [] \<Longrightarrow> tag_with_model n (tag_with_model m f) = tag_with_model m f"
  by (simp add: tag_with_model_def)

lemma tag_with_model_keeps [simp]:
  "fi_severity (tag_with_model m f) = fi_severity f" "fi_category (tag_with_model m f) = fi_category f"
  "fi_location (tag_with_model m f) = fi_location f"
  by (simp_all add: tag_with_model_def)

end
