(* ===== verification/Review.thy ===== *)
theory Review
  imports Append_Log Finding_Tags Prd
begin

text \<open>
  \<open>kstrl/review/review.py\<close>, \<open>kstrl/review/review_claims.py\<close>, \<open>kstrl/agents/agent_output.py\<close> and the
  diffstat comparison of \<open>kstrl/git/git_diff.py\<close>: how a reviewer's reply becomes a verdict on a
  component, and how the engineer's claims are held against it. The reviewer itself is outside:
  what it printed is an input. Not translated is what only the integration review reads from a
  refused reply (\<open>reply_unread\<close>, \<open>replaced\<close>).
\<close>

section \<open>The JSON of a reply\<close>

text \<open>\<open>re.findall\<close> of a fenced block: three backquotes, an optional \<open>json\<close>, white space ending in a
  newline, the shortest body up to a newline and three backquotes. \<open>before\<close> splits at the first
  occurrence.\<close>

definition backquotes :: string where "backquotes = replicate 3 (CHR 0x60)"

fun before :: "string \<Rightarrow> string \<Rightarrow> (string \<times> string) option" where
  "before p [] = (if p = [] then Some ([], []) else None)"
| "before p (c # s) =
     (if prefix p (c # s) then Some ([], drop (length p) (c # s))
      else map_option (\<lambda>(a, b). (c # a, b)) (before p s))"

text \<open>The white space is greedy, so its last newline is tried first.\<close>

function fence_body :: "string \<Rightarrow> string \<Rightarrow> (string \<times> string) option" where
  "fence_body ws rest =
     (if ws = [] then None
      else if last ws = newline
      then (case before (newline # backquotes) rest of
              Some r \<Rightarrow> Some r
            | None \<Rightarrow> fence_body (butlast ws) (last ws # rest))
      else fence_body (butlast ws) (last ws # rest))"
  by pat_completeness auto
termination by (relation "measure (length \<circ> fst)") auto

definition fence_open :: "string \<Rightarrow> (string \<times> string) option" where
  "fence_open s = fence_body (takeWhile is_space s) (dropWhile is_space s)"

definition fence_at :: "string \<Rightarrow> (string \<times> string) option" where
  "fence_at s =
     (if prefix backquotes s
      then
        (let s' = drop 3 s
         in case (if prefix ''json'' s' then fence_open (drop 4 s') else None) of
              Some r \<Rightarrow> Some r
            | None \<Rightarrow> fence_open s')
      else None)"

text \<open>Matches do not overlap: the search goes on after a match.\<close>

fun fenced_from :: "nat \<Rightarrow> string \<Rightarrow> string list" where
  "fenced_from 0 s = []"
| "fenced_from (Suc n) [] = []"
| "fenced_from (Suc n) (c # s) =
     (case fence_at (c # s) of
        Some (body, rest) \<Rightarrow> body # fenced_from n rest
      | None \<Rightarrow> fenced_from n s)"

definition fenced_blocks :: "string \<Rightarrow> string list" where
  "fenced_blocks s = fenced_from (length s) s"

text \<open>The first balanced braces.\<close>

fun balanced :: "int \<Rightarrow> string \<Rightarrow> string option" where
  "balanced d [] = None"
| "balanced d (c # s) =
     (if c = CHR ''{'' then map_option ((#) c) (balanced (d + 1) s)
      else if c = CHR ''}''
      then (if d - 1 = 0 then Some [c] else map_option ((#) c) (balanced (d - 1) s))
      else map_option ((#) c) (balanced d s))"

definition braced :: "string \<Rightarrow> string option" where
  "braced s = balanced 0 (dropWhile (\<lambda>c. c \<noteq> CHR ''{'') s)"

fun first_decoded :: "(string \<Rightarrow> json option) \<Rightarrow> string list \<Rightarrow> json option" where
  "first_decoded decode [] = None"
| "first_decoded decode (s # ss) =
     (case decode (strip s) of Some v \<Rightarrow> Some v | None \<Rightarrow> first_decoded decode ss)"

text \<open>\<open>decode\<close> is \<open>read_json\<close>, \<open>None\<close> for text that is no JSON document.\<close>

definition extract_json :: "(string \<Rightarrow> json option) \<Rightarrow> string \<Rightarrow> json option" where
  "extract_json decode s =
     (let stripped = strip s
      in case decode stripped of
           Some v \<Rightarrow> Some v
         | None \<Rightarrow>
             (case first_decoded decode (fenced_blocks stripped) of
                Some v \<Rightarrow> Some v
              | None \<Rightarrow> (case braced stripped of None \<Rightarrow> None | Some b \<Rightarrow> decode b)))"

definition max_agent_output :: nat where "max_agent_output = 5 * 1024 * 1024"

text \<open>The lines of an agent drained under the byte cap: \<open>Inl\<close> is the number of bytes and lines read
  when the cap was passed.\<close>

fun drain_output :: "nat \<Rightarrow> nat \<Rightarrow> string list \<Rightarrow> string list \<Rightarrow> nat \<times> nat + string list" where
  "drain_output cap count got [] = Inr got"
| "drain_output cap count got (l # ls) =
     (let count' = count + length l + 1
      in if count' > cap then Inl (count', length got + 1) else drain_output cap count' (got @ [l]) ls)"

text \<open>The final message when it holds JSON, the streamed text otherwise.\<close>

definition select_agent_output :: "(string \<Rightarrow> json option) \<Rightarrow> string option \<Rightarrow> string \<Rightarrow> string" where
  "select_agent_output decode final streamed =
     (case final of
        None \<Rightarrow> streamed
      | Some m \<Rightarrow> (if m \<noteq> [] \<and> extract_json decode m \<noteq> None then m else streamed))"

section \<open>The diffstat a reviewer reports\<close>

record diff_stat =
  ds_files :: int
  ds_insertions :: int
  ds_deletions :: int

definition stat_text :: "diff_stat \<Rightarrow> string" where
  "stat_text d =
     int_text (ds_files d) @ '' files, +'' @ int_text (ds_insertions d) @ ''/-'' @ int_text (ds_deletions d)"

definition reported_count :: "json_object \<Rightarrow> string \<Rightarrow> int option" where
  "reported_count ob k =
     (case map_of ob k of Some (JInt n) \<Rightarrow> (if n < 0 then None else Some n) | _ \<Rightarrow> None)"

definition parse_observed_diffstat :: "json option \<Rightarrow> diff_stat option" where
  "parse_observed_diffstat v =
     (case v of
        Some (JObj ob) \<Rightarrow>
          (case (reported_count ob ''files'', reported_count ob ''insertions'', reported_count ob ''deletions'') of
             (Some f, Some i, Some d) \<Rightarrow> Some \<lparr>ds_files = f, ds_insertions = i, ds_deletions = d\<rparr>
           | _ \<Rightarrow> None)
      | _ \<Rightarrow> None)"

text \<open>A numstat row holds no count for a binary file.\<close>

type_synonym numstat_row = "int option \<times> int option \<times> string"

definition count_of :: "int option \<Rightarrow> int" where
  "count_of n = (case n of None \<Rightarrow> 0 | Some k \<Rightarrow> k)"

definition diffstat_from_numstat :: "numstat_row list \<Rightarrow> diff_stat" where
  "diffstat_from_numstat rows =
     \<lparr>ds_files = int (length rows), ds_insertions = sum_list (map (\<lambda>r. count_of (fst r)) rows),
      ds_deletions = sum_list (map (\<lambda>r. count_of (fst (snd r))) rows)\<rparr>"

definition diffstat_disagreement :: "diff_stat option \<Rightarrow> diff_stat \<Rightarrow> string option" where
  "diffstat_disagreement claimed actual =
     (case claimed of
        None \<Rightarrow> Some ''the reviewer reported no diffstat, so nothing says it read the change''
      | Some c \<Rightarrow>
          (if c = actual then None
           else Some (''the reviewer reports it reviewed '' @ stat_text c @ '' but git reports '' @
                      stat_text actual @ '' for this change'')))"

definition coverage_suggestion :: string where
  "coverage_suggestion =
     ''Check that the reviewer can run git in the worktree and is reading '' @
     ''the same base ref the harness measures against.''"

definition coverage_marker_text :: "string \<Rightarrow> string \<Rightarrow> string" where
  "coverage_marker_text label disagreement =
     ''Unverified '' @ label @ '' coverage (#266): '' @ disagreement @ ''. '' @
     ''The findings below may not cover the whole change.''"

definition coverage_notes_prefix :: "string \<Rightarrow> string \<Rightarrow> string" where
  "coverage_notes_prefix label disagreement =
     ''Hard-mode '' @ label @ '' coverage unverified: '' @ disagreement @ '' (#266).''"

section \<open>A review\<close>

definition pass_verdict :: string where "pass_verdict = ''pass''"
definition fail_verdict :: string where "fail_verdict = ''fail''"
definition advisory_verdict :: string where "advisory_verdict = ''advisory''"

definition valid_verdicts :: "string list" where
  "valid_verdicts = [pass_verdict, fail_verdict, advisory_verdict]"

definition valid_concern_categories :: "string list" where
  "valid_concern_categories =
     [''scope_creep'', ''security_concern'', ''test_quality'', ''test_weakening'', ''unrelated_change'',
      ''dead_code'', ''error_handling'', ''copy_paste'', ''other'']"

definition valid_concern_severities :: "string list" where
  "valid_concern_severities = [fail_verdict, advisory_verdict]"

datatype review_mode = Review_Hard | Review_Advisory | Review_Skip

fun mode_value :: "review_mode \<Rightarrow> string" where
  "mode_value Review_Hard = ''hard''"
| "mode_value Review_Advisory = ''advisory''"
| "mode_value Review_Skip = ''skip''"

definition lower_text :: "string \<Rightarrow> string" where "lower_text s = map lower_char s"

definition normalize_story_id :: "string \<Rightarrow> string" where
  "normalize_story_id s = lower_text (strip s)"

record criterion_review =
  cr_criterion :: string
  cr_verdict :: string
  cr_explanation :: string
  cr_suggestion :: string
  cr_story_id :: string

record review_concern =
  cn_category :: string
  cn_severity :: string
  cn_location :: string
  cn_explanation :: string
  cn_suggestion :: string

record review_result =
  rv_passed :: bool
  rv_mode :: string
  rv_criteria :: "criterion_review list"
  rv_concerns :: "review_concern list"
  rv_notes :: string
  rv_raw :: string
  rv_exhaustive :: bool
  rv_infrastructure :: bool
  rv_observed :: "diff_stat option"
  rv_disagreement :: string
  rv_model :: string
  rv_dropped :: nat
  rv_concerns_not_list :: bool

definition bare_review :: "bool \<Rightarrow> string \<Rightarrow> review_result" where
  "bare_review passed mode =
     \<lparr>rv_passed = passed, rv_mode = mode, rv_criteria = [], rv_concerns = [], rv_notes = [], rv_raw = [],
      rv_exhaustive = False, rv_infrastructure = False, rv_observed = None, rv_disagreement = [],
      rv_model = [], rv_dropped = 0, rv_concerns_not_list = False\<rparr>"

definition coverage_refused :: "review_result \<Rightarrow> bool" where
  "coverage_refused r = (rv_disagreement r \<noteq> [] \<and> \<not> rv_passed r)"

definition criteria_with :: "string \<Rightarrow> review_result \<Rightarrow> criterion_review list" where
  "criteria_with v r = filter (\<lambda>c. cr_verdict c = v) (rv_criteria r)"

definition concerns_with :: "string \<Rightarrow> review_result \<Rightarrow> review_concern list" where
  "concerns_with v r = filter (\<lambda>c. cn_severity c = v) (rv_concerns r)"

definition fail_count :: "review_result \<Rightarrow> nat" where
  "fail_count r = length (criteria_with fail_verdict r) + length (concerns_with fail_verdict r)"

definition advisory_count :: "review_result \<Rightarrow> nat" where
  "advisory_count r = length (criteria_with advisory_verdict r) + length (concerns_with advisory_verdict r)"

definition quoted :: "string \<Rightarrow> string" where
  "quoted s = CHR 0x22 # s @ [CHR 0x22]"

definition suggestion_line :: "string \<Rightarrow> string \<Rightarrow> string list" where
  "suggestion_line lead s = (if s = [] then [] else [lead @ ''Suggestion: '' @ s])"

definition retry_criterion :: "criterion_review \<Rightarrow> string list" where
  "retry_criterion c =
     (if cr_verdict c = pass_verdict then []
      else [''- '' @ map upper_char (cr_verdict c) @ '': '' @ quoted (cr_criterion c),
            ''  Explanation: '' @ cr_explanation c] @ suggestion_line ''  '' (cr_suggestion c))"

definition retry_concern :: "review_concern \<Rightarrow> string list" where
  "retry_concern c =
     [''- '' @ map upper_char (cn_severity c) @ '' '' @ cn_category c @ '': '' @ cn_location c,
      ''  Explanation: '' @ cn_explanation c] @ suggestion_line ''  '' (cn_suggestion c)"

definition review_retry_context :: "review_result \<Rightarrow> string" where
  "review_retry_context r =
     join_with [newline]
       (concat (map retry_criterion (rv_criteria r)) @ concat (map retry_concern (rv_concerns r)) @
        (if rv_notes r = [] then [] else [''Overall: '' @ rv_notes r]))"

definition body_criterion :: "criterion_review \<Rightarrow> string list" where
  "body_criterion c =
     (''- ['' @ (if cr_verdict c = pass_verdict then ''pass'' else if cr_verdict c = fail_verdict then ''FAIL''
                else ''advisory'') @ ''] '' @ cr_criterion c) #
     (if cr_verdict c = pass_verdict then []
      else (''  - '' @ cr_explanation c) # suggestion_line ''  - '' (cr_suggestion c))"

definition body_concern :: "review_concern \<Rightarrow> string list" where
  "body_concern c =
     [''- ['' @ (if cn_severity c = fail_verdict then ''FAIL'' else ''advisory'') @ ''] **'' @ cn_category c @
        ''** at '' @ [CHR 0x60] @ cn_location c @ [CHR 0x60],
      ''  - '' @ cn_explanation c] @ suggestion_line ''  - '' (cn_suggestion c)"

definition review_body_section :: "review_result \<Rightarrow> string" where
  "review_body_section r =
     join_with [newline]
       ([''## Review Findings'', [],
         ''**'' @ nat_text (length (criteria_with pass_verdict r)) @ '' criteria passed, '' @
           nat_text (length (criteria_with fail_verdict r)) @ '' failed, '' @
           nat_text (length (criteria_with advisory_verdict r)) @ '' advisory; '' @
           nat_text (length (rv_concerns r)) @ '' additional concerns**''] @
        (if rv_model r = [] then [] else [[], ''**Reviewer model**: '' @ rv_model r]) @
        (if rv_disagreement r = [] then []
         else [[], ''**UNVERIFIED COVERAGE (#266): '' @ rv_disagreement r @ ''**'']) @
        [[]] @ concat (map body_criterion (rv_criteria r)) @
        (if rv_concerns r = [] then []
         else [[], ''### Reviewer concerns (beyond PRD)''] @ concat (map body_concern (rv_concerns r))) @
        (if rv_notes r = [] then [] else [[], ''**Notes**: '' @ rv_notes r]))"

section \<open>Verdicts per story\<close>

definition verdict_ranks :: "(string \<times> int) list" where
  "verdict_ranks = [(pass_verdict, 0), (advisory_verdict, 1), (fail_verdict, 2)]"

definition rank_verdict :: "int \<Rightarrow> string" where
  "rank_verdict n = (if n = 0 then pass_verdict else if n = 1 then advisory_verdict else fail_verdict)"

fun worst_verdicts :: "(string, int) dict \<Rightarrow> criterion_review list \<Rightarrow> (string, int) dict" where
  "worst_verdicts d [] = d"
| "worst_verdicts d (c # cs) =
     (let key = normalize_story_id (cr_story_id c)
      in case map_of verdict_ranks (cr_verdict c) of
           None \<Rightarrow> worst_verdicts d cs
         | Some rank \<Rightarrow>
             (if key = [] then worst_verdicts d cs
              else worst_verdicts
                (dict_set d key (case dict_get d key of None \<Rightarrow> rank | Some w \<Rightarrow> max w rank)) cs))"

definition story_verdict :: "review_result \<Rightarrow> string \<Rightarrow> string option" where
  "story_verdict r key = map_option rank_verdict (dict_get (worst_verdicts [] (rv_criteria r)) key)"

definition criteria_for :: "review_result \<Rightarrow> string \<Rightarrow> criterion_review list" where
  "criteria_for r sid =
     filter (\<lambda>c. normalize_story_id (cr_story_id c) = normalize_story_id sid) (rv_criteria r)"

definition judged_criterion_count :: "review_result \<Rightarrow> string \<Rightarrow> nat" where
  "judged_criterion_count r sid = card (cr_criterion ` set (criteria_for r sid))"

definition non_pass_criteria :: "review_result \<Rightarrow> string \<Rightarrow> criterion_review list" where
  "non_pass_criteria r sid = filter (\<lambda>c. cr_verdict c \<noteq> pass_verdict) (criteria_for r sid)"

definition criterion_findings :: "criterion_review \<Rightarrow> finding list" where
  "criterion_findings c =
     (if cr_verdict c = pass_verdict then []
      else [review_finding ''prd_criterion''
              (if cr_verdict c = fail_verdict then fail_verdict else advisory_verdict) []
              (cr_criterion c @ '': '' @ cr_explanation c) (cr_suggestion c)])"

definition concern_finding :: "review_concern \<Rightarrow> finding" where
  "concern_finding c =
     review_finding (cn_category c) (cn_severity c) (cn_location c) (cn_explanation c) (cn_suggestion c)"

definition review_findings :: "review_result \<Rightarrow> finding list" where
  "review_findings r =
     map (tag_with_model (rv_model r))
       ((if rv_infrastructure r
         then [infrastructure_finding ''review''
                 (if rv_notes r = [] then ''Reviewer agent did not produce parseable output'' else rv_notes r)]
         else []) @
        concat (map criterion_findings (rv_criteria r)) @ map concern_finding (rv_concerns r))"

section \<open>Reading a reply\<close>

text \<open>\<open>rn_rep\<close> is how Python prints a JSON value that is not a string, \<open>rn_repr\<close> is \<open>repr\<close> of a string,
  and \<open>rn_dump\<close> is the path \<open>dump_raw_debug\<close> wrote the raw reply to under a label, if it wrote one.\<close>

record reply_env =
  rn_decode :: "string \<Rightarrow> json option"
  rn_rep :: "json \<Rightarrow> string"
  rn_repr :: "string \<Rightarrow> string"
  rn_dump :: "string \<Rightarrow> string option"

fun json_type_name :: "json \<Rightarrow> string" where
  "json_type_name JNull = ''NoneType''"
| "json_type_name (JBool _) = ''bool''"
| "json_type_name (JInt _) = ''int''"
| "json_type_name (JFloat _) = ''float''"
| "json_type_name (JStr _) = ''str''"
| "json_type_name (JList _) = ''list''"
| "json_type_name (JObj _) = ''dict''"

definition with_dump :: "reply_env \<Rightarrow> string \<Rightarrow> string \<Rightarrow> string" where
  "with_dump env label notes =
     (case rn_dump env label of
        None \<Rightarrow> notes
      | Some path \<Rightarrow> (if path = [] then notes else notes @ '' [full raw output: '' @ path @ '']''))"

definition review_infra :: "reply_env \<Rightarrow> string \<Rightarrow> string \<Rightarrow> string \<Rightarrow> review_result" where
  "review_infra env raw notes label =
     (bare_review False [])\<lparr>rv_notes := with_dump env label notes, rv_raw := take 2000 raw,
                          rv_infrastructure := True\<rparr>"

text \<open>\<open>str(d.get(k, ""))\<close>\<close>

definition text_at :: "reply_env \<Rightarrow> json_object \<Rightarrow> string \<Rightarrow> string" where
  "text_at env d k = py_str (rn_rep env) (jget d k (JStr []))"

record review_scan =
  sn_criteria :: "criterion_review list"
  sn_covered :: "string list"
  sn_invalid :: "string list"

definition scan_criterion :: "reply_env \<Rightarrow> string \<Rightarrow> json \<Rightarrow> review_scan \<Rightarrow> review_scan" where
  "scan_criterion env sid v s =
     (case v of
        JObj d \<Rightarrow>
          (let verdict = lower_text (strip (text_at env d ''verdict''))
           in if verdict \<notin> set valid_verdicts
              then s\<lparr>sn_invalid := sn_invalid s @
                       [let shown = take 40 (text_at env d ''verdict'') in if shown = [] then ''<missing>'' else shown]\<rparr>
              else s\<lparr>sn_criteria := sn_criteria s @
                       [\<lparr>cr_criterion = text_at env d ''criterion'', cr_verdict = verdict,
                         cr_explanation = text_at env d ''explanation'',
                         cr_suggestion = text_at env d ''suggestion'', cr_story_id = sid\<rparr>],
                     sn_covered := sn_covered s @ (if sid = [] then [] else [normalize_story_id sid])\<rparr>)
      | _ \<Rightarrow> s)"

definition scan_story :: "reply_env \<Rightarrow> json \<Rightarrow> review_scan \<Rightarrow> review_scan" where
  "scan_story env v s =
     (case v of
        JObj d \<Rightarrow>
          (case jget d ''criteria'' (JList []) of
             JList cs \<Rightarrow> foldl (\<lambda>s c. scan_criterion env (strip (text_at env d ''storyId'')) c s) s cs
           | _ \<Rightarrow> s)
      | _ \<Rightarrow> s)"

definition scan_stories :: "reply_env \<Rightarrow> json list \<Rightarrow> review_scan" where
  "scan_stories env vs =
     foldl (\<lambda>s v. scan_story env v s) \<lparr>sn_criteria = [], sn_covered = [], sn_invalid = []\<rparr> vs"

definition read_concern :: "reply_env \<Rightarrow> json \<Rightarrow> review_concern option" where
  "read_concern env v =
     (case v of
        JObj d \<Rightarrow>
          (let category = strip (text_at env d ''category''); severity = strip (text_at env d ''severity'');
               explanation = strip (text_at env d ''explanation'')
           in if category \<notin> set valid_concern_categories then None
              else if severity \<notin> set valid_concern_severities then None
              else if explanation = [] then None
              else Some \<lparr>cn_category = category, cn_severity = severity,
                         cn_location = strip (text_at env d ''location''), cn_explanation = explanation,
                         cn_suggestion = text_at env d ''suggestion''\<rparr>)
      | _ \<Rightarrow> None)"

definition somes :: "'a option list \<Rightarrow> 'a list" where
  "somes xs = map the (filter (\<lambda>x. x \<noteq> None) xs)"

definition concern_list :: "json_object \<Rightarrow> json list" where
  "concern_list d = (case jget d ''concerns'' (JList []) of JList vs \<Rightarrow> vs | _ \<Rightarrow> [])"

definition missing_stories :: "string list option \<Rightarrow> review_scan \<Rightarrow> string list" where
  "missing_stories expected s =
     (case expected of
        None \<Rightarrow> []
      | Some ids \<Rightarrow> filter (\<lambda>i. normalize_story_id i \<notin> set (sn_covered s)) ids)"

definition review_of_object :: "reply_env \<Rightarrow> string \<Rightarrow> json_object \<Rightarrow> review_scan \<Rightarrow> review_result" where
  "review_of_object env raw d s =
     (let concerns = somes (map (read_concern env) (concern_list d))
      in (bare_review
            (\<not> (list_ex (\<lambda>c. cr_verdict c = fail_verdict) (sn_criteria s) \<or>
                list_ex (\<lambda>c. cn_severity c = fail_verdict) concerns)) [])
           \<lparr>rv_criteria := sn_criteria s, rv_concerns := concerns,
            rv_exhaustive := truthy (jget d ''exhaustively_searched'' (JBool False)),
            rv_observed := parse_observed_diffstat (map_of d ''observedDiffstat''),
            rv_notes := text_at env d ''overallNotes'', rv_raw := take 2000 raw,
            rv_dropped := length (concern_list d) - length concerns,
            rv_concerns_not_list := (case map_of d ''concerns'' of Some (JList _) \<Rightarrow> False | _ \<Rightarrow> True)\<rparr>)"

definition parse_review_output :: "reply_env \<Rightarrow> string \<Rightarrow> string list option \<Rightarrow> review_result" where
  "parse_review_output env raw expected =
     (case extract_json (rn_decode env) raw of
        None \<Rightarrow> review_infra env raw ''Failed to parse reviewer output as JSON'' ''no_json''
      | Some (JObj d) \<Rightarrow>
          (case jget d ''stories'' (JList []) of
             JList stories \<Rightarrow>
               (let s = scan_stories env stories; missing = missing_stories expected s
                in if sn_invalid s \<noteq> []
                   then review_infra env raw
                     (''Review output contained unrecognized verdicts: '' @
                      join_with '', '' (map (rn_repr env) (sn_invalid s)) @ '' (valid: pass/fail/advisory)'')
                     ''invalid_verdict''
                   else if missing \<noteq> []
                   then review_infra env raw
                     (''Review coverage incomplete: no verdict for story ids '' @ join_with '', '' missing @
                      '' (CRIT-5: a partial or empty review cannot pass)'') ''coverage_gap''
                   else review_of_object env raw d s)
           | _ \<Rightarrow> review_infra env raw ''Invalid review output: 'stories' is not an array'' ''stories_not_array'')
      | Some v \<Rightarrow> review_infra env raw
          (''Review output was not a JSON object (got '' @ json_type_name v @ '')'') ''non_dict_json'')"

definition apply_coverage_check :: "diff_stat \<Rightarrow> review_mode \<Rightarrow> review_result \<Rightarrow> review_result" where
  "apply_coverage_check actual mode r =
     (if rv_infrastructure r then r
      else case diffstat_disagreement (rv_observed r) actual of
             None \<Rightarrow> r
           | Some disagreement \<Rightarrow>
               (let r' = r\<lparr>rv_disagreement := disagreement,
                         rv_concerns := rv_concerns r @
                           [\<lparr>cn_category = ''other'', cn_severity = advisory_verdict, cn_location = [],
                             cn_explanation = coverage_marker_text ''review'' disagreement,
                             cn_suggestion = coverage_suggestion\<rparr>]\<rparr>
                in if mode \<noteq> Review_Hard then r'
                   else r'\<lparr>rv_passed := False, rv_infrastructure := True,
                           rv_notes := strip (coverage_notes_prefix ''review'' disagreement @ '' '' @ rv_notes r)\<rparr>))"

text \<open>What the reviewer's run gave: the measured diffstat, the story ids of the PRD and the reply, or
  how the run failed.\<close>

datatype reviewer_run =
    Output_Too_Large string
  | Reviewer_Failed string
  | Replied diff_stat "string list" string

definition downgrade_review :: "review_result \<Rightarrow> review_result" where
  "downgrade_review r =
     r\<lparr>rv_criteria := map (\<lambda>c. if cr_verdict c = fail_verdict then c\<lparr>cr_verdict := advisory_verdict\<rparr> else c)
                       (rv_criteria r),
       rv_concerns := map (\<lambda>c. if cn_severity c = fail_verdict then c\<lparr>cn_severity := advisory_verdict\<rparr> else c)
                       (rv_concerns r),
       rv_passed := True\<rparr>"

definition crashed_review :: "review_mode \<Rightarrow> string \<Rightarrow> string \<Rightarrow> review_result" where
  "crashed_review mode model notes =
     (bare_review (mode \<noteq> Review_Hard) (mode_value mode))
       \<lparr>rv_notes := notes, rv_infrastructure := True, rv_model := model\<rparr>"

definition run_review :: "reply_env \<Rightarrow> review_mode \<Rightarrow> string \<Rightarrow> reviewer_run \<Rightarrow> review_result" where
  "run_review env mode model run =
     (if mode = Review_Skip then bare_review True (mode_value mode)
      else case run of
             Output_Too_Large e \<Rightarrow> crashed_review mode model (''Reviewer agent output too large: '' @ e)
           | Reviewer_Failed e \<Rightarrow> crashed_review mode model (''Reviewer agent failed: '' @ e)
           | Replied actual ids raw \<Rightarrow>
               (let r = apply_coverage_check actual mode
                     ((parse_review_output env raw (Some ids))\<lparr>rv_mode := mode_value mode, rv_model := model\<rparr>)
                in if mode = Review_Advisory then downgrade_review r else r))"

section \<open>The engineer's claims\<close>

definition claim_reads :: "review_result \<Rightarrow> user_story \<Rightarrow> string \<times> string" where
  "claim_reads r story =
     (let judged = judged_criterion_count r (us_id story); expected = length (us_criteria story)
      in case story_verdict r (normalize_story_id (us_id story)) of
           None \<Rightarrow> (''not covered'', [])
         | Some v \<Rightarrow>
             (if v \<noteq> pass_verdict then (v, [])
              else (''pass on only '' @ nat_text judged @ '' of '' @ nat_text expected @ '' acceptance criteria'',
                    ''The reviewer returned '' @ nat_text judged @ '' verdict(s) for '' @ nat_text expected @
                    '' acceptance criteria, so the story is '' @ ''unconfirmed rather than judged unmet.'')))"

definition claim_confirmed :: "review_result \<Rightarrow> user_story \<Rightarrow> bool" where
  "claim_confirmed r story =
     (story_verdict r (normalize_story_id (us_id story)) = Some pass_verdict \<and>
      length (us_criteria story) \<le> judged_criterion_count r (us_id story))"

definition claim_finding :: "review_result \<Rightarrow> string \<Rightarrow> user_story \<Rightarrow> finding" where
  "claim_finding r severity story =
     (let unmet = join_with ''; '' (map cr_criterion (non_pass_criteria r (us_id story)))
      in review_finding claim_disagreement_category severity (us_id story)
           (''Story '' @ us_id story @ '' is marked passes=true by the engineer '' @
            ''but the reviewer's verdict is '' @ fst (claim_reads r story))
           (if unmet = [] then snd (claim_reads r story) else unmet))"

definition claim_disagreements :: "prd \<Rightarrow> review_result \<Rightarrow> string \<Rightarrow> finding list" where
  "claim_disagreements p r severity =
     (if rv_infrastructure r then []
      else map (\<lambda>story. tag_with_model (rv_model r) (claim_finding r severity story))
             (filter (\<lambda>story. us_passes story \<and> \<not> claim_confirmed r story) (pd_stories p)))"

definition first_unmet :: "review_result \<Rightarrow> string \<Rightarrow> string" where
  "first_unmet r sid =
     (case non_pass_criteria r sid of [] \<Rightarrow> ''story not covered by review'' | c # _ \<Rightarrow> cr_criterion c)"

definition revert_story :: "review_result \<Rightarrow> int \<Rightarrow> user_story \<Rightarrow> user_story" where
  "revert_story r attempt story =
     (let note = ''reverted by reviewer (attempt '' @ int_text attempt @ ''): '' @ first_unmet r (us_id story)
      in story\<lparr>us_passes := False,
               us_notes := (if us_notes story = [] then note else us_notes story @ [newline] @ note)\<rparr>)"

definition wanted_ids :: "finding list \<Rightarrow> string list" where
  "wanted_ids ds = map normalize_story_id (filter (\<lambda>i. i \<noteq> []) (map fi_location ds))"

definition revert_unconfirmed_stories ::
    "review_result \<Rightarrow> finding list \<Rightarrow> int \<Rightarrow> prd \<Rightarrow> prd \<times> string list" where
  "revert_unconfirmed_stories r ds attempt p =
     (let hit = (\<lambda>story. normalize_story_id (us_id story) \<in> set (wanted_ids ds))
      in (p\<lparr>pd_stories := map (\<lambda>story. if hit story then revert_story r attempt story else story) (pd_stories p)\<rparr>,
          map us_id (filter hit (pd_stories p))))"

definition claim_blocks :: "string \<Rightarrow> int \<Rightarrow> bool" where
  "claim_blocks claim_agreement level = (claim_agreement = ''block'' \<or> level \<ge> 1)"

definition claim_detail :: "criterion_review \<Rightarrow> string list" where
  "claim_detail c =
     (''  - ['' @ cr_verdict c @ ''] '' @ cr_criterion c) #
     (if cr_explanation c = [] then [] else [''    - Reviewer: '' @ cr_explanation c]) @
     suggestion_line ''    - '' (cr_suggestion c)"

definition claim_lines_for_finding :: "review_result \<Rightarrow> finding \<Rightarrow> string list" where
  "claim_lines_for_finding r f =
     (let judged = criteria_for r (fi_location f); unmet = filter (\<lambda>c. cr_verdict c \<noteq> pass_verdict) judged
      in (''- '' @ fi_explanation f) #
         (if unmet = []
          then [if judged \<noteq> []
                then ''  - Every criterion the reviewer judged passed, but it '' @
                     ''did not judge them all. Nothing here says the story is '' @
                     ''wrong; it says the story is unconfirmed.''
                else ''  - The reviewer returned no verdict for this story, so '' @
                     ''there is no criterion-level evidence to act on. Check '' @
                     ''the story against its acceptance criteria yourself.'']
          else concat (map claim_detail unmet)))"

definition claim_retry_context :: "finding list \<Rightarrow> review_result \<Rightarrow> bool \<Rightarrow> string" where
  "claim_retry_context ds r reverted =
     (if ds = [] then []
      else join_with [newline]
        ((''Set-point disagreement: you marked the stories below done, but '' @
          ''the reviewer did not confirm them. '' @
          (if reverted then ''Their `passes` flags have been reset to false in the PRD.''
           else ''Their `passes` flags could NOT be reset automatically: set each '' @
                ''one back to false yourself before doing anything else.'') @
          '' Implement each one '' @ ''properly and set the flag again only once its acceptance '' @
          ''criteria are genuinely met.'') # concat (map (claim_lines_for_finding r) ds)))"

end
