(* ===== verification/Review_Contract.thy ===== *)
theory Review_Contract
  imports Review
begin

text \<open>
  What a review promises. In hard mode it passes only on a reply that judged every story of the PRD,
  failed nothing, and reported the diffstat git measured; no claim of the engineer survives a review
  that did not confirm it.
\<close>

section \<open>Scanning the stories\<close>

definition covers :: "criterion_review list \<Rightarrow> string \<Rightarrow> bool" where
  "covers cs key \<longleftrightarrow> list_ex (\<lambda>c. normalize_story_id (cr_story_id c) = key) cs"

definition scan_ok :: "review_scan \<Rightarrow> bool" where
  "scan_ok s \<longleftrightarrow>
     list_all (covers (sn_criteria s)) (sn_covered s) \<and>
     list_all (\<lambda>c. cr_verdict c \<in> set valid_verdicts) (sn_criteria s)"

lemma covers_append: "covers cs k \<Longrightarrow> covers (cs @ ds) k"
  by (simp add: covers_def)

lemma scan_criterion_ok:
  assumes "scan_ok s"
  shows "scan_ok (scan_criterion env sid v s)"
proof (cases v)
  case (JObj d)
  let ?v = "lower_text (strip (text_at env d ''verdict''))"
  show ?thesis
  proof (cases "?v \<in> set valid_verdicts")
    case False
    with assms JObj show ?thesis by (simp add: scan_criterion_def scan_ok_def Let_def)
  next
    case True
    have "list_all (covers (sn_criteria s @ [c])) (sn_covered s)" for c
      using assms covers_append by (auto simp: scan_ok_def list_all_iff)
    with True assms JObj show ?thesis
      by (auto simp: scan_criterion_def scan_ok_def Let_def covers_def)
  qed
qed (use assms in \<open>simp_all add: scan_criterion_def\<close>)

lemma scan_criteria_ok: "scan_ok s \<Longrightarrow> scan_ok (foldl (\<lambda>s c. scan_criterion env sid c s) s cs)"
  by (induction cs arbitrary: s) (simp_all add: scan_criterion_ok)

lemma scan_story_ok: "scan_ok s \<Longrightarrow> scan_ok (scan_story env v s)"
  by (simp add: scan_story_def scan_criteria_ok split: json.split)

lemma scan_stories_fold_ok: "scan_ok s \<Longrightarrow> scan_ok (foldl (\<lambda>s v. scan_story env v s) s vs)"
  by (induction vs arbitrary: s) (simp_all add: scan_story_ok)

lemma scan_stories_ok: "scan_ok (scan_stories env vs)"
  unfolding scan_stories_def by (rule scan_stories_fold_ok) (simp add: scan_ok_def)

section \<open>A passing reply\<close>

lemma review_infra_fails [simp]: "\<not> rv_passed (review_infra env raw notes label)"
  by (simp add: review_infra_def bare_review_def)

lemma fail_count_0:
  "fail_count r = 0 \<longleftrightarrow>
     \<not> list_ex (\<lambda>c. cr_verdict c = fail_verdict) (rv_criteria r) \<and>
     \<not> list_ex (\<lambda>c. cn_severity c = fail_verdict) (rv_concerns r)"
  by (simp add: fail_count_def criteria_with_def concerns_with_def filter_empty_conv list_ex_iff)

text \<open>What the parser passes: no failure, no refusal, and a verdict for every story asked for.\<close>

lemma parse_passed:
  assumes "rv_passed (parse_review_output env raw (Some ids))"
  shows "fail_count (parse_review_output env raw (Some ids)) = 0"
    and "\<not> rv_infrastructure (parse_review_output env raw (Some ids))"
    and "rv_disagreement (parse_review_output env raw (Some ids)) = []"
    and "list_all (\<lambda>i. covers (rv_criteria (parse_review_output env raw (Some ids))) (normalize_story_id i)) ids"
proof -
  from assms obtain d stories where
    d: "extract_json (rn_decode env) raw = Some (JObj d)" "jget d ''stories'' (JList []) = JList stories"
    by (auto simp: parse_review_output_def split: option.splits json.splits)
  let ?s = "scan_stories env stories"
  from assms d have ok: "sn_invalid ?s = []" "missing_stories (Some ids) ?s = []"
    by (auto simp: parse_review_output_def Let_def split: if_splits)
  with d have parsed: "parse_review_output env raw (Some ids) = review_of_object env raw d ?s"
    by (simp add: parse_review_output_def Let_def)
  from assms parsed have passed: "rv_passed (review_of_object env raw d ?s)" by simp
  then have none: "\<not> list_ex (\<lambda>c. cr_verdict c = fail_verdict) (rv_criteria (review_of_object env raw d ?s))"
    "\<not> list_ex (\<lambda>c. cn_severity c = fail_verdict) (rv_concerns (review_of_object env raw d ?s))"
    by (simp_all add: review_of_object_def bare_review_def Let_def)
  then show "fail_count (parse_review_output env raw (Some ids)) = 0"
    unfolding parsed fail_count_0 by blast
  show "\<not> rv_infrastructure (parse_review_output env raw (Some ids))"
    "rv_disagreement (parse_review_output env raw (Some ids)) = []"
    unfolding parsed by (simp_all add: review_of_object_def bare_review_def Let_def)
  have "rv_criteria (review_of_object env raw d ?s) = sn_criteria ?s"
    by (simp add: review_of_object_def bare_review_def Let_def)
  moreover have "list_all (\<lambda>i. covers (sn_criteria ?s) (normalize_story_id i)) ids"
    using ok(2) scan_stories_ok [of env stories]
    by (auto simp: missing_stories_def scan_ok_def list_all_iff filter_empty_conv)
  ultimately show "list_all (\<lambda>i. covers (rv_criteria (parse_review_output env raw (Some ids)))
      (normalize_story_id i)) ids"
    unfolding parsed by simp
qed

lemma hard_coverage_passed:
  assumes "rv_passed (apply_coverage_check actual Review_Hard r)" and "\<not> rv_infrastructure r"
  shows "apply_coverage_check actual Review_Hard r = r" and "rv_observed r = Some actual"
  using assms
  by (auto simp: apply_coverage_check_def diffstat_disagreement_def Let_def split: option.splits if_splits)

lemma infra_never_covered: "rv_infrastructure r \<Longrightarrow> apply_coverage_check actual mode r = r"
  by (simp add: apply_coverage_check_def)

lemma fail_count_stamp [simp]: "fail_count (r\<lparr>rv_mode := m, rv_model := n\<rparr>) = fail_count r"
  by (simp add: fail_count_def criteria_with_def concerns_with_def)

lemma parse_infra_fails:
  "rv_infrastructure (parse_review_output env raw e) \<Longrightarrow> \<not> rv_passed (parse_review_output env raw e)"
  by (auto simp: parse_review_output_def Let_def review_of_object_def bare_review_def split: option.splits json.splits if_splits)

lemma hard_review_lemma:
  assumes "rv_passed (run_review env Review_Hard model run)"
  shows "\<exists>actual ids raw. run = Replied actual ids raw \<and>
           rv_observed (run_review env Review_Hard model run) = Some actual \<and>
           list_all (\<lambda>i. covers (rv_criteria (run_review env Review_Hard model run)) (normalize_story_id i)) ids"
    and "fail_count (run_review env Review_Hard model run) = 0"
    and "\<not> rv_infrastructure (run_review env Review_Hard model run)"
    and "rv_disagreement (run_review env Review_Hard model run) = []"
proof -
  obtain actual ids raw where run: "run = Replied actual ids raw"
    using assms by (cases run) (auto simp: run_review_def crashed_review_def bare_review_def)
  let ?p = "parse_review_output env raw (Some ids)"
  let ?r = "?p\<lparr>rv_mode := mode_value Review_Hard, rv_model := model\<rparr>"
  have eq: "run_review env Review_Hard model run = apply_coverage_check actual Review_Hard ?r"
    by (simp add: run_review_def run Let_def)
  have no_infra: "\<not> rv_infrastructure ?r"
  proof
    assume "rv_infrastructure ?r"
    moreover from this have "rv_passed ?p" using assms eq infra_never_covered [of ?r] by simp
    ultimately show False using parse_infra_fails by auto
  qed
  from hard_coverage_passed [OF _ no_infra] assms eq
  have same: "run_review env Review_Hard model run = ?r" and seen: "rv_observed ?r = Some actual" by auto
  have passed: "rv_passed ?p" using assms same by simp
  note facts = parse_passed [OF passed]
  show "fail_count (run_review env Review_Hard model run) = 0"
    "\<not> rv_infrastructure (run_review env Review_Hard model run)"
    "rv_disagreement (run_review env Review_Hard model run) = []"
    unfolding same using facts by simp_all
  show "\<exists>actual ids raw. run = Replied actual ids raw \<and>
      rv_observed (run_review env Review_Hard model run) = Some actual \<and>
      list_all (\<lambda>i. covers (rv_criteria (run_review env Review_Hard model run)) (normalize_story_id i)) ids"
    unfolding same using run seen facts(4) by simp
qed

text \<open>C14: In hard mode a review passes only when the reviewer's run gave a reply, the reply judged every
  story of the PRD, neither a criterion nor a concern of it failed, and the diffstat it reports is
  the one git measured: a crash, an unreadable or partial reply, and a reply about another change
  all fail the component.\<close>

theorem hard_review_passes_only_if_read:
  assumes "rv_passed (run_review env Review_Hard model run)"
  shows "(\<exists>actual ids raw. run = Replied actual ids raw \<and>
           rv_observed (run_review env Review_Hard model run) = Some actual \<and>
           list_all (\<lambda>i. covers (rv_criteria (run_review env Review_Hard model run)) (normalize_story_id i)) ids)
    \<and> fail_count (run_review env Review_Hard model run) = 0
    \<and> \<not> rv_infrastructure (run_review env Review_Hard model run)
    \<and> rv_disagreement (run_review env Review_Hard model run) = []"
  using hard_review_lemma [OF assms] by blast

definition demo_reply :: json where
  "demo_reply =
     JObj [(''observedDiffstat'', JObj [(''files'', JInt 1), (''insertions'', JInt 2), (''deletions'', JInt 0)]),
           (''stories'', JList [JObj [(''storyId'', JStr ''u1''),
              (''criteria'', JList [JObj [(''criterion'', JStr ''a''), (''verdict'', JStr ''PASS'')]])]]),
           (''concerns'', JList [])]"

definition demo_reply_env :: "json \<Rightarrow> reply_env" where
  "demo_reply_env v =
     \<lparr>rn_decode = (\<lambda>_. Some v), rn_rep = (\<lambda>_. []), rn_repr = (\<lambda>s. s), rn_dump = (\<lambda>_. None)\<rparr>"

definition demo_diff_stat :: diff_stat where
  "demo_diff_stat = \<lparr>ds_files = 1, ds_insertions = 2, ds_deletions = 0\<rparr>"

theorem hard_review_passes_only_if_read_witness:
  "fail_count (run_review (demo_reply_env demo_reply) Review_Hard ''m'' (Replied demo_diff_stat [''U1''] [])) = 0"
proof -
  have "rv_passed (run_review (demo_reply_env demo_reply) Review_Hard ''m'' (Replied demo_diff_stat [''U1''] []))"
    by code_simp
  from hard_review_passes_only_if_read [OF this] show ?thesis by blast
qed

text \<open>An advisory review never blocks, whatever the reviewer did.\<close>

lemma advisory_review_passes: "rv_passed (run_review env Review_Advisory model run)"
  by (cases run) (simp_all add: run_review_def crashed_review_def bare_review_def downgrade_review_def Let_def)

section \<open>Claims\<close>

lemma worst_verdicts_get:
  "dict_get (worst_verdicts d cs) k =
     (let ranks = somes (map (\<lambda>c. if normalize_story_id (cr_story_id c) = k \<and> k \<noteq> []
                                  then map_of verdict_ranks (cr_verdict c) else None) cs)
      in foldl (\<lambda>w r. Some (case w of None \<Rightarrow> r | Some v \<Rightarrow> max v r)) (dict_get d k) ranks)"
proof (induction cs arbitrary: d)
  case Nil
  then show ?case by (simp add: somes_def)
next
  case (Cons c cs)
  then show ?case
    by (auto simp: somes_def Let_def dict_simps split: option.splits)
qed

lemma fold_worst:
  "foldl (\<lambda>w r. Some (case w of None \<Rightarrow> r | Some v \<Rightarrow> max v r)) (Some n) rs = Some (0 :: int) \<Longrightarrow>
   n \<le> 0 \<and> (\<forall>r \<in> set rs. r \<le> 0)"
proof (induction rs arbitrary: n)
  case Nil
  then show ?case by simp
next
  case (Cons r rs)
  from Cons.IH [of "max n r"] Cons.prems show ?case by simp
qed

lemma worst_zero:
  assumes "foldl (\<lambda>w r. Some (case w of None \<Rightarrow> r | Some v \<Rightarrow> max v r)) None rs = Some (0 :: int)"
  shows "rs \<noteq> [] \<and> (\<forall>r \<in> set rs. r \<le> 0)"
proof (cases rs)
  case Nil
  with assms show ?thesis by simp
next
  case (Cons r rest)
  with assms fold_worst [of r rest] show ?thesis by simp
qed

lemma somes_set: "set (somes xs) = {x. Some x \<in> set xs}"
  by (force simp: somes_def image_iff)

lemma rank_pass: "rank_verdict n = pass_verdict \<longleftrightarrow> n = 0"
  by (simp add: rank_verdict_def pass_verdict_def advisory_verdict_def fail_verdict_def)

lemma ranks_nonneg: "map_of verdict_ranks v = Some n \<Longrightarrow> n \<le> 0 \<Longrightarrow> v = pass_verdict"
  by (auto simp: verdict_ranks_def split: if_splits)

lemma ranks_valid: "v \<in> set valid_verdicts \<Longrightarrow> \<exists>n. map_of verdict_ranks v = Some n"
  by (auto simp: verdict_ranks_def valid_verdicts_def)

text \<open>A story whose verdict is pass was judged, and no recognised verdict on it is anything else.\<close>

lemma story_verdict_pass:
  assumes "story_verdict r (normalize_story_id sid) = Some pass_verdict"
  shows "criteria_for r sid \<noteq> []"
    and "list_all (\<lambda>c. cr_verdict c \<in> set valid_verdicts \<longrightarrow> cr_verdict c = pass_verdict) (criteria_for r sid)"
proof -
  let ?k = "normalize_story_id sid"
  let ?ranks = "somes (map (\<lambda>c. if normalize_story_id (cr_story_id c) = ?k \<and> ?k \<noteq> []
                                then map_of verdict_ranks (cr_verdict c) else None) (rv_criteria r))"
  from assms have "dict_get (worst_verdicts [] (rv_criteria r)) ?k = Some 0"
    by (auto simp: story_verdict_def rank_pass)
  then have "foldl (\<lambda>w r. Some (case w of None \<Rightarrow> r | Some v \<Rightarrow> max v r)) None ?ranks = Some 0"
    by (simp add: worst_verdicts_get Let_def)
  from worst_zero [OF this] have ne: "?ranks \<noteq> []" and le: "\<forall>n \<in> set ?ranks. n \<le> 0" by blast+
  from ne obtain n where n: "n \<in> set ?ranks" by (cases ?ranks) auto
  then obtain c where c: "c \<in> set (rv_criteria r)" "normalize_story_id (cr_story_id c) = ?k" "?k \<noteq> []"
    by (auto simp: somes_set split: if_splits)
  then show "criteria_for r sid \<noteq> []" by (auto simp: criteria_for_def filter_empty_conv)
  have "cr_verdict x = pass_verdict"
    if x: "x \<in> set (criteria_for r sid)" "cr_verdict x \<in> set valid_verdicts" for x
  proof -
    from ranks_valid [OF x(2)] obtain m where m: "map_of verdict_ranks (cr_verdict x) = Some m" by blast
    have "Some m = (if normalize_story_id (cr_story_id x) = ?k \<and> ?k \<noteq> []
        then map_of verdict_ranks (cr_verdict x) else None)" "x \<in> set (rv_criteria r)"
      using m x(1) c(3) by (auto simp: criteria_for_def)
    then have "m \<in> set ?ranks" by (auto simp: somes_set image_iff)
    with le ranks_nonneg [OF m] show ?thesis by blast
  qed
  then show "list_all (\<lambda>c. cr_verdict c \<in> set valid_verdicts \<longrightarrow> cr_verdict c = pass_verdict) (criteria_for r sid)"
    by (auto simp: list_all_iff)
qed

text \<open>What confirms a claim.\<close>

definition judged_done :: "review_result \<Rightarrow> user_story \<Rightarrow> bool" where
  "judged_done r story \<longleftrightarrow>
     criteria_for r (us_id story) \<noteq> [] \<and>
     list_all (\<lambda>c. cr_verdict c = pass_verdict \<or> cr_verdict c \<notin> set valid_verdicts) (criteria_for r (us_id story)) \<and>
     length (us_criteria story) \<le> judged_criterion_count r (us_id story)"

lemma confirmed_judged_done: "claim_confirmed r story \<Longrightarrow> judged_done r story"
  using story_verdict_pass [of r "us_id story"]
  by (auto simp: claim_confirmed_def judged_done_def list_all_iff)

lemma review_finding_location [simp]: "fi_location (review_finding c s l e g) = l"
  by (simp add: review_finding_def)

lemma disagreement_ids:
  "\<not> rv_infrastructure r \<Longrightarrow>
   map fi_location (claim_disagreements p r severity) =
   map us_id (filter (\<lambda>story. us_passes story \<and> \<not> claim_confirmed r story) (pd_stories p))"
  by (simp add: claim_disagreements_def claim_finding_def Let_def comp_def)

lemma unconfirmed_wanted:
  assumes "\<not> rv_infrastructure r" "story \<in> set (pd_stories p)" "us_passes story" "\<not> claim_confirmed r story"
    "us_id story \<noteq> []"
  shows "normalize_story_id (us_id story) \<in> set (wanted_ids (claim_disagreements p r severity))"
proof -
  have "us_id story \<in> set (map fi_location (claim_disagreements p r severity))"
    unfolding disagreement_ids [OF assms(1)] using assms by auto
  with assms(5) show ?thesis by (force simp: wanted_ids_def)
qed

lemma revert_story_facts [simp]:
  "\<not> us_passes (revert_story r a story)" "us_id (revert_story r a story) = us_id story"
  "us_criteria (revert_story r a story) = us_criteria story"
  by (simp_all add: revert_story_def Let_def)

text \<open>C16: After the claims a review did not confirm have been taken back, every story the PRD still marks
  done was judged by the reviewer, passed on every criterion it judged, and judged on at least as
  many criteria as the story has. A story keeps its place, id and criteria, and none is newly marked
  done.\<close>

theorem claims_left_are_confirmed:
  assumes "\<not> rv_infrastructure r" and "list_all (\<lambda>story. us_id story \<noteq> []) (pd_stories p)"
  shows "list_all (\<lambda>story. \<not> us_passes story \<or> judged_done r story)
           (pd_stories (fst (revert_unconfirmed_stories r (claim_disagreements p r severity) attempt p)))
    \<and> list_all2 (\<lambda>old new. us_id new = us_id old \<and> us_criteria new = us_criteria old \<and>
                          (us_passes old \<or> \<not> us_passes new))
        (pd_stories p)
        (pd_stories (fst (revert_unconfirmed_stories r (claim_disagreements p r severity) attempt p)))"
proof -
  let ?hit = "\<lambda>story. normalize_story_id (us_id story) \<in> set (wanted_ids (claim_disagreements p r severity))"
  define step where "step = (\<lambda>story. if ?hit story then revert_story r attempt story else story)"
  have out: "pd_stories (fst (revert_unconfirmed_stories r (claim_disagreements p r severity) attempt p)) =
      map step (pd_stories p)"
    by (simp add: revert_unconfirmed_stories_def Let_def step_def)
  have one: "\<not> us_passes (step story) \<or> judged_done r (step story)" if "story \<in> set (pd_stories p)" for story
    using unconfirmed_wanted [OF assms(1) that] confirmed_judged_done assms(2) that
    by (cases "?hit story") (auto simp: list_all_iff step_def)
  have two: "us_id (step story) = us_id story \<and> us_criteria (step story) = us_criteria story \<and>
      (us_passes story \<or> \<not> us_passes (step story))" for story
    by (cases "?hit story") (auto simp: step_def)
  have "list_all (\<lambda>story. \<not> us_passes story \<or> judged_done r story) (map step (pd_stories p))"
    using one by (simp add: list_all_iff)
  moreover have "list_all2 (\<lambda>old new. us_id new = us_id old \<and> us_criteria new = us_criteria old \<and>
      (us_passes old \<or> \<not> us_passes new)) (pd_stories p) (map step (pd_stories p))"
    using two by (simp add: list_all2_map2 list_all2_same)
  ultimately show ?thesis unfolding out by blast
qed

definition demo_claim :: "bool \<Rightarrow> string \<Rightarrow> user_story" where
  "demo_claim done sid =
     \<lparr>us_id = sid, us_title = [], us_criteria = [''a''], us_priority = JInt 1, us_passes = done, us_notes = []\<rparr>"

definition demo_claims :: prd where
  "demo_claims =
     \<lparr>pd_branch_name = ''b'', pd_stories = [demo_claim True ''u1'', demo_claim True ''u2''],
      pd_allowed_paths = None, pd_spec_issues = None\<rparr>"

definition demo_partial_review :: review_result where
  "demo_partial_review =
     (bare_review True ''hard'')\<lparr>rv_criteria :=
        [\<lparr>cr_criterion = ''a'', cr_verdict = pass_verdict, cr_explanation = [], cr_suggestion = [],
          cr_story_id = ''U1''\<rparr>]\<rparr>"

theorem claims_left_are_confirmed_witness:
  "list_all (\<lambda>story. \<not> us_passes story \<or> judged_done demo_partial_review story)
     (pd_stories (fst (revert_unconfirmed_stories demo_partial_review
        (claim_disagreements demo_claims demo_partial_review ''fail'') 1 demo_claims)))"
proof -
  have "\<not> rv_infrastructure demo_partial_review"
    "list_all (\<lambda>story. us_id story \<noteq> []) (pd_stories demo_claims)"
    by (simp_all add: demo_partial_review_def bare_review_def demo_claims_def demo_claim_def)
  from claims_left_are_confirmed [OF this] show ?thesis by blast
qed

text \<open>The review above confirms the first claim and never looked at the second.\<close>

lemma demo_claims_outcome:
  "map us_passes (pd_stories (fst (revert_unconfirmed_stories demo_partial_review
     (claim_disagreements demo_claims demo_partial_review ''fail'') 1 demo_claims))) = [True, False]"
  by code_simp

text \<open>A story with an empty id is never taken back: its disagreement names the empty location, which the
  revert ignores.\<close>

definition demo_blank_claim :: prd where
  "demo_blank_claim = demo_claims\<lparr>pd_stories := [demo_claim True []]\<rparr>"

lemma blank_story_keeps_claim:
  "length (claim_disagreements demo_blank_claim demo_partial_review ''fail'') = 1 \<and>
   map us_passes (pd_stories (fst (revert_unconfirmed_stories demo_partial_review
     (claim_disagreements demo_blank_claim demo_partial_review ''fail'') 1 demo_blank_claim))) = [True]"
  by code_simp

text \<open>The verdict of a criterion is read in any case, the severity of a concern is not: a failing concern
  spelled in capitals is dropped, and the review passes.\<close>

definition demo_shouted_concern :: json where
  "demo_shouted_concern =
     JObj [(''observedDiffstat'', JObj [(''files'', JInt 1), (''insertions'', JInt 2), (''deletions'', JInt 0)]),
           (''stories'', JList []),
           (''concerns'', JList [JObj [(''category'', JStr ''security_concern''), (''severity'', JStr ''FAIL''),
              (''explanation'', JStr ''x'')]])]"

lemma shouted_concern_passes:
  "rv_passed (run_review (demo_reply_env demo_shouted_concern) Review_Hard ''m'' (Replied demo_diff_stat [] []))"
  by code_simp

end
