(* ===== verification/Security.thy ===== *)
theory Security
  imports Review
begin

text \<open>
  \<open>kstrl/review/security.py\<close>: the security review's configuration check, the reading of its reply, and
  its verdict against the configured threshold. An unknown severity or threshold raises a
  \<open>KeyError\<close>, which is \<open>None\<close> here. The prompt and the agent's run are outside.
\<close>

section \<open>Vocabulary\<close>

definition security_category_map :: "(string \<times> string \<times> string) list" where
  "security_category_map =
     [(''injection'', ''A03:2021'', ''CWE-89''), (''auth_bypass'', ''A07:2021'', ''CWE-287''),
      (''authz_bypass'', ''A01:2021'', ''CWE-285''), (''hardcoded_secret'', ''A02:2021'', ''CWE-798''),
      (''unsafe_deserialization'', ''A08:2021'', ''CWE-502''), (''broken_crypto'', ''A02:2021'', ''CWE-327''),
      (''predictable_randomness'', ''A02:2021'', ''CWE-338''),
      (''missing_input_validation'', ''A03:2021'', ''CWE-20''), (''race_condition'', ''A04:2021'', ''CWE-362''),
      (''ssrf'', ''A10:2021'', ''CWE-918''), (''xss'', ''A03:2021'', ''CWE-79''),
      (''open_redirect'', ''A01:2021'', ''CWE-601''), (''information_disclosure'', ''A04:2021'', ''CWE-200''),
      (''denial_of_service'', ''A04:2021'', ''CWE-400''), (''new_dependency'', ''A06:2021'', ''CWE-1357''),
      (''other'', ''n/a'', ''n/a'')]"

definition severity_order :: "(string \<times> int) list" where
  "severity_order = [(''critical'', 3), (''high'', 2), (''medium'', 1), (''low'', 0)]"

definition severity_rank :: "string \<Rightarrow> int option" where
  "severity_rank s = map_of severity_order s"

definition category_owasp :: "string \<Rightarrow> string" where
  "category_owasp c = (case map_of security_category_map c of None \<Rightarrow> ''n/a'' | Some v \<Rightarrow> fst v)"

definition category_cwe :: "string \<Rightarrow> string" where
  "category_cwe c = (case map_of security_category_map c of None \<Rightarrow> ''n/a'' | Some v \<Rightarrow> snd v)"

section \<open>Configuration\<close>

record security_config =
  sc_mode :: string
  sc_timeout :: rat
  sc_fail_threshold :: string

definition security_defaults :: security_config where
  "security_defaults = \<lparr>sc_mode = ''advisory'', sc_timeout = 0, sc_fail_threshold = ''high''\<rparr>"

datatype security_config_error = Invalid_Security_Mode string | Invalid_Fail_Threshold string

definition check_security_config :: "security_config \<Rightarrow> security_config_error + security_config" where
  "check_security_config c =
     (if sc_mode c \<notin> {''hard'', ''advisory'', ''skip''} then Inl (Invalid_Security_Mode (sc_mode c))
      else if severity_rank (sc_fail_threshold c) = None then Inl (Invalid_Fail_Threshold (sc_fail_threshold c))
      else Inr c)"

section \<open>A result\<close>

record security_finding =
  sf_category :: string
  sf_severity :: string
  sf_location :: string
  sf_explanation :: string
  sf_suggestion :: string

record security_result =
  sr_passed :: bool
  sr_mode :: string
  sr_findings :: "security_finding list"
  sr_notes :: string
  sr_exhaustive :: bool
  sr_raw :: string
  sr_infrastructure :: bool
  sr_observed :: "diff_stat option"
  sr_disagreement :: string
  sr_model :: string
  sr_fail_threshold :: string

definition bare_security :: "bool \<Rightarrow> string \<Rightarrow> security_result" where
  "bare_security passed mode =
     \<lparr>sr_passed = passed, sr_mode = mode, sr_findings = [], sr_notes = [], sr_exhaustive = False, sr_raw = [],
      sr_infrastructure = False, sr_observed = None, sr_disagreement = [], sr_model = [],
      sr_fail_threshold = ''high''\<rparr>"

definition security_coverage_refused :: "security_result \<Rightarrow> bool" where
  "security_coverage_refused r = (sr_disagreement r \<noteq> [] \<and> \<not> sr_passed r)"

definition security_fails :: "security_result \<Rightarrow> string \<Rightarrow> bool option" where
  "security_fails r severity =
     (if sr_mode r \<noteq> ''hard'' then Some False
      else case (severity_rank severity, severity_rank (sr_fail_threshold r)) of
             (Some a, Some b) \<Rightarrow> Some (b \<le> a)
           | _ \<Rightarrow> None)"

fun count_failing :: "security_result \<Rightarrow> security_finding list \<Rightarrow> nat option" where
  "count_failing r [] = Some 0"
| "count_failing r (f # fs) =
     (case (security_fails r (sf_severity f), count_failing r fs) of
        (Some b, Some n) \<Rightarrow> Some (if b then Suc n else n)
      | _ \<Rightarrow> None)"

definition security_fail_count :: "security_result \<Rightarrow> nat option" where
  "security_fail_count r = count_failing r (sr_findings r)"

definition failing_severities :: "security_result \<Rightarrow> string list" where
  "failing_severities r = filter (\<lambda>s. security_fails r s = Some True) (map fst severity_order)"

definition security_advisory_count :: "security_result \<Rightarrow> nat option" where
  "security_advisory_count r = map_option (\<lambda>n. length (sr_findings r) - n) (security_fail_count r)"

definition security_retry_context :: "security_result \<Rightarrow> string" where
  "security_retry_context r =
     (if sr_findings r = [] then []
      else join_with [newline]
        (''Security findings to address:'' #
         concat (map (\<lambda>f. (''- ['' @ sf_severity f @ ''] '' @ sf_category f @ '' at '' @ sf_location f @ '': '' @
                            sf_explanation f) # suggestion_line ''  '' (sf_suggestion f)) (sr_findings r)) @
         (if sr_notes r = [] then [] else [''Overall: '' @ sr_notes r])))"

definition count_severity :: "security_result \<Rightarrow> string \<Rightarrow> string" where
  "count_severity r s = nat_text (length (filter (\<lambda>f. sf_severity f = s) (sr_findings r)))"

definition security_body_section :: "security_result \<Rightarrow> string" where
  "security_body_section r =
     (if sr_findings r = []
      then ''## Security Review'' @ [newline, newline] @ ''**No findings ('' @ sr_mode r @ '' mode, '' @
        (if sr_exhaustive r then ''exhaustively'' else ''briefly'') @ '' searched)**'' @
        (if sr_model r = [] then [] else [newline, newline] @ ''**Reviewer model**: '' @ sr_model r) @
        (if sr_disagreement r = [] then []
         else [newline, newline] @ ''**UNVERIFIED COVERAGE (#266): '' @ sr_disagreement r @ ''**'')
      else join_with [newline]
        ([''## Security Review'', [],
          ''**'' @ count_severity r ''critical'' @ '' critical, '' @ count_severity r ''high'' @ '' high, '' @
            count_severity r ''medium'' @ '' medium, '' @ count_severity r ''low'' @ '' low ('' @ sr_mode r @
            '' mode)**''] @
         (if sr_model r = [] then [] else [[], ''**Reviewer model**: '' @ sr_model r]) @
         (if sr_disagreement r = [] then []
          else [[], ''**UNVERIFIED COVERAGE (#266): '' @ sr_disagreement r @ ''**'']) @
         [[]] @
         concat (map (\<lambda>f. [''- ['' @ sf_severity f @ ''] **'' @ sf_category f @ ''** at '' @ [CHR 0x60] @
                             sf_location f @ [CHR 0x60], ''  - '' @ sf_explanation f] @
                            suggestion_line ''  - '' (sf_suggestion f)) (sr_findings r)) @
         (if sr_notes r = [] then [] else [[], ''**Notes**: '' @ sr_notes r])))"

definition security_findings :: "security_result \<Rightarrow> finding list" where
  "security_findings r =
     map (tag_with_model (sr_model r))
       ((if sr_infrastructure r
         then [infrastructure_finding ''security''
                 (if sr_notes r = [] then ''Security reviewer agent did not produce parseable output''
                  else sr_notes r)]
         else []) @
        map (\<lambda>f. security_finding_row (sf_category f) (sf_severity f) (sf_location f) (sf_explanation f)
                   (sf_suggestion f) (category_owasp (sf_category f)) (category_cwe (sf_category f)))
          (sr_findings r))"

section \<open>Reading a reply\<close>

definition security_infra :: "reply_env \<Rightarrow> string \<Rightarrow> string \<Rightarrow> string \<Rightarrow> string \<Rightarrow> security_result" where
  "security_infra env raw mode notes label =
     (bare_security False mode)\<lparr>sr_notes := with_dump env label notes, sr_raw := take 2000 raw,
                              sr_infrastructure := True\<rparr>"

definition read_security_finding :: "reply_env \<Rightarrow> json \<Rightarrow> security_finding option" where
  "read_security_finding env v =
     (case v of
        JObj d \<Rightarrow>
          (let category = strip (text_at env d ''category''); severity = strip (text_at env d ''severity'');
               explanation = strip (text_at env d ''explanation'')
           in if category \<notin> set (map fst security_category_map) then None
              else if severity \<notin> set (map fst severity_order) then None
              else if explanation = [] then None
              else Some \<lparr>sf_category = category, sf_severity = severity,
                         sf_location = strip (text_at env d ''location''), sf_explanation = explanation,
                         sf_suggestion = strip (text_at env d ''suggestion'')\<rparr>)
      | _ \<Rightarrow> None)"

definition parse_security_output :: "reply_env \<Rightarrow> string \<Rightarrow> string \<Rightarrow> security_result" where
  "parse_security_output env raw mode =
     (case extract_json (rn_decode env) raw of
        None \<Rightarrow> security_infra env raw mode ''Failed to parse security reviewer output as JSON'' ''no_json''
      | Some (JObj d) \<Rightarrow>
          (bare_security True mode)
            \<lparr>sr_findings :=
               (case jget d ''findings'' (JList []) of
                  JList vs \<Rightarrow> somes (map (read_security_finding env) vs) | _ \<Rightarrow> []),
             sr_exhaustive := truthy (jget d ''exhaustively_searched'' (JBool False)),
             sr_observed := parse_observed_diffstat (map_of d ''observedDiffstat''),
             sr_notes := text_at env d ''overallNotes'', sr_raw := take 2000 raw\<rparr>
      | Some v \<Rightarrow> security_infra env raw mode
          (''Security output was not a JSON object (got '' @ json_type_name v @ '')'') ''non_dict_json'')"

definition security_coverage_check :: "diff_stat \<Rightarrow> string \<Rightarrow> security_result \<Rightarrow> security_result" where
  "security_coverage_check actual mode r =
     (if sr_infrastructure r then r
      else case diffstat_disagreement (sr_observed r) actual of
             None \<Rightarrow> r
           | Some disagreement \<Rightarrow>
               (let r' = r\<lparr>sr_disagreement := disagreement,
                         sr_findings := sr_findings r @
                           [\<lparr>sf_category = ''other'', sf_severity = ''low'', sf_location = [],
                             sf_explanation = coverage_marker_text ''security review'' disagreement,
                             sf_suggestion = coverage_suggestion\<rparr>]\<rparr>
                in if mode \<noteq> ''hard'' then r'
                   else r'\<lparr>sr_passed := False, sr_infrastructure := True,
                           sr_notes := strip (coverage_notes_prefix ''security review'' disagreement @ '' '' @
                                              sr_notes r)\<rparr>))"

text \<open>What the run gave: the measured diffstat and the reply, or how it failed.\<close>

datatype security_run = Security_Failed string | Security_Replied diff_stat string

definition judge_security :: "security_result \<Rightarrow> security_result option" where
  "judge_security r =
     (if sr_infrastructure r then Some (if sr_mode r \<noteq> ''hard'' then r\<lparr>sr_passed := True\<rparr> else r)
      else map_option (\<lambda>n. r\<lparr>sr_passed := (n = 0)\<rparr>) (security_fail_count r))"

definition run_security_review ::
    "reply_env \<Rightarrow> security_config \<Rightarrow> string \<Rightarrow> security_run \<Rightarrow> security_result option" where
  "run_security_review env config model run =
     (let mode = sc_mode config
      in if mode = ''skip'' then Some (bare_security True mode)
         else case run of
                Security_Failed e \<Rightarrow>
                  Some ((bare_security (mode \<noteq> ''hard'') mode)
                    \<lparr>sr_notes := ''Security review agent failed: '' @ e, sr_infrastructure := True,
                     sr_model := model, sr_fail_threshold := sc_fail_threshold config\<rparr>)
              | Security_Replied actual raw \<Rightarrow>
                  map_option (security_coverage_check actual mode)
                    (judge_security ((parse_security_output env raw mode)
                      \<lparr>sr_model := model, sr_fail_threshold := sc_fail_threshold config\<rparr>)))"

end
