(* ===== verification/Security_Contract.thy ===== *)
theory Security_Contract
  imports Security Review_Contract
begin








lemma parse_threshold [simp]:
  "sr_mode (parse_security_output env raw mode) = mode"
  by (auto simp: parse_security_output_def security_infra_def bare_security_def split: option.split json.split)


lemma security_coverage_keeps [simp]:
  "sr_mode (security_coverage_check actual mode r) = sr_mode r"
  "sr_fail_threshold (security_coverage_check actual mode r) = sr_fail_threshold r"
  by (simp_all add: security_coverage_check_def Let_def split: option.split)








definition demo_security_reply :: "string \<Rightarrow> json" where
  "demo_security_reply severity =
     JObj [(''observedDiffstat'', JObj [(''files'', JInt 1), (''insertions'', JInt 2), (''deletions'', JInt 0)]),
           (''findings'', JList [JObj [(''category'', JStr ''injection''), (''severity'', JStr severity),
              (''explanation'', JStr ''x'')]])]"

definition hard_security :: security_config where
  "hard_security = \<lparr>sc_mode = ''hard'', sc_timeout = 0, sc_fail_threshold = ''high''\<rparr>"

definition demo_security_verdict :: "string \<Rightarrow> security_result option" where
  "demo_security_verdict severity =
     run_security_review (demo_reply_env (demo_security_reply severity)) hard_security ''m''
       (Security_Replied demo_diff_stat [])"



text \<open>A critical finding blocks in hard mode; the same finding with its severity in capitals is dropped
  while the reply is read, and the review passes. A reply without a list of findings passes too.\<close>

lemma critical_blocks: "\<not> sr_passed (the (demo_security_verdict ''critical''))"
  by code_simp

lemma shouted_severity_passes: "sr_passed (the (demo_security_verdict ''CRITICAL''))"
  by code_simp

text \<open>In hard mode an unreadable reply is returned as failed, not as passed.\<close>

lemma hard_unreadable_fails:
  "\<not> sr_passed (the (run_security_review (demo_reply_env (JList [])) hard_security ''m''
     (Security_Replied demo_diff_stat [])))"
  by code_simp

end
