(* ===== verification/Divergence.thy ===== *)
theory Divergence
  imports Review
begin

text \<open>
  \<open>kstrl/pipeline/divergence.py\<close>: the two detectors that stop buying retries. One compares what a
  failing review objects to, attempt after attempt, with how large the change grew; the other looks
  at the failure counts the gates report.
\<close>

section \<open>Configuration\<close>

record divergence_config =
  dv_mode :: string
  dv_growth_steps :: int

definition divergence_defaults :: divergence_config where
  "divergence_defaults = \<lparr>dv_mode = ''advisory'', dv_growth_steps = 2\<rparr>"

datatype divergence_error = Invalid_Divergence_Mode string | Invalid_Growth_Steps int

definition check_divergence_config :: "divergence_config \<Rightarrow> divergence_error + divergence_config" where
  "check_divergence_config c =
     (if dv_mode c \<notin> {''skip'', ''advisory'', ''block''} then Inl (Invalid_Divergence_Mode (dv_mode c))
      else if dv_growth_steps c < 1 then Inl (Invalid_Growth_Steps (dv_growth_steps c))
      else Inr c)"

definition dv_measures :: "divergence_config \<Rightarrow> bool" where
  "dv_measures c = (dv_mode c \<noteq> ''skip'')"

definition dv_blocks :: "divergence_config \<Rightarrow> bool" where
  "dv_blocks c = (dv_mode c = ''block'')"

section \<open>What a review objects to\<close>

fun collapse_spaces :: "string \<Rightarrow> string" where
  "collapse_spaces [] = []"
| "collapse_spaces (c # s) =
     (if is_space c
      then (case s of
              [] \<Rightarrow> [CHR '' '']
            | d # _ \<Rightarrow> (if is_space d then collapse_spaces s else CHR '' '' # collapse_spaces s))
      else c # collapse_spaces s)"

definition normalize_text :: "string \<Rightarrow> string" where
  "normalize_text s = lower_text (collapse_spaces (strip s))"

definition location_key :: "string \<Rightarrow> string" where
  "location_key s = strip (takeWhile (\<lambda>c. c \<noteq> CHR '':'') (normalize_text s))"

definition criterion_key :: "criterion_review \<Rightarrow> string" where
  "criterion_key c =
     ''criterion:'' @ normalize_story_id (cr_story_id c) @ '':'' @ normalize_text (cr_criterion c)"

definition concern_key :: "review_concern \<Rightarrow> string" where
  "concern_key c =
     ''concern:'' @ normalize_text (cn_category c) @ '':'' @ location_key (cn_location c) @ '':'' @
       normalize_text (cn_explanation c)"

definition review_finding_keys :: "review_result \<Rightarrow> string set" where
  "review_finding_keys r =
     criterion_key ` set (criteria_with fail_verdict r) \<union> concern_key ` set (concerns_with fail_verdict r)"

section \<open>The detector\<close>

record attempt_reading =
  ar_attempt :: int
  ar_lines :: int
  ar_files :: int
  ar_keys :: "string set"
  ar_blocking :: nat

definition step_diverges :: "attempt_reading \<Rightarrow> attempt_reading \<Rightarrow> bool" where
  "step_diverges previous current =
     (if ar_attempt current \<noteq> ar_attempt previous + 1 then False
      else if ar_lines current \<le> ar_lines previous then False
      else if \<not> ar_keys previous \<subseteq> ar_keys current then False
      else True)"

fun steps_diverge :: "attempt_reading list \<Rightarrow> bool" where
  "steps_diverge (p # c # rs) = (step_diverges p c \<and> steps_diverge (c # rs))"
| "steps_diverge _ = True"

definition last_n :: "nat \<Rightarrow> 'a list \<Rightarrow> 'a list" where
  "last_n n xs = drop (length xs - n) xs"

text \<open>A checked configuration has a positive window.\<close>

definition detect_divergence :: "attempt_reading list \<Rightarrow> divergence_config \<Rightarrow> attempt_reading list option" where
  "detect_divergence readings c =
     (let window = nat (dv_growth_steps c + 1); tail = last_n window readings
      in if length readings < window then None
         else if list_ex (\<lambda>r. ar_keys r = {}) tail then None
         else if \<not> steps_diverge tail then None
         else Some tail)"

definition arrows :: "string list \<Rightarrow> string" where "arrows ps = join_with '' -> '' ps"

definition divergence_message :: "attempt_reading list \<Rightarrow> string" where
  "divergence_message rs =
     ''divergence detector tripped: the change is outgrowing the '' @ ''reviewer. Across attempts '' @
     join_with '', '' (map (int_text \<circ> ar_attempt) rs) @ '' the review failed every '' @
     ''time, the change got larger at every step ('' @ arrows (map (int_text \<circ> ar_lines) rs) @ '' lines '' @
     ''changed, added plus removed, across '' @ arrows (map (int_text \<circ> ar_files) rs) @ '' files), and not '' @
     ''one of the reviewer's blocking findings was retired at any '' @ ''step ('' @
     arrows (map (nat_text \<circ> ar_blocking) rs) @ '' blocking findings). Another retry buys '' @
     ''another engineer run on a change that is getting larger and '' @
     ''no closer to passing. Split this component into smaller ones, '' @
     ''or narrow its PRD, then run it again.''"

section \<open>Counts that do not fall\<close>

fun never_falls :: "int list \<Rightarrow> bool" where
  "never_falls (a # b # cs) = (b \<ge> a \<and> never_falls (b # cs))"
| "never_falls _ = True"

definition failure_counts_not_converging :: "int list \<Rightarrow> int \<Rightarrow> bool" where
  "failure_counts_not_converging counts attempts =
     (if attempts < 1 \<or> int (length counts) \<le> attempts then False
      else never_falls (last_n (nat (attempts + 1)) counts))"

definition convergence_message :: "int list \<Rightarrow> int \<Rightarrow> string" where
  "convergence_message counts attempts =
     ''convergence check tripped: the failure count the gates reported did '' @
     ''not fall across the last '' @ int_text (attempts + 1) @ '' attempts ('' @
     arrows (map int_text (last_n (nat (attempts + 1)) counts)) @ ''), and '' @
     ''[factory] convergence_attempts is '' @ int_text attempts @ ''. Another retry buys another '' @
     ''engineer run on a component that is not converging. Split this component '' @
     ''into smaller ones, or narrow its PRD, then run it again.''"

section \<open>What a trip says\<close>

lemma steps_diverge_nth:
  "steps_diverge rs \<Longrightarrow> Suc i < length rs \<Longrightarrow> step_diverges (rs ! i) (rs ! Suc i)"
proof (induction rs arbitrary: i rule: steps_diverge.induct)
  case (1 p c rs)
  then show ?case by (cases i) simp_all
qed simp_all

lemma steps_diverge_lines:
  "steps_diverge rs \<Longrightarrow> rs \<noteq> [] \<Longrightarrow>
   ar_lines (hd rs) + int (length rs) \<le> ar_lines (last rs) + 1 \<and> ar_keys (hd rs) \<subseteq> ar_keys (last rs) \<and>
   ar_attempt (last rs) = ar_attempt (hd rs) + int (length rs) - 1"
proof (induction rs rule: steps_diverge.induct)
  case (1 p c rs)
  then have "step_diverges p c" "ar_lines c + int (length (c # rs)) \<le> ar_lines (last (c # rs)) + 1"
    "ar_keys c \<subseteq> ar_keys (last (c # rs))" "ar_attempt (last (c # rs)) = ar_attempt c + int (length (c # rs)) - 1"
    by simp_all
  then show ?case by (auto simp: step_diverges_def split: if_splits)
qed auto

lemma never_falls_le: "never_falls cs \<Longrightarrow> cs \<noteq> [] \<Longrightarrow> hd cs \<le> last cs"
proof (induction cs rule: never_falls.induct)
  case (1 a b cs)
  then have "hd (b # cs) \<le> last (b # cs)" by simp
  with 1 show ?case by auto
qed simp_all

text \<open>A blocking trip rests on as many consecutive attempts as the configuration asks for: the review
  failed each of them, the change grew by a line or more at each step, and every objection of the
  first still stands in the last.\<close>

lemma divergence_evidence:
  assumes "detect_divergence readings c = Some rs" and "dv_growth_steps c \<ge> 1"
  shows "int (length rs) = dv_growth_steps c + 1 \<and> list_all (\<lambda>r. ar_keys r \<noteq> {}) rs \<and>
    ar_attempt (last rs) = ar_attempt (hd rs) + dv_growth_steps c \<and>
    ar_lines (hd rs) + dv_growth_steps c \<le> ar_lines (last rs) \<and> ar_keys (hd rs) \<subseteq> ar_keys (last rs)"
proof -
  from assms(1) have rs: "rs = last_n (nat (dv_growth_steps c + 1)) readings" "steps_diverge rs"
      "\<not> list_ex (\<lambda>r. ar_keys r = {}) rs" "\<not> length readings < nat (dv_growth_steps c + 1)"
    by (auto simp: detect_divergence_def Let_def split: if_splits)
  then have len: "int (length rs) = dv_growth_steps c + 1" using assms(2) by (simp add: last_n_def)
  then have "rs \<noteq> []" using assms(2) by auto
  from steps_diverge_lines [OF rs(2) this] len rs(3) show ?thesis
    by (auto simp: list_all_iff list_ex_iff)
qed

end
