(* ===== verification/Merge.thy ===== *)
theory Merge
  imports Append_Log Manifest
begin

text \<open>
  \<open>kstrl/pipeline/pr.py\<close>, \<open>kstrl/git/pr_state.py\<close> and \<open>fetch_base_branch\<close> of \<open>kstrl/git/git_base.py\<close>:
  pushing a component's branch, opening its pull request, merging it and waiting until GitHub
  confirms the merge. \<open>'w\<close> is the world outside; the commands \<open>gh\<close> and \<open>git\<close> change it and answer.
  The text of a pull request's body (\<open>pr_body.py\<close>) is an argument: only \<open>gh\<close> reads it. What the
  code prints on the console is left out.
\<close>

section \<open>Commands\<close>

datatype command_result = Command_Timeout | Exited (exit_status: int) (standard_out: string) (standard_err: string)

record 'w gh_env =
  gx_which_gh :: "'w \<Rightarrow> bool"
  gx_run :: "string list \<Rightarrow> 'w \<Rightarrow> command_result \<times> 'w"
  gx_clock :: "'w \<Rightarrow> rat"
  gx_sleep :: "rat \<Rightarrow> 'w \<Rightarrow> 'w"
  gx_decode :: "string \<Rightarrow> json option"
  gx_rep :: "json \<Rightarrow> string"
  gx_secs :: "rat \<Rightarrow> string"
  gx_body :: "component \<Rightarrow> manifest \<Rightarrow> string"

definition gh_timeout :: string where "gh_timeout = ''60.0''"
definition push_timeout :: string where "push_timeout = ''300.0''"
definition fetch_timeout :: string where "fetch_timeout = ''120.0''"

text \<open>\<open>result.stderr.strip() or fallback\<close>\<close>

definition or_text :: "string \<Rightarrow> string \<Rightarrow> string" where
  "or_text s fallback = (if s = [] then fallback else s)"

text \<open>The error of a command that is only run: \<open>None\<close> when it succeeded.\<close>

definition command_error :: "string \<Rightarrow> string \<Rightarrow> command_result \<Rightarrow> string option" where
  "command_error timed_out failed r =
     (case r of
        Command_Timeout \<Rightarrow> Some timed_out
      | Exited rc out err \<Rightarrow> (if rc \<noteq> 0 then Some (or_text (strip err) failed) else None))"

definition is_gh_available :: "'w gh_env \<Rightarrow> 'w \<Rightarrow> bool \<times> 'w" where
  "is_gh_available env w =
     (if \<not> gx_which_gh env w then (False, w)
      else case gx_run env [''gh'', ''auth'', ''status''] w of
             (Command_Timeout, w') \<Rightarrow> (False, w')
           | (Exited rc out err, w') \<Rightarrow> (rc = 0, w'))"

definition push_branch :: "'w gh_env \<Rightarrow> string \<Rightarrow> 'w \<Rightarrow> string option \<times> 'w" where
  "push_branch env branch w =
     (case gx_run env [''git'', ''push'', ''-u'', ''--'', ''origin'', branch] w of
        (r, w') \<Rightarrow>
          (command_error (''git push of '' @ branch @ '' timed out after '' @ push_timeout @ ''s'')
             (''git push of '' @ branch @ '' failed'') r, w'))"

definition pr_text :: "int \<Rightarrow> string" where "pr_text n = ''#'' @ int_text n"

text \<open>With \<open>--auto\<close> first, without it when that fails; one time limit is caught around both.\<close>

definition merge_pr :: "'w gh_env \<Rightarrow> int \<Rightarrow> string \<Rightarrow> 'w \<Rightarrow> string option \<times> 'w" where
  "merge_pr env n method w =
     (let timed_out = ''gh pr merge '' @ pr_text n @ '' timed out after '' @ gh_timeout @ ''s'';
          failed = ''gh pr merge '' @ pr_text n @ '' failed''
      in case gx_run env [''gh'', ''pr'', ''merge'', int_text n, ''--'' @ method, ''--auto''] w of
           (Command_Timeout, w') \<Rightarrow> (Some timed_out, w')
         | (Exited rc out err, w') \<Rightarrow>
             (if rc = 0 then (None, w')
              else case gx_run env [''gh'', ''pr'', ''merge'', int_text n, ''--'' @ method] w' of
                     (r, w'') \<Rightarrow> (command_error timed_out failed r, w'')))"

definition delete_remote_branch :: "'w gh_env \<Rightarrow> string \<Rightarrow> 'w \<Rightarrow> string option \<times> 'w" where
  "delete_remote_branch env branch w =
     (case gx_run env [''git'', ''push'', ''--delete'', ''--'', ''origin'', branch] w of
        (r, w') \<Rightarrow>
          (command_error (''remote branch delete of '' @ branch @ '' timed out'')
             (''remote branch delete of '' @ branch @ '' failed'') r, w'))"

definition rerun_comment :: string where
  "rerun_comment =
     ''Superseded: merge conflict with base; the component is '' @
     ''re-run against the freshly merged base instead of '' @
     ''rebasing agent output (R7.5 re-run doctrine).''"

definition close_pr_for_rerun :: "'w gh_env \<Rightarrow> int \<Rightarrow> string \<Rightarrow> 'w \<Rightarrow> string option \<times> 'w" where
  "close_pr_for_rerun env n branch w =
     (case gx_run env [''gh'', ''pr'', ''close'', int_text n, ''--comment'', rerun_comment] w of
        (r, w') \<Rightarrow>
          (case command_error (''gh pr close '' @ pr_text n @ '' timed out after '' @ gh_timeout @ ''s'')
                  (''gh pr close '' @ pr_text n @ '' failed'') r of
             Some e \<Rightarrow> (Some e, w')
           | None \<Rightarrow> delete_remote_branch env branch w'))"

definition fetch_base_branch :: "'w gh_env \<Rightarrow> string \<Rightarrow> 'w \<Rightarrow> string option \<times> 'w" where
  "fetch_base_branch env base w =
     (case gx_run env [''git'', ''fetch'', ''--'', ''origin'', base] w of
        (r, w') \<Rightarrow>
          (command_error (''git fetch origin '' @ base @ '' timed out after '' @ fetch_timeout @ ''s'')
             (''git fetch origin '' @ base @ '' failed'') r, w'))"

section \<open>GitHub's view of a pull request\<close>

record pr_view =
  pv_state :: string
  pv_merge_sha :: string
  pv_head_sha :: string

definition view_of :: "'w gh_env \<Rightarrow> json_object \<Rightarrow> pr_view option" where
  "view_of env d =
     (let state = py_str (gx_rep env) (jget d ''state'' (JStr []));
          sha = (case map_of d ''mergeCommit'' of
                   Some (JObj c) \<Rightarrow> py_str (gx_rep env) (jget c ''oid'' (JStr [])) | _ \<Rightarrow> []);
          head = (case map_of d ''headRefOid'' of Some (JStr s) \<Rightarrow> s | _ \<Rightarrow> [])
      in if state = [] then None else Some \<lparr>pv_state = state, pv_merge_sha = sha, pv_head_sha = head\<rparr>)"

definition printed_object :: "'w gh_env \<Rightarrow> command_result \<Rightarrow> json_object option" where
  "printed_object env r =
     (case r of
        Command_Timeout \<Rightarrow> None
      | Exited rc out err \<Rightarrow>
          (if rc \<noteq> 0 then None else case gx_decode env out of Some (JObj d) \<Rightarrow> Some d | _ \<Rightarrow> None))"

definition fetch_pr_state :: "'w gh_env \<Rightarrow> int \<Rightarrow> 'w \<Rightarrow> pr_view option \<times> 'w" where
  "fetch_pr_state env n w =
     (case gx_run env [''gh'', ''pr'', ''view'', int_text n, ''--json'', ''state,mergeCommit,headRefOid''] w of
        (r, w') \<Rightarrow> (case printed_object env r of None \<Rightarrow> None | Some d \<Rightarrow> view_of env d, w'))"

text \<open>A document that is not an object gives \<open>""\<close>, which is \<open>None\<close> like every other missing answer.\<close>

definition pr_mergeable :: "'w gh_env \<Rightarrow> int \<Rightarrow> 'w \<Rightarrow> string option \<times> 'w" where
  "pr_mergeable env n w =
     (case gx_run env [''gh'', ''pr'', ''view'', int_text n, ''--json'', ''mergeable''] w of
        (r, w') \<Rightarrow>
          (case printed_object env r of
             None \<Rightarrow> None
           | Some d \<Rightarrow>
               (let m = py_str (gx_rep env) (jget d ''mergeable'' (JStr [])) in if m = [] then None else Some m), w'))"

definition digits :: "string \<Rightarrow> bool" where
  "digits s = (s \<noteq> [] \<and> list_all is_digit_ascii s)"

definition digits_value :: "string \<Rightarrow> int" where
  "digits_value s = foldl (\<lambda>n c. 10 * n + (of_char c - 48)) 0 s"

definition rstrip_slashes :: "string \<Rightarrow> string" where
  "rstrip_slashes s = rev (dropWhile (\<lambda>c. c = CHR ''/'') (rev s))"

text \<open>\<open>int\<close> of the last part of the URL; only plain decimal numerals are read here.\<close>

definition pr_number_from_url :: "string \<Rightarrow> int" where
  "pr_number_from_url url =
     (if contains_sub url ''/pull/''
      then (let part = last (split_on (CHR ''/'') (rstrip_slashes url))
            in if digits part then digits_value part else 0)
      else 0)"

section \<open>Waiting for the merge\<close>

datatype merge_state = Merged | Closed | Pending

record merge_confirmation =
  mc_state :: merge_state
  mc_merge_sha :: string
  mc_head_sha :: string

definition unconfirmed :: "merge_state \<Rightarrow> merge_confirmation" where
  "unconfirmed s = \<lparr>mc_state = s, mc_merge_sha = [], mc_head_sha = []\<rparr>"

definition is_state :: "string \<Rightarrow> pr_view option \<Rightarrow> bool" where
  "is_state s v = (case v of None \<Rightarrow> False | Some p \<Rightarrow> pv_state p = s)"

text \<open>One poll: \<open>Inl\<close> is the confirmation the loop returns, \<open>Inr\<close> the world to poll again in.\<close>

definition poll_once ::
    "'w gh_env \<Rightarrow> int \<Rightarrow> rat \<Rightarrow> rat \<Rightarrow> 'w \<Rightarrow> merge_confirmation \<times> 'w + 'w" where
  "poll_once env n poll_interval deadline w =
     (case fetch_pr_state env n w of
        (view, w1) \<Rightarrow>
          (if is_state ''MERGED'' view
           then Inl (\<lparr>mc_state = Merged, mc_merge_sha = pv_merge_sha (the view), mc_head_sha = pv_head_sha (the view)\<rparr>, w1)
           else if is_state ''CLOSED'' view then Inl (unconfirmed Closed, w1)
           else
             (let remaining = deadline - gx_clock env w1
              in if remaining \<le> 0 then Inl (unconfirmed Pending, w1)
                 else Inr (gx_sleep env (min poll_interval remaining) w1))))"

partial_function (option) wait_until ::
    "'w gh_env \<Rightarrow> int \<Rightarrow> rat \<Rightarrow> rat \<Rightarrow> 'w \<Rightarrow> (merge_confirmation \<times> 'w) option" where
  "wait_until env n poll_interval deadline w =
     (if \<not> gx_clock env w < deadline then Some (unconfirmed Pending, w)
      else case poll_once env n poll_interval deadline w of
             Inl r \<Rightarrow> Some r
           | Inr w' \<Rightarrow> wait_until env n poll_interval deadline w')"

definition poll_seconds :: rat where "poll_seconds = 10"

definition wait_for_merge :: "'w gh_env \<Rightarrow> int \<Rightarrow> rat \<Rightarrow> 'w \<Rightarrow> (merge_confirmation \<times> 'w) option" where
  "wait_for_merge env n timeout w = wait_until env n poll_seconds (gx_clock env w + timeout) w"

section \<open>The life of a component's pull request\<close>

record pr_outcome =
  po_pushed :: bool
  po_pr_number :: "int option"
  po_pr_url :: string
  po_merged :: bool
  po_merge_pending :: bool
  po_merge_conflict :: bool
  po_error :: "string option"
  po_merge_sha :: string
  po_head_sha :: string
  po_closed :: bool

definition no_outcome :: pr_outcome where
  "no_outcome =
     \<lparr>po_pushed = False, po_pr_number = None, po_pr_url = [], po_merged = False, po_merge_pending = False,
      po_merge_conflict = False, po_error = None, po_merge_sha = [], po_head_sha = [], po_closed = False\<rparr>"

definition pr_outcome_of :: "int \<Rightarrow> string \<Rightarrow> pr_outcome" where
  "pr_outcome_of n url = no_outcome\<lparr>po_pushed := True, po_pr_number := Some n, po_pr_url := url\<rparr>"

text \<open>A merge that was initiated: an error of the command counts unless GitHub shows the merge.\<close>

definition merge_initiated :: "'w gh_env \<Rightarrow> int \<Rightarrow> string \<Rightarrow> 'w \<Rightarrow> string option \<times> 'w" where
  "merge_initiated env n method w =
     (case merge_pr env n method w of
        (None, w1) \<Rightarrow> (None, w1)
      | (Some e, w1) \<Rightarrow>
          (if e = [] then (None, w1)
           else case fetch_pr_state env n w1 of
                  (view, w2) \<Rightarrow> (if is_state ''MERGED'' view then None else Some e, w2)))"

definition merge_failed :: "'w gh_env \<Rightarrow> int \<Rightarrow> string \<Rightarrow> string \<Rightarrow> string \<Rightarrow> 'w \<Rightarrow> pr_outcome \<times> 'w" where
  "merge_failed env n url base e w =
     (case pr_mergeable env n w of
        (m, w') \<Rightarrow>
          ((if m = Some ''CONFLICTING''
            then (pr_outcome_of n url)\<lparr>po_merge_conflict := True,
                   po_error := Some (''PR '' @ pr_text n @ '' conflicts with '' @ base @ '': '' @ e)\<rparr>
            else (pr_outcome_of n url)\<lparr>po_error := Some (''merge failed for PR '' @ pr_text n @ '': '' @ e)\<rparr>), w'))"

definition merge_confirmed ::
    "'w gh_env \<Rightarrow> int \<Rightarrow> string \<Rightarrow> string \<Rightarrow> string \<Rightarrow> merge_confirmation \<Rightarrow> 'w \<Rightarrow> pr_outcome \<times> 'w" where
  "merge_confirmed env n url base head c w =
     (let w1 = (if head = [] then w else snd (delete_remote_branch env head w))
      in case fetch_base_branch env base w1 of
           (fetch_error, w2) \<Rightarrow>
             ((pr_outcome_of n url)\<lparr>po_merged := True, po_error := fetch_error,
                po_merge_sha := mc_merge_sha c, po_head_sha := mc_head_sha c\<rparr>, w2))"

definition merge_unconfirmed ::
    "'w gh_env \<Rightarrow> int \<Rightarrow> string \<Rightarrow> string \<Rightarrow> rat \<Rightarrow> 'w \<Rightarrow> pr_outcome \<times> 'w" where
  "merge_unconfirmed env n url base timeout w =
     (case pr_mergeable env n w of
        (m, w') \<Rightarrow>
          ((if m = Some ''CONFLICTING''
            then (pr_outcome_of n url)\<lparr>po_merge_conflict := True,
                   po_error := Some (''PR '' @ pr_text n @ '' conflicts with '' @ base @ ''; merge cannot land'')\<rparr>
            else (pr_outcome_of n url)\<lparr>po_merge_pending := True,
                   po_error := Some (''PR '' @ pr_text n @ '' not merged within '' @ gx_secs env timeout @ ''s'')\<rparr>), w'))"

definition merge_and_wait ::
    "'w gh_env \<Rightarrow> int \<Rightarrow> string \<Rightarrow> string \<Rightarrow> string \<Rightarrow> rat \<Rightarrow> string \<Rightarrow> 'w \<Rightarrow> (pr_outcome \<times> 'w) option" where
  "merge_and_wait env n url base method timeout head w =
     (case merge_initiated env n method w of
        (Some e, w1) \<Rightarrow> Some (merge_failed env n url base e w1)
      | (None, w1) \<Rightarrow>
          (case wait_for_merge env n timeout w1 of
             None \<Rightarrow> None
           | Some (c, w2) \<Rightarrow>
               Some (case mc_state c of
                       Merged \<Rightarrow> merge_confirmed env n url base head c w2
                     | Closed \<Rightarrow>
                         ((pr_outcome_of n url)\<lparr>po_error := Some (''PR '' @ pr_text n @ '' closed without merge''),
                                              po_closed := True\<rparr>, w2)
                     | Pending \<Rightarrow> merge_unconfirmed env n url base timeout w2)))"

definition create_failed :: "component \<Rightarrow> string \<Rightarrow> string" where
  "create_failed cm why =
     ''Failed to create PR for '' @ [CHR 0x27] @ c_id cm @ [CHR 0x27] @ '': '' @ why"

text \<open>\<open>Inl\<close> is the raised \<open>RuntimeError\<close>.\<close>

definition create_component_pr ::
    "'w gh_env \<Rightarrow> component \<Rightarrow> manifest \<Rightarrow> 'w \<Rightarrow> (string + int \<times> string) \<times> 'w" where
  "create_component_pr env cm m w =
     (case gx_run env
             [''gh'', ''pr'', ''create'', ''--title'', ''['' @ m_project_name m @ ''] '' @ c_title cm,
              ''--body'', gx_body env cm m, ''--base='' @ m_base_branch m, ''--head='' @ c_branch_name cm] w of
        (Command_Timeout, w') \<Rightarrow>
          (Inl (create_failed cm (''gh pr create timed out after '' @ gh_timeout @ ''s'')), w')
      | (Exited rc out err, w') \<Rightarrow>
          (if rc \<noteq> 0 then (Inl (create_failed cm (or_text (strip err) (strip out))), w')
           else (Inr (pr_number_from_url (strip out), strip out), w')))"

text \<open>The number and the URL a component holds: \<open>comp.pr_number or pr_number_from_url(comp.pr_url)\<close>.\<close>

definition pr_url_of :: "component \<Rightarrow> string" where
  "pr_url_of cm = jstr_of (c_pr_url cm)"

definition component_pr_number :: "component \<Rightarrow> string \<Rightarrow> int" where
  "component_pr_number cm url =
     (case c_pr_number cm of JInt n \<Rightarrow> (if n = 0 then pr_number_from_url url else n) | _ \<Rightarrow> pr_number_from_url url)"

definition existing_pr ::
    "'w gh_env \<Rightarrow> component \<Rightarrow> manifest \<Rightarrow> string \<Rightarrow> rat \<Rightarrow> 'w \<Rightarrow> (pr_outcome \<times> 'w) option" where
  "existing_pr env cm m method timeout w =
     (let url = pr_url_of cm; n = component_pr_number cm url
      in if n = 0
         then Some (no_outcome\<lparr>po_pushed := True, po_pr_url := url,
                po_error := Some (''existing PR '' @ url @ '' has no usable PR number; cannot verify merge state'')\<rparr>, w)
         else case fetch_pr_state env n w of
                (view, w1) \<Rightarrow>
                  (if is_state ''MERGED'' view
                   then Some ((pr_outcome_of n url)\<lparr>po_merged := True, po_merge_sha := pv_merge_sha (the view),
                                                  po_head_sha := pv_head_sha (the view)\<rparr>, w1)
                   else if is_state ''CLOSED'' view
                   then Some ((pr_outcome_of n url)\<lparr>
                          po_error := Some (''PR '' @ pr_text n @ '' closed without merge''), po_closed := True\<rparr>, w1)
                   else merge_and_wait env n url (m_base_branch m) method timeout (c_branch_name cm) w1))"

text \<open>The outcome, the number and URL the component holds afterwards, and the world.\<close>

definition push_create_and_merge_pr ::
    "'w gh_env \<Rightarrow> component \<Rightarrow> manifest \<Rightarrow> string \<Rightarrow> rat \<Rightarrow> 'w \<Rightarrow> (pr_outcome \<times> component \<times> 'w) option" where
  "push_create_and_merge_pr env cm m method timeout w =
     (if pr_url_of cm \<noteq> []
      then map_option (\<lambda>(r, w'). (r, cm, w')) (existing_pr env cm m method timeout w)
      else case push_branch env (c_branch_name cm) w of
             (push_error, w1) \<Rightarrow>
               (case push_error of
                  Some (x # e) \<Rightarrow>
                    Some (no_outcome\<lparr>po_error :=
                      Some (''push of '' @ c_branch_name cm @ '' failed: '' @ x # e)\<rparr>, cm, w1)
                | _ \<Rightarrow>
                    (case create_component_pr env cm m w1 of
                       (Inl e, w2) \<Rightarrow> Some (no_outcome\<lparr>po_pushed := True, po_error := Some e\<rparr>, cm, w2)
                     | (Inr (n, url), w2) \<Rightarrow>
                         map_option (\<lambda>(r, w'). (r, cm\<lparr>c_pr_number := JInt n, c_pr_url := JStr url\<rparr>, w'))
                           (merge_and_wait env n url (m_base_branch m) method timeout (c_branch_name cm) w2))))"

end
