(* ===== verification/Pipeline_State.thy ===== *)
theory Pipeline_State
  imports Retry_Context Divergence Security Merge Loop_Budget Manifest_Dag
begin

text \<open>
  \<open>kstrl/pipeline/pipeline_state.py\<close>, \<open>pipeline_ledger.py\<close>, \<open>pipeline_inbox.py\<close> and
  \<open>pipeline_attempt.py\<close>: the state one run's pipeline shares with the scheduler, the settings and the
  outside it reads, the events it emits, its spend and ceilings, the inbox items it files and
  resolves, and the bookkeeping of an attempt. \<open>'w\<close> is the world outside the process. A retry context
  is kept as the object its JSON text stands for (\<open>context_survives_retry\<close> of
  \<open>Retry_Context_Contract\<close>). Console lines are left out.
\<close>

section \<open>Settings and outside\<close>

record pipe_config =
  pf_max_retries :: int
  pf_retry_delay :: rat
  pf_use_worktrees :: bool
  pf_convergence :: int
  pf_create_prs :: bool
  pf_single_pr :: bool
  pf_pause_before_merge :: bool
  pf_merge_timeout :: rat
  pf_max_tokens :: int
  pf_max_cost :: rat
  pf_max_adversarial :: int
  pf_skip_verification :: bool
  pf_review_mode :: review_mode
  pf_security :: security_config
  pf_claim_agreement :: string
  pf_divergence :: divergence_config
  pf_level :: int
  pf_knowledge :: bool
  pf_inbox :: inbox_config
  pf_run_id :: string
  pf_on_first_failure :: string
  pf_on_inbox_item :: string

text \<open>\<open>pe_signature\<close> is \<open>signature_for_error\<close> (a slug made with regular expressions);
  \<open>pe_journal\<close> says whether the evolution journal is open and takes the row.\<close>

record 'w pipe_env =
  pe_gh :: "'w gh_env"
  pe_iso :: "'w \<Rightarrow> string"
  pe_offset :: "'w \<Rightarrow> int"
  pe_debug_dir :: "string \<Rightarrow> 'w \<Rightarrow> string option"
  pe_branch_sha :: "string \<Rightarrow> 'w \<Rightarrow> string option"
  pe_inbox :: "'w \<Rightarrow> inbox_env"
  pe_uuid :: "'w \<Rightarrow> string"
  pe_journal :: "'w \<Rightarrow> bool"
  pe_signature :: "string \<Rightarrow> string \<Rightarrow> string"
  pe_cost6 :: "rat \<Rightarrow> string"
  pe_float :: "rat \<Rightarrow> string"
  pe_round :: "nat \<Rightarrow> rat \<Rightarrow> rat"

section \<open>Events\<close>

text \<open>What one component used of the facts it was given; \<open>fu_measured = False\<close> is no evidence.\<close>

record fact_utilization =
  fu_measured :: bool
  fu_injected :: int
  fu_referenced :: int
  fu_core_injected :: int
  fu_core_referenced :: int
  fu_dependency_injected :: int
  fu_dependency_referenced :: int
  fu_sibling_injected :: int
  fu_sibling_referenced :: int
  fu_reason :: string

text \<open>The duration fields of \<open>verification_result\<close>, \<open>review_result\<close>, \<open>distill_result\<close> and
  \<open>contract_result\<close> are left out.\<close>

datatype pipe_event =
    Component_Started string
  | Contract_Judged int bool string
  | Component_Skipped string string
  | Component_Retrying string int string
  | Component_Failed string string
  | Component_Completed string json json
  | Pr_Merge_Pending string string string
  | Merge_Pending_V1 string string string
  | Pr_Created string int string
  | Pr_Merged string int string string
  | Phase_Started string string int
  | Phase_Completed string string bool string rat
  | Finding_Recorded string finding int
  | Phase_Skipped string string string
  | Budget_Exceeded string int int rat rat string string "string list" "json_object list"
  | Budget_Coverage ceiling_coverage string
  | Component_Usage string string usage_totals
  | Checkpoint_Requested string string string
  | Checkpoint_Resolved string string string string
  | Breaker_Tripped string int string
  | Verification_Result string bool "string list" "string list" "string list" "string list" string
  | Review_Result string bool string nat nat
  | Review_Divergence string "attempt_reading list" bool
  | Diff_Fetch_Failed string string
  | Distilled string int bool
  | Fact_Utilization_Measured string fact_utilization
  | Hook_Fired string string string

record superseded_row =
  sp_component :: string
  sp_attempt :: int
  sp_iterations :: json
  sp_signatures :: "string list"
  sp_findings :: "finding list"
  sp_failure_count :: "int option"

section \<open>State\<close>

record 'w pipe =
  pp_manifest :: manifest
  pp_saved :: manifest
  pp_contexts :: "(string, retry_context) dict"
  pp_fresh :: "string list"
  pp_signatures :: "(string, string list) dict"
  pp_worktrees :: "(string, string) dict"
  pp_bases :: "(string, string) dict"
  pp_completed :: "string list"
  pp_failed :: "string list"
  pp_skipped :: "string list"
  pp_merged :: "(string, string) dict"
  pp_pr_urls :: "string list"
  pp_counts :: "(string, (string \<times> int) list) dict"
  pp_readings :: "(string, phase_reading list) dict"
  pp_reviews :: "(string, attempt_reading list) dict"
  pp_typed :: "string list"
  pp_started :: "(string, rat) dict"
  pp_usage :: usage_meter
  pp_run_usage :: usage_totals
  pp_announced :: "string list"
  pp_calls :: int
  pp_approvals :: "approval_snapshot option"
  pp_knowledge :: "(string, string option) dict"
  pp_utilization :: "(string, fact_utilization) dict"
  pp_inbox :: inbox_store
  pp_events :: "pipe_event list"
  pp_journal :: "superseded_row list"
  pp_world :: 'w

definition pipe_components :: "'w pipe \<Rightarrow> component list" where
  "pipe_components p = m_components (pp_manifest p)"

text \<open>The component object the code holds: the entry with this id, which is there for every id the
  pipeline works on.\<close>

definition the_component :: "'w pipe \<Rightarrow> string \<Rightarrow> component" where
  "the_component p cid = the (get_component (pipe_components p) cid)"

definition set_components :: "component list \<Rightarrow> 'w pipe \<Rightarrow> 'w pipe" where
  "set_components cs p = p\<lparr>pp_manifest := (pp_manifest p)\<lparr>m_components := cs\<rparr>\<rparr>"

definition update_component :: "string \<Rightarrow> (component \<Rightarrow> component) \<Rightarrow> 'w pipe \<Rightarrow> 'w pipe" where
  "update_component cid f p = set_components (set_component cid f (pipe_components p)) p"

definition emit :: "pipe_event \<Rightarrow> 'w pipe \<Rightarrow> 'w pipe" where
  "emit e p = p\<lparr>pp_events := pp_events p @ [e]\<rparr>"

text \<open>A hook runs at most once in a run for each condition, and only when it has a command.\<close>

fun fired :: "string \<Rightarrow> pipe_event \<Rightarrow> bool" where
  "fired condition (Hook_Fired k _ _) = (k = condition)"
| "fired condition _ = False"

definition fire_hook :: "string \<Rightarrow> string \<Rightarrow> string \<Rightarrow> string \<Rightarrow> 'w pipe \<Rightarrow> 'w pipe" where
  "fire_hook command condition cid detail p =
     (if command = [] \<or> list_ex (fired condition) (pp_events p) then p
      else emit (Hook_Fired condition cid detail) p)"

definition fire_first_failure :: "pipe_config \<Rightarrow> string \<Rightarrow> string \<Rightarrow> 'w pipe \<Rightarrow> 'w pipe" where
  "fire_first_failure cfg cid error p = fire_hook (pf_on_first_failure cfg) ''first_failure'' cid error p"

definition fire_merge_pending :: "pipe_config \<Rightarrow> string \<Rightarrow> string \<Rightarrow> 'w pipe \<Rightarrow> 'w pipe" where
  "fire_merge_pending cfg cid detail p = fire_hook (pf_on_first_failure cfg) ''merge_pending'' cid detail p"

definition fire_inbox_item :: "pipe_config \<Rightarrow> item_kind \<Rightarrow> string \<Rightarrow> string \<Rightarrow> 'w pipe \<Rightarrow> 'w pipe" where
  "fire_inbox_item cfg kind title cid p =
     fire_hook (pf_on_inbox_item cfg) (''inbox_'' @ kind_value kind) cid title p"

definition save_pipe :: "'w pipe \<Rightarrow> 'w pipe" where
  "save_pipe p = p\<lparr>pp_saved := pp_manifest p\<rparr>"

definition status_at :: "'w pipe \<Rightarrow> string \<Rightarrow> component_status" where
  "status_at p cid = c_status (the_component p cid)"

definition retries_of :: "component \<Rightarrow> int" where
  "retries_of c = jint_of (c_retries c)"

definition component_base :: "'w pipe \<Rightarrow> string \<Rightarrow> string" where
  "component_base p cid =
     (case dict_get (pp_bases p) cid of None \<Rightarrow> m_base_branch (pp_manifest p) | Some b \<Rightarrow> b)"

definition list_add :: "'a \<Rightarrow> 'a list \<Rightarrow> 'a list" where
  "list_add x xs = (if x \<in> set xs then xs else xs @ [x])"

section \<open>Attempts\<close>

definition end_attempt :: "'w pipe_env \<Rightarrow> string \<Rightarrow> 'w pipe \<Rightarrow> 'w pipe" where
  "end_attempt env cid p =
     update_component cid (\<lambda>c.
       let c1 = c\<lparr>c_journal_offset_end := JInt (pe_offset env (pp_world p))\<rparr>;
           c2 = (case dict_get (pp_started p) cid of
                   None \<Rightarrow> c1
                 | Some s \<Rightarrow> c1\<lparr>c_duration_seconds := JFloat (gx_clock (pe_gh env) (pp_world p) - s)\<rparr>)
       in case pe_debug_dir env cid (pp_world p) of
            None \<Rightarrow> c2 | Some d \<Rightarrow> c2\<lparr>c_evidence_debug_dir := JStr d\<rparr>) p"

definition begin_attempt :: "'w pipe_env \<Rightarrow> string \<Rightarrow> 'w pipe \<Rightarrow> 'w pipe" where
  "begin_attempt env cid p =
     (let p1 = update_component cid (\<lambda>c.
            c\<lparr>c_findings := [], c_review_findings := JStr [], c_failed_phase := JStr [], c_failed_check := JStr [],
              c_completed_at := JStr [], c_evidence_worktree := JStr [], c_evidence_debug_dir := JStr [],
              c_journal_offset_start := JInt (pe_offset env (pp_world p)), c_journal_offset_end := JInt (- 1),
              c_status := RUNNING, c_started_at := JStr (pe_iso env (pp_world p))\<rparr>) p
      in p1\<lparr>pp_signatures := dict_del (pp_signatures p1) cid, pp_readings := dict_del (pp_readings p1) cid,
            pp_started := dict_set (pp_started p1) cid (gx_clock (pe_gh env) (pp_world p))\<rparr>)"

definition attempt_number :: "'w pipe \<Rightarrow> string \<Rightarrow> int" where
  "attempt_number p cid = retries_of (the_component p cid) + 1"

definition add_findings :: "string \<Rightarrow> finding list \<Rightarrow> 'w pipe \<Rightarrow> 'w pipe" where
  "add_findings cid fs p =
     (let n = attempt_number p cid
      in foldl (\<lambda>q f. emit (Finding_Recorded cid f n) q)
           (update_component cid (\<lambda>c. c\<lparr>c_findings := c_findings c @ map (tag_with_attempt n) fs\<rparr>) p) fs)"

definition record_phase_skip :: "string \<Rightarrow> string \<Rightarrow> string \<Rightarrow> 'w pipe \<Rightarrow> 'w pipe" where
  "record_phase_skip cid phase reason p =
     emit (Phase_Skipped cid phase reason) (add_findings cid [phase_skipped_finding phase reason] p)"

definition record_failure_signatures ::
    "'w pipe_env \<Rightarrow> string \<Rightarrow> string \<Rightarrow> string \<Rightarrow> string list \<Rightarrow> 'w pipe \<Rightarrow> 'w pipe" where
  "record_failure_signatures env cid phase error signatures p =
     p\<lparr>pp_signatures := dict_set (pp_signatures p) cid
          (if signatures \<noteq> [] then signatures
           else [pe_signature env (if phase = [] then ''unknown'' else phase) error])\<rparr>"

definition journal_superseded :: "'w pipe_env \<Rightarrow> string \<Rightarrow> int option \<Rightarrow> 'w pipe \<Rightarrow> 'w pipe" where
  "journal_superseded env cid failure_count p =
     (if \<not> pe_journal env (pp_world p) then p
      else
        (let c = the_component p cid
         in p\<lparr>pp_journal := pp_journal p @
                [\<lparr>sp_component = cid, sp_attempt = attempt_number p cid, sp_iterations = c_iteration_count c,
                  sp_signatures = (case dict_get (pp_signatures p) cid of None \<Rightarrow> [] | Some s \<Rightarrow> s),
                  sp_findings = c_findings c, sp_failure_count = failure_count\<rparr>]\<rparr>))"

definition note_phase_reading :: "string \<Rightarrow> string \<Rightarrow> bool \<Rightarrow> 'w pipe \<Rightarrow> 'w pipe" where
  "note_phase_reading cid phase produced p =
     (if produced
      then p\<lparr>pp_readings := dict_set (pp_readings p) cid
               (list_add (attempt_number p cid, phase)
                  (case dict_get (pp_readings p) cid of None \<Rightarrow> [] | Some rs \<Rightarrow> rs))\<rparr>
      else p)"

text \<open>Every reading was recorded for a phase of the table, so merging does not raise.\<close>

definition merge_phase_readings :: "string \<Rightarrow> retry_context \<Rightarrow> 'w pipe \<Rightarrow> retry_context" where
  "merge_phase_readings cid c p =
     c\<lparr>rc_readings := rc_readings c \<union>
          set (case dict_get (pp_readings p) cid of None \<Rightarrow> [] | Some rs \<Rightarrow> rs)\<rparr>"

definition phase_started :: "string \<Rightarrow> string \<Rightarrow> 'w pipe \<Rightarrow> 'w pipe" where
  "phase_started cid phase p = emit (Phase_Started cid phase (attempt_number p cid)) p"

definition phase_completed :: "'w pipe_env \<Rightarrow> string \<Rightarrow> string \<Rightarrow> rat \<Rightarrow> bool \<Rightarrow> string \<Rightarrow> 'w pipe \<Rightarrow> 'w pipe" where
  "phase_completed env cid phase started passed detail p =
     emit (Phase_Completed cid phase passed detail
             (pe_round env 2 (gx_clock (pe_gh env) (pp_world p) - started))) p"

section \<open>The ledger\<close>

definition adversarial_budget_ok :: "pipe_config \<Rightarrow> 'w pipe \<Rightarrow> bool" where
  "adversarial_budget_ok cfg p =
     (if pf_max_adversarial cfg \<le> 0 then True else pp_calls p < pf_max_adversarial cfg)"

definition consume_adversarial :: "'w pipe \<Rightarrow> 'w pipe" where
  "consume_adversarial p = p\<lparr>pp_calls := pp_calls p + 1\<rparr>"

definition token_ceiling :: string where "token_ceiling = ''max_total_tokens''"
definition cost_ceiling :: string where "cost_ceiling = ''max_cost_usd''"

definition ceiling_axes :: "(string \<times> usage_axis) list" where
  "ceiling_axes = [(cost_ceiling, Cost_Axis), (token_ceiling, Token_Axis)]"

definition pipe_ceiling_coverage :: "pipe_config \<Rightarrow> 'w pipe \<Rightarrow> string \<Rightarrow> ceiling_coverage option" where
  "pipe_ceiling_coverage cfg p k =
     (case map_of ceiling_axes k of
        None \<Rightarrow> None
      | Some a \<Rightarrow>
          (if k = cost_ceiling \<and> pf_max_cost cfg \<le> 0 then None
           else if k = token_ceiling \<and> pf_max_tokens cfg \<le> 0 then None
           else Some (usage_coverage (pp_usage p) a k)))"

text \<open>Thousands separators of \<open>{n:,}\<close>.\<close>

fun grouped :: "string \<Rightarrow> string" where
  "grouped (a # b # c # d # s) = a # b # c # CHR '','' # grouped (d # s)"
| "grouped s = s"

definition thousands :: "int \<Rightarrow> string" where
  "thousands n = rev (grouped (rev (int_text n)))"

definition role_detail :: "role_coverage \<Rightarrow> string" where
  "role_detail r =
     rc_role r @ '' ('' @ int_text (role_uncovered r) @ '' of '' @ int_text (rc_calls r) @ '' call(s)'' @
     (if role_silent r \<and> rc_tokens r > 0 then '', '' @ thousands (rc_tokens r) @ '' token(s) unpriced'' else []) @
     '')''"

definition coverage_note :: "ceiling_coverage \<Rightarrow> string" where
  "coverage_note c =
     (if cv_calls c = 0 \<or> coverage_complete c then []
      else
        (let cost = (cv_axis c = Cost_Axis); axis = axis_text (cv_axis c)
         in axis @ '' coverage is '' @ (if coverage_partial c then ''PARTIAL'' else ''EMPTY'') @ '': '' @
            int_text (cv_covered c) @ '' of '' @ int_text (cv_calls c) @ '' metered call(s) reported '' @
            (if cost then ''a cost'' else ''a token count'') @ '', so '' @
            (if cv_ceiling c = [] then ''the '' @ axis @ '' total covers only those''
             else cv_ceiling c @ '' bounds only those'') @ ''; uncovered: '' @
            join_with '', '' (map role_detail (filter (\<lambda>r. \<not> role_covered r) (cv_roles c))) @ ''. No '' @
            (if cost then ''price'' else ''token count'') @ '' is inferred for '' @
            ''uncovered calls, so the '' @ axis @ '' total is a lower bound''))"

definition announce_one :: "pipe_config \<Rightarrow> string \<Rightarrow> 'w pipe \<Rightarrow> 'w pipe" where
  "announce_one cfg k p =
     (if k \<in> set (pp_announced p) then p
      else case pipe_ceiling_coverage cfg p k of
             None \<Rightarrow> p
           | Some c \<Rightarrow>
               (if cv_calls c = 0 \<or> coverage_complete c then p
                else emit (Budget_Coverage c (coverage_note c)) (p\<lparr>pp_announced := pp_announced p @ [k]\<rparr>)))"

definition announce_gaps :: "pipe_config \<Rightarrow> 'w pipe \<Rightarrow> 'w pipe" where
  "announce_gaps cfg p = foldl (\<lambda>q k. announce_one cfg k q) p (map fst ceiling_axes)"

definition meter_slot :: "usage_meter \<Rightarrow> string \<Rightarrow> (string, usage_totals) dict" where
  "meter_slot m cid = (case dict_get m cid of None \<Rightarrow> [] | Some d \<Rightarrow> d)"

definition record_usage :: "pipe_config \<Rightarrow> string \<Rightarrow> string \<Rightarrow> usage_totals \<Rightarrow> 'w pipe \<Rightarrow> 'w pipe" where
  "record_usage cfg cid phase t p =
     (if ut_calls t = 0 then p
      else
        (let d = meter_slot (pp_usage p) cid;
             old = (case dict_get d phase of None \<Rightarrow> no_usage | Some u \<Rightarrow> u)
         in announce_gaps cfg
              (emit (Component_Usage cid phase t)
                (p\<lparr>pp_usage := dict_set (pp_usage p) cid (dict_set d phase (merge_usage old t)),
                   pp_run_usage := merge_usage (pp_run_usage p) t\<rparr>))))"

definition engineer_usage_totals :: "'w pipe \<Rightarrow> usage_totals" where
  "engineer_usage_totals p =
     foldl (\<lambda>t d. case dict_get d ''engineer'' of None \<Rightarrow> t | Some u \<Rightarrow> merge_usage t u) no_usage (map snd (pp_usage p))"

definition token_budget_exceeded :: "pipe_config \<Rightarrow> 'w pipe \<Rightarrow> bool" where
  "token_budget_exceeded cfg p = (pf_max_tokens cfg > 0 \<and> ut_total (pp_run_usage p) \<ge> pf_max_tokens cfg)"

definition cost_budget_exceeded :: "pipe_config \<Rightarrow> 'w pipe \<Rightarrow> bool" where
  "cost_budget_exceeded cfg p = (pf_max_cost cfg > 0 \<and> ut_cost (pp_run_usage p) \<ge> pf_max_cost cfg)"

definition breached_ceiling :: "pipe_config \<Rightarrow> 'w pipe \<Rightarrow> string option" where
  "breached_ceiling cfg p =
     (if token_budget_exceeded cfg p then Some token_ceiling
      else if cost_budget_exceeded cfg p then Some cost_ceiling
      else None)"

definition budget_exceeded :: "pipe_config \<Rightarrow> 'w pipe \<Rightarrow> bool" where
  "budget_exceeded cfg p = (breached_ceiling cfg p \<noteq> None)"

definition token_budget_unenforceable :: "pipe_config \<Rightarrow> 'w pipe \<Rightarrow> bool" where
  "token_budget_unenforceable cfg p =
     (let e = engineer_usage_totals p
      in pf_max_tokens cfg > 0 \<and> \<not> ut_token_calls e > 0 \<and> \<not> tokenless_calls e < unenforceable_calls)"

definition cost_budget_unenforceable :: "pipe_config \<Rightarrow> 'w pipe \<Rightarrow> bool" where
  "cost_budget_unenforceable cfg p =
     (let e = engineer_usage_totals p
      in pf_max_cost cfg > 0 \<and> \<not> ut_cost_calls e > 0 \<and> \<not> costless_calls e < unenforceable_calls)"

definition unenforceable_ceilings :: "pipe_config \<Rightarrow> 'w pipe \<Rightarrow> string list" where
  "unenforceable_ceilings cfg p =
     (if token_budget_unenforceable cfg p then [token_ceiling] else []) @
     (if cost_budget_unenforceable cfg p then [cost_ceiling] else [])"

definition budget_halt_identity :: "pipe_config \<Rightarrow> 'w pipe \<Rightarrow> string \<times> string list" where
  "budget_halt_identity cfg p =
     (case breached_ceiling cfg p of
        Some k \<Rightarrow> (''breached'', [k])
      | None \<Rightarrow>
          (if unenforceable_ceilings cfg p \<noteq> [] then (''unenforceable'', unenforceable_ceilings cfg p)
           else ([], [])))"

text \<open>Whether the scheduler stops handing out work: every configured ceiling is dead.\<close>

definition budget_unenforceable :: "pipe_config \<Rightarrow> 'w pipe \<Rightarrow> bool" where
  "budget_unenforceable cfg p =
     (let dead = length (unenforceable_ceilings cfg p);
          configured = (if pf_max_tokens cfg > 0 then 1 else 0) + (if pf_max_cost cfg > 0 then 1 else 0)
      in \<not> (dead = 0 \<or> dead < configured))"

section \<open>The inbox\<close>

text \<open>An inbox error is a warning: the run goes on with the inbox as it was.\<close>

definition pipe_inbox_add ::
    "pipe_config \<Rightarrow> 'w pipe_env \<Rightarrow> item_kind \<Rightarrow> string \<Rightarrow> string \<Rightarrow> string \<Rightarrow> string \<Rightarrow> json_object \<Rightarrow>
     'w pipe \<Rightarrow> 'w pipe" where
  "pipe_inbox_add cfg env kind title detail cid key evidence p =
     (if \<not> ic_enabled (pf_inbox cfg) then p
      else case inbox_add (pe_inbox env (pp_world p)) (pf_inbox cfg) (pe_uuid env (pp_world p))
             \<lparr>ad_kind = kind, ad_title = title, ad_detail = detail, ad_component = cid,
              ad_run_id = pf_run_id cfg, ad_dedupe_key = key, ad_evidence = evidence, ad_priority = None\<rparr>
             (pp_inbox p) of
             Inl e \<Rightarrow> p
           | Inr (st, i, pushed) \<Rightarrow>
               (if pushed then fire_inbox_item cfg (ii_kind i) (ii_title i) (ii_component i) (p\<lparr>pp_inbox := st\<rparr>)
                else p\<lparr>pp_inbox := st\<rparr>))"

definition resolve_item :: "inbox_env \<Rightarrow> string \<Rightarrow> string \<Rightarrow> inbox_store \<Rightarrow> inbox_error + inbox_store" where
  "resolve_item env item_id comment st =
     and_then (resolve env item_id ''system'' comment (Some undecided) st) (\<lambda>(st', _). Inr st')"

definition inbox_resolve_key :: "pipe_config \<Rightarrow> 'w pipe_env \<Rightarrow> string \<Rightarrow> string \<Rightarrow> 'w pipe \<Rightarrow> 'w pipe" where
  "inbox_resolve_key cfg env key reason p =
     (if \<not> ic_enabled (pf_inbox cfg) then p
      else case find_by_dedupe_key (pe_inbox env (pp_world p)) (pp_inbox p) key of
             None \<Rightarrow> p
           | Some i \<Rightarrow>
               (case resolve_item (pe_inbox env (pp_world p)) (ii_id i) reason (pp_inbox p) of
                  Inl e \<Rightarrow> p | Inr st \<Rightarrow> p\<lparr>pp_inbox := st\<rparr>))"

text \<open>The first error ends the loop.\<close>

fun resolve_all :: "inbox_env \<Rightarrow> string \<Rightarrow> string list \<Rightarrow> inbox_store \<Rightarrow> inbox_store" where
  "resolve_all env comment [] st = st"
| "resolve_all env comment (i # ids) st =
     (case resolve_item env i comment st of Inl e \<Rightarrow> st | Inr st' \<Rightarrow> resolve_all env comment ids st')"

definition inbox_resolve_component :: "pipe_config \<Rightarrow> 'w pipe_env \<Rightarrow> string \<Rightarrow> string \<Rightarrow> 'w pipe \<Rightarrow> 'w pipe" where
  "inbox_resolve_component cfg env cid detail p =
     (if \<not> ic_enabled (pf_inbox cfg) then p
      else
        (let ienv = pe_inbox env (pp_world p);
             comment = cid @ '' completed in run '' @ pf_run_id cfg @ (if detail = [] then [] else '': '' @ detail);
             ids = map ii_id (filter (\<lambda>i. ii_component i = cid \<and> ii_status i \<in> set undecided)
                      (inbox_items ienv (pp_inbox p)))
         in p\<lparr>pp_inbox := resolve_all ienv comment ids (pp_inbox p)\<rparr>))"

definition suppress_generic :: "string \<Rightarrow> 'w pipe \<Rightarrow> 'w pipe" where
  "suppress_generic cid p = p\<lparr>pp_typed := list_add cid (pp_typed p)\<rparr>"

definition park_dedupe_key :: "string \<Rightarrow> string" where
  "park_dedupe_key cid = ''merge-gate:'' @ cid"

definition park_decision :: "pipe_config \<Rightarrow> 'w pipe_env \<Rightarrow> string \<Rightarrow> 'w pipe \<Rightarrow> inbox_item option" where
  "park_decision cfg env cid p =
     (if \<not> ic_enabled (pf_inbox cfg) then None
      else find_by_dedupe_key (pe_inbox env (pp_world p)) (pp_inbox p) (park_dedupe_key cid))"

definition snapshot_waivers :: "pipe_config \<Rightarrow> 'w pipe_env \<Rightarrow> 'w pipe \<Rightarrow> 'w pipe" where
  "snapshot_waivers cfg env p =
     p\<lparr>pp_approvals := Some (approvals_at (pe_inbox env (pp_world p)) (Some (pf_inbox cfg)) (pp_inbox p))\<rparr>"

definition pipe_waiver_scope :: "'w pipe \<Rightarrow> string \<Rightarrow> waiver_scope" where
  "pipe_waiver_scope p cid =
     \<lparr>ws_project = m_project_name (pp_manifest p), ws_spec_file = m_spec_file (pp_manifest p),
      ws_plan_id = c_plan_id (the_component p cid), ws_component = cid\<rparr>"

end
