(* ===== verification/Pipeline.thy ===== *)
theory Pipeline
  imports Pipeline_State
begin

text \<open>
  \<open>kstrl/pipeline/pipeline_transitions.py\<close>: every way a component leaves an attempt. A retry puts it
  back to pending with what the attempt learned, a failure skips its dependents and asks a human, a
  completion resolves the questions about it.
\<close>

section \<open>Vocabulary\<close>

datatype pipe_transition = To_Retrying | To_Failed | To_Merge_Pending | To_Awaiting_Approval | To_Completed

datatype failure_action = Retry_Or_Fail | Fail_Now | Over_Budget

text \<open>\<open>signatures=None\<close> and an empty list are read alike.\<close>

record phase_failure =
  pl_action :: failure_action
  pl_error :: string
  pl_phase :: string
  pl_check :: string
  pl_context :: "retry_context option"
  pl_signatures :: "string list"
  pl_count :: "int option"

section \<open>Failing\<close>

definition pipe_cascade_skip :: "'w pipe_env \<Rightarrow> string \<Rightarrow> 'w pipe \<Rightarrow> 'w pipe" where
  "pipe_cascade_skip env cid p =
     (case cascade_skip (pe_iso env (pp_world p)) (pipe_components p) cid of
        (cs, skipped) \<Rightarrow>
          foldl (\<lambda>q sid. emit (Component_Skipped sid
                    (''dependency '' @ [CHR 0x27] @ cid @ [CHR 0x27] @ '' failed'')) q)
            ((set_components cs p)\<lparr>pp_skipped := pp_skipped p @ skipped\<rparr>) skipped)"

definition mark_failed :: "'w pipe_env \<Rightarrow> string \<Rightarrow> string \<Rightarrow> string \<Rightarrow> string \<Rightarrow> 'w pipe \<Rightarrow> 'w pipe" where
  "mark_failed env cid error phase check p =
     update_component cid (\<lambda>c.
       c\<lparr>c_status := FAILED, c_error := JStr error, c_completed_at := JStr (pe_iso env (pp_world p)),
         c_failed_phase := JStr phase, c_failed_check := JStr check\<rparr>) p"

text \<open>The halt asks a human, unless a more specific item already does.\<close>

definition file_halt :: "pipe_config \<Rightarrow> 'w pipe_env \<Rightarrow> string \<Rightarrow> string \<Rightarrow> string \<Rightarrow> string \<Rightarrow> 'w pipe \<Rightarrow> 'w pipe" where
  "file_halt cfg env cid error phase check p =
     (if cid \<in> set (pp_typed p) then p\<lparr>pp_typed := removeAll cid (pp_typed p)\<rparr>
      else pipe_inbox_add cfg env HALTED_RUN (cid @ '' halted in '' @ phase) error cid
             (''halted:'' @ cid @ '':'' @ phase @ '':'' @ check)
             ([(''phase'', JStr phase), (''check'', JStr check), (''error'', JStr error)] @
              (if phase = acceptance_phase
               then [(''head_sha'', JStr (case pe_branch_sha env (c_branch_name (the_component p cid)) (pp_world p) of
                                            None \<Rightarrow> [] | Some s \<Rightarrow> s))]
               else [])) p)"

definition fail_component ::
    "pipe_config \<Rightarrow> 'w pipe_env \<Rightarrow> string \<Rightarrow> string \<Rightarrow> string \<Rightarrow> string \<Rightarrow> string list \<Rightarrow> 'w pipe \<Rightarrow> pipe_transition \<times> 'w pipe" where
  "fail_component cfg env cid error phase check signatures p =
     (let p1 = record_failure_signatures env cid phase error signatures p;
          p2 = mark_failed env cid error phase check p1;
          p3 = end_attempt env cid p2;
          p4 = pipe_cascade_skip env cid p3;
          p5 = p4\<lparr>pp_failed := pp_failed p4 @ [cid]\<rparr>;
          p6 = emit (Component_Failed cid error) p5;
          p7 = fire_first_failure cfg cid error p6;
          p8 = file_halt cfg env cid error phase check p7
      in (To_Failed, save_pipe p8))"

definition fail_aborted :: "pipe_config \<Rightarrow> 'w pipe_env \<Rightarrow> string \<Rightarrow> string \<Rightarrow> 'w pipe \<Rightarrow> 'w pipe" where
  "fail_aborted cfg env cid reason p =
     (case get_component (pipe_components p) cid of
        None \<Rightarrow> p
      | Some c \<Rightarrow>
          snd (fail_component cfg env cid (''aborted: '' @ reason) ''aborted'' ''shutdown'' [''aborted:shutdown''] p))"

section \<open>Retrying\<close>

text \<open>The run of gate failure counts, oldest first: it starts again when the attempt has no count or
  failed in another phase.\<close>

definition next_counts :: "(string \<times> int) list \<Rightarrow> string \<Rightarrow> int option \<Rightarrow> (string \<times> int) list" where
  "next_counts history phase failures =
     (let kept_run = (if failures = None \<or> (history \<noteq> [] \<and> fst (last history) \<noteq> phase) then [] else history)
      in case failures of None \<Rightarrow> kept_run | Some n \<Rightarrow> kept_run @ [(phase, n)])"

definition counts_at :: "'w pipe \<Rightarrow> string \<Rightarrow> (string \<times> int) list" where
  "counts_at p cid = (case dict_get (pp_counts p) cid of None \<Rightarrow> [] | Some h \<Rightarrow> h)"

definition record_failure_count :: "string \<Rightarrow> string \<Rightarrow> int option \<Rightarrow> 'w pipe \<Rightarrow> int list \<times> 'w pipe" where
  "record_failure_count cid phase failures p =
     (let h = next_counts (counts_at p cid) phase failures
      in (map snd h, p\<lparr>pp_counts := dict_set (pp_counts p) cid h\<rparr>))"

definition fail_not_converging ::
    "pipe_config \<Rightarrow> 'w pipe_env \<Rightarrow> string \<Rightarrow> int list \<Rightarrow> 'w pipe \<Rightarrow> pipe_transition \<times> 'w pipe" where
  "fail_not_converging cfg env cid counts p =
     (let message = convergence_message counts (pf_convergence cfg)
      in fail_component cfg env cid message ''engineer'' ''convergence'' [''engineer:divergence'']
           (add_findings cid [not_converging_finding message] p))"

definition conflict_note :: string where
  "conflict_note =
     '' [conflict retry: component re-run against the '' @ ''freshly merged base; agent output is not rebased]''"

definition timeout_note :: string where
  "timeout_note =
     '' [timeout retry: worktree recreated from base; '' @ ''stale index.lock removed]''"

text \<open>Which retries do not resume the attempt's commits, and the error that says so.\<close>

definition fresh_start :: "pipe_config \<Rightarrow> string \<Rightarrow> bool \<Rightarrow> string option" where
  "fresh_start cfg error fresh_base =
     (if fresh_base \<and> pf_use_worktrees cfg then Some (error @ conflict_note)
      else if contains_sub (lower_text error) ''timeout'' \<and> pf_use_worktrees cfg then Some (error @ timeout_note)
      else None)"

definition store_context :: "string \<Rightarrow> retry_context option \<Rightarrow> 'w pipe \<Rightarrow> 'w pipe" where
  "store_context cid context p =
     (case context of
        None \<Rightarrow> p
      | Some c \<Rightarrow> p\<lparr>pp_contexts := dict_set (pp_contexts p) cid (merge_phase_readings cid c p)\<rparr>)"

definition schedule_retry ::
    "pipe_config \<Rightarrow> 'w pipe_env \<Rightarrow> string \<Rightarrow> string \<Rightarrow> retry_context option \<Rightarrow> string \<Rightarrow> string \<Rightarrow> bool \<Rightarrow>
     int option \<Rightarrow> 'w pipe \<Rightarrow> pipe_transition \<times> 'w pipe" where
  "schedule_retry cfg env cid error context phase check fresh_base failures p =
     (let fresh = fresh_start cfg error fresh_base;
          error' = (case fresh of None \<Rightarrow> error | Some e \<Rightarrow> e);
          p1 = (if fresh = None then p else p\<lparr>pp_fresh := list_add cid (pp_fresh p)\<rparr>);
          p2 = end_attempt env cid (journal_superseded env cid failures p1);
          p3 = update_component cid (\<lambda>c.
                 c\<lparr>c_failed_phase := JStr phase, c_failed_check := JStr check, c_retries := JInt (retries_of c + 1),
                   c_status := PENDING, c_error := JStr error'\<rparr>) p2;
          p4 = store_context cid context p3;
          p5 = emit (Component_Retrying cid (retries_of (the_component p4 cid)) error') p4;
          p6 = p5\<lparr>pp_world := gx_sleep (pe_gh env) (pf_retry_delay cfg) (pp_world p5)\<rparr>
      in (To_Retrying, save_pipe p6))"

definition retry_or_fail ::
    "pipe_config \<Rightarrow> 'w pipe_env \<Rightarrow> string \<Rightarrow> string \<Rightarrow> retry_context option \<Rightarrow> string \<Rightarrow> string \<Rightarrow> string list \<Rightarrow>
     bool \<Rightarrow> int option \<Rightarrow> 'w pipe \<Rightarrow> pipe_transition \<times> 'w pipe" where
  "retry_or_fail cfg env cid error context phase check signatures fresh_base failures p =
     (case record_failure_count cid phase failures (record_failure_signatures env cid phase error signatures p) of
        (counts, p1) \<Rightarrow>
          (if retries_of (the_component p1 cid) < pf_max_retries cfg
           then
             (if failure_counts_not_converging counts (pf_convergence cfg)
              then fail_not_converging cfg env cid counts p1
              else schedule_retry cfg env cid error context phase check fresh_base failures p1)
           else fail_component cfg env cid error phase check signatures p1))"

text \<open>The contract loop has already moved the retry counter when it records its failure here.\<close>

definition record_contract_failure :: "string \<Rightarrow> int \<Rightarrow> string \<Rightarrow> 'w pipe \<Rightarrow> context_error + 'w pipe" where
  "record_contract_failure cid attempt test_output p =
     (let c = (case dict_get (pp_contexts p) cid of None \<Rightarrow> empty_context | Some c \<Rightarrow> c)
      in and_then (add_contract_failure test_output attempt c) (\<lambda>c'.
           Inr (p\<lparr>pp_contexts := dict_set (pp_contexts p) cid (merge_phase_readings cid c' p),
                  pp_counts := dict_del (pp_counts p) cid\<rparr>)))"

section \<open>Ceilings\<close>

definition comma_list :: "string list \<Rightarrow> string" where
  "comma_list ks = join_with '', '' ks"

definition budget_error ::
    "pipe_config \<Rightarrow> 'w pipe_env \<Rightarrow> string \<Rightarrow> string \<Rightarrow> string list \<Rightarrow> 'w pipe \<Rightarrow> string" where
  "budget_error cfg env reason condition ceilings p =
     (if reason \<noteq> [] then reason
      else if condition = ''unenforceable''
      then ''budget ceiling unenforceable ('' @ comma_list ceilings @ ''): no '' @
           ''configured ceiling can still fire, so the run cannot be '' @
           ''bounded; halting rather than spending under a cap that '' @ ''cannot trip (R8)''
      else if ceilings = [cost_ceiling]
      then ''cost budget exceeded: $'' @ pe_cost6 env (ut_cost (pp_run_usage p)) @ '' '' @
           ''recorded >= max_cost_usd '' @ ''($'' @ pe_float env (pf_max_cost cfg) @ ''); halting instead of '' @
           ''spending further (R8)''
      else ''token budget exceeded: '' @ int_text (ut_total (pp_run_usage p)) @ '' total '' @
           ''tokens recorded >= max_total_tokens '' @ ''('' @ int_text (pf_max_tokens cfg) @ ''); halting instead '' @
           ''of spending further (R3.1)'')"

definition run_coverage :: "pipe_config \<Rightarrow> 'w pipe \<Rightarrow> ceiling_coverage list" where
  "run_coverage cfg p = somes (map (pipe_ceiling_coverage cfg p) (map fst ceiling_axes))"

definition with_notes :: "string \<Rightarrow> ceiling_coverage list \<Rightarrow> string" where
  "with_notes error coverage =
     (let notes = filter (\<lambda>n. n \<noteq> []) (map coverage_note coverage)
      in if notes = [] then error else error @ '' ['' @ join_with ''; '' notes @ '']'')"

definition fail_for_budget ::
    "pipe_config \<Rightarrow> 'w pipe_env \<Rightarrow> string \<Rightarrow> string \<Rightarrow> string \<Rightarrow> string \<Rightarrow> string list \<Rightarrow> 'w pipe \<Rightarrow> pipe_transition \<times> 'w pipe" where
  "fail_for_budget cfg env cid phase reason condition0 ceilings0 p =
     (let (condition, ceilings) =
            (if ceilings0 = [] then budget_halt_identity cfg p else (condition0, ceilings0));
          coverage = run_coverage cfg p;
          error = with_notes (budget_error cfg env reason condition ceilings p) coverage;
          key = comma_list ceilings;
          label = (if key = [] then ''budget'' else key);
          p1 = add_findings cid [infrastructure_finding phase error] p;
          p2 = emit (Budget_Exceeded cid (ut_total (pp_run_usage p1)) (pf_max_tokens cfg)
                 (pe_round env 6 (ut_cost (pp_run_usage p1))) (pf_max_cost cfg) key condition ceilings
                 (map ceiling_coverage_dict coverage)) p1;
          p3 = pipe_inbox_add cfg env BUDGET_OVERRUN (cid @ '' exceeded the '' @ label @ '' budget'') error cid
                 (''budget:'' @ cid)
                 [(''phase'', JStr phase), (''ceiling'', JStr key), (''condition'', JStr condition),
                  (''total_tokens'', JInt (ut_total (pp_run_usage p2))),
                  (''max_total_tokens'', JInt (pf_max_tokens cfg)),
                  (''cost_usd'', JFloat (pe_round env 6 (ut_cost (pp_run_usage p2)))),
                  (''max_cost_usd'', JFloat (pf_max_cost cfg)),
                  (''coverage'', JList (map (\<lambda>c. JObj (ceiling_coverage_dict c)) coverage))] p2
      in fail_component cfg env cid error phase ''token_budget'' [''token_budget:exceeded'']
           (suppress_generic cid p3))"

section \<open>Completing\<close>

definition complete :: "pipe_config \<Rightarrow> 'w pipe_env \<Rightarrow> string \<Rightarrow> 'w pipe \<Rightarrow> pipe_transition \<times> 'w pipe" where
  "complete cfg env cid p =
     (let p1 = update_component cid (\<lambda>c. c\<lparr>c_status := COMPLETED, c_error := JStr []\<rparr>) p;
          p2 = p1\<lparr>pp_signatures := dict_del (pp_signatures p1) cid\<rparr>;
          p3 = end_attempt env cid
                 (update_component cid (\<lambda>c. c\<lparr>c_completed_at := JStr (pe_iso env (pp_world p))\<rparr>) p2);
          p4 = p3\<lparr>pp_completed := pp_completed p3 @ [cid]\<rparr>;
          c = the_component p4 cid;
          p5 = save_pipe (emit (Component_Completed cid (c_duration_seconds c) (c_iteration_count c)) p4)
      in (To_Completed, inbox_resolve_component cfg env cid [] p5))"

section \<open>The scheduler's backstop\<close>

definition backstop_component :: "pipe_config \<Rightarrow> 'w pipe_env \<Rightarrow> string \<Rightarrow> 'w pipe \<Rightarrow> 'w pipe" where
  "backstop_component cfg env cid p =
     (let p1 = mark_failed env cid ''component timeout'' ''engineer'' ''scheduler_backstop'' p;
          p2 = end_attempt env cid (p1\<lparr>pp_signatures := dict_set (pp_signatures p1) cid [''engineer:component-timeout'']\<rparr>);
          p3 = (case dict_get (pp_worktrees p2) cid of
                  None \<Rightarrow> p2 | Some w \<Rightarrow> update_component cid (\<lambda>c. c\<lparr>c_evidence_worktree := JStr w\<rparr>) p2);
          p4 = pipe_cascade_skip env cid p3;
          p5 = p4\<lparr>pp_failed := pp_failed p4 @ [cid]\<rparr>;
          took = (case dict_get (pp_started p5) cid of
                    None \<Rightarrow> 0 | Some s \<Rightarrow> gx_clock (pe_gh env) (pp_world p5) - s);
          p6 = emit (Phase_Completed cid ''engineer'' False ''component timeout'' (pe_round env 2 took)) p5
      in fire_first_failure cfg cid ''component timeout'' (emit (Component_Failed cid ''component timeout'') p6))"

definition fail_scheduler_backstop :: "pipe_config \<Rightarrow> 'w pipe_env \<Rightarrow> string \<Rightarrow> rat \<Rightarrow> 'w pipe \<Rightarrow> 'w pipe" where
  "fail_scheduler_backstop cfg env cid seconds p =
     (let p1 = (case get_component (pipe_components p) cid of
                  None \<Rightarrow> p | Some c \<Rightarrow> backstop_component cfg env cid p)
      in save_pipe (pipe_inbox_add cfg env HALTED_RUN (cid @ '' abandoned by the scheduler backstop'')
           (''no result after '' @ pe_float env seconds @ ''s; the worker may still '' @
            ''be alive, so its worktree was left in place'') cid
           (''halted:'' @ cid @ '':backstop'') [(''backstop_seconds'', JFloat seconds)] p1))"

section \<open>Routing a phase's failure\<close>

definition route_failure ::
    "pipe_config \<Rightarrow> 'w pipe_env \<Rightarrow> string \<Rightarrow> phase_failure \<Rightarrow> 'w pipe \<Rightarrow> pipe_transition \<times> 'w pipe" where
  "route_failure cfg env cid f p =
     (case pl_action f of
        Over_Budget \<Rightarrow> fail_for_budget cfg env cid (pl_phase f) [] [] [] p
      | Fail_Now \<Rightarrow> fail_component cfg env cid (pl_error f) (pl_phase f) (pl_check f) (pl_signatures f) p
      | Retry_Or_Fail \<Rightarrow>
          retry_or_fail cfg env cid (pl_error f) (pl_context f) (pl_phase f) (pl_check f) (pl_signatures f)
            False (pl_count f) p)"

end
