(* ===== verification/Pipeline_Merge.thy ===== *)
theory Pipeline_Merge
  imports Pipeline
begin

text \<open>
  \<open>kstrl/pipeline/pipeline_merge.py\<close>: the PR step of a component, the parks, the retry after a merge
  conflict, the record of a merge and what is done with the operator's merge decisions. \<open>None\<close> of a
  step is a wait for a merge that never ends (\<open>pr_step_terminates\<close> of \<open>Merge_Contract\<close> rules it
  out for a clock that moves).
\<close>

section \<open>Vocabulary\<close>

definition reject_check :: string where "reject_check = ''hitl_reject''"
definition closed_check :: string where "closed_check = ''pr_closed''"

datatype pr_disposition = Pr_Skipped | Pr_Merged_Now | Pr_Pending | Pr_Conflict | Pr_Failed | Pr_No_Gh

record pr_phase =
  px_disposition :: pr_disposition
  px_url :: string
  px_error :: string
  px_check :: string

definition pr_phase_of :: "pr_disposition \<Rightarrow> string \<Rightarrow> string \<Rightarrow> pr_phase" where
  "pr_phase_of d url error = \<lparr>px_disposition = d, px_url = url, px_error = error, px_check = ''pr_flow''\<rparr>"

definition url_of :: "component \<Rightarrow> string" where "url_of c = jstr_of (c_pr_url c)"
definition error_of :: "component \<Rightarrow> string" where "error_of c = jstr_of (c_error c)"

text \<open>What the engineer's worker returned. The context is the object its JSON text stands for.\<close>

record survivor =
  sv_pid :: int
  sv_pgid :: int
  sv_command :: string
  sv_cwd :: string
  sv_not_killed :: string

record worktree_sweep =
  sw_survivors :: "survivor list"
  sw_error :: string

definition nothing_swept :: worktree_sweep where
  "nothing_swept = \<lparr>sw_survivors = [], sw_error = []\<rparr>"

record component_result =
  cp_success :: bool
  cp_iterations :: int
  cp_error :: "string option"
  cp_duration :: rat
  cp_context :: "retry_context option"
  cp_usage :: "usage_totals option"
  cp_no_progress :: bool
  cp_budget_exceeded :: bool
  cp_halt_condition :: string
  cp_halt_ceilings :: "string list"
  cp_guard_violations :: "string list"
  cp_sweep :: worktree_sweep

definition result_context :: "component_result \<Rightarrow> retry_context" where
  "result_context r = (case cp_context r of None \<Rightarrow> empty_context | Some c \<Rightarrow> c)"

text \<open>Every phase the pipeline names is in the table, so adding an entry does not raise
  (\<open>entry_added\<close> below).\<close>

definition added :: "retry_context \<Rightarrow> context_error + retry_context \<Rightarrow> retry_context" where
  "added c r = (case r of Inl e \<Rightarrow> c | Inr c' \<Rightarrow> c')"

lemma entry_added:
  assumes "phase \<in> set (map fst phase_ranks)"
  shows "\<exists>c'. add_entry txt attempt phase infra c = Inr c'"
proof -
  from assms have "phase_rank phase \<noteq> None"
    by (auto simp: phase_rank_def map_of_eq_None_iff)
  then show ?thesis
    by (auto simp: add_entry_def require_known_phase_def and_then_def)
qed

section \<open>Parking\<close>

definition park_merge_pending ::
    "pipe_config \<Rightarrow> 'w pipe_env \<Rightarrow> string \<Rightarrow> string \<Rightarrow> 'w pipe \<Rightarrow> pipe_transition \<times> 'w pipe" where
  "park_merge_pending cfg env cid error p =
     (let p1 = update_component cid (\<lambda>c. c\<lparr>c_status := MERGE_PENDING, c_error := JStr error\<rparr>) p;
          url = url_of (the_component p1 cid);
          p2 = emit (Merge_Pending_V1 cid url error) (emit (Pr_Merge_Pending cid url error) p1);
          p3 = fire_merge_pending cfg cid error p2;
          p4 = pipe_inbox_add cfg env MERGE_GATE (cid @ '' merge unconfirmed'') error cid (''merge:'' @ cid)
                 [(''pr_url'', JStr url)] p3
      in (To_Merge_Pending, save_pipe (end_attempt env cid p4)))"

definition no_gate_item :: "string \<Rightarrow> string" where
  "no_gate_item cid =
     ''Stopped at the merge gate with nothing to approve it: no open '' @
     ''merge_gate inbox item ([inbox] disabled or unwritable), so '' @
     ''nothing was pushed; `ks retry '' @ cid @ ''` rebuilds it''"

definition parked_awaiting :: string where
  "parked_awaiting =
     ''Parked awaiting merge approval (pause_before_pr_merge, nobody '' @
     ''answered the gate); `ks inbox approve <id>` merges it''"

definition has_open_item :: "inbox_item option \<Rightarrow> bool" where
  "has_open_item d = (case d of None \<Rightarrow> False | Some i \<Rightarrow> ii_status i = OPEN)"

definition park_awaiting_approval ::
    "pipe_config \<Rightarrow> 'w pipe_env \<Rightarrow> string \<Rightarrow> 'w pipe \<Rightarrow> pipe_transition \<times> 'w pipe" where
  "park_awaiting_approval cfg env cid p =
     (if \<not> has_open_item (park_decision cfg env cid p)
      then fail_component cfg env cid (no_gate_item cid) ''pr'' ''merge_gate'' [] p
      else
        (let p1 = update_component cid (\<lambda>c. c\<lparr>c_status := AWAITING_APPROVAL, c_error := JStr parked_awaiting\<rparr>) p
         in (To_Awaiting_Approval, save_pipe (end_attempt env cid p1))))"

section \<open>A merge conflict\<close>

definition conflict_record :: "component_result \<Rightarrow> int \<Rightarrow> iteration_record" where
  "conflict_record r attempt =
     \<lparr>ir_iteration = cp_iterations r, ir_success = False,
      ir_error = Some (''The previous attempt's PR hit a merge conflict with the '' @
        ''base branch; this attempt starts from the freshly merged '' @
        ''base, which already contains the sibling changes''),
      ir_summary = [], ir_attempt = attempt\<rparr>"

text \<open>\<open>comp.pr_number or pr_number_from_url(comp.pr_url or pr.pr_url)\<close>; 0 is no number.\<close>

definition conflicting_pr :: "component \<Rightarrow> pr_phase \<Rightarrow> int" where
  "conflicting_pr c pr = component_pr_number c (or_text (url_of c) (px_url pr))"

definition retry_after_conflict ::
    "pipe_config \<Rightarrow> 'w pipe_env \<Rightarrow> string \<Rightarrow> component_result \<Rightarrow> pr_phase \<Rightarrow> 'w pipe \<Rightarrow> pipe_transition \<times> 'w pipe" where
  "retry_after_conflict cfg env cid r pr p =
     (let c = the_component p cid;
          n = conflicting_pr c pr;
          p1 = (if n = 0 then p
                else p\<lparr>pp_world := snd (close_pr_for_rerun (pe_gh env) n (c_branch_name c) (pp_world p))\<rparr>);
          p2 = update_component cid (\<lambda>c. c\<lparr>c_pr_number := JNull, c_pr_url := JStr []\<rparr>) p1
      in retry_or_fail cfg env cid (or_text (px_error pr) ''PR conflicts with base'')
           (Some (add_iteration (conflict_record r (attempt_number p2 cid)) (result_context r)))
           ''pr'' ''merge_conflict'' [''pr:merge-conflict''] True None p2)"

section \<open>Failing in the PR flow\<close>

definition fail_pr_flow ::
    "pipe_config \<Rightarrow> 'w pipe_env \<Rightarrow> string \<Rightarrow> string \<Rightarrow> string \<Rightarrow> 'w pipe \<Rightarrow> pipe_transition \<times> 'w pipe" where
  "fail_pr_flow cfg env cid error check p =
     (let p1 = mark_failed env cid error ''pr'' check p;
          p2 = record_failure_signatures env cid ''pr'' error [] p1;
          p3 = pipe_cascade_skip env cid (end_attempt env cid p2);
          p4 = emit (Component_Failed cid error) (p3\<lparr>pp_failed := pp_failed p3 @ [cid]\<rparr>);
          p5 = fire_first_failure cfg cid error p4;
          p6 = pipe_inbox_add cfg env HALTED_RUN (cid @ '' halted in the PR flow'') error cid
                 (''halted:'' @ cid @ '':pr'')
                 [(''phase'', JStr ''pr''), (''pr_url'', JStr (url_of (the_component p5 cid)))] p5
      in (To_Failed, save_pipe p6))"

section \<open>The merge record\<close>

definition record_merge :: "string \<Rightarrow> string \<Rightarrow> string \<Rightarrow> 'w pipe \<Rightarrow> 'w pipe" where
  "record_merge cid merge_sha head_sha p =
     (let p1 = update_component cid (\<lambda>c. c\<lparr>c_merge_sha := JStr merge_sha\<rparr>) p;
          p2 = save_pipe (p1\<lparr>pp_merged := dict_set (pp_merged p1) cid head_sha\<rparr>);
          c = the_component p2 cid
      in emit (Pr_Merged cid (component_pr_number c (url_of c)) (url_of c) merge_sha) p2)"

section \<open>The PR step\<close>

definition pr_number_or_zero :: "component \<Rightarrow> int" where
  "pr_number_or_zero c = (case c_pr_number c of JInt n \<Rightarrow> n | _ \<Rightarrow> 0)"

definition note_pr_created :: "string \<Rightarrow> string \<Rightarrow> 'w pipe \<Rightarrow> 'w pipe" where
  "note_pr_created cid url p =
     (if url = [] then p
      else emit (Pr_Created cid (pr_number_or_zero (the_component p cid)) url)
             (p\<lparr>pp_pr_urls := pp_pr_urls p @ [url]\<rparr>))"

definition error_or :: "string option \<Rightarrow> string \<Rightarrow> string" where
  "error_or e fallback = (case e of None \<Rightarrow> fallback | Some s \<Rightarrow> or_text s fallback)"

definition unmerged_phase :: "pr_outcome \<Rightarrow> pr_phase" where
  "unmerged_phase r =
     (if po_merge_conflict r
      then pr_phase_of Pr_Conflict (po_pr_url r) (error_or (po_error r) ''PR conflicts with base'')
      else if po_merge_pending r
      then pr_phase_of Pr_Pending (po_pr_url r) (error_or (po_error r) ''PR merge not confirmed'')
      else (pr_phase_of Pr_Failed (po_pr_url r) (error_or (po_error r) ''PR flow failed''))\<lparr>
             px_check := (if po_closed r then closed_check else ''pr_flow'')\<rparr>)"

definition phase_pr :: "pipe_config \<Rightarrow> 'w pipe_env \<Rightarrow> string \<Rightarrow> 'w pipe \<Rightarrow> (pr_phase \<times> 'w pipe) option" where
  "phase_pr cfg env cid p =
     (case is_gh_available (pe_gh env) (pp_world p) of
        (available, w) \<Rightarrow>
          (let p0 = p\<lparr>pp_world := w\<rparr> in
           if \<not> available then Some (pr_phase_of Pr_No_Gh [] [], p0)
           else
             (case push_create_and_merge_pr (pe_gh env) (the_component p0 cid) (pp_manifest p0) ''squash''
                     (pf_merge_timeout cfg) w of
                None \<Rightarrow> None
              | Some (r, cm, w') \<Rightarrow>
                  (let p1 = update_component cid
                              (\<lambda>c. c\<lparr>c_pr_number := c_pr_number cm, c_pr_url := c_pr_url cm\<rparr>) (p0\<lparr>pp_world := w'\<rparr>);
                       p2 = save_pipe (note_pr_created cid (po_pr_url r) p1)
                   in if \<not> po_merged r then Some (unmerged_phase r, p2)
                      else Some (pr_phase_of Pr_Merged_Now (po_pr_url r) [],
                                 record_merge cid (po_merge_sha r) (po_head_sha r) p2)))))"

section \<open>Merge decisions\<close>

definition approved_head_of :: "'w pipe_env \<Rightarrow> inbox_item \<Rightarrow> string" where
  "approved_head_of env d =
     (let v = evidence_get d ''head_sha'' in if truthy v then py_str (gx_rep (pe_gh env)) v else [])"

definition branch_head :: "'w pipe_env \<Rightarrow> string \<Rightarrow> 'w pipe \<Rightarrow> string" where
  "branch_head env cid p =
     (case pe_branch_sha env (c_branch_name (the_component p cid)) (pp_world p) of None \<Rightarrow> [] | Some s \<Rightarrow> s)"

definition approval_mismatch :: "string \<Rightarrow> string \<Rightarrow> string \<Rightarrow> string" where
  "approval_mismatch approved branch head =
     ''merge approval does not match the branch: approved '' @
     or_text approved ''no recorded commit'' @ '', '' @ quoted branch @ '' is '' @
     ''now at '' @ or_text head ''nothing'' @ ''; nothing was pushed''"

definition merge_approved :: "pipe_config \<Rightarrow> 'w pipe_env \<Rightarrow> string \<Rightarrow> inbox_item \<Rightarrow> 'w pipe \<Rightarrow> 'w pipe option" where
  "merge_approved cfg env cid d p =
     (let approved = approved_head_of env d; head = branch_head env cid p
      in if approved = [] \<or> head \<noteq> approved
         then Some (snd (fail_component cfg env cid
                (approval_mismatch approved (c_branch_name (the_component p cid)) head) ''pr'' ''merge_gate'' [] p))
         else
           (case phase_pr cfg env cid p of
              None \<Rightarrow> None
            | Some (pr, p1) \<Rightarrow>
                Some (snd (if px_disposition pr = Pr_Merged_Now \<or> px_disposition pr = Pr_No_Gh
                           then complete cfg env cid p1
                           else if px_disposition pr = Pr_Pending
                           then park_merge_pending cfg env cid (px_error pr) p1
                           else fail_pr_flow cfg env cid (or_text (px_error pr) ''PR flow failed'') (px_check pr) p1))))"

definition apply_decision :: "pipe_config \<Rightarrow> 'w pipe_env \<Rightarrow> string \<Rightarrow> 'w pipe \<Rightarrow> 'w pipe option" where
  "apply_decision cfg env cid p =
     (case park_decision cfg env cid p of
        None \<Rightarrow> Some p
      | Some d \<Rightarrow>
          (if ii_status d = APPROVED then merge_approved cfg env cid d p
           else if ii_status d = REJECTED
           then Some (snd (fail_component cfg env cid
                  (''Rejected at the merge gate: '' @ ii_decision_comment d) ''pr'' reject_check
                  [''review:hitl-rejected''] (suppress_generic cid p)))
           else Some p))"

fun apply_decisions :: "pipe_config \<Rightarrow> 'w pipe_env \<Rightarrow> string list \<Rightarrow> 'w pipe \<Rightarrow> 'w pipe option" where
  "apply_decisions cfg env [] p = Some p"
| "apply_decisions cfg env (cid # cids) p =
     (case apply_decision cfg env cid p of None \<Rightarrow> None | Some p' \<Rightarrow> apply_decisions cfg env cids p')"

definition ids_with :: "component_status \<Rightarrow> 'w pipe \<Rightarrow> string list" where
  "ids_with s p = map c_id (filter (\<lambda>c. c_status c = s) (pipe_components p))"

definition apply_merge_decisions :: "pipe_config \<Rightarrow> 'w pipe_env \<Rightarrow> 'w pipe \<Rightarrow> 'w pipe option" where
  "apply_merge_decisions cfg env p = apply_decisions cfg env (ids_with AWAITING_APPROVAL p) p"

section \<open>Polling a parked pull request again\<close>

definition repolled_merged :: "pipe_config \<Rightarrow> 'w pipe_env \<Rightarrow> string \<Rightarrow> int \<Rightarrow> merge_confirmation \<Rightarrow> 'w pipe \<Rightarrow> 'w pipe" where
  "repolled_merged cfg env cid n m p =
     (let p1 = p\<lparr>pp_world := snd (fetch_base_branch (pe_gh env) (m_base_branch (pp_manifest p)) (pp_world p))\<rparr>;
          p2 = record_merge cid (mc_merge_sha m) (mc_head_sha m) p1;
          p3 = update_component cid (\<lambda>c.
                 c\<lparr>c_status := COMPLETED, c_error := JStr [], c_completed_at := JStr (pe_iso env (pp_world p2))\<rparr>) p2;
          p4 = p3\<lparr>pp_signatures := dict_del (pp_signatures p3) cid, pp_completed := pp_completed p3 @ [cid]\<rparr>;
          c = the_component p4 cid;
          p5 = emit (Component_Completed cid (c_duration_seconds c) (c_iteration_count c)) p4
      in inbox_resolve_component cfg env cid (''PR '' @ pr_text n @ '' merged'') p5)"

definition repolled_closed :: "pipe_config \<Rightarrow> 'w pipe_env \<Rightarrow> string \<Rightarrow> int \<Rightarrow> 'w pipe \<Rightarrow> 'w pipe" where
  "repolled_closed cfg env cid n p =
     (let error = ''PR '' @ pr_text n @ '' closed without merge'';
          p1 = mark_failed env cid error ''pr'' closed_check p;
          p2 = inbox_resolve_key cfg env (''merge:'' @ cid) (''PR '' @ pr_text n @ '' closed without merging'') p1;
          p3 = pipe_inbox_add cfg env HALTED_RUN (cid @ '': PR closed without merging'') error cid
                 (''halted:'' @ cid @ '':pr-closed'') [(''pr_number'', JInt n)] p2;
          p4 = p3\<lparr>pp_signatures := dict_set (pp_signatures p3) cid [''pr:closed-without-merge'']\<rparr>;
          p5 = pipe_cascade_skip env cid p4;
          p6 = emit (Component_Failed cid error) (p5\<lparr>pp_failed := pp_failed p5 @ [cid]\<rparr>)
      in fire_first_failure cfg cid error p6)"

definition repoll_one :: "pipe_config \<Rightarrow> 'w pipe_env \<Rightarrow> string \<Rightarrow> 'w pipe \<Rightarrow> 'w pipe option" where
  "repoll_one cfg env cid p =
     (let c = the_component p cid; n = component_pr_number c (url_of c)
      in if n = 0 then Some p
         else
           (case wait_for_merge (pe_gh env) n (pf_merge_timeout cfg) (pp_world p) of
              None \<Rightarrow> None
            | Some (m, w) \<Rightarrow>
                (let p1 = p\<lparr>pp_world := w\<rparr>
                 in Some (case mc_state m of
                            Merged \<Rightarrow> repolled_merged cfg env cid n m p1
                          | Closed \<Rightarrow> repolled_closed cfg env cid n p1
                          | Pending \<Rightarrow> p1))))"

fun repoll_each :: "pipe_config \<Rightarrow> 'w pipe_env \<Rightarrow> string list \<Rightarrow> 'w pipe \<Rightarrow> 'w pipe option" where
  "repoll_each cfg env [] p = Some p"
| "repoll_each cfg env (cid # cids) p =
     (case repoll_one cfg env cid p of None \<Rightarrow> None | Some p' \<Rightarrow> repoll_each cfg env cids p')"

definition repoll_merge_pending :: "pipe_config \<Rightarrow> 'w pipe_env \<Rightarrow> 'w pipe \<Rightarrow> 'w pipe option" where
  "repoll_merge_pending cfg env p =
     (let ids = ids_with MERGE_PENDING p
      in if ids = [] then Some p
         else if \<not> pf_create_prs cfg then Some (save_pipe p)
         else
           (case is_gh_available (pe_gh env) (pp_world p) of
              (available, w) \<Rightarrow>
                (if \<not> available then Some (save_pipe (p\<lparr>pp_world := w\<rparr>))
                 else map_option save_pipe (repoll_each cfg env ids (p\<lparr>pp_world := w\<rparr>)))))"

end
