(* ===== verification/Pipeline_Phases.thy ===== *)
theory Pipeline_Phases
  imports Pipeline_Merge Verify_Diff Verify_Model
begin

text \<open>
  \<open>kstrl/pipeline/pipeline_checks.py\<close>, \<open>pipeline_verdicts.py\<close>, \<open>pipeline_review.py\<close>,
  \<open>pipeline_security.py\<close>, \<open>pipeline_knowledge.py\<close> and \<open>sweep_findings\<close> of
  \<open>kstrl/proc/worktree_sweep.py\<close>: the phases of one attempt. What the factory injects
  (\<open>PipelineHooks\<close>), the agents, git and the files of a worktree are \<open>pipe_hooks\<close>; \<open>Verify\<close>,
  \<open>Review\<close> and \<open>Security\<close> model what stands behind the first ones.
\<close>

section \<open>Outside\<close>

text \<open>An agent's call: the reason it crashed or its result, what it used (\<open>None\<close> when no agent could
  be built) and the world.\<close>

record ('r, 'w) agent_run =
  ag_result :: "string + 'r"
  ag_usage :: "usage_totals option"
  ag_world :: 'w

record acceptance_outcome =
  ao_passed :: bool
  ao_checks :: "string list"
  ao_failures :: "string list"
  ao_failing :: "string list"
  ao_held_out :: "string list"
  ao_told :: "string list"
  ao_disputed :: "string list"
  ao_stopped :: "string list"

text \<open>\<open>hk_measure\<close> is \<open>measure_fact_utilization\<close> on the prefix, the progress file and the diff, with
  the text of its exception; \<open>hk_diff\<close> and \<open>hk_stored_sha\<close> give git's error as \<open>Inl\<close>.\<close>

record 'w pipe_hooks =
  hk_can_prompt :: "'w \<Rightarrow> bool"
  hk_prompt :: "string \<Rightarrow> 'w \<Rightarrow> int option \<times> 'w"
  hk_cleanup :: "string \<Rightarrow> 'w \<Rightarrow> worktree_sweep \<times> 'w"
  hk_setup :: "string \<Rightarrow> 'w \<Rightarrow> string \<times> 'w"
  hk_head :: "string \<Rightarrow> 'w \<Rightarrow> string option"
  hk_diff :: "string \<Rightarrow> string \<Rightarrow> 'w \<Rightarrow> string + string"
  hk_stored_sha :: "string \<Rightarrow> string \<Rightarrow> 'w \<Rightarrow> string + string"
  hk_numstat :: "string \<Rightarrow> string \<Rightarrow> 'w \<Rightarrow> string + (int \<times> int)"
  hk_verify :: "string \<Rightarrow> string \<Rightarrow> waivers \<Rightarrow> 'w \<Rightarrow> verification_result \<times> 'w"
  hk_gate_logs :: "string \<Rightarrow> int \<Rightarrow> verification_result \<Rightarrow> 'w \<Rightarrow> string list \<times> 'w"
  hk_acceptance :: "string \<Rightarrow> string \<Rightarrow> int \<Rightarrow> inbox_item list \<Rightarrow> 'w \<Rightarrow> acceptance_outcome option \<times> 'w"
  hk_halt_text :: "acceptance_outcome \<Rightarrow> string \<Rightarrow> string \<Rightarrow> string"
  hk_review :: "string \<Rightarrow> string \<Rightarrow> verification_result \<Rightarrow> review_mode \<Rightarrow> 'w \<Rightarrow> (review_result, 'w) agent_run"
  hk_security :: "string \<Rightarrow> string \<Rightarrow> security_config \<Rightarrow> 'w \<Rightarrow> (security_result, 'w) agent_run"
  hk_reviewer :: string
  hk_security_reviewer :: string
  hk_read_prd :: "string \<Rightarrow> 'w \<Rightarrow> string + prd"
  hk_save_prd :: "string \<Rightarrow> prd \<Rightarrow> 'w \<Rightarrow> string option \<times> 'w"
  hk_distill :: "string \<Rightarrow> string \<Rightarrow> int \<Rightarrow> 'w \<Rightarrow> (int \<times> bool, 'w) agent_run"
  hk_measure :: "string \<Rightarrow> string \<Rightarrow> string \<Rightarrow> 'w \<Rightarrow> string + fact_utilization"
  hk_digest :: digest

section \<open>What an attempt left running\<close>

definition orphan_category :: string where "orphan_category = ''orphan_process''"

definition describe_survivor :: "survivor \<Rightarrow> string" where
  "describe_survivor s =
     ''pid '' @ int_text (sv_pid s) @ '' ('' @ sv_command s @ '', group '' @ int_text (sv_pgid s) @
     '') was still running in '' @ sv_cwd s @ ''; '' @
     (if sv_not_killed s = [] then ''killed its process group'' else ''not killed: '' @ sv_not_killed s)"

definition orphan_finding :: "string \<Rightarrow> string \<Rightarrow> string \<Rightarrow> string list \<Rightarrow> finding" where
  "orphan_finding phase location explanation tags =
     \<lparr>fi_phase = phase, fi_category = orphan_category, fi_severity = ''advisory'', fi_location = location,
      fi_explanation = explanation, fi_suggestion = [], fi_owasp = [], fi_cwe = [], fi_tags = tags\<rparr>"

definition sweep_findings :: "worktree_sweep \<Rightarrow> string \<Rightarrow> finding list" where
  "sweep_findings sw phase =
     map (\<lambda>s. orphan_finding phase (sv_cwd s) (describe_survivor s) [orphan_category]) (sw_survivors sw) @
     (if sw_error sw = [] then []
      else [orphan_finding phase [] (''the worktree process census could not run: '' @ sw_error sw)
              [orphan_category, ''census_failed'']])"

section \<open>Failures\<close>

definition wall :: "string \<Rightarrow> string \<Rightarrow> string \<Rightarrow> string list \<Rightarrow> phase_failure" where
  "wall error phase check signatures =
     \<lparr>pl_action = Fail_Now, pl_error = error, pl_phase = phase, pl_check = check, pl_context = None,
      pl_signatures = signatures, pl_count = None\<rparr>"

definition retryable ::
    "string \<Rightarrow> string \<Rightarrow> string \<Rightarrow> retry_context \<Rightarrow> string list \<Rightarrow> int option \<Rightarrow> phase_failure" where
  "retryable error phase check context signatures failures =
     \<lparr>pl_action = Retry_Or_Fail, pl_error = error, pl_phase = phase, pl_check = check, pl_context = Some context,
      pl_signatures = signatures, pl_count = failures\<rparr>"

definition over_budget :: "string \<Rightarrow> string \<Rightarrow> phase_failure" where
  "over_budget ceiling_name phase =
     \<lparr>pl_action = Over_Budget, pl_error = ''budget exceeded ('' @ ceiling_name @ '')'', pl_phase = phase,
      pl_check = [], pl_context = None, pl_signatures = [], pl_count = None\<rparr>"

section \<open>Signatures\<close>

text \<open>\<open>list(dict.fromkeys(xs))\<close>\<close>

definition dedup_first :: "'a list \<Rightarrow> 'a list" where
  "dedup_first xs = rev (remdups (rev xs))"

definition max_signatures_per_check :: nat where "max_signatures_per_check = 5"

definition signatures_from_verification :: "'w pipe_env \<Rightarrow> check_result list \<Rightarrow> string list" where
  "signatures_from_verification env cs =
     dedup_first (map (\<lambda>c. pe_signature env (ck_name c) (ck_message c)) (filter (\<lambda>c. \<not> ck_passed c) cs))"

definition signature_of_finding :: "string \<Rightarrow> string list \<Rightarrow> finding \<Rightarrow> string option" where
  "signature_of_finding phase gating f =
     (if is_infrastructure_error f then Some (phase @ '':infrastructure'')
      else if fi_severity f \<in> set gating then Some (phase @ '':'' @ fi_category f)
      else None)"

definition signatures_from_findings :: "string \<Rightarrow> finding list \<Rightarrow> string list \<Rightarrow> string list" where
  "signatures_from_findings phase fs gating =
     take max_signatures_per_check (dedup_first (somes (map (signature_of_finding phase gating) fs)))"

definition review_gating :: "string list" where
  "review_gating = [''fail'', ''critical'', ''high'']"

section \<open>Phase 1\<close>

record verify_phase =
  vp_ran :: bool
  vp_verification :: verification_result
  vp_failure :: "phase_failure option"

text \<open>A scope that could not be read is a wall; every other failing check may be retried.\<close>

fun verify_routing :: "check_result list \<Rightarrow> failure_action \<times> string" where
  "verify_routing [] = (Retry_Or_Fail, ''Mechanical verification failed'')"
| "verify_routing (c # cs) =
     (if ck_name c = scope_unreadable_check
      then (Fail_Now, scope_unreadable_error (case ck_details c of [] \<Rightarrow> ck_message c | d # _ \<Rightarrow> d))
      else verify_routing cs)"

text \<open>The commit Phase 1 judges and the digest of its diff; either is empty when git cannot answer.\<close>

definition judged_change :: "'w pipe_env \<Rightarrow> 'w pipe_hooks \<Rightarrow> string \<Rightarrow> 'w pipe \<Rightarrow> string \<times> string" where
  "judged_change env hk cid p =
     (branch_head env cid p,
      case hk_stored_sha hk cid (component_base p cid) (pp_world p) of Inl e \<Rightarrow> [] | Inr s \<Rightarrow> s)"

definition waivable_evidence ::
    "'w pipe_hooks \<Rightarrow> string \<Rightarrow> finding \<Rightarrow> string \<times> string \<Rightarrow> 'w pipe \<Rightarrow> json_object" where
  "waivable_evidence hk cid f change p =
     [(''category'', JStr (fi_category f)), (''severity'', JStr (fi_severity f)),
      (''location'', JStr (fi_location f)), (''suggestion'', JStr (fi_suggestion f)),
      (''explanation'', JStr (fi_explanation f)), (''plan_id'', JStr (c_plan_id (the_component p cid))),
      (''waiver_key'', JStr (scope_key (hk_digest hk) (pipe_waiver_scope p cid) f)),
      (''head_sha'', JStr (fst change)), (''diff_sha'', JStr (snd change))]"

definition needs_exception :: "finding \<Rightarrow> bool" where
  "needs_exception f = (startswith (fi_category f) policy_category_prefix \<and> fi_severity f \<noteq> ''advisory'')"

definition file_exception ::
    "pipe_config \<Rightarrow> 'w pipe_env \<Rightarrow> 'w pipe_hooks \<Rightarrow> string \<Rightarrow> string \<times> string \<Rightarrow> 'w pipe \<Rightarrow> finding \<Rightarrow> 'w pipe" where
  "file_exception cfg env hk cid change p f =
     (if \<not> needs_exception f then p
      else pipe_inbox_add cfg env POLICY_EXCEPTION (cid @ '': '' @ fi_category f) (fi_explanation f) cid
             (''policy:'' @ cid @ '':'' @ fi_category f @ '':'' @
              scope_key (hk_digest hk) (pipe_waiver_scope p cid) f @ '':'' @ snd change)
             (waivable_evidence hk cid f change p) p)"

definition file_check_findings ::
    "pipe_config \<Rightarrow> 'w pipe_env \<Rightarrow> 'w pipe_hooks \<Rightarrow> string \<Rightarrow> string \<times> string \<Rightarrow> finding list \<Rightarrow> 'w pipe \<Rightarrow> 'w pipe" where
  "file_check_findings cfg env hk cid change fs p =
     (if fs = [] then p else foldl (file_exception cfg env hk cid change) (add_findings cid fs p) fs)"

text \<open>The approvals of the run; a snapshot that was never taken is not consulted either.\<close>

definition run_approvals :: "'w pipe \<Rightarrow> approval_snapshot" where
  "run_approvals p = (case pp_approvals p of None \<Rightarrow> no_approvals Inbox_Read_Failed | Some s \<Rightarrow> s)"

definition pipe_waivers :: "'w pipe_hooks \<Rightarrow> string \<Rightarrow> string \<Rightarrow> 'w pipe \<Rightarrow> waivers" where
  "pipe_waivers hk cid diff_sha p =
     for_scope (hk_digest hk) (run_approvals p) (pipe_waiver_scope p cid) diff_sha"

definition set_up_gate_worktree ::
    "pipe_config \<Rightarrow> 'w pipe_hooks \<Rightarrow> string \<Rightarrow> component_result \<Rightarrow> 'w pipe \<Rightarrow> verify_phase option \<times> 'w pipe" where
  "set_up_gate_worktree cfg hk cid r p =
     (if \<not> pf_use_worktrees cfg then (None, p)
      else
        (case hk_setup hk cid (pp_world p) of
           (error, w) \<Rightarrow>
             (let p1 = p\<lparr>pp_world := w\<rparr> in
              if error = [] then (None, p1)
              else
                (let p2 = add_findings cid [infrastructure_finding ''provisioning'' error] p1;
                     c = result_context r
                 in (Some \<lparr>vp_ran = False, vp_verification = \<lparr>vr_passed = False, vr_checks = [], vr_not_measured = []\<rparr>,
                           vp_failure = Some (retryable
                             (''Worktree setup failed (infrastructure): '' @ hd (splitlines error))
                             ''provisioning'' ''worktree_setup''
                             (added c (add_verification_failure error (attempt_number p2 cid) ''verify'' True c)) [] None)\<rparr>,
                     p2)))))"

definition before_gates ::
    "pipe_config \<Rightarrow> 'w pipe_hooks \<Rightarrow> string \<Rightarrow> component_result \<Rightarrow> 'w pipe \<Rightarrow> verify_phase option \<times> 'w pipe" where
  "before_gates cfg hk cid r p =
     (if pf_skip_verification cfg
      then (Some \<lparr>vp_ran = False, vp_verification = \<lparr>vr_passed = True, vr_checks = [], vr_not_measured = []\<rparr>,
                  vp_failure = None\<rparr>,
            record_phase_skip cid ''verify'' ''mechanical verification disabled (--no-verify)''
              (update_component cid (\<lambda>c. c\<lparr>c_verification_passed := JNull\<rparr>) p))
      else set_up_gate_worktree cfg hk cid r p)"

definition verify_failure ::
    "'w pipe_env \<Rightarrow> string \<Rightarrow> component_result \<Rightarrow> verification_result \<Rightarrow> 'w pipe \<Rightarrow> phase_failure" where
  "verify_failure env cid r v p =
     (let failing = filter (\<lambda>c. \<not> ck_passed c) (vr_checks v);
          c = result_context r;
          (action, error) = verify_routing failing
      in \<lparr>pl_action = action, pl_error = error, pl_phase = ''verify'',
          pl_check = join_with '', '' (map ck_name failing),
          pl_context = Some (added c (add_verification_failure (as_context v) (attempt_number p cid) ''verify'' False c)),
          pl_signatures = signatures_from_verification env (vr_checks v),
          pl_count = Some (int (failure_count v))\<rparr>)"

definition run_gates ::
    "pipe_config \<Rightarrow> 'w pipe_env \<Rightarrow> 'w pipe_hooks \<Rightarrow> string \<Rightarrow> component_result \<Rightarrow> 'w pipe \<Rightarrow> verify_phase \<times> 'w pipe" where
  "run_gates cfg env hk cid r p =
     (let change = judged_change env hk cid p in
      case hk_verify hk cid (component_base p cid) (pipe_waivers hk cid (snd change) p) (pp_world p) of
        (v, w) \<Rightarrow>
          (let p1 = update_component cid (\<lambda>c. c\<lparr>c_verification_passed := JBool (vr_passed v)\<rparr>) (p\<lparr>pp_world := w\<rparr>);
               p2 = file_check_findings cfg env hk cid change (concat (map ck_findings (vr_checks v))) p1;
               p3 = (if vr_passed v \<and> layer0_not_measured \<in> set (vr_not_measured v)
                     then record_phase_skip cid ''adequacy'' (nm_detail layer0_not_measured) p2 else p2)
           in case hk_gate_logs hk cid (attempt_number p3 cid) v (pp_world p3) of
                (logs, w') \<Rightarrow>
                  (let p4 = emit (Verification_Result cid (vr_passed v) (map ck_name (vr_checks v))
                              (map ck_message (filter (\<lambda>c. \<not> ck_passed c) (vr_checks v)))
                              (map gap_token (vr_not_measured v)) logs ''verify'') (p3\<lparr>pp_world := w'\<rparr>)
                   in (\<lparr>vp_ran = True, vp_verification = v,
                        vp_failure = (if vr_passed v then None else Some (verify_failure env cid r v p4))\<rparr>, p4))))"

definition phase_verify ::
    "pipe_config \<Rightarrow> 'w pipe_env \<Rightarrow> 'w pipe_hooks \<Rightarrow> string \<Rightarrow> component_result \<Rightarrow> 'w pipe \<Rightarrow> verify_phase \<times> 'w pipe" where
  "phase_verify cfg env hk cid r p =
     (case before_gates cfg hk cid r p of
        (Some early, p1) \<Rightarrow> (early, p1)
      | (None, p1) \<Rightarrow> run_gates cfg env hk cid r p1)"

section \<open>The acceptance checks\<close>

definition acceptance_failure ::
    "pipe_config \<Rightarrow> 'w pipe_hooks \<Rightarrow> string \<Rightarrow> component_result \<Rightarrow> acceptance_outcome \<Rightarrow> string \<Rightarrow> 'w pipe \<Rightarrow> phase_failure" where
  "acceptance_failure cfg hk cid r o1 head p =
     (let failing = join_with '', '' (ao_failing o1); c = result_context r in
      if ao_disputed o1 \<noteq> [] \<or> ao_held_out o1 \<noteq> [] \<or> ao_told o1 = []
      then wall (hk_halt_text hk o1 head cid) acceptance_phase failing []
      else retryable
             (''the acceptance checks '' @ failing @ '' did not pass on '' @ take 12 head @
              (if pf_max_retries cfg \<le> retries_of (the_component p cid)
               then concat (map (\<lambda>l. newline # l) (ao_stopped o1)) else []))
             acceptance_phase failing
             (added c (add_acceptance_failure (ao_told o1) (attempt_number p cid) c)) [] None)"

definition phase_acceptance ::
    "pipe_config \<Rightarrow> 'w pipe_hooks \<Rightarrow> string \<Rightarrow> component_result \<Rightarrow> 'w pipe \<Rightarrow> phase_failure option \<times> 'w pipe" where
  "phase_acceptance cfg hk cid r p =
     (let head = (case hk_head hk cid (pp_world p) of None \<Rightarrow> [] | Some s \<Rightarrow> s) in
      case hk_acceptance hk cid head (attempt_number p cid)
             (filter (\<lambda>i. ii_component i = cid) (sn_overrides (run_approvals p))) (pp_world p) of
        (None, w) \<Rightarrow> (None, p\<lparr>pp_world := w\<rparr>)
      | (Some o1, w) \<Rightarrow>
          (let p1 = emit (Verification_Result cid (ao_passed o1) (ao_checks o1) (ao_failures o1) [] [] acceptance_phase)
                      (p\<lparr>pp_world := w\<rparr>)
           in (if ao_passed o1 then None else Some (acceptance_failure cfg hk cid r o1 head p1), p1)))"

section \<open>The diff\<close>

record diff_phase =
  df_diff :: string
  df_failure :: "phase_failure option"

definition phase_diff ::
    "'w pipe_env \<Rightarrow> 'w pipe_hooks \<Rightarrow> string \<Rightarrow> component_result \<Rightarrow> 'w pipe \<Rightarrow> diff_phase \<times> 'w pipe" where
  "phase_diff env hk cid r p =
     (let base = component_base p cid in
      case hk_diff hk cid base (pp_world p) of
        Inr d \<Rightarrow>
          (\<lparr>df_diff = d, df_failure = None\<rparr>,
           update_component cid (\<lambda>c. c\<lparr>c_judged_sha := JStr (branch_head env cid p)\<rparr>) p)
      | Inl e \<Rightarrow>
          (let failed = ''git diff against '' @ base @ '' failed'';
               p1 = add_findings cid [infrastructure_finding ''diff'' (failed @ ''; '' @
                      ''knowledge distillation and the PR body cannot '' @ ''be built: '' @ e)] p;
               p2 = emit (Diff_Fetch_Failed cid e) p1;
               c = result_context r
           in (\<lparr>df_diff = [], df_failure = Some (retryable (''Diff fetch failed (infrastructure): '' @ e) ''diff'' ''git_diff''
                  (added c (add_verification_failure (failed @ '': '' @ e) (attempt_number p2 cid) ''diff'' True c))
                  [''diff:fetch-failed''] None)\<rparr>, p2)))"

end
