(* ===== verification/Pipeline_Review.thy ===== *)
theory Pipeline_Review
  imports Pipeline_Phases
begin

text \<open>
  The judging phases of an attempt: \<open>kstrl/pipeline/pipeline_verdicts.py\<close>, \<open>pipeline_review.py\<close>,
  \<open>pipeline_security.py\<close> and \<open>pipeline_knowledge.py\<close>. The tables of \<open>review_result\<close> and
  \<open>security_result\<close> are read as \<open>Review\<close> and \<open>Security\<close> define them.
\<close>

section \<open>Verdicts\<close>

text \<open>Whether a phase measured the change: a crashed or a blind reviewer did not.\<close>

definition review_reading :: "bool \<Rightarrow> review_result option \<Rightarrow> bool" where
  "review_reading went result =
     (went \<and> (case result of None \<Rightarrow> False | Some r \<Rightarrow> \<not> rv_infrastructure r \<and> rv_disagreement r = []))"

definition security_reading :: "bool \<Rightarrow> security_result option \<Rightarrow> bool" where
  "security_reading went result =
     (went \<and> (case result of None \<Rightarrow> False | Some r \<Rightarrow> \<not> sr_infrastructure r \<and> sr_disagreement r = []))"

record review_phase =
  rp_ran :: bool
  rp_skip_reason :: "string option"
  rp_result :: "review_result option"
  rp_failure :: "phase_failure option"

record security_phase =
  yp_ran :: bool
  yp_skip_reason :: "string option"
  yp_result :: "security_result option"
  yp_failure :: "phase_failure option"

definition review_failed :: "review_result \<Rightarrow> phase_failure \<Rightarrow> review_phase" where
  "review_failed r f = \<lparr>rp_ran = True, rp_skip_reason = None, rp_result = Some r, rp_failure = Some f\<rparr>"

definition budget_check_name :: string where "budget_check_name = ''adversarial_budget''"

definition coverage_failure :: "string \<Rightarrow> string \<Rightarrow> string \<Rightarrow> string \<Rightarrow> string \<Rightarrow> bool \<Rightarrow> phase_failure" where
  "coverage_failure phase role noun agent disagreement reported =
     wall (role @ '' coverage unverified: '' @ disagreement @ ''. The reviewer could not '' @
           ''show it read the whole change, so its '' @ noun @ '' cannot be trusted and '' @
           ''the engineer cannot fix it. Check that the '' @ agent @ '' can run git in '' @
           ''the worktree, or select a model that honours the observedDiffstat '' @ ''field (#266).'')
       phase ''coverage''
       [phase @ '':coverage-unverified:'' @ (if reported then ''range-mismatch'' else ''no-diffstat'')]"

definition budget_refusal ::
    "pipe_config \<Rightarrow> string \<Rightarrow> string \<Rightarrow> string \<Rightarrow> 'w pipe \<Rightarrow> phase_failure \<times> 'w pipe" where
  "budget_refusal cfg cid phase role p =
     (let reason = ''adversarial LLM budget ('' @ int_text (pf_max_adversarial cfg) @ '') exhausted before the phase ran; '' @
                   ''hard mode refuses to merge unreviewed''
      in (wall (role @ '' infrastructure error: '' @ reason) phase budget_check_name
            [budget_check_name @ '':'' @ phase],
          add_findings cid [infrastructure_finding phase reason] p))"

definition pipe_claim_blocks :: "pipe_config \<Rightarrow> bool" where
  "pipe_claim_blocks cfg = claim_blocks (pf_claim_agreement cfg) (pf_level cfg)"

definition claim_severity :: "pipe_config \<Rightarrow> string" where
  "claim_severity cfg = (if pipe_claim_blocks cfg then ''fail'' else ''advisory'')"

definition has_unconfirmed_claim :: "'w pipe_hooks \<Rightarrow> string \<Rightarrow> 'w pipe \<Rightarrow> bool" where
  "has_unconfirmed_claim hk cid p =
     (case hk_read_prd hk cid (pp_world p) of Inl e \<Rightarrow> False | Inr d \<Rightarrow> list_ex us_passes (pd_stories d))"

text \<open>A review that was not run: only a reviewer without budget is held against the claims.\<close>

definition review_did_not_run ::
    "pipe_config \<Rightarrow> 'w pipe_hooks \<Rightarrow> string \<Rightarrow> string \<Rightarrow> bool \<Rightarrow> 'w pipe \<Rightarrow> review_phase \<times> 'w pipe" where
  "review_did_not_run cfg hk cid reason downgraded p =
     (let p1 = record_phase_skip cid ''review'' reason (update_component cid (\<lambda>c. c\<lparr>c_review_passed := JNull\<rparr>) p);
          f = (if downgraded \<and> pipe_claim_blocks cfg \<and> has_unconfirmed_claim hk cid p1
               then Some (wall (''Claim agreement cannot be confirmed: the '' @
                            ''reviewer never ran (adversarial LLM budget '' @
                            ''('' @ int_text (pf_max_adversarial cfg) @ '') '' @
                            ''exhausted) and a story is still marked passes=true'')
                       ''review'' ''claim'' [budget_check_name @ '':claim''])
               else None)
      in (\<lparr>rp_ran = False, rp_skip_reason = Some reason, rp_result = None, rp_failure = f\<rparr>, p1))"

text \<open>The reading of this attempt, when everything it needs was measured.\<close>

definition attempt_reading_of ::
    "pipe_config \<Rightarrow> 'w pipe_hooks \<Rightarrow> string \<Rightarrow> review_result \<Rightarrow> 'w pipe \<Rightarrow> attempt_reading option" where
  "attempt_reading_of cfg hk cid r p =
     (if \<not> dv_measures (pf_divergence cfg) \<or> rv_infrastructure r \<or> review_finding_keys r = {} then None
      else case hk_numstat hk cid (component_base p cid) (pp_world p) of
             Inl e \<Rightarrow> None
           | Inr (nfiles, nlines) \<Rightarrow>
               Some \<lparr>ar_attempt = attempt_number p cid, ar_lines = nlines, ar_files = nfiles,
                     ar_keys = review_finding_keys r, ar_blocking = fail_count r\<rparr>)"

definition readings_at :: "'w pipe \<Rightarrow> string \<Rightarrow> attempt_reading list" where
  "readings_at p cid = (case dict_get (pp_reviews p) cid of None \<Rightarrow> [] | Some rs \<Rightarrow> rs)"

definition divergence_failure ::
    "pipe_config \<Rightarrow> 'w pipe_hooks \<Rightarrow> string \<Rightarrow> review_result \<Rightarrow> 'w pipe \<Rightarrow> string option \<times> 'w pipe" where
  "divergence_failure cfg hk cid r p =
     (case attempt_reading_of cfg hk cid r p of
        None \<Rightarrow> (None, p)
      | Some a \<Rightarrow>
          (let rs = readings_at p cid @ [a]; p1 = p\<lparr>pp_reviews := dict_set (pp_reviews p) cid rs\<rparr>
           in case detect_divergence rs (pf_divergence cfg) of
                None \<Rightarrow> (None, p1)
              | Some shown \<Rightarrow>
                  (let blocks = dv_blocks (pf_divergence cfg); message = divergence_message shown;
                       p2 = add_findings cid
                              [divergence_finding message (if blocks then ''fail'' else ''advisory'')] p1
                   in (if blocks then Some message else None, emit (Review_Divergence cid shown blocks) p2))))"

definition gate_failure_count :: "review_result \<Rightarrow> int option" where
  "gate_failure_count r = (if rv_infrastructure r then None else Some (int (fail_count r)))"

definition criteria_failure :: "string \<Rightarrow> component_result \<Rightarrow> review_result \<Rightarrow> 'w pipe \<Rightarrow> phase_failure" where
  "criteria_failure cid r rv p =
     (let c = result_context r
      in retryable (if rv_infrastructure rv then ''Review infrastructure error'' else ''Review failed'')
           ''review'' (if rv_infrastructure rv then ''infrastructure'' else ''criteria'')
           (added c (add_review_finding (review_retry_context rv) (attempt_number p cid) ''review''
              (rv_infrastructure rv) c))
           (signatures_from_findings ''review'' (review_findings rv) review_gating) (gate_failure_count rv))"

definition review_failure ::
    "pipe_config \<Rightarrow> 'w pipe_hooks \<Rightarrow> string \<Rightarrow> component_result \<Rightarrow> review_result \<Rightarrow> 'w pipe \<Rightarrow> review_phase \<times> 'w pipe" where
  "review_failure cfg hk cid r rv p =
     (if coverage_refused rv
      then (review_failed rv (coverage_failure ''review'' ''Review'' ''verdict'' ''review agent'' (rv_disagreement rv)
              (rv_observed rv \<noteq> None)), p)
      else case divergence_failure cfg hk cid rv p of
             (Some message, p1) \<Rightarrow>
               (review_failed rv (wall message ''review'' ''divergence'' [''review:divergence'']), p1)
           | (None, p1) \<Rightarrow> (review_failed rv (criteria_failure cid r rv p1), p1))"

definition claim_failure ::
    "string \<Rightarrow> component_result \<Rightarrow> review_result \<Rightarrow> string \<Rightarrow> string \<Rightarrow> 'w pipe \<Rightarrow> review_phase" where
  "claim_failure cid r rv error retry_text p =
     (let c = result_context r; infra = rv_infrastructure rv
      in review_failed rv (retryable error ''review'' (if infra then ''infrastructure'' else ''claim'')
           (added c (add_review_finding retry_text (attempt_number p cid) ''review'' infra c))
           [if infra then ''review:infrastructure'' else ''review:'' @ claim_disagreement_category] None))"

section \<open>Phase 2\<close>

definition review_crashed :: "'w pipe_hooks \<Rightarrow> review_mode \<Rightarrow> string \<Rightarrow> review_result" where
  "review_crashed hk mode e =
     (bare_review (mode \<noteq> Review_Hard) (mode_value mode))\<lparr>
       rv_notes := ''Review agent crashed: '' @ e, rv_infrastructure := True, rv_model := hk_reviewer hk\<rparr>"

text \<open>What the phase does with the agent's spend: \<open>None\<close> when no agent could be built.\<close>

definition record_agent_usage :: "pipe_config \<Rightarrow> string \<Rightarrow> string \<Rightarrow> usage_totals option \<Rightarrow> 'w pipe \<Rightarrow> 'w pipe" where
  "record_agent_usage cfg cid phase u p = (case u of None \<Rightarrow> p | Some t \<Rightarrow> record_usage cfg cid phase t p)"

definition outage_error :: string where
  "outage_error =
     ''Claim disagreement: the reviewer produced no '' @ ''usable verdict, so no story claimed done is confirmed''"

definition outage_text :: string where
  "outage_text =
     ''The reviewer did not produce a usable verdict this '' @
     ''attempt, so no story you marked done has been '' @
     ''independently confirmed. Nothing in the PRD was '' @
     ''changed. Re-run and make sure the work still stands '' @ ''on its own evidence.''"

definition revert_claims ::
    "'w pipe_hooks \<Rightarrow> string \<Rightarrow> component_result \<Rightarrow> review_result \<Rightarrow> prd \<Rightarrow> finding list \<Rightarrow> 'w pipe \<Rightarrow>
     review_phase \<times> 'w pipe" where
  "revert_claims hk cid r rv d disagreements p =
     (case revert_unconfirmed_stories rv disagreements (attempt_number p cid) d of
        (d', reverted) \<Rightarrow>
          (case hk_save_prd hk cid d' (pp_world p) of
             (error, w) \<Rightarrow>
               (let p1 = p\<lparr>pp_world := w\<rparr>;
                    p2 = (case error of
                            None \<Rightarrow> p1
                          | Some e \<Rightarrow> add_findings cid [infrastructure_finding ''review''
                              (''Claim revert could not be written to '' @ c_prd_path (the_component p1 cid) @ '': '' @ e)] p1)
                in (claim_failure cid r rv
                      (''Claim disagreement: '' @ nat_text (length reverted) @ '' story(ies) '' @
                       ''claimed done but not confirmed by review'')
                      (claim_retry_context disagreements rv (error = None)) p2, p2))))"

text \<open>After the result is recorded: the engineer's claims against the reviewer's verdicts.\<close>

definition judge_claims ::
    "pipe_config \<Rightarrow> 'w pipe_hooks \<Rightarrow> string \<Rightarrow> component_result \<Rightarrow> review_result \<Rightarrow> 'w pipe \<Rightarrow> review_phase \<times> 'w pipe" where
  "judge_claims cfg hk cid r rv p =
     (let passed = \<lparr>rp_ran = True, rp_skip_reason = None, rp_result = Some rv, rp_failure = None\<rparr>
      in case hk_read_prd hk cid (pp_world p) of
           Inl e \<Rightarrow>
             (let p1 = add_findings cid [infrastructure_finding ''review''
                    (''Claim agreement not measured: the PRD at '' @ c_prd_path (the_component p cid) @
                     '' could not be read: '' @ e)] p
              in if \<not> rv_passed rv then review_failure cfg hk cid r rv p1 else (passed, p1))
         | Inr d \<Rightarrow>
             (let ds = claim_disagreements d rv (claim_severity cfg); p1 = add_findings cid ds p
              in if \<not> rv_passed rv then review_failure cfg hk cid r rv p1
                 else if pipe_claim_blocks cfg \<and> rv_infrastructure rv \<and> list_ex us_passes (pd_stories d)
                 then (claim_failure cid r rv outage_error outage_text p1, p1)
                 else if pipe_claim_blocks cfg \<and> ds \<noteq> [] then revert_claims hk cid r rv d ds p1
                 else (passed, p1)))"

definition record_review :: "string \<Rightarrow> review_result \<Rightarrow> 'w pipe \<Rightarrow> 'w pipe" where
  "record_review cid rv p =
     (let p1 = add_findings cid (review_findings rv)
                 (update_component cid (\<lambda>c. c\<lparr>c_review_passed := JBool (rv_passed rv)\<rparr>) p);
          p2 = update_component cid (\<lambda>c. c\<lparr>c_review_findings := JStr (review_body_section rv)\<rparr>) p1
      in emit (Review_Result cid (rv_passed rv) (rv_mode rv) (fail_count rv) (advisory_count rv)) p2)"

definition run_review_agent ::
    "pipe_config \<Rightarrow> 'w pipe_hooks \<Rightarrow> string \<Rightarrow> component_result \<Rightarrow> verification_result \<Rightarrow> 'w pipe \<Rightarrow>
     review_phase \<times> 'w pipe" where
  "run_review_agent cfg hk cid r v p =
     (let mode = pf_review_mode cfg; p1 = consume_adversarial p;
          run = hk_review hk cid (component_base p1 cid) v mode (pp_world p1);
          rv = (case ag_result run of Inl e \<Rightarrow> review_crashed hk mode e | Inr x \<Rightarrow> x);
          p2 = record_agent_usage cfg cid ''review'' (ag_usage run) (p1\<lparr>pp_world := ag_world run\<rparr>)
      in case breached_ceiling cfg p2 of
           Some k \<Rightarrow> (review_failed rv (over_budget k ''review''), p2)
         | None \<Rightarrow> judge_claims cfg hk cid r rv (record_review cid rv p2))"

definition budget_spent_reason :: "pipe_config \<Rightarrow> string" where
  "budget_spent_reason cfg = ''adversarial LLM budget ('' @ int_text (pf_max_adversarial cfg) @ '') exhausted''"

definition phase_review ::
    "pipe_config \<Rightarrow> 'w pipe_hooks \<Rightarrow> string \<Rightarrow> component_result \<Rightarrow> verification_result \<Rightarrow> 'w pipe \<Rightarrow>
     review_phase \<times> 'w pipe" where
  "phase_review cfg hk cid r v p =
     (if pf_review_mode cfg = Review_Skip
      then review_did_not_run cfg hk cid ''review disabled (mode=skip)'' False p
      else if \<not> adversarial_budget_ok cfg p
      then
        (if pf_review_mode cfg \<noteq> Review_Advisory
         then (case budget_refusal cfg cid ''review'' ''Review''
                      (update_component cid (\<lambda>c. c\<lparr>c_review_passed := JBool False\<rparr>) p) of
                 (f, p1) \<Rightarrow> (\<lparr>rp_ran = False, rp_skip_reason = None, rp_result = None, rp_failure = Some f\<rparr>, p1))
         else review_did_not_run cfg hk cid (budget_spent_reason cfg) True p)
      else run_review_agent cfg hk cid r v p)"

section \<open>Phase 2.5\<close>

definition crashed_security :: "'w pipe_hooks \<Rightarrow> security_config \<Rightarrow> string \<Rightarrow> security_result" where
  "crashed_security hk sc e =
     (bare_security (sc_mode sc \<noteq> ''hard'') (sc_mode sc))\<lparr>
       sr_notes := ''Security review agent failed before completion: '' @ e, sr_infrastructure := True,
       sr_model := hk_security_reviewer hk\<rparr>"

definition security_skipped :: "string \<Rightarrow> string \<Rightarrow> 'w pipe \<Rightarrow> security_phase \<times> 'w pipe" where
  "security_skipped cid reason p =
     (\<lparr>yp_ran = False, yp_skip_reason = Some reason, yp_result = None, yp_failure = None\<rparr>,
      record_phase_skip cid ''security'' reason p)"

definition security_budget_branch :: "pipe_config \<Rightarrow> string \<Rightarrow> 'w pipe \<Rightarrow> security_phase \<times> 'w pipe" where
  "security_budget_branch cfg cid p =
     (if sc_mode (pf_security cfg) \<noteq> ''advisory''
      then (case budget_refusal cfg cid ''security'' ''Security review'' p of
              (f, p1) \<Rightarrow> (\<lparr>yp_ran = False, yp_skip_reason = None, yp_result = None, yp_failure = Some f\<rparr>, p1))
      else security_skipped cid ''adversarial LLM budget exhausted'' p)"

definition security_failed :: "security_result \<Rightarrow> phase_failure \<Rightarrow> security_phase" where
  "security_failed sr f = \<lparr>yp_ran = True, yp_skip_reason = None, yp_result = Some sr, yp_failure = Some f\<rparr>"

text \<open>The counts exist for every result of a validated configuration; \<open>None\<close> would be the code's
  \<open>KeyError\<close>.\<close>

definition count_or_zero :: "nat option \<Rightarrow> nat" where
  "count_or_zero n = (case n of None \<Rightarrow> 0 | Some k \<Rightarrow> k)"

definition security_failure ::
    "string \<Rightarrow> component_result \<Rightarrow> security_result \<Rightarrow> 'w pipe \<Rightarrow> security_phase" where
  "security_failure cid r sr p =
     (if security_coverage_refused sr
      then security_failed sr (coverage_failure ''security'' ''Security review'' ''findings'' ''security agent''
             (sr_disagreement sr) (sr_observed sr \<noteq> None))
      else
        (let c = result_context r; infra = sr_infrastructure sr
         in security_failed sr (retryable (if infra then ''Security review crashed'' else ''Security review failed'')
              ''security'' (if infra then ''infrastructure'' else ''findings'')
              (added c (add_review_finding
                 (or_text (security_retry_context sr) (''Security review infrastructure error: '' @ sr_notes sr))
                 (attempt_number p cid) ''security'' infra c))
              (signatures_from_findings ''security'' (security_findings sr) (failing_severities sr))
              (if infra then None else Some (int (count_or_zero (security_fail_count sr)))))))"

definition record_security :: "string \<Rightarrow> security_config \<Rightarrow> security_result \<Rightarrow> 'w pipe \<Rightarrow> 'w pipe" where
  "record_security cid sc sr p =
     (let p1 = emit (Review_Result cid (sr_passed sr) (''security-'' @ sc_mode sc)
                 (count_or_zero (security_fail_count sr)) (count_or_zero (security_advisory_count sr))) p;
          p2 = add_findings cid (security_findings sr) p1
      in if sr_findings sr = [] then p2
         else update_component cid (\<lambda>c.
                let had = jstr_of (c_review_findings c)
                in c\<lparr>c_review_findings := JStr (if had = [] then security_body_section sr
                      else had @ [newline, newline] @ security_body_section sr)\<rparr>) p2)"

definition phase_security ::
    "pipe_config \<Rightarrow> 'w pipe_hooks \<Rightarrow> string \<Rightarrow> component_result \<Rightarrow> 'w pipe \<Rightarrow> security_phase \<times> 'w pipe" where
  "phase_security cfg hk cid r p =
     (let sc = pf_security cfg in
      if sc_mode sc = ''skip'' then security_skipped cid ''security review disabled (mode=skip)'' p
      else if \<not> adversarial_budget_ok cfg p then security_budget_branch cfg cid p
      else
        (let p1 = consume_adversarial p;
             run = hk_security hk cid (component_base p1 cid) sc (pp_world p1);
             sr = (case ag_result run of Inl e \<Rightarrow> crashed_security hk sc e | Inr x \<Rightarrow> x);
             p2 = record_agent_usage cfg cid ''security'' (ag_usage run) (p1\<lparr>pp_world := ag_world run\<rparr>)
         in case breached_ceiling cfg p2 of
              Some k \<Rightarrow> (security_failed sr (over_budget k ''security''), p2)
            | None \<Rightarrow>
                (let p3 = record_security cid sc sr p2
                 in if \<not> sr_passed sr then (security_failure cid r sr p3, p3)
                    else (\<lparr>yp_ran = True, yp_skip_reason = None, yp_result = Some sr, yp_failure = None\<rparr>, p3))))"

section \<open>Knowledge\<close>

definition unmeasured :: "string \<Rightarrow> fact_utilization" where
  "unmeasured reason =
     \<lparr>fu_measured = False, fu_injected = 0, fu_referenced = 0, fu_core_injected = 0, fu_core_referenced = 0,
      fu_dependency_injected = 0, fu_dependency_referenced = 0, fu_sibling_injected = 0, fu_sibling_referenced = 0,
      fu_reason = reason\<rparr>"

definition store_utilization :: "string \<Rightarrow> fact_utilization \<Rightarrow> 'w pipe \<Rightarrow> 'w pipe" where
  "store_utilization cid u p =
     emit (Fact_Utilization_Measured cid u) (p\<lparr>pp_utilization := dict_set (pp_utilization p) cid u\<rparr>)"

definition record_injected_knowledge :: "string \<Rightarrow> string option \<Rightarrow> 'w pipe \<Rightarrow> 'w pipe" where
  "record_injected_knowledge cid facts p = p\<lparr>pp_knowledge := dict_set (pp_knowledge p) cid facts\<rparr>"

definition measure_utilization :: "'w pipe_hooks \<Rightarrow> string \<Rightarrow> string \<Rightarrow> 'w pipe \<Rightarrow> fact_utilization" where
  "measure_utilization hk cid diff p =
     (case dict_get (pp_knowledge p) cid of
        None \<Rightarrow> unmeasured ''no injected prefix recorded for this attempt''
      | Some None \<Rightarrow> unmeasured ''knowledge retrieval failed''
      | Some (Some facts) \<Rightarrow>
          (if facts = [] then (unmeasured [])\<lparr>fu_measured := True\<rparr>
           else case hk_measure hk cid facts diff (pp_world p) of
                  Inl e \<Rightarrow> unmeasured e
                | Inr u \<Rightarrow> u\<lparr>fu_measured := True, fu_reason := []\<rparr>))"

datatype utilization_diff = Diff_Text string | Fetch_Diff | No_Diff string

definition record_fact_utilization ::
    "pipe_config \<Rightarrow> 'w pipe_hooks \<Rightarrow> string \<Rightarrow> utilization_diff \<Rightarrow> 'w pipe \<Rightarrow> 'w pipe" where
  "record_fact_utilization cfg hk cid diff p =
     (if \<not> pf_knowledge cfg \<or> m_single_pr (pp_manifest p) then p
      else
        (case diff of
           No_Diff why \<Rightarrow> store_utilization cid (unmeasured why) p
         | Diff_Text d \<Rightarrow> store_utilization cid (measure_utilization hk cid d p) p
         | Fetch_Diff \<Rightarrow>
             (case hk_diff hk cid (component_base p cid) (pp_world p) of
                Inl e \<Rightarrow> store_utilization cid (unmeasured (''diff unavailable: '' @ e)) p
              | Inr d \<Rightarrow> store_utilization cid (measure_utilization hk cid d p) p)))"

record distill_phase =
  dl_ran :: bool
  dl_skip_reason :: "string option"
  dl_utilization :: "fact_utilization option"

definition distill_skipped :: "string \<Rightarrow> fact_utilization option \<Rightarrow> distill_phase" where
  "distill_skipped reason u = \<lparr>dl_ran = False, dl_skip_reason = Some reason, dl_utilization = u\<rparr>"

definition polluted_diff :: string where
  "polluted_diff = ''single_pr mode produces a polluted per-component diff''"

definition phase_distill ::
    "pipe_config \<Rightarrow> 'w pipe_hooks \<Rightarrow> string \<Rightarrow> component_result \<Rightarrow> string \<Rightarrow> 'w pipe \<Rightarrow> distill_phase \<times> 'w pipe" where
  "phase_distill cfg hk cid r diff p =
     (if \<not> pf_knowledge cfg then (distill_skipped ''knowledge disabled'' None, p)
      else if m_single_pr (pp_manifest p)
      then (distill_skipped polluted_diff None, record_phase_skip cid ''knowledge'' polluted_diff p)
      else
        (let u = (case dict_get (pp_utilization p) cid of None \<Rightarrow> unmeasured [] | Some u \<Rightarrow> u) in
         if \<not> adversarial_budget_ok cfg p
         then (distill_skipped ''adversarial LLM budget exhausted'' (Some u),
               record_phase_skip cid ''knowledge'' ''adversarial LLM budget exhausted'' p)
         else case breached_ceiling cfg p of
                Some k \<Rightarrow>
                  (distill_skipped (''budget ('' @ k @ '') exceeded'') (Some u),
                   record_phase_skip cid ''knowledge'' (''budget ('' @ k @ '') exceeded'') p)
              | None \<Rightarrow>
                  (let p1 = consume_adversarial p;
                       run = hk_distill hk cid diff (cp_iterations r) (pp_world p1);
                       p2 = p1\<lparr>pp_world := ag_world run\<rparr>;
                       p3 = (case ag_result run of
                               Inl e \<Rightarrow> p2 | Inr (written, parse_failed) \<Rightarrow> emit (Distilled cid written parse_failed) p2)
                   in (\<lparr>dl_ran = True, dl_skip_reason = None, dl_utilization = Some u\<rparr>,
                       record_agent_usage cfg cid ''distill'' (ag_usage run) p3))))"

end
