(* ===== verification/Pipeline_Delivery.thy ===== *)
theory Pipeline_Delivery
  imports Pipeline_Review
begin

text \<open>
  \<open>kstrl/pipeline/pipeline_delivery.py\<close> and \<open>kstrl/pipeline/pipeline.py\<close>: the human checkpoint, the
  route from a judged attempt to its pull request, and \<open>process_result\<close>, which takes one component
  result through every phase. \<open>None\<close> of a result is a wait for a merge that never ends.
\<close>

section \<open>The human checkpoint\<close>

datatype checkpoint_decision = Not_Prompted | Cp_Approved | Cp_Parked | Cp_Rejected | Cp_Retry

definition park_detail :: string where
  "park_detail =
     ''Merge approval is required and no prompt was available to ask for it, so '' @
     ''nothing was pushed and no PR was opened. The branch holds the reviewed '' @
     ''work. From the shell, ks inbox approve <id> records approval and starts '' @
     ''the ks factory run that pushes the branch, opens the PR, merges it and '' @
     ''continues; ks inbox reject <id> --comment ... records rejection and '' @
     ''starts the run that fails the component and skips its dependents.''"

text \<open>Only an answer among the three options is a decision.\<close>

definition decision_of :: "int option \<Rightarrow> (checkpoint_decision \<times> string) option" where
  "decision_of choice =
     (if choice = Some 0 then Some (Cp_Approved, ''approved'')
      else if choice = Some 1 then Some (Cp_Rejected, ''rejected'')
      else if choice = Some 2 then Some (Cp_Retry, ''retry'')
      else None)"

text \<open>\<open>None\<close> when nobody can be asked.\<close>

definition ask_operator ::
    "'w pipe_hooks \<Rightarrow> string \<Rightarrow> 'w pipe \<Rightarrow> (checkpoint_decision \<times> string) option \<times> 'w pipe" where
  "ask_operator hk cid p =
     (if \<not> hk_can_prompt hk (pp_world p) then (None, p)
      else case hk_prompt hk cid (pp_world p) of (choice, w) \<Rightarrow> (decision_of choice, p\<lparr>pp_world := w\<rparr>))"

definition park_evidence :: "string \<Rightarrow> review_phase \<Rightarrow> 'w pipe \<Rightarrow> json_object" where
  "park_evidence cid rp p =
     (let c = the_component p cid in
      [(''branch'', JStr (c_branch_name c)), (''head_sha'', c_judged_sha c)] @
      (case rp_result rp of
         None \<Rightarrow> []
       | Some rv \<Rightarrow>
           (if review_reading (rp_ran rp) (rp_result rp)
            then [(''review_fail_count'', JInt (int (fail_count rv))),
                  (''review_advisory_count'', JInt (int (advisory_count rv)))]
            else [])))"

definition checkpoint_question :: "string \<Rightarrow> string" where
  "checkpoint_question cid = ''Approve PR creation and merge for '' @ cid @ ''?''"

definition phase_checkpoint ::
    "pipe_config \<Rightarrow> 'w pipe_env \<Rightarrow> 'w pipe_hooks \<Rightarrow> string \<Rightarrow> review_phase \<Rightarrow> 'w pipe \<Rightarrow>
     checkpoint_decision \<times> 'w pipe" where
  "phase_checkpoint cfg env hk cid rp p =
     (if \<not> pf_pause_before_merge cfg then (Not_Prompted, p)
      else
        (case ask_operator hk cid (emit (Checkpoint_Requested cid ''pr_merge'' (checkpoint_question cid)) p) of
           (Some (d, name), p1) \<Rightarrow> (d, emit (Checkpoint_Resolved cid ''pr_merge'' name ''operator'') p1)
         | (None, p1) \<Rightarrow>
             (let p2 = emit (Checkpoint_Resolved cid ''pr_merge'' ''parked'' ''inbox'') p1
              in (Cp_Parked, pipe_inbox_add cfg env MERGE_GATE (cid @ '' awaiting merge approval'') park_detail cid
                    (park_dedupe_key cid) (park_evidence cid rp p2) p2))))"

text \<open>\<open>None\<close> goes on to the PR step.\<close>

definition checkpoint_refusal ::
    "pipe_config \<Rightarrow> 'w pipe_env \<Rightarrow> string \<Rightarrow> checkpoint_decision \<Rightarrow> component_result \<Rightarrow> 'w pipe \<Rightarrow>
     (pipe_transition \<times> 'w pipe) option" where
  "checkpoint_refusal cfg env cid d r p =
     (case d of
        Cp_Rejected \<Rightarrow>
          Some (fail_component cfg env cid ''Rejected at HITL checkpoint'' ''pr'' reject_check
                  [''review:hitl-rejected''] p)
      | Cp_Parked \<Rightarrow> Some (park_awaiting_approval cfg env cid p)
      | Cp_Retry \<Rightarrow>
          (let c = result_context r in
           Some (retry_or_fail cfg env cid ''Retry requested at HITL checkpoint''
                   (Some (added c (add_checkpoint_request ''Human reviewer requested changes at PR checkpoint''
                      (attempt_number p cid) c)))
                   ''pr'' ''hitl_retry'' [''review:hitl-changes-requested''] False None p))
      | Cp_Approved \<Rightarrow> None
      | Not_Prompted \<Rightarrow> None)"

section \<open>Delivery\<close>

record pipe_outcome =
  oc_transition :: pipe_transition
  oc_verify :: "verify_phase option"
  oc_diff :: "diff_phase option"
  oc_review :: "review_phase option"
  oc_security :: "security_phase option"
  oc_distill :: "distill_phase option"
  oc_checkpoint :: "checkpoint_decision option"
  oc_pr :: "pr_phase option"

definition bare_outcome :: "pipe_transition \<Rightarrow> pipe_outcome" where
  "bare_outcome t =
     \<lparr>oc_transition = t, oc_verify = None, oc_diff = None, oc_review = None, oc_security = None,
      oc_distill = None, oc_checkpoint = None, oc_pr = None\<rparr>"

definition with_transition :: "pipe_outcome \<Rightarrow> pipe_transition \<times> 'w pipe \<Rightarrow> pipe_outcome \<times> 'w pipe" where
  "with_transition o1 t = (o1\<lparr>oc_transition := fst t\<rparr>, snd t)"

definition pr_step_passed :: "pr_disposition \<Rightarrow> bool" where
  "pr_step_passed d = (d = Pr_Merged_Now \<or> d = Pr_No_Gh \<or> d = Pr_Skipped)"

definition clean_up_worktree :: "pipe_config \<Rightarrow> 'w pipe_hooks \<Rightarrow> string \<Rightarrow> 'w pipe \<Rightarrow> 'w pipe" where
  "clean_up_worktree cfg hk cid p =
     (if pf_use_worktrees cfg \<and> dict_get (pp_worktrees p) cid \<noteq> None
      then (case hk_cleanup hk cid (pp_world p) of
              (sw, w) \<Rightarrow>
                (let p1 = add_findings cid (sweep_findings sw ''cleanup'') (p\<lparr>pp_world := w\<rparr>)
                 in p1\<lparr>pp_worktrees := dict_del (pp_worktrees p1) cid\<rparr>))
      else p)"

definition finish_delivery ::
    "pipe_config \<Rightarrow> 'w pipe_env \<Rightarrow> 'w pipe_hooks \<Rightarrow> string \<Rightarrow> pipe_outcome \<Rightarrow> 'w pipe \<Rightarrow> pipe_outcome \<times> 'w pipe" where
  "finish_delivery cfg env hk cid o1 p = with_transition o1 (complete cfg env cid (clean_up_worktree cfg hk cid p))"

definition after_pr ::
    "pipe_config \<Rightarrow> 'w pipe_env \<Rightarrow> 'w pipe_hooks \<Rightarrow> string \<Rightarrow> component_result \<Rightarrow> pipe_outcome \<Rightarrow> pr_phase \<Rightarrow> 'w pipe \<Rightarrow>
     pipe_outcome \<times> 'w pipe" where
  "after_pr cfg env hk cid r o1 pr p =
     (case px_disposition pr of
        Pr_Conflict \<Rightarrow> with_transition o1 (retry_after_conflict cfg env cid r pr p)
      | Pr_Pending \<Rightarrow> with_transition o1 (park_merge_pending cfg env cid (px_error pr) p)
      | Pr_Failed \<Rightarrow> with_transition o1 (fail_pr_flow cfg env cid (px_error pr) (px_check pr) p)
      | _ \<Rightarrow> finish_delivery cfg env hk cid o1 p)"

definition deliver ::
    "pipe_config \<Rightarrow> 'w pipe_env \<Rightarrow> 'w pipe_hooks \<Rightarrow> string \<Rightarrow> component_result \<Rightarrow> review_phase \<Rightarrow> pipe_outcome \<Rightarrow>
     'w pipe \<Rightarrow> (pipe_outcome \<times> 'w pipe) option" where
  "deliver cfg env hk cid r rp o1 p =
     (if \<not> (pf_create_prs cfg \<and> \<not> pf_single_pr cfg)
      then Some (finish_delivery cfg env hk cid
                   (o1\<lparr>oc_checkpoint := Some Not_Prompted, oc_pr := Some (pr_phase_of Pr_Skipped [] [])\<rparr>) p)
      else
        (case phase_checkpoint cfg env hk cid rp p of
           (d, p1) \<Rightarrow>
             (let o2 = o1\<lparr>oc_checkpoint := Some d\<rparr> in
              case checkpoint_refusal cfg env cid d r p1 of
                Some t \<Rightarrow> Some (with_transition o2 t)
              | None \<Rightarrow>
                  (let t0 = gx_clock (pe_gh env) (pp_world p1) in
                   case phase_pr cfg env cid (phase_started cid ''pr'' p1) of
                     None \<Rightarrow> None
                   | Some (pr, p2) \<Rightarrow>
                       Some (after_pr cfg env hk cid r (o2\<lparr>oc_pr := Some pr\<rparr>) pr
                               (phase_completed env cid ''pr'' t0 (pr_step_passed (px_disposition pr)) (px_error pr) p2))))))"

section \<open>The chain of gates\<close>

definition failed_text :: "phase_failure option \<Rightarrow> string" where
  "failed_text f = (case f of None \<Rightarrow> [] | Some x \<Rightarrow> pl_error x)"

text \<open>The brackets of a phase around what it does.\<close>

definition in_phase ::
    "'w pipe_env \<Rightarrow> string \<Rightarrow> string \<Rightarrow> ('r \<Rightarrow> phase_failure option) \<Rightarrow> ('w pipe \<Rightarrow> 'r \<times> 'w pipe) \<Rightarrow> 'w pipe \<Rightarrow>
     'r \<times> 'w pipe" where
  "in_phase env cid phase failure_of run p =
     (let t0 = gx_clock (pe_gh env) (pp_world p) in
      case run (phase_started cid phase p) of
        (r, p1) \<Rightarrow>
          (r, phase_completed env cid phase t0 (failure_of r = None) (failed_text (failure_of r)) p1))"

definition judge_distilled ::
    "pipe_config \<Rightarrow> 'w pipe_env \<Rightarrow> 'w pipe_hooks \<Rightarrow> string \<Rightarrow> component_result \<Rightarrow> string \<Rightarrow> review_phase \<Rightarrow>
     pipe_outcome \<Rightarrow> 'w pipe \<Rightarrow> (pipe_outcome \<times> 'w pipe) option" where
  "judge_distilled cfg env hk cid r diff rp o1 p =
     (let t0 = gx_clock (pe_gh env) (pp_world p) in
      case phase_distill cfg hk cid r diff (phase_started cid ''distill'' p) of
        (dl, p1) \<Rightarrow>
          deliver cfg env hk cid r rp (o1\<lparr>oc_distill := Some dl\<rparr>)
            (phase_completed env cid ''distill'' t0 True
               (case dl_skip_reason dl of None \<Rightarrow> [] | Some s \<Rightarrow> s) p1))"

definition judge_secured ::
    "pipe_config \<Rightarrow> 'w pipe_env \<Rightarrow> 'w pipe_hooks \<Rightarrow> string \<Rightarrow> component_result \<Rightarrow> string \<Rightarrow> review_phase \<Rightarrow>
     pipe_outcome \<Rightarrow> 'w pipe \<Rightarrow> (pipe_outcome \<times> 'w pipe) option" where
  "judge_secured cfg env hk cid r diff rp o1 p =
     (case in_phase env cid ''security'' yp_failure (phase_security cfg hk cid r) p of
        (y, p1) \<Rightarrow>
          (let p2 = note_phase_reading cid ''security'' (security_reading (yp_ran y) (yp_result y)) p1;
               o2 = o1\<lparr>oc_security := Some y\<rparr>
           in case yp_failure y of
                Some f \<Rightarrow> Some (with_transition o2 (route_failure cfg env cid f p2))
              | None \<Rightarrow> judge_distilled cfg env hk cid r diff rp o2 p2))"

definition judge_reviewed ::
    "pipe_config \<Rightarrow> 'w pipe_env \<Rightarrow> 'w pipe_hooks \<Rightarrow> string \<Rightarrow> component_result \<Rightarrow> string \<Rightarrow> verification_result \<Rightarrow>
     pipe_outcome \<Rightarrow> 'w pipe \<Rightarrow> (pipe_outcome \<times> 'w pipe) option" where
  "judge_reviewed cfg env hk cid r diff v o1 p =
     (case in_phase env cid ''review'' rp_failure (phase_review cfg hk cid r v) p of
        (rp, p1) \<Rightarrow>
          (let p2 = note_phase_reading cid ''review'' (review_reading (rp_ran rp) (rp_result rp)) p1;
               o2 = o1\<lparr>oc_review := Some rp\<rparr>
           in case rp_failure rp of
                Some f \<Rightarrow> Some (with_transition o2 (route_failure cfg env cid f p2))
              | None \<Rightarrow> judge_secured cfg env hk cid r diff rp o2 p2))"

definition judge_diffed ::
    "pipe_config \<Rightarrow> 'w pipe_env \<Rightarrow> 'w pipe_hooks \<Rightarrow> string \<Rightarrow> component_result \<Rightarrow> verification_result \<Rightarrow>
     pipe_outcome \<Rightarrow> 'w pipe \<Rightarrow> (pipe_outcome \<times> 'w pipe) option" where
  "judge_diffed cfg env hk cid r v o1 p =
     (case in_phase env cid ''diff'' df_failure (phase_diff env hk cid r) p of
        (df, p1) \<Rightarrow>
          (let o2 = o1\<lparr>oc_diff := Some df\<rparr> in
           case df_failure df of
             Some f \<Rightarrow>
               Some (with_transition o2 (route_failure cfg env cid f
                  (record_fact_utilization cfg hk cid (No_Diff ''diff unavailable'') p1)))
           | None \<Rightarrow>
               judge_reviewed cfg env hk cid r (df_diff df) v o2
                 (record_fact_utilization cfg hk cid (Diff_Text (df_diff df)) p1)))"

definition judge_accepted ::
    "pipe_config \<Rightarrow> 'w pipe_env \<Rightarrow> 'w pipe_hooks \<Rightarrow> string \<Rightarrow> component_result \<Rightarrow> verification_result \<Rightarrow>
     pipe_outcome \<Rightarrow> 'w pipe \<Rightarrow> (pipe_outcome \<times> 'w pipe) option" where
  "judge_accepted cfg env hk cid r v o1 p =
     (case phase_acceptance cfg hk cid r p of
        (Some f, p1) \<Rightarrow>
          Some (with_transition o1 (route_failure cfg env cid f (record_fact_utilization cfg hk cid Fetch_Diff p1)))
      | (None, p1) \<Rightarrow> judge_diffed cfg env hk cid r v o1 p1)"

text \<open>The transition of an outcome is only read once a step has set it.\<close>

definition judge_attempt ::
    "pipe_config \<Rightarrow> 'w pipe_env \<Rightarrow> 'w pipe_hooks \<Rightarrow> string \<Rightarrow> component_result \<Rightarrow> 'w pipe \<Rightarrow>
     (pipe_outcome \<times> 'w pipe) option" where
  "judge_attempt cfg env hk cid r p =
     (let p0 = save_pipe (update_component cid (\<lambda>c. c\<lparr>c_status := VERIFYING\<rparr>) p) in
      case in_phase env cid ''verify'' vp_failure (phase_verify cfg env hk cid r) p0 of
        (v, p1) \<Rightarrow>
          (let o1 = (bare_outcome To_Failed)\<lparr>oc_verify := Some v\<rparr> in
           case vp_failure v of
             Some f \<Rightarrow>
               Some (with_transition o1 (route_failure cfg env cid f (record_fact_utilization cfg hk cid Fetch_Diff p1)))
           | None \<Rightarrow> judge_accepted cfg env hk cid r (vp_verification v) o1 p1))"

section \<open>One component result\<close>

definition loop_record :: "component_result \<Rightarrow> int \<Rightarrow> iteration_record" where
  "loop_record r attempt =
     \<lparr>ir_iteration = cp_iterations r, ir_success = False, ir_error = cp_error r, ir_summary = [],
      ir_attempt = attempt\<rparr>"

definition outcome_of :: "pipe_transition \<times> 'w pipe \<Rightarrow> pipe_outcome \<times> 'w pipe" where
  "outcome_of t = (bare_outcome (fst t), snd t)"

definition engineer_failed ::
    "pipe_config \<Rightarrow> 'w pipe_env \<Rightarrow> string \<Rightarrow> component_result \<Rightarrow> 'w pipe \<Rightarrow> pipe_transition \<times> 'w pipe" where
  "engineer_failed cfg env cid r p =
     (if cp_no_progress r
      then
        (let error = error_or (cp_error r) ''no-progress circuit breaker tripped''
         in fail_component cfg env cid error ''engineer'' ''no_progress_breaker'' [''engineer:no-progress-stall'']
              (emit (Breaker_Tripped cid (cp_iterations r) error) p))
      else
        (let n = attempt_number p cid; c = add_iteration (loop_record r n) (result_context r) in
         if cp_guard_violations r \<noteq> []
         then
           (let detail = error_or (cp_error r) ''files outside allowed scope'';
                p1 = emit (Verification_Result cid False [''diff_scope''] [detail] [] [] ''verify'') p
            in retry_or_fail cfg env cid ''Mechanical verification failed''
                 (Some (added c (add_engineer_failure (''diff_scope: FAIL - '' @ detail) n c)))
                 ''verify'' ''diff_scope'' [] False None p1)
         else
           (let error = error_or (cp_error r) ''Unknown error''
            in retry_or_fail cfg env cid error (Some (added c (add_engineer_failure error n c)))
                 ''engineer'' ''loop'' [] False None p)))"

definition note_engineer :: "pipe_config \<Rightarrow> 'w pipe_env \<Rightarrow> string \<Rightarrow> component_result \<Rightarrow> 'w pipe \<Rightarrow> 'w pipe" where
  "note_engineer cfg env cid r p =
     (let p1 = update_component cid (\<lambda>c. c\<lparr>c_iteration_count := JInt (cp_iterations r)\<rparr>) p;
          p2 = emit (Phase_Completed cid ''engineer'' (cp_success r)
                 (case cp_error r of None \<Rightarrow> [] | Some e \<Rightarrow> e) (pe_round env 2 (cp_duration r))) p1;
          p3 = record_agent_usage cfg cid ''engineer'' (cp_usage r) p2
      in add_findings cid (sweep_findings (cp_sweep r) ''engineer'') p3)"

text \<open>The outer \<open>None\<close> of the result is a wait that never ends, the inner one an unknown component.\<close>

definition process_result ::
    "pipe_config \<Rightarrow> 'w pipe_env \<Rightarrow> 'w pipe_hooks \<Rightarrow> string \<Rightarrow> component_result \<Rightarrow> 'w pipe \<Rightarrow>
     (pipe_outcome option \<times> 'w pipe) option" where
  "process_result cfg env hk cid r p =
     (case get_component (pipe_components p) cid of
        None \<Rightarrow> Some (None, p)
      | Some c \<Rightarrow>
          (let p1 = note_engineer cfg env cid r p in
           if cp_budget_exceeded r \<or> budget_exceeded cfg p1
           then
             (let reason = (if budget_exceeded cfg p1 then []
                            else case cp_error r of None \<Rightarrow> [] | Some e \<Rightarrow> e)
              in Some (map_prod Some id (outcome_of (fail_for_budget cfg env cid ''engineer'' reason
                          (cp_halt_condition r) (cp_halt_ceilings r) p1))))
           else if \<not> cp_success r
           then Some (map_prod Some id (outcome_of (engineer_failed cfg env cid r p1)))
           else map_option (map_prod Some id) (judge_attempt cfg env hk cid r p1)))"

section \<open>A head that was kept\<close>

definition kept_result :: "retry_context option \<Rightarrow> component_result" where
  "kept_result context =
     \<lparr>cp_success = True, cp_iterations = 0, cp_error = None, cp_duration = 0, cp_context = context, cp_usage = None,
      cp_no_progress = False, cp_budget_exceeded = False, cp_halt_condition = [], cp_halt_ceilings = [],
      cp_guard_violations = [], cp_sweep = nothing_swept\<rparr>"

definition rejudge_kept_head ::
    "pipe_config \<Rightarrow> 'w pipe_env \<Rightarrow> 'w pipe_hooks \<Rightarrow> string \<Rightarrow> 'w pipe \<Rightarrow> (pipe_outcome \<times> 'w pipe) option" where
  "rejudge_kept_head cfg env hk cid p =
     (let sha = c_rejudge_sha (the_component p cid);
          p1 = update_component cid (\<lambda>c. c\<lparr>c_rejudge_sha := []\<rparr>) p;
          head = (case hk_head hk cid (pp_world p1) of None \<Rightarrow> [] | Some s \<Rightarrow> s)
      in if head \<noteq> sha
         then Some (outcome_of (fail_component cfg env cid
                (''ks retry kept commit '' @ take 12 sha @ '' for a re-judge, and the worktree '' @
                 (case dict_get (pp_worktrees p1) cid of None \<Rightarrow> [] | Some w \<Rightarrow> w) @ '' is at '' @
                 or_text (take 12 head) ''no commit'' @ ''; nothing was judged. Run '' @
                 ''ks retry '' @ cid @ '' again'')
                ''provisioning'' ''worktree_setup'' [] p1))
         else
           (let ids = approvals_on (run_approvals p1) cid sha @ overrides_on (run_approvals p1) cid sha;
                named = or_text (join_with '', '' (map (take 8) ids)) ''none'';
                reason = ''ks retry kept commit '' @ take 12 sha @ '', which inbox approval '' @ named @
                         '' was taken on; '' @ ''Phase 1 judges it again''
            in judge_attempt cfg env hk cid (kept_result (dict_get (pp_contexts p1) cid))
                 (record_phase_skip cid ''engineer'' reason p1)))"

text \<open>Whether the engineer runs in the worktree, or the head kept for it was judged here.\<close>

definition engineer_worktree ::
    "pipe_config \<Rightarrow> 'w pipe_env \<Rightarrow> 'w pipe_hooks \<Rightarrow> string \<Rightarrow> string option \<Rightarrow> 'w pipe \<Rightarrow>
     (string option \<times> 'w pipe) option" where
  "engineer_worktree cfg env hk cid worktree p =
     (if worktree = None \<or> c_rejudge_sha (the_component p cid) = [] then Some (worktree, p)
      else map_option (\<lambda>(o1, p'). (None, p')) (rejudge_kept_head cfg env hk cid p))"

end
