(* ===== verification/Pipeline_Frame.thy ===== *)
theory Pipeline_Frame
  imports Pipeline_Delivery Dag_Retry
begin

text \<open>
  What the steps of the pipeline leave alone: the ids and the retry counters of the components, the
  number of adversarial calls, and the status of a component once a transition has set it. Each
  operation has its lemma here, so that the properties of \<open>Pipeline_Contract\<close> only follow the steps
  that do change one of them.
\<close>

section \<open>Views\<close>

definition retry_view :: "'w pipe \<Rightarrow> (string \<times> json \<times> string list) list" where
  "retry_view p = map (\<lambda>c. (c_id c, c_retries c, c_dependencies c)) (pipe_components p)"

definition plan_view :: "'w pipe \<Rightarrow> (string \<times> string list) list" where
  "plan_view p = map (\<lambda>c. (c_id c, c_dependencies c)) (pipe_components p)"

lemma plan_of_view: "plan_view p = map (\<lambda>(i, r, d). (i, d)) (retry_view p)"
  by (simp add: plan_view_def retry_view_def comp_def)

lemma same_plan: "retry_view p = retry_view q \<Longrightarrow> plan_view p = plan_view q"
  by (simp add: plan_of_view)

text \<open>The other components, as the code finds them.\<close>

definition others :: "string \<Rightarrow> 'w pipe \<Rightarrow> string \<Rightarrow> component option" where
  "others cid p = (\<lambda>k. if k = cid then None else get_component (pipe_components p) k)"

definition known :: "string \<Rightarrow> 'w pipe \<Rightarrow> bool" where
  "known cid p = (cid \<in> fst ` set (retry_view p))"

definition retries_at :: "'w pipe \<Rightarrow> string \<Rightarrow> int" where
  "retries_at p cid = jint_of (fst (the (map_of (retry_view p) cid)))"

lemma map_of_retry_view:
  "map_of (retry_view p) cid = map_option (\<lambda>c. (c_retries c, c_dependencies c)) (get_component (pipe_components p) cid)"
proof -
  have "map_of (map (\<lambda>c. (c_id c, c_retries c, c_dependencies c)) cs) cid =
      map_option (\<lambda>c. (c_retries c, c_dependencies c)) (find (\<lambda>c. c_id c = cid) cs)" for cs
    by (induction cs) auto
  then show ?thesis by (simp add: retry_view_def get_component_def)
qed

lemma known_iff: "known cid p \<longleftrightarrow> get_component (pipe_components p) cid \<noteq> None"
proof -
  have "known cid p \<longleftrightarrow> map_of (retry_view p) cid \<noteq> None"
    by (simp add: known_def map_of_eq_None_iff)
  then show ?thesis by (simp add: map_of_retry_view)
qed

lemma retries_at_component: "known cid p \<Longrightarrow> retries_at p cid = retries_of (the_component p cid)"
  by (auto simp: known_iff retries_at_def map_of_retry_view the_component_def retries_of_def)

lemma known_same: "retry_view p = retry_view q \<Longrightarrow> known cid p = known cid q"
  by (simp add: known_def)

lemma retries_same: "retry_view p = retry_view q \<Longrightarrow> retries_at p cid = retries_at q cid"
  by (simp add: retries_at_def)

section \<open>Changing one component\<close>

lemma set_component_view:
  "(\<And>c. v (f c) = v c) \<Longrightarrow> map v (set_component cid f cs) = map v cs"
  by (induction cs) auto

lemma components_update [simp]:
  "pipe_components (update_component cid f p) = set_component cid f (pipe_components p)"
  by (simp add: update_component_def set_components_def pipe_components_def)

lemma components_set [simp]: "pipe_components (set_components cs p) = cs"
  by (simp add: set_components_def pipe_components_def)

lemma view_update:
  "(\<And>c. c_id (f c) = c_id c \<and> c_retries (f c) = c_retries c \<and> c_dependencies (f c) = c_dependencies c) \<Longrightarrow>
     retry_view (update_component cid f p) = retry_view p"
  by (simp add: retry_view_def set_component_view)

lemma plan_update:
  "(\<And>c. c_id (f c) = c_id c \<and> c_dependencies (f c) = c_dependencies c) \<Longrightarrow>
     plan_view (update_component cid f p) = plan_view p"
  by (simp add: plan_view_def set_component_view)

lemma others_update:
  "(\<And>c. c_id (f c) = c_id c) \<Longrightarrow> others cid (update_component cid f p) = others cid p"
  by (auto simp: others_def get_set_component)

lemma calls_update [simp]: "pp_calls (update_component cid f p) = pp_calls p"
  by (simp add: update_component_def set_components_def)

lemma component_update:
  "(\<And>c. c_id (f c) = c_id c) \<Longrightarrow> known cid p \<Longrightarrow>
     the_component (update_component cid f p) k = (if k = cid then f (the_component p cid) else the_component p k)"
  by (auto simp: the_component_def get_set_component known_iff)

text \<open>Operations that do not touch the manifest's components.\<close>

lemma same_components:
  "pipe_components p = pipe_components q \<Longrightarrow> retry_view p = retry_view q"
  "pipe_components p = pipe_components q \<Longrightarrow> the_component p cid = the_component q cid"
  "pipe_components p = pipe_components q \<Longrightarrow> others k p = others k q"
  by (simp_all add: retry_view_def the_component_def others_def cong: if_cong)

lemma foldl_keeps: "(\<And>q x. v (f q x) = v q) \<Longrightarrow> v (foldl f p xs) = v p"
  by (induction xs arbitrary: p) auto

section \<open>State, events, hooks and the inbox\<close>

named_theorems frame "the operations that leave the components, the calls or a status alone"

lemma emit_frame [frame]: "pipe_components (emit e p) = pipe_components p" "pp_calls (emit e p) = pp_calls p"
  by (simp_all add: emit_def pipe_components_def)

lemma save_frame [frame]: "pipe_components (save_pipe p) = pipe_components p" "pp_calls (save_pipe p) = pp_calls p"
  by (simp_all add: save_pipe_def pipe_components_def)

lemma fire_frame [frame]:
  "pipe_components (fire_hook cmd cond cid d p) = pipe_components p" "pp_calls (fire_hook cmd cond cid d p) = pp_calls p"
  by (simp_all add: fire_hook_def frame)

lemma fires_frame [frame]:
  "pipe_components (fire_first_failure cfg cid d p) = pipe_components p" "pp_calls (fire_first_failure cfg cid d p) = pp_calls p"
  "pipe_components (fire_merge_pending cfg cid d p) = pipe_components p" "pp_calls (fire_merge_pending cfg cid d p) = pp_calls p"
  "pipe_components (fire_inbox_item cfg k t cid p) = pipe_components p" "pp_calls (fire_inbox_item cfg k t cid p) = pp_calls p"
  by (simp_all add: fire_first_failure_def fire_merge_pending_def fire_inbox_item_def frame)

lemma field_frame [frame]:
  "pipe_components (p\<lparr>pp_world := w\<rparr>) = pipe_components p"
  "pipe_components (p\<lparr>pp_inbox := st\<rparr>) = pipe_components p"
  "pipe_components (p\<lparr>pp_signatures := a\<rparr>) = pipe_components p"
  "pipe_components (p\<lparr>pp_readings := b\<rparr>) = pipe_components p"
  "pipe_components (p\<lparr>pp_reviews := r\<rparr>) = pipe_components p"
  "pipe_components (p\<lparr>pp_counts := c\<rparr>) = pipe_components p"
  "pipe_components (p\<lparr>pp_contexts := d\<rparr>) = pipe_components p"
  "pipe_components (p\<lparr>pp_fresh := e\<rparr>) = pipe_components p"
  "pipe_components (p\<lparr>pp_failed := f\<rparr>) = pipe_components p"
  "pipe_components (p\<lparr>pp_completed := g\<rparr>) = pipe_components p"
  "pipe_components (p\<lparr>pp_skipped := h\<rparr>) = pipe_components p"
  "pipe_components (p\<lparr>pp_typed := i\<rparr>) = pipe_components p"
  "pipe_components (p\<lparr>pp_merged := j\<rparr>) = pipe_components p"
  "pipe_components (p\<lparr>pp_pr_urls := k\<rparr>) = pipe_components p"
  "pipe_components (p\<lparr>pp_announced := l\<rparr>) = pipe_components p"
  "pipe_components (p\<lparr>pp_worktrees := m\<rparr>) = pipe_components p"
  "pipe_components (p\<lparr>pp_journal := n\<rparr>) = pipe_components p"
  "pipe_components (p\<lparr>pp_utilization := u\<rparr>) = pipe_components p"
  "pipe_components (p\<lparr>pp_calls := z\<rparr>) = pipe_components p"
  by (simp_all add: pipe_components_def)

lemma inbox_frame [frame]:
  "pipe_components (pipe_inbox_add cfg env k t d cid key ev p) = pipe_components p"
  "pp_calls (pipe_inbox_add cfg env k t d cid key ev p) = pp_calls p"
  "pipe_components (inbox_resolve_key cfg env key r p) = pipe_components p"
  "pp_calls (inbox_resolve_key cfg env key r p) = pp_calls p"
  "pipe_components (inbox_resolve_component cfg env cid r p) = pipe_components p"
  "pp_calls (inbox_resolve_component cfg env cid r p) = pp_calls p"
  "pipe_components (suppress_generic cid p) = pipe_components p" "pp_calls (suppress_generic cid p) = pp_calls p"
  by (simp_all add: pipe_inbox_add_def inbox_resolve_key_def inbox_resolve_component_def suppress_generic_def
      Let_def frame split: sum.splits option.splits)

text \<open>Emitting one event for each entry of a list.\<close>

lemma foldl_emit: "foldl (\<lambda>q x. emit (g x) q) p xs = p\<lparr>pp_events := pp_events p @ map g xs\<rparr>"
  by (induction xs arbitrary: p) (simp_all add: emit_def)

section \<open>Attempts\<close>

lemma attempt_frame [frame]:
  "retry_view (end_attempt env cid p) = retry_view p" "pp_calls (end_attempt env cid p) = pp_calls p"
  "others cid (end_attempt env cid p) = others cid p"
  "pipe_components (record_failure_signatures env cid ph e s p) = pipe_components p"
  "pp_calls (record_failure_signatures env cid ph e s p) = pp_calls p"
  "pipe_components (journal_superseded env cid n p) = pipe_components p"
  "pp_calls (journal_superseded env cid n p) = pp_calls p"
  "pipe_components (note_phase_reading cid ph b p) = pipe_components p"
  "pp_calls (note_phase_reading cid ph b p) = pp_calls p"
  "pipe_components (phase_started cid ph p) = pipe_components p" "pp_calls (phase_started cid ph p) = pp_calls p"
  "pipe_components (phase_completed env cid ph t b d p) = pipe_components p"
  "pp_calls (phase_completed env cid ph t b d p) = pp_calls p"
  by (simp_all add: end_attempt_def record_failure_signatures_def journal_superseded_def note_phase_reading_def
      phase_started_def phase_completed_def Let_def frame view_update others_update split: option.splits)

lemma events_view: "retry_view (p\<lparr>pp_events := es\<rparr>) = retry_view p" "others k (p\<lparr>pp_events := es\<rparr>) = others k p"
  by (simp_all add: retry_view_def others_def pipe_components_def cong: if_cong)

lemma add_findings_frame [frame]:
  "retry_view (add_findings cid fs p) = retry_view p" "pp_calls (add_findings cid fs p) = pp_calls p"
  "others cid (add_findings cid fs p) = others cid p"
  by (simp_all add: add_findings_def Let_def foldl_emit events_view view_update others_update)

lemma same_view [frame]:
  "retry_view (emit e p) = retry_view p" "retry_view (save_pipe p) = retry_view p"
  "retry_view (fire_first_failure cfg cid d p) = retry_view p"
  "retry_view (fire_merge_pending cfg cid d p) = retry_view p"
  "retry_view (pipe_inbox_add cfg env k t d cid key ev p) = retry_view p"
  "retry_view (inbox_resolve_key cfg env key r p) = retry_view p"
  "retry_view (inbox_resolve_component cfg env cid r p) = retry_view p"
  "retry_view (suppress_generic cid p) = retry_view p"
  "retry_view (record_failure_signatures env cid ph er s p) = retry_view p"
  "retry_view (journal_superseded env cid n p) = retry_view p"
  "retry_view (note_phase_reading cid ph b p) = retry_view p"
  "retry_view (phase_started cid ph p) = retry_view p"
  "retry_view (phase_completed env cid ph t0 b d p) = retry_view p"
  by (rule same_components(1), simp add: frame)+

lemma same_view_others [frame]:
  "others oid (emit e p) = others oid p" "others oid (save_pipe p) = others oid p"
  "others oid (fire_first_failure cfg cid d p) = others oid p"
  "others oid (fire_merge_pending cfg cid d p) = others oid p"
  "others oid (pipe_inbox_add cfg env k t d cid key ev p) = others oid p"
  "others oid (inbox_resolve_key cfg env key r p) = others oid p"
  "others oid (inbox_resolve_component cfg env cid r p) = others oid p"
  "others oid (suppress_generic cid p) = others oid p"
  "others oid (record_failure_signatures env cid ph er s p) = others oid p"
  "others oid (journal_superseded env cid n p) = others oid p"
  "others oid (note_phase_reading cid ph b p) = others oid p"
  "others oid (phase_started cid ph p) = others oid p"
  "others oid (phase_completed env cid ph t0 b d p) = others oid p"
  by (rule same_components(3), simp add: frame)+

lemma field_view [frame]:
  "retry_view (p\<lparr>pp_world := w\<rparr>) = retry_view p"
  "retry_view (p\<lparr>pp_signatures := a\<rparr>) = retry_view p"
  "retry_view (p\<lparr>pp_reviews := r\<rparr>) = retry_view p"
  "retry_view (p\<lparr>pp_counts := c\<rparr>) = retry_view p"
  "retry_view (p\<lparr>pp_contexts := d\<rparr>) = retry_view p"
  "retry_view (p\<lparr>pp_fresh := e\<rparr>) = retry_view p"
  "retry_view (p\<lparr>pp_failed := f\<rparr>) = retry_view p"
  "retry_view (p\<lparr>pp_completed := g\<rparr>) = retry_view p"
  "retry_view (p\<lparr>pp_skipped := h\<rparr>) = retry_view p"
  "retry_view (p\<lparr>pp_typed := i\<rparr>) = retry_view p"
  "retry_view (p\<lparr>pp_merged := j\<rparr>) = retry_view p"
  "retry_view (p\<lparr>pp_pr_urls := k\<rparr>) = retry_view p"
  "retry_view (p\<lparr>pp_worktrees := m\<rparr>) = retry_view p"
  "retry_view (p\<lparr>pp_utilization := u\<rparr>) = retry_view p"
  "retry_view (p\<lparr>pp_calls := z\<rparr>) = retry_view p"
  by (rule same_components(1), simp add: frame)+

lemma field_view_others [frame]:
  "others oid (p\<lparr>pp_world := w\<rparr>) = others oid p"
  "others oid (p\<lparr>pp_signatures := a\<rparr>) = others oid p"
  "others oid (p\<lparr>pp_reviews := r\<rparr>) = others oid p"
  "others oid (p\<lparr>pp_counts := c\<rparr>) = others oid p"
  "others oid (p\<lparr>pp_contexts := d\<rparr>) = others oid p"
  "others oid (p\<lparr>pp_fresh := e\<rparr>) = others oid p"
  "others oid (p\<lparr>pp_failed := f\<rparr>) = others oid p"
  "others oid (p\<lparr>pp_completed := g\<rparr>) = others oid p"
  "others oid (p\<lparr>pp_skipped := h\<rparr>) = others oid p"
  "others oid (p\<lparr>pp_typed := i\<rparr>) = others oid p"
  "others oid (p\<lparr>pp_merged := j\<rparr>) = others oid p"
  "others oid (p\<lparr>pp_pr_urls := k\<rparr>) = others oid p"
  "others oid (p\<lparr>pp_worktrees := m\<rparr>) = others oid p"
  "others oid (p\<lparr>pp_utilization := u\<rparr>) = others oid p"
  "others oid (p\<lparr>pp_calls := z\<rparr>) = others oid p"
  by (rule same_components(3), simp add: frame)+

lemma skip_frame [frame]:
  "retry_view (record_phase_skip cid ph r p) = retry_view p" "pp_calls (record_phase_skip cid ph r p) = pp_calls p"
  "others cid (record_phase_skip cid ph r p) = others cid p"
  by (simp_all add: record_phase_skip_def frame)

section \<open>The ledger\<close>

lemma announce_frame [frame]:
  fixes p :: "'w pipe"
  shows
  "retry_view (announce_one cfg k p) = retry_view p" "pp_calls (announce_one cfg k p) = pp_calls p"
  "retry_view (announce_gaps cfg p) = retry_view p" "pp_calls (announce_gaps cfg p) = pp_calls p"
  "others oid (announce_one cfg k p) = others oid p" "others oid (announce_gaps cfg p) = others oid p"
proof -
  have one: "retry_view (announce_one cfg k p) = retry_view p" "pp_calls (announce_one cfg k p) = pp_calls p"
    "others oid (announce_one cfg k p) = others oid p" for p :: "'w pipe" and k
    by (simp_all add: announce_one_def frame retry_view_def others_def cong: if_cong split: option.splits)
  then show "retry_view (announce_one cfg k p) = retry_view p" "pp_calls (announce_one cfg k p) = pp_calls p"
    "others oid (announce_one cfg k p) = others oid p" by simp_all
  show "retry_view (announce_gaps cfg p) = retry_view p" "pp_calls (announce_gaps cfg p) = pp_calls p"
    "others oid (announce_gaps cfg p) = others oid p"
    unfolding announce_gaps_def by (rule foldl_keeps, simp add: one)+
qed

lemma usage_frame [frame]:
  fixes p :: "'w pipe"
  shows
  "retry_view (record_usage cfg cid ph t p) = retry_view p" "pp_calls (record_usage cfg cid ph t p) = pp_calls p"
  "retry_view (record_agent_usage cfg cid ph u p) = retry_view p" "pp_calls (record_agent_usage cfg cid ph u p) = pp_calls p"
  "others oid (record_usage cfg cid ph t p) = others oid p" "others oid (record_agent_usage cfg cid ph u p) = others oid p"
proof -
  have "retry_view (p\<lparr>pp_usage := a, pp_run_usage := b\<rparr>) = retry_view p"
    "others oid (p\<lparr>pp_usage := a, pp_run_usage := b\<rparr>) = others oid p" for p :: "'w pipe" and a b
    by (simp_all add: retry_view_def others_def pipe_components_def cong: if_cong)
  then have one: "retry_view (record_usage cfg cid ph t p) = retry_view p" "pp_calls (record_usage cfg cid ph t p) = pp_calls p"
    "others oid (record_usage cfg cid ph t p) = others oid p" for t and p :: "'w pipe"
    by (simp_all add: record_usage_def Let_def frame)
  then show "retry_view (record_usage cfg cid ph t p) = retry_view p" "pp_calls (record_usage cfg cid ph t p) = pp_calls p"
    "others oid (record_usage cfg cid ph t p) = others oid p" by simp_all
  show "retry_view (record_agent_usage cfg cid ph u p) = retry_view p" "pp_calls (record_agent_usage cfg cid ph u p) = pp_calls p"
    "others oid (record_agent_usage cfg cid ph u p) = others oid p"
    by (simp_all add: record_agent_usage_def one split: option.splits)
qed

section \<open>Failing\<close>

lemma update_all_view: "(\<And>c. v (f c) = v c) \<Longrightarrow> map v (update_all f ks cs) = map v cs"
  by (induction ks arbitrary: cs rule: rev_induct) (simp_all add: update_all_def set_component_view)

lemma cascade_frame [frame]:
  fixes p :: "'w pipe"
  shows
  "retry_view (pipe_cascade_skip env cid p) = retry_view p" "pp_calls (pipe_cascade_skip env cid p) = pp_calls p"
proof -
  obtain cs skipped where c: "cascade_skip (pe_iso env (pp_world p)) (pipe_components p) cid = (cs, skipped)"
    by (cases "cascade_skip (pe_iso env (pp_world p)) (pipe_components p) cid")
  have "map (\<lambda>c. (c_id c, c_retries c, c_dependencies c)) cs =
      map (\<lambda>c. (c_id c, c_retries c, c_dependencies c)) (pipe_components p)"
    unfolding cascade_skip_spec(3) [OF c] by (rule update_all_view) (simp add: skip_component_def)
  then show "retry_view (pipe_cascade_skip env cid p) = retry_view p" "pp_calls (pipe_cascade_skip env cid p) = pp_calls p"
    by (simp_all add: pipe_cascade_skip_def c foldl_emit, simp_all add: retry_view_def set_components_def pipe_components_def)
qed

text \<open>A cascade skips components that are not completed and wait, over a dependency, for one that is
  not completed either; it changes no other. \<open>P\<close> is the plan, \<open>X\<close> and \<open>Y\<close> the other components before
  and after.\<close>

definition held_up ::
    "string \<Rightarrow> (string \<times> string list) list \<Rightarrow> (string \<Rightarrow> component option) \<Rightarrow> string \<Rightarrow> bool" where
  "held_up cid P X k =
     (\<exists>ds u. (k, ds) \<in> set P \<and> u \<in> set ds \<and> (u = cid \<or> (\<exists>d. X u = Some d \<and> c_status d \<noteq> COMPLETED)))"

definition spared ::
    "string \<Rightarrow> (string \<times> string list) list \<Rightarrow> (string \<Rightarrow> component option) \<Rightarrow> (string \<Rightarrow> component option) \<Rightarrow> bool" where
  "spared cid P X Y =
     (\<forall>k. Y k = X k \<or>
       (\<exists>c now. X k = Some c \<and> c_status c \<noteq> COMPLETED \<and> held_up cid P X k \<and> Y k = Some (skip_component now cid c)))"

lemma spared_refl [frame]: "spared cid P X X"
  by (simp add: spared_def)

lemma cascades_held_up:
  assumes "cascades (pipe_components p) cid k"
  shows "held_up cid (plan_view p) (others cid p) k"
proof -
  have "\<exists>u. (u, k) \<in> dep_rel (pipe_components p) \<and>
      (u = cid \<or> (u \<noteq> cid \<and> (\<exists>c. get_component (pipe_components p) u = Some c \<and> c_status c \<noteq> COMPLETED)))"
    using assms by (cases rule: cascades.cases) (auto elim: cascadesE)
  then show ?thesis
    by (fastforce simp: held_up_def dep_rel_iff plan_view_def others_def image_iff)
qed

lemma cascade_spares: "spared cid (plan_view p) (others cid p) (others cid (pipe_cascade_skip env cid p))"
proof -
  obtain cs skipped where c: "cascade_skip (pe_iso env (pp_world p)) (pipe_components p) cid = (cs, skipped)"
    by (cases "cascade_skip (pe_iso env (pp_world p)) (pipe_components p) cid")
  note s = cascade_skip_spec [OF c]
  have "pipe_components (pipe_cascade_skip env cid p) = cs"
    by (simp add: pipe_cascade_skip_def c foldl_emit) (simp add: set_components_def pipe_components_def)
  moreover have "get_component cs k = (if k \<in> set skipped
      then map_option (skip_component (pe_iso env (pp_world p)) cid) (get_component (pipe_components p) k)
      else get_component (pipe_components p) k)" for k
    unfolding s(3) using s(1) by (subst get_update_all) (simp_all add: skip_component_def)
  moreover have "c_status x \<noteq> COMPLETED" "held_up cid (plan_view p) (others cid p) k"
    if "k \<in> set skipped" "get_component (pipe_components p) k = Some x" for x k
    using that s(2) cascades_held_up [of p cid k] by (auto elim: cascadesE)
  ultimately have one: "others cid (pipe_cascade_skip env cid p) k = others cid p k \<or>
      (\<exists>c now. others cid p k = Some c \<and> c_status c \<noteq> COMPLETED \<and> held_up cid (plan_view p) (others cid p) k \<and>
        others cid (pipe_cascade_skip env cid p) k = Some (skip_component now cid c))" for k
    by (cases "get_component (pipe_components p) k") (auto simp: others_def)
  then show ?thesis by (simp add: spared_def)
qed

lemma failing_frame [frame]:
  "others cid (mark_failed env cid e ph ck p) = others cid p" "others oid (file_halt cfg env cid e ph ck p) = others oid p"
  "retry_view (mark_failed env cid e ph ck p) = retry_view p" "pp_calls (mark_failed env cid e ph ck p) = pp_calls p"
  "retry_view (file_halt cfg env cid e ph ck p) = retry_view p" "pp_calls (file_halt cfg env cid e ph ck p) = pp_calls p"
  by (simp_all add: mark_failed_def file_halt_def frame view_update others_update)

lemma fail_frame [frame]:
  "retry_view (snd (fail_component cfg env cid e ph ck s p)) = retry_view p"
  "pp_calls (snd (fail_component cfg env cid e ph ck s p)) = pp_calls p"
  "fst (fail_component cfg env cid e ph ck s p) = To_Failed"
  by (simp_all add: fail_component_def Let_def frame)

lemma spared_after:
  "retry_view q = retry_view p \<Longrightarrow> others cid q = others cid p \<Longrightarrow>
     spared cid (plan_view p) (others cid p) (others cid (pipe_cascade_skip env cid q))"
  using cascade_spares [of cid q env] same_plan [of q p] by simp

lemma fail_spares:
  "spared cid (plan_view p) (others cid p) (others cid (snd (fail_component cfg env cid e ph ck s p)))"
  by (simp add: fail_component_def Let_def frame spared_after)

end
