(* ===== verification/Pipeline_Moves.thy ===== *)
theory Pipeline_Moves
  imports Pipeline_Frame
begin

text \<open>
  How one component result moves its component. A step is \<open>steady\<close> when it changes no retry counter and
  calls no reviewer over the budget; a transition has \<open>moved\<close> the component when the manifest on disk
  holds the new status and the counter went up exactly for a retry below the limit. Every operation
  of the pipeline is one or the other, so \<open>process_result\<close> moves its component.
\<close>

section \<open>Statuses\<close>

lemma status_update:
  "(\<And>c. c_id (f c) = c_id c \<and> c_status (f c) = c_status c) \<Longrightarrow>
     status_at (update_component cid f p) k = status_at p k"
  by (cases "get_component (pipe_components p) k") (auto simp: status_at_def the_component_def get_set_component)

lemma same_status: "pipe_components p = pipe_components q \<Longrightarrow> status_at p k = status_at q k"
  by (simp add: status_at_def the_component_def)

lemma status_end [frame]: "status_at (end_attempt env cid p) k = status_at p k"
  by (simp add: end_attempt_def Let_def status_update split: option.splits)

lemma status_frame [frame]:
  "status_at (emit e p) k = status_at p k" "status_at (save_pipe p) k = status_at p k"
  "status_at (fire_first_failure cfg cid d p) k = status_at p k"
  "status_at (fire_merge_pending cfg cid d p) k = status_at p k"
  "status_at (pipe_inbox_add cfg env kd t d cid key ev p) k = status_at p k"
  "status_at (inbox_resolve_component cfg env cid r p) k = status_at p k"
  "status_at (p\<lparr>pp_failed := f\<rparr>) k = status_at p k"
  "status_at (p\<lparr>pp_completed := g\<rparr>) k = status_at p k"
  "status_at (p\<lparr>pp_signatures := a\<rparr>) k = status_at p k"
  "status_at (p\<lparr>pp_typed := i\<rparr>) k = status_at p k"
  "status_at (p\<lparr>pp_world := w\<rparr>) k = status_at p k"
  "status_at (p\<lparr>pp_contexts := d2\<rparr>) k = status_at p k"
  "status_at (record_failure_signatures env cid ph er s p) k = status_at p k"
  by (rule same_status, simp add: frame)+

lemma status_file_halt [frame]: "status_at (file_halt cfg env cid e ph ck p) k = status_at p k"
  by (simp add: file_halt_def frame)

lemma not_cascading_itself: "\<not> cascades cs v v"
  by (auto elim: cascades.cases)

lemma status_cascade [frame]: "status_at (pipe_cascade_skip env cid p) cid = status_at p cid"
proof -
  obtain cs skipped where c: "cascade_skip (pe_iso env (pp_world p)) (pipe_components p) cid = (cs, skipped)"
    by (cases "cascade_skip (pe_iso env (pp_world p)) (pipe_components p) cid")
  note s = cascade_skip_spec [OF c]
  have "get_component cs cid = get_component (pipe_components p) cid"
    unfolding s(3) using s(2) not_cascading_itself
    by (subst get_update_all) (auto simp: skip_component_def s(1))
  moreover have "pipe_components (pipe_cascade_skip env cid p) = cs"
    by (simp add: pipe_cascade_skip_def c foldl_emit) (simp add: set_components_def pipe_components_def)
  ultimately show ?thesis by (simp add: status_at_def the_component_def)
qed

lemma known_frame: "retry_view p = retry_view q \<Longrightarrow> known cid p \<Longrightarrow> known cid q"
  by (simp add: known_def)

lemma status_set:
  "known cid p \<Longrightarrow> (\<And>c. c_id (f c) = c_id c) \<Longrightarrow> (\<And>c. c_status (f c) = s) \<Longrightarrow>
     status_at (update_component cid f p) cid = s"
  by (simp add: status_at_def component_update)

lemma retries_update:
  assumes "known cid p" and "\<And>c. c_id (f c) = c_id c"
  shows "retries_at (update_component cid f p) k =
    (if k = cid then retries_of (f (the_component p cid)) else retries_at p k)"
  using assms
  by (auto simp: retries_at_def map_of_retry_view get_set_component known_iff retries_of_def the_component_def)

section \<open>Steps and transitions\<close>

text \<open>A step that changes no component's retries and calls no reviewer over the budget.\<close>

definition steady :: "pipe_config \<Rightarrow> string \<Rightarrow> 'w pipe \<Rightarrow> 'w pipe \<Rightarrow> bool" where
  "steady cfg cid p q =
     (retry_view q = retry_view p \<and> others cid q = others cid p \<and>
      (pf_max_adversarial cfg > 0 \<longrightarrow> pp_calls q \<le> max (pp_calls p) (pf_max_adversarial cfg)))"

fun status_after :: "pipe_transition \<Rightarrow> component_status" where
  "status_after To_Retrying = PENDING"
| "status_after To_Failed = FAILED"
| "status_after To_Merge_Pending = MERGE_PENDING"
| "status_after To_Awaiting_Approval = AWAITING_APPROVAL"
| "status_after To_Completed = COMPLETED"

text \<open>A transition of the component: its counter moves exactly for a retry, and only below the limit.\<close>

definition moved :: "pipe_config \<Rightarrow> string \<Rightarrow> 'w pipe \<Rightarrow> pipe_transition \<Rightarrow> 'w pipe \<Rightarrow> bool" where
  "moved cfg cid p t q =
     (pp_saved q = pp_manifest q \<and> status_at q cid = status_after t \<and>
      (pf_max_adversarial cfg > 0 \<longrightarrow> pp_calls q \<le> max (pp_calls p) (pf_max_adversarial cfg)) \<and>
      (\<forall>k. retries_at q k = retries_at p k + (if t = To_Retrying \<and> k = cid then 1 else 0)) \<and>
      (t = To_Retrying \<longrightarrow> retries_at p cid < pf_max_retries cfg) \<and>
      plan_view q = plan_view p \<and>
      spared cid (plan_view p) (others cid p) (others cid q))"

lemma steady_refl:
  "retry_view q = retry_view p \<Longrightarrow> pp_calls q = pp_calls p \<Longrightarrow> others cid q = others cid p \<Longrightarrow> steady cfg cid p q"
  by (simp add: steady_def)

lemma steady_trans: "steady cfg cid p q \<Longrightarrow> steady cfg cid q r \<Longrightarrow> steady cfg cid p r"
  by (auto simp: steady_def)

lemma steady_known: "steady cfg cid p q \<Longrightarrow> known k p \<Longrightarrow> known k q"
  by (simp add: steady_def known_def)

lemma steady_moved: "steady cfg cid p q \<Longrightarrow> moved cfg cid q t r \<Longrightarrow> moved cfg cid p t r"
  using same_plan [of q p] by (auto simp: steady_def moved_def retries_at_def)

lemma moved_frame:
  assumes "pp_saved q = pp_manifest q" and "status_at q cid = status_after t" and "t \<noteq> To_Retrying"
    and "retry_view q = retry_view p" and "pp_calls q = pp_calls p"
    and "spared cid (plan_view p) (others cid p) (others cid q)"
  shows "moved cfg cid p t q"
  using assms same_plan [of q p] by (simp add: moved_def retries_at_def)

section \<open>Every transition\<close>

lemma mark_failed_status: "known cid p \<Longrightarrow> status_at (mark_failed env cid e ph ck p) cid = FAILED"
  by (simp add: mark_failed_def status_set)

lemma save_saves: "pp_saved (save_pipe p) = pp_manifest (save_pipe p)"
  by (simp add: save_pipe_def)

lemma fail_moves:
  assumes "known cid p"
  shows "moved cfg cid p To_Failed (snd (fail_component cfg env cid e ph ck s p))"
proof (rule moved_frame)
  have "known cid (record_failure_signatures env cid ph e s p)"
    using assms by (rule known_frame [rotated]) (simp add: frame)
  then show "status_at (snd (fail_component cfg env cid e ph ck s p)) cid = status_after To_Failed"
    by (simp add: fail_component_def Let_def frame mark_failed_status)
qed (simp_all add: fail_component_def Let_def frame save_saves spared_after)

lemma fail_moves': "known cid p \<Longrightarrow> fail_component cfg env cid e ph ck s p = (t, q) \<Longrightarrow> moved cfg cid p t q"
  using fail_moves [of cid p cfg env e ph ck s] fail_frame(3) [of cfg env cid e ph ck s p] by simp

lemma schedule_moves:
  assumes "known cid p" and "retries_at p cid < pf_max_retries cfg"
    and "schedule_retry cfg env cid e c ph ck fb n p = (t, q)"
  shows "moved cfg cid p t q"
proof -
  define p1 where "p1 = (if fresh_start cfg e fb = None then p else p\<lparr>pp_fresh := list_add cid (pp_fresh p)\<rparr>)"
  define p2 where "p2 = end_attempt env cid (journal_superseded env cid n p1)"
  define err where "err = (case fresh_start cfg e fb of None \<Rightarrow> e | Some x \<Rightarrow> x)"
  define p3 where "p3 = update_component cid (\<lambda>c.
      c\<lparr>c_failed_phase := JStr ph, c_failed_check := JStr ck, c_retries := JInt (retries_of c + 1),
        c_status := PENDING, c_error := JStr err\<rparr>) p2"
  define p4 where "p4 = store_context cid c p3"
  have q: "t = To_Retrying" "q = save_pipe (let p5 = emit (Component_Retrying cid (retries_of (the_component p4 cid)) err) p4
      in p5\<lparr>pp_world := gx_sleep (pe_gh env) (pf_retry_delay cfg) (pp_world p5)\<rparr>)"
    using assms(3) unfolding schedule_retry_def Let_def p1_def p2_def err_def p3_def p4_def by simp_all
  have v: "retry_view p2 = retry_view p" "pp_calls p2 = pp_calls p"
    by (simp_all add: p2_def p1_def frame)
  then have k: "known cid p2" "retries_of (the_component p2 cid) = retries_at p cid"
    using assms(1) retries_at_component [of cid p2] by (simp_all add: known_def retries_at_def)
  have r3: "retries_at p3 j = (if j = cid then retries_at p cid + 1 else retries_at p j)" for j
  proof -
    have bump: "retries_of (c\<lparr>c_failed_phase := a, c_failed_check := b, c_retries := JInt n,
        c_status := s, c_error := e'\<rparr>) = n" for c :: component and a b n s e'
      by (simp add: retries_of_def)
    show ?thesis
      unfolding p3_def
      by (subst retries_update [OF k(1)]) (simp_all add: bump k(2) retries_same [OF v(1)])
  qed
  have s3: "status_at p3 cid = PENDING" unfolding p3_def by (rule status_set [OF k(1)]) simp_all
  have "pipe_components q = pipe_components p3" "pp_calls q = pp_calls p3" "pp_saved q = pp_manifest q"
    by (simp_all add: q Let_def frame save_saves p4_def store_context_def split: option.splits)
  moreover have "pp_calls p3 = pp_calls p" by (simp add: p3_def v)
  moreover have "plan_view p3 = plan_view p" "others cid p3 = others cid p"
    unfolding p3_def by (simp_all add: plan_update same_plan [OF v(1)] others_update) (simp_all add: p2_def p1_def frame)
  ultimately show ?thesis
    using r3 s3 assms(2) q(1) same_components(1) [of q p3] same_components(3) [of q p3 cid] same_plan [of q p3] same_status [of q p3 cid]
    by (simp add: moved_def retries_at_def frame)
qed

lemma not_converging_moves:
  assumes "known cid p" and "fail_not_converging cfg env cid counts p = (t, q)"
  shows "moved cfg cid p t q"
proof -
  let ?p = "add_findings cid [not_converging_finding (convergence_message counts (pf_convergence cfg))] p"
  have "steady cfg cid p ?p" by (simp add: steady_refl frame)
  moreover have "moved cfg cid ?p t q"
    using assms steady_known [OF calculation assms(1)]
    by (intro fail_moves') (simp_all add: fail_not_converging_def Let_def)
  ultimately show ?thesis by (rule steady_moved)
qed

lemma retry_or_fail_moves:
  assumes "known cid p" and "retry_or_fail cfg env cid e c ph ck s fb n p = (t, q)"
  shows "moved cfg cid p t q"
proof -
  obtain cs p1 where r: "record_failure_count cid ph n (record_failure_signatures env cid ph e s p) = (cs, p1)"
    by (cases "record_failure_count cid ph n (record_failure_signatures env cid ph e s p)")
  then have st: "steady cfg cid p p1"
    by (auto intro!: steady_refl simp: record_failure_count_def Let_def frame)
  note k = steady_known [OF st assms(1)]
  have "moved cfg cid p1 t q"
  proof (cases "retries_of (the_component p1 cid) < pf_max_retries cfg")
    case True
    then have less: "retries_at p1 cid < pf_max_retries cfg" by (simp add: retries_at_component [OF k])
    show ?thesis
      using assms(2) True schedule_moves [OF k less] not_converging_moves [OF k]
      by (auto simp: retry_or_fail_def r split: if_splits)
  next
    case False
    with assms(2) fail_moves' [OF k] show ?thesis by (auto simp: retry_or_fail_def r)
  qed
  with st show ?thesis by (rule steady_moved)
qed

lemma fail_after:
  "known cid p \<Longrightarrow> steady cfg cid p p1 \<Longrightarrow> fail_component cfg env cid e ph ck s p1 = (t, q) \<Longrightarrow> moved cfg cid p t q"
  by (meson fail_moves' steady_known steady_moved)

lemma budget_moves:
  assumes "known cid p" and "fail_for_budget cfg env cid ph r cd cl p = (t, q)"
  shows "moved cfg cid p t q"
proof -
  obtain cd' cl' where c: "(if cl = [] then budget_halt_identity cfg p else (cd, cl)) = (cd', cl')"
    by (cases "if cl = [] then budget_halt_identity cfg p else (cd, cl)")
  show ?thesis
    using assms(2) unfolding fail_for_budget_def c Let_def prod.case
    by (rule fail_after [OF assms(1), rotated]) (simp add: steady_def frame)
qed

lemma route_moves:
  assumes "known cid p" and "route_failure cfg env cid f p = (t, q)"
  shows "moved cfg cid p t q"
  using assms retry_or_fail_moves [OF assms(1)] fail_moves' [OF assms(1)] budget_moves [OF assms(1)]
  by (auto simp: route_failure_def split: failure_action.splits)

lemma complete_moves:
  assumes "known cid p" and "complete cfg env cid p = (t, q)"
  shows "moved cfg cid p t q"
proof -
  have t: "t = To_Completed" and q: "q = snd (complete cfg env cid p)"
    using assms(2) by (simp_all add: complete_def Let_def)
  have s: "status_at (update_component cid (\<lambda>c. c\<lparr>c_status := COMPLETED, c_error := JStr []\<rparr>) p) cid = COMPLETED"
    by (rule status_set [OF assms(1)]) simp_all
  have keep: "pp_saved (inbox_resolve_component cfg env cid r x) = pp_saved x"
    "pp_manifest (inbox_resolve_component cfg env cid r x) = pp_manifest x" for r and x :: "'a pipe"
    by (simp_all add: inbox_resolve_component_def Let_def)
  show ?thesis unfolding t
    by (rule moved_frame) (simp_all add: q complete_def Let_def frame keep save_saves s status_update view_update others_update)
qed

section \<open>The PR step\<close>

lemma status_set_frame:
  "known cid p \<Longrightarrow> retry_view q = retry_view p \<Longrightarrow> (\<And>c. c_id (f c) = c_id c) \<Longrightarrow> (\<And>c. c_status (f c) = s) \<Longrightarrow>
     status_at (update_component cid f q) cid = s"
  by (rule status_set) (auto simp: known_def)

lemma park_pending_moves:
  assumes "known cid p" and "park_merge_pending cfg env cid e p = (t, q)"
  shows "moved cfg cid p t q"
proof -
  have t: "t = To_Merge_Pending" and q: "q = snd (park_merge_pending cfg env cid e p)"
    using assms(2) by (simp_all add: park_merge_pending_def Let_def)
  have s: "status_at (update_component cid (\<lambda>c. c\<lparr>c_status := MERGE_PENDING, c_error := JStr e\<rparr>) p) cid = MERGE_PENDING"
    by (rule status_set [OF assms(1)]) simp_all
  show ?thesis unfolding t
    by (rule moved_frame) (simp_all add: q park_merge_pending_def Let_def frame save_saves s view_update others_update)
qed

lemma park_awaiting_moves:
  assumes "known cid p" and "park_awaiting_approval cfg env cid p = (t, q)"
  shows "moved cfg cid p t q"
proof (cases "has_open_item (park_decision cfg env cid p)")
  case False
  with assms show ?thesis by (auto simp: park_awaiting_approval_def intro: fail_moves')
next
  case True
  then have t: "t = To_Awaiting_Approval" and q: "q = snd (park_awaiting_approval cfg env cid p)"
    using assms(2) by (simp_all add: park_awaiting_approval_def Let_def)
  have s: "status_at (update_component cid (\<lambda>c. c\<lparr>c_status := AWAITING_APPROVAL, c_error := JStr parked_awaiting\<rparr>) p) cid =
      AWAITING_APPROVAL"
    by (rule status_set [OF assms(1)]) simp_all
  show ?thesis unfolding t
    by (rule moved_frame) (simp_all add: q True park_awaiting_approval_def Let_def frame save_saves s view_update others_update)
qed

lemma fail_pr_flow_moves:
  assumes "known cid p" and "fail_pr_flow cfg env cid e ck p = (t, q)"
  shows "moved cfg cid p t q"
proof -
  have t: "t = To_Failed" and q: "q = snd (fail_pr_flow cfg env cid e ck p)"
    using assms(2) by (simp_all add: fail_pr_flow_def Let_def)
  show ?thesis unfolding t
    by (rule moved_frame) (simp_all add: q fail_pr_flow_def Let_def frame save_saves spared_after mark_failed_status [OF assms(1)])
qed

lemma conflict_moves:
  assumes "known cid p" and "retry_after_conflict cfg env cid r pr p = (t, q)"
  shows "moved cfg cid p t q"
proof -
  define p2 where "p2 = update_component cid (\<lambda>c. c\<lparr>c_pr_number := JNull, c_pr_url := JStr []\<rparr>)
    (if conflicting_pr (the_component p cid) pr = 0 then p
     else p\<lparr>pp_world := snd (close_pr_for_rerun (pe_gh env) (conflicting_pr (the_component p cid) pr)
       (c_branch_name (the_component p cid)) (pp_world p))\<rparr>)"
  have st: "steady cfg cid p p2" by (rule steady_refl) (simp_all add: p2_def frame view_update others_update)
  from assms(2) have "\<exists>e c ph ck s fb n. retry_or_fail cfg env cid e c ph ck s fb n p2 = (t, q)"
    unfolding retry_after_conflict_def Let_def p2_def by blast
  then show ?thesis
    using retry_or_fail_moves [OF steady_known [OF st assms(1)]] steady_moved [OF st] by blast
qed

lemma record_merge_steady: "steady cfg cid p (record_merge cid a b p)"
  by (rule steady_refl) (simp_all add: record_merge_def Let_def frame view_update others_update)

lemma note_pr_steady: "steady cfg cid p (note_pr_created cid url p)"
  by (rule steady_refl) (simp_all add: note_pr_created_def frame)

lemma phase_pr_steady:
  assumes "phase_pr cfg env cid p = Some (pr, q)"
  shows "steady cfg cid p q"
proof -
  obtain available w where a: "is_gh_available (pe_gh env) (pp_world p) = (available, w)"
    by (cases "is_gh_available (pe_gh env) (pp_world p)")
  let ?p0 = "p\<lparr>pp_world := w\<rparr>"
  have s0: "steady cfg cid p ?p0" by (simp add: steady_refl frame)
  show ?thesis
  proof (cases available)
    case False
    with assms s0 show ?thesis by (simp add: phase_pr_def a)
  next
    case True
    then obtain r cm w' where m: "push_create_and_merge_pr (pe_gh env) (the_component ?p0 cid) (pp_manifest ?p0) ''squash''
        (pf_merge_timeout cfg) w = Some (r, cm, w')"
      using assms by (auto simp: phase_pr_def a Let_def split: option.splits)
    define p2 where "p2 = save_pipe (note_pr_created cid (po_pr_url r) (update_component cid
      (\<lambda>c. c\<lparr>c_pr_number := c_pr_number cm, c_pr_url := c_pr_url cm\<rparr>) (?p0\<lparr>pp_world := w'\<rparr>)))"
    have s2: "steady cfg cid p p2"
      by (rule steady_refl) (simp_all add: p2_def note_pr_created_def frame view_update others_update)
    have "q = p2 \<or> (\<exists>a b. q = record_merge cid a b p2)"
      using assms True m by (auto simp: phase_pr_def a p2_def Let_def split: if_splits)
    then show ?thesis using s2 steady_trans [OF s2 record_merge_steady] by auto
  qed
qed

section \<open>Worktrees and the checkpoint\<close>

lemma clean_up_steady: "steady cfg cid p (clean_up_worktree c hk cid p)"
  by (rule steady_refl) (simp_all add: clean_up_worktree_def Let_def frame split: prod.splits)

lemma checkpoint_steady: "phase_checkpoint cfg env hk cid rp p = (d, q) \<Longrightarrow> steady cfg cid p q"
  by (rule steady_refl)
    (auto simp: phase_checkpoint_def ask_operator_def Let_def frame split: if_splits prod.splits option.splits)

lemma refusal_moves:
  assumes "known cid p" and "checkpoint_refusal cfg env cid d r p = Some (t, q)"
  shows "moved cfg cid p t q"
  using assms fail_moves' [OF assms(1)] park_awaiting_moves [OF assms(1)] retry_or_fail_moves [OF assms(1)]
  by (cases d) (auto simp: checkpoint_refusal_def Let_def)

section \<open>The phases\<close>

lemma update_steady:
  "(\<And>c. c_id (f c) = c_id c \<and> c_retries (f c) = c_retries c \<and> c_dependencies (f c) = c_dependencies c) \<Longrightarrow>
     steady cfg cid p (update_component cid f p)"
  by (simp add: steady_refl view_update others_update)

lemma verify_setup_steady: "before_gates cfg hk cid r p = (e, q) \<Longrightarrow> steady cfg cid p q"
  by (rule steady_refl)
    (auto simp: before_gates_def set_up_gate_worktree_def Let_def frame view_update others_update split: if_splits prod.splits)

lemma file_exception_frame [frame]:
  "retry_view (file_exception cfg env hk cid ch p f) = retry_view p" "pp_calls (file_exception cfg env hk cid ch p f) = pp_calls p"
  "others oid (file_exception cfg env hk cid ch p f) = others oid p"
  by (simp_all add: file_exception_def frame)

lemma check_findings_frame [frame]:
  fixes p :: "'w pipe"
  shows "retry_view (file_check_findings cfg env hk cid ch fs p) = retry_view p"
    and "pp_calls (file_check_findings cfg env hk cid ch fs p) = pp_calls p"
    and "others cid (file_check_findings cfg env hk cid ch fs p) = others cid p"
proof -
  have "retry_view (foldl (file_exception cfg env hk cid ch) p fs) = retry_view p"
    and "pp_calls (foldl (file_exception cfg env hk cid ch) p fs) = pp_calls p"
    and "others cid (foldl (file_exception cfg env hk cid ch) p fs) = others cid p" for p :: "'w pipe"
    by (rule foldl_keeps, simp add: frame)+
  then show "retry_view (file_check_findings cfg env hk cid ch fs p) = retry_view p"
    and "pp_calls (file_check_findings cfg env hk cid ch fs p) = pp_calls p"
    and "others cid (file_check_findings cfg env hk cid ch fs p) = others cid p"
    by (simp_all add: file_check_findings_def frame)
qed

lemma run_gates_steady: "run_gates cfg env hk cid r p = (v, q) \<Longrightarrow> steady cfg cid p q"
  by (rule steady_refl)
    (auto simp: run_gates_def Let_def frame view_update others_update split: prod.splits)

lemma phase_verify_steady: "phase_verify cfg env hk cid r p = (v, q) \<Longrightarrow> steady cfg cid p q"
  by (auto simp: phase_verify_def split: prod.splits option.splits
      dest!: verify_setup_steady run_gates_steady intro: steady_trans)

lemma phase_acceptance_steady: "phase_acceptance cfg hk cid r p = (f, q) \<Longrightarrow> steady cfg cid p q"
  by (rule steady_refl) (auto simp: phase_acceptance_def Let_def frame split: prod.splits option.splits)

lemma phase_diff_steady: "phase_diff env hk cid r p = (d, q) \<Longrightarrow> steady cfg cid p q"
  by (rule steady_refl) (auto simp: phase_diff_def Let_def frame view_update others_update split: sum.splits)

text \<open>The one step that calls a reviewer asks the budget first.\<close>

lemma consume_steady: "adversarial_budget_ok cfg p \<Longrightarrow> steady cfg cid p (consume_adversarial p)"
  by (auto simp: steady_def consume_adversarial_def adversarial_budget_ok_def frame split: if_splits)

lemma budget_refusal_steady: "budget_refusal cfg cid ph role p = (f, q) \<Longrightarrow> steady c cid p q"
  by (rule steady_refl) (auto simp: budget_refusal_def Let_def frame)

lemma not_run_steady: "review_did_not_run cfg hk cid reason dg p = (v, q) \<Longrightarrow> steady c cid p q"
  by (rule steady_refl) (auto simp: review_did_not_run_def Let_def frame view_update others_update)

lemma divergence_steady: "divergence_failure cfg hk cid rv p = (e, q) \<Longrightarrow> steady c cid p q"
  by (rule steady_refl) (auto simp: divergence_failure_def Let_def frame split: option.splits)

lemma review_failure_steady: "review_failure cfg hk cid r rv p = (f, q) \<Longrightarrow> steady c cid p q"
  by (auto simp: review_failure_def split: if_splits prod.splits option.splits
      dest: divergence_steady intro: steady_refl)

lemma revert_claims_steady: "revert_claims hk cid r rv d ds p = (f, q) \<Longrightarrow> steady c cid p q"
  by (rule steady_refl) (auto simp: revert_claims_def Let_def frame split: prod.splits option.splits)

lemma add_findings_steady: "steady c cid p (add_findings cid fs p)"
  by (simp add: steady_refl frame)

lemma judge_claims_steady: "judge_claims cfg hk cid r rv p = (f, q) \<Longrightarrow> steady c cid p q"
  by (auto simp: judge_claims_def Let_def add_findings_steady split: if_splits sum.splits
      dest!: review_failure_steady revert_claims_steady intro: steady_trans [OF add_findings_steady])

lemma record_review_steady: "steady c cid p (record_review cid rv p)"
  by (rule steady_refl) (simp_all add: record_review_def Let_def frame view_update others_update)

lemma agent_steady:
  assumes "adversarial_budget_ok cfg p"
  shows "steady cfg cid p (record_agent_usage c cid ph u ((consume_adversarial p)\<lparr>pp_world := w\<rparr>))"
  using consume_steady [OF assms] by (simp add: steady_def frame)

lemma run_review_steady:
  assumes "adversarial_budget_ok cfg p" and "run_review_agent cfg hk cid r v p = (f, q)"
  shows "steady cfg cid p q"
  using assms(2)
  by (auto simp: run_review_agent_def Let_def agent_steady [OF assms(1)] split: option.splits
      dest!: judge_claims_steady [where c = cfg]
      intro: steady_trans [OF agent_steady [OF assms(1)] steady_trans [OF record_review_steady]])

lemma phase_review_steady: "phase_review cfg hk cid r v p = (f, q) \<Longrightarrow> steady cfg cid p q"
  by (auto simp: phase_review_def update_steady split: if_splits prod.splits
      dest!: not_run_steady [where c = cfg] budget_refusal_steady [where c = cfg]
      intro: run_review_steady steady_trans [OF update_steady [where f = "c_review_passed_update (\<lambda>_. JBool False)"]])

lemma record_security_steady: "steady c cid p (record_security cid sc sr p)"
  by (rule steady_refl) (simp_all add: record_security_def Let_def frame view_update others_update)

lemma phase_security_steady: "phase_security cfg hk cid r p = (f, q) \<Longrightarrow> steady cfg cid p q"
  by (auto simp: phase_security_def security_skipped_def security_budget_branch_def Let_def frame
      split: if_splits prod.splits option.splits dest!: budget_refusal_steady [where c = cfg]
      intro: steady_refl agent_steady steady_trans [OF agent_steady record_security_steady])

lemma utilization_steady: "steady c cid p (record_fact_utilization cfg hk cid d p)"
  by (rule steady_refl)
    (simp_all add: record_fact_utilization_def store_utilization_def frame split: utilization_diff.splits sum.splits)

lemma phase_distill_steady: "phase_distill cfg hk cid r d p = (f, q) \<Longrightarrow> steady cfg cid p q"
proof -
  assume f: "phase_distill cfg hk cid r d p = (f, q)"
  show "steady cfg cid p q"
  proof (cases "pf_knowledge cfg \<and> \<not> m_single_pr (pp_manifest p) \<and> adversarial_budget_ok cfg p")
    case True
    with f consume_steady [of cfg p] show ?thesis
      by (auto simp: phase_distill_def Let_def steady_def frame split: option.splits sum.splits)
  next
    case False
    with f show ?thesis
      by (auto simp: phase_distill_def Let_def steady_def frame split: if_splits)
  qed
qed

lemma bracket_steady:
  "steady c cid p (phase_started cid ph p)" "steady c cid p (phase_completed env cid ph t b d p)"
  "steady c cid p (note_phase_reading cid ph b p)" "steady c cid p (save_pipe p)"
  by (simp_all add: steady_refl frame)

text \<open>What the chain of gates needs of a phase it puts between the two brackets.\<close>

locale phase_step =
  fixes cfg :: pipe_config and cid :: string
    and run :: "'w pipe \<Rightarrow> 'r \<times> 'w pipe"
  assumes run_steady: "run a = (y, b) \<Longrightarrow> steady cfg cid a b"
begin

lemma bracketed:
  assumes "in_phase env cid ph g run p = (x, q)"
  shows "steady cfg cid p q"
proof -
  obtain y b where run: "run (phase_started cid ph p) = (y, b)" by (cases "run (phase_started cid ph p)")
  with assms have "q = phase_completed env cid ph (gx_clock (pe_gh env) (pp_world p)) (g y = None) (failed_text (g y)) b"
    by (auto simp: in_phase_def Let_def)
  then show ?thesis
    using steady_trans [OF bracket_steady(1) steady_trans [OF run_steady [OF run] bracket_steady(2)]] by simp
qed

lemma known_after: "in_phase env cid ph g run p = (x, q) \<Longrightarrow> known k p \<Longrightarrow> known k q"
  by (rule steady_known [OF bracketed])

end

interpretation verify_step: phase_step cfg cid "phase_verify cfg env hk cid r"
  for cfg :: pipe_config and env :: "'w pipe_env" and hk :: "'w pipe_hooks" and cid r
  by unfold_locales (rule phase_verify_steady)

interpretation diff_step: phase_step cfg cid "phase_diff env hk cid r"
  for cfg :: pipe_config and env :: "'w pipe_env" and hk :: "'w pipe_hooks" and cid r
  by unfold_locales (rule phase_diff_steady)

interpretation review_step: phase_step cfg cid "phase_review cfg hk cid r v"
  for cfg :: pipe_config and hk :: "'w pipe_hooks" and cid r v
  by unfold_locales (rule phase_review_steady)

interpretation security_step: phase_step cfg cid "phase_security cfg hk cid r"
  for cfg :: pipe_config and hk :: "'w pipe_hooks" and cid r
  by unfold_locales (rule phase_security_steady)

lemma note_engineer_steady: "steady c cid p (note_engineer cfg env cid r p)"
  by (rule steady_refl) (simp_all add: note_engineer_def Let_def frame view_update others_update)

lemma engineer_failed_moves:
  assumes "known cid p" and "engineer_failed cfg env cid r p = (t, q)"
  shows "moved cfg cid p t q"
proof -
  have e: "steady cfg cid p (emit x p)" for x by (simp add: steady_refl frame)
  have k: "known cid (emit x p)" for x by (rule steady_known [OF e assms(1)])
  note after_event = steady_moved [OF e fail_moves' [OF k]] steady_moved [OF e retry_or_fail_moves [OF k]]
  show ?thesis
    using assms(2) after_event retry_or_fail_moves [OF assms(1)]
    unfolding engineer_failed_def Let_def by (metis (no_types, lifting))
qed

section \<open>The chain\<close>

abbreviation moves :: "pipe_config \<Rightarrow> string \<Rightarrow> 'w pipe \<Rightarrow> pipe_outcome \<Rightarrow> 'w pipe \<Rightarrow> bool" where
  "moves cfg cid p o1 q \<equiv> moved cfg cid p (oc_transition o1) q"

lemma with_transition_moves:
  "with_transition o1 x = (o2, q) \<Longrightarrow> (\<And>t r. x = (t, r) \<Longrightarrow> moved cfg cid p t r) \<Longrightarrow> moves cfg cid p o2 q"
  by (cases x) (auto simp: with_transition_def)

lemma steady_moves: "steady cfg cid p p1 \<Longrightarrow> moves cfg cid p1 o1 q \<Longrightarrow> moves cfg cid p o1 q"
  by (rule steady_moved)

lemma finish_moves:
  assumes "known cid p" and "finish_delivery cfg env hk cid o1 p = (o2, q)"
  shows "moves cfg cid p o2 q"
proof (rule steady_moves [OF clean_up_steady])
  show "moves cfg cid (clean_up_worktree cfg hk cid p) o2 q"
    using assms(2) unfolding finish_delivery_def
    by (rule with_transition_moves) (rule complete_moves [OF steady_known [OF clean_up_steady assms(1)]])
qed

lemma after_pr_moves:
  assumes "known cid p" and "after_pr cfg env hk cid r o1 pr p = (o2, q)"
  shows "moves cfg cid p o2 q"
  using assms(2) finish_moves [OF assms(1)]
  by (auto simp: after_pr_def split: pr_disposition.splits
      elim!: with_transition_moves
      intro: conflict_moves [OF assms(1)] park_pending_moves [OF assms(1)] fail_pr_flow_moves [OF assms(1)])

lemma route_outcome_moves:
  assumes "known cid p" and "steady cfg cid p p1" and "with_transition o1 (route_failure cfg env cid f p1) = (o2, q)"
  shows "moves cfg cid p o2 q"
  using assms(3)
  by (rule with_transition_moves)
    (rule steady_moved [OF assms(2)], rule route_moves [OF steady_known [OF assms(2) assms(1)]])

lemma deliver_moves:
  assumes "known cid p" and "deliver cfg env hk cid r rp o1 p = Some (o2, q)"
  shows "moves cfg cid p o2 q"
proof (cases "pf_create_prs cfg \<and> \<not> pf_single_pr cfg")
  case False
  with assms show ?thesis by (auto simp: deliver_def intro: finish_moves)
next
  case True
  obtain d p1 where c: "phase_checkpoint cfg env hk cid rp p = (d, p1)"
    by (cases "phase_checkpoint cfg env hk cid rp p")
  note s1 = checkpoint_steady [OF c]
  note k1 = steady_known [OF s1 assms(1)]
  have "moves cfg cid p1 o2 q"
  proof (cases "checkpoint_refusal cfg env cid d r p1")
    case (Some t)
    with True assms(2) refusal_moves [OF k1, of cfg env d r] show ?thesis
      by (auto simp: deliver_def c Let_def elim!: with_transition_moves)
  next
    case None
    with True assms(2) obtain pr p2 where pr: "phase_pr cfg env cid (phase_started cid ''pr'' p1) = Some (pr, p2)"
      by (auto simp: deliver_def c Let_def split: option.splits)
    let ?p3 = "phase_completed env cid ''pr'' (gx_clock (pe_gh env) (pp_world p1)) (pr_step_passed (px_disposition pr))
      (px_error pr) p2"
    have s3: "steady cfg cid p1 ?p3"
      using steady_trans [OF bracket_steady(1) steady_trans [OF phase_pr_steady [OF pr] bracket_steady(2)]] .
    from True assms(2) None pr obtain o3 where "after_pr cfg env hk cid r o3 pr ?p3 = (o2, q)"
      by (auto simp: deliver_def c Let_def)
    from after_pr_moves [OF steady_known [OF s3 k1] this] s3 show ?thesis by (rule steady_moves [rotated])
  qed
  with s1 show ?thesis by (rule steady_moves)
qed

lemma distilled_moves:
  assumes "known cid p" and "judge_distilled cfg env hk cid r d rp o1 p = Some (o2, q)"
  shows "moves cfg cid p o2 q"
proof -
  obtain dl p1 where dl: "phase_distill cfg hk cid r d (phase_started cid ''distill'' p) = (dl, p1)"
    by (cases "phase_distill cfg hk cid r d (phase_started cid ''distill'' p)")
  let ?p2 = "phase_completed env cid ''distill'' (gx_clock (pe_gh env) (pp_world p)) True
    (case dl_skip_reason dl of None \<Rightarrow> [] | Some s \<Rightarrow> s) p1"
  have st: "steady cfg cid p ?p2"
    using steady_trans [OF bracket_steady(1) steady_trans [OF phase_distill_steady [OF dl] bracket_steady(2)]] .
  from assms(2) obtain o3 where "deliver cfg env hk cid r rp o3 ?p2 = Some (o2, q)"
    by (auto simp: judge_distilled_def dl Let_def)
  from steady_moves [OF st deliver_moves [OF steady_known [OF st assms(1)] this]] show ?thesis .
qed

lemma secured_moves:
  assumes "known cid p" and "judge_secured cfg env hk cid r d rp o1 p = Some (o2, q)"
  shows "moves cfg cid p o2 q"
proof -
  obtain y p1 where y: "in_phase env cid ''security'' yp_failure (phase_security cfg hk cid r) p = (y, p1)"
    by (cases "in_phase env cid ''security'' yp_failure (phase_security cfg hk cid r) p")
  let ?p2 = "note_phase_reading cid ''security'' (security_reading (yp_ran y) (yp_result y)) p1"
  have "steady cfg cid p p1" using y by (rule security_step.bracketed)
  then have st: "steady cfg cid p ?p2" by (rule steady_trans) (rule bracket_steady)
  show ?thesis
    using assms(2) route_outcome_moves [OF assms(1) st]
      steady_moves [OF st distilled_moves [OF steady_known [OF st assms(1)]]]
    by (auto simp: judge_secured_def y Let_def split: option.splits)
qed

lemma reviewed_moves:
  assumes "known cid p" and "judge_reviewed cfg env hk cid r d v o1 p = Some (o2, q)"
  shows "moves cfg cid p o2 q"
proof -
  obtain rp p1 where y: "in_phase env cid ''review'' rp_failure (phase_review cfg hk cid r v) p = (rp, p1)"
    by (cases "in_phase env cid ''review'' rp_failure (phase_review cfg hk cid r v) p")
  let ?p2 = "note_phase_reading cid ''review'' (review_reading (rp_ran rp) (rp_result rp)) p1"
  have "steady cfg cid p p1" using y by (rule review_step.bracketed)
  then have st: "steady cfg cid p ?p2" by (rule steady_trans) (rule bracket_steady)
  show ?thesis
    using assms(2) route_outcome_moves [OF assms(1) st]
      steady_moves [OF st secured_moves [OF steady_known [OF st assms(1)]]]
    by (auto simp: judge_reviewed_def y Let_def split: option.splits)
qed

lemma diffed_moves:
  assumes "known cid p" and "judge_diffed cfg env hk cid r v o1 p = Some (o2, q)"
  shows "moves cfg cid p o2 q"
proof -
  obtain df p1 where y: "in_phase env cid ''diff'' df_failure (phase_diff env hk cid r) p = (df, p1)"
    by (cases "in_phase env cid ''diff'' df_failure (phase_diff env hk cid r) p")
  have "steady cfg cid p p1" using y by (rule diff_step.bracketed)
  then have st: "steady cfg cid p (record_fact_utilization cfg hk cid d p1)" for d
    by (rule steady_trans) (rule utilization_steady)
  show ?thesis
    using assms(2) route_outcome_moves [OF assms(1) st]
      steady_moves [OF st reviewed_moves [OF steady_known [OF st assms(1)]]]
    by (auto simp: judge_diffed_def y Let_def split: option.splits)
qed

lemma accepted_moves:
  assumes "known cid p" and "judge_accepted cfg env hk cid r v o1 p = Some (o2, q)"
  shows "moves cfg cid p o2 q"
proof -
  obtain f p1 where y: "phase_acceptance cfg hk cid r p = (f, p1)"
    by (cases "phase_acceptance cfg hk cid r p")
  note s1 = phase_acceptance_steady [OF y]
  have st: "steady cfg cid p (record_fact_utilization cfg hk cid d p1)" for d
    using s1 by (rule steady_trans) (rule utilization_steady)
  show ?thesis
    using assms(2) route_outcome_moves [OF assms(1) st]
      steady_moves [OF s1 diffed_moves [OF steady_known [OF s1 assms(1)]]]
    by (auto simp: judge_accepted_def y split: option.splits)
qed

lemma attempt_moves:
  assumes "known cid p" and "judge_attempt cfg env hk cid r p = Some (o2, q)"
  shows "moves cfg cid p o2 q"
proof -
  let ?p0 = "save_pipe (update_component cid (\<lambda>c. c\<lparr>c_status := VERIFYING\<rparr>) p)"
  obtain v p1 where y: "in_phase env cid ''verify'' vp_failure (phase_verify cfg env hk cid r) ?p0 = (v, p1)"
    by (cases "in_phase env cid ''verify'' vp_failure (phase_verify cfg env hk cid r) ?p0")
  have "steady cfg cid p ?p0" by (rule steady_refl) (simp_all add: frame view_update others_update)
  moreover have "steady cfg cid ?p0 p1" using y by (rule verify_step.bracketed)
  ultimately have s1: "steady cfg cid p p1" by (rule steady_trans)
  then have st: "steady cfg cid p (record_fact_utilization cfg hk cid d p1)" for d
    by (rule steady_trans) (rule utilization_steady)
  show ?thesis
    using assms(2) route_outcome_moves [OF assms(1) st]
      steady_moves [OF s1 accepted_moves [OF steady_known [OF s1 assms(1)]]]
    by (auto simp: judge_attempt_def y Let_def split: option.splits)
qed

lemma bare_outcome_eq:
  "map_prod Some id (outcome_of x) = (Some o2, q) \<longleftrightarrow> o2 = bare_outcome (fst x) \<and> q = snd x"
  by (auto simp: outcome_of_def)

lemma bare_transition: "oc_transition (bare_outcome t) = t"
  by (simp add: bare_outcome_def)

lemma process_moves:
  assumes "process_result cfg env hk cid r p = Some (Some o2, q)"
  shows "moves cfg cid p o2 q"
proof -
  have k: "known cid p" using assms by (auto simp: process_result_def known_iff split: option.splits)
  let ?p1 = "note_engineer cfg env cid r p"
  note k1 = steady_known [OF note_engineer_steady k]
  have "moves cfg cid ?p1 o2 q"
    using assms attempt_moves [OF k1] budget_moves [OF k1 surjective_pairing]
      engineer_failed_moves [OF k1 surjective_pairing]
    by (auto simp: process_result_def Let_def bare_outcome_eq bare_transition split: option.splits if_splits)
  then show ?thesis by (rule steady_moves [OF note_engineer_steady])
qed

section \<open>The rest of a run\<close>

text \<open>What else happens to a component between its results.\<close>

lemma begin_steady: "steady c cid p (begin_attempt env cid p)"
proof -
  have "retry_view (q\<lparr>pp_signatures := a, pp_readings := b, pp_started := d\<rparr>) = retry_view q"
    "others k (q\<lparr>pp_signatures := a, pp_readings := b, pp_started := d\<rparr>) = others k q" for q :: "'a pipe" and k a b d
    by (simp_all add: retry_view_def others_def pipe_components_def cong: if_cong)
  then show ?thesis by (simp add: steady_refl begin_attempt_def Let_def view_update others_update)
qed

text \<open>A component that ends outside a judged result: its counter stays, its dependents may be skipped.\<close>

definition ended :: "string \<Rightarrow> 'w pipe \<Rightarrow> 'w pipe \<Rightarrow> bool" where
  "ended cid p q =
     (retry_view q = retry_view p \<and> pp_calls q = pp_calls p \<and>
      spared cid (plan_view p) (others cid p) (others cid q))"

lemma backstop_ends: "ended cid p (backstop_component cfg env cid p)"
  by (simp add: ended_def backstop_component_def Let_def frame view_update others_update spared_after split: option.splits)

lemma aborted_ends: "ended cid p (fail_aborted cfg env cid reason p)"
  by (auto simp: ended_def fail_aborted_def frame fail_spares split: option.splits)

lemma repoll_ends:
  assumes "repoll_one cfg env cid p = Some q"
  shows "ended cid p q"
proof -
  have "ended cid p (repolled_merged cfg env cid n m (p\<lparr>pp_world := w\<rparr>))" for n m w
    by (simp add: ended_def repolled_merged_def record_merge_def Let_def frame view_update others_update)
  moreover have "ended cid p (repolled_closed cfg env cid n (p\<lparr>pp_world := w\<rparr>))" for n w
    by (simp add: ended_def repolled_closed_def Let_def frame spared_after)
  moreover have "ended cid p (p\<lparr>pp_world := w\<rparr>)" for w by (simp add: ended_def frame)
  ultimately show ?thesis
    using assms by (auto simp: repoll_one_def Let_def ended_def frame split: if_splits option.splits merge_state.splits)
qed

text \<open>A decision leaves the component alone or ends it, and never schedules a retry.\<close>

lemma not_retrying:
  "fst (fail_component cfg env cid e ph ck s p) \<noteq> To_Retrying"
  "fst (complete cfg env cid p) \<noteq> To_Retrying"
  "fst (park_merge_pending cfg env cid e p) \<noteq> To_Retrying"
  "fst (fail_pr_flow cfg env cid e ck p) \<noteq> To_Retrying"
  by (simp_all add: frame complete_def park_merge_pending_def fail_pr_flow_def Let_def)

lemma approved_moves:
  assumes "known cid p" and "merge_approved cfg env cid d p = Some q"
  shows "\<exists>t. t \<noteq> To_Retrying \<and> moved cfg cid p t q"
proof (cases "approved_head_of env d = [] \<or> branch_head env cid p \<noteq> approved_head_of env d")
  case True
  with assms(2) fail_moves [OF assms(1)] show ?thesis
    by (auto simp: merge_approved_def Let_def)
next
  case False
  with assms(2) obtain pr p1 where pr: "phase_pr cfg env cid p = Some (pr, p1)"
    by (auto simp: merge_approved_def Let_def split: option.splits)
  note st = phase_pr_steady [OF pr]
  note k = steady_known [OF st assms(1)]
  from False assms(2) have "q = snd (complete cfg env cid p1) \<or>
      q = snd (park_merge_pending cfg env cid (px_error pr) p1) \<or> (\<exists>e ck. q = snd (fail_pr_flow cfg env cid e ck p1))"
    by (auto simp: merge_approved_def pr Let_def split: if_splits)
  moreover note complete_moves [OF k surjective_pairing, of cfg env] park_pending_moves [OF k surjective_pairing]
    fail_pr_flow_moves [OF k surjective_pairing]
  ultimately have "\<exists>t. t \<noteq> To_Retrying \<and> moved cfg cid p1 t q"
    using not_retrying(2) [of cfg env cid p1] not_retrying(3) [of cfg env cid _ p1] not_retrying(4) [of cfg env cid _ _ p1]
    by metis
  then show ?thesis using steady_moved [OF st] by blast
qed

lemma decision_moves:
  assumes "known cid p" and "apply_decision cfg env cid p = Some q"
  shows "q = p \<or> (\<exists>t. t \<noteq> To_Retrying \<and> moved cfg cid p t q)"
proof -
  have s: "steady cfg cid p (suppress_generic cid p)" by (simp add: steady_refl frame)
  have "moved cfg cid p To_Failed (snd (fail_component cfg env cid e ph ck sg (suppress_generic cid p)))" for e ph ck sg
    by (rule steady_moved [OF s fail_moves [OF steady_known [OF s assms(1)]]])
  with assms(2) approved_moves [OF assms(1)] show ?thesis
    by (auto simp: apply_decision_def split: option.splits if_splits)
qed

end
