(* ===== verification/Merge_Contract.thy ===== *)
theory Merge_Contract
  imports Merge
begin

text \<open>
  What the pull request step promises: it returns, however \<open>gh\<close> and GitHub behave, once the clock
  advances; and it reports a merge only when GitHub was read as \<open>MERGED\<close>.
\<close>

section \<open>The wait ends\<close>

text \<open>A command does not turn the clock back, and \<open>time.sleep(d)\<close> sleeps for at least \<open>d\<close> seconds.\<close>

definition clock_advances :: "'w gh_env \<Rightarrow> bool" where
  "clock_advances env \<longleftrightarrow>
     (\<forall>argv w. gx_clock env w \<le> gx_clock env (snd (gx_run env argv w))) \<and>
     (\<forall>d w. gx_clock env w + d \<le> gx_clock env (gx_sleep env d w))"

lemma clock_after_run: "clock_advances env \<Longrightarrow> gx_clock env w \<le> gx_clock env (snd (gx_run env argv w))"
  and clock_after_sleep: "clock_advances env \<Longrightarrow> gx_clock env w + d \<le> gx_clock env (gx_sleep env d w)"
  by (simp_all add: clock_advances_def)

lemma fetch_pr_state_world:
  "snd (fetch_pr_state env n w) =
     snd (gx_run env [''gh'', ''pr'', ''view'', int_text n, ''--json'', ''state,mergeCommit,headRefOid''] w)"
  by (simp add: fetch_pr_state_def split: prod.split)

lemma poll_once_next:
  assumes "clock_advances env" "poll_once env n interval deadline w = Inr w'"
  shows "gx_clock env w + interval \<le> gx_clock env w' \<or> deadline \<le> gx_clock env w'"
proof -
  obtain view w1 where f: "fetch_pr_state env n w = (view, w1)" by (cases "fetch_pr_state env n w")
  with assms(2) have w': "w' = gx_sleep env (min interval (deadline - gx_clock env w1)) w1"
    by (auto simp: poll_once_def Let_def split: if_splits)
  have "gx_clock env w \<le> gx_clock env w1"
    using clock_after_run [OF assms(1)] fetch_pr_state_world [of env n w] f by simp
  moreover have "gx_clock env w1 + min interval (deadline - gx_clock env w1) \<le> gx_clock env w'"
    unfolding w' by (rule clock_after_sleep [OF assms(1)])
  ultimately show ?thesis by (auto simp: min_def split: if_splits)
qed

lemma wait_until_returns:
  assumes "clock_advances env" "0 < interval"
  shows "deadline - gx_clock env w \<le> of_nat k * interval \<Longrightarrow> \<exists>r. wait_until env n interval deadline w = Some r"
proof (induction k arbitrary: w)
  case 0
  then have "\<not> gx_clock env w < deadline" by simp
  then show ?case by (simp add: wait_until.simps)
next
  case (Suc k)
  show ?case
  proof (cases "gx_clock env w < deadline")
    case False
    then show ?thesis by (simp add: wait_until.simps)
  next
    case True
    show ?thesis
    proof (cases "poll_once env n interval deadline w")
      case (Inl r)
      with True show ?thesis by (simp add: wait_until.simps)
    next
      case (Inr w')
      have pos: "0 \<le> of_nat k * interval" using assms(2) by simp
      have "deadline - gx_clock env w' \<le> of_nat k * interval"
        using poll_once_next [OF assms(1) Inr] Suc.prems pos by (auto simp: algebra_simps)
      from Suc.IH [OF this] Inr True show ?thesis by (simp add: wait_until.simps)
    qed
  qed
qed

lemma wait_for_merge_returns:
  assumes "clock_advances env"
  shows "\<exists>r. wait_for_merge env n limit w = Some r"
proof -
  obtain k where "limit / poll_seconds \<le> of_nat k" using real_arch_simple by blast
  then have "limit \<le> of_nat k * poll_seconds" by (simp add: poll_seconds_def)
  then show ?thesis
    unfolding wait_for_merge_def
    by (intro wait_until_returns [OF assms, where k = k]) (simp_all add: poll_seconds_def)
qed

lemma merge_and_wait_returns:
  assumes "clock_advances env"
  shows "\<exists>r. merge_and_wait env n url base how limit head w = Some r"
proof -
  obtain e w1 where i: "merge_initiated env n how w = (e, w1)" by (cases "merge_initiated env n how w")
  show ?thesis
  proof (cases e)
    case None
    obtain c w2 where "wait_for_merge env n limit w1 = Some (c, w2)"
      using wait_for_merge_returns [OF assms, of n limit w1] by auto
    with i None show ?thesis by (simp add: merge_and_wait_def)
  next
    case (Some x)
    with i show ?thesis by (simp add: merge_and_wait_def)
  qed
qed

lemma pr_step_returns:
  assumes "clock_advances env"
  shows "\<exists>r. push_create_and_merge_pr env cm m how limit w = Some r"
proof (cases "pr_url_of cm = []")
  case False
  have "\<exists>r. existing_pr env cm m how limit w = Some r"
    using merge_and_wait_returns [OF assms] by (simp add: existing_pr_def Let_def split: prod.split)
  with False show ?thesis by (auto simp: push_create_and_merge_pr_def)
next
  case True
  obtain e w1 where p: "push_branch env (c_branch_name cm) w = (e, w1)" by (cases "push_branch env (c_branch_name cm) w")
  obtain r w2 where c: "create_component_pr env cm m w1 = (r, w2)" by (cases "create_component_pr env cm m w1")
  show ?thesis
  proof (cases r)
    case (Inl x)
    with True p c show ?thesis
      by (cases e; cases "the e") (auto simp: push_create_and_merge_pr_def)
  next
    case (Inr x)
    obtain n url where x: "x = (n, url)" by (cases x)
    obtain z w3 where "merge_and_wait env n url (m_base_branch m) how limit (c_branch_name cm) w2 = Some (z, w3)"
      using merge_and_wait_returns [OF assms, of n url "m_base_branch m" how limit "c_branch_name cm" w2] by auto
    with True p c Inr x show ?thesis
      by (cases e; cases "the e") (auto simp: push_create_and_merge_pr_def)
  qed
qed

section \<open>A merge is what GitHub said\<close>

text \<open>\<open>w'\<close> is \<open>w\<close> after some commands and sleeps.\<close>

inductive later :: "'w gh_env \<Rightarrow> 'w \<Rightarrow> 'w \<Rightarrow> bool" for env where
  now: "later env w w"
| ran: "later env w w' \<Longrightarrow> later env w (snd (gx_run env argv w'))"
| slept: "later env w w' \<Longrightarrow> later env w (gx_sleep env d w')"

lemma later_trans:
  assumes "later env w w'" "later env w' w''"
  shows "later env w w''"
  using assms(2,1) by (induction) (auto intro: later.intros)

lemma later_run: "gx_run env argv w = (r, w') \<Longrightarrow> later env w w'"
  using later.ran [OF later.now, of env w argv] by simp

lemma later_slept: "later env w (gx_sleep env d w)"
  by (rule later.slept [OF later.now])

lemma later_fetch: "later env w (snd (fetch_pr_state env n w))"
  unfolding fetch_pr_state_world by (rule later.ran [OF later.now])

lemma later_fetch': "fetch_pr_state env n w = (v, w') \<Longrightarrow> later env w w'"
  using later_fetch [of env w n] by simp

lemma later_push: "push_branch env b w = (e, w') \<Longrightarrow> later env w w'"
  by (auto simp: push_branch_def split: prod.splits dest: later_run)

lemma later_delete: "later env w (snd (delete_remote_branch env b w))"
  by (auto simp: delete_remote_branch_def split: prod.splits dest: later_run)

lemma later_fetch_base: "fetch_base_branch env b w = (e, w') \<Longrightarrow> later env w w'"
  by (auto simp: fetch_base_branch_def split: prod.splits dest: later_run)

lemma later_create: "create_component_pr env cm m w = (r, w') \<Longrightarrow> later env w w'"
  by (auto simp: create_component_pr_def split: prod.splits command_result.splits if_splits dest: later_run)

lemma later_merge_pr:
  assumes "merge_pr env n how w = (e, w')"
  shows "later env w w'"
proof -
  obtain r w1 where 1: "gx_run env [''gh'', ''pr'', ''merge'', int_text n, ''--'' @ how, ''--auto''] w = (r, w1)"
    by fastforce
  obtain r2 w2 where 2: "gx_run env [''gh'', ''pr'', ''merge'', int_text n, ''--'' @ how] w1 = (r2, w2)"
    by fastforce
  have l1: "later env w w1" by (rule later_run [OF 1])
  have l2: "later env w w2" by (rule later_trans [OF l1 later_run [OF 2]])
  from assms 1 2 have "w' = w1 \<or> w' = w2"
    by (auto simp: merge_pr_def Let_def split: command_result.splits if_splits)
  with l1 l2 show ?thesis by auto
qed

lemma later_initiated:
  assumes "merge_initiated env n how w = (e, w')"
  shows "later env w w'"
proof -
  obtain e1 w1 where 1: "merge_pr env n how w = (e1, w1)" by fastforce
  obtain v w2 where 2: "fetch_pr_state env n w1 = (v, w2)" by fastforce
  have l1: "later env w w1" by (rule later_merge_pr [OF 1])
  have l2: "later env w w2" by (rule later_trans [OF l1 later_fetch' [OF 2]])
  from assms 1 2 have "w' = w1 \<or> w' = w2" by (auto simp: merge_initiated_def split: option.splits if_splits)
  with l1 l2 show ?thesis by auto
qed

text \<open>At some moment of a stretch of the world GitHub answered \<open>MERGED\<close>, with these commits.\<close>

definition seen_merged :: "'w gh_env \<Rightarrow> int \<Rightarrow> string \<Rightarrow> string \<Rightarrow> 'w \<Rightarrow> 'w \<Rightarrow> bool" where
  "seen_merged env n merge_sha head_sha w w' \<longleftrightarrow>
     (\<exists>w1 v w2. later env w w1 \<and> fetch_pr_state env n w1 = (Some v, w2) \<and> later env w2 w' \<and>
        pv_state v = ''MERGED'' \<and> pv_merge_sha v = merge_sha \<and> pv_head_sha v = head_sha)"

lemma seen_merged_widen:
  "seen_merged env n a b w w' \<Longrightarrow> later env v w \<Longrightarrow> later env w' v' \<Longrightarrow> seen_merged env n a b v v'"
  unfolding seen_merged_def by (elim exE conjE) (intro exI conjI, rule later_trans, assumption+, rule later_trans)

lemma fetch_seen:
  assumes "fetch_pr_state env n w = (v, w')" "is_state ''MERGED'' v"
  shows "seen_merged env n (pv_merge_sha (the v)) (pv_head_sha (the v)) w w'"
proof (cases v)
  case None
  with assms(2) show ?thesis by (simp add: is_state_def)
next
  case (Some p)
  then have "fetch_pr_state env n w = (Some p, w')" "pv_state p = ''MERGED''"
    using assms by (simp_all add: is_state_def)
  then show ?thesis
    unfolding seen_merged_def Some option.sel
    by (intro exI [of _ w] exI [of _ p] exI [of _ w']) (simp add: later.now)
qed

lemma poll_once_seen:
  assumes "poll_once env n interval deadline w = r"
  shows "case r of
           Inl (c, w') \<Rightarrow> later env w w' \<and>
             (mc_state c = Merged \<longrightarrow> seen_merged env n (mc_merge_sha c) (mc_head_sha c) w w')
         | Inr w' \<Rightarrow> later env w w'"
proof -
  obtain v w1 where f: "fetch_pr_state env n w = (v, w1)" by fastforce
  have l: "later env w w1" by (rule later_fetch' [OF f])
  have s: "later env w (gx_sleep env d w1)" for d using later_trans [OF l later_slept] .
  show ?thesis
    using assms f l s fetch_seen [OF f]
    by (auto simp: poll_once_def Let_def unconfirmed_def split: if_splits)
qed

lemma wait_until_seen:
  assumes "wait_until env n interval deadline w = Some y"
  shows "later env w (snd y) \<and>
    (mc_state (fst y) = Merged \<longrightarrow> seen_merged env n (mc_merge_sha (fst y)) (mc_head_sha (fst y)) w (snd y))"
  using assms
proof (induction rule: wait_until.raw_induct [rotated 1, consumes 1])
  case (1 self env n interval deadline w y)
  show ?case
  proof (cases "gx_clock env w < deadline")
    case False
    with 1(2) have "y = (unconfirmed Pending, w)" by simp
    then show ?thesis by (simp add: later.now unconfirmed_def)
  next
    case True
    note step = poll_once_seen [OF refl, where env = env and n = n and interval = interval and deadline = deadline and w = w]
    show ?thesis
    proof (cases "poll_once env n interval deadline w")
      case (Inl r)
      with True 1(2) have "y = r" by simp
      with step Inl show ?thesis by (cases r) simp
    next
      case (Inr w')
      with True 1(2) have "self env n interval deadline w' = Some y" by simp
      from 1(1) [OF this] have ih: "later env w' (snd y)"
        "mc_state (fst y) = Merged \<longrightarrow> seen_merged env n (mc_merge_sha (fst y)) (mc_head_sha (fst y)) w' (snd y)"
        by blast+
      have l: "later env w w'" using step Inr by simp
      show ?thesis
        using ih(2) later_trans [OF l ih(1)] seen_merged_widen [OF _ l later.now] by blast
    qed
  qed
qed

lemma merge_and_wait_seen:
  assumes "merge_and_wait env n url base how limit head w = Some (r, w')"
  shows "later env w w' \<and>
    (po_merged r \<longrightarrow> po_pr_number r = Some n \<and> seen_merged env n (po_merge_sha r) (po_head_sha r) w w')"
proof -
  obtain e w1 where i: "merge_initiated env n how w = (e, w1)" by fastforce
  have l1: "later env w w1" by (rule later_initiated [OF i])
  obtain m wm where m: "pr_mergeable env n w1 = (m, wm)" by fastforce
  have mergeable: "later env v v'" if "pr_mergeable env n v = (z, v')" for z v v'
    using that by (auto simp: pr_mergeable_def split: prod.splits dest: later_run)
  show ?thesis
  proof (cases e)
    case (Some x)
    with assms i m have "w' = wm" "\<not> po_merged r"
      by (auto simp: merge_and_wait_def merge_failed_def pr_outcome_of_def no_outcome_def split: if_splits)
    with later_trans [OF l1 mergeable [OF m]] show ?thesis by simp
  next
    case None
    with assms i obtain c w2 where c: "wait_for_merge env n limit w1 = Some (c, w2)"
      by (auto simp: merge_and_wait_def split: option.splits)
    have seen: "later env w1 w2"
      "mc_state c = Merged \<Longrightarrow> seen_merged env n (mc_merge_sha c) (mc_head_sha c) w1 w2"
      using wait_until_seen [OF c [unfolded wait_for_merge_def]] by simp_all
    have l2: "later env w w2" by (rule later_trans [OF l1 seen(1)])
    show ?thesis
    proof (cases "mc_state c")
      case Closed
      with assms i None c have "w' = w2" "\<not> po_merged r"
        by (auto simp: merge_and_wait_def pr_outcome_of_def no_outcome_def)
      with l2 show ?thesis by simp
    next
      case Pending
      obtain z w3 where z: "pr_mergeable env n w2 = (z, w3)" by fastforce
      with assms i None c Pending have "w' = w3" "\<not> po_merged r"
        by (auto simp: merge_and_wait_def merge_unconfirmed_def pr_outcome_of_def no_outcome_def split: if_splits)
      with later_trans [OF l2 mergeable [OF z]] show ?thesis by simp
    next
      case Merged
      define w3 where "w3 = (if head = [] then w2 else snd (delete_remote_branch env head w2))"
      obtain x w4 where x: "fetch_base_branch env base w3 = (x, w4)" by fastforce
      have l3: "later env w2 w3" by (simp add: w3_def later.now later_delete)
      have l4: "later env w2 w4" by (rule later_trans [OF l3 later_fetch_base [OF x]])
      from assms i None c Merged x have "w' = w4" "po_pr_number r = Some n"
          "po_merge_sha r = mc_merge_sha c" "po_head_sha r = mc_head_sha c"
        by (auto simp: merge_and_wait_def merge_confirmed_def w3_def pr_outcome_of_def no_outcome_def)
      with seen_merged_widen [OF seen(2) [OF Merged] l1 l4] later_trans [OF l2 l4] show ?thesis by simp
    qed
  qed
qed

lemma pr_step_seen:
  assumes "push_create_and_merge_pr env cm m how limit w = Some (r, cm', w')" and "po_merged r"
  shows "\<exists>n. po_pr_number r = Some n \<and> seen_merged env n (po_merge_sha r) (po_head_sha r) w w'"
proof (cases "pr_url_of cm = []")
  case False
  then have ex: "existing_pr env cm m how limit w = Some (r, w')"
    using assms(1) by (auto simp: push_create_and_merge_pr_def)
  let ?url = "pr_url_of cm"
  let ?n = "component_pr_number cm ?url"
  have n: "?n \<noteq> 0" using ex assms(2) by (auto simp: existing_pr_def no_outcome_def Let_def)
  obtain v w1 where v: "fetch_pr_state env ?n w = (v, w1)" by fastforce
  have l: "later env w w1" by (rule later_fetch' [OF v])
  show ?thesis
  proof (cases "is_state ''MERGED'' v")
    case True
    with ex n v have "w' = w1" "po_pr_number r = Some ?n" "po_merge_sha r = pv_merge_sha (the v)"
        "po_head_sha r = pv_head_sha (the v)"
      by (auto simp: existing_pr_def pr_outcome_of_def no_outcome_def Let_def)
    with fetch_seen [OF v True] show ?thesis by simp
  next
    case no: False
    have "\<not> is_state ''CLOSED'' v"
      using ex n v no assms(2) by (auto simp: existing_pr_def pr_outcome_of_def no_outcome_def Let_def)
    with ex n v no have "merge_and_wait env ?n ?url (m_base_branch m) how limit (c_branch_name cm) w1 = Some (r, w')"
      by (simp add: existing_pr_def Let_def)
    from merge_and_wait_seen [OF this] assms(2) seen_merged_widen [OF _ l later.now] show ?thesis by blast
  qed
next
  case True
  obtain e w1 where p: "push_branch env (c_branch_name cm) w = (e, w1)" by fastforce
  obtain c w2 where c: "create_component_pr env cm m w1 = (c, w2)" by fastforce
  have l: "later env w w2" by (rule later_trans [OF later_push [OF p] later_create [OF c]])
  have no_error: "e = None \<or> e = Some []"
  proof (rule ccontr)
    assume "\<not> ?thesis"
    then obtain x xs where "e = Some (x # xs)" by (cases e) (auto simp: neq_Nil_conv)
    with assms True p show False by (auto simp: push_create_and_merge_pr_def no_outcome_def)
  qed
  show ?thesis
  proof (cases c)
    case (Inl x)
    with assms True p c no_error show ?thesis by (auto simp: push_create_and_merge_pr_def no_outcome_def)
  next
    case (Inr x)
    obtain n url where x: "x = (n, url)" by fastforce
    from assms(1) True p c no_error Inr x
    have "merge_and_wait env n url (m_base_branch m) how limit (c_branch_name cm) w2 = Some (r, w')"
      by (auto simp: push_create_and_merge_pr_def)
    from merge_and_wait_seen [OF this] assms(2) seen_merged_widen [OF _ l later.now] show ?thesis by blast
  qed
qed

section \<open>The properties\<close>

text \<open>However \<open>gh\<close>, \<open>git\<close> and GitHub answer, the pull request step of a component returns, provided the
  clock advances: the wait for a merge polls at most once per ten seconds of its time limit and then
  gives up.\<close>

theorem pr_step_terminates:
  assumes "clock_advances env"
  shows "\<exists>r. push_create_and_merge_pr env cm m how limit w = Some r"
  by (rule pr_step_returns [OF assms])

text \<open>C12: A component's pull request is reported merged only when GitHub itself was read as \<open>MERGED\<close> during
  the step, for the pull request the outcome names, and the merge commit and head recorded are the
  ones GitHub gave then: a \<open>gh pr merge\<close> that succeeds, or a queued merge, is never enough.\<close>

theorem merge_reported_only_when_seen:
  assumes "push_create_and_merge_pr env cm m how limit w = Some (r, cm', w')" and "po_merged r"
  shows "\<exists>n. po_pr_number r = Some n \<and> seen_merged env n (po_merge_sha r) (po_head_sha r) w w'"
  by (rule pr_step_seen [OF assms])

text \<open>A GitHub that shows the pull request merged; a command takes a second.\<close>

definition demo_gh :: "rat gh_env" where
  "demo_gh =
     \<lparr>gx_which_gh = (\<lambda>_. True), gx_run = (\<lambda>_ w. (Exited 0 ''x'' [], w + 1)), gx_clock = (\<lambda>w. w),
      gx_sleep = (\<lambda>d w. w + max 0 d),
      gx_decode = (\<lambda>_. Some (JObj [(''state'', JStr ''MERGED''), (''mergeCommit'', JObj [(''oid'', JStr ''c1'')]),
                                    (''headRefOid'', JStr ''h1'')])),
      gx_rep = (\<lambda>_. []), gx_secs = (\<lambda>_. []), gx_body = (\<lambda>_ _. [])\<rparr>"

theorem pr_step_terminates_witness:
  "\<forall>cm m. \<exists>r. push_create_and_merge_pr demo_gh cm m ''squash'' 300 0 = Some r"
proof -
  have "clock_advances demo_gh" by (auto simp: clock_advances_def demo_gh_def)
  from pr_step_terminates [OF this] show ?thesis by blast
qed

definition plain_manifest :: "component list \<Rightarrow> manifest" where
  "plain_manifest cs =
     \<lparr>m_version = ''1'', m_spec_file = [], m_project_name = ''p'', m_base_branch = ''main'', m_single_pr = False,
      m_components = cs, m_run_id = ''r'', m_completed_at = [], m_linear_project_id = JStr [],
      m_linear_sync_key = JStr [], m_policy_hash = [], m_kstrl_version = [], m_feature_base_sha = [],
      m_plan_awaiting_approval = [], m_spec_path = [], m_spec_digest = [], m_stack_digest = JStr [],
      m_acceptance_digest = JStr []\<rparr>"

definition demo_with_pr :: component where
  "demo_with_pr = (single_component ''p'' ''prd.json'' ''b'')\<lparr>c_pr_number := JInt 7, c_pr_url := JStr ''u''\<rparr>"

theorem merge_reported_only_when_seen_witness:
  "\<exists>n. Some (7 :: int) = Some n \<and> seen_merged demo_gh n ''c1'' ''h1'' 0 1"
proof -
  have "push_create_and_merge_pr demo_gh demo_with_pr (plain_manifest []) ''squash'' 300 0 =
      Some ((pr_outcome_of 7 ''u'')\<lparr>po_merged := True, po_merge_sha := ''c1'', po_head_sha := ''h1''\<rparr>, demo_with_pr, 1)"
    by (simp add: push_create_and_merge_pr_def existing_pr_def demo_with_pr_def single_component_def
        pr_url_of_def component_pr_number_def fetch_pr_state_def printed_object_def view_of_def
        demo_gh_def is_state_def jget_Cons)
  from merge_reported_only_when_seen [OF this] show ?thesis
    by (simp add: pr_outcome_of_def no_outcome_def)
qed

end
