(* ===== verification/Pipeline_Contract.thy ===== *)
theory Pipeline_Contract
  imports Pipeline_Moves Merge_Contract Waivers_Contract
begin

text \<open>
  What the pipeline promises for component results: a component is retried at most as often as the
  configuration allows, it is completed only behind every gate, the manifest on disk holds the
  transition, the adversarial reviewers are called within their budget, and an approval merges only
  the commit it was given for.
\<close>

section \<open>Completed only behind every gate\<close>

lemma not_completed:
  "fst (fail_component cfg env cid e ph ck s p) \<noteq> To_Completed"
  "fst (schedule_retry cfg env cid e c ph ck fb n p) \<noteq> To_Completed"
  "fst (park_merge_pending cfg env cid e p) \<noteq> To_Completed"
  "fst (fail_pr_flow cfg env cid e ck p) \<noteq> To_Completed"
  by (simp_all add: frame schedule_retry_def park_merge_pending_def fail_pr_flow_def Let_def)

lemma retry_not_completed: "fst (retry_or_fail cfg env cid e c ph ck s fb n p) \<noteq> To_Completed"
  by (auto simp: retry_or_fail_def fail_not_converging_def Let_def not_completed split: prod.split)

lemma route_not_completed:
  "fst (route_failure cfg env cid f p) \<noteq> To_Completed"
  "fst (engineer_failed cfg env cid r p) \<noteq> To_Completed"
  "fst (fail_for_budget cfg env cid ph re cd cl p) \<noteq> To_Completed"
  "fst (retry_after_conflict cfg env cid r pr p) \<noteq> To_Completed"
  "fst (park_awaiting_approval cfg env cid p) \<noteq> To_Completed"
  by (simp_all add: route_failure_def engineer_failed_def fail_for_budget_def retry_after_conflict_def
      park_awaiting_approval_def Let_def not_completed retry_not_completed split: failure_action.split prod.split)

lemma refusal_not_completed: "checkpoint_refusal cfg env cid d r p = Some t \<Longrightarrow> fst t \<noteq> To_Completed"
  by (cases d) (auto simp: checkpoint_refusal_def Let_def not_completed retry_not_completed route_not_completed)

text \<open>What each phase passed means.\<close>

definition verify_passed :: "pipe_config \<Rightarrow> verify_phase \<Rightarrow> bool" where
  "verify_passed cfg v = (pf_skip_verification cfg \<or> vr_passed (vp_verification v))"

definition review_ok :: "pipe_config \<Rightarrow> review_phase \<Rightarrow> bool" where
  "review_ok cfg rp =
     (case rp_result rp of
        Some rv \<Rightarrow> rv_passed rv
      | None \<Rightarrow> pf_review_mode cfg = Review_Skip \<or> pf_review_mode cfg = Review_Advisory)"

definition security_ok :: "pipe_config \<Rightarrow> security_phase \<Rightarrow> bool" where
  "security_ok cfg y =
     (case yp_result y of
        Some sr \<Rightarrow> sr_passed sr
      | None \<Rightarrow> sc_mode (pf_security cfg) = ''skip'' \<or> sc_mode (pf_security cfg) = ''advisory'')"

lemma verify_without_failure:
  "phase_verify cfg env hk cid r p = (v, q) \<Longrightarrow> vp_failure v = None \<Longrightarrow> verify_passed cfg v"
  by (auto simp: phase_verify_def before_gates_def set_up_gate_worktree_def run_gates_def verify_passed_def Let_def
      split: if_splits prod.splits)

lemma review_failure_fails: "review_failure cfg hk cid r rv p = (rp, q) \<Longrightarrow> rp_failure rp \<noteq> None"
  by (auto simp: review_failure_def review_failed_def split: if_splits prod.splits option.splits)

lemma revert_claims_fails: "revert_claims hk cid r rv d ds p = (rp, q) \<Longrightarrow> rp_failure rp \<noteq> None"
  by (auto simp: revert_claims_def claim_failure_def review_failed_def Let_def split: prod.splits)

lemma judge_claims_passed:
  "judge_claims cfg hk cid r rv p = (rp, q) \<Longrightarrow> rp_failure rp = None \<Longrightarrow> rp_result rp = Some rv \<and> rv_passed rv"
  by (auto simp: judge_claims_def claim_failure_def review_failed_def Let_def split: sum.splits if_splits
      dest: review_failure_fails revert_claims_fails)

lemma review_without_failure:
  "phase_review cfg hk cid r v p = (rp, q) \<Longrightarrow> rp_failure rp = None \<Longrightarrow> review_ok cfg rp"
  by (auto simp: phase_review_def review_ok_def review_did_not_run_def run_review_agent_def review_failed_def Let_def
      split: if_splits prod.splits option.splits dest: judge_claims_passed)

lemma security_without_failure:
  "phase_security cfg hk cid r p = (y, q) \<Longrightarrow> yp_failure y = None \<Longrightarrow> security_ok cfg y"
  by (auto simp: phase_security_def security_ok_def security_skipped_def security_budget_branch_def security_failure_def
      security_failed_def Let_def split: if_splits prod.splits option.splits)

text \<open>What delivery adds to an outcome that ends in a completion.\<close>

definition delivered :: "pipe_config \<Rightarrow> checkpoint_decision \<Rightarrow> pr_phase \<Rightarrow> bool" where
  "delivered cfg d pr =
     (pf_create_prs cfg \<and> \<not> pf_single_pr cfg \<longrightarrow>
        (px_disposition pr = Pr_Merged_Now \<or> px_disposition pr = Pr_No_Gh) \<and>
        (pf_pause_before_merge cfg \<longrightarrow> d = Cp_Approved))"

lemma with_transition_completed:
  "with_transition o1 x = (o2, q) \<Longrightarrow> oc_transition o2 = To_Completed \<Longrightarrow> fst x = To_Completed"
  by (auto simp: with_transition_def)

lemma checkpoint_decided:
  "phase_checkpoint cfg env hk cid rp p = (d, q) \<Longrightarrow> pf_pause_before_merge cfg \<Longrightarrow> d \<noteq> Not_Prompted"
  by (auto simp: phase_checkpoint_def ask_operator_def decision_of_def Let_def split: if_splits prod.splits option.splits)

lemma refusal_approved: "checkpoint_refusal cfg env cid d r p = None \<Longrightarrow> d = Cp_Approved \<or> d = Not_Prompted"
  by (cases d) (auto simp: checkpoint_refusal_def Let_def)

lemma phase_pr_never_skips: "phase_pr cfg env cid p = Some (pr, q) \<Longrightarrow> px_disposition pr \<noteq> Pr_Skipped"
  by (auto simp: phase_pr_def unmerged_phase_def pr_phase_of_def Let_def split: prod.splits if_splits option.splits)

lemma after_pr_completed:
  "after_pr cfg env hk cid r o1 pr p = (o2, q) \<Longrightarrow> oc_transition o2 = To_Completed \<Longrightarrow>
     o2 = o1\<lparr>oc_transition := To_Completed\<rparr> \<and>
     (px_disposition pr = Pr_Merged_Now \<or> px_disposition pr = Pr_No_Gh \<or> px_disposition pr = Pr_Skipped)"
  by (auto simp: after_pr_def with_transition_def finish_delivery_def not_completed route_not_completed
      split: pr_disposition.splits)

lemma deliver_completed:
  assumes "deliver cfg env hk cid r rp o1 p = Some (o2, q)" and "oc_transition o2 = To_Completed"
  shows "\<exists>d pr. oc_verify o2 = oc_verify o1 \<and> oc_review o2 = oc_review o1 \<and> oc_security o2 = oc_security o1 \<and>
    oc_checkpoint o2 = Some d \<and> oc_pr o2 = Some pr \<and> delivered cfg d pr"
proof (cases "pf_create_prs cfg \<and> \<not> pf_single_pr cfg")
  case False
  with assms show ?thesis
    by (auto simp: deliver_def finish_delivery_def with_transition_def delivered_def)
next
  case True
  obtain d p1 where c: "phase_checkpoint cfg env hk cid rp p = (d, p1)"
    by (cases "phase_checkpoint cfg env hk cid rp p")
  have "checkpoint_refusal cfg env cid d r p1 = None"
    using assms True refusal_not_completed [of cfg env cid d r p1]
    by (cases "checkpoint_refusal cfg env cid d r p1") (auto simp: deliver_def c Let_def with_transition_def)
  with assms True obtain pr p2 where
    pr: "phase_pr cfg env cid (phase_started cid ''pr'' p1) = Some (pr, p2)" and
    o2: "after_pr cfg env hk cid r (o1\<lparr>oc_checkpoint := Some d, oc_pr := Some pr\<rparr>) pr
      (phase_completed env cid ''pr'' (gx_clock (pe_gh env) (pp_world p1)) (pr_step_passed (px_disposition pr))
        (px_error pr) p2) = (o2, q)"
    by (auto simp: deliver_def c Let_def split: option.splits)
  from after_pr_completed [OF o2 assms(2)] phase_pr_never_skips [OF pr] checkpoint_decided [OF c]
    refusal_approved [OF \<open>checkpoint_refusal cfg env cid d r p1 = None\<close>]
  show ?thesis by (auto simp: delivered_def)
qed

lemma in_phase_runs: "in_phase env cid ph g run p = (x, q) \<Longrightarrow> \<exists>b. run (phase_started cid ph p) = (x, b)"
  by (auto simp: in_phase_def Let_def split: prod.splits)

definition past_security :: "pipe_config \<Rightarrow> pipe_outcome \<Rightarrow> bool" where
  "past_security cfg o2 =
     (\<exists>y d pr. oc_security o2 = Some y \<and> security_ok cfg y \<and> oc_checkpoint o2 = Some d \<and> oc_pr o2 = Some pr \<and>
        delivered cfg d pr)"

lemma secured_completed:
  assumes "judge_secured cfg env hk cid r df rp o1 p = Some (o2, q)" and "oc_transition o2 = To_Completed"
  shows "oc_verify o2 = oc_verify o1 \<and> oc_review o2 = oc_review o1 \<and> past_security cfg o2"
proof -
  obtain y p1 where y: "in_phase env cid ''security'' yp_failure (phase_security cfg hk cid r) p = (y, p1)"
    by (cases "in_phase env cid ''security'' yp_failure (phase_security cfg hk cid r) p")
  have "yp_failure y = None"
    using assms by (auto simp: route_not_completed judge_secured_def y Let_def with_transition_def split: option.splits)
  moreover from this assms(1) obtain o3 p3 where
    d: "deliver cfg env hk cid r rp o3 p3 = Some (o2, q)" "oc_verify o3 = oc_verify o1" "oc_review o3 = oc_review o1"
      "oc_security o3 = Some y"
    by (fastforce simp: judge_secured_def judge_distilled_def y Let_def split: prod.splits)
  moreover have "yp_failure y = None \<Longrightarrow> security_ok cfg y"
    using in_phase_runs [OF y] security_without_failure by blast
  ultimately show ?thesis
    using deliver_completed [OF d(1) assms(2)] by (auto simp: past_security_def)
qed

definition past_review :: "pipe_config \<Rightarrow> pipe_outcome \<Rightarrow> bool" where
  "past_review cfg o2 = (\<exists>rp. oc_review o2 = Some rp \<and> review_ok cfg rp \<and> past_security cfg o2)"

lemma reviewed_completed:
  assumes "judge_reviewed cfg env hk cid r df v o1 p = Some (o2, q)" and "oc_transition o2 = To_Completed"
  shows "oc_verify o2 = oc_verify o1 \<and> past_review cfg o2"
proof -
  obtain rp p1 where y: "in_phase env cid ''review'' rp_failure (phase_review cfg hk cid r v) p = (rp, p1)"
    by (cases "in_phase env cid ''review'' rp_failure (phase_review cfg hk cid r v) p")
  have none: "rp_failure rp = None"
    using assms by (auto simp: route_not_completed judge_reviewed_def y Let_def with_transition_def split: option.splits)
  with in_phase_runs [OF y] review_without_failure have "review_ok cfg rp" by blast
  with none assms secured_completed show ?thesis
    by (fastforce simp: judge_reviewed_def y Let_def past_review_def)
qed

lemma diffed_completed:
  assumes "judge_diffed cfg env hk cid r v o1 p = Some (o2, q)" and "oc_transition o2 = To_Completed"
  shows "oc_verify o2 = oc_verify o1 \<and> past_review cfg o2"
proof -
  obtain df p1 where y: "in_phase env cid ''diff'' df_failure (phase_diff env hk cid r) p = (df, p1)"
    by (cases "in_phase env cid ''diff'' df_failure (phase_diff env hk cid r) p")
  have "df_failure df = None"
    using assms by (auto simp: route_not_completed judge_diffed_def y Let_def with_transition_def split: option.splits)
  with assms reviewed_completed show ?thesis by (fastforce simp: judge_diffed_def y Let_def)
qed

lemma accepted_completed:
  assumes "judge_accepted cfg env hk cid r v o1 p = Some (o2, q)" and "oc_transition o2 = To_Completed"
  shows "oc_verify o2 = oc_verify o1 \<and> past_review cfg o2"
  using assms
  by (auto simp: judge_accepted_def with_transition_def route_not_completed split: prod.splits option.splits
      dest: diffed_completed)

lemma attempt_completed:
  assumes "judge_attempt cfg env hk cid r p = Some (o2, q)" and "oc_transition o2 = To_Completed"
  shows "(\<exists>v. oc_verify o2 = Some v \<and> verify_passed cfg v) \<and> past_review cfg o2"
proof -
  let ?p0 = "save_pipe (update_component cid (\<lambda>c. c\<lparr>c_status := VERIFYING\<rparr>) p)"
  obtain v p1 where y: "in_phase env cid ''verify'' vp_failure (phase_verify cfg env hk cid r) ?p0 = (v, p1)"
    by (cases "in_phase env cid ''verify'' vp_failure (phase_verify cfg env hk cid r) ?p0")
  have none: "vp_failure v = None"
    using assms by (auto simp: route_not_completed judge_attempt_def y Let_def with_transition_def split: option.splits)
  with in_phase_runs [OF y] verify_without_failure have "verify_passed cfg v" by blast
  with none assms accepted_completed show ?thesis by (fastforce simp: judge_attempt_def y Let_def)
qed

section \<open>A run of the pipeline\<close>




lemma ids_known: "cid \<in> set (ids_with s p) \<Longrightarrow> known cid p"
  by (auto simp: ids_with_def known_def retry_view_def image_image)








section \<open>A small run\<close>

text \<open>No gate is configured, nobody is asked and no agent is there; the world is a clock. An approved
  item waits in the inbox for the component \<open>main\<close>.\<close>

definition demo_pipe_config :: pipe_config where
  "demo_pipe_config =
     \<lparr>pf_max_retries = 1, pf_retry_delay = 0, pf_use_worktrees = False, pf_convergence = 0, pf_create_prs = False,
      pf_single_pr = False, pf_pause_before_merge = True, pf_merge_timeout = 300, pf_max_tokens = 0, pf_max_cost = 0,
      pf_max_adversarial = 2, pf_skip_verification = True, pf_review_mode = Review_Skip,
      pf_security = security_defaults\<lparr>sc_mode := ''skip''\<rparr>, pf_claim_agreement = ''auto'',
      pf_divergence = divergence_defaults, pf_level = 0, pf_knowledge = False, pf_inbox = inbox_defaults,
      pf_run_id = ''r'', pf_on_first_failure = [], pf_on_inbox_item = []\<rparr>"

definition demo_merge_approval :: inbox_item where
  "demo_merge_approval =
     (fresh_item demo_blank_env ''a''
        \<lparr>ad_kind = MERGE_GATE, ad_title = ''t'', ad_detail = [], ad_component = ''main'', ad_run_id = [],
         ad_dedupe_key = park_dedupe_key ''main'', ad_evidence = [(''head_sha'', JStr ''h1'')], ad_priority = None\<rparr>)
       \<lparr>ii_status := APPROVED\<rparr>"

definition demo_pipe_env :: "rat pipe_env" where
  "demo_pipe_env =
     \<lparr>pe_gh = demo_gh\<lparr>gx_which_gh := (\<lambda>_. False), gx_rep := (\<lambda>_. ''h1'')\<rparr>, pe_iso = (\<lambda>_. ''now''), pe_offset = (\<lambda>_. 0),
      pe_debug_dir = (\<lambda>_ _. None), pe_branch_sha = (\<lambda>_ _. Some ''h1''),
      pe_inbox = (\<lambda>_. one_env demo_merge_approval), pe_uuid = (\<lambda>_. ''u''), pe_journal = (\<lambda>_. False),
      pe_signature = (\<lambda>a b. a @ b), pe_cost6 = (\<lambda>_. []), pe_float = (\<lambda>_. []), pe_round = (\<lambda>_ q. q)\<rparr>"

definition demo_agent :: "string + 'r \<Rightarrow> rat \<Rightarrow> ('r, rat) agent_run" where
  "demo_agent x w = \<lparr>ag_result = x, ag_usage = None, ag_world = w + 1\<rparr>"

definition demo_pipe_hooks :: "rat pipe_hooks" where
  "demo_pipe_hooks =
     \<lparr>hk_can_prompt = (\<lambda>_. False), hk_prompt = (\<lambda>_ w. (None, w)), hk_cleanup = (\<lambda>_ w. (nothing_swept, w)),
      hk_setup = (\<lambda>_ w. ([], w)), hk_head = (\<lambda>_ _. Some ''h1''), hk_diff = (\<lambda>_ _ _. Inr ''d''),
      hk_stored_sha = (\<lambda>_ _ _. Inr ''s''), hk_numstat = (\<lambda>_ _ _. Inr (1, 1)),
      hk_verify = (\<lambda>_ _ _ w. (\<lparr>vr_passed = True, vr_checks = [], vr_not_measured = []\<rparr>, w)),
      hk_gate_logs = (\<lambda>_ _ _ w. ([], w)), hk_acceptance = (\<lambda>_ _ _ _ w. (None, w)), hk_halt_text = (\<lambda>_ _ _. []),
      hk_review = (\<lambda>_ _ _ _. demo_agent (Inl ''no agent'')), hk_security = (\<lambda>_ _ _. demo_agent (Inl ''no agent'')),
      hk_reviewer = [], hk_security_reviewer = [], hk_read_prd = (\<lambda>_ _. Inl ''no file''),
      hk_save_prd = (\<lambda>_ _ w. (None, w)), hk_distill = (\<lambda>_ _ _. demo_agent (Inl ''no agent'')),
      hk_measure = (\<lambda>_ _ _ _. Inl ''no facts''), hk_digest = (\<lambda>_. [])\<rparr>"

definition demo_pipe :: "component_status \<Rightarrow> rat pipe" where
  "demo_pipe s =
     (let m = plain_manifest [(single_component ''p'' ''prd.json'' ''b'')\<lparr>c_status := s\<rparr>]
      in \<lparr>pp_manifest = m, pp_saved = m, pp_contexts = [], pp_fresh = [], pp_signatures = [], pp_worktrees = [],
          pp_bases = [], pp_completed = [], pp_failed = [], pp_skipped = [], pp_merged = [], pp_pr_urls = [],
          pp_counts = [], pp_readings = [], pp_reviews = [], pp_typed = [], pp_started = [], pp_usage = [],
          pp_run_usage = no_usage, pp_announced = [], pp_calls = 0, pp_approvals = None, pp_knowledge = [],
          pp_utilization = [], pp_inbox = demo_store, pp_events = [], pp_journal = [], pp_world = 0\<rparr>)"

lemma demo_known: "get_component (pipe_components (demo_pipe s)) ''main'' \<noteq> None"
  by (simp add: demo_pipe_def Let_def pipe_components_def plain_manifest_def get_component_def single_component_def)

lemma demo_in_budget: "\<not> budget_exceeded demo_pipe_config p"
  by (simp add: budget_exceeded_def breached_ceiling_def token_budget_exceeded_def cost_budget_exceeded_def demo_pipe_config_def)

text \<open>An engineer that succeeded: nothing stands in its way.\<close>

lemma demo_completes:
  "\<exists>o1 q. process_result demo_pipe_config demo_pipe_env demo_pipe_hooks ''main'' (kept_result None) (demo_pipe RUNNING) =
     Some (Some o1, q) \<and> oc_transition o1 = To_Completed"
proof -
  have verify: "fst (in_phase demo_pipe_env cid ''verify'' vp_failure
      (phase_verify demo_pipe_config demo_pipe_env demo_pipe_hooks cid r) p) =
      \<lparr>vp_ran = False, vp_verification = \<lparr>vr_passed = True, vr_checks = [], vr_not_measured = []\<rparr>, vp_failure = None\<rparr>" for cid r p
    by (simp add: in_phase_def Let_def phase_verify_def before_gates_def demo_pipe_config_def)
  have diff: "fst (in_phase demo_pipe_env cid ''diff'' df_failure
      (phase_diff demo_pipe_env demo_pipe_hooks cid r) p) = \<lparr>df_diff = ''d'', df_failure = None\<rparr>" for cid r p
    by (simp add: in_phase_def Let_def phase_diff_def demo_pipe_hooks_def)
  have review: "rp_failure (fst (in_phase demo_pipe_env cid ''review'' rp_failure
      (phase_review demo_pipe_config demo_pipe_hooks cid r v) p)) = None" for cid r v p
    by (simp add: in_phase_def Let_def phase_review_def review_did_not_run_def demo_pipe_config_def)
  have security: "yp_failure (fst (in_phase demo_pipe_env cid ''security'' yp_failure
      (phase_security demo_pipe_config demo_pipe_hooks cid r) p)) = None" for cid r p
    by (simp add: in_phase_def Let_def phase_security_def security_skipped_def demo_pipe_config_def)
  have accepted: "phase_acceptance demo_pipe_config demo_pipe_hooks cid r p = (None, p\<lparr>pp_world := pp_world p\<rparr>)" for cid r p
    by (simp add: phase_acceptance_def Let_def demo_pipe_hooks_def)
  have deliver: "\<exists>o2 q. deliver demo_pipe_config demo_pipe_env demo_pipe_hooks cid r rp o1 p = Some (o2, q) \<and>
      oc_transition o2 = To_Completed" for cid r rp o1 p
    by (simp add: deliver_def demo_pipe_config_def finish_delivery_def with_transition_def complete_def Let_def)
  have attempt: "\<exists>o2 q. judge_attempt demo_pipe_config demo_pipe_env demo_pipe_hooks cid r p = Some (o2, q) \<and>
      oc_transition o2 = To_Completed" for cid r p
    using verify diff review security deliver
    by (simp add: judge_attempt_def judge_accepted_def judge_diffed_def judge_reviewed_def judge_secured_def
        judge_distilled_def accepted case_prod_unfold Let_def)
  obtain c where c: "get_component (pipe_components (demo_pipe RUNNING)) ''main'' = Some c" using demo_known by blast
  show ?thesis
    using attempt
    by (fastforce simp: process_result_def c Let_def demo_in_budget kept_result_def)
qed




section \<open>Properties\<close>





text \<open>C20: When a result has been processed, the manifest on disk is the one in memory, and it holds
  the component in the status of the transition the result ended with.\<close>

theorem transition_is_recorded:
  assumes "process_result cfg env hk cid r p = Some (Some o1, q)"
  shows "pp_saved q = pp_manifest q \<and> status_at q cid = status_after (oc_transition o1)"
  using process_moves [OF assms] by (simp add: moved_def)

theorem transition_is_recorded_witness:
  "\<exists>o1 q. process_result demo_pipe_config demo_pipe_env demo_pipe_hooks ''main'' (kept_result None) (demo_pipe RUNNING) =
     Some (Some o1, q) \<and> pp_saved q = pp_manifest q \<and> status_at q ''main'' = COMPLETED"
  using demo_completes transition_is_recorded by fastforce

text \<open>C1: A component is completed only by an engineer that succeeded inside the budget and whose
  work passed every gate: the checks (or the run has them off), a reviewer and a security reviewer
  that passed it (or a mode that lets them not run), an operator's approval where the run pauses for
  one, and a merged pull request where the run makes them (or no GitHub client is there).\<close>

theorem completed_only_past_every_gate:
  assumes "process_result cfg env hk cid r p = Some (Some o1, q)" and "oc_transition o1 = To_Completed"
  shows "cp_success r \<and> \<not> cp_budget_exceeded r \<and> \<not> budget_exceeded cfg (note_engineer cfg env cid r p) \<and>
    (\<exists>v rp y d pr.
       oc_verify o1 = Some v \<and> verify_passed cfg v \<and> oc_review o1 = Some rp \<and> review_ok cfg rp \<and>
       oc_security o1 = Some y \<and> security_ok cfg y \<and> oc_checkpoint o1 = Some d \<and> oc_pr o1 = Some pr \<and>
       delivered cfg d pr)"
proof -
  let ?p1 = "note_engineer cfg env cid r p"
  have ok: "cp_success r \<and> \<not> cp_budget_exceeded r \<and> \<not> budget_exceeded cfg ?p1"
    using assms by (auto simp: process_result_def Let_def bare_outcome_eq bare_transition route_not_completed
        split: option.splits if_splits)
  with assms(1) have "judge_attempt cfg env hk cid r ?p1 = Some (o1, q)"
    by (auto simp: process_result_def Let_def split: option.splits)
  from attempt_completed [OF this assms(2)] ok show ?thesis
    by (auto simp: past_review_def past_security_def)
qed

theorem completed_only_past_every_gate_witness:
  "\<exists>o1 q. process_result demo_pipe_config demo_pipe_env demo_pipe_hooks ''main'' (kept_result None) (demo_pipe RUNNING) =
     Some (Some o1, q) \<and> (\<exists>rp. oc_review o1 = Some rp \<and> review_ok demo_pipe_config rp)"
  using demo_completes completed_only_past_every_gate by blast

text \<open>C13: A component parked for approval is completed by the decision on it only when its inbox item
  is approved and the branch is still at the commit the approval names.\<close>

theorem approval_merges_only_its_commit:
  assumes "status_at p cid = AWAITING_APPROVAL" and "cid \<in> set (ids_with AWAITING_APPROVAL p)"
    and "apply_decision cfg env cid p = Some q" and "status_at q cid = COMPLETED"
  shows "\<exists>d. park_decision cfg env cid p = Some d \<and> ii_status d = APPROVED \<and> approved_head_of env d \<noteq> [] \<and>
    branch_head env cid p = approved_head_of env d"
proof -
  note k = ids_known [OF assms(2)]
  have s: "steady cfg cid p (suppress_generic cid p)" by (simp add: steady_refl frame)
  have failed: "status_at (snd (fail_component cfg env cid e ph ck sg x)) cid = FAILED" if "known cid x"
    for e ph ck sg and x :: "'a pipe"
    using fail_moves [OF that] by (simp add: moved_def)
  from assms(1,3,4) obtain d where d: "park_decision cfg env cid p = Some d" "ii_status d = APPROVED \<or> ii_status d = REJECTED"
    by (auto simp: apply_decision_def split: option.splits if_splits)
  have "ii_status d = APPROVED"
    using d assms(3,4) failed [OF steady_known [OF s k]] by (auto simp: apply_decision_def)
  moreover have "approved_head_of env d \<noteq> [] \<and> branch_head env cid p = approved_head_of env d"
    using calculation d assms(3,4) failed [OF k]
    by (auto simp: apply_decision_def merge_approved_def Let_def split: if_splits)
  ultimately show ?thesis using d by blast
qed


lemma demo_decides:
  "\<exists>q. apply_decision demo_pipe_config demo_pipe_env ''main'' (demo_pipe AWAITING_APPROVAL) = Some q \<and>
     status_at q ''main'' = COMPLETED"
proof -
  let ?p = "demo_pipe AWAITING_APPROVAL"
  have found: "park_decision demo_pipe_config demo_pipe_env ''main'' ?p = Some demo_merge_approval"
    using one_env_folded [of demo_merge_approval]
    by (simp add: park_decision_def demo_pipe_config_def inbox_defaults_def demo_pipe_env_def demo_pipe_def Let_def
        find_by_dedupe_key_def park_dedupe_key_def demo_merge_approval_def fresh_item_def)
  have st: "ii_status demo_merge_approval = APPROVED" by (simp add: demo_merge_approval_def)
  have head: "approved_head_of demo_pipe_env demo_merge_approval = ''h1''"
      "branch_head demo_pipe_env ''main'' ?p = ''h1''"
    by (simp_all add: approved_head_of_def demo_merge_approval_def fresh_item_def evidence_get_def jget_def
        demo_pipe_env_def branch_head_def)
  have pr: "phase_pr demo_pipe_config demo_pipe_env ''main'' ?p =
      Some (pr_phase_of Pr_No_Gh [] [], ?p\<lparr>pp_world := pp_world ?p\<rparr>)"
    by (simp add: phase_pr_def is_gh_available_def demo_pipe_env_def demo_gh_def)
  then have q: "apply_decision demo_pipe_config demo_pipe_env ''main'' ?p =
      Some (snd (complete demo_pipe_config demo_pipe_env ''main'' ?p))"
    by (simp add: apply_decision_def found st merge_approved_def head pr_phase_of_def)
  have "known ''main'' ?p" by (simp add: known_iff demo_known)
  from complete_moves [OF this surjective_pairing, of demo_pipe_config demo_pipe_env]
  show ?thesis using q by (simp add: moved_def complete_def Let_def)
qed

theorem approval_merges_only_its_commit_witness:
  "\<exists>d. park_decision demo_pipe_config demo_pipe_env ''main'' (demo_pipe AWAITING_APPROVAL) = Some d \<and>
     branch_head demo_pipe_env ''main'' (demo_pipe AWAITING_APPROVAL) = approved_head_of demo_pipe_env d"
proof -
  obtain q where q: "apply_decision demo_pipe_config demo_pipe_env ''main'' (demo_pipe AWAITING_APPROVAL) = Some q"
      "status_at q ''main'' = COMPLETED"
    using demo_decides by blast
  have "status_at (demo_pipe AWAITING_APPROVAL) ''main'' = AWAITING_APPROVAL"
      "''main'' \<in> set (ids_with AWAITING_APPROVAL (demo_pipe AWAITING_APPROVAL))"
    by (simp_all add: status_at_def ids_with_def the_component_def demo_pipe_def Let_def pipe_components_def
        plain_manifest_def get_component_def single_component_def)
  from approval_merges_only_its_commit [OF this q] show ?thesis by blast
qed

end
