(* ===== verification/Factory.thy ===== *)
theory Factory
  imports Pipeline_Delivery Scope
begin

text \<open>
  A whole run of the factory: what a run returns, one scheduling pass, and the rounds of passes and
  contract tests.
\<close>

chapter \<open>The result of a run\<close>

text \<open>
  \<open>kstrl/pipeline/factory_result.py\<close> and \<open>kstrl/pipeline/release.py\<close>: what one run returns, whether it
  is clean, its exit code, the release gate in front of a release that does not exist yet, and the
  usage snapshot of an attempt that was stopped. Console lines are left out.
\<close>

section \<open>A run's result\<close>

record factory_result =
  fx_completed :: "string list"
  fx_failed :: "string list"
  fx_skipped :: "string list"
  fx_merge_pending :: "string list"
  fx_awaiting :: "string list"
  fx_pr_urls :: "string list"
  fx_merged :: "(string, string) dict"
  fx_contract_failures :: "string list"
  fx_scheduled :: "string list"
  fx_exit_code :: int

definition unfinished :: "component list \<Rightarrow> string list" where
  "unfinished cs = map c_id (filter (\<lambda>c. c_status c \<noteq> COMPLETED) cs)"

definition run_is_clean :: "factory_result \<Rightarrow> component list \<Rightarrow> bool \<Rightarrow> bool" where
  "run_is_clean r cs stopped =
     (if stopped then False
      else if fx_failed r \<noteq> [] \<or> fx_contract_failures r \<noteq> [] then False
      else if fx_merge_pending r \<noteq> [] then False
      else if fx_awaiting r \<noteq> [] then False
      else if fx_skipped r \<noteq> [] \<and> fx_completed r = [] then False
      else \<not> (fx_scheduled r = [] \<and> unfinished cs \<noteq> []))"

definition resolve_exit_code :: "factory_result \<Rightarrow> component list \<Rightarrow> bool \<Rightarrow> int" where
  "resolve_exit_code r cs stopped =
     (if stopped then 130
      else if fx_failed r \<noteq> [] \<or> fx_contract_failures r \<noteq> [] then 1
      else if fx_merge_pending r \<noteq> [] then 1
      else if fx_awaiting r \<noteq> [] then 1
      else if fx_skipped r \<noteq> [] \<and> fx_completed r = [] then 1
      else if run_is_clean r cs False then 0
      else 1)"

definition ids_in_status :: "component list \<Rightarrow> component_status \<Rightarrow> string list" where
  "ids_in_status cs s = map c_id (filter (\<lambda>c. c_status c = s) cs)"

section \<open>The usage of a stopped attempt\<close>

text \<open>\<open>isinstance(value, int) and not isinstance(value, bool) and value >= 0\<close>; 0 when it is not.\<close>

definition count_read :: "json_object \<Rightarrow> string \<Rightarrow> int" where
  "count_read d k = (case jget d k JNull of JInt n \<Rightarrow> (if n \<ge> 0 then n else 0) | _ \<Rightarrow> 0)"

definition amount_read :: "json_object \<Rightarrow> string \<Rightarrow> rat" where
  "amount_read d k =
     (case jget d k JNull of
        JInt n \<Rightarrow> (if n \<ge> 0 then of_int n else 0)
      | JFloat q \<Rightarrow> (if q \<ge> 0 then q else 0)
      | _ \<Rightarrow> 0)"

text \<open>\<open>None\<close> is a file that cannot be read as JSON.\<close>

definition read_partial_usage :: "json option \<Rightarrow> usage_totals option" where
  "read_partial_usage doc =
     (case doc of
        Some (JObj d) \<Rightarrow>
          (let t = \<lparr>ut_calls = count_read d ''calls'', ut_known_calls = count_read d ''known_calls'',
                    ut_token_calls = count_read d ''token_calls'', ut_cost_calls = count_read d ''cost_calls'',
                    ut_input = count_read d ''input_tokens'', ut_output = count_read d ''output_tokens'',
                    ut_cache_read = count_read d ''cache_read_tokens'',
                    ut_cache_creation = count_read d ''cache_creation_tokens'',
                    ut_total = count_read d ''total_tokens'', ut_cost = amount_read d ''cost_usd'',
                    ut_duration = amount_read d ''duration_seconds''\<rparr>
           in if ut_calls t = 0 then None else Some t)
      | _ \<Rightarrow> None)"

datatype unlinked = Unlinked | Nothing_To_Unlink | Unlink_Failed

definition clear_partial_usage :: "unlinked \<Rightarrow> bool" where
  "clear_partial_usage u = (u \<noteq> Unlink_Failed)"

text \<open>What the future of a stopped attempt holds: the exception or the result it ended with, or it did
  not end (or was cancelled).\<close>

datatype future_state = Future_Open | Future_Raised string | Future_Returned component_result

definition record_worktree_sweep :: "string \<Rightarrow> worktree_sweep \<Rightarrow> string \<Rightarrow> 'w pipe \<Rightarrow> 'w pipe" where
  "record_worktree_sweep cid sw phase p =
     (case get_component (pipe_components p) cid of
        None \<Rightarrow> p | Some c \<Rightarrow> add_findings cid (sweep_findings sw phase) p)"

text \<open>\<open>snapshot\<close> is \<open>None\<close> when the slot is not safe or the run has no usage files, else what the file
  holds.\<close>

definition salvage_aborted_usage ::
    "pipe_config \<Rightarrow> future_state \<Rightarrow> json option option \<Rightarrow> string \<Rightarrow> 'w pipe \<Rightarrow> 'w pipe" where
  "salvage_aborted_usage cfg f snapshot cid p =
     (case f of
        Future_Raised e \<Rightarrow> p
      | Future_Returned r \<Rightarrow>
          record_agent_usage cfg cid ''engineer'' (cp_usage r) (record_worktree_sweep cid (cp_sweep r) ''engineer'' p)
      | Future_Open \<Rightarrow>
          (case snapshot of
             None \<Rightarrow> p
           | Some doc \<Rightarrow> record_agent_usage cfg cid ''engineer'' (read_partial_usage doc) p))"

section \<open>The release gate\<close>

record release_inputs =
  rl_enabled :: bool
  rl_environment :: string
  rl_clean :: bool
  rl_stopped :: bool
  rl_ref :: string
  rl_policy :: bool
  rl_policy_deploy :: bool
  rl_ladder :: "bool option"

definition withheld_rules :: "(string \<times> (release_inputs \<Rightarrow> bool)) list" where
  "withheld_rules =
     [(''release_disabled'', \<lambda>i. \<not> rl_enabled i),
      (''environment_unset'', \<lambda>i. strip (rl_environment i) = []),
      (''run_stopped'', \<lambda>i. rl_stopped i),
      (''run_not_clean'', \<lambda>i. \<not> rl_clean i),
      (''release_ref_unrecorded'', \<lambda>i. rl_ref i = []),
      (''policy_disabled'', \<lambda>i. \<not> rl_policy i),
      (''policy_deploy_false'', \<lambda>i. \<not> rl_policy_deploy i),
      (''ladder_withheld'', \<lambda>i. rl_ladder i = Some False)]"

fun first_reason :: "(string \<times> (release_inputs \<Rightarrow> bool)) list \<Rightarrow> release_inputs \<Rightarrow> string" where
  "first_reason [] i = ''no_driver''"
| "first_reason ((reason, holds) # rules) i = (if holds i then reason else first_reason rules i)"

definition release_withheld :: "release_inputs \<Rightarrow> string" where
  "release_withheld i = first_reason withheld_rules i"

text \<open>The merge with the greatest completion time, a tie going to the later component.\<close>

definition merge_of :: "component \<Rightarrow> string" where "merge_of c = jstr_of (c_merge_sha c)"
definition completed_time :: "component \<Rightarrow> string" where "completed_time c = jstr_of (c_completed_at c)"

fun last_merge :: "component option \<Rightarrow> component list \<Rightarrow> component option" where
  "last_merge best [] = best"
| "last_merge best (c # cs) =
     last_merge (case best of
                   None \<Rightarrow> Some c
                 | Some b \<Rightarrow> (if completed_time b \<le> completed_time c then Some c else Some b)) cs"

definition release_ref_from :: "component list \<Rightarrow> string \<Rightarrow> string" where
  "release_ref_from cs since =
     (case last_merge None (filter (\<lambda>c. merge_of c \<noteq> [] \<and> since \<le> completed_time c) cs) of
        None \<Rightarrow> [] | Some c \<Rightarrow> merge_of c)"

chapter \<open>A scheduling pass\<close>

text \<open>
  \<open>kstrl/factory/factory.py\<close> with \<open>factory_launch.py\<close> and the worktree steps of
  \<open>factory_worktrees.py\<close>: one scheduling pass. It launches the components that are ready into the free
  slots, waits for a worker, processes what it returned, fails what is past its deadline, and ends when
  nothing runs and nothing is ready, or when the run is stopped. A future is a number; the executor, its
  workers and the commands of git are functions on the world. \<open>None\<close> of a step is a wait that never
  ends. Console lines are left out.
\<close>

section \<open>Outside\<close>

text \<open>What the worker of one component is given, besides the settings every worker gets.\<close>

record launch =
  lc_component :: string
  lc_prd :: string
  lc_worktree :: string
  lc_context :: "retry_context option"
  lc_knowledge :: string
  lc_scope :: component_scope
  lc_budget :: loop_budget
  lc_base :: string
  lc_attempt :: int
  lc_plan :: string

text \<open>\<open>fe_prepare\<close> is what \<open>_setup_worktree\<close> does before it cuts the branch (the directory, the lock,
  the stale index lock, the sweep and the removal of an old worktree); \<open>fe_git\<close> runs a git command that
  returns; \<open>fe_wait\<close> is \<open>concurrent.futures.wait\<close> until the first completion, in the order the set is
  iterated; \<open>fe_stop\<close> is the reason once a stop was requested.\<close>

record 'w factory_env =
  fe_pipe :: "'w pipe_env"
  fe_hooks :: "'w pipe_hooks"
  fe_stop :: "'w \<Rightarrow> string option"
  fe_prepare :: "string \<Rightarrow> 'w \<Rightarrow> 'w"
  fe_base_ref :: "string \<Rightarrow> 'w \<Rightarrow> string"
  fe_git :: "string list \<Rightarrow> 'w \<Rightarrow> (int \<times> string \<times> string) \<times> 'w"
  fe_merge_branch :: "string \<Rightarrow> string \<Rightarrow> 'w \<Rightarrow> bool \<times> 'w"
  fe_head :: "string \<Rightarrow> 'w \<Rightarrow> string option"
  fe_path :: "string \<Rightarrow> string"
  fe_root :: string
  fe_unlink :: "string \<Rightarrow> 'w \<Rightarrow> unlinked \<times> 'w"
  fe_snapshot :: "string \<Rightarrow> 'w \<Rightarrow> json option"
  fe_facts :: "string \<Rightarrow> string \<Rightarrow> 'w \<Rightarrow> string option"
  fe_submit :: "nat \<Rightarrow> launch \<Rightarrow> 'w \<Rightarrow> 'w"
  fe_wait :: "nat list \<Rightarrow> rat option \<Rightarrow> 'w \<Rightarrow> nat list \<times> 'w"
  fe_future :: "nat \<Rightarrow> 'w \<Rightarrow> future_state"
  fe_kill :: "nat list \<Rightarrow> 'w \<Rightarrow> 'w"
  fe_shutdown :: "bool \<Rightarrow> 'w \<Rightarrow> 'w"
  fe_sweep :: "string \<Rightarrow> 'w \<Rightarrow> worktree_sweep \<times> 'w"
  fe_stop_slices :: bool

record factory_settings =
  fs_pipe :: pipe_config
  fs_max_parallel :: int
  fs_backstop :: rat
  fs_scope :: run_scope
  fs_usage_paths :: bool
  fs_keep_failed :: bool

text \<open>The futures in flight with their components, their deadlines, the next future, what was handed to
  the executor, the components whose worker was left alive, and those whose usage slot is not clean.\<close>

record 'w sched =
  sd_pipe :: "'w pipe"
  sd_running :: "(nat \<times> string) list"
  sd_deadlines :: "(nat \<times> rat) list"
  sd_next :: nat
  sd_scheduled :: "string list"
  sd_leaked :: "string list"
  sd_unsafe :: "string list"

definition sched_world :: "'w sched \<Rightarrow> 'w" where
  "sched_world s = pp_world (sd_pipe s)"

definition with_world :: "'w \<Rightarrow> 'w sched \<Rightarrow> 'w sched" where
  "with_world w s = s\<lparr>sd_pipe := (sd_pipe s)\<lparr>pp_world := w\<rparr>\<rparr>"

section \<open>Slots\<close>

definition resolve_max_parallel :: "pipe_config \<Rightarrow> int \<Rightarrow> int" where
  "resolve_max_parallel cfg n =
     (if \<not> pf_use_worktrees cfg then 1
      else if pf_single_pr cfg \<and> n > 1 then 1
      else n)"

definition slots_cap :: "factory_settings \<Rightarrow> nat" where
  "slots_cap fs = nat (max 1 (fs_max_parallel fs))"

section \<open>Refusals before a launch\<close>

definition token_unenforceable_reason :: "pipe_config \<Rightarrow> 'w pipe \<Rightarrow> string" where
  "token_unenforceable_reason cfg p =
     ''token budget unenforceable: the engineer has made '' @ int_text (tokenless_calls (engineer_usage_totals p)) @
     '' agent call(s) this run and none '' @ ''reported a token count, so max_total_tokens ('' @
     int_text (pf_max_tokens cfg) @ '') cannot '' @
     ''advance; refusing to schedule further components rather than '' @ ''spending under a cap that cannot fire (R8)''"

definition cost_unenforceable_reason :: "pipe_config \<Rightarrow> 'w pipe_env \<Rightarrow> 'w pipe \<Rightarrow> string" where
  "cost_unenforceable_reason cfg env p =
     ''cost budget unenforceable: the engineer has made '' @ int_text (costless_calls (engineer_usage_totals p)) @
     '' agent call(s) this run and none '' @ ''reported a cost, so max_cost_usd ($'' @
     pe_float env (pf_max_cost cfg) @ '') cannot advance; '' @
     ''refusing to schedule further components rather than spending '' @ ''under a cap that cannot fire (R8)''"

definition unenforceable_reason :: "pipe_config \<Rightarrow> 'w pipe_env \<Rightarrow> 'w pipe \<Rightarrow> string" where
  "unenforceable_reason cfg env p =
     join_with ''; ''
       ((if token_budget_unenforceable cfg p then [token_unenforceable_reason cfg p] else []) @
        (if cost_budget_unenforceable cfg p then [cost_unenforceable_reason cfg env p] else []))"

text \<open>\<open>scope_text\<close> is how the code words an error of a scope.\<close>

definition refused_before_launch ::
    "(scope_error \<Rightarrow> string) \<Rightarrow> factory_settings \<Rightarrow> 'w pipe_env \<Rightarrow> string \<Rightarrow> 'w pipe \<Rightarrow> 'w pipe option" where
  "refused_before_launch scope_text fs env cid p =
     (let cfg = fs_pipe fs in
      if budget_exceeded cfg p then Some (snd (fail_for_budget cfg env cid ''scheduling'' [] [] [] p))
      else if budget_unenforceable cfg p
      then Some (snd (fail_for_budget cfg env cid ''scheduling'' (unenforceable_reason cfg env p) [] [] p))
      else
        (case sp_error (scope_for_component (fs_scope fs) cid) of
           None \<Rightarrow> None
         | Some e \<Rightarrow>
             Some (snd (fail_component cfg env cid (scope_unreadable_error (''Error: '' @ scope_text e)) ''scope''
                     scope_unreadable_check [scope_unreadable_check @ '':no-trustworthy-scope''] p))))"

section \<open>Worktrees\<close>

fun dependency_branches_from ::
    "component list \<Rightarrow> string \<Rightarrow> string list \<Rightarrow> string list \<Rightarrow> string list" where
  "dependency_branches_from cs own taken [] = taken"
| "dependency_branches_from cs own taken (d # ds) =
     dependency_branches_from cs own
       (case get_component cs d of
          None \<Rightarrow> taken
        | Some dep \<Rightarrow>
            (if has_merged dep \<or> c_branch_name dep = own \<or> c_branch_name dep \<in> set taken then taken
             else taken @ [c_branch_name dep])) ds"

definition dependency_branches :: "component list \<Rightarrow> component \<Rightarrow> string list" where
  "dependency_branches cs c = dependency_branches_from cs (c_branch_name c) [] (c_dependencies c)"

definition recut_point :: "'w pipe \<Rightarrow> component \<Rightarrow> string + string option" where
  "recut_point p c =
     (if \<not> m_single_pr (pp_manifest p) then Inr None
      else case dict_get (pp_bases p) (c_id c) of
             Some b \<Rightarrow> Inr (Some b)
           | None \<Rightarrow>
               Inl (''no recorded start commit for '' @ quoted (c_id c) @ '' on the shared branch '' @
                    quoted (c_branch_name c) @ ''; resetting it to '' @ quoted (m_base_branch (pp_manifest p)) @
                    '' would drop every earlier component's commits''))"

definition setup_worktree ::
    "'w factory_env \<Rightarrow> string \<Rightarrow> string \<Rightarrow> string \<Rightarrow> bool \<Rightarrow> string option \<Rightarrow> 'w \<Rightarrow> (string + string) \<times> 'w" where
  "setup_worktree fe cid branch base fresh recut w =
     (let path = fe_path fe cid;
          w1 = snd (fetch_base_branch (pe_gh (fe_pipe fe)) base (fe_prepare fe cid w));
          ref = fe_base_ref fe base w1;
          (r, w2) =
            (if fresh
             then fe_git fe [''git'', ''worktree'', ''add'', ''-B'', branch, path,
                             or_text (case recut of None \<Rightarrow> [] | Some s \<Rightarrow> s) ref] w1
             else
               (case fe_git fe [''git'', ''worktree'', ''add'', path, ''-b'', branch, ref] w1 of
                  ((rc, out, err), w') \<Rightarrow>
                    (if rc \<noteq> 0 then fe_git fe [''git'', ''worktree'', ''add'', path, branch] w'
                     else ((rc, out, err), w'))))
      in case r of
           (rc, out, err) \<Rightarrow>
             (if rc \<noteq> 0
              then (Inl (''Failed to create worktree for '' @ quoted cid @ '': '' @ or_text (strip err) (strip out)), w2)
              else (Inr path, w2)))"

fun merge_dependency_branches :: "'w factory_env \<Rightarrow> string \<Rightarrow> string list \<Rightarrow> 'w \<Rightarrow> string option \<times> 'w" where
  "merge_dependency_branches fe path [] w = (None, w)"
| "merge_dependency_branches fe path (b # bs) w =
     (case fe_merge_branch fe b path w of
        (ok, w') \<Rightarrow>
          (if ok then merge_dependency_branches fe path bs w'
           else (Some (''could not merge dependency branch '' @ quoted b @ '' into '' @ path @ '': '' @
                       ''`git merge --no-edit -- '' @ b @ ''` failed (it conflicts with '' @
                       ''another dependency's change, or the branch no longer exists)''), w')))"

definition judged_base :: "'w factory_env \<Rightarrow> string \<Rightarrow> string \<Rightarrow> bool \<Rightarrow> 'w \<Rightarrow> string + string" where
  "judged_base fe path base holds w =
     (if \<not> holds then Inr base
      else case fe_head fe path w of
             Some h \<Rightarrow> Inr h
           | None \<Rightarrow> Inl (''could not read HEAD in '' @ path @ '' to record the component's base''))"

text \<open>The new base of a component, when this launch records one.\<close>

definition start_from_dependencies ::
    "'w factory_env \<Rightarrow> component \<Rightarrow> string \<Rightarrow> bool \<Rightarrow> 'w pipe \<Rightarrow> string option \<times> 'w pipe" where
  "start_from_dependencies fe c path fresh p =
     (let branches = dependency_branches (pipe_components p) c in
      case merge_dependency_branches fe path branches (pp_world p) of
        (error, w) \<Rightarrow>
          (let p1 = p\<lparr>pp_world := w\<rparr> in
           if error \<noteq> None then (error, p1)
           else if fresh \<or> dict_get (pp_bases p1) (c_id c) = None
           then
             (case judged_base fe path (m_base_branch (pp_manifest p1)) (branches \<noteq> [] \<or> m_single_pr (pp_manifest p1)) w of
                Inl e \<Rightarrow> (Some e, p1)
              | Inr b \<Rightarrow> (None, p1\<lparr>pp_bases := dict_set (pp_bases p1) (c_id c) b\<rparr>))
           else (None, p1)))"

definition provision ::
    "factory_settings \<Rightarrow> 'w factory_env \<Rightarrow> component \<Rightarrow> 'w pipe \<Rightarrow> (string + string) \<times> 'w pipe" where
  "provision fs fe c p =
     (if \<not> pf_use_worktrees (fs_pipe fs)
      then (Inr (fe_root fe), p\<lparr>pp_worktrees := dict_set (pp_worktrees p) (c_id c) (fe_root fe)\<rparr>)
      else
        (let fresh = c_id c \<in> set (pp_fresh p);
             p1 = p\<lparr>pp_fresh := removeAll (c_id c) (pp_fresh p)\<rparr>
         in case (if fresh then recut_point p1 c else Inr None) of
              Inl e \<Rightarrow> (Inl e, p1)
            | Inr recut \<Rightarrow>
                (case setup_worktree fe (c_id c) (c_branch_name c) (m_base_branch (pp_manifest p1)) fresh recut
                        (pp_world p1) of
                   (Inl e, w) \<Rightarrow> (Inl e, p1\<lparr>pp_world := w\<rparr>)
                 | (Inr path, w) \<Rightarrow>
                     (let p2 = p1\<lparr>pp_world := w, pp_worktrees := dict_set (pp_worktrees p1) (c_id c) path\<rparr> in
                      case start_from_dependencies fe c path fresh p2 of
                        (Some e, p3) \<Rightarrow> (Inl e, p3)
                      | (None, p3) \<Rightarrow> (Inr path, p3\<lparr>pp_worktrees := dict_set (pp_worktrees p3) (c_id c) path\<rparr>)))))"

definition launch_component ::
    "factory_settings \<Rightarrow> 'w factory_env \<Rightarrow> string \<Rightarrow> 'w pipe \<Rightarrow> string option \<times> 'w pipe" where
  "launch_component fs fe cid p =
     (case provision fs fe (the_component p cid) p of
        (Inr path, p1) \<Rightarrow> (Some path, p1)
      | (Inl e, p1) \<Rightarrow>
          (None, snd (fail_component (fs_pipe fs) (fe_pipe fe) cid e ''provisioning'' ''worktree_setup'' [] p1)))"

section \<open>Filling the slots\<close>

definition launch_budget :: "pipe_config \<Rightarrow> 'w pipe \<Rightarrow> loop_budget" where
  "launch_budget cfg p =
     (let e = engineer_usage_totals p in
      \<lparr>lb_max_tokens = pf_max_tokens cfg, lb_prior_tokens = ut_total (pp_run_usage p),
       lb_prior_known_calls = ut_known_calls (pp_run_usage p), lb_prior_calls = ut_calls e,
       lb_prior_token_calls = ut_token_calls e, lb_max_cost = pf_max_cost cfg,
       lb_prior_cost = ut_cost (pp_run_usage p), lb_prior_cost_calls = ut_cost_calls e\<rparr>)"

definition launch_of :: "factory_settings \<Rightarrow> string \<Rightarrow> string \<Rightarrow> string option \<Rightarrow> 'w pipe \<Rightarrow> launch" where
  "launch_of fs cid path facts p =
     (let c = the_component p cid in
      \<lparr>lc_component = cid, lc_prd = c_prd_path c, lc_worktree = path, lc_context = dict_get (pp_contexts p) cid,
       lc_knowledge = (case facts of None \<Rightarrow> [] | Some k \<Rightarrow> k), lc_scope = scope_for_component (fs_scope fs) cid,
       lc_budget = launch_budget (fs_pipe fs) p, lc_base = component_base p cid, lc_attempt = attempt_number p cid,
       lc_plan = c_plan_id c\<rparr>)"

definition submit_component :: "factory_settings \<Rightarrow> 'w factory_env \<Rightarrow> string \<Rightarrow> string \<Rightarrow> 'w sched \<Rightarrow> 'w sched" where
  "submit_component fs fe cid path s =
     (let p1 = phase_started cid ''engineer'' (sd_pipe s);
          facts = fe_facts fe cid path (pp_world p1);
          p2 = record_injected_knowledge cid facts p1;
          args = launch_of fs cid path facts p2
      in case fe_unlink fe cid (pp_world p2) of
           (u, w) \<Rightarrow>
             (let p3 = p2\<lparr>pp_world := fe_submit fe (sd_next s) args w\<rparr>
              in s\<lparr>sd_pipe := p3,
                   sd_unsafe := (if clear_partial_usage u then removeAll cid (sd_unsafe s) else list_add cid (sd_unsafe s)),
                   sd_running := sd_running s @ [(sd_next s, cid)],
                   sd_deadlines := (if fs_backstop fs > 0
                                    then sd_deadlines s @ [(sd_next s, gx_clock (pe_gh (fe_pipe fe)) (pp_world p3) + fs_backstop fs)]
                                    else sd_deadlines s),
                   sd_next := Suc (sd_next s), sd_scheduled := sd_scheduled s @ [cid]\<rparr>))"

text \<open>One ready component: whether it changed state with no launch.\<close>

definition fill_one ::
    "(scope_error \<Rightarrow> string) \<Rightarrow> factory_settings \<Rightarrow> 'w factory_env \<Rightarrow> string \<Rightarrow> 'w sched \<Rightarrow> (bool \<times> 'w sched) option" where
  "fill_one scope_text fs fe cid s =
     (case refused_before_launch scope_text fs (fe_pipe fe) cid (sd_pipe s) of
        Some p \<Rightarrow> Some (True, s\<lparr>sd_pipe := p\<rparr>)
      | None \<Rightarrow>
          (let p1 = emit (Component_Started cid) (save_pipe (begin_attempt (fe_pipe fe) cid (sd_pipe s))) in
           case launch_component fs fe cid p1 of
             (path, p2) \<Rightarrow>
               (case engineer_worktree (fs_pipe fs) (fe_pipe fe) (fe_hooks fe) cid path p2 of
                  None \<Rightarrow> None
                | Some (None, p3) \<Rightarrow> Some (True, s\<lparr>sd_pipe := p3\<rparr>)
                | Some (Some wt, p3) \<Rightarrow> Some (False, submit_component fs fe cid wt (s\<lparr>sd_pipe := p3\<rparr>)))))"

fun fill_slots ::
    "(scope_error \<Rightarrow> string) \<Rightarrow> factory_settings \<Rightarrow> 'w factory_env \<Rightarrow> string list \<Rightarrow> 'w sched \<Rightarrow> (nat \<times> 'w sched) option" where
  "fill_slots scope_text fs fe [] s = Some (0, s)"
| "fill_slots scope_text fs fe (cid # cids) s =
     (case fill_one scope_text fs fe cid s of
        None \<Rightarrow> None
      | Some (moved_on, s1) \<Rightarrow>
          (case fill_slots scope_text fs fe cids s1 of
             None \<Rightarrow> None
           | Some (n, s2) \<Rightarrow> Some (if moved_on then Suc n else n, s2)))"

section \<open>Waiting\<close>

text \<open>\<open>min\<close> over the deadlines of the running futures.\<close>

definition next_backstop_wait :: "(nat \<times> string) list \<Rightarrow> (nat \<times> rat) list \<Rightarrow> rat \<Rightarrow> rat option" where
  "next_backstop_wait running deadlines now =
     (case somes (map (\<lambda>(f, cid). map_of deadlines f) running) of
        [] \<Rightarrow> None
      | d # ds \<Rightarrow> Some (max 0 (foldl min d ds - now)))"

definition is_done :: "'w factory_env \<Rightarrow> nat \<Rightarrow> 'w \<Rightarrow> bool" where
  "is_done fe f w = (fe_future fe f w \<noteq> Future_Open)"

definition expired_futures ::
    "'w factory_env \<Rightarrow> (nat \<times> string) list \<Rightarrow> (nat \<times> rat) list \<Rightarrow> rat \<Rightarrow> 'w \<Rightarrow> (nat \<times> string) list" where
  "expired_futures fe running deadlines now w =
     filter (\<lambda>(f, cid). \<not> is_done fe f w \<and> (case map_of deadlines f of None \<Rightarrow> False | Some d \<Rightarrow> now \<ge> d)) running"

definition slice_seconds :: rat where "slice_seconds = 1 / 2"

partial_function (option) wait_slices ::
    "'w factory_env \<Rightarrow> nat list \<Rightarrow> rat option \<Rightarrow> 'w \<Rightarrow> ((nat list \<times> bool) \<times> 'w) option" where
  "wait_slices fe futures deadline w =
     (if fe_stop fe w \<noteq> None then Some (([], True), w)
      else
        (let remaining = map_option (\<lambda>d. max 0 (d - gx_clock (pe_gh (fe_pipe fe)) w)) deadline;
             slice = (case remaining of None \<Rightarrow> slice_seconds | Some r \<Rightarrow> min slice_seconds r)
         in case fe_wait fe futures (Some slice) w of
              (finished, w1) \<Rightarrow>
                (if finished \<noteq> [] then Some ((finished, False), w1)
                 else if (case remaining of None \<Rightarrow> False | Some r \<Rightarrow> r \<le> slice_seconds)
                 then Some (([], False), w1)
                 else wait_slices fe futures deadline w1)))"

text \<open>\<open>fe_stop_slices\<close> says whether the run was given a stop controller at all.\<close>

definition wait_interruptible ::
    "'w factory_env \<Rightarrow> nat list \<Rightarrow> rat option \<Rightarrow> 'w \<Rightarrow> ((nat list \<times> bool) \<times> 'w) option" where
  "wait_interruptible fe futures limit w =
     (if \<not> fe_stop_slices fe
      then (case fe_wait fe futures limit w of (finished, w1) \<Rightarrow> Some ((finished, False), w1))
      else wait_slices fe futures (map_option (\<lambda>t. gx_clock (pe_gh (fe_pipe fe)) w + t) limit) w)"

section \<open>Stopping\<close>

definition stop_reason :: "'w factory_env \<Rightarrow> 'w \<Rightarrow> string" where
  "stop_reason fe w = (case fe_stop fe w of None \<Rightarrow> [] | Some r \<Rightarrow> r)"

definition abort_one :: "factory_settings \<Rightarrow> 'w factory_env \<Rightarrow> 'w sched \<Rightarrow> nat \<times> string \<Rightarrow> 'w sched" where
  "abort_one fs fe s running =
     (case running of
        (f, cid) \<Rightarrow>
          (let w = sched_world s;
               snapshot = (if \<not> fs_usage_paths fs \<or> cid \<in> set (sd_unsafe s) then None else Some (fe_snapshot fe cid w));
               p1 = salvage_aborted_usage (fs_pipe fs) (fe_future fe f w) snapshot cid (sd_pipe s)
           in s\<lparr>sd_pipe := fail_aborted (fs_pipe fs) (fe_pipe fe) cid (stop_reason fe (pp_world p1)) p1,
                sd_running := filter (\<lambda>(g, k). g \<noteq> f) (sd_running s)\<rparr>))"

definition abort_inflight :: "factory_settings \<Rightarrow> 'w factory_env \<Rightarrow> 'w sched \<Rightarrow> 'w sched" where
  "abort_inflight fs fe s =
     (let s1 = with_world (fe_kill fe (map fst (sd_running s)) (sched_world s)) s;
          s2 = foldl (abort_one fs fe) s1 (sd_running s1)
      in with_world (fe_shutdown fe False (sched_world s2)) s2)"

section \<open>One completion, and the ones past their deadline\<close>

definition crashed_result :: "string \<Rightarrow> component_result" where
  "crashed_result e = (kept_result None)\<lparr>cp_success := False, cp_error := Some e\<rparr>"

definition future_result :: "future_state \<Rightarrow> component_result" where
  "future_result f =
     (case f of Future_Returned r \<Rightarrow> r | Future_Raised e \<Rightarrow> crashed_result e | Future_Open \<Rightarrow> crashed_result [])"

definition drop_future :: "nat \<Rightarrow> 'w sched \<Rightarrow> 'w sched" where
  "drop_future f s =
     s\<lparr>sd_running := filter (\<lambda>(g, k). g \<noteq> f) (sd_running s), sd_deadlines := filter (\<lambda>(g, k). g \<noteq> f) (sd_deadlines s)\<rparr>"

definition collect_completion ::
    "factory_settings \<Rightarrow> 'w factory_env \<Rightarrow> nat list \<Rightarrow> 'w sched \<Rightarrow> 'w sched option" where
  "collect_completion fs fe finished s =
     (let f = hd finished; cid = the (map_of (sd_running s) f); s1 = drop_future f s
      in map_option (\<lambda>(o1, p). s1\<lparr>sd_pipe := p\<rparr>)
           (process_result (fs_pipe fs) (fe_pipe fe) (fe_hooks fe) cid (future_result (fe_future fe f (sched_world s1)))
              (sd_pipe s1)))"

definition fail_one_expired :: "factory_settings \<Rightarrow> 'w factory_env \<Rightarrow> 'w sched \<Rightarrow> nat \<times> string \<Rightarrow> 'w sched" where
  "fail_one_expired fs fe s running =
     (case running of
        (f, cid) \<Rightarrow>
          (let s1 = drop_future f s
           in s1\<lparr>sd_leaked := list_add cid (sd_leaked s1),
                 sd_pipe := fail_scheduler_backstop (fs_pipe fs) (fe_pipe fe) cid (fs_backstop fs) (sd_pipe s1)\<rparr>))"

definition fail_expired :: "factory_settings \<Rightarrow> 'w factory_env \<Rightarrow> 'w sched \<Rightarrow> 'w sched" where
  "fail_expired fs fe s =
     foldl (fail_one_expired fs fe) s
       (expired_futures fe (sd_running s) (sd_deadlines s) (gx_clock (pe_gh (fe_pipe fe)) (sched_world s)) (sched_world s))"

section \<open>The pass\<close>

definition shut_down :: "'w factory_env \<Rightarrow> 'w sched \<Rightarrow> 'w sched" where
  "shut_down fe s = with_world (fe_shutdown fe (sd_leaked s = []) (sched_world s)) s"

definition ready_ids :: "'w sched \<Rightarrow> string list" where
  "ready_ids s = map c_id (get_ready_components (pipe_components (sd_pipe s)))"

definition free_slots :: "factory_settings \<Rightarrow> 'w sched \<Rightarrow> nat" where
  "free_slots fs s = slots_cap fs - length (sd_running s)"

text \<open>The wait after the slots were filled: stopped, or what finished.\<close>

definition await_next ::
    "factory_settings \<Rightarrow> 'w factory_env \<Rightarrow> 'w sched \<Rightarrow> ((nat list \<times> bool) \<times> 'w sched) option" where
  "await_next fs fe s =
     map_option (\<lambda>(r, w). (r, with_world w s))
       (wait_interruptible fe (map fst (sd_running s))
          (next_backstop_wait (sd_running s) (sd_deadlines s) (gx_clock (pe_gh (fe_pipe fe)) (sched_world s))) (sched_world s))"

datatype 'w turn = Pass_Over "'w sched" | Pass_On "'w sched"

definition after_wait ::
    "factory_settings \<Rightarrow> 'w factory_env \<Rightarrow> (nat list \<times> bool) \<times> 'w sched \<Rightarrow> 'w turn option" where
  "after_wait fs fe r =
     (case r of
        ((finished, stopped), s) \<Rightarrow>
          (if stopped then Some (Pass_Over (abort_inflight fs fe s))
           else if finished \<noteq> [] then map_option Pass_On (collect_completion fs fe finished s)
           else Some (Pass_On (fail_expired fs fe s))))"

text \<open>One turn of the loop.\<close>

definition pass_turn ::
    "(scope_error \<Rightarrow> string) \<Rightarrow> factory_settings \<Rightarrow> 'w factory_env \<Rightarrow> 'w sched \<Rightarrow> 'w turn option" where
  "pass_turn scope_text fs fe s =
     (if fe_stop fe (sched_world s) \<noteq> None then Some (Pass_Over (abort_inflight fs fe s))
      else
        (case fill_slots scope_text fs fe (take (free_slots fs s) (ready_ids s)) s of
           None \<Rightarrow> None
         | Some (n, s1) \<Rightarrow>
             (if sd_running s1 = [] then Some (if n \<noteq> 0 then Pass_On s1 else Pass_Over s1)
              else
                (case await_next fs fe s1 of
                   None \<Rightarrow> None
                 | Some r \<Rightarrow> after_wait fs fe r))))"

partial_function (option) pass_loop ::
    "(scope_error \<Rightarrow> string) \<Rightarrow> factory_settings \<Rightarrow> 'w factory_env \<Rightarrow> 'w sched \<Rightarrow> 'w sched option" where
  "pass_loop scope_text fs fe s =
     (case pass_turn scope_text fs fe s of
        None \<Rightarrow> None
      | Some (Pass_Over s1) \<Rightarrow> Some s1
      | Some (Pass_On s1) \<Rightarrow> pass_loop scope_text fs fe s1)"

definition fresh_sched :: "string list \<Rightarrow> string list \<Rightarrow> string list \<Rightarrow> nat \<Rightarrow> 'w pipe \<Rightarrow> 'w sched" where
  "fresh_sched scheduled leaked unsafe n p =
     \<lparr>sd_pipe = p, sd_running = [], sd_deadlines = [], sd_next = n, sd_scheduled = scheduled, sd_leaked = leaked,
      sd_unsafe = unsafe\<rparr>"

definition run_scheduling_pass ::
    "(scope_error \<Rightarrow> string) \<Rightarrow> factory_settings \<Rightarrow> 'w factory_env \<Rightarrow> 'w sched \<Rightarrow> 'w sched option" where
  "run_scheduling_pass scope_text fs fe s =
     map_option (shut_down fe)
       (pass_loop scope_text fs fe
          (fresh_sched (sd_scheduled s) (sd_leaked s) (sd_unsafe s) (sd_next s) (sd_pipe s)))"

section \<open>After a pass\<close>

text \<open>The worktrees of a pass: a possibly live worker keeps its own, a failure may keep its own as
  evidence, every other is removed.\<close>

definition cleanup_one :: "factory_settings \<Rightarrow> 'w factory_env \<Rightarrow> string list \<Rightarrow> 'w pipe \<Rightarrow> string \<times> string \<Rightarrow> 'w pipe" where
  "cleanup_one fs fe leaked p entry =
     (case entry of
        (cid, path) \<Rightarrow>
          (if cid \<in> set leaked then p
           else if fs_keep_failed fs \<and> get_component (pipe_components p) cid \<noteq> None \<and> status_at p cid = FAILED
           then
             (let p1 = update_component cid (\<lambda>c. c\<lparr>c_evidence_worktree := JStr path\<rparr>) p in
              case fe_sweep fe path (pp_world p1) of
                (sw, w) \<Rightarrow> record_worktree_sweep cid sw ''cleanup'' (p1\<lparr>pp_world := w\<rparr>))
           else
             (case hk_cleanup (fe_hooks fe) cid (pp_world p) of
                (sw, w) \<Rightarrow> record_worktree_sweep cid sw ''cleanup'' (p\<lparr>pp_world := w\<rparr>))))"

definition cleanup_pass_worktrees :: "factory_settings \<Rightarrow> 'w factory_env \<Rightarrow> string list \<Rightarrow> 'w pipe \<Rightarrow> 'w pipe" where
  "cleanup_pass_worktrees fs fe leaked p =
     (if \<not> pf_use_worktrees (fs_pipe fs) then p
      else save_pipe (foldl (cleanup_one fs fe leaked) p (pp_worktrees p)))"

chapter \<open>The rounds of a run\<close>

text \<open>
  \<open>kstrl/factory/factory_acceptance.py\<close>, \<open>integration_loop.py\<close>, \<open>factory_summary.py\<close> and the outer loop
  of \<open>_run_factory_locked\<close> in \<open>factory.py\<close>: a scheduling pass, then Phase 3 over what it completed; a
  breaker with a retry left goes back to pending and the loop runs again, otherwise the integration
  review runs once and the run is finished. What Phase 3 runs, the carried checks, the integration
  review and the last pull requests are functions on the world; the row for the evolution journal and
  console lines are left out.
\<close>

section \<open>Phase 3\<close>

record carried_entry =
  ce_plan :: string
  ce_component :: string
  ce_check :: string
  ce_passed_at :: string

record contract_result =
  ct_tier :: int
  ct_passed :: bool
  ct_tested :: "string list"
  ct_breaker :: string
  ct_output :: string
  ct_tested_sha :: string
  ct_held_out :: "string list"
  ct_carried :: "carried_entry list"

text \<open>\<open>ph_test\<close> is \<open>run_contract_testing\<close> on the manifest, whether the components are merged already and
  the base commit, with the text of a cleanup error; \<open>ph_carry\<close> is \<open>carry_passed\<close> with its error.\<close>

record 'w phase3_env =
  ph_mode :: "string option"
  ph_base :: "string \<Rightarrow> 'w \<Rightarrow> string option"
  ph_test :: "manifest \<Rightarrow> bool \<Rightarrow> string \<Rightarrow> 'w \<Rightarrow> (string + contract_result list) \<times> 'w"
  ph_carry :: "string list \<Rightarrow> string \<Rightarrow> 'w \<Rightarrow> string \<times> 'w"
  ph_integration :: "'w pipe \<Rightarrow> string list \<times> 'w pipe"
  ph_last_prs :: "'w pipe \<Rightarrow> 'w pipe"

record 'w round_state =
  rn_pipe :: "'w pipe"
  rn_failures :: "string list"
  rn_reset :: bool

definition tier_text :: "int \<Rightarrow> string" where "tier_text t = int_text t"

definition stop_reason_of :: "contract_result \<Rightarrow> string" where
  "stop_reason_of r = (if ct_held_out r \<noteq> [] then ''a held-out check failed, no retry'' else ''retries exhausted'')"

definition breaker_may_retry :: "pipe_config \<Rightarrow> contract_result \<Rightarrow> 'w pipe \<Rightarrow> bool" where
  "breaker_may_retry cfg r p =
     (ct_breaker r \<noteq> [] \<and>
      (case get_component (pipe_components p) (ct_breaker r) of
         None \<Rightarrow> False
       | Some c \<Rightarrow> retries_of c < pf_max_retries cfg \<and> ct_held_out r = []))"

definition contract_signature :: "contract_result \<Rightarrow> string list" where
  "contract_signature r = [''contract:tier_'' @ tier_text (ct_tier r)]"

definition reset_breaker :: "pipe_config \<Rightarrow> 'w pipe_env \<Rightarrow> contract_result \<Rightarrow> 'w pipe \<Rightarrow> 'w pipe" where
  "reset_breaker cfg env r p =
     (let cid = ct_breaker r;
          p1 = journal_superseded env cid None p;
          p2 = update_component cid (\<lambda>c. c\<lparr>c_retries := JInt (retries_of c + 1), c_status := PENDING,
                 c_error := JStr (''Contract test failed at tier '' @ tier_text (ct_tier r))\<rparr>) p1;
          p3 = p2\<lparr>pp_signatures := dict_set (pp_signatures p2) cid (contract_signature r),
                  pp_completed := remove1 cid (pp_completed p2)\<rparr>;
          p4 = (case record_contract_failure cid (retries_of (the_component p3 cid)) (take 500 (ct_output r)) p3 of
                  Inl e \<Rightarrow> p3 | Inr x \<Rightarrow> x)
      in save_pipe p4)"

fun reset_contract_breakers ::
    "pipe_config \<Rightarrow> 'w pipe_env \<Rightarrow> contract_result list \<Rightarrow> 'w round_state \<Rightarrow> 'w round_state" where
  "reset_contract_breakers cfg env [] s = s"
| "reset_contract_breakers cfg env (r # rs) s =
     reset_contract_breakers cfg env rs
       (if breaker_may_retry cfg r (rn_pipe s) then s\<lparr>rn_pipe := reset_breaker cfg env r (rn_pipe s), rn_reset := True\<rparr> else s)"

definition last_line :: "string \<Rightarrow> string" where
  "last_line output =
     (let detail = strip output in if detail = [] then [] else take 200 (last (splitlines detail)))"

definition terminal_error :: "contract_result \<Rightarrow> string" where
  "terminal_error r =
     ''Contract test failed at tier '' @ tier_text (ct_tier r) @ '' ('' @ stop_reason_of r @ '')''"

definition fail_breaker :: "pipe_config \<Rightarrow> 'w pipe_env \<Rightarrow> contract_result \<Rightarrow> 'w pipe \<Rightarrow> 'w pipe" where
  "fail_breaker cfg env r p =
     (let cid = ct_breaker r;
          p1 = (case get_component (pipe_components p) cid of
                  None \<Rightarrow> p
                | Some c \<Rightarrow>
                    (let q = update_component cid (\<lambda>c. c\<lparr>c_status := FAILED, c_error := JStr (terminal_error r),
                               c_completed_at := JStr (pe_iso env (pp_world p)), c_failed_phase := JStr ''contract'',
                               c_failed_check := JStr (''tier_'' @ tier_text (ct_tier r))\<rparr>) p
                     in q\<lparr>pp_signatures := dict_set (pp_signatures q) cid (contract_signature r)\<rparr>));
          p2 = p1\<lparr>pp_completed := remove1 cid (pp_completed p1),
                  pp_failed := (if cid \<in> set (pp_failed p1) then pp_failed p1 else pp_failed p1 @ [cid])\<rparr>
      in fire_first_failure cfg cid (terminal_error r) (emit (Component_Failed cid (terminal_error r)) p2))"

definition record_contract_failure_one ::
    "pipe_config \<Rightarrow> 'w pipe_env \<Rightarrow> contract_result \<Rightarrow> 'w round_state \<Rightarrow> 'w round_state" where
  "record_contract_failure_one cfg env r s =
     (if ct_breaker r \<noteq> []
      then s\<lparr>rn_pipe := fail_breaker cfg env r (rn_pipe s),
             rn_failures := rn_failures s @ [''tier '' @ tier_text (ct_tier r) @ '': breaker '' @ quoted (ct_breaker r) @
               '' ('' @ stop_reason_of r @ ''): '' @ last_line (ct_output r)]\<rparr>
      else s\<lparr>rn_failures := rn_failures s @ [''tier '' @ tier_text (ct_tier r) @
               '': contract tests failed, no blame '' @ ''attributed (components: '' @
               join_with '', '' (ct_tested r) @ ''): '' @ last_line (ct_output r)]\<rparr>)"

definition record_carried_halt ::
    "pipe_config \<Rightarrow> 'w pipe_env \<Rightarrow> string \<Rightarrow> string \<Rightarrow> 'w pipe \<Rightarrow> carried_entry \<Rightarrow> 'w pipe" where
  "record_carried_halt cfg env place detail p e =
     pipe_inbox_add cfg env HALTED_RUN (''An earlier feature's acceptance check '' @ ce_check e @ '' fails'')
       (''The check '' @ ce_check e @ '' of '' @ ce_component e @ '' in the acceptance plan '' @ take 12 (ce_plan e) @
        '' passed on '' @ take 12 (ce_passed_at e) @ '' and does not pass on '' @ place @ '' ('' @ detail @ ''). Approve '' @
        ''this item to retire the check if a change made it obsolete: no later run '' @
        ''replays it. Otherwise repair the change.'') []
       (''carried:'' @ ce_plan e @ '':'' @ ce_component e @ '':'' @ ce_check e)
       [(''carried'', JObj [(''planId'', JStr (ce_plan e)), (''component'', JStr (ce_component e)),
                            (''check'', JStr (ce_check e))]),
        (''where'', JStr place)] p"

definition halt_carried :: "pipe_config \<Rightarrow> 'w pipe_env \<Rightarrow> contract_result list \<Rightarrow> 'w pipe \<Rightarrow> 'w pipe" where
  "halt_carried cfg env failures p =
     foldl (\<lambda>q r. foldl (record_carried_halt cfg env (''Phase 3 tier '' @ tier_text (ct_tier r)) ''the run failed on it'')
                   q (ct_carried r)) p failures"

definition record_contract_failures ::
    "pipe_config \<Rightarrow> 'w pipe_env \<Rightarrow> contract_result list \<Rightarrow> 'w round_state \<Rightarrow> 'w round_state" where
  "record_contract_failures cfg env failures s =
     (let s1 = foldl (\<lambda>t r. record_contract_failure_one cfg env r t) s failures
      in s1\<lparr>rn_pipe := save_pipe (halt_carried cfg env failures (rn_pipe s1))\<rparr>)"

definition note_contract_result :: "'w pipe \<Rightarrow> contract_result \<Rightarrow> 'w pipe" where
  "note_contract_result p r = emit (Contract_Judged (ct_tier r) (ct_passed r) (ct_breaker r)) p"

definition carry_checks :: "'w phase3_env \<Rightarrow> contract_result list \<Rightarrow> 'w round_state \<Rightarrow> 'w round_state" where
  "carry_checks ph results s =
     (case ph_carry ph (concat (map ct_tested results)) (case results of [] \<Rightarrow> [] | r # rs \<Rightarrow> ct_tested_sha r)
             (pp_world (rn_pipe s)) of
        (error, w) \<Rightarrow>
          s\<lparr>rn_pipe := (rn_pipe s)\<lparr>pp_world := w\<rparr>,
            rn_failures := (if error = [] then rn_failures s else rn_failures s @ [error])\<rparr>)"

definition judge_contracts ::
    "pipe_config \<Rightarrow> 'w pipe_env \<Rightarrow> 'w phase3_env \<Rightarrow> contract_result list \<Rightarrow> 'w round_state \<Rightarrow> 'w round_state" where
  "judge_contracts cfg env ph results s =
     (let s1 = s\<lparr>rn_pipe := foldl note_contract_result (rn_pipe s) results\<rparr>;
          failures = filter (\<lambda>r. \<not> ct_passed r) results
      in if failures = [] then carry_checks ph results s1
         else
           (let s2 = reset_contract_breakers cfg env failures s1
            in if rn_reset s2 then s2 else record_contract_failures cfg env failures s2))"

definition run_contract_round ::
    "pipe_config \<Rightarrow> 'w pipe_env \<Rightarrow> 'w phase3_env \<Rightarrow> 'w round_state \<Rightarrow> 'w round_state" where
  "run_contract_round cfg env ph s =
     (if ph_mode ph = None \<or> ph_mode ph = Some ''skip'' then s
      else
        (let p = rn_pipe s;
             base = (case ph_base ph (m_base_branch (pp_manifest p)) (pp_world p) of None \<Rightarrow> [] | Some b \<Rightarrow> b)
         in case ph_test ph (pp_manifest p) (pf_create_prs cfg \<and> \<not> pf_single_pr cfg) base (pp_world p) of
              (Inl e, w) \<Rightarrow>
                s\<lparr>rn_pipe := p\<lparr>pp_world := w\<rparr>, rn_failures := rn_failures s @ [''contract cleanup failed: '' @ e]\<rparr>
            | (Inr results, w) \<Rightarrow> judge_contracts cfg env ph results (s\<lparr>rn_pipe := p\<lparr>pp_world := w\<rparr>\<rparr>)))"

section \<open>The outer loop\<close>

record 'w factory_run =
  fr_sched :: "'w sched"
  fr_failures :: "string list"

text \<open>One round: whether the loop runs again.\<close>

definition factory_round ::
    "(scope_error \<Rightarrow> string) \<Rightarrow> factory_settings \<Rightarrow> 'w factory_env \<Rightarrow> 'w phase3_env \<Rightarrow> 'w factory_run \<Rightarrow>
     (bool \<times> 'w factory_run) option" where
  "factory_round scope_text fs fe ph s =
     (case run_scheduling_pass scope_text fs fe (fr_sched s) of
        None \<Rightarrow> None
      | Some t \<Rightarrow>
          (let p = cleanup_pass_worktrees fs fe (sd_leaked t) (sd_pipe t)
           in if fe_stop fe (pp_world p) \<noteq> None then Some (False, s\<lparr>fr_sched := t\<lparr>sd_pipe := p\<rparr>\<rparr>)
              else
                (let r = run_contract_round (fs_pipe fs) (fe_pipe fe) ph
                           \<lparr>rn_pipe = p, rn_failures = fr_failures s, rn_reset = False\<rparr>
                 in Some (rn_reset r, s\<lparr>fr_sched := t\<lparr>sd_pipe := rn_pipe r\<rparr>, fr_failures := rn_failures r\<rparr>))))"

text \<open>The integration review runs once, after the last round; with \<open>integration_blocking\<close> it adds its
  lines to the failures.\<close>

definition review_integration :: "'w phase3_env \<Rightarrow> 'w factory_run \<Rightarrow> 'w factory_run" where
  "review_integration ph s =
     (case ph_integration ph (sd_pipe (fr_sched s)) of
        (stop_lines, p) \<Rightarrow> s\<lparr>fr_sched := (fr_sched s)\<lparr>sd_pipe := p\<rparr>, fr_failures := fr_failures s @ stop_lines\<rparr>)"

partial_function (option) factory_rounds ::
    "(scope_error \<Rightarrow> string) \<Rightarrow> factory_settings \<Rightarrow> 'w factory_env \<Rightarrow> 'w phase3_env \<Rightarrow> 'w factory_run \<Rightarrow>
     'w factory_run option" where
  "factory_rounds scope_text fs fe ph s =
     (case factory_round scope_text fs fe ph s of
        None \<Rightarrow> None
      | Some (reset, s1) \<Rightarrow>
          (if reset then factory_rounds scope_text fs fe ph s1 else Some (review_integration ph s1)))"

section \<open>The end of a run\<close>

definition result_of_run :: "'w factory_run \<Rightarrow> factory_result" where
  "result_of_run s =
     (let p = sd_pipe (fr_sched s); cs = pipe_components p in
      \<lparr>fx_completed = pp_completed p, fx_failed = pp_failed p, fx_skipped = pp_skipped p,
       fx_merge_pending = ids_in_status cs MERGE_PENDING, fx_awaiting = ids_in_status cs AWAITING_APPROVAL,
       fx_pr_urls = pp_pr_urls p, fx_merged = pp_merged p, fx_contract_failures = fr_failures s,
       fx_scheduled = sd_scheduled (fr_sched s), fx_exit_code = 0\<rparr>)"

record release_settings =
  rs_enabled :: bool
  rs_environment :: string
  rs_policy :: bool
  rs_policy_deploy :: bool
  rs_ladder :: "bool option"

definition release_decision ::
    "release_settings \<Rightarrow> string \<Rightarrow> factory_result \<Rightarrow> component list \<Rightarrow> bool \<Rightarrow> string \<times> string" where
  "release_decision rs since r cs stopped =
     (let ref = release_ref_from cs since in
      (ref, release_withheld
         \<lparr>rl_enabled = rs_enabled rs, rl_environment = rs_environment rs, rl_clean = run_is_clean r cs stopped,
          rl_stopped = stopped, rl_ref = ref, rl_policy = rs_policy rs, rl_policy_deploy = rs_policy_deploy rs,
          rl_ladder = rs_ladder rs\<rparr>))"

text \<open>The last pull requests, the parked components, the release decision, the exit code and the
  terminal stamp on the manifest. The second component is the release decision. The event of the
  finished run, its printed summary, the journal row and the step of the autonomy ladder (which has its
  own theories) are left out.\<close>

definition finish_run ::
    "release_settings \<Rightarrow> 'w factory_env \<Rightarrow> 'w phase3_env \<Rightarrow> bool \<Rightarrow> string \<Rightarrow> 'w factory_run \<Rightarrow>
     (factory_result \<times> (string \<times> string)) \<times> 'w factory_run" where
  "finish_run rs fe ph create_prs since s =
     (let p = (if create_prs then ph_last_prs ph (sd_pipe (fr_sched s)) else sd_pipe (fr_sched s));
          s1 = s\<lparr>fr_sched := (fr_sched s)\<lparr>sd_pipe := p\<rparr>\<rparr>;
          r = result_of_run s1; cs = pipe_components p;
          stopped = (fe_stop fe (pp_world p) \<noteq> None);
          code = resolve_exit_code r cs stopped;
          m = (pp_manifest p)\<lparr>m_completed_at := pe_iso (fe_pipe fe) (pp_world p)\<rparr>
      in ((r\<lparr>fx_exit_code := code\<rparr>, release_decision rs since r cs stopped),
          s1\<lparr>fr_sched := (fr_sched s1)\<lparr>sd_pipe := save_pipe (p\<lparr>pp_manifest := m\<rparr>)\<rparr>\<rparr>))"

end
