(* ===== verification/Factory_Pass.thy ===== *)
theory Factory_Pass
  imports Factory Pipeline_Moves
begin

text \<open>
  What one turn of a scheduling pass does to the components. Every step of the scheduler is steady, or
  moves the one component it works on, so two facts follow a pass: the table of the running workers is
  sound (\<open>table_ok\<close>), and a weight made of the retries left, the pending components and the running
  workers goes down with each turn (\<open>work\<close>).
\<close>

section \<open>A component and what it waits for\<close>

definition pipe_ids :: "'w pipe \<Rightarrow> string list" where
  "pipe_ids p = map fst (plan_view p)"

definition deps_done :: "'w pipe \<Rightarrow> string \<Rightarrow> bool" where
  "deps_done p k =
     (\<forall>ds u. (k, ds) \<in> set (plan_view p) \<longrightarrow> u \<in> set ds \<longrightarrow> known u p \<and> status_at p u = COMPLETED)"

lemma known_ids: "known k p \<longleftrightarrow> k \<in> set (pipe_ids p)"
  by (simp add: known_def pipe_ids_def plan_view_def retry_view_def image_image)

lemma steady_plan: "steady cfg cid p q \<Longrightarrow> plan_view q = plan_view p"
  by (auto simp: steady_def intro: same_plan)

lemma moved_plan: "moved cfg cid p t q \<Longrightarrow> plan_view q = plan_view p"
  by (simp add: moved_def)

lemma others_status: "k \<noteq> cid \<Longrightarrow> others cid q k = others cid p k \<Longrightarrow> status_at q k = status_at p k \<and> known k q = known k p"
  by (simp add: others_def status_at_def the_component_def known_iff)

text \<open>What every step does: the plan stays, no retry is given back, and the other components are
  spared.\<close>

definition carries :: "'w pipe \<Rightarrow> 'w pipe \<Rightarrow> bool" where
  "carries p q = (plan_view q = plan_view p \<and> (\<forall>k. retries_at p k \<le> retries_at q k))"

definition touches :: "string \<Rightarrow> 'w pipe \<Rightarrow> 'w pipe \<Rightarrow> bool" where
  "touches cid p q = (carries p q \<and> spared cid (plan_view p) (others cid p) (others cid q))"

lemma carries_trans: "carries p q \<Longrightarrow> carries q r \<Longrightarrow> carries p r"
  by (auto simp: carries_def intro: order_trans)

lemma same_carries: "retry_view q = retry_view p \<Longrightarrow> carries p q"
  using same_plan [of q p] by (simp add: carries_def retries_at_def)

lemma carries_refl [simp]: "carries p p"
  by (simp add: carries_def)

lemma components_carry: "pipe_components q = pipe_components p \<Longrightarrow> carries p q"
  using same_components(1) [of q p] same_carries by blast

lemma carries_ids: "carries p q \<Longrightarrow> pipe_ids q = pipe_ids p"
  by (simp add: carries_def pipe_ids_def)

lemma touches_carries: "touches cid p q \<Longrightarrow> carries p q"
  by (simp add: touches_def)

lemma steady_touches: "steady cfg cid p q \<Longrightarrow> touches cid p q"
  using same_carries [of q p] by (simp add: touches_def steady_def spared_refl)

lemma moved_touches: "moved cfg cid p t q \<Longrightarrow> touches cid p q"
  by (simp add: touches_def carries_def moved_def)

lemma touches_plan: "touches cid p q \<Longrightarrow> plan_view q = plan_view p"
  by (simp add: touches_def carries_def)

lemma touches_ids: "touches cid p q \<Longrightarrow> pipe_ids q = pipe_ids p"
  by (simp add: touches_def carries_ids)

lemma touches_known: "touches cid p q \<Longrightarrow> known k q = known k p"
  by (simp add: known_ids touches_ids)

lemma deps_not_held_up:
  assumes "deps_done p k" and "status_at p cid \<noteq> COMPLETED"
  shows "\<not> held_up cid (plan_view p) (others cid p) k"
proof
  assume "held_up cid (plan_view p) (others cid p) k"
  then obtain ds u where u: "(k, ds) \<in> set (plan_view p)" "u \<in> set ds"
      and bad: "u = cid \<or> (\<exists>d. others cid p u = Some d \<and> c_status d \<noteq> COMPLETED)"
    by (auto simp: held_up_def)
  from assms(1) u have "status_at p u = COMPLETED" by (auto simp: deps_done_def)
  with bad assms(2) show False
    by (auto simp: others_def status_at_def the_component_def split: if_splits)
qed

text \<open>A component behind completed dependencies is not touched from outside, nor is a completed one.\<close>

lemma touches_apart:
  assumes "touches cid p q" and "k \<noteq> cid" and "deps_done p k" and "status_at p cid \<noteq> COMPLETED"
  shows "status_at q k = status_at p k"
proof -
  from assms(1) have "others cid q k = others cid p k"
    using deps_not_held_up [OF assms(3,4)] unfolding touches_def spared_def by blast
  with assms(2) show ?thesis using others_status [of k cid q p] by blast
qed

lemma touches_completed:
  assumes "touches cid p q" and "k \<noteq> cid" and "known k p" and "status_at p k = COMPLETED"
  shows "status_at q k = COMPLETED"
proof -
  from assms(2-4) have "\<not> (\<exists>c. others cid p k = Some c \<and> c_status c \<noteq> COMPLETED)"
    by (auto simp: others_def status_at_def the_component_def)
  with assms(1) have "others cid q k = others cid p k" unfolding touches_def spared_def by metis
  with assms(2,4) show ?thesis using others_status [of k cid q p] by simp
qed

lemma touches_deps:
  assumes "touches cid p q" and "deps_done p k" and "status_at p cid \<noteq> COMPLETED"
  shows "deps_done q k"
  unfolding deps_done_def
proof (intro allI impI)
  fix ds u
  assume u: "(k, ds) \<in> set (plan_view q)" "u \<in> set ds"
  then have "known u p \<and> status_at p u = COMPLETED"
    using assms(2) by (auto simp: deps_done_def touches_plan [OF assms(1)])
  moreover from this assms(3) have "u \<noteq> cid" by auto
  ultimately show "known u q \<and> status_at q u = COMPLETED"
    using touches_completed [OF assms(1)] touches_known [OF assms(1)] by blast
qed

text \<open>Nothing becomes pending from outside.\<close>

lemma touches_pending:
  assumes "touches cid p q" and "k \<noteq> cid" and "status_at q k = PENDING" and "known k p"
  shows "status_at p k = PENDING"
proof -
  have s: "c_status (skip_component now cid c) \<noteq> PENDING" for now c by (simp add: skip_component_def)
  from assms(2,4) obtain c where c: "others cid p k = Some c" by (auto simp: others_def known_iff)
  from assms(1) have "others cid q k = others cid p k \<or> (\<exists>c now. others cid q k = Some (skip_component now cid c))"
    unfolding touches_def spared_def by blast
  with assms(2,3) s others_status [of k cid q p] show ?thesis
    by (auto simp: others_def status_at_def the_component_def)
qed

section \<open>The work left\<close>

text \<open>A retry left may cost a turn for its failure and two for its new attempt; a pending component
  costs its launch and its result.\<close>

definition work_of :: "pipe_config \<Rightarrow> 'w pipe \<Rightarrow> string \<Rightarrow> nat" where
  "work_of cfg p k =
     3 * nat (pf_max_retries cfg - retries_at p k) + (if status_at p k = PENDING then 2 else 0)"

definition work :: "pipe_config \<Rightarrow> 'w pipe \<Rightarrow> nat" where
  "work cfg p = sum_list (map (work_of cfg p) (pipe_ids p))"

lemma sum_list_drop:
  fixes f g :: "'a \<Rightarrow> nat"
  assumes "\<And>x. x \<in> set xs \<Longrightarrow> g x \<le> f x" and "k \<in> set xs" and "g k + n \<le> f k"
  shows "sum_list (map g xs) + n \<le> sum_list (map f xs)"
  using assms
proof (induction xs)
  case Nil
  then show ?case by simp
next
  case (Cons x xs)
  have rest: "sum_list (map g xs) \<le> sum_list (map f xs)" by (rule sum_list_mono) (simp add: Cons.prems)
  show ?case
  proof (cases "k \<in> set xs")
    case True
    with Cons show ?thesis by (fastforce intro: add_mono)
  next
    case False
    with Cons.prems rest show ?thesis by auto
  qed
qed

lemma touches_work:
  assumes "touches cid p q" and "known cid p" and "\<And>k. k \<noteq> cid \<Longrightarrow> retries_at q k = retries_at p k"
    and "work_of cfg q cid + n \<le> work_of cfg p cid"
  shows "work cfg q + n \<le> work cfg p"
  unfolding work_def touches_ids [OF assms(1)]
proof (rule sum_list_drop)
  show "cid \<in> set (pipe_ids p)" using assms(2) by (simp add: known_ids)
  fix k
  assume "k \<in> set (pipe_ids p)"
  then show "work_of cfg q k \<le> work_of cfg p k"
    using touches_pending [OF assms(1), of k] assms(3) [of k] assms(4)
    by (cases "k = cid") (auto simp: work_of_def known_ids)
qed (rule assms(4))

lemma moved_work:
  assumes "moved cfg cid p t q" and "known cid p"
  shows "work cfg q + (if status_at p cid = PENDING then 2 else 0) \<le> work cfg p"
proof (rule touches_work [OF moved_touches [OF assms(1)] assms(2)])
  show "retries_at q k = retries_at p k" if "k \<noteq> cid" for k using assms(1) that by (simp add: moved_def)
  have r: "retries_at q cid = retries_at p cid + (if t = To_Retrying then 1 else 0)"
      "t = To_Retrying \<Longrightarrow> retries_at p cid < pf_max_retries cfg" "status_at q cid = status_after t"
    using assms(1) by (simp_all add: moved_def)
  show "work_of cfg q cid + (if status_at p cid = PENDING then 2 else 0) \<le> work_of cfg p cid"
    using r by (cases t) (auto simp: work_of_def)
qed

lemma begun_work:
  assumes "steady cfg cid p q" and "known cid p" and "status_at p cid = PENDING" and "status_at q cid \<noteq> PENDING"
  shows "work cfg q + 2 \<le> work cfg p"
proof (rule touches_work [OF steady_touches [OF assms(1)] assms(2)])
  have "retry_view q = retry_view p" using assms(1) by (simp add: steady_def)
  then show "retries_at q k = retries_at p k" for k by (simp add: retries_at_def)
  then show "work_of cfg q cid + 2 \<le> work_of cfg p cid" using assms(3,4) by (simp add: work_of_def)
qed

lemma same_work: "pipe_components q = pipe_components p \<Longrightarrow> work cfg q = work cfg p"
  by (simp add: work_def work_of_def [abs_def] pipe_ids_def plan_view_def retries_at_def retry_view_def
      same_status [of q p] cong: map_cong)

section \<open>Ready components\<close>

definition ready_now :: "'w pipe \<Rightarrow> string \<Rightarrow> bool" where
  "ready_now p k = (known k p \<and> status_at p k = PENDING \<and> deps_done p k)"

lemma found_in: "distinct (map c_id cs) \<Longrightarrow> c \<in> set cs \<Longrightarrow> get_component cs (c_id c) = Some c"
  by (induction cs) (auto simp: get_component_def)

lemma pipe_ids_are: "pipe_ids p = map c_id (pipe_components p)"
  by (simp add: pipe_ids_def plan_view_def)

lemma ready_components_ready:
  assumes "distinct (pipe_ids p)" and "k \<in> set (map c_id (get_ready_components (pipe_components p)))"
  shows "ready_now p k"
proof -
  note found = found_in [OF assms(1) [unfolded pipe_ids_are]]
  from assms(2) obtain c where c: "c \<in> set (pipe_components p)" "c_id c = k" "c_status c = PENDING"
      and deps: "\<forall>u\<in>set (c_dependencies c). u \<in> c_id ` {d \<in> set (pipe_components p). c_status d = COMPLETED}"
    by (auto simp: get_ready_components_def list_all_iff)
  have "known u p \<and> status_at p u = COMPLETED" if "u \<in> set (c_dependencies c)" for u
    using bspec [OF deps that] found by (auto simp: known_iff status_at_def the_component_def)
  moreover have "ds = c_dependencies c" if "(k, ds) \<in> set (plan_view p)" for ds
    using that found c by (auto simp: plan_view_def) (metis option.inject)
  ultimately show ?thesis
    using c found [of c] by (auto simp: ready_now_def known_iff status_at_def the_component_def deps_done_def)
qed

lemma ready_components_distinct:
  "distinct (pipe_ids p) \<Longrightarrow> distinct (map c_id (get_ready_components (pipe_components p)))"
  unfolding pipe_ids_are get_ready_components_def Let_def by (rule distinct_map_filter)

lemma touches_ready:
  "touches cid p q \<Longrightarrow> k \<noteq> cid \<Longrightarrow> ready_now p k \<Longrightarrow> status_at p cid \<noteq> COMPLETED \<Longrightarrow> ready_now q k"
  using touches_apart touches_deps touches_known by (fastforce simp: ready_now_def)

text \<open>
  The steps of a turn, one lemma each: a component that is refused or not launched has moved, one that
  is launched is running with its work unjudged, a completion and a deadline move their component. They
  give the invariant of the table of running workers and the descent of the work.
\<close>

section \<open>Launching\<close>

lemma refused_moves:
  assumes "known cid p" and "refused_before_launch scope_text fs env cid p = Some q"
  shows "\<exists>t. moved (fs_pipe fs) cid p t q"
proof -
  have "\<exists>t. moved cfg cid p t (snd (fail_component cfg env cid e ph ck s p))"
      "\<exists>t. moved cfg cid p t (snd (fail_for_budget cfg env cid ph r cd cl p))" for cfg env e ph ck s r cd cl
    using fail_moves [OF assms(1)] budget_moves [OF assms(1) surjective_pairing] by blast+
  with assms(2) show ?thesis
    by (auto simp: refused_before_launch_def Let_def simp del: append.simps split: if_splits option.splits)
qed

lemma world_steady: "steady cfg cid p (p\<lparr>pp_world := w\<rparr>)"
  by (rule steady_refl) (simp_all add: frame)

lemma bases_frame:
  "pipe_components (p\<lparr>pp_world := w, pp_bases := b\<rparr>) = pipe_components p"
  "pipe_components (p\<lparr>pp_bases := b\<rparr>) = pipe_components p"
  "pipe_components (p\<lparr>pp_knowledge := kn\<rparr>) = pipe_components p"
  "pipe_components (p\<lparr>pp_world := w, pp_worktrees := m\<rparr>) = pipe_components p"
  by (simp_all add: pipe_components_def)

lemma dependencies_frame:
  "pipe_components (snd (start_from_dependencies fe c path fresh p)) = pipe_components p"
  "pp_calls (snd (start_from_dependencies fe c path fresh p)) = pp_calls p"
  by (auto simp: start_from_dependencies_def Let_def frame bases_frame split: prod.split sum.split)

lemma provision_frame:
  "pipe_components (snd (provision fs fe c p)) = pipe_components p \<and> pp_calls (snd (provision fs fe c p)) = pp_calls p"
proof (cases "pf_use_worktrees (fs_pipe fs)")
  case False
  then show ?thesis by (simp add: provision_def frame)
next
  case True
  let ?fresh = "c_id c \<in> set (pp_fresh p)"
  let ?p1 = "p\<lparr>pp_fresh := removeAll (c_id c) (pp_fresh p)\<rparr>"
  show ?thesis
  proof (cases "if ?fresh then recut_point ?p1 c else Inr None")
    case (Inl e)
    with True show ?thesis by (simp add: provision_def Let_def frame)
  next
    case (Inr recut)
    obtain r w where r: "setup_worktree fe (c_id c) (c_branch_name c) (m_base_branch (pp_manifest ?p1)) ?fresh recut
        (pp_world ?p1) = (r, w)" by fastforce
    show ?thesis
    proof (cases r)
      case (Inl e)
      with True Inr r show ?thesis by (simp add: provision_def Let_def frame)
    next
      case (Inr path)
      let ?p2 = "?p1\<lparr>pp_world := w, pp_worktrees := dict_set (pp_worktrees ?p1) (c_id c) path\<rparr>"
      obtain e q where d: "start_from_dependencies fe c path ?fresh ?p2 = (e, q)" by fastforce
      then have q: "pipe_components q = pipe_components p \<and> pp_calls q = pp_calls p"
        using dependencies_frame [of fe c path ?fresh ?p2] by (simp add: frame bases_frame)
      from True \<open>(if ?fresh then recut_point ?p1 c else Inr None) = Inr recut\<close> r Inr d
      have "snd (provision fs fe c p) =
          (case e of Some x \<Rightarrow> q | None \<Rightarrow> q\<lparr>pp_worktrees := dict_set (pp_worktrees q) (c_id c) path\<rparr>)"
        by (cases e) (simp_all add: provision_def Let_def)
      with q show ?thesis by (cases e) (simp_all add: frame)
    qed
  qed
qed

lemma launch_steps:
  assumes "known cid p" and "launch_component fs fe cid p = (path, q)"
  shows "path = None \<and> (\<exists>t. moved (fs_pipe fs) cid p t q) \<or>
    path \<noteq> None \<and> steady (fs_pipe fs) cid p q \<and> status_at q cid = status_at p cid"
proof -
  obtain r p1 where r: "provision fs fe (the_component p cid) p = (r, p1)"
    by (cases "provision fs fe (the_component p cid) p")
  have f: "pipe_components p1 = pipe_components p" "pp_calls p1 = pp_calls p"
    using provision_frame [of fs fe "the_component p cid" p] by (simp_all add: r)
  have st: "steady (fs_pipe fs) cid p p1"
    by (rule steady_refl) (simp_all add: same_components(1,3) [OF f(1)] f(2))
  show ?thesis
  proof (cases r)
    case (Inl e)
    with assms(2) r have "path = None" "q = snd (fail_component (fs_pipe fs) (fe_pipe fe) cid e ''provisioning'' ''worktree_setup'' [] p1)"
      by (auto simp: launch_component_def)
    then show ?thesis using steady_moved [OF st fail_moves [OF steady_known [OF st assms(1)]]] by blast
  next
    case (Inr wt)
    with assms(2) r st same_status [OF f(1), of cid] show ?thesis by (auto simp: launch_component_def)
  qed
qed

lemma rejudge_moves:
  assumes "known cid p" and "rejudge_kept_head cfg env hk cid p = Some (o1, q)"
  shows "moves cfg cid p o1 q"
proof -
  let ?p1 = "update_component cid (\<lambda>c. c\<lparr>c_rejudge_sha := []\<rparr>) p"
  have s1: "steady cfg cid p ?p1" by (rule update_steady) simp
  note k1 = steady_known [OF s1 assms(1)]
  have s2: "steady cfg cid ?p1 (record_phase_skip cid ph r ?p1)" for ph r by (rule steady_refl) (simp_all add: frame)
  note fails = fail_moves [OF k1]
  note judged = steady_moves [OF s2 attempt_moves [OF steady_known [OF s2 k1]]]
  have "moves cfg cid ?p1 o1 q"
  proof (cases "(case hk_head hk cid (pp_world ?p1) of None \<Rightarrow> [] | Some s \<Rightarrow> s) \<noteq> c_rejudge_sha (the_component p cid)")
    case True
    then obtain e where "o1 = bare_outcome (fst (fail_component cfg env cid e ''provisioning'' ''worktree_setup'' [] ?p1))"
        "q = snd (fail_component cfg env cid e ''provisioning'' ''worktree_setup'' [] ?p1)"
      using assms(2) by (auto simp: rejudge_kept_head_def Let_def outcome_of_def)
    then show ?thesis using fail_moves [OF k1] by (simp add: bare_transition frame)
  next
    case False
    then show ?thesis using assms(2) judged by (auto simp: rejudge_kept_head_def Let_def)
  qed
  with s1 show ?thesis by (rule steady_moves)
qed

lemma engineer_worktree_steps:
  assumes "known cid p" and "engineer_worktree cfg env hk cid path p = Some (wt, q)"
  shows "q = p \<and> wt = path \<or> wt = None \<and> (\<exists>t. moved cfg cid p t q)"
  using assms(2) by (fastforce simp: engineer_worktree_def split: if_splits dest: rejudge_moves [OF assms(1)])

lemma begin_runs:
  fixes p :: "'w pipe"
  shows "known cid p \<Longrightarrow> status_at (begin_attempt env cid p) cid = RUNNING"
proof -
  have "status_at (q\<lparr>pp_signatures := a, pp_readings := b, pp_started := d\<rparr>) k = status_at q k" for q :: "'w pipe" and a b d k
    by (rule same_status) (simp add: pipe_components_def)
  then show "known cid p \<Longrightarrow> status_at (begin_attempt env cid p) cid = RUNNING"
    by (simp add: begin_attempt_def Let_def status_set)
qed

text \<open>A component of the fill: it has moved and stays out of the table, or it runs in it.\<close>

definition launched :: "factory_settings \<Rightarrow> string \<Rightarrow> 'w sched \<Rightarrow> 'w sched \<Rightarrow> bool" where
  "launched fs cid s t =
     (steady (fs_pipe fs) cid (sd_pipe s) (sd_pipe t) \<and> status_at (sd_pipe t) cid = RUNNING \<and>
      sd_running t = sd_running s @ [(sd_next s, cid)] \<and> sd_next t = Suc (sd_next s) \<and>
      (fs_backstop fs > 0 \<longrightarrow> (\<exists>d. sd_deadlines t = sd_deadlines s @ [(sd_next s, d)])) \<and>
      sd_scheduled t = sd_scheduled s @ [cid])"

definition settled_early :: "factory_settings \<Rightarrow> string \<Rightarrow> 'w sched \<Rightarrow> 'w sched \<Rightarrow> bool" where
  "settled_early fs cid s t =
     (\<exists>p x. t = s\<lparr>sd_pipe := p\<rparr> \<and> moved (fs_pipe fs) cid (sd_pipe s) x p)"

lemma submit_launched:
  assumes "steady (fs_pipe fs) cid (sd_pipe s) p" and "status_at p cid = RUNNING"
  shows "launched fs cid s (submit_component fs fe cid wt (s\<lparr>sd_pipe := p\<rparr>))"
proof -
  let ?t = "submit_component fs fe cid wt (s\<lparr>sd_pipe := p\<rparr>)"
  have c: "pipe_components (sd_pipe ?t) = pipe_components p"
    by (simp add: submit_component_def Let_def frame bases_frame record_injected_knowledge_def split: prod.split)
  have "pp_calls (sd_pipe ?t) = pp_calls p"
    by (simp add: submit_component_def Let_def frame record_injected_knowledge_def split: prod.split)
  then have "steady (fs_pipe fs) cid p (sd_pipe ?t)"
    by (intro steady_refl) (simp_all add: same_components(1,3) [OF c])
  with assms(1) have "steady (fs_pipe fs) cid (sd_pipe s) (sd_pipe ?t)" by (rule steady_trans)
  moreover have "sd_running ?t = sd_running s @ [(sd_next s, cid)]" "sd_next ?t = Suc (sd_next s)"
      "sd_scheduled ?t = sd_scheduled s @ [cid]"
      "fs_backstop fs > 0 \<Longrightarrow> \<exists>d. sd_deadlines ?t = sd_deadlines s @ [(sd_next s, d)]"
    by (simp_all add: submit_component_def Let_def split: prod.split)
  ultimately show ?thesis using assms(2) by (simp add: launched_def same_status [OF c])
qed

lemma fill_one_steps:
  assumes k: "known cid (sd_pipe s)" and f: "fill_one scope_text fs fe cid s = Some (b, t)"
  shows "if b then settled_early fs cid s t else launched fs cid s t"
proof (cases "refused_before_launch scope_text fs (fe_pipe fe) cid (sd_pipe s)")
  case (Some p)
  with f refused_moves [OF k Some] show ?thesis by (auto simp: fill_one_def settled_early_def)
next
  case None
  let ?p1 = "emit (Component_Started cid) (save_pipe (begin_attempt (fe_pipe fe) cid (sd_pipe s)))"
  have s1: "steady (fs_pipe fs) cid (sd_pipe s) ?p1"
    by (rule steady_trans [OF begin_steady], rule steady_refl) (simp_all add: frame)
  note k1 = steady_known [OF s1 k]
  have r1: "status_at ?p1 cid = RUNNING" by (simp add: frame begin_runs [OF k])
  obtain path p2 where l: "launch_component fs fe cid ?p1 = (path, p2)" by fastforce
  with f None obtain wt p3 where
    w: "engineer_worktree (fs_pipe fs) (fe_pipe fe) (fe_hooks fe) cid path p2 = Some (wt, p3)" and
    t: "(b, t) = (case wt of None \<Rightarrow> (True, s\<lparr>sd_pipe := p3\<rparr>)
      | Some x \<Rightarrow> (False, submit_component fs fe cid x (s\<lparr>sd_pipe := p3\<rparr>)))"
    by (auto simp: fill_one_def Let_def split: option.splits)
  note early = steady_moved [OF s1]
  show ?thesis
  proof (cases path)
    case None
    then have "wt = None" "p3 = p2" using w by (simp_all add: engineer_worktree_def)
    moreover obtain x where "moved (fs_pipe fs) cid ?p1 x p2"
      using launch_steps [OF k1 l] None by blast
    ultimately show ?thesis using t early by (auto simp: settled_early_def)
  next
    case (Some y)
    then have s2: "steady (fs_pipe fs) cid ?p1 p2" "status_at p2 cid = RUNNING"
      using launch_steps [OF k1 l] r1 by auto
    note s = steady_trans [OF s1 s2(1)]
    from engineer_worktree_steps [OF steady_known [OF s2(1) k1] w] show ?thesis
    proof
      assume "p3 = p2 \<and> wt = path"
      with Some t submit_launched [OF s s2(2)] show ?thesis by auto
    next
      assume "wt = None \<and> (\<exists>x. moved (fs_pipe fs) cid p2 x p3)"
      with t steady_moved [OF s] show ?thesis by (auto simp: settled_early_def)
    qed
  qed
qed

section \<open>The table of the running workers\<close>

definition table_ok :: "'w sched \<Rightarrow> bool" where
  "table_ok s =
     (distinct (pipe_ids (sd_pipe s)) \<and> distinct (map fst (sd_running s)) \<and> distinct (map snd (sd_running s)) \<and>
      (\<forall>f\<in>fst ` set (sd_running s). f < sd_next s) \<and>
      (\<forall>k\<in>snd ` set (sd_running s). known k (sd_pipe s) \<and> status_at (sd_pipe s) k = RUNNING \<and> deps_done (sd_pipe s) k))"

lemma table_other:
  assumes "table_ok s" and "touches cid (sd_pipe s) p" and "status_at (sd_pipe s) cid \<noteq> COMPLETED"
    and "set r \<subseteq> set (sd_running s)" and "distinct (map fst r)" and "distinct (map snd r)" and "cid \<notin> snd ` set r"
  shows "table_ok (s\<lparr>sd_pipe := p, sd_running := r\<rparr>)"
proof -
  have "known k p \<and> status_at p k = RUNNING \<and> deps_done p k" if "k \<in> snd ` set r" for k
  proof -
    from that assms(4,7) have "k \<noteq> cid" "k \<in> snd ` set (sd_running s)" by auto
    with assms(1) touches_apart [OF assms(2), of k] touches_deps [OF assms(2), of k] touches_known [OF assms(2), of k]
      assms(3) show ?thesis by (auto simp: table_ok_def)
  qed
  then show ?thesis
    using assms(1,4-6) touches_ids [OF assms(2)] by (auto simp: table_ok_def)
qed

lemma ready_not_running: "table_ok s \<Longrightarrow> ready_now (sd_pipe s) k \<Longrightarrow> k \<notin> snd ` set (sd_running s)"
  by (auto simp: table_ok_def ready_now_def)

lemma early_table:
  assumes "table_ok s" and "ready_now (sd_pipe s) cid" and "settled_early fs cid s t"
  shows "table_ok t"
proof -
  from assms(3) obtain p x where t: "t = s\<lparr>sd_pipe := p\<rparr>" and m: "moved (fs_pipe fs) cid (sd_pipe s) x p"
    by (auto simp: settled_early_def)
  have "table_ok (s\<lparr>sd_pipe := p, sd_running := sd_running s\<rparr>)"
    using assms(1,2) ready_not_running [OF assms(1,2)]
    by (intro table_other [OF assms(1) moved_touches [OF m]]) (simp_all add: table_ok_def ready_now_def)
  then show ?thesis by (simp add: t)
qed

lemma launched_table:
  assumes "table_ok s" and "ready_now (sd_pipe s) cid" and "launched fs cid s t"
  shows "table_ok t"
proof -
  note l = assms(3) [unfolded launched_def]
  have ready: "known cid (sd_pipe s)" "status_at (sd_pipe s) cid \<noteq> COMPLETED" "deps_done (sd_pipe s) cid"
    using assms(2) by (simp_all add: ready_now_def)
  note tch = steady_touches [OF conjunct1 [OF l]]
  have "table_ok (s\<lparr>sd_pipe := sd_pipe t, sd_running := sd_running s\<rparr>)"
    using assms(1) ready ready_not_running [OF assms(1,2)]
    by (intro table_other [OF assms(1) tch]) (simp_all add: table_ok_def)
  moreover have "known cid (sd_pipe t)" "deps_done (sd_pipe t) cid"
    using touches_known [OF tch] touches_deps [OF tch] ready by simp_all
  ultimately show ?thesis
    using l ready_not_running [OF assms(1,2)] assms(1) by (fastforce simp: table_ok_def)
qed

text \<open>With a backstop, every running worker has a deadline.\<close>

definition deadlined :: "factory_settings \<Rightarrow> 'w sched \<Rightarrow> bool" where
  "deadlined fs s = (fs_backstop fs > 0 \<longrightarrow> (\<forall>f k. (f, k) \<in> set (sd_running s) \<longrightarrow> (\<exists>d. (f, d) \<in> set (sd_deadlines s))))"

lemma launched_deadlined: "deadlined fs s \<Longrightarrow> launched fs cid s t \<Longrightarrow> deadlined fs t"
  by (fastforce simp: deadlined_def launched_def)

lemma early_deadlined: "deadlined fs s \<Longrightarrow> settled_early fs cid s t \<Longrightarrow> deadlined fs t"
  by (fastforce simp: deadlined_def settled_early_def)

lemma drop_deadlined: "deadlined fs s \<Longrightarrow> deadlined fs (drop_future f s)"
  by (auto simp: deadlined_def drop_future_def)

section \<open>Filling the slots\<close>

lemma fill_slots_steps:
  assumes "table_ok s" and "distinct cids" and "\<And>k. k \<in> set cids \<Longrightarrow> ready_now (sd_pipe s) k"
    and "fill_slots scope_text fs fe cids s = Some (n, t)"
  shows "table_ok t \<and> carries (sd_pipe s) (sd_pipe t) \<and> (deadlined fs s \<longrightarrow> deadlined fs t) \<and>
    length (sd_running t) + n = length (sd_running s) + length cids \<and>
    work (fs_pipe fs) (sd_pipe t) + 2 * length cids \<le> work (fs_pipe fs) (sd_pipe s)"
  using assms
proof (induction cids arbitrary: s n)
  case Nil
  then show ?case by simp
next
  case (Cons cid cids)
  from Cons.prems(4) obtain b s1 m where one: "fill_one scope_text fs fe cid s = Some (b, s1)"
      and rest: "fill_slots scope_text fs fe cids s1 = Some (m, t)" and n: "n = (if b then Suc m else m)"
    by (auto split: option.splits)
  have ready: "ready_now (sd_pipe s) cid" using Cons.prems(3) by simp
  then have k: "known cid (sd_pipe s)" "status_at (sd_pipe s) cid = PENDING" by (simp_all add: ready_now_def)
  note step = fill_one_steps [OF k(1) one]
  have moved_on: "table_ok s1 \<and> (deadlined fs s \<longrightarrow> deadlined fs s1) \<and> touches cid (sd_pipe s) (sd_pipe s1) \<and>
      work (fs_pipe fs) (sd_pipe s1) + 2 \<le> work (fs_pipe fs) (sd_pipe s) \<and>
      length (sd_running s1) = (if b then length (sd_running s) else Suc (length (sd_running s)))"
  proof (cases b)
    case True
    with step have e: "settled_early fs cid s s1" by simp
    then obtain p x where "s1 = s\<lparr>sd_pipe := p\<rparr>" and m: "moved (fs_pipe fs) cid (sd_pipe s) x p"
      by (auto simp: settled_early_def)
    with moved_touches [OF m] moved_work [OF m k(1)] k(2) early_table [OF Cons.prems(1) ready e] early_deadlined [OF _ e] True
    show ?thesis by simp
  next
    case False
    with step have l: "launched fs cid s s1" by simp
    with steady_touches begun_work [OF _ k] launched_table [OF Cons.prems(1) ready l] launched_deadlined [OF _ l] False
    show ?thesis by (auto simp: launched_def)
  qed
  have "ready_now (sd_pipe s1) j" if "j \<in> set cids" for j
    using that Cons.prems(2,3) touches_ready [of cid "sd_pipe s" "sd_pipe s1" j] moved_on k(2) by auto
  from Cons.IH [OF _ _ this rest] moved_on Cons.prems(2) n carries_trans [OF touches_carries, of cid "sd_pipe s" "sd_pipe s1"]
  show ?case by auto
qed

section \<open>Results and deadlines\<close>

lemma process_touches:
  assumes "process_result cfg env hk cid r p = Some (o1, q)"
  shows "touches cid p q \<and> work cfg q \<le> work cfg p"
proof (cases "known cid p")
  case True
  then obtain o2 where "o1 = Some o2"
    using assms by (auto simp: process_result_def known_iff Let_def outcome_of_def split: if_splits option.splits)
  with process_moves [of cfg env hk cid r p o2 q] assms moved_touches moved_work [OF _ True]
  show ?thesis by (metis le_add1 le_trans)
next
  case False
  with assms have "q = p" by (auto simp: process_result_def known_iff)
  then show ?thesis by (simp add: touches_def spared_refl)
qed

lemma backstop_moves:
  assumes "known cid p"
  shows "moved cfg cid p To_Failed (fail_scheduler_backstop cfg env cid seconds p)"
proof -
  obtain c where c: "get_component (pipe_components p) cid = Some c" using assms by (auto simp: known_iff)
  have "status_at (backstop_component cfg env cid p) cid = FAILED"
    by (simp add: backstop_component_def Let_def frame mark_failed_status [OF assms] status_update split: option.splits)
  moreover note backstop_ends [of cid p cfg env]
  ultimately show ?thesis
    by (intro moved_frame) (simp_all add: fail_scheduler_backstop_def c ended_def frame save_saves)
qed

lemma expired_touches: "touches cid p (fail_scheduler_backstop cfg env cid seconds p) \<and>
    work cfg (fail_scheduler_backstop cfg env cid seconds p) \<le> work cfg p"
proof (cases "known cid p")
  case True
  from backstop_moves [OF this] moved_touches moved_work [OF _ True] show ?thesis by (metis le_add1 le_trans)
next
  case False
  then have "pipe_components (fail_scheduler_backstop cfg env cid seconds p) = pipe_components p"
    by (simp add: fail_scheduler_backstop_def known_iff frame)
  note same = same_components(3) [OF this, of cid] components_carry [OF this] same_work [OF this]
  show ?thesis by (simp add: same touches_def spared_refl)
qed

text \<open>A future leaves the table.\<close>

definition without :: "nat \<Rightarrow> (nat \<times> string) list \<Rightarrow> (nat \<times> string) list" where
  "without f r = filter (\<lambda>(g, k). g \<noteq> f) r"

lemma without_table:
  assumes "table_ok s" and "(f, cid) \<in> set (sd_running s)" and "touches cid (sd_pipe s) p"
  shows "table_ok (s\<lparr>sd_pipe := p, sd_running := without f (sd_running s)\<rparr>) \<and>
    length (without f (sd_running s)) < length (sd_running s)"
proof -
  have d: "distinct (map fst (sd_running s))" "distinct (map snd (sd_running s))"
      "status_at (sd_pipe s) cid = RUNNING"
    using assms(1,2) by (auto simp: table_ok_def)
  have "cid \<notin> snd ` set (without f (sd_running s))"
    using d(2) assms(2) by (fastforce simp: without_def distinct_map inj_on_def)
  moreover have "length (without f (sd_running s)) < length (sd_running s)"
    unfolding without_def by (rule length_filter_less [OF assms(2)]) simp
  ultimately show ?thesis
    using d by (auto simp: without_def distinct_map_filter intro!: table_other [OF assms(1,3)])
qed

lemma drop_running: "sd_running (drop_future f s) = without f (sd_running s)" "sd_pipe (drop_future f s) = sd_pipe s"
  by (simp_all add: drop_future_def without_def)

text \<open>Only the pipe and the running workers are read by \<open>table_ok\<close> (and the next future).\<close>

lemma table_cong:
  "sd_pipe s = sd_pipe t \<Longrightarrow> sd_running s = sd_running t \<Longrightarrow> sd_next s = sd_next t \<Longrightarrow> table_ok s = table_ok t"
  by (simp add: table_ok_def)

definition all_work :: "factory_settings \<Rightarrow> 'w sched \<Rightarrow> nat" where
  "all_work fs s = work (fs_pipe fs) (sd_pipe s) + length (sd_running s)"

lemma collect_steps:
  assumes "table_ok s" and "finished \<noteq> []" and "set finished \<subseteq> fst ` set (sd_running s)"
    and "collect_completion fs fe finished s = Some t"
  shows "table_ok t \<and> carries (sd_pipe s) (sd_pipe t) \<and> (deadlined fs s \<longrightarrow> deadlined fs t) \<and>
    all_work fs t < all_work fs s"
proof -
  let ?f = "hd finished"
  from assms(2,3) obtain cid where r: "(?f, cid) \<in> set (sd_running s)"
    by (cases finished) auto
  then have "map_of (sd_running s) ?f = Some cid" using assms(1) by (simp add: table_ok_def)
  with assms(4) obtain o1 p where p: "process_result (fs_pipe fs) (fe_pipe fe) (fe_hooks fe) cid
        (future_result (fe_future fe ?f (sched_world (drop_future ?f s)))) (sd_pipe s) = Some (o1, p)"
      and t: "t = (drop_future ?f s)\<lparr>sd_pipe := p\<rparr>"
    by (auto simp: collect_completion_def Let_def drop_running)
  note q = process_touches [OF p]
  note w = without_table [OF assms(1) r conjunct1 [OF q]]
  have "table_ok t = table_ok (s\<lparr>sd_pipe := p, sd_running := without ?f (sd_running s)\<rparr>)"
    by (rule table_cong) (simp_all add: t drop_running, simp add: drop_future_def)
  moreover have "deadlined fs t = deadlined fs (drop_future ?f s)" by (simp add: deadlined_def t)
  ultimately show ?thesis
    using w q touches_carries [OF conjunct1 [OF q]] drop_deadlined [of fs s ?f]
    by (simp add: all_work_def t drop_running)
qed

lemma expired_one:
  assumes "table_ok s" and "x \<in> set (sd_running s)"
  shows "table_ok (fail_one_expired fs fe s x) \<and> all_work fs (fail_one_expired fs fe s x) < all_work fs s \<and>
    carries (sd_pipe s) (sd_pipe (fail_one_expired fs fe s x)) \<and>
    (deadlined fs s \<longrightarrow> deadlined fs (fail_one_expired fs fe s x)) \<and>
    sd_running (fail_one_expired fs fe s x) = without (fst x) (sd_running s)"
proof -
  obtain f cid where x: "x = (f, cid)" by force
  let ?p = "fail_scheduler_backstop (fs_pipe fs) (fe_pipe fe) cid (fs_backstop fs) (sd_pipe s)"
  have q: "touches cid (sd_pipe s) ?p \<and> work (fs_pipe fs) ?p \<le> work (fs_pipe fs) (sd_pipe s)"
    by (rule expired_touches)
  note w = without_table [OF assms(1) assms(2) [unfolded x] conjunct1 [OF q]]
  have t: "sd_pipe (fail_one_expired fs fe s x) = ?p" "sd_running (fail_one_expired fs fe s x) = without f (sd_running s)"
      "sd_next (fail_one_expired fs fe s x) = sd_next s"
    by (simp_all add: fail_one_expired_def x drop_running Let_def, simp add: drop_future_def)
  have "table_ok (fail_one_expired fs fe s x) = table_ok (s\<lparr>sd_pipe := ?p, sd_running := without f (sd_running s)\<rparr>)"
    by (rule table_cong) (simp_all add: t)
  moreover have "deadlined fs (fail_one_expired fs fe s x) = deadlined fs (drop_future f s)"
    by (simp add: deadlined_def fail_one_expired_def x Let_def)
  ultimately show ?thesis
    using w q touches_carries [OF conjunct1 [OF q]] drop_deadlined [of fs s f] unfolding all_work_def t by (simp add: x)
qed

lemma expired_fold:
  assumes "table_ok s" and "distinct (map fst xs)" and "set xs \<subseteq> set (sd_running s)"
  shows "table_ok (foldl (fail_one_expired fs fe) s xs) \<and>
    carries (sd_pipe s) (sd_pipe (foldl (fail_one_expired fs fe) s xs)) \<and>
    (deadlined fs s \<longrightarrow> deadlined fs (foldl (fail_one_expired fs fe) s xs)) \<and>
    all_work fs (foldl (fail_one_expired fs fe) s xs) + length xs \<le> all_work fs s"
  using assms
proof (induction xs arbitrary: s)
  case Nil
  then show ?case by simp
next
  case (Cons x xs)
  have one: "table_ok (fail_one_expired fs fe s x) \<and> all_work fs (fail_one_expired fs fe s x) < all_work fs s \<and>
      carries (sd_pipe s) (sd_pipe (fail_one_expired fs fe s x)) \<and>
      (deadlined fs s \<longrightarrow> deadlined fs (fail_one_expired fs fe s x)) \<and>
      sd_running (fail_one_expired fs fe s x) = without (fst x) (sd_running s)"
    using Cons.prems by (intro expired_one) auto
  moreover have "fst y \<noteq> fst x" if "y \<in> set xs" for y
    using Cons.prems(2) that by (metis distinct.simps(2) image_eqI list.simps(9) set_map)
  then have "set xs \<subseteq> set (without (fst x) (sd_running s))"
    using Cons.prems(3) by (auto simp: without_def case_prod_unfold)
  ultimately have "table_ok (foldl (fail_one_expired fs fe) (fail_one_expired fs fe s x) xs) \<and>
      carries (sd_pipe (fail_one_expired fs fe s x)) (sd_pipe (foldl (fail_one_expired fs fe) (fail_one_expired fs fe s x) xs)) \<and>
      (deadlined fs (fail_one_expired fs fe s x) \<longrightarrow>
        deadlined fs (foldl (fail_one_expired fs fe) (fail_one_expired fs fe s x) xs)) \<and>
      all_work fs (foldl (fail_one_expired fs fe) (fail_one_expired fs fe s x) xs) + length xs
      \<le> all_work fs (fail_one_expired fs fe s x)"
    using Cons.prems(2) by (intro Cons.IH) simp_all
  with one carries_trans show ?case by (fastforce simp del: carries_refl)
qed

lemma fail_expired_steps:
  fixes s :: "'w sched"
  assumes "table_ok s"
  shows "table_ok (fail_expired fs fe s) \<and> carries (sd_pipe s) (sd_pipe (fail_expired fs fe s)) \<and>
    (deadlined fs s \<longrightarrow> deadlined fs (fail_expired fs fe s)) \<and> all_work fs (fail_expired fs fe s) +
    length (expired_futures fe (sd_running s) (sd_deadlines s) (gx_clock (pe_gh (fe_pipe fe)) (sched_world s)) (sched_world s))
    \<le> all_work fs s"
  unfolding fail_expired_def
  by (rule expired_fold [OF assms])
    (use assms in \<open>auto simp: table_ok_def expired_futures_def distinct_map_filter\<close>)

end
