(* ===== verification/Factory_Ends.thy ===== *)
theory Factory_Ends
  imports Factory_Pass Merge_Contract
begin

text \<open>
  The turns of a pass and the rounds of a run. What is assumed of \<open>concurrent.futures.wait\<close> is
  \<open>waits_well\<close>: it returns futures it was given, and it returns none only once its time is up on the
  monotonic clock with none of them finished.
\<close>

section \<open>Waiting\<close>

abbreviation fe_clock :: "'w factory_env \<Rightarrow> 'w \<Rightarrow> rat" where
  "fe_clock fe \<equiv> gx_clock (pe_gh (fe_pipe fe))"

definition timed_out :: "'w factory_env \<Rightarrow> nat list \<Rightarrow> rat option \<Rightarrow> 'w \<Rightarrow> 'w \<Rightarrow> bool" where
  "timed_out fe fs limit w v =
     (\<exists>d. limit = Some d \<and> fe_clock fe w + d \<le> fe_clock fe v \<and> (\<forall>f\<in>set fs. fe_future fe f v = Future_Open))"

definition waits_well :: "'w factory_env \<Rightarrow> bool" where
  "waits_well fe =
     (\<forall>fs limit w finished v. fs \<noteq> [] \<longrightarrow> fe_wait fe fs limit w = (finished, v) \<longrightarrow>
        set finished \<subseteq> set fs \<and> (finished = [] \<longrightarrow> timed_out fe fs limit w v))"

lemma waits_wellD:
  assumes "waits_well fe" and "fs \<noteq> []" and "fe_wait fe fs limit w = (finished, v)"
  shows "set finished \<subseteq> set fs" and "finished = [] \<Longrightarrow> timed_out fe fs limit w v"
  using assms unfolding waits_well_def by blast+

text \<open>The sliced wait keeps the contract, against its absolute deadline.\<close>

lemma wait_slices_well:
  assumes "wait_slices fe fs deadline w = Some ((finished, stopped), v)" and "waits_well fe" and "fs \<noteq> []"
  shows "set finished \<subseteq> set fs \<and> (stopped \<longrightarrow> (\<exists>u. fe_stop fe u \<noteq> None)) \<and>
    (\<not> stopped \<and> finished = [] \<longrightarrow>
      (\<exists>d. deadline = Some d \<and> d \<le> fe_clock fe v \<and> (\<forall>f\<in>set fs. fe_future fe f v = Future_Open)))"
  using assms
proof (induction "((finished, stopped), v)" rule: wait_slices.raw_induct [rotated 1, consumes 1])
  case (1 self fe fs deadline w)
  show ?case
  proof (cases "fe_stop fe w = None")
    case False
    with 1(2) show ?thesis by auto
  next
    case True
    let ?remaining = "map_option (\<lambda>d. max 0 (d - fe_clock fe w)) deadline"
    let ?slice = "case ?remaining of None \<Rightarrow> slice_seconds | Some r \<Rightarrow> min slice_seconds r"
    obtain g u where g: "fe_wait fe fs (Some ?slice) w = (g, u)" by fastforce
    note well = waits_wellD [OF 1(3,4) g]
    show ?thesis
    proof (cases "g = []")
      case False
      with True 1(2) g have "finished = g" "\<not> stopped" by (simp_all add: Let_def)
      with well False show ?thesis by auto
    next
      case empty: True
      show ?thesis
      proof (cases "case ?remaining of None \<Rightarrow> False | Some r \<Rightarrow> r \<le> slice_seconds")
        case False
        with True empty 1(2) g have "self fe fs deadline u = Some ((finished, stopped), v)" by (simp add: Let_def)
        from 1(1) [OF this 1(3,4)] show ?thesis .
      next
        case over: True
        with True empty 1(2) g have r: "finished = []" "\<not> stopped" "v = u" by (simp_all add: Let_def)
        from over obtain d where d: "deadline = Some d" "max 0 (d - fe_clock fe w) \<le> slice_seconds"
          by (cases deadline) auto
        with well(2) [OF empty] have "fe_clock fe w + max 0 (d - fe_clock fe w) \<le> fe_clock fe u"
            "\<forall>f\<in>set fs. fe_future fe f u = Future_Open"
          by (auto simp: timed_out_def min_def split: if_splits)
        moreover have "d \<le> fe_clock fe w + max 0 (d - fe_clock fe w)" by (simp add: max_def)
        ultimately show ?thesis using r d(1) by auto
      qed
    qed
  qed
qed

lemma wait_interruptible_well:
  assumes "wait_interruptible fe fs limit w = Some ((finished, stopped), v)" and "waits_well fe" and "fs \<noteq> []"
  shows "set finished \<subseteq> set fs \<and> (stopped \<longrightarrow> (\<exists>u. fe_stop fe u \<noteq> None)) \<and>
    (\<not> stopped \<and> finished = [] \<longrightarrow> timed_out fe fs limit w v)"
proof (cases "fe_stop_slices fe")
  case False
  with assms(1) obtain "fe_wait fe fs limit w = (finished, v)" "\<not> stopped"
    by (auto simp: wait_interruptible_def split: prod.splits)
  with waits_wellD [OF assms(2,3)] show ?thesis by blast
next
  case True
  with assms(1) have "wait_slices fe fs (map_option (\<lambda>t. fe_clock fe w + t) limit) w = Some ((finished, stopped), v)"
    by (simp add: wait_interruptible_def)
  from wait_slices_well [OF this assms(2,3)] show ?thesis
    by (auto simp: timed_out_def)
qed

lemma foldl_min_in: "foldl min (d :: 'a :: linorder) ds \<in> set (d # ds)"
proof (induction ds arbitrary: d)
  case (Cons a ds)
  from Cons.IH [of "min d a"] show ?case by (auto simp: min_def split: if_splits)
qed simp

text \<open>A wait over the table that returns nothing has passed a deadline.\<close>

lemma backstop_expires:
  assumes "timed_out fe (map fst running) (next_backstop_wait running deadlines (fe_clock fe w)) w v"
  shows "expired_futures fe running deadlines (fe_clock fe v) v \<noteq> []"
proof -
  let ?ds = "somes (map (\<lambda>(f, cid). map_of deadlines f) running)"
  from assms obtain d where d: "next_backstop_wait running deadlines (fe_clock fe w) = Some d"
      "fe_clock fe w + d \<le> fe_clock fe v" and fopen: "\<forall>f\<in>fst ` set running. fe_future fe f v = Future_Open"
    by (auto simp: timed_out_def)
  then obtain x xs where ds: "?ds = x # xs" "d = max 0 (foldl min x xs - fe_clock fe w)"
    by (auto simp: next_backstop_wait_def split: list.splits)
  have "foldl min x xs \<in> set ?ds" using foldl_min_in [of x xs] by (simp add: ds)
  then obtain f cid where f: "(f, cid) \<in> set running" "map_of deadlines f = Some (foldl min x xs)"
    by (auto simp: somes_def split: option.splits)
  moreover have "foldl min x xs \<le> fe_clock fe v" using d(2) by (simp add: ds max_def split: if_splits)
  ultimately have "(f, cid) \<in> set (expired_futures fe running deadlines (fe_clock fe v) v)"
    using fopen by (auto simp: expired_futures_def is_done_def)
  then show ?thesis by auto
qed

section \<open>One turn\<close>

lemma world_frame [simp]:
  "sd_running (with_world w s) = sd_running s" "sd_next (with_world w s) = sd_next s"
  "sd_deadlines (with_world w s) = sd_deadlines s" "pipe_components (sd_pipe (with_world w s)) = pipe_components (sd_pipe s)"
  "sched_world (with_world w s) = w" "sd_scheduled (with_world w s) = sd_scheduled s"
  by (simp_all add: with_world_def sched_world_def frame)

lemma same_table:
  assumes "pipe_components (sd_pipe t) = pipe_components (sd_pipe s)" and "sd_running t = sd_running s"
    and "sd_next t = sd_next s"
  shows "table_ok t = table_ok s" and "all_work fs t = all_work fs s" and "carries (sd_pipe s) (sd_pipe t)"
proof -
  note v = same_components(1) [OF assms(1)]
  show "table_ok t = table_ok s"
    using assms known_same [OF v] same_status [OF assms(1)] same_plan [OF v]
    by (simp add: table_ok_def pipe_ids_def deps_done_def)
  show "all_work fs t = all_work fs s" by (simp add: all_work_def same_work [OF assms(1)] assms(2))
  show "carries (sd_pipe s) (sd_pipe t)" by (rule components_carry [OF assms(1)])
qed

lemma ready_ids_ready:
  assumes "table_ok s"
  shows "distinct (take n (ready_ids s))" and "k \<in> set (take n (ready_ids s)) \<Longrightarrow> ready_now (sd_pipe s) k"
proof -
  have d: "distinct (pipe_ids (sd_pipe s))" using assms by (simp add: table_ok_def)
  show "distinct (take n (ready_ids s))"
    using ready_components_distinct [OF d] by (simp add: ready_ids_def)
  show "ready_now (sd_pipe s) k" if "k \<in> set (take n (ready_ids s))"
    using ready_components_ready [OF d] in_set_takeD [OF that] by (simp add: ready_ids_def)
qed

text \<open>The slots filled: the table is sound and fits, and the work has gone down for each component
  that was taken.\<close>

lemma filled:
  assumes "table_ok s" and "fill_slots scope_text fs fe (take (free_slots fs s) (ready_ids s)) s = Some (n, t)"
  shows "table_ok t" and "carries (sd_pipe s) (sd_pipe t)" and "deadlined fs s \<Longrightarrow> deadlined fs t"
    and "length (sd_running t) + n = length (sd_running s) + length (take (free_slots fs s) (ready_ids s))"
    and "all_work fs t + n \<le> all_work fs s"
    and "length (sd_running s) \<le> slots_cap fs \<Longrightarrow> length (sd_running t) \<le> slots_cap fs"
proof -
  note ready = ready_ids_ready [OF assms(1), where n = "free_slots fs s"]
  note f = fill_slots_steps [OF assms(1) ready assms(2)]
  show "table_ok t" "carries (sd_pipe s) (sd_pipe t)" "deadlined fs s \<Longrightarrow> deadlined fs t"
    and len: "length (sd_running t) + n = length (sd_running s) + length (take (free_slots fs s) (ready_ids s))"
    using f by simp_all
  show "all_work fs t + n \<le> all_work fs s" using f by (simp add: all_work_def)
  show "length (sd_running t) \<le> slots_cap fs" if "length (sd_running s) \<le> slots_cap fs"
    using len that by (auto simp: free_slots_def min_def split: if_splits)
qed

lemma after_wait_steps:
  fixes s :: "'w sched"
  assumes "table_ok s" and "sd_running s \<noteq> []" and "waits_well fe"
    and "await_next fs fe s = Some r" and "after_wait fs fe r = Some (Pass_On t)"
  shows "table_ok t \<and> carries (sd_pipe s) (sd_pipe t) \<and> (deadlined fs s \<longrightarrow> deadlined fs t) \<and>
    all_work fs t < all_work fs s"
proof -
  let ?limit = "next_backstop_wait (sd_running s) (sd_deadlines s) (fe_clock fe (sched_world s))"
  from assms(4) obtain finished stopped w where
    w: "wait_interruptible fe (map fst (sd_running s)) ?limit (sched_world s) = Some ((finished, stopped), w)" and
    r: "r = ((finished, stopped), with_world w s)"
    by (auto simp: await_next_def)
  have well: "set finished \<subseteq> fst ` set (sd_running s)"
      "\<not> stopped \<Longrightarrow> finished = [] \<Longrightarrow> timed_out fe (map fst (sd_running s)) ?limit (sched_world s) w"
    using wait_interruptible_well [OF w assms(3)] assms(2) by simp_all
  have dl: "deadlined fs (with_world w s) = deadlined fs s" by (simp add: deadlined_def)
  have same: "table_ok (with_world w s)" "all_work fs (with_world w s) = all_work fs s"
      "carries (sd_pipe s) (sd_pipe (with_world w s))"
    using same_table [of "with_world w s" s] assms(1) by simp_all
  have "table_ok t \<and> carries (sd_pipe (with_world w s)) (sd_pipe t) \<and> (deadlined fs s \<longrightarrow> deadlined fs t) \<and>
      all_work fs t < all_work fs (with_world w s)"
  proof (cases "finished = []")
    case False
    with assms(5) r have "collect_completion fs fe finished (with_world w s) = Some t"
      by (auto simp: after_wait_def split: if_splits)
    from collect_steps [OF same(1) False _ this] well(1) dl show ?thesis by simp
  next
    case True
    with assms(5) r have t: "t = fail_expired fs fe (with_world w s)" and ns: "\<not> stopped"
      by (auto simp: after_wait_def split: if_splits)
    have "0 < length (expired_futures fe (sd_running s) (sd_deadlines s) (fe_clock fe w) w)"
      using backstop_expires [OF well(2) [OF ns True]] by blast
    with fail_expired_steps [OF same(1), of fs fe] show ?thesis unfolding t by (auto simp: dl simp del: length_greater_0_conv)
  qed
  with same carries_trans show ?thesis by metis
qed

lemma turn_steps:
  assumes "table_ok s" and "waits_well fe" and "pass_turn scope_text fs fe s = Some (Pass_On t)"
  shows "table_ok t \<and> carries (sd_pipe s) (sd_pipe t) \<and> (deadlined fs s \<longrightarrow> deadlined fs t) \<and>
    all_work fs t < all_work fs s"
proof -
  from assms(3) obtain n s1 where f: "fill_slots scope_text fs fe (take (free_slots fs s) (ready_ids s)) s = Some (n, s1)"
    by (auto simp: pass_turn_def split: if_splits option.splits)
  note filled = filled [OF assms(1) f]
  show ?thesis
  proof (cases "sd_running s1 = []")
    case True
    with assms(3) f have "t = s1" "n \<noteq> 0" by (auto simp: pass_turn_def split: if_splits)
    with filled show ?thesis by simp
  next
    case False
    with assms(3) f obtain r where "await_next fs fe s1 = Some r" "after_wait fs fe r = Some (Pass_On t)"
      by (auto simp: pass_turn_def split: if_splits option.splits)
    from after_wait_steps [OF filled(1) False assms(2) this] filled(3,5) carries_trans [OF filled(2)] show ?thesis by auto
  qed
qed

section \<open>The end of a pass\<close>

lemma abort_one_steps:
  fixes s :: "'w sched"
  shows "sd_running (abort_one fs fe s x) = without (fst x) (sd_running s) \<and> carries (sd_pipe s) (sd_pipe (abort_one fs fe s x))"
proof -
  obtain f cid where x: "x = (f, cid)" by force
  have salvage: "retry_view (salvage_aborted_usage cfg fu snap cid p) = retry_view p" for cfg fu snap and p :: "'w pipe"
    by (auto simp: salvage_aborted_usage_def record_worktree_sweep_def frame split: future_state.split option.split)
  have "retry_view (fail_aborted cfg env cid reason p) = retry_view p" for cfg env reason and p :: "'w pipe"
    using aborted_ends [of cid p cfg env reason] by (simp add: ended_def)
  then have "carries (sd_pipe s) (sd_pipe (abort_one fs fe s x))"
    by (intro same_carries) (simp add: abort_one_def x Let_def salvage)
  then show ?thesis by (simp add: abort_one_def x Let_def without_def)
qed

lemma abort_fold:
  "sd_running (foldl (abort_one fs fe) s xs) = filter (\<lambda>(g, k). g \<notin> fst ` set xs) (sd_running s) \<and>
    carries (sd_pipe s) (sd_pipe (foldl (abort_one fs fe) s xs))"
proof (induction xs arbitrary: s)
  case Nil
  then show ?case by (simp add: case_prod_unfold)
next
  case (Cons x xs)
  note one = abort_one_steps [of fs fe s x]
  from Cons.IH [of "abort_one fs fe s x"] one show ?case
    by (auto simp: without_def case_prod_unfold intro: carries_trans filter_cong)
qed

lemma abort_steps:
  "sd_running (abort_inflight fs fe s) = [] \<and> carries (sd_pipe s) (sd_pipe (abort_inflight fs fe s))"
proof -
  define s1 where "s1 = with_world (fe_kill fe (map fst (sd_running s)) (sched_world s)) s"
  define s2 where "s2 = foldl (abort_one fs fe) s1 (sd_running s1)"
  have c1: "carries (sd_pipe s) (sd_pipe s1)" unfolding s1_def by (rule components_carry) simp
  have c2: "carries (sd_pipe s1) (sd_pipe s2)" unfolding s2_def using abort_fold by blast
  have "carries (sd_pipe s2) (sd_pipe (abort_inflight fs fe s))"
    by (rule components_carry) (simp add: abort_inflight_def Let_def s1_def s2_def)
  with c1 c2 carries_trans have "carries (sd_pipe s) (sd_pipe (abort_inflight fs fe s))" by blast
  moreover have "sd_running s2 = []"
    using abort_fold [of fs fe s1 "sd_running s1"] by (force simp: s2_def filter_empty_conv)
  then have "sd_running (abort_inflight fs fe s) = []"
    by (simp add: abort_inflight_def Let_def s1_def s2_def)
  ultimately show ?thesis by blast
qed

text \<open>How a turn ends the pass: it was stopped, or nothing runs and nothing is ready.\<close>

lemma over_steps:
  assumes "table_ok s" and "waits_well fe" and "pass_turn scope_text fs fe s = Some (Pass_Over t)"
  shows "carries (sd_pipe s) (sd_pipe t) \<and> sd_running t = [] \<and> ((\<exists>u. fe_stop fe u \<noteq> None) \<or> ready_ids t = [])"
proof (cases "fe_stop fe (sched_world s) = None")
  case False
  with assms(3) abort_steps [of fs fe s] show ?thesis by (auto simp: pass_turn_def)
next
  case True
  with assms(3) obtain n s1 where f: "fill_slots scope_text fs fe (take (free_slots fs s) (ready_ids s)) s = Some (n, s1)"
    by (auto simp: pass_turn_def split: if_splits option.splits)
  note filled = filled [OF assms(1) f]
  show ?thesis
  proof (cases "sd_running s1 = []")
    case empty: True
    with True assms(3) f have t: "t = s1" "n = 0" by (auto simp: pass_turn_def split: if_splits)
    with empty filled(4) have idle: "sd_running s = []" "length (take (free_slots fs s) (ready_ids s)) = 0" by auto
    from idle(1) have "free_slots fs s > 0" by (simp add: free_slots_def slots_cap_def)
    with idle(2) have "ready_ids s = []" by (auto simp: min_def split: if_splits)
    moreover from this f have "s1 = s" by simp
    ultimately show ?thesis using t empty filled(2) by simp
  next
    case False
    with True assms(3) f obtain r where r: "await_next fs fe s1 = Some r" "after_wait fs fe r = Some (Pass_Over t)"
      by (auto simp: pass_turn_def split: if_splits option.splits)
    then obtain finished w where
      w: "wait_interruptible fe (map fst (sd_running s1)) (next_backstop_wait (sd_running s1) (sd_deadlines s1)
            (fe_clock fe (sched_world s1))) (sched_world s1) = Some ((finished, True), w)"
      and t: "t = abort_inflight fs fe (with_world w s1)"
      by (auto simp: await_next_def after_wait_def split: if_splits)
    have "\<exists>u. fe_stop fe u \<noteq> None" using wait_interruptible_well [OF w assms(2)] False by simp
    moreover have "carries (sd_pipe s1) (sd_pipe (with_world w s1))" by (rule components_carry) simp
    ultimately show ?thesis
      using abort_steps [of fs fe "with_world w s1"] filled(2) carries_trans t by metis
  qed
qed

text \<open>
  Why a run comes back: the waits inside a turn end once the clock advances (\<open>clock_advances\<close>), the
  turns of a pass end because each does some of the work left, and the rounds of a run end because
  each one that goes back takes a retry.
\<close>

section \<open>A result is always judged\<close>

definition can_return :: "factory_settings \<Rightarrow> 'w factory_env \<Rightarrow> bool" where
  "can_return fs fe =
     (clock_advances (pe_gh (fe_pipe fe)) \<and> waits_well fe \<and> (fs_backstop fs > 0 \<or> \<not> fe_stop_slices fe))"

lemma phase_pr_returns:
  assumes "clock_advances (pe_gh env)"
  shows "phase_pr cfg env cid p \<noteq> None"
proof -
  have "push_create_and_merge_pr (pe_gh env) cm m how limit w \<noteq> None" for cm m how limit w
    using pr_step_returns [OF assms] by auto
  then show ?thesis
    by (simp add: phase_pr_def Let_def del: not_None_eq split: prod.split option.split)
qed

lemma deliver_returns:
  assumes "clock_advances (pe_gh env)"
  shows "deliver cfg env hk cid r rp o1 p \<noteq> None"
  using phase_pr_returns [OF assms]
  by (auto simp: deliver_def Let_def simp del: not_None_eq split: prod.split option.split)

lemma judged_returns:
  assumes "clock_advances (pe_gh env)"
  shows "judge_secured cfg env hk cid r df rp o1 p \<noteq> None"
    and "judge_reviewed cfg env hk cid r df v o1 p \<noteq> None"
    and "judge_diffed cfg env hk cid r v o1 p \<noteq> None"
    and "judge_accepted cfg env hk cid r v o1 p \<noteq> None"
    and "judge_attempt cfg env hk cid r p \<noteq> None"
proof -
  note d = deliver_returns [OF assms]
  have s: "judge_secured cfg env hk cid r df rp o1 p \<noteq> None" for df rp o1 p
    using d by (simp add: judge_secured_def judge_distilled_def Let_def split: prod.split option.split)
  have w: "judge_reviewed cfg env hk cid r df v o1 p \<noteq> None" for df v o1 p
    using s by (simp add: judge_reviewed_def Let_def split: prod.split option.split)
  have f: "judge_diffed cfg env hk cid r v o1 p \<noteq> None" for v o1 p
    using w by (simp add: judge_diffed_def Let_def split: prod.split option.split)
  have a: "judge_accepted cfg env hk cid r v o1 p \<noteq> None" for v o1 p
    using f by (simp add: judge_accepted_def split: prod.split option.split)
  show "judge_attempt cfg env hk cid r p \<noteq> None"
    using a by (simp add: judge_attempt_def Let_def split: prod.split option.split)
  show "judge_secured cfg env hk cid r df rp o1 p \<noteq> None" by (rule s)
  show "judge_reviewed cfg env hk cid r df v o1 p \<noteq> None" by (rule w)
  show "judge_diffed cfg env hk cid r v o1 p \<noteq> None" by (rule f)
  show "judge_accepted cfg env hk cid r v o1 p \<noteq> None" by (rule a)
qed

lemma process_returns: "clock_advances (pe_gh env) \<Longrightarrow> process_result cfg env hk cid r p \<noteq> None"
  using judged_returns(5) [of env] by (simp add: process_result_def outcome_of_def Let_def del: not_None_eq split: option.split)

lemma fill_returns:
  assumes "clock_advances (pe_gh (fe_pipe fe))"
  shows "fill_slots scope_text fs fe cids s \<noteq> None"
proof (induction cids arbitrary: s)
  case Nil
  then show ?case by simp
next
  case (Cons cid cids)
  have "engineer_worktree cfg (fe_pipe fe) hk cid path p \<noteq> None" for cfg hk path p
    using judged_returns(5) [OF assms]
    by (simp add: engineer_worktree_def rejudge_kept_head_def Let_def del: not_None_eq append.simps)
  then have "fill_one scope_text fs fe cid s \<noteq> None"
    by (simp add: fill_one_def Let_def del: not_None_eq split: option.split prod.split)
  then obtain b t where "fill_one scope_text fs fe cid s = Some (b, t)" by auto
  with Cons.IH [of t] show ?case by auto
qed

section \<open>A wait comes back\<close>

lemma slices_return:
  assumes "waits_well fe" and "fs \<noteq> []"
  shows "d - fe_clock fe w \<le> of_nat k * slice_seconds \<Longrightarrow> wait_slices fe fs (Some d) w \<noteq> None"
proof (induction k arbitrary: w)
  case 0
  obtain g u where g: "fe_wait fe fs (Some 0) w = (g, u)" by fastforce
  from 0 show ?case by (subst wait_slices.simps) (simp add: g Let_def slice_seconds_def del: not_None_eq)
next
  case (Suc k)
  obtain g u where g: "fe_wait fe fs (Some (min slice_seconds (max 0 (d - fe_clock fe w)))) w = (g, u)" by fastforce
  show ?case
  proof (cases "fe_stop fe w \<noteq> None \<or> g \<noteq> [] \<or> max 0 (d - fe_clock fe w) \<le> slice_seconds")
    case True
    then show ?thesis by (subst wait_slices.simps) (auto simp: g Let_def)
  next
    case False
    then have "timed_out fe fs (Some (min slice_seconds (max 0 (d - fe_clock fe w)))) w u"
      using waits_wellD [OF assms g] by simp
    with False have "fe_clock fe w + slice_seconds \<le> fe_clock fe u" by (auto simp: timed_out_def min_def max_def slice_seconds_def split: if_splits)
    with Suc.prems have "d - fe_clock fe u \<le> of_nat k * slice_seconds" by (simp add: algebra_simps)
    from Suc.IH [OF this] False show ?thesis by (subst wait_slices.simps) (simp add: g Let_def del: not_None_eq)
  qed
qed

lemma deadline_set:
  assumes "deadlined fs s" and "fs_backstop fs > 0" and "sd_running s \<noteq> []"
  shows "next_backstop_wait (sd_running s) (sd_deadlines s) now \<noteq> None"
proof -
  from assms(3) obtain f k where f: "(f, k) \<in> set (sd_running s)" by (cases "sd_running s") auto
  with assms(1,2) obtain d where "(f, d) \<in> set (sd_deadlines s)" by (auto simp: deadlined_def)
  then have "map_of (sd_deadlines s) f \<noteq> None" by (simp add: weak_map_of_SomeI)
  with f have "somes (map (\<lambda>(f, cid). map_of (sd_deadlines s) f) (sd_running s)) \<noteq> []"
    by (force simp: somes_def filter_empty_conv)
  then show ?thesis by (auto simp: next_backstop_wait_def split: list.split)
qed

lemma await_returns:
  assumes "can_return fs fe" and "deadlined fs s" and "sd_running s \<noteq> []"
  shows "await_next fs fe s \<noteq> None"
proof (cases "fe_stop_slices fe")
  case False
  then show ?thesis by (simp add: await_next_def wait_interruptible_def del: not_None_eq split: prod.split)
next
  case True
  with assms(1) have w: "waits_well fe" "fs_backstop fs > 0" by (simp_all add: can_return_def)
  then obtain d where d: "next_backstop_wait (sd_running s) (sd_deadlines s) (fe_clock fe (sched_world s)) = Some d"
    using deadline_set [OF assms(2) _ assms(3)] by blast
  obtain k where k: "d / slice_seconds \<le> of_nat k" using real_arch_simple by blast
  then have "d \<le> of_nat k * slice_seconds" by (simp add: slice_seconds_def)
  then have "fe_clock fe (sched_world s) + d - fe_clock fe (sched_world s) \<le> of_nat k * slice_seconds" by simp
  from slices_return [OF w(1) _ this] assms(3) True show ?thesis
    by (simp add: await_next_def wait_interruptible_def d)
qed

section \<open>A pass comes back\<close>

lemma turn_returns:
  assumes "can_return fs fe" and "table_ok s" and "deadlined fs s"
  shows "pass_turn scope_text fs fe s \<noteq> None"
proof (cases "fe_stop fe (sched_world s) = None")
  case False
  then show ?thesis by (simp add: pass_turn_def)
next
  case True
  have c: "clock_advances (pe_gh (fe_pipe fe))" and w: "waits_well fe" using assms(1) by (simp_all add: can_return_def)
  obtain n s1 where f: "fill_slots scope_text fs fe (take (free_slots fs s) (ready_ids s)) s = Some (n, s1)"
    using fill_returns [OF c] by fastforce
  note filled = filled [OF assms(2) f]
  show ?thesis
  proof (cases "sd_running s1 = []")
    case True
    with f show ?thesis by (simp add: pass_turn_def)
  next
    case False
    obtain r where r: "await_next fs fe s1 = Some r"
      using await_returns [OF assms(1) filled(3) [OF assms(3)] False] by blast
    have "collect_completion fs fe x t \<noteq> None" for x t
      using process_returns [OF c] by (simp add: collect_completion_def Let_def del: not_None_eq)
    then have "after_wait fs fe r \<noteq> None" by (auto simp: after_wait_def simp del: not_None_eq split: prod.split)
    with True f False r show ?thesis by (simp add: pass_turn_def del: not_None_eq)
  qed
qed

definition pass_ended :: "'w factory_env \<Rightarrow> 'w sched \<Rightarrow> 'w sched \<Rightarrow> bool" where
  "pass_ended fe s t =
     (carries (sd_pipe s) (sd_pipe t) \<and> sd_running t = [] \<and> ((\<exists>u. fe_stop fe u \<noteq> None) \<or> ready_ids t = []))"

lemma pass_loop_ends:
  assumes "can_return fs fe" and "table_ok s" and "deadlined fs s"
  shows "\<exists>t. pass_loop scope_text fs fe s = Some t \<and> pass_ended fe s t"
  using assms(2,3)
proof (induction "all_work fs s" arbitrary: s rule: less_induct)
  case less
  have w: "waits_well fe" using assms(1) by (simp add: can_return_def)
  obtain r where r: "pass_turn scope_text fs fe s = Some r" using turn_returns [OF assms(1) less.prems] by blast
  show ?case
  proof (cases r)
    case (Pass_Over t)
    with r over_steps [OF less.prems(1) w, of scope_text fs t] show ?thesis
      by (subst pass_loop.simps) (simp add: pass_ended_def)
  next
    case (Pass_On s1)
    with r have s1: "table_ok s1 \<and> carries (sd_pipe s) (sd_pipe s1) \<and> (deadlined fs s \<longrightarrow> deadlined fs s1) \<and>
        all_work fs s1 < all_work fs s"
      using turn_steps [OF less.prems(1) w, of scope_text fs s1] by simp
    with less.hyps less.prems(2) obtain t where "pass_loop scope_text fs fe s1 = Some t" "pass_ended fe s1 t" by blast
    with r Pass_On s1 carries_trans show ?thesis
      by (subst pass_loop.simps) (auto simp: pass_ended_def)
  qed
qed

lemma pass_ends:
  assumes "can_return fs fe" and "distinct (pipe_ids (sd_pipe s))"
  shows "\<exists>t. run_scheduling_pass scope_text fs fe s = Some t \<and> pass_ended fe s t"
proof -
  let ?s0 = "fresh_sched (sd_scheduled s) (sd_leaked s) (sd_unsafe s) (sd_next s) (sd_pipe s)"
  have "table_ok ?s0" "deadlined fs ?s0"
    using assms(2) by (simp_all add: table_ok_def deadlined_def fresh_sched_def)
  from pass_loop_ends [OF assms(1) this] obtain t where t: "pass_loop scope_text fs fe ?s0 = Some t" "pass_ended fe ?s0 t"
    by blast
  have "carries (sd_pipe t) (sd_pipe (shut_down fe t))" by (rule components_carry) (simp add: shut_down_def)
  then have "pass_ended fe s (shut_down fe t)"
    using t(2) carries_trans by (auto simp: pass_ended_def fresh_sched_def shut_down_def ready_ids_def)
  with t(1) show ?thesis by (simp add: run_scheduling_pass_def)
qed

section \<open>A round takes a retry or is the last\<close>

definition retries_left :: "pipe_config \<Rightarrow> 'w pipe \<Rightarrow> nat" where
  "retries_left cfg p = sum_list (map (\<lambda>k. nat (pf_max_retries cfg - retries_at p k)) (pipe_ids p))"

lemma carries_left: "carries p q \<Longrightarrow> retries_left cfg q \<le> retries_left cfg p"
  unfolding retries_left_def carries_ids [of p q]
  by (rule sum_list_mono) (auto simp: carries_def intro!: nat_mono diff_left_mono)

lemma carries_less:
  assumes "carries p q" and "known k p" and "retries_at p k < retries_at q k" and "retries_at p k < pf_max_retries cfg"
  shows "retries_left cfg q < retries_left cfg p"
proof -
  have "retries_left cfg q + 1 \<le> retries_left cfg p"
    unfolding retries_left_def carries_ids [OF assms(1)]
  proof (rule sum_list_drop [where k = k])
    show "k \<in> set (pipe_ids p)" using assms(2) by (simp add: known_ids)
    show "nat (pf_max_retries cfg - retries_at q k) + 1 \<le> nat (pf_max_retries cfg - retries_at p k)"
      using assms(3,4) by linarith
    show "nat (pf_max_retries cfg - retries_at q x) \<le> nat (pf_max_retries cfg - retries_at p x)" for x
      using assms(1) by (auto simp: carries_def intro!: nat_mono diff_left_mono)
  qed
  then show ?thesis by simp
qed

text \<open>The context of a contract failure is always recorded: \<open>contract\<close> is a phase the context knows.\<close>

lemma contract_failure_recorded: "\<exists>x. record_contract_failure cid n out p = Inr x \<and> pipe_components x = pipe_components p"
  by (simp add: record_contract_failure_def add_contract_failure_def add_entry_def Let_def pipe_components_def
      require_known_phase_def phase_rank_def phase_ranks_def)

lemma reset_takes_retry:
  fixes p :: "'w pipe"
  assumes "breaker_may_retry cfg r p"
  shows "carries p (reset_breaker cfg env r p) \<and> retries_left cfg (reset_breaker cfg env r p) < retries_left cfg p"
proof -
  let ?cid = "ct_breaker r"
  let ?f = "\<lambda>c :: component. c\<lparr>c_retries := JInt (retries_of c + 1), c_status := PENDING,
      c_error := JStr (''Contract test failed at tier '' @ tier_text (ct_tier r))\<rparr>"
  define p1 where "p1 = journal_superseded env ?cid None p"
  define p2 where "p2 = update_component ?cid ?f p1"
  from assms have k: "known ?cid p" and less: "retries_of (the_component p ?cid) < pf_max_retries cfg"
    by (auto simp: breaker_may_retry_def known_iff the_component_def split: option.splits)
  have v1: "retry_view p1 = retry_view p" by (simp add: p1_def frame)
  note k1 = k [folded known_same [OF v1]]
  have bump: "retries_of (c\<lparr>c_retries := JInt n, c_status := st, c_error := e\<rparr>) = n" for c :: component and n st e
    by (simp add: retries_of_def)
  have r2: "retries_at p2 j = (if j = ?cid then retries_at p ?cid + 1 else retries_at p j)" for j
    unfolding p2_def
    by (subst retries_update [OF k1])
      (simp_all add: bump retries_at_component [OF k1, symmetric] retries_same [OF v1])
  have plan: "plan_view p2 = plan_view p"
    unfolding p2_def by (simp add: plan_update same_plan [OF v1])
  let ?p3 = "p2\<lparr>pp_signatures := dict_set (pp_signatures p2) ?cid (contract_signature r),
      pp_completed := remove1 ?cid (pp_completed p2)\<rparr>"
  obtain x where x: "record_contract_failure ?cid (retries_of (the_component ?p3 ?cid)) (take 500 (ct_output r)) ?p3 = Inr x"
      "pipe_components x = pipe_components ?p3"
    using contract_failure_recorded by blast
  have "pipe_components (reset_breaker cfg env r p) = pipe_components p2"
    unfolding reset_breaker_def Let_def p1_def [symmetric] p2_def [symmetric]
    using x by (simp add: frame)
  note same = same_components(1) [OF this]
  have "plan_view (reset_breaker cfg env r p) = plan_view p" using same_plan [OF same] plan by simp
  moreover have ret: "retries_at (reset_breaker cfg env r p) j = (if j = ?cid then retries_at p ?cid + 1 else retries_at p j)" for j
    using retries_same [OF same] r2 by simp
  ultimately have c: "carries p (reset_breaker cfg env r p)" by (simp add: carries_def)
  moreover have "retries_left cfg (reset_breaker cfg env r p) < retries_left cfg p"
    by (rule carries_less [OF c k]) (simp_all add: ret less retries_at_component [OF k])
  ultimately show ?thesis by blast
qed

definition round_step :: "pipe_config \<Rightarrow> 'w round_state \<Rightarrow> 'w round_state \<Rightarrow> bool" where
  "round_step cfg s t =
     (carries (rn_pipe s) (rn_pipe t) \<and>
      (rn_reset t \<longrightarrow> rn_reset s \<or> retries_left cfg (rn_pipe t) < retries_left cfg (rn_pipe s)))"

lemma round_step_same: "carries (rn_pipe s) (rn_pipe t) \<Longrightarrow> rn_reset t = rn_reset s \<Longrightarrow> round_step cfg s t"
  by (simp add: round_step_def)

lemma round_step_trans: "round_step cfg s t \<Longrightarrow> round_step cfg t u \<Longrightarrow> round_step cfg s u"
  using carries_left [of "rn_pipe s" "rn_pipe t" cfg] carries_left [of "rn_pipe t" "rn_pipe u" cfg]
  by (auto simp: round_step_def intro: carries_trans)

lemma resets_step: "round_step cfg s (reset_contract_breakers cfg env rs s)"
proof (induction rs arbitrary: s)
  case Nil
  then show ?case by (simp add: round_step_same)
next
  case (Cons r rs)
  let ?t = "if breaker_may_retry cfg r (rn_pipe s) then s\<lparr>rn_pipe := reset_breaker cfg env r (rn_pipe s), rn_reset := True\<rparr> else s"
  have "round_step cfg s ?t"
    using reset_takes_retry [of cfg r "rn_pipe s" env] by (auto simp: round_step_def)
  from round_step_trans [OF this Cons.IH] show ?case by simp
qed

lemma fail_breaker_view: "retry_view (fail_breaker cfg env r p) = retry_view p"
proof -
  have v: "retry_view (q\<lparr>pp_completed := a, pp_failed := b\<rparr>) = retry_view q" for q :: "'a pipe" and a b
    by (rule same_components(1)) (simp add: pipe_components_def)
  show ?thesis by (simp add: fail_breaker_def Let_def frame v view_update split: option.split)
qed

lemma failures_step: "round_step cfg s (record_contract_failures cfg env fs s)"
proof -
  have one: "retry_view (rn_pipe (record_contract_failure_one cfg env r t)) = retry_view (rn_pipe t) \<and>
      rn_reset (record_contract_failure_one cfg env r t) = rn_reset t" for r t
    by (simp add: record_contract_failure_one_def fail_breaker_view)
  have all: "retry_view (rn_pipe (foldl (\<lambda>t r. record_contract_failure_one cfg env r t) t fs)) = retry_view (rn_pipe t) \<and>
      rn_reset (foldl (\<lambda>t r. record_contract_failure_one cfg env r t) t fs) = rn_reset t" for t
    using one by (induction fs arbitrary: t) simp_all
  have carried: "retry_view (record_carried_halt cfg env pl d p e) = retry_view p" for pl d e p
    by (simp add: record_carried_halt_def frame)
  have "retry_view (halt_carried cfg env fs p) = retry_view p" for p
    unfolding halt_carried_def by (rule foldl_keeps, rule foldl_keeps, rule carried)
  with all show ?thesis
    by (intro round_step_same same_carries) (simp_all add: record_contract_failures_def Let_def frame)
qed

lemma contract_round_step: "round_step cfg s (run_contract_round cfg env ph s)"
proof -
  have world: "round_step cfg t (t\<lparr>rn_pipe := (rn_pipe t)\<lparr>pp_world := w\<rparr>, rn_failures := f\<rparr>)" for t :: "'a round_state" and w f
    by (intro round_step_same same_carries) (simp_all add: frame)
  have world': "round_step cfg t (t\<lparr>rn_pipe := (rn_pipe t)\<lparr>pp_world := w\<rparr>\<rparr>)" for t :: "'a round_state" and w
    by (intro round_step_same same_carries) (simp_all add: frame)
  have judged: "round_step cfg t (judge_contracts cfg env ph rs t)" for t :: "'a round_state" and rs
  proof -
    let ?t = "t\<lparr>rn_pipe := foldl note_contract_result (rn_pipe t) rs\<rparr>"
    have "retry_view (foldl note_contract_result (rn_pipe t) rs) = retry_view (rn_pipe t)"
      by (rule foldl_keeps) (simp add: note_contract_result_def frame)
    then have a: "round_step cfg t ?t" by (intro round_step_same same_carries) simp_all
    have "round_step cfg ?t (carry_checks ph rs ?t)"
      by (intro round_step_same same_carries) (simp_all add: carry_checks_def frame split: prod.split)
    from round_step_trans [OF a this] round_step_trans [OF a resets_step]
      round_step_trans [OF a round_step_trans [OF resets_step failures_step]]
    show ?thesis by (simp add: judge_contracts_def Let_def)
  qed
  show ?thesis
    unfolding run_contract_round_def Let_def
    by (auto intro: round_step_same world judged round_step_trans [OF world'] split: prod.split sum.split option.split)
qed

section \<open>A run comes back\<close>

lemma cleanup_carries:
  fixes p :: "'w pipe"
  shows "carries p (cleanup_pass_worktrees fs fe leaked p)"
proof -
  have "retry_view (cleanup_one fs fe leaked p e) = retry_view p" for e and p :: "'w pipe"
    by (cases e)
      (simp add: cleanup_one_def Let_def record_worktree_sweep_def frame view_update split: prod.split option.split)
  then have "retry_view (foldl (cleanup_one fs fe leaked) p es) = retry_view p" for es by (rule foldl_keeps)
  then show ?thesis by (intro same_carries) (simp add: cleanup_pass_worktrees_def frame)
qed

definition run_pipe :: "'w factory_run \<Rightarrow> 'w pipe" where
  "run_pipe s = sd_pipe (fr_sched s)"

lemma round_returns:
  assumes "can_return fs fe" and "distinct (pipe_ids (run_pipe s))"
  shows "\<exists>b t. factory_round scope_text fs fe ph s = Some (b, t) \<and> carries (run_pipe s) (run_pipe t) \<and>
    (b \<longrightarrow> retries_left (fs_pipe fs) (run_pipe t) < retries_left (fs_pipe fs) (run_pipe s))"
proof -
  obtain u where u: "run_scheduling_pass scope_text fs fe (fr_sched s) = Some u" "pass_ended fe (fr_sched s) u"
    using pass_ends [OF assms(1)] assms(2) by (auto simp: run_pipe_def)
  let ?p = "cleanup_pass_worktrees fs fe (sd_leaked u) (sd_pipe u)"
  have c: "carries (run_pipe s) ?p"
    using u(2) carries_trans [OF _ cleanup_carries] by (auto simp: pass_ended_def run_pipe_def)
  let ?r0 = "\<lparr>rn_pipe = ?p, rn_failures = fr_failures s, rn_reset = False\<rparr>"
  have r: "round_step (fs_pipe fs) ?r0 (run_contract_round (fs_pipe fs) (fe_pipe fe) ph ?r0)" by (rule contract_round_step)
  show ?thesis
  proof (cases "fe_stop fe (pp_world ?p) = None")
    case False
    with u(1) have "factory_round scope_text fs fe ph s = Some (False, s\<lparr>fr_sched := u\<lparr>sd_pipe := ?p\<rparr>\<rparr>)"
      by (simp add: factory_round_def Let_def)
    moreover have "carries (run_pipe s) (run_pipe (s\<lparr>fr_sched := u\<lparr>sd_pipe := ?p\<rparr>\<rparr>))"
      using c by (simp add: run_pipe_def)
    ultimately show ?thesis by blast
  next
    case True
    with u(1) c r carries_left [OF c, of "fs_pipe fs"] show ?thesis
      by (auto simp: factory_round_def Let_def run_pipe_def round_step_def intro: carries_trans)
  qed
qed

lemma rounds_return:
  assumes "can_return fs fe" and "distinct (pipe_ids (run_pipe s))"
  shows "factory_rounds scope_text fs fe ph s \<noteq> None"
  using assms(2)
proof (induction "retries_left (fs_pipe fs) (run_pipe s)" arbitrary: s rule: less_induct)
  case less
  obtain b t where r: "factory_round scope_text fs fe ph s = Some (b, t)" "carries (run_pipe s) (run_pipe t)"
      "b \<Longrightarrow> retries_left (fs_pipe fs) (run_pipe t) < retries_left (fs_pipe fs) (run_pipe s)"
    using round_returns [OF assms(1) less.prems] by blast
  show ?case
  proof (cases b)
    case True
    have "distinct (pipe_ids (run_pipe t))" using less.prems carries_ids [OF r(2)] by simp
    from less.hyps [OF r(3) [OF True] this] r(1) True show ?thesis by (subst factory_rounds.simps) simp
  next
    case False
    with r(1) show ?thesis by (subst factory_rounds.simps) simp
  qed
qed

end
