(* ===== verification/Factory_Contract.thy ===== *)
theory Factory_Contract
  imports Factory_Ends Pipeline_Contract Usage_Contract
begin

text \<open>
  What the factory promises for a whole run: the running workers fit the slots and stand behind
  completed dependencies, a pass and a run come back, a tier that failed its contract test never ends
  in exit code 0, the exit code says whether the run is clean, and the usage of a stopped attempt is
  read back as it was written.
\<close>

section \<open>The states of a pass\<close>

text \<open>The states the loop of a pass goes through: its start, each time the slots were filled, and the
  start of each further turn.\<close>

inductive in_pass ::
    "(scope_error \<Rightarrow> string) \<Rightarrow> factory_settings \<Rightarrow> 'w factory_env \<Rightarrow> 'w sched \<Rightarrow> 'w sched \<Rightarrow> bool"
  for scope_text fs fe s0 where
  pass_start: "in_pass scope_text fs fe s0
    (fresh_sched (sd_scheduled s0) (sd_leaked s0) (sd_unsafe s0) (sd_next s0) (sd_pipe s0))"
| pass_filled: "in_pass scope_text fs fe s0 s \<Longrightarrow>
    fill_slots scope_text fs fe (take (free_slots fs s) (ready_ids s)) s = Some (n, t) \<Longrightarrow> in_pass scope_text fs fe s0 t"
| pass_turned: "in_pass scope_text fs fe s0 s \<Longrightarrow> pass_turn scope_text fs fe s = Some (Pass_On t) \<Longrightarrow>
    in_pass scope_text fs fe s0 t"

lemma expired_shorter: "length (sd_running (foldl (fail_one_expired fs fe) s xs)) \<le> length (sd_running s)"
proof (induction xs arbitrary: s)
  case (Cons x xs)
  have "length (sd_running (fail_one_expired fs fe s x)) \<le> length (sd_running s)"
    by (cases x) (simp add: fail_one_expired_def Let_def drop_running without_def)
  with Cons.IH [of "fail_one_expired fs fe s x"] show ?case by simp
qed simp

lemma turn_fits:
  assumes "table_ok s" and "length (sd_running s) \<le> slots_cap fs" and "pass_turn scope_text fs fe s = Some (Pass_On t)"
  shows "length (sd_running t) \<le> slots_cap fs"
proof -
  from assms(3) obtain n s1 where f: "fill_slots scope_text fs fe (take (free_slots fs s) (ready_ids s)) s = Some (n, s1)"
    by (auto simp: pass_turn_def split: if_splits option.splits)
  have fits: "length (sd_running s1) \<le> slots_cap fs" by (rule filled(6) [OF assms(1) f assms(2)])
  show ?thesis
  proof (cases "sd_running s1 = []")
    case True
    with assms(3) f fits show ?thesis by (auto simp: pass_turn_def split: if_splits)
  next
    case False
    with assms(3) f obtain r where r: "await_next fs fe s1 = Some r" "after_wait fs fe r = Some (Pass_On t)"
      by (auto simp: pass_turn_def split: if_splits option.splits)
    then have "(\<exists>finished w. collect_completion fs fe finished (with_world w s1) = Some t) \<or>
        (\<exists>w. t = fail_expired fs fe (with_world w s1))"
      by (auto simp: await_next_def after_wait_def split: if_splits)
    then have "length (sd_running t) \<le> length (sd_running s1)"
      using expired_shorter [of fs fe "with_world _ s1"]
      by (auto simp: collect_completion_def Let_def drop_running without_def fail_expired_def)
    with fits show ?thesis by simp
  qed
qed

lemma in_pass_sound:
  assumes "in_pass scope_text fs fe s0 s" and "waits_well fe" and "distinct (pipe_ids (sd_pipe s0))"
  shows "table_ok s \<and> length (sd_running s) \<le> slots_cap fs"
  using assms(1)
proof induction
  case pass_start
  then show ?case using assms(3) by (simp add: table_ok_def fresh_sched_def)
next
  case (pass_filled s n t)
  with filled(1,6) show ?case by blast
next
  case (pass_turned s t)
  with turn_steps [OF _ assms(2), of s scope_text fs t] turn_fits [of s fs scope_text fe t] show ?case by blast
qed

section \<open>A run that failed its contract\<close>

lemma failures_recorded:
  "rn_failures (record_contract_failures cfg env fs s) \<noteq> []" if "fs \<noteq> []"
proof -
  have one: "length (rn_failures (record_contract_failure_one cfg env r t)) = Suc (length (rn_failures t))" for r t
    by (simp add: record_contract_failure_one_def)
  have "length (rn_failures (foldl (\<lambda>t r. record_contract_failure_one cfg env r t) s fs)) = length (rn_failures s) + length fs"
    using one by (induction fs arbitrary: s) simp_all
  with that show ?thesis by (auto simp: record_contract_failures_def Let_def)
qed

lemma judged_failures:
  assumes "r \<in> set rs" and "\<not> ct_passed r" and "\<not> rn_reset (judge_contracts cfg env ph rs s)"
  shows "rn_failures (judge_contracts cfg env ph rs s) \<noteq> []"
proof -
  have "filter (\<lambda>r. \<not> ct_passed r) rs \<noteq> []" using assms(1,2) by (auto simp: filter_empty_conv)
  with assms(3) failures_recorded [OF this] show ?thesis
    by (auto simp: judge_contracts_def Let_def split: if_splits)
qed

lemma exit_codes:
  "resolve_exit_code r cs stopped \<in> {0, 1, 130} \<and> (resolve_exit_code r cs stopped = 130 \<longleftrightarrow> stopped) \<and>
   (resolve_exit_code r cs stopped = 0 \<longleftrightarrow>
      \<not> stopped \<and> fx_failed r = [] \<and> fx_contract_failures r = [] \<and> fx_merge_pending r = [] \<and> fx_awaiting r = [] \<and>
      (fx_skipped r = [] \<or> fx_completed r \<noteq> []) \<and> (fx_scheduled r \<noteq> [] \<or> unfinished cs = []))"
  by (auto simp: resolve_exit_code_def run_is_clean_def)

text \<open>What the contract tests of a round gave.\<close>

definition contract_results :: "pipe_config \<Rightarrow> 'w phase3_env \<Rightarrow> 'w pipe \<Rightarrow> string + contract_result list" where
  "contract_results cfg ph p =
     fst (ph_test ph (pp_manifest p) (pf_create_prs cfg \<and> \<not> pf_single_pr cfg)
            (case ph_base ph (m_base_branch (pp_manifest p)) (pp_world p) of None \<Rightarrow> [] | Some b \<Rightarrow> b) (pp_world p))"

definition contracts_run :: "'w phase3_env \<Rightarrow> bool" where
  "contracts_run ph = (ph_mode ph \<noteq> None \<and> ph_mode ph \<noteq> Some ''skip'')"

lemma round_results:
  assumes "contracts_run ph"
  obtains e w where "contract_results cfg ph (rn_pipe s) = Inl e"
      "run_contract_round cfg env ph s =
         s\<lparr>rn_pipe := (rn_pipe s)\<lparr>pp_world := w\<rparr>, rn_failures := rn_failures s @ [''contract cleanup failed: '' @ e]\<rparr>"
  | rs w where "contract_results cfg ph (rn_pipe s) = Inr rs"
      "run_contract_round cfg env ph s = judge_contracts cfg env ph rs (s\<lparr>rn_pipe := (rn_pipe s)\<lparr>pp_world := w\<rparr>\<rparr>)"
proof -
  obtain x w where x: "ph_test ph (pp_manifest (rn_pipe s)) (pf_create_prs cfg \<and> \<not> pf_single_pr cfg)
      (case ph_base ph (m_base_branch (pp_manifest (rn_pipe s))) (pp_world (rn_pipe s)) of None \<Rightarrow> [] | Some b \<Rightarrow> b)
      (pp_world (rn_pipe s)) = (x, w)"
    by fastforce
  then have r: "contract_results cfg ph (rn_pipe s) = x" by (simp add: contract_results_def)
  from assms obtain m where m: "ph_mode ph = Some m" "m \<noteq> ''skip''" by (auto simp: contracts_run_def)
  show thesis
  proof (cases x)
    case (Inl e)
    with x m have "run_contract_round cfg env ph s =
        s\<lparr>rn_pipe := (rn_pipe s)\<lparr>pp_world := w\<rparr>, rn_failures := rn_failures s @ [''contract cleanup failed: '' @ e]\<rparr>"
      by (simp add: run_contract_round_def Let_def)
    with that(1) r Inl show thesis by blast
  next
    case (Inr rs)
    with x m have "run_contract_round cfg env ph s =
        judge_contracts cfg env ph rs (s\<lparr>rn_pipe := (rn_pipe s)\<lparr>pp_world := w\<rparr>\<rparr>)"
      by (simp add: run_contract_round_def Let_def)
    with that(2) r Inr show thesis by blast
  qed
qed

lemma first_reset:
  "rn_reset (reset_contract_breakers cfg env rs s) \<Longrightarrow> \<not> rn_reset s \<Longrightarrow> \<exists>r\<in>set rs. breaker_may_retry cfg r (rn_pipe s)"
proof (induction rs arbitrary: s)
  case (Cons r rs)
  then show ?case by (cases "breaker_may_retry cfg r (rn_pipe s)") auto
qed simp

lemma judged_reset:
  assumes "rn_reset (judge_contracts cfg env ph rs s)" and "\<not> rn_reset s"
  shows "\<exists>r\<in>set rs. \<not> ct_passed r \<and> breaker_may_retry cfg r (foldl note_contract_result (rn_pipe s) rs)"
proof -
  let ?s1 = "s\<lparr>rn_pipe := foldl note_contract_result (rn_pipe s) rs\<rparr>"
  have fold: "rn_reset (foldl (\<lambda>t r. record_contract_failure_one cfg env r t) t fs) = rn_reset t" for fs t
    by (rule foldl_keeps) (simp add: record_contract_failure_one_def)
  then have "rn_reset (record_contract_failures cfg env fs t) = rn_reset t" for fs t
    by (simp add: record_contract_failures_def Let_def)
  with assms have "rn_reset (reset_contract_breakers cfg env (filter (\<lambda>r. \<not> ct_passed r) rs) ?s1)"
    by (auto simp: judge_contracts_def Let_def carry_checks_def split: if_splits prod.splits)
  from first_reset [OF this] assms(2) show ?thesis by auto
qed

lemma finish_exit:
  "fx_exit_code (fst (fst (finish_run rs fe ph prs since s))) \<in> {0, 1, 130} \<and>
   (fr_failures s \<noteq> [] \<longrightarrow> fx_exit_code (fst (fst (finish_run rs fe ph prs since s))) \<noteq> 0)"
  by (auto simp: finish_run_def Let_def resolve_exit_code_def result_of_run_def)

section \<open>A small factory\<close>

text \<open>One component, one slot of two, no worktrees, and workers whose work is done when they are waited
  for.\<close>

definition demo_factory :: "rat factory_env" where
  "demo_factory =
     \<lparr>fe_pipe = demo_pipe_env, fe_hooks = demo_pipe_hooks, fe_stop = (\<lambda>_. None), fe_prepare = (\<lambda>_ w. w),
      fe_base_ref = (\<lambda>b _. b), fe_git = (\<lambda>_ w. ((0, [], []), w)), fe_merge_branch = (\<lambda>_ _ w. (True, w)),
      fe_head = (\<lambda>_ _. Some ''h1''), fe_path = (\<lambda>c. c), fe_root = ''.'', fe_unlink = (\<lambda>_ w. (Unlinked, w)),
      fe_snapshot = (\<lambda>_ _. None), fe_facts = (\<lambda>_ _ _. None), fe_submit = (\<lambda>_ _ w. w),
      fe_wait = (\<lambda>fs _ w. (fs, w)), fe_future = (\<lambda>_ _. Future_Returned (kept_result None)), fe_kill = (\<lambda>_ w. w),
      fe_shutdown = (\<lambda>_ w. w), fe_sweep = (\<lambda>_ w. (nothing_swept, w)), fe_stop_slices = True\<rparr>"

definition demo_settings :: factory_settings where
  "demo_settings =
     \<lparr>fs_pipe = demo_pipe_config, fs_max_parallel = 2, fs_backstop = 60,
      fs_scope = [(''main'', \<lparr>sp_allowed = None, sp_harness = [], sp_source = Unresolved, sp_origin = [], sp_error = None\<rparr>)],
      fs_usage_paths = False, fs_keep_failed = False\<rparr>"

definition demo_sched :: "rat sched" where
  "demo_sched = fresh_sched [] [] [] 0 (demo_pipe PENDING)"

definition demo_scope_text :: "scope_error \<Rightarrow> string" where "demo_scope_text e = ''scope''"

lemma demo_waits: "waits_well demo_factory"
  by (simp add: waits_well_def demo_factory_def)

lemma demo_can_return: "can_return demo_settings demo_factory"
proof -
  have "clock_advances (pe_gh (fe_pipe demo_factory))"
    by (auto simp: clock_advances_def demo_factory_def demo_pipe_env_def demo_gh_def)
  with demo_waits show ?thesis by (simp add: can_return_def demo_settings_def)
qed

lemma demo_sched_ids: "pipe_ids (sd_pipe demo_sched) = [''main'']"
  by (simp add: demo_sched_def fresh_sched_def pipe_ids_are demo_pipe_def Let_def pipe_components_def plain_manifest_def
      single_component_def)

lemma demo_ready: "ready_ids demo_sched = [''main'']"
  by (simp add: ready_ids_def demo_sched_def fresh_sched_def demo_pipe_def Let_def pipe_components_def plain_manifest_def
      get_ready_components_def single_component_def)

text \<open>The component is launched.\<close>

lemma demo_launches:
  "\<exists>t. fill_slots demo_scope_text demo_settings demo_factory
       (take (free_slots demo_settings demo_sched) (ready_ids demo_sched)) demo_sched = Some (0, t) \<and>
     sd_running t = [(0, ''main'')]"
proof -
  let ?p = "sd_pipe demo_sched"
  have budget: "budget_unenforceable demo_pipe_config p = False" for p :: "rat pipe"
    by (simp add: budget_unenforceable_def unenforceable_ceilings_def token_budget_unenforceable_def
        cost_budget_unenforceable_def demo_pipe_config_def Let_def)
  have refused: "refused_before_launch demo_scope_text demo_settings demo_pipe_env ''main'' ?p = None"
    by (simp add: refused_before_launch_def demo_settings_def Let_def demo_in_budget budget scope_for_component_def
        dict_get_def)
  define p1 where "p1 = emit (Component_Started ''main'') (save_pipe (begin_attempt demo_pipe_env ''main'' ?p))"
  have start: "c_rejudge_sha (the_component ?p ''main'') = []" "known ''main'' ?p"
    by (simp_all add: demo_sched_def fresh_sched_def the_component_def demo_pipe_def Let_def pipe_components_def
        plain_manifest_def single_component_def get_component_def known_iff)
  have sha: "c_rejudge_sha (the_component p1 ''main'') = []"
  proof -
    have w: "the_component (q\<lparr>pp_signatures := a, pp_readings := b, pp_started := d\<rparr>) k = the_component q k"
      for q :: "rat pipe" and a b d k
      by (rule same_components(2)) (simp add: pipe_components_def)
    have e: "the_component (emit ev q) k = the_component q k" "the_component (save_pipe q) k = the_component q k"
      for ev k and q :: "rat pipe"
      by (rule same_components(2), simp add: frame)+
    show ?thesis
      unfolding p1_def e begin_attempt_def Let_def w
      using component_update [OF _ start(2), where k = "''main''"] start(1) by simp
  qed
  have launch: "launch_component demo_settings demo_factory ''main'' p1 =
      (Some ''.'', p1\<lparr>pp_worktrees := dict_set (pp_worktrees p1) (c_id (the_component p1 ''main'')) ''.''\<rparr>)"
    by (simp add: launch_component_def provision_def demo_settings_def demo_pipe_config_def demo_factory_def)
  have same: "the_component (p1\<lparr>pp_worktrees := x\<rparr>) ''main'' = the_component p1 ''main''" for x
    by (rule same_components(2)) (simp add: frame)
  have env: "fe_pipe demo_factory = demo_pipe_env" by (simp add: demo_factory_def)
  have "\<exists>t. fill_one demo_scope_text demo_settings demo_factory ''main'' demo_sched = Some (False, t)"
    unfolding fill_one_def env refused option.case Let_def p1_def [symmetric] launch
    by (simp add: engineer_worktree_def same sha)
  then obtain t where t: "fill_one demo_scope_text demo_settings demo_factory ''main'' demo_sched = Some (False, t)"
    by blast
  have "free_slots demo_settings demo_sched = 2"
    by (simp add: free_slots_def slots_cap_def demo_settings_def demo_sched_def fresh_sched_def)
  then have f: "fill_slots demo_scope_text demo_settings demo_factory
       (take (free_slots demo_settings demo_sched) (ready_ids demo_sched)) demo_sched = Some (0, t)"
    by (simp add: demo_ready t)
  have "launched demo_settings ''main'' demo_sched t"
    using fill_one_steps [OF start(2) t] by simp
  then have "sd_running t = [(0, ''main'')]"
    by (simp add: launched_def demo_sched_def fresh_sched_def)
  with f show ?thesis by blast
qed

section \<open>Properties\<close>

text \<open>C4: At every moment of a scheduling pass the workers that run fit the configured number of slots,
  no component has two of them, and each runs a component that is marked running and whose
  dependencies are all completed; no result, failure, skip or deadline of another component disturbs it.\<close>

theorem running_table_sound:
  assumes "in_pass scope_text fs fe s0 s" and "waits_well fe" and "distinct (map c_id (pipe_components (sd_pipe s0)))"
  shows "length (sd_running s) \<le> nat (max 1 (fs_max_parallel fs)) \<and> distinct (map snd (sd_running s)) \<and>
    (\<forall>(f, k) \<in> set (sd_running s). status_at (sd_pipe s) k = RUNNING \<and>
      (\<forall>c\<in>set (pipe_components (sd_pipe s)). c_id c = k \<longrightarrow>
        (\<forall>u\<in>set (c_dependencies c). status_at (sd_pipe s) u = COMPLETED)))"
proof -
  note ok = in_pass_sound [OF assms(1,2)] assms(3)
  then have t: "table_ok s" "length (sd_running s) \<le> slots_cap fs" by (simp_all add: pipe_ids_are)
  have "status_at (sd_pipe s) u = COMPLETED"
    if "(f, c_id c) \<in> set (sd_running s)" "c \<in> set (pipe_components (sd_pipe s))" "u \<in> set (c_dependencies c)" for f c u
  proof -
    have "deps_done (sd_pipe s) (c_id c)" using t(1) that(1) by (force simp: table_ok_def)
    moreover have "(c_id c, c_dependencies c) \<in> set (plan_view (sd_pipe s))" using that(2) by (simp add: plan_view_def)
    ultimately show ?thesis using that(3) by (auto simp: deps_done_def)
  qed
  with t show ?thesis by (force simp: table_ok_def slots_cap_def)
qed

theorem running_table_sound_witness:
  "\<exists>t. in_pass demo_scope_text demo_settings demo_factory demo_sched t \<and> sd_running t = [(0, ''main'')] \<and>
     status_at (sd_pipe t) ''main'' = RUNNING \<and> length (sd_running t) \<le> 2"
proof -
  have start: "in_pass demo_scope_text demo_settings demo_factory demo_sched demo_sched"
    using pass_start [of demo_scope_text demo_settings demo_factory demo_sched] by (simp add: demo_sched_def fresh_sched_def)
  obtain t where t: "fill_slots demo_scope_text demo_settings demo_factory
       (take (free_slots demo_settings demo_sched) (ready_ids demo_sched)) demo_sched = Some (0, t)"
    "sd_running t = [(0, ''main'')]"
    using demo_launches by blast
  from pass_filled [OF start t(1)] have r: "in_pass demo_scope_text demo_settings demo_factory demo_sched t" .
  have "distinct (map c_id (pipe_components (sd_pipe demo_sched)))" using demo_sched_ids by (simp add: pipe_ids_are)
  from running_table_sound [OF r demo_waits this] t r show ?thesis by (auto simp: demo_settings_def)
qed

text \<open>C3: A run of the factory comes back: with a clock that advances, a wait that honours its time limit
  and a scheduler deadline (or no stop controller to slice the wait), the rounds of passes and contract
  tests end for every manifest whose component ids are distinct, whatever the workers, the gates and
  the contract tests answer.\<close>

theorem factory_run_terminates:
  assumes "clock_advances (pe_gh (fe_pipe fe))" and "waits_well fe" and "fs_backstop fs > 0 \<or> \<not> fe_stop_slices fe"
    and "distinct (map c_id (pipe_components (sd_pipe (fr_sched s))))"
  shows "\<exists>t. factory_rounds scope_text fs fe ph s = Some t"
proof -
  have "can_return fs fe" using assms(1-3) by (simp add: can_return_def)
  moreover have "distinct (pipe_ids (run_pipe s))" using assms(4) by (simp add: pipe_ids_are run_pipe_def)
  ultimately show ?thesis using rounds_return by fastforce
qed

theorem factory_run_terminates_witness:
  "\<forall>ph. \<exists>t. factory_rounds demo_scope_text demo_settings demo_factory ph
     \<lparr>fr_sched = demo_sched, fr_failures = []\<rparr> = Some t"
proof -
  have "distinct (map c_id (pipe_components (sd_pipe (fr_sched \<lparr>fr_sched = demo_sched, fr_failures = []\<rparr>))))"
    using demo_sched_ids by (simp add: pipe_ids_are)
  moreover have "clock_advances (pe_gh (fe_pipe demo_factory))" "0 < fs_backstop demo_settings"
    using demo_can_return by (simp_all add: can_return_def demo_settings_def)
  ultimately show ?thesis using factory_run_terminates demo_waits by blast
qed



text \<open>C6: A contract test that failed, or that left its worktree behind, with nothing sent back for a retry
  ends the run with a failure recorded, and no run that carries that failure to its end exits with 0.\<close>

theorem broken_contract_fails_the_run:
  assumes "contracts_run ph" and "\<not> rn_reset (run_contract_round cfg env ph s)"
    and "case contract_results cfg ph (rn_pipe s) of Inl e \<Rightarrow> True | Inr rs \<Rightarrow> \<exists>r\<in>set rs. \<not> ct_passed r"
    and "set (rn_failures (run_contract_round cfg env ph s)) \<subseteq> set (fr_failures t)"
  shows "rn_failures (run_contract_round cfg env ph s) \<noteq> [] \<and>
    fx_exit_code (fst (fst (finish_run rs fe ph prs since t))) \<noteq> 0"
proof -
  have "rn_failures (run_contract_round cfg env ph s) \<noteq> []"
  proof (cases rule: round_results [OF assms(1), of cfg s env])
    case (1 e w)
    then show ?thesis by simp
  next
    case (2 ts w)
    with assms(2,3) show ?thesis by (auto dest: judged_failures)
  qed
  with assms(4) finish_exit [of rs fe ph prs since t] show ?thesis by auto
qed

definition demo_phase3 :: "rat phase3_env" where
  "demo_phase3 =
     \<lparr>ph_mode = Some ''hard'', ph_base = (\<lambda>_ _. Some ''b0''),
      ph_test = (\<lambda>_ _ _ w. (Inr [\<lparr>ct_tier = 0, ct_passed = False, ct_tested = [''main''], ct_breaker = ''main'',
        ct_output = ''boom'', ct_tested_sha = ''s'', ct_held_out = [''check''], ct_carried = []\<rparr>], w)),
      ph_carry = (\<lambda>_ _ w. ([], w)), ph_integration = (\<lambda>p. ([], p)), ph_last_prs = (\<lambda>p. p)\<rparr>"



definition demo_round :: "rat round_state" where
  "demo_round = \<lparr>rn_pipe = demo_pipe COMPLETED, rn_failures = [], rn_reset = False\<rparr>"

definition demo_release :: release_settings where
  "demo_release = \<lparr>rs_enabled = False, rs_environment = [], rs_policy = False, rs_policy_deploy = False, rs_ladder = None\<rparr>"

lemma demo_held_out:
  "contract_results cfg demo_phase3 p = Inr [\<lparr>ct_tier = 0, ct_passed = False, ct_tested = [''main''], ct_breaker = ''main'',
     ct_output = ''boom'', ct_tested_sha = ''s'', ct_held_out = [''check''], ct_carried = []\<rparr>]"
  "contracts_run demo_phase3"
  by (simp_all add: contract_results_def contracts_run_def demo_phase3_def)

lemma demo_not_reset: "\<not> rn_reset (run_contract_round demo_pipe_config demo_pipe_env demo_phase3 demo_round)"
proof (cases rule: round_results [OF demo_held_out(2), of demo_pipe_config demo_round demo_pipe_env])
  case (1 e w)
  with demo_held_out(1) show ?thesis by simp
next
  case (2 rs w)
  with judged_reset [of demo_pipe_config demo_pipe_env demo_phase3 rs] demo_held_out(1) show ?thesis
    by (fastforce simp: demo_round_def breaker_may_retry_def split: option.splits)
qed

theorem broken_contract_fails_the_run_witness:
  "\<exists>t. fr_failures t = rn_failures (run_contract_round demo_pipe_config demo_pipe_env demo_phase3 demo_round) \<and>
     fx_exit_code (fst (fst (finish_run demo_release demo_factory demo_phase3 False [] t))) \<noteq> 0"
  using broken_contract_fails_the_run [OF demo_held_out(2) demo_not_reset,
      of "\<lparr>fr_sched = demo_sched, fr_failures = rn_failures (run_contract_round demo_pipe_config demo_pipe_env demo_phase3 demo_round)\<rparr>"
         demo_release demo_factory False "[]"] demo_held_out(1)
  by (auto intro!: exI)



text \<open>C22: A run's exit code is 0, 1 or 130; it is 130 exactly when the run was stopped, and 0 exactly when
  it was not stopped and nothing failed, no contract test failed, nothing waits for a merge or an
  approval, a skipped component comes with a completed one, and either something was scheduled or every
  component was already completed. The release gate sees a clean run exactly then.\<close>

theorem exit_code_tells_the_run:
  assumes "finish_run rs fe ph prs since s = ((r, ref, reason), t)"
  shows "fx_exit_code r \<in> {0, 1, 130} \<and>
    (fx_exit_code r = 130 \<longleftrightarrow> fe_stop fe (pp_world (sd_pipe (fr_sched t))) \<noteq> None) \<and>
    (fx_exit_code r = 0 \<longleftrightarrow>
       fe_stop fe (pp_world (sd_pipe (fr_sched t))) = None \<and> fx_failed r = [] \<and> fx_contract_failures r = [] \<and>
       (\<forall>c\<in>set (pipe_components (sd_pipe (fr_sched t))). c_status c \<noteq> MERGE_PENDING \<and> c_status c \<noteq> AWAITING_APPROVAL) \<and>
       (fx_skipped r = [] \<or> fx_completed r \<noteq> []) \<and>
       (fx_scheduled r \<noteq> [] \<or> (\<forall>c\<in>set (pipe_components (sd_pipe (fr_sched t))). c_status c = COMPLETED)))"
proof -
  define p where "p = (if prs then ph_last_prs ph (sd_pipe (fr_sched s)) else sd_pipe (fr_sched s))"
  define r0 where "r0 = result_of_run (s\<lparr>fr_sched := (fr_sched s)\<lparr>sd_pipe := p\<rparr>\<rparr>)"
  have r: "r = r0\<lparr>fx_exit_code := resolve_exit_code r0 (pipe_components p) (fe_stop fe (pp_world p) \<noteq> None)\<rparr>"
    and t: "pipe_components (sd_pipe (fr_sched t)) = pipe_components p" "pp_world (sd_pipe (fr_sched t)) = pp_world p"
    using assms unfolding finish_run_def Let_def p_def [symmetric] r0_def [symmetric]
    by (auto simp: save_pipe_def pipe_components_def)
  have waiting: "fx_merge_pending r0 = ids_in_status (pipe_components p) MERGE_PENDING"
      "fx_awaiting r0 = ids_in_status (pipe_components p) AWAITING_APPROVAL"
    by (simp_all add: r0_def result_of_run_def Let_def)
  have none: "(\<forall>c\<in>set cs. c_status c \<noteq> MERGE_PENDING \<and> c_status c \<noteq> AWAITING_APPROVAL) \<longleftrightarrow>
      ids_in_status cs MERGE_PENDING = [] \<and> ids_in_status cs AWAITING_APPROVAL = []"
    "(\<forall>c\<in>set cs. c_status c = COMPLETED) \<longleftrightarrow> unfinished cs = []" for cs
    by (auto simp: ids_in_status_def unfinished_def filter_empty_conv)
  show ?thesis
    using exit_codes [of r0 "pipe_components p" "fe_stop fe (pp_world p) \<noteq> None"]
    unfolding t none by (auto simp: r waiting)
qed

theorem exit_code_tells_the_run_witness:
  "\<exists>r ref reason t. finish_run demo_release demo_factory demo_phase3 False []
       \<lparr>fr_sched = demo_sched, fr_failures = [''tier 0'']\<rparr> = ((r, ref, reason), t) \<and>
     fx_contract_failures r = [''tier 0''] \<and> fx_exit_code r \<noteq> 0"
proof -
  obtain r ref reason t where f: "finish_run demo_release demo_factory demo_phase3 False []
      \<lparr>fr_sched = demo_sched, fr_failures = [''tier 0'']\<rparr> = ((r, ref, reason), t)"
    by (metis surj_pair)
  moreover have "fx_contract_failures r = [''tier 0'']"
    using f by (auto simp: finish_run_def Let_def result_of_run_def)
  moreover from this have "fx_exit_code r \<noteq> 0" using exit_code_tells_the_run [OF f] by simp
  ultimately show ?thesis by blast
qed

text \<open>What a stopped engineer loop wrote as its usage is what the abort path reads back: every count,
  and the cost and duration as they were rounded; a snapshot with no call in it is read as none.\<close>

theorem usage_snapshot_round_trip:
  assumes "0 \<le> ut_calls t" "0 \<le> ut_known_calls t" "0 \<le> ut_token_calls t" "0 \<le> ut_cost_calls t" "0 \<le> ut_input t"
    "0 \<le> ut_output t" "0 \<le> ut_cache_read t" "0 \<le> ut_cache_creation t" "0 \<le> ut_total t"
    and "0 \<le> rounded 6 (ut_cost t)" "0 \<le> rounded 2 (ut_duration t)"
  shows "read_partial_usage (Some (JObj (usage_to_dict rounded t))) =
    (if ut_calls t = 0 then None
     else Some (t\<lparr>ut_cost := rounded 6 (ut_cost t), ut_duration := rounded 2 (ut_duration t)\<rparr>))"
  using assms by (simp add: read_partial_usage_def usage_to_dict_def count_read_def amount_read_def jget_Cons Let_def)

theorem usage_snapshot_round_trip_witness:
  "read_partial_usage (Some (JObj (usage_to_dict (\<lambda>_ q. q) (no_usage\<lparr>ut_calls := 2, ut_total := 7\<rparr>)))) =
     Some (no_usage\<lparr>ut_calls := 2, ut_total := 7\<rparr>)"
  using usage_snapshot_round_trip [of "no_usage\<lparr>ut_calls := 2, ut_total := 7\<rparr>" "\<lambda>_ q. q"]
  by (simp add: no_usage_def)

end
