(* ===== verification/Spec2Isabelle.thy ===== *)
theory Spec2Isabelle
  imports Prelude Queue_Contract Manifest_Contract Autonomy_Contract
    Waivers_Contract Serve_Contract Prd_Contract Scope_Contract Loop_Contract Verify_Contract
    Retry_Context_Contract Review_Contract Security_Contract Pipeline_Contract Factory_Contract
begin

text \<open>
  Verification development of kstrl.

  \<^bold>\<open>The program.\<close> kstrl turns a plan of components into merged pull requests. A \<^emph>\<open>work queue\<close>
  holds the owner's requests; the \<^emph>\<open>serve\<close> daemon takes one at a time, asks its gates and starts a
  factory run for it. A run reads the \<^emph>\<open>manifest\<close> (components, dependencies, statuses), schedules the
  components that are ready, lets an \<^emph>\<open>engineer\<close> agent work on each in a worktree inside its
  \<^emph>\<open>scope\<close> and \<^emph>\<open>budget\<close>, and takes every result through the \<^emph>\<open>pipeline\<close>: the mechanical checks of
  Phase 1 (with the stack's commands, the story checks and the merge \<^emph>\<open>policy\<close>), the acceptance
  checks, the diff, the review and the security review, the distillation of knowledge, the human
  checkpoint and the pull request. What goes wrong becomes a retry with a \<^emph>\<open>retry context\<close>, or a
  failure that skips the dependents and files an item in the owner's \<^emph>\<open>inbox\<close>. Approvals in the inbox
  waive findings, confirm a stack, or merge a parked component. The \<^emph>\<open>autonomy ladder\<close> counts how runs
  end and decides how much may happen without a person. Every component below is one or more theories:
  the definitions follow the source's functions in their order, the \<open>_Safety\<close>, \<open>_Machine\<close> and
  \<open>_Frame\<close>/\<open>_Moves\<close> theories hold what their proofs share, and the \<open>_Contract\<close> theories hold the
  properties, each with a concrete input at which its hypotheses hold.

  \<^bold>\<open>Conventions\<close> (\<open>Prelude\<close>, \<open>Names\<close>). A Python \<open>str\<close> is a string of 8-bit characters, an \<open>int\<close> an
  integer, a \<open>float\<close> of money or seconds a rational, a decoded JSON document a value of \<open>json\<close>, a dict
  whose order or lookups matter an association list, a raising function a sum (\<open>Inl\<close> the error). State
  is passed explicitly; what a function reads from outside (the clock, git, \<open>gh\<close>, an agent, a prompt, a
  hash, a codec) is an argument or a field of an environment record, and where the outside changes, a
  world \<open>'w\<close> is threaded through the calls in the order the code makes them. \<open>Names\<close> is
  \<open>kstrl/plan/names.py\<close>.

  \<^bold>\<open>Work queue\<close> (\<open>kstrl/queue/workqueue_items.py\<close>, \<open>workqueue_store.py\<close>, \<open>workqueue.py\<close>):
  \<open>Queue_Items\<close> has the records and their dict form, \<open>Queue_Store\<close> the state directories and the
  journal, \<open>Queue\<close> one definition per operation with its disk faults, \<open>Queue_Machine\<close> the step relation
  of all operations and crashes. \<open>Queue_Contract\<close>: an item is in one state at every moment, a crash
  inside a transition loses and duplicates nothing, the number of committed starts of an item is bounded
  by its attempts, and the transitions refine the abstract state graph.

  \<^bold>\<open>Plan\<close> (\<open>kstrl/plan\<close>): \<open>Findings\<close> and \<open>Finding_Tags\<close> (\<open>findings.py\<close>), \<open>Manifest\<close> and
  \<open>Manifest_Format\<close> (\<open>manifest.py\<close>, \<open>manifest_keys.py\<close>: schema check, load, save), \<open>Manifest_Dag\<close>,
  \<open>Dag_Order\<close> and \<open>Dag_Retry\<close> (the graph operations and why they are right), \<open>Prd\<close> (\<open>prd.py\<close>), \<open>Scope\<close>
  (\<open>scope.py\<close>, \<open>guards.py\<close>). \<open>Manifest_Contract\<close>, \<open>Prd_Contract\<close> and \<open>Scope_Contract\<close>: the file round
  trips, the graph check accepts exactly the acyclic plans with known dependencies, the order, tiers and
  readiness are the ones the dependencies give, a cascade skips exactly what a failure reaches and a
  retry takes back exactly what can run again; a tampered document is compared field by field; a scope is
  never widened.

  \<^bold>\<open>Autonomy\<close> (\<open>kstrl/learning/autonomy.py\<close>, \<open>autonomy_config.py\<close>, \<open>autonomy_transitions.py\<close>,
  \<open>autonomy_replay.py\<close>, \<open>kstrl/factory/factory_autonomy.py\<close>): \<open>Autonomy\<close>, \<open>Autonomy_Run\<close>,
  \<open>Autonomy_Safety\<close>, \<open>Autonomy_Contract\<close>: a demotion locks the level, the history is a chain of single
  steps, a run's outcome is recorded entirely or not at all, and auto-merge needs every flag.

  \<^bold>\<open>Inbox and waivers\<close> (\<open>kstrl/io/appendio.py\<close>, \<open>kstrl/owner/inbox.py\<close>, \<open>waivers.py\<close>): \<open>Append_Log\<close>,
  \<open>Inbox_Items\<close>, \<open>Inbox\<close>, \<open>Inbox_Safety\<close>, \<open>Inbox_Contract\<close>, \<open>Waivers\<close>, \<open>Waivers_Contract\<close>: torn
  writes included, a key has at most one open item; a finding is waived only by an approved item for
  exactly it on exactly this change.

  \<^bold>\<open>Serve\<close> (\<open>kstrl/serve\<close>): \<open>Serve_Outcome\<close> classifies a finished run, \<open>Serve_Spend\<close> and
  \<open>Serve_Budget\<close> keep the ledger, \<open>Serve_Gates\<close> has the checks before a launch, \<open>Serve_Cycle\<close>,
  \<open>Serve_Ending\<close> and \<open>Serve_Loop\<close> the daemon's cycle and its bounded loop. \<open>Serve_Contract\<close>: only admitted
  items are launched, a day's spend stays within its budget, a failed item is requeued or poisoned.

  \<^bold>\<open>Engineer\<close> (\<open>kstrl/loop\<close>, \<open>kstrl/events/usage.py\<close>, \<open>kstrl/git\<close>): \<open>Git_Output\<close> parses what git
  prints, \<open>Usage\<close> meters the agents, \<open>Loop_Budget\<close> has the ceilings and the no-progress breaker, \<open>Loop\<close>
  one run of the engineer. \<open>Loop_Contract\<close> and \<open>Usage_Contract\<close>: the number of agent calls is bounded,
  a run completes only behind the scope guard, the meter adds up.

  \<^bold>\<open>Verification\<close> (\<open>kstrl/verify\<close>, \<open>kstrl/project/stack.py\<close>): \<open>Regex\<close> is the matcher of the fixed
  patterns, \<open>Policy\<close> the merge envelope, \<open>Stack\<close> the confirmed commands, \<open>Verify_Model\<close>,
  \<open>Verify_Commands\<close>, \<open>Verify_Diff\<close> and \<open>Verify\<close> Phase 1. \<open>Policy_Contract\<close>, \<open>Stack_Contract\<close> and
  \<open>Verify_Contract\<close>: what a pass establishes, that the enforcement machinery cannot be waived, and that a
  stack's commands run only under the newest approval of their exact text.

  \<^bold>\<open>Reviews\<close> (\<open>kstrl/review\<close>, \<open>kstrl/pipeline/context.py\<close>, \<open>divergence.py\<close>): \<open>Retry_Context\<close>, \<open>Review\<close>,
  \<open>Security\<close>, \<open>Divergence\<close> and their contracts: a retry context survives its JSON and retires a failure
  only when its phase looked again; in hard mode a review passes only on a reply that read the measured
  change; a story's claim stays only when it was confirmed.

  \<^bold>\<open>Pipeline\<close> (\<open>kstrl/pipeline\<close>, \<open>kstrl/git/pr_state.py\<close>): \<open>Merge\<close> pushes and merges a pull request,
  \<open>Pipeline_State\<close> is the state of \<open>ComponentPipeline\<close> with its ledger, inbox and attempts, \<open>Pipeline\<close> the
  transitions, \<open>Pipeline_Merge\<close> the merge gate, \<open>Pipeline_Phases\<close> and \<open>Pipeline_Review\<close> the phases,
  \<open>Pipeline_Delivery\<close> the chain of gates and \<open>process_result\<close>. \<open>Pipeline_Frame\<close> says what each operation
  leaves alone, \<open>Pipeline_Moves\<close> how each moves its component; \<open>Merge_Contract\<close> and
  \<open>Pipeline_Contract\<close>: a merge is reported only when it was seen, the wait for it ends, retries and
  reviewer calls stay within their limits along any run, a component is completed only behind every gate,
  an approval merges only its commit, and the manifest on disk holds every transition.

  \<^bold>\<open>Factory\<close> (\<open>kstrl/factory\<close>: \<open>factory.py\<close>, \<open>factory_launch.py\<close>, \<open>factory_worktrees.py\<close>,
  \<open>factory_acceptance.py\<close>, \<open>integration_loop.py\<close>, \<open>factory_summary.py\<close>; \<open>kstrl/pipeline\<close>:
  \<open>factory_result.py\<close>, \<open>release.py\<close>): \<open>Factory\<close> is a scheduling pass (refusals, worktrees, launches,
  interruptible waits, deadlines, the stop), the rounds of Phase 3 with the breakers of a failed contract
  test, and the end of a run; \<open>Factory_Pass\<close> has what the steps of a pass leave alone and the work they
  take, \<open>Factory_Ends\<close> why waits, turns, passes and rounds come back. \<open>Factory_Contract\<close>: the running
  workers fit the slots and stand behind completed dependencies, a pass leaves nothing ready, a run
  comes back, a tier that failed its contract test never ends in exit code 0, Phase 3 sends back only a
  breaker with a retry left, and the exit code says whether the run is clean.

  \<^bold>\<open>Bounds.\<close> Recursion is structural or has a measure. The scan for a fenced JSON block takes the
  length of the text as its fuel, each step consuming at least one character. The engineer loop recurses
  on the iterations left, the daemon loop on its cycles. The wait for a merge is a partial function,
  \<open>None\<close> being a wait that never ends; \<open>pr_step_terminates\<close> shows that it ends when the clock moves. So
  are the wait for workers, the loop of a pass and the rounds of a run; \<open>factory_run_terminates\<close> shows
  that all three come back, under what the code relies on: the clock advances, the executor's wait
  honours its limit, and slices of a wait are bounded by a deadline.

  \<^bold>\<open>Not modelled.\<close> Console output, prompts and the text of a pull request's body; the loading of
  \<open>kstrl.toml\<close> and the environment into the configuration records (their checks are); agents, git, \<open>gh\<close>
  and shell commands themselves (functions on the world); file locks and atomic replaces (an operation
  is one step, a file its content); the slug of an error signature (made with regular expressions); the
  start of a factory run (preflights, the plan gate, the retry plan) and the inside of a worker process;
  the contract tests, the carried checks and the integration review, which Phase 3 takes as functions on
  the world; the acceptance runs and their isolation, the architect, the
  fact store behind the knowledge phases, the calibration and the reports over the journals, the events'
  reducer and renderers, the terminal interface and the command line. The manifest lists each with its
  reason.
\<close>

end
